(* ===== verification/Prelude.thy ===== *)
theory Prelude
  imports Main "HOL-Library.AList" "HOL-Library.Char_ord" "HOL-Library.List_Lexorder"
begin

text \<open>
  The vocabulary the components share: results of fallible operations, ordered
  dictionaries (Python's insertion-ordered dict as an association list with
  distinct keys), and the few facts on lists and strings that more than one
  component needs.  A fallible operation has type \<^typ>\<open>'e + 'a\<close>: the
  exception on the left, the value on the right.
\<close>

section \<open>Results\<close>

named_theorems result_simps
named_theorems dict_simps

fun bind_result :: "'e + 'a \<Rightarrow> ('a \<Rightarrow> 'e + 'b) \<Rightarrow> 'e + 'b" where
  "bind_result (Inl e) f = Inl e"
| "bind_result (Inr a) f = f a"

fun map_result :: "('a \<Rightarrow> 'b) \<Rightarrow> 'e + 'a \<Rightarrow> 'e + 'b" where
  "map_result f (Inl e) = Inl e"
| "map_result f (Inr a) = Inr (f a)"

fun is_ok :: "'e + 'a \<Rightarrow> bool" where
  "is_ok (Inl e) = False"
| "is_ok (Inr a) = True"

lemma bind_result_Inr_iff [result_simps]:
  "bind_result r f = Inr b \<longleftrightarrow> (\<exists>a. r = Inr a \<and> f a = Inr b)"
  by (cases r) auto

lemma bind_result_Inl_iff [result_simps]:
  "bind_result r f = Inl e \<longleftrightarrow> r = Inl e \<or> (\<exists>a. r = Inr a \<and> f a = Inl e)"
  by (cases r) auto

lemma map_result_Inr_iff [result_simps]:
  "map_result f r = Inr b \<longleftrightarrow> (\<exists>a. r = Inr a \<and> f a = b)"
  by (cases r) auto

lemma map_result_Inl_iff [result_simps]:
  "map_result f r = Inl e \<longleftrightarrow> r = Inl e"
  by (cases r) auto

lemma is_ok_iff [result_simps]: "is_ok r \<longleftrightarrow> (\<exists>a. r = Inr a)"
  by (cases r) auto

text \<open>A loop over a list that stops at the first exception and collects the results.\<close>

fun map_res :: "('a \<Rightarrow> 'e + 'b) \<Rightarrow> 'a list \<Rightarrow> 'e + 'b list" where
  "map_res f [] = Inr []"
| "map_res f (x # xs) =
     (case f x of Inl e \<Rightarrow> Inl e
      | Inr y \<Rightarrow> (case map_res f xs of Inl e \<Rightarrow> Inl e | Inr ys \<Rightarrow> Inr (y # ys)))"

lemma map_res_append:
  "map_res f (xs @ ys) = bind_result (map_res f xs) (\<lambda>as. map_result ((@) as) (map_res f ys))"
proof (induction xs)
  case Nil
  then show ?case by (cases "map_res f ys") auto
next
  case (Cons x xs)
  then show ?case by (cases "map_res f ys") (auto split: sum.splits)
qed

lemma map_res_all_ok:
  "(\<And>x. x \<in> set xs \<Longrightarrow> f x = Inr (g x)) \<Longrightarrow> map_res f xs = Inr (map g xs)"
  by (induction xs) auto

lemma map_res_Inr: "map_res f xs = Inr ys \<Longrightarrow> list_all2 (\<lambda>x y. f x = Inr y) xs ys"
  by (induction xs arbitrary: ys) (auto split: sum.splits)

lemma map_res_Inr_iff: "map_res f xs = Inr ys \<longleftrightarrow> list_all2 (\<lambda>x y. f x = Inr y) xs ys"
proof
  show "list_all2 (\<lambda>x y. f x = Inr y) xs ys \<Longrightarrow> map_res f xs = Inr ys"
    by (induction xs ys rule: list_all2_induct) auto
qed (rule map_res_Inr)

section \<open>Ordered dictionaries\<close>

type_synonym ('k, 'v) dict = "('k \<times> 'v) list"

abbreviation dget :: "('k, 'v) dict \<Rightarrow> 'k \<Rightarrow> 'v option" where
  "dget d k \<equiv> map_of d k"

text \<open>\<open>d[k] = v\<close>: an existing key keeps its position, a new one is appended.\<close>

abbreviation dset :: "'k \<Rightarrow> 'v \<Rightarrow> ('k, 'v) dict \<Rightarrow> ('k, 'v) dict" where
  "dset \<equiv> AList.update"

text \<open>\<open>d.pop(k, None)\<close>.\<close>

abbreviation dpop :: "'k \<Rightarrow> ('k, 'v) dict \<Rightarrow> ('k, 'v) dict" where
  "dpop \<equiv> AList.delete"

abbreviation dkeys :: "('k, 'v) dict \<Rightarrow> 'k list" where
  "dkeys d \<equiv> map fst d"

abbreviation dict_ok :: "('k, 'v) dict \<Rightarrow> bool" where
  "dict_ok d \<equiv> distinct (map fst d)"

text \<open>\<open>{**d, **e}\<close>.\<close>

fun dmerge :: "('k, 'v) dict \<Rightarrow> ('k, 'v) dict \<Rightarrow> ('k, 'v) dict" where
  "dmerge d [] = d"
| "dmerge d ((k, v) # e) = dmerge (dset k v d) e"

lemma dget_dset [dict_simps]: "dget (dset k v d) = (dget d)(k \<mapsto> v)"
  by (simp add: update_conv' fun_eq_iff)

lemma dget_dpop [dict_simps]: "dget (dpop k d) = (dget d)(k := None)"
  by (simp add: delete_conv' fun_eq_iff)

lemma dict_ok_dset [dict_simps, intro]: "dict_ok d \<Longrightarrow> dict_ok (dset k v d)"
  by (rule distinct_update)

lemma dict_ok_dpop [dict_simps, intro]: "dict_ok d \<Longrightarrow> dict_ok (dpop k d)"
  by (rule distinct_delete)

lemma dset_new [dict_simps]: "k \<notin> set (dkeys d) \<Longrightarrow> dset k v d = d @ [(k, v)]"
  by (induction d) auto

lemma dget_dmerge:
  "dict_ok e \<Longrightarrow> dget (dmerge d e) k = (case dget e k of None \<Rightarrow> dget d k | Some v \<Rightarrow> Some v)"
  by (induction d e rule: dmerge.induct)
     (auto simp: dict_simps split: option.splits dest: map_of_SomeD
       simp del: fun_upd_apply simp: fun_upd_apply image_iff)

lemma dict_ok_dmerge [dict_simps, intro]: "dict_ok d \<Longrightarrow> dict_ok (dmerge d e)"
  by (induction d e rule: dmerge.induct) (auto simp: dict_simps)

lemma dmerge_fresh:
  "dict_ok (d @ e) \<Longrightarrow> dmerge d e = d @ e"
  by (induction d e rule: dmerge.induct) (auto simp: dict_simps)

section \<open>Strings and lists\<close>

text \<open>\<open>s.startswith(p)\<close> and \<open>s.endswith(p)\<close>.\<close>

fun starts_with :: "string \<Rightarrow> string \<Rightarrow> bool" where
  "starts_with s [] = True"
| "starts_with [] (c # cs) = False"
| "starts_with (a # s) (c # cs) = (a = c \<and> starts_with s cs)"

definition ends_with :: "string \<Rightarrow> string \<Rightarrow> bool" where
  "ends_with s p = starts_with (rev s) (rev p)"

text \<open>\<open>p in s\<close> for strings.\<close>

fun contains :: "string \<Rightarrow> string \<Rightarrow> bool" where
  "contains [] p = (p = [])"
| "contains (c # s) p = (starts_with (c # s) p \<or> contains s p)"

text \<open>\<open>sep.join(parts)\<close>.\<close>

fun join :: "string \<Rightarrow> string list \<Rightarrow> string" where
  "join sep [] = []"
| "join sep [x] = x"
| "join sep (x # y # xs) = x @ sep @ join sep (y # xs)"

text \<open>Splitting at a separator character, as \<open>s.split(c)\<close>.\<close>

fun split_on :: "char \<Rightarrow> string \<Rightarrow> string list" where
  "split_on c [] = [[]]"
| "split_on c (x # xs) =
     (if x = c then [] # split_on c xs
      else (case split_on c xs of [] \<Rightarrow> [[x]] | y # ys \<Rightarrow> (x # y) # ys))"

lemma starts_with_iff: "starts_with s p \<longleftrightarrow> (\<exists>r. s = p @ r)"
  by (induction s p rule: starts_with.induct) auto

lemma split_on_nonempty [simp]: "split_on c s \<noteq> []"
  by (induction s) (auto split: list.splits)

lemma split_on_append_sep:
  "c \<notin> set s \<Longrightarrow> split_on c (s @ c # t) = s # split_on c t"
  by (induction s) auto

lemma split_on_sep: "split_on c (s @ c # t) = split_on c s @ split_on c t"
  by (induction s) (auto split: list.splits)

lemma split_on_none: "c \<notin> set s \<Longrightarrow> split_on c s = [s]"
  by (induction s) auto

lemma split_on_last_append:
  "c \<notin> set t \<Longrightarrow>
   split_on c (s @ t) = butlast (split_on c s) @ [last (split_on c s) @ t]"
  by (induction s) (auto simp: split_on_none split: list.splits)

lemma find_SomeD: "List.find P xs = Some x \<Longrightarrow> P x" "List.find P xs = Some x \<Longrightarrow> x \<in> set xs"
  by (induction xs) (auto split: if_splits)

text \<open>The last element satisfying a test, as a left-to-right loop keeps it.\<close>

definition find_last :: "('a \<Rightarrow> bool) \<Rightarrow> 'a list \<Rightarrow> 'a option" where
  "find_last P xs = List.find P (rev xs)"

lemma find_last_snoc [simp]:
  "find_last P (xs @ [x]) = (if P x then Some x else find_last P xs)"
  by (simp add: find_last_def)

lemma find_last_Nil [simp]: "find_last P [] = None"
  by (simp add: find_last_def)

text \<open>Removing duplicates while keeping the first occurrence (\<open>dict.fromkeys\<close>).\<close>

fun dedup :: "'a list \<Rightarrow> 'a list" where
  "dedup [] = []"
| "dedup (x # xs) = x # dedup (removeAll x xs)"

end
