(* ===== verification/Json.thy ===== *)
theory Json
  imports PyVal
begin

text \<open>
  The JSON codec of the standard library, as far as the program uses it:
  \<open>json.dumps(v, sort_keys=True)\<close> (ASCII output, separators \<open>", "\<close> and
  \<open>": "\<close>) and \<open>json.loads\<close> (insertion-ordered objects, the last of two equal
  keys wins, \<open>NaN\<close> and \<open>Infinity\<close> accepted, control characters in strings
  refused).  Strings are Latin-1 here, so an escape above \<open>\u00ff\<close> is outside
  the model and is refused.  A number with a fraction or an exponent keeps its
  literal text.  The main result is the round trip
  \<open>loads (dumps v) = canon v\<close>, where \<open>canon\<close> sorts the keys.
\<close>

section \<open>Printing\<close>

abbreviation quote :: char where "quote \<equiv> CHR 0x22"
abbreviation backslash :: char where "backslash \<equiv> CHR 0x5C"

definition hex_digit :: "nat \<Rightarrow> char" where
  "hex_digit n = (if n < 10 then char_of (48 + n) else char_of (87 + n))"

definition esc_char :: "char \<Rightarrow> string" where
  "esc_char c =
     (if c = quote then [backslash, quote]
      else if c = backslash then [backslash, backslash]
      else if c = CHR 0x0A then [backslash, CHR ''n'']
      else if c = CHR 0x0D then [backslash, CHR ''r'']
      else if c = CHR 0x09 then [backslash, CHR ''t'']
      else if c = CHR 0x0C then [backslash, CHR ''f'']
      else if c = CHR 0x08 then [backslash, CHR ''b'']
      else if 32 \<le> (of_char c :: nat) \<and> (of_char c :: nat) \<le> 126 then [c]
      else [backslash, CHR ''u'', CHR ''0'', CHR ''0'',
            hex_digit (of_char c div 16), hex_digit (of_char c mod 16)])"

definition dumps_str :: "string \<Rightarrow> string" where
  "dumps_str s = quote # concat (map esc_char s) @ [quote]"

text \<open>A float is printed by its \<open>repr\<close>, except for the three special values.\<close>

definition dumps_float :: "string \<Rightarrow> string" where
  "dumps_float s = (if s = ''nan'' then ''NaN'' else if s = ''inf'' then ''Infinity''
     else if s = ''-inf'' then ''-Infinity'' else s)"

definition dumps_entry :: "string \<times> string \<Rightarrow> string" where
  "dumps_entry p = dumps_str (fst p) @ '': '' @ snd p"

text \<open>\<open>dumps_with True\<close> is \<open>json.dumps(..., sort_keys=True)\<close>, \<open>dumps_with False\<close> keeps insertion order.\<close>

primrec dumps_with :: "bool \<Rightarrow> pyval \<Rightarrow> string" where
  "dumps_with srt PNone = ''null''"
| "dumps_with srt (PBool b) = (if b then ''true'' else ''false'')"
| "dumps_with srt (PInt i) = show_int i"
| "dumps_with srt (PFloat s) = dumps_float s"
| "dumps_with srt (PStr s) = dumps_str s"
| "dumps_with srt (PList xs) = ''['' @ join '', '' (map (dumps_with srt) xs) @ '']''"
| "dumps_with srt (PDict d) =
     ''{'' @ join '', '' (map dumps_entry
        ((if srt then sort_key fst else id) (map (map_prod id (dumps_with srt)) d))) @ ''}''"

abbreviation dumps :: "pyval \<Rightarrow> string" where
  "dumps \<equiv> dumps_with True"

text \<open>The value with the keys of every dictionary sorted.\<close>

primrec canon :: "pyval \<Rightarrow> pyval" where
  "canon PNone = PNone"
| "canon (PBool b) = PBool b"
| "canon (PInt i) = PInt i"
| "canon (PFloat s) = PFloat s"
| "canon (PStr s) = PStr s"
| "canon (PList xs) = PList (map canon xs)"
| "canon (PDict d) = PDict (sort_key fst (map (map_prod id canon) d))"

section \<open>Parsing\<close>

definition is_ws :: "char \<Rightarrow> bool" where
  "is_ws c = (c = CHR '' '' \<or> c = CHR 0x09 \<or> c = CHR 0x0A \<or> c = CHR 0x0D)"

definition skip_ws :: "string \<Rightarrow> string" where
  "skip_ws = dropWhile is_ws"

definition hex_val :: "char \<Rightarrow> nat option" where
  "hex_val c = (let n = of_char c in
     if 48 \<le> n \<and> n \<le> 57 then Some (n - 48)
     else if 97 \<le> n \<and> n \<le> 102 then Some (n - 87)
     else if 65 \<le> n \<and> n \<le> 70 then Some (n - 55) else None)"

text \<open>The four digits of a \<open>\u\<close> escape; only codes of the model's characters have a value.\<close>

definition hex4 :: "char \<Rightarrow> char \<Rightarrow> char \<Rightarrow> char \<Rightarrow> char option" where
  "hex4 a b c d = (case (hex_val a, hex_val b, hex_val c, hex_val d) of
     (Some i, Some j, Some k, Some l) \<Rightarrow>
       (if i = 0 \<and> j = 0 then Some (char_of (16 * k + l)) else None)
   | _ \<Rightarrow> None)"

definition unesc :: "char \<Rightarrow> char option" where
  "unesc c = (if c = quote then Some quote
     else if c = backslash then Some backslash
     else if c = CHR 0x2F then Some (CHR 0x2F)
     else if c = CHR ''b'' then Some (CHR 0x08)
     else if c = CHR ''f'' then Some (CHR 0x0C)
     else if c = CHR ''n'' then Some (CHR 0x0A)
     else if c = CHR ''r'' then Some (CHR 0x0D)
     else if c = CHR ''t'' then Some (CHR 0x09) else None)"

abbreviation cons_fst :: "'a \<Rightarrow> ('a list \<times> 'b) option \<Rightarrow> ('a list \<times> 'b) option" where
  "cons_fst c r \<equiv> map_option (\<lambda>(s, rest). (c # s, rest)) r"

text \<open>The body of a string literal, after its opening quote.\<close>

fun parse_str :: "string \<Rightarrow> (string \<times> string) option" where
  "parse_str [] = None"
| "parse_str (c # cs) =
     (if c = quote then Some ([], cs)
      else if c = backslash then
        (case cs of [] \<Rightarrow> None
         | e # r \<Rightarrow>
            (if e = CHR ''u'' then
               (case r of h1 # h2 # h3 # h4 # r' \<Rightarrow>
                  (case hex4 h1 h2 h3 h4 of None \<Rightarrow> None
                   | Some x \<Rightarrow> cons_fst x (parse_str r'))
                | _ \<Rightarrow> None)
             else (case unesc e of None \<Rightarrow> None | Some x \<Rightarrow> cons_fst x (parse_str r))))
      else if (of_char c :: nat) < 32 then None
      else cons_fst c (parse_str cs))"

text \<open>Numbers: \<open>-?(0|[1-9][0-9]*)([.][0-9]+)?([eE][-+]?[0-9]+)?\<close>.\<close>

definition digits :: "string \<Rightarrow> string \<times> string" where
  "digits s = (takeWhile is_digit s, dropWhile is_digit s)"

definition parse_frac :: "string \<Rightarrow> string \<times> string" where
  "parse_frac s = (case s of c # r \<Rightarrow>
     (if c = CHR ''.'' \<and> fst (digits r) \<noteq> [] then (c # fst (digits r), snd (digits r)) else ([], s))
   | [] \<Rightarrow> ([], s))"

definition parse_exp :: "string \<Rightarrow> string \<times> string" where
  "parse_exp s = (case s of c # r \<Rightarrow>
     (if c = CHR ''e'' \<or> c = CHR ''E'' then
        (let (sg, r') = (case r of d # r2 \<Rightarrow> (if d = CHR ''-'' \<or> d = CHR ''+'' then ([d], r2) else ([], r))
                         | [] \<Rightarrow> ([], r))
         in if fst (digits r') \<noteq> [] then (c # sg @ fst (digits r'), snd (digits r')) else ([], s))
      else ([], s))
   | [] \<Rightarrow> ([], s))"

definition parse_int_part :: "string \<Rightarrow> (string \<times> string) option" where
  "parse_int_part s = (case s of [] \<Rightarrow> None
     | c # r \<Rightarrow> (if c = CHR ''0'' then Some (''0'', r)
                 else if is_digit c then Some (digits s) else None))"

definition parse_num :: "string \<Rightarrow> (pyval \<times> string) option" where
  "parse_num s =
     (let (sg, r) = (case s of c # cs \<Rightarrow> (if c = CHR ''-'' then ([c], cs) else ([], s)) | [] \<Rightarrow> ([], s))
      in case parse_int_part r of None \<Rightarrow> None
         | Some (ds, r1) \<Rightarrow>
             (let (f, r2) = parse_frac r1; (e, r3) = parse_exp r2
              in if f = [] \<and> e = []
                 then Some (PInt (if sg = [] then int (read_nat ds) else - int (read_nat ds)), r3)
                 else Some (PFloat (sg @ ds @ f @ e), r3)))"

definition literals :: "(string \<times> pyval) list" where
  "literals = [(''null'', PNone), (''true'', PBool True), (''false'', PBool False),
     (''NaN'', PFloat ''nan''), (''Infinity'', PFloat ''inf''), (''-Infinity'', PFloat ''-inf'')]"

fun strip_prefix :: "string \<Rightarrow> string \<Rightarrow> string option" where
  "strip_prefix [] s = Some s"
| "strip_prefix (p # ps) [] = None"
| "strip_prefix (p # ps) (c # cs) = (if p = c then strip_prefix ps cs else None)"

fun parse_lit :: "(string \<times> pyval) list \<Rightarrow> string \<Rightarrow> (pyval \<times> string) option" where
  "parse_lit [] s = None"
| "parse_lit ((t, v) # ls) s = (case strip_prefix t s of Some r \<Rightarrow> Some (v, r) | None \<Rightarrow> parse_lit ls s)"

text \<open>
  Values, array elements and object members.  The first argument bounds the
  depth of the recursion; \<open>loads\<close> supplies enough for every input
  (\<open>parse_fuel\<close> below).
\<close>

fun parse_val :: "nat \<Rightarrow> string \<Rightarrow> (pyval \<times> string) option"
and parse_elems :: "nat \<Rightarrow> string \<Rightarrow> (pyval list \<times> string) option"
and parse_mems :: "nat \<Rightarrow> string \<Rightarrow> ((string \<times> pyval) list \<times> string) option" where
  "parse_val 0 s = None"
| "parse_val (Suc n) s =
     (case s of [] \<Rightarrow> None
      | c # cs \<Rightarrow>
        (if c = quote then map_option (\<lambda>(t, r). (PStr t, r)) (parse_str cs)
         else if c = CHR ''{'' then
           (case skip_ws cs of
              d # r \<Rightarrow> (if d = CHR ''}'' then Some (PDict [], r)
                else map_option (\<lambda>(ms, r'). (PDict (dmerge [] ms), r')) (parse_mems n (d # r)))
            | [] \<Rightarrow> None)
         else if c = CHR ''['' then
           (case skip_ws cs of
              d # r \<Rightarrow> (if d = CHR '']'' then Some (PList [], r)
                else map_option (\<lambda>(vs, r'). (PList vs, r')) (parse_elems n (d # r)))
            | [] \<Rightarrow> None)
         else (case parse_lit literals s of Some x \<Rightarrow> Some x | None \<Rightarrow> parse_num s)))"
| "parse_elems 0 s = None"
| "parse_elems (Suc n) s =
     (case parse_val n s of None \<Rightarrow> None
      | Some (v, r) \<Rightarrow>
        (case skip_ws r of [] \<Rightarrow> None
         | d # r' \<Rightarrow>
           (if d = CHR '']'' then Some ([v], r')
            else if d = CHR '','' then
              map_option (\<lambda>(vs, r''). (v # vs, r'')) (parse_elems n (skip_ws r'))
            else None)))"
| "parse_mems 0 s = None"
| "parse_mems (Suc n) s =
     (case s of [] \<Rightarrow> None
      | q # s1 \<Rightarrow> if q \<noteq> quote then None else
       (case parse_str s1 of None \<Rightarrow> None
        | Some (k, s2) \<Rightarrow>
          (case skip_ws s2 of [] \<Rightarrow> None
           | cl # s3 \<Rightarrow> if cl \<noteq> CHR '':'' then None else
             (case parse_val n (skip_ws s3) of None \<Rightarrow> None
              | Some (v, r) \<Rightarrow>
                (case skip_ws r of [] \<Rightarrow> None
                 | d # r' \<Rightarrow>
                   (if d = CHR ''}'' then Some ([(k, v)], r')
                    else if d = CHR '','' then
                      map_option (\<lambda>(ms, r''). ((k, v) # ms, r'')) (parse_mems n (skip_ws r'))
                    else None))))))"

text \<open>\<open>json.loads\<close>; None is its \<open>ValueError\<close>.\<close>

definition loads :: "string \<Rightarrow> pyval option" where
  "loads s = (let t = skip_ws s in
     case parse_val (2 * length t + 1) t of None \<Rightarrow> None
     | Some (v, r) \<Rightarrow> (if skip_ws r = [] then Some v else None))"


section \<open>The fuel is enough\<close>

lemma skip_ws_length [simp]: "length (skip_ws s) \<le> length s"
  by (simp add: skip_ws_def length_dropWhile_le)

lemma skip_ws_Cons_length: "skip_ws s = c # r \<Longrightarrow> length r < length s"
  using skip_ws_length [of s] by simp

lemma parse_str_shorter: "parse_str s = Some (t, r) \<Longrightarrow> length r < length s"
proof (induction s arbitrary: t rule: parse_str.induct)
  case (2 c cs)
  from 2(4) 2(1,2,3) show ?case
    by (fastforce split: if_splits list.splits option.splits dest: less_SucI)
qed simp

lemma digits_shorter: "length (snd (digits s)) \<le> length s"
  by (simp add: digits_def length_dropWhile_le)

lemma parse_frac_shorter: "length (snd (parse_frac s)) \<le> length s"
  using digits_shorter
  by (auto simp: parse_frac_def le_SucI split: list.splits)

lemma digits_shorter_Suc: "length (snd (digits s)) \<le> Suc (length s)"
  "length (snd (digits s)) \<le> Suc (Suc (length s))"
  using digits_shorter [of s] by simp_all

lemma parse_exp_shorter: "length (snd (parse_exp s)) \<le> length s"
  using digits_shorter [of "[]"] digits_shorter_Suc digits_shorter_Suc [of "_ # _"] 
    digits_shorter [of "_ # _"]
  by (auto simp: parse_exp_def Let_def split: list.splits intro: le_SucI)

lemma parse_int_part_shorter: "parse_int_part s = Some (ds, r) \<Longrightarrow> length r < length s"
  by (auto simp: parse_int_part_def digits_def length_dropWhile_le le_imp_less_Suc
      split: list.splits if_splits)

lemma parse_num_shorter: "parse_num s = Some (v, r) \<Longrightarrow> length r < length s"
proof -
  assume a: "parse_num s = Some (v, r)"
  define sr where "sr = (case s of c # cs \<Rightarrow> (if c = CHR ''-'' then ([c], cs) else ([], s)) | [] \<Rightarrow> ([], s))"
  have l: "length (snd sr) \<le> length s" by (auto simp: sr_def split: list.splits)
  from a obtain ds r1 where p: "parse_int_part (snd sr) = Some (ds, r1)"
    and r: "r = snd (parse_exp (snd (parse_frac r1)))"
    by (auto simp: parse_num_def sr_def [symmetric] Let_def split: prod.splits option.splits if_splits)
  then show ?thesis
    using l parse_int_part_shorter [OF p] parse_frac_shorter [of r1]
      parse_exp_shorter [of "snd (parse_frac r1)"]
    unfolding r by linarith
qed

lemma strip_prefix_Some: "strip_prefix p s = Some r \<longleftrightarrow> s = p @ r"
  by (induction p s rule: strip_prefix.induct) auto

lemma parse_lit_shorter: "parse_lit literals s = Some (v, r) \<Longrightarrow> length r < length s"
  by (auto simp: literals_def strip_prefix_Some split: option.splits)

lemma parse_shorter_all:
  "(\<forall>s v r. parse_val n s = Some (v, r) \<longrightarrow> length r < length s) \<and>
   (\<forall>s vs r. parse_elems n s = Some (vs, r) \<longrightarrow> length r < length s) \<and>
   (\<forall>s ms r. parse_mems n s = Some (ms, r) \<longrightarrow> length r < length s)"
proof (induction n)
  case (Suc n)
  have V: "length r < length s" if a: "parse_val (Suc n) s = Some (v, r)" for s v r
  proof (cases s)
    case (Cons c cs)
    consider (str) t where "parse_str cs = Some (t, r)"
      | (obj) d r0 where "skip_ws cs = d # r0" "r = r0"
      | (mems) d r0 ms where "skip_ws cs = d # r0" "parse_mems n (d # r0) = Some (ms, r)"
      | (elems) d r0 vs where "skip_ws cs = d # r0" "parse_elems n (d # r0) = Some (vs, r)"
      | (lit) "parse_lit literals s = Some (v, r)"
      | (num) "parse_num s = Some (v, r)"
      using a Cons by (auto split: list.splits if_splits option.splits)
    then show ?thesis
    proof cases
      case mems
      then show ?thesis using Suc skip_ws_length [of cs] Cons by fastforce
    next
      case elems
      then show ?thesis using Suc skip_ws_length [of cs] Cons by fastforce
    qed (use Cons in \<open>auto dest: parse_str_shorter parse_lit_shorter parse_num_shorter
           skip_ws_Cons_length\<close>)
  qed (use a in simp)
  have E: "length r < length s" if a: "parse_elems (Suc n) s = Some (vs, r)" for s vs r
  proof -
    from a obtain v r1 d r2 where v: "parse_val n s = Some (v, r1)"
      and w: "skip_ws r1 = d # r2"
      and rest: "r = r2 \<or> (\<exists>vs'. parse_elems n (skip_ws r2) = Some (vs', r))"
      by (auto split: option.splits list.splits if_splits)
    have "length r2 < length s" using Suc v skip_ws_Cons_length [OF w] by fastforce
    moreover have "length r \<le> length r2"
      using rest Suc skip_ws_length [of r2] by (meson less_imp_le_nat less_le_trans order_refl)
    ultimately show ?thesis by linarith
  qed
  have M: "length r < length s" if a: "parse_mems (Suc n) s = Some (ms, r)" for s ms r
  proof -
    from a obtain q s1 k s2 cl s3 v r1 d r2 where s: "s = q # s1" and k: "parse_str s1 = Some (k, s2)"
      and c: "skip_ws s2 = cl # s3" and v: "parse_val n (skip_ws s3) = Some (v, r1)"
      and w: "skip_ws r1 = d # r2"
      and rest: "r = r2 \<or> (\<exists>ms'. parse_mems n (skip_ws r2) = Some (ms', r))"
      by (auto split: option.splits list.splits if_splits)
    have "length r1 < length (skip_ws s3)" using Suc v by fastforce
    then have "length r2 < length s"
      using skip_ws_length [of s3] skip_ws_Cons_length [OF w] skip_ws_Cons_length [OF c]
        parse_str_shorter [OF k] unfolding s length_Cons by linarith
    moreover have "length r \<le> length r2"
      using rest Suc skip_ws_length [of r2] by (meson less_imp_le_nat less_le_trans order_refl)
    ultimately show ?thesis by linarith
  qed
  show ?case using V E M by blast
qed simp

lemmas parse_shorter =
  parse_shorter_all [THEN conjunct1, rule_format]
  parse_shorter_all [THEN conjunct2, THEN conjunct1, rule_format]
  parse_shorter_all [THEN conjunct2, THEN conjunct2, rule_format]

lemma parse_fuel_all:
  "(\<forall>s m. 2 * length s + 1 \<le> n \<longrightarrow> n \<le> m \<longrightarrow> parse_val m s = parse_val n s) \<and>
   (\<forall>s m. 2 * length s + 2 \<le> n \<longrightarrow> n \<le> m \<longrightarrow> parse_elems m s = parse_elems n s) \<and>
   (\<forall>s m. 2 * length s + 2 \<le> n \<longrightarrow> n \<le> m \<longrightarrow> parse_mems m s = parse_mems n s)"
proof (induction n)
  case (Suc n)
  have V: "parse_val m s = parse_val (Suc n) s"
    if l: "2 * length s + 1 \<le> Suc n" and m: "Suc n \<le> m" for s m
  proof -
    from m obtain m' where m': "m = Suc m'" "n \<le> m'" by (cases m) auto
    show ?thesis
    proof (cases s)
      case (Cons c cs)
      have "parse_elems m' (d # r) = parse_elems n (d # r) \<and> parse_mems m' (d # r) = parse_mems n (d # r)"
        if w: "skip_ws cs = d # r" for d r
      proof -
        have "length (d # r) \<le> length cs" using skip_ws_length [of cs] w by simp
        then have "2 * length (d # r) + 2 \<le> n" using l Cons by simp
        then show ?thesis using Suc m'(2) by blast
      qed
      then show ?thesis unfolding m'(1) Cons by (auto split: list.splits)
    qed (simp add: m'(1))
  qed
  have E: "parse_elems m s = parse_elems (Suc n) s"
    if l: "2 * length s + 2 \<le> Suc n" and m: "Suc n \<le> m" for s m
  proof -
    from m obtain m' where m': "m = Suc m'" "n \<le> m'" by (cases m) auto
    have v: "parse_val m' s = parse_val n s"
      using Suc.IH [THEN conjunct1, rule_format, of s m'] l m'(2) by linarith
    have "parse_elems m' (skip_ws r') = parse_elems n (skip_ws r')"
      if "parse_val n s = Some (v, r)" "skip_ws r = d # r'" for v r d r'
    proof -
      have "length (skip_ws r') < length s"
        using parse_shorter(1) [OF that(1)] skip_ws_Cons_length [OF that(2)] skip_ws_length [of r']
        by linarith
      then have "2 * length (skip_ws r') + 2 \<le> n" using l by linarith
      then show ?thesis using Suc m'(2) by blast
    qed
    then show ?thesis by (auto simp: m'(1) v split: option.splits list.splits)
  qed
  have M: "parse_mems m s = parse_mems (Suc n) s"
    if l: "2 * length s + 2 \<le> Suc n" and m: "Suc n \<le> m" for s m
  proof -
    from m obtain m' where m': "m = Suc m'" "n \<le> m'" by (cases m) auto
    have v: "parse_val m' (skip_ws s3) = parse_val n (skip_ws s3) \<and> length s3 < length s"
      if "s = q # s1" "parse_str s1 = Some (k, s2)" "skip_ws s2 = cl # s3" for q s1 k s2 cl s3
    proof -
      have a: "length s3 < length s"
        using that parse_str_shorter [OF that(2)] skip_ws_Cons_length [OF that(3)] by simp
      then have "2 * length (skip_ws s3) + 1 \<le> n" using l skip_ws_length [of s3] by linarith
      then show ?thesis using a Suc m'(2) by blast
    qed
    have "parse_mems m' (skip_ws r') = parse_mems n (skip_ws r')"
      if "length s3 < length s" "parse_val n (skip_ws s3) = Some (v, r)" "skip_ws r = d # r'"
      for s3 v r d r'
    proof -
      have "length (skip_ws r') < length s"
        using that(1) parse_shorter(1) [OF that(2)] skip_ws_Cons_length [OF that(3)]
          skip_ws_length [of r'] skip_ws_length [of s3] by linarith
      then have "2 * length (skip_ws r') + 2 \<le> n" using l by linarith
      then show ?thesis using Suc m'(2) by blast
    qed
    note tail = this
    show ?thesis
    proof (cases "\<exists>s1 k s2 s3. s = quote # s1 \<and> parse_str s1 = Some (k, s2) \<and> skip_ws s2 = CHR '':'' # s3")
      case True
      then obtain s1 k s2 s3 where eqs: "s = quote # s1" "parse_str s1 = Some (k, s2)"
        "skip_ws s2 = CHR '':'' # s3" by blast
      note v' = v [OF eqs]
      show ?thesis
      proof (cases "parse_val n (skip_ws s3)")
        case (Some x)
        obtain v r where x: "x = (v, r)" by (cases x)
        show ?thesis
        proof (cases "skip_ws r")
          case Nil
          then show ?thesis using Some x v' eqs m' by simp
        next
          case (Cons d r')
          then have "parse_mems m' (skip_ws r') = parse_mems n (skip_ws r')"
            using tail [of s3 v r d r'] v' Some x by simp
          then show ?thesis using Some x v' eqs m' Cons by simp
        qed
      qed (use eqs v' m' in simp)
    qed (auto simp: m' split: list.splits option.splits)
  qed
  show ?case using V E M by blast
qed simp

lemma parse_fuel:
  "2 * length s + 1 \<le> n \<Longrightarrow> parse_val n s = parse_val (2 * length s + 1) s"
  using parse_fuel_all [of "2 * length s + 1"] by simp

section \<open>Round trip\<close>

text \<open>What may follow a value inside a document or at its end.\<close>

fun delim :: "string \<Rightarrow> bool" where
  "delim [] = True"
| "delim (c # cs) = (c = CHR '','' \<or> c = CHR '']'' \<or> c = CHR ''}'')"

text \<open>The text of a float that \<open>repr\<close> can produce: a special value or a number with a fraction or exponent.\<close>

definition float_char :: "char \<Rightarrow> bool" where
  "float_char c = (is_digit c \<or> c \<in> set ''+-.eE'')"

definition float_ok :: "string \<Rightarrow> bool" where
  "float_ok s = (s = ''nan'' \<or> s = ''inf'' \<or> s = ''-inf'' \<or>
     (parse_num s = Some (PFloat s, []) \<and> list_all float_char s))"

primrec pv_ok :: "pyval \<Rightarrow> bool" where
  "pv_ok PNone = True"
| "pv_ok (PBool b) = True"
| "pv_ok (PInt i) = True"
| "pv_ok (PFloat s) = float_ok s"
| "pv_ok (PStr s) = True"
| "pv_ok (PList xs) = list_all id (map pv_ok xs)"
| "pv_ok (PDict d) = (dict_ok d \<and> list_all snd (map (map_prod id pv_ok) d))"

lemma pv_ok_PList [simp]: "pv_ok (PList xs) \<longleftrightarrow> (\<forall>x \<in> set xs. pv_ok x)"
  by (simp add: list_all_iff)

lemma pv_ok_PDict [simp]: "pv_ok (PDict d) \<longleftrightarrow> dict_ok d \<and> (\<forall>p \<in> set d. pv_ok (snd p))"
  by (simp add: list_all_iff)

declare pv_ok.simps(6,7) [simp del]

subsection \<open>Strings\<close>

lemma hex_val_digit: "n < 16 \<Longrightarrow> hex_val (hex_digit n) = Some n"
  by (auto simp: hex_val_def hex_digit_def Let_def)

lemma hex4_digits: "hex4 (CHR ''0'') (CHR ''0'') (hex_digit (of_char c div 16)) (hex_digit (of_char c mod 16)) = Some c"
proof -
  have l: "of_char c < (256 :: nat)" by simp
  then have "of_char c div 16 < (16 :: nat)" by (simp add: less_mult_imp_div_less)
  moreover have "16 * (of_char c div 16) + of_char c mod 16 = (of_char c :: nat)"
    by (simp add: mult.commute)
  moreover have "hex_val (CHR ''0'') = Some 0" by (simp add: hex_val_def)
  ultimately show ?thesis by (simp add: hex4_def hex_val_digit)
qed

lemma parse_str_esc_char: "parse_str (esc_char c @ s) = cons_fst c (parse_str s)"
  by (simp add: esc_char_def unesc_def hex4_digits)

lemma parse_str_dumps: "parse_str (concat (map esc_char s) @ quote # r) = Some (s, r)"
  by (induction s) (simp_all add: parse_str_esc_char)

subsection \<open>Numbers\<close>

lemma takeWhile_all: "(\<And>x. x \<in> set xs \<Longrightarrow> P x) \<Longrightarrow> takeWhile P (xs @ ys) = xs @ takeWhile P ys"
  by (induction xs) auto

lemma dropWhile_all: "(\<And>x. x \<in> set xs \<Longrightarrow> P x) \<Longrightarrow> dropWhile P (xs @ ys) = dropWhile P ys"
  by (induction xs) auto

lemma delim_not_digit: "delim r \<Longrightarrow> digits r = ([], r)"
  by (cases r) (auto simp: digits_def is_digit_def)

lemma digits_append: "delim r \<Longrightarrow> digits (s @ r) = (fst (digits s), snd (digits s) @ r)"
  using delim_not_digit [of r]
  by (induction s) (auto simp: digits_def)

lemma parse_frac_append: "delim r \<Longrightarrow> parse_frac (s @ r) = (fst (parse_frac s), snd (parse_frac s) @ r)"
  by (cases s; cases r) (auto simp: parse_frac_def digits_append)

lemma parse_exp_append: "delim r \<Longrightarrow> parse_exp (s @ r) = (fst (parse_exp s), snd (parse_exp s) @ r)"
proof (cases s)
  case Nil
  then show "delim r \<Longrightarrow> ?thesis" by (cases r) (auto simp: parse_exp_def)
next
  case (Cons c t)
  assume r: "delim r"
  show ?thesis
  proof (cases t)
    case Nil
    then show ?thesis using Cons r delim_not_digit [OF r] delim_not_digit [of "[]"]
      by (cases r) (auto simp: parse_exp_def)
  next
    case (Cons d t')
    then show ?thesis using \<open>s = c # t\<close> digits_append [OF r, of t'] digits_append [OF r, of "d # t'"]
      by (auto simp: parse_exp_def)
  qed
qed

lemma parse_int_part_append:
  "delim r \<Longrightarrow> s \<noteq> [] \<Longrightarrow>
   parse_int_part (s @ r) = map_option (\<lambda>(d, t). (d, t @ r)) (parse_int_part s)"
  using digits_append [of r s]
  by (cases s) (auto simp: parse_int_part_def split_beta)

text \<open>The sign and the rest, then the three parts of a number.\<close>

definition split_sign :: "string \<Rightarrow> string \<times> string" where
  "split_sign s = (case s of c # cs \<Rightarrow> (if c = CHR ''-'' then ([c], cs) else ([], s)) | [] \<Rightarrow> ([], s))"

definition num_of :: "string \<Rightarrow> string \<Rightarrow> string \<Rightarrow> string \<Rightarrow> pyval" where
  "num_of sg ds f e = (if f = [] \<and> e = []
     then PInt (if sg = [] then int (read_nat ds) else - int (read_nat ds)) else PFloat (sg @ ds @ f @ e))"

lemma parse_num_parts:
  "parse_num s = map_option (\<lambda>(ds, r1).
     (num_of (fst (split_sign s)) ds (fst (parse_frac r1)) (fst (parse_exp (snd (parse_frac r1)))),
      snd (parse_exp (snd (parse_frac r1))))) (parse_int_part (snd (split_sign s)))"
  by (auto simp: parse_num_def split_sign_def [symmetric] num_of_def Let_def split_beta
      split: option.splits)

lemma parse_num_append:
  assumes r: "delim r" and p: "parse_num s = Some (v, t)"
  shows "parse_num (s @ r) = Some (v, t @ r)"
proof -
  from p obtain ds r1 where i: "parse_int_part (snd (split_sign s)) = Some (ds, r1)"
    by (auto simp: parse_num_parts)
  have ne: "snd (split_sign s) \<noteq> []" using i by (auto simp: parse_int_part_def)
  then have sp: "split_sign (s @ r) = (fst (split_sign s), snd (split_sign s) @ r)"
    by (cases s) (auto simp: split_sign_def)
  show ?thesis
    using p parse_int_part_append [OF r ne] i
    by (simp add: parse_num_parts sp parse_frac_append [OF r] parse_exp_append [OF r])
qed

lemma digits_show_nat: "digits (show_nat n) = (show_nat n, [])"
  by (simp add: digits_def show_nat_digits takeWhile_eq_all_conv [THEN iffD2]
      dropWhile_eq_Nil_conv [THEN iffD2])

lemma parse_int_part_show_nat: "parse_int_part (show_nat n) = Some (show_nat n, [])"
proof (cases "n = 0")
  case True
  then show ?thesis by (simp add: show_nat_0 parse_int_part_def)
next
  case False
  obtain c cs where c: "show_nat n = c # cs" by (cases "show_nat n") auto
  then have "c \<noteq> CHR ''0''" "is_digit c"
    using show_nat_hd [OF False] show_nat_digits [of c n] by auto
  then show ?thesis using digits_show_nat [of n] c by (simp add: parse_int_part_def)
qed

lemma split_sign_show_nat: "split_sign (show_nat n) = ([], show_nat n)"
proof -
  obtain c cs where c: "show_nat n = c # cs" by (cases "show_nat n") auto
  then have "is_digit c" using show_nat_digits [of c n] by auto
  then show ?thesis using c by (auto simp: split_sign_def is_digit_def)
qed

lemma split_sign_minus: "split_sign (CHR ''-'' # s) = (''-'', s)"
  by (simp add: split_sign_def)

lemma parse_num_Nil: "parse_frac [] = ([], [])" "parse_exp [] = ([], [])"
  by (simp_all add: parse_frac_def parse_exp_def)

lemma parse_num_show_int: "delim r \<Longrightarrow> parse_num (show_int i @ r) = Some (PInt i, r)"
proof -
  assume r: "delim r"
  have "parse_num (show_int i) = Some (PInt i, [])"
    using split_sign_minus [of "show_nat (nat (- i))"]
    by (simp add: parse_num_parts show_int_def split_sign_show_nat parse_int_part_show_nat
        num_of_def parse_num_Nil)
  then show ?thesis using parse_num_append [OF r] by fastforce
qed

subsection \<open>Values\<close>

lemma is_digit_not:
  assumes "is_digit c"
  shows "c \<noteq> CHR ''n''" "c \<noteq> CHR ''t''" "c \<noteq> CHR ''f''" "c \<noteq> CHR ''N''" "c \<noteq> CHR ''I''"
    "c \<noteq> CHR ''-''" "c \<noteq> quote" "c \<noteq> CHR ''{''" "c \<noteq> CHR ''[''" "c \<noteq> CHR '']''" "c \<noteq> CHR ''}''"
    "\<not> is_ws c"
  using assms by (auto simp: is_digit_def is_ws_def)

lemma no_literal:
  "is_digit c \<Longrightarrow> parse_lit literals (c # s) = None"
  "d \<noteq> CHR ''I'' \<Longrightarrow> parse_lit literals (CHR ''-'' # d # s) = None"
  by (simp_all add: literals_def is_digit_not(1-6) [symmetric])

lemma parse_num_head:
  assumes "parse_num s = Some (v, t)"
  obtains c cs where "s = c # cs" "is_digit c"
    | c cs where "s = CHR ''-'' # c # cs" "is_digit c"
proof -
  from assms obtain ds r1 where i: "parse_int_part (snd (split_sign s)) = Some (ds, r1)"
    by (auto simp: parse_num_parts)
  then obtain c cs where c: "snd (split_sign s) = c # cs" "is_digit c"
    by (auto simp: parse_int_part_def is_digit_def split: list.splits if_splits)
  show ?thesis
  proof (cases "s = CHR ''-'' # c # cs")
    case True
    then show ?thesis using c that by blast
  next
    case False
    then have "s = c # cs" using c by (auto simp: split_sign_def split: list.splits if_splits)
    then show ?thesis using c that by blast
  qed
qed

lemma parse_lit_num: "parse_num s = Some (v, t) \<Longrightarrow> parse_lit literals (s @ r) = None"
  by (erule parse_num_head) (simp_all add: no_literal is_digit_not)

lemma parse_val_num:
  assumes "parse_num s = Some (v, [])" "delim r"
  shows "parse_val (Suc n) (s @ r) = Some (v, r)"
proof -
  obtain c cs where s: "s @ r = c # cs" "c \<noteq> quote" "c \<noteq> CHR ''{''" "c \<noteq> CHR ''[''"
    using assms(1) by (rule parse_num_head) (use is_digit_not that in auto)
  then show ?thesis
    using parse_num_append [OF assms(2,1)] parse_lit_num [OF assms(1), of r] by simp
qed

lemma parse_val_lit:
  assumes "(s, v) \<in> set literals"
  shows "parse_val (Suc n) (s @ r) = Some (v, r)"
  using assms by (auto simp: literals_def)

lemma parse_val_float: "float_ok s \<Longrightarrow> delim r \<Longrightarrow> parse_val (Suc n) (dumps_float s @ r) = Some (PFloat s, r)"
proof -
  assume s: "float_ok s" and r: "delim r"
  consider "s = ''nan''" | "s = ''inf''" | "s = ''-inf''"
    | "s \<notin> {''nan'', ''inf'', ''-inf''}" "parse_num s = Some (PFloat s, [])"
    using s by (auto simp: float_ok_def)
  then show ?thesis
  proof cases
    case 4
    then show ?thesis using parse_val_num [OF _ r] by (simp add: dumps_float_def)
  qed (simp_all add: dumps_float_def literals_def)
qed

abbreviation dumps_raw :: "pyval \<Rightarrow> string" where
  "dumps_raw \<equiv> dumps_with False"

lemma not_ws_minus: "\<not> is_ws (CHR ''-'')" "\<not> is_ws (CHR ''N'')" "\<not> is_ws (CHR ''I'')"
  by (simp_all add: is_ws_def)

lemma dumps_raw_head:
  assumes "pv_ok v"
  obtains c cs where "dumps_raw v = c # cs" "\<not> is_ws c" "c \<noteq> CHR '']''" "c \<noteq> CHR ''}''"
proof -
  have "\<exists>c cs. dumps_raw v = c # cs \<and> \<not> is_ws c \<and> c \<noteq> CHR '']'' \<and> c \<noteq> CHR ''}''"
  proof (cases v)
    case (PInt i)
    obtain t where "parse_num (show_int i) = Some (PInt i, t)"
      using parse_num_show_int [of "[]" i] by simp
    then show ?thesis using PInt
      by (auto elim!: parse_num_head simp: is_digit_not not_ws_minus)
  next
    case (PFloat s)
    then have "float_ok s" using assms by simp
    show ?thesis
    proof (cases "s \<in> {''nan'', ''inf'', ''-inf''}")
      case True
      then show ?thesis using PFloat by (auto simp: not_ws_minus dumps_float_def)
    next
      case False
      then have d: "dumps_raw v = s" using PFloat by (simp add: dumps_float_def)
      from False \<open>float_ok s\<close> have "parse_num s = Some (PFloat s, [])" by (simp add: float_ok_def)
      then show ?thesis unfolding d
        by (rule parse_num_head) (simp_all add: is_digit_not not_ws_minus)
    qed
  qed (auto simp: is_ws_def dumps_str_def)
  then show ?thesis using that by blast
qed

lemma skip_ws_dumps_raw: "pv_ok v \<Longrightarrow> skip_ws (dumps_raw v @ r) = dumps_raw v @ r"
  by (erule dumps_raw_head) (simp add: skip_ws_def)

lemma skip_ws_Cons: "\<not> is_ws c \<Longrightarrow> skip_ws (c # s) = c # s" "skip_ws (CHR '' '' # s) = skip_ws s"
  by (simp_all add: skip_ws_def is_ws_def)

lemma parse_val_elems:
  assumes "xs \<noteq> []" "\<forall>x \<in> set xs. pv_ok x"
    and "\<And>x r n. x \<in> set xs \<Longrightarrow> delim r \<Longrightarrow> 2 * length (dumps_raw x @ r) + 1 \<le> n \<Longrightarrow>
           parse_val n (dumps_raw x @ r) = Some (x, r)"
    and "2 * length (join '', '' (map dumps_raw xs) @ CHR '']'' # r) + 2 \<le> n"
  shows "parse_elems n (join '', '' (map dumps_raw xs) @ CHR '']'' # r) = Some (xs, r)"
  using assms
proof (induction xs arbitrary: n)
  case (Cons x xs)
  obtain m where n: "n = Suc m" using Cons.prems(4) by (cases n) auto
  show ?case
  proof (cases xs)
    case Nil
    then show ?thesis using Cons.prems(3) [of x "CHR '']'' # r" m] Cons.prems(4) n
      by (simp add: skip_ws_Cons is_ws_def)
  next
    case (Cons y ys)
    define t where "t = join '', '' (map dumps_raw xs) @ CHR '']'' # r"
    have t: "join '', '' (map dumps_raw (x # xs)) @ CHR '']'' # r = dumps_raw x @ '', '' @ t"
      by (simp add: t_def Cons)
    have len: "2 * length (dumps_raw x @ '', '' @ t) + 2 \<le> n"
      using Cons.prems(4) unfolding t .
    have tl: "parse_elems m t = Some (xs, r)"
      unfolding t_def using len n
      by (intro Cons.IH) (use Cons.prems Cons in \<open>auto simp: t_def\<close>)
    have "parse_val m (dumps_raw x @ '', '' @ t) = Some (x, '', '' @ t)"
      using len n by (intro Cons.prems(3)) auto
    moreover have "skip_ws (CHR '' '' # t) = t"
      using Cons.prems(2) skip_ws_dumps_raw [of y] Cons
      by (cases ys) (simp_all add: t_def skip_ws_Cons)
    ultimately show ?thesis using tl n unfolding t
      by (simp add: skip_ws_Cons is_ws_def)
  qed
qed simp

lemma parse_val_mems:
  assumes "d \<noteq> []"
    and "\<And>p r n. p \<in> set d \<Longrightarrow> delim r \<Longrightarrow> 2 * length (dumps_raw (snd p) @ r) + 1 \<le> n \<Longrightarrow>
           parse_val n (dumps_raw (snd p) @ r) = Some (snd p, r)"
    and "\<forall>p \<in> set d. pv_ok (snd p)"
    and "2 * length (join '', '' (map dumps_entry (map (map_prod id dumps_raw) d)) @ CHR ''}'' # r) + 2 \<le> n"
  shows "parse_mems n (join '', '' (map dumps_entry (map (map_prod id dumps_raw) d)) @ CHR ''}'' # r) = Some (d, r)"
  using assms
proof (induction d arbitrary: n)
  case (Cons p d)
  obtain m where n: "n = Suc m" using Cons.prems(4) by (cases n) auto
  obtain k v where p: "p = (k, v)" by (cases p)
  have ws: "skip_ws (dumps_raw v @ r) = dumps_raw v @ r" for r
    using Cons.prems(3) p skip_ws_dumps_raw [of v] by simp
  have one: "parse_mems n (dumps_entry (k, dumps_raw v) @ c # u) =
      (if c = CHR ''}'' then Some ([(k, v)], u)
       else map_option (\<lambda>(ms, r'). ((k, v) # ms, r')) (parse_mems m (skip_ws u)))"
    if "c = CHR ''}'' \<or> c = CHR '',''" "2 * length (dumps_entry (k, dumps_raw v) @ c # u) + 2 \<le> n" for c u
  proof -
    have "parse_val m (dumps_raw v @ c # u) = Some (v, c # u)"
      using Cons.prems(2) [of p "c # u" m] that n p by (auto simp: dumps_entry_def dumps_str_def)
    then show ?thesis using that(1) n
      by (auto simp: dumps_entry_def dumps_str_def parse_str_dumps skip_ws_Cons ws is_ws_def)
  qed
  show ?case
  proof (cases d)
    case Nil
    then show ?thesis using one [of "CHR ''}''" r] Cons.prems(4) p by simp
  next
    case (Cons q ds)
    define t where "t = join '', '' (map dumps_entry (map (map_prod id dumps_raw) d)) @ CHR ''}'' # r"
    have t: "join '', '' (map dumps_entry (map (map_prod id dumps_raw) (p # d))) @ CHR ''}'' # r =
        dumps_entry (k, dumps_raw v) @ '', '' @ t"
      by (simp add: t_def Cons p)
    have len: "2 * length (dumps_entry (k, dumps_raw v) @ '', '' @ t) + 2 \<le> n"
      using Cons.prems(4) unfolding t .
    have tl: "parse_mems m t = Some (d, r)"
      unfolding t_def using len n
      by (intro Cons.IH) (use Cons.prems Cons in \<open>auto simp: t_def\<close>)
    have "skip_ws (CHR '' '' # t) = t"
      by (cases ds) (simp_all add: t_def skip_ws_Cons Cons dumps_entry_def dumps_str_def is_ws_def)
    then show ?thesis using tl one [of "CHR '',''" "CHR '' '' # t"] len unfolding t
      by (simp add: p)
  qed
qed simp

lemma parse_val_dumps_raw:
  "pv_ok v \<Longrightarrow> delim r \<Longrightarrow> 2 * length (dumps_raw v @ r) + 1 \<le> n \<Longrightarrow>
   parse_val n (dumps_raw v @ r) = Some (v, r)"
proof (induction v arbitrary: r n)
  case PNone
  then show ?case using parse_val_lit [of "''null''" PNone] by (cases n) (auto simp: literals_def)
next
  case (PBool b)
  then show ?case by (cases n) (auto simp: literals_def)
next
  case (PInt i)
  then obtain m where "n = Suc m" by (cases n) auto
  moreover have "parse_num (show_int i) = Some (PInt i, [])"
    using parse_num_show_int [of "[]" i] by simp
  ultimately show ?case using parse_val_num PInt by simp
next
  case (PFloat s)
  then obtain m where "n = Suc m" by (cases n) auto
  then show ?case using PFloat parse_val_float by simp
next
  case (PStr s)
  then show ?case by (cases n) (auto simp: dumps_str_def parse_str_dumps)
next
  case (PList xs)
  then obtain m where n: "n = Suc m" by (cases n) auto
  show ?case
  proof (cases xs)
    case Nil
    then show ?thesis using n by (simp add: skip_ws_Cons is_ws_def)
  next
    case (Cons y ys)
    define t where "t = join '', '' (map dumps_raw xs) @ CHR '']'' # r"
    have e: "parse_elems m t = Some (xs, r)"
      unfolding t_def using PList.prems n Cons PList.IH
      by (intro parse_val_elems) auto
    have "pv_ok y" using PList.prems Cons by simp
    then obtain c cs where c: "t = c # cs" "\<not> is_ws c" "c \<noteq> CHR '']''"
      using Cons by (cases ys) (auto simp: t_def elim: dumps_raw_head)
    show ?thesis using e n c by (simp add: t_def [symmetric] skip_ws_Cons)
  qed
next
  case (PDict d)
  then obtain m where n: "n = Suc m" by (cases n) auto
  show ?case
  proof (cases d)
    case Nil
    then show ?thesis using n by (simp add: skip_ws_Cons is_ws_def)
  next
    case (Cons q ds)
    define t where "t = join '', '' (map dumps_entry (map (map_prod id dumps_raw) d)) @ CHR ''}'' # r"
    have l: "dumps_raw (PDict d) @ r = CHR ''{'' # t" by (simp add: t_def)
    have e: "parse_mems m t = Some (d, r)"
      unfolding t_def
    proof (rule parse_val_mems)
      show "d \<noteq> []" using Cons by simp
      show "\<forall>p \<in> set d. pv_ok (snd p)" using PDict.prems by simp
      show "2 * length (join '', '' (map dumps_entry (map (map_prod id dumps_raw) d)) @ CHR ''}'' # r) + 2 \<le> m"
        using PDict.prems(3) n by simp
      fix p r k assume "p \<in> set d" "delim r" "2 * length (dumps_raw (snd p) @ r) + 1 \<le> k"
      moreover from this have "pv_ok (snd p)" using PDict.prems(1) by simp
      ultimately show "parse_val k (dumps_raw (snd p) @ r) = Some (snd p, r)"
        by (intro PDict.IH [of p]) (auto simp: snds.simps)
    qed
    have "skip_ws t = t \<and> (\<exists>cs. t = quote # cs)"
      by (cases ds) (simp_all add: t_def skip_ws_Cons Cons dumps_entry_def dumps_str_def is_ws_def)
    moreover have "dmerge [] d = d" using PDict.prems by (simp add: dmerge_fresh)
    ultimately show ?thesis using e n unfolding l by auto
  qed
qed

lemma loads_dumps_raw:
  assumes "pv_ok v"
  shows "loads (dumps_raw v) = Some v"
proof -
  have "skip_ws (dumps_raw v) = dumps_raw v"
    using skip_ws_dumps_raw [OF assms, of "[]"] by simp
  moreover have "parse_val (2 * length (dumps_raw v) + 1) (dumps_raw v) = Some (v, [])"
    using parse_val_dumps_raw [OF assms, of "[]" "2 * length (dumps_raw v) + 1"] by simp
  ultimately show ?thesis by (simp add: loads_def Let_def skip_ws_def)
qed

subsection \<open>Sorted keys\<close>

lemma insort_key_map:
  "(\<And>x. f' (g x) = f x) \<Longrightarrow> insort_key f' (g x) (map g xs) = map g (insort_key f x xs)"
  by (induction xs) auto

lemma sort_key_map: "(\<And>x. f' (g x) = f x) \<Longrightarrow> sort_key f' (map g xs) = map g (sort_key f xs)"
  by (induction xs) (simp_all add: insort_key_map)

lemma sort_key_map_snd: "sort_key fst (map (map_prod id g) d) = map (map_prod id g) (sort_key fst d)"
  by (rule sort_key_map) simp

lemma map_prod_cong_set:
  "(\<And>p. p \<in> set d \<Longrightarrow> f (snd p) = g (snd p)) \<Longrightarrow> map (map_prod id f) d = map (map_prod id g) d"
  by (auto simp: map_prod_def)

lemma dumps_canon: "dumps v = dumps_raw (canon v)"
proof (induction v)
  case (PDict d)
  have "map (map_prod id dumps) d = map (map_prod id (\<lambda>v. dumps_raw (canon v))) d"
    using PDict by (intro map_prod_cong_set) (auto simp: snds.simps)
  then have "map (map_prod id dumps) d = map (map_prod id dumps_raw) (map (map_prod id canon) d)"
    by (simp add: o_def map_prod_def split_beta)
  then have "sort_key fst (map (map_prod id dumps) d) =
      map (map_prod id dumps_raw) (sort_key fst (map (map_prod id canon) d))"
    by (simp only: sort_key_map_snd)
  then show ?case by (simp only: dumps_with.simps canon.simps if_True if_False id_apply)
qed (simp_all cong: map_cong)

lemma pv_ok_canon: "pv_ok v \<Longrightarrow> pv_ok (canon v)"
proof (induction v)
  case (PDict d)
  have "distinct (map fst (sort_key fst (map (map_prod id canon) d)))"
    using PDict.prems by (simp add: distinct_map sort_key_map_snd inj_on_def o_def)
  moreover have "pv_ok (snd q)" if "q \<in> set (map (map_prod id canon) d)" for q
    using that PDict.prems PDict.IH by (auto simp: snds.simps)
  ultimately show ?case by simp
qed auto

lemma loads_dumps: "pv_ok v \<Longrightarrow> loads (dumps v) = Some (canon v)"
  by (simp add: dumps_canon loads_dumps_raw pv_ok_canon)

subsection \<open>The output is printable ASCII\<close>

definition printable :: "char \<Rightarrow> bool" where
  "printable c = (32 \<le> (of_char c :: nat) \<and> (of_char c :: nat) \<le> 126)"

lemma digit_printable: "is_digit c \<Longrightarrow> printable c"
  by (simp add: is_digit_def printable_def)

lemma hex_digit_printable: "n < 16 \<Longrightarrow> printable (hex_digit n)"
  by (auto simp: hex_digit_def printable_def)

lemma esc_char_printable: "x \<in> set (esc_char c) \<Longrightarrow> printable x"
proof -
  have "of_char c < (256 :: nat)" by simp
  then have "of_char c div 16 < (16 :: nat)" by (simp add: less_mult_imp_div_less)
  then show "x \<in> set (esc_char c) \<Longrightarrow> printable x"
    by (auto simp: esc_char_def hex_digit_printable split: if_splits) (auto simp: printable_def)
qed

lemma dumps_str_printable: "x \<in> set (dumps_str s) \<Longrightarrow> printable x"
  by (auto simp: dumps_str_def esc_char_printable) (auto simp: printable_def)

lemma join_set: "x \<in> set (join sep ss) \<Longrightarrow> x \<in> set sep \<or> (\<exists>s \<in> set ss. x \<in> set s)"
  by (induction sep ss rule: join.induct) auto

lemma float_char_printable: "float_char c \<Longrightarrow> printable c"
  by (auto simp: float_char_def digit_printable) (auto simp: printable_def)

lemma dumps_float_printable: "float_ok s \<Longrightarrow> x \<in> set (dumps_float s) \<Longrightarrow> printable x"
  by (auto simp: float_ok_def dumps_float_def list_all_iff float_char_printable split: if_splits)
     (auto simp: printable_def)

lemma show_int_printable: "x \<in> set (show_int i) \<Longrightarrow> printable x"
  by (auto simp: show_int_def show_nat_digits digit_printable split: if_splits)
     (auto simp: printable_def)

lemma dumps_raw_printable: "pv_ok v \<Longrightarrow> x \<in> set (dumps_raw v) \<Longrightarrow> printable x"
proof (induction v)
  case (PList xs)
  then show ?case by (auto dest!: join_set) (auto simp: printable_def)
next
  case (PDict d)
  have "printable x" if "p \<in> set d" "x \<in> set (dumps_entry (map_prod id dumps_raw p))" for p
    using that PDict.prems PDict.IH [of p "snd p"]
    by (auto simp: dumps_entry_def dumps_str_printable snds.simps) (auto simp: printable_def)
  with PDict.prems show ?case by (auto dest!: join_set) (auto simp: printable_def)
qed (auto simp: dumps_float_printable show_int_printable dumps_str_printable split: if_splits,
     auto simp: printable_def)

lemma dumps_printable: "pv_ok v \<Longrightarrow> x \<in> set (dumps v) \<Longrightarrow> printable x"
  by (simp add: dumps_canon dumps_raw_printable [OF pv_ok_canon])

end
