(* ===== verification/PyConv.thy ===== *)
theory PyConv
  imports Json
begin

text \<open>
  Conversions of the language the components apply to loosely typed values:
  \<open>str\<close>, \<open>repr\<close>, \<open>int\<close>, \<open>dict\<close>, iteration, \<open>strip\<close>, \<open>lower\<close>, \<open>partition\<close>,
  \<open>splitlines\<close>, and \<open>sorted(set(...))\<close> of texts.
\<close>

definition py_space :: "char \<Rightarrow> bool" where
  "py_space c = ((of_char c :: nat) \<in> set [9, 10, 11, 12, 13, 28, 29, 30, 31, 32, 133, 160])"

text \<open>\<open>s.strip()\<close>.\<close>

definition py_strip :: "string \<Rightarrow> string" where
  "py_strip s = rev (dropWhile py_space (rev (dropWhile py_space s)))"

definition py_repr_char :: "char \<Rightarrow> char \<Rightarrow> string" where
  "py_repr_char q c =
     (if c = q \<or> c = backslash then [backslash, c]
      else if c = CHR 0x0A then [backslash, CHR ''n'']
      else if c = CHR 0x0D then [backslash, CHR ''r'']
      else if c = CHR 0x09 then [backslash, CHR ''t'']
      else if printable c \<or> (161 \<le> (of_char c :: nat) \<and> of_char c \<noteq> (173 :: nat)) then [c]
      else [backslash, CHR ''x'', hex_digit (of_char c div 16), hex_digit (of_char c mod 16)])"

definition py_repr_str :: "string \<Rightarrow> string" where
  "py_repr_str s =
     (let q = (if CHR 0x27 \<in> set s \<and> quote \<notin> set s then quote else CHR 0x27)
      in q # concat (map (py_repr_char q) s) @ [q])"

primrec py_repr :: "pyval \<Rightarrow> string" where
  "py_repr PNone = ''None''"
| "py_repr (PBool b) = (if b then ''True'' else ''False'')"
| "py_repr (PInt i) = show_int i"
| "py_repr (PFloat s) = s"
| "py_repr (PStr s) = py_repr_str s"
| "py_repr (PList xs) = ''['' @ join '', '' (map py_repr xs) @ '']''"
| "py_repr (PDict d) = ''{'' @ join '', ''
     (map (\<lambda>p. py_repr_str (fst p) @ '': '' @ snd p) (map (map_prod id py_repr) d)) @ ''}''"

text \<open>\<open>str(v)\<close>.\<close>

definition py_str :: "pyval \<Rightarrow> string" where
  "py_str v = (case v of PStr s \<Rightarrow> s | _ \<Rightarrow> py_repr v)"

text \<open>\<open>int(v)\<close> for a text: spaces around, a sign, digits with single underscores between them.\<close>

fun digits_under :: "string \<Rightarrow> bool" where
  "digits_under [] = False"
| "digits_under [c] = is_digit c"
| "digits_under (c # d # cs) =
     (is_digit c \<and> (if d = CHR ''_'' then digits_under cs else digits_under (d # cs)))"

definition int_of_str :: "string \<Rightarrow> int option" where
  "int_of_str s =
     (let t = py_strip s;
          (neg, ds) = (case t of c # r \<Rightarrow> (if c = CHR ''-'' then (True, r)
                          else if c = CHR ''+'' then (False, r) else (False, t))
                       | [] \<Rightarrow> (False, t));
          n = int (read_nat (filter (\<lambda>c. c \<noteq> CHR ''_'') ds))
      in if digits_under ds then Some (if neg then - n else n) else None)"

text \<open>\<open>int(v)\<close> for a float: the decimal value of its text truncated towards zero.\<close>

definition int_of_float :: "string \<Rightarrow> py_exn + int" where
  "int_of_float s =
     (if s = ''inf'' \<or> s = ''-inf'' then Inl OverflowError
      else case parse_int_part (snd (split_sign s)) of
        None \<Rightarrow> Inl ValueError
      | Some (ds, r1) \<Rightarrow>
          (let (f, r2) = parse_frac r1; (e, r3) = parse_exp r2;
               m = read_nat (ds @ tl f);
               ex = (case e of [] \<Rightarrow> 0
                     | _ # es \<Rightarrow> (case int_of_str es of Some k \<Rightarrow> k | None \<Rightarrow> 0)) - int (length (tl f));
               n = (if 0 \<le> ex then int m * 10 ^ nat ex else int m div 10 ^ nat (- ex))
           in Inr (if fst (split_sign s) = [] then n else - n)))"

definition py_int :: "pyval \<Rightarrow> py_exn + int" where
  "py_int v = (case v of
       PBool b \<Rightarrow> Inr (if b then 1 else 0)
     | PInt i \<Rightarrow> Inr i
     | PFloat s \<Rightarrow> int_of_float s
     | PStr s \<Rightarrow> (case int_of_str s of Some i \<Rightarrow> Inr i | None \<Rightarrow> Inl ValueError)
     | _ \<Rightarrow> Inl TypeError)"

text \<open>\<open>dict(v)\<close>: a mapping is copied, otherwise every element must be a pair with a text key.\<close>

definition dict_pair :: "pyval \<Rightarrow> py_exn + (string \<times> pyval)" where
  "dict_pair v = (case v of
       PList [k, w] \<Rightarrow> (case k of PStr s \<Rightarrow> Inr (s, w) | _ \<Rightarrow> Inl TypeError)
     | PList _ \<Rightarrow> Inl ValueError
     | PStr [a, b] \<Rightarrow> Inr ([a], PStr [b])
     | PStr _ \<Rightarrow> Inl ValueError
     | PDict [(a, _), (b, _)] \<Rightarrow> Inr (a, PStr b)
     | PDict _ \<Rightarrow> Inl ValueError
     | _ \<Rightarrow> Inl TypeError)"

text \<open>The elements \<open>for x in v\<close> runs over.\<close>

definition py_iter :: "pyval \<Rightarrow> py_exn + pyval list" where
  "py_iter v = (case v of
       PList xs \<Rightarrow> Inr xs
     | PStr s \<Rightarrow> Inr (map (\<lambda>c. PStr [c]) s)
     | PDict d \<Rightarrow> Inr (map (PStr \<circ> fst) d)
     | _ \<Rightarrow> Inl TypeError)"

definition py_dict :: "pyval \<Rightarrow> py_exn + (string, pyval) dict" where
  "py_dict v = (case v of
       PDict d \<Rightarrow> Inr d
     | _ \<Rightarrow> bind_result (py_iter v) (\<lambda>xs. map_result (dmerge []) (map_res dict_pair xs)))"


text \<open>\<open>str(v or "")\<close>, the program's usual way to read an optional text.\<close>

definition text_of :: "pyval \<Rightarrow> string" where
  "text_of v = py_str (py_or v (PStr []))"

lemma text_of_simps [simp]:
  "text_of PNone = []" "text_of (PStr s) = s" "text_of (PBool False) = []"
  by (auto simp: text_of_def py_or_def py_str_def)

definition lower_char :: "char \<Rightarrow> char" where
  "lower_char c = (let n = (of_char c :: nat) in
     if (65 \<le> n \<and> n \<le> 90) \<or> (192 \<le> n \<and> n \<le> 222 \<and> n \<noteq> 215) then char_of (n + 32) else c)"

definition py_lower :: "string \<Rightarrow> string" where
  "py_lower = map lower_char"

text \<open>\<open>s.partition(c)\<close>: the text before and after the first \<open>c\<close>.\<close>

definition before_char :: "char \<Rightarrow> string \<Rightarrow> string" where
  "before_char c s = takeWhile (\<lambda>x. x \<noteq> c) s"

definition after_char :: "char \<Rightarrow> string \<Rightarrow> string" where
  "after_char c s = drop 1 (dropWhile (\<lambda>x. x \<noteq> c) s)"

text \<open>\<open>s.splitlines()\<close>.\<close>

definition line_break :: "char \<Rightarrow> bool" where
  "line_break c = ((of_char c :: nat) \<in> set [10, 11, 12, 13, 28, 29, 30, 133])"

fun split_lines_acc :: "string \<Rightarrow> string \<Rightarrow> string list" where
  "split_lines_acc acc [] = (if acc = [] then [] else [rev acc])"
| "split_lines_acc acc [c] = (if line_break c then [rev acc] else [rev (c # acc)])"
| "split_lines_acc acc (c # d # cs) =
     (if c = CHR 0x0D \<and> d = CHR 0x0A then rev acc # split_lines_acc [] cs
      else if line_break c then rev acc # split_lines_acc [] (d # cs)
      else split_lines_acc (c # acc) (d # cs))"

definition split_lines :: "string \<Rightarrow> string list" where
  "split_lines s = split_lines_acc [] s"

lemma split_lines_line:
  "list_all (\<lambda>c. \<not> line_break c) x \<Longrightarrow> split_lines_acc acc (x @ CHR 0x0A # t) = (rev acc @ x) # split_lines_acc [] t"
proof (induction x arbitrary: acc)
  case Nil
  then show ?case by (cases t) (simp_all add: line_break_def)
next
  case (Cons c x)
  then show ?case by (cases x) (auto simp: line_break_def)
qed

lemma split_lines_concat:
  "list_all (list_all (\<lambda>c. \<not> line_break c)) xs \<Longrightarrow> split_lines (concat (map (\<lambda>x. x @ [CHR 0x0A]) xs)) = xs"
  unfolding split_lines_def by (induction xs) (simp_all add: split_lines_line)

text \<open>\<open>sorted(set(xs))\<close> of texts.\<close>

definition sorted_set :: "string list \<Rightarrow> string list" where
  "sorted_set xs = sort (remdups xs)"

lemma set_sorted_set [simp]: "set (sorted_set xs) = set xs"
  by (simp add: sorted_set_def)

lemma sorted_set_Nil_iff [simp]: "sorted_set xs = [] \<longleftrightarrow> xs = []"
  by (metis set_empty set_sorted_set)

text \<open>\<open>s.replace(a, b)\<close> for single characters.\<close>

definition replace_char :: "char \<Rightarrow> char \<Rightarrow> string \<Rightarrow> string" where
  "replace_char a b = map (\<lambda>c. if c = a then b else c)"

text \<open>A list payload read as texts: \<open>[str(x) for x in v or []]\<close>.\<close>

definition list_of :: "pyval \<Rightarrow> pyval list" where
  "list_of v = (case v of PList xs \<Rightarrow> xs | _ \<Rightarrow> [])"

definition dict_of :: "pyval \<Rightarrow> (string, pyval) dict" where
  "dict_of v = (case v of PDict d \<Rightarrow> d | _ \<Rightarrow> [])"

definition strs_of :: "pyval \<Rightarrow> string list" where
  "strs_of v = map py_str (list_of v)"

text \<open>\<open>c.isalnum()\<close> on the characters of the model.\<close>

definition is_alnum :: "char \<Rightarrow> bool" where
  "is_alnum c = (let n = (of_char c :: nat) in
     (48 \<le> n \<and> n \<le> 57) \<or> (65 \<le> n \<and> n \<le> 90) \<or> (97 \<le> n \<and> n \<le> 122) \<or>
     n \<in> {170, 178, 179, 181, 185, 186, 188, 189, 190} \<or> (192 \<le> n \<and> n \<noteq> 215 \<and> n \<noteq> 247))"

text \<open>\<open>str(i)\<close> of a non-negative count in a message.\<close>

abbreviation show_count :: "nat \<Rightarrow> string" where
  "show_count \<equiv> show_nat"

end
