(* ===== verification/Findings.thy ===== *)
theory Findings
  imports PyConv
begin

text \<open>
  Typed gate findings (\<open>factory/build/findings.py\<close>): the record every gate emits,
  its JSON form, the coercion of mixed findings, the capability log and the
  rework ratchet that decides which capabilities a round may regenerate.
\<close>

definition normalise_check :: "string \<Rightarrow> string" where
  "normalise_check check = py_lower (py_strip check)"

definition default_shape :: string where "default_shape = ''failed''"
definition typed_key :: string where "typed_key = ''typed_findings''"

definition normalise_shape :: "string \<Rightarrow> string" where
  "normalise_shape shape = (let t = py_lower (py_strip shape) in if t = [] then default_shape else t)"

record finding =
  f_text :: string
  f_gate :: string
  f_check_id :: string
  f_capability_id :: "string option"
  f_file :: "string option"
  f_line :: "int option"
  f_shape :: string
  f_check_defaulted :: bool

text \<open>An item of a gate's findings: typed, a plain text, or a mapping that was not rehydrated.\<close>

datatype item = Typed finding | Plain string | Mapped "(string, pyval) dict"

definition opt_text :: "pyval \<Rightarrow> string option" where
  "opt_text v = (if truthy v then Some (py_str v) else None)"

definition line_of :: "pyval \<Rightarrow> int option" where
  "line_of v = (case v of
       PInt i \<Rightarrow> Some i
     | PBool b \<Rightarrow> Some (if b then 1 else 0)
     | PStr s \<Rightarrow> (if s \<noteq> [] \<and> list_all is_digit s then Some (int (read_nat s)) else None)
     | _ \<Rightarrow> None)"

definition new_finding ::
  "pyval \<Rightarrow> string \<Rightarrow> string \<Rightarrow> pyval \<Rightarrow> pyval \<Rightarrow> pyval \<Rightarrow> pyval \<Rightarrow> bool \<Rightarrow> finding" where
  "new_finding detail gate check_id cap file line shape defaulted =
     \<lparr> f_text = (if detail = PNone then [] else py_str detail), f_gate = gate,
       f_check_id = normalise_check (if check_id \<noteq> [] then check_id else gate),
       f_capability_id = opt_text cap, f_file = opt_text file, f_line = line_of line,
       f_shape = normalise_shape (text_of shape),
       f_check_defaulted = (defaulted \<or> check_id = []) \<rparr>"

definition opt_pyval :: "string option \<Rightarrow> pyval" where
  "opt_pyval v = (case v of None \<Rightarrow> PNone | Some s \<Rightarrow> PStr s)"

definition finding_json :: "finding \<Rightarrow> (string, pyval) dict" where
  "finding_json f =
     [(''gate'', PStr (f_gate f)), (''check_id'', PStr (f_check_id f)),
      (''capability_id'', opt_pyval (f_capability_id f)), (''file'', opt_pyval (f_file f)),
      (''line'', case f_line f of None \<Rightarrow> PNone | Some n \<Rightarrow> PInt n),
      (''finding_shape'', PStr (f_shape f)), (''detail'', PStr (f_text f))]"

definition finding_from_json :: "(string, pyval) dict \<Rightarrow> finding" where
  "finding_from_json d =
     new_finding (get_or d ''detail'' (PStr [])) (text_of (get0 d ''gate'')) (text_of (get0 d ''check_id''))
       (get0 d ''capability_id'') (get0 d ''file'') (get0 d ''line'') (get0 d ''finding_shape'') False"

text \<open>\<open>with_fields(**changes)\<close>.\<close>

definition with_fields :: "(string, pyval) dict \<Rightarrow> finding \<Rightarrow> finding" where
  "with_fields changes f =
     (let out = finding_from_json (dmerge (finding_json f) changes)
      in if ''check_id'' \<in> set (dkeys changes) then out
         else out\<lparr>f_check_defaulted := f_check_defaulted f\<rparr>)"

definition coerce_item :: "string \<Rightarrow> string \<Rightarrow> pyval \<Rightarrow> string \<Rightarrow> item \<Rightarrow> finding" where
  "coerce_item gate own shape named x = (case x of
       Typed f \<Rightarrow>
         (let c = (if named \<noteq> [] then named else own)
          in if f_check_defaulted f \<and> c \<noteq> f_check_id f
             then (with_fields [(''check_id'', PStr c)] f)\<lparr>f_check_defaulted := (named = [])\<rparr> else f)
     | Mapped d \<Rightarrow>
         (if ''detail'' \<in> set (dkeys d) then finding_from_json d
          else new_finding (PDict d) gate (if named \<noteq> [] then named else own) PNone PNone PNone shape (named = []))
     | Plain s \<Rightarrow> new_finding (PStr s) gate (if named \<noteq> [] then named else own) PNone PNone PNone shape (named = []))"

definition named_check :: "pyval list \<Rightarrow> nat \<Rightarrow> string" where
  "named_check per i = (if i < length per then normalise_check (text_of (per ! i)) else [])"

definition coerce_findings :: "string \<Rightarrow> string \<Rightarrow> pyval list \<Rightarrow> pyval \<Rightarrow> item list \<Rightarrow> finding list" where
  "coerce_findings gate default_check per shape items =
     (let own = normalise_check (if default_check \<noteq> [] then default_check else gate)
      in map (\<lambda>(i, x). coerce_item gate own shape (named_check per i) x) (enumerate 0 items))"

definition typed_findings :: "item list \<Rightarrow> (string, pyval) dict list" where
  "typed_findings items = List.map_filter (\<lambda>x. case x of Typed f \<Rightarrow> Some (finding_json f) | _ \<Rightarrow> None) items"

text \<open>\<open>from_payload(payload)\<close>.\<close>

definition from_payload :: "(string, pyval) dict \<Rightarrow> item list" where
  "from_payload p =
     (let rows = list_of (get0 p typed_key)
      in if rows \<noteq> [] then
           List.map_filter (\<lambda>r. case r of PDict d \<Rightarrow> Some (Typed (finding_from_json d)) | _ \<Rightarrow> None) rows
         else map Plain (filter (\<lambda>s. py_strip s \<noteq> []) (strs_of (get0 p ''findings''))))"

definition item_text :: "item \<Rightarrow> string" where
  "item_text x = (case x of Typed f \<Rightarrow> f_text f | Plain s \<Rightarrow> s | Mapped d \<Rightarrow> py_str (PDict d))"

section \<open>The capability log\<close>

definition log_step :: "(string, string list) dict \<Rightarrow> string \<Rightarrow> (string, string list) dict" where
  "log_step out raw = (case loads raw of
       Some (PDict rec) \<Rightarrow>
         (case (get0 rec ''test'', get0 rec ''capability'') of
            (PStr test, PStr cap) \<Rightarrow>
              (if test \<noteq> [] \<and> cap \<noteq> [] then
                 (let caps = (case dget out test of None \<Rightarrow> [] | Some cs \<Rightarrow> cs)
                  in dset test (if cap \<in> set caps then caps else caps @ [cap]) out)
               else out)
          | _ \<Rightarrow> out)
     | _ \<Rightarrow> out)"

text \<open>\<open>read_capability_log\<close>: the argument is the file's text, None when it cannot be read.\<close>

definition read_capability_log :: "string option \<Rightarrow> (string, string list) dict" where
  "read_capability_log content = (case content of
       None \<Rightarrow> []
     | Some s \<Rightarrow> foldl log_step [] (split_lines s))"

definition junit_row :: "string \<Rightarrow> (string, pyval) dict \<Rightarrow> finding list" where
  "junit_row gate row =
     (let txt = ''FAILED '' @ py_str (get0 row ''nodeid'') @ '' - '' @ py_str (get0 row ''message'');
          caps = filter truthy (list_of (get0 row ''capabilities''))
      in map (\<lambda>cap. new_finding (PStr txt) gate gate cap (get0 row ''file'') PNone (get0 row ''kind'') True)
           (if caps = [] then [PNone] else caps))"

definition junit_row_findings :: "(string, pyval) dict list \<Rightarrow> string \<Rightarrow> nat \<Rightarrow> finding list" where
  "junit_row_findings rows gate limit = take limit (concat (map (junit_row gate) rows))"

section \<open>The ratchet\<close>

definition capability_ids :: "item list \<Rightarrow> string list" where
  "capability_ids items = remdups (List.map_filter (\<lambda>x. case x of
       Typed f \<Rightarrow> (case f_capability_id f of Some c \<Rightarrow> (if c \<noteq> [] then Some c else None) | None \<Rightarrow> None)
     | _ \<Rightarrow> None) items)"

definition rework_targets :: "item list \<Rightarrow> string list \<Rightarrow> string list" where
  "rework_targets work_list cap_ids =
     (if work_list = [] then remdups cap_ids
      else (let named = filter (\<lambda>c. c \<in> set cap_ids) (capability_ids work_list)
            in if named \<noteq> [] then named else remdups cap_ids))"

section \<open>Lemmas\<close>

lemma finding_json_ok: "dict_ok (finding_json f)"
  by (simp add: finding_json_def)

lemma rework_targets_subset: "set (rework_targets w caps) \<subseteq> set caps"
  by (auto simp: rework_targets_def Let_def)

lemma rework_targets_nonempty: "caps \<noteq> [] \<Longrightarrow> rework_targets w caps \<noteq> []"
  by (auto simp: rework_targets_def Let_def)

text \<open>A finding a gate can emit: its fields are already normalised.\<close>

definition finding_wf :: "finding \<Rightarrow> bool" where
  "finding_wf f = (normalise_check (f_check_id f) = f_check_id f \<and> f_check_id f \<noteq> [] \<and>
     normalise_shape (f_shape f) = f_shape f \<and> f_capability_id f \<noteq> Some [] \<and> f_file f \<noteq> Some [])"

lemma finding_roundtrip:
  "finding_wf f \<Longrightarrow> finding_from_json (finding_json f) = f\<lparr>f_check_defaulted := False\<rparr>"
  by (cases f)
     (auto simp: finding_wf_def finding_from_json_def finding_json_def new_finding_def get_or_def
        opt_text_def opt_pyval_def line_of_def py_str_def split: option.splits)

end
