(* ===== verification/Authority.thy ===== *)
theory Authority
  imports PyVal
begin

text \<open>
  The role authority kernel (\<open>factory/build/authority.py\<close>): the five build
  roles, the lanes each may write, the authorisation of one write and the
  phase order.  The file system enters through \<open>resolve\<close>, the argument that
  stands for \<open>Path.resolve\<close>: it maps a path text to the list of segments of the
  resolved absolute path, None when the call raises \<open>OSError\<close>.
\<close>

section \<open>Roles, lanes and contracts\<close>

datatype build_role = COLLECTOR | CLONER | WRITER | TESTER | STORE_MANAGER

datatype lane_root = WORKSPACE | STORE

datatype agent_seat = SeatNone | SeatConsult | SeatManufacture

type_synonym lane = "lane_root \<times> string"
type_synonym path = "string list"

fun role_value :: "build_role \<Rightarrow> string" where
  "role_value COLLECTOR = ''COLLECTOR''"
| "role_value CLONER = ''CLONER''"
| "role_value WRITER = ''WRITER''"
| "role_value TESTER = ''TESTER''"
| "role_value STORE_MANAGER = ''STORE_MANAGER''"

definition build_phases :: "build_role list" where
  "build_phases = [COLLECTOR, CLONER, WRITER, TESTER, STORE_MANAGER]"

text \<open>\<open>BuildRole(s)\<close>; None is its \<open>ValueError\<close>.\<close>

definition role_of :: "string \<Rightarrow> build_role option" where
  "role_of s = find (\<lambda>r. role_value r = s) build_phases"

lemma role_of_value [simp]: "role_of (role_value r) = Some r"
  by (cases r) (simp_all add: role_of_def build_phases_def)

lemma role_of_Some: "role_of s = Some r \<longleftrightarrow> s = role_value r"
  using find_SomeD(1) [of "\<lambda>r. role_value r = s" build_phases r]
  by (auto simp: role_of_def [symmetric])

lemma build_phases_all [simp]: "r \<in> set build_phases"
  by (cases r) (simp_all add: build_phases_def)

text \<open>A contract without its prose (\<open>mandate\<close>), which no code path reads as a rule.\<close>

record role_contract =
  title :: string
  agent :: agent_seat
  http_routes :: "string list"
  write_lanes :: "lane list"
  gate_name :: string

definition collector_contract :: role_contract where
  "collector_contract =
    \<lparr> title = ''Binding surveyor'', agent = SeatConsult, http_routes = [''GET /v1/catalog''],
      write_lanes = [],
      gate_name = ''every referenced block id is dual-registered; gaps enumerated'' \<rparr>"

definition cloner_contract :: role_contract where
  "cloner_contract =
    \<lparr> title = ''Block stocker'', agent = SeatNone, http_routes = [''GET /v1/inventory''],
      write_lanes = [(WORKSPACE, ''vendor/**''), (WORKSPACE, ''kits/**''),
        (WORKSPACE, ''blocks.lock.json'')],
      gate_name = ''every vendored block imports with no network configured'' \<rparr>"

definition writer_lanes :: "lane list" where
  "writer_lanes =
    [(WORKSPACE, ''app/**''),
     (WORKSPACE, ''ui/**''),
     (WORKSPACE, ''README.md''),
     (WORKSPACE, ''requirements.txt''),
     (WORKSPACE, ''requirements-dev.txt''),
     (WORKSPACE, ''constraints.txt''),
     (WORKSPACE, ''pyproject.toml''),
     (WORKSPACE, ''Dockerfile''),
     (WORKSPACE, ''Procfile''),
     (WORKSPACE, ''.env.example''),
     (WORKSPACE, ''.dockerignore''),
     (WORKSPACE, ''deploy/contract.json''),
     (WORKSPACE, ''deploy/README.md''),
     (WORKSPACE, ''deploy/aws/task-definition.json''),
     (WORKSPACE, ''scripts/release_gate.py''),
     (WORKSPACE, ''scripts/acceptance.py''),
     (WORKSPACE, ''scripts/entrypoint.sh''),
     (WORKSPACE, ''scripts/backup.sh''),
     (WORKSPACE, ''scripts/bench.py''),
     (WORKSPACE, ''scripts/rollback.sh''),
     (WORKSPACE, ''scripts/factory_checks.py''),
     (WORKSPACE, ''.github/workflows/ci.yml''),
     (WORKSPACE, ''openapi.json''),
     (WORKSPACE, ''docs/openapi.json''),
     (WORKSPACE, ''docs/store_acceptance.json''),
     (WORKSPACE, ''alembic.ini''),
     (WORKSPACE, ''alembic/**''),
     (WORKSPACE, ''docs/build_provenance.json''),
     (WORKSPACE, ''docs/data_lifecycle.json''),
     (WORKSPACE, ''docs/deploy.json''),
     (WORKSPACE, ''docs/domain_acceptance.json''),
     (WORKSPACE, ''product-dna/**''),
     (WORKSPACE, ''docs/blueprint/**''),
     (WORKSPACE, ''docs/provenance/**''),
     (WORKSPACE, ''docs/certification/**''),
     (WORKSPACE, ''docs/edge_profile.json''),
     (WORKSPACE, ''docs/network_posture.json''),
     (WORKSPACE, ''docs/sbom.cdx.json''),
     (WORKSPACE, ''docs/permissions.json''),
     (WORKSPACE, ''docs/domain_pack.json''),
     (WORKSPACE, ''docs/package_identity.json''),
     (WORKSPACE, ''docs/coder_brief.md''),
     (WORKSPACE, ''docs/coder_session.log''),
     (WORKSPACE, ''docs/coder_control.json''),
     (WORKSPACE, ''docs/coder_receipt.json''),
     (WORKSPACE, ''docs/intake_blueprint.json''),
     (WORKSPACE, ''docs/declared_locale.json''),
     (WORKSPACE, ''frontend/**'')]"

definition writer_contract :: role_contract where
  "writer_contract =
    \<lparr> title = ''Platform manufacturer'', agent = SeatManufacture,
      http_routes = [''GET /v1/capabilities'', ''POST /v1/{capability}'', ''GET /v1/{capability}'',
        ''GET /v1/{capability}/{id}'', ''PUT /v1/{capability}/{id}'', ''DELETE /v1/{capability}/{id}'',
        ''POST /v1/work_queue'', ''POST /v1/work_queue/{id}/process'', ''GET /v1/work_queue''],
      write_lanes = writer_lanes,
      gate_name = ''workspace imports and type-checks clean'' \<rparr>"

definition tester_contract :: role_contract where
  "tester_contract =
    \<lparr> title = ''Acceptance inspector'', agent = SeatNone, http_routes = [''GET /v1/gates''],
      write_lanes = [(WORKSPACE, ''tests/**''), (WORKSPACE, ''conftest.py'')],
      gate_name = ''code-phase suite green (pytest -m 'not pilot')'' \<rparr>"

definition store_manager_contract :: role_contract where
  "store_manager_contract =
    \<lparr> title = ''Store registrar'', agent = SeatNone, http_routes = [''GET /v1/provenance''],
      write_lanes = [(STORE, ''block_registry/**''), (STORE, ''registry.json'')],
      gate_name = ''store_manager.assert_store_op_allowed passes for every op applied'' \<rparr>"

fun role_contracts :: "build_role \<Rightarrow> role_contract" where
  "role_contracts COLLECTOR = collector_contract"
| "role_contracts CLONER = cloner_contract"
| "role_contracts WRITER = writer_contract"
| "role_contracts TESTER = tester_contract"
| "role_contracts STORE_MANAGER = store_manager_contract"

definition may_write_anything :: "role_contract \<Rightarrow> bool" where
  "may_write_anything c = (write_lanes c \<noteq> [])"

definition forbidden_segments :: "string list" where
  "forbidden_segments = [''.git'', ''.hg'', ''.svn'']"

definition factory_residue :: "string list" where
  "factory_residue = [''build_ledger.jsonl'']"

definition sealed_after_cloner :: "string list" where
  "sealed_after_cloner = [''vendor/**'']"

section \<open>Path matching\<close>

text \<open>\<open>fnmatch.fnmatch\<close>: \<open>*\<close> crosses separators, \<open>?\<close> is one character, \<open>[...]\<close> a class with ranges
  and a leading \<open>!\<close> for its complement; a \<open>[\<close> that is never closed stands for itself.\<close>

fun class_mem :: "string \<Rightarrow> char \<Rightarrow> bool" where
  "class_mem (a # d # b # cs) c =
     (if d = CHR ''-'' then (a \<le> c \<and> c \<le> b) \<or> class_mem cs c
      else a = c \<or> class_mem (d # b # cs) c)"
| "class_mem (a # cs) c = (a = c \<or> class_mem cs c)"
| "class_mem [] c = False"

text \<open>The body of a class and the pattern after it, for the text after the opening bracket.\<close>

definition strip_bang :: "string \<Rightarrow> bool \<times> string" where
  "strip_bang p = (case p of c # r \<Rightarrow> (if c = CHR ''!'' then (True, r) else (False, p)) | [] \<Rightarrow> (False, p))"

definition strip_close :: "string \<Rightarrow> string \<times> string" where
  "strip_close p = (case p of c # r \<Rightarrow> (if c = CHR '']'' then ([c], r) else ([], p)) | [] \<Rightarrow> ([], p))"

definition class_split :: "string \<Rightarrow> (bool \<times> string \<times> string) option" where
  "class_split p =
     (let (neg, p1) = strip_bang p; (first, p2) = strip_close p1
      in (case dropWhile (\<lambda>c. c \<noteq> CHR '']'') p2 of
            [] \<Rightarrow> None
          | _ # r \<Rightarrow> Some (neg, first @ takeWhile (\<lambda>c. c \<noteq> CHR '']'') p2, r)))"

lemma class_split_length: "class_split p = Some (n, b, r) \<Longrightarrow> length r < length p"
proof -
  assume a: "class_split p = Some (n, b, r)"
  define p1 where "p1 = snd (strip_bang p)"
  define p2 where "p2 = snd (strip_close p1)"
  have l: "length p1 \<le> length p" "length p2 \<le> length p1"
    by (auto simp: p1_def p2_def strip_bang_def strip_close_def split: list.splits)
  obtain x where "dropWhile (\<lambda>c. c \<noteq> CHR '']'') p2 = x # r"
    using a by (auto simp: class_split_def p1_def p2_def split: list.splits prod.splits)
  then have "length r < length p2"
    using length_dropWhile_le [of "\<lambda>c. c \<noteq> CHR '']''" p2] by simp
  then show ?thesis using l by linarith
qed

function fnmatch :: "string \<Rightarrow> string \<Rightarrow> bool" where
  "fnmatch [] s = (s = [])"
| "fnmatch (p # ps) s =
     (if p = CHR ''*'' then fnmatch ps s \<or> (case s of [] \<Rightarrow> False | _ # cs \<Rightarrow> fnmatch (p # ps) cs)
      else (case s of [] \<Rightarrow> False
        | c # cs \<Rightarrow>
          (if p = CHR ''?'' then fnmatch ps cs
           else if p = CHR ''['' then
             (case class_split ps of
                None \<Rightarrow> c = p \<and> fnmatch ps cs
              | Some (neg, body, ps') \<Rightarrow> (class_mem body c \<noteq> neg) \<and> fnmatch ps' cs)
           else c = p \<and> fnmatch ps cs)))"
  by pat_completeness auto
termination
  by (relation "measure (\<lambda>(p, s). length p + length s)") (auto dest: class_split_length)

definition as_posix :: "path \<Rightarrow> string" where
  "as_posix rel = (if rel = [] then ''.'' else join ''/'' rel)"

definition path_name :: "path \<Rightarrow> string" where
  "path_name rel = (if rel = [] then [] else last rel)"

definition matches_lane :: "path \<Rightarrow> string \<Rightarrow> bool" where
  "matches_lane rel glob =
     (let posix = as_posix rel in
      if ends_with glob ''/**'' then
        (let prefix = take (length glob - 3) glob
         in posix = prefix \<or> starts_with posix (prefix @ ''/''))
      else fnmatch glob posix)"

text \<open>\<open>resolved.relative_to(base)\<close>; None is its \<open>ValueError\<close>.\<close>

fun relative_to :: "path \<Rightarrow> path \<Rightarrow> path option" where
  "relative_to p [] = Some p"
| "relative_to [] (b # bs) = None"
| "relative_to (a # p) (b # bs) = (if a = b then relative_to p bs else None)"

definition resolved_within :: "(string \<Rightarrow> path option) \<Rightarrow> string \<Rightarrow> string \<Rightarrow> path option" where
  "resolved_within resolve path root =
     (case (resolve path, resolve root) of
        (Some p, Some b) \<Rightarrow> relative_to p b
      | _ \<Rightarrow> None)"

section \<open>Authorising a write\<close>

datatype authority_error =
    ReadOnlyRole build_role
  | VersionControlDir build_role
  | FactoryResidue build_role string
  | SealedPath build_role string
  | OutsideLanes build_role "lane list"
  | PhaseOrder build_role "build_role list"

definition is_residue :: "path \<Rightarrow> bool" where
  "is_residue rel = (path_name rel \<in> set factory_residue \<or> as_posix rel \<in> set factory_residue)"

fun check_lanes ::
  "build_role \<Rightarrow> (string \<Rightarrow> path option) \<Rightarrow> string \<Rightarrow> (lane_root \<Rightarrow> string option) \<Rightarrow> string list \<Rightarrow>
   lane list \<Rightarrow> authority_error + path" where
  "check_lanes role resolve path roots sealed [] =
     Inl (OutsideLanes role (write_lanes (role_contracts role)))"
| "check_lanes role resolve path roots sealed ((lane_root, glob) # lanes) =
     (case roots lane_root of
        None \<Rightarrow> check_lanes role resolve path roots sealed lanes
      | Some base \<Rightarrow>
        (case resolved_within resolve path base of
           None \<Rightarrow> check_lanes role resolve path roots sealed lanes
         | Some rel \<Rightarrow>
           (if list_ex (\<lambda>seg. seg \<in> set forbidden_segments) rel then Inl (VersionControlDir role)
            else if is_residue rel then Inl (FactoryResidue role (path_name rel))
            else (case (if lane_root = WORKSPACE then find (matches_lane rel) sealed else None) of
                    Some sealed_glob \<Rightarrow> Inl (SealedPath role sealed_glob)
                  | None \<Rightarrow>
                    (if matches_lane rel glob
                     then (case resolve path of Some p \<Rightarrow> Inr p | None \<Rightarrow> Inr [])
                     else check_lanes role resolve path roots sealed lanes)))))"

definition write_roots :: "string \<Rightarrow> string option \<Rightarrow> lane_root \<Rightarrow> string option" where
  "write_roots workspace store_root r = (case r of WORKSPACE \<Rightarrow> Some workspace | STORE \<Rightarrow> store_root)"

definition assert_write_allowed ::
  "(string \<Rightarrow> path option) \<Rightarrow> build_role \<Rightarrow> string \<Rightarrow> string \<Rightarrow> string option \<Rightarrow> string list \<Rightarrow>
   authority_error + path" where
  "assert_write_allowed resolve role path workspace store_root sealed =
     (let contract = role_contracts role in
      if write_lanes contract = [] then Inl (ReadOnlyRole role)
      else check_lanes role resolve path (write_roots workspace store_root) sealed (write_lanes contract))"

section \<open>Phase order\<close>

definition phase_index :: "build_role \<Rightarrow> nat" where
  "phase_index role = length (takeWhile (\<lambda>p. p \<noteq> role) build_phases)"

definition assert_phase_order :: "build_role \<Rightarrow> build_role list \<Rightarrow> authority_error + unit" where
  "assert_phase_order role completed =
     (let missing = filter (\<lambda>p. p \<notin> set completed) (take (phase_index role) build_phases)
      in if missing \<noteq> [] then Inl (PhaseOrder role missing) else Inr ())"

section \<open>What the lanes allow\<close>

text \<open>The first segment of a slash-separated text.\<close>

definition head_seg :: "string \<Rightarrow> string" where
  "head_seg = takeWhile (\<lambda>c. c \<noteq> CHR ''/'')"

definition plain :: "string \<Rightarrow> bool" where
  "plain g = (CHR ''*'' \<notin> set g \<and> CHR ''?'' \<notin> set g \<and> CHR ''['' \<notin> set g)"

declare fnmatch.simps(2) [simp del]

lemma fnmatch_Cons_plain:
  "p \<noteq> CHR ''*'' \<Longrightarrow> p \<noteq> CHR ''?'' \<Longrightarrow> p \<noteq> CHR ''['' \<Longrightarrow>
   fnmatch (p # ps) s = (case s of [] \<Rightarrow> False | c # cs \<Rightarrow> c = p \<and> fnmatch ps cs)"
  by (subst fnmatch.simps) (simp split: list.splits)

lemma fnmatch_plain: "plain g \<Longrightarrow> fnmatch g s \<longleftrightarrow> s = g"
proof (induction g arbitrary: s)
  case (Cons p g)
  then have "fnmatch (p # g) s = (case s of [] \<Rightarrow> False | c # cs \<Rightarrow> c = p \<and> fnmatch g cs)"
    by (intro fnmatch_Cons_plain) (auto simp: plain_def)
  then show ?case using Cons by (auto simp: plain_def split: list.splits)
qed simp

lemma head_seg_append: "head_seg (p @ CHR ''/'' # r) = head_seg p"
  by (induction p) (auto simp: head_seg_def)

text \<open>A lane is well formed when its pattern is \<open>prefix/**\<close> or names one file.\<close>

definition lane_ok :: "string \<Rightarrow> bool" where
  "lane_ok g = (ends_with g ''/**'' \<or> plain g)"

definition lane_head :: "string \<Rightarrow> string" where
  "lane_head g = head_seg (if ends_with g ''/**'' then take (length g - 3) g else g)"

lemma matches_lane_head:
  assumes "lane_ok g" "matches_lane rel g"
  shows "head_seg (as_posix rel) = lane_head g"
  using assms head_seg_append
  by (auto simp: matches_lane_def starts_with_iff lane_head_def lane_ok_def fnmatch_plain Let_def split: if_splits)

definition role_heads :: "build_role \<Rightarrow> string list" where
  "role_heads r = remdups (map (lane_head \<circ> snd) (write_lanes (role_contracts r)))"

lemma all_roles: "list_all P build_phases \<Longrightarrow> P r"
  by (simp add: list_all_iff)

lemma lanes_ok: "\<forall>l \<in> set (write_lanes (role_contracts r)). lane_ok (snd l)"
proof -
  have "list_all (\<lambda>r. list_all (\<lambda>l. lane_ok (snd l)) (write_lanes (role_contracts r))) build_phases"
    by code_simp
  then have "list_all (\<lambda>l. lane_ok (snd l)) (write_lanes (role_contracts r))" by (rule all_roles)
  then show ?thesis by (simp add: list_all_iff)
qed

text \<open>Every role works under one root.\<close>

definition role_root :: "build_role \<Rightarrow> lane_root" where
  "role_root r = (if r = STORE_MANAGER then STORE else WORKSPACE)"

lemma lanes_root: "\<forall>l \<in> set (write_lanes (role_contracts r)). fst l = role_root r"
proof -
  have "list_all (\<lambda>r. list_all (\<lambda>l. fst l = role_root r) (write_lanes (role_contracts r))) build_phases"
    by code_simp
  then have "list_all (\<lambda>l. fst l = role_root r) (write_lanes (role_contracts r))" by (rule all_roles)
  then show ?thesis by (simp add: list_all_iff)
qed

lemma role_heads_disjoint:
  "r1 \<noteq> r2 \<Longrightarrow> h \<in> set (role_heads r1) \<Longrightarrow> h \<notin> set (role_heads r2)"
proof -
  have "list_all (\<lambda>r1. list_all (\<lambda>r2. r1 = r2 \<or> list_all (\<lambda>h. \<not> List.member (role_heads r2) h) (role_heads r1))
          build_phases) build_phases"
    by code_simp
  then show "r1 \<noteq> r2 \<Longrightarrow> h \<in> set (role_heads r1) \<Longrightarrow> h \<notin> set (role_heads r2)"
    using build_phases_all [of r1] build_phases_all [of r2]
    by (auto simp: list_all_iff simp del: build_phases_all)
qed

lemma head_seg_as_posix: "CHR ''/'' \<notin> set x \<Longrightarrow> head_seg (as_posix (x # rel)) = x"
proof -
  assume x: "CHR ''/'' \<notin> set x"
  then have "head_seg x = x" by (auto simp: head_seg_def takeWhile_eq_all_conv)
  then show ?thesis by (cases rel) (auto simp: as_posix_def head_seg_append)
qed

text \<open>What the authorisation promises, as one condition on the path relative to the role's root.\<close>

definition write_permitted :: "build_role \<Rightarrow> path \<Rightarrow> string list \<Rightarrow> bool" where
  "write_permitted role rel sealed =
     (\<not> list_ex (\<lambda>seg. seg \<in> set forbidden_segments) rel \<and> \<not> is_residue rel \<and>
      (role_root role = WORKSPACE \<longrightarrow> \<not> list_ex (matches_lane rel) sealed) \<and>
      list_ex (\<lambda>l. matches_lane rel (snd l)) (write_lanes (role_contracts role)))"

lemma find_matches_None: "(List.find P xs = None) = (\<not> list_ex P xs)"
  by (induction xs) auto

lemma check_lanes_outside:
  assumes "\<forall>l \<in> set lanes. fst l = lr"
    and "roots lr = None \<or> (\<exists>base. roots lr = Some base \<and> resolved_within resolve path base = None)"
  shows "check_lanes role resolve path roots sealed lanes = Inl (OutsideLanes role (write_lanes (role_contracts role)))"
  using assms by (induction lanes) auto

lemma check_lanes_inside:
  assumes "\<forall>l \<in> set lanes. fst l = lr" "roots lr = Some base"
    and "resolved_within resolve path base = Some rel"
  shows "check_lanes role resolve path roots sealed lanes = Inr p \<longleftrightarrow>
     resolve path = Some p \<and> \<not> list_ex (\<lambda>seg. seg \<in> set forbidden_segments) rel \<and> \<not> is_residue rel \<and>
     (lr = WORKSPACE \<longrightarrow> \<not> list_ex (matches_lane rel) sealed) \<and>
     list_ex (\<lambda>l. matches_lane rel (snd l)) lanes"
proof -
  obtain q where "resolve path = Some q"
    using assms(3) by (auto simp: resolved_within_def split: option.splits)
  then show ?thesis
    using assms(1)
  proof (induction lanes)
    case (Cons l lanes)
    obtain g where "l = (lr, g)" using Cons.prems by (cases l) auto
    have f: "list_ex (matches_lane rel) sealed \<longleftrightarrow> find (matches_lane rel) sealed \<noteq> None"
      by (simp add: find_matches_None)
    show ?case using Cons assms(2,3) \<open>l = (lr, g)\<close> unfolding f
      by (cases "find (matches_lane rel) sealed") auto
  qed simp
qed

lemma assert_write_allowed_iff:
  "assert_write_allowed resolve role path workspace store_root sealed = Inr p \<longleftrightarrow>
     (\<exists>base rel. write_roots workspace store_root (role_root role) = Some base \<and>
        resolved_within resolve path base = Some rel \<and> resolve path = Some p \<and>
        write_permitted role rel sealed)"
proof (cases "\<exists>base rel. write_roots workspace store_root (role_root role) = Some base \<and>
    resolved_within resolve path base = Some rel")
  case True
  then obtain base rel where b: "write_roots workspace store_root (role_root role) = Some base"
    "resolved_within resolve path base = Some rel" by blast
  show ?thesis
    using check_lanes_inside [where lanes = "write_lanes (role_contracts role)" and lr = "role_root role"
        and roots = "write_roots workspace store_root", OF lanes_root b]
    by (auto simp: assert_write_allowed_def Let_def b write_permitted_def)
next
  case False
  have n: "check_lanes role resolve path (write_roots workspace store_root) sealed (write_lanes (role_contracts role))
      = Inl (OutsideLanes role (write_lanes (role_contracts role)))"
    by (rule check_lanes_outside [OF lanes_root])
       (use False in \<open>cases "write_roots workspace store_root (role_root role)"; auto\<close>)
  show ?thesis using False by (simp add: assert_write_allowed_def Let_def n)
qed

lemma permitted_head:
  assumes "write_permitted role rel sealed"
  shows "head_seg (as_posix rel) \<in> set (role_heads role)"
proof -
  obtain l where l: "l \<in> set (write_lanes (role_contracts role))" "matches_lane rel (snd l)"
    using assms by (auto simp: write_permitted_def list_ex_iff)
  then have "head_seg (as_posix rel) = lane_head (snd l)"
    using lanes_ok [of role] by (intro matches_lane_head) auto
  then show ?thesis using l(1) by (auto simp: role_heads_def)
qed

lemma assert_phase_order_iff:
  "assert_phase_order role completed = Inr () \<longleftrightarrow>
     (\<forall>p \<in> set (take (phase_index role) build_phases). p \<in> set completed)"
  by (auto simp: assert_phase_order_def Let_def filter_empty_conv)

section \<open>Properties\<close>

lemma head_seg_eq:
  "rel = x # rest \<Longrightarrow> CHR ''/'' \<notin> set x \<Longrightarrow> write_permitted role rel sealed \<Longrightarrow> x \<in> set (role_heads role)"
  using permitted_head head_seg_as_posix by metis

lemma matches_vendor: "matches_lane (''vendor'' # rest) ''vendor/**''"
  by (cases rest) (simp_all add: matches_lane_def as_posix_def ends_with_def Let_def)

text \<open> The lanes of two different workspace roles never overlap: whatever the file system,
  whatever is sealed, no path is authorised for both, so no role can edit the evidence another
  role is judged by.\<close>

theorem lanes_never_shared:
  assumes "assert_write_allowed resolve r1 path workspace store1 sealed1 = Inr p"
    and "assert_write_allowed resolve r2 path workspace store2 sealed2 = Inr q"
    and "r1 \<noteq> STORE_MANAGER" "r2 \<noteq> STORE_MANAGER"
  shows "r1 = r2"
proof (rule ccontr)
  assume ne: "r1 \<noteq> r2"
  obtain rel where "resolved_within resolve path workspace = Some rel"
    "write_permitted r1 rel sealed1" "write_permitted r2 rel sealed2"
    using assms by (auto simp: assert_write_allowed_iff role_root_def write_roots_def)
  then show False using permitted_head role_heads_disjoint [OF ne] by blast
qed

definition demo_resolve :: "string \<Rightarrow> path option" where
  "demo_resolve s = Some (filter (\<lambda>x. x \<noteq> []) (split_on (CHR ''/'') s))"

theorem lanes_never_shared_witness:
  "assert_write_allowed demo_resolve WRITER ''/w/app/main.py'' ''/w'' None [] =
     Inr [''w'', ''app'', ''main.py''] \<and>
   list_all (\<lambda>r. \<not> is_ok (assert_write_allowed demo_resolve r ''/w/app/main.py'' ''/w'' None []))
     [COLLECTOR, CLONER, TESTER]"
proof -
  have a: "assert_write_allowed demo_resolve WRITER ''/w/app/main.py'' ''/w'' None [] =
     Inr [''w'', ''app'', ''main.py'']" by code_simp
  have "\<not> is_ok (assert_write_allowed demo_resolve r ''/w/app/main.py'' ''/w'' None [])"
    if "r \<noteq> WRITER" "r \<noteq> STORE_MANAGER" for r
    using lanes_never_shared [OF a, of r] that by (auto simp: result_simps)
  then show ?thesis using a by simp
qed

lemma resolved_within_resolves:
  "resolved_within resolve path root = Some rel \<Longrightarrow> \<exists>p. resolve path = Some p"
  by (auto simp: resolved_within_def split: option.splits)

lemma residue_iff: "is_residue rel \<longleftrightarrow> path_name rel = ''build_ledger.jsonl''"
proof -
  have "path_name rel = ''build_ledger.jsonl''" if "as_posix rel = ''build_ledger.jsonl''"
  proof -
    have "CHR ''/'' \<notin> set (as_posix rel)" unfolding that by simp
    then have "rel = [] \<or> (\<exists>x. rel = [x])"
      by (cases rel rule: list.exhaust; cases "tl rel") (auto simp: as_posix_def)
    then show ?thesis using that by (auto simp: as_posix_def path_name_def)
  qed
  then show ?thesis by (auto simp: is_residue_def factory_residue_def)
qed

text \<open> A write the authority lets through stays under the role's own root after
  resolution, outside version control, off the ledger, off every sealed path of the workspace
  and inside one of the role's lanes; and every such write is let through.\<close>

theorem write_authorised_iff:
  "is_ok (assert_write_allowed resolve role path workspace store_root sealed) \<longleftrightarrow>
     (\<exists>base rel. write_roots workspace store_root (role_root role) = Some base \<and>
        resolved_within resolve path base = Some rel \<and> set rel \<inter> set forbidden_segments = {} \<and>
        path_name rel \<noteq> ''build_ledger.jsonl'' \<and>
        (role \<noteq> STORE_MANAGER \<longrightarrow> (\<forall>g \<in> set sealed. \<not> matches_lane rel g)) \<and>
        (\<exists>g. (role_root role, g) \<in> set (write_lanes (role_contracts role)) \<and> matches_lane rel g))"
proof -
  have root: "role_root role = WORKSPACE \<longleftrightarrow> role \<noteq> STORE_MANAGER"
    by (simp add: role_root_def)
  have lanes: "list_ex (\<lambda>l. matches_lane rel (snd l)) (write_lanes (role_contracts role)) \<longleftrightarrow>
      (\<exists>g. (role_root role, g) \<in> set (write_lanes (role_contracts role)) \<and> matches_lane rel g)" for rel
    using lanes_root [of role] by (force simp: list_ex_iff)
  have forb: "\<not> list_ex (\<lambda>seg. seg \<in> set forbidden_segments) rel \<longleftrightarrow> set rel \<inter> set forbidden_segments = {}" for rel
    by (auto simp: list_ex_iff)
  have "is_ok (assert_write_allowed resolve role path workspace store_root sealed) \<longleftrightarrow>
     (\<exists>base rel. write_roots workspace store_root (role_root role) = Some base \<and>
        resolved_within resolve path base = Some rel \<and> write_permitted role rel sealed)"
    using resolved_within_resolves [of resolve path]
    by (fastforce simp: result_simps assert_write_allowed_iff)
  then show ?thesis
    by (simp only: write_permitted_def residue_iff root lanes forb) (auto simp: list_ex_iff)
qed

theorem write_authorised_iff_witness:
  "is_ok (assert_write_allowed demo_resolve CLONER ''/w/vendor/x'' ''/w'' None [''app/**'']) \<and>
   \<not> is_ok (assert_write_allowed demo_resolve CLONER ''/w/app/x'' ''/w'' None [''app/**''])"
proof -
  have "resolved_within demo_resolve ''/w/vendor/x'' ''/w'' = Some [''vendor'', ''x'']"
    "resolved_within demo_resolve ''/w/app/x'' ''/w'' = Some [''app'', ''x'']"
    "list_all (matches_lane [''vendor'', ''x'']) [''vendor/**''] \<and>
     \<not> matches_lane [''vendor'', ''x''] ''app/**'' \<and> matches_lane [''app'', ''x''] ''app/**''"
    by code_simp+
  then show ?thesis
    using write_authorised_iff [of demo_resolve CLONER "''/w/vendor/x''" "''/w''" None "[''app/**'']"]
      write_authorised_iff [of demo_resolve CLONER "''/w/app/x''" "''/w''" None "[''app/**'']"]
    by (auto simp: write_roots_def role_root_def forbidden_segments_def path_name_def
        cloner_contract_def)
qed

text \<open> The WRITER cannot touch the tests that judge it, the vendored blocks, the lock file or
  the test bootstrap, whatever the seal.\<close>

theorem writer_confined:
  assumes "resolved_within resolve path workspace = Some (seg # rest)"
    and "seg \<in> {''tests'', ''vendor'', ''kits'', ''blocks.lock.json'', ''conftest.py'', ''block_registry''}"
  shows "\<not> is_ok (assert_write_allowed resolve WRITER path workspace store_root sealed)"
proof
  assume "is_ok (assert_write_allowed resolve WRITER path workspace store_root sealed)"
  then have p: "write_permitted WRITER (seg # rest) sealed"
    using assms(1) by (auto simp: result_simps assert_write_allowed_iff role_root_def write_roots_def)
  have "CHR ''/'' \<notin> set seg" using assms(2) by auto
  then have "seg \<in> set (role_heads WRITER)" using head_seg_eq p by blast
  moreover have "list_all (\<lambda>s. \<not> List.member (role_heads WRITER) s)
      [''tests'', ''vendor'', ''kits'', ''blocks.lock.json'', ''conftest.py'', ''block_registry'']"
    by code_simp
  ultimately show False using assms(2) by (auto simp: list_all_iff)
qed

theorem writer_confined_witness:
  "resolved_within demo_resolve ''/w/tests/test_a.py'' ''/w'' = Some [''tests'', ''test_a.py''] \<and>
   \<not> is_ok (assert_write_allowed demo_resolve WRITER ''/w/tests/test_a.py'' ''/w'' None [])"
proof -
  have a: "resolved_within demo_resolve ''/w/tests/test_a.py'' ''/w'' = Some [''tests'', ''test_a.py'']"
    by code_simp
  then show ?thesis using writer_confined [OF a] by simp
qed

text \<open> Once CLONER's gate has passed and its tree is sealed, no workspace role writes below
  \<open>vendor/\<close> any more, CLONER included.\<close>

theorem vendor_sealed_after_cloner:
  assumes "resolved_within resolve path workspace = Some (''vendor'' # rest)" "role \<noteq> STORE_MANAGER"
  shows "\<not> is_ok (assert_write_allowed resolve role path workspace store_root sealed_after_cloner)"
proof
  assume "is_ok (assert_write_allowed resolve role path workspace store_root sealed_after_cloner)"
  then have "write_permitted role (''vendor'' # rest) sealed_after_cloner"
    using assms by (auto simp: result_simps assert_write_allowed_iff role_root_def write_roots_def)
  then show False using assms(2) matches_vendor
    by (simp add: write_permitted_def role_root_def sealed_after_cloner_def)
qed

theorem vendor_sealed_after_cloner_witness:
  "is_ok (assert_write_allowed demo_resolve CLONER ''/w/vendor/b.py'' ''/w'' None []) \<and>
   \<not> is_ok (assert_write_allowed demo_resolve CLONER ''/w/vendor/b.py'' ''/w'' None sealed_after_cloner)"
proof -
  have a: "resolved_within demo_resolve ''/w/vendor/b.py'' ''/w'' = Some (''vendor'' # [''b.py''])"
    by code_simp
  have b: "is_ok (assert_write_allowed demo_resolve CLONER ''/w/vendor/b.py'' ''/w'' None [])"
    by code_simp
  show ?thesis using vendor_sealed_after_cloner [OF a, of CLONER None] b by simp
qed

end
