(* ===== verification/EventLog.thy ===== *)
theory EventLog
  imports Prelude
begin

text \<open>
  The interface of an append-only log, as the components that read one rely on
  it: an append keeps the log's invariant and adds exactly one entry at the end,
  made from the input and the entries so far.  What a reader may conclude is
  proved once here; the build ledger interprets it on its file.
\<close>

locale event_log =
  fixes inv :: "'f \<Rightarrow> bool"
    and log :: "'f \<Rightarrow> 'e list"
    and app :: "'i \<Rightarrow> 'f \<Rightarrow> 'f"
    and mk :: "'i \<Rightarrow> 'e list \<Rightarrow> 'e"
    and fit :: "'i \<Rightarrow> bool"
  assumes app_inv: "inv f \<Longrightarrow> fit i \<Longrightarrow> inv (app i f)"
    and app_log: "inv f \<Longrightarrow> fit i \<Longrightarrow> log (app i f) = log f @ [mk i (log f)]"
begin

definition runs :: "'i list \<Rightarrow> 'f \<Rightarrow> 'f" where
  "runs ins f = foldl (\<lambda>f i. app i f) f ins"

definition made :: "'i list \<Rightarrow> 'e list \<Rightarrow> 'e list" where
  "made ins es = foldl (\<lambda>es i. es @ [mk i es]) es ins"

lemma made_Nil [simp]: "made [] es = es"
  by (simp add: made_def)

lemma made_snoc: "made (ins @ [i]) es = made ins es @ [mk i (made ins es)]"
  by (simp add: made_def)

lemma runs_log: "inv f \<Longrightarrow> list_all fit ins \<Longrightarrow> inv (runs ins f) \<and> log (runs ins f) = made ins (log f)"
  by (induction ins arbitrary: f) (auto simp: runs_def made_def app_inv app_log)

lemma made_extends: "\<exists>new. made ins es = es @ new \<and> length new = length ins"
proof (induction ins arbitrary: es)
  case (Cons i ins)
  obtain new where "made ins (es @ [mk i es]) = (es @ [mk i es]) @ new" "length new = length ins"
    using Cons.IH by blast
  then show ?case by (auto simp: made_def)
qed (simp add: made_def)

text \<open>The past never changes, and every append is kept.\<close>

lemma history_kept:
  "inv f \<Longrightarrow> list_all fit ins \<Longrightarrow>
   take (length (log f)) (log (runs ins f)) = log f \<and> length (log (runs ins f)) = length (log f) + length ins"
  using runs_log made_extends [of ins "log f"] by fastforce

text \<open>A reader that folds over the log can be updated with the new entry alone.\<close>

lemma fold_step: "inv f \<Longrightarrow> fit i \<Longrightarrow> foldl g a (log (app i f)) = g (foldl g a (log f)) (mk i (log f))"
  by (simp add: app_log)

end

text \<open>A log whose entries are numbered upwards.\<close>

locale numbered_log = event_log inv log app mk fit
  for inv :: "'f \<Rightarrow> bool" and log :: "'f \<Rightarrow> 'e list" and app :: "'i \<Rightarrow> 'f \<Rightarrow> 'f"
    and mk :: "'i \<Rightarrow> 'e list \<Rightarrow> 'e" and fit :: "'i \<Rightarrow> bool" +
  fixes num :: "'e \<Rightarrow> int"
  assumes mk_num: "e \<in> set es \<Longrightarrow> num e < num (mk i es)"
begin

lemma made_sorted: "sorted_wrt (\<lambda>a b. num a < num b) es \<Longrightarrow> sorted_wrt (\<lambda>a b. num a < num b) (made ins es)"
  by (induction ins arbitrary: es) (auto simp: made_def sorted_wrt_append mk_num)

lemma runs_sorted:
  "inv f \<Longrightarrow> list_all fit ins \<Longrightarrow> sorted_wrt (\<lambda>a b. num a < num b) (log f) \<Longrightarrow>
   sorted_wrt (\<lambda>a b. num a < num b) (log (runs ins f))"
  using runs_log made_sorted by simp

end

end
