(* ===== verification/Ledger.thy ===== *)
theory Ledger
  imports PyConv Authority EventLog
begin

text \<open>
  The build ledger (\<open>factory/build/ledger.py\<close>): the append-only JSONL record of
  one manufacturing run.  The file is its text, None when it does not exist;
  reading parses it line by line with the codec of theory Json, appending
  writes one line.  The derived state (completed roles, the run's verdict, the
  pilot cycle, rework counts) is computed from the event list as the code
  computes it.  The clock is an argument.  Locks, \<open>fsync\<close> and log messages have
  no counterpart; the owner-readonly bit of \<open>protect\<close> is part of the state.
\<close>

section \<open>Events\<close>

datatype event_kind =
    RUN_STARTED | PHASE_STARTED | GATE_PASSED | GATE_FAILED | PHASE_ABORTED | REWORK
  | CLONE | NOTE | PILOT_OPENED | RUN_SUCCEEDED | RUN_FAILED

fun kind_value :: "event_kind \<Rightarrow> string" where
  "kind_value RUN_STARTED = ''RUN_STARTED''"
| "kind_value PHASE_STARTED = ''PHASE_STARTED''"
| "kind_value GATE_PASSED = ''GATE_PASSED''"
| "kind_value GATE_FAILED = ''GATE_FAILED''"
| "kind_value PHASE_ABORTED = ''PHASE_ABORTED''"
| "kind_value REWORK = ''REWORK''"
| "kind_value CLONE = ''CLONE''"
| "kind_value NOTE = ''NOTE''"
| "kind_value PILOT_OPENED = ''PILOT_OPENED''"
| "kind_value RUN_SUCCEEDED = ''RUN_SUCCEEDED''"
| "kind_value RUN_FAILED = ''RUN_FAILED''"

definition event_kinds :: "event_kind list" where
  "event_kinds = [RUN_STARTED, PHASE_STARTED, GATE_PASSED, GATE_FAILED, PHASE_ABORTED, REWORK,
     CLONE, NOTE, PILOT_OPENED, RUN_SUCCEEDED, RUN_FAILED]"

definition kind_of :: "string \<Rightarrow> event_kind option" where
  "kind_of s = find (\<lambda>k. kind_value k = s) event_kinds"

lemma kind_of_value [simp]: "kind_of (kind_value k) = Some k"
  by (cases k) (simp_all add: kind_of_def event_kinds_def)

text \<open>Kinds that end a phase.\<close>

definition terminal_kinds :: "event_kind list" where
  "terminal_kinds = [GATE_PASSED, GATE_FAILED, PHASE_ABORTED]"

record build_event =
  seq :: int
  ts :: string
  kind :: event_kind
  role :: "build_role option"
  detail :: string
  payload :: "(string, pyval) dict"

definition to_json :: "build_event \<Rightarrow> pyval" where
  "to_json e = PDict
     [(''seq'', PInt (seq e)), (''ts'', PStr (ts e)), (''kind'', PStr (kind_value (kind e))),
      (''role'', case role e of None \<Rightarrow> PNone | Some r \<Rightarrow> PStr (role_value r)),
      (''detail'', PStr (detail e)), (''payload'', PDict (payload e))]"

definition role_from :: "pyval \<Rightarrow> py_exn + build_role option" where
  "role_from v = (if \<not> truthy v then Inr None
     else case v of
       PStr s \<Rightarrow> (case role_of s of Some r \<Rightarrow> Inr (Some r) | None \<Rightarrow> Inl ValueError)
     | _ \<Rightarrow> Inl ValueError)"

definition kind_from :: "pyval option \<Rightarrow> py_exn + event_kind" where
  "kind_from v = (case v of
       None \<Rightarrow> Inl KeyError
     | Some (PStr s) \<Rightarrow> (case kind_of s of Some k \<Rightarrow> Inr k | None \<Rightarrow> Inl ValueError)
     | Some _ \<Rightarrow> Inl ValueError)"

text \<open>\<open>BuildEvent.from_json\<close> after the reader has put a usable \<open>seq\<close> in place.\<close>

definition from_json :: "(string, pyval) dict \<Rightarrow> int \<Rightarrow> py_exn + build_event" where
  "from_json raw sq =
     bind_result (kind_from (dget raw ''kind'')) (\<lambda>k.
     bind_result (role_from (get0 raw ''role'')) (\<lambda>r.
     map_result (\<lambda>p. \<lparr> seq = sq, ts = py_str (get_or raw ''ts'' (PStr [])), kind = k, role = r,
         detail = py_str (get_or raw ''detail'' (PStr [])), payload = p \<rparr>)
       (py_dict (py_or (get0 raw ''payload'') (PDict [])))))"

definition platform_id_key :: string where "platform_id_key = ''platform_id''"
definition platform_branch_key :: string where "platform_branch_key = ''platform_branch''"
definition inputs_rebased_key :: string where "inputs_rebased_key = ''inputs_rebased''"
definition quarantine_payload_key :: string where "quarantine_payload_key = ''ledger_quarantine''"
definition ledger_external_note_quarantined :: string where
  "ledger_external_note_quarantined = ''LEDGER_EXTERNAL_NOTE_QUARANTINED''"
definition ledger_schema :: string where "ledger_schema = ''build_ledger.v1''"

text \<open>\<open>_coerce_seq\<close>: a positive seq, None when absent or unusable; an infinite float escapes
  as \<open>OverflowError\<close>, which no caller catches.\<close>

definition coerce_seq :: "(string, pyval) dict \<Rightarrow> py_exn + int option" where
  "coerce_seq raw = (case dget raw ''seq'' of
       None \<Rightarrow> Inr None
     | Some v \<Rightarrow>
        (if v = PNone \<or> v = PStr [] then Inr None
         else case py_int v of
           Inl e \<Rightarrow> (if e = TypeError \<or> e = ValueError then Inr None else Inl e)
         | Inr n \<Rightarrow> Inr (if n > 0 then Some n else None)))"

definition is_external_note :: "(string, pyval) dict \<Rightarrow> bool" where
  "is_external_note raw = (py_str (py_or (get0 raw ''kind'') (PStr [])) = ''NOTE'')"

definition quarantine_external_note :: "(string, pyval) dict \<Rightarrow> nat \<Rightarrow> py_exn + build_event" where
  "quarantine_external_note raw lineno =
     map_result (\<lambda>p.
        \<lparr> seq = 0, ts = py_str (get_or raw ''ts'' (PStr [])), kind = NOTE,
          role = (case role_from (get0 raw ''role'') of Inr r \<Rightarrow> r | Inl e \<Rightarrow> None),
          detail = py_str (get_or raw ''detail'' (PStr [])),
          payload = dset ''ledger_line'' (PInt (int lineno))
            (dset quarantine_payload_key (PStr ledger_external_note_quarantined) p) \<rparr>)
       (py_dict (py_or (get0 raw ''payload'') (PDict [])))"

definition event_from_raw :: "pyval \<Rightarrow> nat \<Rightarrow> py_exn + build_event" where
  "event_from_raw v lineno = (case v of
       PDict raw \<Rightarrow>
         bind_result (coerce_seq raw) (\<lambda>sq. case sq of
             None \<Rightarrow> (if is_external_note raw then quarantine_external_note raw lineno else Inl KeyError)
           | Some n \<Rightarrow> from_json raw n)
     | _ \<Rightarrow> Inl TypeError)"

section \<open>The ledger file\<close>

datatype ledger_exn = LedgerError nat | Uncaught py_exn | NotResumable string string

record ledger_file =
  contents :: "string option"
  read_only :: bool
  protect_depth :: int

definition no_ledger :: ledger_file where
  "no_ledger = \<lparr> contents = None, read_only = False, protect_depth = 0 \<rparr>"

abbreviation newline :: char where "newline \<equiv> CHR 0x0A"

text \<open>Text mode reads \<open>\r\n\<close> and \<open>\r\<close> as a line end.\<close>

fun universal_newlines :: "string \<Rightarrow> string" where
  "universal_newlines [] = []"
| "universal_newlines [c] = (if c = CHR 0x0D then [newline] else [c])"
| "universal_newlines (c # d # cs) =
     (if c = CHR 0x0D then newline # (if d = newline then universal_newlines cs else universal_newlines (d # cs))
      else c # universal_newlines (d # cs))"

definition numbered :: "nat \<Rightarrow> string list \<Rightarrow> (nat \<times> string) list" where
  "numbered k ls = filter (\<lambda>p. snd p \<noteq> []) (map (map_prod id py_strip) (enumerate k ls))"

definition physical_lines :: "string \<Rightarrow> (nat \<times> string) list" where
  "physical_lines s = numbered 1 (split_on newline (universal_newlines s))"

text \<open>An unparsable line is skipped when it is the last one, an error otherwise.\<close>

fun read_lines :: "nat \<Rightarrow> (nat \<times> string) list \<Rightarrow> ledger_exn + build_event list" where
  "read_lines last_lineno [] = Inr []"
| "read_lines last_lineno ((lineno, line) # ls) =
     (case loads line of
        None \<Rightarrow> (if lineno = last_lineno then read_lines last_lineno ls else Inl (LedgerError lineno))
      | Some raw \<Rightarrow>
        (case event_from_raw raw lineno of
           Inl e \<Rightarrow> (if e \<in> {ValueError, KeyError, TypeError} then Inl (LedgerError lineno) else Inl (Uncaught e))
         | Inr ev \<Rightarrow> map_result ((#) ev) (read_lines last_lineno ls)))"

definition events :: "ledger_file \<Rightarrow> ledger_exn + build_event list" where
  "events f = (case contents f of
       None \<Rightarrow> Inr []
     | Some s \<Rightarrow> (let physical = physical_lines s
                 in read_lines (if physical = [] then 0 else fst (last physical)) physical))"

definition next_seq :: "build_event list \<Rightarrow> int" where
  "next_seq evs = (let seqs = filter (\<lambda>n. n > 0) (map seq evs)
     in if seqs = [] then 1 else foldr max seqs 0 + 1)"

definition quarantined_notes :: "build_event list \<Rightarrow> nat" where
  "quarantined_notes evs = length (filter (\<lambda>e. get0 (payload e) quarantine_payload_key
     = PStr ledger_external_note_quarantined) evs)"

definition chmod_readonly :: "ledger_file \<Rightarrow> ledger_file" where
  "chmod_readonly f = (if contents f = None then f else f\<lparr>read_only := True\<rparr>)"

definition chmod_writable :: "ledger_file \<Rightarrow> ledger_file" where
  "chmod_writable f = (if contents f = None then f else f\<lparr>read_only := False\<rparr>)"

definition write_line :: "string \<Rightarrow> ledger_file \<Rightarrow> ledger_file" where
  "write_line line f = (case contents f of
       None \<Rightarrow> f\<lparr>contents := Some line, read_only := False\<rparr>
     | Some s \<Rightarrow> f\<lparr>contents := Some (s @ line)\<rparr>)"

definition append_event ::
  "string \<Rightarrow> event_kind \<Rightarrow> build_role option \<Rightarrow> string \<Rightarrow> (string, pyval) dict \<Rightarrow> ledger_file \<Rightarrow>
   ledger_exn + build_event \<times> ledger_file" where
  "append_event now k r d p f =
     bind_result (events f) (\<lambda>evs.
       let event = \<lparr> seq = next_seq evs, ts = now, kind = k, role = r, detail = d, payload = p \<rparr>;
           line = dumps (to_json event) @ [newline];
           f1 = write_line line (chmod_writable f);
           f2 = (if protect_depth f1 \<noteq> 0 then chmod_readonly f1 else f1)
       in Inr (event, f2))"

definition protect_enter :: "ledger_file \<Rightarrow> ledger_file" where
  "protect_enter f = chmod_readonly (f\<lparr>protect_depth := protect_depth f + 1\<rparr>)"

definition protect_exit :: "ledger_file \<Rightarrow> ledger_file" where
  "protect_exit f = (let g = f\<lparr>protect_depth := protect_depth f - 1\<rparr>
     in if protect_depth g \<le> 0 then chmod_writable g else g)"

section \<open>The writers of typed events\<close>

definition start_run :: "string \<Rightarrow> string \<Rightarrow> string \<Rightarrow> ledger_file \<Rightarrow> ledger_exn + build_event \<times> ledger_file" where
  "start_run now product_id inputs =
     append_event now RUN_STARTED None (''build of '' @ product_id)
       [(''schema'', PStr ledger_schema), (''product_id'', PStr product_id), (''inputs_hash'', PStr inputs)]"

definition is_rebase :: "build_event \<Rightarrow> bool" where
  "is_rebase e = (kind e = NOTE \<and> truthy (get0 (payload e) inputs_rebased_key))"

definition nonempty :: "string \<Rightarrow> string option" where
  "nonempty s = (if s = [] then None else Some s)"

definition event_inputs_hash :: "build_event \<Rightarrow> string" where
  "event_inputs_hash e = py_str (py_or (get0 (payload e) ''inputs_hash'') (PStr []))"

definition inputs_hash_step :: "string option \<Rightarrow> build_event \<Rightarrow> string option" where
  "inputs_hash_step current e =
     (if kind e = RUN_STARTED \<and> current = None then nonempty (event_inputs_hash e)
      else if is_rebase e then
        (case nonempty (event_inputs_hash e) of Some h \<Rightarrow> Some h | None \<Rightarrow> current)
      else current)"

definition inputs_hash :: "build_event list \<Rightarrow> string option" where
  "inputs_hash = foldl inputs_hash_step None"

definition rebase_inputs :: "string \<Rightarrow> string \<Rightarrow> string \<Rightarrow> ledger_file \<Rightarrow> ledger_exn + build_event \<times> ledger_file" where
  "rebase_inputs now new_hash reason f =
     bind_result (events f) (\<lambda>evs.
       append_event now NOTE None (''INPUTS REBASED: '' @ reason)
         [(inputs_rebased_key, PBool True), (''inputs_hash'', PStr new_hash),
          (''previous_inputs_hash'', case inputs_hash evs of None \<Rightarrow> PNone | Some h \<Rightarrow> PStr h),
          (''reason'', PStr reason)] f)"

definition open_pilot_cycle :: "string \<Rightarrow> string \<Rightarrow> bool \<Rightarrow> ledger_file \<Rightarrow> ledger_exn + build_event \<times> ledger_file" where
  "open_pilot_cycle now reason reopen_writer =
     append_event now PILOT_OPENED None reason
       [(''cycle'', PStr ''pilot''), (''reopen_writer'', PBool reopen_writer)]"

definition record_clone ::
  "string \<Rightarrow> string \<Rightarrow> string \<Rightarrow> string \<Rightarrow> string \<Rightarrow> ledger_file \<Rightarrow> ledger_exn + build_event \<times> ledger_file" where
  "record_clone now block_id source_commit store_repo vendored_path =
     append_event now CLONE (Some CLONER) (''cloned '' @ block_id @ ''@'' @ take 12 source_commit)
       [(''block_id'', PStr block_id), (''source_commit'', PStr source_commit),
        (''store_repo'', PStr store_repo), (''vendored_path'', PStr vendored_path)]"

section \<open>Derived state\<close>

type_synonym phase_state = "(build_role, event_kind) dict"

text \<open>The roles a reopening REWORK names; a value that is no role is skipped, a payload that
  cannot be iterated raises \<open>TypeError\<close>.\<close>

definition reopens :: "build_event \<Rightarrow> bool" where
  "reopens e = (kind e = REWORK \<and> truthy (get0 (payload e) ''reopen''))"

definition reopen_roles :: "build_event \<Rightarrow> py_exn + build_role list" where
  "reopen_roles e =
     map_result (List.map_filter (\<lambda>v. case v of PStr s \<Rightarrow> role_of s | _ \<Rightarrow> None))
       (py_iter (get0 (payload e) ''reopen''))"

definition is_verdict :: "build_event \<Rightarrow> bool" where
  "is_verdict e = (kind e = PHASE_STARTED \<or> kind e \<in> set terminal_kinds)"

definition phase_step :: "phase_state \<Rightarrow> build_event \<Rightarrow> py_exn + phase_state" where
  "phase_step st e =
     (if kind e = PILOT_OPENED then
        (let st1 = dpop STORE_MANAGER (dpop TESTER st)
         in Inr (if truthy (get0 (payload e) ''reopen_writer'') then dpop WRITER st1 else st1))
      else if is_rebase e then Inr []
      else if reopens e then map_result (\<lambda>rs. foldl (\<lambda>s r. dpop r s) st rs) (reopen_roles e)
      else case role e of
        None \<Rightarrow> Inr st
      | Some r \<Rightarrow> Inr (if is_verdict e then dset r (kind e) st else st))"

fun phase_states :: "phase_state \<Rightarrow> build_event list \<Rightarrow> py_exn + phase_state" where
  "phase_states st [] = Inr st"
| "phase_states st (e # es) = bind_result (phase_step st e) (\<lambda>st'. phase_states st' es)"

definition completed_roles :: "build_event list \<Rightarrow> py_exn + build_role list" where
  "completed_roles evs =
     map_result (\<lambda>st. map fst (filter (\<lambda>p. snd p = GATE_PASSED) st)) (phase_states [] evs)"

definition interrupted_step :: "phase_state \<Rightarrow> build_event \<Rightarrow> phase_state" where
  "interrupted_step st e = (case role e of
       None \<Rightarrow> st
     | Some r \<Rightarrow> (if is_verdict e then dset r (kind e) st else st))"

definition interrupted_role :: "build_event list \<Rightarrow> build_role option" where
  "interrupted_role evs =
     map_option fst (find (\<lambda>p. snd p = PHASE_STARTED) (foldl interrupted_step [] evs))"

definition resume_point :: "build_event list \<Rightarrow> py_exn + build_role option" where
  "resume_point evs = map_result (\<lambda>done. find (\<lambda>p. p \<notin> set done) build_phases) (completed_roles evs)"

definition assert_resumable :: "build_event list \<Rightarrow> string \<Rightarrow> ledger_exn + unit" where
  "assert_resumable evs supplied = (case inputs_hash evs of
       None \<Rightarrow> Inr ()
     | Some recorded \<Rightarrow> (if recorded \<noteq> supplied
         then Inl (NotResumable (take 12 recorded) (take 12 supplied)) else Inr ()))"

definition clone_step :: "(string, (string, pyval) dict) dict \<Rightarrow> build_event \<Rightarrow> (string, (string, pyval) dict) dict" where
  "clone_step latest e =
     (if kind e = CLONE then
        (let bid = py_str (py_or (get0 (payload e) ''block_id'') (PStr []))
         in if bid \<noteq> [] then dset bid (dset ''ts'' (PStr (ts e)) (payload e)) latest else latest)
      else latest)"

definition clones :: "build_event list \<Rightarrow> (string, pyval) dict list" where
  "clones evs = map snd (sort_key fst (foldl clone_step [] evs))"

definition terminal_step :: "build_event option \<Rightarrow> build_event \<Rightarrow> build_event option" where
  "terminal_step l e =
     (if kind e = RUN_SUCCEEDED \<or> kind e = RUN_FAILED then Some e
      else if kind e = PILOT_OPENED then None
      else if is_rebase e then None
      else if reopens e then None
      else l)"

definition terminal_event :: "build_event list \<Rightarrow> build_event option" where
  "terminal_event = foldl terminal_step None"

definition reopening_rework :: "build_event list \<Rightarrow> build_event option" where
  "reopening_rework evs = (if evs \<noteq> [] \<and> reopens (last evs) then Some (last evs) else None)"

definition succeeded :: "build_event list \<Rightarrow> bool" where
  "succeeded evs = (case terminal_event evs of None \<Rightarrow> False | Some e \<Rightarrow> kind e = RUN_SUCCEEDED)"

definition code_phase_succeeded :: "build_event list \<Rightarrow> bool" where
  "code_phase_succeeded evs = list_ex (\<lambda>e. kind e = RUN_SUCCEEDED) evs"

definition pilot_cycle_open :: "build_event list \<Rightarrow> bool" where
  "pilot_cycle_open evs =
     (case find_last (\<lambda>e. kind e = PILOT_OPENED) evs of
        None \<Rightarrow> False
      | Some lp \<Rightarrow> (case find_last (\<lambda>e. kind e = RUN_SUCCEEDED) evs of
          None \<Rightarrow> True
        | Some ls \<Rightarrow> seq lp > seq ls))"

definition pilot_ready :: "build_event list \<Rightarrow> bool" where
  "pilot_ready evs = (case terminal_event evs of
       None \<Rightarrow> False
     | Some e \<Rightarrow> kind e = RUN_SUCCEEDED \<and>
         (get0 (payload e) ''cycle'' = PStr ''pilot'' \<or> truthy (get0 (payload e) ''pilot_ready'')))"

definition rework_step :: "(string, nat) dict \<Rightarrow> build_event \<Rightarrow> (string, nat) dict" where
  "rework_step counts e = (case role e of
       Some r \<Rightarrow> (if kind e = REWORK
         then dset (role_value r) (case dget counts (role_value r) of None \<Rightarrow> 1 | Some n \<Rightarrow> n + 1) counts
         else counts)
     | None \<Rightarrow> counts)"

definition rework_counts :: "build_event list \<Rightarrow> (string, nat) dict" where
  "rework_counts = foldl rework_step []"

record ledger_summary =
  sum_events :: nat
  sum_started :: "string option"
  sum_last_event :: "string option"
  sum_inputs_hash :: "string option"
  sum_completed :: "string list"
  sum_resume :: "string option"
  sum_complete :: bool
  sum_rework :: "(string, nat) dict"
  sum_clones :: "(string, pyval) dict list"
  sum_quarantined :: nat
  sum_outcome :: "string option"

definition summary :: "build_event list \<Rightarrow> py_exn + ledger_summary" where
  "summary evs =
     bind_result (completed_roles evs) (\<lambda>done.
     map_result (\<lambda>resume. \<lparr>
        sum_events = length evs,
        sum_started = (case evs of [] \<Rightarrow> None | e # _ \<Rightarrow> Some (ts e)),
        sum_last_event = (if evs = [] then None else Some (ts (last evs))),
        sum_inputs_hash = inputs_hash evs,
        sum_completed = map role_value (filter (\<lambda>p. p \<in> set done) build_phases),
        sum_resume = map_option role_value resume,
        sum_complete = (resume = None),
        sum_rework = rework_counts evs,
        sum_clones = clones evs,
        sum_quarantined = quarantined_notes evs,
        sum_outcome = map_option (\<lambda>e. kind_value (kind e)) (terminal_event evs) \<rparr>)
       (resume_point evs))"

section \<open>One append, read back\<close>

lemma distinct_sort_key: "distinct (map f xs) \<Longrightarrow> distinct (map f (sort_key g xs))"
  by (simp add: distinct_map)

lemma get_or_sort_key: "dict_ok d \<Longrightarrow> dget (sort_key fst d) = dget d"
  using map_of_inject_set [of "sort_key fst d" d]
  by (simp add: distinct_sort_key)

definition canon_dict :: "(string, pyval) dict \<Rightarrow> (string, pyval) dict" where
  "canon_dict d = sort_key fst (map (map_prod id canon) d)"

lemma dget_map_canon: "dget (map (map_prod id canon) d) k = map_option canon (dget d k)"
  by (induction d) auto

lemma dict_ok_map_canon: "dict_ok (map (map_prod id canon) d) = dict_ok d"
  by (simp add: o_def)

lemma dget_canon_dict: "dict_ok d \<Longrightarrow> dget (canon_dict d) k = map_option canon (dget d k)"
  by (simp add: canon_dict_def get_or_sort_key dict_ok_map_canon dget_map_canon)

text \<open>What the reader returns for a written event: the payload's keys come back sorted.\<close>

definition stored :: "build_event \<Rightarrow> build_event" where
  "stored e = e\<lparr>payload := canon_dict (payload e)\<rparr>"

lemma truthy_PDict_canon [simp]: "truthy (PDict (canon_dict d)) = truthy (PDict d)"
  using set_empty [of "canon_dict d"] by (simp add: canon_dict_def)

lemma role_value_nonempty [simp]: "role_value r \<noteq> []"
  by (cases r) simp_all

lemma event_from_raw_to_json:
  assumes "seq e > 0"
  shows "event_from_raw (canon (to_json e)) n = Inr (stored e)"
proof -
  define d where "d = [(''seq'', PInt (seq e)), (''ts'', PStr (ts e)), (''kind'', PStr (kind_value (kind e))),
      (''role'', case role e of None \<Rightarrow> PNone | Some r \<Rightarrow> PStr (role_value r)),
      (''detail'', PStr (detail e)), (''payload'', PDict (payload e))]"
  have d: "canon (to_json e) = PDict (canon_dict d)"
    by (simp only: to_json_def d_def canon.simps canon_dict_def)
  have ok: "dict_ok d" by (simp add: d_def)
  have g: "dget (canon_dict d) ''seq'' = Some (PInt (seq e))"
    "dget (canon_dict d) ''ts'' = Some (PStr (ts e))"
    "dget (canon_dict d) ''kind'' = Some (PStr (kind_value (kind e)))"
    "dget (canon_dict d) ''role'' = Some (case role e of None \<Rightarrow> PNone | Some r \<Rightarrow> PStr (role_value r))"
    "dget (canon_dict d) ''detail'' = Some (PStr (detail e))"
    "dget (canon_dict d) ''payload'' = Some (PDict (canon_dict (payload e)))"
    by (simp_all add: dget_canon_dict [OF ok]) (simp_all add: d_def canon_dict_def split: option.splits)
  show ?thesis unfolding d
    using assms
    by (cases "role e")
       (simp_all add: event_from_raw_def coerce_seq_def g py_int_def from_json_def kind_from_def
         role_from_def py_str_def stored_def py_or_def py_dict_def)
qed

lemma universal_newlines_clean:
  "CHR 0x0D \<notin> set t \<Longrightarrow> universal_newlines t = t"
  by (induction t rule: universal_newlines.induct) auto

lemma universal_newlines_nl [simp]: "universal_newlines (newline # t) = newline # universal_newlines t"
  by (cases t) auto

lemma universal_newlines_append:
  "universal_newlines (s @ newline # t) = universal_newlines (s @ [newline]) @ universal_newlines t"
  by (induction s rule: universal_newlines.induct) auto

lemma universal_newlines_closed:
  "\<exists>u. universal_newlines (s @ [newline]) = u @ [newline]"
proof (induction s rule: universal_newlines.induct)
  case (3 c d cs)
  then show ?case by (auto intro: exI [of _ "_ # _"])
qed auto

lemma numbered_append:
  "numbered k (a @ b) = numbered k a @ numbered (k + length a) b"
  by (simp add: numbered_def enumerate_append_eq)

lemma enumerate_append: "enumerate k (a @ b) = enumerate k a @ enumerate (k + length a) b"
  by (simp add: enumerate_append_eq)

lemma py_strip_id:
  "s \<noteq> [] \<Longrightarrow> \<not> py_space (hd s) \<Longrightarrow> \<not> py_space (last s) \<Longrightarrow> py_strip s = s"
proof -
  assume a: "s \<noteq> []" "\<not> py_space (hd s)" "\<not> py_space (last s)"
  have "dropWhile py_space s = s" using a(1,2) by (cases s) auto
  moreover have "dropWhile py_space (rev s) = rev s" using a(1,3) by (cases s rule: rev_cases) auto
  ultimately show ?thesis by (simp add: py_strip_def)
qed

text \<open>A document line: the text of a written event.\<close>

definition event_line :: "build_event \<Rightarrow> string" where
  "event_line e = dumps (to_json e)"

lemma to_json_ok: "pv_ok (PDict (payload e)) \<Longrightarrow> pv_ok (to_json e)"
  by (simp add: to_json_def split: option.splits)

lemma event_line_clean:
  assumes "pv_ok (PDict (payload e))"
  shows "newline \<notin> set (event_line e)" "CHR 0x0D \<notin> set (event_line e)"
  using dumps_printable [OF to_json_ok [OF assms], folded event_line_def, of newline]
    dumps_printable [OF to_json_ok [OF assms], folded event_line_def, of "CHR 0x0D"]
  by (auto simp: printable_def)

lemma event_line_ends: "\<exists>m. event_line e = CHR ''{'' # m @ ''}''"
  by (simp add: event_line_def to_json_def)

lemma event_line_strip: "py_strip (event_line e) = event_line e" "event_line e \<noteq> []"
  using event_line_ends [of e] by (auto intro!: py_strip_id simp: py_space_def)

text \<open>A ledger no writer was interrupted on: every line is complete and readable.\<close>

definition closed_text :: "string \<Rightarrow> bool" where
  "closed_text s = (s = [] \<or> last s = newline)"

definition intact :: "ledger_file \<Rightarrow> bool" where
  "intact f = (case contents f of
       None \<Rightarrow> True
     | Some s \<Rightarrow> closed_text s \<and> list_all (\<lambda>p. loads (snd p) \<noteq> None) (physical_lines s))"

lemma py_strip_Nil [simp]: "py_strip [] = []"
  by (simp add: py_strip_def)

lemma numbered_Nil [simp]: "numbered k [[]] = []" "numbered k [] = []"
  by (simp_all add: numbered_def)

lemma physical_lines_after:
  assumes "closed_text s"
  shows "\<exists>n > 0. \<forall>t. physical_lines (s @ t) =
     physical_lines s @ numbered n (split_on newline (universal_newlines t))"
proof (cases "s = []")
  case True
  have "physical_lines [] = []" by (simp add: physical_lines_def)
  then show ?thesis using True by (intro exI [of _ 1]) (simp add: physical_lines_def)
next
  case False
  then obtain s0 where s0: "s = s0 @ [newline]"
    using assms by (auto simp: closed_text_def) (metis append_butlast_last_id)
  obtain u where u: "universal_newlines s = u @ [newline]"
    using universal_newlines_closed s0 by blast
  have a: "split_on newline (universal_newlines (s @ t)) =
      split_on newline u @ split_on newline (universal_newlines t)" for t
    using universal_newlines_append [of s0 t] u s0 by (simp add: split_on_sep)
  have b: "split_on newline (universal_newlines s) = split_on newline u @ [[]]"
    by (simp add: u split_on_sep)
  have "physical_lines s = numbered 1 (split_on newline u)"
    unfolding physical_lines_def b by (simp only: numbered_append numbered_Nil(1) append_Nil2)
  then show ?thesis
    by (intro exI [of _ "1 + length (split_on newline u)"])
       (simp add: physical_lines_def a numbered_append)
qed

lemma split_clean:
  assumes "newline \<notin> set l" "CHR 0x0D \<notin> set l"
  shows "split_on newline (universal_newlines (l @ newline # t)) = l # split_on newline (universal_newlines t)"
    and "split_on newline (universal_newlines l) = [l]"
proof -
  have "universal_newlines (l @ [newline]) = l @ [newline]" "universal_newlines l = l"
    using assms by (auto intro!: universal_newlines_clean)
  then show "split_on newline (universal_newlines (l @ newline # t)) = l # split_on newline (universal_newlines t)"
    "split_on newline (universal_newlines l) = [l]"
    using universal_newlines_append [where s = l and t = t] assms(1) by (simp_all add: split_on_append_sep split_on_none)
qed

lemma numbered_Cons:
  "numbered k (l # ls) = (if py_strip l = [] then [] else [(k, py_strip l)]) @ numbered (Suc k) ls"
  by (simp add: numbered_def)

lemma physical_lines_append:
  assumes "closed_text s" "newline \<notin> set l" "CHR 0x0D \<notin> set l" "py_strip l = l" "l \<noteq> []"
  shows "\<exists>n > 0. physical_lines (s @ l @ [newline]) = physical_lines s @ [(n, l)]"
proof -
  obtain n where "n > 0" "\<forall>t. physical_lines (s @ t) =
     physical_lines s @ numbered n (split_on newline (universal_newlines t))"
    using physical_lines_after [OF assms(1)] by blast
  then show ?thesis
    using split_clean(1) [OF assms(2,3), of "[]"] assms(4,5) by (auto simp: numbered_Cons)
qed

lemma read_lines_intact:
  "list_all (\<lambda>p. loads (snd p) \<noteq> None) ls \<Longrightarrow> read_lines k ls = read_lines j ls"
  by (induction k ls rule: read_lines.induct) (auto split: option.splits sum.splits)

lemma read_lines_append:
  "list_all (\<lambda>p. loads (snd p) \<noteq> None) ls \<Longrightarrow>
   read_lines k (ls @ ms) = bind_result (read_lines k ls) (\<lambda>evs. map_result ((@) evs) (read_lines k ms))"
proof (induction k ls rule: read_lines.induct)
  case (1 k)
  then show ?case by (cases "read_lines k ms") auto
next
  case (2 k n l ls)
  then show ?case
    by (cases "read_lines k ls"; cases "read_lines k ms") (auto split: option.splits sum.splits)
qed

lemma events_intact:
  "intact f \<Longrightarrow> contents f = Some s \<Longrightarrow> events f = read_lines 0 (physical_lines s)"
  by (auto simp: intact_def events_def Let_def intro: read_lines_intact)

lemma next_seq_pos: "next_seq evs > 0"
proof -
  have "foldr max xs (0 :: int) \<ge> 0" for xs by (induction xs) auto
  then show ?thesis by (simp add: next_seq_def Let_def add_nonneg_pos)
qed

lemma next_seq_greater: "e \<in> set evs \<Longrightarrow> seq e < next_seq evs"
proof -
  have m: "x \<in> set xs \<Longrightarrow> x \<le> foldr max xs (0 :: int)" for x xs by (induction xs) auto
  assume e: "e \<in> set evs"
  show ?thesis
  proof (cases "seq e > 0")
    case True
    then have "seq e \<in> set (filter (\<lambda>n. n > 0) (map seq evs))" using e by auto
    then show ?thesis using m by (fastforce simp: next_seq_def Let_def)
  next
    case False
    then show ?thesis using next_seq_pos [of evs] by linarith
  qed
qed

definition new_event :: "string \<Rightarrow> event_kind \<Rightarrow> build_role option \<Rightarrow> string \<Rightarrow> (string, pyval) dict \<Rightarrow>
    build_event list \<Rightarrow> build_event" where
  "new_event now k r d p evs = \<lparr> seq = next_seq evs, ts = now, kind = k, role = r, detail = d, payload = p \<rparr>"

text \<open>A written line reads back as its event, whatever the file says of protection.\<close>

lemma line_added:
  assumes "intact f" "events f = Inr evs" "pv_ok (PDict (payload e))" "seq e > 0"
    and "contents f' = Some ((case contents f of None \<Rightarrow> [] | Some s \<Rightarrow> s) @ event_line e @ [newline])"
  shows "intact f' \<and> events f' = Inr (evs @ [stored e])"
proof -
  define s where "s = (case contents f of None \<Rightarrow> [] | Some s \<Rightarrow> s)"
  have c': "contents f' = Some (s @ event_line e @ [newline])" using assms(5) by (simp add: s_def)
  have cs: "closed_text s" "list_all (\<lambda>p. loads (snd p) \<noteq> None) (physical_lines s)"
    using assms(1) by (auto simp: intact_def s_def closed_text_def physical_lines_def numbered_def split: option.splits)
  have ev: "read_lines 0 (physical_lines s) = Inr evs"
    using assms(1,2) events_intact [OF assms(1)]
    by (cases "contents f") (auto simp: s_def events_def physical_lines_def numbered_def)
  obtain n where n: "n > 0" "physical_lines (s @ event_line e @ [newline]) = physical_lines s @ [(n, event_line e)]"
    using physical_lines_append [OF cs(1)] event_line_clean [OF assms(3)] event_line_strip [of e] by blast
  have ld: "loads (event_line e) = Some (canon (to_json e))"
    unfolding event_line_def by (rule loads_dumps [OF to_json_ok [OF assms(3)]])
  have i: "intact f'" using cs(2) by (simp add: intact_def c' closed_text_def n ld)
  moreover have "events f' = Inr (evs @ [stored e])"
    using event_from_raw_to_json [OF assms(4), of n] events_intact [OF i c'] cs(2)
    by (simp add: n read_lines_append ev ld)
  ultimately show ?thesis by blast
qed

lemma append_event_intact:
  assumes "intact f" "events f = Inr evs" "pv_ok (PDict p)"
  shows "\<exists>f'. append_event now k r d p f = Inr (new_event now k r d p evs, f') \<and> intact f' \<and>
     events f' = Inr (evs @ [stored (new_event now k r d p evs)]) \<and> contents f' \<noteq> None \<and>
     protect_depth f' = protect_depth f \<and> read_only f' = (protect_depth f \<noteq> 0)"
proof -
  define e where "e = new_event now k r d p evs"
  define f1 where "f1 = write_line (event_line e @ [newline]) (chmod_writable f)"
  define f' where "f' = (if protect_depth f1 \<noteq> 0 then chmod_readonly f1 else f1)"
  have app: "append_event now k r d p f = Inr (e, f')"
    using assms(2) by (simp add: append_event_def Let_def e_def new_event_def f'_def f1_def event_line_def)
  have c': "contents f' = Some ((case contents f of None \<Rightarrow> [] | Some s \<Rightarrow> s) @ event_line e @ [newline])"
    by (simp add: f'_def f1_def write_line_def chmod_writable_def chmod_readonly_def split: option.splits)
  have "pv_ok (PDict (payload e))" "seq e > 0"
    using assms(3) next_seq_pos by (simp_all add: e_def new_event_def)
  from line_added [OF assms(1,2) this c']
  have "intact f'" "events f' = Inr (evs @ [stored e])" by blast+
  moreover have "protect_depth f' = protect_depth f" "read_only f' = (protect_depth f \<noteq> 0)"
    by (simp_all add: f'_def f1_def write_line_def chmod_writable_def chmod_readonly_def split: option.splits)
  ultimately show ?thesis using app c' by (simp add: e_def)
qed

section \<open>The ledger is an event log\<close>

type_synonym append_input = "string \<times> event_kind \<times> build_role option \<times> string \<times> (string, pyval) dict"

definition readable :: "ledger_file \<Rightarrow> bool" where
  "readable f = (intact f \<and> is_ok (events f))"

definition event_list :: "ledger_file \<Rightarrow> build_event list" where
  "event_list f = (case events f of Inr evs \<Rightarrow> evs | Inl _ \<Rightarrow> [])"

definition append_input :: "append_input \<Rightarrow> ledger_file \<Rightarrow> ledger_file" where
  "append_input i f = (case i of (now, k, r, d, p) \<Rightarrow>
     (case append_event now k r d p f of Inr (_, f') \<Rightarrow> f' | Inl _ \<Rightarrow> f))"

definition input_event :: "append_input \<Rightarrow> build_event list \<Rightarrow> build_event" where
  "input_event i evs = (case i of (now, k, r, d, p) \<Rightarrow> stored (new_event now k r d p evs))"

definition input_fit :: "append_input \<Rightarrow> bool" where
  "input_fit i = (case i of (now, k, r, d, p) \<Rightarrow> pv_ok (PDict p))"

lemma append_input_step:
  "readable f \<Longrightarrow> input_fit i \<Longrightarrow>
   readable (append_input i f) \<and> event_list (append_input i f) = event_list f @ [input_event i (event_list f)]"
proof -
  assume f: "readable f" and i: "input_fit i"
  obtain now k r d p where i': "i = (now, k, r, d, p)" by (cases i)
  obtain evs where evs: "intact f" "events f = Inr evs"
    using f by (auto simp: readable_def result_simps)
  have "pv_ok (PDict p)" using i i' by (simp add: input_fit_def)
  from append_event_intact [OF evs this, of now k r d] obtain f' where
    "append_event now k r d p f = Inr (new_event now k r d p evs, f')" "intact f'"
    "events f' = Inr (evs @ [stored (new_event now k r d p evs)])" by blast
  then show ?thesis
    by (simp add: readable_def event_list_def append_input_def input_event_def i' evs)
qed

interpretation ledger: numbered_log readable event_list append_input input_event input_fit seq
proof
  show "e \<in> set es \<Longrightarrow> seq e < seq (input_event i es)" for e es i
    by (cases i) (simp add: input_event_def stored_def new_event_def next_seq_greater)
qed (use append_input_step in auto)

lemma readable_no_ledger [simp]: "readable no_ledger" "event_list no_ledger = []"
  by (simp_all add: readable_def intact_def no_ledger_def events_def event_list_def)

section \<open>Verdicts per role\<close>

text \<open>The verdict of a role read backwards from the newest event: a reopening forgets it, the
  first verdict of the role found is its verdict.\<close>

definition forgets :: "build_event \<Rightarrow> build_role \<Rightarrow> bool" where
  "forgets e r =
     (if kind e = PILOT_OPENED then r = TESTER \<or> r = STORE_MANAGER \<or>
         (r = WRITER \<and> truthy (get0 (payload e) ''reopen_writer''))
      else is_rebase e \<or> (reopens e \<and> (\<exists>rs. reopen_roles e = Inr rs \<and> r \<in> set rs)))"

fun latest_verdict :: "build_role \<Rightarrow> build_event list \<Rightarrow> event_kind option" where
  "latest_verdict r [] = None"
| "latest_verdict r (e # older) =
     (if forgets e r then None
      else if role e = Some r \<and> is_verdict e \<and> \<not> reopens e then Some (kind e)
      else latest_verdict r older)"

lemma dget_pops: "dget (foldl (\<lambda>s r. dpop r s) st rs) r = (if r \<in> set rs then None else dget st r)"
  by (induction rs arbitrary: st) (auto simp: dict_simps)

lemma verdict_kinds: "is_verdict e \<Longrightarrow> kind e \<noteq> PILOT_OPENED \<and> kind e \<noteq> NOTE \<and> kind e \<noteq> REWORK"
  by (auto simp: is_verdict_def terminal_kinds_def)

lemma phase_step_dget:
  "phase_step st e = Inr st' \<Longrightarrow>
   dget st' r = (if forgets e r then None
     else if role e = Some r \<and> is_verdict e \<and> \<not> reopens e then Some (kind e) else dget st r)"
  by (auto simp: phase_step_def forgets_def Let_def dict_simps dget_pops result_simps is_rebase_def
      reopens_def verdict_kinds split: if_splits option.splits dest: verdict_kinds)

lemma phase_states_append:
  "phase_states st (es @ fs) = bind_result (phase_states st es) (\<lambda>st'. phase_states st' fs)"
  by (induction es arbitrary: st) (auto split: sum.splits simp: result_simps elim: bind_result.elims,
      (case_tac "phase_step st a"; simp)+)

lemma phase_states_latest:
  "phase_states [] evs = Inr st \<Longrightarrow> dget st r = latest_verdict r (rev evs)"
proof (induction evs arbitrary: st rule: rev_induct)
  case (snoc e evs)
  then obtain st0 where a: "phase_states [] evs = Inr st0" and b: "phase_step st0 e = Inr st"
    by (auto simp: phase_states_append result_simps)
  show ?case using phase_step_dget [OF b, of r] snoc.IH [OF a] by simp
qed simp

lemma phase_step_ok: "dict_ok st \<Longrightarrow> phase_step st e = Inr st' \<Longrightarrow> dict_ok st'"
proof -
  have pops: "dict_ok st \<Longrightarrow> dict_ok (foldl (\<lambda>s r. dpop r s) st rs)" for st :: phase_state and rs
    by (induction rs arbitrary: st) (auto simp: dict_simps)
  show "dict_ok st \<Longrightarrow> phase_step st e = Inr st' \<Longrightarrow> dict_ok st'"
    using pops by (auto simp: phase_step_def Let_def dict_simps result_simps split: if_splits option.splits)
qed

lemma phase_states_ok: "dict_ok st \<Longrightarrow> phase_states st evs = Inr st' \<Longrightarrow> dict_ok st'"
  by (induction evs arbitrary: st) (auto simp: result_simps dest: phase_step_ok)

lemma completed_roles_latest:
  "completed_roles evs = Inr done \<Longrightarrow> r \<in> set done \<longleftrightarrow> latest_verdict r (rev evs) = Some GATE_PASSED"
proof -
  assume "completed_roles evs = Inr done"
  then obtain st where st: "phase_states [] evs = Inr st"
    and d: "done = map fst (filter (\<lambda>p. snd p = GATE_PASSED) st)"
    by (auto simp: completed_roles_def result_simps)
  have "dict_ok st" using phase_states_ok [OF _ st] by simp
  then have "r \<in> set done \<longleftrightarrow> dget st r = Some GATE_PASSED"
    unfolding d by (force simp: image_iff dest: map_of_SomeD)
  then show ?thesis using phase_states_latest [OF st] by simp
qed

text \<open>The payload of every reopening REWORK can be iterated, as the runner writes it.\<close>

definition reopen_ok :: "build_event \<Rightarrow> bool" where
  "reopen_ok e = (reopens e \<longrightarrow> is_ok (reopen_roles e))"

lemma completed_roles_total: "list_all reopen_ok evs \<Longrightarrow> \<exists>done. completed_roles evs = Inr done"
proof -
  have step: "reopen_ok e \<Longrightarrow> \<exists>st'. phase_step st e = Inr st'" for e st
    by (cases "reopen_roles e") (auto simp: phase_step_def reopen_ok_def Let_def split: option.splits)
  have "list_all reopen_ok evs \<Longrightarrow> \<exists>st'. phase_states st evs = Inr st'" for st
    by (induction evs arbitrary: st) (use step in \<open>fastforce simp: result_simps\<close>)+
  then show "list_all reopen_ok evs \<Longrightarrow> \<exists>done. completed_roles evs = Inr done"
    unfolding completed_roles_def by (metis map_result.simps(2))
qed

section \<open>The run's verdict\<close>

definition ends_or_reopens :: "build_event \<Rightarrow> bool" where
  "ends_or_reopens e = (kind e = RUN_SUCCEEDED \<or> kind e = RUN_FAILED \<or> kind e = PILOT_OPENED \<or>
     is_rebase e \<or> reopens e)"

lemma terminal_event_iff:
  "terminal_event evs = Some e \<longleftrightarrow>
     (\<exists>pre post. evs = pre @ e # post \<and> kind e \<in> {RUN_SUCCEEDED, RUN_FAILED} \<and>
        list_all (\<lambda>x. \<not> ends_or_reopens x) post)"
proof (induction evs rule: rev_induct)
  case (snoc x evs)
  show ?case
  proof (cases "ends_or_reopens x")
    case True
    have "(\<exists>pre post. evs @ [x] = pre @ e # post \<and> kind e \<in> {RUN_SUCCEEDED, RUN_FAILED} \<and>
        list_all (\<lambda>x. \<not> ends_or_reopens x) post) \<longleftrightarrow> x = e \<and> kind e \<in> {RUN_SUCCEEDED, RUN_FAILED}"
      (is "?L \<longleftrightarrow> ?R")
    proof
      assume ?L
      then obtain pre post where a: "evs @ [x] = pre @ e # post" "kind e \<in> {RUN_SUCCEEDED, RUN_FAILED}"
        "list_all (\<lambda>x. \<not> ends_or_reopens x) post" by blast
      then show ?R using True by (cases post rule: rev_cases) auto
    next
      assume ?R
      then show ?L by (intro exI [of _ evs] exI [of _ "[]"]) simp
    qed
    moreover have "terminal_event (evs @ [x]) = Some e \<longleftrightarrow> x = e \<and> kind e \<in> {RUN_SUCCEEDED, RUN_FAILED}"
      using True by (auto simp: terminal_event_def terminal_step_def ends_or_reopens_def)
    ultimately show ?thesis by simp
  next
    case False
    have t: "terminal_event (evs @ [x]) = terminal_event evs"
      using False by (simp add: terminal_event_def terminal_step_def ends_or_reopens_def)
    have "(\<exists>pre post. evs @ [x] = pre @ e # post \<and> kind e \<in> {RUN_SUCCEEDED, RUN_FAILED} \<and>
        list_all (\<lambda>x. \<not> ends_or_reopens x) post) \<longleftrightarrow>
      (\<exists>pre post. evs = pre @ e # post \<and> kind e \<in> {RUN_SUCCEEDED, RUN_FAILED} \<and>
        list_all (\<lambda>x. \<not> ends_or_reopens x) post)" (is "?L \<longleftrightarrow> ?R")
    proof
      assume ?L
      then obtain pre post where a: "evs @ [x] = pre @ e # post" "kind e \<in> {RUN_SUCCEEDED, RUN_FAILED}"
        "list_all (\<lambda>x. \<not> ends_or_reopens x) post" by blast
      then have "post \<noteq> []" using False by (auto simp: ends_or_reopens_def)
      then show ?R using a by (cases post rule: rev_cases) auto
    next
      assume ?R
      then show ?L using False by force
    qed
    then show ?thesis using snoc t by simp
  qed
qed (simp add: terminal_event_def)

section \<open>Properties\<close>

lemma next_seq_counts:
  "map seq es = map int [1..<Suc (length es)] \<Longrightarrow> next_seq es = int (length es) + 1"
proof -
  have m: "a \<ge> 0 \<Longrightarrow> foldr max (map int [1..<Suc n]) a = max (int n) a" for a n
    by (induction n arbitrary: a) auto
  have f: "filter (\<lambda>n. n > 0) (map int [1..<Suc k]) = map int [1..<Suc k]" for k
    by (auto simp: filter_id_conv)
  show "map seq es = map int [1..<Suc (length es)] \<Longrightarrow> next_seq es = int (length es) + 1"
    unfolding next_seq_def Let_def by (cases es) (simp_all only: f m, simp_all)
qed

definition numbered_event :: "nat \<times> append_input \<Rightarrow> build_event" where
  "numbered_event x = (case x of (n, now, k, r, d, p) \<Rightarrow>
     \<lparr>seq = int n, ts = now, kind = k, role = r, detail = d, payload = canon_dict p\<rparr>)"

lemma made_numbered: "ledger.made ins [] = map numbered_event (enumerate 1 ins)"
proof (induction ins rule: rev_induct)
  case (snoc i ins)
  have e: "seq (numbered_event x) = int (fst x)" for x
    by (cases x) (simp add: numbered_event_def)
  have "map seq (map numbered_event (enumerate 1 ins)) = map int (map fst (enumerate 1 ins))"
    by (simp only: map_map o_def e)
  also have "map fst (enumerate 1 ins) = [1..<Suc (length ins)]"
    by (simp only: map_fst_enumerate) simp
  finally have "next_seq (map numbered_event (enumerate 1 ins)) = int (length ins) + 1"
    using next_seq_counts [of "map numbered_event (enumerate 1 ins)"] by simp
  then have "input_event i (map numbered_event (enumerate 1 ins)) = numbered_event (1 + length ins, i)"
    by (cases i) (simp add: input_event_def stored_def new_event_def numbered_event_def)
  then show ?case by (simp add: ledger.made_snoc snoc enumerate_append_eq)
qed simp

text \<open>Property C2.  Appending any list of events to a fresh ledger and reading the file back gives exactly
  those events in order, numbered 1, 2, 3, ..., their fields unchanged and their payload keys sorted:
  writing and reading are inverse through the JSON text.\<close>

theorem ledger_replay:
  assumes "list_all input_fit ins"
  shows "events (foldl (\<lambda>f i. append_input i f) no_ledger ins) =
     Inr (map (\<lambda>(n, now, k, r, d, p). \<lparr>seq = int n, ts = now, kind = k, role = r, detail = d,
        payload = canon_dict p\<rparr>) (enumerate 1 ins))"
proof -
  let ?f = "ledger.runs ins no_ledger"
  have f: "readable ?f" "event_list ?f = ledger.made ins []"
    using ledger.runs_log [of no_ledger ins] assms by simp_all
  then have "events ?f = Inr (ledger.made ins [])"
    by (auto simp: readable_def result_simps event_list_def)
  then show ?thesis by (simp add: ledger.runs_def made_numbered numbered_event_def)
qed

theorem ledger_replay_witness:
  "events (foldl (\<lambda>f i. append_input i f) no_ledger
      [(''t0'', RUN_STARTED, None, ''build'', [(''z'', PInt 1), (''a'', PStr ''q'')]),
       (''t1'', PHASE_STARTED, Some WRITER, [], [])]) =
   Inr [\<lparr>seq = 1, ts = ''t0'', kind = RUN_STARTED, role = None, detail = ''build'',
           payload = [(''a'', PStr ''q''), (''z'', PInt 1)]\<rparr>,
        \<lparr>seq = 2, ts = ''t1'', kind = PHASE_STARTED, role = Some WRITER, detail = [], payload = []\<rparr>]"
proof -
  have c: "canon_dict [(''z'', PInt 1), (''a'', PStr ''q'')] = [(''a'', PStr ''q''), (''z'', PInt 1)]"
    "canon_dict [] = []"
    by (simp_all add: canon_dict_def)
  show ?thesis
    by (subst ledger_replay) (simp_all add: input_fit_def c enumerate_eq_zip)
qed

text \<open>Property C14.  \<open>completed_roles\<close> is the latest verdict of each role: a role is complete exactly when
  the newest event that concerns it, reading backwards, is its own GATE_PASSED; a later start,
  failure, abort or reopening takes it back.\<close>

theorem completed_is_latest_verdict:
  assumes "list_all reopen_ok evs"
  shows "\<exists>fin. completed_roles evs = Inr fin \<and>
     (\<forall>r. r \<in> set fin \<longleftrightarrow> latest_verdict r (rev evs) = Some GATE_PASSED)"
  using completed_roles_total [OF assms] completed_roles_latest by blast

text \<open>Property C26.  Resuming is safe: the role \<open>resume_point\<close> names is not complete, every phase before it
  is, so the authority lets it start; None means all five phases have passed.\<close>

theorem resume_point_safe:
  assumes "completed_roles evs = Inr fin" "resume_point evs = Inr nxt"
  shows "case nxt of
      Some r \<Rightarrow> r \<notin> set fin \<and> assert_phase_order r fin = Inr ()
    | None \<Rightarrow> set build_phases \<subseteq> set fin"
proof -
  have n: "nxt = find (\<lambda>p. p \<notin> set fin) build_phases"
    using assms by (auto simp: resume_point_def)
  show ?thesis
  proof (cases nxt)
    case None
    then have "find (\<lambda>p. p \<notin> set fin) build_phases = None" using n by simp
    then show ?thesis using None by (auto simp: find_None_iff simp del: build_phases_all)
  next
    case (Some r)
    then have "r \<notin> set fin" 
      using find_SomeD(1) [of "\<lambda>p. p \<notin> set fin" build_phases r] n by simp
    moreover have "\<forall>p \<in> set (take (phase_index r) build_phases). p \<in> set fin"
      using n Some by (cases r) (auto simp: build_phases_def phase_index_def split: if_splits)
    ultimately show ?thesis using Some by (simp add: assert_phase_order_iff)
  qed
qed

text \<open> A platform is pilot-ready exactly when the newest event that ends or reopens the run is a
  RUN_SUCCEEDED that closed a pilot cycle; a later PILOT_OPENED, rebase, reopening or failure
  takes the readiness back.\<close>

theorem pilot_ready_iff:
  "pilot_ready evs \<longleftrightarrow>
     (\<exists>pre e post. evs = pre @ e # post \<and> kind e = RUN_SUCCEEDED \<and>
        (get0 (payload e) ''cycle'' = PStr ''pilot'' \<or> truthy (get0 (payload e) ''pilot_ready'')) \<and>
        list_all (\<lambda>x. \<not> ends_or_reopens x) post)"
proof -
  have "pilot_ready evs \<longleftrightarrow> (\<exists>e. terminal_event evs = Some e \<and> kind e = RUN_SUCCEEDED \<and>
     (get0 (payload e) ''cycle'' = PStr ''pilot'' \<or> truthy (get0 (payload e) ''pilot_ready'')))"
    by (auto simp: pilot_ready_def split: option.splits)
  then show ?thesis by (auto simp: terminal_event_iff)
qed

theorem completed_is_latest_verdict_witness:
  "(let ev = \<lambda>n k. \<lparr>seq = n, ts = [], kind = k, role = Some WRITER, detail = [], payload = []\<rparr>
    in \<exists>fin. completed_roles [ev 1 PHASE_STARTED, ev 2 GATE_PASSED, ev 3 PHASE_STARTED] = Inr fin \<and>
       WRITER \<notin> set fin)"
proof -
  let ?ev = "\<lambda>n k. \<lparr>seq = n, ts = [], kind = k, role = Some WRITER, detail = [], payload = []\<rparr>"
  have "list_all reopen_ok [?ev 1 PHASE_STARTED, ?ev 2 GATE_PASSED, ?ev 3 PHASE_STARTED]"
    by (simp add: reopen_ok_def reopens_def)
  from completed_is_latest_verdict [OF this] show ?thesis
    by (auto simp: Let_def forgets_def is_verdict_def reopens_def is_rebase_def)
qed

theorem resume_point_safe_witness:
  "(let ev = \<lambda>n k r. \<lparr>seq = n, ts = [], kind = k, role = Some r, detail = [], payload = []\<rparr>
    in resume_point [ev 1 GATE_PASSED COLLECTOR, ev 2 GATE_PASSED CLONER] = Inr (Some WRITER) \<and>
       assert_phase_order WRITER [COLLECTOR, CLONER] = Inr ())"
proof -
  let ?evs = "let ev = \<lambda>n k r. \<lparr>seq = n, ts = [], kind = k, role = Some r, detail = [], payload = []\<rparr>
    in [ev 1 GATE_PASSED COLLECTOR, ev 2 GATE_PASSED CLONER]"
  have "completed_roles ?evs = Inr [COLLECTOR, CLONER]" "resume_point ?evs = Inr (Some WRITER)"
    by code_simp+
  from resume_point_safe [OF this] this show ?thesis by (simp add: Let_def)
qed

subsection \<open>Protection while a role runs\<close>

text \<open>A raw append by the coding CLI: refused by the file system when the file is read-only.\<close>

definition cli_write :: "string \<Rightarrow> ledger_file \<Rightarrow> ledger_file option" where
  "cli_write t f = (case contents f of
       None \<Rightarrow> Some (f\<lparr>contents := Some t, read_only := False\<rparr>)
     | Some s \<Rightarrow> (if read_only f then None else Some (f\<lparr>contents := Some (s @ t)\<rparr>)))"

inductive ledger_step :: "ledger_file \<Rightarrow> ledger_file \<Rightarrow> bool" where
  step_append: "append_event now k r d p f = Inr (e, f') \<Longrightarrow> ledger_step f f'"
| step_enter: "ledger_step f (protect_enter f)"
| step_exit: "protect_depth f > 0 \<Longrightarrow> ledger_step f (protect_exit f)"
| step_cli: "cli_write t f = Some f' \<Longrightarrow> ledger_step f f'"

inductive_cases ledger_stepE: "ledger_step f g"

definition guarded :: "ledger_file \<Rightarrow> bool" where
  "guarded f = (contents f \<noteq> None \<and> protect_depth f \<ge> 0 \<and> (protect_depth f > 0 \<longrightarrow> read_only f))"

lemma append_event_guarded:
  "guarded f \<Longrightarrow> append_event now k r d p f = Inr (e, f') \<Longrightarrow> guarded f'"
  by (auto simp: append_event_def Let_def result_simps guarded_def write_line_def chmod_readonly_def
      chmod_writable_def split: option.splits)

lemma ledger_step_guarded: "ledger_step f g \<Longrightarrow> guarded f \<Longrightarrow> guarded g"
  by (induction rule: ledger_step.induct)
     (erule append_event_guarded, assumption,
      auto simp: guarded_def protect_enter_def protect_exit_def chmod_readonly_def
        chmod_writable_def cli_write_def Let_def split: option.splits if_splits)

text \<open> Once the ledger exists, whatever sequence of appends, nested protect windows and raw
  writes leads to a state inside a window, a raw write there is refused: while a role runs only
  the orchestrator can add to the record.\<close>

theorem protected_from_cli:
  assumes "ledger_step\<^sup>*\<^sup>* f g" "contents f \<noteq> None" "protect_depth f = 0" "protect_depth g > 0"
  shows "cli_write t g = None"
proof -
  have "guarded f" using assms by (simp add: guarded_def)
  with assms(1) have "guarded g"
    by (induction rule: rtranclp_induct) (auto intro: ledger_step_guarded)
  then show ?thesis using assms(4) by (auto simp: guarded_def cli_write_def split: option.splits)
qed

theorem protected_from_cli_witness:
  "(let f = \<lparr>contents = Some [], read_only = False, protect_depth = 0\<rparr>
    in cli_write ''x'' f \<noteq> None \<and> cli_write ''x'' (protect_enter f) = None)"
proof -
  let ?f = "\<lparr>contents = Some [], read_only = False, protect_depth = 0\<rparr>"
  have "ledger_step\<^sup>*\<^sup>* ?f (protect_enter ?f)" by (blast intro: step_enter)
  from protected_from_cli [OF this] show ?thesis
    by (simp add: protect_enter_def chmod_readonly_def cli_write_def)
qed

subsection \<open>A torn last line\<close>

definition torn :: "string \<Rightarrow> ledger_file \<Rightarrow> ledger_file" where
  "torn t f = f\<lparr>contents := Some ((case contents f of None \<Rightarrow> [] | Some s \<Rightarrow> s) @ t)\<rparr>"

lemma append_event_eq:
  "events f = Inr evs \<Longrightarrow> contents f = Some s \<Longrightarrow>
   \<exists>f'. append_event now k r d p f = Inr (new_event now k r d p evs, f') \<and>
      contents f' = Some (s @ event_line (new_event now k r d p evs) @ [newline])"
  by (auto simp: append_event_def Let_def new_event_def event_line_def write_line_def
      chmod_writable_def chmod_readonly_def)

text \<open> Reading tolerates a half-written last line, but the next append goes onto that same
  line: the event just appended is lost when the file is read back, and one more append makes the
  whole ledger unreadable.\<close>

theorem torn_line_swallows_append:
  assumes f: "intact f" "events f = Inr evs" "contents f \<noteq> None"
    and t: "newline \<notin> set t" "CHR 0x0D \<notin> set t" "py_strip t \<noteq> []" "loads (py_strip t) = None"
    and merged: "loads (py_strip (t @ event_line (new_event now k r d p evs))) = None"
      "py_strip (t @ event_line (new_event now k r d p evs)) \<noteq> []"
    and p: "pv_ok (PDict p)" "pv_ok (PDict p2)"
  shows "events (torn t f) = Inr evs \<and>
     (\<exists>g. append_event now k r d p (torn t f) = Inr (new_event now k r d p evs, g) \<and>
        events g = Inr evs \<and>
        (\<exists>h n. append_event now2 k2 r2 d2 p2 g = Inr (new_event now2 k2 r2 d2 p2 evs, h) \<and>
           events h = Inl (LedgerError n)))"
proof -
  let ?l = "event_line (new_event now k r d p evs)"
  let ?l2 = "event_line (new_event now2 k2 r2 d2 p2 evs)"
  obtain s where s: "contents f = Some s" using f(3) by blast
  have cs: "closed_text s" "list_all (\<lambda>p. loads (snd p) \<noteq> None) (physical_lines s)"
    using f(1) s by (auto simp: intact_def)
  have ev: "read_lines k (physical_lines s) = Inr evs" for k
    using events_intact [OF f(1) s] f(2) read_lines_intact [OF cs(2)] by metis
  obtain n where n: "n > 0" "\<And>t. physical_lines (s @ t) =
     physical_lines s @ numbered n (split_on newline (universal_newlines t))"
    using physical_lines_after [OF cs(1)] by blast
  have l: "newline \<notin> set ?l" "CHR 0x0D \<notin> set ?l"
    using event_line_clean [of "new_event now k r d p evs"] p(1) by (simp_all add: new_event_def)
  have l2: "newline \<notin> set ?l2" "CHR 0x0D \<notin> set ?l2"
    using event_line_clean [of "new_event now2 k2 r2 d2 p2 evs"] p(2) by (simp_all add: new_event_def)
  have tl: "newline \<notin> set (t @ ?l)" "CHR 0x0D \<notin> set (t @ ?l)" using t l by auto
  have e1: "events (torn t f) = Inr evs"
    using t split_clean(2) [OF t(1,2)]
    by (simp add: events_def torn_def s n numbered_Cons numbered_def read_lines_append [OF cs(2)] ev)
  obtain g where g: "append_event now k r d p (torn t f) = Inr (new_event now k r d p evs, g)"
    "contents g = Some (s @ (t @ ?l) @ [newline])"
    using append_event_eq [OF e1, of "s @ t" now k r d p] by (auto simp: torn_def s)
  have e2: "events g = Inr evs"
    using merged split_clean(1) [OF tl, of "[]"]
    by (simp add: events_def g(2) n numbered_Cons numbered_def read_lines_append [OF cs(2)] ev
        del: append_assoc)
  obtain h where h: "append_event now2 k2 r2 d2 p2 g = Inr (new_event now2 k2 r2 d2 p2 evs, h)"
    "contents h = Some (s @ (t @ ?l) @ newline # ?l2 @ [newline])"
    using append_event_eq [OF e2 g(2), of now2 k2 r2 d2 p2] by auto
  have "split_on newline (universal_newlines ((t @ ?l) @ newline # ?l2 @ [newline])) = [t @ ?l, ?l2, []]"
    using split_clean(1) [OF tl] split_clean(1) [OF l2, of "[]"] by simp
  then have "events h = Inl (LedgerError n)"
    using merged event_line_strip [of "new_event now2 k2 r2 d2 p2 evs"]
    by (simp add: events_def h(2) n numbered_Cons numbered_def read_lines_append [OF cs(2)] ev
        del: append_assoc)
  then show ?thesis using e1 g(1) e2 h(1) by blast
qed

lemma loads_two_braces: "loads (CHR ''{'' # CHR ''{'' # m) = None" "loads ''{'' = None"
  by (simp_all add: loads_def Let_def skip_ws_def is_ws_def)

theorem torn_line_swallows_append_witness:
  "(let f = \<lparr>contents = Some [], read_only = False, protect_depth = 0\<rparr>
    in events (torn ''{'' f) = Inr [] \<and>
       (\<exists>e g. append_event ''t'' RUN_SUCCEEDED None [] [] (torn ''{'' f) = Inr (e, g) \<and> events g = Inr []))"
proof -
  let ?f = "\<lparr>contents = Some [], read_only = False, protect_depth = 0\<rparr>"
  let ?e = "new_event ''t'' RUN_SUCCEEDED None [] [] []"
  obtain m where m: "event_line ?e = CHR ''{'' # m @ ''}''" using event_line_ends by blast
  have st: "py_strip (''{'' @ event_line ?e) = ''{'' @ event_line ?e"
    by (rule py_strip_id) (simp_all add: m py_space_def)
  have f: "intact ?f" "events ?f = Inr []" "contents ?f \<noteq> None"
    by (simp_all add: intact_def closed_text_def physical_lines_def events_def)
  have t: "newline \<notin> set ''{''" "CHR 0x0D \<notin> set ''{''" "py_strip ''{'' \<noteq> []" "loads (py_strip ''{'') = None"
    by (simp_all add: py_strip_def py_space_def loads_two_braces)
  have mg: "loads (py_strip (''{'' @ event_line ?e)) = None" "py_strip (''{'' @ event_line ?e) \<noteq> []"
    by (simp_all only: st) (simp_all add: m loads_two_braces)
  have p: "pv_ok (PDict [])" by simp
  from torn_line_swallows_append [OF f t mg p p] show ?thesis
    by (simp add: Let_def) blast
qed

end
