(* ===== verification/BriefGates.thy ===== *)
theory BriefGates
  imports Findings Ledger
begin

text \<open>
  Gate verdicts (\<open>gates.GateResult\<close>), the split of a verdict's failures into
  brief-defined and factory-invented ones (\<open>factory/build/brief_gates.py\<close>) and
  the rule's decision record (\<open>factory/build/rule_decision.py\<close>).  The set of
  checks a compiled brief turns on comes from the brief compiler and the floor
  file, which are arguments here.
\<close>

section \<open>Verdicts\<close>

record verdict =
  v_ok :: bool
  v_gate :: string
  v_detail :: string
  v_reason :: string
  v_findings :: "item list"
  v_payload :: "(string, pyval) dict"

text \<open>\<open>GateResult.__post_init__\<close>: every finding becomes typed.\<close>

definition gate_result ::
  "bool \<Rightarrow> string \<Rightarrow> string \<Rightarrow> string \<Rightarrow> item list \<Rightarrow> (string, pyval) dict \<Rightarrow> verdict" where
  "gate_result ok gate d reason items p =
     \<lparr> v_ok = ok, v_gate = gate, v_detail = d, v_reason = reason,
       v_findings = map Typed (coerce_findings gate
          (py_str (py_or (get0 p ''check'') (PStr gate))) (list_of (get0 p ''finding_checks''))
          (py_or (get0 p ''finding_shape'') (PStr reason)) items),
       v_payload = p \<rparr>"

definition reason_not_defined :: string where "reason_not_defined = ''not defined by the brief''"
definition writer_behaviour_check :: string where "writer_behaviour_check = ''writer_behaviour''"
definition product_gate_check :: string where "product_gate_check = ''product_gate''"

abbreviation norm :: "pyval \<Rightarrow> string" where
  "norm v \<equiv> normalise_check (text_of v)"

definition declare_check :: "verdict \<Rightarrow> string \<Rightarrow> verdict" where
  "declare_check v check =
     (if truthy (get0 (v_payload v) ''check'') then v
      else gate_result (v_ok v) (v_gate v) (v_detail v) (v_reason v) (v_findings v)
             (dset ''check'' (PStr check) (v_payload v)))"

section \<open>Splitting a verdict\<close>

definition item_check :: "item \<Rightarrow> string" where
  "item_check x = (case x of Typed f \<Rightarrow> normalise_check (f_check_id f) | _ \<Rightarrow> [])"

definition failure_checks :: "verdict \<Rightarrow> (string \<times> item) list" where
  "failure_checks v =
     (let own = norm (py_or (get0 (v_payload v) ''check'') (PStr (v_gate v)));
          per = list_of (get0 (v_payload v) ''finding_checks'')
      in if v_findings v = [] then [(own, Plain (if v_detail v \<noteq> [] then v_detail v else own))]
         else map (\<lambda>(i, x).
             (let named = (if i < length per then norm (per ! i) else []); tc = item_check x
              in (if named \<noteq> [] then named else if tc \<noteq> [] then tc else own, x)))
           (enumerate 0 (v_findings v)))"

record failure_split =
  defined :: "(string \<times> item) list"
  invented :: "(string \<times> item) list"

definition defined_checks :: "failure_split \<Rightarrow> string list" where
  "defined_checks s = sorted_set (map fst (defined s))"

definition invented_checks :: "failure_split \<Rightarrow> string list" where
  "invented_checks s = sorted_set (map fst (invented s))"

definition split_failures :: "verdict \<Rightarrow> string list \<Rightarrow> failure_split" where
  "split_failures v defs =
     \<lparr> defined = filter (\<lambda>p. fst p \<in> set defs) (failure_checks v),
       invented = filter (\<lambda>p. fst p \<notin> set defs) (failure_checks v) \<rparr>"

definition narrowed :: "verdict \<Rightarrow> failure_split \<Rightarrow> verdict" where
  "narrowed v s =
     (let p1 = dset ''finding_checks'' (PList (map (PStr \<circ> fst) (defined s))) (v_payload v);
          p2 = (if invented s \<noteq> []
                then dset ''advisory_checks'' (PList (map PStr (invented_checks s))) p1 else p1)
      in gate_result (v_ok v) (v_gate v) (v_detail v) (v_reason v) (map snd (defined s)) p2)"

text \<open>\<open>brief_defined_checks\<close>: the compiled acceptance ids and the enforced floor ids.\<close>

definition brief_defined_checks :: "string list \<Rightarrow> string list \<Rightarrow> string list" where
  "brief_defined_checks enforced acceptance =
     remdups (map normalise_check enforced @ filter (\<lambda>c. c \<noteq> []) (map normalise_check acceptance))"

record advisory_row =
  ar_check :: string
  ar_reason :: string
  ar_count :: nat
  ar_findings :: "string list"

definition advisory_entry :: "(string, advisory_row) dict \<Rightarrow> pyval \<Rightarrow> (string, advisory_row) dict" where
  "advisory_entry rows v = (case v of
       PDict entry \<Rightarrow>
         (let check = norm (get0 entry ''check'');
              reason = py_str (py_or (get0 entry ''reason'') (PStr reason_not_defined));
              found = strs_of (get0 entry ''findings'');
              row = (case dget rows check of Some r \<Rightarrow> r
                     | None \<Rightarrow> \<lparr>ar_check = check, ar_reason = [], ar_count = 0, ar_findings = []\<rparr>)
          in if check = [] then rows
             else dset check (row\<lparr>ar_reason := reason, ar_count := ar_count row + length found,
                ar_findings := ar_findings row @ filter (\<lambda>f. f \<notin> set (ar_findings row)) (dedup found)\<rparr>) rows)
     | _ \<Rightarrow> rows)"

definition advisory_checks :: "build_event list \<Rightarrow> advisory_row list" where
  "advisory_checks evs =
     (let rows = foldl advisory_entry [] (concat (map (\<lambda>e. list_of (get0 (payload e) ''gate_advisory'')) evs))
      in map snd (sort_key fst rows))"

section \<open>The decision record\<close>

datatype decision_class = DREWORK | DADVISORY | DREGENERATE_TEST | DREPROMPT | DSTOP

fun class_value :: "decision_class \<Rightarrow> string" where
  "class_value DREWORK = ''REWORK''"
| "class_value DADVISORY = ''ADVISORY''"
| "class_value DREGENERATE_TEST = ''REGENERATE_TEST''"
| "class_value DREPROMPT = ''REPROMPT''"
| "class_value DSTOP = ''STOP''"

definition decision_key :: string where "decision_key = ''decision''"
definition budget_reset_key :: string where "budget_reset_key = ''rework_budget_reset''"

definition stop_record :: "build_event option \<Rightarrow> (string, pyval) dict option" where
  "stop_record ev = (case ev of
       None \<Rightarrow> None
     | Some e \<Rightarrow> (case get0 (payload e) decision_key of
         PDict rec \<Rightarrow> (if get0 rec ''class'' = PStr ''STOP'' then Some rec else None)
       | _ \<Rightarrow> None))"

definition stop_status :: "(string, pyval) dict \<Rightarrow> string" where
  "stop_status rec = ''FAILED('' @ py_str (get0 rec ''gate'') @ '', '' @ py_str (get0 rec ''check'') @ '', '' @
     py_str (get0 rec ''finding'') @ '')''"

text \<open>An append to the run's record, as the reader of theory Ledger gives it back.  The clock is a
  function of the sequence number.\<close>

definition emit ::
  "(int \<Rightarrow> string) \<Rightarrow> event_kind \<Rightarrow> build_role option \<Rightarrow> string \<Rightarrow> (string, pyval) dict \<Rightarrow>
   build_event list \<Rightarrow> build_event list" where
  "emit clock k r d p evs = evs @ [stored (new_event (clock (next_seq evs)) k r d p evs)]"

definition reset_rework_budget :: "(int \<Rightarrow> string) \<Rightarrow> string \<Rightarrow> build_event list \<Rightarrow> build_event list" where
  "reset_rework_budget clock reason =
     emit clock NOTE None (''rework budget reset: '' @ reason)
       [(budget_reset_key, PBool True), (''reason'', PStr reason)]"

lemma emit_length [simp]: "length (emit clock k r d p evs) = Suc (length evs)"
  by (simp add: emit_def)

text \<open>\<open>emit\<close> is what a write to the ledger file reads back as.\<close>

lemma emit_append_input:
  "readable f \<Longrightarrow> pv_ok (PDict p) \<Longrightarrow>
   event_list (append_input (clock (next_seq (event_list f)), k, r, d, p) f) = emit clock k r d p (event_list f)"
  using append_input_step [of f "(clock (next_seq (event_list f)), k, r, d, p)"]
  by (simp add: input_fit_def input_event_def emit_def)

section \<open>Lemmas\<close>

lemma split_partition:
  "p \<in> set (failure_checks v) \<longleftrightarrow> p \<in> set (defined (split_failures v defs)) \<or> p \<in> set (invented (split_failures v defs))"
  by (auto simp: split_failures_def)

lemma failure_checks_nonempty: "failure_checks v \<noteq> []"
proof -
  have "length (failure_checks v) = (if v_findings v = [] then 1 else length (v_findings v))"
    by (simp add: failure_checks_def Let_def)
  then show ?thesis by (cases "failure_checks v") (auto split: if_splits)
qed

end
