(* ===== verification/FailureOwner.thy ===== *)
theory FailureOwner
  imports BriefGates
begin

text \<open>
  Who owns a red TESTER suite (\<open>factory/build/failure_owner.py\<close>): the
  classification of the failing rows into environment, factory, product and
  test-defect failures, the keys of the same-failure-twice rule and the search
  for the generator of a test.  Two questions put to Python's own parser are
  arguments: \<open>tuple_message\<close> (the text is a literal tuple of at least two
  elements) and \<open>compares\<close> (the statement contains an assert that compares with
  \<open>==\<close> or \<open>!=\<close> or carries a tuple message).
\<close>

datatype owner = OFactory | OEnvironment | OProduct | OTestDefect

type_synonym row = "(string, pyval) dict"

definition failing :: "verdict \<Rightarrow> row list" where
  "failing v = List.map_filter (\<lambda>x. case x of PDict d \<Rightarrow> Some d | _ \<Rightarrow> None)
     (list_of (get0 (v_payload v) ''failing_tests''))"

definition row_kind :: "row \<Rightarrow> string" where
  "row_kind r = (let k = py_lower (py_strip (text_of (get0 r ''kind'')))
     in if k = ''error'' \<or> k = ''failure'' then k else ''failure'')"

definition exc_type :: "row \<Rightarrow> string" where
  "exc_type r = (let t = py_strip (text_of (get0 r ''exc_type''))
     in if t \<noteq> [] then t else py_strip (before_char (CHR '':'') (text_of (get0 r ''message''))))"

definition is_assertion_failure :: "row \<Rightarrow> bool" where
  "is_assertion_failure r = (exc_type r = ''AssertionError'')"

definition message_is_a_comparison_tuple :: "(string \<Rightarrow> bool) \<Rightarrow> row \<Rightarrow> bool" where
  "message_is_a_comparison_tuple tuple_message r =
     tuple_message (py_strip (after_char (CHR '':'') (text_of (get0 r ''message''))))"

definition py_lstrip :: "string \<Rightarrow> string" where
  "py_lstrip = dropWhile py_space"

definition asserts_a_comparison :: "(string \<Rightarrow> bool) \<Rightarrow> string \<Rightarrow> bool" where
  "asserts_a_comparison compares txt =
     list_ex (\<lambda>line. let s = py_lstrip line in starts_with s ''>'' \<and> compares (py_strip (drop 1 s)))
       (split_lines txt)"

definition ends_in_app :: "string \<Rightarrow> bool" where
  "ends_in_app innermost = (starts_with innermost ''app/'' \<or> contains innermost ''/app/'')"

definition is_product_failure :: "(string \<Rightarrow> bool) \<Rightarrow> (string \<Rightarrow> bool) \<Rightarrow> row \<Rightarrow> bool" where
  "is_product_failure tuple_message compares r =
     (if ends_in_app (text_of (get0 r ''innermost'')) then True
      else if \<not> is_assertion_failure r then False
      else if message_is_a_comparison_tuple tuple_message r then True
      else asserts_a_comparison compares (text_of (get0 r ''text'')))"

definition posix_file :: "string \<Rightarrow> string" where
  "posix_file = replace_char backslash (CHR ''/'')"

definition is_test_defect :: "row \<Rightarrow> string list \<Rightarrow> bool" where
  "is_test_defect r factory_files =
     (truthy (get0 r ''placeholder_refusals'') \<and> row_kind r = ''failure'' \<and>
      posix_file (text_of (get0 r ''file'')) \<notin> set factory_files)"

section \<open>The generator of a test\<close>

definition path_base :: "string \<Rightarrow> string" where
  "path_base s = (case filter (\<lambda>x. x \<noteq> [] \<and> x \<noteq> ''.'') (split_on (CHR ''/'') s) of [] \<Rightarrow> [] | xs \<Rightarrow> last xs)"

fun line_with :: "nat \<Rightarrow> string \<Rightarrow> string list \<Rightarrow> nat option" where
  "line_with n needle [] = None"
| "line_with n needle (l # ls) = (if contains l needle then Some n else line_with (Suc n) needle ls)"

fun search_files :: "string \<Rightarrow> (string \<times> string option) list \<Rightarrow> (string \<times> nat) option" where
  "search_files needle [] = None"
| "search_files needle ((name, content) # fs) =
     (case content of
        None \<Rightarrow> search_files needle fs
      | Some txt \<Rightarrow> (case line_with 1 needle (split_lines txt) of
          Some n \<Rightarrow> Some (name, n)
        | None \<Rightarrow> search_files needle fs))"

fun search_needles :: "string list \<Rightarrow> (string \<times> string option) list \<Rightarrow> (string \<times> nat) option" where
  "search_needles [] fs = None"
| "search_needles (n # ns) fs = (case search_files n fs of Some x \<Rightarrow> Some x | None \<Rightarrow> search_needles ns fs)"

text \<open>The second argument lists the modules of the build directory in name order, each with its
  text or None when it cannot be read.\<close>

definition generator_location :: "(string \<times> string option) list \<Rightarrow> string \<Rightarrow> string \<Rightarrow> string" where
  "generator_location modules test_name test_file =
     (let base = path_base test_file;
          needles = (if test_name \<noteq> [] then [''def '' @ test_name @ ''(''] else []) @
                    (if base \<noteq> [] then [[quote] @ base @ [quote], [CHR 0x27] @ base @ [CHR 0x27]] else [])
      in case search_needles needles modules of
           Some (name, n) \<Rightarrow> ''app/factory/build/'' @ name @ '':'' @ show_count n
         | None \<Rightarrow> ''emitted by TESTER into '' @ (if test_file \<noteq> [] then test_file else ''tests/''))"

section \<open>Classification\<close>

record ownership =
  own_owner :: owner
  own_tests :: "pyval list"
  own_generator :: string
  own_reason :: string
  own_factory :: "pyval list"
  own_defects :: "(pyval \<times> pyval list) list"
  own_attributed :: bool

definition row_node :: "row \<Rightarrow> pyval" where
  "row_node r = py_or (get0 r ''nodeid'') (get0 r ''name'')"

definition row_defect :: "row \<Rightarrow> pyval \<times> pyval list" where
  "row_defect r = (row_node r, list_of (get0 r ''placeholder_refusals''))"

definition row_is_product ::
  "(string \<Rightarrow> bool) \<Rightarrow> (string \<Rightarrow> bool) \<Rightarrow> string list \<Rightarrow> row \<Rightarrow> bool" where
  "row_is_product tuple_message compares behavior r =
     (if behavior \<noteq> [] then
        ends_in_app (text_of (get0 r ''innermost'')) \<or>
        (posix_file (text_of (get0 r ''file'')) \<in> set behavior \<and> is_assertion_failure r)
      else is_product_failure tuple_message compares r)"

definition row_is_factory ::
  "(string \<Rightarrow> bool) \<Rightarrow> (string \<Rightarrow> bool) \<Rightarrow> string list \<Rightarrow> string list \<Rightarrow> row \<Rightarrow> bool" where
  "row_is_factory tuple_message compares factory_files behavior r =
     (posix_file (text_of (get0 r ''file'')) \<in> set factory_files \<and>
      \<not> row_is_product tuple_message compares behavior r)"

definition classify ::
  "(string \<Rightarrow> bool) \<Rightarrow> (string \<Rightarrow> bool) \<Rightarrow> (string \<times> string option) list \<Rightarrow> verdict \<Rightarrow>
   string list \<Rightarrow> string list \<Rightarrow> ownership" where
  "classify tuple_message compares modules v factory_test_files behavior_test_files =
     (let reason = v_reason v in
      if reason = ''environment_fault'' \<or> reason = ''suite_could_not_run'' \<or>
         truthy (get0 (v_payload v) ''infrastructure'')
      then \<lparr>own_owner = OEnvironment, own_tests = [], own_generator = [], own_reason = reason,
             own_factory = [], own_defects = [], own_attributed = True\<rparr>
      else
        let factory_files = map posix_file factory_test_files;
            behavior = map posix_file behavior_test_files;
            rows = failing v;
            defect_rows = filter (\<lambda>r. is_test_defect r factory_files) rows;
            judged = filter (\<lambda>r. \<not> is_test_defect r factory_files) rows;
            factory_owned = filter (row_is_factory tuple_message compares factory_files behavior) judged;
            product_owned = filter (\<lambda>r. \<not> row_is_factory tuple_message compares factory_files behavior r) judged;
            defects = map row_defect defect_rows
        in if product_owned \<noteq> [] then
             \<lparr>own_owner = OProduct, own_tests = map row_node product_owned, own_generator = [],
              own_reason = reason, own_factory = map row_node factory_owned, own_defects = defects,
              own_attributed = True\<rparr>
           else case factory_owned of
             first # _ \<Rightarrow>
               \<lparr>own_owner = OFactory, own_tests = map row_node factory_owned,
                own_generator = generator_location modules (text_of (get0 first ''name'')) (text_of (get0 first ''file'')),
                own_reason = reason, own_factory = [], own_defects = defects, own_attributed = True\<rparr>
           | [] \<Rightarrow>
               (if defects \<noteq> [] then
                  \<lparr>own_owner = OTestDefect, own_tests = map fst defects, own_generator = [],
                   own_reason = reason, own_factory = [], own_defects = defects, own_attributed = True\<rparr>
                else
                  \<lparr>own_owner = OProduct, own_tests = map row_node rows, own_generator = [],
                   own_reason = reason, own_factory = [], own_defects = [], own_attributed = (rows \<noteq> [])\<rparr>))"

section \<open>Same-failure-twice keys\<close>

definition failure_names :: "verdict \<Rightarrow> pyval list \<Rightarrow> string list" where
  "failure_names v exclude =
     (let keys = List.map_filter (\<lambda>r. let n = row_node r in
                   (if truthy n \<and> n \<notin> set exclude then Some (py_str n @ '' ['' @ row_kind r @ '']'') else None))
                 (failing v)
      in if keys \<noteq> [] then sorted_set keys
         else if v_gate v \<noteq> [] then [v_gate v @ '':'' @ (if v_reason v \<noteq> [] then v_reason v else ''failed'')]
         else [])"

definition repeated :: "string list \<Rightarrow> string list \<Rightarrow> string list" where
  "repeated previous current = sorted_set (filter (\<lambda>k. k \<in> set previous) current)"

lemma repeated_empty_iff: "repeated previous current = [] \<longleftrightarrow> set previous \<inter> set current = {}"
  by (auto simp: repeated_def filter_empty_conv)

text \<open>A rework round is asked for only when there is something the writer can do.\<close>

lemma classify_factory_no_product:
  "own_owner (classify tm cp ms v ff bf) = OFactory \<Longrightarrow>
   \<forall>r \<in> set (failing v). is_test_defect r (map posix_file ff) \<or>
      row_is_factory tm cp (map posix_file ff) (map posix_file bf) r"
  by (auto simp: classify_def Let_def filter_empty_conv split: if_splits list.splits)

end
