(* ===== verification/Wall.thy ===== *)
theory Wall
  imports Complex_Main Authority
begin

text \<open>
  The wall-clock budget of a run (\<open>BuildBudget\<close> and \<open>RoleRunner._extend_wall\<close> in
  \<open>factory/build/runner.py\<close>).  Seconds are rational numbers; the note about an
  in-flight model call that an extension may write is left out.
\<close>

record build_budget =
  max_rework :: nat
  wall_clock_s :: rat
  phase_wall_clock_s :: rat
  hard_ceiling_s :: rat

definition rework_budget :: nat where "rework_budget = 2"
definition rework_ceiling :: nat where "rework_ceiling = 6"

definition default_budget :: build_budget where
  "default_budget = \<lparr>max_rework = rework_budget, wall_clock_s = 1800, phase_wall_clock_s = 1500,
     hard_ceiling_s = 7200\<rparr>"

definition deadline_from :: "build_budget \<Rightarrow> rat \<Rightarrow> rat option" where
  "deadline_from b started = (if wall_clock_s b > 0 then Some (started + wall_clock_s b) else None)"

definition capped :: "build_budget \<Rightarrow> rat \<Rightarrow> rat" where
  "capped b wall = (if hard_ceiling_s b > 0 then min wall (hard_ceiling_s b) else wall)"

record wall_state =
  budget :: build_budget
  run_started :: "rat option"
  deadline :: "rat option"
  deadline_box :: "rat option"

definition start_wall :: "build_budget \<Rightarrow> rat \<Rightarrow> wall_state" where
  "start_wall b started = \<lparr>budget = b, run_started = Some started, deadline = deadline_from b started,
     deadline_box = deadline_from b started\<rparr>"

text \<open>Move a deadline to the target unless it already lies there or later.\<close>

definition lift_to :: "rat option \<Rightarrow> rat \<Rightarrow> rat option" where
  "lift_to old target = (case old of
       None \<Rightarrow> Some target
     | Some d \<Rightarrow> (if d + 1 / 1000000000 < target then Some target else Some d))"

definition extend_wall :: "rat \<Rightarrow> wall_state \<Rightarrow> wall_state" where
  "extend_wall requested w =
     (let old_wall = wall_clock_s (budget w);
          new_wall = capped (budget w) requested;
          target = (case run_started w of Some s \<Rightarrow> (if new_wall > 0 then Some (s + new_wall) else None) | None \<Rightarrow> None);
          w1 = (case target of
                  Some t \<Rightarrow> w\<lparr>deadline := lift_to (deadline w) t, deadline_box := lift_to (deadline_box w) t\<rparr>
                | None \<Rightarrow> w)
      in if new_wall > old_wall then
           (let w2 = (if target = None then
                  (let add = new_wall - old_wall;
                       d = (case deadline w1 of Some d \<Rightarrow> Some (d + add)
                            | None \<Rightarrow> map_option (\<lambda>s. s + new_wall) (run_started w1));
                       bx = (case deadline_box w1 of Some b \<Rightarrow> Some (b + add) | None \<Rightarrow> d)
                   in w1\<lparr>deadline := d, deadline_box := bx\<rparr>)
                else w1)
            in w2\<lparr>budget := (budget w2)\<lparr>wall_clock_s := new_wall\<rparr>\<rparr>)
         else w1)"

definition grant_rerun :: "build_role \<Rightarrow> bool \<Rightarrow> build_role list" where
  "grant_rerun role reopen =
     (if reopen then dedup [WRITER, TESTER, role]
      else take (max 2 (phase_index role) + 1 - 2) (drop 2 build_phases))"

section \<open>Lemmas\<close>

lemma capped_le: "hard_ceiling_s b > 0 \<Longrightarrow> capped b r \<le> hard_ceiling_s b"
  by (simp add: capped_def)

lemma capped_le_requested: "capped b r \<le> r"
  by (simp add: capped_def)

lemma extend_wall_budget:
  "wall_clock_s (budget w) \<le> wall_clock_s (budget (extend_wall r w))"
  "hard_ceiling_s (budget (extend_wall r w)) = hard_ceiling_s (budget w)"
  "max_rework (budget (extend_wall r w)) = max_rework (budget w)"
  "phase_wall_clock_s (budget (extend_wall r w)) = phase_wall_clock_s (budget w)"
  "run_started (extend_wall r w) = run_started w"
  by (auto simp: extend_wall_def Let_def split: option.splits)

lemma lift_to_bounds:
  "lift_to (Some d) t = Some d' \<Longrightarrow> d \<le> d' \<and> d' \<le> max d t"
  by (auto simp: lift_to_def split: if_splits)

text \<open> The wall only grows and never past the hard ceiling, whoever asks: after any sequence of
  extension requests the wall and the live deadline are at least what they were and at most the
  larger of what they were and the ceiling counted from the run's start.\<close>

theorem wall_grows_within_ceiling:
  assumes "hard_ceiling_s (budget w) > 0" "0 \<le> wall_clock_s (budget w)"
    and "run_started w = Some s" "deadline w = Some d"
  shows "let w' = foldl (\<lambda>w r. extend_wall r w) w rs
    in wall_clock_s (budget w) \<le> wall_clock_s (budget w') \<and>
       wall_clock_s (budget w') \<le> max (wall_clock_s (budget w)) (hard_ceiling_s (budget w)) \<and>
       (\<exists>d'. deadline w' = Some d' \<and> d \<le> d' \<and>
          d' \<le> max d (s + max (wall_clock_s (budget w)) (hard_ceiling_s (budget w))))"
proof -
  define h where "h = hard_ceiling_s (budget w)"
  define m where "m = max (wall_clock_s (budget w)) h"
  let ?inv = "\<lambda>w'. hard_ceiling_s (budget w') = h \<and> run_started w' = Some s \<and>
      wall_clock_s (budget w) \<le> wall_clock_s (budget w') \<and> wall_clock_s (budget w') \<le> m \<and>
      (\<exists>d'. deadline w' = Some d' \<and> d \<le> d' \<and> d' \<le> max d (s + m))"
  have step: "?inv (extend_wall r w')" if i: "?inv w'" for w' r
  proof -
    obtain d' where d': "deadline w' = Some d'" "d \<le> d'" "d' \<le> max d (s + m)" using i by blast
    have c: "capped (budget w') r \<le> m"
      using capped_le [of "budget w'" r] i assms(1) by (auto simp: h_def m_def)
    have wall: "wall_clock_s (budget (extend_wall r w')) \<le> m"
      using i c by (auto simp: extend_wall_def Let_def split: option.splits)
    have "\<exists>d''. deadline (extend_wall r w') = Some d'' \<and> d' \<le> d'' \<and> d'' \<le> max d (s + m)"
    proof (cases "capped (budget w') r > 0")
      case True
      then show ?thesis using i c d' by (auto simp: extend_wall_def Let_def lift_to_def)
    next
      case False
      then have "\<not> capped (budget w') r > wall_clock_s (budget w')" using i assms(2) by linarith
      then show ?thesis using False i d' by (auto simp: extend_wall_def Let_def)
    qed
    then show ?thesis using i wall extend_wall_budget [where w = w' and r = r] d'(2) by fastforce
  qed
  have "?inv (foldl (\<lambda>w r. extend_wall r w) w rs)"
  proof (induction rs rule: rev_induct)
    case Nil
    then show ?case using assms by (auto simp: h_def m_def)
  next
    case (snoc r rs)
    then show ?case using step by simp
  qed
  then show ?thesis by (simp add: Let_def h_def m_def)
qed

theorem wall_grows_within_ceiling_witness:
  "(let w = start_wall default_budget 100; w' = foldl (\<lambda>w r. extend_wall r w) w [2700, 99999]
    in wall_clock_s (budget w') \<le> 7200 \<and> deadline w' = Some 7300)"
proof -
  have "hard_ceiling_s (budget (start_wall default_budget 100)) > 0"
    "0 \<le> wall_clock_s (budget (start_wall default_budget 100))"
    "run_started (start_wall default_budget 100) = Some 100"
    "deadline (start_wall default_budget 100) = Some 1900"
    by (simp_all add: start_wall_def default_budget_def deadline_from_def)
  from wall_grows_within_ceiling [OF this, of "[2700, 99999]"] show ?thesis
    by (simp add: Let_def start_wall_def default_budget_def deadline_from_def extend_wall_def capped_def lift_to_def)
qed

end
