(* ===== verification/Runner.thy ===== *)
theory Runner
  imports FailureOwner Wall
begin

text \<open>
  The runner's rule for a failed gate (\<open>RoleRunner.decide\<close> and its helpers in
  \<open>factory/build/runner.py\<close>) and the run loop around it.  The record of the run is
  its event list; \<open>emit\<close> appends to it as the ledger does.  What the rule asks of
  other parts enters as \<open>runner_env\<close>: the checks the compiled brief defines (or the
  text of the exception that made them unavailable), Python's parser, the
  Factory's own modules, the test files TESTER wrote, the foreman's answer and
  the formatting of floats in display texts.
\<close>

record foreman_result =
  fm_off :: bool
  fm_mode :: string
  fm_used :: bool
  fm_fallback :: bool
  fm_stop :: bool
  fm_stop_reason :: string
  fm_work :: "item list"
  fm_attempts :: nat
  fm_instruction :: pyval
  fm_errors :: "string list"

text \<open>What a role reports beside its verdict: its detail, the files its workspace wrote and the blocks
  the CLONER vendored (id, commit, repository, path).\<close>

record role_output =
  ro_detail :: string
  ro_wrote :: "string list"
  ro_clones :: "(string \<times> string \<times> string \<times> string) list"

text \<open>The answer of the hand-off: an exception, with the branch and commit when it came after the
  NOTE was appended, or branch and commit.\<close>

type_synonym handoff_answer = "(string \<times> (string \<times> string) option) + string \<times> string"

record runner_env =
  re_clock :: "int \<Rightarrow> string"
  re_time :: rat
  re_fmt :: "rat \<Rightarrow> string"
  re_brief :: "string + string list"
  re_tuple :: "string \<Rightarrow> bool"
  re_compares :: "string \<Rightarrow> bool"
  re_modules :: "(string \<times> string option) list"
  re_factory_files :: "string list"
  re_behavior_files :: "string list"
  re_foreman :: "build_role \<Rightarrow> verdict \<Rightarrow> item list \<Rightarrow> foreman_result \<times> (string \<times> (string, pyval) dict) list"
  re_collect_all :: bool
  re_checkpoint :: "build_role \<Rightarrow> (string + string \<times> string) option"
  re_handoff :: "handoff_answer option"
  re_output :: role_output

record runner_state =
  evs :: "build_event list"
  walls :: wall_state
  reprompt_lines :: "string list"

datatype outcome =
    SUCCESS | COLLECT_ALL_REPORT | HANDOFF_TO_N3 | FAILED_GATE | FAILED_BUDGET_SPENT
  | FAILED_ROLE_ERROR | FAILED_AUTHORITY

record gate_decision =
  d_kind :: decision_class
  d_work :: "item list"
  d_outcome :: "outcome option"
  d_detail :: string
  d_findings :: "item list"
  d_record :: "(string, pyval) dict"

definition plain_decision :: "decision_class \<Rightarrow> item list \<Rightarrow> (string, pyval) dict \<Rightarrow> gate_decision" where
  "plain_decision k work rec = \<lparr>d_kind = k, d_work = work, d_outcome = None, d_detail = [],
     d_findings = [], d_record = rec\<rparr>"

definition add_note :: "runner_env \<Rightarrow> event_kind \<Rightarrow> build_role option \<Rightarrow> string \<Rightarrow> (string, pyval) dict \<Rightarrow>
    runner_state \<Rightarrow> runner_state" where
  "add_note env k r d p st = st\<lparr>evs := emit (re_clock env) k r d p (evs st)\<rparr>"

abbreviation texts :: "item list \<Rightarrow> pyval" where
  "texts items \<equiv> PList (map (PStr \<circ> item_text) items)"

abbreviation typed_list :: "item list \<Rightarrow> pyval" where
  "typed_list items \<equiv> PList (map PDict (typed_findings items))"

abbreviation pint :: "nat \<Rightarrow> pyval" where
  "pint n \<equiv> PInt (int n)"

section \<open>Rounds\<close>

text \<open>The events since the last budget reset.\<close>

definition after_reset :: "build_event list \<Rightarrow> build_event list" where
  "after_reset es = rev (takeWhile (\<lambda>e. \<not> truthy (get0 (payload e) budget_reset_key)) (rev es))"

definition reworks :: "build_event list \<Rightarrow> build_event list" where
  "reworks es = filter (\<lambda>e. kind e = REWORK) (after_reset es)"

definition rework_rounds_this_build :: "build_event list \<Rightarrow> nat" where
  "rework_rounds_this_build es = length (reworks es)"

definition rework_rounds_at :: "build_event list \<Rightarrow> build_role \<Rightarrow> nat" where
  "rework_rounds_at es r =
     length (filter (\<lambda>e. get0 (payload e) ''source'' = PStr (role_value r)) (reworks es))"

definition all_rework_failures :: "build_event list \<Rightarrow> string list" where
  "all_rework_failures es = concat (map (\<lambda>e. strs_of (get0 (payload e) ''failure_names'')) (reworks es))"

definition cycle_events :: "build_event list \<Rightarrow> build_event list" where
  "cycle_events es = rev (takeWhile (\<lambda>e. kind e \<noteq> PILOT_OPENED) (rev es))"

definition last_rework_failures :: "build_event list \<Rightarrow> string list" where
  "last_rework_failures es = (case rev (reworks es) of [] \<Rightarrow> []
     | e # _ \<Rightarrow> strs_of (get0 (payload e) ''failure_names''))"

definition failure_keys :: "verdict \<Rightarrow> pyval list \<Rightarrow> string list" where
  "failure_keys v exclude =
     (let keys = failure_names v exclude;
          bare = (if v_gate v \<noteq> []
                  then [v_gate v @ '':'' @ (if v_reason v \<noteq> [] then v_reason v else ''failed'')] else [])
      in if keys \<noteq> [] \<and> keys \<noteq> bare then keys
         else
           (let shape = py_str (py_or (get0 (v_payload v) ''finding_shape'')
                          (PStr (if v_reason v \<noteq> [] then v_reason v else ''failed'')));
                checks = sorted_set (filter (\<lambda>c. c \<noteq> []) (map fst (failure_checks v)))
            in if checks \<noteq> [] then map (\<lambda>c. c @ '':'' @ shape) checks else keys))"

section \<open>Records\<close>

definition decision_record ::
  "decision_class \<Rightarrow> build_role \<Rightarrow> verdict \<Rightarrow> nat \<Rightarrow> nat \<Rightarrow> string \<Rightarrow> wall_state \<Rightarrow> (string, pyval) dict" where
  "decision_record k r v gate_round build_round reason w =
     (let pairs = failure_checks v;
          (check, found) = (case pairs of [] \<Rightarrow> (v_gate v, Plain []) | p # _ \<Rightarrow> p)
      in [(''gate'', PStr (role_value r)), (''check'', PStr check),
          (''finding'', PStr (take 300 (item_text found))), (''class'', PStr (class_value k)),
          (''round_gate'', pint gate_round), (''round_build'', pint build_round),
          (''gate_budget'', pint (max_rework (budget w))), (''build_ceiling'', pint rework_ceiling),
          (''gate_name'', PStr (v_gate v)), (''reason'', PStr reason)])"

definition stop :: "outcome \<Rightarrow> string \<Rightarrow> verdict \<Rightarrow> build_role \<Rightarrow> runner_state \<Rightarrow> gate_decision" where
  "stop out reason v r st =
     (let rec = decision_record DSTOP r v (rework_rounds_at (evs st) r)
                  (rework_rounds_this_build (evs st)) reason (walls st)
      in \<lparr>d_kind = DSTOP, d_work = [], d_outcome = Some out, d_detail = stop_status rec @ '': '' @ reason,
          d_findings = v_findings v, d_record = rec\<rparr>)"

definition names :: "pyval list \<Rightarrow> string" where
  "names xs = join '', '' (map py_str xs)"

section \<open>Work lists\<close>

definition self_check_command :: string where
  "self_check_command = ''python scripts/factory_checks.py''"

definition defect_work_item :: "string \<Rightarrow> string list \<Rightarrow> string" where
  "defect_work_item nodeid caps =
     ''test_defect: '' @ nodeid @ '' -- this test expected a live answer from '' @ join '', '' caps @
     '', whose connectors are declared placeholders; the product correctly answered HTTP 503 error_kind '' @
     [quote] @ ''unavailable'' @ [quote] @ ''. Regenerate this test to assert that refusal '' @
     ''(tests/test_placeholder_contract.py is the authority). Do not change the product for it.''"

definition test_defect_items :: "(pyval \<times> pyval list) list \<Rightarrow> item list" where
  "test_defect_items ds = List.map_filter (\<lambda>d. if truthy (fst d)
     then Some (Plain (defect_work_item (py_str (fst d)) (map py_str (snd d)))) else None) ds"

definition writer_gate_items :: "verdict \<Rightarrow> item list" where
  "writer_gate_items v =
     map (\<lambda>(check, x). case x of
         Typed f \<Rightarrow> Typed (with_fields [(''detail'', PStr (''['' @ check @ ''] '' @ f_text f))] f)
       | _ \<Rightarrow> Plain (''['' @ check @ ''] '' @ item_text x)) (failure_checks v)
     @ [Plain (''['' @ writer_behaviour_check @ ''] before declaring done, run `'' @ self_check_command @
          ''` (the WRITER gate's own probe) and fix every record it prints'')]"

text \<open>\<open>name.rsplit(" [", 1)[0]\<close>.\<close>

fun strip_kind_rev :: "string \<Rightarrow> string option" where
  "strip_kind_rev (a # b # cs) = (if a = CHR ''['' \<and> b = CHR '' '' then Some cs else strip_kind_rev (b # cs))"
| "strip_kind_rev _ = None"

definition strip_kind :: "string \<Rightarrow> string" where
  "strip_kind s = (case strip_kind_rev (rev s) of Some cs \<Rightarrow> rev cs | None \<Rightarrow> s)"

definition tester_recheck_item :: "verdict \<Rightarrow> item" where
  "tester_recheck_item v =
     (let nodes = map strip_kind (filter (\<lambda>n. contains n ''::'') (failure_names v []));
          rerun = (if nodes \<noteq> []
            then '' and `python -m pytest -m '' @ [quote] @ ''pilot or not pilot'' @ [quote] @ '' '' @ join '' '' nodes @ ''`''
            else [])
      in Plain (''[recheck] ['' @ product_gate_check @
           ''] the suites that failed are on disk (Factory-owned; TESTER re-stamps them from your app/models.py): run `'' @
           self_check_command @ ''`'' @ rerun @ '' before declaring done. A payload '' @ [quote] @
           ''built from its own schema'' @ [quote] @ '' uses the model's FIELDS -- declare in that capability's '' @
           ''model every field its handler or route requires''))"

section \<open>The wall grant of a round\<close>

definition grant_rework_wall :: "runner_env \<Rightarrow> build_role \<Rightarrow> bool \<Rightarrow> nat \<Rightarrow> runner_state \<Rightarrow> runner_state" where
  "grant_rework_wall env r reopen build_round st =
     (let w = walls st; b = budget w; allowance = phase_wall_clock_s b in
      if allowance \<le> 0 \<or> wall_clock_s b = 0 then st
      else case run_started w of
        None \<Rightarrow> st
      | Some s \<Rightarrow>
          (let rerun = grant_rerun r reopen;
               elapsed = max 0 (re_time env - s);
               requested = elapsed + allowance * of_nat (length rerun);
               before = wall_clock_s b;
               late = (case deadline w of None \<Rightarrow> False | Some d \<Rightarrow> s + requested > d);
               w' = (if requested > before \<or> late then extend_wall requested w else w);
               granted = wall_clock_s (budget w');
               ceiling = hard_ceiling_s b;
               over = (ceiling \<noteq> 0 \<and> requested > ceiling);
               num = (\<lambda>x. PFloat (re_fmt env x));
               phases = map role_value rerun
           in add_note env NOTE (Some r)
                (''rework round '' @ show_count build_round @ '': wall '' @ re_fmt env before @ ''s -> '' @
                 re_fmt env granted @ ''s for '' @ show_count (length rerun) @ '' phase(s) to re-run ('' @
                 join '', '' phases @ '')'' @
                 (if over then ''; capped at the '' @ re_fmt env ceiling @ ''s ceiling'' else []))
                [(''wall_grant'', PDict [(''round_build'', pint build_round), (''phases'', PList (map PStr phases)),
                   (''allowance_each_s'', num allowance), (''requested_s'', num requested),
                   (''wall_before_s'', num before), (''wall_s'', num granted), (''ceiling_s'', num ceiling),
                   (''capped'', PBool over)])]
                (st\<lparr>walls := w'\<rparr>)))"

section \<open>The steps of the rule\<close>

definition split_by_brief :: "runner_env \<Rightarrow> verdict \<Rightarrow> runner_state \<Rightarrow> failure_split option \<times> runner_state" where
  "split_by_brief env v st = (case re_brief env of
       Inr defs \<Rightarrow> (Some (split_failures v defs), st)
     | Inl exc \<Rightarrow> (None, add_note env NOTE None
          (''brief checks unavailable ('' @ exc @ ''); failures route as reported'')
          [(''brief_checks_unavailable'', PStr exc)] st))"

definition record_advisory :: "runner_env \<Rightarrow> build_role \<Rightarrow> verdict \<Rightarrow> failure_split \<Rightarrow> runner_state \<Rightarrow> runner_state" where
  "record_advisory env r v s st =
     (let writer = (defined s \<noteq> []) in
      add_note env NOTE (Some r)
        (''GATE ADVISORY: '' @ join '', '' (invented_checks s) @ '' -- '' @ reason_not_defined @ ''; '' @
         (if writer then ''only the brief-defined failures go to the writer'' else ''no writer round''))
        [(''gate_advisory'', PList (map (\<lambda>c. PDict [(''check'', PStr c), (''reason'', PStr reason_not_defined),
            (''findings'', texts (map snd (filter (\<lambda>p. fst p = c) (invented s))))]) (invented_checks s))),
         (''gate'', PStr (v_gate v)), (''brief_defined_failures'', PList (map PStr (defined_checks s))),
         (''writer_dispatched'', PBool writer)] st)"

definition decide_advisory :: "runner_env \<Rightarrow> build_role \<Rightarrow> verdict \<Rightarrow> failure_split \<Rightarrow> runner_state \<Rightarrow>
    gate_decision \<times> runner_state" where
  "decide_advisory env r v s st =
     (let rec = decision_record DADVISORY r v (rework_rounds_at (evs st) r)
                  (rework_rounds_this_build (evs st)) reason_not_defined (walls st)
      in (plain_decision DADVISORY [] rec,
          add_note env GATE_PASSED (Some r)
            (''advisory: '' @ join '', '' (invented_checks s) @ '' '' @ reason_not_defined)
            [(''gate'', PStr (v_gate v)), (''advisory'', PBool True),
             (''advisory_checks'', PList (map PStr (invented_checks s))),
             (''reason'', PStr reason_not_defined), (''location'', PStr (role_value r)),
             (decision_key, PDict rec)] st))"

definition product_owner :: ownership where
  "product_owner = \<lparr>own_owner = OProduct, own_tests = [], own_generator = [], own_reason = [],
     own_factory = [], own_defects = [], own_attributed = True\<rparr>"

text \<open>The test files of the run's state, else the newest the ledger recorded.\<close>

definition recorded_files :: "string \<Rightarrow> string list \<Rightarrow> build_event list \<Rightarrow> string list" where
  "recorded_files key state_files es =
     (if state_files \<noteq> [] then state_files
      else case find_last (\<lambda>e. truthy (get0 (payload e) key)) es of
        Some e \<Rightarrow> strs_of (get0 (payload e) key)
      | None \<Rightarrow> [])"

definition owner_of :: "runner_env \<Rightarrow> build_role \<Rightarrow> verdict \<Rightarrow> runner_state \<Rightarrow> ownership" where
  "owner_of env r v st =
     (if r = WRITER \<or> r = STORE_MANAGER then product_owner
      else classify (re_tuple env) (re_compares env) (re_modules env) v
        (recorded_files ''factory_test_files'' (re_factory_files env) (evs st))
        (recorded_files ''behavior_test_files'' (re_behavior_files env) (evs st)))"

definition defects_payload :: "(pyval \<times> pyval list) list \<Rightarrow> pyval" where
  "defects_payload ds = PList (map (\<lambda>d. PDict [(''nodeid'', fst d), (''capabilities'', PList (snd d))]) ds)"

definition decide_test_defect :: "runner_env \<Rightarrow> build_role \<Rightarrow> verdict \<Rightarrow> ownership \<Rightarrow> nat \<Rightarrow> runner_state \<Rightarrow>
    gate_decision \<times> runner_state" where
  "decide_test_defect env r v own rounds st =
     (if rounds \<ge> max_rework (budget (walls st)) then
        (stop FAILED_GATE (''TEST_DEFECT unresolved after '' @ show_count rounds @ '' regeneration(s): '' @
           names (own_tests own)) v r st, st)
      else
        (let rec = decision_record DREGENERATE_TEST r v (rework_rounds_at (evs st) r)
               (rework_rounds_this_build (evs st))
               (''test regeneration '' @ show_count (rounds + 1) @ '' (no rework budget)'') (walls st)
         in (plain_decision DREGENERATE_TEST (test_defect_items (own_defects own)) rec,
             add_note env NOTE (Some r)
               (''TEST_DEFECT (writer regenerates; not a product failure): '' @ names (own_tests own))
               [(''owner'', PStr ''TEST_DEFECT''), (''test_defects'', defects_payload (own_defects own)),
                (''round'', pint (rounds + 1)), (''writer_dispatched'', PBool True),
                (''product_failure'', PBool False), (decision_key, PDict rec)] st)))"

definition decide_fault :: "runner_env \<Rightarrow> build_role \<Rightarrow> verdict \<Rightarrow> ownership \<Rightarrow> nat \<Rightarrow> runner_state \<Rightarrow>
    gate_decision \<times> runner_state" where
  "decide_fault env r v own rework_used st =
     (let label = (if own_owner own = OFactory then ''FACTORY_FAULT'' else ''ENVIRONMENT_FAULT'');
          ns = (let n = names (own_tests own) in if n \<noteq> [] then n else v_detail v);
          whr = (if own_generator own \<noteq> [] then '' (generator '' @ own_generator own @ '')'' else []);
          st1 = add_note env NOTE (Some r) (label @ '': '' @ ns @ whr)
            [(''owner'', PStr (if own_owner own = OFactory then ''FACTORY'' else ''ENVIRONMENT'')),
             (''tests'', PList (own_tests own)), (''generator'', PStr (own_generator own)),
             (''rework'', pint rework_used), (''writer_dispatched'', PBool False)] st
      in (stop FAILED_GATE (label @ '': '' @ ns @ whr) v r st1, st1))"

definition writer_authored_factory_file :: string where
  "writer_authored_factory_file = ''writer_authored_factory_file''"

definition touched_shape :: "pyval list \<Rightarrow> string" where
  "touched_shape touched = ''writer_authored_factory_file:'' @ join '','' (sort (map (\<lambda>t. case t of
       PDict d \<Rightarrow> py_str (get0 d ''path'') @ '':'' @ py_str (get_or d ''change'' (PStr ''modified''))
     | _ \<Rightarrow> []) touched))"

definition reprompt_item :: item where
  "reprompt_item = Plain (''[factory_owned] those files were put back as the Factory renders them; this pass is '' @
     ''re-prompted at no rework cost. Leave every path under FACTORY-OWNED FILES in the brief '' @
     ''alone -- create, edit or delete none of them -- and finish the product.'')"

definition reprompt_factory_files :: "runner_env \<Rightarrow> build_role \<Rightarrow> verdict \<Rightarrow> nat \<Rightarrow> item list \<Rightarrow> runner_state \<Rightarrow>
    gate_decision \<times> runner_state" where
  "reprompt_factory_files env r v reprompts handed st =
     (let touched = list_of (get0 (v_payload v) ''touched'');
          listed = join '', '' (map (\<lambda>t. case t of PDict d \<Rightarrow> py_str (get0 d ''path'') | _ \<Rightarrow> []) touched);
          paths = (if listed \<noteq> [] then listed else v_detail v);
          gate_rounds = rework_rounds_at (evs st) r;
          build_rounds = rework_rounds_this_build (evs st);
          mx = max_rework (budget (walls st))
      in if reprompts \<ge> mx then
           (stop FAILED_GATE (''FACTORY_FAULT: the writer touched Factory-owned files after '' @
              show_count reprompts @ '' re-prompt(s) naming them: '' @ paths) v r st, st)
         else
           (let rec = decision_record DREPROMPT r v gate_rounds build_rounds
                  (''re-prompt '' @ show_count (reprompts + 1) @ '' (no rework budget): Factory-owned files touched'')
                  (walls st);
                own = v_findings v @ [reprompt_item];
                own_texts = map item_text own;
                carried = map Plain (filter (\<lambda>t. t \<notin> set (reprompt_lines st) \<and> t \<notin> set own_texts)
                            (dedup (map item_text handed)));
                work = own @ carried;
                st1 = grant_rework_wall env r False build_rounds (st\<lparr>reprompt_lines := reprompt_lines st @ own_texts\<rparr>)
            in (plain_decision DREPROMPT work rec,
                add_note env NOTE (Some WRITER)
                  (''REPROMPT '' @ show_count (reprompts + 1) @ ''/'' @ show_count mx @ '' (no rework budget): '' @ paths)
                  [(''reprompt'', pint (reprompts + 1)), (''touched'', PList touched),
                   (''finding_shape'', PStr (if touched \<noteq> [] then touched_shape touched else [])),
                   (''work_list'', texts work), (''writer_dispatched'', PBool True),
                   (''product_failure'', PBool False), (decision_key, PDict rec)] st1)))"

definition round_work :: "build_role \<Rightarrow> verdict \<Rightarrow> ownership \<Rightarrow> item list" where
  "round_work r v own =
     (if r = WRITER then writer_gate_items v
      else if r = STORE_MANAGER then v_findings v
      else v_findings v @ test_defect_items (own_defects own) @ [tester_recheck_item v])"

definition foreman_notes :: "runner_env \<Rightarrow> build_role \<Rightarrow> (string \<times> (string, pyval) dict) list \<Rightarrow> runner_state \<Rightarrow> runner_state" where
  "foreman_notes env r ns st = foldl (\<lambda>s n. add_note env NOTE (Some r) (fst n) (snd n) s) st ns"

definition rework_payload :: "build_role \<Rightarrow> verdict \<Rightarrow> item list \<Rightarrow> string list \<Rightarrow> (string, pyval) dict \<Rightarrow>
    foreman_result \<Rightarrow> bool \<Rightarrow> (string, pyval) dict" where
  "rework_payload r v work current rec fm reopen =
     [(''findings'', texts (v_findings v)), (typed_key, typed_list (v_findings v)),
      (''work_list'', texts work), (''work_list_typed'', typed_list work),
      (''capability_ids'', PList (map PStr (sort (capability_ids work)))),
      (''failure_names'', PList (map PStr current)), (''source'', PStr (role_value r)),
      (''gate'', PStr (v_gate v)), (decision_key, PDict rec)]
     @ (if fm_off fm then [] else
         [(''foreman'', PDict [(''mode'', PStr (fm_mode fm)), (''used'', PBool (fm_used fm)),
            (''fallback'', PBool (fm_fallback fm)), (''attempts'', pint (fm_attempts fm)),
            (''instruction'', fm_instruction fm), (''refusals'', PList (map PStr (fm_errors fm)))])])
     @ (if reopen then [(''reopen'', PList (map PStr [''WRITER'', ''TESTER'', role_value r]))] else [])"

definition decide_rework :: "runner_env \<Rightarrow> build_role \<Rightarrow> verdict \<Rightarrow> ownership \<Rightarrow> bool \<Rightarrow> runner_state \<Rightarrow>
    gate_decision \<times> runner_state" where
  "decide_rework env r v own reopen st =
     (let current = failure_keys v (map fst (own_defects own));
          again = repeated (all_rework_failures (evs st)) current;
          gate_rounds = rework_rounds_at (evs st) r;
          build_rounds = rework_rounds_this_build (evs st);
          mx = max_rework (budget (walls st))
      in if again \<noteq> [] then
           (stop FAILED_GATE (''SAME_FAILURE_TWICE: '' @ join '', '' again) v r st, st)
         else if gate_rounds \<ge> mx then
           (stop FAILED_BUDGET_SPENT (role_value r @ '' gate rework budget of '' @ show_count mx @
              '' spent; still failing: '' @ v_detail v) v r st, st)
         else if build_rounds \<ge> rework_ceiling then
           (stop FAILED_BUDGET_SPENT (''build rework ceiling of '' @ show_count rework_ceiling @
              '' reached; '' @ role_value r @ '' gate still failing: '' @ v_detail v) v r st, st)
         else
           (let work0 = round_work r v own;
                (fm, ns) = re_foreman env r v work0;
                st1 = foreman_notes env r ns st
            in if fm_stop fm then
                 (stop FAILED_GATE (''foreman:'' @ fm_stop_reason fm) v r st1, st1)
               else
                 (let raw = map item_text (v_findings v);
                      work = (if fm_used fm then fm_work fm @ filter (\<lambda>i. item_text i \<notin> set raw) work0 else work0);
                      rec = decision_record DREWORK r v (gate_rounds + 1) (build_rounds + 1) [] (walls st1);
                      st2 = grant_rework_wall env r reopen (build_rounds + 1) st1
                  in (plain_decision DREWORK work rec,
                      add_note env REWORK (Some WRITER)
                        (role_value r @ '' round '' @ show_count (gate_rounds + 1) @ ''/'' @ show_count mx @
                         '' (build '' @ show_count (build_rounds + 1) @ ''/'' @ show_count rework_ceiling @
                         '', gate '' @ [CHR 0x27] @ v_gate v @ [CHR 0x27] @ ''): '' @ v_detail v)
                        (rework_payload r v work current rec fm reopen) st2))))"

definition note_factory_rows :: "runner_env \<Rightarrow> build_role \<Rightarrow> ownership \<Rightarrow> runner_state \<Rightarrow> runner_state" where
  "note_factory_rows env r own st =
     (if own_factory own = [] then st
      else add_note env NOTE (Some r) (''FACTORY_ALSO_OWNS (not sent to the writer): '' @ names (own_factory own))
        [(''factory_owned'', PList (own_factory own)), (''routed'', PStr ''PRODUCT'')] st)"

text \<open>What happens to a verdict that carries at least one brief-defined failure.\<close>

definition decide_owned :: "runner_env \<Rightarrow> build_role \<Rightarrow> verdict \<Rightarrow> nat \<Rightarrow> nat \<Rightarrow> bool \<Rightarrow> nat \<Rightarrow> item list \<Rightarrow>
    runner_state \<Rightarrow> gate_decision \<times> runner_state" where
  "decide_owned env r v rework_used defect_rounds reopen reprompts handed st =
     (let own = owner_of env r v st in
      case own_owner own of
        OTestDefect \<Rightarrow> decide_test_defect env r v own defect_rounds st
      | OFactory \<Rightarrow> decide_fault env r v own rework_used st
      | OEnvironment \<Rightarrow> decide_fault env r v own rework_used st
      | OProduct \<Rightarrow>
          (let st1 = note_factory_rows env r own st
           in if r = WRITER \<and> v_reason v = writer_authored_factory_file
              then reprompt_factory_files env r v reprompts handed st1
              else decide_rework env r v own reopen st1))"

definition decide :: "runner_env \<Rightarrow> build_role \<Rightarrow> verdict \<Rightarrow> nat \<Rightarrow> nat \<Rightarrow> bool \<Rightarrow> nat \<Rightarrow> item list \<Rightarrow>
    runner_state \<Rightarrow> gate_decision \<times> runner_state" where
  "decide env r v rework_used defect_rounds reopen reprompts handed st =
     (let (split, st0) = split_by_brief env v st in
      case split of
        None \<Rightarrow> decide_owned env r v rework_used defect_rounds reopen reprompts handed st0
      | Some s \<Rightarrow>
          (if invented s = [] then decide_owned env r v rework_used defect_rounds reopen reprompts handed st0
           else
             (let st1 = record_advisory env r v s st0
              in if defined s = [] then decide_advisory env r v s st1
                 else decide_owned env r (narrowed v s) rework_used defect_rounds reopen reprompts handed st1)))"

text \<open>\<open>reopen_after_store_gate\<close>: the Store gate's verdict after the run has ended.\<close>

fun outcome_value :: "outcome \<Rightarrow> string" where
  "outcome_value SUCCESS = ''SUCCESS''"
| "outcome_value COLLECT_ALL_REPORT = ''COLLECT_ALL_REPORT''"
| "outcome_value HANDOFF_TO_N3 = ''HANDOFF_TO_N3''"
| "outcome_value FAILED_GATE = ''FAILED_GATE''"
| "outcome_value FAILED_BUDGET_SPENT = ''FAILED_BUDGET_SPENT''"
| "outcome_value FAILED_ROLE_ERROR = ''FAILED_ROLE_ERROR''"
| "outcome_value FAILED_AUTHORITY = ''FAILED_AUTHORITY''"

definition reopen_after_store_gate :: "runner_env \<Rightarrow> verdict \<Rightarrow> runner_state \<Rightarrow> gate_decision \<times> runner_state" where
  "reopen_after_store_gate env v st =
     (let (d, st1) = decide env STORE_MANAGER v (rework_rounds_this_build (evs st)) 0 True 0 [] st
      in if d_kind d = DSTOP then
           (d, add_note env RUN_FAILED (Some STORE_MANAGER) (d_detail d)
              [(''outcome'', PStr (case d_outcome d of Some out \<Rightarrow> outcome_value out | None \<Rightarrow> ''FAILED_GATE'')),
               (decision_key, PDict (d_record d)), (''findings'', texts (d_findings d)),
               (typed_key, typed_list (d_findings d))] st1)
         else (d, st1))"

end
