(* ===== verification/RunnerFacts.thy ===== *)
theory RunnerFacts
  imports Runner
begin

text \<open>
  What the runner's rule does to the record: which branches leave the rework
  history alone, when a round is granted and what the granted round records.
  The properties of the rule stand at the end.
\<close>

section \<open>Appends and the rework history\<close>

definition keeps_budget :: "(string, pyval) dict \<Rightarrow> bool" where
  "keeps_budget p = (budget_reset_key \<notin> set (dkeys p))"

lemma dkeys_canon_dict: "set (dkeys (canon_dict p)) = set (dkeys p)"
  by (auto simp: canon_dict_def image_iff) force+

lemma get0_absent: "k \<notin> set (dkeys p) \<Longrightarrow> get0 p k = PNone"
  using map_of_eq_None_iff [of p k] by (simp add: get_or_def)

lemma stored_payload [simp]: "payload (stored (new_event now k r d p es)) = canon_dict p"
  "kind (stored (new_event now k r d p es)) = k"
  by (simp_all add: stored_def new_event_def)

lemma reworks_emit:
  "keeps_budget p \<Longrightarrow>
   reworks (emit clock k r d p es) =
     reworks es @ (if k = REWORK then [stored (new_event (clock (next_seq es)) k r d p es)] else [])"
proof -
  assume "keeps_budget p"
  then have "get0 (canon_dict p) budget_reset_key = PNone"
    by (intro get0_absent) (simp add: keeps_budget_def dkeys_canon_dict del: set_map)
  then show ?thesis by (simp add: reworks_def after_reset_def emit_def)
qed

lemma add_note_frame:
  "k \<noteq> REWORK \<Longrightarrow> keeps_budget p \<Longrightarrow> reworks (evs (add_note env k r d p st)) = reworks (evs st)"
  "walls (add_note env k r d p st) = walls st"
  by (simp_all add: add_note_def reworks_emit)

lemmas keeps_simps = keeps_budget_def budget_reset_key_def decision_key_def typed_key_def

lemma grant_rework_wall_frame:
  "reworks (evs (grant_rework_wall env r reopen n st)) = reworks (evs st)"
  "max_rework (budget (walls (grant_rework_wall env r reopen n st))) = max_rework (budget (walls st))"
  by (auto simp: grant_rework_wall_def Let_def add_note_frame keeps_simps extend_wall_budget split: option.splits)

definition foreman_silent :: "runner_env \<Rightarrow> bool" where
  "foreman_silent env = (\<forall>r v w. \<forall>n \<in> set (snd (re_foreman env r v w)). keeps_budget (snd n))"

lemma foreman_notes_frame:
  "\<forall>n \<in> set ns. keeps_budget (snd n) \<Longrightarrow>
   reworks (evs (foreman_notes env r ns st)) = reworks (evs st) \<and> walls (foreman_notes env r ns st) = walls st"
  by (induction ns arbitrary: st) (auto simp: foreman_notes_def add_note_frame)

lemma split_by_brief_frame:
  "split_by_brief env v st = (s, st') \<Longrightarrow> reworks (evs st') = reworks (evs st) \<and> walls st' = walls st"
  by (auto simp: split_by_brief_def add_note_frame keeps_simps split: sum.splits)

lemma record_advisory_frame:
  "reworks (evs (record_advisory env r v s st)) = reworks (evs st)" "walls (record_advisory env r v s st) = walls st"
  by (simp_all add: record_advisory_def Let_def add_note_frame keeps_simps)

lemma note_factory_rows_frame:
  "reworks (evs (note_factory_rows env r own st)) = reworks (evs st)" "walls (note_factory_rows env r own st) = walls st"
  by (simp_all add: note_factory_rows_def add_note_frame keeps_simps)

section \<open>What each branch does\<close>

text \<open>The effect of one decision on the rework history and on the counters.\<close>

definition decision_effect :: "build_role \<Rightarrow> nat \<Rightarrow> nat \<Rightarrow> runner_state \<Rightarrow> gate_decision \<Rightarrow> runner_state \<Rightarrow> bool" where
  "decision_effect r defect_rounds reprompts st d st' =
     (max_rework (budget (walls st')) = max_rework (budget (walls st)) \<and>
      (case d_kind d of
         DREWORK \<Rightarrow>
           rework_rounds_at (evs st) r < max_rework (budget (walls st)) \<and>
           rework_rounds_this_build (evs st) < rework_ceiling \<and>
           (\<exists>e. reworks (evs st') = reworks (evs st) @ [e] \<and> kind e = REWORK \<and>
              get0 (payload e) ''source'' = PStr (role_value r) \<and>
              set (strs_of (get0 (payload e) ''failure_names'')) \<inter> set (all_rework_failures (evs st)) = {})
       | DREGENERATE_TEST \<Rightarrow> reworks (evs st') = reworks (evs st) \<and> defect_rounds < max_rework (budget (walls st))
       | DREPROMPT \<Rightarrow> reworks (evs st') = reworks (evs st) \<and> reprompts < max_rework (budget (walls st))
       | _ \<Rightarrow> reworks (evs st') = reworks (evs st)))"

lemma counts_of_reworks:
  "reworks es' = reworks es \<Longrightarrow>
     rework_rounds_at es' r = rework_rounds_at es r \<and> rework_rounds_this_build es' = rework_rounds_this_build es \<and>
     all_rework_failures es' = all_rework_failures es"
  by (simp add: rework_rounds_at_def rework_rounds_this_build_def all_rework_failures_def)

lemma effect_shift:
  "reworks (evs st1) = reworks (evs st) \<Longrightarrow> walls st1 = walls st \<Longrightarrow>
   decision_effect r n m st1 d st' \<Longrightarrow> decision_effect r n m st d st'"
  using counts_of_reworks [of "evs st1" "evs st" r]
  by (auto simp: decision_effect_def split: decision_class.splits)

lemma stop_kind [simp]: "d_kind (stop out reason v r st) = DSTOP"
  by (simp add: stop_def Let_def)

lemma plain_kind [simp]: "d_kind (plain_decision k w rec) = k" "d_work (plain_decision k w rec) = w"
  by (simp_all add: plain_decision_def)

lemma decide_advisory_effect:
  "decide_advisory env r v s st = (d, st') \<Longrightarrow> decision_effect r n m st d st'"
  by (auto simp: decide_advisory_def Let_def decision_effect_def add_note_frame keeps_simps)

lemma decide_test_defect_effect:
  "decide_test_defect env r v own n st = (d, st') \<Longrightarrow> decision_effect r n m st d st'"
  by (auto simp: decide_test_defect_def Let_def decision_effect_def add_note_frame keeps_simps split: if_splits)

lemma decide_fault_effect:
  "decide_fault env r v own u st = (d, st') \<Longrightarrow> decision_effect r n m st d st'"
  by (auto simp: decide_fault_def Let_def decision_effect_def add_note_frame keeps_simps)

lemma reprompt_effect:
  "reprompt_factory_files env r v m handed st = (d, st') \<Longrightarrow> decision_effect r n m st d st'"
  by (auto simp: reprompt_factory_files_def Let_def decision_effect_def add_note_frame keeps_simps
      grant_rework_wall_frame split: if_splits)

lemma rework_payload_facts:
  "keeps_budget (rework_payload r v work current rec fm reopen)"
  "dict_ok (rework_payload r v work current rec fm reopen)"
  "dget (rework_payload r v work current rec fm reopen) ''source'' = Some (PStr (role_value r))"
  "dget (rework_payload r v work current rec fm reopen) ''failure_names'' = Some (PList (map PStr current))"
  by (auto simp: rework_payload_def keeps_simps)

lemma canon_PStr_list: "map canon (map PStr xs) = map PStr xs"
  by simp

lemma strs_of_PStr [simp]: "strs_of (PList (map PStr xs)) = xs"
  by (simp add: strs_of_def list_of_def py_str_def o_def)

lemma decide_rework_effect:
  assumes "foreman_silent env" "decide_rework env r v own reopen st = (d, st')"
  shows "decision_effect r n m st d st'"
proof -
  define current where "current = failure_keys v (map fst (own_defects own))"
  define w0 where "w0 = round_work r v own"
  obtain fm ns where fm: "re_foreman env r v w0 = (fm, ns)" by (cases "re_foreman env r v w0")
  define st1 where "st1 = foreman_notes env r ns st"
  have "\<forall>n \<in> set ns. keeps_budget (snd n)"
    using assms(1) fm unfolding foreman_silent_def by (metis snd_conv)
  then have fr: "reworks (evs st1) = reworks (evs st)" "walls st1 = walls st"
    using foreman_notes_frame [of ns env r st] by (simp_all add: st1_def)
  show ?thesis
  proof (cases "d_kind d = DREWORK")
    case False
    then show ?thesis
      using assms(2) fr
      by (auto simp: decide_rework_def Let_def fm w0_def [symmetric] st1_def [symmetric] decision_effect_def
          split: if_splits)
  next
    case True
    let ?gr = "rework_rounds_at (evs st) r"
    let ?br = "rework_rounds_this_build (evs st)"
    have g: "repeated (all_rework_failures (evs st)) current = []"
      "?gr < max_rework (budget (walls st))" "?br < rework_ceiling" "\<not> fm_stop fm"
      using assms(2) True
      by (auto simp: decide_rework_def Let_def fm w0_def [symmetric] current_def [symmetric] split: if_splits)
    define st2 where "st2 = grant_rework_wall env r reopen (Suc ?br) st1"
    obtain work rec dt where st': "st' = add_note env REWORK (Some WRITER) dt (rework_payload r v work current rec fm reopen) st2"
      using assms(2) g
      by (simp add: decide_rework_def Let_def fm w0_def [symmetric] current_def [symmetric] st1_def [symmetric]
          st2_def [symmetric]) blast
    define e where "e = stored (new_event (re_clock env (next_seq (evs st2))) REWORK (Some WRITER) dt
        (rework_payload r v work current rec fm reopen) (evs st2))"
    have pl: "payload e = canon_dict (rework_payload r v work current rec fm reopen)" by (simp add: e_def)
    have "reworks (evs st') = reworks (evs st) @ [e]"
      using rework_payload_facts(1) fr(1)
      by (simp add: st' add_note_def reworks_emit e_def st2_def grant_rework_wall_frame)
    moreover have "get0 (payload e) ''source'' = PStr (role_value r)"
      by (simp add: pl get_or_def dget_canon_dict rework_payload_facts)
    moreover have "get0 (payload e) ''failure_names'' = PList (map PStr current)"
      by (simp add: pl get_or_def dget_canon_dict rework_payload_facts)
    moreover have "max_rework (budget (walls st')) = max_rework (budget (walls st))"
      by (simp add: st' add_note_frame st2_def grant_rework_wall_frame fr)
    moreover have "kind e = REWORK" by (simp add: e_def)
    ultimately show ?thesis
      using g True by (auto simp: decision_effect_def repeated_empty_iff)
  qed
qed

lemma decide_owned_effect:
  assumes "foreman_silent env" "decide_owned env r v u n reopen m handed st = (d, st')"
  shows "decision_effect r n m st d st'"
proof -
  let ?own = "owner_of env r v st"
  let ?st1 = "note_factory_rows env r ?own st"
  note fr = note_factory_rows_frame [of env r ?own st]
  show ?thesis
  proof (cases "own_owner ?own")
    case OProduct
    show ?thesis
    proof (rule effect_shift [OF fr])
      show "decision_effect r n m ?st1 d st'"
        using assms OProduct reprompt_effect decide_rework_effect
        by (auto simp: decide_owned_def Let_def split: if_splits)
    qed
  qed (use assms decide_test_defect_effect decide_fault_effect in \<open>auto simp: decide_owned_def Let_def\<close>)
qed

lemma decide_effect:
  assumes "foreman_silent env" "decide env r v u n reopen m handed st = (d, st')"
  shows "decision_effect r n m st d st'"
proof -
  obtain sp st0 where s: "split_by_brief env v st = (sp, st0)" by (cases "split_by_brief env v st")
  note fr0 = split_by_brief_frame [OF s]
  show ?thesis
  proof (cases sp)
    case None
    then have "decide_owned env r v u n reopen m handed st0 = (d, st')" using assms(2) s by (simp add: decide_def)
    then show ?thesis using effect_shift [of st0 st] fr0 decide_owned_effect [OF assms(1)] by blast
  next
    case (Some x)
    show ?thesis
    proof (cases "invented x = []")
      case True
      then have "decide_owned env r v u n reopen m handed st0 = (d, st')" using assms(2) s Some by (simp add: decide_def)
      then show ?thesis using effect_shift [of st0 st] fr0 decide_owned_effect [OF assms(1)] by blast
    next
      case False
      let ?st1 = "record_advisory env r v x st0"
      have "decision_effect r n m ?st1 d st'"
        using assms s Some False decide_advisory_effect decide_owned_effect
        by (auto simp: decide_def Let_def split: if_splits)
      moreover have "reworks (evs ?st1) = reworks (evs st)" "walls ?st1 = walls st"
        using fr0 by (simp_all add: record_advisory_frame)
      ultimately show ?thesis using effect_shift by blast
    qed
  qed
qed

end
