(* ===== verification/RunLoop.thy ===== *)
theory RunLoop
  imports RunnerFacts
begin

text \<open>
  One cycle of \<open>RoleRunner.run\<close> (\<open>factory/build/runner.py\<close>): the phases in order,
  what a gate's verdict does to the position in the build, and the counters the
  rule reads.  Each executed phase is answered from outside (the role and its
  gate): a verdict, a lane violation, a role error, or a wall-clock halt.  The
  terminal bookkeeping of \<open>_finish\<close> and the opening of a second cycle are not
  part of it.
\<close>

datatype phase_answer =
    HaltBefore string "item list"
  | HaltAfter verdict string "item list"
  | LaneViolation string
  | RoleFailed string string string string
  | Judged verdict

record loop_state =
  ls_run :: runner_state
  ls_done :: "build_role list"
  ls_index :: nat
  ls_rework :: nat
  ls_defects :: nat
  ls_reprompts :: nat
  ls_work :: "item list"
  ls_collected :: "item list"

record finished =
  fin_outcome :: outcome
  fin_detail :: string
  fin_phase :: "build_role option"
  fin_findings :: "item list"

datatype progress = Finished finished loop_state | Continue loop_state

text \<open>The next phase that is not done, from the current position on.\<close>

fun skip_done :: "build_role list \<Rightarrow> build_role list \<Rightarrow> nat \<Rightarrow> (build_role \<times> nat) option" where
  "skip_done [] fin i = None"
| "skip_done (r # rs) fin i = (if r \<in> set fin then skip_done rs fin (Suc i) else Some (r, i))"

definition next_phase :: "loop_state \<Rightarrow> (build_role \<times> nat) option" where
  "next_phase ls = skip_done (drop (ls_index ls) build_phases) (ls_done ls) (ls_index ls)"

definition finish :: "outcome \<Rightarrow> string \<Rightarrow> build_role option \<Rightarrow> item list \<Rightarrow> loop_state \<Rightarrow> progress" where
  "finish out d r fs ls = Finished \<lparr>fin_outcome = out, fin_detail = d, fin_phase = r, fin_findings = fs\<rparr> ls"

definition record_event :: "runner_env \<Rightarrow> event_kind \<Rightarrow> build_role \<Rightarrow> string \<Rightarrow> (string, pyval) dict \<Rightarrow>
    loop_state \<Rightarrow> loop_state" where
  "record_event env k r d p ls = ls\<lparr>ls_run := add_note env k (Some r) d p (ls_run ls)\<rparr>"

text \<open>The events a phase that ran to its verdict leaves (\<open>_run_phase\<close>): the test files the TESTER wrote,
  the blocks the CLONER vendored, the gate's verdict.  The progress notes of a role are left out.\<close>

definition written_tests :: "role_output \<Rightarrow> string list" where
  "written_tests out = sort (filter (\<lambda>p. starts_with p ''tests/'') (map (replace_char backslash (CHR ''/'')) (ro_wrote out)))"

definition tests_note :: "runner_env \<Rightarrow> loop_state \<Rightarrow> loop_state" where
  "tests_note env ls =
     (let written = written_tests (re_output env)
      in if written = [] then ls
         else record_event env NOTE TESTER (''TESTER wrote '' @ show_nat (length written) @ '' test file(s)'')
           [(''factory_test_files'', PList (map PStr written)),
            (''behavior_test_files'', PList (map PStr (re_behavior_files env)))] ls)"

definition clone_event :: "runner_env \<Rightarrow> string \<times> string \<times> string \<times> string \<Rightarrow> loop_state \<Rightarrow> loop_state" where
  "clone_event env c = (case c of (bid, commit, repo, path) \<Rightarrow>
     record_event env CLONE CLONER (''cloned '' @ bid @ ''@'' @ take 12 commit)
       [(''block_id'', PStr bid), (''source_commit'', PStr commit), (''store_repo'', PStr repo), (''vendored_path'', PStr path)])"

definition role_events :: "runner_env \<Rightarrow> build_role \<Rightarrow> loop_state \<Rightarrow> loop_state" where
  "role_events env r ls =
     (if r = TESTER then tests_note env ls
      else if r = CLONER then fold (clone_event env) (ro_clones (re_output env)) ls else ls)"

definition phase_events :: "runner_env \<Rightarrow> build_role \<Rightarrow> verdict \<Rightarrow> loop_state \<Rightarrow> loop_state" where
  "phase_events env r v ls =
     record_event env (if v_ok v then GATE_PASSED else GATE_FAILED) r (v_detail v)
       [(''gate'', PStr (v_gate v)),
        (''reason'', PStr (if v_reason v \<noteq> [] then v_reason v else v_gate v @ ''_failed'')),
        (''location'', PStr (role_value r)), (''findings'', texts (v_findings v)),
        (typed_key, typed_list (v_findings v)), (''role_detail'', PStr (ro_detail (re_output env))),
        (''wrote'', PList (map PStr (ro_wrote (re_output env))))]
       (role_events env r (record_event env PHASE_STARTED r (role_value r) [] ls))"

definition pass_phase :: "build_role \<Rightarrow> nat \<Rightarrow> loop_state \<Rightarrow> loop_state" where
  "pass_phase r i ls = ls\<lparr>ls_done := List.insert r (ls_done ls), ls_work := [], ls_index := Suc i\<rparr>"

definition send_back :: "gate_decision \<Rightarrow> loop_state \<Rightarrow> loop_state" where
  "send_back d ls =
     (let ls1 = (case d_kind d of
          DREGENERATE_TEST \<Rightarrow> ls\<lparr>ls_defects := Suc (ls_defects ls)\<rparr>
        | DREPROMPT \<Rightarrow> ls\<lparr>ls_reprompts := Suc (ls_reprompts ls)\<rparr>
        | _ \<Rightarrow> ls\<lparr>ls_rework := Suc (ls_rework ls)\<rparr>)
      in ls1\<lparr>ls_work := d_work d, ls_done := removeAll WRITER (ls_done ls), ls_index := phase_index WRITER\<rparr>)"

text \<open>A passed gate: the branch of record is checkpointed when there is one.\<close>

definition gate_passed :: "runner_env \<Rightarrow> build_role \<Rightarrow> nat \<Rightarrow> loop_state \<Rightarrow> progress" where
  "gate_passed env r i ls = (case re_checkpoint env r of
       None \<Rightarrow> Continue (pass_phase r i ls)
     | Some (Inl exc) \<Rightarrow>
         finish FAILED_GATE (''CHECKPOINT_FAILED after '' @ role_value r @ '': '' @ exc) (Some r) [] ls
     | Some (Inr (branch, sha)) \<Rightarrow>
         Continue (pass_phase r i (record_event env NOTE r
           (''CHECKPOINT '' @ role_value r @ '' -> '' @ branch @ ''@'' @ take 7 sha)
           [(''checkpoint'', PStr sha), (''attached_branch'', PStr branch)] ls)))"

definition failed_text :: "build_role \<Rightarrow> verdict \<Rightarrow> string" where
  "failed_text r v = role_value r @ '' gate '' @ [CHR 0x27] @ v_gate v @ [CHR 0x27] @ '' failed''"

definition collect_gate :: "runner_env \<Rightarrow> build_role \<Rightarrow> nat \<Rightarrow> verdict \<Rightarrow> loop_state \<Rightarrow> progress" where
  "collect_gate env r i v ls =
     (let header = failed_text r v @ '': '' @ v_detail v;
          ls1 = ls\<lparr>ls_collected := ls_collected ls @ [Plain header] @
            map (\<lambda>x. Plain (role_value r @ '': '' @ item_text x)) (v_findings v)\<rparr>
      in Continue (pass_phase r i (record_event env NOTE r (''COLLECT-ALL: halt suppressed'' @ header)
           [(''collect_all'', PBool True), (''gate'', PStr (v_gate v)), (''findings'', texts (v_findings v)),
            (typed_key, typed_list (v_findings v))] ls1)))"

text \<open>An exception of the delivery comes after the NOTE of the hand-off, which then stays.\<close>

definition handoff_note :: "runner_env \<Rightarrow> build_role \<Rightarrow> string \<times> string \<Rightarrow> loop_state \<Rightarrow> loop_state" where
  "handoff_note env r target = (case target of (branch, sha) \<Rightarrow>
     record_event env NOTE r ''docker unavailable - workspace handed off to cerebrum-builds; N3 store-gate is next''
       ([(''handoff'', PStr ''HANDOFF_TO_N3''), (''builds_branch'', PStr branch)]
        @ (if sha \<noteq> [] then [(''builds_sha'', PStr sha)] else [])))"

definition hand_off :: "runner_env \<Rightarrow> build_role \<Rightarrow> verdict \<Rightarrow> handoff_answer \<Rightarrow> loop_state \<Rightarrow> progress" where
  "hand_off env r v res ls = (case res of
       Inl (exc, noted) \<Rightarrow> finish FAILED_GATE (failed_text r v @ '' and N3 handoff failed: '' @ exc) (Some r)
          (v_findings v @ [Plain (''n3_handoff_failed: '' @ exc)])
          (case noted of None \<Rightarrow> ls | Some target \<Rightarrow> handoff_note env r target ls)
     | Inr target \<Rightarrow>
         finish HANDOFF_TO_N3 ''docker unavailable; workspace handed off to cerebrum-builds - N3 store-gate is next''
           (Some r) [] (handoff_note env r target ls))"

definition rework_sources :: "build_role list" where
  "rework_sources = [TESTER, WRITER]"

definition gate_failed :: "runner_env \<Rightarrow> build_role \<Rightarrow> nat \<Rightarrow> verdict \<Rightarrow> loop_state \<Rightarrow> progress" where
  "gate_failed env r i v ls =
     (if re_collect_all env then collect_gate env r i v ls
      else if r = STORE_MANAGER \<and> v_reason v = ''docker_unavailable'' \<and> re_handoff env \<noteq> None
      then hand_off env r v (the (re_handoff env)) ls
      else if r \<notin> set rework_sources
      then finish FAILED_GATE (failed_text r v @ '': '' @ v_detail v) (Some r) (v_findings v) ls
      else
        (let (d, rs) = decide env r v (ls_rework ls) (ls_defects ls) False (ls_reprompts ls) (ls_work ls) (ls_run ls);
             ls1 = ls\<lparr>ls_run := rs\<rparr>
         in case d_kind d of
              DADVISORY \<Rightarrow> Continue (pass_phase r i ls1)
            | DSTOP \<Rightarrow> finish (case d_outcome d of Some out \<Rightarrow> out | None \<Rightarrow> FAILED_GATE) (d_detail d) (Some r)
                 (d_findings d) ls1
            | _ \<Rightarrow> Continue (send_back d ls1)))"

definition collect_role :: "runner_env \<Rightarrow> build_role \<Rightarrow> nat \<Rightarrow> string \<Rightarrow> loop_state \<Rightarrow> progress" where
  "collect_role env r i exc ls =
     (let found = role_value r @ '': role error: '' @ exc
      in Continue (pass_phase r i (record_event env NOTE r (''COLLECT-ALL: halt suppressed'' @ found)
           [(''collect_all'', PBool True), (''finding'', PStr found)]
           (ls\<lparr>ls_collected := ls_collected ls @ [Plain found]\<rparr>))))"

definition loop_step :: "runner_env \<Rightarrow> phase_answer \<Rightarrow> loop_state \<Rightarrow> progress" where
  "loop_step env ans ls = (case next_phase ls of
       None \<Rightarrow>
         (if ls_collected ls \<noteq> []
          then finish COLLECT_ALL_REPORT ''collect-all: all phases ran'' None (ls_collected ls) ls
          else finish SUCCESS ''CODE PASS'' None [] ls)
     | Some (r, i) \<Rightarrow>
         (case ans of
            HaltBefore d fs \<Rightarrow> finish FAILED_BUDGET_SPENT d (Some r) fs ls
          | _ \<Rightarrow>
            (if assert_phase_order r (ls_done ls) \<noteq> Inr () then
               finish FAILED_AUTHORITY (role_value r @ '' wrote outside its lane'') (Some r) []
                 (record_event env PHASE_ABORTED r ''lane violation'' [] ls)
             else case ans of
               HaltBefore d fs \<Rightarrow> finish FAILED_BUDGET_SPENT d (Some r) fs ls
             | LaneViolation exc \<Rightarrow>
                 finish FAILED_AUTHORITY (role_value r @ '' wrote outside its lane: '' @ exc) (Some r) []
                   (record_event env PHASE_ABORTED r (''lane violation: '' @ exc) []
                     (record_event env PHASE_STARTED r (role_value r) [] ls))
             | RoleFailed exc reason location fk \<Rightarrow>
                 (let ls1 = record_event env PHASE_STARTED r (role_value r) [] ls
                  in if re_collect_all env then collect_role env r i exc ls1
                     else finish FAILED_ROLE_ERROR (role_value r @ '' failed: '' @ exc) (Some r) []
                       (record_event env PHASE_ABORTED r exc
                          [(''reason'', PStr reason), (''location'', PStr (if location \<noteq> [] then location else role_value r)),
                           (''failure_kind'', PStr fk)] ls1))
             | HaltAfter v d fs \<Rightarrow> finish FAILED_BUDGET_SPENT d (Some r) fs (phase_events env r v ls)
             | Judged v \<Rightarrow>
                 (let ls1 = phase_events env r v ls
                  in if v_ok v then gate_passed env r i ls1 else gate_failed env r i v ls1))))"

text \<open>The whole cycle, fed with the answers of the phases as they run.\<close>

fun run_cycle :: "(runner_env \<times> phase_answer) list \<Rightarrow> loop_state \<Rightarrow> progress" where
  "run_cycle [] ls = Continue ls"
| "run_cycle ((env, ans) # as) ls = (case loop_step env ans ls of
       Finished f ls' \<Rightarrow> Finished f ls'
     | Continue ls' \<Rightarrow> run_cycle as ls')"

text \<open>Where a re-entered run starts: the completed roles of the ledger.\<close>

definition start_loop :: "build_role list \<Rightarrow> item list \<Rightarrow> runner_state \<Rightarrow> loop_state" where
  "start_loop fin work rs = \<lparr>ls_run = rs, ls_done = fin, ls_index = 0,
     ls_rework = rework_rounds_this_build (evs rs), ls_defects = 0, ls_reprompts = 0,
     ls_work = work, ls_collected = []\<rparr>"

text \<open>The work list a resumed run is seeded with: the findings of the terminal event, or the
  typed items of the REWORK that reopened the run.\<close>

definition seed_work :: "build_event list \<Rightarrow> build_role option \<Rightarrow> item list" where
  "seed_work es resume =
     (let from_terminal = (case terminal_event es of
            Some t \<Rightarrow> (if kind t = RUN_FAILED \<and> role t \<noteq> None \<and> role t = resume then
                (let seeded = filter (\<lambda>x. py_strip (item_text x) \<noteq> []) (from_payload (payload t))
                 in if seeded = [] \<and> py_strip (detail t) \<noteq> [] then [Plain (py_strip (detail t))] else seeded)
              else [])
          | None \<Rightarrow> [])
      in if from_terminal \<noteq> [] then from_terminal
         else case reopening_rework es of
           Some e \<Rightarrow> (if role e = resume then
               (let typed = List.map_filter (\<lambda>x. case x of PDict d \<Rightarrow> Some (Typed (finding_from_json d)) | _ \<Rightarrow> None)
                      (list_of (get0 (payload e) ''work_list_typed''));
                    plain = filter (\<lambda>s. py_strip s \<noteq> [])
                      (strs_of (py_or (get0 (payload e) ''work_list'') (get0 (payload e) ''findings'')))
                in typed @ map Plain (filter (\<lambda>s. s \<notin> set (map item_text typed)) plain))
             else [])
         | None \<Rightarrow> [])"

section \<open>The loop ends\<close>

text \<open>How often the writer can still be sent back, and how many phases are still to pass.\<close>

definition send_backs_left :: "loop_state \<Rightarrow> nat" where
  "send_backs_left ls =
     (rework_ceiling - rework_rounds_this_build (evs (ls_run ls))) +
     (max_rework (budget (walls (ls_run ls))) - ls_defects ls) +
     (max_rework (budget (walls (ls_run ls))) - ls_reprompts ls)"

definition phases_left :: "loop_state \<Rightarrow> nat" where
  "phases_left ls = length (filter (\<lambda>r. r \<notin> set (ls_done ls)) build_phases)"

definition loop_measure :: "loop_state \<Rightarrow> nat" where
  "loop_measure ls = 2 * send_backs_left ls + phases_left ls"

lemma skip_done_Some: "skip_done rs fin i = Some (r, j) \<Longrightarrow> r \<in> set rs \<and> r \<notin> set fin"
  by (induction rs fin i rule: skip_done.induct) (auto split: if_splits)

lemma next_phase_fresh: "next_phase ls = Some (r, i) \<Longrightarrow> r \<notin> set (ls_done ls)"
  using skip_done_Some by (fastforce simp: next_phase_def)

lemma record_event_frame:
  "k \<noteq> REWORK \<Longrightarrow> keeps_budget p \<Longrightarrow> reworks (evs (ls_run (record_event env k r d p ls))) = reworks (evs (ls_run ls))"
  "walls (ls_run (record_event env k r d p ls)) = walls (ls_run ls)"
  "ls_done (record_event env k r d p ls) = ls_done ls" "ls_defects (record_event env k r d p ls) = ls_defects ls"
  "ls_reprompts (record_event env k r d p ls) = ls_reprompts ls"
  by (simp_all add: record_event_def add_note_frame)

lemma clone_frame:
  "reworks (evs (ls_run (clone_event env c ls))) = reworks (evs (ls_run ls))"
  "walls (ls_run (clone_event env c ls)) = walls (ls_run ls)"
  "ls_done (clone_event env c ls) = ls_done ls" "ls_defects (clone_event env c ls) = ls_defects ls"
  "ls_reprompts (clone_event env c ls) = ls_reprompts ls"
  by (simp_all add: clone_event_def record_event_frame keeps_simps split: prod.split)

lemma clones_frame:
  "reworks (evs (ls_run (fold (clone_event env) cs ls))) = reworks (evs (ls_run ls))"
  "walls (ls_run (fold (clone_event env) cs ls)) = walls (ls_run ls)"
  "ls_done (fold (clone_event env) cs ls) = ls_done ls" "ls_defects (fold (clone_event env) cs ls) = ls_defects ls"
  "ls_reprompts (fold (clone_event env) cs ls) = ls_reprompts ls"
  by (induction cs arbitrary: ls) (simp_all add: clone_frame)

lemma role_events_frame:
  "reworks (evs (ls_run (role_events env r ls))) = reworks (evs (ls_run ls))"
  "walls (ls_run (role_events env r ls)) = walls (ls_run ls)"
  "ls_done (role_events env r ls) = ls_done ls" "ls_defects (role_events env r ls) = ls_defects ls"
  "ls_reprompts (role_events env r ls) = ls_reprompts ls"
  by (simp_all add: role_events_def tests_note_def Let_def clones_frame record_event_frame keeps_simps)

lemma phase_events_frame:
  "reworks (evs (ls_run (phase_events env r v ls))) = reworks (evs (ls_run ls))"
  "walls (ls_run (phase_events env r v ls)) = walls (ls_run ls)"
  "ls_done (phase_events env r v ls) = ls_done ls" "ls_defects (phase_events env r v ls) = ls_defects ls"
  "ls_reprompts (phase_events env r v ls) = ls_reprompts ls"
  by (simp_all add: phase_events_def record_event_frame role_events_frame keeps_simps)

lemma phases_left_pass:
  "r \<notin> set (ls_done ls) \<Longrightarrow> Suc (phases_left (pass_phase r i ls)) = phases_left ls"
  by (cases r) (auto simp: phases_left_def pass_phase_def build_phases_def)

lemma phases_left_back: "phases_left (send_back d ls) \<le> Suc (phases_left ls)"
  by (auto simp: phases_left_def send_back_def Let_def build_phases_def split: decision_class.splits)

definition same_budget :: "loop_state \<Rightarrow> loop_state \<Rightarrow> bool" where
  "same_budget ls ls' = (reworks (evs (ls_run ls')) = reworks (evs (ls_run ls)) \<and>
     max_rework (budget (walls (ls_run ls'))) = max_rework (budget (walls (ls_run ls))) \<and>
     ls_defects ls' = ls_defects ls \<and> ls_reprompts ls' = ls_reprompts ls \<and> ls_done ls' = ls_done ls)"

lemma same_budget_left: "same_budget ls ls' \<Longrightarrow> send_backs_left ls' = send_backs_left ls \<and> phases_left ls' = phases_left ls"
  by (simp add: same_budget_def send_backs_left_def phases_left_def rework_rounds_this_build_def)

lemma pass_measure:
  assumes "same_budget ls ls1" "r \<notin> set (ls_done ls)"
  shows "loop_measure (pass_phase r i ls1) < loop_measure ls"
proof -
  have "send_backs_left (pass_phase r i ls1) = send_backs_left ls1"
    by (simp add: send_backs_left_def pass_phase_def)
  moreover have "Suc (phases_left (pass_phase r i ls1)) = phases_left ls1"
    using assms by (intro phases_left_pass) (simp add: same_budget_def)
  ultimately show ?thesis using same_budget_left [OF assms(1)] by (simp add: loop_measure_def)
qed

lemma back_measure:
  assumes "decision_effect r (ls_defects ls) (ls_reprompts ls) (ls_run ls) d rs"
    and "d_kind d \<noteq> DSTOP" "d_kind d \<noteq> DADVISORY"
  shows "loop_measure (send_back d (ls\<lparr>ls_run := rs\<rparr>)) < loop_measure ls"
proof -
  have "send_backs_left (send_back d (ls\<lparr>ls_run := rs\<rparr>)) < send_backs_left ls"
    using assms
    by (auto simp: decision_effect_def send_backs_left_def send_back_def Let_def rework_rounds_this_build_def
        split: decision_class.splits)
  moreover have "phases_left (send_back d (ls\<lparr>ls_run := rs\<rparr>)) \<le> Suc (phases_left ls)"
    using phases_left_back [of d "ls\<lparr>ls_run := rs\<rparr>"] by (simp add: phases_left_def)
  ultimately show ?thesis by (simp add: loop_measure_def)
qed

lemma same_budget_record:
  "same_budget ls ls1 \<Longrightarrow> k \<noteq> REWORK \<Longrightarrow> keeps_budget p \<Longrightarrow> same_budget ls (record_event env k r d p ls1)"
  by (simp add: same_budget_def record_event_frame)

lemma same_budget_phase: "same_budget ls (phase_events env r v ls)"
  by (simp add: same_budget_def phase_events_frame)

lemma gate_passed_measure:
  assumes "same_budget ls ls1" "r \<notin> set (ls_done ls)" "gate_passed env r i ls1 = Continue ls'"
  shows "loop_measure ls' < loop_measure ls"
proof -
  have "\<exists>ls2. ls' = pass_phase r i ls2 \<and> same_budget ls ls2"
    using assms(1,3) same_budget_record [OF assms(1)]
    by (auto simp: gate_passed_def finish_def keeps_simps split: option.splits sum.splits prod.splits)
  then show ?thesis using pass_measure assms(2) by blast
qed

lemma collect_gate_measure:
  assumes "same_budget ls ls1" "r \<notin> set (ls_done ls)" "collect_gate env r i v ls1 = Continue ls'"
  shows "loop_measure ls' < loop_measure ls"
proof -
  have "same_budget ls (ls1\<lparr>ls_collected := c\<rparr>)" for c using assms(1) by (simp add: same_budget_def)
  then have "\<exists>ls2. ls' = pass_phase r i ls2 \<and> same_budget ls ls2"
    using assms(3) by (auto simp: collect_gate_def Let_def keeps_simps intro!: same_budget_record)
  then show ?thesis using pass_measure assms(2) by blast
qed

lemma collect_role_measure:
  assumes "same_budget ls ls1" "r \<notin> set (ls_done ls)" "collect_role env r i exc ls1 = Continue ls'"
  shows "loop_measure ls' < loop_measure ls"
proof -
  have "same_budget ls (ls1\<lparr>ls_collected := c\<rparr>)" for c using assms(1) by (simp add: same_budget_def)
  then have "\<exists>ls2. ls' = pass_phase r i ls2 \<and> same_budget ls ls2"
    using assms(3) by (auto simp: collect_role_def Let_def keeps_simps intro!: same_budget_record)
  then show ?thesis using pass_measure assms(2) by blast
qed

lemma gate_failed_measure:
  assumes "foreman_silent env" "same_budget ls ls1" "r \<notin> set (ls_done ls)"
    and "gate_failed env r i v ls1 = Continue ls'"
  shows "loop_measure ls' < loop_measure ls"
proof (cases "re_collect_all env")
  case True
  then show ?thesis using collect_gate_measure assms by (simp add: gate_failed_def)
next
  case False
  obtain d rs where d: "decide env r v (ls_rework ls1) (ls_defects ls1) False (ls_reprompts ls1) (ls_work ls1) (ls_run ls1) = (d, rs)"
    by (cases "decide env r v (ls_rework ls1) (ls_defects ls1) False (ls_reprompts ls1) (ls_work ls1) (ls_run ls1)")
  note eff = decide_effect [OF assms(1) d]
  have k: "d_kind d \<noteq> DSTOP"
    and c: "ls' = (if d_kind d = DADVISORY then pass_phase r i (ls1\<lparr>ls_run := rs\<rparr>) else send_back d (ls1\<lparr>ls_run := rs\<rparr>))"
    using assms(4) False d
    by (auto simp: gate_failed_def hand_off_def finish_def Let_def
        split: if_splits decision_class.splits sum.splits prod.splits)
  show ?thesis
  proof (cases "d_kind d = DADVISORY")
    case True
    have "same_budget ls (ls1\<lparr>ls_run := rs\<rparr>)"
      using eff True assms(2) by (simp add: same_budget_def decision_effect_def)
    then show ?thesis using c True pass_measure assms(3) by simp
  next
    case False
    then have "loop_measure ls' < loop_measure ls1" using back_measure [OF eff k] c by simp
    then show ?thesis using same_budget_left [OF assms(2)] by (simp add: loop_measure_def)
  qed
qed

lemma loop_step_measure:
  assumes "foreman_silent env" "loop_step env ans ls = Continue ls'"
  shows "loop_measure ls' < loop_measure ls"
proof -
  obtain r i where n: "next_phase ls = Some (r, i)"
    using assms(2) by (auto simp: loop_step_def finish_def split: option.splits if_splits)
  note fresh = next_phase_fresh [OF n]
  show ?thesis
  proof (cases ans)
    case (RoleFailed exc reason location fk)
    have "same_budget ls (record_event env PHASE_STARTED r (role_value r) [] ls)"
      by (simp add: same_budget_def record_event_frame keeps_simps)
    then show ?thesis using assms(2) n RoleFailed fresh collect_role_measure
      by (auto simp: loop_step_def finish_def Let_def split: if_splits)
  next
    case (Judged v)
    then show ?thesis
      using assms n gate_passed_measure [OF same_budget_phase fresh]
        gate_failed_measure [OF assms(1) same_budget_phase fresh]
      by (auto simp: loop_step_def finish_def Let_def split: if_splits)
  qed (use assms(2) n in \<open>auto simp: loop_step_def finish_def Let_def split: if_splits\<close>)
qed

lemma run_cycle_ends:
  "list_all (\<lambda>a. foreman_silent (fst a)) as \<Longrightarrow> loop_measure ls < length as \<Longrightarrow>
   \<exists>f ls'. run_cycle as ls = Finished f ls'"
proof (induction as arbitrary: ls)
  case (Cons a as)
  obtain env ans where a: "a = (env, ans)" by (cases a)
  show ?case
  proof (cases "loop_step env ans ls")
    case (Continue ls1)
    then have "loop_measure ls1 < loop_measure ls" using loop_step_measure Cons.prems a by auto
    then show ?thesis using Cons.IH [of ls1] Cons.prems a Continue by auto
  qed (simp add: a)
qed simp

section \<open>The budgets hold throughout\<close>

text \<open>At most the budget per gate, at most the ceiling per build, and no failure key was the
  reason of two rounds.\<close>

definition failure_sets :: "build_event list \<Rightarrow> string set list" where
  "failure_sets es = map (\<lambda>e. set (strs_of (get0 (payload e) ''failure_names''))) (reworks es)"

definition within_budget :: "runner_state \<Rightarrow> bool" where
  "within_budget rs =
     ((\<forall>r. rework_rounds_at (evs rs) r \<le> max_rework (budget (walls rs))) \<and>
      rework_rounds_this_build (evs rs) \<le> rework_ceiling \<and>
      sorted_wrt (\<lambda>a b. a \<inter> b = {}) (failure_sets (evs rs)))"

lemma role_value_inj: "role_value a = role_value b \<Longrightarrow> a = b"
  using role_of_value by (metis option.inject)

lemma effect_within_budget:
  assumes "decision_effect r n m st d st'" "within_budget st"
  shows "within_budget st'"
proof (cases "d_kind d = DREWORK")
  case False
  then have "reworks (evs st') = reworks (evs st)" "max_rework (budget (walls st')) = max_rework (budget (walls st))"
    using assms(1) by (auto simp: decision_effect_def split: decision_class.splits)
  then show ?thesis using assms(2)
    by (simp add: within_budget_def failure_sets_def rework_rounds_at_def rework_rounds_this_build_def)
next
  case True
  then obtain e where e: "reworks (evs st') = reworks (evs st) @ [e]"
    "get0 (payload e) ''source'' = PStr (role_value r)"
    "set (strs_of (get0 (payload e) ''failure_names'')) \<inter> set (all_rework_failures (evs st)) = {}"
    "rework_rounds_at (evs st) r < max_rework (budget (walls st))"
    "rework_rounds_this_build (evs st) < rework_ceiling"
    "max_rework (budget (walls st')) = max_rework (budget (walls st))"
    using assms(1) by (auto simp: decision_effect_def)
  have at: "rework_rounds_at (evs st') q = rework_rounds_at (evs st) q + (if q = r then 1 else 0)" for q
    using e(1,2) role_value_inj by (auto simp: rework_rounds_at_def)
  have "rework_rounds_this_build (evs st') = Suc (rework_rounds_this_build (evs st))"
    using e(1) by (simp add: rework_rounds_this_build_def)
  moreover have "sorted_wrt (\<lambda>a b. a \<inter> b = {}) (failure_sets (evs st'))"
    using assms(2) e(1,3)
    by (auto simp: within_budget_def failure_sets_def sorted_wrt_append all_rework_failures_def)
  ultimately show ?thesis using assms(2) e(4,5,6) at
    by (auto simp: within_budget_def Suc_le_eq)
qed

lemma within_budget_same:
  "within_budget rs \<Longrightarrow> reworks (evs rs') = reworks (evs rs) \<Longrightarrow>
   max_rework (budget (walls rs')) = max_rework (budget (walls rs)) \<Longrightarrow> within_budget rs'"
  by (simp add: within_budget_def failure_sets_def rework_rounds_at_def rework_rounds_this_build_def)

lemma same_budget_within: "same_budget ls ls1 \<Longrightarrow> within_budget (ls_run ls) \<Longrightarrow> within_budget (ls_run ls1)"
  by (rule within_budget_same) (simp_all add: same_budget_def)

fun progress_state :: "progress \<Rightarrow> loop_state" where
  "progress_state (Finished f ls) = ls"
| "progress_state (Continue ls) = ls"

abbreviation ok_run :: "loop_state \<Rightarrow> bool" where
  "ok_run ls \<equiv> within_budget (ls_run ls)"

lemma progress_state_finish [simp]: "progress_state (finish out dt ph fs ls) = ls"
  by (simp add: finish_def)

lemma ls_run_pass [simp]: "ls_run (pass_phase r i ls) = ls_run ls"
  by (simp add: pass_phase_def)

lemma ls_run_back [simp]: "ls_run (send_back d ls) = ls_run ls"
  by (simp add: send_back_def Let_def split: decision_class.splits)

lemma ok_record: "ok_run ls \<Longrightarrow> k \<noteq> REWORK \<Longrightarrow> keeps_budget p \<Longrightarrow> ok_run (record_event env k r dt p ls)"
  by (rule within_budget_same) (simp_all add: record_event_frame)

lemma ok_collected: "ok_run ls \<Longrightarrow> ok_run (ls\<lparr>ls_collected := c\<rparr>)"
  by simp

lemma gate_failed_within:
  assumes "foreman_silent env" "ok_run ls"
  shows "ok_run (progress_state (gate_failed env r i v ls))"
proof -
  obtain d rs where d: "decide env r v (ls_rework ls) (ls_defects ls) False (ls_reprompts ls) (ls_work ls) (ls_run ls) = (d, rs)"
    by (cases "decide env r v (ls_rework ls) (ls_defects ls) False (ls_reprompts ls) (ls_work ls) (ls_run ls)")
  have rs: "within_budget rs"
    using effect_within_budget [OF decide_effect [OF assms(1) d] assms(2)] .
  have c: "ok_run (progress_state (collect_gate env r i v ls))"
    using assms(2) by (simp add: collect_gate_def Let_def) (rule ok_record, simp_all add: keeps_simps)
  have h: "ok_run (progress_state (hand_off env q v res ls))" for res q
    using assms(2)
    by (cases res) (auto simp: hand_off_def handoff_note_def keeps_simps intro!: ok_record split: prod.splits option.splits)
  show ?thesis
    using assms(2) rs c h by (simp add: gate_failed_def Let_def d split: decision_class.splits)
qed

lemma loop_step_within:
  assumes "foreman_silent env" "ok_run ls"
  shows "ok_run (progress_state (loop_step env ans ls))"
proof (cases "next_phase ls")
  case (Some x)
  obtain r i where x: "x = (r, i)" by (cases x)
  have ph: "ok_run (phase_events env r v ls)" for v
    using same_budget_within [OF same_budget_phase] assms(2) by blast
  have started: "ok_run (record_event env PHASE_STARTED r dt [] ls)" for dt
    using assms(2) by (rule ok_record) (simp_all add: keeps_simps)
  have passed: "ok_run (progress_state (gate_passed env r i ls1))" if "ok_run ls1" for ls1
    using that ok_record [OF that] by (auto simp: gate_passed_def keeps_simps split: option.splits sum.splits prod.splits)
  have crole: "ok_run (progress_state (collect_role env r i exc ls1))" if "ok_run ls1" for exc ls1
    unfolding collect_role_def Let_def progress_state.simps ls_run_pass
    using that by (intro ok_record ok_collected) (simp_all add: keeps_simps)
  have ab: "ok_run (record_event env PHASE_ABORTED r dt p ls1)" if "ok_run ls1" "keeps_budget p" for dt p ls1
    using that by (intro ok_record) simp_all
  have kb: "keeps_budget []" "keeps_budget [(''reason'', a), (''location'', b), (''failure_kind'', c)]" for a b c
    by (simp_all add: keeps_simps)
  show ?thesis
  proof (cases ans)
    case (Judged v)
    then show ?thesis using Some x assms ab [OF assms(2)] kb passed [OF ph] gate_failed_within [OF assms(1) ph]
      by (simp add: loop_step_def Let_def)
  next
    case (RoleFailed exc reason location fk)
    then show ?thesis using Some x ab [OF assms(2)] kb crole [OF started] ab [OF started]
      by (simp add: loop_step_def Let_def)
  next
    case (HaltAfter v dt fs)
    then show ?thesis using Some x ab [OF assms(2)] kb ph by (simp add: loop_step_def)
  next
    case (LaneViolation exc)
    then show ?thesis using Some x ab [OF assms(2)] kb ab [OF started] by (simp add: loop_step_def)
  next
    case (HaltBefore dt fs)
    then show ?thesis using Some x assms(2) by (simp add: loop_step_def)
  qed
qed (use assms(2) in \<open>simp add: loop_step_def\<close>)

section \<open>Properties\<close>

text \<open>Property C8.  The build loop ends: whatever the roles and gates answer, a cycle with the default budget
  of two rework rounds per gate finishes after at most 26 executed phases, because the writer is
  sent back at most ten times (six rework rounds, two test regenerations, two re-prompts).\<close>

theorem run_cycle_terminates:
  assumes "list_all (\<lambda>a. foreman_silent (fst a)) as" "max_rework (budget (walls rs)) = rework_budget"
    and "length as = 26"
  shows "\<exists>f ls'. run_cycle as (start_loop fin work rs) = Finished f ls'"
proof (rule run_cycle_ends [OF assms(1)])
  have "phases_left (start_loop fin work rs) \<le> 5"
    by (simp add: phases_left_def build_phases_def)
  then show "loop_measure (start_loop fin work rs) < length as"
    using assms(2,3)
    by (simp add: loop_measure_def send_backs_left_def start_loop_def rework_budget_def rework_ceiling_def)
qed

definition quiet_foreman :: "build_role \<Rightarrow> verdict \<Rightarrow> item list \<Rightarrow> foreman_result \<times> (string \<times> (string, pyval) dict) list" where
  "quiet_foreman r v w = (\<lparr>fm_off = True, fm_mode = ''off'', fm_used = False, fm_fallback = False, fm_stop = False,
     fm_stop_reason = [], fm_work = [], fm_attempts = 0, fm_instruction = PNone, fm_errors = []\<rparr>, [])"

definition demo_env :: runner_env where
  "demo_env = \<lparr>re_clock = (\<lambda>n. []), re_time = 0, re_fmt = (\<lambda>x. ''0.0''), re_brief = Inr [''suite''],
     re_tuple = (\<lambda>s. False), re_compares = (\<lambda>s. False), re_modules = [], re_factory_files = [],
     re_behavior_files = [], re_foreman = quiet_foreman, re_collect_all = False,
     re_checkpoint = (\<lambda>r. None), re_handoff = None,
     re_output = \<lparr>ro_detail = [], ro_wrote = [], ro_clones = []\<rparr>\<rparr>"

definition demo_run :: runner_state where
  "demo_run = \<lparr>evs = [], walls = start_wall default_budget 0, reprompt_lines = []\<rparr>"

lemma demo_silent: "foreman_silent demo_env"
  by (simp add: foreman_silent_def demo_env_def quiet_foreman_def)

theorem run_cycle_terminates_witness:
  "\<exists>f ls'. run_cycle (replicate 26 (demo_env, Judged (gate_result False ''suite'' ''red'' ''suite_red'' [] [])))
      (start_loop [] [] demo_run) = Finished f ls'"
proof (rule run_cycle_terminates)
  show "list_all (\<lambda>a. foreman_silent (fst a))
      (replicate 26 (demo_env, Judged (gate_result False ''suite'' ''red'' ''suite_red'' [] [])))"
    by (simp add: list_all_iff demo_silent)
qed (simp_all add: demo_run_def start_wall_def default_budget_def)

text \<open>Property C1.  Whatever happens in a build, no gate ever gets more rework rounds than its budget, the
  build never more than six in all, and no failure (check and shape) is sent back twice.\<close>

theorem rework_within_budget:
  assumes "list_all (\<lambda>a. foreman_silent (fst a)) as" "within_budget (ls_run ls)"
  shows "within_budget (ls_run (progress_state (run_cycle as ls)))"
  using assms
proof (induction as arbitrary: ls)
  case (Cons a as)
  obtain env ans where a: "a = (env, ans)" by (cases a)
  have "within_budget (ls_run (progress_state (loop_step env ans ls)))"
    using Cons.prems a by (intro loop_step_within) auto
  then show ?case using Cons a by (cases "loop_step env ans ls") auto
qed simp

theorem rework_within_budget_witness:
  "within_budget (ls_run (progress_state (run_cycle
      (replicate 9 (demo_env, Judged (gate_result False ''suite'' ''red'' ''suite_red'' [] [])))
      (start_loop [] [] demo_run))))"
proof (rule rework_within_budget)
  show "list_all (\<lambda>a. foreman_silent (fst a))
      (replicate 9 (demo_env, Judged (gate_result False ''suite'' ''red'' ''suite_red'' [] [])))"
    by (simp add: list_all_iff demo_silent)
  show "within_budget (ls_run (start_loop [] [] demo_run))"
    by (simp add: within_budget_def start_loop_def demo_run_def failure_sets_def reworks_def after_reset_def
        rework_rounds_at_def rework_rounds_this_build_def)
qed

text \<open> A failure the brief never defined cannot cost the customer a writer round: when every failing
  check lies outside the brief, the decision is ADVISORY, nothing is handed to the writer, no
  rework is recorded, and the gate counts as passed for the role.\<close>

theorem invented_failure_is_advisory:
  assumes "re_brief env = Inr defs" "list_all (\<lambda>p. fst p \<notin> set defs) (failure_checks v)"
  shows "case decide env r v used n reopen m handed st of (d, st') \<Rightarrow>
     d_kind d = DADVISORY \<and> d_work d = [] \<and> reworks (evs st') = reworks (evs st) \<and>
     latest_verdict r (rev (evs st')) = Some GATE_PASSED"
proof -
  have inv: "invented (split_failures v defs) = failure_checks v" "defined (split_failures v defs) = []"
    using assms(2) by (auto simp: split_failures_def list_all_iff filter_id_conv filter_empty_conv)
  have dec: "decide env r v used n reopen m handed st =
      decide_advisory env r v (split_failures v defs) (record_advisory env r v (split_failures v defs) st)"
    using assms(1) inv failure_checks_nonempty by (simp add: decide_def split_by_brief_def Let_def)
  show ?thesis
    unfolding dec decide_advisory_def Let_def
    by (simp add: add_note_frame keeps_simps record_advisory_frame)
       (simp add: add_note_def emit_def forgets_def is_rebase_def reopens_def is_verdict_def
          terminal_kinds_def stored_def new_event_def)
qed

theorem invented_failure_is_advisory_witness:
  "d_kind (fst (decide demo_env TESTER (gate_result False ''extra'' ''red'' [] [] []) 0 0 False 0 [] demo_run)) = DADVISORY"
proof -
  have "re_brief demo_env = Inr [''suite'']" by (simp add: demo_env_def)
  moreover have "list_all (\<lambda>p. fst p \<notin> set [''suite'']) (failure_checks (gate_result False ''extra'' ''red'' [] [] []))"
    by code_simp
  ultimately show ?thesis
    using invented_failure_is_advisory [where env = demo_env and defs = "[''suite'']"
        and v = "gate_result False ''extra'' ''red'' [] [] []" and r = TESTER and used = 0 and n = 0
        and reopen = False and m = 0 and handed = "[]" and st = demo_run]
    by (simp add: case_prod_beta)
qed

end
