(* ===== verification/Accounts.thy ===== *)
theory Accounts
  imports PyConv
begin

text \<open>
  The accounts store (\<open>core/accounts_store.py\<close>): the six tables, every operation
  on them and the credential functions.  A table is the list of its rows in
  insertion order, \<open>first()\<close> is the first matching row, a unique column refuses a
  second row with the same value.  Random identifiers, salts, raw tokens and the
  current time (microseconds) are arguments; SHA-256 and PBKDF2 are the two
  functions of \<open>crypto\<close>, the second returning None where \<open>bytes.fromhex\<close> refuses
  the salt.  The engine, connection URLs and the retry around a lost insert race
  are left out.
\<close>

section \<open>Tables\<close>

text \<open>A stored expiry: an ISO time with an offset, one without, or a text that does not parse.\<close>

datatype stamp = Aware int | Naive int | Unreadable

record account_row =
  a_id :: string
  a_email :: string
  a_password :: string
  a_verified :: bool
  a_vhash :: "string option"
  a_vexp :: "stamp option"
  a_rhash :: "string option"
  a_rexp :: "stamp option"
  a_trial :: "stamp option"
  a_status :: "string option"
  a_customer :: "string option"
  a_subscription :: "string option"
  a_created :: int

record key_row =
  k_id :: string
  k_account :: string
  k_hash :: string
  k_label :: string
  k_created :: int
  k_revoked :: "int option"

record event_row =
  e_id :: string
  e_type :: string
  e_account :: "string option"
  e_created :: int

record token_row =
  t_id :: string
  t_account :: string
  t_hash :: string
  t_created :: int
  t_expires :: stamp

record owner_row =
  o_session :: string
  o_account :: string
  o_created :: int

record usage_row =
  u_account :: string
  u_counter :: string
  u_period :: string
  u_value :: int
  u_updated :: int

record db =
  accounts :: "account_row list"
  api_keys :: "key_row list"
  stripe_events :: "event_row list"
  login_tokens :: "token_row list"
  session_owners :: "owner_row list"
  usage_counters :: "usage_row list"

definition empty_db :: db where
  "empty_db = \<lparr>accounts = [], api_keys = [], stripe_events = [], login_tokens = [],
     session_owners = [], usage_counters = []\<rparr>"

datatype store_exn = EmailRegistered | IntegrityError | StoreTypeError | LostAccount

definition update_where :: "('a \<Rightarrow> bool) \<Rightarrow> ('a \<Rightarrow> 'a) \<Rightarrow> 'a list \<Rightarrow> 'a list" where
  "update_where P f = map (\<lambda>x. if P x then f x else x)"

definition delete_where :: "('a \<Rightarrow> bool) \<Rightarrow> 'a list \<Rightarrow> 'a list" where
  "delete_where P = filter (\<lambda>x. \<not> P x)"

definition count_where :: "('a \<Rightarrow> bool) \<Rightarrow> 'a list \<Rightarrow> nat" where
  "count_where P xs = length (filter P xs)"

section \<open>Time and credentials\<close>

definition seconds :: "int \<Rightarrow> int" where "seconds n = n * 1000000"
definition login_token_ttl :: int where "login_token_ttl = seconds (7 * 24 * 3600)"
definition verify_token_ttl :: int where "verify_token_ttl = seconds (24 * 3600)"
definition reset_token_ttl :: int where "reset_token_ttl = seconds 3600"
definition pbkdf2_iterations :: int where "pbkdf2_iterations = 200000"

text \<open>\<open>trial_days()\<close>; the argument is the value of \<open>TRIAL_DAYS\<close>.\<close>

definition trial_days :: "string \<Rightarrow> int" where
  "trial_days env_value =
     (let raw = py_strip env_value
      in if raw = [] then 3 else case int_of_str raw of Some n \<Rightarrow> n | None \<Rightarrow> 3)"

text \<open>\<open>expires is not None and expires <= now\<close> with \<open>expires = _parse(raw)\<close>: a time without offset
  cannot be compared with an aware one.\<close>

definition past :: "stamp option \<Rightarrow> int \<Rightarrow> store_exn + bool" where
  "past e now = (case e of
       None \<Rightarrow> Inr False
     | Some (Aware t) \<Rightarrow> Inr (t \<le> now)
     | Some (Naive t) \<Rightarrow> Inl StoreTypeError
     | Some Unreadable \<Rightarrow> Inr False)"

definition is_expired :: "stamp option \<Rightarrow> int \<Rightarrow> bool" where
  "is_expired e now = (case e of
       None \<Rightarrow> False
     | Some (Aware t) \<Rightarrow> t \<le> now
     | Some (Naive t) \<Rightarrow> t \<le> now
     | Some Unreadable \<Rightarrow> False)"

record crypto =
  sha :: "string \<Rightarrow> string"
  pbkdf :: "string \<Rightarrow> string \<Rightarrow> int \<Rightarrow> string option"

abbreviation dollar :: char where "dollar \<equiv> CHR 0x24"

definition hash_password :: "crypto \<Rightarrow> string \<Rightarrow> string \<Rightarrow> string" where
  "hash_password c pw salt =
     ''pbkdf2'' @ [dollar] @ show_int pbkdf2_iterations @ [dollar] @ salt @ [dollar] @
     (case pbkdf c pw salt pbkdf2_iterations of Some d \<Rightarrow> d | None \<Rightarrow> [])"

lemma show_iterations: "show_int pbkdf2_iterations = ''200000''"
  by (simp add: show_int_def pbkdf2_iterations_def show_nat.simps) code_simp

lemma hash_password_code [code]:
  "hash_password c pw salt = ''pbkdf2'' @ [dollar] @ ''200000'' @ [dollar] @ salt @ [dollar] @
     (case pbkdf c pw salt pbkdf2_iterations of Some d \<Rightarrow> d | None \<Rightarrow> [])"
  by (simp add: hash_password_def show_iterations)

definition verify_password :: "crypto \<Rightarrow> string \<Rightarrow> string \<Rightarrow> bool" where
  "verify_password c pw stored = (case split_on dollar stored of
       [scheme, iterations, salt, expected] \<Rightarrow>
         (if scheme \<noteq> ''pbkdf2'' then False
          else case int_of_str iterations of
            None \<Rightarrow> False
          | Some n \<Rightarrow> (case pbkdf c pw salt n of None \<Rightarrow> False | Some d \<Rightarrow> d = expected))
     | _ \<Rightarrow> False)"

definition norm_email :: "string \<Rightarrow> string" where
  "norm_email e = py_lower (py_strip e)"

record account_view =
  av_id :: string
  av_email :: string
  av_verified :: bool
  av_created :: int

definition row_to_account :: "account_row \<Rightarrow> account_view" where
  "row_to_account r = \<lparr>av_id = a_id r, av_email = a_email r, av_verified = a_verified r, av_created = a_created r\<rparr>"

section \<open>Accounts\<close>

definition row_by_id :: "db \<Rightarrow> string \<Rightarrow> account_row option" where
  "row_by_id d i = find (\<lambda>r. a_id r = i) (accounts d)"

definition row_by_email :: "db \<Rightarrow> string \<Rightarrow> account_row option" where
  "row_by_email d e = find (\<lambda>r. a_email r = norm_email e) (accounts d)"

definition get_account_by_email :: "db \<Rightarrow> string \<Rightarrow> account_view option" where
  "get_account_by_email d e = map_option row_to_account (row_by_email d e)"

definition get_account :: "db \<Rightarrow> string \<Rightarrow> account_view option" where
  "get_account d i = map_option row_to_account (row_by_id d i)"

definition update_account :: "string \<Rightarrow> (account_row \<Rightarrow> account_row) \<Rightarrow> db \<Rightarrow> db" where
  "update_account i f d = d\<lparr>accounts := update_where (\<lambda>r. a_id r = i) f (accounts d)\<rparr>"

definition create_account :: "crypto \<Rightarrow> int \<Rightarrow> int \<Rightarrow> string \<Rightarrow> string \<Rightarrow> string \<Rightarrow> string \<Rightarrow> db \<Rightarrow>
    store_exn + account_view \<times> db" where
  "create_account c now trial account_id salt email password d =
     (let e = norm_email email;
          row = \<lparr>a_id = account_id, a_email = e, a_password = hash_password c password salt,
            a_verified = False, a_vhash = None, a_vexp = None, a_rhash = None, a_rexp = None,
            a_trial = Some (Aware (now + seconds (trial * 24 * 3600))), a_status = Some ''trialing'',
            a_customer = None, a_subscription = None, a_created = now\<rparr>
      in if list_ex (\<lambda>r. a_email r = e \<or> a_id r = account_id) (accounts d) then Inl EmailRegistered
         else Inr (row_to_account row, d\<lparr>accounts := accounts d @ [row]\<rparr>))"

definition ensure_verified_account :: "crypto \<Rightarrow> int \<Rightarrow> int \<Rightarrow> string \<Rightarrow> string \<Rightarrow> string \<Rightarrow> string \<Rightarrow> db \<Rightarrow>
    store_exn + account_view \<times> db" where
  "ensure_verified_account c now trial new_id salt email password d =
     bind_result
       (case get_account_by_email d (norm_email email) of
          None \<Rightarrow> map_result (\<lambda>(a, d1). (av_id a, d1)) (create_account c now trial new_id salt (norm_email email) password d)
        | Some a \<Rightarrow> Inr (av_id a, update_account (av_id a) (\<lambda>r. r\<lparr>a_password := hash_password c password salt\<rparr>) d))
       (\<lambda>(i, d1). let d2 = update_account i (\<lambda>r. r\<lparr>a_verified := True, a_vhash := None, a_vexp := None\<rparr>) d1
          in case get_account d2 i of None \<Rightarrow> Inl LostAccount | Some a \<Rightarrow> Inr (a, d2))"

definition authenticate :: "crypto \<Rightarrow> db \<Rightarrow> string \<Rightarrow> string \<Rightarrow> account_view option" where
  "authenticate c d email password = (case row_by_email d email of
       None \<Rightarrow> None
     | Some r \<Rightarrow> (if verify_password c password (a_password r) then Some (row_to_account r) else None))"

record billing_view =
  bv_id :: string
  bv_email :: string
  bv_status :: "string option"
  bv_trial :: "stamp option"
  bv_customer :: "string option"
  bv_subscription :: "string option"

definition subscription_fields :: "db \<Rightarrow> string \<Rightarrow> billing_view option" where
  "subscription_fields d i = map_option (\<lambda>r. \<lparr>bv_id = a_id r, bv_email = a_email r, bv_status = a_status r,
     bv_trial = a_trial r, bv_customer = a_customer r, bv_subscription = a_subscription r\<rparr>) (row_by_id d i)"

definition account_for_stripe_customer :: "db \<Rightarrow> string \<Rightarrow> string option" where
  "account_for_stripe_customer d customer =
     (if customer = [] then None
      else map_option a_id (find (\<lambda>r. a_customer r = Some (py_strip customer)) (accounts d)))"

definition set_subscription :: "string \<Rightarrow> string \<Rightarrow> string option \<Rightarrow> string option \<Rightarrow> db \<Rightarrow> bool \<times> db" where
  "set_subscription i status customer subscription d =
     (row_by_id d i \<noteq> None,
      update_account i (\<lambda>r. r\<lparr>a_status := Some (py_lower (py_strip status)),
          a_customer := (case customer of Some s \<Rightarrow> Some (py_strip s) | None \<Rightarrow> a_customer r),
          a_subscription := (case subscription of Some s \<Rightarrow> Some (py_strip s) | None \<Rightarrow> a_subscription r)\<rparr>) d)"

definition stripe_event_seen :: "db \<Rightarrow> string \<Rightarrow> bool" where
  "stripe_event_seen d eid = list_ex (\<lambda>e. e_id e = eid) (stripe_events d)"

definition record_stripe_event :: "int \<Rightarrow> string \<Rightarrow> string \<Rightarrow> string option \<Rightarrow> db \<Rightarrow> db" where
  "record_stripe_event now eid ty acct d =
     (if stripe_event_seen d eid then d
      else d\<lparr>stripe_events := stripe_events d @ [\<lparr>e_id = eid, e_type = ty, e_account = acct, e_created = now\<rparr>]\<rparr>)"

section \<open>Login tokens and API keys\<close>

definition issue_login_token :: "crypto \<Rightarrow> int \<Rightarrow> string \<Rightarrow> string \<Rightarrow> string \<Rightarrow> db \<Rightarrow> store_exn + string \<times> db" where
  "issue_login_token c now tok_id random account_id d =
     (let raw = ''cdt_'' @ random; h = sha c raw
      in if list_ex (\<lambda>t. t_id t = tok_id \<or> t_hash t = h) (login_tokens d) then Inl IntegrityError
         else Inr (raw, d\<lparr>login_tokens := login_tokens d @
           [\<lparr>t_id = tok_id, t_account = account_id, t_hash = h, t_created = now,
             t_expires = Aware (now + login_token_ttl)\<rparr>]\<rparr>))"

definition account_for_login_token :: "crypto \<Rightarrow> int \<Rightarrow> db \<Rightarrow> string \<Rightarrow> store_exn + account_view option" where
  "account_for_login_token c now d raw =
     (if raw = [] then Inr None
      else case find (\<lambda>t. t_hash t = sha c raw) (login_tokens d) of
        None \<Rightarrow> Inr None
      | Some t \<Rightarrow> map_result (\<lambda>p. if p then None else get_account d (t_account t)) (past (Some (t_expires t)) now))"

definition issue_api_key :: "crypto \<Rightarrow> int \<Rightarrow> string \<Rightarrow> string \<Rightarrow> string \<Rightarrow> string \<Rightarrow> db \<Rightarrow>
    store_exn + (string \<times> string) \<times> db" where
  "issue_api_key c now key_id random account_id label d =
     (let raw = ''cdk_'' @ random; h = sha c raw
      in if list_ex (\<lambda>k. k_id k = key_id \<or> k_hash k = h) (api_keys d) then Inl IntegrityError
         else Inr ((key_id, raw), d\<lparr>api_keys := api_keys d @
           [\<lparr>k_id = key_id, k_account = account_id, k_hash = h, k_label = take 128 (py_strip label),
             k_created = now, k_revoked = None\<rparr>]\<rparr>))"

definition account_for_api_key :: "crypto \<Rightarrow> db \<Rightarrow> string \<Rightarrow> account_view option" where
  "account_for_api_key c d raw =
     (if raw = [] then None
      else case find (\<lambda>k. k_hash k = sha c raw) (api_keys d) of
        None \<Rightarrow> None
      | Some k \<Rightarrow> (if k_revoked k \<noteq> None then None else get_account d (k_account k)))"

record key_view =
  kv_id :: string
  kv_label :: string
  kv_created :: int
  kv_revoked :: bool

definition list_api_keys :: "db \<Rightarrow> string \<Rightarrow> key_view list" where
  "list_api_keys d i = map (\<lambda>k. \<lparr>kv_id = k_id k, kv_label = k_label k, kv_created = k_created k,
       kv_revoked = (k_revoked k \<noteq> None)\<rparr>)
     (sort_key k_created (filter (\<lambda>k. k_account k = i) (api_keys d)))"

definition live_key :: "string \<Rightarrow> string \<Rightarrow> key_row \<Rightarrow> bool" where
  "live_key i key_id k = (k_id k = key_id \<and> k_account k = i \<and> k_revoked k = None)"

definition revoke_api_key :: "int \<Rightarrow> string \<Rightarrow> string \<Rightarrow> db \<Rightarrow> bool \<times> db" where
  "revoke_api_key now i key_id d =
     (list_ex (live_key i key_id) (api_keys d),
      d\<lparr>api_keys := update_where (live_key i key_id) (\<lambda>k. k\<lparr>k_revoked := Some now\<rparr>) (api_keys d)\<rparr>)"

section \<open>Verification and reset\<close>

definition issue_verify_token :: "crypto \<Rightarrow> int \<Rightarrow> string \<Rightarrow> string \<Rightarrow> db \<Rightarrow> string \<times> db" where
  "issue_verify_token c now random i d =
     (let raw = ''cdv_'' @ random
      in (raw, update_account i (\<lambda>r. r\<lparr>a_vhash := Some (sha c raw), a_vexp := Some (Aware (now + verify_token_ttl))\<rparr>) d))"

definition confirm_verify_token :: "crypto \<Rightarrow> int \<Rightarrow> string \<Rightarrow> db \<Rightarrow> store_exn + string option \<times> db" where
  "confirm_verify_token c now raw d =
     (if raw = [] then Inr (None, d)
      else case find (\<lambda>r. a_vhash r = Some (sha c raw)) (accounts d) of
        None \<Rightarrow> Inr (None, d)
      | Some r \<Rightarrow> map_result (\<lambda>p. if p then (None, d)
          else (Some (a_id r), update_account (a_id r) (\<lambda>r. r\<lparr>a_verified := True, a_vhash := None, a_vexp := None\<rparr>) d))
          (past (a_vexp r) now))"

definition issue_reset_token :: "crypto \<Rightarrow> int \<Rightarrow> string \<Rightarrow> string \<Rightarrow> db \<Rightarrow> string option \<times> db" where
  "issue_reset_token c now random email d =
     (let raw = ''cdr_'' @ random
      in case row_by_email d email of
           None \<Rightarrow> (None, d)
         | Some r \<Rightarrow> (Some raw, update_account (a_id r)
             (\<lambda>r. r\<lparr>a_rhash := Some (sha c raw), a_rexp := Some (Aware (now + reset_token_ttl))\<rparr>) d))"

definition drop_sessions :: "(token_row \<Rightarrow> bool) \<Rightarrow> db \<Rightarrow> db" where
  "drop_sessions P d = d\<lparr>login_tokens := delete_where P (login_tokens d)\<rparr>"

definition new_password :: "crypto \<Rightarrow> string \<Rightarrow> string \<Rightarrow> account_row \<Rightarrow> account_row" where
  "new_password c pw salt r = r\<lparr>a_password := hash_password c pw salt, a_rhash := None, a_rexp := None\<rparr>"

definition confirm_reset_token :: "crypto \<Rightarrow> int \<Rightarrow> string \<Rightarrow> string \<Rightarrow> string \<Rightarrow> db \<Rightarrow> store_exn + string option \<times> db" where
  "confirm_reset_token c now salt raw pw d =
     (if raw = [] then Inr (None, d)
      else case find (\<lambda>r. a_rhash r = Some (sha c raw)) (accounts d) of
        None \<Rightarrow> Inr (None, d)
      | Some r \<Rightarrow> map_result (\<lambda>p. if p then (None, d)
          else (Some (a_id r), drop_sessions (\<lambda>t. t_account t = a_id r)
                 (update_account (a_id r) (new_password c pw salt) d)))
          (past (a_rexp r) now))"

definition change_account_password :: "crypto \<Rightarrow> string \<Rightarrow> string \<Rightarrow> string \<Rightarrow> string option \<Rightarrow> db \<Rightarrow> bool \<times> db" where
  "change_account_password c salt i pw keep d =
     (if i = [] \<or> pw = [] then (False, d)
      else if row_by_id d i = None then (False, d)
      else
        (let keep_hash = (case keep of Some s \<Rightarrow> (if s \<noteq> [] then Some (sha c s) else None) | None \<Rightarrow> None)
         in (True, drop_sessions (\<lambda>t. t_account t = i \<and> (case keep_hash of Some h \<Rightarrow> t_hash t \<noteq> h | None \<Rightarrow> True))
              (update_account i (new_password c pw salt) d))))"

section \<open>Session owners\<close>

definition record_session_owner :: "int \<Rightarrow> string \<Rightarrow> string \<Rightarrow> db \<Rightarrow> db" where
  "record_session_owner now s i d =
     (if list_ex (\<lambda>o'. o_session o' = s) (session_owners d)
      then d\<lparr>session_owners := update_where (\<lambda>o'. o_session o' = s) (\<lambda>o'. o'\<lparr>o_account := i\<rparr>) (session_owners d)\<rparr>
      else d\<lparr>session_owners := session_owners d @ [\<lparr>o_session = s, o_account = i, o_created = now\<rparr>]\<rparr>)"

definition session_owner :: "db \<Rightarrow> string \<Rightarrow> string option" where
  "session_owner d s = map_option o_account (find (\<lambda>o'. o_session o' = s) (session_owners d))"

definition forget_session_owner :: "string \<Rightarrow> db \<Rightarrow> bool \<times> db" where
  "forget_session_owner s d =
     (list_ex (\<lambda>o'. o_session o' = s) (session_owners d),
      d\<lparr>session_owners := delete_where (\<lambda>o'. o_session o' = s) (session_owners d)\<rparr>)"

definition sessions_for_owner :: "db \<Rightarrow> string \<Rightarrow> string list" where
  "sessions_for_owner d i = map o_session
     (sort_key (\<lambda>o'. - o_created o') (filter (\<lambda>o'. o_account o' = i) (session_owners d)))"

definition all_session_ids :: "db \<Rightarrow> string list" where
  "all_session_ids d = map o_session (sort_key (\<lambda>o'. - o_created o') (session_owners d))"

section \<open>Usage counters\<close>

definition usage_is :: "string \<Rightarrow> string \<Rightarrow> string \<Rightarrow> usage_row \<Rightarrow> bool" where
  "usage_is i c p u = (u_account u = i \<and> u_counter u = c \<and> u_period u = p)"

definition get_usage :: "string \<Rightarrow> string \<Rightarrow> string \<Rightarrow> db \<Rightarrow> int" where
  "get_usage i c p d = (case find (usage_is i c p) (usage_counters d) of Some u \<Rightarrow> u_value u | None \<Rightarrow> 0)"

definition increment_usage :: "int \<Rightarrow> string \<Rightarrow> string \<Rightarrow> string \<Rightarrow> db \<Rightarrow> int \<times> db" where
  "increment_usage now i c p d =
     (let d1 = (if list_ex (usage_is i c p) (usage_counters d)
                then d\<lparr>usage_counters := update_where (usage_is i c p)
                        (\<lambda>u. u\<lparr>u_value := u_value u + 1, u_updated := now\<rparr>) (usage_counters d)\<rparr>
                else d\<lparr>usage_counters := usage_counters d @
                        [\<lparr>u_account = i, u_counter = c, u_period = p, u_value = 1, u_updated = now\<rparr>]\<rparr>)
      in (case find (usage_is i c p) (usage_counters d1) of Some u \<Rightarrow> u_value u | None \<Rightarrow> 1, d1))"

definition decrement_usage :: "int \<Rightarrow> string \<Rightarrow> string \<Rightarrow> string \<Rightarrow> db \<Rightarrow> int \<times> db" where
  "decrement_usage now i c p d = (case find (usage_is i c p) (usage_counters d) of
       None \<Rightarrow> (0, d)
     | Some u \<Rightarrow>
         (let n = max 0 (u_value u - 1)
          in (n, d\<lparr>usage_counters := update_where (usage_is i c p)
                (\<lambda>u. u\<lparr>u_value := n, u_updated := now\<rparr>) (usage_counters d)\<rparr>)))"

definition list_usage_counters :: "db \<Rightarrow> string \<Rightarrow> (string \<times> string \<times> int \<times> int) list" where
  "list_usage_counters d i = map (\<lambda>u. (u_counter u, u_period u, u_value u, u_updated u))
     (sort_key u_counter (sort_key u_period (filter (\<lambda>u. u_account u = i) (usage_counters d))))"

section \<open>Data rights\<close>

definition verify_account_password :: "crypto \<Rightarrow> db \<Rightarrow> string \<Rightarrow> string \<Rightarrow> bool" where
  "verify_account_password c d i pw =
     (if i = [] \<or> pw = [] then False
      else case row_by_id d i of None \<Rightarrow> False | Some r \<Rightarrow> verify_password c pw (a_password r))"

record account_export =
  ex_profile :: account_view
  ex_billing :: "string option \<times> stamp option \<times> string option \<times> string option"
  ex_usage :: "(string \<times> string \<times> int \<times> int) list"
  ex_sessions :: "string list"
  ex_keys :: "key_view list"

definition export_account :: "db \<Rightarrow> string \<Rightarrow> account_export option" where
  "export_account d i = map_option (\<lambda>r. \<lparr>ex_profile = row_to_account r,
       ex_billing = (a_status r, a_trial r, a_customer r, a_subscription r),
       ex_usage = list_usage_counters d i, ex_sessions = sessions_for_owner d i,
       ex_keys = list_api_keys d i\<rparr>) (row_by_id d i)"

definition delete_account :: "string \<Rightarrow> db \<Rightarrow> bool \<times> db" where
  "delete_account i d =
     (if i = [] then (False, d)
      else (row_by_id d i \<noteq> None,
        d\<lparr>api_keys := delete_where (\<lambda>k. k_account k = i) (api_keys d),
          login_tokens := delete_where (\<lambda>t. t_account t = i) (login_tokens d),
          session_owners := delete_where (\<lambda>s. o_account s = i) (session_owners d),
          usage_counters := delete_where (\<lambda>u. u_account u = i) (usage_counters d),
          accounts := delete_where (\<lambda>r. a_id r = i) (accounts d)\<rparr>))"

definition stale_verify :: "int \<Rightarrow> account_row \<Rightarrow> bool" where
  "stale_verify now r = (a_vhash r \<noteq> None \<and> a_vhash r \<noteq> Some [] \<and> is_expired (a_vexp r) now)"

definition stale_reset :: "int \<Rightarrow> account_row \<Rightarrow> bool" where
  "stale_reset now r = (a_rhash r \<noteq> None \<and> a_rhash r \<noteq> Some [] \<and> is_expired (a_rexp r) now)"

definition purge_row :: "int \<Rightarrow> account_row \<Rightarrow> account_row" where
  "purge_row now r =
     (let r1 = (if stale_verify now r then r\<lparr>a_vhash := None, a_vexp := None\<rparr> else r)
      in if stale_reset now r then r1\<lparr>a_rhash := None, a_rexp := None\<rparr> else r1)"

definition purge_expired_tokens :: "int \<Rightarrow> db \<Rightarrow> (nat \<times> nat \<times> nat) \<times> db" where
  "purge_expired_tokens now d =
     (let stale = map t_id (filter (\<lambda>t. is_expired (Some (t_expires t)) now) (login_tokens d))
      in ((count_where (\<lambda>t. t_id t \<in> set stale) (login_tokens d),
           count_where (stale_verify now) (accounts d), count_where (stale_reset now) (accounts d)),
          d\<lparr>login_tokens := delete_where (\<lambda>t. t_id t \<in> set stale) (login_tokens d),
            accounts := map (purge_row now) (accounts d)\<rparr>))"

end
