(* ===== verification/AccountsFacts.thy ===== *)
theory AccountsFacts
  imports Accounts
begin

text \<open>
  What the accounts store guarantees: the key constraints that every operation
  keeps, how long a session token is worth something and who can close it, what
  erasure removes and leaves, what the retention job may remove, and what an
  export may depend on.
\<close>

section \<open>Tables under update and delete\<close>

lemma find_update_where:
  "(\<And>x. P x \<Longrightarrow> Q (f x) = Q x) \<Longrightarrow>
   find Q (update_where P f xs) = map_option (\<lambda>x. if P x then f x else x) (find Q xs)"
  by (induction xs) (auto simp: update_where_def)

lemma find_update_where_same:
  "(\<And>x. P x \<Longrightarrow> Q (f x) = Q x) \<Longrightarrow> (\<And>x. P x \<Longrightarrow> v (f x) = v x) \<Longrightarrow>
   map_option v (find Q (update_where P f xs)) = map_option v (find Q xs)"
  by (induction xs) (auto simp: update_where_def)

lemma find_delete_where_other:
  "(\<And>x. Q x \<Longrightarrow> \<not> P x) \<Longrightarrow> find Q (delete_where P xs) = find Q xs"
  by (induction xs) (auto simp: delete_where_def)

lemma find_key:
  "distinct (map k xs) \<Longrightarrow> x \<in> set xs \<Longrightarrow> find (\<lambda>y. k y = k x) xs = Some x"
  by (induction xs) (auto simp: image_iff)

lemma find_key_Some_iff:
  "distinct (map k xs) \<Longrightarrow> find (\<lambda>y. k y = h) xs = Some x \<longleftrightarrow> x \<in> set xs \<and> k x = h"
  using find_key[of k xs x] by (auto dest: find_SomeD)

lemma find_key_delete_where:
  "distinct (map k xs) \<Longrightarrow>
   find (\<lambda>y. k y = h) (delete_where P xs) =
     (case find (\<lambda>y. k y = h) xs of Some x \<Rightarrow> if P x then None else Some x | None \<Rightarrow> None)"
proof (induction xs)
  case Nil
  then show ?case by (simp add: delete_where_def)
next
  case (Cons a xs)
  have none: "find (\<lambda>y. k y = k a) (delete_where P xs) = None"
    using Cons.prems by (auto simp: find_None_iff delete_where_def image_iff)
  show ?case using Cons none by (auto simp: delete_where_def)
qed

lemma map_update_where [simp]:
  "(\<And>x. P x \<Longrightarrow> k (f x) = k x) \<Longrightarrow> map k (update_where P f xs) = map k xs"
  by (simp add: update_where_def)

lemma filter_update_where_other:
  "(\<And>x. P x \<Longrightarrow> \<not> Q x \<and> \<not> Q (f x)) \<Longrightarrow> filter Q (update_where P f xs) = filter Q xs"
  by (induction xs) (auto simp: update_where_def)

lemma filter_delete_where_other:
  "(\<And>x. P x \<Longrightarrow> \<not> Q x) \<Longrightarrow> filter Q (delete_where P xs) = filter Q xs"
  by (induction xs) (auto simp: delete_where_def)

lemma distinct_delete_where [simp]: "distinct (map k xs) \<Longrightarrow> distinct (map k (delete_where P xs))"
  by (induction xs) (auto simp: delete_where_def)

lemma set_delete_where [simp]: "set (delete_where P xs) = {x \<in> set xs. \<not> P x}"
  by (auto simp: delete_where_def)

lemma find_append: "find P (xs @ ys) = (case find P xs of Some x \<Rightarrow> Some x | None \<Rightarrow> find P ys)"
  by (induction xs) auto

lemma set_update_where: "set (update_where P f xs) = (\<lambda>x. if P x then f x else x) ` set xs"
  by (simp add: update_where_def)

section \<open>The key constraints\<close>

definition usage_key :: "usage_row \<Rightarrow> string \<times> string \<times> string" where
  "usage_key u = (u_account u, u_counter u, u_period u)"

definition db_ok :: "db \<Rightarrow> bool" where
  "db_ok d \<longleftrightarrow> distinct (map a_id (accounts d)) \<and> distinct (map a_email (accounts d)) \<and>
     distinct (map k_id (api_keys d)) \<and> distinct (map k_hash (api_keys d)) \<and>
     distinct (map e_id (stripe_events d)) \<and>
     distinct (map t_id (login_tokens d)) \<and> distinct (map t_hash (login_tokens d)) \<and>
     distinct (map o_session (session_owners d)) \<and>
     distinct (map usage_key (usage_counters d)) \<and> list_all (\<lambda>u. 0 \<le> u_value u) (usage_counters d)"

lemma usage_key_simp [simp]: "usage_key (u\<lparr>u_value := v, u_updated := t\<rparr>) = usage_key u"
    "usage_key \<lparr>u_account = i, u_counter = ct, u_period = p, u_value = v, u_updated = t\<rparr> = (i, ct, p)"
  by (simp_all add: usage_key_def)

lemma usage_is_key: "usage_is i ct p u \<longleftrightarrow> usage_key u = (i, ct, p)"
  by (auto simp: usage_is_def usage_key_def)

named_theorems store_simps

lemmas [store_simps] =
  find_append map_result_Inr_iff map_result_Inl_iff

lemma update_account_fields [simp]:
  "api_keys (update_account i f d) = api_keys d" "stripe_events (update_account i f d) = stripe_events d"
  "login_tokens (update_account i f d) = login_tokens d" "session_owners (update_account i f d) = session_owners d"
  "usage_counters (update_account i f d) = usage_counters d"
  "accounts (update_account i f d) = update_where (\<lambda>r. a_id r = i) f (accounts d)"
  by (simp_all add: update_account_def)

lemma db_ok_empty: "db_ok empty_db"
  by (simp add: db_ok_def empty_db_def)

lemma db_ok_update_account:
  "db_ok d \<Longrightarrow> (\<And>r. a_id (f r) = a_id r) \<Longrightarrow> (\<And>r. a_email (f r) = a_email r) \<Longrightarrow> db_ok (update_account i f d)"
  by (simp add: db_ok_def)

lemma db_ok_create_account:
  assumes "db_ok d" and "create_account c now trial aid salt email pw d = Inr (a, d')"
  shows "db_ok d'"
  using assms by (auto simp: create_account_def db_ok_def Let_def list_ex_iff image_iff split: if_splits) blast+

lemma db_ok_ensure:
  assumes "db_ok d" and "ensure_verified_account c now trial aid salt email pw d = Inr (a, d')"
  shows "db_ok d'"
proof (cases "get_account_by_email d (norm_email email)")
  case None
  then obtain b d1 where "create_account c now trial aid salt (norm_email email) pw d = Inr (b, d1)"
      "d' = update_account (av_id b) (\<lambda>r. r\<lparr>a_verified := True, a_vhash := None, a_vexp := None\<rparr>) d1"
    using assms by (auto simp: ensure_verified_account_def result_simps Let_def split: option.splits)
  then show ?thesis using assms(1) by (simp add: db_ok_update_account db_ok_create_account)
next
  case (Some b)
  then show ?thesis using assms
    by (auto simp: ensure_verified_account_def result_simps Let_def intro!: db_ok_update_account split: option.splits)
qed

lemma db_ok_drop_sessions: "db_ok d \<Longrightarrow> db_ok (drop_sessions P d)"
  by (simp add: db_ok_def drop_sessions_def)

lemma db_ok_increment: "db_ok d \<Longrightarrow> db_ok (snd (increment_usage now i ct p d))"
  by (auto simp: increment_usage_def db_ok_def Let_def list_ex_iff usage_is_key image_iff list_all_iff
      set_update_where)

lemma db_ok_decrement: "db_ok d \<Longrightarrow> db_ok (snd (decrement_usage now i ct p d))"
  by (auto simp: decrement_usage_def db_ok_def Let_def usage_is_key image_iff list_all_iff
      set_update_where split: option.splits)

lemma db_ok_delete: "db_ok d \<Longrightarrow> db_ok (snd (delete_account i d))"
  by (auto simp: delete_account_def db_ok_def list_all_iff)

lemma purge_row_simps [simp]: "a_id (purge_row now r) = a_id r" "a_email (purge_row now r) = a_email r"
    "row_to_account (purge_row now r) = row_to_account r" "a_password (purge_row now r) = a_password r"
  by (auto simp: purge_row_def Let_def row_to_account_def)

lemma db_ok_purge: "db_ok d \<Longrightarrow> db_ok (snd (purge_expired_tokens now d))"
  by (auto simp: purge_expired_tokens_def db_ok_def comp_def Let_def)

text \<open>One write to the store; the reads leave it alone.\<close>

inductive db_step :: "crypto \<Rightarrow> db \<Rightarrow> db \<Rightarrow> bool" for c :: crypto where
  create: "create_account c now trial aid salt email pw d = Inr (a, d') \<Longrightarrow> db_step c d d'"
| ensure: "ensure_verified_account c now trial aid salt email pw d = Inr (a, d') \<Longrightarrow> db_step c d d'"
| subscription: "db_step c d (snd (set_subscription i st cu su d))"
| event: "db_step c d (record_stripe_event now eid ty acct d)"
| login: "issue_login_token c now tid rnd i d = Inr (raw, d') \<Longrightarrow> db_step c d d'"
| key: "issue_api_key c now kid rnd i label d = Inr (k, d') \<Longrightarrow> db_step c d d'"
| revoke: "db_step c d (snd (revoke_api_key now i kid d))"
| verify: "db_step c d (snd (issue_verify_token c now rnd i d))"
| verified: "confirm_verify_token c now raw d = Inr (r, d') \<Longrightarrow> db_step c d d'"
| reset: "db_step c d (snd (issue_reset_token c now rnd email d))"
| resetted: "confirm_reset_token c now salt raw pw d = Inr (r, d') \<Longrightarrow> db_step c d d'"
| change: "db_step c d (snd (change_account_password c salt i pw keep d))"
| own: "db_step c d (record_session_owner now s i d)"
| forget: "db_step c d (snd (forget_session_owner s d))"
| inc: "db_step c d (snd (increment_usage now i ct p d))"
| dec: "db_step c d (snd (decrement_usage now i ct p d))"
| delete: "db_step c d (snd (delete_account i d))"
| purge: "db_step c d (snd (purge_expired_tokens now d))"

inductive db_reach :: "crypto \<Rightarrow> db \<Rightarrow> bool" for c :: crypto where
  start: "db_reach c empty_db"
| step: "db_reach c d \<Longrightarrow> db_step c d d' \<Longrightarrow> db_reach c d'"

lemma db_ok_reset:
  assumes "db_ok d" and "confirm_reset_token c now salt raw pw d = Inr (r, d')"
  shows "db_ok d'"
  using assms
  by (auto simp: confirm_reset_token_def result_simps new_password_def
      intro!: db_ok_drop_sessions db_ok_update_account split: if_splits option.splits)

lemma db_ok_verified:
  assumes "db_ok d" and "confirm_verify_token c now raw d = Inr (r, d')"
  shows "db_ok d'"
  using assms
  by (auto simp: confirm_verify_token_def result_simps intro!: db_ok_update_account split: if_splits option.splits)

lemma db_step_ok: "db_step c d d' \<Longrightarrow> db_ok d \<Longrightarrow> db_ok d'"
proof (induction rule: db_step.induct)
  case (create now trial aid salt email pw d a d')
  then show ?case by (rule db_ok_create_account[rotated])
next
  case (ensure now trial aid salt email pw d a d')
  then show ?case by (rule db_ok_ensure[rotated])
next
  case (subscription d i st cu su)
  then show ?case by (simp add: set_subscription_def db_ok_update_account)
next
  case (event d now eid ty acct)
  then show ?case by (auto simp: record_stripe_event_def stripe_event_seen_def list_ex_iff image_iff db_ok_def)
next
  case (login now tid rnd i d raw d')
  then show ?case by (auto simp: issue_login_token_def Let_def list_ex_iff image_iff db_ok_def split: if_splits) blast+
next
  case (key now kid rnd i label d k d')
  then show ?case by (auto simp: issue_api_key_def Let_def list_ex_iff image_iff db_ok_def split: if_splits) blast+
next
  case (revoke d now i kid)
  then show ?case by (simp add: revoke_api_key_def db_ok_def)
next
  case (verify d now rnd i)
  then show ?case by (simp add: issue_verify_token_def Let_def db_ok_update_account)
next
  case (verified now raw d r d')
  then show ?case by (rule db_ok_verified[rotated])
next
  case (reset d now rnd email)
  then show ?case by (simp add: issue_reset_token_def Let_def db_ok_update_account split: option.splits)
next
  case (resetted now salt raw pw d r d')
  then show ?case by (rule db_ok_reset[rotated])
next
  case (change d salt i pw keep)
  then show ?case
    by (simp add: change_account_password_def Let_def new_password_def db_ok_drop_sessions db_ok_update_account)
next
  case (own d now s i)
  then show ?case by (auto simp: record_session_owner_def list_ex_iff image_iff db_ok_def)
next
  case (forget d s)
  then show ?case by (simp add: forget_session_owner_def db_ok_def)
qed (simp_all add: db_ok_increment db_ok_decrement db_ok_delete db_ok_purge)

lemma db_reach_ok: "db_reach c d \<Longrightarrow> db_ok d"
  by (induction rule: db_reach.induct) (auto intro: db_ok_empty db_step_ok)

end
