(* ===== verification/AccountRights.thy ===== *)
theory AccountRights
  imports AccountsFacts
begin

text \<open>
  The promises of the accounts store to the account holder, each over every
  state the store can reach: credentials that expire, close and are revoked as
  asked, erasure and export, and the retention job.
\<close>

section \<open>Views under the operations\<close>

lemma get_account_update:
  "(\<And>r. row_to_account (f r) = row_to_account r) \<Longrightarrow> (\<And>r. a_id (f r) = a_id r) \<Longrightarrow>
   get_account (update_account i f d) j = get_account d j"
  by (simp add: get_account_def row_by_id_def find_update_where_same)

lemma get_account_new_password [simp]:
  "get_account (update_account i (new_password c pw salt) d) j = get_account d j"
  by (rule get_account_update) (simp_all add: new_password_def row_to_account_def)

lemma get_account_drop_sessions [simp]: "get_account (drop_sessions P d) j = get_account d j"
  by (simp add: drop_sessions_def get_account_def row_by_id_def)

lemma get_account_id: "get_account d j = Some a \<Longrightarrow> av_id a = j"
  by (auto simp: get_account_def row_by_id_def row_to_account_def dest: find_SomeD(1))

lemma login_tokens_drop [simp]: "login_tokens (drop_sessions P d) = delete_where P (login_tokens d)"
  by (simp add: drop_sessions_def)

lemma accounts_drop [simp]: "accounts (drop_sessions P d) = accounts d"
  by (simp add: drop_sessions_def)

text \<open>Which session a token opens, as the row of its hash.\<close>

definition token_row_of :: "crypto \<Rightarrow> db \<Rightarrow> string \<Rightarrow> token_row option" where
  "token_row_of c d raw = find (\<lambda>t. t_hash t = sha c raw) (login_tokens d)"

lemma account_for_login_token_row:
  "account_for_login_token c now d raw =
     (if raw = [] then Inr None
      else case token_row_of c d raw of
        None \<Rightarrow> Inr None
      | Some t \<Rightarrow> map_result (\<lambda>p. if p then None else get_account d (t_account t)) (past (Some (t_expires t)) now))"
  by (simp add: account_for_login_token_def token_row_of_def)

lemma token_row_of_drop:
  "db_ok d \<Longrightarrow> token_row_of c (drop_sessions P d) raw =
     (case token_row_of c d raw of Some t \<Rightarrow> if P t then None else Some t | None \<Rightarrow> None)"
  by (simp add: token_row_of_def drop_sessions_def db_ok_def find_key_delete_where)

text \<open>The sessions that stay open after some were closed are those not selected.\<close>

lemma login_after_drop:
  assumes "db_ok d" and "\<And>j. get_account d1 j = get_account d j"
    and "login_tokens d1 = login_tokens (drop_sessions P d)"
  shows "account_for_login_token c now d1 raw = Inr (Some a) \<longleftrightarrow>
     account_for_login_token c now d raw = Inr (Some a) \<and> (\<forall>t. token_row_of c d raw = Some t \<longrightarrow> \<not> P t)"
proof -
  have "token_row_of c d1 raw = token_row_of c (drop_sessions P d) raw"
    by (simp add: token_row_of_def assms(3))
  then show ?thesis
    using assms(1,2) by (auto simp: account_for_login_token_row token_row_of_drop result_simps split: option.splits if_splits)
qed

lemma login_account_of_row:
  "account_for_login_token c now d raw = Inr (Some a) \<Longrightarrow> \<exists>t. token_row_of c d raw = Some t \<and> av_id a = t_account t"
  by (auto simp: account_for_login_token_row result_simps dest: get_account_id split: option.splits if_splits)

section \<open>Keys\<close>

text \<open>Whatever operations run in whatever order on the accounts store, starting from
  empty tables, no two accounts share an id or an email, no two API keys or login tokens share an
  id or a hash, no event id or session id or usage counter is stored twice, and no usage counter is negative.\<close>

theorem store_keys_unique:
  assumes "db_reach c d"
  shows "db_ok d"
  using assms by (rule db_reach_ok)

section \<open>Login sessions\<close>

text \<open>A login token opens its account from the moment it is issued until exactly seven
  days later and never after, and issuing it changes nothing for any token with another hash.\<close>

theorem login_token_lifetime:
  assumes "db_reach c d" and "issue_login_token c now tok_id rnd i d = Inr (raw, d1)"
  shows "account_for_login_token c t d1 raw =
           Inr (if t < now + seconds (7 * 24 * 3600) then get_account d i else None) \<and>
         (sha c other \<noteq> sha c raw \<longrightarrow>
           account_for_login_token c t d1 other = account_for_login_token c t d other)"
proof -
  have d1: "raw = ''cdt_'' @ rnd" "d1 = d\<lparr>login_tokens := login_tokens d @
      [\<lparr>t_id = tok_id, t_account = i, t_hash = sha c raw, t_created = now, t_expires = Aware (now + login_token_ttl)\<rparr>]\<rparr>"
    and fresh: "find (\<lambda>u. t_hash u = sha c raw) (login_tokens d) = None"
    using assms(2) by (auto simp: issue_login_token_def Let_def list_ex_iff find_None_iff split: if_splits)
  have acc: "get_account d1 j = get_account d j" for j
    by (simp add: d1(2) get_account_def row_by_id_def)
  show ?thesis
    unfolding account_for_login_token_row token_row_of_def acc
    using fresh by (auto simp: d1(1) d1(2)[unfolded d1(1)] find_append past_def login_token_ttl_def split: option.splits)
qed

section \<open>Password reset and change\<close>

lemma find_new_password:
  assumes "r \<in> set (update_where (\<lambda>r. a_id r = i) (new_password c pw salt) xs)"
    and "a_id r = i"
  shows "a_rhash r = None"
proof -
  obtain x where x: "r = (if a_id x = i then new_password c pw salt x else x)"
    using assms(1) unfolding set_update_where by blast
  show ?thesis using assms(2) by (cases "a_id x = i") (simp_all add: x new_password_def)
qed

lemma confirm_reset_SomeD:
  assumes "confirm_reset_token c now salt raw pw d = Inr (Some i, d1)"
  shows "d1 = drop_sessions (\<lambda>t. t_account t = i) (update_account i (new_password c pw salt) d)"
proof (cases "find (\<lambda>r. a_rhash r = Some (sha c raw)) (accounts d)")
  case None
  then show ?thesis using assms by (simp add: confirm_reset_token_def split: if_splits)
next
  case (Some r)
  then show ?thesis using assms
    by (auto simp: confirm_reset_token_def map_result_Inr_iff simp del: accounts_drop split: if_splits)
qed

text \<open>Property C29. A confirmed password reset signs out every session of its account, leaves every
  other account's sessions as they were, and its token never resets that account again.\<close>

theorem reset_closes_sessions:
  assumes "db_reach c d" and "confirm_reset_token c now salt raw pw d = Inr (Some i, d1)"
  shows "(account_for_login_token c t d1 tok = Inr (Some a) \<longleftrightarrow>
            account_for_login_token c t d tok = Inr (Some a) \<and> av_id a \<noteq> i) \<and>
         (confirm_reset_token c later salt' raw pw' d1 = Inr (res, d2) \<longrightarrow> res \<noteq> Some i)"
proof -
  have ok: "db_ok d" using assms(1) by (rule db_reach_ok)
  note d1 = confirm_reset_SomeD[OF assms(2)]
  have "account_for_login_token c t d1 tok = Inr (Some a) \<longleftrightarrow>
      account_for_login_token c t d tok = Inr (Some a) \<and> (\<forall>u. token_row_of c d tok = Some u \<longrightarrow> t_account u \<noteq> i)"
    by (rule login_after_drop[OF ok]) (simp_all add: d1)
  then have sessions: "account_for_login_token c t d1 tok = Inr (Some a) \<longleftrightarrow>
      account_for_login_token c t d tok = Inr (Some a) \<and> av_id a \<noteq> i"
    by (auto dest: login_account_of_row)
  have "res \<noteq> Some i" if again: "confirm_reset_token c later salt' raw pw' d1 = Inr (res, d2)"
  proof
    assume "res = Some i"
    then obtain r where "find (\<lambda>r. a_rhash r = Some (sha c raw)) (accounts d1) = Some r" "a_id r = i"
      using again by (auto simp: confirm_reset_token_def result_simps split: if_splits option.splits)
    then have "r \<in> set (accounts d1)" "a_rhash r = Some (sha c raw)" "a_id r = i"
      by (auto dest: find_SomeD)
    then show False
      using find_new_password[of r i c pw salt "accounts d"] by (simp add: d1 db_ok_def)
  qed
  then show ?thesis using sessions by blast
qed

text \<open>Changing the password with a session to keep closes exactly the account's other
  sessions: a token still opens the account afterwards precisely when it did before and has the kept
  token's hash, and sessions of other accounts stay as they were.\<close>

theorem change_keeps_only_given_session:
  assumes "db_reach c d" and "change_account_password c salt i pw (Some keep) d = (True, d1)" and "keep \<noteq> []"
  shows "account_for_login_token c t d1 tok = Inr (Some a) \<longleftrightarrow>
     account_for_login_token c t d tok = Inr (Some a) \<and> (av_id a = i \<longrightarrow> sha c tok = sha c keep)"
proof -
  have ok: "db_ok d" using assms(1) by (rule db_reach_ok)
  have d1: "d1 = drop_sessions (\<lambda>u. t_account u = i \<and> t_hash u \<noteq> sha c keep) (update_account i (new_password c pw salt) d)"
    using assms(2,3) by (auto simp: change_account_password_def Let_def split: if_splits)
  have "account_for_login_token c t d1 tok = Inr (Some a) \<longleftrightarrow>
      account_for_login_token c t d tok = Inr (Some a) \<and>
      (\<forall>u. token_row_of c d tok = Some u \<longrightarrow> \<not> (t_account u = i \<and> t_hash u \<noteq> sha c keep))"
    by (rule login_after_drop[OF ok]) (simp_all add: d1)
  moreover have "t_hash u = sha c tok" if "token_row_of c d tok = Some u" for u
    using that by (auto simp: token_row_of_def dest: find_SomeD(1))
  ultimately show ?thesis using login_account_of_row[of c t d tok a] by (metis (no_types) option.inject)
qed

section \<open>Revocation\<close>

text \<open>Revoking a key stops exactly that key, and only for its owner: every other key, and
  the key itself when someone else names it, keeps opening what it opened.\<close>

theorem revoke_stops_only_that_key:
  assumes "db_reach c d" and "revoke_api_key now i kid d = (b, d1)" and "raw \<noteq> []"
  shows "account_for_api_key c d1 raw =
     (case find (\<lambda>k. k_hash k = sha c raw) (api_keys d) of
        Some k \<Rightarrow> if k_id k = kid \<and> k_account k = i then None else account_for_api_key c d raw
      | None \<Rightarrow> None)"
proof -
  have d1: "d1 = d\<lparr>api_keys := update_where (live_key i kid) (\<lambda>k. k\<lparr>k_revoked := Some now\<rparr>) (api_keys d)\<rparr>"
    using assms(2) by (simp add: revoke_api_key_def)
  have acc: "get_account d1 j = get_account d j" for j
    by (simp add: d1 get_account_def row_by_id_def)
  show ?thesis
    unfolding account_for_api_key_def acc using assms(3)
    by (auto simp: d1 find_update_where live_key_def split: option.splits)
qed

section \<open>Erasure\<close>

lemma get_account_deleted:
  "i \<noteq> [] \<Longrightarrow> get_account (snd (delete_account i d)) j = (if j = i then None else get_account d j)"
  by (auto simp: get_account_def row_by_id_def delete_account_def find_delete_where_other find_None_iff)

lemma filter_where_owner:
  "filter (\<lambda>x. k x = j) (delete_where (\<lambda>x. k x = i) xs) = (if j = i then [] else filter (\<lambda>x. k x = j) xs)"
proof (cases "j = i")
  case True
  then show ?thesis by (simp add: filter_empty_conv)
next
  case False
  then show ?thesis by (auto intro: filter_delete_where_other)
qed

lemma export_deleted:
  assumes "i \<noteq> []"
  shows "export_account (snd (delete_account i d)) j = (if j = i then None else export_account d j)"
proof (cases "j = i")
  case True
  then show ?thesis using assms
    by (auto simp: export_account_def row_by_id_def delete_account_def find_None_iff)
next
  case False
  have row: "row_by_id (snd (delete_account i d)) j = row_by_id d j"
    using assms False by (auto simp: row_by_id_def delete_account_def intro!: find_delete_where_other)
  show ?thesis
    using assms False unfolding export_account_def row
    by (simp add: list_usage_counters_def sessions_for_owner_def list_api_keys_def delete_account_def filter_where_owner)
qed

lemma login_deleted:
  assumes "db_ok d" and "i \<noteq> []"
  shows "account_for_login_token c t (snd (delete_account i d)) tok = Inr (Some a) \<longleftrightarrow>
     account_for_login_token c t d tok = Inr (Some a) \<and> av_id a \<noteq> i"
proof -
  have row: "token_row_of c (snd (delete_account i d)) tok = token_row_of c (drop_sessions (\<lambda>t. t_account t = i) d) tok"
    using assms(2) by (simp add: token_row_of_def delete_account_def)
  show ?thesis
    unfolding account_for_login_token_row row token_row_of_drop[OF assms(1)]
    by (auto simp: get_account_deleted[OF assms(2)] result_simps dest: get_account_id split: option.splits if_splits)
qed

lemma key_deleted:
  assumes "db_ok d" and "i \<noteq> []"
  shows "account_for_api_key c (snd (delete_account i d)) raw = Some a \<longleftrightarrow>
     account_for_api_key c d raw = Some a \<and> av_id a \<noteq> i"
proof -
  have row: "find (\<lambda>k. k_hash k = sha c raw) (api_keys (snd (delete_account i d))) =
      (case find (\<lambda>k. k_hash k = sha c raw) (api_keys d) of
         Some k \<Rightarrow> if k_account k = i then None else Some k | None \<Rightarrow> None)"
    using assms by (simp add: delete_account_def find_key_delete_where db_ok_def)
  show ?thesis
    unfolding account_for_api_key_def row
    by (auto simp: get_account_deleted[OF assms(2)] dest: get_account_id split: option.splits if_splits)
qed

text \<open>Property C35. Deleting an account leaves nothing of it to export, count, list or sign in with,
  by session or by key, and leaves every other account's export, sessions and keys as they were.\<close>

theorem deletion_erases_one_account:
  assumes "db_reach c d" and "i \<noteq> []" and "delete_account i d = (b, d1)"
  shows "export_account d1 i = None \<and> get_usage i ct p d1 = 0 \<and> sessions_for_owner d1 i = [] \<and>
     list_api_keys d1 i = [] \<and> (j \<noteq> i \<longrightarrow> export_account d1 j = export_account d j) \<and>
     (account_for_login_token c t d1 tok = Inr (Some a) \<longleftrightarrow>
        account_for_login_token c t d tok = Inr (Some a) \<and> av_id a \<noteq> i) \<and>
     (account_for_api_key c d1 key = Some a \<longleftrightarrow> account_for_api_key c d key = Some a \<and> av_id a \<noteq> i)"
proof -
  have ok: "db_ok d" using assms(1) by (rule db_reach_ok)
  have d1: "d1 = snd (delete_account i d)" using assms(3) by simp
  have "find (usage_is i ct p) (delete_where (\<lambda>u. u_account u = i) (usage_counters d)) = None"
    by (auto simp: find_None_iff usage_is_def)
  then have "get_usage i ct p d1 = 0" "sessions_for_owner d1 i = []" "list_api_keys d1 i = []"
    using assms(2) by (auto simp: d1 get_usage_def sessions_for_owner_def list_api_keys_def delete_account_def
        filter_where_owner)
  then show ?thesis
    using export_deleted[OF assms(2)] login_deleted[OF ok assms(2)] key_deleted[OF ok assms(2)]
    by (simp add: d1)
qed

text \<open>Erasure is not complete: a processed payment event recorded for the account
  is still stored under its id after the account is deleted.\<close>

theorem deletion_keeps_stripe_events:
  assumes "\<not> stripe_event_seen d eid"
  shows "list_ex (\<lambda>e. e_account e = Some i)
     (stripe_events (snd (delete_account i (record_stripe_event now eid ty (Some i) d))))"
  using assms by (simp add: delete_account_def record_stripe_event_def)

section \<open>Retention\<close>

lemma stale_ids:
  "distinct (map t_id xs) \<Longrightarrow> u \<in> set xs \<Longrightarrow> t_id u \<in> set (map t_id (filter P xs)) \<longleftrightarrow> P u"
  by (induction xs) (auto simp: image_iff)

lemma row_by_id_purge:
  "row_by_id (snd (purge_expired_tokens now d)) j = map_option (purge_row now) (row_by_id d j)"
proof -
  have "find (\<lambda>r. a_id r = j) (map (purge_row now) xs) = map_option (purge_row now) (find (\<lambda>r. a_id r = j) xs)" for xs
    by (induction xs) auto
  then show ?thesis by (simp add: row_by_id_def purge_expired_tokens_def Let_def)
qed

lemma get_account_purge: "get_account (snd (purge_expired_tokens now d)) j = get_account d j"
  by (simp add: get_account_def row_by_id_purge option.map_comp comp_def)

lemma purge_row_billing [simp]: "a_status (purge_row now r) = a_status r" "a_trial (purge_row now r) = a_trial r"
    "a_customer (purge_row now r) = a_customer r" "a_subscription (purge_row now r) = a_subscription r"
  by (auto simp: purge_row_def Let_def)

lemma export_purge: "export_account (snd (purge_expired_tokens now d)) j = export_account d j"
proof -
  have same: "list_usage_counters (snd (purge_expired_tokens now d)) j = list_usage_counters d j"
    "sessions_for_owner (snd (purge_expired_tokens now d)) j = sessions_for_owner d j"
    "list_api_keys (snd (purge_expired_tokens now d)) j = list_api_keys d j"
    by (simp_all add: list_usage_counters_def sessions_for_owner_def list_api_keys_def purge_expired_tokens_def Let_def)
  show ?thesis unfolding export_account_def same
    by (simp add: row_by_id_purge option.map_comp comp_def)
qed

lemma authenticate_purge:
  "authenticate c (snd (purge_expired_tokens now d)) e pw = authenticate c d e pw"
proof -
  have "find (\<lambda>r. a_email r = n) (map (purge_row now) xs) = map_option (purge_row now) (find (\<lambda>r. a_email r = n) xs)" for n xs
    by (induction xs) auto
  then show ?thesis
    by (simp add: authenticate_def row_by_email_def purge_expired_tokens_def Let_def split: option.splits)
qed

lemma past_after_purge: "now \<le> t \<Longrightarrow> is_expired e now \<Longrightarrow> past e t = Inr p \<Longrightarrow> p"
  by (auto simp: is_expired_def past_def split: option.splits stamp.splits)

text \<open>The retention job removes only what can no longer be used: at any later moment
  every login token gets the answer it would have got without the purge, and passwords and exports are untouched.\<close>

theorem purge_removes_only_dead_tokens:
  assumes "db_reach c d" and "purge_expired_tokens now d = (counts, d1)" and "now \<le> t"
    and "account_for_login_token c t d raw = Inr res"
  shows "account_for_login_token c t d1 raw = Inr res \<and>
     authenticate c d1 email pw = authenticate c d email pw \<and> export_account d1 j = export_account d j"
proof -
  have ok: "db_ok d" using assms(1) by (rule db_reach_ok)
  have d1: "d1 = snd (purge_expired_tokens now d)" using assms(2) by simp
  let ?stale = "set (map t_id (filter (\<lambda>u. is_expired (Some (t_expires u)) now) (login_tokens d)))"
  have row: "token_row_of c d1 raw = (case token_row_of c d raw of
      Some u \<Rightarrow> if is_expired (Some (t_expires u)) now then None else Some u | None \<Rightarrow> None)"
  proof -
    have "token_row_of c d1 raw = (case token_row_of c d raw of
        Some u \<Rightarrow> if t_id u \<in> ?stale then None else Some u | None \<Rightarrow> None)"
      using ok by (simp add: d1 token_row_of_def purge_expired_tokens_def Let_def db_ok_def find_key_delete_where cong: option.case_cong)
    moreover have "t_id u \<in> ?stale \<longleftrightarrow> is_expired (Some (t_expires u)) now" if "token_row_of c d raw = Some u" for u
      using that ok by (intro stale_ids) (auto simp: token_row_of_def db_ok_def dest: find_SomeD(2))
    ultimately show ?thesis by (auto split: option.splits)
  qed
  have acc: "get_account d1 j = get_account d j" for j
    by (simp add: d1 get_account_purge)
  have "account_for_login_token c t d1 raw = Inr res"
  proof (cases "raw = [] \<or> token_row_of c d raw = None")
    case True
    then show ?thesis using assms(4) by (auto simp: account_for_login_token_row row)
  next
    case False
    then obtain u where u: "token_row_of c d raw = Some u" by auto
    then obtain p where "past (Some (t_expires u)) t = Inr p"
        "res = (if p then None else get_account d (t_account u))"
      using assms(4) False by (auto simp: account_for_login_token_row map_result_Inr_iff)
    then show ?thesis
      using False u past_after_purge[OF assms(3)]
      by (cases "is_expired (Some (t_expires u)) now") (auto simp: account_for_login_token_row row acc)
  qed
  then show ?thesis by (simp add: d1 authenticate_purge export_purge)
qed

section \<open>Export\<close>

text \<open>The store with every credential hash blanked and the sessions forgotten.\<close>

definition without_secrets :: "db \<Rightarrow> db" where
  "without_secrets d = d\<lparr>
     accounts := map (\<lambda>r. r\<lparr>a_password := [], a_vhash := None, a_vexp := None, a_rhash := None, a_rexp := None\<rparr>) (accounts d),
     api_keys := map (\<lambda>k. k\<lparr>k_hash := []\<rparr>) (api_keys d), login_tokens := []\<rparr>"

lemma sort_key_map_same:
  assumes "\<And>x. k (f x) = k x"
  shows "sort_key k (map f xs) = map f (sort_key k xs)"
proof -
  have insort: "insort_key k (f x) (map f ys) = map f (insort_key k x ys)" for x ys
    by (induction ys) (simp_all add: assms)
  show ?thesis by (induction xs) (simp_all add: insort)
qed

lemma filter_map_same: "(\<And>x. P (f x) = P x) \<Longrightarrow> filter P (map f xs) = map f (filter P xs)"
  by (induction xs) auto

lemma find_map_same: "(\<And>x. P (f x) = P x) \<Longrightarrow> find P (map f xs) = map_option f (find P xs)"
  by (induction xs) auto

lemma list_api_keys_secrets: "list_api_keys (without_secrets d) i = list_api_keys d i"
  by (simp add: list_api_keys_def without_secrets_def filter_map_same sort_key_map_same)

lemma export_without_secrets: "export_account (without_secrets d) i = export_account d i"
proof -
  have "list_usage_counters (without_secrets d) i = list_usage_counters d i"
    "sessions_for_owner (without_secrets d) i = sessions_for_owner d i"
    by (simp_all add: list_usage_counters_def sessions_for_owner_def without_secrets_def)
  moreover have "row_by_id (without_secrets d) i = map_option (\<lambda>r. r\<lparr>a_password := [], a_vhash := None,
      a_vexp := None, a_rhash := None, a_rexp := None\<rparr>) (row_by_id d i)"
    by (simp add: row_by_id_def without_secrets_def find_map_same)
  ultimately show ?thesis
    by (simp add: export_account_def list_api_keys_secrets option.map_comp comp_def row_to_account_def)
qed

text \<open>The data export depends on no credential: two stores that differ only in password,
  verification, reset and key hashes and in their login tokens export the same for every account.\<close>

theorem export_reveals_no_secret:
  assumes "without_secrets d = without_secrets d'"
  shows "export_account d i = export_account d' i"
  by (metis assms export_without_secrets)

section \<open>An example store\<close>

text \<open>Two accounts, each with a login token, a key and a counter; hashes are the texts themselves.\<close>

definition demo_crypto :: crypto where
  "demo_crypto = \<lparr>sha = (\<lambda>s. s), pbkdf = (\<lambda>pw salt n. Some (salt @ pw))\<rparr>"

definition state_of :: "store_exn + 'a \<times> db \<Rightarrow> db" where
  "state_of r = (case r of Inl e \<Rightarrow> empty_db | Inr p \<Rightarrow> snd p)"

definition demo_accounts :: db where
  "demo_accounts =
     state_of (create_account demo_crypto 1 3 ''acct_b'' ''02'' '' Bob@b.io'' ''pwb''
       (state_of (create_account demo_crypto 0 3 ''acct_a'' ''01'' ''ann@a.io'' ''pwa'' empty_db)))"

definition demo_sessions :: db where
  "demo_sessions =
     state_of (issue_login_token demo_crypto 3 ''tok_2'' ''Y'' ''acct_b''
       (state_of (issue_login_token demo_crypto 2 ''tok_1'' ''X'' ''acct_a'' demo_accounts)))"

definition demo_db :: db where
  "demo_db =
     snd (increment_usage 6 ''acct_a'' ''generation'' ''lifetime''
       (snd (issue_reset_token demo_crypto 5 ''R'' ''ANN@a.io''
         (state_of (issue_api_key demo_crypto 4 ''key_1'' ''K'' ''acct_b'' ''ci'' demo_sessions)))))"

lemma reach_create:
  "db_reach c d \<Longrightarrow> is_ok (create_account c now trial aid salt email pw d) \<Longrightarrow>
   db_reach c (state_of (create_account c now trial aid salt email pw d))"
  by (auto simp: is_ok_iff state_of_def intro: db_reach.step[OF _ db_step.create])

lemma reach_login:
  "db_reach c d \<Longrightarrow> is_ok (issue_login_token c now tid rnd i d) \<Longrightarrow>
   db_reach c (state_of (issue_login_token c now tid rnd i d))"
  by (auto simp: is_ok_iff state_of_def intro: db_reach.step[OF _ db_step.login])

lemma reach_key:
  "db_reach c d \<Longrightarrow> is_ok (issue_api_key c now kid rnd i label d) \<Longrightarrow>
   db_reach c (state_of (issue_api_key c now kid rnd i label d))"
  by (auto simp: is_ok_iff state_of_def intro: db_reach.step[OF _ db_step.key])

lemma demo_sessions_reach: "db_reach demo_crypto demo_sessions"
  unfolding demo_sessions_def demo_accounts_def
  by (intro reach_login reach_create db_reach.start) code_simp+

lemma demo_reach: "db_reach demo_crypto demo_db"
proof -
  have "db_reach demo_crypto (state_of (issue_api_key demo_crypto 4 ''key_1'' ''K'' ''acct_b'' ''ci'' demo_sessions))"
    by (rule reach_key[OF demo_sessions_reach]) code_simp
  note db_reach.step[OF db_reach.step[OF this db_step.reset] db_step.inc]
  then show ?thesis unfolding demo_db_def .
qed

theorem store_keys_unique_witness: "db_ok demo_db \<and> length (accounts demo_db) = 2"
proof -
  have "length (accounts demo_db) = 2" by code_simp
  then show ?thesis using store_keys_unique[OF demo_reach] by blast
qed

definition demo_issued :: db where
  "demo_issued = state_of (issue_login_token demo_crypto 7 ''tok_3'' ''Z'' ''acct_a'' demo_db)"

theorem login_token_lifetime_witness:
  "account_for_login_token demo_crypto 8 demo_issued ''cdt_Z'' = Inr (get_account demo_db ''acct_a'') \<and>
   account_for_login_token demo_crypto (7 + seconds 604800) demo_issued ''cdt_Z'' = Inr None \<and>
   account_for_login_token demo_crypto 8 demo_issued ''cdt_X'' = account_for_login_token demo_crypto 8 demo_db ''cdt_X''"
proof -
  have i: "issue_login_token demo_crypto 7 ''tok_3'' ''Z'' ''acct_a'' demo_db = Inr (''cdt_Z'', demo_issued)"
    by code_simp
  show ?thesis
    using login_token_lifetime[OF demo_reach i, where t = 8 and other = "''cdt_X''"]
      login_token_lifetime[OF demo_reach i, where t = "7 + seconds 604800"]
    by (simp add: seconds_def demo_crypto_def)
qed

definition demo_reset :: db where
  "demo_reset = state_of (confirm_reset_token demo_crypto 8 ''03'' ''cdr_R'' ''new'' demo_db)"

theorem reset_closes_sessions_witness:
  "account_for_login_token demo_crypto 8 demo_db ''cdt_X'' = Inr (get_account demo_db ''acct_a'') \<and>
   account_for_login_token demo_crypto 8 demo_reset ''cdt_X'' \<noteq> Inr (get_account demo_db ''acct_a'') \<and>
   account_for_login_token demo_crypto 8 demo_reset ''cdt_Y'' = Inr (get_account demo_db ''acct_b'') \<and>
   confirm_reset_token demo_crypto 9 ''04'' ''cdr_R'' ''x'' demo_reset \<noteq> Inr (Some ''acct_a'', demo_reset)"
proof -
  have i: "confirm_reset_token demo_crypto 8 ''03'' ''cdr_R'' ''new'' demo_db = Inr (Some ''acct_a'', demo_reset)"
    by code_simp
  have a: "get_account demo_db ''acct_a'' = Some \<lparr>av_id = ''acct_a'', av_email = ''ann@a.io'', av_verified = False, av_created = 0\<rparr>"
    and b: "get_account demo_db ''acct_b'' = Some \<lparr>av_id = ''acct_b'', av_email = ''bob@b.io'', av_verified = False, av_created = 1\<rparr>"
    and x: "account_for_login_token demo_crypto 8 demo_db ''cdt_X'' = Inr (get_account demo_db ''acct_a'')"
    and y: "account_for_login_token demo_crypto 8 demo_db ''cdt_Y'' = Inr (get_account demo_db ''acct_b'')"
    by code_simp+
  show ?thesis
    using reset_closes_sessions[OF demo_reach i, where t = 8 and tok = "''cdt_X''"
        and later = 9 and salt' = "''04''" and pw' = "''x''" and res = "Some ''acct_a''" and ?d2.0 = demo_reset]
      reset_closes_sessions[OF demo_reach i, where t = 8 and tok = "''cdt_Y''"] x y
    by (simp add: a b)
qed

definition demo_changed :: db where
  "demo_changed = snd (change_account_password demo_crypto ''05'' ''acct_a'' ''new'' (Some ''cdt_Z'') demo_issued)"

lemma demo_issued_reach: "db_reach demo_crypto demo_issued"
  unfolding demo_issued_def by (rule reach_login[OF demo_reach]) code_simp

theorem change_keeps_only_given_session_witness:
  "account_for_login_token demo_crypto 8 demo_changed ''cdt_Z'' = Inr (get_account demo_db ''acct_a'') \<and>
   account_for_login_token demo_crypto 8 demo_changed ''cdt_X'' \<noteq> Inr (get_account demo_db ''acct_a'') \<and>
   account_for_login_token demo_crypto 8 demo_issued ''cdt_X'' = Inr (get_account demo_db ''acct_a'')"
proof -
  have i: "change_account_password demo_crypto ''05'' ''acct_a'' ''new'' (Some ''cdt_Z'') demo_issued = (True, demo_changed)"
    by code_simp
  have a: "get_account demo_db ''acct_a'' = Some \<lparr>av_id = ''acct_a'', av_email = ''ann@a.io'', av_verified = False, av_created = 0\<rparr>"
    and x: "account_for_login_token demo_crypto 8 demo_issued ''cdt_X'' = Inr (get_account demo_db ''acct_a'')"
    and z: "account_for_login_token demo_crypto 8 demo_issued ''cdt_Z'' = Inr (get_account demo_db ''acct_a'')"
    by code_simp+
  show ?thesis
    using change_keeps_only_given_session[OF demo_issued_reach i, where t = 8 and tok = "''cdt_X''"]
      change_keeps_only_given_session[OF demo_issued_reach i, where t = 8 and tok = "''cdt_Z''"] x z
    by (simp add: a demo_crypto_def)
qed

theorem revoke_stops_only_that_key_witness:
  "account_for_api_key demo_crypto demo_db ''cdk_K'' = get_account demo_db ''acct_b'' \<and>
   account_for_api_key demo_crypto (snd (revoke_api_key 9 ''acct_b'' ''key_1'' demo_db)) ''cdk_K'' = None \<and>
   account_for_api_key demo_crypto (snd (revoke_api_key 9 ''acct_a'' ''key_1'' demo_db)) ''cdk_K'' = get_account demo_db ''acct_b''"
proof -
  have k: "find (\<lambda>k. k_hash k = sha demo_crypto ''cdk_K'') (api_keys demo_db) =
      Some \<lparr>k_id = ''key_1'', k_account = ''acct_b'', k_hash = ''cdk_K'', k_label = ''ci'', k_created = 4, k_revoked = None\<rparr>"
    and now: "account_for_api_key demo_crypto demo_db ''cdk_K'' = get_account demo_db ''acct_b''"
    by code_simp+
  show ?thesis
    using revoke_stops_only_that_key[OF demo_reach surjective_pairing, of "''cdk_K''" 9 "''acct_b''" "''key_1''"]
      revoke_stops_only_that_key[OF demo_reach surjective_pairing, of "''cdk_K''" 9 "''acct_a''" "''key_1''"]
    by (simp add: k now)
qed

theorem deletion_erases_one_account_witness:
  "export_account demo_db ''acct_a'' \<noteq> None \<and>
   export_account (snd (delete_account ''acct_a'' demo_db)) ''acct_a'' = None \<and>
   get_usage ''acct_a'' ''generation'' ''lifetime'' (snd (delete_account ''acct_a'' demo_db)) = 0 \<and>
   export_account (snd (delete_account ''acct_a'' demo_db)) ''acct_b'' = export_account demo_db ''acct_b''"
proof -
  have "export_account demo_db ''acct_a'' \<noteq> None" by code_simp
  then show ?thesis
    using deletion_erases_one_account[OF demo_reach _ surjective_pairing, of "''acct_a''"
        "''generation''" "''lifetime''" "''acct_b''"]
    by auto
qed

theorem deletion_keeps_stripe_events_witness:
  "list_ex (\<lambda>e. e_account e = Some ''acct_a'')
     (stripe_events (snd (delete_account ''acct_a'' (record_stripe_event 7 ''evt_1'' ''x'' (Some ''acct_a'') demo_db))))"
  by (rule deletion_keeps_stripe_events) code_simp

theorem purge_removes_only_dead_tokens_witness:
  "account_for_login_token demo_crypto (2 + seconds 604800) (snd (purge_expired_tokens (2 + seconds 604800) demo_db)) ''cdt_Y'' =
     Inr (get_account demo_db ''acct_b'') \<and>
   length (login_tokens (snd (purge_expired_tokens (2 + seconds 604800) demo_db))) = 1"
proof -
  have y: "account_for_login_token demo_crypto (2 + seconds 604800) demo_db ''cdt_Y'' = Inr (get_account demo_db ''acct_b'')"
    and one: "length (login_tokens (snd (purge_expired_tokens (2 + seconds 604800) demo_db))) = 1"
    by code_simp+
  show ?thesis
    using purge_removes_only_dead_tokens[OF demo_reach surjective_pairing order_refl y] one by blast
qed

theorem export_reveals_no_secret_witness:
  "export_account (demo_db\<lparr>login_tokens := []\<rparr>) ''acct_b'' = export_account demo_db ''acct_b''"
  by (rule export_reveals_no_secret) (simp add: without_secrets_def)

end
