(* ===== verification/Auth.thy ===== *)
theory Auth
  imports AccountRights
begin

text \<open>
  Who is calling (\<open>core/auth.py\<close>): the resolution of the request's credentials to
  a principal, the boot check and the gates that use it.  The environment is a
  function from variable names to their values, the credential headers and the
  login cookie are optional texts; the store and the time are arguments.
\<close>

section \<open>Configuration\<close>

type_synonym environ = "string \<Rightarrow> string option"

definition env_text :: "environ \<Rightarrow> string \<Rightarrow> string" where
  "env_text env name = py_strip (case env name of None \<Rightarrow> [] | Some s \<Rightarrow> s)"

definition truthy_words :: "string list" where
  "truthy_words = [''1'', ''true'', ''yes'', ''on'']"

definition env_flag :: "environ \<Rightarrow> string \<Rightarrow> bool" where
  "env_flag env name = (py_lower (env_text env name) \<in> set truthy_words)"

definition master_key :: "environ \<Rightarrow> string" where
  "master_key env = env_text env ''CEREBRUM_DEV_API_KEY''"

definition anonymous_dev_allowed :: "environ \<Rightarrow> bool" where
  "anonymous_dev_allowed env = env_flag env ''ALLOW_ANONYMOUS_DEV''"

definition env_is_production :: "environ \<Rightarrow> bool" where
  "env_is_production env = (py_lower (env_text env ''ENV'') \<in> set [''production'', ''prod''])"

definition verification_required :: "environ \<Rightarrow> bool" where
  "verification_required env = env_flag env ''ACCOUNTS_REQUIRE_VERIFIED_EMAIL''"

datatype boot_error = AnonymousInProduction | NoMasterKey

definition verify_production_auth :: "environ \<Rightarrow> boot_error + unit" where
  "verify_production_auth env =
     (if env_is_production env \<and> anonymous_dev_allowed env then Inl AnonymousInProduction
      else if master_key env \<noteq> [] then Inr ()
      else if anonymous_dev_allowed env then Inr ()
      else Inl NoMasterKey)"

section \<open>Principals and credentials\<close>

datatype principal_kind = Admin | User | Dev

record principal =
  p_kind :: principal_kind
  p_account :: "string option"
  p_email :: "string option"
  p_verified :: "bool option"

definition plain_principal :: "principal_kind \<Rightarrow> principal" where
  "plain_principal k = \<lparr>p_kind = k, p_account = None, p_email = None, p_verified = None\<rparr>"

datatype http_error = Http nat string | StoreRaised store_exn

record request =
  authorization :: "string option"
  x_api_key :: "string option"
  cookie :: "string option"

definition header_token :: "request \<Rightarrow> string" where
  "header_token r =
     (let fallback = (case x_api_key r of Some k \<Rightarrow> (if k \<noteq> [] then py_strip k else []) | None \<Rightarrow> [])
      in case authorization r of
           None \<Rightarrow> fallback
         | Some a \<Rightarrow>
             (if a \<noteq> [] \<and> py_lower (before_char CHR '' '' a) = ''bearer''
                 \<and> py_strip (after_char CHR '' '' a) \<noteq> []
              then py_strip (after_char CHR '' '' a) else fallback))"

definition cookie_login_token :: "request \<Rightarrow> string" where
  "cookie_login_token r = py_strip (case cookie r of None \<Rightarrow> [] | Some s \<Rightarrow> s)"

definition provided_credential :: "request \<Rightarrow> string \<times> bool" where
  "provided_credential r =
     (if header_token r \<noteq> [] then (header_token r, False) else (cookie_login_token r, True))"

definition tokens_match :: "crypto \<Rightarrow> string \<Rightarrow> string \<Rightarrow> bool" where
  "tokens_match c provided expected = (sha c provided = sha c expected)"

definition resolve_user_principal :: "crypto \<Rightarrow> int \<Rightarrow> db \<Rightarrow> string \<Rightarrow> bool \<Rightarrow> http_error + principal option" where
  "resolve_user_principal c now d token login_only =
     (let by_key = (if login_only then None else account_for_api_key c d token);
          account = (case by_key of
              Some a \<Rightarrow> Inr (Some a)
            | None \<Rightarrow> account_for_login_token c now d token)
      in case account of
           Inl e \<Rightarrow> Inl (StoreRaised e)
         | Inr None \<Rightarrow> Inr None
         | Inr (Some a) \<Rightarrow> Inr (Some \<lparr>p_kind = User, p_account = Some (av_id a),
              p_email = Some (av_email a), p_verified = Some (av_verified a)\<rparr>))"

definition enforce_verification :: "environ \<Rightarrow> principal \<Rightarrow> http_error + principal" where
  "enforce_verification env p =
     (if verification_required env \<and> p_verified p = Some False then Inl (Http 403 ''email_not_verified'')
      else Inr p)"

definition invalid_key :: http_error where
  "invalid_key = Http 401 ''Invalid or missing API key''"

definition require_master_key :: "crypto \<Rightarrow> environ \<Rightarrow> request \<Rightarrow> http_error + principal" where
  "require_master_key c env r =
     (if master_key env = [] then Inl (Http 404 ''Not Found'')
      else if \<not> tokens_match c (header_token r) (master_key env) then Inl invalid_key
      else Inr (plain_principal Admin))"

definition require_api_key :: "crypto \<Rightarrow> environ \<Rightarrow> int \<Rightarrow> db \<Rightarrow> request \<Rightarrow> http_error + principal" where
  "require_api_key c env now d r =
     (let (provided, from_cookie) = provided_credential r;
          user = (if provided = [] then Inr None else resolve_user_principal c now d provided from_cookie)
      in if master_key env \<noteq> [] \<and> provided \<noteq> [] \<and> \<not> from_cookie \<and> tokens_match c provided (master_key env)
         then Inr (plain_principal Admin)
         else bind_result user (\<lambda>u. case u of
             Some p \<Rightarrow> enforce_verification env p
           | None \<Rightarrow> (if master_key env \<noteq> [] then Inl invalid_key
                     else if anonymous_dev_allowed env then Inr (plain_principal Dev)
                     else Inl invalid_key)))"

definition require_account_allow_unverified :: "crypto \<Rightarrow> int \<Rightarrow> db \<Rightarrow> request \<Rightarrow> http_error + principal" where
  "require_account_allow_unverified c now d r =
     (let (provided, from_cookie) = provided_credential r
      in if provided = [] then Inl invalid_key
         else bind_result (resolve_user_principal c now d provided from_cookie) (\<lambda>u. case u of
           None \<Rightarrow> Inl invalid_key
         | Some p \<Rightarrow> (if p_kind p \<noteq> User \<or> p_account p = None \<or> p_account p = Some [] then Inl invalid_key else Inr p)))"

section \<open>What a principal proves\<close>

text \<open>The credentials that open an account: an API key, unless it came in the cookie, or a login session.\<close>

definition opens :: "crypto \<Rightarrow> int \<Rightarrow> db \<Rightarrow> string \<Rightarrow> bool \<Rightarrow> account_view \<Rightarrow> bool" where
  "opens c now d token from_cookie a \<longleftrightarrow>
     (\<not> from_cookie \<and> account_for_api_key c d token = Some a) \<or>
     account_for_login_token c now d token = Inr (Some a)"

lemma resolve_user_SomeD:
  "resolve_user_principal c now d token lo = Inr (Some p) \<Longrightarrow>
   \<exists>a. opens c now d token lo a \<and> p = \<lparr>p_kind = User, p_account = Some (av_id a),
      p_email = Some (av_email a), p_verified = Some (av_verified a)\<rparr>"
  by (auto simp: resolve_user_principal_def opens_def Let_def split: option.splits sum.splits if_splits)

lemma enforce_verification_InrD:
  "enforce_verification env p = Inr q \<Longrightarrow> q = p \<and> (verification_required env \<longrightarrow> p_verified p \<noteq> Some False)"
  by (auto simp: enforce_verification_def split: if_splits)

lemma require_api_key_cases:
  assumes "require_api_key c env now d r = Inr p"
  obtains (admin) "p = plain_principal Admin" "master_key env \<noteq> []" "header_token r \<noteq> []"
      "tokens_match c (header_token r) (master_key env)"
    | (user) a where "opens c now d (fst (provided_credential r)) (snd (provided_credential r)) a"
      "p = \<lparr>p_kind = User, p_account = Some (av_id a), p_email = Some (av_email a), p_verified = Some (av_verified a)\<rparr>"
      "verification_required env \<longrightarrow> av_verified a"
    | (dev) "p = plain_principal Dev" "master_key env = []" "anonymous_dev_allowed env"
proof (cases "master_key env \<noteq> [] \<and> fst (provided_credential r) \<noteq> [] \<and> \<not> snd (provided_credential r) \<and>
    tokens_match c (fst (provided_credential r)) (master_key env)")
  case True
  then show ?thesis
    using assms admin by (auto simp: require_api_key_def provided_credential_def Let_def split: if_splits prod.splits)
next
  case False
  then obtain u where u: "(if fst (provided_credential r) = [] then Inr None
       else resolve_user_principal c now d (fst (provided_credential r)) (snd (provided_credential r))) = Inr u"
    and rest: "(case u of Some p \<Rightarrow> enforce_verification env p
           | None \<Rightarrow> (if master_key env \<noteq> [] then Inl invalid_key
                     else if anonymous_dev_allowed env then Inr (plain_principal Dev) else Inl invalid_key)) = Inr p"
    using assms by (auto simp: require_api_key_def case_prod_beta Let_def result_simps simp del: not_Cons_self split: if_splits)
  show ?thesis
  proof (cases u)
    case None
    then show ?thesis using rest dev by (auto split: if_splits)
  next
    case (Some q)
    then have "resolve_user_principal c now d (fst (provided_credential r)) (snd (provided_credential r)) = Inr (Some q)"
      using u by (auto split: if_splits)
    moreover have "p = q \<and> (verification_required env \<longrightarrow> p_verified q \<noteq> Some False)"
      using rest Some enforce_verification_InrD by auto
    ultimately show ?thesis using user by (auto dest!: resolve_user_SomeD)
  qed
qed

text \<open>Property C17. Every principal the request gate hands out was earned: an admin sent the master
  key in a header, never in the cookie; a user sent a live key or session of that account, never an
  API key in the cookie, and has a verified address where that is required; the anonymous developer
  exists only without a master key and with the explicit opt-in.\<close>

theorem principal_is_earned:
  assumes "require_api_key c env now d r = Inr p"
  shows "case p_kind p of
     Admin \<Rightarrow> master_key env \<noteq> [] \<and> header_token r \<noteq> [] \<and> sha c (header_token r) = sha c (master_key env)
   | User \<Rightarrow> (\<exists>a. opens c now d (fst (provided_credential r)) (snd (provided_credential r)) a \<and>
        p_account p = Some (av_id a) \<and> (verification_required env \<longrightarrow> av_verified a))
   | Dev \<Rightarrow> master_key env = [] \<and> anonymous_dev_allowed env"
  using assms
  by (cases rule: require_api_key_cases) (auto simp: plain_principal_def tokens_match_def)

text \<open>A process that passed the boot check in production never hands out an anonymous
  principal, whatever the request, the store and the time.\<close>

theorem production_has_no_anonymous:
  assumes "verify_production_auth env = Inr ()" and "env_is_production env"
    and "require_api_key c env now d r = Inr p"
  shows "master_key env \<noteq> [] \<and> p_kind p \<noteq> Dev"
  using assms(3,1,2)
  by (cases rule: require_api_key_cases) (auto simp: verify_production_auth_def plain_principal_def split: if_splits)

text \<open>Once an account is deleted no request is ever resolved to it again.\<close>

theorem deleted_account_never_returns:
  assumes "db_reach c d" and "i \<noteq> []" and "delete_account i d = (b, d1)"
    and "require_api_key c env now d1 r = Inr p"
  shows "p_account p \<noteq> Some i"
proof -
  have ok: "db_ok d" using assms(1) by (rule db_reach_ok)
  have d1: "d1 = snd (delete_account i d)" using assms(3) by simp
  have "av_id a \<noteq> i" if "opens c now d1 tok lo a" for tok lo a
    using that login_deleted[OF ok assms(2)] key_deleted[OF ok assms(2)] by (auto simp: d1 opens_def)
  with assms(4) show ?thesis
    by (elim require_api_key_cases) (auto simp: plain_principal_def)
qed

section \<open>Examples\<close>

definition demo_environ :: environ where
  "demo_environ = map_of [(''ENV'', ''Production''), (''CEREBRUM_DEV_API_KEY'', ''master '')]"

definition demo_request :: request where
  "demo_request = \<lparr>authorization = Some ''Bearer  cdt_X'', x_api_key = None, cookie = Some ''cdt_Y''\<rparr>"

lemma demo_request_ok:
  "require_api_key demo_crypto demo_environ 8 demo_db demo_request =
     Inr \<lparr>p_kind = User, p_account = Some ''acct_a'', p_email = Some ''ann@a.io'', p_verified = Some False\<rparr>"
  by code_simp

theorem principal_is_earned_witness:
  "\<exists>a. opens demo_crypto 8 demo_db (fst (provided_credential demo_request)) (snd (provided_credential demo_request)) a \<and>
     av_id a = ''acct_a''"
  using principal_is_earned[OF demo_request_ok] by auto

theorem production_has_no_anonymous_witness: "master_key demo_environ \<noteq> []"
proof -
  have "verify_production_auth demo_environ = Inr ()" "env_is_production demo_environ" by code_simp+
  then show ?thesis using production_has_no_anonymous[OF _ _ demo_request_ok] by blast
qed

theorem deleted_account_never_returns_witness:
  "require_api_key demo_crypto demo_environ 8 (snd (delete_account ''acct_b'' demo_db)) demo_request =
     Inr \<lparr>p_kind = User, p_account = Some ''acct_a'', p_email = Some ''ann@a.io'', p_verified = Some False\<rparr> \<and>
   ''acct_a'' \<noteq> ''acct_b''"
proof -
  have r: "require_api_key demo_crypto demo_environ 8 (snd (delete_account ''acct_b'' demo_db)) demo_request =
     Inr \<lparr>p_kind = User, p_account = Some ''acct_a'', p_email = Some ''ann@a.io'', p_verified = Some False\<rparr>"
    by code_simp
  then show ?thesis
    using deleted_account_never_returns[OF demo_reach _ surjective_pairing r] by auto
qed

end
