(* ===== verification/Billing.thy ===== *)
theory Billing
  imports Auth
begin

text \<open>
  Trial entitlement (\<open>core/billing.py\<close>) and the Stripe webhook
  (\<open>core/stripe_billing.py\<close>): the checks that gate paid actions and the handler
  that moves an account between subscription states.  A verified event is a
  dictionary of loosely typed values; the reply of the Stripe service to an
  outgoing call is not modelled.
\<close>

section \<open>Entitlement\<close>

definition enforcement_enabled :: "environ \<Rightarrow> bool" where
  "enforcement_enabled env = env_flag env ''BILLING_ENFORCEMENT''"

definition is_entitled :: "string option \<Rightarrow> stamp option \<Rightarrow> int \<Rightarrow> store_exn + bool" where
  "is_entitled status trial now =
     (let s = py_lower (py_strip (case status of None \<Rightarrow> ''none'' | Some t \<Rightarrow> if t = [] then ''none'' else t))
      in if s = ''active'' then Inr True
         else if s = ''trialing'' then (case trial of
             None \<Rightarrow> Inr False
           | Some Unreadable \<Rightarrow> Inr False
           | Some (Naive t) \<Rightarrow> Inl StoreTypeError
           | Some (Aware t) \<Rightarrow> Inr (now < t))
         else Inr False)"

record billing_snapshot =
  bs_account :: string
  bs_status :: string
  bs_trial :: "stamp option"
  bs_days_left :: "int option"
  bs_trial_days :: int
  bs_entitled :: bool
  bs_enforcement :: bool

text \<open>Days are counted up: \<open>max(0, ceil(remaining / 86400))\<close>.\<close>

definition days_left :: "stamp option \<Rightarrow> int \<Rightarrow> store_exn + int option" where
  "days_left trial now = (case trial of
       None \<Rightarrow> Inr None
     | Some Unreadable \<Rightarrow> Inr None
     | Some (Naive t) \<Rightarrow> Inl StoreTypeError
     | Some (Aware t) \<Rightarrow> Inr (Some (max 0 (- ((now - t) div seconds 86400)))))"

definition billing_status :: "environ \<Rightarrow> int \<Rightarrow> db \<Rightarrow> string \<Rightarrow> store_exn + billing_snapshot option" where
  "billing_status env now d i = (case subscription_fields d i of
       None \<Rightarrow> Inr None
     | Some f \<Rightarrow>
         (let status = (case bv_status f of None \<Rightarrow> ''none'' | Some s \<Rightarrow> if s = [] then ''none'' else s)
          in bind_result (days_left (bv_trial f) now) (\<lambda>left.
             map_result (\<lambda>ok. Some \<lparr>bs_account = i, bs_status = status, bs_trial = bv_trial f, bs_days_left = left,
                 bs_trial_days = trial_days (case env ''TRIAL_DAYS'' of None \<Rightarrow> [] | Some s \<Rightarrow> s),
                 bs_entitled = ok, bs_enforcement = enforcement_enabled env\<rparr>)
               (is_entitled (Some status) (bv_trial f) now))))"

definition assert_entitled :: "environ \<Rightarrow> int \<Rightarrow> db \<Rightarrow> principal \<Rightarrow> http_error + principal" where
  "assert_entitled env now d p =
     (if \<not> enforcement_enabled env then Inr p
      else case (p_kind p, p_account p) of
        (User, Some i) \<Rightarrow>
          (if i = [] then Inr p
           else case subscription_fields d i of
             None \<Rightarrow> Inl (Http 403 ''account_not_found'')
           | Some f \<Rightarrow> (case is_entitled (bv_status f) (bv_trial f) now of
                Inl e \<Rightarrow> Inl (StoreRaised e)
              | Inr ok \<Rightarrow> (if ok then Inr p else Inl (Http 402 ''trial_expired''))))
      | _ \<Rightarrow> Inr p)"

section \<open>Stripe configuration\<close>

definition secret_key :: "environ \<Rightarrow> string" where
  "secret_key env = (if env_text env ''STRIPE_SECRET_KEY'' \<noteq> [] then env_text env ''STRIPE_SECRET_KEY''
     else env_text env ''STRIPE_API_KEY'')"

definition stripe_configured :: "environ \<Rightarrow> bool" where
  "stripe_configured env = (secret_key env \<noteq> [] \<and> env_text env ''STRIPE_PRICE_ID'' \<noteq> [])"

definition assert_secret_key_shape :: "environ \<Rightarrow> bool" where
  "assert_secret_key_shape env = (\<not> starts_with (secret_key env) ''pk_'')"

section \<open>Webhook events\<close>

definition pv_get :: "pyval \<Rightarrow> string \<Rightarrow> py_exn + pyval" where
  "pv_get v k = (case v of PDict d \<Rightarrow> Inr (get0 d k) | _ \<Rightarrow> Inl AttributeError)"

definition or_empty :: "pyval \<Rightarrow> pyval" where
  "or_empty v = (if truthy v then v else PDict [])"

text \<open>\<open>v.strip()\<close> on an optional value.\<close>

definition strip_text :: "pyval \<Rightarrow> py_exn + string" where
  "strip_text v = (case v of PStr s \<Rightarrow> Inr (py_strip s) | _ \<Rightarrow> Inl AttributeError)"

definition opt_text :: "pyval \<Rightarrow> py_exn + string option" where
  "opt_text v = (case v of PNone \<Rightarrow> Inr None | PStr s \<Rightarrow> Inr (Some s) | _ \<Rightarrow> Inl AttributeError)"

definition text_ref :: "pyval \<Rightarrow> py_exn + string" where
  "text_ref v = (case v of PStr s \<Rightarrow> Inr s | _ \<Rightarrow> Inl TypeError)"

definition status_map :: "(string, string) dict" where
  "status_map = [(''active'', ''active''), (''trialing'', ''trialing''), (''past_due'', ''past_due''),
     (''unpaid'', ''past_due''), (''incomplete'', ''past_due''), (''incomplete_expired'', ''canceled''),
     (''canceled'', ''canceled''), (''paused'', ''canceled'')]"

definition mapped_status :: "pyval \<Rightarrow> py_exn + string" where
  "mapped_status v = (case v of
       PStr s \<Rightarrow> Inr (case dget status_map s of Some t \<Rightarrow> t | None \<Rightarrow> ''past_due'')
     | PList xs \<Rightarrow> Inl TypeError
     | PDict d \<Rightarrow> Inl TypeError
     | _ \<Rightarrow> Inr ''past_due'')"

definition account_id_for :: "db \<Rightarrow> pyval \<Rightarrow> pyval \<Rightarrow> py_exn + string option" where
  "account_id_for d customer metadata =
     bind_result
       (if truthy customer then map_result (account_for_stripe_customer d) (case customer of PStr s \<Rightarrow> Inr s | _ \<Rightarrow> Inl AttributeError)
        else Inr None)
       (\<lambda>found. case found of
          Some i \<Rightarrow> Inr (Some i)
        | None \<Rightarrow>
            (if truthy metadata
             then bind_result (pv_get metadata ''account_id'') (\<lambda>v.
               map_result (\<lambda>i. if i = [] then None else Some i) (if truthy v then strip_text v else Inr []))
             else Inr None))"

record event_result =
  er_handled :: bool
  er_type :: pyval
  er_account :: "string option"
  er_status :: "string option"
  er_reason :: "string option"

definition not_handled :: "pyval \<Rightarrow> string \<Rightarrow> event_result" where
  "not_handled ty reason = \<lparr>er_handled = False, er_type = ty, er_account = None, er_status = None, er_reason = Some reason\<rparr>"

definition was_handled :: "pyval \<Rightarrow> string \<Rightarrow> string option \<Rightarrow> event_result" where
  "was_handled ty i status = \<lparr>er_handled = True, er_type = ty, er_account = Some i, er_status = status, er_reason = None\<rparr>"

text \<open>The account reference of a checkout; the store's driver refuses a value that is not a text.\<close>

definition checkout_completed :: "pyval \<Rightarrow> pyval \<Rightarrow> db \<Rightarrow> py_exn + event_result \<times> db" where
  "checkout_completed ty data d =
     bind_result (pv_get data ''client_reference_id'') (\<lambda>ref.
     bind_result (if truthy ref then Inr ref
        else bind_result (pv_get data ''metadata'') (\<lambda>m. pv_get (or_empty m) ''account_id'')) (\<lambda>account.
     if \<not> truthy account then Inr (not_handled ty ''no account reference'', d)
     else bind_result (pv_get data ''customer'') (\<lambda>cu. bind_result (opt_text cu) (\<lambda>customer.
       bind_result (pv_get data ''subscription'') (\<lambda>su. bind_result (opt_text su) (\<lambda>subscription.
       map_result (\<lambda>i. (was_handled ty i None, snd (set_subscription i ''active'' customer subscription d)))
         (text_ref account)))))))"

definition subscription_changed :: "pyval \<Rightarrow> bool \<Rightarrow> pyval \<Rightarrow> db \<Rightarrow> py_exn + event_result \<times> db" where
  "subscription_changed ty deleted data d =
     bind_result (pv_get data ''customer'') (\<lambda>cu.
     bind_result (pv_get data ''metadata'') (\<lambda>m.
     bind_result (account_id_for d cu m) (\<lambda>found. case found of
       None \<Rightarrow> Inr (not_handled ty ''unknown customer'', d)
     | Some i \<Rightarrow>
         bind_result (if deleted then Inr ''canceled''
             else bind_result (pv_get data ''status'') (\<lambda>v. mapped_status v)) (\<lambda>status.
         bind_result (opt_text cu) (\<lambda>customer.
         bind_result (pv_get data ''id'') (\<lambda>su. bind_result (opt_text su) (\<lambda>subscription.
         Inr (was_handled ty i (Some status), snd (set_subscription i status customer subscription d)))))))))"

definition invoice_settled :: "pyval \<Rightarrow> bool \<Rightarrow> pyval \<Rightarrow> db \<Rightarrow> py_exn + event_result \<times> db" where
  "invoice_settled ty paid data d =
     bind_result (pv_get data ''customer'') (\<lambda>cu.
     bind_result (account_id_for d cu PNone) (\<lambda>found. case found of
       None \<Rightarrow> Inr (not_handled ty ''unknown customer'', d)
     | Some i \<Rightarrow>
         (let status = (if paid then ''active'' else ''past_due'')
          in Inr (was_handled ty i (Some status), snd (set_subscription i status None None d)))))"

definition apply_event :: "pyval \<Rightarrow> pyval \<Rightarrow> db \<Rightarrow> py_exn + event_result \<times> db" where
  "apply_event ty data d =
     (if ty = PStr ''checkout.session.completed'' then checkout_completed ty data d
      else if ty = PStr ''customer.subscription.created'' \<or> ty = PStr ''customer.subscription.updated''
        then subscription_changed ty False data d
      else if ty = PStr ''customer.subscription.deleted'' then subscription_changed ty True data d
      else if ty = PStr ''invoice.payment_failed'' then invoice_settled ty False data d
      else if ty = PStr ''invoice.paid'' then invoice_settled ty True data d
      else Inr (not_handled ty ''unhandled event type'', d))"

definition event_id :: "(string, pyval) dict \<Rightarrow> string" where
  "event_id ev = text_of (get0 ev ''id'')"

definition event_object :: "(string, pyval) dict \<Rightarrow> py_exn + pyval" where
  "event_object ev = map_result or_empty (pv_get (or_empty (get0 ev ''data'')) ''object'')"

definition handle_event :: "int \<Rightarrow> (string, pyval) dict \<Rightarrow> db \<Rightarrow> py_exn + event_result \<times> db" where
  "handle_event now ev d =
     (let eid = event_id ev; ty = get_or ev ''type'' (PStr [])
      in bind_result (event_object ev) (\<lambda>data.
         if eid \<noteq> [] \<and> stripe_event_seen d eid then Inr (not_handled ty ''duplicate event'', d)
         else map_result (\<lambda>(res, d1).
             (res, if er_handled res \<and> eid \<noteq> [] then record_stripe_event now eid (py_str ty) (er_account res) d1 else d1))
           (apply_event ty data d)))"

section \<open>What an event can do\<close>

text \<open>The events that stand for money received.\<close>

definition pays :: "pyval \<Rightarrow> pyval \<Rightarrow> bool" where
  "pays ty data =
     (ty = PStr ''checkout.session.completed'' \<or> ty = PStr ''invoice.paid'' \<or>
      ((ty = PStr ''customer.subscription.created'' \<or> ty = PStr ''customer.subscription.updated'') \<and>
       pv_get data ''status'' = Inr (PStr ''active'')))"

definition paying_event :: "(string, pyval) dict \<Rightarrow> bool" where
  "paying_event ev = (case event_object ev of
       Inl e \<Rightarrow> False | Inr data \<Rightarrow> pays (get_or ev ''type'' (PStr [])) data)"

definition known_status :: "string \<Rightarrow> bool" where
  "known_status st = (st \<in> set [''active'', ''trialing'', ''past_due'', ''canceled''])"

lemma known_statuses: "known_status ''active''" "known_status ''past_due''" "known_status ''canceled''"
  by (simp_all add: known_status_def)

lemma mapped_active: "mapped_status v = Inr ''active'' \<Longrightarrow> v = PStr ''active''"
  by (cases v) (auto simp: mapped_status_def status_map_def split: if_splits)

lemma mapped_known: "mapped_status v = Inr st \<Longrightarrow> known_status st"
  by (cases v) (auto simp: known_status_def mapped_status_def status_map_def split: if_splits)

text \<open>An event either changes nothing or is one subscription write.\<close>

definition one_write :: "pyval \<Rightarrow> pyval \<Rightarrow> db \<Rightarrow> event_result \<Rightarrow> db \<Rightarrow> bool" where
  "one_write ty data d res d1 \<longleftrightarrow> (\<exists>i st cu su. er_handled res \<and> er_account res = Some i \<and>
     d1 = snd (set_subscription i st cu su d) \<and> known_status st \<and> (st = ''active'' \<longrightarrow> pays ty data))"

lemma one_writeI:
  "known_status st \<Longrightarrow> (st = ''active'' \<Longrightarrow> pays ty data) \<Longrightarrow>
   one_write ty data d (was_handled ty' i so) (snd (set_subscription i st cu su d))"
  by (auto simp: one_write_def was_handled_def)

lemma not_handled_simp [simp]: "\<not> er_handled (not_handled ty r)"
  by (simp add: not_handled_def)

lemma checkout_completed_cases:
  "checkout_completed ty data d = Inr (res, d1) \<Longrightarrow> ty = PStr ''checkout.session.completed'' \<Longrightarrow>
   (\<not> er_handled res \<and> d1 = d) \<or> one_write ty data d res d1"
  by (auto simp: checkout_completed_def result_simps pays_def known_statuses intro!: one_writeI split: if_splits)

lemma subscription_changed_cases:
  assumes "subscription_changed ty del data d = Inr (res, d1)"
    and "\<not> del \<Longrightarrow> ty = PStr ''customer.subscription.created'' \<or> ty = PStr ''customer.subscription.updated''"
  shows "(\<not> er_handled res \<and> d1 = d) \<or> one_write ty data d res d1"
proof -
  consider (no) "\<not> er_handled res" "d1 = d"
    | (yes) i st cu su where "res = was_handled ty i (Some st)" "d1 = snd (set_subscription i st cu su d)"
        "(if del then Inr ''canceled'' else bind_result (pv_get data ''status'') mapped_status) = Inr st"
    using assms(1) by (auto simp: subscription_changed_def result_simps split: option.splits)
  then show ?thesis
  proof cases
    case (yes i st cu su)
    show ?thesis
    proof (cases del)
      case True
      then show ?thesis using yes by (auto simp: known_statuses intro!: one_writeI)
    next
      case False
      then obtain v where v: "pv_get data ''status'' = Inr v" "mapped_status v = Inr st"
        using yes(3) by (auto simp: result_simps)
      show ?thesis unfolding yes(1,2)
        using assms(2)[OF False] v mapped_known[OF v(2)] mapped_active[of v]
        by (intro disjI2 one_writeI) (auto simp: pays_def)
    qed
  qed simp
qed

lemma invoice_settled_cases:
  "invoice_settled ty paid data d = Inr (res, d1) \<Longrightarrow> (paid \<Longrightarrow> ty = PStr ''invoice.paid'') \<Longrightarrow>
   (\<not> er_handled res \<and> d1 = d) \<or> one_write ty data d res d1"
  by (auto simp: invoice_settled_def result_simps pays_def known_statuses Let_def intro!: one_writeI
      split: option.splits if_splits)

lemma apply_event_cases:
  assumes "apply_event ty data d = Inr (res, d1)"
  shows "(\<not> er_handled res \<and> d1 = d) \<or> one_write ty data d res d1"
proof -
  have keep: "\<not> er_handled res \<and> d1 = d" if "Inr (not_handled ty ''unhandled event type'', d) = (Inr (res, d1) :: py_exn + event_result \<times> db)"
    using that by auto
  note rules = assms[unfolded apply_event_def] checkout_completed_cases[of ty data d res d1]
    subscription_changed_cases[of ty False data d res d1] subscription_changed_cases[of ty True data d res d1]
    invoice_settled_cases[of ty False data d res d1] invoice_settled_cases[of ty True data d res d1] keep
  show ?thesis
  proof (cases "ty = PStr ''checkout.session.completed''")
    case True
    then show ?thesis using rules(1,2) by (simp only: if_True simp_thms)
  next
    case no1: False
    show ?thesis
    proof (cases "ty = PStr ''customer.subscription.created'' \<or> ty = PStr ''customer.subscription.updated''")
      case True
      then show ?thesis using rules(1,3) no1 by (simp only: if_True if_False simp_thms)
    next
      case no2: False
      show ?thesis
      proof (cases "ty = PStr ''customer.subscription.deleted''")
        case True
        then show ?thesis using rules(1,4) no1 no2 by (simp only: if_True if_False simp_thms)
      next
        case no3: False
        show ?thesis
        proof (cases "ty = PStr ''invoice.payment_failed''")
          case True
          then show ?thesis using rules(1,5) no1 no2 no3 by (simp only: if_True if_False simp_thms)
        next
          case False
          then show ?thesis using rules(1,6,7) no1 no2 no3
            by (cases "ty = PStr ''invoice.paid''") (simp_all only: if_True if_False simp_thms)
        qed
      qed
    qed
  qed
qed

lemma row_by_id_set_subscription:
  "row_by_id (snd (set_subscription i st cu su d)) j =
     map_option (\<lambda>r. if j = i then r\<lparr>a_status := Some (py_lower (py_strip st)),
          a_customer := (case cu of Some s \<Rightarrow> Some (py_strip s) | None \<Rightarrow> a_customer r),
          a_subscription := (case su of Some s \<Rightarrow> Some (py_strip s) | None \<Rightarrow> a_subscription r)\<rparr> else r) (row_by_id d j)"
proof (cases "row_by_id d j")
  case (Some r)
  moreover have "a_id r = j" using Some by (auto simp: row_by_id_def dest: find_SomeD(1))
  ultimately show ?thesis
    by (simp add: row_by_id_def set_subscription_def find_update_where)
qed (simp add: row_by_id_def set_subscription_def find_update_where)

lemma row_by_id_record_event [simp]: "row_by_id (record_stripe_event now e ty a d) j = row_by_id d j"
  by (simp add: record_stripe_event_def row_by_id_def)

lemma seen_set_subscription [simp]: "stripe_event_seen (snd (set_subscription i st cu su d)) e = stripe_event_seen d e"
  by (simp add: stripe_event_seen_def set_subscription_def)

lemma seen_record [simp]: "stripe_event_seen (record_stripe_event now e ty a d) e' \<longleftrightarrow> e' = e \<or> stripe_event_seen d e'"
  by (auto simp: record_stripe_event_def stripe_event_seen_def)

lemma handle_event_cases:
  assumes "handle_event now ev d = Inr (res, d1)"
  obtains (refused) "\<not> er_handled res" "d1 = d"
    | (applied) i st cu su where "er_handled res" "er_account res = Some i" "known_status st"
        "st = ''active'' \<longrightarrow> paying_event ev"
        "\<And>j. row_by_id d1 j = row_by_id (snd (set_subscription i st cu su d)) j"
        "\<And>e. stripe_event_seen d1 e \<longleftrightarrow> stripe_event_seen d e \<or> e = event_id ev \<and> e \<noteq> []"
proof -
  obtain data where data: "event_object ev = Inr data"
    using assms by (auto simp: handle_event_def Let_def result_simps)
  show thesis
  proof (cases "event_id ev \<noteq> [] \<and> stripe_event_seen d (event_id ev)")
    case True
    then show ?thesis using assms data refused by (auto simp: handle_event_def Let_def)
  next
    case False
    then obtain d2 where step: "apply_event (get_or ev ''type'' (PStr [])) data d = Inr (res, d2)"
      and d1: "d1 = (if er_handled res \<and> event_id ev \<noteq> []
         then record_stripe_event now (event_id ev) (py_str (get_or ev ''type'' (PStr []))) (er_account res) d2 else d2)"
      using assms data by (auto simp: handle_event_def Let_def map_result_Inr_iff)
    from apply_event_cases[OF step] show ?thesis
    proof
      assume "\<not> er_handled res \<and> d2 = d"
      then show ?thesis using refused d1 by simp
    next
      assume "one_write (get_or ev ''type'' (PStr [])) data d res d2"
      then obtain i st cu su where w: "er_handled res" "er_account res = Some i"
          "d2 = snd (set_subscription i st cu su d)" "known_status st"
          "st = ''active'' \<longrightarrow> pays (get_or ev ''type'' (PStr [])) data"
        unfolding one_write_def by blast
      show ?thesis
        by (rule applied[of i st cu su]) (use w in \<open>auto simp: d1 paying_event_def data\<close>)
    qed
  qed
qed

lemma handle_event_seen:
  "handle_event now ev d = Inr (res, d1) \<Longrightarrow> stripe_event_seen d e \<Longrightarrow> stripe_event_seen d1 e"
  by (erule handle_event_cases) simp_all

text \<open>Deliveries in order; one that raises leaves the tables as they were.\<close>

fun deliver_all :: "(int \<times> (string, pyval) dict) list \<Rightarrow> db \<Rightarrow> db" where
  "deliver_all [] d = d"
| "deliver_all ((now, ev) # evs) d =
     deliver_all evs (case handle_event now ev d of Inl e \<Rightarrow> d | Inr (res, d1) \<Rightarrow> d1)"

lemma deliver_all_seen: "stripe_event_seen d e \<Longrightarrow> stripe_event_seen (deliver_all evs d) e"
proof (induction evs d rule: deliver_all.induct)
  case (2 now ev evs d)
  then show ?case
    by (cases "handle_event now ev d") (auto dest: handle_event_seen)
qed simp

text \<open>A payment event that was applied once is never applied again: however many
  other events arrive in between, a redelivery is acknowledged as a duplicate and changes nothing.\<close>

theorem redelivery_changes_nothing:
  assumes "handle_event now ev d = Inr (res, d1)" and "er_handled res" and "event_id ev \<noteq> []"
  shows "handle_event later ev (deliver_all evs d1) =
     Inr (not_handled (get_or ev ''type'' (PStr [])) ''duplicate event'', deliver_all evs d1)"
proof -
  have "stripe_event_seen d1 (event_id ev)"
    using assms(1) by (rule handle_event_cases) (simp_all add: assms(2,3))
  then have "stripe_event_seen (deliver_all evs d1) (event_id ev)" by (rule deliver_all_seen)
  then show ?thesis
    using assms(1,3) by (auto simp: handle_event_def Let_def result_simps)
qed

section \<open>Who becomes entitled\<close>

lemma clean_status: "known_status st \<Longrightarrow> py_lower (py_strip st) = st"
proof -
  have "list_all (\<lambda>s. py_lower (py_strip s) = s) [''active'', ''trialing'', ''past_due'', ''canceled'']"
    by code_simp
  then show "known_status st \<Longrightarrow> py_lower (py_strip st) = st"
    by (auto simp only: known_status_def list_all_iff)
qed

definition entitled_now :: "int \<Rightarrow> db \<Rightarrow> string \<Rightarrow> bool" where
  "entitled_now now d i = (case subscription_fields d i of
       None \<Rightarrow> False | Some f \<Rightarrow> is_entitled (bv_status f) (bv_trial f) now = Inr True)"

lemma entitled_now_row:
  "entitled_now now d i = (case row_by_id d i of None \<Rightarrow> False | Some r \<Rightarrow> is_entitled (a_status r) (a_trial r) now = Inr True)"
  by (simp add: entitled_now_def subscription_fields_def split: option.splits)

lemma entitled_status:
  "known_status st \<Longrightarrow> is_entitled (Some st) trial now = Inr True \<longleftrightarrow>
     st = ''active'' \<or> st = ''trialing'' \<and> (\<exists>t. trial = Some (Aware t) \<and> now < t)"
  using clean_status[of st] by (auto simp: is_entitled_def known_status_def Let_def split: option.splits stamp.splits)

text \<open>Property C37. A webhook event that makes some account entitled either stands for money received
  or finds that account's free trial still running; and it is that account's own event, so
  no event changes another account's entitlement.\<close>

theorem no_entitlement_without_payment:
  assumes "handle_event now ev d = Inr (res, d1)" and "entitled_now t d1 i \<noteq> entitled_now t d i"
  shows "er_account res = Some i \<and>
     (entitled_now t d1 i \<longrightarrow> paying_event ev \<or> (\<exists>r e. row_by_id d i = Some r \<and> a_trial r = Some (Aware e) \<and> t < e))"
proof -
  show ?thesis using assms(1)
  proof (cases rule: handle_event_cases)
    case refused
    then show ?thesis using assms(2) by simp
  next
    case (applied k st cu su)
    have ki: "k = i"
    proof (rule ccontr)
      assume "k \<noteq> i"
      then have "row_by_id d1 i = row_by_id d i"
        by (simp add: applied(5) row_by_id_set_subscription option.map_ident)
      then show False using assms(2) by (simp add: entitled_now_row)
    qed
    obtain r where r: "row_by_id d i = Some r"
      using assms(2) by (auto simp: entitled_now_row applied(5) row_by_id_set_subscription split: option.splits)
    have "entitled_now t d1 i \<longleftrightarrow> is_entitled (Some st) (a_trial r) t = Inr True"
      by (simp add: entitled_now_row applied(5) row_by_id_set_subscription r ki clean_status[OF applied(3)])
    then show ?thesis
      using applied(2,4) ki r entitled_status[OF applied(3), of "a_trial r" t] by auto
  qed
qed

section \<open>Examples\<close>

definition demo_checkout :: "(string, pyval) dict" where
  "demo_checkout = [(''id'', PStr ''evt_1''), (''type'', PStr ''checkout.session.completed''),
     (''data'', PDict [(''object'', PDict [(''client_reference_id'', PStr ''acct_a''),
        (''customer'', PStr ''cus_1''), (''subscription'', PStr ''sub_1'')])])]"

definition demo_canceled :: "(string, pyval) dict" where
  "demo_canceled = [(''id'', PStr ''evt_2''), (''type'', PStr ''customer.subscription.deleted''),
     (''data'', PDict [(''object'', PDict [(''customer'', PStr ''cus_1''), (''id'', PStr ''sub_1'')])])]"

definition demo_paid :: db where
  "demo_paid = (case handle_event 9 demo_checkout demo_db of Inl e \<Rightarrow> empty_db | Inr (r, d) \<Rightarrow> d)"

lemma demo_checkout_ok:
  "handle_event 9 demo_checkout demo_db = Inr (was_handled (PStr ''checkout.session.completed'') ''acct_a'' None, demo_paid)"
  by code_simp

theorem redelivery_changes_nothing_witness:
  "handle_event 12 demo_checkout (deliver_all [(10, demo_canceled)] demo_paid) =
     Inr (not_handled (PStr ''checkout.session.completed'') ''duplicate event'', deliver_all [(10, demo_canceled)] demo_paid)"
proof -
  have "get_or demo_checkout ''type'' (PStr []) = PStr ''checkout.session.completed''" "event_id demo_checkout \<noteq> []"
    by code_simp+
  then show ?thesis
    using redelivery_changes_nothing[OF demo_checkout_ok, of 12 "[(10, demo_canceled)]"] by (simp add: was_handled_def)
qed

theorem no_entitlement_without_payment_witness:
  "\<not> entitled_now (seconds 999999) demo_db ''acct_a'' \<and> entitled_now (seconds 999999) demo_paid ''acct_a'' \<and>
   paying_event demo_checkout"
proof -
  have e: "\<not> entitled_now (seconds 999999) demo_db ''acct_a''" "entitled_now (seconds 999999) demo_paid ''acct_a''"
    by code_simp+
  have "row_by_id demo_db ''acct_a'' \<noteq> None \<and> map_option a_trial (row_by_id demo_db ''acct_a'') = Some (Some (Aware (seconds 259200)))"
    by code_simp
  then show ?thesis
    using no_entitlement_without_payment[OF demo_checkout_ok, of "seconds 999999" "''acct_a''"] e
    by (auto simp: seconds_def)
qed

end
