(* ===== verification/Quotas.thy ===== *)
theory Quotas
  imports Billing
begin

text \<open>
  The free-trial quotas (\<open>core/trial_limits.py\<close>).  The metering argument is made
  once for any store of counters with the laws of \<open>usage_store\<close>; the accounts
  store is an instance of it and the quota gate its client.
\<close>

section \<open>Stores of counters\<close>

locale usage_store =
  fixes ok :: "'s \<Rightarrow> bool"
    and used :: "'k \<Rightarrow> 's \<Rightarrow> int"
    and add1 :: "'t \<Rightarrow> 'k \<Rightarrow> 's \<Rightarrow> int \<times> 's"
    and sub1 :: "'t \<Rightarrow> 'k \<Rightarrow> 's \<Rightarrow> int \<times> 's"
  assumes used_nonneg: "ok s \<Longrightarrow> 0 \<le> used k s"
    and ok_add1: "ok s \<Longrightarrow> ok (snd (add1 t k s))"
    and ok_sub1: "ok s \<Longrightarrow> ok (snd (sub1 t k s))"
    and fst_add1: "ok s \<Longrightarrow> fst (add1 t k s) = used k s + 1"
    and used_add1: "ok s \<Longrightarrow> used j (snd (add1 t k s)) = (if j = k then used k s + 1 else used j s)"
    and used_sub1: "ok s \<Longrightarrow> used j (snd (sub1 t k s)) = (if j = k then max 0 (used k s - 1) else used j s)"
begin

lemma refund_undoes: "ok s \<Longrightarrow> used j (snd (sub1 t' k (snd (add1 t k s)))) = used j s"
  using used_nonneg[of s k] by (simp add: used_sub1 used_add1 ok_add1)

end

section \<open>The accounts store as a store of counters\<close>

definition usage_at :: "string \<times> string \<times> string \<Rightarrow> db \<Rightarrow> int" where
  "usage_at k d = (case k of (i, ct, p) \<Rightarrow> get_usage i ct p d)"

definition usage_inc :: "int \<Rightarrow> string \<times> string \<times> string \<Rightarrow> db \<Rightarrow> int \<times> db" where
  "usage_inc now k d = (case k of (i, ct, p) \<Rightarrow> increment_usage now i ct p d)"

definition usage_dec :: "int \<Rightarrow> string \<times> string \<times> string \<Rightarrow> db \<Rightarrow> int \<times> db" where
  "usage_dec now k d = (case k of (i, ct, p) \<Rightarrow> decrement_usage now i ct p d)"

lemma usage_is_same: "usage_is i ct p u \<Longrightarrow> usage_is i' ct' p' u \<longleftrightarrow> (i', ct', p') = (i, ct, p)"
  by (auto simp: usage_is_def)

lemma usage_is_upd [simp]: "usage_is i ct p (u\<lparr>u_value := v, u_updated := t\<rparr>) = usage_is i ct p u"
  by (simp add: usage_is_def)

lemma get_usage_nonneg: "db_ok d \<Longrightarrow> 0 \<le> get_usage i ct p d"
  by (auto simp: get_usage_def db_ok_def list_all_iff dest: find_SomeD(2) split: option.splits)

lemma find_usage_update:
  assumes "\<And>u. usage_key (f u) = usage_key u"
  shows "find (usage_is i' ct' p') (update_where (usage_is i ct p) f xs) =
     (if (i', ct', p') = (i, ct, p) then map_option f (find (usage_is i ct p) xs) else find (usage_is i' ct' p') xs)"
proof -
  have "find (\<lambda>u. usage_key u = b) (update_where (\<lambda>u. usage_key u = a) f xs) =
      (if b = a then map_option f (find (\<lambda>u. usage_key u = a) xs) else find (\<lambda>u. usage_key u = b) xs)" for a b
    by (induction xs) (auto simp: update_where_def assms)
  moreover have "usage_is i ct p = (\<lambda>u. usage_key u = (i, ct, p))" for i ct p
    by (simp add: fun_eq_iff usage_is_key)
  ultimately show ?thesis by simp
qed

lemma find_usage_increment:
  "find (usage_is i' ct' p') (usage_counters (snd (increment_usage now i ct p d))) =
     (if (i', ct', p') = (i, ct, p)
      then Some (case find (usage_is i ct p) (usage_counters d) of
          Some u \<Rightarrow> u\<lparr>u_value := u_value u + 1, u_updated := now\<rparr>
        | None \<Rightarrow> \<lparr>u_account = i, u_counter = ct, u_period = p, u_value = 1, u_updated = now\<rparr>)
      else find (usage_is i' ct' p') (usage_counters d))"
proof -
  show ?thesis
  proof (cases "list_ex (usage_is i ct p) (usage_counters d)")
    case True
    then have "find (usage_is i ct p) (usage_counters d) \<noteq> None"
      by (auto simp: find_None_iff list_ex_iff)
    then show ?thesis using True
      by (auto simp: increment_usage_def Let_def find_usage_update)
  next
    case False
    then have none: "find (usage_is i ct p) (usage_counters d) = None"
      by (auto simp: find_None_iff list_ex_iff)
    have new: "usage_is i' ct' p' \<lparr>u_account = i, u_counter = ct, u_period = p, u_value = 1, u_updated = now\<rparr> \<longleftrightarrow>
        (i', ct', p') = (i, ct, p)"
      by (auto simp: usage_is_def)
    show ?thesis
      using False none new
      by (auto simp: increment_usage_def Let_def find_append usage_is_def split: option.splits)
  qed
qed

lemma get_usage_increment:
  "get_usage i' ct' p' (snd (increment_usage now i ct p d)) =
     (if (i', ct', p') = (i, ct, p) then get_usage i ct p d + 1 else get_usage i' ct' p' d)"
  by (auto simp: get_usage_def find_usage_increment split: option.splits)

lemma fst_increment: "fst (increment_usage now i ct p d) = get_usage i ct p d + 1"
proof -
  have "fst (increment_usage now i ct p d) = (case find (usage_is i ct p) (usage_counters (snd (increment_usage now i ct p d))) of
      Some u \<Rightarrow> u_value u | None \<Rightarrow> 1)"
    by (simp add: increment_usage_def Let_def)
  then show ?thesis by (auto simp: find_usage_increment get_usage_def split: option.splits)
qed

lemma get_usage_decrement:
  assumes "db_ok d"
  shows "get_usage i' ct' p' (snd (decrement_usage now i ct p d)) =
     (if (i', ct', p') = (i, ct, p) then max 0 (get_usage i ct p d - 1) else get_usage i' ct' p' d)"
proof (cases "find (usage_is i ct p) (usage_counters d)")
  case None
  then show ?thesis by (auto simp: decrement_usage_def get_usage_def)
next
  case (Some u)
  then show ?thesis
    by (auto simp: decrement_usage_def get_usage_def Let_def find_usage_update split: option.splits)
qed

interpretation counters: usage_store db_ok usage_at usage_inc usage_dec
  by unfold_locales
    (auto simp: usage_at_def usage_inc_def usage_dec_def get_usage_nonneg db_ok_increment db_ok_decrement
      get_usage_increment fst_increment get_usage_decrement split: prod.splits)

section \<open>Limits\<close>

datatype quota_exn = UnknownCounter | TrialLimitExceeded string int string

definition smoke_principals :: "string list" where
  "smoke_principals = map (\<lambda>c. ''factory-smoke-'' @ [c] @ ''@cerebrum-dev.invalid'') ''abcde''"

definition trial_counters :: "(string, string \<times> int \<times> string) dict" where
  "trial_counters =
     [(''generation'', (''TRIAL_GENERATION_LIMIT'', 3, ''lifetime'')),
      (''chat_message'', (''TRIAL_CHAT_MESSAGES_PER_DAY'', 100, ''daily'')),
      (''export'', (''TRIAL_EXPORT_LIMIT'', 5, ''lifetime'')),
      (''draft'', (''TRIAL_DRAFT_LIMIT'', 20, ''daily''))]"

definition limit_of :: "environ \<Rightarrow> string \<Rightarrow> quota_exn + int \<times> string" where
  "limit_of env counter = (case dget trial_counters counter of
       None \<Rightarrow> Inl UnknownCounter
     | Some (var, dflt, scope) \<Rightarrow>
         Inr (case env var of
             None \<Rightarrow> (max 0 dflt, scope)
           | Some s \<Rightarrow> (case int_of_str s of Some n \<Rightarrow> (max 0 n, scope) | None \<Rightarrow> (dflt, scope))))"

text \<open>The current UTC date as ISO text is the argument \<open>today\<close>.\<close>

definition period_of :: "string \<Rightarrow> string \<Rightarrow> string" where
  "period_of today scope = (if scope = ''daily'' then today else ''lifetime'')"

definition trials_enforced :: "environ \<Rightarrow> bool" where
  "trials_enforced env =
     (let override = py_lower (env_text env ''TRIAL_LIMITS_ENFORCED'')
      in if override \<in> set truthy_words then True
         else if override \<in> set [''0'', ''false'', ''no'', ''off''] then False
         else stripe_configured env)"

definition stored_email :: "db \<Rightarrow> string option \<Rightarrow> string" where
  "stored_email d account = (case account of
       None \<Rightarrow> []
     | Some i \<Rightarrow> (if i = [] then [] else case subscription_fields d i of
           None \<Rightarrow> [] | Some f \<Rightarrow> py_lower (py_strip (bv_email f))))"

definition is_ops_smoke_account :: "db \<Rightarrow> string option \<Rightarrow> bool" where
  "is_ops_smoke_account d account = (stored_email d account \<in> set smoke_principals)"

definition is_reserved_smoke_account :: "db \<Rightarrow> string option \<Rightarrow> bool" where
  "is_reserved_smoke_account d account = (stored_email d account = hd smoke_principals)"

definition is_limited_account :: "environ \<Rightarrow> db \<Rightarrow> string option \<Rightarrow> bool" where
  "is_limited_account env d account = (case account of
       None \<Rightarrow> False
     | Some i \<Rightarrow>
         (if i = [] \<or> \<not> trials_enforced env then False
          else case subscription_fields d i of
            None \<Rightarrow> False
          | Some f \<Rightarrow>
              (if py_lower (py_strip (bv_email f)) \<in> set smoke_principals then False
               else py_lower (py_strip (case bv_status f of None \<Rightarrow> ''none'' | Some s \<Rightarrow> if s = [] then ''none'' else s)) \<noteq> ''active'')))"

section \<open>The gate\<close>

record quota_report =
  qr_allowed :: bool
  qr_used :: int
  qr_limit :: int
  qr_remaining :: int
  qr_scope :: string

definition consume :: "environ \<Rightarrow> string \<Rightarrow> int \<Rightarrow> string \<Rightarrow> string \<Rightarrow> db \<Rightarrow> quota_exn + quota_report \<times> db" where
  "consume env today now i counter d =
     map_result (\<lambda>(limit, scope).
       (let (value, d1) = increment_usage now i counter (period_of today scope) d
        in (\<lparr>qr_allowed = (value \<le> limit), qr_used = value, qr_limit = limit,
              qr_remaining = max 0 (limit - value), qr_scope = scope\<rparr>, d1)))
       (limit_of env counter)"

definition refund :: "environ \<Rightarrow> string \<Rightarrow> int \<Rightarrow> string option \<Rightarrow> string \<Rightarrow> db \<Rightarrow> quota_exn + db" where
  "refund env today now account counter d = (case account of
       None \<Rightarrow> Inr d
     | Some i \<Rightarrow>
         (if i = [] \<or> \<not> is_limited_account env d account then Inr d
          else map_result (\<lambda>(limit, scope). snd (decrement_usage now i counter (period_of today scope) d))
                 (limit_of env counter)))"

definition remaining_ok :: "environ \<Rightarrow> string \<Rightarrow> string option \<Rightarrow> string \<Rightarrow> db \<Rightarrow> quota_exn + bool" where
  "remaining_ok env today account counter d =
     (if \<not> is_limited_account env d account then Inr True
      else map_result (\<lambda>(limit, scope).
             get_usage (the account) counter (period_of today scope) d < limit) (limit_of env counter))"

definition require_remaining :: "environ \<Rightarrow> string \<Rightarrow> string option \<Rightarrow> string \<Rightarrow> db \<Rightarrow> quota_exn + unit" where
  "require_remaining env today account counter d =
     bind_result (remaining_ok env today account counter d) (\<lambda>ok.
       if ok then Inr ()
       else bind_result (limit_of env counter) (\<lambda>(limit, scope). Inl (TrialLimitExceeded counter limit scope)))"

text \<open>The gate that spends a unit: the exception, if any, and the store afterwards.\<close>

definition require_within_limit ::
    "environ \<Rightarrow> string \<Rightarrow> int \<Rightarrow> string option \<Rightarrow> string \<Rightarrow> db \<Rightarrow> quota_exn option \<times> db" where
  "require_within_limit env today now account counter d =
     (if \<not> is_limited_account env d account then (None, d)
      else case consume env today now (the account) counter d of
        Inl e \<Rightarrow> (Some e, d)
      | Inr (report, d1) \<Rightarrow>
          (if qr_allowed report then (None, d1)
           else case limit_of env counter of
             Inl e \<Rightarrow> (Some e, d1)
           | Inr (limit, scope) \<Rightarrow> (Some (TrialLimitExceeded counter limit scope), d1)))"

record quota_line =
  ql_limit :: int
  ql_used :: int
  ql_remaining :: int
  ql_scope :: string

definition quota_snapshot :: "environ \<Rightarrow> string \<Rightarrow> string \<Rightarrow> db \<Rightarrow> quota_exn + (string, quota_line) dict" where
  "quota_snapshot env today i d = map_res (\<lambda>counter.
     map_result (\<lambda>(limit, scope).
       (let used = get_usage i counter (period_of today scope) d
        in (counter, \<lparr>ql_limit = limit, ql_used = used, ql_remaining = max 0 (limit - used), ql_scope = scope\<rparr>)))
       (limit_of env counter)) (dkeys trial_counters)"

section \<open>What the gate admits\<close>

lemma limit_of_nonneg: "limit_of env counter = Inr (limit, scope) \<Longrightarrow> 0 \<le> limit"
  by (auto simp: limit_of_def trial_counters_def split: option.splits if_splits)

lemma accounts_increment [simp]: "accounts (snd (increment_usage now i ct p d)) = accounts d"
  by (simp add: increment_usage_def Let_def)

lemma accounts_decrement [simp]: "accounts (snd (decrement_usage now i ct p d)) = accounts d"
  by (simp add: decrement_usage_def Let_def split: option.splits)

lemma is_limited_cong: "accounts d1 = accounts d \<Longrightarrow> is_limited_account env d1 a = is_limited_account env d a"
  by (simp add: is_limited_account_def subscription_fields_def row_by_id_def cong: option.case_cong)

lemma limit_of_period:
  "limit_of env counter = Inr (limit, scope) \<Longrightarrow> counter \<in> set (dkeys trial_counters)"
  by (auto simp: limit_of_def dest!: map_of_SomeD split: option.splits intro: rev_image_eqI)

lemma remaining_ok_limited:
  "is_limited_account env d (Some i) \<Longrightarrow> limit_of env counter = Inr (limit, scope) \<Longrightarrow>
   remaining_ok env today (Some i) counter d = Inr (get_usage i counter (period_of today scope) d < limit)"
  by (simp add: remaining_ok_def)

lemma require_within_limited:
  assumes "is_limited_account env d (Some i)" and "limit_of env counter = Inr (limit, scope)"
  shows "require_within_limit env today now (Some i) counter d =
     (if get_usage i counter (period_of today scope) d < limit then None else Some (TrialLimitExceeded counter limit scope),
      snd (increment_usage now i counter (period_of today scope) d))"
proof -
  have "fst (increment_usage now i counter (period_of today scope) d) = get_usage i counter (period_of today scope) d + 1"
    by (rule fst_increment)
  then show ?thesis
    using assms by (simp add: require_within_limit_def consume_def case_prod_beta Let_def)
qed

lemma map_res_dget:
  assumes "map_res f ks = Inr ys" and "k \<in> set ks" and "\<And>k y. f k = Inr y \<Longrightarrow> fst y = k"
  shows "\<exists>v. f k = Inr (k, v) \<and> dget ys k = Some v"
  using assms(1,2)
proof (induction ks arbitrary: ys)
  case (Cons x ks)
  then obtain y ys' where y: "f x = Inr y" "map_res f ks = Inr ys'" "ys = y # ys'"
    by (auto split: sum.splits)
  show ?case
  proof (cases "x = k")
    case True
    then show ?thesis using y assms(3)[OF y(1)] by (intro exI[of _ "snd y"]) (auto simp: prod_eq_iff)
  next
    case False
    then show ?thesis using Cons.IH[OF y(2)] Cons.prems(2) y assms(3)[OF y(1)] by auto
  qed
qed simp

text \<open>The read-only check, the spending gate and the usage snapshot agree: on a limited
  account the check passes exactly when spending one unit now would pass, which is exactly when the
  snapshot shows a unit remaining.\<close>

theorem quota_checks_agree:
  assumes "is_limited_account env d (Some i)" and "limit_of env counter = Inr (limit, scope)"
    and "quota_snapshot env today i d = Inr snap"
  shows "(require_remaining env today (Some i) counter d = Inr () \<longleftrightarrow>
            fst (require_within_limit env today now (Some i) counter d) = None) \<and>
         (require_remaining env today (Some i) counter d = Inr () \<longleftrightarrow>
            (\<exists>line. dget snap counter = Some line \<and> 0 < ql_remaining line))"
proof -
  have pass: "require_remaining env today (Some i) counter d = Inr () \<longleftrightarrow>
      get_usage i counter (period_of today scope) d < limit"
    by (simp add: require_remaining_def remaining_ok_limited[OF assms(1,2)] assms(2))
  obtain line where "dget snap counter = Some line"
      "line = \<lparr>ql_limit = limit, ql_used = get_usage i counter (period_of today scope) d,
         ql_remaining = max 0 (limit - get_usage i counter (period_of today scope) d), ql_scope = scope\<rparr>"
    using map_res_dget[OF assms(3)[unfolded quota_snapshot_def] limit_of_period[OF assms(2)]] assms(2)
    by (fastforce simp: Let_def map_result_Inr_iff case_prod_beta)
  then show ?thesis
    using pass by (auto simp: require_within_limited[OF assms(1,2)])
qed

text \<open>A trace of quota calls; the counts are the units admitted and given back on one counter of one account.\<close>

datatype quota_op = Spend int string string | GiveBack int string string

fun quota_run :: "environ \<Rightarrow> string \<Rightarrow> string \<times> string \<Rightarrow> quota_op list \<Rightarrow> db \<Rightarrow> int \<times> int \<times> db" where
  "quota_run env today k [] d = (0, 0, d)"
| "quota_run env today k (Spend now i ct # ops) d =
     (let (refusal, d1) = require_within_limit env today now (Some i) ct d; (a, r, d2) = quota_run env today k ops d1
      in (if refusal = None \<and> (i, ct) = k then a + 1 else a, r, d2))"
| "quota_run env today k (GiveBack now i ct # ops) d =
     (let (a, r, d2) = quota_run env today k ops (case refund env today now (Some i) ct d of Inl e \<Rightarrow> d | Inr d1 \<Rightarrow> d1)
      in (a, if (i, ct) = k then r + 1 else r, d2))"

lemma require_within_effect:
  "\<exists>p. snd (require_within_limit env today now (Some i) ct d) \<in> {d, snd (increment_usage now i ct p d)}"
  by (auto simp: require_within_limit_def consume_def case_prod_beta Let_def map_result_Inr_iff
      split: sum.splits if_splits)

lemma refund_effect:
  "refund env today now (Some i) ct d = Inr d1 \<Longrightarrow> \<exists>p. d1 \<in> {d, snd (decrement_usage now i ct p d)}"
  by (auto simp: refund_def map_result_Inr_iff split: if_splits)

lemma refund_limited:
  "is_limited_account env d (Some i) \<Longrightarrow> limit_of env ct = Inr (limit, scope) \<Longrightarrow>
   refund env today now (Some i) ct d = Inr (snd (decrement_usage now i ct (period_of today scope) d))"
  by (auto simp: refund_def is_limited_account_def split: if_splits)

lemma quota_run_bound:
  assumes "is_limited_account env d (Some i)" and "limit_of env ct = Inr (limit, scope)" and "db_ok d"
  shows "fst (quota_run env today (i, ct) ops d) \<le>
     max 0 (limit - get_usage i ct (period_of today scope) d) + fst (snd (quota_run env today (i, ct) ops d))"
  using assms(1,3)
proof (induction ops arbitrary: d)
  case Nil
  then show ?case by simp
next
  case (Cons op ops)
  let ?p = "period_of today scope"
  show ?case
  proof (cases op)
    case (Spend now j c)
    define d1 where "d1 = snd (require_within_limit env today now (Some j) c d)"
    have "accounts d1 = accounts d \<and> db_ok d1"
      using require_within_effect[of env today now j c d] Cons.prems(2) db_ok_increment by (auto simp: d1_def)
    then have IH: "fst (quota_run env today (i, ct) ops d1) \<le>
        max 0 (limit - get_usage i ct ?p d1) + fst (snd (quota_run env today (i, ct) ops d1))"
      using Cons.IH[of d1] Cons.prems(1) is_limited_cong[of d1 d] by simp
    show ?thesis
    proof (cases "(j, c) = (i, ct)")
      case True
      then have "require_within_limit env today now (Some j) c d =
          (if get_usage i ct ?p d < limit then None else Some (TrialLimitExceeded ct limit scope), d1)"
        using require_within_limited[OF Cons.prems(1) assms(2)] by (simp add: d1_def)
      moreover have "get_usage i ct ?p d1 = get_usage i ct ?p d + 1"
        using True by (simp add: d1_def require_within_limited[OF Cons.prems(1) assms(2)] get_usage_increment)
      ultimately show ?thesis
        using IH True by (auto simp: Spend Let_def case_prod_beta)
    next
      case False
      then have "get_usage i ct ?p d1 = get_usage i ct ?p d"
        using require_within_effect[of env today now j c d] by (auto simp: d1_def get_usage_increment)
      then show ?thesis
        using IH False by (auto simp: Spend Let_def case_prod_beta d1_def)
    qed
  next
    case (GiveBack now j c)
    define d1 where "d1 = (case refund env today now (Some j) c d of Inl e \<Rightarrow> d | Inr d1 \<Rightarrow> d1)"
    obtain p where p: "d1 = d \<or> d1 = snd (decrement_usage now j c p d)"
      using refund_effect[of env today now j c d] by (cases "refund env today now (Some j) c d") (auto simp: d1_def)
    have "accounts d1 = accounts d \<and> db_ok d1"
      using p Cons.prems(2) db_ok_decrement by auto
    then have IH: "fst (quota_run env today (i, ct) ops d1) \<le>
        max 0 (limit - get_usage i ct ?p d1) + fst (snd (quota_run env today (i, ct) ops d1))"
      using Cons.IH[of d1] Cons.prems(1) is_limited_cong[of d1 d] by simp
    show ?thesis
    proof (cases "(j, c) = (i, ct)")
      case True
      then have "get_usage i ct ?p d1 \<ge> get_usage i ct ?p d - 1"
        using refund_limited[OF Cons.prems(1) assms(2)] Cons.prems(2)
        by (simp add: d1_def get_usage_decrement)
      then show ?thesis
        using IH True by (auto simp: GiveBack Let_def case_prod_beta d1_def)
    next
      case False
      then have "get_usage i ct ?p d1 = get_usage i ct ?p d"
        using p Cons.prems(2) by (auto simp: get_usage_decrement)
      then show ?thesis
        using IH False by (auto simp: GiveBack Let_def case_prod_beta d1_def)
    qed
  qed
qed

text \<open>Property C28. Whatever spending and refund calls arrive in whatever order, for whichever accounts
  and counters, a limited account never gets more units of a counter than its limit left at the start
  plus the units given back.\<close>

theorem admitted_within_limit:
  assumes "db_reach c d" and "is_limited_account env d (Some i)" and "limit_of env ct = Inr (limit, scope)"
    and "quota_run env today (i, ct) ops d = (admitted, returned, d1)"
  shows "admitted \<le> max 0 (limit - get_usage i ct (period_of today scope) d) + returned"
  using quota_run_bound[OF assms(2,3) db_reach_ok[OF assms(1)], of today ops] assms(4) by simp

text \<open>A refused attempt costs a unit all the same: on an account that has used exactly its
  limit, one refused attempt followed by one refund leaves the gate closed.\<close>

theorem refused_attempt_costs_a_unit:
  assumes "db_reach c d" and "is_limited_account env d (Some i)" and "limit_of env ct = Inr (limit, scope)"
    and "get_usage i ct (period_of today scope) d = limit"
    and "require_within_limit env today now (Some i) ct d = (refusal, d1)"
    and "refund env today later (Some i) ct d1 = Inr d2"
  shows "refusal = Some (TrialLimitExceeded ct limit scope) \<and>
     require_remaining env today (Some i) ct d2 = Inl (TrialLimitExceeded ct limit scope)"
proof -
  let ?p = "period_of today scope"
  have refused: "refusal = Some (TrialLimitExceeded ct limit scope)" "d1 = snd (increment_usage now i ct ?p d)"
    using assms(5) require_within_limited[OF assms(2,3)] assms(4) by auto
  have lim1: "is_limited_account env d1 (Some i)" "is_limited_account env d2 (Some i)" and ok1: "db_ok d1"
    using assms(1,2,6) is_limited_cong[of d1 d] is_limited_cong[of d2 d] refund_effect[of env today later i ct d1 d2]
      db_ok_increment[OF db_reach_ok] by (auto simp: refused)
  have d2: "d2 = snd (usage_dec later (i, ct, ?p) (snd (usage_inc now (i, ct, ?p) d)))"
    using assms(6) refund_limited[OF lim1(1) assms(3)] by (simp add: refused(2) usage_dec_def usage_inc_def)
  have "get_usage i ct ?p d2 = limit"
    using counters.refund_undoes[OF db_reach_ok[OF assms(1)], of "(i, ct, ?p)" later "(i, ct, ?p)" now] assms(4)
    by (simp add: d2 usage_at_def)
  then show ?thesis
    by (simp add: refused(1) require_remaining_def remaining_ok_limited[OF lim1(2) assms(3)] assms(3))
qed

section \<open>Examples\<close>

definition quota_environ :: environ where
  "quota_environ = map_of [(''TRIAL_LIMITS_ENFORCED'', ''Yes''), (''TRIAL_GENERATION_LIMIT'', ''1'')]"

lemma demo_limited: "is_limited_account quota_environ demo_db (Some ''acct_a'')"
  and demo_limit: "limit_of quota_environ ''generation'' = Inr (1, ''lifetime'')"
  and demo_used: "get_usage ''acct_a'' ''generation'' ''lifetime'' demo_db = 1"
  by code_simp+

theorem quota_checks_agree_witness:
  "require_remaining quota_environ ''2026-01-01'' (Some ''acct_a'') ''generation'' demo_db \<noteq> Inr () \<and>
   fst (require_within_limit quota_environ ''2026-01-01'' 9 (Some ''acct_a'') ''generation'' demo_db) \<noteq> None"
proof -
  have s: "quota_snapshot quota_environ ''2026-01-01'' ''acct_a'' demo_db = Inr
      [(''generation'', \<lparr>ql_limit = 1, ql_used = 1, ql_remaining = 0, ql_scope = ''lifetime''\<rparr>),
       (''chat_message'', \<lparr>ql_limit = 100, ql_used = 0, ql_remaining = 100, ql_scope = ''daily''\<rparr>),
       (''export'', \<lparr>ql_limit = 5, ql_used = 0, ql_remaining = 5, ql_scope = ''lifetime''\<rparr>),
       (''draft'', \<lparr>ql_limit = 20, ql_used = 0, ql_remaining = 20, ql_scope = ''daily''\<rparr>)]"
    by code_simp
  show ?thesis
    using quota_checks_agree[OF demo_limited demo_limit s, of 9] by auto
qed

theorem admitted_within_limit_witness:
  "fst (quota_run quota_environ ''d'' (''acct_a'', ''generation'')
     [Spend 7 ''acct_a'' ''generation'', GiveBack 8 ''acct_a'' ''generation'', Spend 9 ''acct_a'' ''generation''] demo_db) \<le> 1"
proof -
  have "fst (snd (quota_run quota_environ ''d'' (''acct_a'', ''generation'')
     [Spend 7 ''acct_a'' ''generation'', GiveBack 8 ''acct_a'' ''generation'', Spend 9 ''acct_a'' ''generation''] demo_db)) = 1"
    by (simp add: Let_def case_prod_beta)
  then show ?thesis
    using admitted_within_limit[OF demo_reach demo_limited demo_limit, of "''d''"
        "[Spend 7 ''acct_a'' ''generation'', GiveBack 8 ''acct_a'' ''generation'', Spend 9 ''acct_a'' ''generation'']"]
    by (simp add: prod_eq_iff period_of_def demo_used split_beta)
qed

theorem refused_attempt_costs_a_unit_witness:
  "require_remaining quota_environ ''d'' (Some ''acct_a'') ''generation''
     (snd (decrement_usage 9 ''acct_a'' ''generation'' ''lifetime''
       (snd (increment_usage 8 ''acct_a'' ''generation'' ''lifetime'' demo_db)))) =
   Inl (TrialLimitExceeded ''generation'' 1 ''lifetime'')"
proof -
  let ?d1 = "snd (increment_usage 8 ''acct_a'' ''generation'' ''lifetime'' demo_db)"
  have p: "period_of ''d'' ''lifetime'' = ''lifetime''" by (simp add: period_of_def)
  have r: "require_within_limit quota_environ ''d'' 8 (Some ''acct_a'') ''generation'' demo_db =
      (Some (TrialLimitExceeded ''generation'' 1 ''lifetime''), ?d1)"
    using require_within_limited[OF demo_limited demo_limit, of "''d''" 8] by (simp add: p demo_used)
  have l: "is_limited_account quota_environ ?d1 (Some ''acct_a'')"
    using demo_limited is_limited_cong[of ?d1 demo_db] by simp
  show ?thesis
    using refused_attempt_costs_a_unit[OF demo_reach demo_limited demo_limit _ r refund_limited[OF l demo_limit]]
    by (simp add: p demo_used)
qed

end
