(* ===== verification/RateLimit.thy ===== *)
theory RateLimit
  imports Auth
begin

text \<open>
  The rate limiter (\<open>core/rate_limit.py\<close>) and the burst throttle built on it
  (\<open>core/llm_throttle.py\<close>): the client identity, the bounded in-memory buckets and
  the decision.  The buckets are the module's dictionary in insertion order; a
  bucket is the list of its attempt times, oldest first, in microseconds of the
  monotonic clock.  Redis is an argument: no client, or the answer it gave to the
  increment of a key, None when the call raised.
\<close>

section \<open>Configuration and client identity\<close>

definition env_int :: "environ \<Rightarrow> string \<Rightarrow> int \<Rightarrow> int" where
  "env_int env name dflt = (case env name of
       None \<Rightarrow> dflt
     | Some s \<Rightarrow> (case int_of_str s of Some n \<Rightarrow> n | None \<Rightarrow> dflt))"

definition env_positive :: "environ \<Rightarrow> string \<Rightarrow> int \<Rightarrow> int" where
  "env_positive env name dflt =
     (let n = (if env_text env name = [] then dflt
               else case int_of_str (env_text env name) of Some n \<Rightarrow> n | None \<Rightarrow> dflt)
      in if 0 < n then n else dflt)"

definition auth_limits :: "environ \<Rightarrow> int \<times> int" where
  "auth_limits env = (env_int env ''AUTH_RATE_LIMIT_MAX'' 10, env_int env ''AUTH_RATE_LIMIT_WINDOW_S'' 600)"

definition max_keys :: "environ \<Rightarrow> int" where
  "max_keys env = env_positive env ''RATE_LIMIT_MAX_KEYS'' 10000"

definition trusted_proxy_enabled :: "environ \<Rightarrow> bool" where
  "trusted_proxy_enabled env = env_flag env ''TRUSTED_PROXY''"

definition trusted_proxy_hops :: "environ \<Rightarrow> int" where
  "trusted_proxy_hops env = env_positive env ''TRUSTED_PROXY_HOP_COUNT'' 1"

record client_request =
  peer_host :: "string option"
  forwarded_for :: "string option"

definition peer_of :: "client_request \<Rightarrow> string" where
  "peer_of r = (case peer_host r of None \<Rightarrow> ''unknown'' | Some h \<Rightarrow> if h = [] then ''unknown'' else h)"

definition forwarded_parts :: "string \<Rightarrow> string list" where
  "forwarded_parts raw = map py_strip (filter (\<lambda>p. py_strip p \<noteq> []) (split_on CHR '','' raw))"

definition client_key :: "environ \<Rightarrow> client_request \<Rightarrow> string" where
  "client_key env r =
     (if \<not> trusted_proxy_enabled env then peer_of r
      else
        (let parts = forwarded_parts (case forwarded_for r of None \<Rightarrow> [] | Some s \<Rightarrow> s);
             hops = trusted_proxy_hops env
         in if parts = [] then peer_of r
            else if int (length parts) < hops then peer_of r
            else parts ! (length parts - nat hops)))"

section \<open>Buckets\<close>

type_synonym bucket_key = "string \<times> string"
type_synonym buckets = "(bucket_key, int list) dict"

text \<open>The newest attempt, 0.0 for an empty bucket.\<close>

definition newest :: "int list \<Rightarrow> int" where
  "newest q = (if q = [] then 0 else last q)"

definition stale_bucket :: "int \<Rightarrow> int \<Rightarrow> int list \<Rightarrow> bool" where
  "stale_bucket now window q = (q = [] \<or> last q \<le> now - window)"

fun oldest_key :: "buckets \<Rightarrow> bucket_key option" where
  "oldest_key [] = None"
| "oldest_key ((k, q) # bs) = (case oldest_key bs of
       None \<Rightarrow> Some k
     | Some j \<Rightarrow> if newest q \<le> newest (the (dget bs j)) then Some k else Some j)"

function evict :: "int \<Rightarrow> buckets \<Rightarrow> buckets" where
  "evict m bs =
     (if int (length bs) < m then bs
      else case oldest_key bs of None \<Rightarrow> bs | Some k \<Rightarrow> evict m (dpop k bs))"
  by pat_completeness auto

lemma oldest_key_in: "oldest_key bs = Some k \<Longrightarrow> k \<in> set (dkeys bs)"
  by (induction bs arbitrary: k rule: oldest_key.induct) (auto split: option.splits if_splits)

lemma length_dpop_less: "k \<in> set (dkeys bs) \<Longrightarrow> length (dpop k bs) < length bs"
proof -
  assume "k \<in> set (dkeys bs)"
  then have "filter (\<lambda>(k', _). k \<noteq> k') bs \<noteq> bs" by (auto simp: filter_id_conv)
  then show ?thesis
    by (simp add: AList.delete_eq) (metis (no_types) filter_True length_filter_less)
qed

termination evict
  by (relation "measure (\<lambda>(m, bs). length bs)") (auto dest!: oldest_key_in length_dpop_less)

declare evict.simps [simp del]

definition sweep :: "int \<Rightarrow> int \<Rightarrow> buckets \<Rightarrow> buckets" where
  "sweep now window bs = filter (\<lambda>p. \<not> stale_bucket now window (snd p)) bs"

text \<open>Fetch or create a bucket, keeping the number of buckets under the bound.\<close>

definition bucket_locked :: "int \<Rightarrow> bucket_key \<Rightarrow> int \<Rightarrow> int \<Rightarrow> buckets \<Rightarrow> int list \<times> buckets" where
  "bucket_locked m k now window bs = (case dget bs k of
       Some q \<Rightarrow> (q, bs)
     | None \<Rightarrow> ([], dset k [] (if m \<le> int (length bs) then evict m (sweep now window bs) else bs)))"

text \<open>The client of the process, resolved once: absent, or what the increment of a key answers.  Redis
  counts in fixed slots of the wall clock, one key for each.\<close>

type_synonym redis = "(string \<Rightarrow> int option) option"

definition redis_key :: "string \<Rightarrow> string \<Rightarrow> int \<Rightarrow> string" where
  "redis_key bucket key slot = ''rl:'' @ bucket @ '':'' @ key @ '':'' @ show_int slot"

definition auth_fail_closed :: "string list" where
  "auth_fail_closed = [''register'', ''login'', ''smoke-login'', ''verify-email'', ''forgot-password'',
     ''reset-password'', ''change-password'', ''delete-account'', ''resend-verification'']"

definition drop_old :: "int \<Rightarrow> int \<Rightarrow> int list \<Rightarrow> int list" where
  "drop_old now window q = dropWhile (\<lambda>t. t \<le> now - window) q"

definition check_local :: "int \<Rightarrow> bucket_key \<Rightarrow> int \<Rightarrow> int \<Rightarrow> int \<Rightarrow> buckets \<Rightarrow> bool \<times> buckets" where
  "check_local m k limit window now bs =
     (let (q0, bs1) = bucket_locked m k now window bs;
          q = drop_old now window q0
      in if limit \<le> int (length q) then (False, dset k q bs1)
         else (True, dset k (q @ [now]) bs1))"

text \<open>\<open>check_rate_limit\<close>: limit and window (seconds) default to the auth limits; a window of
  zero makes the slot computation of the Redis path raise, which counts as a failure of Redis.\<close>

definition check_rate_limit ::
    "environ \<Rightarrow> redis \<Rightarrow> string \<Rightarrow> string \<Rightarrow> int option \<Rightarrow> int option \<Rightarrow> int \<Rightarrow> int \<Rightarrow> buckets \<Rightarrow> bool \<times> buckets" where
  "check_rate_limit env redis bucket key limit_arg window_arg wall now bs =
     (let limit = (case limit_arg of Some n \<Rightarrow> n | None \<Rightarrow> fst (auth_limits env));
          window = (case window_arg of Some n \<Rightarrow> n | None \<Rightarrow> snd (auth_limits env));
          local = check_local (max_keys env) (bucket, key) limit (seconds window) now bs;
          failed = (if bucket \<in> set auth_fail_closed then (False, bs) else local)
      in case redis of
           None \<Rightarrow> local
         | Some incr \<Rightarrow> (if window = 0 then failed
             else case incr (redis_key bucket key (wall div seconds window)) of
                    None \<Rightarrow> failed | Some n \<Rightarrow> (n \<le> limit, bs)))"

definition check_rate_limit_for_request ::
    "environ \<Rightarrow> redis \<Rightarrow> string \<Rightarrow> client_request \<Rightarrow> int \<Rightarrow> int \<Rightarrow> buckets \<Rightarrow> bool \<times> buckets" where
  "check_rate_limit_for_request env redis bucket r wall now bs =
     check_rate_limit env redis bucket (client_key env r) None None wall now bs"

definition tracked_key_count :: "buckets \<Rightarrow> nat" where
  "tracked_key_count bs = length bs"

definition reset_rate_limits :: "buckets \<Rightarrow> buckets" where
  "reset_rate_limits bs = []"

section \<open>The burst throttle\<close>

datatype caller = AccountText string | Caller principal | NoCaller

definition kind_name :: "principal_kind \<Rightarrow> string" where
  "kind_name k = (case k of Admin \<Rightarrow> ''admin'' | User \<Rightarrow> ''user'' | Dev \<Rightarrow> ''dev'')"

definition caller_key :: "caller \<Rightarrow> string" where
  "caller_key c = (case c of
       AccountText s \<Rightarrow> (if py_strip s \<noteq> [] then py_strip s else ''anonymous'')
     | Caller p \<Rightarrow> (case p_account p of Some i \<Rightarrow> (if i \<noteq> [] then i else kind_name (p_kind p)) | None \<Rightarrow> kind_name (p_kind p))
     | NoCaller \<Rightarrow> ''anonymous'')"

definition llm_limits :: "environ \<Rightarrow> int \<times> int" where
  "llm_limits env = (env_int env ''LLM_RATE_LIMIT_MAX'' 30, max 1 (env_int env ''LLM_RATE_LIMIT_WINDOW_S'' 60))"

text \<open>The result is False where the route answers 429.\<close>

definition require_llm_rate :: "environ \<Rightarrow> redis \<Rightarrow> caller \<Rightarrow> string \<Rightarrow> int \<Rightarrow> int \<Rightarrow> buckets \<Rightarrow> bool \<times> buckets" where
  "require_llm_rate env redis c bucket wall now bs =
     (let (limit, window) = llm_limits env
      in if limit \<le> 0 then (True, bs)
         else check_rate_limit env redis (''llm:'' @ bucket) (caller_key c) (Some limit) (Some window) wall now bs)"

section \<open>Who is being limited\<close>

lemma forwarded_parts_append:
  "forwarded_parts (s @ CHR '','' # t) = forwarded_parts s @ forwarded_parts t"
  by (simp add: forwarded_parts_def split_on_sep)

text \<open>Behind a trusted proxy the identity cannot be chosen by the caller: whatever a client
  puts in front of the entries its proxies append, the key is the one those entries give.\<close>

theorem spoofed_prefix_ignored:
  assumes "trusted_proxy_hops env \<le> int (length (forwarded_parts real))"
  shows "client_key env \<lparr>peer_host = h, forwarded_for = Some (spoof @ '','' @ real)\<rparr> =
         client_key env \<lparr>peer_host = h, forwarded_for = Some real\<rparr>"
proof -
  have pos: "0 < trusted_proxy_hops env"
    by (simp add: trusted_proxy_hops_def env_positive_def Let_def)
  then have "forwarded_parts real \<noteq> []" using assms by auto
  moreover have "(forwarded_parts spoof @ forwarded_parts real) !
        (length (forwarded_parts spoof) + length (forwarded_parts real) - nat (trusted_proxy_hops env)) =
      forwarded_parts real ! (length (forwarded_parts real) - nat (trusted_proxy_hops env))"
  proof -
    have "length (forwarded_parts spoof) + length (forwarded_parts real) - nat (trusted_proxy_hops env) =
        length (forwarded_parts spoof) + (length (forwarded_parts real) - nat (trusted_proxy_hops env))"
      using assms by simp
    then show ?thesis by (metis nth_append_length_plus)
  qed
  ultimately show ?thesis
    using assms by (auto simp: client_key_def forwarded_parts_append Let_def peer_of_def)
qed

section \<open>The bound on the number of buckets\<close>

lemma oldest_key_Some: "bs \<noteq> [] \<Longrightarrow> \<exists>k. oldest_key bs = Some k"
  by (cases bs rule: oldest_key.cases) (auto split: option.splits)

lemma evict_length: "0 < m \<Longrightarrow> int (length (evict m bs)) < m"
proof (induction m bs rule: evict.induct)
  case (1 m bs)
  show ?case
  proof (cases "int (length bs) < m")
    case False
    then obtain k where "oldest_key bs = Some k"
      using "1.prems" oldest_key_Some[of bs] by (cases bs) auto
    then show ?thesis using False 1 by (subst evict.simps) auto
  qed (subst evict.simps, simp)
qed

lemma length_dset: "length (dset k v bs) = (if k \<in> set (dkeys bs) then length bs else Suc (length bs))"
  by (induction bs) auto

lemma evict_dict_ok: "dict_ok bs \<Longrightarrow> dict_ok (evict m bs)"
proof (induction m bs rule: evict.induct)
  case (1 m bs)
  then show ?case by (subst evict.simps) (auto simp: dict_simps split: option.splits)
qed

lemma sweep_dict_ok: "dict_ok bs \<Longrightarrow> dict_ok (sweep now window bs)"
  by (simp add: sweep_def distinct_map_filter)

lemma bucket_locked_ok:
  "dict_ok bs \<Longrightarrow> bucket_locked m k now window bs = (q, bs1) \<Longrightarrow> dict_ok bs1 \<and> dget bs1 k = Some q"
  by (auto simp: bucket_locked_def dict_simps evict_dict_ok sweep_dict_ok split: option.splits if_splits)

lemma bucket_locked_length:
  assumes "0 < m" and "int (length bs) \<le> m" and "bucket_locked m k now window bs = (q, bs1)"
  shows "int (length bs1) \<le> m"
proof -
  have "int (length (evict m (sweep now window bs))) < m" using assms(1) by (rule evict_length)
  then show ?thesis
    using assms by (auto simp: bucket_locked_def length_dset split: option.splits if_splits)
qed

lemma check_local_length:
  assumes "0 < m" and "int (length bs) \<le> m" and "dict_ok bs"
  shows "int (length (snd (check_local m k limit window now bs))) \<le> m \<and>
     dict_ok (snd (check_local m k limit window now bs))"
proof -
  obtain q bs1 where b: "bucket_locked m k now window bs = (q, bs1)" by fastforce
  have "k \<in> set (dkeys bs1)"
    using bucket_locked_ok[OF assms(3) b] by (auto dest!: map_of_SomeD intro: rev_image_eqI)
  then show ?thesis
    using bucket_locked_length[OF assms(1,2) b] bucket_locked_ok[OF assms(3) b]
    by (auto simp: check_local_def b Let_def length_dset dict_simps)
qed

lemma max_keys_pos: "0 < max_keys env"
  by (simp add: max_keys_def env_positive_def Let_def)

section \<open>The sliding window\<close>

text \<open>A run of checks in order of time: what each one answered.\<close>

fun run_checks :: "int \<Rightarrow> (bucket_key \<times> int \<times> int \<times> int) list \<Rightarrow> buckets \<Rightarrow> (bucket_key \<times> int \<times> bool) list" where
  "run_checks m [] bs = []"
| "run_checks m ((k, limit, window, now) # cs) bs =
     (let (ok, bs1) = check_local m k limit window now bs in (k, now, ok) # run_checks m cs bs1)"

definition admitted_times :: "bucket_key \<Rightarrow> (bucket_key \<times> int \<times> bool) list \<Rightarrow> int list" where
  "admitted_times k rs = map (fst \<circ> snd) (filter (\<lambda>(j, t, ok). j = k \<and> ok) rs)"

definition in_window :: "int \<Rightarrow> int \<Rightarrow> int list \<Rightarrow> nat" where
  "in_window window t xs = length (filter (\<lambda>x. t - window < x \<and> x \<le> t) xs)"

definition bucket_of :: "buckets \<Rightarrow> bucket_key \<Rightarrow> int list" where
  "bucket_of bs k = (case dget bs k of None \<Rightarrow> [] | Some q \<Rightarrow> q)"

lemma card_dkeys: "dict_ok bs \<Longrightarrow> card (fst ` set bs) = length bs"
  by (metis distinct_card length_map set_map)

lemma bucket_locked_room:
  assumes "dict_ok bs" and "int (card (insert k (set (dkeys bs)))) \<le> m"
  shows "bucket_locked m k now window bs = (bucket_of bs k, if k \<in> set (dkeys bs) then bs else dset k [] bs)"
proof (cases "dget bs k")
  case None
  then have "k \<notin> set (dkeys bs)" by (simp add: map_of_eq_None_iff)
  then have "int (length bs) < m" using assms by (simp add: card_dkeys card_insert_if)
  then show ?thesis using None \<open>k \<notin> set (dkeys bs)\<close> by (simp add: bucket_locked_def bucket_of_def)
next
  case (Some q)
  then have "k \<in> set (dkeys bs)" by (auto dest!: map_of_SomeD intro: rev_image_eqI)
  then show ?thesis using Some by (simp add: bucket_locked_def bucket_of_def)
qed

lemma dkeys_dset: "set (dkeys (dset k v bs)) = insert k (set (dkeys bs))"
  by (simp add: dom_update)

lemma check_local_room:
  assumes "dict_ok bs" and "int (card (insert k (set (dkeys bs)))) \<le> m"
    and "check_local m k limit window now bs = (ok, bs1)"
  shows "dict_ok bs1" "set (dkeys bs1) = insert k (set (dkeys bs))"
    "ok \<longleftrightarrow> int (length (drop_old now window (bucket_of bs k))) < limit"
    "bucket_of bs1 j = (if j = k then drop_old now window (bucket_of bs k) @ (if ok then [now] else []) else bucket_of bs j)"
proof -
  let ?q = "drop_old now window (bucket_of bs k)" and ?base = "if k \<in> set (dkeys bs) then bs else dset k [] bs"
  have bs1: "bs1 = dset k (?q @ (if ok then [now] else [])) ?base" and ok: "ok \<longleftrightarrow> int (length ?q) < limit"
    using assms(3) by (auto simp: check_local_def bucket_locked_room[OF assms(1,2)] Let_def split: if_splits)
  show "ok \<longleftrightarrow> int (length ?q) < limit" by (rule ok)
  have base: "dict_ok ?base" "set (dkeys ?base) = (if k \<in> set (dkeys bs) then set (dkeys bs) else insert k (set (dkeys bs)))"
    using assms(1) by (simp_all add: dict_ok_dset dkeys_dset del: set_map)
  show "dict_ok bs1" unfolding bs1 using base(1) by (rule dict_ok_dset)
  show "set (dkeys bs1) = insert k (set (dkeys bs))"
    unfolding bs1 dkeys_dset base(2) by auto
  have "dget ?base j = dget bs j" if "j \<noteq> k" using that by (simp add: dget_dset)
  then show "bucket_of bs1 j = (if j = k then ?q @ (if ok then [now] else []) else bucket_of bs j)"
    by (auto simp: bs1 bucket_of_def dget_dset)
qed

lemma in_window_append: "in_window w t (xs @ ys) = in_window w t xs + in_window w t ys"
  by (simp add: in_window_def)

lemma in_window_old: "\<forall>x\<in>set xs. x \<le> now - w \<Longrightarrow> now \<le> t \<Longrightarrow> in_window w t xs = 0"
  by (auto simp: in_window_def filter_empty_conv)

lemma drop_old_split: "\<exists>old. q = old @ drop_old now w q \<and> (\<forall>x\<in>set old. x \<le> now - w)"
  by (rule exI[of _ "takeWhile (\<lambda>t. t \<le> now - w) q"]) (auto simp: drop_old_def dest: set_takeWhileD)

lemma run_checks_window:
  assumes "dict_ok bs" and "int (card (set (dkeys bs) \<union> set (map fst cs))) \<le> m"
    and "sorted (T # map (\<lambda>(k, l, w, now). now) cs)"
    and "list_all (\<lambda>(j, l, w, now). j = k \<longrightarrow> l = limit \<and> w = window) cs" and "0 \<le> limit"
    and "hist = old @ bucket_of bs k" and "\<forall>x\<in>set old. x \<le> T - window"
    and "\<forall>t. int (in_window window t hist) \<le> limit"
  shows "int (in_window window t (hist @ admitted_times k (run_checks m cs bs))) \<le> limit"
  using assms
proof (induction cs arbitrary: bs T hist old)
  case Nil
  then show ?case by (simp add: admitted_times_def)
next
  case (Cons c cs)
  obtain j l w now where c: "c = (j, l, w, now)" by (cases c)
  obtain ok bs1 where step: "check_local m j l w now bs = (ok, bs1)" by fastforce
  have run: "run_checks m (c # cs) bs = (j, now, ok) # run_checks m cs bs1" by (simp add: c step)
  have fin: "finite (set (dkeys bs) \<union> set (map fst (c # cs)))" by simp
  have room: "int (card (insert j (set (dkeys bs)))) \<le> m"
  proof -
    have "insert j (set (dkeys bs)) \<subseteq> set (dkeys bs) \<union> set (map fst (c # cs))" by (auto simp: c)
    then have "card (insert j (set (dkeys bs))) \<le> card (set (dkeys bs) \<union> set (map fst (c # cs)))"
      by (rule card_mono[OF fin])
    then show ?thesis using Cons.prems(2) by linarith
  qed
  note st = check_local_room[OF Cons.prems(1) room step]
  have keys: "int (card (set (dkeys bs1) \<union> set (map fst cs))) \<le> m"
  proof -
    have "set (dkeys bs1) \<union> set (map fst cs) = set (dkeys bs) \<union> set (map fst (c # cs))"
      unfolding st(2) by (auto simp: c)
    then show ?thesis using Cons.prems(2) by (simp only:)
  qed
  have times: "T \<le> now" "sorted (now # map (\<lambda>(k, l, w, now). now) cs)"
    using Cons.prems(3) by (auto simp: c)
  have rest: "list_all (\<lambda>(j, l, w, now). j = k \<longrightarrow> l = limit \<and> w = window) cs"
    using Cons.prems(4) by simp
  show ?case
  proof (cases "j = k")
    case False
    have old: "\<forall>x\<in>set old. x \<le> now - window" using Cons.prems(7) times(1) by force
    have "hist = old @ bucket_of bs1 k" using Cons.prems(6) st(4)[of k] False by simp
    then have "int (in_window window t (hist @ admitted_times k (run_checks m cs bs1))) \<le> limit"
      by (rule Cons.IH[OF st(1) keys times(2) rest Cons.prems(5) _ old Cons.prems(8)])
    then show ?thesis using False unfolding run by (simp add: admitted_times_def)
  next
    case True
    then have lw: "l = limit" "w = window" using Cons.prems(4) by (auto simp: c)
    obtain o2 where o2: "bucket_of bs k = o2 @ drop_old now window (bucket_of bs k)" "\<forall>x\<in>set o2. x \<le> now - window"
      using drop_old_split by blast
    let ?new = "if ok then [now] else []"
    have split: "hist @ ?new = (old @ o2) @ bucket_of bs1 k"
      using o2(1) st(4)[of k] True lw Cons.prems(6) by simp
    have aged: "\<forall>x\<in>set (old @ o2). x \<le> now - window"
      using Cons.prems(7) o2(2) times(1) by force
    have win: "int (in_window window t' (hist @ ?new)) \<le> limit" for t'
    proof (cases "now \<le> t' \<and> ok")
      case True
      then have "in_window window t' (hist @ ?new) = in_window window t' (bucket_of bs1 k)"
        unfolding split using in_window_old[OF aged] by (simp add: in_window_append)
      also have "\<dots> \<le> length (bucket_of bs1 k)" by (simp add: in_window_def)
      finally show ?thesis using st(3) st(4)[of k] \<open>j = k\<close> lw True by (simp split: if_splits)
    next
      case False
      then have "in_window window t' (hist @ ?new) = in_window window t' hist"
        by (auto simp: in_window_def)
      then show ?thesis using Cons.prems(8) by simp
    qed
    have "int (in_window window t ((hist @ ?new) @ admitted_times k (run_checks m cs bs1))) \<le> limit"
      using Cons.IH[OF st(1) keys times(2) rest Cons.prems(5) split aged] win by blast
    then show ?thesis using True unfolding run by (cases ok) (simp_all add: admitted_times_def)
  qed
qed

text \<open>The bound of the buckets in memory.\<close>

lemma local_window:
  assumes "int (card (set (map fst cs))) \<le> max_keys env"
    and "sorted (map (\<lambda>(k, l, w, now). now) cs)"
    and "list_all (\<lambda>(j, l, w, now). j = k \<longrightarrow> l = limit \<and> w = window) cs" and "0 \<le> limit"
  shows "int (in_window window t (admitted_times k (run_checks (max_keys env) cs []))) \<le> limit"
proof (cases cs)
  case Nil
  then show ?thesis using assms(4) by (simp add: admitted_times_def in_window_def)
next
  case (Cons c cs')
  obtain j l w now where c: "c = (j, l, w, now)" by (cases c)
  have "sorted (now # map (\<lambda>(k, l, w, now). now) cs)"
    using assms(2) by (auto simp: Cons c)
  then show ?thesis
    using run_checks_window[where bs = "[]" and cs = cs and m = "max_keys env" and T = now and k = k
        and limit = limit and window = window and hist = "[]" and old = "[]" and t = t] assms
    by (simp add: bucket_of_def in_window_def)
qed

section \<open>A run of checks over both backends\<close>

text \<open>One check: the client, its limit and window in seconds, what Redis answers, the wall clock and the
  monotonic clock.\<close>

record rate_check =
  rc_id :: bucket_key
  rc_limit :: int
  rc_window :: int
  rc_answer :: "int option"
  rc_wall :: int
  rc_now :: int

text \<open>The checks of a process, with or without a Redis client.\<close>

fun run_limiter :: "environ \<Rightarrow> bool \<Rightarrow> rate_check list \<Rightarrow> buckets \<Rightarrow> (rate_check \<times> bool) list" where
  "run_limiter env shared [] bs = []"
| "run_limiter env shared (c # cs) bs =
     (let (ok, bs1) = check_rate_limit env (if shared then Some (\<lambda>k. rc_answer c) else None) (fst (rc_id c)) (snd (rc_id c))
            (Some (rc_limit c)) (Some (rc_window c)) (rc_wall c) (rc_now c) bs
      in (c, ok) # run_limiter env shared cs bs1)"

definition admitted :: "bucket_key \<Rightarrow> (rate_check \<Rightarrow> bool) \<Rightarrow> (rate_check \<times> bool) list \<Rightarrow> rate_check list" where
  "admitted k P rs = map fst (filter (\<lambda>(c, ok). rc_id c = k \<and> ok \<and> P c) rs)"

definition check_key :: "rate_check \<Rightarrow> string" where
  "check_key c = redis_key (fst (rc_id c)) (snd (rc_id c)) (rc_wall c div seconds (rc_window c))"

text \<open>Redis counts: an increment answers at least one more than the increments of its key before it, as
  the key outlives its slot; others may have incremented it too.\<close>

fun counts_up :: "string list \<Rightarrow> rate_check list \<Rightarrow> bool" where
  "counts_up seen [] = True"
| "counts_up seen (c # cs) = (case rc_answer c of
       None \<Rightarrow> counts_up seen cs
     | Some n \<Rightarrow> int (count_list seen (check_key c)) < n \<and> counts_up (check_key c # seen) cs)"

definition uses_memory :: "bool \<Rightarrow> rate_check \<Rightarrow> bool" where
  "uses_memory shared c =
     (\<not> shared \<or> ((rc_window c = 0 \<or> rc_answer c = None) \<and> fst (rc_id c) \<notin> set auth_fail_closed))"

definition in_memory_check :: "rate_check \<Rightarrow> bucket_key \<times> int \<times> int \<times> int" where
  "in_memory_check c = (rc_id c, rc_limit c, seconds (rc_window c), rc_now c)"

lemma memory_run:
  "map (\<lambda>(c, ok). (rc_id c, rc_now c, ok)) (filter (uses_memory shared \<circ> fst) (run_limiter env shared cs bs)) =
     run_checks (max_keys env) (map in_memory_check (filter (uses_memory shared) cs)) bs"
  by (induction cs arbitrary: bs)
    (auto simp: check_rate_limit_def Let_def uses_memory_def in_memory_check_def split: prod.splits option.splits if_splits)

lemma memory_admitted:
  "map rc_now (admitted k (uses_memory shared) (run_limiter env shared cs bs)) =
     admitted_times k (run_checks (max_keys env) (map in_memory_check (filter (uses_memory shared) cs)) bs)"
proof -
  have "map rc_now (admitted k P rs) = admitted_times k (map (\<lambda>(c, ok). (rc_id c, rc_now c, ok)) (filter (P \<circ> fst) rs))" for P rs
    by (induction rs) (auto simp: admitted_def admitted_times_def)
  then show ?thesis by (simp only: memory_run)
qed

lemma counted_admitted:
  assumes "list_all (\<lambda>c. rc_id c = k \<longrightarrow> rc_window c \<noteq> 0) cs"
  shows "admitted k (\<lambda>c. rc_answer c \<noteq> None) (run_limiter env True cs bs) =
     filter (\<lambda>c. rc_id c = k \<and> (\<exists>n. rc_answer c = Some n \<and> n \<le> rc_limit c)) cs"
  using assms
  by (induction cs arbitrary: bs) (auto simp: admitted_def check_rate_limit_def Let_def split: prod.splits option.splits if_splits)

lemma closed_admits_nothing:
  assumes "list_all (\<lambda>c. rc_id c = k \<longrightarrow> rc_window c \<noteq> 0) cs"
  shows "filter (\<lambda>(c, ok). rc_id c = k \<and> ok \<and> rc_answer c = None) (run_limiter env True cs bs) =
     (if fst k \<in> set auth_fail_closed then []
      else filter (\<lambda>(c, ok). rc_id c = k \<and> ok \<and> uses_memory True c) (run_limiter env True cs bs))"
  using assms
  by (induction cs arbitrary: bs)
    (auto simp: check_rate_limit_def uses_memory_def Let_def split: prod.splits option.splits if_splits)

lemma slot_count:
  fixes slot :: int
  assumes "counts_up seen cs"
    and "list_all (\<lambda>c. rc_id c = k \<longrightarrow> rc_limit c = limit \<and> rc_window c = window) cs"
  defines "P \<equiv> \<lambda>c. (rc_id c = k \<and> (\<exists>n. rc_answer c = Some n \<and> n \<le> rc_limit c)) \<and> rc_wall c div seconds window = slot"
  shows "filter P cs \<noteq> [] \<Longrightarrow>
     int (count_list seen (redis_key (fst k) (snd k) slot)) + int (length (filter P cs)) \<le> limit"
  using assms(1,2)
proof (induction cs arbitrary: seen)
  case (Cons c cs)
  let ?K = "redis_key (fst k) (snd k) slot"
  show ?case
  proof (cases "P c")
    case True
    then obtain n where n: "rc_answer c = Some n" "n \<le> limit" "check_key c = ?K"
      using Cons.prems(3) by (auto simp: P_def check_key_def)
    then have "counts_up (?K # seen) cs" "int (count_list seen ?K) < n" using Cons.prems(2) by simp_all
    then show ?thesis using Cons.IH[of "?K # seen"] Cons.prems(3) n(2) True by (cases "filter P cs = []") simp_all
  next
    case False
    then have ne: "filter P cs \<noteq> []" using Cons.prems(1) by simp
    obtain seen' where "counts_up seen' cs" "count_list seen ?K \<le> count_list seen' ?K"
      using Cons.prems(2) by (cases "rc_answer c") (auto split: if_splits)
    then show ?thesis using Cons.IH[of seen'] ne Cons.prems(3) False by simp
  qed
qed simp

lemma window_in_two_slots:
  fixes w t x :: int
  assumes "0 < w" "t - w < x" "x \<le> t"
  shows "x div w = t div w \<or> x div w = t div w - 1"
proof -
  have "x div w \<le> t div w" using assms by (intro zdiv_mono1) simp_all
  moreover have "(t - w) div w \<le> x div w" using assms by (intro zdiv_mono1) simp_all
  moreover have "(t - w) div w = t div w - 1" using assms(1) div_add_self2[of w "t - w"] by simp
  ultimately show ?thesis by linarith
qed

lemma length_filter_two: "(\<And>x. P x \<Longrightarrow> Q x \<or> R x) \<Longrightarrow> length (filter P xs) \<le> length (filter Q xs) + length (filter R xs)"
  by (induction xs) auto


text \<open>However many distinct clients appear, and whatever Redis answers, the limiter never
  tracks more buckets than its bound.\<close>

theorem tracked_keys_bounded:
  assumes "dict_ok bs" and "int (tracked_key_count bs) \<le> max_keys env"
    and "check_rate_limit env redis bucket key l w wall now bs = (ok, bs1)"
  shows "int (tracked_key_count bs1) \<le> max_keys env \<and> dict_ok bs1"
  using assms(3) check_local_length[OF max_keys_pos assms(2)[unfolded tracked_key_count_def] assms(1)] assms(1,2)
  by (auto simp: check_rate_limit_def tracked_key_count_def Let_def split: option.splits if_splits)
     (metis snd_conv)+

section \<open>What the sweep forgets\<close>

definition one_key_environ :: environ where
  "one_key_environ = map_of [(''RATE_LIMIT_MAX_KEYS'', ''1''), (''AUTH_RATE_LIMIT_MAX'', ''1''), (''AUTH_RATE_LIMIT_WINDOW_S'', ''600'')]"

text \<open>The sweep that makes room ages every bucket by the caller's own window: with room for
  one bucket and one login per 600 s allowed, a login at 0 s uses up the limit and a second at 90 s is
  refused, but a chat request of anyone at 80 s (window 60 s) drops the bucket, and the second
  login is admitted.\<close>

theorem sweep_lifts_login_limit:
  "fst (check_rate_limit one_key_environ None ''login'' ''1.2.3.4'' None None 0 (seconds 90)
     (snd (check_rate_limit one_key_environ None ''login'' ''1.2.3.4'' None None 0 1 []))) = False \<and>
   fst (check_rate_limit one_key_environ None ''login'' ''1.2.3.4'' None None 0 (seconds 90)
     (snd (require_llm_rate one_key_environ None (AccountText ''acct_a'') ''chat'' 0 (seconds 80)
       (snd (check_rate_limit one_key_environ None ''login'' ''1.2.3.4'' None None 0 1 []))))) = True"
  by (rule conjI; code_simp)

section \<open>Examples\<close>

theorem spoofed_prefix_ignored_witness:
  "client_key (map_of [(''TRUSTED_PROXY'', ''1'')]) \<lparr>peer_host = None, forwarded_for = Some (''6.6.6.6'' @ '','' @ '' 1.2.3.4 '')\<rparr> = ''1.2.3.4''"
proof -
  have "trusted_proxy_hops (map_of [(''TRUSTED_PROXY'', ''1'')]) \<le> int (length (forwarded_parts '' 1.2.3.4 ''))"
    by code_simp
  note spoofed_prefix_ignored[OF this, of None "''6.6.6.6''"]
  moreover have "client_key (map_of [(''TRUSTED_PROXY'', ''1'')]) \<lparr>peer_host = None, forwarded_for = Some '' 1.2.3.4 ''\<rparr> = ''1.2.3.4''"
    by code_simp
  ultimately show ?thesis by simp
qed

text \<open>Logins at 9 s and at 11 s with one per 10 s allowed: from memory the second is refused; Redis, whose slot
  has changed, admits it within the same sliding window.\<close>

definition demo_check :: "int option \<Rightarrow> int \<Rightarrow> rate_check" where
  "demo_check answer time = \<lparr>rc_id = (''login'', ''a''), rc_limit = 1, rc_window = 10, rc_answer = answer,
     rc_wall = seconds time, rc_now = seconds time\<rparr>"

definition demo_checks :: "rate_check list" where
  "demo_checks = [demo_check (Some 1) 9, demo_check (Some 2) 9, demo_check None 9, demo_check (Some 1) 11]"

lemma demo_counts: "counts_up [] demo_checks"
  by code_simp


lemma redis_doubles_in_a_window:
  "map rc_wall (admitted (''login'', ''a'') (\<lambda>c. True) (run_limiter demo_environ True demo_checks [])) = [seconds 9, seconds 11]"
  by code_simp

theorem tracked_keys_bounded_witness:
  "int (tracked_key_count (snd (check_rate_limit one_key_environ None ''login'' ''b'' None None 0 5 [((''login'', ''a''), [1])]))) \<le> 1"
proof -
  have m: "max_keys one_key_environ = 1" by code_simp
  show ?thesis
    using tracked_keys_bounded[OF _ _ surjective_pairing, where bs = "[((''login'', ''a''), [1])]" and env = one_key_environ and redis = None and bucket = "''login''" and key = "''b''"
        and l = None and w = None and wall = 0 and now = 5]
    by (simp add: m tracked_key_count_def)
qed

end
