(* ===== verification/BuildStatus.thy ===== *)
theory BuildStatus
  imports Wall BriefGates
begin

text \<open>
  The job record of a build as the Floor reads it (\<open>factory/build_jobs.py\<close>): the
  phase trail, the open model call, the declared deadline and the state of the
  run, all computed from the ledger; the point a failed run is re-entered at and
  the path of a fresh one.  Arguments of the model: the sanitizer of rendered
  texts, the parser of ISO times, the clock, the age of the file, whether a
  runner thread of this workspace is alive and a crash marker exists, the walls
  other modules configure, and the authorship floor.  Message texts are the
  constructors of \<open>status_detail\<close>.
\<close>

section \<open>Numbers read from payloads\<close>

definition digits_or_empty :: "string \<Rightarrow> bool" where
  "digits_or_empty s = (s = [] \<or> digits_under s)"

definition digits_rat :: "string \<Rightarrow> rat" where
  "digits_rat s = rat_of_int (int (read_nat (filter (\<lambda>c. c \<noteq> CHR ''_'') s)))"

definition pow10 :: "int \<Rightarrow> rat" where
  "pow10 e = (if 0 \<le> e then 10 ^ nat e else 1 / 10 ^ nat (- e))"

text \<open>\<open>float(text)\<close> in decimal notation; the words for infinity and not-a-number are not read.\<close>

definition float_of_str :: "string \<Rightarrow> rat option" where
  "float_of_str s =
     (let t = py_strip s;
          (neg, u) = (case t of c # r \<Rightarrow> (if c = CHR ''-'' then (True, r) else if c = CHR ''+'' then (False, r) else (False, t))
                       | [] \<Rightarrow> (False, t));
          mant = takeWhile (\<lambda>c. c \<noteq> CHR ''e'' \<and> c \<noteq> CHR ''E'') u;
          rest = drop (length mant) u;
          ip = before_char CHR ''.'' mant; fp = after_char CHR ''.'' mant;
          ex = (if rest = [] then Some 0 else if py_strip (tl rest) = tl rest then int_of_str (tl rest) else None);
          value = digits_rat ip + digits_rat fp / pow10 (int (length (filter (\<lambda>c. c \<noteq> CHR ''_'') fp)))
      in if digits_or_empty ip \<and> digits_or_empty fp \<and> (ip \<noteq> [] \<or> fp \<noteq> []) then
           map_option (\<lambda>e. (if neg then - value else value) * pow10 e) ex
         else None)"

definition py_float :: "pyval \<Rightarrow> rat option" where
  "py_float v = (case v of
       PBool b \<Rightarrow> Some (if b then 1 else 0)
     | PInt i \<Rightarrow> Some (rat_of_int i)
     | PFloat s \<Rightarrow> float_of_str s
     | PStr s \<Rightarrow> float_of_str s
     | _ \<Rightarrow> None)"

text \<open>\<open>round(x, 1)\<close>: to the nearest tenth, ties to the even tenth.\<close>

definition round1 :: "rat \<Rightarrow> rat" where
  "round1 x =
     (let f = floor (10 * x); d = 10 * x - rat_of_int f
      in rat_of_int (if d < 1 / 2 then f else if d > 1 / 2 then f + 1 else if even f then f else f + 1) / 10)"

section \<open>What the reader is told besides the ledger\<close>

datatype authorship_floor = MeetsFloor | BelowFloor string | UnknownFloor

record status_env =
  se_san :: "string \<Rightarrow> string"
  se_epoch :: "string \<Rightarrow> rat option"
  se_now :: rat
  se_attempt_wall :: rat
  se_gate_wall :: rat
  se_file_idle :: rat
  se_worker_live :: bool
  se_crash_marker :: bool
  se_auto_pilot :: bool
  se_stop_gate :: "build_event list \<Rightarrow> string option"
  se_floor :: authorship_floor

definition stall_after_s :: rat where "stall_after_s = 1800"
definition orphan_after_s :: rat where "orphan_after_s = 120"
definition stale_after_s :: rat where "stale_after_s = 180"
definition activity_log_lines :: nat where "activity_log_lines = 15"

text \<open>\<open>sanitize_for_status\<close> on a payload value: texts are redacted, anything else passes.\<close>

definition san_value :: "status_env \<Rightarrow> pyval \<Rightarrow> pyval" where
  "san_value env v = (case v of
       PStr s \<Rightarrow> (if s = [] then PStr [] else PStr (se_san env s))
     | _ \<Rightarrow> py_or v (PStr []))"

definition san_text :: "status_env \<Rightarrow> string \<Rightarrow> string" where
  "san_text env s = (if s = [] then [] else se_san env s)"

section \<open>The phase trail\<close>

datatype phase_outcome = NotReached | Running | Passed | PhaseFailed | Aborted | HandedOff

record phase_row =
  pr_phase :: build_role
  pr_outcome :: phase_outcome
  pr_reason :: pyval
  pr_location :: pyval
  pr_time :: "string option"
  pr_detail :: string

definition blank_row :: "build_role \<Rightarrow> phase_row" where
  "blank_row r = \<lparr>pr_phase = r, pr_outcome = NotReached, pr_reason = PStr [], pr_location = PStr [],
     pr_time = None, pr_detail = []\<rparr>"

definition clean_row :: "phase_outcome \<Rightarrow> build_event \<Rightarrow> string \<Rightarrow> phase_row \<Rightarrow> phase_row" where
  "clean_row o' e d row = row\<lparr>pr_outcome := o', pr_time := Some (ts e), pr_reason := PStr [], pr_location := PStr [], pr_detail := d\<rparr>"

definition failed_row :: "status_env \<Rightarrow> build_role \<Rightarrow> build_event \<Rightarrow> phase_row \<Rightarrow> phase_row" where
  "failed_row env r e row = row\<lparr>pr_outcome := (if kind e = GATE_FAILED then PhaseFailed else Aborted),
     pr_reason := san_value env (get0 (payload e) ''reason''),
     pr_location := py_or (san_value env (get0 (payload e) ''location'')) (PStr (role_value r)),
     pr_time := Some (ts e), pr_detail := san_text env (detail e)\<rparr>"

definition docker_unavailable :: pyval where "docker_unavailable = PStr ''docker_unavailable''"

type_synonym trail_state = "(build_role \<Rightarrow> phase_row) \<times> phase_row option"

definition trail_step :: "status_env \<Rightarrow> trail_state \<Rightarrow> build_event \<Rightarrow> trail_state" where
  "trail_step env st e = (case role e of
       None \<Rightarrow> st
     | Some r \<Rightarrow>
        (let rows = fst st; failure = snd st
         in case kind e of
              PHASE_STARTED \<Rightarrow> (rows(r := clean_row Running e [] (rows r)), failure)
            | GATE_PASSED \<Rightarrow> (rows(r := clean_row Passed e (san_text env (detail e)) (rows r)), failure)
            | GATE_FAILED \<Rightarrow> (let row = failed_row env r e (rows r)
                 in (rows(r := row), case failure of None \<Rightarrow> Some row | Some f \<Rightarrow> Some f))
            | PHASE_ABORTED \<Rightarrow> (let row = failed_row env r e (rows r)
                 in (rows(r := row), case failure of None \<Rightarrow> Some row | Some f \<Rightarrow> Some f))
            | NOTE \<Rightarrow>
                (if truthy (get0 (payload e) ''handoff'') \<and> pr_reason (rows r) = docker_unavailable
                 then (rows(r := clean_row HandedOff e (san_text env (detail e)) (rows r)),
                       case failure of
                         Some f \<Rightarrow> (if pr_phase f = r \<and> pr_reason f = docker_unavailable then None else Some f)
                       | None \<Rightarrow> None)
                 else st)
            | _ \<Rightarrow> st))"

definition trail_states :: "status_env \<Rightarrow> build_event list \<Rightarrow> trail_state" where
  "trail_states env evs = foldl (trail_step env) (blank_row, None) evs"

definition phase_trail :: "status_env \<Rightarrow> build_event list \<Rightarrow> phase_row list \<times> phase_row option" where
  "phase_trail env evs = (let st = trail_states env evs in (map (fst st) build_phases, snd st))"

text \<open>A crashed thread: the first row still running is aborted and becomes the failure.\<close>

definition crashed_row :: "phase_row \<Rightarrow> phase_row" where
  "crashed_row row = row\<lparr>pr_outcome := Aborted, pr_reason := PStr ''build_thread_crashed'',
     pr_location := py_or (pr_location row) (PStr (role_value (pr_phase row))),
     pr_detail := ''build thread crashed; see service logs''\<rparr>"

fun crash_failure :: "phase_row list \<Rightarrow> phase_row list \<times> phase_row option" where
  "crash_failure [] = ([], None)"
| "crash_failure (row # rows) =
     (if pr_outcome row = Running then (crashed_row row # rows, Some (crashed_row row))
      else (let (rest, f) = crash_failure rows in (row # rest, f)))"

section \<open>The open model call\<close>

definition closes_model_call :: "(string, pyval) dict \<Rightarrow> bool" where
  "closes_model_call p = (get0 p ''model_call_state'' = PStr ''closed'')"

text \<open>The notes, newest first.\<close>

fun open_call :: "build_event list \<Rightarrow> build_event option" where
  "open_call [] = None"
| "open_call (n # ns) =
     (if closes_model_call (payload n) then None
      else if truthy (get0 (payload n) ''model_call'') then Some n
      else open_call ns)"

definition open_model_call_note :: "build_event list \<Rightarrow> build_event option" where
  "open_model_call_note notes = open_call (rev notes)"

definition is_call_note :: "build_event option \<Rightarrow> bool" where
  "is_call_note n = (case n of None \<Rightarrow> False | Some e \<Rightarrow> truthy (get0 (payload e) ''model_call''))"

text \<open>The deadline of the call in progress, None when none is in progress.\<close>

definition model_call_fields :: "status_env \<Rightarrow> build_event option \<Rightarrow> bool \<Rightarrow> rat option" where
  "model_call_fields env note worker_live =
     (if \<not> is_call_note note \<or> \<not> worker_live then None
      else
        (let v = get0 (payload (the note)) ''deadline_s'';
             d = (if truthy v then (case py_float v of Some x \<Rightarrow> x | None \<Rightarrow> se_attempt_wall env) else se_attempt_wall env)
         in Some (round1 d)))"

definition orphaned_inflight_model_call :: "build_event option \<Rightarrow> bool \<Rightarrow> bool" where
  "orphaned_inflight_model_call note worker_live = (is_call_note note \<and> \<not> worker_live)"

definition event_epoch :: "status_env \<Rightarrow> string \<Rightarrow> rat option" where
  "event_epoch env t = (if t = [] then None else se_epoch env t)"

definition event_age_s :: "status_env \<Rightarrow> string \<Rightarrow> rat \<Rightarrow> rat" where
  "event_age_s env t fallback = (case event_epoch env t of
       None \<Rightarrow> fallback | Some t0 \<Rightarrow> max 0 (se_now env - t0))"

datatype status_detail =
    NoLedgerDetail | UnreadableDetail ledger_exn | CrashedDetail | QuarantinedDetail
  | LedgerDetail string | HandedOffDetail | OverdueDetail int int string
  | OrphanedCallDetail | OrphanedBuildDetail | QuietDetail int | InProgressDetail
  | ThreeGatesDetail string | BelowFloorDetail string

definition model_call_overdue :: "status_env \<Rightarrow> build_event option \<Rightarrow> rat \<Rightarrow> status_detail option" where
  "model_call_overdue env note idle = (case model_call_fields env note True of
       None \<Rightarrow> None
     | Some dl \<Rightarrow>
        (let e = the note;
             age = max idle (event_age_s env (ts e) idle)
         in if age \<le> dl then None
            else Some (OverdueDetail (floor age) (floor dl) (if detail e = [] then ''coder LLM call'' else detail e))))"

section \<open>Waiting for a slot, and the declared deadline\<close>

record slot_wait =
  sw_position :: pyval
  sw_ahead :: pyval
  sw_since :: string
  sw_waited :: pyval

fun queued_rev :: "build_event list \<Rightarrow> slot_wait option" where
  "queued_rev [] = None"
| "queued_rev (n # ns) =
     (if truthy (get0 (payload n) ''model_call'') then None
      else case dget (payload n) ''slot_wait'' of
        None \<Rightarrow> queued_rev ns
      | Some w \<Rightarrow>
          (if w \<noteq> PStr ''open'' then None
           else (let q = dict_of (get0 (payload n) ''slot_queue'')
                 in Some \<lparr>sw_position = get0 q ''position'', sw_ahead = get0 q ''ahead'', sw_since = ts n,
                          sw_waited = get0 q ''since_s''\<rparr>)))"

definition queued_for_slot :: "build_event list \<Rightarrow> slot_wait option" where
  "queued_for_slot notes = queued_rev (rev notes)"

definition handoff_word :: string where "handoff_word = ''HANDOFF_TO_N3''"

definition names_handoff :: "build_event \<Rightarrow> bool" where
  "names_handoff e = (text_of (get0 (payload e) ''honesty'') = handoff_word \<or>
     text_of (get0 (payload e) ''outcome'') = handoff_word)"

definition opens_wall :: "status_env \<Rightarrow> build_event \<Rightarrow> (rat \<times> string) option" where
  "opens_wall env e =
     (if names_handoff e then Some (se_gate_wall env, handoff_word)
      else if kind e = RUN_STARTED \<or> kind e = REWORK \<or> kind e = PILOT_OPENED
        then Some (hard_ceiling_s default_budget, kind_value (kind e))
      else None)"

definition deadline_step :: "status_env \<Rightarrow> (rat \<times> string) option \<Rightarrow> build_event \<Rightarrow> (rat \<times> string) option" where
  "deadline_step env end' e = (case opens_wall env e of
       None \<Rightarrow> end'
     | Some (wall, name) \<Rightarrow> (case event_epoch env (ts e) of
         None \<Rightarrow> end'
       | Some t0 \<Rightarrow> (case end' of
           None \<Rightarrow> Some (t0 + wall, name)
         | Some (t, n) \<Rightarrow> (if t0 + wall \<ge> t then Some (t0 + wall, name) else Some (t, n)))))"

record deadline_view =
  dl_anchor :: string
  dl_ceiling :: rat
  dl_gate_wall :: rat
  dl_in :: rat

definition declared_deadline :: "status_env \<Rightarrow> build_event list \<Rightarrow> deadline_view option" where
  "declared_deadline env evs = map_option
     (\<lambda>(t, name). \<lparr>dl_anchor = name, dl_ceiling = hard_ceiling_s default_budget, dl_gate_wall = se_gate_wall env,
        dl_in = round1 (t - se_now env)\<rparr>)
     (foldl (deadline_step env) None evs)"

section \<open>The hand-off to the Store gate\<close>

definition n3_fail_honesty :: "string list" where
  "n3_fail_honesty = [''N3_STORE_GATE_FAILED'', ''N3_STORE_GATE_TIMEOUT'', ''N3_STORE_GATE_MISSING'', ''N3_STORE_GATE_FACTORY_OWED'']"

definition event_honesty :: "build_event \<Rightarrow> string" where
  "event_honesty e = py_strip (text_of (get0 (payload e) ''honesty''))"

definition event_outcome :: "build_event \<Rightarrow> string" where
  "event_outcome e = py_strip (text_of (get0 (payload e) ''outcome''))"

definition is_handoff :: "build_event \<Rightarrow> bool" where
  "is_handoff e = (event_honesty e = handoff_word \<or> event_outcome e = handoff_word)"

fun still_awaiting :: "build_event list \<Rightarrow> bool" where
  "still_awaiting [] = True"
| "still_awaiting (e # es) =
     (if event_honesty e = ''N3_STORE_GATE_GREEN'' then False
      else if event_honesty e \<in> set n3_fail_honesty then False
      else if is_handoff e then still_awaiting es
      else if kind e = RUN_SUCCEEDED then False
      else still_awaiting es)"

text \<open>The events after the newest hand-off, newest hand-off first found from the end.\<close>

fun after_handoff :: "build_event list \<Rightarrow> build_event list \<Rightarrow> build_event list option" where
  "after_handoff [] later = None"
| "after_handoff (e # older) later = (if is_handoff e then Some later else after_handoff older (e # later))"

definition handoff_awaiting_n3 :: "ledger_file \<Rightarrow> bool" where
  "handoff_awaiting_n3 f =
     (if contents f = None then False
      else case events f of
        Inl e \<Rightarrow> False
      | Inr evs \<Rightarrow> (case after_handoff (rev evs) [] of None \<Rightarrow> False | Some later \<Rightarrow> still_awaiting later))"

section \<open>The failed build's three facts\<close>

record failure_triple =
  ft_gate :: string
  ft_check :: string
  ft_finding :: string

definition str_or :: "pyval \<Rightarrow> string \<Rightarrow> string" where
  "str_or v d = py_str (py_or v (PStr d))"

text \<open>The first item of a sequence that is not blank.\<close>

definition first_text :: "pyval \<Rightarrow> string" where
  "first_text v = (case find (\<lambda>t. t \<noteq> []) (map (\<lambda>x. py_strip (text_of x)) (list_of v)) of Some t \<Rightarrow> t | None \<Rightarrow> [])"

definition failure_triple :: "(string, pyval) dict \<Rightarrow> phase_row option \<Rightarrow> failure_triple option" where
  "failure_triple p failure =
     (let stop = dict_of (get0 p decision_key);
          phase = (case failure of None \<Rightarrow> PNone | Some f \<Rightarrow> PStr (role_value (pr_phase f)));
          reason = (case failure of None \<Rightarrow> PNone | Some f \<Rightarrow> pr_reason f);
          info = (case failure of None \<Rightarrow> PNone | Some f \<Rightarrow> PStr (pr_detail f));
          gate = py_strip (text_of (py_or (get0 p ''gate'') (py_or phase (get0 p ''phase''))));
          check = py_strip (text_of (py_or (get0 p ''check'') (py_or reason (get0 p ''reason''))));
          finding = py_strip (text_of (py_or (get0 p ''finding'') (py_or (PStr (first_text (get0 p ''findings''))) info)))
      in if get0 stop ''class'' = PStr ''STOP'' then
           Some \<lparr>ft_gate = str_or (get0 stop ''gate'') ''unknown'', ft_check = str_or (get0 stop ''check'') ''unknown'',
                 ft_finding = text_of (get0 stop ''finding'')\<rparr>
         else if gate = [] \<and> check = [] \<and> finding = [] then None
         else Some \<lparr>ft_gate = (if gate = [] then ''unknown'' else gate),
                    ft_check = (if check = [] then ''unknown'' else check), ft_finding = finding\<rparr>)"

definition failed_label :: "failure_triple \<Rightarrow> string" where
  "failed_label t = stop_status [(''gate'', PStr (ft_gate t)), (''check'', PStr (ft_check t)), (''finding'', PStr (ft_finding t))]"

definition next_continue_line :: "failure_triple option \<Rightarrow> string" where
  "next_continue_line t = (case t of
       None \<Rightarrow> []
     | Some f \<Rightarrow>
        (let finding = py_strip (ft_finding f);
             short = (if length finding \<le> 160 then finding else take 157 finding @ ''...'')
         in ''Continue will resume this platform'' @ [CHR 0x27] @ ''s branch at '' @ ft_gate f @
            '' and send the writer the failing check '' @ ft_check f @
            (if short = [] then [] else '': '' @ short)))"

section \<open>The state of the run\<close>

datatype build_state = Unknown | Failed | Stalled | Succeeded | Building

text \<open>Everything the state is reported with; a field a branch does not set keeps its default.\<close>

record build_status =
  bs_state :: build_state
  bs_detail :: status_detail
  bs_honesty :: string
  bs_ready :: bool
  bs_cycle :: string
  bs_outcome :: pyval
  bs_trail :: "phase_row list"
  bs_failure :: "phase_row option"
  bs_recovered :: "phase_row option"
  bs_completed :: "build_role list"
  bs_current :: "build_role option"
  bs_index :: nat
  bs_next :: "build_role option"
  bs_stale :: bool
  bs_call :: "rat option"
  bs_queued :: "slot_wait option"
  bs_log :: "(string \<times> build_role option \<times> string) list"
  bs_decisions :: "(string, pyval) dict list"
  bs_stopped :: "(string, pyval) dict option"
  bs_deadline :: "deadline_view option"
  bs_advisory :: "advisory_row list"
  bs_auto :: bool
  bs_triple :: "failure_triple option"
  bs_n3_waiting :: bool

definition plain_status :: "build_state \<Rightarrow> status_detail \<Rightarrow> string \<Rightarrow> build_status" where
  "plain_status s d h = \<lparr>bs_state = s, bs_detail = d, bs_honesty = h, bs_ready = False, bs_cycle = [],
     bs_outcome = PNone, bs_trail = [], bs_failure = None, bs_recovered = None, bs_completed = [],
     bs_current = None, bs_index = 0, bs_next = None, bs_stale = False, bs_call = None, bs_queued = None,
     bs_log = [], bs_decisions = [], bs_stopped = None, bs_deadline = None, bs_advisory = [], bs_auto = False,
     bs_triple = None, bs_n3_waiting = False\<rparr>"

definition event_cycle :: "build_event option \<Rightarrow> string" where
  "event_cycle terminal = (case terminal of None \<Rightarrow> [] | Some e \<Rightarrow> py_lower (py_strip (text_of (get0 (payload e) ''cycle''))))"

text \<open>\<open>_cycle_fields\<close>: cycle, readiness and whether a pilot cycle follows.\<close>

definition cycle_fields :: "status_env \<Rightarrow> build_event list \<Rightarrow> build_event option \<Rightarrow> string \<times> bool \<times> bool" where
  "cycle_fields env evs terminal =
     (let c = event_cycle terminal
      in (if pilot_ready evs \<or> pilot_cycle_open evs then ''pilot'' else if c = [] then ''code'' else c,
          pilot_ready evs,
          case se_stop_gate env evs of Some g \<Rightarrow> g \<notin> {[], ''CODE''} | None \<Rightarrow> se_auto_pilot env))"

definition is_inspect :: "build_event \<Rightarrow> bool" where
  "is_inspect e = (truthy (get0 (payload e) ''budget_inspect'') \<or> get0 (payload e) ''kind'' = PStr ''budget_inspect'')"

definition activity_notes :: "build_event list \<Rightarrow> build_event list" where
  "activity_notes evs = filter (\<lambda>e. kind e = NOTE \<and> \<not> is_inspect e) evs"

definition last_opt :: "'a list \<Rightarrow> 'a option" where
  "last_opt xs = (if xs = [] then None else Some (last xs))"

definition idle_time :: "status_env \<Rightarrow> build_event list \<Rightarrow> rat" where
  "idle_time env evs =
     (let age = event_age_s env (case last_opt evs of None \<Rightarrow> [] | Some e \<Rightarrow> ts e) (se_file_idle env)
      in max age (se_file_idle env))"

definition activity_log :: "status_env \<Rightarrow> build_event list \<Rightarrow> (string \<times> build_role option \<times> string) list" where
  "activity_log env notes =
     map (\<lambda>e. (ts e, role e, san_text env (detail e)))
       (filter (\<lambda>e. san_text env (detail e) \<noteq> []) (drop (length notes - activity_log_lines) notes))"

definition decisions_of :: "build_event list \<Rightarrow> (string, pyval) dict list" where
  "decisions_of evs = List.map_filter (\<lambda>e. case get0 (payload e) decision_key of PDict d \<Rightarrow> Some d | _ \<Rightarrow> None) evs"

text \<open>Where the run stands: current role, its 1-based index, the next role.\<close>

definition phase_position :: "build_role option \<Rightarrow> build_role list \<Rightarrow> nat \<times> build_role option" where
  "phase_position current done = (case current of
       Some r \<Rightarrow> (let i = phase_index r + 1
          in (i, if i < length build_phases then Some (build_phases ! i) else None))
     | None \<Rightarrow> (min (length build_phases) (length (filter (\<lambda>p. p \<in> set done) build_phases) + 1), None))"

text \<open>The phase trail with the phase a crashed thread died in, and the failure it stands for.\<close>

definition terminal_trail :: "status_env \<Rightarrow> build_event list \<Rightarrow> build_event option \<Rightarrow> phase_row list \<times> phase_row option" where
  "terminal_trail env evs terminal =
     (let (trail, failure) = phase_trail env evs
      in case terminal of
           None \<Rightarrow> (trail, failure)
         | Some e \<Rightarrow>
            (if failure = None \<and> kind e = RUN_FAILED \<and>
                (\<not> truthy (get0 (payload e) ''reason'') \<or> get0 (payload e) ''reason'' = PStr ''build_thread_crashed'')
             then (let (rows, f) = crash_failure trail
                   in (rows, map_option (\<lambda>row. if san_text env (detail e) = [] then row
                        else row\<lparr>pr_detail := san_text env (detail e)\<rparr>) f))
             else (trail, failure)))"

text \<open>The call note the status reports on: the open one, or the latest note.\<close>

definition current_call :: "build_event list \<Rightarrow> build_event option" where
  "current_call evs = (case open_model_call_note (activity_notes evs) of
       Some n \<Rightarrow> Some n | None \<Rightarrow> last_opt (activity_notes evs))"

definition progress :: "status_env \<Rightarrow> build_event list \<Rightarrow> build_role list \<Rightarrow> build_role option \<Rightarrow> build_event option \<Rightarrow> build_status" where
  "progress env evs done current terminal =
     (let notes = activity_notes evs;
          call = current_call evs;
          won = (case terminal of Some e \<Rightarrow> kind e = RUN_SUCCEEDED | None \<Rightarrow> False);
          (index, nxt) = phase_position (if won then Some STORE_MANAGER else current) done;
          (trail, failure) = terminal_trail env evs terminal;
          (cycle, ready, auto) = cycle_fields env evs terminal
      in (plain_status Building InProgressDetail [])\<lparr>
            bs_ready := ready, bs_cycle := cycle, bs_trail := trail,
            bs_failure := (if won then None else failure), bs_recovered := (if won then failure else None),
            bs_completed := filter (\<lambda>p. p \<in> set done) build_phases,
            bs_current := (if won then Some STORE_MANAGER else current), bs_index := index, bs_next := nxt,
            bs_stale := (idle_time env evs > stale_after_s),
            bs_call := model_call_fields env call (se_worker_live env), bs_queued := queued_for_slot notes,
            bs_log := activity_log env notes, bs_decisions := decisions_of evs, bs_stopped := stop_record terminal,
            bs_deadline := declared_deadline env evs, bs_advisory := advisory_checks evs, bs_auto := auto\<rparr>)"

definition named_blocker_of :: "string \<Rightarrow> string" where
  "named_blocker_of d = (if CHR '':'' \<in> set d then py_strip (before_char CHR '':'' d) else [])"

definition thin_authorship :: string where "thin_authorship = ''FACTORY_CODE_CLI_THIN_AUTHORSHIP''"

definition reevaluate_thin :: "status_env \<Rightarrow> build_status \<Rightarrow> build_status" where
  "reevaluate_thin env s = (case se_floor env of
       MeetsFloor \<Rightarrow> (let c = py_lower (py_strip (bs_cycle s)); cycle = (if c = [] then ''code'' else c)
          in s\<lparr>bs_state := Succeeded, bs_outcome := PStr ''SUCCESS'', bs_cycle := cycle, bs_ready := (cycle = ''pilot''),
               bs_detail := ThreeGatesDetail cycle, bs_honesty := ''full_pilot_authorship_reevaluated''\<rparr>)
     | BelowFloor d \<Rightarrow> s\<lparr>bs_detail := BelowFloorDetail d\<rparr>
     | UnknownFloor \<Rightarrow> s)"

definition succeeded_status :: "build_event \<Rightarrow> build_status \<Rightarrow> build_status" where
  "succeeded_status e p = p\<lparr>bs_state := Succeeded, bs_detail := LedgerDetail (detail e),
     bs_outcome := get0 (payload e) ''outcome'', bs_stale := False,
     bs_honesty := text_of (get0 (payload e) ''honesty'')\<rparr>"

definition failed_status :: "status_env \<Rightarrow> bool \<Rightarrow> build_event \<Rightarrow> build_status \<Rightarrow> build_status" where
  "failed_status env awaiting e p =
     (if awaiting then
        p\<lparr>bs_state := Building, bs_detail := HandedOffDetail, bs_outcome := PStr handoff_word,
          bs_honesty := handoff_word, bs_n3_waiting := True, bs_stale := False\<rparr>
      else
        (let s = p\<lparr>bs_state := Failed, bs_detail := LedgerDetail (detail e), bs_outcome := get0 (payload e) ''outcome'',
               bs_stale := False, bs_triple := failure_triple (payload e) (bs_failure p),
               bs_honesty := text_of (get0 (payload e) ''honesty'')\<rparr>
         in if named_blocker_of (detail e) = thin_authorship then reevaluate_thin env s else s))"

text \<open>A run without a verdict: overdue, orphaned, quiet or building.\<close>

definition open_status :: "status_env \<Rightarrow> build_event list \<Rightarrow> build_status \<Rightarrow> build_status" where
  "open_status env evs p =
     (let idle = idle_time env evs; call = current_call evs
      in case model_call_overdue env call idle of
           Some d \<Rightarrow> p\<lparr>bs_state := Failed, bs_detail := d, bs_stale := False, bs_call := None\<rparr>
         | None \<Rightarrow>
           (if orphaned_inflight_model_call call (se_worker_live env) then
              p\<lparr>bs_state := Stalled, bs_detail := OrphanedCallDetail, bs_honesty := ''FACTORY_CODE_CLI_ORPHANED'', bs_call := None\<rparr>
            else if \<not> se_worker_live env \<and> idle > orphan_after_s then
              p\<lparr>bs_state := Stalled, bs_detail := OrphanedBuildDetail, bs_honesty := ''BUILD_THREAD_ORPHANED''\<rparr>
            else if idle > stall_after_s \<and> model_call_fields env call (se_worker_live env) = None then
              p\<lparr>bs_state := Stalled, bs_detail := QuietDetail (floor (idle / 60))\<rparr>
            else p))"

definition ledger_facts :: "build_event list \<Rightarrow> ledger_exn + build_role list \<times> build_role option" where
  "ledger_facts evs = (case completed_roles evs of
       Inl e \<Rightarrow> Inl (Uncaught e)
     | Inr done \<Rightarrow> (case resume_point evs of
         Inl e \<Rightarrow> Inl (Uncaught e)
       | Inr p \<Rightarrow> Inr (done, p)))"

definition build_status :: "status_env \<Rightarrow> ledger_file \<Rightarrow> build_status" where
  "build_status env f =
     (if contents f = None then plain_status Unknown NoLedgerDetail []
      else case bind_result (events f) (\<lambda>evs. map_result (Pair evs) (ledger_facts evs)) of
        Inl e \<Rightarrow> plain_status Failed (UnreadableDetail e) ''LEDGER_UNREADABLE''
      | Inr (evs, done, resume) \<Rightarrow>
          (let terminal = terminal_event evs; interrupted = interrupted_role evs;
               current = (case interrupted of Some r \<Rightarrow> Some r | None \<Rightarrow> resume);
               p = progress env evs done current terminal
           in case terminal of
                None \<Rightarrow>
                  (if se_crash_marker env then
                     (let (trail, failure) = phase_trail env evs
                      in case failure of
                           Some f \<Rightarrow> (plain_status Failed CrashedDetail ''BUILD_THREAD_CRASHED'')\<lparr>bs_trail := trail, bs_failure := Some f\<rparr>
                         | None \<Rightarrow> (let (rows, f) = crash_failure trail
                             in (plain_status Failed CrashedDetail ''BUILD_THREAD_CRASHED'')\<lparr>bs_trail := rows, bs_failure := f\<rparr>))
                   else if interrupted \<noteq> None \<and> quarantined_notes evs \<noteq> 0 \<and> \<not> se_worker_live env then
                     plain_status Stalled QuarantinedDetail ledger_external_note_quarantined
                   else open_status env evs p)
              | Some e \<Rightarrow>
                  (if kind e = RUN_SUCCEEDED then succeeded_status e p
                   else failed_status env (handoff_awaiting_n3 f) e p)))"

definition is_build_complete :: "status_env \<Rightarrow> ledger_file \<Rightarrow> bool" where
  "is_build_complete env f = (bs_state (build_status env f) = Succeeded)"

section \<open>Re-entering and replacing a workspace\<close>

record workspace =
  ws_ledger :: ledger_file
  ws_has :: "string \<Rightarrow> bool"

datatype no_reattach = NoLedger | LedgerUnreadable ledger_exn | NotPassed "string list" | Incomplete "string list" | NothingLeft

definition reattach_needs :: "build_role list" where
  "reattach_needs = [COLLECTOR, CLONER, WRITER]"

definition reattach_files :: "string list" where
  "reattach_files = [''app'', ''vendor/blocks'', ''blocks.lock.json'']"

definition reattach_point :: "workspace \<Rightarrow> no_reattach + string" where
  "reattach_point w =
     (if contents (ws_ledger w) = None then Inl NoLedger
      else case bind_result (events (ws_ledger w)) ledger_facts of
        Inl e \<Rightarrow> Inl (LedgerUnreadable e)
      | Inr (done, point) \<Rightarrow>
          (let missing = filter (\<lambda>r. r \<notin> set done) reattach_needs
           in if missing = [WRITER] then
                (let gone = filter (\<lambda>p. \<not> ws_has w p) [''vendor/blocks'', ''blocks.lock.json'']
                 in if gone \<noteq> [] then Inl (Incomplete gone) else Inr ''WRITER'')
              else if missing \<noteq> [] then Inl (NotPassed (map role_value missing))
              else
                (let gone = filter (\<lambda>p. \<not> ws_has w p) reattach_files
                 in if gone \<noteq> [] then Inl (Incomplete gone)
                    else case point of None \<Rightarrow> Inl NothingLeft | Some r \<Rightarrow> Inr (role_value r))))"

definition stopped_by_rule :: "ledger_file \<Rightarrow> (string, pyval) dict option" where
  "stopped_by_rule f = (case events f of
       Inl e \<Rightarrow> None
     | Inr evs \<Rightarrow> (if contents f = None then None else stop_record (terminal_event evs)))"

text \<open>The name without its \<open>__run<n>\<close> suffix.\<close>

definition strip_run_suffix :: "string \<Rightarrow> string" where
  "strip_run_suffix name =
     (let ds = takeWhile is_digit (rev name); rest = drop (length ds) (rev name)
      in if ds \<noteq> [] \<and> starts_with rest (rev ''__run'') then rev (drop 5 rest) else name)"

definition fresh_name :: "string \<Rightarrow> nat \<Rightarrow> string" where
  "fresh_name stem n = (if n = 1 then stem else stem @ ''__run'' @ show_nat n)"

text \<open>Ten thousand names are tried; then the next one is taken untested.\<close>

fun first_fresh :: "(string \<Rightarrow> bool) \<Rightarrow> string \<Rightarrow> nat \<Rightarrow> nat \<Rightarrow> string" where
  "first_fresh has_ledger stem n 0 = fresh_name stem n"
| "first_fresh has_ledger stem n (Suc left) =
     (if \<not> has_ledger (fresh_name stem n) then fresh_name stem n else first_fresh has_ledger stem (n + 1) left)"

definition next_fresh_output :: "(string \<Rightarrow> bool) \<Rightarrow> string \<Rightarrow> string" where
  "next_fresh_output has_ledger requested = first_fresh has_ledger (strip_run_suffix requested) 1 10000"

end
