(* ===== verification/BuildStart.thy ===== *)
theory BuildStart
  imports BuildStatus Quotas
begin

text \<open>
  Starting and ending a background build (\<open>factory/build_jobs.py\<close>): the settings a
  run is given, \<open>start_runner_build\<close> with its refusals, its re-entry of a failed
  workspace and its fresh one, and the end of the build thread with the refund of
  the generation.  The state is every workspace of one parent directory, by its
  name, and the accounts store.  Arguments of the model: the clock, the probes of
  theory BuildStatus per workspace, whether a coding worker is ready, the digest of
  the tenant key, the frozen blueprint's product id and hash, and what the runner
  did in between.
\<close>

section \<open>Settings\<close>

definition build_engine :: "environ \<Rightarrow> string" where
  "build_engine env =
     (let raw = py_lower (py_strip (case env ''FACTORY_BUILD_ENGINE'' of Some s \<Rightarrow> s | None \<Rightarrow> ''runner''))
      in if raw \<in> {''template'', ''legacy'', ''generator''} then ''template'' else ''runner'')"

definition uses_pilot_budget :: "string \<Rightarrow> bool \<Rightarrow> bool" where
  "uses_pilot_budget cycle auto = (auto \<or> py_lower (py_strip (if cycle = [] then ''code'' else cycle)) = ''pilot'')"

definition auto_pilot_wall_clock_s :: rat where "auto_pilot_wall_clock_s = 1800"
definition default_wall_clock_s :: rat where "default_wall_clock_s = 1800"
definition leftover_wall_max_s :: rat where "leftover_wall_max_s = 600"
definition default_phase_wall_s :: rat where "default_phase_wall_s = 1500"
definition default_pilot_phase_wall_s :: rat where "default_pilot_phase_wall_s = 5400"

text \<open>Whether a coding CLI or worker is ready is the argument \<open>coder\<close>.\<close>

definition configured_s :: "environ \<Rightarrow> string \<Rightarrow> rat option" where
  "configured_s env var = (case env var of None \<Rightarrow> None | Some raw \<Rightarrow> float_of_str raw)"

definition wall_clock_setting :: "environ \<Rightarrow> bool \<Rightarrow> string \<Rightarrow> bool \<Rightarrow> rat" where
  "wall_clock_setting env coder cycle auto = (case configured_s env ''FACTORY_BUILD_WALL_CLOCK_S'' of
       Some v \<Rightarrow> (if v = 0 then 0
                  else if 0 < v \<and> v \<le> leftover_wall_max_s \<and> coder then default_wall_clock_s
                  else v)
     | None \<Rightarrow> (if uses_pilot_budget cycle auto then auto_pilot_wall_clock_s else default_wall_clock_s))"

definition max_rework_setting :: "environ \<Rightarrow> nat" where
  "max_rework_setting env = (case env ''FACTORY_BUILD_MAX_REWORK'' of
       None \<Rightarrow> rework_budget
     | Some raw \<Rightarrow> (case int_of_str raw of Some n \<Rightarrow> nat (max 0 n) | None \<Rightarrow> rework_budget))"

definition phase_wall_setting :: "environ \<Rightarrow> string \<Rightarrow> bool \<Rightarrow> rat" where
  "phase_wall_setting env cycle auto =
     (let configured = configured_s env ''FACTORY_PHASE_WALL_CLOCK_S''
      in if uses_pilot_budget cycle auto then
           (case configured of
              None \<Rightarrow> default_pilot_phase_wall_s
            | Some v \<Rightarrow> (if v = 0 then 0 else if v \<le> default_phase_wall_s then default_pilot_phase_wall_s else v))
         else (case configured of None \<Rightarrow> default_phase_wall_s | Some v \<Rightarrow> v))"

definition run_budget :: "environ \<Rightarrow> bool \<Rightarrow> string \<Rightarrow> bool \<Rightarrow> build_budget" where
  "run_budget env coder cycle auto =
     default_budget\<lparr>max_rework := max_rework_setting env, wall_clock_s := wall_clock_setting env coder cycle auto,
       phase_wall_clock_s := phase_wall_setting env cycle auto\<rparr>"

section \<open>Platform identity\<close>

definition is_platform_id :: "string \<Rightarrow> bool" where
  "is_platform_id t = (take 4 t = ''plt_'' \<and> length (drop 4 t) = 16 \<and> set (drop 4 t) \<subseteq> set ''0123456789abcdef'')"

definition branch_of_record :: "string \<Rightarrow> string" where
  "branch_of_record pid = ''build/'' @ pid"

section \<open>The state\<close>

text \<open>A workspace: its ledger and files, the marker of the account charged for the run, the crash
  marker, whether the runner thread registered for it is alive, how many runner threads work in it,
  and whether a Store-gate waiter is alive.\<close>

record job_space =
  jp_ledger :: ledger_file
  jp_has :: "string \<Rightarrow> bool"
  jp_quota :: "string option"
  jp_crash :: bool
  jp_registered :: bool
  jp_threads :: nat
  jp_n3 :: bool

record job_state =
  js_space :: "string \<Rightarrow> job_space"
  js_db :: db

record start_env =
  st_environ :: environ
  st_status :: "string \<Rightarrow> status_env"
  st_clock :: "int \<Rightarrow> string"
  st_cli_ready :: bool
  st_digest :: "string \<Rightarrow> string"

record attach_request =
  at_branch :: string
  at_sha :: string
  at_passed :: "string list"

record start_request =
  rq_out :: string
  rq_cycle :: string
  rq_quota_account :: "string option"
  rq_identity :: "string option"
  rq_attach :: "attach_request option"
  rq_platform :: string
  rq_start_over :: bool
  rq_intake_changed :: bool
  rq_product_id :: string
  rq_inputs_hash :: string

definition space_upd :: "string \<Rightarrow> (job_space \<Rightarrow> job_space) \<Rightarrow> job_state \<Rightarrow> job_state" where
  "space_upd k g s = s\<lparr>js_space := (js_space s)(k := g (js_space s k))\<rparr>"

definition ledger_set :: "string \<Rightarrow> ledger_file \<Rightarrow> job_state \<Rightarrow> job_state" where
  "ledger_set k f = space_upd k (\<lambda>sp. sp\<lparr>jp_ledger := f\<rparr>)"

definition seen_status :: "start_env \<Rightarrow> string \<Rightarrow> job_state \<Rightarrow> build_status" where
  "seen_status se k s =
     (let sp = js_space s k
      in build_status ((st_status se k)\<lparr>se_worker_live := jp_registered sp, se_crash_marker := jp_crash sp\<rparr>) (jp_ledger sp))"

section \<open>Steps that write the ledger\<close>

text \<open>A step leaves the file it wrote and the exception that stopped it.\<close>

type_synonym ledger_write = "ledger_file \<Rightarrow> ledger_exn option \<times> ledger_file"

definition no_write :: ledger_write where "no_write f = (None, f)"

definition write_when :: "bool \<Rightarrow> ledger_write \<Rightarrow> ledger_write" where
  "write_when b w = (if b then w else no_write)"

fun run_writes :: "ledger_write list \<Rightarrow> ledger_write" where
  "run_writes [] f = (None, f)"
| "run_writes (w # ws) f = (case w f of (Some x, g) \<Rightarrow> (Some x, g) | (None, g) \<Rightarrow> run_writes ws g)"

definition log_event ::
  "start_env \<Rightarrow> event_kind \<Rightarrow> build_role option \<Rightarrow> string \<Rightarrow> (string, pyval) dict \<Rightarrow> ledger_write" where
  "log_event se k r d p f = (case bind_result (events f) (\<lambda>evs. append_event (st_clock se (next_seq evs)) k r d p f) of
       Inl x \<Rightarrow> (Some x, f)
     | Inr (e, g) \<Rightarrow> (None, g))"

definition reading :: "(build_event list \<Rightarrow> ledger_write) \<Rightarrow> ledger_write" where
  "reading w f = (case events f of Inl x \<Rightarrow> (Some x, f) | Inr evs \<Rightarrow> w evs f)"

text \<open>A failed run continued with a changed intake is rebased onto the new inputs.\<close>

definition rebase_write :: "start_env \<Rightarrow> start_request \<Rightarrow> ledger_write" where
  "rebase_write se rq = reading (\<lambda>evs.
     write_when (inputs_hash evs \<noteq> None \<and> inputs_hash evs \<noteq> Some (rq_inputs_hash rq))
       (\<lambda>f. case rebase_inputs (st_clock se (next_seq evs)) (rq_inputs_hash rq)
               ''intake changed on Continue with new answers'' f of
            Inl x \<Rightarrow> (Some x, f) | Inr (e, g) \<Rightarrow> (None, g)))"

fun py_exn_name :: "py_exn \<Rightarrow> string" where
  "py_exn_name ValueError = ''ValueError''"
| "py_exn_name KeyError = ''KeyError''"
| "py_exn_name TypeError = ''TypeError''"
| "py_exn_name OverflowError = ''OverflowError''"
| "py_exn_name AttributeError = ''AttributeError''"

fun ledger_exn_name :: "ledger_exn \<Rightarrow> string" where
  "ledger_exn_name (LedgerError n) = ''LedgerError''"
| "ledger_exn_name (Uncaught e) = py_exn_name e"
| "ledger_exn_name (NotResumable a b) = ''LedgerError''"

fun why_text :: "no_reattach \<Rightarrow> string" where
  "why_text NoLedger = ''no ledger''"
| "why_text (LedgerUnreadable x) = ''ledger unreadable: '' @ ledger_exn_name x"
| "why_text (NotPassed ps) = ''not passed: '' @ join '', '' ps"
| "why_text (Incomplete ps) = ''workspace incomplete: missing '' @ join '', '' ps"
| "why_text NothingLeft = ''nothing left to run''"

definition resumed_note :: "start_env \<Rightarrow> string \<Rightarrow> string \<Rightarrow> ledger_write" where
  "resumed_note se out phase =
     log_event se NOTE None (''RESUMED workspace='' @ out @ '' phase='' @ phase)
       [(''resumed'', PBool True), (''workspace'', PStr out), (''phase'', PStr phase)]"

definition resumed_in_place_note :: "start_env \<Rightarrow> string \<Rightarrow> string \<Rightarrow> ledger_write" where
  "resumed_in_place_note se out why =
     log_event se NOTE None (''RESUMED workspace='' @ out @ '' phase=resume_point ('' @ why @ '')'')
       [(''resumed'', PBool True), (''workspace'', PStr out), (''phase'', PNone), (''why'', PStr why)]"

text \<open>The note a failed run is re-entered with; a Start over of a workspace that cannot be
  re-entered writes none.\<close>

definition reenter_write :: "start_env \<Rightarrow> start_request \<Rightarrow> (string \<Rightarrow> bool) \<Rightarrow> ledger_write" where
  "reenter_write se rq has f = (case reattach_point \<lparr>ws_ledger = f, ws_has = has\<rparr> of
       Inr phase \<Rightarrow> resumed_note se (rq_out rq) phase f
     | Inl why \<Rightarrow> (if rq_start_over rq then (None, f) else resumed_in_place_note se (rq_out rq) (why_text why) f))"

definition open_write :: "start_env \<Rightarrow> start_request \<Rightarrow> string option \<Rightarrow> ledger_write" where
  "open_write se rq fresh f =
     (if contents f \<noteq> None then (None, f)
      else case bind_result (events f) (\<lambda>evs. start_run (st_clock se (next_seq evs)) (rq_product_id rq) (rq_inputs_hash rq) f) of
        Inl x \<Rightarrow> (Some x, f)
      | Inr (e, g) \<Rightarrow> (case fresh of
            None \<Rightarrow> (None, g)
          | Some why \<Rightarrow> log_event se NOTE None why [(''fresh'', PBool True)] g))"

definition recorded_platform :: "build_event list \<Rightarrow> pyval option" where
  "recorded_platform evs = find truthy (map (\<lambda>e. get0 (payload e) platform_id_key) (rev evs))"

definition platform_write :: "start_env \<Rightarrow> string \<Rightarrow> ledger_write" where
  "platform_write se pid = write_when (is_platform_id pid) (reading (\<lambda>evs.
     write_when (recorded_platform evs \<noteq> Some (PStr pid))
       (log_event se NOTE None (''PLATFORM '' @ pid @ '': branch of record '' @ branch_of_record pid)
          [(platform_id_key, PStr pid), (platform_branch_key, PStr (branch_of_record pid))])))"

definition reset_write :: "start_env \<Rightarrow> ledger_write" where
  "reset_write se = log_event se NOTE None (''rework budget reset: the platform was resumed from the Floor'')
     [(budget_reset_key, PBool True), (''reason'', PStr ''the platform was resumed from the Floor'')]"

definition derived_done :: "string list" where
  "derived_done = [''COLLECTOR'', ''CLONER'', ''WRITER'']"

definition branch_evidence_write :: "start_env \<Rightarrow> attach_request \<Rightarrow> string \<Rightarrow> ledger_write" where
  "branch_evidence_write se a name f = (case role_of name of
       None \<Rightarrow> (Some (Uncaught KeyError), f)
     | Some r \<Rightarrow> log_event se GATE_PASSED (Some r)
         (''derived from '' @ at_branch a @ ''@'' @ take 7 (at_sha a) @ '': the branch tree proves it done'')
         [(''gate'', PStr ''branch_evidence''), (''attached_branch'', PStr (at_branch a)), (''sha'', PStr (at_sha a))] f)"

definition attach_write :: "start_env \<Rightarrow> attach_request \<Rightarrow> ledger_write" where
  "attach_write se a = reading (\<lambda>evs f. case resume_point evs of
       Inl e \<Rightarrow> (Some (Uncaught e), f)
     | Inr p \<Rightarrow>
        (let phase = (case p of Some r \<Rightarrow> role_value r | None \<Rightarrow> ''done'')
         in log_event se NOTE None
              (''RESUMED branch='' @ at_branch a @ '' sha='' @ take 7 (at_sha a) @ '' phase='' @ phase)
              [(''resumed'', PBool True), (''attached_branch'', PStr (at_branch a)), (''sha'', PStr (at_sha a)),
               (''phase'', PStr phase)] f))"

definition attach_writes :: "start_env \<Rightarrow> attach_request option \<Rightarrow> bool \<Rightarrow> ledger_write list" where
  "attach_writes se att had_ledger = (case att of
       None \<Rightarrow> []
     | Some a \<Rightarrow>
        (if at_branch a = [] then []
         else (if had_ledger then []
               else map (branch_evidence_write se a) (if at_passed a = [] then derived_done else at_passed a))
              @ [attach_write se a]))"

section \<open>Starting a build\<close>

definition resolved_cycle :: "environ \<Rightarrow> string \<Rightarrow> string" where
  "resolved_cycle env cycle =
     (let suite = (case env ''FACTORY_BUILD_SUITE'' of Some s \<Rightarrow> s | None \<Rightarrow> []);
          c = py_lower (py_strip (if cycle \<noteq> [] then cycle else if suite \<noteq> [] then suite else ''code''))
      in if c = ''code'' \<or> c = ''pilot'' then c else ''code'')"

datatype start_exn = LedgerFault ledger_exn | CodeCliUnavailable

record start_reply =
  rp_output_dir :: string
  rp_product_id :: string
  rp_inputs_hash :: string
  rp_build :: build_status
  rp_cycle :: string
  rp_already_running :: bool
  rp_n3_waiting :: bool
  rp_n3_ingest :: bool
  rp_fresh_workspace :: bool
  rp_tenant :: "(string \<times> bool) option"

definition plain_reply :: "start_env \<Rightarrow> start_request \<Rightarrow> string \<Rightarrow> job_state \<Rightarrow> start_reply" where
  "plain_reply se rq out s = \<lparr>rp_output_dir = out, rp_product_id = rq_product_id rq, rp_inputs_hash = rq_inputs_hash rq,
     rp_build = seen_status se out s, rp_cycle = resolved_cycle (st_environ se) (rq_cycle rq),
     rp_already_running = False, rp_n3_waiting = False, rp_n3_ingest = False, rp_fresh_workspace = False, rp_tenant = None\<rparr>"

text \<open>\<open>bind_tenant_store\<close> and \<open>start_n3_ingest_job\<close>.\<close>

definition bind_tenant_store :: "start_env \<Rightarrow> db \<Rightarrow> string option \<Rightarrow> (string \<times> bool) option" where
  "bind_tenant_store se d account =
     (let identity = py_strip (case account of Some i \<Rightarrow> i | None \<Rightarrow> [])
      in if identity = [] then None
         else Some (take 32 (st_digest se identity), is_reserved_smoke_account d (Some identity)))"

definition start_n3_ingest_job :: "string \<Rightarrow> job_state \<Rightarrow> bool \<times> job_state" where
  "start_n3_ingest_job k s = (if jp_n3 (js_space s k) then (False, s) else (True, space_upd k (\<lambda>sp. sp\<lparr>jp_n3 := True\<rparr>) s))"

definition write_quota_marker :: "string option \<Rightarrow> job_space \<Rightarrow> job_space" where
  "write_quota_marker account sp = (case account of
       None \<Rightarrow> sp | Some a \<Rightarrow> (if a = [] then sp else sp\<lparr>jp_quota := Some a\<rparr>))"

definition register_runner_thread :: "job_space \<Rightarrow> job_space" where
  "register_runner_thread sp = sp\<lparr>jp_registered := True, jp_threads := jp_threads sp + 1\<rparr>"

text \<open>From the readiness check of the coding worker to the started thread.\<close>

definition launch_writes ::
  "start_env \<Rightarrow> start_request \<Rightarrow> bool \<Rightarrow> bool \<Rightarrow> string option \<Rightarrow> ledger_write list" where
  "launch_writes se rq had_ledger resumed_failed fresh =
     [open_write se rq fresh, platform_write se (rq_platform rq), write_when resumed_failed (reset_write se)]
     @ attach_writes se (rq_attach rq) had_ledger"

definition launch ::
  "start_env \<Rightarrow> start_request \<Rightarrow> string \<Rightarrow> bool \<Rightarrow> bool \<Rightarrow> string option \<Rightarrow> job_state \<Rightarrow>
   (start_exn + start_reply) \<times> job_state" where
  "launch se rq out had_ledger resumed_failed fresh s =
     (if \<not> st_cli_ready se then (Inl CodeCliUnavailable, s)
      else case run_writes (launch_writes se rq had_ledger resumed_failed fresh) (jp_ledger (js_space s out)) of
        (Some x, f) \<Rightarrow> (Inl (LedgerFault x), ledger_set out f s)
      | (None, f) \<Rightarrow>
          (let s1 = space_upd out (write_quota_marker (rq_quota_account rq)) (ledger_set out f s);
               tenant = bind_tenant_store se (js_db s)
                 (case rq_identity rq of Some i \<Rightarrow> Some i | None \<Rightarrow> rq_quota_account rq);
               s2 = space_upd out register_runner_thread s1
           in (Inr ((plain_reply se rq out s2)\<lparr>rp_fresh_workspace := (fresh \<noteq> None), rp_tenant := tenant\<rparr>), s2)))"

definition fresh_reason :: "string \<Rightarrow> no_reattach \<Rightarrow> string" where
  "fresh_reason prior why = ''FRESH: prior workspace '' @ prior @ '' not re-enterable: '' @ why_text why"

definition has_ledger :: "job_state \<Rightarrow> string \<Rightarrow> bool" where
  "has_ledger s k = (contents (jp_ledger (js_space s k)) \<noteq> None)"

definition restart_failed :: "start_env \<Rightarrow> start_request \<Rightarrow> job_state \<Rightarrow> (start_exn + start_reply) \<times> job_state" where
  "restart_failed se rq s =
     (let out = rq_out rq; sp = js_space s out;
          rebase = write_when (\<not> rq_start_over rq \<and> rq_intake_changed rq) (rebase_write se rq)
      in case run_writes [rebase, reenter_write se rq (jp_has sp)] (jp_ledger sp) of
           (Some x, f) \<Rightarrow> (Inl (LedgerFault x), ledger_set out f s)
         | (None, f) \<Rightarrow>
             (let s1 = ledger_set out f s
              in case (rq_start_over rq, reattach_point \<lparr>ws_ledger = jp_ledger sp, ws_has = jp_has sp\<rparr>) of
                   (True, Inl why) \<Rightarrow> launch se rq (next_fresh_output (has_ledger s) out) True False (Some (fresh_reason out why)) s1
                 | _ \<Rightarrow> launch se rq out True (\<not> rq_start_over rq) None s1))"

definition start_runner_build :: "start_env \<Rightarrow> start_request \<Rightarrow> job_state \<Rightarrow> (start_exn + start_reply) \<times> job_state" where
  "start_runner_build se rq s =
     (let out = rq_out rq; status = seen_status se out s
      in if \<not> has_ledger s out then launch se rq out False False None s
         else if bs_state status = Building then
           (if handoff_awaiting_n3 (jp_ledger (js_space s out)) then
              (if jp_n3 (js_space s out) then
                 (Inr ((plain_reply se rq out s)\<lparr>rp_already_running := True, rp_n3_waiting := True\<rparr>), s)
               else (let (started, s1) = start_n3_ingest_job out s
                     in (Inr ((plain_reply se rq out s1)\<lparr>rp_already_running := \<not> started, rp_n3_waiting := True,
                           rp_n3_ingest := True\<rparr>), s1)))
            else (Inr ((plain_reply se rq out s)\<lparr>rp_already_running := True\<rparr>), s))
         else if bs_state status = Failed then restart_failed se rq s
         else launch se rq out True False None s)"

section \<open>The end of the build thread\<close>

text \<open>What the runner answered: it raised (type and text), it handed the workspace to the Store
  gate (and the gate's verdict re-opened the run or not), or it returned.\<close>

datatype run_answer = RunRaised string string | RunHandedOff bool | RunReturned

definition clear_quota_marker :: "string \<Rightarrow> job_state \<Rightarrow> job_state" where
  "clear_quota_marker k = space_upd k (\<lambda>sp. sp\<lparr>jp_quota := None\<rparr>)"

definition refund_generation_quota :: "environ \<Rightarrow> string \<Rightarrow> int \<Rightarrow> string \<Rightarrow> job_state \<Rightarrow> job_state" where
  "refund_generation_quota env today now k s = (case jp_quota (js_space s k) of
       None \<Rightarrow> s
     | Some text \<Rightarrow>
        (let account = py_strip text;
             s1 = (if account = [] then s
                   else case refund env today now (Some account) ''generation'' (js_db s) of
                     Inr d \<Rightarrow> s\<lparr>js_db := d\<rparr> | Inl e \<Rightarrow> s)
         in clear_quota_marker k s1))"

definition crash_detail :: "status_env \<Rightarrow> string \<Rightarrow> string \<Rightarrow> string" where
  "crash_detail env ty txt = take 400 (''build thread crashed: '' @ san_text env (if txt = [] then ty else txt))"

definition crash_write :: "start_env \<Rightarrow> string \<Rightarrow> string \<Rightarrow> string \<Rightarrow> ledger_write" where
  "crash_write se k ty txt = reading (\<lambda>evs.
     log_event se RUN_FAILED None (crash_detail (st_status se k) ty txt)
       [(''reason'', PStr ''build_thread_crashed''),
        (''location'', PStr (case interrupted_role evs of Some r \<Rightarrow> role_value r | None \<Rightarrow> [])),
        (''exception'', PStr (san_text (st_status se k) ty))])"

definition record_crash :: "start_env \<Rightarrow> string \<Rightarrow> string \<Rightarrow> string \<Rightarrow> job_state \<Rightarrow> job_state" where
  "record_crash se k ty txt s = (case crash_write se k ty txt (jp_ledger (js_space s k)) of
       (None, f) \<Rightarrow> ledger_set k f s
     | (Some x, f) \<Rightarrow> space_upd k (\<lambda>sp. sp\<lparr>jp_crash := True\<rparr>) s)"

text \<open>The thread leaves; \<open>latest\<close> tells whether it is the one registered.\<close>

definition thread_left :: "bool \<Rightarrow> string \<Rightarrow> job_state \<Rightarrow> job_state" where
  "thread_left latest k = space_upd k (\<lambda>sp. sp\<lparr>jp_threads := jp_threads sp - 1,
     jp_registered := (if latest then False else jp_registered sp)\<rparr>)"

definition run_ended :: "start_env \<Rightarrow> string \<Rightarrow> int \<Rightarrow> string \<Rightarrow> run_answer \<Rightarrow> job_state \<Rightarrow> job_state" where
  "run_ended se today now k answer s = (case answer of
       RunRaised ty txt \<Rightarrow> refund_generation_quota (st_environ se) today now k (record_crash se k ty txt s)
     | RunHandedOff reopened \<Rightarrow> clear_quota_marker k s
     | RunReturned \<Rightarrow> (case events (jp_ledger (js_space s k)) of
           Inl x \<Rightarrow> s
         | Inr evs \<Rightarrow> (case terminal_event evs of
             Some e \<Rightarrow> (if kind e = RUN_FAILED then refund_generation_quota (st_environ se) today now k s else clear_quota_marker k s)
           | None \<Rightarrow> clear_quota_marker k s)))"

definition end_thread :: "start_env \<Rightarrow> string \<Rightarrow> int \<Rightarrow> bool \<Rightarrow> string \<Rightarrow> run_answer \<Rightarrow> job_state \<Rightarrow> job_state" where
  "end_thread se today now latest k answer s =
     (let s1 = run_ended se today now k answer s
      in if answer = RunHandedOff True then s1 else thread_left latest k s1)"

end
