(* ===== verification/BuildStatusFacts.thy ===== *)
theory BuildStatusFacts
  imports BuildStatus
begin

text \<open>
  What the Floor may conclude from a build's status: building means that
  something can still be working, success means a recorded success, the trail
  shows each phase's last verdict, a failed run is re-entered exactly at the
  first phase it has not passed, and the declared deadline is the latest one.
\<close>

section \<open>The phase trail\<close>

definition last_verdict_of :: "build_role \<Rightarrow> build_event list \<Rightarrow> event_kind option" where
  "last_verdict_of r evs = map_option kind (find_last (\<lambda>e. role e = Some r \<and> is_verdict e) evs)"

definition shown_as :: "event_kind option \<Rightarrow> phase_outcome \<Rightarrow> bool" where
  "shown_as v x = (case v of
       None \<Rightarrow> x = NotReached
     | Some PHASE_STARTED \<Rightarrow> x = Running
     | Some GATE_PASSED \<Rightarrow> x = Passed
     | Some GATE_FAILED \<Rightarrow> x = PhaseFailed \<or> x = HandedOff
     | Some PHASE_ABORTED \<Rightarrow> x = Aborted \<or> x = HandedOff
     | Some _ \<Rightarrow> False)"

lemma trail_states_snoc: "trail_states env (evs @ [e]) = trail_step env (trail_states env evs) e"
  by (simp add: trail_states_def)

lemma last_verdict_snoc:
  "last_verdict_of r (evs @ [e]) = (if role e = Some r \<and> is_verdict e then Some (kind e) else last_verdict_of r evs)"
  by (simp add: last_verdict_of_def)

lemma row_simps [simp]:
  "pr_outcome (clean_row x e d row) = x" "pr_reason (clean_row x e d row) = PStr []"
  "pr_location (clean_row x e d row) = PStr []" "pr_phase (clean_row x e d row) = pr_phase row"
  "pr_outcome (failed_row env r e row) = (if kind e = GATE_FAILED then PhaseFailed else Aborted)"
  "pr_phase (failed_row env r e row) = pr_phase row"
  by (simp_all add: clean_row_def failed_row_def)

text \<open>A row is green, running or blank only without a reason and a place of failure.\<close>

definition row_ok :: "phase_row \<Rightarrow> bool" where
  "row_ok row = (pr_outcome row \<in> {PhaseFailed, Aborted} \<or> pr_reason row = PStr [] \<and> pr_location row = PStr [])"

lemma row_ok_simps [simp]: "row_ok (clean_row x e d row)" "row_ok (failed_row env r e row)" "row_ok (blank_row r)"
  by (simp_all add: row_ok_def blank_row_def)

lemma trail_invariant:
  "shown_as (last_verdict_of r evs) (pr_outcome (fst (trail_states env evs) r)) \<and>
   row_ok (fst (trail_states env evs) r) \<and> pr_phase (fst (trail_states env evs) r) = r"
proof (induction evs rule: rev_induct)
  case Nil
  then show ?case by (simp add: trail_states_def last_verdict_of_def shown_as_def blank_row_def row_ok_def)
next
  case (snoc e evs)
  let ?row = "fst (trail_states env evs) r"
  show ?case
  proof (cases "role e = Some r")
    case False
    then have "fst (trail_states env (evs @ [e])) r = ?row"
      by (auto simp: trail_states_snoc trail_step_def Let_def split: option.splits event_kind.splits)
    then show ?thesis using snoc False by (simp add: last_verdict_snoc)
  next
    case True
    show ?thesis
    proof (cases "kind e = NOTE")
      case is_note: True
      have "pr_reason ?row = docker_unavailable \<Longrightarrow> pr_outcome ?row \<in> {PhaseFailed, Aborted}"
        using snoc by (auto simp: row_ok_def docker_unavailable_def)
      then show ?thesis using snoc is_note True
        by (auto simp: trail_states_snoc trail_step_def Let_def last_verdict_snoc is_verdict_def terminal_kinds_def
            shown_as_def split: option.splits event_kind.splits)
    next
      case False
      then show ?thesis using snoc True
        by (cases "kind e") (simp_all add: trail_states_snoc trail_step_def Let_def last_verdict_snoc is_verdict_def
            terminal_kinds_def shown_as_def)
    qed
  qed
qed

text \<open>The phase trail shows every phase's last verdict and nothing else: a phase is green,
  running, blank, failed or aborted exactly as its newest verdict says (a failure may read as handed
  off), and a phase that is not failed carries no reason and no place of a failure.\<close>

theorem trail_tells_last_verdict:
  assumes "row \<in> set (fst (phase_trail env evs))"
  shows "shown_as (last_verdict_of (pr_phase row) evs) (pr_outcome row) \<and>
     (pr_outcome row \<notin> {PhaseFailed, Aborted} \<longrightarrow> pr_reason row = PStr [] \<and> pr_location row = PStr [])"
proof -
  obtain r where "row = fst (trail_states env evs) r"
    using assms by (auto simp: phase_trail_def Let_def)
  then show ?thesis using trail_invariant[of r evs env] by (auto simp: row_ok_def)
qed

section \<open>Building means something can still be working\<close>

lemma event_age_idle: "event_age_s env (case last_opt evs of None \<Rightarrow> [] | Some e \<Rightarrow> ts e) (se_file_idle env) \<le> idle_time env evs"
  by (simp add: idle_time_def Let_def)

lemma overdue_None:
  "model_call_overdue env note idle = None \<Longrightarrow> model_call_fields env note True = Some dl \<Longrightarrow> idle \<le> dl"
  by (auto simp: model_call_overdue_def Let_def split: if_splits)

text \<open>Somebody can be working: a live thread that spoke within half an hour or is inside the
  deadline of its model call, or a process that went quiet less than two minutes ago.\<close>

definition can_be_working :: "status_env \<Rightarrow> build_event list \<Rightarrow> bool" where
  "can_be_working env evs =
     (if se_worker_live env
      then idle_time env evs \<le> 1800 \<or>
        (\<exists>dl. model_call_fields env (current_call evs) True = Some dl \<and> idle_time env evs \<le> dl)
      else idle_time env evs \<le> 120 \<and> \<not> is_call_note (current_call evs))"

lemma open_status_building:
  assumes "bs_state (open_status env evs p) = Building" and "bs_state p = Building"
  shows "can_be_working env evs"
proof -
  have no: "model_call_overdue env (current_call evs) (idle_time env evs) = None"
    and orphan: "\<not> orphaned_inflight_model_call (current_call evs) (se_worker_live env)"
    and quiet: "\<not> (\<not> se_worker_live env \<and> idle_time env evs > 120)"
      "\<not> (idle_time env evs > 1800 \<and> model_call_fields env (current_call evs) (se_worker_live env) = None)"
    using assms(1)
    by (auto simp: open_status_def Let_def orphan_after_s_def stall_after_s_def
        split: option.splits if_splits)
  show ?thesis
  proof (cases "se_worker_live env")
    case True
    then show ?thesis
      using quiet overdue_None[OF no] by (auto simp: can_be_working_def)
  next
    case False
    then show ?thesis using quiet orphan by (simp add: can_be_working_def orphaned_inflight_model_call_def)
  qed
qed

lemma bs_state_progress [simp]: "bs_state (progress env evs ds cur term) = Building"
  by (simp add: progress_def Let_def plain_status_def case_prod_beta)

lemma bs_state_plain [simp]: "bs_state (plain_status s d h) = s"
  by (simp add: plain_status_def)

lemma reevaluate_not_building: "bs_state s \<noteq> Building \<Longrightarrow> bs_state (reevaluate_thin env s) \<noteq> Building"
  by (simp add: reevaluate_thin_def Let_def split: authorship_floor.splits)

lemma failed_status_building:
  "bs_state (failed_status env awaiting e p) = Building \<Longrightarrow> awaiting"
  using reevaluate_not_building by (auto simp: failed_status_def Let_def split: if_splits)

lemma build_status_readable:
  assumes "contents f \<noteq> None" and "events f = Inr evs" and "ledger_facts evs = Inr (ds, resume)"
  shows "build_status env f =
     (let terminal = terminal_event evs;
          p = progress env evs ds (case interrupted_role evs of Some r \<Rightarrow> Some r | None \<Rightarrow> resume) terminal
      in case terminal of
           None \<Rightarrow>
             (if se_crash_marker env then
                (let (trail, failure) = phase_trail env evs
                 in case failure of
                      Some f \<Rightarrow> (plain_status Failed CrashedDetail ''BUILD_THREAD_CRASHED'')\<lparr>bs_trail := trail, bs_failure := Some f\<rparr>
                    | None \<Rightarrow> (let (rows, f) = crash_failure trail
                        in (plain_status Failed CrashedDetail ''BUILD_THREAD_CRASHED'')\<lparr>bs_trail := rows, bs_failure := f\<rparr>))
              else if interrupted_role evs \<noteq> None \<and> quarantined_notes evs \<noteq> 0 \<and> \<not> se_worker_live env then
                plain_status Stalled QuarantinedDetail ledger_external_note_quarantined
              else open_status env evs p)
         | Some e \<Rightarrow>
             (if kind e = RUN_SUCCEEDED then succeeded_status e p
              else failed_status env (handoff_awaiting_n3 f) e p))"
  by (simp add: build_status_def Let_def assms)

lemma build_status_unreadable:
  "bs_state (build_status env f) \<notin> {Unknown, Failed} \<Longrightarrow>
   \<exists>evs ds resume. contents f \<noteq> None \<and> events f = Inr evs \<and> ledger_facts evs = Inr (ds, resume)"
  by (cases "bind_result (events f) (\<lambda>evs. map_result (Pair evs) (ledger_facts evs))")
     (auto simp: build_status_def result_simps split: if_splits)

text \<open>Property C13. A build never reads as building forever: whatever the ledger holds, it reads as
  building only while the Store gate is awaited, or while the run has no verdict and somebody can be
  working on it; a run without a thread stops reading as building two minutes after its last sign of life.\<close>

theorem building_means_alive:
  assumes "bs_state (build_status env f) = Building"
  shows "handoff_awaiting_n3 f \<or>
     (\<exists>evs. events f = Inr evs \<and> terminal_event evs = None \<and> can_be_working env evs)"
proof -
  obtain evs ds resume where r: "contents f \<noteq> None" "events f = Inr evs" "ledger_facts evs = Inr (ds, resume)"
    using build_status_unreadable[of env f] assms by auto
  note st = build_status_readable[OF r, of env]
  show ?thesis
  proof (cases "terminal_event evs")
    case None
    then have "bs_state (open_status env evs (progress env evs ds
        (case interrupted_role evs of Some r \<Rightarrow> Some r | None \<Rightarrow> resume) None)) = Building"
      using assms unfolding st
      by (auto simp: Let_def case_prod_beta split: if_splits option.splits)
    then show ?thesis using None r(2) open_status_building by fastforce
  next
    case (Some e)
    then show ?thesis
      using assms unfolding st
      by (auto simp: Let_def succeeded_status_def dest: failed_status_building split: if_splits)
  qed
qed

text \<open>A build counts as complete only when its ledger's last word is a recorded success, or
  a refusal for thin authorship whose floor the finished tree now meets; and a success shows no current failure.\<close>

theorem complete_means_recorded_success:
  assumes "is_build_complete env f"
  shows "\<exists>evs e. events f = Inr evs \<and> terminal_event evs = Some e \<and>
     (kind e = RUN_SUCCEEDED \<and> bs_failure (build_status env f) = None \<or>
      kind e = RUN_FAILED \<and> \<not> handoff_awaiting_n3 f \<and> named_blocker_of (detail e) = thin_authorship \<and> se_floor env = MeetsFloor)"
proof -
  obtain evs ds resume where r: "contents f \<noteq> None" "events f = Inr evs" "ledger_facts evs = Inr (ds, resume)"
    using build_status_unreadable[of env f] assms by (auto simp: is_build_complete_def)
  note st = build_status_readable[OF r, of env]
  have s: "bs_state (build_status env f) = Succeeded" using assms by (simp add: is_build_complete_def)
  show ?thesis
  proof (cases "terminal_event evs")
    case None
    then show ?thesis
      using s unfolding st
      by (auto simp: Let_def case_prod_beta open_status_def split: if_splits option.splits)
  next
    case (Some e)
    have k: "kind e = RUN_SUCCEEDED \<or> kind e = RUN_FAILED" using Some by (auto simp: terminal_event_iff)
    show ?thesis
    proof (cases "kind e = RUN_SUCCEEDED")
      case True
      have "bs_failure (build_status env f) = None"
        unfolding st using Some True
        by (simp add: Let_def succeeded_status_def progress_def case_prod_beta)
      then show ?thesis using r(2) Some True by blast
    next
      case False
      then show ?thesis
        using s k r(2) Some unfolding st
        by (auto simp: failed_status_def Let_def reevaluate_thin_def split: if_splits authorship_floor.splits)
    qed
  qed
qed

section \<open>Re-entering a failed run\<close>

lemma resume_point_first:
  assumes "completed_roles evs = Inr ds" and "resume_point evs = Inr p"
  shows "p = find (\<lambda>r. r \<notin> set ds) build_phases"
  using assms by (simp add: resume_point_def)

text \<open>A failed run is re-entered exactly at the first phase it has not passed, only when the
  ledger shows the collector and the cloner passed, and only on a workspace that still holds the cloned blocks.\<close>

theorem reattach_resumes_first_unpassed:
  assumes "reattach_point w = Inr ph"
  shows "\<exists>evs r. events (ws_ledger w) = Inr evs \<and> resume_point evs = Inr (Some r) \<and> ph = role_value r \<and>
     latest_verdict COLLECTOR (rev evs) = Some GATE_PASSED \<and> latest_verdict CLONER (rev evs) = Some GATE_PASSED \<and>
     latest_verdict r (rev evs) \<noteq> Some GATE_PASSED \<and> ws_has w ''vendor/blocks'' \<and> ws_has w ''blocks.lock.json''"
proof -
  obtain evs ds point where l: "events (ws_ledger w) = Inr evs" "ledger_facts evs = Inr (ds, point)"
    using assms by (auto simp: reattach_point_def result_simps split: if_splits sum.splits)
  have d: "completed_roles evs = Inr ds" and p: "resume_point evs = Inr point"
    using l(2) by (auto simp: ledger_facts_def split: sum.splits)
  let ?missing = "filter (\<lambda>r. r \<notin> set ds) reattach_needs"
  consider (writer) "?missing = [WRITER]" "ph = ''WRITER''" "ws_has w ''vendor/blocks''" "ws_has w ''blocks.lock.json''"
    | (later) r where "?missing = []" "point = Some r" "ph = role_value r" "ws_has w ''vendor/blocks''" "ws_has w ''blocks.lock.json''"
    using assms l
    by (auto simp: reattach_point_def result_simps Let_def reattach_files_def split: if_splits option.splits)
  then show ?thesis
  proof cases
    case writer
    then have "COLLECTOR \<in> set ds" "CLONER \<in> set ds" "WRITER \<notin> set ds"
      by (auto simp: reattach_needs_def split: if_splits)
    then show ?thesis
      using writer l(1) p resume_point_first[OF d p] completed_roles_latest[OF d]
      by (auto simp: build_phases_def)
  next
    case (later r)
    then have "COLLECTOR \<in> set ds" "CLONER \<in> set ds" "r \<notin> set ds"
      using resume_point_first[OF d p] by (auto simp: reattach_needs_def dest: find_SomeD(1) split: if_splits)
    then show ?thesis using later l(1) p completed_roles_latest[OF d] by auto
  qed
qed

section \<open>A fresh workspace\<close>

lemma first_fresh_least:
  assumes "\<not> has (fresh_name stem m)" and "n \<le> m" and "m < n + left"
  shows "\<exists>k. first_fresh has stem n left = fresh_name stem k \<and> n \<le> k \<and> k \<le> m \<and> \<not> has (fresh_name stem k) \<and>
     (\<forall>j. n \<le> j \<and> j < k \<longrightarrow> has (fresh_name stem j))"
  using assms
proof (induction has stem n left rule: first_fresh.induct)
  case (2 has stem n left)
  show ?case
  proof (cases "has (fresh_name stem n)")
    case True
    then have "n \<noteq> m" using "2.prems"(1) by auto
    then obtain k where "first_fresh has stem (n + 1) left = fresh_name stem k \<and> n + 1 \<le> k \<and> k \<le> m \<and>
        \<not> has (fresh_name stem k) \<and> (\<forall>j. n + 1 \<le> j \<and> j < k \<longrightarrow> has (fresh_name stem j))"
      using "2.IH" True "2.prems" by auto
    moreover from this True have "has (fresh_name stem j)" if "n \<le> j" "j < k" for j
      using that by (cases "j = n") auto
    ultimately show ?thesis using True by (intro exI[of _ k]) auto
  next
    case False
    then show ?thesis using "2.prems"(2) by (intro exI[of _ n]) auto
  qed
qed simp

text \<open>A fresh workspace never reuses a ledger: when any of the first ten thousand names is
  free, the name chosen is the first free one.\<close>

theorem fresh_output_is_free:
  assumes "\<not> has_ledger (fresh_name (strip_run_suffix requested) m)" and "1 \<le> m" and "m \<le> 10000"
  shows "\<not> has_ledger (next_fresh_output has_ledger requested) \<and>
     (\<exists>k. 1 \<le> k \<and> k \<le> m \<and> next_fresh_output has_ledger requested = fresh_name (strip_run_suffix requested) k \<and>
        (\<forall>j. 1 \<le> j \<and> j < k \<longrightarrow> has_ledger (fresh_name (strip_run_suffix requested) j)))"
  using first_fresh_least[where has = has_ledger and stem = "strip_run_suffix requested" and m = m and n = 1 and left = 10000]
    assms unfolding next_fresh_output_def by auto

section \<open>The declared deadline\<close>

definition declared_end :: "status_env \<Rightarrow> build_event \<Rightarrow> rat option" where
  "declared_end env e = (case (opens_wall env e, event_epoch env (ts e)) of
       (Some (wall, _), Some t0) \<Rightarrow> Some (t0 + wall) | _ \<Rightarrow> None)"

lemma deadline_step_end:
  "map_option fst (deadline_step env d e) = (case (map_option fst d, declared_end env e) of
       (x, None) \<Rightarrow> x | (None, Some t) \<Rightarrow> Some t | (Some x, Some t) \<Rightarrow> Some (max x t))"
  by (auto simp: deadline_step_def declared_end_def split: option.splits)

lemma deadline_fold:
  "case map_option fst (foldl (deadline_step env) None evs) of
     None \<Rightarrow> (\<forall>e\<in>set evs. declared_end env e = None)
   | Some t \<Rightarrow> (\<exists>e\<in>set evs. declared_end env e = Some t) \<and>
       (\<forall>e\<in>set evs. \<forall>x. declared_end env e = Some x \<longrightarrow> x \<le> t)"
proof (induction evs rule: rev_induct)
  case (snoc e evs)
  show ?case
    using snoc by (simp only: foldl_append foldl.simps deadline_step_end)
      (force split: option.splits simp: max_def)
qed simp

text \<open>The deadline a client polls for is the latest end the build has declared: no recorded
  stage ends later, and some recorded stage ends exactly then.\<close>

theorem deadline_is_latest_declared:
  assumes "foldl (deadline_step env) None evs = Some (t, name)"
  shows "declared_deadline env evs = Some \<lparr>dl_anchor = name, dl_ceiling = 7200, dl_gate_wall = se_gate_wall env,
       dl_in = round1 (t - se_now env)\<rparr> \<and>
     list_ex (\<lambda>e. declared_end env e = Some t) evs \<and>
     list_all (\<lambda>e. case declared_end env e of None \<Rightarrow> True | Some x \<Rightarrow> x \<le> t) evs"
  using assms deadline_fold[of evs env]
  by (auto simp: declared_deadline_def default_budget_def list_ex_iff list_all_iff split: option.splits)

section \<open>Examples\<close>

text \<open>Times are seconds written as digits.\<close>

definition demo_status_env :: status_env where
  "demo_status_env = \<lparr>se_san = (\<lambda>s. s), se_epoch = (\<lambda>t. map_option rat_of_int (int_of_str t)), se_now = 60,
     se_attempt_wall = 2400, se_gate_wall = 3600, se_file_idle = 0, se_worker_live = False, se_crash_marker = False,
     se_auto_pilot = False, se_stop_gate = (\<lambda>es. None), se_floor = UnknownFloor\<rparr>"

definition demo_history :: "build_event list" where
  "demo_history = [
     \<lparr>seq = 1, ts = ''10'', kind = RUN_STARTED, role = None, detail = ''build of p'', payload = []\<rparr>,
     \<lparr>seq = 2, ts = ''11'', kind = GATE_PASSED, role = Some COLLECTOR, detail = [], payload = []\<rparr>,
     \<lparr>seq = 3, ts = ''12'', kind = GATE_PASSED, role = Some CLONER, detail = [], payload = []\<rparr>,
     \<lparr>seq = 4, ts = ''13'', kind = GATE_FAILED, role = Some WRITER, detail = ''red'', payload = [(''reason'', PStr ''suite_red'')]\<rparr>]"

definition demo_end :: "event_kind \<Rightarrow> build_event" where
  "demo_end k = \<lparr>seq = 5, ts = ''14'', kind = k, role = None, detail = ''over'', payload = []\<rparr>"

definition file_of :: "build_event list \<Rightarrow> ledger_file" where
  "file_of es = no_ledger\<lparr>contents := Some (concat (map (\<lambda>e. event_line e @ [newline]) es))\<rparr>"

lemma file_of_events:
  "list_all (\<lambda>e. pv_ok (PDict (payload e)) \<and> seq e > 0) es \<Longrightarrow>
   intact (file_of es) \<and> events (file_of es) = Inr (map stored es)"
proof (induction es rule: rev_induct)
  case Nil
  show ?case by (simp add: file_of_def no_ledger_def intact_def events_def closed_text_def physical_lines_def)
next
  case (snoc e es)
  then show ?case
    using line_added[of "file_of es" "map stored es" e "file_of (es @ [e])"] by (simp add: file_of_def)
qed

lemma file_of_readable:
  "list_all (\<lambda>e. pv_ok (PDict (payload e)) \<and> seq e > 0) es \<Longrightarrow>
   readable (file_of es) \<and> event_list (file_of es) = map stored es"
  using file_of_events by (simp add: readable_def event_list_def)

lemma demo_file_events:
  "events (file_of demo_history) = Inr demo_history"
  "events (file_of (demo_history @ [demo_end RUN_SUCCEEDED])) = Inr (demo_history @ [demo_end RUN_SUCCEEDED])"
  by code_simp+

theorem trail_tells_last_verdict_witness:
  "shown_as (Some GATE_FAILED) (pr_outcome (fst (phase_trail demo_status_env demo_history) ! 2)) \<and>
   pr_reason (fst (phase_trail demo_status_env demo_history) ! 2) = PStr ''suite_red''"
proof -
  have m: "fst (phase_trail demo_status_env demo_history) ! 2 \<in> set (fst (phase_trail demo_status_env demo_history))"
    by (intro nth_mem) (simp add: phase_trail_def Let_def build_phases_def)
  have "last_verdict_of (pr_phase (fst (phase_trail demo_status_env demo_history) ! 2)) demo_history = Some GATE_FAILED"
    "pr_reason (fst (phase_trail demo_status_env demo_history) ! 2) = PStr ''suite_red''"
    by code_simp+
  then show ?thesis using trail_tells_last_verdict[OF m] by simp
qed

theorem building_means_alive_witness:
  "bs_state (build_status demo_status_env (file_of demo_history)) = Building \<and>
   can_be_working demo_status_env demo_history"
proof -
  have b: "bs_state (build_status demo_status_env (file_of demo_history)) = Building"
    and no: "\<not> handoff_awaiting_n3 (file_of demo_history)"
    by code_simp+
  then show ?thesis using building_means_alive[OF b] demo_file_events(1) by auto
qed

theorem complete_means_recorded_success_witness:
  "is_build_complete demo_status_env (file_of (demo_history @ [demo_end RUN_SUCCEEDED])) \<and>
   terminal_event (demo_history @ [demo_end RUN_SUCCEEDED]) = Some (demo_end RUN_SUCCEEDED) \<and>
   bs_failure (build_status demo_status_env (file_of (demo_history @ [demo_end RUN_SUCCEEDED]))) = None"
proof -
  have c: "is_build_complete demo_status_env (file_of (demo_history @ [demo_end RUN_SUCCEEDED]))"
    by code_simp
  have t: "terminal_event (demo_history @ [demo_end RUN_SUCCEEDED]) = Some (demo_end RUN_SUCCEEDED)"
    by (simp add: terminal_event_def terminal_step_def demo_end_def)
  show ?thesis
    using complete_means_recorded_success[OF c] t demo_file_events(2) c by (auto simp: demo_status_env_def)
qed

definition demo_workspace :: workspace where
  "demo_workspace = \<lparr>ws_ledger = file_of demo_history, ws_has = (\<lambda>p. starts_with p ''vendor'' \<or> p = ''blocks.lock.json'')\<rparr>"

theorem reattach_resumes_first_unpassed_witness:
  "reattach_point demo_workspace = Inr ''WRITER'' \<and> resume_point demo_history = Inr (Some WRITER)"
proof -
  have r: "reattach_point demo_workspace = Inr ''WRITER''" by code_simp
  have "resume_point demo_history = Inr (Some WRITER)"
  proof -
    obtain x where "resume_point demo_history = Inr (Some x)" "''WRITER'' = role_value x"
      using reattach_resumes_first_unpassed[OF r] demo_file_events(1) by (auto simp: demo_workspace_def)
    then show ?thesis by (cases x) simp_all
  qed
  then show ?thesis using r by blast
qed

theorem fresh_output_is_free_witness:
  "next_fresh_output (\<lambda>p. p \<in> set [''product'', ''product__run2'']) ''product__run2'' = ''product__run3''"
proof -
  have s: "strip_run_suffix ''product__run2'' = ''product''" by code_simp
  have n: "fresh_name ''product'' 1 = ''product''" "fresh_name ''product'' 2 = ''product__run2''"
      "fresh_name ''product'' 3 = ''product__run3''"
    by code_simp+
  have free: "\<not> fresh_name (strip_run_suffix ''product__run2'') 3 \<in> set [''product'', ''product__run2'']"
    by (simp add: s n)
  obtain k where k: "1 \<le> k" "k \<le> 3" "next_fresh_output (\<lambda>p. p \<in> set [''product'', ''product__run2'']) ''product__run2'' = fresh_name ''product'' k"
      "\<not> fresh_name ''product'' k \<in> set [''product'', ''product__run2'']"
    using fresh_output_is_free[of "\<lambda>p. p \<in> set [''product'', ''product__run2'']", OF free] by (auto simp: s)
  have "k = 1 \<or> k = 2 \<or> k = 3" using k(1,2) by linarith
  then show ?thesis using k n by auto
qed

theorem deadline_is_latest_declared_witness:
  "declared_deadline demo_status_env demo_history =
     Some \<lparr>dl_anchor = ''RUN_STARTED'', dl_ceiling = 7200, dl_gate_wall = 3600, dl_in = 7150\<rparr>"
proof -
  have f: "foldl (deadline_step demo_status_env) None demo_history = Some (7210, ''RUN_STARTED'')"
    by code_simp
  show ?thesis
    using deadline_is_latest_declared[OF f] by (simp add: demo_status_env_def round1_def Let_def)
qed

end
