(* ===== verification/BuildStartFacts.thy ===== *)
theory BuildStartFacts
  imports BuildStart BuildStatusFacts
begin

text \<open>
  What holds of starting and ending builds: every start only adds to the ledgers it
  finds, a live run is not started twice, a failed run that is resumed is (its
  verdict is not withdrawn), a refused start with a changed intake loses the
  verdict, and a generation is given back at most once.
\<close>

section \<open>Writes only add events\<close>

definition grows :: "ledger_file \<Rightarrow> ledger_file \<Rightarrow> bool" where
  "grows f g = (readable g \<and> (\<exists>new. event_list g = event_list f @ new))"

definition only_adds :: "ledger_write \<Rightarrow> bool" where
  "only_adds w = (\<forall>f. readable f \<longrightarrow> grows f (snd (w f)))"

lemma grows_refl [simp]: "readable f \<Longrightarrow> grows f f"
  by (simp add: grows_def)

lemma grows_trans: "grows f g \<Longrightarrow> grows g h \<Longrightarrow> grows f h"
  by (auto simp: grows_def)

lemma readable_events: "readable f \<Longrightarrow> events f = Inr (event_list f)"
  by (auto simp: readable_def event_list_def result_simps)

lemma append_readable:
  assumes "readable f" and "pv_ok (PDict p)"
  obtains g where "append_event now k r d p f = Inr (new_event now k r d p (event_list f), g)"
    and "readable g" and "event_list g = event_list f @ [stored (new_event now k r d p (event_list f))]"
    and "contents g \<noteq> None"
proof -
  have i: "intact f" "events f = Inr (event_list f)"
    using assms(1) readable_events by (auto simp: readable_def)
  show ?thesis
    using append_event_intact[OF i assms(2), of now k r d] that by (auto simp: readable_def event_list_def)
qed

text \<open>The event a write adds, as it is read back.\<close>

definition logged :: "start_env \<Rightarrow> event_kind \<Rightarrow> build_role option \<Rightarrow> string \<Rightarrow> (string, pyval) dict \<Rightarrow>
    build_event list \<Rightarrow> build_event" where
  "logged se k r d p evs = stored (new_event (st_clock se (next_seq evs)) k r d p evs)"

lemma log_event_readable:
  assumes "readable f" and "pv_ok (PDict p)"
  obtains g where "log_event se k r d p f = (None, g)" and "readable g"
    and "event_list g = event_list f @ [logged se k r d p (event_list f)]" and "contents g \<noteq> None"
proof -
  obtain g where "append_event (st_clock se (next_seq (event_list f))) k r d p f =
      Inr (new_event (st_clock se (next_seq (event_list f))) k r d p (event_list f), g)"
    "readable g" "event_list g = event_list f @ [logged se k r d p (event_list f)]" "contents g \<noteq> None"
    using append_readable[OF assms] unfolding logged_def by blast
  then show ?thesis using that by (simp add: log_event_def readable_events[OF assms(1)])
qed

lemma log_event_adds: "pv_ok (PDict p) \<Longrightarrow> only_adds (log_event se k r d p)"
  unfolding only_adds_def grows_def by (metis log_event_readable snd_conv)

lemma no_write_adds [simp]: "only_adds no_write"
  by (simp add: only_adds_def no_write_def)

lemma write_when_adds: "(b \<Longrightarrow> only_adds w) \<Longrightarrow> only_adds (write_when b w)"
  by (simp add: write_when_def)

lemma reading_adds: "(\<And>evs. only_adds (w evs)) \<Longrightarrow> only_adds (reading w)"
  by (simp add: only_adds_def reading_def readable_events)

lemma run_writes_adds: "list_all only_adds ws \<Longrightarrow> only_adds (run_writes ws)"
proof (induction ws)
  case (Cons w ws)
  show ?case unfolding only_adds_def
  proof (intro allI impI)
    fix f assume f: "readable f"
    have w: "grows f (snd (w f))" using Cons.prems f by (simp add: only_adds_def)
    show "grows f (snd (run_writes (w # ws) f))"
    proof (cases "fst (w f)")
      case None
      have "grows (snd (w f)) (snd (run_writes ws (snd (w f))))"
        using Cons w by (simp add: only_adds_def grows_def)
      then show ?thesis using w grows_trans None by (cases "w f") auto
    qed (use w in \<open>cases "w f"; auto\<close>)
  qed
qed (simp add: only_adds_def)

lemma rebase_write_adds: "only_adds (rebase_write se rq)"
proof -
  have "only_adds (\<lambda>f. case rebase_inputs now h w f of Inl x \<Rightarrow> (Some x, f) | Inr (e, g) \<Rightarrow> (None, g))" for now h w
    unfolding only_adds_def
  proof (intro allI impI)
    fix f assume f: "readable f"
    show "grows f (snd (case rebase_inputs now h w f of Inl x \<Rightarrow> (Some x, f) | Inr (e, g) \<Rightarrow> (None, g)))"
      by (rule append_readable[OF f, of "[(inputs_rebased_key, PBool True), (''inputs_hash'', PStr h),
          (''previous_inputs_hash'', case inputs_hash (event_list f) of None \<Rightarrow> PNone | Some h \<Rightarrow> PStr h),
          (''reason'', PStr w)]" now NOTE None "''INPUTS REBASED: '' @ w"])
        (auto simp: rebase_inputs_def readable_events[OF f] grows_def inputs_rebased_key_def split: option.splits)
  qed
  then show ?thesis unfolding rebase_write_def by (intro reading_adds write_when_adds)
qed

lemma reenter_write_adds: "only_adds (reenter_write se rq has)"
proof -
  have "only_adds (resumed_note se k ph)" "only_adds (resumed_in_place_note se k w)" for k ph w
    unfolding resumed_note_def resumed_in_place_note_def by (intro log_event_adds; simp)+
  then show ?thesis
    by (simp add: only_adds_def reenter_write_def split: sum.splits)
qed

lemma open_write_adds: "only_adds (open_write se rq fresh)"
  unfolding only_adds_def
proof (intro allI impI)
  fix f assume f: "readable f"
  obtain g where g: "start_run (st_clock se (next_seq (event_list f))) (rq_product_id rq) (rq_inputs_hash rq) f = Inr (new_event (st_clock se (next_seq (event_list f))) RUN_STARTED None (''build of '' @ rq_product_id rq)
       [(''schema'', PStr ledger_schema), (''product_id'', PStr (rq_product_id rq)), (''inputs_hash'', PStr (rq_inputs_hash rq))] (event_list f), g)"
    and "grows f g"
    by (rule append_readable[OF f, of "[(''schema'', PStr ledger_schema), (''product_id'', PStr (rq_product_id rq)), (''inputs_hash'', PStr (rq_inputs_hash rq))]"])
       (auto simp: start_run_def grows_def)
  have "grows g (snd (log_event se NOTE None why [(''fresh'', PBool True)] g))" for why
    using log_event_adds[of "[(''fresh'', PBool True)]" se NOTE None why] \<open>grows f g\<close> by (simp add: only_adds_def grows_def)
  then show "grows f (snd (open_write se rq fresh f))"
    using f g \<open>grows f g\<close> grows_trans by (auto simp: open_write_def readable_events split: option.splits)
qed

lemma platform_write_adds: "only_adds (platform_write se pid)"
  unfolding platform_write_def
  by (intro write_when_adds reading_adds log_event_adds) (simp add: platform_id_key_def platform_branch_key_def)

lemma reset_write_adds: "only_adds (reset_write se)"
  unfolding reset_write_def by (intro log_event_adds) (simp add: budget_reset_key_def)

lemma attach_writes_adds: "list_all only_adds (attach_writes se att had)"
proof -
  have n: "grows f (snd (log_event se k r d p f))" if "readable f" "pv_ok (PDict p)" for k r d p f
    using log_event_adds[OF that(2)] that(1) by (simp add: only_adds_def)
  have "only_adds (branch_evidence_write se a name)" for a name
    by (simp add: only_adds_def branch_evidence_write_def n split: option.splits)
  moreover have "only_adds (attach_write se a)" for a
    unfolding attach_write_def
    by (intro reading_adds) (simp add: only_adds_def Let_def n split: sum.splits)
  ultimately show ?thesis
    by (auto simp: attach_writes_def list_all_iff split: option.splits)
qed

lemma launch_writes_adds: "list_all only_adds (launch_writes se rq had failed fresh)"
  by (auto simp: launch_writes_def open_write_adds platform_write_adds reset_write_adds attach_writes_adds
      intro: write_when_adds)

section \<open>Every start keeps the history of every workspace\<close>

lemma space_upd_simps [simp]:
  "js_space (space_upd k g s) j = (if j = k then g (js_space s k) else js_space s j)"
  "js_db (space_upd k g s) = js_db s"
  by (simp_all add: space_upd_def)

lemma ledger_set_simps [simp]:
  "js_space (ledger_set k f s) j = (if j = k then (js_space s k)\<lparr>jp_ledger := f\<rparr> else js_space s j)"
  "js_db (ledger_set k f s) = js_db s"
  by (simp_all add: ledger_set_def)

lemma marker_register_simps [simp]:
  "jp_ledger (write_quota_marker a sp) = jp_ledger sp" "jp_ledger (register_runner_thread sp) = jp_ledger sp"
  "jp_threads (write_quota_marker a sp) = jp_threads sp" "jp_threads (register_runner_thread sp) = jp_threads sp + 1"
  "jp_has (write_quota_marker a sp) = jp_has sp" "jp_has (register_runner_thread sp) = jp_has sp"
  "jp_crash (write_quota_marker a sp) = jp_crash sp" "jp_crash (register_runner_thread sp) = jp_crash sp"
  by (simp_all add: write_quota_marker_def register_runner_thread_def split: option.splits)

definition kept :: "job_state \<Rightarrow> job_state \<Rightarrow> string set \<Rightarrow> bool" where
  "kept s t ks = (js_db t = js_db s \<and> (\<forall>k. grows (jp_ledger (js_space s k)) (jp_ledger (js_space t k))) \<and>
     (\<forall>k. k \<notin> ks \<longrightarrow> js_space t k = js_space s k))"

lemma kept_trans: "kept s t ks \<Longrightarrow> kept t u ls \<Longrightarrow> ks \<union> ls \<subseteq> ms \<Longrightarrow> kept s u ms"
  unfolding kept_def by (metis (no_types, opaque_lifting) Un_iff grows_trans subset_iff)

lemma kept_ledger_set:
  assumes "\<forall>k. readable (jp_ledger (js_space s k))" and "only_adds w"
  shows "kept s (ledger_set k (snd (w (jp_ledger (js_space s k)))) s) {k}"
  using assms by (simp add: kept_def only_adds_def)

lemma kept_readable: "kept s t ks \<Longrightarrow> \<forall>k. readable (jp_ledger (js_space t k))"
  by (simp add: kept_def grows_def)

lemma launch_kept:
  assumes "\<forall>k. readable (jp_ledger (js_space s k))"
  shows "kept s (snd (launch se rq out had failed fresh s)) {out}"
proof (cases "st_cli_ready se")
  case True
  obtain x f where xf: "run_writes (launch_writes se rq had failed fresh) (jp_ledger (js_space s out)) = (x, f)"
    by (cases "run_writes (launch_writes se rq had failed fresh) (jp_ledger (js_space s out))")
  have "kept s (ledger_set out f s) {out}"
    using kept_ledger_set[OF assms run_writes_adds[OF launch_writes_adds], of out se rq had failed fresh] xf by simp
  then show ?thesis using True xf
    by (cases x) (auto simp: launch_def Let_def kept_def if_distrib[of jp_ledger] split: if_splits)
qed (use assms in \<open>simp add: launch_def kept_def\<close>)

lemma restart_failed_kept:
  assumes "\<forall>k. readable (jp_ledger (js_space s k))"
  shows "kept s (snd (restart_failed se rq s))
     (if rq_start_over rq then {rq_out rq, next_fresh_output (has_ledger s) (rq_out rq)} else {rq_out rq})"
proof -
  define out where "out = rq_out rq"
  define ws where "ws = [write_when (\<not> rq_start_over rq \<and> rq_intake_changed rq) (rebase_write se rq),
     reenter_write se rq (jp_has (js_space s out))]"
  obtain x f where xf: "run_writes ws (jp_ledger (js_space s out)) = (x, f)"
    by (cases "run_writes ws (jp_ledger (js_space s out))")
  have k1: "kept s (ledger_set out f s) {out}"
    using kept_ledger_set[OF assms, of "run_writes ws" out] xf
    by (simp add: ws_def run_writes_adds rebase_write_adds reenter_write_adds write_when_adds)
  have k2: "kept s (snd (launch se rq o' True b fr (ledger_set out f s))) {out, o'}" for o' b fr
    by (rule kept_trans[OF k1 launch_kept[OF kept_readable[OF k1]]]) simp
  have k3: "kept s (snd (launch se rq out True b fr (ledger_set out f s))) {out}" for b fr
    using k2[of out] by simp
  have mono: "kept s t ks \<Longrightarrow> ks \<subseteq> ls \<Longrightarrow> kept s t ls" for t ks ls
    by (auto simp: kept_def)
  have k4: "kept s (snd (launch se rq out True b fr (ledger_set out f s))) {out, o'}" for b fr o'
    by (rule mono[OF k3]) simp
  have r: "restart_failed se rq s = (case x of Some x \<Rightarrow> (Inl (LedgerFault x), ledger_set out f s)
     | None \<Rightarrow> (case (rq_start_over rq, reattach_point \<lparr>ws_ledger = jp_ledger (js_space s out), ws_has = jp_has (js_space s out)\<rparr>) of
          (True, Inl why) \<Rightarrow> launch se rq (next_fresh_output (has_ledger s) out) True False (Some (fresh_reason out why)) (ledger_set out f s)
        | _ \<Rightarrow> launch se rq out True (\<not> rq_start_over rq) None (ledger_set out f s)))"
    using xf unfolding restart_failed_def Let_def ws_def out_def by (cases x) simp_all
  show ?thesis unfolding r out_def[symmetric]
    using k1 k2 k3 k4 mono by (cases x; cases "rq_start_over rq";
      cases "reattach_point \<lparr>ws_ledger = jp_ledger (js_space s out), ws_has = jp_has (js_space s out)\<rparr>") auto
qed

lemma start_kept:
  assumes "\<forall>k. readable (jp_ledger (js_space s k))"
  shows "kept s (snd (start_runner_build se rq s))
     (if rq_start_over rq then {rq_out rq, next_fresh_output (has_ledger s) (rq_out rq)} else {rq_out rq})"
    (is "kept s ?t ?ks")
proof -
  have n3: "kept s (snd (start_n3_ingest_job (rq_out rq) s)) {rq_out rq}"
    using assms by (simp add: start_n3_ingest_job_def kept_def)
  have refl: "kept s s {rq_out rq}" using assms by (simp add: kept_def)
  have mono: "kept s t {rq_out rq} \<Longrightarrow> kept s t ?ks" for t
    by (auto simp: kept_def)
  show ?thesis
    using mono[OF refl] mono[OF n3] mono[OF launch_kept[OF assms]] restart_failed_kept[OF assms, of se rq]
    unfolding start_runner_build_def Let_def by (simp only: split: if_split prod.split) auto
qed

text \<open>Property C7. Whatever is asked and however it ends, starting a build only adds events to the
  ledgers it finds: the past of every workspace is kept, the accounts store is untouched, and only the
  workspace asked for changes, unless Start over opens a fresh one.\<close>

theorem start_keeps_history:
  assumes "\<forall>k. readable (jp_ledger (js_space s k))"
  shows "(\<forall>k. readable (jp_ledger (js_space (snd (start_runner_build se rq s)) k)) \<and>
        (\<exists>new. event_list (jp_ledger (js_space (snd (start_runner_build se rq s)) k)) = event_list (jp_ledger (js_space s k)) @ new)) \<and>
     (\<forall>k. k \<noteq> rq_out rq \<longrightarrow> js_space (snd (start_runner_build se rq s)) k = js_space s k \<or>
        rq_start_over rq \<and> k = next_fresh_output (has_ledger s) (rq_out rq)) \<and>
     js_db (snd (start_runner_build se rq s)) = js_db s"
  using start_kept [OF assms, of se rq] by (auto simp: kept_def grows_def split: if_splits)

section \<open>A live run is not started twice\<close>

definition at_work :: "start_env \<Rightarrow> string \<Rightarrow> job_state \<Rightarrow> bool" where
  "at_work se k s =
     (let env = st_status se k; sp = js_space s k; evs = event_list (jp_ledger sp); call = current_call evs
      in jp_registered sp \<and> \<not> jp_crash sp \<and> contents (jp_ledger sp) \<noteq> None \<and> list_all reopen_ok evs \<and>
         terminal_event evs = None \<and> model_call_overdue env call (idle_time env evs) = None \<and>
         (idle_time env evs \<le> 1800 \<or> model_call_fields env call True \<noteq> None))"

lemma env_upd_facts [simp]:
  "event_epoch (env\<lparr>se_worker_live := a, se_crash_marker := b\<rparr>) = event_epoch env"
  "event_age_s (env\<lparr>se_worker_live := a, se_crash_marker := b\<rparr>) = event_age_s env"
  "san_value (env\<lparr>se_worker_live := a, se_crash_marker := b\<rparr>) = san_value env"
  "san_text (env\<lparr>se_worker_live := a, se_crash_marker := b\<rparr>) = san_text env"
  "model_call_fields (env\<lparr>se_worker_live := a, se_crash_marker := b\<rparr>) = model_call_fields env"
  "model_call_overdue (env\<lparr>se_worker_live := a, se_crash_marker := b\<rparr>) = model_call_overdue env"
  "idle_time (env\<lparr>se_worker_live := a, se_crash_marker := b\<rparr>) = idle_time env"
proof -
  show e: "event_epoch (env\<lparr>se_worker_live := a, se_crash_marker := b\<rparr>) = event_epoch env"
    by (simp add: fun_eq_iff event_epoch_def)
  show g: "event_age_s (env\<lparr>se_worker_live := a, se_crash_marker := b\<rparr>) = event_age_s env"
    by (simp add: fun_eq_iff event_age_s_def e split: option.splits)
  show "san_value (env\<lparr>se_worker_live := a, se_crash_marker := b\<rparr>) = san_value env"
    "san_text (env\<lparr>se_worker_live := a, se_crash_marker := b\<rparr>) = san_text env"
    by (simp_all add: fun_eq_iff san_value_def san_text_def split: pyval.splits)
  show m: "model_call_fields (env\<lparr>se_worker_live := a, se_crash_marker := b\<rparr>) = model_call_fields env"
    by (simp add: fun_eq_iff model_call_fields_def Let_def split: option.splits)
  show "model_call_overdue (env\<lparr>se_worker_live := a, se_crash_marker := b\<rparr>) = model_call_overdue env"
    by (simp only: fun_eq_iff model_call_overdue_def g m simp_thms)
  show "idle_time (env\<lparr>se_worker_live := a, se_crash_marker := b\<rparr>) = idle_time env"
    by (simp only: fun_eq_iff idle_time_def g status_env.simps simp_thms) simp
qed

lemma at_work_reads_building:
  assumes "at_work se k s" and "readable (jp_ledger (js_space s k))"
  shows "bs_state (seen_status se k s) = Building"
proof -
  define sp where "sp = js_space s k"
  define env where "env = (st_status se k)\<lparr>se_worker_live := jp_registered sp, se_crash_marker := jp_crash sp\<rparr>"
  define evs where "evs = event_list (jp_ledger sp)"
  note a = assms(1)[unfolded at_work_def Let_def, folded sp_def, folded evs_def]
  have ev: "events (jp_ledger sp) = Inr evs" using assms(2) readable_events by (simp add: sp_def evs_def)
  obtain ds resume where l: "ledger_facts evs = Inr (ds, resume)"
    using completed_roles_total a by (fastforce simp: ledger_facts_def resume_point_def)
  have live: "se_worker_live env" "\<not> se_crash_marker env" using a by (simp_all add: env_def)
  have o: "model_call_overdue env (current_call evs) (idle_time env evs) = None"
    "idle_time env evs \<le> 1800 \<or> model_call_fields env (current_call evs) True \<noteq> None"
    using a by (auto simp: env_def)
  have "bs_state (open_status env evs p) = bs_state p" for p
    using live o by (auto simp: open_status_def Let_def orphaned_inflight_model_call_def stall_after_s_def)
  then have "bs_state (build_status env (jp_ledger sp)) = Building"
    using a live by (simp add: build_status_readable[OF _ ev l] Let_def)
  then show ?thesis by (simp add: seen_status_def Let_def env_def sp_def)
qed

text \<open>Property C5. A live run is never started twice.  While a thread is registered for a workspace without a
  crash marker, the run has no verdict, its open model call, if any, is within its deadline, and it spoke
  within half an hour or is inside such a call, a start of any kind launches no build thread and writes to no
  ledger.  A run that waits for the Store gate gets a waiter when it has none, and the answer says so; otherwise
  nothing changes at all and the answer is that the build is running already.\<close>

theorem live_run_not_doubled:
  assumes "at_work se (rq_out rq) s" and "readable (jp_ledger (js_space s (rq_out rq)))"
  shows "(\<forall>k. jp_threads (js_space (snd (start_runner_build se rq s)) k) = jp_threads (js_space s k) \<and>
       jp_ledger (js_space (snd (start_runner_build se rq s)) k) = jp_ledger (js_space s k)) \<and>
     js_db (snd (start_runner_build se rq s)) = js_db s \<and>
     (\<exists>rp. fst (start_runner_build se rq s) = Inr rp \<and>
        (if handoff_awaiting_n3 (jp_ledger (js_space s (rq_out rq)))
         then rp_n3_waiting rp \<and> jp_n3 (js_space (snd (start_runner_build se rq s)) (rq_out rq)) \<and>
           (jp_n3 (js_space s (rq_out rq)) \<longrightarrow> snd (start_runner_build se rq s) = s)
         else rp_already_running rp \<and> snd (start_runner_build se rq s) = s))"
proof -
  have b: "bs_state (seen_status se (rq_out rq) s) = Building" "has_ledger s (rq_out rq)"
    using at_work_reads_building[OF assms] assms(1) by (simp_all add: at_work_def Let_def has_ledger_def)
  show ?thesis
    unfolding start_runner_build_def Let_def using b
    by (simp add: start_n3_ingest_job_def)
qed

section \<open>A resumed run reads as failed\<close>

text \<open>Notes that say nothing of the run's verdict, the hand-off or a reopened phase.\<close>

definition quiet_note :: "build_event \<Rightarrow> bool" where
  "quiet_note e = (kind e = NOTE \<and> \<not> truthy (get0 (payload e) inputs_rebased_key) \<and>
     event_honesty e = [] \<and> event_outcome e = [])"

lemma quiet_terminal: "list_all quiet_note ns \<Longrightarrow> terminal_event (es @ ns) = terminal_event es"
  by (induction ns rule: rev_induct)
     (auto simp: terminal_event_def terminal_step_def quiet_note_def is_rebase_def reopens_def simp flip: append_assoc)

lemma quiet_not_handoff: "quiet_note e \<Longrightarrow> \<not> is_handoff e"
  by (simp add: quiet_note_def is_handoff_def handoff_word_def)

lemma after_handoff_quiet:
  "list_all quiet_note ns \<Longrightarrow> after_handoff (ns @ es) later = after_handoff es (rev ns @ later)"
  by (induction ns arbitrary: later) (auto dest: quiet_not_handoff)

lemma after_handoff_append:
  "after_handoff es (xs @ ys) = map_option (\<lambda>l. l @ ys) (after_handoff es xs)"
proof (induction es arbitrary: xs)
  case (Cons e es)
  show ?case using Cons[of "e # xs"] by simp
qed simp

lemma still_awaiting_append: "still_awaiting (xs @ ys) \<Longrightarrow> still_awaiting xs"
  by (induction xs rule: still_awaiting.induct) (auto split: if_splits)

lemma quiet_reopen_ok: "quiet_note e \<Longrightarrow> reopen_ok e"
  by (simp add: quiet_note_def reopen_ok_def reopens_def)

text \<open>A write that leaves one quiet note, or nothing.\<close>

definition only_notes :: "ledger_write \<Rightarrow> bool" where
  "only_notes w = (\<forall>f. readable f \<longrightarrow> contents f \<noteq> None \<longrightarrow> (\<exists>g ns. w f = (None, g) \<and> readable g \<and>
     contents g \<noteq> None \<and> list_all quiet_note ns \<and> event_list g = event_list f @ ns))"

lemma logged_quiet:
  assumes "k = NOTE" and "pv_ok (PDict p)" and "dget p inputs_rebased_key = None"
    and "dget p ''honesty'' = None" and "dget p ''outcome'' = None"
  shows "quiet_note (logged se k r d p evs)"
  using assms by (simp add: quiet_note_def logged_def stored_def new_event_def get_or_def event_honesty_def event_outcome_def
      dget_canon_dict inputs_rebased_key_def)

lemma log_note_only:
  assumes "pv_ok (PDict p)" and "dget p inputs_rebased_key = None" and "dget p ''honesty'' = None" and "dget p ''outcome'' = None"
  shows "only_notes (log_event se NOTE r d p)"
  unfolding only_notes_def
proof (intro allI impI)
  fix f assume "readable f" "contents f \<noteq> None"
  obtain g where "log_event se NOTE r d p f = (None, g)" "readable g"
    "event_list g = event_list f @ [logged se NOTE r d p (event_list f)]" "contents g \<noteq> None"
    using log_event_readable[OF \<open>readable f\<close> assms(1)] by blast
  then show "\<exists>g ns. log_event se NOTE r d p f = (None, g) \<and> readable g \<and> contents g \<noteq> None \<and>
      list_all quiet_note ns \<and> event_list g = event_list f @ ns"
    using logged_quiet[OF refl assms] by (intro exI[of _ g] exI[of _ "[logged se NOTE r d p (event_list f)]"]) simp
qed

lemma no_write_only [simp]: "only_notes no_write"
  by (auto simp: only_notes_def no_write_def)

lemma write_when_only: "(b \<Longrightarrow> only_notes w) \<Longrightarrow> only_notes (write_when b w)"
  by (simp add: write_when_def)

lemma reading_only: "(\<And>evs. only_notes (w evs)) \<Longrightarrow> only_notes (reading w)"
  by (simp add: only_notes_def reading_def readable_events)

lemma run_writes_only: "list_all only_notes ws \<Longrightarrow> only_notes (run_writes ws)"
proof (induction ws)
  case (Cons w ws)
  show ?case unfolding only_notes_def
  proof (intro allI impI)
    fix f assume f: "readable f" "contents f \<noteq> None"
    obtain g ns where g: "w f = (None, g)" "readable g" "contents g \<noteq> None" "list_all quiet_note ns"
      "event_list g = event_list f @ ns"
      using Cons.prems f by (auto simp: only_notes_def)
    obtain h ms where h: "run_writes ws g = (None, h)" "readable h" "contents h \<noteq> None" "list_all quiet_note ms"
      "event_list h = event_list g @ ms"
      using Cons.IH Cons.prems g(2,3) by (auto simp: only_notes_def)
    show "\<exists>g ns. run_writes (w # ws) f = (None, g) \<and> readable g \<and> contents g \<noteq> None \<and>
        list_all quiet_note ns \<and> event_list g = event_list f @ ns"
      using g h by (intro exI[of _ h] exI[of _ "ns @ ms"]) simp
  qed
qed (auto simp: only_notes_def)

lemma resume_writes_only:
  "only_notes (resumed_note se out ph)" "only_notes (resumed_in_place_note se out w)"
  "only_notes (platform_write se pid)" "only_notes (reset_write se)"
  unfolding resumed_note_def resumed_in_place_note_def platform_write_def reset_write_def
  by (intro log_note_only write_when_only reading_only;
      simp add: inputs_rebased_key_def platform_id_key_def platform_branch_key_def budget_reset_key_def)+

lemma reenter_only: "\<not> rq_start_over rq \<Longrightarrow> only_notes (reenter_write se rq has)"
  using resume_writes_only by (simp add: only_notes_def reenter_write_def split: sum.splits)

lemma open_write_existing: "contents f \<noteq> None \<Longrightarrow> open_write se rq fresh f = (None, f)"
  by (simp add: open_write_def)

lemma open_write_only: "only_notes (open_write se rq fresh)"
  by (auto simp: only_notes_def open_write_existing)

section \<open>The second runner\<close>

text \<open>A run that ended in failure and reads so: its verdict is not the thin-authorship refusal, which is
  judged again, and no Store gate is awaited.\<close>

definition failed_run :: "string \<Rightarrow> job_state \<Rightarrow> bool" where
  "failed_run k s =
     (let f = jp_ledger (js_space s k); evs = event_list f
      in readable f \<and> contents f \<noteq> None \<and> list_all reopen_ok evs \<and> \<not> handoff_awaiting_n3 f \<and>
         (\<exists>e. terminal_event evs = Some e \<and> kind e = RUN_FAILED \<and> named_blocker_of (detail e) \<noteq> thin_authorship))"

lemma failed_run_reads_failed:
  assumes "failed_run k s"
  shows "bs_state (seen_status se k s) = Failed"
proof -
  define f where "f = jp_ledger (js_space s k)"
  note a = assms[unfolded failed_run_def Let_def, folded f_def]
  obtain ds resume where l: "ledger_facts (event_list f) = Inr (ds, resume)"
    using completed_roles_total a by (fastforce simp: ledger_facts_def resume_point_def)
  obtain e where e: "terminal_event (event_list f) = Some e" "kind e = RUN_FAILED"
      "named_blocker_of (detail e) \<noteq> thin_authorship" using a by blast
  have "bs_state (build_status env f) = Failed" for env
    using a e by (simp add: build_status_readable[OF _ readable_events l] Let_def failed_status_def)
  then show ?thesis by (simp add: seen_status_def Let_def f_def)
qed

lemma failed_run_quiet:
  assumes "failed_run k s" and "readable g" and "contents g \<noteq> None" and "list_all quiet_note ns"
    and "event_list g = event_list (jp_ledger (js_space s k)) @ ns" and "jp_ledger (js_space t k) = g"
  shows "failed_run k t"
proof -
  define f where "f = jp_ledger (js_space s k)"
  note a = assms(1)[unfolded failed_run_def Let_def, folded f_def]
  have g: "event_list g = event_list f @ ns" using assms(5) by (simp add: f_def)
  have "\<not> handoff_awaiting_n3 g"
  proof
    assume "handoff_awaiting_n3 g"
    then obtain later where l: "after_handoff (rev (event_list g)) [] = Some later" "still_awaiting later"
      using assms(2,3) by (auto simp: handoff_awaiting_n3_def readable_events split: option.splits)
    have "after_handoff (rev (event_list g)) [] = map_option (\<lambda>l. l @ ns) (after_handoff (rev (event_list f)) [])"
      using after_handoff_quiet[of "rev ns" "rev (event_list f)" "[]"] after_handoff_append[of _ "[]" ns] assms(4)
      by (simp add: g list_all_rev)
    then obtain l0 where "after_handoff (rev (event_list f)) [] = Some l0" "still_awaiting l0"
      using l still_awaiting_append by (cases "after_handoff (rev (event_list f)) []") auto
    then have "handoff_awaiting_n3 f" using a readable_events[of f] by (auto simp: handoff_awaiting_n3_def)
    then show False using a by blast
  qed
  moreover have "list_all reopen_ok (event_list g)"
    using a assms(4) quiet_reopen_ok by (auto simp: g list_all_iff)
  ultimately show ?thesis
    using a assms(2,3,4,6) quiet_terminal[OF assms(4)] by (auto simp: failed_run_def Let_def g)
qed

text \<open>A plain start in a workspace that reads as failed launches a thread, whatever is registered, and leaves
  only quiet notes.\<close>

lemma failed_state_restarts:
  assumes "bs_state (seen_status se (rq_out rq) s) = Failed" and "readable (jp_ledger (js_space s (rq_out rq)))"
    and "contents (jp_ledger (js_space s (rq_out rq))) \<noteq> None" and "st_cli_ready se" and "\<not> rq_start_over rq"
    and "\<not> rq_intake_changed rq" and "rq_attach rq = None"
  obtains rp h ns where "fst (start_runner_build se rq s) = Inr rp" and "\<not> rp_already_running rp"
    and "readable h" and "contents h \<noteq> None" and "list_all quiet_note ns"
    and "event_list h = event_list (jp_ledger (js_space s (rq_out rq))) @ ns"
    and "jp_ledger (js_space (snd (start_runner_build se rq s)) (rq_out rq)) = h"
    and "jp_threads (js_space (snd (start_runner_build se rq s)) (rq_out rq)) = jp_threads (js_space s (rq_out rq)) + 1"
proof -
  define out where "out = rq_out rq"
  define f where "f = jp_ledger (js_space s out)"
  have f: "readable f" "contents f \<noteq> None" using assms(2,3) by (simp_all add: f_def out_def)
  have ws: "only_notes (run_writes [write_when False (rebase_write se rq), reenter_write se rq (jp_has (js_space s out))])"
    using reenter_only[OF assms(5)] write_when_only[of False "rebase_write se rq"]
    by (intro run_writes_only) simp
  obtain g ns where g: "run_writes [write_when False (rebase_write se rq), reenter_write se rq (jp_has (js_space s out))] f = (None, g)"
    "readable g" "contents g \<noteq> None" "list_all quiet_note ns" "event_list g = event_list f @ ns"
    using ws f unfolding only_notes_def by blast
  have ws2: "only_notes (run_writes (launch_writes se rq True True None))"
    unfolding launch_writes_def
    using open_write_only resume_writes_only write_when_only[OF resume_writes_only(4)]
    by (intro run_writes_only) (simp add: attach_writes_def assms(7))
  obtain h ms where h: "run_writes (launch_writes se rq True True None) g = (None, h)"
    "readable h" "contents h \<noteq> None" "list_all quiet_note ms" "event_list h = event_list g @ ms"
    using ws2 g unfolding only_notes_def by blast
  have start: "start_runner_build se rq s = launch se rq out True True None (ledger_set out g s)"
    using assms(1) f(2) g(1) assms(5,6) by (auto simp del: run_writes.simps simp add: start_runner_build_def restart_failed_def Let_def has_ledger_def out_def[symmetric] f_def[symmetric])
  obtain rp where rp: "fst (start_runner_build se rq s) = Inr rp" "\<not> rp_already_running rp"
    using assms(4) h by (simp add: start launch_def Let_def plain_reply_def)
  show ?thesis
  proof (rule that[OF rp h(2,3), of "ns @ ms"])
    show "list_all quiet_note (ns @ ms)" using g h by simp
    show "event_list h = event_list (jp_ledger (js_space s (rq_out rq))) @ ns @ ms" using g h by (simp add: f_def out_def)
    show "jp_ledger (js_space (snd (start_runner_build se rq s)) (rq_out rq)) = h"
      "jp_threads (js_space (snd (start_runner_build se rq s)) (rq_out rq)) = jp_threads (js_space s (rq_out rq)) + 1"
      using assms(4) h by (simp_all add: start launch_def Let_def out_def[symmetric])
  qed
qed

lemma failed_run_restarts:
  assumes "failed_run (rq_out rq) s" and "st_cli_ready se" and "\<not> rq_start_over rq"
    and "\<not> rq_intake_changed rq" and "rq_attach rq = None"
  obtains rp where "fst (start_runner_build se rq s) = Inr rp" and "\<not> rp_already_running rp"
    and "failed_run (rq_out rq) (snd (start_runner_build se rq s))"
    and "jp_threads (js_space (snd (start_runner_build se rq s)) (rq_out rq)) = jp_threads (js_space s (rq_out rq)) + 1"
proof -
  have f: "readable (jp_ledger (js_space s (rq_out rq)))" "contents (jp_ledger (js_space s (rq_out rq))) \<noteq> None"
    using assms(1) by (simp_all add: failed_run_def Let_def)
  show ?thesis
    by (rule failed_state_restarts[OF failed_run_reads_failed[OF assms(1)] f assms(2-5)])
      (rule that; (assumption | rule failed_run_quiet[OF assms(1)]))
qed

text \<open>The other side of a live run: a thread whose model call has passed its deadline
  reads as failed although it is registered and may still write, and a plain start launches a second thread
  beside it.\<close>

theorem overdue_run_is_doubled:
  assumes "jp_registered (js_space s (rq_out rq))" and "\<not> jp_crash (js_space s (rq_out rq))"
    and "readable (jp_ledger (js_space s (rq_out rq)))" and "contents (jp_ledger (js_space s (rq_out rq))) \<noteq> None"
    and "list_all reopen_ok (event_list (jp_ledger (js_space s (rq_out rq))))"
    and "terminal_event (event_list (jp_ledger (js_space s (rq_out rq)))) = None"
    and "model_call_overdue (st_status se (rq_out rq)) (current_call (event_list (jp_ledger (js_space s (rq_out rq)))))
       (idle_time (st_status se (rq_out rq)) (event_list (jp_ledger (js_space s (rq_out rq))))) = Some d"
    and "st_cli_ready se" and "\<not> rq_start_over rq" and "\<not> rq_intake_changed rq" and "rq_attach rq = None"
  shows "jp_threads (js_space (snd (start_runner_build se rq s)) (rq_out rq)) = jp_threads (js_space s (rq_out rq)) + 1"
proof -
  define sp where "sp = js_space s (rq_out rq)"
  define env where "env = (st_status se (rq_out rq))\<lparr>se_worker_live := jp_registered sp, se_crash_marker := jp_crash sp\<rparr>"
  define evs where "evs = event_list (jp_ledger sp)"
  note a = assms[folded sp_def, folded evs_def]
  have ev: "events (jp_ledger sp) = Inr evs" using a(3) readable_events by (simp add: evs_def)
  obtain ds resume where l: "ledger_facts evs = Inr (ds, resume)"
    using completed_roles_total a(5) by (fastforce simp: ledger_facts_def resume_point_def)
  have "model_call_overdue env (current_call evs) (idle_time env evs) = Some d" using a(7) by (simp add: env_def)
  then have "bs_state (open_status env evs p) = Failed" for p by (simp add: open_status_def Let_def)
  then have "bs_state (build_status env (jp_ledger sp)) = Failed"
    using a(1,2,4,6) by (simp add: build_status_readable[OF _ ev l] Let_def env_def)
  then have f: "bs_state (seen_status se (rq_out rq) s) = Failed" by (simp add: seen_status_def Let_def env_def sp_def)
  show ?thesis by (rule failed_state_restarts[OF f assms(3,4,8-11)])
qed

text \<open>Resuming a failed run does not withdraw its verdict: the workspace still reads as
  failed while the resumed thread works, so a second start launches a second thread in it.\<close>

theorem resumed_run_is_started_again:
  assumes "failed_run (rq_out rq) s" and "st_cli_ready se" and "\<not> rq_start_over rq"
    and "\<not> rq_intake_changed rq" and "rq_attach rq = None"
  defines "s1 \<equiv> snd (start_runner_build se rq s)"
  shows "bs_state (seen_status se (rq_out rq) s1) = Failed \<and>
     jp_threads (js_space s1 (rq_out rq)) = jp_threads (js_space s (rq_out rq)) + 1 \<and>
     jp_threads (js_space (snd (start_runner_build se rq s1)) (rq_out rq)) = jp_threads (js_space s (rq_out rq)) + 2"
proof -
  have f1: "failed_run (rq_out rq) s1" "jp_threads (js_space s1 (rq_out rq)) = jp_threads (js_space s (rq_out rq)) + 1"
    using failed_run_restarts[OF assms(1-5)] unfolding s1_def by blast+
  moreover have "jp_threads (js_space (snd (start_runner_build se rq s1)) (rq_out rq)) = jp_threads (js_space s1 (rq_out rq)) + 1"
    using failed_run_restarts[OF f1(1) assms(2-5)] by blast
  ultimately show ?thesis using failed_run_reads_failed by simp
qed

section \<open>A refused start can lose the verdict\<close>

lemma terminal_after_rebase: "is_rebase e \<Longrightarrow> terminal_event (es @ [e]) = None"
  by (simp add: terminal_event_def terminal_step_def is_rebase_def)

lemma rebase_write_readable:
  assumes "readable f" and "inputs_hash (event_list f) \<noteq> None" and "inputs_hash (event_list f) \<noteq> Some (rq_inputs_hash rq)"
  obtains g e where "rebase_write se rq f = (None, g)" and "readable g" and "contents g \<noteq> None" and "is_rebase e"
    and "event_list g = event_list f @ [e]"
proof -
  define p where "p = [(inputs_rebased_key, PBool True), (''inputs_hash'', PStr (rq_inputs_hash rq)),
      (''previous_inputs_hash'', case inputs_hash (event_list f) of None \<Rightarrow> PNone | Some h \<Rightarrow> PStr h),
      (''reason'', PStr ''intake changed on Continue with new answers'')]"
  define now where "now = st_clock se (next_seq (event_list f))"
  define d where "d = ''INPUTS REBASED: '' @ ''intake changed on Continue with new answers''"
  have p: "pv_ok (PDict p)" by (simp add: p_def inputs_rebased_key_def split: option.splits)
  obtain g where g: "append_event now NOTE None d p f = Inr (new_event now NOTE None d p (event_list f), g)"
    "readable g" "event_list g = event_list f @ [stored (new_event now NOTE None d p (event_list f))]" "contents g \<noteq> None"
    using append_readable[OF assms(1) p] by blast
  have w: "rebase_write se rq f = (None, g)"
    using g(1) assms(2,3) unfolding rebase_write_def reading_def readable_events[OF assms(1)] write_when_def
    by (simp add: rebase_inputs_def readable_events[OF assms(1)] p_def now_def d_def)
  have "is_rebase (stored (new_event now NOTE None d p (event_list f)))"
    using p by (simp add: is_rebase_def stored_def new_event_def get_or_def dget_canon_dict)
      (simp add: p_def inputs_rebased_key_def)
  then show ?thesis using that w g by blast
qed

text \<open>Property C27. Continue with new answers on a host whose coding worker is not ready: the start is
  refused, no thread runs, and yet the ledger was rebased before the refusal, so the recorded failure is gone.\<close>

theorem refused_continue_loses_verdict:
  assumes "failed_run (rq_out rq) s" and "\<not> st_cli_ready se" and "\<not> rq_start_over rq" and "rq_intake_changed rq"
    and "inputs_hash (event_list (jp_ledger (js_space s (rq_out rq)))) \<notin> {None, Some (rq_inputs_hash rq)}"
  shows "fst (start_runner_build se rq s) = Inl CodeCliUnavailable \<and>
     terminal_event (event_list (jp_ledger (js_space (snd (start_runner_build se rq s)) (rq_out rq)))) = None \<and>
     jp_threads (js_space (snd (start_runner_build se rq s)) (rq_out rq)) = jp_threads (js_space s (rq_out rq))"
proof -
  define out where "out = rq_out rq"
  define f where "f = jp_ledger (js_space s out)"
  have f: "readable f" "contents f \<noteq> None"
    using assms(1) by (simp_all add: failed_run_def Let_def f_def out_def)
  have h: "inputs_hash (event_list f) \<noteq> None" "inputs_hash (event_list f) \<noteq> Some (rq_inputs_hash rq)"
    using assms(5) by (auto simp: f_def out_def)
  obtain g e where g: "rebase_write se rq f = (None, g)" "readable g" "contents g \<noteq> None" "is_rebase e"
    "event_list g = event_list f @ [e]"
    using rebase_write_readable[OF f(1) h] by blast
  have on: "only_notes (reenter_write se rq (jp_has (js_space s out)))"
    by (rule reenter_only[OF assms(3)])
  obtain h ns where hn: "reenter_write se rq (jp_has (js_space s out)) g = (None, h)" "list_all quiet_note ns"
    "event_list h = event_list g @ ns"
    using on g(2,3) unfolding only_notes_def by blast
  have w: "run_writes [write_when (\<not> rq_start_over rq \<and> rq_intake_changed rq) (rebase_write se rq),
      reenter_write se rq (jp_has (js_space s out))] f = (None, h)"
    using g(1) hn(1) assms(3,4) by (simp add: write_when_def)
  have st: "bs_state (seen_status se out s) = Failed"
    using failed_run_reads_failed assms(1) by (simp add: out_def)
  have start: "start_runner_build se rq s = launch se rq out True True None (ledger_set out h s)"
    using st f(2) w assms(3)
    by (auto simp del: run_writes.simps simp add: start_runner_build_def restart_failed_def Let_def has_ledger_def
        out_def[symmetric] f_def[symmetric])
  have "terminal_event (event_list h) = None"
    unfolding hn(3) g(5) quiet_terminal[OF hn(2)] by (rule terminal_after_rebase[OF g(4)])
  then show ?thesis using assms(2) by (simp add: start launch_def out_def[symmetric])
qed

section \<open>The refund\<close>

lemma generation_limit: "\<exists>l. limit_of env ''generation'' = Inr (l, ''lifetime'')"
  by (simp add: limit_of_def trial_counters_def split: option.splits)

lemma record_crash_simps [simp]:
  "js_db (record_crash se k ty txt s) = js_db s" "jp_quota (js_space (record_crash se k ty txt s) j) = jp_quota (js_space s j)"
  by (auto simp: record_crash_def split: prod.splits option.splits)

lemma refund_clears [simp]: "jp_quota (js_space (refund_generation_quota env today now k s) k) = None"
  by (simp add: refund_generation_quota_def clear_quota_marker_def Let_def split: option.splits)

lemma refund_unmarked: "jp_quota (js_space s k) = None \<Longrightarrow> refund_generation_quota env today now k s = s"
  by (simp add: refund_generation_quota_def)

lemma run_ended_unmarked:
  "jp_quota (js_space s k) = None \<Longrightarrow> js_db (run_ended se today now k answer s) = js_db s"
  by (auto simp: run_ended_def refund_unmarked clear_quota_marker_def split: run_answer.splits sum.splits option.splits)

lemma refund_marked:
  assumes "db_ok (js_db s)" and "jp_quota (js_space s k) = Some a" and "is_limited_account env (js_db s) (Some (py_strip a))"
  shows "usage_at j (js_db (refund_generation_quota env today now k s)) =
     (if j = (py_strip a, ''generation'', ''lifetime'') then max 0 (usage_at j (js_db s) - 1) else usage_at j (js_db s))"
proof -
  obtain l where l: "limit_of env ''generation'' = Inr (l, ''lifetime'')" using generation_limit by blast
  have ne: "py_strip a \<noteq> []" using assms(3) by (auto simp: is_limited_account_def)
  have d: "js_db (refund_generation_quota env today now k s) = snd (usage_dec now (py_strip a, ''generation'', ''lifetime'') (js_db s))"
    using assms(2,3) ne by (simp add: refund_generation_quota_def refund_def l period_of_def clear_quota_marker_def usage_dec_def Let_def)
  show ?thesis unfolding d using counters.used_sub1[OF assms(1)] by (cases j) simp
qed

text \<open>The run ended badly: the runner raised, or its ledger ends in a failure.\<close>

definition ended_badly :: "run_answer \<Rightarrow> string \<Rightarrow> job_state \<Rightarrow> bool" where
  "ended_badly answer k s = (case answer of
       RunRaised ty txt \<Rightarrow> True
     | RunHandedOff reopened \<Rightarrow> False
     | RunReturned \<Rightarrow> (case events (jp_ledger (js_space s k)) of
           Inl x \<Rightarrow> False
         | Inr evs \<Rightarrow> (case terminal_event evs of None \<Rightarrow> False | Some e \<Rightarrow> kind e = RUN_FAILED)))"

text \<open>Property C36. A generation that ends badly is given back exactly once: the charged account's
  lifetime count falls by one, no other count moves, and however often the end is reported again for
  that workspace nothing more is given back.\<close>

theorem generation_refunded_once:
  assumes "db_ok (js_db s)" and "jp_quota (js_space s k) = Some a"
    and "is_limited_account (st_environ se) (js_db s) (Some (py_strip a))" and "ended_badly answer k s"
  shows "usage_at j (js_db (run_ended se today now k answer s)) =
       (if j = (py_strip a, ''generation'', ''lifetime'') then max 0 (usage_at j (js_db s) - 1) else usage_at j (js_db s)) \<and>
     js_db (run_ended se today' now' k answer' (run_ended se today now k answer s)) = js_db (run_ended se today now k answer s)"
proof -
  define t where "t = (case answer of RunRaised ty txt \<Rightarrow> record_crash se k ty txt s | _ \<Rightarrow> s)"
  have t: "js_db t = js_db s" "jp_quota (js_space t k) = Some a"
    using assms(2) by (simp_all add: t_def split: run_answer.splits)
  have e: "run_ended se today now k answer s = refund_generation_quota (st_environ se) today now k t"
    using assms(4) by (auto simp: run_ended_def ended_badly_def t_def split: run_answer.splits sum.splits option.splits)
  show ?thesis
    using refund_marked[of t k a "st_environ se" j today now] assms(1,3) t
    by (simp add: e run_ended_unmarked)
qed

section \<open>A crash is visible\<close>

lemma before_char_append: "c \<in> set xs \<Longrightarrow> before_char c (xs @ ys) = before_char c xs"
  by (induction xs) (auto simp: before_char_def)

lemma crash_detail_blocker: "named_blocker_of (crash_detail env ty txt) \<noteq> thin_authorship"
proof -
  define rest where "rest = (case txt of [] \<Rightarrow> ty | _ \<Rightarrow> txt)"
  have "\<exists>r. crash_detail env ty txt = ''build thread crashed:'' @ r"
    by (simp add: crash_detail_def)
  then obtain r where r: "crash_detail env ty txt = ''build thread crashed:'' @ r" by blast
  have "before_char CHR '':'' (''build thread crashed:'' @ r) = ''build thread crashed''"
    by (subst before_char_append) (simp_all add: before_char_def)
  then show ?thesis by (simp add: named_blocker_of_def r py_strip_def thin_authorship_def py_space_def)
qed

lemma terminal_after_failure: "kind e = RUN_FAILED \<Longrightarrow> terminal_event (es @ [e]) = Some e"
  by (simp add: terminal_event_def terminal_step_def)

lemma build_status_recorded_failure:
  assumes "events f = Inr evs" and "terminal_event evs = Some e" and "kind e = RUN_FAILED"
    and "named_blocker_of (detail e) \<noteq> thin_authorship" and "\<not> handoff_awaiting_n3 f" and "contents f \<noteq> None"
  shows "bs_state (build_status env f) = Failed"
proof (cases "ledger_facts evs")
  case (Inr b)
  then show ?thesis
    using assms(2-5) by (cases b) (simp add: build_status_readable[OF assms(6,1)] Let_def failed_status_def)
qed (use assms in \<open>simp add: build_status_def\<close>)

lemma crash_event_not_handoff:
  "event_honesty (logged se RUN_FAILED r d [(''reason'', PStr a), (''location'', PStr b), (''exception'', PStr c)] evs) = []"
  "event_outcome (logged se RUN_FAILED r d [(''reason'', PStr a), (''location'', PStr b), (''exception'', PStr c)] evs) = []"
  by (simp_all add: logged_def stored_def new_event_def get_or_def event_honesty_def event_outcome_def dget_canon_dict)

text \<open>A build thread that dies leaves a build that reads as failed: unless the Store gate is
  awaited, a crash of the runner is shown as a failure, whether or not it could be written to the ledger.\<close>

theorem crash_reads_failed:
  assumes "contents (jp_ledger (js_space s k)) \<noteq> None" and "\<not> handoff_awaiting_n3 (jp_ledger (js_space s k))"
    and "readable (jp_ledger (js_space s k)) \<or> \<not> is_ok (events (jp_ledger (js_space s k)))"
  shows "bs_state (seen_status se' k (end_thread se today now latest k (RunRaised ty txt) s)) = Failed"
proof -
  define f where "f = jp_ledger (js_space s k)"
  define t where "t = end_thread se today now latest k (RunRaised ty txt) s"
  have led: "jp_ledger (js_space t k) = jp_ledger (js_space (record_crash se k ty txt s) k)"
    by (simp add: t_def end_thread_def Let_def thread_left_def run_ended_def refund_generation_quota_def
        clear_quota_marker_def split: option.splits sum.splits)
  show ?thesis
  proof (cases "readable f")
    case False
    then obtain x where x: "events f = Inl x" using assms(3) by (cases "events f") (auto simp: f_def result_simps)
    then have "jp_ledger (js_space t k) = f"
      by (simp add: led record_crash_def crash_write_def reading_def f_def)
    then show ?thesis using x assms(1) by (simp add: seen_status_def Let_def build_status_def t_def[symmetric] f_def[symmetric])
  next
    case True
    define p where "p = [(''reason'', PStr ''build_thread_crashed''),
        (''location'', PStr (case interrupted_role (event_list f) of Some r \<Rightarrow> role_value r | None \<Rightarrow> [])),
        (''exception'', PStr (san_text (st_status se k) ty))]"
    define e where "e = logged se RUN_FAILED None (crash_detail (st_status se k) ty txt) p (event_list f)"
    have p: "pv_ok (PDict p)" by (simp add: p_def)
    obtain g where g: "log_event se RUN_FAILED None (crash_detail (st_status se k) ty txt) p f = (None, g)" "readable g"
      "event_list g = event_list f @ [e]" "contents g \<noteq> None"
      using log_event_readable[OF True p] unfolding e_def by blast
    have "crash_write se k ty txt f = (None, g)"
      using g(1) by (simp add: crash_write_def reading_def readable_events[OF True] p_def)
    then have l: "jp_ledger (js_space t k) = g"
      by (simp add: led record_crash_def f_def)
    have ke: "kind e = RUN_FAILED" "detail e = crash_detail (st_status se k) ty txt"
      by (simp_all add: e_def logged_def stored_def new_event_def)
    have "\<not> is_handoff e"
      unfolding e_def p_def by (simp add: is_handoff_def crash_event_not_handoff handoff_word_def)
    then have "after_handoff (rev (event_list g)) [] = map_option (\<lambda>l. l @ [e]) (after_handoff (rev (event_list f)) [])"
      using after_handoff_append[of _ "[]" "[e]"] by (simp add: g(3))
    moreover have "case after_handoff (rev (event_list f)) [] of None \<Rightarrow> True | Some later \<Rightarrow> \<not> still_awaiting later"
      using assms(1,2) readable_events[OF True] by (auto simp: handoff_awaiting_n3_def f_def split: option.splits)
    ultimately have "\<not> handoff_awaiting_n3 g"
      using still_awaiting_append g(2) by (auto simp: handoff_awaiting_n3_def readable_events split: option.splits)
    then have "bs_state (build_status env g) = Failed" for env
      using build_status_recorded_failure[OF readable_events[OF g(2)] _ ke(1)] g(3,4) terminal_after_failure[OF ke(1)]
        crash_detail_blocker by (simp add: ke(2))
    then show ?thesis by (simp add: seen_status_def Let_def l t_def[symmetric])
  qed
qed


section \<open>Examples\<close>

text \<open>A failed run in workspace \<open>p\<close>, charged to an account of the accounts example.\<close>

definition demo_failed_run :: "build_event list" where
  "demo_failed_run = [
     \<lparr>seq = 1, ts = ''10'', kind = RUN_STARTED, role = None, detail = ''build of p'', payload = [(''inputs_hash'', PStr ''h1'')]\<rparr>,
     \<lparr>seq = 2, ts = ''11'', kind = GATE_PASSED, role = Some COLLECTOR, detail = [], payload = []\<rparr>,
     \<lparr>seq = 3, ts = ''12'', kind = RUN_FAILED, role = None, detail = ''over'', payload = []\<rparr>]"

definition demo_space :: job_space where
  "demo_space = \<lparr>jp_ledger = file_of demo_failed_run, jp_has = (\<lambda>p. True), jp_quota = Some ''acct_a'', jp_crash = False,
     jp_registered = False, jp_threads = 0, jp_n3 = False\<rparr>"

definition demo_jobs :: job_state where
  "demo_jobs = \<lparr>js_space = (\<lambda>k. if k = ''p'' then demo_space
      else demo_space\<lparr>jp_ledger := no_ledger, jp_has := (\<lambda>p. False), jp_quota := None\<rparr>), js_db = demo_db\<rparr>"

definition demo_start :: start_env where
  "demo_start = \<lparr>st_environ = quota_environ, st_status = (\<lambda>k. demo_status_env), st_clock = (\<lambda>n. ''20''),
     st_cli_ready = True, st_digest = (\<lambda>s. s)\<rparr>"

definition demo_ask :: start_request where
  "demo_ask = \<lparr>rq_out = ''p'', rq_cycle = [], rq_quota_account = Some ''acct_a'', rq_identity = None, rq_attach = None,
     rq_platform = ''plt_0123456789abcdef'', rq_start_over = False, rq_intake_changed = False, rq_product_id = ''p'',
     rq_inputs_hash = ''h2''\<rparr>"

lemma demo_spaces [simp]:
  "jp_ledger (js_space demo_jobs ''p'') = file_of demo_failed_run"
  "jp_quota (js_space demo_jobs ''p'') = Some ''acct_a''" "jp_threads (js_space demo_jobs k) = 0" "js_db demo_jobs = demo_db"
  by (simp_all add: demo_jobs_def demo_space_def)

lemma demo_ask_simps [simp]:
  "rq_out demo_ask = ''p''" "rq_start_over demo_ask = False" "rq_intake_changed demo_ask = False" "rq_attach demo_ask = None"
  by (simp_all add: demo_ask_def)

lemma demo_stored: "map stored demo_failed_run = demo_failed_run" "map stored demo_history = demo_history"
  by (simp_all add: demo_failed_run_def demo_history_def stored_def canon_dict_def)

lemma demo_run_readable: "readable (file_of demo_failed_run)" "event_list (file_of demo_failed_run) = demo_failed_run"
  using file_of_readable[of demo_failed_run] demo_stored by (simp_all add: demo_failed_run_def)

lemma demo_history_readable: "readable (file_of demo_history)" "event_list (file_of demo_history) = demo_history"
  using file_of_readable[of demo_history] demo_stored by (simp_all add: demo_history_def)

lemma demo_not_awaiting: "\<not> handoff_awaiting_n3 (file_of demo_failed_run)" "\<not> handoff_awaiting_n3 (file_of demo_history)"
  using demo_run_readable demo_history_readable
  by (simp_all add: handoff_awaiting_n3_def readable_events)
     (simp_all add: demo_failed_run_def demo_history_def is_handoff_def event_honesty_def event_outcome_def handoff_word_def)

lemma demo_contents: "contents (file_of es) \<noteq> None"
  by (simp add: file_of_def)

lemma demo_jobs_readable: "\<forall>k. readable (jp_ledger (js_space demo_jobs k))"
  using demo_run_readable by (simp add: demo_jobs_def demo_space_def)

lemma demo_failed: "failed_run ''p'' demo_jobs"
proof -
  note n = demo_not_awaiting(1) demo_contents
  have t: "terminal_event demo_failed_run = Some (last demo_failed_run)" "list_all reopen_ok demo_failed_run"
    by (simp_all add: demo_failed_run_def terminal_event_def terminal_step_def reopen_ok_def reopens_def)
  have "kind (last demo_failed_run) = RUN_FAILED" "named_blocker_of (detail (last demo_failed_run)) \<noteq> thin_authorship"
    by (simp_all add: demo_failed_run_def named_blocker_of_def thin_authorship_def)
  then show ?thesis using n t demo_run_readable by (simp add: failed_run_def Let_def)
qed

theorem start_keeps_history_witness:
  "(\<exists>new. event_list (jp_ledger (js_space (snd (start_runner_build demo_start demo_ask demo_jobs)) ''p'')) = demo_failed_run @ new) \<and>
   js_space (snd (start_runner_build demo_start demo_ask demo_jobs)) ''q'' = js_space demo_jobs ''q''"
proof -
  note h = start_keeps_history[OF demo_jobs_readable, of demo_start demo_ask]
  show ?thesis
    using h[THEN conjunct1, THEN spec, of "''p''"] h[THEN conjunct2, THEN conjunct1, THEN spec, of "''q''"]
    by (simp add: demo_run_readable(2))
qed

definition demo_live :: job_state where
  "demo_live = \<lparr>js_space = (\<lambda>k. demo_space\<lparr>jp_ledger := file_of demo_history, jp_registered := True, jp_threads := 1\<rparr>), js_db = demo_db\<rparr>"

theorem live_run_not_doubled_witness:
  "jp_threads (js_space (snd (start_runner_build demo_start demo_ask demo_live)) ''p'') = 1"
proof -
  note r = demo_history_readable
  have c: "terminal_event demo_history = None" "list_all reopen_ok demo_history"
    "model_call_overdue demo_status_env (current_call demo_history) (idle_time demo_status_env demo_history) = None"
    "idle_time demo_status_env demo_history \<le> 1800"
    by code_simp+
  have "at_work demo_start (rq_out demo_ask) demo_live"
    using r c by (simp add: at_work_def Let_def demo_start_def demo_live_def demo_space_def) (simp add: file_of_def)
  then show ?thesis
    using live_run_not_doubled[of demo_start demo_ask demo_live] r by (simp add: demo_live_def demo_space_def)
qed

theorem resumed_run_is_started_again_witness:
  "jp_threads (js_space (snd (start_runner_build demo_start demo_ask (snd (start_runner_build demo_start demo_ask demo_jobs)))) ''p'') = 2"
  using resumed_run_is_started_again[of demo_ask demo_jobs demo_start] demo_failed
  by (simp add: demo_start_def)

theorem refused_continue_loses_verdict_witness:
  "fst (start_runner_build (demo_start\<lparr>st_cli_ready := False\<rparr>) (demo_ask\<lparr>rq_intake_changed := True\<rparr>) demo_jobs) = Inl CodeCliUnavailable \<and>
   terminal_event (event_list (jp_ledger (js_space (snd (start_runner_build (demo_start\<lparr>st_cli_ready := False\<rparr>)
     (demo_ask\<lparr>rq_intake_changed := True\<rparr>) demo_jobs)) ''p''))) = None \<and>
   terminal_event demo_failed_run \<noteq> None"
proof -
  have h: "inputs_hash demo_failed_run = Some ''h1''" "terminal_event demo_failed_run \<noteq> None"
    by code_simp+
  show ?thesis
    using refused_continue_loses_verdict[of "demo_ask\<lparr>rq_intake_changed := True\<rparr>" demo_jobs "demo_start\<lparr>st_cli_ready := False\<rparr>"]
      demo_failed demo_run_readable(2) h by (simp add: demo_ask_def)
qed

theorem generation_refunded_once_witness:
  "get_usage ''acct_a'' ''generation'' ''lifetime'' (js_db (run_ended demo_start ''d'' 9 ''p'' RunReturned demo_jobs)) = 0"
proof -
  have "ended_badly RunReturned ''p'' demo_jobs"
  proof -
    have "terminal_event demo_failed_run = Some (last demo_failed_run)" "kind (last demo_failed_run) = RUN_FAILED"
      by (simp_all add: demo_failed_run_def terminal_event_def terminal_step_def)
    then show ?thesis using readable_events[OF demo_run_readable(1)] demo_run_readable(2) by (simp add: ended_badly_def)
  qed
  moreover have "db_ok demo_db" using db_reach_ok[OF demo_reach] .
  moreover have "py_strip ''acct_a'' = ''acct_a''" by code_simp
  ultimately show ?thesis
    using generation_refunded_once[of demo_jobs "''p''" "''acct_a''" demo_start RunReturned "(''acct_a'', ''generation'', ''lifetime'')" "''d''" 9]
      demo_limited demo_used by (simp add: demo_start_def usage_at_def)
qed

theorem crash_reads_failed_witness:
  "bs_state (seen_status demo_start ''p'' (end_thread demo_start ''d'' 9 True ''p'' (RunRaised ''OSError'' ''disk full'') demo_live)) = Failed"
proof -
  show ?thesis
    using demo_history_readable(1) demo_not_awaiting(2) demo_contents crash_reads_failed[of demo_live "''p''" demo_start demo_start "''d''" 9 True "''OSError''" "''disk full''"]
    by (simp add: demo_live_def demo_space_def)
qed

end
