(* ===== verification/ChangeQueue.thy ===== *)
theory ChangeQueue
  imports Auth
begin

text \<open>
  Signed change requests (\<open>change_requests/\<close>): the schema validator and the three
  schemas, signing and the register of public keys, the queue on disk, the dry run,
  the intake pipeline and the emission of repair requests.  The queue is the
  directory of its item files, by file name.  Arguments of the model: Ed25519 and
  base64, key generation, SHA-256, the removal of instruction-like texts (regular
  expressions), and one clock reading per operation.  The Redis index is left out; the dash of
  three descriptive texts is written as a hyphen.
\<close>

section \<open>Flags\<close>

definition change_request_intake_enabled :: "environ \<Rightarrow> bool" where
  "change_request_intake_enabled env = env_flag env ''CHANGE_REQUEST_INTAKE_ENABLED''"

definition resident_emit_change_requests_enabled :: "environ \<Rightarrow> bool" where
  "resident_emit_change_requests_enabled env = env_flag env ''RESIDENT_EMIT_CHANGE_REQUESTS''"

section \<open>The schema validator\<close>

text \<open>\<open>type(v).__name__\<close> and the names of \<open>_TYPE_MAP\<close> a value is an instance of.\<close>

fun type_name :: "pyval \<Rightarrow> string" where
  "type_name PNone = ''NoneType''"
| "type_name (PBool b) = ''bool''"
| "type_name (PInt i) = ''int''"
| "type_name (PFloat s) = ''float''"
| "type_name (PStr s) = ''str''"
| "type_name (PList xs) = ''list''"
| "type_name (PDict d) = ''dict''"

fun instance_of :: "pyval \<Rightarrow> string list" where
  "instance_of PNone = [''null'']"
| "instance_of (PBool b) = [''boolean'', ''integer'', ''number'']"
| "instance_of (PInt i) = [''integer'', ''number'']"
| "instance_of (PFloat s) = [''number'']"
| "instance_of (PStr s) = [''string'']"
| "instance_of (PList xs) = [''array'']"
| "instance_of (PDict d) = [''object'']"

definition type_map :: "string list" where
  "type_map = [''object'', ''array'', ''string'', ''number'', ''integer'', ''boolean'', ''null'']"

definition expected_types :: "pyval \<Rightarrow> string list" where
  "expected_types t = (case t of PList xs \<Rightarrow> map py_str xs | _ \<Rightarrow> [py_str t])"

text \<open>The errors of the type declaration; a value that has one is not looked into.\<close>

definition type_errors :: "pyval \<Rightarrow> pyval \<Rightarrow> string \<Rightarrow> string list" where
  "type_errors v t path =
     (if \<not> truthy t then []
      else
        (let types = expected_types t; known = filter (\<lambda>n. n \<in> set type_map) types
         in if ''boolean'' \<notin> set types \<and> type_name v = ''bool'' then [path @ '': expected '' @ py_str t @ '', got boolean'']
            else if known \<noteq> [] \<and> \<not> list_ex (\<lambda>n. n \<in> set (instance_of v)) known then
              [path @ '': expected type '' @ py_str t @ '', got '' @ type_name v]
            else []))"

definition enum_errors :: "pyval \<Rightarrow> (string, pyval) dict \<Rightarrow> string \<Rightarrow> string list" where
  "enum_errors v s path = (case dget s ''enum'' of
       Some (PList allowed) \<Rightarrow> (if v \<in> set allowed then []
          else [path @ '': '' @ py_repr v @ '' not in enum '' @ py_repr (PList allowed)])
     | _ \<Rightarrow> [])"

definition required_errors :: "(string, pyval) dict \<Rightarrow> (string, pyval) dict \<Rightarrow> string \<Rightarrow> string list" where
  "required_errors d s path =
     map (\<lambda>r. path @ '': missing required property '' @ [CHR 0x27] @ r @ [CHR 0x27])
       (filter (\<lambda>r. dget d r = None) (strs_of (get0 s ''required'')))"

definition extra_errors :: "(string, pyval) dict \<Rightarrow> (string, pyval) dict \<Rightarrow> string \<Rightarrow> string list" where
  "extra_errors d s path =
     (let extra = sorted_set (filter (\<lambda>k. dget (dict_of (get0 s ''properties'')) k = None) (dkeys d))
      in if get0 s ''additionalProperties'' = PBool False \<and> extra \<noteq> []
         then [path @ '': unexpected properties '' @ py_repr (PList (map PStr extra))] else [])"

lemma size_pairs: "size_prod (\<lambda>x. 0) size = (\<lambda>x. Suc (size (snd x)))"
  by (auto simp: fun_eq_iff)

lemma size_dget [termination_simp]: "(k, v) \<in> set d \<Longrightarrow> size v < Suc (size_list (\<lambda>x. Suc (size (snd x))) d)"
  by (induction d) auto

lemma size_property [termination_simp]:
  "(k, v) \<in> set (dict_of (get0 s n)) \<Longrightarrow> size v < Suc (size_list (\<lambda>x. Suc (size (snd x))) s)"
proof -
  assume a: "(k, v) \<in> set (dict_of (get0 s n))"
  then obtain d where d: "dget s n = Some (PDict d)" "(k, v) \<in> set d"
    by (auto simp: dict_of_def get_or_def split: pyval.splits option.splits)
  have "size v < size (PDict d)" using size_dget[OF d(2)] by (simp add: size_pairs)
  also have "size (PDict d) < Suc (size_list (\<lambda>x. Suc (size (snd x))) s)"
    using size_dget[OF map_of_SomeD[OF d(1)]] .
  finally show ?thesis .
qed

text \<open>\<open>validate(instance, schema, path)\<close>; an enum holds texts, which are compared as values.\<close>

function validate :: "pyval \<Rightarrow> pyval \<Rightarrow> string \<Rightarrow> string list" where
  "validate v schema path = (case schema of
       PDict s \<Rightarrow>
         (if type_errors v (get0 s ''type'') path \<noteq> [] then type_errors v (get0 s ''type'') path
          else enum_errors v s path
            @ (case v of
                 PDict d \<Rightarrow>
                   (if get0 s ''type'' = PStr ''object'' \<or> dget s ''properties'' \<noteq> None \<or> dget s ''required'' \<noteq> None then
                      required_errors d s path
                      @ concat (map (\<lambda>(k, sub). case dget d k of None \<Rightarrow> [] | Some w \<Rightarrow> validate w sub (path @ ''.'' @ k))
                          (dict_of (get0 s ''properties'')))
                      @ extra_errors d s path
                    else [])
               | PList xs \<Rightarrow> (case dget s ''items'' of
                     None \<Rightarrow> []
                   | Some sub \<Rightarrow> concat (map (\<lambda>(i, x). validate x sub (path @ ''['' @ show_nat i @ '']'')) (enumerate 0 xs)))
               | _ \<Rightarrow> []))
     | _ \<Rightarrow> [])"
  by pat_completeness auto

termination
  by (relation "measure (\<lambda>(v, s, p). size s)")
    (auto simp: termination_simp dest: map_of_SomeD size_dget size_property)

section \<open>The schemas\<close>

definition text_type :: pyval where "text_type = PDict [(''type'', PStr ''string'')]"
definition object_type :: pyval where "object_type = PDict [(''type'', PStr ''object'')]"

definition enum_type :: "string list \<Rightarrow> pyval" where
  "enum_type xs = PDict [(''enum'', PList (map PStr xs)), (''type'', PStr ''string'')]"

definition closed_object :: "(string \<times> pyval) list \<Rightarrow> string list \<Rightarrow> pyval" where
  "closed_object props req = PDict [(''additionalProperties'', PBool False), (''properties'', PDict props),
     (''required'', PList (map PStr req)), (''type'', PStr ''object'')]"

definition signature_schema :: pyval where
  "signature_schema = closed_object
     [(''algorithm'', enum_type [''ed25519'']), (''public_key_id'', text_type), (''value'', text_type)]
     [''algorithm'', ''public_key_id'', ''value'']"

definition requester_schema :: pyval where
  "requester_schema = closed_object [(''id'', text_type), (''type'', enum_type [''resident'', ''human''])] [''type'', ''id'']"

text \<open>The three schemas differ in the body of the request only.\<close>

definition request_schema :: "string \<Rightarrow> string \<Rightarrow> pyval \<Rightarrow> pyval" where
  "request_schema kind_name body_name body = closed_object
     [(''created_at'', text_type), (''dna_version'', text_type), (''evidence'', object_type),
      (''kind'', enum_type [kind_name]), (''product_id'', text_type), (body_name, body), (''request_id'', text_type),
      (''requested_autonomy_level'', enum_type [''L1'', ''L2'', ''L3'', ''L4'', ''L5'']),
      (''requester'', requester_schema), (''schema_version'', enum_type [''1.0.0'']), (''signature'', signature_schema)]
     [''schema_version'', ''request_id'', ''kind'', ''product_id'', ''dna_version'', ''requester'', ''evidence'',
      ''requested_autonomy_level'', ''created_at'', ''signature'', body_name]"

definition repair_schema :: pyval where
  "repair_schema = request_schema ''REPAIR'' ''repair'' (closed_object
     [(''dna_entity_refs'', PDict [(''items'', text_type), (''type'', PStr ''array'')]), (''failed_action_id'', text_type),
      (''symptom'', text_type), (''target'', text_type)] [''target'', ''symptom''])"

definition expansion_schema :: pyval where
  "expansion_schema = request_schema ''EXPANSION'' ''expansion'' (closed_object
     [(''block_id'', text_type), (''capability'', text_type), (''endpoint'', text_type), (''hat_id'', text_type),
      (''rationale'', text_type)] [''capability''])"

definition upgrade_schema :: pyval where
  "upgrade_schema = request_schema ''UPGRADE'' ''upgrade'' (closed_object
     [(''changelog'', text_type), (''component'', text_type), (''component_kind'', enum_type [''block'', ''kit'', ''dna_surface'']),
      (''from_version'', text_type), (''to_version'', text_type)] [''component'', ''from_version'', ''to_version''])"

type_synonym document = "(string, pyval) dict"

definition schema_for_kind :: "string \<Rightarrow> pyval option" where
  "schema_for_kind k = (if k = ''REPAIR'' then Some repair_schema else if k = ''EXPANSION'' then Some expansion_schema
     else if k = ''UPGRADE'' then Some upgrade_schema else None)"

definition validate_change_request :: "document \<Rightarrow> string list" where
  "validate_change_request doc = (case schema_for_kind (text_of (get0 doc ''kind'')) of
       None \<Rightarrow> [''$.kind: unknown or missing kind '' @ py_repr (get0 doc ''kind'') @ ''; expected REPAIR|EXPANSION|UPGRADE'']
     | Some schema \<Rightarrow> validate (PDict doc) schema ''$'')"

section \<open>Signing\<close>

text \<open>Compact JSON with sorted keys; the first argument is what is left unescaped above ASCII.\<close>

definition plain_char :: "bool \<Rightarrow> char \<Rightarrow> string" where
  "plain_char ascii c = (if \<not> ascii \<and> 127 \<le> (of_char c :: nat) then [c] else esc_char c)"

definition compact_str :: "bool \<Rightarrow> string \<Rightarrow> string" where
  "compact_str ascii s = CHR 0x22 # concat (map (plain_char ascii) s) @ [CHR 0x22]"

primrec compact :: "bool \<Rightarrow> pyval \<Rightarrow> string" where
  "compact ascii PNone = ''null''"
| "compact ascii (PBool b) = (if b then ''true'' else ''false'')"
| "compact ascii (PInt i) = show_int i"
| "compact ascii (PFloat s) = dumps_float s"
| "compact ascii (PStr s) = compact_str ascii s"
| "compact ascii (PList xs) = ''['' @ join '','' (map (compact ascii) xs) @ '']''"
| "compact ascii (PDict d) = ''{'' @ join '','' (map (\<lambda>p. compact_str ascii (fst p) @ '':'' @ snd p)
     (sort_key fst (map (map_prod id (compact ascii)) d))) @ ''}''"

definition without_key :: "string \<Rightarrow> document \<Rightarrow> document" where
  "without_key k d = filter (\<lambda>p. fst p \<noteq> k) d"

definition canonical_payload :: "document \<Rightarrow> string" where
  "canonical_payload doc = compact False (PDict (without_key ''signature'' doc))"

record key_file =
  kf_key_id :: string
  kf_public :: string

record signer =
  sg_sha :: "string \<Rightarrow> string"
  sg_sign :: "string \<Rightarrow> string \<Rightarrow> string"
  sg_verify :: "string \<Rightarrow> string \<Rightarrow> string \<Rightarrow> bool"

definition public_key_id_for :: "signer \<Rightarrow> string \<Rightarrow> string \<Rightarrow> string" where
  "public_key_id_for sg product pub = product @ '':'' @ take 16 (sg_sha sg (product @ '':'' @ pub))"

definition sign_document :: "signer \<Rightarrow> string \<Rightarrow> string \<Rightarrow> document \<Rightarrow> document" where
  "sign_document sg priv key_id doc = dset ''signature''
     (PDict [(''algorithm'', PStr ''ed25519''), (''public_key_id'', PStr key_id),
             (''value'', PStr (sg_sign sg priv (canonical_payload doc)))]) doc"

definition verify_document :: "signer \<Rightarrow> string \<Rightarrow> document \<Rightarrow> string + unit" where
  "verify_document sg pub doc = (case get0 doc ''signature'' of
       PDict sig \<Rightarrow>
         (if get0 sig ''algorithm'' \<noteq> PStr ''ed25519'' then Inl ''unsupported signature algorithm''
          else if \<not> truthy (get0 sig ''value'') then Inl ''missing signature value''
          else if sg_verify sg pub (canonical_payload doc) (py_str (get0 sig ''value'')) then Inr ()
          else Inl ''invalid ed25519 signature'')
     | _ \<Rightarrow> Inl ''missing signature object'')"

type_synonym key_register = "(string, key_file) dict"

definition register_public_key :: "string \<Rightarrow> string \<Rightarrow> string \<Rightarrow> key_register \<Rightarrow> key_register" where
  "register_public_key product pub key_id ks = dset product \<lparr>kf_key_id = key_id, kf_public = pub\<rparr> ks"

definition load_public_key :: "key_register \<Rightarrow> string \<Rightarrow> pyval \<Rightarrow> string + string" where
  "load_public_key ks product key_id = (case dget ks product of
       None \<Rightarrow> Inl (''no registered public key for product_id='' @ product)
     | Some k \<Rightarrow> (if truthy key_id \<and> key_id \<noteq> PStr (kf_key_id k) then Inl ''public_key_id mismatch'' else Inr (kf_public k)))"

section \<open>The queue\<close>

datatype queue_state =
    Received | Validated | DryRunEvaluated | AwaitingApproval | Approved | Rejected
  | WorkbenchRunning | CandidateReady | GatePassed | GateFailed | Staged

text \<open>An item file.  A key the file does not have reads as None.\<close>

record cr_item =
  ci_id :: string
  ci_state :: queue_state
  ci_request :: document
  ci_created :: string
  ci_updated :: string
  ci_errors :: "string list"
  ci_dry_run :: pyval
  ci_workspace :: pyval
  ci_decision :: pyval
  ci_history :: "(queue_state \<times> string) list"
  ci_session :: pyval
  ci_candidate :: pyval
  ci_gate_report :: pyval
  ci_promotion :: pyval
  ci_trail :: "document list"
  ci_audit_artifact :: pyval

type_synonym cr_queue = "(string, cr_item) dict"

definition item_path :: "string \<Rightarrow> string" where
  "item_path rid = map (\<lambda>c. if is_alnum c \<or> c = CHR ''-'' \<or> c = CHR ''_'' then c else CHR ''_'') rid @ ''.json''"

definition get_item :: "string \<Rightarrow> cr_queue \<Rightarrow> cr_item option" where
  "get_item rid q = dget q (item_path rid)"

definition received_item :: "string \<Rightarrow> document \<Rightarrow> cr_item" where
  "received_item now req = \<lparr>ci_id = py_str (get0 req ''request_id''), ci_state = Received, ci_request = req,
     ci_created = now, ci_updated = now, ci_errors = [], ci_dry_run = PNone, ci_workspace = PNone, ci_decision = PNone,
     ci_history = [(Received, now)], ci_session = PNone, ci_candidate = PNone, ci_gate_report = PNone,
     ci_promotion = PNone, ci_trail = [], ci_audit_artifact = PNone\<rparr>"

definition put_received :: "string \<Rightarrow> document \<Rightarrow> cr_queue \<Rightarrow> cr_item \<times> cr_queue" where
  "put_received now req q =
     (let rid = py_str (get0 req ''request_id'')
      in case get_item rid q of
           Some item \<Rightarrow> (item, q)
         | None \<Rightarrow> (received_item now req, dset (item_path rid) (received_item now req) q))"

text \<open>The optional arguments of an update; None is not stored.\<close>

record cr_update =
  up_errors :: "string list option"
  up_dry_run :: pyval
  up_workspace :: pyval
  up_decision :: pyval
  up_session :: pyval
  up_candidate :: pyval
  up_gate_report :: pyval
  up_promotion :: pyval
  up_audit :: "document option"

definition no_update :: cr_update where
  "no_update = \<lparr>up_errors = None, up_dry_run = PNone, up_workspace = PNone, up_decision = PNone, up_session = PNone,
     up_candidate = PNone, up_gate_report = PNone, up_promotion = PNone, up_audit = None\<rparr>"

definition given :: "pyval \<Rightarrow> pyval \<Rightarrow> pyval" where
  "given v old = (if v = PNone then old else v)"

definition set_default :: "string \<Rightarrow> pyval \<Rightarrow> document \<Rightarrow> document" where
  "set_default k v d = (if dget d k = None then dset k v d else d)"

definition updated_item :: "string \<Rightarrow> queue_state \<Rightarrow> cr_update \<Rightarrow> cr_item \<Rightarrow> cr_item" where
  "updated_item now st up item = item\<lparr>ci_state := st, ci_updated := now, ci_history := ci_history item @ [(st, now)],
     ci_errors := (case up_errors up of None \<Rightarrow> ci_errors item | Some es \<Rightarrow> es),
     ci_dry_run := given (up_dry_run up) (ci_dry_run item), ci_workspace := given (up_workspace up) (ci_workspace item),
     ci_decision := given (up_decision up) (ci_decision item), ci_session := given (up_session up) (ci_session item),
     ci_candidate := given (up_candidate up) (ci_candidate item),
     ci_gate_report := given (up_gate_report up) (ci_gate_report item),
     ci_promotion := given (up_promotion up) (ci_promotion item),
     ci_trail := (case up_audit up of None \<Rightarrow> ci_trail item
        | Some e \<Rightarrow> ci_trail item @ [set_default ''at'' (PStr now) e])\<rparr>"

text \<open>None is the \<open>KeyError\<close> of an unknown request.\<close>

definition update_state :: "string \<Rightarrow> string \<Rightarrow> queue_state \<Rightarrow> cr_update \<Rightarrow> cr_queue \<Rightarrow> (cr_item \<times> cr_queue) option" where
  "update_state now rid st up q = (case get_item rid q of
       None \<Rightarrow> None
     | Some item \<Rightarrow> Some (updated_item now st up item, dset (item_path rid) (updated_item now st up item) q))"

definition list_items :: "queue_state option \<Rightarrow> cr_queue \<Rightarrow> cr_item list" where
  "list_items st q = filter (\<lambda>i. case st of None \<Rightarrow> True | Some s \<Rightarrow> ci_state i = s) (map snd (sort_key fst q))"

definition record_decision :: "string \<Rightarrow> string \<Rightarrow> bool \<Rightarrow> string \<Rightarrow> string \<Rightarrow> cr_queue \<Rightarrow> (cr_item \<times> cr_queue) option" where
  "record_decision now rid approved actor why q =
     update_state now rid (if approved then Approved else Rejected)
       (no_update\<lparr>up_decision := PDict [(''approved'', PBool approved), (''actor'', PStr actor), (''note'', PStr why),
          (''recorded_at'', PStr now), (''executes'', PBool False),
          (''honesty'', PStr ''decision recorded only; no agent/workbench execution in M3'')]\<rparr>) q"

section \<open>The dry run\<close>

definition risk :: "string \<Rightarrow> string \<Rightarrow> string \<Rightarrow> pyval" where
  "risk code severity message = PDict [(''code'', PStr code), (''severity'', PStr severity), (''message'', PStr message)]"

definition kind_plan :: "(string \<Rightarrow> string) \<Rightarrow> document \<Rightarrow> pyval list \<times> pyval list \<times> string list" where
  "kind_plan strip req =
     (let autonomy = get0 req ''requested_autonomy_level''
      in if get0 req ''kind'' = PStr ''REPAIR'' then
           (let repair = dict_of (get0 req ''repair'')
            in ([PDict [(''surface'', PStr ''config_or_runtime''), (''target'', PStr (strip (text_of (get0 repair ''target'')))),
                        (''action'', PStr ''restore_declared_state''), (''against_dna'', PStr ''security_policy.json / architecture.json'')]],
                if autonomy \<in> {PStr ''L4'', PStr ''L5''} then [risk ''high_autonomy_repair'' ''high''
                   (''REPAIR requested at '' @ py_str autonomy @ ''; human approval required'')] else [],
                [''dna_checksum_verify'', ''health_probe'', ''heal_post_check'']))
         else if get0 req ''kind'' = PStr ''EXPANSION'' then
           (let ex = dict_of (get0 req ''expansion'')
            in ([PDict [(''surface'', PStr ''capability''), (''capability'', get0 ex ''capability''), (''block_id'', get0 ex ''block_id''),
                        (''action'', PStr ''add_capability_via_factory_regenerate''),
                        (''against_dna'', PStr ''action_catalog.json / capability_resolution.json'')]],
                [risk ''expansion_requires_regenerate'' ''medium'' ''EXPANSION must go through Factory packager (M4); never hand-edit''],
                [''dual_registry_gate'', ''planner_fail_closed'', ''dna_reemit'', ''product_tests'']))
         else if get0 req ''kind'' = PStr ''UPGRADE'' then
           (let u = dict_of (get0 req ''upgrade'')
            in ([PDict [(''surface'', py_or (get0 u ''component_kind'') (PStr ''block'')), (''component'', get0 u ''component''),
                        (''from_version'', get0 u ''from_version''), (''to_version'', get0 u ''to_version''),
                        (''action'', PStr ''version_bump_via_factory''), (''against_dna'', PStr ''block_lockfile.json'')]],
                [], [''store_compatibility'', ''dna_reemit'', ''regression_suite'']))
         else ([], [risk ''unknown_kind'' ''high'' (py_str (get0 req ''kind''))], []))"

definition evaluate_dry_run :: "(string \<Rightarrow> string) \<Rightarrow> document \<Rightarrow> document option \<Rightarrow> document" where
  "evaluate_dry_run strip req dna =
     (let (would, risks, gates) = kind_plan strip req;
          files = dict_of (get0 (case dna of Some b \<Rightarrow> b | None \<Rightarrow> []) ''files'');
          pins = list_of (get0 (dict_of (get0 files ''block_lockfile.json'')) ''pins'');
          would2 = (case dna of None \<Rightarrow> would
             | Some b \<Rightarrow> would @ [PDict [(''surface'', PStr ''reference''), (''block_pins'', PInt (int (length pins))),
                   (''dna_version_observed'', get0 req ''dna_version'')]]);
          risks2 = (case dna of None \<Rightarrow> risks @ [risk ''dna_not_loaded'' ''info''
                   ''Dry-run without product DNA context; diffs are declarative only''] | Some b \<Rightarrow> risks)
      in [(''schema_version'', PStr ''1.0.0''), (''kind'', get0 req ''kind''), (''request_id'', get0 req ''request_id''),
          (''product_id'', get0 req ''product_id''), (''would_change'', PList would2),
          (''required_autonomy_level'', get0 req ''requested_autonomy_level''), (''risk_flags'', PList risks2),
          (''acceptance_gates_to_rerun'', PList (map PStr gates)), (''mutates_product'', PBool False),
          (''honesty'', PStr ''dry-run only - no files/blocks/config were modified'')])"

section \<open>Intake\<close>

record cr_world =
  cw_queue :: cr_queue
  cw_keys :: key_register
  cw_rejections :: "(string \<times> pyval) list"

record cr_env =
  ce_environ :: environ
  ce_now :: string
  ce_strip :: "string \<Rightarrow> string"
  ce_signer :: signer
  ce_workspaces :: string

datatype intake_exn = IntakeRejected string nat | IntakeKeyError

definition log_rejection :: "string \<Rightarrow> document \<Rightarrow> cr_world \<Rightarrow> cr_world" where
  "log_rejection why p w = w\<lparr>cw_rejections := cw_rejections w @ [(why, PDict p)]\<rparr>"

text \<open>The workspace record; the product root is given as the caller passes it.\<close>

definition join_path :: "string \<Rightarrow> string \<Rightarrow> string" where
  "join_path root p = (if starts_with p ''/'' then p else root @ ''/'' @ p)"

definition create_workspace_record :: "cr_env \<Rightarrow> string \<Rightarrow> string \<Rightarrow> string option \<Rightarrow> pyval" where
  "create_workspace_record ce rid product root = PDict
     [(''request_id'', PStr rid), (''product_id'', PStr product), (''path'', PStr (join_path (ce_workspaces ce) rid)),
      (''product_root'', case root of None \<Rightarrow> PNone | Some r \<Rightarrow> PStr r), (''created_at'', PStr (ce_now ce)),
      (''worktree_created'', PBool False), (''agent_started'', PBool False),
      (''honesty'', PStr ''M3 dry-run record only - M4 creates isolated worktrees/agents'')]"

definition check_signature :: "cr_env \<Rightarrow> document \<Rightarrow> key_register \<Rightarrow> string + unit" where
  "check_signature ce doc ks =
     bind_result (load_public_key ks (py_str (get0 doc ''product_id'')) (get0 (dict_of (get0 doc ''signature'')) ''public_key_id''))
       (\<lambda>pub. verify_document (ce_signer ce) pub doc)"

text \<open>From the received item to the item awaiting approval.\<close>

definition evaluate_item :: "cr_env \<Rightarrow> document \<Rightarrow> document option \<Rightarrow> string option \<Rightarrow> string \<Rightarrow> cr_queue \<Rightarrow> (cr_item \<times> cr_queue) option" where
  "evaluate_item ce doc dna root rid q =
     (let report = PDict (evaluate_dry_run (ce_strip ce) doc dna);
          ws = create_workspace_record ce (py_str (get0 doc ''request_id'')) (py_str (get0 doc ''product_id'')) root
      in case update_state (ce_now ce) rid Validated (no_update\<lparr>up_errors := Some []\<rparr>) q of
           None \<Rightarrow> None
         | Some (_, q1) \<Rightarrow> (case update_state (ce_now ce) rid DryRunEvaluated (no_update\<lparr>up_dry_run := report\<rparr>) q1 of
             None \<Rightarrow> None
           | Some (_, q2) \<Rightarrow> update_state (ce_now ce) rid AwaitingApproval (no_update\<lparr>up_workspace := ws, up_dry_run := report\<rparr>) q2))"

definition intake_change_request ::
  "cr_env \<Rightarrow> document \<Rightarrow> document option \<Rightarrow> string option \<Rightarrow> cr_world \<Rightarrow> (intake_exn + cr_item) \<times> cr_world" where
  "intake_change_request ce doc dna root w =
     (let errors = validate_change_request doc
      in if \<not> change_request_intake_enabled (ce_environ ce) then
           (Inl (IntakeRejected ''CHANGE_REQUEST_INTAKE_ENABLED is false'' 503),
            log_rejection ''intake_disabled'' [(''request_id'', get0 doc ''request_id'')] w)
         else if errors \<noteq> [] then
           (Inl (IntakeRejected (''schema validation failed: '' @ join ''; '' errors) 400),
            log_rejection ''schema_invalid'' [(''errors'', PList (map PStr errors)), (''request_id'', get0 doc ''request_id'')] w)
         else case check_signature ce doc (cw_keys w) of
           Inl why \<Rightarrow> (Inl (IntakeRejected (''signature rejected: '' @ why) 401),
              log_rejection ''signature_invalid'' [(''reason'', PStr why), (''request_id'', get0 doc ''request_id'')] w)
         | Inr _ \<Rightarrow>
            (let (item, q) = put_received (ce_now ce) doc (cw_queue w); w1 = w\<lparr>cw_queue := q\<rparr>
             in if ci_state item \<noteq> Received \<and> truthy (ci_dry_run item) then (Inr item, w1)
                else case evaluate_item ce doc dna root (ci_id item) q of
                  None \<Rightarrow> (Inl IntakeKeyError, w1)
                | Some (done_item, q1) \<Rightarrow> (Inr done_item, w1\<lparr>cw_queue := q1\<rparr>)))"

section \<open>Emission of repair requests\<close>

definition repair_body :: "string \<Rightarrow> string \<Rightarrow> string option \<Rightarrow> string list option \<Rightarrow> document" where
  "repair_body target symptom failed refs =
     [(''target'', PStr target), (''symptom'', PStr symptom)]
     @ (case failed of Some a \<Rightarrow> (if a = [] then [] else [(''failed_action_id'', PStr a)]) | None \<Rightarrow> [])
     @ (case refs of Some rs \<Rightarrow> [(''dna_entity_refs'', PList (map PStr rs))] | None \<Rightarrow> [])"

definition build_request ::
  "string \<Rightarrow> string \<Rightarrow> string \<Rightarrow> string \<Rightarrow> string \<Rightarrow> string \<Rightarrow> string \<Rightarrow> document \<Rightarrow> string \<Rightarrow> string \<Rightarrow> document \<Rightarrow> document" where
  "build_request kind_name now rid product dna_version rtype requester evidence level body_name body =
     [(''schema_version'', PStr ''1.0.0''), (''request_id'', PStr rid), (''kind'', PStr kind_name),
      (''product_id'', PStr product), (''dna_version'', PStr dna_version),
      (''requester'', PDict [(''type'', PStr rtype), (''id'', PStr requester)]), (''evidence'', PDict evidence),
      (''requested_autonomy_level'', PStr level), (''created_at'', PStr now), (body_name, PDict body)]"

definition build_repair_request ::
  "string \<Rightarrow> string \<Rightarrow> string \<Rightarrow> string \<Rightarrow> string \<Rightarrow> string \<Rightarrow> document \<Rightarrow> string \<Rightarrow> document \<Rightarrow> document" where
  "build_repair_request now rid product dna_version rtype requester evidence level body =
     build_request ''REPAIR'' now rid product dna_version rtype requester evidence level ''repair'' body"

definition optional_text :: "string \<Rightarrow> string option \<Rightarrow> document" where
  "optional_text k v = (case v of Some s \<Rightarrow> (if s = [] then [] else [(k, PStr s)]) | None \<Rightarrow> [])"

definition expansion_body :: "string \<Rightarrow> string option \<Rightarrow> string option \<Rightarrow> string option \<Rightarrow> string option \<Rightarrow> document" where
  "expansion_body capability block endpoint hat why = [(''capability'', PStr capability)]
     @ optional_text ''block_id'' block @ optional_text ''endpoint'' endpoint @ optional_text ''hat_id'' hat
     @ optional_text ''rationale'' why"

definition build_expansion_request ::
  "string \<Rightarrow> string \<Rightarrow> string \<Rightarrow> string \<Rightarrow> string \<Rightarrow> string \<Rightarrow> document \<Rightarrow> string \<Rightarrow> document \<Rightarrow> document" where
  "build_expansion_request now rid product dna_version rtype requester evidence level body =
     build_request ''EXPANSION'' now rid product dna_version rtype requester evidence level ''expansion'' body"

definition upgrade_body :: "string \<Rightarrow> string \<Rightarrow> string \<Rightarrow> string \<Rightarrow> string option \<Rightarrow> document" where
  "upgrade_body component component_kind from_version to_version log =
     [(''component'', PStr component), (''component_kind'', PStr component_kind),
      (''from_version'', PStr from_version), (''to_version'', PStr to_version)] @ optional_text ''changelog'' log"

definition build_upgrade_request ::
  "string \<Rightarrow> string \<Rightarrow> string \<Rightarrow> string \<Rightarrow> string \<Rightarrow> string \<Rightarrow> document \<Rightarrow> string \<Rightarrow> document \<Rightarrow> document" where
  "build_upgrade_request now rid product dna_version rtype requester evidence level body =
     build_request ''UPGRADE'' now rid product dna_version rtype requester evidence level ''upgrade'' body"

text \<open>Signs with the keys given, or with the new pair \<open>fresh\<close> when one of them is missing; either way
  the public key becomes the registered key of the product.\<close>

definition sign_and_register ::
  "signer \<Rightarrow> string \<times> string \<Rightarrow> (string \<times> string) option \<Rightarrow> document \<Rightarrow> key_register \<Rightarrow> (string list + document) \<times> key_register" where
  "sign_and_register sg fresh keys doc ks =
     (let product = py_str (get0 doc ''product_id'');
          (priv, pub) = (case keys of Some k \<Rightarrow> k | None \<Rightarrow> fresh);
          key_id = public_key_id_for sg product pub;
          ks1 = register_public_key product pub key_id ks;
          signed = sign_document sg priv key_id doc;
          errors = validate_change_request signed
      in (if errors \<noteq> [] then Inl errors else Inr signed, ks1))"

datatype emit_exn = EmitRejected | EmitInvalid "string list" | EmitKeyError

record emitted =
  em_signed :: document
  em_submitted :: bool
  em_item :: "cr_item option"
  em_intake_error :: "string option"

definition signing_key_from_env :: "environ \<Rightarrow> string option" where
  "signing_key_from_env env = (let k = env_text env ''PRODUCT_CHANGE_REQUEST_SIGNING_KEY'' in if k = [] then None else Some k)"

definition emission_keys :: "environ \<Rightarrow> string option \<Rightarrow> string option \<Rightarrow> (string \<times> string) option" where
  "emission_keys env priv pub =
     (let env_priv = (case priv of Some p \<Rightarrow> (if p = [] then signing_key_from_env env else Some p) | None \<Rightarrow> signing_key_from_env env)
      in case (env_priv, pub) of (Some a, Some b) \<Rightarrow> (if b = [] then None else Some (a, b)) | _ \<Rightarrow> None)"

definition emit_repair_from_escalation ::
  "cr_env \<Rightarrow> string \<Rightarrow> string \<times> string \<Rightarrow> string \<Rightarrow> string \<Rightarrow> string \<Rightarrow> string \<Rightarrow> string option \<Rightarrow> document \<Rightarrow> string \<Rightarrow>
   string option \<Rightarrow> string option \<Rightarrow> bool \<Rightarrow> cr_world \<Rightarrow> (emit_exn + emitted) \<times> cr_world" where
  "emit_repair_from_escalation ce rid fresh product dna_version symptom target failed evidence requester priv pub submit w =
     (if \<not> resident_emit_change_requests_enabled (ce_environ ce) then (Inl EmitRejected, w)
      else
        (let doc = build_repair_request (ce_now ce) rid product dna_version ''resident'' requester evidence ''L3''
               (repair_body target (ce_strip ce symptom) failed None);
             (res, ks) = sign_and_register (ce_signer ce) fresh (emission_keys (ce_environ ce) priv pub) doc (cw_keys w);
             w1 = w\<lparr>cw_keys := ks\<rparr>
         in case res of
              Inl errors \<Rightarrow> (Inl (EmitInvalid errors), w1)
            | Inr signed \<Rightarrow>
               (if \<not> submit then (Inr \<lparr>em_signed = signed, em_submitted = False, em_item = None, em_intake_error = None\<rparr>, w1)
                else case intake_change_request ce signed None None w1 of
                  (Inr item, w2) \<Rightarrow> (Inr \<lparr>em_signed = signed, em_submitted = True, em_item = Some item, em_intake_error = None\<rparr>, w2)
                | (Inl (IntakeRejected why code), w2) \<Rightarrow>
                    (Inr \<lparr>em_signed = signed, em_submitted = False, em_item = None, em_intake_error = Some why\<rparr>, w2)
                | (Inl IntakeKeyError, w2) \<Rightarrow> (Inl EmitKeyError, w2))))"

end
