(* ===== verification/Sandbox.thy ===== *)
theory Sandbox
  imports ChangeQueue
begin

text \<open>
  The workbench sandbox (\<open>workbench/sandbox.py\<close>, \<open>envelope.py\<close>): the paths an agent
  may write, the caps of a session, the transcript, and the checks before a command
  is run.  Arguments of the model: the file system's path resolution, the elapsed
  time, the clock, and how a process ends.  Files are kept by resolved path; failures of
  the file system other than in path resolution are left out.
\<close>

section \<open>The envelope\<close>

type_synonym path = "string list"

definition default_mutable_paths :: "path list" where
  "default_mutable_paths = [[''blueprint''], [''candidate''], [''transcript''], [''task_envelope.json'']]"

definition default_readonly_paths :: "path list" where
  "default_readonly_paths = [[''product-dna''], [''request.json''], [''baseline'']]"

text \<open>\<open>Path(s).parts\<close> without the root, and \<open>p.relative_to(root)\<close>.\<close>

definition path_parts :: "string \<Rightarrow> path" where
  "path_parts s = filter (\<lambda>p. p \<noteq> [] \<and> p \<noteq> ''.'') (split_on CHR ''/'' s)"

definition relative_to :: "path \<Rightarrow> path \<Rightarrow> path option" where
  "relative_to root p = (if take (length root) p = root then Some (drop (length root) p) else None)"

text \<open>A surface is the path itself or one of its parents.\<close>

definition surface_of :: "path \<Rightarrow> path \<Rightarrow> bool" where
  "surface_of surface rel = (take (length surface) rel = surface)"

definition path_allowed :: "path \<Rightarrow> path option \<Rightarrow> bool \<Rightarrow> bool" where
  "path_allowed root resolved write = (case resolved of
       None \<Rightarrow> False
     | Some p \<Rightarrow> (case relative_to root p of
         None \<Rightarrow> False
       | Some rel \<Rightarrow> (if write then list_ex (\<lambda>s. surface_of s rel) default_mutable_paths else True)))"

text \<open>\<open>sanitize_untrusted\<close>: every text of a value is cleaned by \<open>strip\<close>.\<close>

primrec sanitize_untrusted :: "(string \<Rightarrow> string) \<Rightarrow> pyval \<Rightarrow> pyval" where
  "sanitize_untrusted strip PNone = PNone"
| "sanitize_untrusted strip (PBool b) = PBool b"
| "sanitize_untrusted strip (PInt i) = PInt i"
| "sanitize_untrusted strip (PFloat s) = PFloat s"
| "sanitize_untrusted strip (PStr s) = PStr (strip s)"
| "sanitize_untrusted strip (PList xs) = PList (map (sanitize_untrusted strip) xs)"
| "sanitize_untrusted strip (PDict d) = PDict (map (map_prod id (sanitize_untrusted strip)) d)"

definition surface_names :: "pyval \<Rightarrow> string list" where
  "surface_names k =
     (if k = PStr ''REPAIR'' then [''config_or_runtime_restore'']
      else if k = PStr ''EXPANSION'' then [''blueprint_capabilities'', ''block_lockfile'', ''capability_resolution'']
      else if k = PStr ''UPGRADE'' then [''block_lockfile'', ''generation_manifest'']
      else [])"

text \<open>The names of the allowlisted healing actions are an argument.\<close>

definition build_mutable_surfaces :: "(string \<Rightarrow> string) \<Rightarrow> string list \<Rightarrow> document \<Rightarrow> document \<Rightarrow> pyval" where
  "build_mutable_surfaces strip heal req dry = PDict
     [(''kind'', get0 req ''kind''), (''surfaces'', PList (map PStr (surface_names (get0 req ''kind'')))),
      (''would_change'', sanitize_untrusted strip (PList (list_of (get0 dry ''would_change'')))),
      (''allowlisted_heal_actions'', PList (map PStr heal)),
      (''forbidden'', PList (map PStr [''production_deploy'', ''store_publish'', ''store_write'', ''certified_tier_promotion'',
         ''shell_outside_workspace'', ''network_outside_allowlist'']))]"

definition envelope_request :: "(string \<Rightarrow> string) \<Rightarrow> document \<Rightarrow> document" where
  "envelope_request strip req = dict_of (sanitize_untrusted strip (PDict (without_key ''signature'' req)))"

definition envelope_body :: "(string \<Rightarrow> string) \<Rightarrow> string list \<Rightarrow> string \<Rightarrow> string \<Rightarrow> document \<Rightarrow> document \<Rightarrow> document \<Rightarrow> document" where
  "envelope_body strip heal workspace root req dry dna =
     [(''schema_version'', PStr ''1.0.0''), (''request_id'', get0 req ''request_id''), (''product_id'', get0 req ''product_id''),
      (''dna_version'', get0 req ''dna_version''), (''kind'', get0 req ''kind''), (''workspace_root'', PStr workspace),
      (''product_root'', PStr root),
      (''visible_readonly'', PList (map PStr [''product-dna/'', ''request.json'', ''baseline/''])),
      (''mutable_paths'', PList (map PStr [''blueprint/'', ''candidate/'', ''transcript/'', ''task_envelope.json''])),
      (''mutable'', build_mutable_surfaces strip heal req dry),
      (''dna'', PDict [(''path'', get0 dna ''path''), (''checksum_ok'', get0 dna ''checksum_ok''),
         (''file_names'', PList (map PStr (sort (dkeys (dict_of (get0 dna ''files''))))))]),
      (''request'', PDict (envelope_request strip req)),
      (''acceptance_gates_to_rerun'', PList (list_of (get0 dry ''acceptance_gates_to_rerun''))),
      (''honesty'', PStr (''Envelope IS the task boundary - paths and actions outside it are invisible '' @
         ''and refused. Candidate only; never applied / never deployed.''))]"

definition build_task_envelope ::
  "(string \<Rightarrow> string) \<Rightarrow> (string \<Rightarrow> string) \<Rightarrow> string list \<Rightarrow> string \<Rightarrow> string \<Rightarrow> document \<Rightarrow> document \<Rightarrow> document \<Rightarrow> document" where
  "build_task_envelope strip hash heal workspace root req dry dna =
     (let body = envelope_body strip heal workspace root req dry dna
      in body @ [(''envelope_checksum'', PStr (hash (compact True (PDict body))))])"

section \<open>The session\<close>

datatype sandbox_exn = SandboxViolation string | SandboxTimeout string | FileNotFound

record sandbox =
  sb_id :: string
  sb_root :: path
  sb_timeout :: int
  sb_max :: int
  sb_count :: int
  sb_log :: "(string \<times> document) list"
  sb_files :: "(path, string) dict"

record sandbox_env =
  se_elapsed :: int
  se_real :: "path \<Rightarrow> path option"

definition session_timeout_seconds :: "environ \<Rightarrow> int" where
  "session_timeout_seconds env = (case int_of_str (case env ''WORKBENCH_SESSION_TIMEOUT_SECONDS'' of None \<Rightarrow> ''300'' | Some s \<Rightarrow> s) of
       None \<Rightarrow> 300 | Some i \<Rightarrow> max 5 i)"

definition sb_note :: "string \<Rightarrow> document \<Rightarrow> sandbox \<Rightarrow> sandbox" where
  "sb_note ev d sb = sb\<lparr>sb_log := sb_log sb @ [(ev, d)]\<rparr>"

definition check_alive :: "sandbox_env \<Rightarrow> sandbox \<Rightarrow> sandbox_exn + unit" where
  "check_alive se sb =
     (if se_elapsed se > sb_timeout sb then
        Inl (SandboxTimeout (''workbench session '' @ sb_id sb @ '' exceeded timeout ('' @ show_int (sb_timeout sb) @ ''s); dying loudly''))
      else if sb_count sb \<ge> sb_max sb then
        Inl (SandboxTimeout (''workbench session '' @ sb_id sb @ '' exceeded command cap ('' @ show_int (sb_max sb) @ ''); dying loudly''))
      else Inr ())"

definition joined :: "path \<Rightarrow> string \<Rightarrow> path" where
  "joined root relative = (if starts_with relative ''/'' then path_parts relative else root @ path_parts relative)"

definition resolve_in_workspace :: "sandbox_env \<Rightarrow> string \<Rightarrow> bool \<Rightarrow> sandbox \<Rightarrow> (sandbox_exn + path) \<times> sandbox" where
  "resolve_in_workspace se relative write sb = (case check_alive se sb of
       Inl e \<Rightarrow> (Inl e, sb)
     | Inr _ \<Rightarrow> (case se_real se (joined (sb_root sb) relative) of
         Some p \<Rightarrow> (if path_allowed (sb_root sb) (Some p) write then (Inr p, sb)
           else (Inl (SandboxViolation (''path outside envelope: '' @ relative @ '' (write='' @ py_str (PBool write) @ '')'')),
                 sb_note ''boundary_refused'' [(''path'', PStr relative), (''write'', PBool write), (''reason'', PStr ''outside_envelope'')] sb))
       | None \<Rightarrow> (Inl FileNotFound, sb)))"

definition utf8_size :: "string \<Rightarrow> nat" where
  "utf8_size s = sum_list (map (\<lambda>c. if (of_char c :: nat) < 128 then 1 else 2) s)"

definition write_file :: "sandbox_env \<Rightarrow> string \<Rightarrow> string \<Rightarrow> sandbox \<Rightarrow> (sandbox_exn + path) \<times> sandbox" where
  "write_file se relative content sb = (case resolve_in_workspace se relative True sb of
       (Inl e, sb1) \<Rightarrow> (Inl e, sb1)
     | (Inr p, sb1) \<Rightarrow> (Inr p, sb_note ''write_text'' [(''path'', PStr relative), (''bytes'', PInt (int (utf8_size content)))]
         (sb1\<lparr>sb_files := dset p content (sb_files sb1)\<rparr>)))"

definition read_file :: "sandbox_env \<Rightarrow> string \<Rightarrow> sandbox \<Rightarrow> (sandbox_exn + string) \<times> sandbox" where
  "read_file se relative sb = (case resolve_in_workspace se relative False sb of
       (Inl e, sb1) \<Rightarrow> (Inl e, sb1)
     | (Inr p, sb1) \<Rightarrow> (case dget (sb_files sb1) p of
         None \<Rightarrow> (Inl FileNotFound, sb1)
       | Some text \<Rightarrow> (Inr text, sb_note ''read_text'' [(''path'', PStr relative), (''bytes'', PInt (int (utf8_size text)))] sb1)))"

text \<open>Seeding replaces what is below the destination by the source's files.\<close>

definition seed_readonly :: "sandbox_env \<Rightarrow> string \<Rightarrow> (path \<times> string) list \<Rightarrow> string \<Rightarrow> sandbox \<Rightarrow> (sandbox_exn + path) \<times> sandbox" where
  "seed_readonly se src tree dest sb = (case check_alive se sb of
       Inl e \<Rightarrow> (Inl e, sb)
     | Inr _ \<Rightarrow> (case se_real se (joined (sb_root sb) dest) of
         None \<Rightarrow> (Inl FileNotFound, sb)
       | Some p \<Rightarrow> (case relative_to (sb_root sb) p of
           None \<Rightarrow> (Inl (SandboxViolation (''seed outside workspace: '' @ dest)), sb)
         | Some _ \<Rightarrow> (Inr p, sb_note ''seed_readonly'' [(''src'', PStr src), (''dest'', PStr dest)]
             (sb\<lparr>sb_files := dmerge (filter (\<lambda>f. relative_to p (fst f) = None) (sb_files sb))
                               (map (\<lambda>f. (p @ fst f, snd f)) tree)\<rparr>)))))"

section \<open>Commands\<close>

definition forbidden_env_keys :: "string list" where
  "forbidden_env_keys = [''RENDER_API_KEY'', ''GITHUB_TOKEN'', ''DEPLOY_REPO_URL'', ''CEREBRUM_API_KEY'',
     ''STORE_WRITE_TOKEN'', ''STORE_PUBLISH_TOKEN'', ''AWS_SECRET_ACCESS_KEY'', ''AWS_ACCESS_KEY_ID'']"

definition scrubbed_env :: "environ \<Rightarrow> sandbox \<Rightarrow> environ" where
  "scrubbed_env env sb =
     ((\<lambda>k. if k \<in> set forbidden_env_keys then None else env k)
       (''WORKBENCH_SANDBOX'' := Some ''1'', ''WORKBENCH_SESSION_ID'' := Some (sb_id sb),
        ''WORKBENCH_WORKSPACE'' := Some (CHR ''/'' # join ''/'' (sb_root sb)),
        ''WORKBENCH_STORE_WRITE'' := Some ''impossible'', ''STORE_ROOT_WRITE'' := None))"

text \<open>The check of one argument: what is looked at, and whether it stays inside.\<close>

definition arg_looked_at :: "string \<Rightarrow> bool" where
  "arg_looked_at arg = ((starts_with arg ''/'' \<or> starts_with arg ''..'')
     \<and> (starts_with arg ''/'' \<or> ''..'' \<in> set (path_parts arg)))"

definition arg_stays :: "sandbox_env \<Rightarrow> path \<Rightarrow> path \<Rightarrow> string \<Rightarrow> bool" where
  "arg_stays se root cwd arg = (case se_real se (joined cwd arg) of
       None \<Rightarrow> False
     | Some p \<Rightarrow> relative_to root p \<noteq> None)"

definition arg_escapes :: "sandbox_env \<Rightarrow> path \<Rightarrow> path \<Rightarrow> string \<Rightarrow> bool" where
  "arg_escapes se root cwd arg = (arg_looked_at arg \<and> \<not> arg_stays se root cwd arg)"

text \<open>How the process ends: its code and output, the time limit, or no such program.\<close>

datatype proc_end = ProcDone int string string | ProcTimeout | ProcMissing

definition last_chars :: "nat \<Rightarrow> string \<Rightarrow> string" where
  "last_chars n s = drop (length s - n) s"

definition command_result :: "string list \<Rightarrow> int \<Rightarrow> string \<Rightarrow> string \<Rightarrow> document" where
  "command_result argv rc out err = [(''argv'', PList (map PStr argv)), (''returncode'', PInt rc),
     (''stdout_tail'', PStr (last_chars 4000 out)), (''stderr_tail'', PStr (last_chars 4000 err))]"

definition start_command :: "string list \<Rightarrow> string \<Rightarrow> proc_end \<Rightarrow> sandbox \<Rightarrow> (sandbox_exn + document) \<times> sandbox" where
  "start_command argv cwd_relative fin sb =
     (let sb1 = sb_note ''command_start'' [(''argv'', PList (map PStr argv)), (''cwd'', PStr cwd_relative)] sb
      in case fin of
           ProcTimeout \<Rightarrow> (Inl (SandboxTimeout (''command timed out: '' @ hd argv)),
              sb_note ''command_timeout'' [(''argv'', PList (map PStr argv))] sb1)
         | ProcMissing \<Rightarrow> (Inl FileNotFound, sb1)
         | ProcDone rc out err \<Rightarrow> (Inr (command_result argv rc out err),
              sb_note ''command_end'' (command_result argv rc out err) sb1))"

definition run_command ::
  "sandbox_env \<Rightarrow> string list \<Rightarrow> string \<Rightarrow> proc_end \<Rightarrow> sandbox \<Rightarrow> (sandbox_exn + document) \<times> sandbox" where
  "run_command se argv cwd_relative fin sb = (case check_alive se sb of
       Inl e \<Rightarrow> (Inl e, sb)
     | Inr _ \<Rightarrow>
        (let sb1 = sb\<lparr>sb_count := sb_count sb + 1\<rparr>
         in if argv = [] then (Inl (SandboxViolation ''empty command''), sb1)
            else case resolve_in_workspace se cwd_relative False sb1 of
              (Inl e, sb2) \<Rightarrow> (Inl e, sb2)
            | (Inr cwd, sb2) \<Rightarrow>
               (case find (arg_escapes se (sb_root sb) cwd) (tl argv) of
                  Some arg \<Rightarrow> (Inl (SandboxViolation (''command path escapes workspace: '' @ arg)),
                     sb_note ''command_refused'' [(''argv'', PList (map PStr argv)), (''reason'', PStr ''path_escape'')] sb2)
                | None \<Rightarrow> start_command argv cwd_relative fin sb2)))"

definition attempt_store_write :: "sandbox \<Rightarrow> (sandbox_exn + unit) \<times> sandbox" where
  "attempt_store_write sb =
     (Inl (SandboxViolation ''Store write impossible: no credentials and no write path in sandbox''),
      sb_note ''store_write_attempt'' [(''result'', PStr ''impossible'')] sb)"

end
