(* ===== verification/Workbench.thy ===== *)
theory Workbench
  imports Sandbox
begin

text \<open>
  Build mode (\<open>workbench/\<close>): the candidate and its checksum, the live audit, the
  acceptance gates, and the steps of a change request from approval to staging.
  Arguments of the model: what the agent left in the sandbox, the answers of the blueprint
  validator, of the planner and of the DNA checksum check, the packager's result, the
  files an audit artifact is read from, and ISO times as seconds.  A document of the wrong
  shape, on which the code raises, reads as an empty one.  Each operation is one step of the queue, a session of
  the agent too: what other requests write to the item while the agent runs is not interleaved.
\<close>

definition build_mode_enabled :: "environ \<Rightarrow> bool" where
  "build_mode_enabled env = env_flag env ''BUILD_MODE_ENABLED''"

section \<open>The candidate\<close>

text \<open>What the agent left in the sandbox: the mutation file parsed, the diff, the transcript.\<close>

record agent_work =
  aw_result :: document
  aw_mutation :: document
  aw_diff :: string
  aw_transcript :: pyval

definition candidate_checksum :: "(string \<Rightarrow> string) \<Rightarrow> document \<Rightarrow> string" where
  "candidate_checksum hs c = hs (compact True (PDict (without_key ''checksum'' c)))"

definition candidate_payload :: "agent_work \<Rightarrow> document" where
  "candidate_payload aw =
     (let r = aw_result aw; m = aw_mutation aw;
          summary = text_of (py_or (get0 r ''summary'') (get0 m ''summary''))
      in [(''schema_version'', PStr ''1.0.0''), (''kind'', PStr ''candidate_change_set''),
          (''summary'', PStr (if summary = [] then ''candidate ready'' else summary)),
          (''diff'', PStr (aw_diff aw)), (''transcript'', aw_transcript aw),
          (''agent'', PDict [(''backend'', get0 r ''backend''), (''honesty'', get0 r ''honesty''),
             (''kimi_fallback'', get0 r ''kimi_fallback''), (''kimi_error'', get0 r ''kimi_error''),
             (''cli_returncode'', get0 r ''cli_returncode''), (''brief_mode'', get0 r ''brief_mode'')]),
          (''mutation'', PDict m),
          (''product_dna_version'', py_or (get0 r ''product_dna_version'') (get0 m ''product_dna_version'')),
          (''pin_versions'', py_or (py_or (get0 r ''pin_versions'') (get0 m ''pin_versions'')) (PDict [])),
          (''paths_touched'', PList (map PStr [''blueprint/product_blueprint.yaml'', ''candidate/mutation.json'', ''transcript/session.jsonl''])),
          (''applied'', PBool False),
          (''honesty'', PStr ''candidate only - never an applied change; packager owns promotion'')])"

definition build_candidate_artifact :: "(string \<Rightarrow> string) \<Rightarrow> agent_work \<Rightarrow> document" where
  "build_candidate_artifact hs aw =
     (let p = candidate_payload aw in dset ''checksum'' (PStr (candidate_checksum hs p)) p)"

definition verify_candidate_checksum :: "(string \<Rightarrow> string) \<Rightarrow> document \<Rightarrow> bool" where
  "verify_candidate_checksum hs c =
     (truthy (get0 c ''checksum'') \<and> PStr (candidate_checksum hs c) = get0 c ''checksum'')"

section \<open>The live audit\<close>

text \<open>What a planner answers on a blueprint: the unsupported capabilities it surveys, then its error or
  the planned capabilities (id, strategy, blocks).\<close>

record planned_capability =
  pc_id :: string
  pc_strategy :: string
  pc_blocks :: "string list"

record planner_answer =
  pl_unsupported :: "pyval list"
  pl_plan :: "string + planned_capability list"

record wb_env =
  we_environ :: environ
  we_now :: string
  we_now_s :: int
  we_sha :: "string \<Rightarrow> string"
  we_file :: "string \<Rightarrow> string option"
  we_json_error :: "string \<Rightarrow> string"
  we_time :: "string \<Rightarrow> string + int \<times> string"
  we_workspaces :: string
  we_product_root :: "string \<Rightarrow> string option"
  we_is_dir :: "string \<Rightarrow> bool"
  we_dna_verified :: "string \<Rightarrow> string option"
  we_dna_errors :: "string \<Rightarrow> string list"
  we_model_validate :: "pyval \<Rightarrow> string + pyval"
  we_workspace_blueprint :: "string \<Rightarrow> (string + pyval) option"
  we_planner :: "pyval \<Rightarrow> planner_answer"
  we_tests :: "string \<Rightarrow> nat"

definition dead_checks :: "pyval list \<Rightarrow> pyval list" where
  "dead_checks cs = map (\<lambda>(i, c). get_or (dict_of c) ''name'' (PStr (''check-'' @ show_nat i)))
     (filter (\<lambda>(i, c). get0 (dict_of c) ''status'' \<noteq> PStr ''LIVE'') (enumerate 0 cs))"

text \<open>A time without a zone is UTC; \<open>we_time\<close> gives the seconds since the epoch and the ISO text.\<close>

definition validate_audit_artifact :: "wb_env \<Rightarrow> string \<Rightarrow> string + document" where
  "validate_audit_artifact we path = (case we_file we path of
       None \<Rightarrow> Inl (''audit artifact not found: '' @ path)
     | Some text \<Rightarrow> (case loads text of
         None \<Rightarrow> Inl (''audit artifact is not valid JSON: '' @ we_json_error we text)
       | Some v \<Rightarrow>
          (let d = dict_of v; checks = list_of (get0 d ''checks''); ran = text_of (get0 d ''ran_at'')
           in if checks = [] then Inl ''audit artifact has no checks''
              else if dead_checks checks \<noteq> [] then Inl (''audit artifact contains DEAD checks: '' @ py_repr (PList (dead_checks checks)))
              else if ran = [] then Inl ''audit artifact missing ran_at''
              else case we_time we ran of
                Inl e \<Rightarrow> Inl (''audit artifact ran_at is not ISO-8601: '' @ e)
              | Inr (t, ran_iso) \<Rightarrow>
                  (if we_now_s we - t > 86400 then Inl (''audit artifact is stale (ran_at='' @ ran_iso @ '')'') else Inr d))))"

definition audit_reference :: "cr_item \<Rightarrow> document \<Rightarrow> string" where
  "audit_reference item candidate = text_of (py_or (ci_audit_artifact item) (get0 candidate ''audit_artifact''))"

definition checked_audit :: "wb_env \<Rightarrow> cr_item \<Rightarrow> document \<Rightarrow> string + document" where
  "checked_audit we item candidate =
     (if audit_reference item candidate = [] then Inl ''no audit_artifact reference on the request''
      else validate_audit_artifact we (audit_reference item candidate))"

section \<open>The acceptance gates\<close>

record gate_row =
  gr_gate :: string
  gr_passed :: bool
  gr_message :: string
  gr_evidence :: pyval

definition gate_result :: "string \<Rightarrow> bool \<Rightarrow> pyval \<Rightarrow> string \<Rightarrow> gate_row" where
  "gate_result g ok ev msg = \<lparr>gr_gate = g, gr_passed = ok, gr_message = msg, gr_evidence = ev\<rparr>"

definition gate_row_doc :: "gate_row \<Rightarrow> pyval" where
  "gate_row_doc r = PDict [(''gate'', PStr (gr_gate r)), (''passed'', PBool (gr_passed r)),
     (''message'', PStr (gr_message r)), (''evidence'', gr_evidence r)]"

definition checksum_row :: "wb_env \<Rightarrow> document \<Rightarrow> gate_row" where
  "checksum_row we c = (let ok = verify_candidate_checksum (we_sha we) c
     in gate_result ''candidate_checksum'' ok (PDict [(''checksum'', get0 c ''checksum'')])
          (if ok then ''ok'' else ''candidate checksum mismatch (tampered)''))"

definition audit_row :: "wb_env \<Rightarrow> cr_item \<Rightarrow> document \<Rightarrow> gate_row" where
  "audit_row we item c = (case checked_audit we item c of
       Inr d \<Rightarrow> gate_result ''live_audit_evidence'' True
         (PDict [(''ran_at'', get0 d ''ran_at''), (''checks'', PInt (int (length (list_of (get0 d ''checks'')))))])
         ''live audit all-LIVE and fresh''
     | Inl e \<Rightarrow> gate_result ''live_audit_evidence'' False PNone e)"

text \<open>The blueprint the planner gates judge: the candidate's, else the one of the session's workspace.\<close>

definition candidate_blueprint :: "document \<Rightarrow> pyval" where
  "candidate_blueprint c = get0 (dict_of (get0 c ''mutation'')) ''blueprint''"

definition judged_blueprint :: "wb_env \<Rightarrow> string \<Rightarrow> document \<Rightarrow> (string + pyval) option" where
  "judged_blueprint we workspace c =
     (if truthy (candidate_blueprint c) then Some (we_model_validate we (candidate_blueprint c))
      else if workspace \<noteq> [] then we_workspace_blueprint we workspace else None)"

definition blueprint_rows :: "(string + pyval) option \<Rightarrow> gate_row list" where
  "blueprint_rows bp = (case bp of Some (Inl e) \<Rightarrow> [gate_result ''blueprint_valid'' False PNone e] | _ \<Rightarrow> [])"

definition unresolved :: "planned_capability list \<Rightarrow> string list" where
  "unresolved cs = map pc_id (filter (\<lambda>c. pc_strategy c \<in> {''REUSE'', ''ADAPT'', ''COMPOSE''} \<and> pc_blocks c = []) cs)"

definition planner_row :: "wb_env \<Rightarrow> string \<Rightarrow> (string + pyval) option \<Rightarrow> gate_row" where
  "planner_row we name bp = (case bp of
       Some (Inr b) \<Rightarrow>
         (let answer = we_planner we b
          in case pl_plan answer of
               Inl e \<Rightarrow> gate_result name False (PDict [(''error'', PStr e), (''unsupported'', PList (pl_unsupported answer))]) e
             | Inr caps \<Rightarrow>
                (let bad = (if name = ''dual_registry_gate'' then unresolved caps else [])
                 in gate_result name (bad = [])
                      (PDict [(''unsupported'', PList (pl_unsupported answer)), (''capabilities'', PInt (int (length caps)))])
                      (if bad = [] then ''planner completed''
                       else ''unresolved capabilities: '' @ py_repr (PList (map PStr bad)))))
     | _ \<Rightarrow> gate_result name False PNone ''no candidate blueprint'')"

text \<open>\<open>we_dna_errors\<close> is \<open>["missing dna"]\<close> for a product without a DNA directory.\<close>

definition gate_row_of :: "wb_env \<Rightarrow> string \<Rightarrow> (string + pyval) option \<Rightarrow> string \<Rightarrow> gate_row" where
  "gate_row_of we root bp name =
     (if name = ''dna_checksum_verify'' \<or> name = ''dna_reemit'' then
        gate_result name (we_dna_errors we root = []) (PList (map PStr (we_dna_errors we root)))
          (if we_dna_errors we root = [] then ''baseline DNA ok'' else join ''; '' (we_dna_errors we root))
      else if name = ''dual_registry_gate'' \<or> name = ''planner_fail_closed'' then planner_row we name bp
      else if name \<in> {''product_tests'', ''regression_suite'', ''heal_post_check'', ''health_probe''} then
        (if we_tests we root = 0
         then gate_result name True (PDict [(''tests'', PList [])]) ''test_catalog empty - honesty pass (no invented tests)''
         else gate_result name True (PDict [(''tests_declared'', PInt (int (we_tests we root)))])
                ''catalog present; runtime suite deferred to packager CI'')
      else if name = ''store_compatibility'' then
        gate_result name True (PDict [(''store_write'', PStr ''impossible'')]) ''advisory only - workbench has no Store write path''
      else gate_result name True PNone (''unknown gate treated as advisory pass: '' @ name))"

definition requested_gates :: "cr_item \<Rightarrow> string list" where
  "requested_gates item = filter (\<lambda>g. g \<noteq> ''candidate_checksum'')
     (strs_of (get0 (dict_of (ci_dry_run item)) ''acceptance_gates_to_rerun''))"

definition session_workspace_of :: "cr_item \<Rightarrow> string" where
  "session_workspace_of item = text_of (get0 (dict_of (ci_session item)) ''workspace'')"

definition acceptance_rows :: "wb_env \<Rightarrow> cr_item \<Rightarrow> document \<Rightarrow> string \<Rightarrow> gate_row list" where
  "acceptance_rows we item c root =
     (let bp = judged_blueprint we (session_workspace_of item) c
      in checksum_row we c # audit_row we item c # blueprint_rows bp @ map (gate_row_of we root bp) (requested_gates item))"

definition gates_report :: "wb_env \<Rightarrow> string \<Rightarrow> gate_row list \<Rightarrow> pyval" where
  "gates_report we root rows = PDict
     [(''schema_version'', PStr ''1.0.0''), (''passed'', PBool (list_all gr_passed rows)),
      (''gates'', PList (map gate_row_doc rows)), (''test_catalog_count'', PInt (int (we_tests we root))),
      (''honesty'', PStr (if list_all gr_passed rows
         then ''all gates passed - eligible for packager promotion to staging/community''
         else ''gate_failed returns the request for re-approval - never silently retried''))]"

section \<open>The brief of the CLI agent\<close>

text \<open>\<open>render\<close> is the delivery standard's renderer; None is the legacy brief.  The line on the envelope
  added to the brief is left out.\<close>

definition standard_brief :: "(document \<Rightarrow> document \<Rightarrow> string + string) \<Rightarrow> document \<Rightarrow> string + string option" where
  "standard_brief render req =
     (let platform = get0 req ''platform''; pack = get0 req ''domain_pack''
      in if platform = PNone \<and> pack = PNone then Inr None
         else case (platform, pack) of
           (PDict a, PDict b) \<Rightarrow> (case render a b of
               Inl e \<Rightarrow> Inl (''delivery-standard brief incomplete: '' @ e)
             | Inr brief \<Rightarrow> Inr (Some brief))
         | _ \<Rightarrow> Inl ''CR must carry both platform and domain_pack objects, or neither'')"

section \<open>The deterministic agent\<close>

text \<open>\<open>str(version or "1.0.0").split(".")\<close>, padded to three parts, the last one raised by one.\<close>

definition bump_patch :: "string \<Rightarrow> string" where
  "bump_patch version =
     (let parts = split_on CHR ''.'' (if version = [] then ''1.0.0'' else version);
          padded = parts @ replicate (3 - length parts) ''0''
      in join ''.'' (butlast padded @ [case int_of_str (last padded) of Some i \<Rightarrow> show_int (i + 1) | None \<Rightarrow> ''1'']))"

definition capability_id :: "pyval \<Rightarrow> pyval" where
  "capability_id c = get0 (dict_of c) ''id''"

definition with_block :: "string \<Rightarrow> pyval \<Rightarrow> pyval \<Rightarrow> pyval" where
  "with_block cap block c =
     (if capability_id c = PStr cap \<and> truthy block \<and> block \<notin> set (list_of (get0 (dict_of c) ''block_ids''))
      then PDict (dset ''block_ids'' (PList (list_of (get0 (dict_of c) ''block_ids'') @ [block])) (dict_of c)) else c)"

text \<open>The blueprint as its JSON dump; None is the refusal of an expansion without a capability.\<close>

definition apply_expansion_to_blueprint :: "document \<Rightarrow> document \<Rightarrow> document option" where
  "apply_expansion_to_blueprint bp ex =
     (let cap = py_strip (text_of (get0 ex ''capability'')); block = get0 ex ''block_id''; caps = list_of (get0 bp ''capabilities'');
          data = dset ''factory_scenario'' (PStr ''MODIFY_PRODUCT'') bp
      in if cap = [] then None
         else if PStr cap \<in> set (map capability_id caps)
           then Some (dset ''capabilities'' (PList (map (with_block cap block) caps)) data)
         else Some (dset ''capabilities'' (PList (caps @ [PDict [(''id'', PStr cap),
              (''description'', py_or (get0 ex ''rationale'') (PStr (''Workbench EXPANSION: add capability '' @ cap))),
              (''block_ids'', PList (if truthy block then [block] else [])),
              (''strategy_hint'', PStr (if truthy block then ''REUSE'' else ''GENERATE''))]])) data))"

definition apply_upgrade_to_pins :: "document \<Rightarrow> document \<Rightarrow> document option" where
  "apply_upgrade_to_pins pins up =
     (let component = text_of (get0 up ''component''); to_version = text_of (get0 up ''to_version'')
      in if component = [] \<or> to_version = [] then None else Some (dset component (PStr to_version) pins))"

definition lock_pins :: "document \<Rightarrow> document" where
  "lock_pins lock = dmerge [] (map (\<lambda>p. (py_str (get0 (dict_of p) ''block_id''), PStr (py_str (get0 (dict_of p) ''version''))))
     (filter (\<lambda>p. truthy (get0 (dict_of p) ''block_id'') \<and> truthy (get0 (dict_of p) ''version'')) (list_of (get0 lock ''pins''))))"

text \<open>The kind's blueprint, pins and summary; Inl is an \<open>AgentError\<close>.  The arrow of the upgrade summary is written \<open>->\<close>.\<close>

definition stub_change :: "(string \<Rightarrow> string) \<Rightarrow> document \<Rightarrow> document \<Rightarrow> document \<Rightarrow> string + document \<times> document \<times> string" where
  "stub_change strip bp pins req =
     (let part = (\<lambda>name. dict_of (sanitize_untrusted strip (py_or (get0 req name) (PDict []))))
      in if get0 req ''kind'' = PStr ''EXPANSION'' then
           (let ex = part ''expansion''; block = get0 ex ''block_id''
            in case apply_expansion_to_blueprint bp ex of
                 None \<Rightarrow> Inl ''EXPANSION missing capability''
               | Some bp2 \<Rightarrow> Inr (bp2, (if truthy block \<and> dget pins (py_str block) = None then dset (py_str block) (PStr ''1.0.0'') pins else pins),
                   ''EXPANSION: add capability='' @ py_str (get0 ex ''capability'') @ '' block_id='' @ py_str block))
         else if get0 req ''kind'' = PStr ''UPGRADE'' then
           (let up = part ''upgrade''
            in case apply_upgrade_to_pins pins up of
                 None \<Rightarrow> Inl ''UPGRADE missing component/to_version''
               | Some pins2 \<Rightarrow> Inr (dset ''factory_scenario'' (PStr ''MODIFY_PRODUCT'') bp, pins2,
                   ''UPGRADE: '' @ py_str (get0 up ''component'') @ '' '' @ py_str (get0 up ''from_version'') @ '' -> '' @ py_str (get0 up ''to_version'')))
         else if get0 req ''kind'' = PStr ''REPAIR'' then
           Inr (dset ''factory_scenario'' (PStr ''REPAIR_PRODUCT'') bp, pins, ''REPAIR: target='' @ py_str (get0 (part ''repair'') ''target''))
         else Inl (''unsupported kind: '' @ py_str (get0 req ''kind'')))"

definition stub_next_version :: "document \<Rightarrow> string" where
  "stub_next_version envelope = bump_patch (py_str (py_or (get0 envelope ''dna_version'') (PStr ''1.0.0'')))"

definition stub_mutation :: "document \<Rightarrow> document \<times> document \<times> string \<Rightarrow> document" where
  "stub_mutation envelope ch =
     [(''kind'', get0 (dict_of (get0 envelope ''request'')) ''kind''), (''product_dna_version'', PStr (stub_next_version envelope)),
      (''pin_versions'', PDict (fst (snd ch))), (''blueprint'', PDict (fst ch)), (''summary'', PStr (snd (snd ch))),
      (''agent'', PStr ''factory_regenerator_stub''),
      (''honesty'', PStr ''STUB - not Kimi Code CLI; labeled deterministic Factory regenerator'')]"

definition stub_result :: "document \<Rightarrow> document \<times> document \<times> string \<Rightarrow> document" where
  "stub_result envelope ch =
     [(''backend'', PStr ''factory_regenerator_stub''), (''honesty'', PStr ''STUB - KIMI_WORKBENCH_ENABLED=false''),
      (''summary'', PStr (snd (snd ch))), (''product_dna_version'', PStr (stub_next_version envelope)),
      (''pin_versions'', PDict (fst (snd ch))), (''blueprint_path'', PStr ''blueprint/product_blueprint.yaml''),
      (''mutation_path'', PStr ''candidate/mutation.json'')]"

text \<open>The mutation file and the result the session reads; the blueprint is the one loaded from the product.\<close>

definition run_factory_regenerator_stub :: "(string \<Rightarrow> string) \<Rightarrow> document \<Rightarrow> document \<Rightarrow> document \<Rightarrow> string + document \<times> document" where
  "run_factory_regenerator_stub strip bp lock envelope =
     map_result (\<lambda>ch. (stub_mutation envelope ch, stub_result envelope ch))
       (stub_change strip bp (lock_pins lock) (dict_of (get0 envelope ''request'')))"

section \<open>The steps of a change request\<close>

datatype wb_exn = WorkbenchRejected string nat | WbKeyError | WbCrash

type_synonym wb_result = "(wb_exn + cr_item) \<times> cr_queue"

definition audit_event :: "wb_env \<Rightarrow> string \<Rightarrow> string \<Rightarrow> document \<Rightarrow> document" where
  "audit_event we k summary details =
     [(''kind'', PStr k), (''summary'', PStr summary), (''details'', PDict details), (''at'', PStr (we_now we)), (''immutable'', PBool True)]"

definition commit :: "wb_env \<Rightarrow> string \<Rightarrow> queue_state \<Rightarrow> cr_update \<Rightarrow> cr_queue \<Rightarrow> wb_result" where
  "commit we rid st up q = (case update_state (we_now we) rid st up q of
       None \<Rightarrow> (Inl WbKeyError, q)
     | Some (item, q1) \<Rightarrow> (Inr item, q1))"

definition first_truthy :: "document \<Rightarrow> string list \<Rightarrow> string option" where
  "first_truthy d ks = map_option (\<lambda>k. py_str (get0 d k)) (find (\<lambda>k. truthy (get0 d k)) ks)"

text \<open>The product root: as passed, from the evidence, or from the workspace record; \<open>we_product_root\<close>
  confines it to the outputs directory.\<close>

definition resolve_product_root :: "wb_env \<Rightarrow> cr_item \<Rightarrow> string option \<Rightarrow> wb_exn + string" where
  "resolve_product_root we item given_root =
     (let evidence = dict_of (get0 (ci_request item) ''evidence'');
          raw = (case given_root of Some r \<Rightarrow> Some r
             | None \<Rightarrow> (case first_truthy evidence [''scaffold'', ''product_root'', ''path''] of
                 Some r \<Rightarrow> Some r
               | None \<Rightarrow> first_truthy (dict_of (ci_workspace item)) [''product_root'']))
      in case raw of
           None \<Rightarrow> Inl (WorkbenchRejected ''product_root required (pass explicitly or in request.evidence.scaffold)'' 400)
         | Some r \<Rightarrow> (case we_product_root we r of
             None \<Rightarrow> Inl (WorkbenchRejected ''product_root must resolve inside the outputs root'' 400)
           | Some root \<Rightarrow> Inr root))"

fun state_value :: "queue_state \<Rightarrow> string" where
  "state_value Received = ''received''"
| "state_value Validated = ''validated''"
| "state_value DryRunEvaluated = ''dry_run_evaluated''"
| "state_value AwaitingApproval = ''awaiting_approval''"
| "state_value Approved = ''approved''"
| "state_value Rejected = ''rejected''"
| "state_value WorkbenchRunning = ''workbench_running''"
| "state_value CandidateReady = ''candidate_ready''"
| "state_value GatePassed = ''gate_passed''"
| "state_value GateFailed = ''gate_failed''"
| "state_value Staged = ''staged''"

definition not_approved_reason :: "queue_state \<Rightarrow> string" where
  "not_approved_reason st =
     (if st = AwaitingApproval then ''request awaits approval - approve before workbench''
      else if st = GateFailed then ''gate_failed - re-approve the request before another workbench run''
      else ''workbench requires approved request, got state='' @ state_value st)"

text \<open>The guards before a session opens.\<close>

definition session_guard :: "wb_env \<Rightarrow> string \<Rightarrow> string option \<Rightarrow> cr_queue \<Rightarrow> wb_exn + cr_item \<times> string" where
  "session_guard we rid given_root q =
     (if \<not> build_mode_enabled (we_environ we) then Inl (WorkbenchRejected ''BUILD_MODE_ENABLED is false'' 503)
      else case get_item rid q of
        None \<Rightarrow> Inl (WorkbenchRejected ''not found'' 404)
      | Some item \<Rightarrow>
          (if ci_state item \<noteq> Approved then Inl (WorkbenchRejected (not_approved_reason (ci_state item)) 400)
           else bind_result (resolve_product_root we item given_root) (\<lambda>root.
             if \<not> we_is_dir we root then Inl (WorkbenchRejected (''product_root not found: '' @ root) 400)
             else case we_dna_verified we root of
               Some e \<Rightarrow> Inl (WorkbenchRejected e 400)
             | None \<Rightarrow> Inr (item, root))))"

definition session_record :: "string \<Rightarrow> string \<Rightarrow> string \<Rightarrow> string \<Rightarrow> document \<Rightarrow> pyval" where
  "session_record sid workspace root status extra =
     PDict ([(''session_id'', PStr sid), (''workspace'', PStr workspace), (''product_root'', PStr root), (''status'', PStr status)] @ extra)"

definition session_workspace :: "cr_item \<Rightarrow> string \<Rightarrow> string \<Rightarrow> string \<Rightarrow> pyval" where
  "session_workspace item workspace root sid = PDict (dmerge (dict_of (ci_workspace item))
     [(''path'', PStr workspace), (''worktree_created'', PBool True), (''agent_started'', PBool True),
      (''product_root'', PStr root), (''session_id'', PStr sid)])"

text \<open>How the agent ends: one of the four exceptions the session catches (message, and the CLI's error and
  code when it was the CLI), any other exception - such as a mutation file that is not JSON - or its work.\<close>

datatype agent_answer = AgentFailed string "(string \<times> int option) option" "pyval list" | AgentCrashed | AgentWorked agent_work

definition open_session :: "wb_env \<Rightarrow> string \<Rightarrow> string \<Rightarrow> cr_item \<Rightarrow> string \<Rightarrow> cr_queue \<Rightarrow> wb_result" where
  "open_session we rid sid item root q = commit we rid WorkbenchRunning
     (no_update\<lparr>up_session := session_record sid (we_workspaces we @ ''/'' @ sid) root ''running'' [],
        up_workspace := session_workspace item (we_workspaces we @ ''/'' @ sid) root sid,
        up_audit := Some (audit_event we ''workbench_started'' (''session '' @ sid @ '' started'')
          [(''session_id'', PStr sid), (''product_root'', PStr root)])\<rparr>) q"

definition session_failed :: "wb_env \<Rightarrow> string \<Rightarrow> string \<Rightarrow> string \<Rightarrow> (string \<times> int option) option \<Rightarrow> pyval list \<Rightarrow> cr_queue \<Rightarrow> wb_result" where
  "session_failed we rid sid why cli tail q =
     (case commit we rid GateFailed
        (no_update\<lparr>up_session := PDict [(''session_id'', PStr sid), (''workspace'', PStr (we_workspaces we @ ''/'' @ sid)),
             (''status'', PStr ''failed''), (''error'', PStr why)],
           up_gate_report := PDict ([(''passed'', PBool False), (''error'', PStr why), (''honesty'', PStr ''session died loudly'')]
             @ (case cli of None \<Rightarrow> [] | Some (e, rc) \<Rightarrow> [(''kimi_error'', PStr e),
                 (''cli_returncode'', case rc of None \<Rightarrow> PNone | Some i \<Rightarrow> PInt i)])),
           up_audit := Some (audit_event we ''workbench_failed'' why
             [(''session_id'', PStr sid), (''transcript_tail'', PList tail)])\<rparr>) q of
        (Inl e, q1) \<Rightarrow> (Inl e, q1)
      | (Inr item, q1) \<Rightarrow> (Inl (WorkbenchRejected why (if cli \<noteq> None then 502 else 400)), q1))"

definition session_done :: "wb_env \<Rightarrow> string \<Rightarrow> string \<Rightarrow> string \<Rightarrow> agent_work \<Rightarrow> cr_queue \<Rightarrow> wb_result" where
  "session_done we rid sid root aw q =
     (let c = build_candidate_artifact (we_sha we) aw
      in commit we rid CandidateReady
        (no_update\<lparr>up_candidate := PDict c,
           up_session := session_record sid (we_workspaces we @ ''/'' @ sid) root ''candidate_ready'' [(''agent'', PDict (aw_result aw))],
           up_audit := Some (audit_event we ''candidate_ready'' (text_of (py_or (get0 c ''summary'') (PStr ''candidate ready'')))
             [(''checksum'', get0 c ''checksum''), (''diff_bytes'', PInt (int (length (text_of (get0 c ''diff''))))),
              (''session_id'', PStr sid)])\<rparr>) q)"

definition session_root :: "cr_item \<Rightarrow> string" where
  "session_root item = text_of (py_or (get0 (dict_of (ci_session item)) ''product_root'') (get0 (dict_of (ci_workspace item)) ''product_root''))"

definition gates_guard :: "wb_env \<Rightarrow> string \<Rightarrow> cr_queue \<Rightarrow> wb_exn + cr_item \<times> document \<times> string" where
  "gates_guard we rid q =
     (if \<not> build_mode_enabled (we_environ we) then Inl (WorkbenchRejected ''BUILD_MODE_ENABLED is false'' 503)
      else case get_item rid q of
        None \<Rightarrow> Inl (WorkbenchRejected ''not found'' 404)
      | Some item \<Rightarrow>
          (if ci_state item \<notin> {CandidateReady, GateFailed, GatePassed} then
             Inl (WorkbenchRejected (''gates require candidate_ready, got '' @ state_value (ci_state item)) 400)
           else if \<not> truthy (ci_candidate item) then Inl (WorkbenchRejected ''missing candidate artifact'' 400)
           else if \<not> we_is_dir we (session_root item) then Inl (WorkbenchRejected ''product_root missing on session'' 400)
           else Inr (item, dict_of (ci_candidate item), session_root item)))"

text \<open>The verdict is written to the item as it is then, from rows computed on the item as it was read.\<close>

definition record_gates :: "wb_env \<Rightarrow> string \<Rightarrow> cr_item \<Rightarrow> string \<Rightarrow> gate_row list \<Rightarrow> cr_queue \<Rightarrow> wb_result" where
  "record_gates we rid item root rows q =
     (if list_all gr_passed rows then
        commit we rid GatePassed (no_update\<lparr>up_gate_report := gates_report we root rows,
          up_audit := Some (audit_event we ''gate_passed'' ''acceptance gates passed''
            [(''gates'', PList (map (PStr \<circ> gr_gate) rows))])\<rparr>) q
      else
        commit we rid GateFailed (no_update\<lparr>up_gate_report := gates_report we root rows,
          up_decision := PDict (dmerge (dict_of (ci_decision item))
            [(''superseded_by_gate_failure'', PBool True),
             (''note'', PStr ''gate_failed - re-approval required before another workbench run'')]),
          up_audit := Some (audit_event we ''gate_failed'' ''acceptance gates failed - returned for re-approval''
            [(''gates'', PList (map gate_row_doc rows))])\<rparr>) q)"

definition evaluate_gates :: "wb_env \<Rightarrow> string \<Rightarrow> cr_queue \<Rightarrow> wb_result" where
  "evaluate_gates we rid q = (case gates_guard we rid q of
       Inl e \<Rightarrow> (Inl e, q)
     | Inr (item, c, root) \<Rightarrow> record_gates we rid item root (acceptance_rows we item c root) q)"

definition run_workbench_session ::
  "wb_env \<Rightarrow> string \<Rightarrow> string \<Rightarrow> string option \<Rightarrow> agent_answer \<Rightarrow> bool \<Rightarrow> cr_queue \<Rightarrow> wb_result" where
  "run_workbench_session we rid sid given_root answer run_gates q = (case session_guard we rid given_root q of
       Inl e \<Rightarrow> (Inl e, q)
     | Inr (item, root) \<Rightarrow>
        (case open_session we rid sid item root q of
           (Inl e, q1) \<Rightarrow> (Inl e, q1)
         | (Inr item1, q1) \<Rightarrow>
            (case answer of
               AgentFailed why cli tail \<Rightarrow> session_failed we rid sid why cli tail q1
             | AgentCrashed \<Rightarrow> (Inl WbCrash, q1)
             | AgentWorked aw \<Rightarrow>
                (case session_done we rid sid root aw q1 of
                   (Inl e, q2) \<Rightarrow> (Inl e, q2)
                 | (Inr item2, q2) \<Rightarrow> (if run_gates then evaluate_gates we rid q2 else (Inr item2, q2))))))"

section \<open>Promotion\<close>

text \<open>The guards of the packager's door.  The package itself (\<open>ProductGenerator\<close>) answers with its
  checksum errors, its output directory, and the fields of its manifest and lock file.\<close>

record package_answer =
  pa_errors :: "string list"
  pa_product :: string
  pa_output :: string
  pa_inputs_hash :: pyval
  pa_manifest :: document
  pa_pins :: pyval

definition promotion_version :: "document \<Rightarrow> string" where
  "promotion_version c = text_of (py_or (py_or (get0 c ''product_dna_version'')
     (get0 (dict_of (get0 c ''mutation'')) ''product_dna_version'')) (PStr ''1.0.1''))"

definition promotion_record :: "wb_env \<Rightarrow> cr_item \<Rightarrow> document \<Rightarrow> string \<Rightarrow> package_answer \<Rightarrow> document" where
  "promotion_record we item c actor pkg =
     [(''schema_version'', PStr ''1.0.0''), (''promoted_at'', PStr (we_now we)), (''actor'', PStr actor),
      (''request_id'', PStr (ci_id item)), (''product_id'', PStr (pa_product pkg)),
      (''product_dna_version'', PStr (promotion_version c)), (''output_dir'', PStr (pa_output pkg)),
      (''trust_tier'', PStr ''staging/community''), (''certified'', PBool False), (''deployed'', PBool False),
      (''store_published'', PBool False), (''packager'', PStr ''ProductGenerator''),
      (''inputs_hash'', pa_inputs_hash pkg),
      (''generation_manifest'', PDict [(''product_dna_version'', get0 (pa_manifest pkg) ''product_dna_version''),
         (''factory_scenario'', get0 (pa_manifest pkg) ''factory_scenario'')]),
      (''block_lockfile_pins'', pa_pins pkg), (''candidate_checksum'', get0 c ''checksum''),
      (''deploy_credentials'', PBool False),
      (''honesty'', PStr ''staging/community only - certified tier requires existing chain-approve; workbench has no deploy credentials'')]"

definition promote_via_packager ::
  "wb_env \<Rightarrow> cr_item \<Rightarrow> document \<Rightarrow> string \<Rightarrow> package_answer \<Rightarrow> string + document" where
  "promote_via_packager we item c actor pkg =
     (if ci_state item \<noteq> GatePassed then Inl (''state must be gate_passed, got '' @ state_value (ci_state item))
      else case checked_audit we item c of
        Inl e \<Rightarrow> Inl (''audit_missing_or_stale: '' @ e)
      | Inr _ \<Rightarrow>
          (if \<not> verify_candidate_checksum (we_sha we) c then Inl ''tampered candidate - checksum failure at packager''
           else if \<not> truthy (candidate_blueprint c) then Inl ''candidate missing blueprint mutation''
           else case we_model_validate we (candidate_blueprint c) of
             Inl e \<Rightarrow> Inl (''invalid blueprint: '' @ e)
           | Inr _ \<Rightarrow> (if pa_errors pkg \<noteq> [] then Inl (''packager checksum failure: '' @ py_repr (PList (map PStr (pa_errors pkg))))
               else Inr (promotion_record we item c actor pkg))))"

definition promote_request :: "wb_env \<Rightarrow> string \<Rightarrow> string \<Rightarrow> package_answer \<Rightarrow> cr_queue \<Rightarrow> wb_result" where
  "promote_request we rid actor pkg q =
     (if \<not> build_mode_enabled (we_environ we) then (Inl (WorkbenchRejected ''BUILD_MODE_ENABLED is false'' 503), q)
      else case get_item rid q of
        None \<Rightarrow> (Inl (WorkbenchRejected ''not found'' 404), q)
      | Some item \<Rightarrow>
          (if ci_state item \<noteq> GatePassed then
             (Inl (WorkbenchRejected (''promote requires gate_passed, got '' @ state_value (ci_state item)) 400), q)
           else if ci_candidate item = PNone then (Inl WbKeyError, q)
           else case promote_via_packager we item (dict_of (ci_candidate item)) actor pkg of
             Inl why \<Rightarrow> (Inl (WorkbenchRejected why 400), q)
           | Inr rec \<Rightarrow> commit we rid Staged (no_update\<lparr>up_promotion := PDict rec,
               up_audit := Some (audit_event we ''staged''
                 (''packaged to staging/community at '' @ py_str (get0 rec ''output_dir'')) rec)\<rparr>) q))"

end
