(* ===== verification/RequestSteps.thy ===== *)
theory RequestSteps
  imports Workbench "HOL-Library.Sublist"
begin

text \<open>
  The life of a change request.  \<open>item_step\<close> is the abstract machine of one item; every
  operation of the queue, the intake and the workbench refines it (\<open>cr_step\<close>), so a
  property of items is proved once over \<open>item_step\<close>, through the locale
  \<open>item_invariant\<close>, and holds in every reachable queue.
\<close>

section \<open>The machine of one item\<close>

inductive item_step :: "bool \<Rightarrow> cr_item \<Rightarrow> cr_item \<Rightarrow> bool" where
  Evaluate: "st \<in> {Validated, DryRunEvaluated, AwaitingApproval} \<Longrightarrow> up_candidate up = PNone \<Longrightarrow>
     item_step ext i (updated_item now st up i)"
| Decide: "st \<in> {Approved, Rejected} \<Longrightarrow> up_candidate up = PNone \<Longrightarrow> item_step ext i (updated_item now st up i)"
| Open: "ci_state i = Approved \<Longrightarrow> up_candidate up = PNone \<Longrightarrow> item_step ext i (updated_item now WorkbenchRunning up i)"
| Fail: "ci_state i = WorkbenchRunning \<Longrightarrow> up_candidate up = PNone \<Longrightarrow> item_step ext i (updated_item now GateFailed up i)"
| Finish: "ci_state i = WorkbenchRunning \<Longrightarrow> up_candidate up = PDict (build_candidate_artifact hs aw) \<Longrightarrow>
     item_step ext i (updated_item now CandidateReady up i)"
| Pass: "truthy (ci_candidate i) \<Longrightarrow> ci_state i \<in> {CandidateReady, GateFailed, GatePassed} \<Longrightarrow>
     list_all gr_passed (acceptance_rows we i (dict_of (ci_candidate i)) root) \<Longrightarrow> up_candidate up = PNone \<Longrightarrow>
     item_step ext i (updated_item now GatePassed up i)"
| Refuse: "truthy (ci_candidate i) \<Longrightarrow> ci_state i \<in> {CandidateReady, GateFailed, GatePassed} \<Longrightarrow> up_candidate up = PNone \<Longrightarrow>
     item_step ext i (updated_item now GateFailed up i)"
| Stage: "promote_via_packager we i (dict_of (ci_candidate i)) actor pkg = Inr rec \<Longrightarrow> up_candidate up = PNone \<Longrightarrow>
     item_step ext i (updated_item now Staged up i)"
| Attach: "ext \<Longrightarrow> item_step ext i (i\<lparr>ci_audit_artifact := PStr a\<rparr>)"

inductive_cases item_stepE: "item_step ext i j"

section \<open>The steps of the system\<close>

text \<open>\<open>Attached\<close> stands for an operator who writes the audit reference into an item's file; no
  operation of the program does.\<close>

inductive cr_step :: "bool \<Rightarrow> cr_world \<Rightarrow> cr_world \<Rightarrow> bool" where
  Intaken: "intake_change_request ce doc dna root w = (r, w') \<Longrightarrow> cr_step ext w w'"
| Emitted: "emit_repair_from_escalation ce rid fresh product dv symptom target failed evidence requester priv pub submit w = (r, w')
     \<Longrightarrow> cr_step ext w w'"
| Decided: "record_decision now rid approved actor why (cw_queue w) = Some (i, q) \<Longrightarrow> cr_step ext w (w\<lparr>cw_queue := q\<rparr>)"
| Worked: "run_workbench_session we rid sid root answer gates (cw_queue w) = (r, q) \<Longrightarrow> cr_step ext w (w\<lparr>cw_queue := q\<rparr>)"
| Judged: "evaluate_gates we rid (cw_queue w) = (r, q) \<Longrightarrow> cr_step ext w (w\<lparr>cw_queue := q\<rparr>)"
| Promoted: "promote_request we rid actor pkg (cw_queue w) = (r, q) \<Longrightarrow> cr_step ext w (w\<lparr>cw_queue := q\<rparr>)"
| Attached: "ext \<Longrightarrow> get_item rid (cw_queue w) = Some i \<Longrightarrow>
     cr_step ext w (w\<lparr>cw_queue := dset (item_path rid) (i\<lparr>ci_audit_artifact := PStr a\<rparr>) (cw_queue w)\<rparr>)"

section \<open>The simulation\<close>

text \<open>Each file of the queue keeps its item, moved on by item steps; a new file starts from a received item.\<close>

definition queue_sim :: "bool \<Rightarrow> cr_queue \<Rightarrow> cr_queue \<Rightarrow> bool" where
  "queue_sim ext q q' =
     ((\<forall>p i. dget q p = Some i \<longrightarrow> (\<exists>j. dget q' p = Some j \<and> (item_step ext)\<^sup>*\<^sup>* i j)) \<and>
      (\<forall>p j. dget q p = None \<longrightarrow> dget q' p = Some j \<longrightarrow>
         (\<exists>now req. validate_change_request req = [] \<and> p = item_path (py_str (get0 req ''request_id'')) \<and> (item_step ext)\<^sup>*\<^sup>* (received_item now req) j)))"

lemma queue_sim_refl [simp, intro]: "queue_sim ext q q"
  by (auto simp: queue_sim_def)

lemma queue_sim_trans [trans]:
  assumes "queue_sim ext q q1" "queue_sim ext q1 q2"
  shows "queue_sim ext q q2"
proof -
  have "\<exists>j. dget q2 p = Some j \<and> (item_step ext)\<^sup>*\<^sup>* i j" if a: "dget q p = Some i" for p i
  proof -
    obtain k where k: "dget q1 p = Some k" "(item_step ext)\<^sup>*\<^sup>* i k"
      using assms(1) a unfolding queue_sim_def by blast
    obtain j where "dget q2 p = Some j" "(item_step ext)\<^sup>*\<^sup>* k j"
      using assms(2) k(1) unfolding queue_sim_def by blast
    then show ?thesis using k(2) by (blast intro: rtranclp_trans)
  qed
  moreover have "\<exists>now req. validate_change_request req = [] \<and> p = item_path (py_str (get0 req ''request_id'')) \<and> (item_step ext)\<^sup>*\<^sup>* (received_item now req) j"
    if a: "dget q p = None" "dget q2 p = Some j" for p j
  proof (cases "dget q1 p")
    case None
    then show ?thesis using assms(2) a(2) unfolding queue_sim_def by blast
  next
    case (Some k)
    then obtain now req where r: "validate_change_request req = []" "p = item_path (py_str (get0 req ''request_id''))" "(item_step ext)\<^sup>*\<^sup>* (received_item now req) k"
      using assms(1) a(1) unfolding queue_sim_def by blast
    obtain j' where "dget q2 p = Some j'" "(item_step ext)\<^sup>*\<^sup>* k j'"
      using assms(2) Some unfolding queue_sim_def by blast
    then have "(item_step ext)\<^sup>*\<^sup>* k j" using a(2) by simp
    then show ?thesis using r by (blast intro: rtranclp_trans)
  qed
  ultimately show ?thesis unfolding queue_sim_def by blast
qed

lemma queue_sim_set:
  "get_item rid q = Some i \<Longrightarrow> item_step ext i j \<Longrightarrow> queue_sim ext q (dset (item_path rid) j q)"
  by (auto simp: queue_sim_def get_item_def dict_simps)

lemma queue_sim_new:
  "validate_change_request req = [] \<Longrightarrow> get_item (py_str (get0 req ''request_id'')) q = None \<Longrightarrow>
   queue_sim ext q (dset (item_path (py_str (get0 req ''request_id''))) (received_item now req) q)"
  by (auto simp: queue_sim_def get_item_def dict_simps split: if_splits)

lemma update_stateD:
  "update_state now rid st up q = Some (j, q') \<Longrightarrow>
   \<exists>i. get_item rid q = Some i \<and> j = updated_item now st up i \<and> q' = dset (item_path rid) j q"
  by (auto simp: update_state_def split: option.splits)

lemma update_state_sim:
  assumes "update_state now rid st up q = Some (j, q')"
    and "\<And>i. get_item rid q = Some i \<Longrightarrow> item_step ext i (updated_item now st up i)"
  shows "queue_sim ext q q'" "get_item rid q' = Some j"
proof -
  obtain i where i: "get_item rid q = Some i" "j = updated_item now st up i" "q' = dset (item_path rid) j q"
    using update_stateD[OF assms(1)] by blast
  show "queue_sim ext q q'" using queue_sim_set[OF i(1) assms(2)[OF i(1)]] i(2,3) by simp
  show "get_item rid q' = Some j" using i(3) by (simp add: get_item_def dict_simps)
qed

lemma no_update_fields [simp]: "up_candidate no_update = PNone"
  by (simp add: no_update_def)

lemma record_decision_sim: "record_decision now rid ok actor why q = Some (j, q') \<Longrightarrow> queue_sim ext q q'"
  unfolding record_decision_def
  by (erule update_state_sim) (auto intro: item_step.Decide)

lemma evaluate_item_sim: "evaluate_item ce doc dna root rid q = Some (j, q') \<Longrightarrow> queue_sim ext q q'"
proof -
  assume a: "evaluate_item ce doc dna root rid q = Some (j, q')"
  obtain up1 up2 up3 i1 i2 q1 q2 where u:
    "update_state (ce_now ce) rid Validated up1 q = Some (i1, q1)" "up_candidate up1 = PNone"
    "update_state (ce_now ce) rid DryRunEvaluated up2 q1 = Some (i2, q2)" "up_candidate up2 = PNone"
    "update_state (ce_now ce) rid AwaitingApproval up3 q2 = Some (j, q')" "up_candidate up3 = PNone"
  proof -
    show thesis if t: "\<And>up1 i1 q1 up2 i2 q2 up3. update_state (ce_now ce) rid Validated up1 q = Some (i1, q1) \<Longrightarrow>
        up_candidate up1 = PNone \<Longrightarrow> update_state (ce_now ce) rid DryRunEvaluated up2 q1 = Some (i2, q2) \<Longrightarrow>
        up_candidate up2 = PNone \<Longrightarrow> update_state (ce_now ce) rid AwaitingApproval up3 q2 = Some (j, q') \<Longrightarrow>
        up_candidate up3 = PNone \<Longrightarrow> thesis"
      using a unfolding evaluate_item_def Let_def
      by (auto split: option.splits prod.splits intro!: t)
  qed
  have "queue_sim ext q q1" using u(1,2) by (auto elim!: update_state_sim intro: item_step.Evaluate)
  also have "queue_sim ext q1 q2" using u(3,4) by (auto elim!: update_state_sim intro: item_step.Evaluate)
  also have "queue_sim ext q2 q'" using u(5,6) by (auto elim!: update_state_sim intro: item_step.Evaluate)
  finally show "queue_sim ext q q'" .
qed

lemma put_received_sim: "validate_change_request req = [] \<Longrightarrow> put_received now req q = (i, q') \<Longrightarrow> queue_sim ext q q'"
  unfolding put_received_def Let_def
  by (auto split: option.splits intro: queue_sim_new)

lemma intake_sim:
  assumes "intake_change_request ce doc dna root w = (r, w')"
  shows "queue_sim ext (cw_queue w) (cw_queue w')"
proof (cases "validate_change_request doc = []")
  case False
  then show ?thesis using assms by (auto simp: intake_change_request_def Let_def log_rejection_def split: if_splits)
next
  case True
  obtain i q where p: "put_received (ce_now ce) doc (cw_queue w) = (i, q)" by fastforce
  have q: "queue_sim ext (cw_queue w) q" by (rule put_received_sim[OF True p])
  have "cw_queue w' = cw_queue w \<or> cw_queue w' = q \<or> (\<exists>j rid. evaluate_item ce doc dna root rid q = Some (j, cw_queue w'))"
    using assms unfolding intake_change_request_def Let_def p
    by (auto simp: log_rejection_def split: if_splits sum.splits option.splits)
  then show ?thesis using q evaluate_item_sim queue_sim_trans[OF q] by auto
qed

lemma emission_sim:
  assumes "emit_repair_from_escalation ce rid fresh product dv symptom target failed evidence requester priv pub submit w = (r, w')"
  shows "queue_sim ext (cw_queue w) (cw_queue w')"
proof -
  have "cw_queue w' = cw_queue w \<or>
    (\<exists>doc r1 ks. intake_change_request ce doc None None (w\<lparr>cw_keys := ks\<rparr>) = (r1, w'))"
    using assms unfolding emit_repair_from_escalation_def Let_def
    by (auto split: if_splits sum.splits prod.splits intake_exn.splits; blast)
  then show ?thesis using intake_sim[where ext = ext] by fastforce
qed

text \<open>A commit that succeeds is one item step.\<close>

lemma commit_sim:
  assumes "commit we rid st up q = (r, q')"
    and "\<And>i. get_item rid q = Some i \<Longrightarrow> item_step ext i (updated_item (we_now we) st up i)"
  shows "queue_sim ext q q'"
  using assms(1) update_state_sim(1)[OF _ assms(2)]
  by (auto simp: commit_def split: option.splits)

lemma commit_OkD:
  "commit we rid st up q = (Inr j, q') \<Longrightarrow>
   \<exists>i. get_item rid q = Some i \<and> j = updated_item (we_now we) st up i \<and> q' = dset (item_path rid) j q \<and> get_item rid q' = Some j"
  by (auto simp: commit_def get_item_def dict_simps dest!: update_stateD split: option.splits)

lemma updated_item_fields [simp]:
  "ci_state (updated_item now st up i) = st"
  "ci_id (updated_item now st up i) = ci_id i"
  "ci_request (updated_item now st up i) = ci_request i"
  "ci_created (updated_item now st up i) = ci_created i"
  "ci_history (updated_item now st up i) = ci_history i @ [(st, now)]"
  "ci_audit_artifact (updated_item now st up i) = ci_audit_artifact i"
  "ci_candidate (updated_item now st up i) = given (up_candidate up) (ci_candidate i)"
  by (simp_all add: updated_item_def)

lemma given_simps [simp]: "given PNone old = old" "v \<noteq> PNone \<Longrightarrow> given v old = v"
  by (simp_all add: given_def)

lemma gates_guardD:
  "gates_guard we rid q = Inr (i, c, root) \<Longrightarrow>
   get_item rid q = Some i \<and> c = dict_of (ci_candidate i) \<and> truthy (ci_candidate i) \<and>
   ci_state i \<in> {CandidateReady, GateFailed, GatePassed}"
  unfolding gates_guard_def by (auto split: if_splits option.splits)

lemma gates_sim:
  assumes "evaluate_gates we rid q = (r, q')"
  shows "queue_sim ext q q'"
proof (cases "gates_guard we rid q")
  case (Inl e)
  then show ?thesis using assms by (simp add: evaluate_gates_def)
next
  case (Inr x)
  obtain i c root where x: "x = (i, c, root)" by (cases x) auto
  note g = gates_guardD[OF Inr[unfolded x]]
  have e: "record_gates we rid i root (acceptance_rows we i c root) q = (r, q')"
    using assms Inr x by (simp add: evaluate_gates_def)
  show ?thesis
  proof (cases "list_all gr_passed (acceptance_rows we i c root)")
    case True
    then show ?thesis using e g unfolding record_gates_def
      by (auto elim!: commit_sim intro!: item_step.Pass)
  next
    case False
    then show ?thesis using e g unfolding record_gates_def
      by (auto elim!: commit_sim intro!: item_step.Refuse)
  qed
qed

lemma session_guardD:
  "session_guard we rid given_root q = Inr (i, root) \<Longrightarrow> get_item rid q = Some i \<and> ci_state i = Approved"
  unfolding session_guard_def
  by (auto simp: result_simps split: if_splits option.splits)

lemma session_sim:
  assumes "run_workbench_session we rid sid given_root answer gates q = (r, q')"
  shows "queue_sim ext q q'"
proof (cases "session_guard we rid given_root q")
  case (Inl e)
  then show ?thesis using assms by (simp add: run_workbench_session_def)
next
  case (Inr x)
  obtain i root where x: "x = (i, root)" by (cases x) auto
  note g = session_guardD[OF Inr[unfolded x]]
  obtain r1 q1 where o: "open_session we rid sid i root q = (r1, q1)" by fastforce
  have s1: "queue_sim ext q q1"
    using o g unfolding open_session_def by (auto elim!: commit_sim intro!: item_step.Open)
  show ?thesis
  proof (cases r1)
    case (Inl e)
    then show ?thesis using assms Inr x o s1 by (simp add: run_workbench_session_def)
  next
    case (Inr i1)
    obtain up where c: "commit we rid WorkbenchRunning up q = (Inr i1, q1)"
      using o Inr unfolding open_session_def by blast
    have i1: "get_item rid q1 = Some i1" "ci_state i1 = WorkbenchRunning"
      using commit_OkD[OF c] by auto
    show ?thesis
    proof (cases answer)
      case (AgentFailed why cli tail)
      obtain r2 q2 where f: "session_failed we rid sid why cli tail q1 = (r2, q2)" by fastforce
      have "queue_sim ext q1 q2"
        using f i1 unfolding session_failed_def
        by (auto elim!: commit_sim intro!: item_step.Fail split: prod.splits sum.splits)
      then show ?thesis
        using assms \<open>session_guard we rid given_root q = Inr x\<close> x o Inr AgentFailed f queue_sim_trans[OF s1]
        by (simp add: run_workbench_session_def)
    next
      case AgentCrashed
      then show ?thesis
        using assms \<open>session_guard we rid given_root q = Inr x\<close> x o Inr s1 by (simp add: run_workbench_session_def)
    next
      case (AgentWorked aw)
      obtain r2 q2 where d: "session_done we rid sid root aw q1 = (r2, q2)" by fastforce
      have "queue_sim ext q1 q2"
        using d i1 unfolding session_done_def Let_def
        by (auto elim!: commit_sim intro!: item_step.Finish)
      then have s2: "queue_sim ext q q2" by (rule queue_sim_trans[OF s1])
      show ?thesis
        using assms \<open>session_guard we rid given_root q = Inr x\<close> x o Inr AgentWorked d s2 queue_sim_trans[OF s2 gates_sim]
        by (auto simp: run_workbench_session_def split: sum.splits if_splits)
    qed
  qed
qed

lemma promote_sim:
  assumes "promote_request we rid actor pkg q = (r, q')"
  shows "queue_sim ext q q'"
proof -
  have "q' = q \<or> (\<exists>i rec up. get_item rid q = Some i \<and> up_candidate up = PNone \<and>
      promote_via_packager we i (dict_of (ci_candidate i)) actor pkg = Inr rec \<and> commit we rid Staged up q = (r, q'))"
    using assms unfolding promote_request_def
    by (auto split: if_splits option.splits sum.splits intro!: exI)
  then show ?thesis by (auto elim!: commit_sim intro: item_step.Stage)
qed

lemma attach_sim:
  "get_item rid q = Some i \<Longrightarrow> ext \<Longrightarrow> queue_sim ext q (dset (item_path rid) (i\<lparr>ci_audit_artifact := PStr a\<rparr>) q)"
  by (rule queue_sim_set) (auto intro: item_step.Attach)

theorem cr_step_sim: "cr_step ext w w' \<Longrightarrow> queue_sim ext (cw_queue w) (cw_queue w')"
  by (induction rule: cr_step.induct)
    (auto intro: intake_sim emission_sim record_decision_sim session_sim gates_sim promote_sim attach_sim)

lemma cr_steps_sim: "(cr_step ext)\<^sup>*\<^sup>* w w' \<Longrightarrow> queue_sim ext (cw_queue w) (cw_queue w')"
  by (induction rule: rtranclp_induct) (auto intro: cr_step_sim queue_sim_trans)

section \<open>Invariants of items\<close>

locale item_invariant =
  fixes ext :: bool and P :: "cr_item \<Rightarrow> bool"
  assumes fresh: "validate_change_request req = [] \<Longrightarrow> P (received_item now req)"
    and kept: "item_step ext i j \<Longrightarrow> P i \<Longrightarrow> P j"
begin

lemma kept_star: "(item_step ext)\<^sup>*\<^sup>* i j \<Longrightarrow> P i \<Longrightarrow> P j"
  by (induction rule: rtranclp_induct) (auto intro: kept)

lemma steps_keep:
  assumes "(cr_step ext)\<^sup>*\<^sup>* w w'" "\<And>p i. dget (cw_queue w) p = Some i \<Longrightarrow> P i" "dget (cw_queue w') p = Some j"
  shows "P j"
proof (cases "dget (cw_queue w) p")
  case None
  then obtain now req where "validate_change_request req = []" "(item_step ext)\<^sup>*\<^sup>* (received_item now req) j"
    using cr_steps_sim[OF assms(1)] assms(3) unfolding queue_sim_def by blast
  then show ?thesis using kept_star fresh by blast
next
  case (Some i)
  then have "(item_step ext)\<^sup>*\<^sup>* i j"
    using cr_steps_sim[OF assms(1)] assms(3) unfolding queue_sim_def by fastforce
  then show ?thesis using kept_star assms(2)[OF Some] by blast
qed

lemma reached:
  assumes "(cr_step ext)\<^sup>*\<^sup>* w w'" "cw_queue w = []" "dget (cw_queue w') p = Some j"
  shows "P j"
  using steps_keep[OF assms(1) _ assms(3)] assms(2) by simp

end

text \<open>The history starts at the receipt and ends in the state.\<close>

definition history_ok :: "cr_item \<Rightarrow> bool" where
  "history_ok i = (ci_history i \<noteq> [] \<and> fst (hd (ci_history i)) = Received \<and> fst (last (ci_history i)) = ci_state i)"

lemma received_fields [simp]:
  "ci_history (received_item now req) = [(Received, now)]" "ci_state (received_item now req) = Received"
  "ci_candidate (received_item now req) = PNone" "ci_audit_artifact (received_item now req) = PNone"
  "ci_trail (received_item now req) = []" "ci_request (received_item now req) = req"
  "ci_id (received_item now req) = py_str (get0 req ''request_id'')"
  by (simp_all add: received_item_def)

interpretation histories: item_invariant ext history_ok for ext
proof
  show "history_ok (received_item now req)" for now req by (simp add: history_ok_def)
  show "history_ok j" if "item_step ext i j" "history_ok i" for i j
    using that by (cases rule: item_step.cases) (auto simp: history_ok_def)
qed

text \<open>Without the operator's edit: no audit reference, no candidate that carries one, never past the gates.\<close>

definition ungated :: "cr_item \<Rightarrow> bool" where
  "ungated i = (ci_audit_artifact i = PNone \<and> get0 (dict_of (ci_candidate i)) ''audit_artifact'' = PNone
     \<and> ci_state i \<noteq> GatePassed \<and> ci_state i \<noteq> Staged)"

lemma candidate_no_audit: "get0 (build_candidate_artifact hs aw) ''audit_artifact'' = PNone"
  by (simp add: build_candidate_artifact_def candidate_payload_def Let_def get_or_def)

lemma no_reference_fails:
  "audit_reference i c = [] \<Longrightarrow> \<not> list_all gr_passed (acceptance_rows we i c root)"
  by (simp add: acceptance_rows_def audit_row_def checked_audit_def gate_result_def Let_def)

lemma ungated_reference: "ungated i \<Longrightarrow> audit_reference i (dict_of (ci_candidate i)) = []"
  by (simp add: ungated_def audit_reference_def py_or_def)

lemma promote_viaD:
  assumes "promote_via_packager we i c actor pkg = Inr rec"
  shows "ci_state i = GatePassed" "verify_candidate_checksum (we_sha we) c" "\<exists>d. checked_audit we i c = Inr d"
    "truthy (candidate_blueprint c)" "\<exists>b. we_model_validate we (candidate_blueprint c) = Inr b" "pa_errors pkg = []"
    "rec = promotion_record we i c actor pkg"
  using assms unfolding promote_via_packager_def
  by (auto split: if_splits sum.splits)

interpretation checked_items: item_invariant ext "\<lambda>i. validate_change_request (ci_request i) = []" for ext
  by unfold_locales (auto elim!: item_stepE)

interpretation ungated_items: item_invariant False ungated
proof
  show "ungated (received_item now req)" for now req by (simp add: ungated_def dict_of_def)
  show "ungated j" if s: "item_step False i j" and u: "ungated i" for i j
    using s
  proof (cases rule: item_step.cases)
    case (Pass we root up now)
    then show ?thesis using no_reference_fails[OF ungated_reference[OF u]] by blast
  next
    case (Stage we actor pkg rec up now)
    then show ?thesis using promote_viaD(1) u by (auto simp: ungated_def)
  qed (use u in \<open>auto simp: ungated_def candidate_no_audit dict_of_def\<close>)
qed

text \<open>What a candidate, a passed gate and a staging rest on, read off the history.\<close>

definition states :: "cr_item \<Rightarrow> queue_state list" where
  "states i = map fst (ci_history i)"

definition earned :: "cr_item \<Rightarrow> bool" where
  "earned i =
     ((ci_state i \<in> {WorkbenchRunning} \<longrightarrow> subseq [Approved, WorkbenchRunning] (states i)) \<and>
      (truthy (ci_candidate i) \<longrightarrow> subseq [Approved, WorkbenchRunning, CandidateReady] (states i)) \<and>
      (ci_state i = GatePassed \<longrightarrow> subseq [Approved, WorkbenchRunning, CandidateReady, GatePassed] (states i)) \<and>
      (ci_state i = Staged \<longrightarrow> subseq [Approved, WorkbenchRunning, CandidateReady, GatePassed, Staged] (states i)))"

lemma states_updated [simp]: "states (updated_item now st up i) = states i @ [st]"
  by (simp add: states_def)

lemma subseq_snoc: "subseq xs ys \<Longrightarrow> subseq xs (ys @ [y])" "subseq xs ys \<Longrightarrow> subseq (xs @ [y]) (ys @ [y])"
  by auto

lemma last_state: "history_ok i \<Longrightarrow> subseq [ci_state i] (states i)"
  unfolding history_ok_def states_def subseq_singleton_left set_map by (metis imageI last_in_set)

lemma earned_snoc:
  "subseq [Approved] xs \<Longrightarrow> subseq [Approved, WorkbenchRunning] (xs @ [WorkbenchRunning])"
  "subseq [Approved, WorkbenchRunning] xs \<Longrightarrow> subseq [Approved, WorkbenchRunning, CandidateReady] (xs @ [CandidateReady])"
  "subseq [Approved, WorkbenchRunning, CandidateReady] xs \<Longrightarrow>
   subseq [Approved, WorkbenchRunning, CandidateReady, GatePassed] (xs @ [GatePassed])"
  "subseq [Approved, WorkbenchRunning, CandidateReady, GatePassed] xs \<Longrightarrow>
   subseq [Approved, WorkbenchRunning, CandidateReady, GatePassed, Staged] (xs @ [Staged])"
  using subseq_snoc(2)[of "[Approved]" xs] subseq_snoc(2)[of "[Approved, WorkbenchRunning]" xs]
    subseq_snoc(2)[of "[Approved, WorkbenchRunning, CandidateReady]" xs]
    subseq_snoc(2)[of "[Approved, WorkbenchRunning, CandidateReady, GatePassed]" xs]
  by simp_all

lemma states_attached [simp]: "states (i\<lparr>ci_audit_artifact := a\<rparr>) = states i"
  by (simp add: states_def)

interpretation earned_items: item_invariant ext "\<lambda>i. history_ok i \<and> earned i" for ext
proof
  show "history_ok (received_item now req) \<and> earned (received_item now req)" for now req
    by (simp add: history_ok_def earned_def)
  show "history_ok j \<and> earned j" if s: "item_step ext i j" and h: "history_ok i \<and> earned i" for i j
  proof
    have h1: "history_ok i" and h2: "earned i" using h by auto
    show "history_ok j" by (rule histories.kept[OF s h1])
    show "earned j"
      using s
    proof (cases rule: item_step.cases)
      case (Open up now)
      then show ?thesis using h2 earned_snoc(1)[of "states i"] last_state[OF h1]
        by (auto simp: earned_def subseq_snoc(1))
    next
      case (Finish up hs aw now)
      then show ?thesis using h2 earned_snoc(2)[of "states i"] by (auto simp: earned_def)
    next
      case (Pass we root up now)
      then show ?thesis using h2 earned_snoc(3)[of "states i"] by (auto simp: earned_def subseq_snoc(1))
    next
      case (Stage we actor pkg rec up now)
      then show ?thesis using h2 earned_snoc(4)[of "states i"] promote_viaD(1) by (auto simp: earned_def subseq_snoc(1))
    qed (use h2 in \<open>auto simp: earned_def subseq_snoc(1)\<close>)
  qed
qed

end
