(* ===== verification/RequestRun.thy ===== *)
theory RequestRun
  imports RequestSteps
begin

text \<open>
  What single operations of the queue and the workbench compute when their guards
  hold, and one concrete run built from them: a repair request taken in, approved,
  worked on, judged and staged.  The run instantiates the arguments of the model with
  concrete functions; its signature scheme and hash are toys.
\<close>

section \<open>Single operations\<close>

lemma dset_twice [simp]: "dset k v (dset k u d) = dset k v d"
  by (induction d) auto

lemma get_item_dset [simp]: "item_path r' = item_path r \<Longrightarrow> get_item r' (dset (item_path r) i q) = Some i"
  by (simp add: get_item_def dict_simps)

lemma update_state_run:
  "get_item rid q = Some i \<Longrightarrow>
   update_state now rid st up q = Some (updated_item now st up i, dset (item_path rid) (updated_item now st up i) q)"
  by (simp add: update_state_def)

lemma commit_run:
  "get_item rid q = Some i \<Longrightarrow>
   commit we rid st up q = (Inr (updated_item (we_now we) st up i), dset (item_path rid) (updated_item (we_now we) st up i) q)"
  by (simp add: commit_def update_state_run)

definition evaluated_item :: "cr_env \<Rightarrow> document \<Rightarrow> cr_item \<Rightarrow> cr_item" where
  "evaluated_item ce doc i =
     (let report = PDict (evaluate_dry_run (ce_strip ce) doc None);
          ws = create_workspace_record ce (py_str (get0 doc ''request_id'')) (py_str (get0 doc ''product_id'')) None
      in updated_item (ce_now ce) AwaitingApproval (no_update\<lparr>up_workspace := ws, up_dry_run := report\<rparr>)
           (updated_item (ce_now ce) DryRunEvaluated (no_update\<lparr>up_dry_run := report\<rparr>)
             (updated_item (ce_now ce) Validated (no_update\<lparr>up_errors := Some []\<rparr>) i)))"

lemma evaluate_item_run:
  "get_item rid q = Some i \<Longrightarrow>
   evaluate_item ce doc None None rid q = Some (evaluated_item ce doc i, dset (item_path rid) (evaluated_item ce doc i) q)"
  by (simp add: evaluate_item_def evaluated_item_def update_state_run Let_def)

lemma intake_run:
  assumes "change_request_intake_enabled (ce_environ ce)" "validate_change_request doc = []"
    "check_signature ce doc (cw_keys w) = Inr ()" "get_item (py_str (get0 doc ''request_id'')) (cw_queue w) = None"
  shows "intake_change_request ce doc None None w =
    (Inr (evaluated_item ce doc (received_item (ce_now ce) doc)),
     w\<lparr>cw_queue := dset (item_path (py_str (get0 doc ''request_id''))) (evaluated_item ce doc (received_item (ce_now ce) doc)) (cw_queue w)\<rparr>)"
  using assms by (simp add: intake_change_request_def put_received_def evaluate_item_run Let_def)

section \<open>A concrete run\<close>

definition demo_signer :: signer where
  "demo_signer = \<lparr>sg_sha = (\<lambda>m. m), sg_sign = (\<lambda>k m. k), sg_verify = (\<lambda>k m s. s = k)\<rparr>"

definition demo_intake :: cr_env where
  "demo_intake = \<lparr>ce_environ = (\<lambda>n. Some ''true''), ce_now = ''t1'', ce_strip = id, ce_signer = demo_signer, ce_workspaces = ''/ws''\<rparr>"

definition demo_keys :: key_register where
  "demo_keys = register_public_key ''shop'' ''k'' ''shop:1'' []"

definition demo_doc :: "string \<Rightarrow> document" where
  "demo_doc rid = sign_document demo_signer ''k'' ''shop:1''
     (build_repair_request ''t0'' rid ''shop'' ''1.0.0'' ''human'' ''ann'' [(''scaffold'', PStr ''/out/shop'')] ''L3''
        (repair_body ''api'' ''down'' None None))"

definition demo_empty :: cr_world where
  "demo_empty = \<lparr>cw_queue = [], cw_keys = demo_keys, cw_rejections = []\<rparr>"

lemma demo_doc_eq: "demo_doc rid =
  [(''schema_version'', PStr ''1.0.0''), (''request_id'', PStr rid), (''kind'', PStr ''REPAIR''), (''product_id'', PStr ''shop''),
   (''dna_version'', PStr ''1.0.0''), (''requester'', PDict [(''type'', PStr ''human''), (''id'', PStr ''ann'')]),
   (''evidence'', PDict [(''scaffold'', PStr ''/out/shop'')]), (''requested_autonomy_level'', PStr ''L3''), (''created_at'', PStr ''t0''),
   (''repair'', PDict [(''target'', PStr ''api''), (''symptom'', PStr ''down'')]),
   (''signature'', PDict [(''algorithm'', PStr ''ed25519''), (''public_key_id'', PStr ''shop:1''), (''value'', PStr ''k'')])]"
  by (simp add: demo_doc_def sign_document_def demo_signer_def build_repair_request_def build_request_def repair_body_def)

lemma demo_valid: "validate_change_request (demo_doc ''a.b'') = []" "validate_change_request (demo_doc ''a_b'') = []"
  unfolding demo_doc_eq by code_simp+

lemma demo_signed: "check_signature demo_intake (demo_doc rid) demo_keys = Inr ()"
  by (simp add: check_signature_def demo_doc_eq load_public_key_def demo_keys_def register_public_key_def get_or_def dict_of_def
    py_str_def verify_document_def demo_intake_def demo_signer_def)

lemma demo_enabled: "change_request_intake_enabled (ce_environ demo_intake)"
  by code_simp

definition demo_received :: cr_world where
  "demo_received = snd (intake_change_request demo_intake (demo_doc ''a.b'') None None demo_empty)"

definition demo_waiting :: cr_item where
  "demo_waiting = evaluated_item demo_intake (demo_doc ''a.b'') (received_item ''t1'' (demo_doc ''a.b''))"

lemma demo_id: "py_str (get0 (demo_doc rid) ''request_id'') = rid"
  by (simp add: demo_doc_eq get_or_def py_str_def)

lemma demo_intake_ok:
  "intake_change_request demo_intake (demo_doc ''a.b'') None None demo_empty =
     (Inr demo_waiting, demo_empty\<lparr>cw_queue := [(item_path ''a.b'', demo_waiting)]\<rparr>)"
proof -
  have "ce_now demo_intake = ''t1''" by (simp add: demo_intake_def)
  then show ?thesis
    using intake_run[OF demo_enabled demo_valid(1), of demo_empty] demo_signed
    by (simp add: demo_id demo_waiting_def demo_empty_def get_item_def)
qed

lemma demo_paths: "item_path ''a.b'' = ''a_b.json''" "item_path ''a_b'' = ''a_b.json''"
  by code_simp+

definition demo_text :: "string \<Rightarrow> string" where
  "demo_text s = CHR 0x22 # s @ [CHR 0x22]"

definition demo_audit :: string where
  "demo_audit = ''{'' @ demo_text ''checks'' @ '':[{'' @ demo_text ''status'' @ '':'' @ demo_text ''LIVE'' @ ''}],'' @ demo_text ''ran_at'' @ '':''
     @ demo_text ''t'' @ ''}''"

definition demo_wb :: "string \<Rightarrow> wb_env" where
  "demo_wb now = \<lparr>we_environ = (\<lambda>n. Some ''true''), we_now = now, we_now_s = 100, we_sha = (\<lambda>m. ''h''),
     we_file = (\<lambda>p. Some demo_audit), we_json_error = (\<lambda>t. []), we_time = (\<lambda>t. Inr (0, t)), we_workspaces = ''/wb'',
     we_product_root = Some, we_is_dir = (\<lambda>r. True), we_dna_verified = (\<lambda>r. None), we_dna_errors = (\<lambda>r. []),
     we_model_validate = Inr, we_workspace_blueprint = (\<lambda>w. Some (Inr PNone)),
     we_planner = (\<lambda>b. \<lparr>pl_unsupported = [], pl_plan = Inr []\<rparr>), we_tests = (\<lambda>r. 0)\<rparr>"

definition demo_work :: agent_work where
  "demo_work = \<lparr>aw_result = [], aw_mutation = [(''blueprint'', PDict [(''id'', PStr ''shop'')])], aw_diff = [], aw_transcript = PList []\<rparr>"

definition demo_pkg :: package_answer where
  "demo_pkg = \<lparr>pa_errors = [], pa_product = ''shop'', pa_output = ''/out'', pa_inputs_hash = PNone, pa_manifest = [], pa_pins = PNone\<rparr>"

lemma demo_wb_fields [simp]:
  "build_mode_enabled (we_environ (demo_wb now))" "we_now (demo_wb now) = now" "we_now_s (demo_wb now) = 100"
  "we_sha (demo_wb now) = (\<lambda>m. ''h'')" "we_file (demo_wb now) = (\<lambda>p. Some demo_audit)" "we_is_dir (demo_wb now) r"
  "we_dna_verified (demo_wb now) r = None" "we_dna_errors (demo_wb now) r = []" "we_model_validate (demo_wb now) b = Inr b"
  "we_product_root (demo_wb now) r = Some r" "we_workspaces (demo_wb now) = ''/wb''" "we_tests (demo_wb now) r = 0"
  "we_time (demo_wb now) t = Inr (0, t)"
proof -
  have "env_flag (\<lambda>n. Some ''true'') ''BUILD_MODE_ENABLED''" by code_simp
  then show "build_mode_enabled (we_environ (demo_wb now))" by (simp add: demo_wb_def build_mode_enabled_def)
qed (simp_all add: demo_wb_def)

lemma demo_audit_read: "loads demo_audit =
  Some (PDict [(''checks'', PList [PDict [(''status'', PStr ''LIVE'')]]), (''ran_at'', PStr ''t'')])"
  by code_simp

lemma demo_audit_ok: "validate_audit_artifact (demo_wb now) p =
  Inr [(''checks'', PList [PDict [(''status'', PStr ''LIVE'')]]), (''ran_at'', PStr ''t'')]"
  by (simp add: validate_audit_artifact_def demo_audit_read dict_of_def list_of_def get_or_def dead_checks_def Let_def)

text \<open>The item after each step.\<close>

definition demo_record_up :: cr_update where
  "demo_record_up = no_update\<lparr>up_decision := PDict [(''approved'', PBool True), (''actor'', PStr ''owner''), (''note'', PStr []),
          (''recorded_at'', PStr ''t2''), (''executes'', PBool False),
          (''honesty'', PStr ''decision recorded only; no agent/workbench execution in M3'')]\<rparr>"

definition demo_approved :: cr_item where
  "demo_approved = updated_item ''t2'' Approved demo_record_up demo_waiting"

lemma decided_run:
  "get_item ''a.b'' q = Some demo_waiting \<Longrightarrow>
   record_decision ''t2'' ''a.b'' True ''owner'' [] q = Some (demo_approved, dset (item_path ''a.b'') demo_approved q)"
  by (simp add: record_decision_def update_state_run demo_approved_def demo_record_up_def)

lemma open_session_run:
  assumes "get_item rid q = Some i"
  shows "\<exists>j. open_session we rid sid i root q = (Inr j, dset (item_path rid) j q) \<and> ci_state j = WorkbenchRunning \<and>
    ci_dry_run j = ci_dry_run i"
  unfolding open_session_def commit_run[OF assms] by (simp add: updated_item_def no_update_def)

lemma session_done_run:
  assumes "get_item rid q = Some i"
  shows "\<exists>j. session_done we rid sid root aw q = (Inr j, dset (item_path rid) j q) \<and> ci_state j = CandidateReady \<and>
    ci_candidate j = PDict (build_candidate_artifact (we_sha we) aw) \<and> ci_dry_run j = ci_dry_run i \<and>
    get0 (dict_of (ci_session j)) ''product_root'' = PStr root"
  unfolding session_done_def Let_def commit_run[OF assms]
  by (simp add: updated_item_def no_update_def session_record_def dict_of_def get_or_def)

lemma session_run:
  assumes "build_mode_enabled (we_environ we)" "get_item rid q = Some i" "ci_state i = Approved"
    "resolve_product_root we i given_root = Inr root" "we_is_dir we root" "we_dna_verified we root = None"
  shows "\<exists>j. run_workbench_session we rid sid given_root (AgentWorked aw) False q = (Inr j, dset (item_path rid) j q) \<and>
    ci_state j = CandidateReady \<and> ci_candidate j = PDict (build_candidate_artifact (we_sha we) aw) \<and>
    ci_dry_run j = ci_dry_run i \<and> get0 (dict_of (ci_session j)) ''product_root'' = PStr root"
proof -
  have g: "session_guard we rid given_root q = Inr (i, root)" using assms by (simp add: session_guard_def)
  obtain k where k: "open_session we rid sid i root q = (Inr k, dset (item_path rid) k q)" "ci_dry_run k = ci_dry_run i"
    using open_session_run[OF assms(2)] by blast
  have "get_item rid (dset (item_path rid) k q) = Some k" by simp
  from session_done_run[OF this, of we sid root aw] k(2) show ?thesis
    by (auto simp: run_workbench_session_def g k(1))
qed

lemma demo_waiting_fields:
  "ci_request demo_waiting = demo_doc ''a.b''" "ci_audit_artifact demo_waiting = PNone"
  "get0 (dict_of (ci_dry_run demo_waiting)) ''acceptance_gates_to_rerun'' =
     PList [PStr ''dna_checksum_verify'', PStr ''health_probe'', PStr ''heal_post_check'']"
proof -
  show "ci_request demo_waiting = demo_doc ''a.b''" "ci_audit_artifact demo_waiting = PNone"
    by (simp_all add: demo_waiting_def evaluated_item_def Let_def)
  have "ci_dry_run demo_waiting = PDict (evaluate_dry_run (ce_strip demo_intake) (demo_doc ''a.b'') None)"
    by (simp add: demo_waiting_def evaluated_item_def Let_def updated_item_def given_def)
  then show "get0 (dict_of (ci_dry_run demo_waiting)) ''acceptance_gates_to_rerun'' =
     PList [PStr ''dna_checksum_verify'', PStr ''health_probe'', PStr ''heal_post_check'']"
    by (simp add: evaluate_dry_run_def kind_plan_def demo_doc_eq get_or_def dict_of_def Let_def)
qed

lemma demo_session:
  "get_item ''a.b'' q = Some demo_approved \<Longrightarrow>
   \<exists>j. run_workbench_session (demo_wb ''t3'') ''a.b'' ''s1'' None (AgentWorked demo_work) False q = (Inr j, dset (item_path ''a.b'') j q) \<and>
    ci_state j = CandidateReady \<and> ci_candidate j = PDict (build_candidate_artifact (\<lambda>m. ''h'') demo_work) \<and>
    ci_dry_run j = ci_dry_run demo_waiting \<and> get0 (dict_of (ci_session j)) ''product_root'' = PStr ''/out/shop''"
  using session_run[of "demo_wb ''t3''" "''a.b''" q demo_approved None "''/out/shop''" "''s1''" demo_work]
  by (simp add: demo_approved_def resolve_product_root_def demo_waiting_fields demo_doc_eq get_or_def dict_of_def first_truthy_def
    demo_record_up_def no_update_def updated_item_def py_str_def)

lemma demo_rows:
  assumes "ci_candidate j = PDict (build_candidate_artifact (\<lambda>m. ''h'') demo_work)" "ci_dry_run j = ci_dry_run demo_waiting"
    "ci_audit_artifact j = PStr ''audit.json''"
  shows "list_all gr_passed (acceptance_rows (demo_wb now) j (dict_of (ci_candidate j)) root)"
proof -
  have v: "verify_candidate_checksum (\<lambda>m. ''h'') (build_candidate_artifact (\<lambda>m. ''h'') demo_work)"
    by (simp add: verify_candidate_checksum_def candidate_checksum_def build_candidate_artifact_def Let_def get_or_def dict_simps)
  have r: "requested_gates j = [''dna_checksum_verify'', ''health_probe'', ''heal_post_check'']"
    by (simp add: requested_gates_def assms(2) demo_waiting_fields strs_of_def list_of_def py_str_def)
  have b: "blueprint_rows (judged_blueprint (demo_wb now) ws c) = []" for ws c
    by (simp add: judged_blueprint_def blueprint_rows_def demo_wb_def)
  have a: "checked_audit (demo_wb now) j c = Inr [(''checks'', PList [PDict [(''status'', PStr ''LIVE'')]]), (''ran_at'', PStr ''t'')]" for c
    by (simp add: checked_audit_def audit_reference_def assms(3) py_or_def demo_audit_ok)
  show ?thesis
    by (simp add: acceptance_rows_def checksum_row_def audit_row_def a b r v assms(1) gate_row_of_def gate_result_def Let_def dict_of_def)
qed

text \<open>The run on the queue of the single request.\<close>

lemma gates_run:
  assumes "build_mode_enabled (we_environ we)" "get_item rid q = Some i"
    and "ci_state i \<in> {CandidateReady, GateFailed, GatePassed}" "truthy (ci_candidate i)" "we_is_dir we (session_root i)"
  shows "evaluate_gates we rid q = record_gates we rid i (session_root i)
    (acceptance_rows we i (dict_of (ci_candidate i)) (session_root i)) q"
  using assms unfolding evaluate_gates_def gates_guard_def by auto

lemma record_gates_passed:
  assumes "list_all gr_passed rows" "get_item rid q = Some i"
  shows "\<exists>j. record_gates we rid i0 root rows q = (Inr j, dset (item_path rid) j q) \<and> ci_state j = GatePassed \<and>
    ci_candidate j = ci_candidate i \<and> ci_decision j = ci_decision i \<and> ci_audit_artifact j = ci_audit_artifact i \<and>
    ci_history j = ci_history i @ [(GatePassed, we_now we)]"
  using assms by (simp add: record_gates_def commit_def update_state_def updated_item_def no_update_def)

lemma demo_promotion:
  assumes "get_item ''a.b'' q = Some i" "ci_state i = GatePassed" "ci_candidate i = PDict (build_candidate_artifact (\<lambda>m. ''h'') demo_work)"
    "ci_audit_artifact i = PStr ''audit.json''"
  shows "\<exists>j. promote_request (demo_wb ''t5'') ''a.b'' ''owner'' demo_pkg q = (Inr j, dset (item_path ''a.b'') j q) \<and> ci_state j = Staged"
proof -
  let ?c = "build_candidate_artifact (\<lambda>m. ''h'') demo_work"
  have v: "verify_candidate_checksum (\<lambda>m. ''h'') ?c"
    by (simp add: verify_candidate_checksum_def candidate_checksum_def build_candidate_artifact_def Let_def get_or_def dict_simps)
  have a: "is_ok (checked_audit (demo_wb ''t5'') i ?c)"
    by (simp add: checked_audit_def audit_reference_def assms(4) py_or_def demo_audit_ok)
  have b: "truthy (candidate_blueprint ?c)"
    by (simp add: candidate_blueprint_def build_candidate_artifact_def candidate_payload_def demo_work_def Let_def get_or_def dict_of_def)
  have "promote_via_packager (demo_wb ''t5'') i ?c ''owner'' demo_pkg = Inr (promotion_record (demo_wb ''t5'') i ?c ''owner'' demo_pkg)"
    using v a b assms(2) by (auto simp: promote_via_packager_def demo_pkg_def result_simps)
  then show ?thesis using assms(1-3)
    by (simp add: promote_request_def dict_of_def commit_run)
qed

definition demo_world :: cr_world where
  "demo_world = demo_empty\<lparr>cw_queue := [(item_path ''a.b'', demo_waiting)]\<rparr>"

lemma demo_world_queue [simp]: "cw_queue demo_world = [(item_path ''a.b'', demo_waiting)]" "cw_keys demo_world = demo_keys"
  by (simp_all add: demo_world_def demo_empty_def)

lemma demo_taken_in: "(cr_step ext)\<^sup>*\<^sup>* demo_empty demo_world" "cw_queue demo_empty = []"
  using cr_step.Intaken[OF demo_intake_ok] by (auto simp: demo_world_def demo_empty_def)

definition demo_decided :: cr_world where
  "demo_decided = demo_world\<lparr>cw_queue := [(item_path ''a.b'', demo_approved)]\<rparr>"

lemma demo_decision: "(cr_step ext)\<^sup>*\<^sup>* demo_world demo_decided"
proof -
  have "get_item ''a.b'' (cw_queue demo_world) = Some demo_waiting" by (simp add: get_item_def)
  from cr_step.Decided[OF decided_run[OF this]] show ?thesis by (auto simp: demo_decided_def)
qed

text \<open>The whole run, with the operator's edit between the session and the gates.\<close>

lemma demo_whole_run: "\<exists>w i. (cr_step True)\<^sup>*\<^sup>* demo_decided w \<and> dget (cw_queue w) (item_path ''a.b'') = Some i \<and> ci_state i = Staged"
proof -
  let ?p = "item_path ''a.b''"
  have g: "get_item ''a.b'' [(?p, i)] = Some i" for i by (simp add: get_item_def)
  obtain j where j: "run_workbench_session (demo_wb ''t3'') ''a.b'' ''s1'' None (AgentWorked demo_work) False [(?p, demo_approved)] = (Inr j, [(?p, j)])"
    "ci_state j = CandidateReady" "ci_candidate j = PDict (build_candidate_artifact (\<lambda>m. ''h'') demo_work)"
    "ci_dry_run j = ci_dry_run demo_waiting" "get0 (dict_of (ci_session j)) ''product_root'' = PStr ''/out/shop''"
    using demo_session[OF g[of demo_approved]] by auto
  define k where "k = j\<lparr>ci_audit_artifact := PStr ''audit.json''\<rparr>"
  have k: "ci_state k = CandidateReady" "ci_candidate k = PDict (build_candidate_artifact (\<lambda>m. ''h'') demo_work)"
    "ci_dry_run k = ci_dry_run demo_waiting" "ci_audit_artifact k = PStr ''audit.json''"
    using j by (simp_all add: k_def)
  have t: "truthy (ci_candidate k)" by (simp add: k build_candidate_artifact_def candidate_payload_def Let_def)
  have r: "list_all gr_passed (acceptance_rows (demo_wb ''t4'') k (dict_of (ci_candidate k)) (session_root k))"
    by (rule demo_rows[OF k(2-4)])
  obtain m where m: "evaluate_gates (demo_wb ''t4'') ''a.b'' [(?p, k)] = (Inr m, [(?p, m)])" "ci_state m = GatePassed"
    "ci_candidate m = ci_candidate k" "ci_audit_artifact m = ci_audit_artifact k"
    using record_gates_passed[OF r g] gates_run[of "demo_wb ''t4''", OF _ g _ t] k(1) by fastforce
  obtain n where n: "promote_request (demo_wb ''t5'') ''a.b'' ''owner'' demo_pkg [(?p, m)] = (Inr n, [(?p, n)])" "ci_state n = Staged"
    using demo_promotion[OF g m(2)] m(3,4) k by auto
  let ?w = "\<lambda>i. demo_world\<lparr>cw_queue := [(?p, i)]\<rparr>"
  have "(cr_step True) demo_decided (?w j)"
    using cr_step.Worked[of "demo_wb ''t3''" "''a.b''" "''s1''" None "AgentWorked demo_work" False demo_decided] j(1)
    by (simp add: demo_decided_def)
  moreover have "cr_step True (?w j) (?w k)"
    using cr_step.Attached[of True "''a.b''" "?w j" j "''audit.json''"] g by (simp add: k_def)
  moreover have "cr_step True (?w k) (?w m)"
    using cr_step.Judged[of "demo_wb ''t4''" "''a.b''" "?w k"] m(1) by simp
  moreover have "cr_step True (?w m) (?w n)"
    using cr_step.Promoted[of "demo_wb ''t5''" "''a.b''" "''owner''" demo_pkg "?w m"] n(1) by simp
  ultimately have "(cr_step True)\<^sup>*\<^sup>* demo_decided (?w n)" by (meson rtranclp.rtrancl_refl rtranclp.rtrancl_into_rtrancl)
  moreover have "dget (cw_queue (?w n)) ?p = Some n" by simp
  ultimately show ?thesis using n(2) by blast
qed

end
