(* ===== verification/WorkbenchFacts.thy ===== *)
theory WorkbenchFacts
  imports RequestRun
begin

text \<open>
  What the change requests and the workbench guarantee, and where they do not: the
  refinement of the item machine, the audit trail, what a staging rests on, intake,
  and the findings on colliding names, gates, keys and crashed sessions.
\<close>

section \<open>Items over time\<close>

text \<open>Property C30.  Every sequence of operations, each taken whole, moves each stored item along the item machine:
  the queue refines it.\<close>

theorem items_refine_machine:
  assumes "(cr_step ext)\<^sup>*\<^sup>* w w'" "dget (cw_queue w) p = Some i"
  shows "\<exists>j. dget (cw_queue w') p = Some j \<and> (item_step ext)\<^sup>*\<^sup>* i j"
  using cr_steps_sim[OF assms(1)] assms(2) unfolding queue_sim_def by blast

theorem items_refine_machine_witness:
  "\<exists>j. dget (cw_queue demo_decided) (item_path ''a.b'') = Some j \<and> (item_step False)\<^sup>*\<^sup>* demo_waiting j"
  using items_refine_machine[OF demo_decision] by simp

definition grown_from :: "cr_item \<Rightarrow> cr_item \<Rightarrow> bool" where
  "grown_from i j = (ci_id j = ci_id i \<and> ci_request j = ci_request i \<and> ci_created j = ci_created i \<and>
     (\<exists>h. ci_history j = ci_history i @ h) \<and> (\<exists>t. ci_trail j = ci_trail i @ t))"

lemma grown_from_refl: "grown_from i i"
  by (auto simp: grown_from_def)

lemma grown_from_trans: "grown_from i k \<Longrightarrow> grown_from k j \<Longrightarrow> grown_from i j"
  by (auto simp: grown_from_def)

lemma grown_from_update: "grown_from i (updated_item now st up i)"
  by (auto simp: grown_from_def updated_item_def split: option.splits)

lemma grown_from_step: "item_step ext i j \<Longrightarrow> grown_from i j"
  by (induction rule: item_step.induct) (auto intro: grown_from_update, auto simp: grown_from_def)

lemma grown_from_steps: "(item_step ext)\<^sup>*\<^sup>* i j \<Longrightarrow> grown_from i j"
  by (induction rule: rtranclp_induct) (auto intro: grown_from_refl grown_from_step grown_from_trans)

text \<open> No operation removes an item, changes its request or creation, or rewrites its history or
  its audit trail: both only grow, and the history ends in the state.\<close>

theorem trail_only_grows:
  assumes "(cr_step ext)\<^sup>*\<^sup>* w0 w" "cw_queue w0 = []" "(cr_step ext)\<^sup>*\<^sup>* w w'" "dget (cw_queue w) p = Some i"
  shows "\<exists>j. dget (cw_queue w') p = Some j \<and> ci_id j = ci_id i \<and> ci_request j = ci_request i \<and>
    ci_created j = ci_created i \<and> prefix (ci_history i) (ci_history j) \<and> prefix (ci_trail i) (ci_trail j) \<and>
    fst (last (ci_history j)) = ci_state j"
proof -
  obtain j where j: "dget (cw_queue w') p = Some j" "(item_step ext)\<^sup>*\<^sup>* i j"
    using cr_steps_sim[OF assms(3)] assms(4) unfolding queue_sim_def by blast
  have "(cr_step ext)\<^sup>*\<^sup>* w0 w'" using assms(1,3) by (rule rtranclp_trans)
  then have "history_ok j" using histories.reached j(1) assms(2) by blast
  then show ?thesis using j grown_from_steps[OF j(2)] by (auto simp: grown_from_def history_ok_def)
qed

theorem trail_only_grows_witness:
  "\<exists>j. dget (cw_queue demo_decided) (item_path ''a.b'') = Some j \<and> ci_id j = ci_id demo_waiting \<and>
    ci_request j = ci_request demo_waiting \<and> ci_created j = ci_created demo_waiting \<and>
    prefix (ci_history demo_waiting) (ci_history j) \<and> prefix (ci_trail demo_waiting) (ci_trail j) \<and>
    fst (last (ci_history j)) = ci_state j"
  by (rule trail_only_grows[OF demo_taken_in demo_decision]) simp

text \<open> No sequence of the program's own operations ever gets an item past the acceptance gates: the
  audit reference they ask for is written by none of them.\<close>

theorem nothing_passes_the_gates:
  assumes "(cr_step False)\<^sup>*\<^sup>* w w'" "cw_queue w = []" "dget (cw_queue w') p = Some i"
  shows "ci_state i \<noteq> GatePassed \<and> ci_state i \<noteq> Staged"
  using ungated_items.reached[OF assms] by (simp add: ungated_def)

theorem nothing_passes_the_gates_witness: "ci_state demo_approved \<noteq> GatePassed \<and> ci_state demo_approved \<noteq> Staged"
proof -
  have "(cr_step False)\<^sup>*\<^sup>* demo_empty demo_decided" using demo_taken_in(1) demo_decision by (rule rtranclp_trans)
  from nothing_passes_the_gates[OF this demo_taken_in(2), of "item_path ''a.b''" demo_approved]
  show ?thesis by (simp add: demo_decided_def)
qed

text \<open> A staged item was approved, then worked on, then had a candidate, then passed the gates, in that
  order, even when an operator edits audit references.\<close>

theorem staged_is_earned:
  assumes "(cr_step ext)\<^sup>*\<^sup>* w w'" "cw_queue w = []" "dget (cw_queue w') p = Some i" "ci_state i = Staged"
  shows "subseq [Approved, WorkbenchRunning, CandidateReady, GatePassed, Staged] (map fst (ci_history i))"
  using earned_items.reached[OF assms(1-3)] assms(4) by (simp add: earned_def states_def)

theorem staged_is_earned_witness:
  "\<exists>i::cr_item. ci_state i = Staged \<and> subseq [Approved, WorkbenchRunning, CandidateReady, GatePassed, Staged] (map fst (ci_history i))"
proof -
  obtain w i where w: "(cr_step True)\<^sup>*\<^sup>* demo_decided w" "dget (cw_queue w) (item_path ''a.b'') = Some i" "ci_state i = Staged"
    using demo_whole_run by blast
  have "(cr_step True)\<^sup>*\<^sup>* demo_empty w" using demo_taken_in(1) demo_decision w(1) by (meson rtranclp_trans)
  from staged_is_earned[OF this demo_taken_in(2) w(2,3)] show ?thesis using w(3) by blast
qed

text \<open> A promotion happens only from passed gates, and checks again at the door: an untampered candidate with
  a valid blueprint, a fresh all-live audit, a clean package; its record claims neither certification nor deployment.\<close>

theorem promotion_rechecked:
  assumes "promote_request we rid actor pkg q = (Inr j, q')"
  shows "\<exists>i. get_item rid q = Some i \<and> ci_state i = GatePassed \<and> ci_state j = Staged \<and>
    verify_candidate_checksum (we_sha we) (dict_of (ci_candidate i)) \<and>
    (\<exists>d. checked_audit we i (dict_of (ci_candidate i)) = Inr d) \<and>
    (\<exists>b. we_model_validate we (candidate_blueprint (dict_of (ci_candidate i))) = Inr b) \<and> pa_errors pkg = [] \<and>
    get0 (dict_of (ci_promotion j)) ''certified'' = PBool False \<and> get0 (dict_of (ci_promotion j)) ''deployed'' = PBool False"
proof -
  obtain i rec up where i: "get_item rid q = Some i"
    "promote_via_packager we i (dict_of (ci_candidate i)) actor pkg = Inr rec"
    "up_promotion up = PDict rec" "commit we rid Staged up q = (Inr j, q')"
  proof -
    show thesis if t: "\<And>i rec up. get_item rid q = Some i \<Longrightarrow>
      promote_via_packager we i (dict_of (ci_candidate i)) actor pkg = Inr rec \<Longrightarrow>
      up_promotion up = PDict rec \<Longrightarrow> commit we rid Staged up q = (Inr j, q') \<Longrightarrow> thesis"
      using assms unfolding promote_request_def
      by (auto split: if_splits option.splits sum.splits intro!: t)
  qed
  note c = commit_OkD[OF i(4)]
  have "ci_promotion j = PDict rec" "ci_state j = Staged"
    using c i(3) by (auto simp: updated_item_def)
  then show ?thesis
    using i(1) promote_viaD[OF i(2)] by (simp add: promotion_record_def dict_of_def get_or_def)
qed

theorem promotion_rechecked_witness:
  "\<exists>i j q q'. promote_request (demo_wb ''t5'') ''a.b'' ''owner'' demo_pkg q = (Inr j, q') \<and> get_item ''a.b'' q = Some i \<and>
     ci_state i = GatePassed \<and> ci_state j = Staged \<and> get0 (dict_of (ci_promotion j)) ''certified'' = PBool False"
proof -
  define i where "i = demo_waiting\<lparr>ci_state := GatePassed, ci_audit_artifact := PStr ''audit.json'',
    ci_candidate := PDict (build_candidate_artifact (\<lambda>m. ''h'') demo_work)\<rparr>"
  have g: "get_item ''a.b'' [(item_path ''a.b'', i)] = Some i" by (simp add: get_item_def)
  have f: "ci_state i = GatePassed" "ci_candidate i = PDict (build_candidate_artifact (\<lambda>m. ''h'') demo_work)"
    "ci_audit_artifact i = PStr ''audit.json''" by (simp_all add: i_def)
  obtain j where "promote_request (demo_wb ''t5'') ''a.b'' ''owner'' demo_pkg [(item_path ''a.b'', i)] =
      (Inr j, dset (item_path ''a.b'') j [(item_path ''a.b'', i)])"
    using demo_promotion[OF g f] by blast
  from promotion_rechecked[OF this] this show ?thesis by blast
qed

section \<open>Intake\<close>

text \<open> Intake changes the queue only for a document it accepts: intake is enabled, the document satisfies its
  schema, and its signature verifies under the key registered for its product.\<close>

theorem only_signed_requests_enter:
  assumes "intake_change_request ce doc dna root w = (r, w')" "cw_queue w' \<noteq> cw_queue w"
  shows "change_request_intake_enabled (ce_environ ce) \<and> validate_change_request doc = [] \<and>
    (\<exists>pub. load_public_key (cw_keys w) (py_str (get0 doc ''product_id'')) (get0 (dict_of (get0 doc ''signature'')) ''public_key_id'') = Inr pub
       \<and> verify_document (ce_signer ce) pub doc = Inr ())"
  using assms unfolding intake_change_request_def Let_def check_signature_def
  by (auto simp: log_rejection_def result_simps split: if_splits sum.splits)

theorem only_signed_requests_enter_witness:
  "\<exists>pub. load_public_key demo_keys ''shop'' (PStr ''shop:1'') = Inr pub \<and> verify_document demo_signer pub (demo_doc ''a.b'') = Inr ()"
proof -
  have "cw_queue (demo_empty\<lparr>cw_queue := [(item_path ''a.b'', demo_waiting)]\<rparr>) \<noteq> cw_queue demo_empty"
    by (simp add: demo_empty_def)
  from only_signed_requests_enter[OF demo_intake_ok this] show ?thesis
    by (simp add: demo_doc_eq get_or_def dict_of_def py_str_def demo_empty_def demo_intake_def)
qed

lemma evaluate_item_done:
  assumes "evaluate_item ce doc dna root rid q = Some (j, q')"
  shows "get_item rid q' = Some j \<and> ci_state j = AwaitingApproval \<and> truthy (ci_dry_run j)
    \<and> (\<exists>i. get_item rid q = Some i \<and> ci_request j = ci_request i)"
proof -
  obtain up1 up2 up3 i1 i2 q1 q2 where u:
    "update_state (ce_now ce) rid Validated up1 q = Some (i1, q1)"
    "update_state (ce_now ce) rid DryRunEvaluated up2 q1 = Some (i2, q2)"
    "update_state (ce_now ce) rid AwaitingApproval up3 q2 = Some (j, q')"
    "up_dry_run up3 = PDict (evaluate_dry_run (ce_strip ce) doc dna)"
  proof -
    show thesis if t: "\<And>up1 i1 q1 up2 i2 q2 up3. update_state (ce_now ce) rid Validated up1 q = Some (i1, q1) \<Longrightarrow>
        update_state (ce_now ce) rid DryRunEvaluated up2 q1 = Some (i2, q2) \<Longrightarrow>
        update_state (ce_now ce) rid AwaitingApproval up3 q2 = Some (j, q') \<Longrightarrow>
        up_dry_run up3 = PDict (evaluate_dry_run (ce_strip ce) doc dna) \<Longrightarrow> thesis"
      using assms unfolding evaluate_item_def Let_def
      by (auto split: option.splits prod.splits intro!: t)
  qed
  have "truthy (PDict (evaluate_dry_run (ce_strip ce) doc dna))"
    by (simp add: evaluate_dry_run_def Let_def split: prod.splits)
  then show ?thesis using u(4) update_stateD[OF u(1)] update_stateD[OF u(2)] update_stateD[OF u(3)]
    by (auto simp: get_item_def dict_simps updated_item_def given_def)
qed

lemma intake_new:
  assumes "intake_change_request ce doc dna root w = (Inr i, w')" "get_item (py_str (get0 doc ''request_id'')) (cw_queue w) = None"
  shows "get_item (py_str (get0 doc ''request_id'')) (cw_queue w') = Some i \<and> ci_request i = doc
    \<and> ci_state i \<noteq> Received \<and> truthy (ci_dry_run i)"
proof -
  let ?rid = "py_str (get0 doc ''request_id'')"
  let ?q = "dset (item_path ?rid) (received_item (ce_now ce) doc) (cw_queue w)"
  have "evaluate_item ce doc dna root ?rid ?q = Some (i, cw_queue w')"
    using assms unfolding intake_change_request_def Let_def put_received_def
    by (auto split: if_splits sum.splits option.splits)
  from evaluate_item_done[OF this] show ?thesis by (auto simp: get_item_def dict_simps)
qed

text \<open> A request whose id has the same file name as an earlier one - \<open>a.b\<close> and \<open>a_b\<close>, say - is never stored:
  its intake answers with the earlier request's item and leaves the queue as it is.\<close>

theorem colliding_request_is_lost:
  assumes "intake_change_request ce d1 dna root w = (Inr i, w1)" "get_item (py_str (get0 d1 ''request_id'')) (cw_queue w) = None"
    and "item_path (py_str (get0 d2 ''request_id'')) = item_path (py_str (get0 d1 ''request_id''))"
    and "change_request_intake_enabled (ce_environ ce)" "validate_change_request d2 = []" "check_signature ce d2 (cw_keys w1) = Inr ()"
  shows "intake_change_request ce d2 dna2 root2 w1 = (Inr i, w1) \<and> ci_request i = d1"
proof -
  note n = intake_new[OF assms(1,2)]
  have "get_item (py_str (get0 d2 ''request_id'')) (cw_queue w1) = Some i" using n assms(3) by (simp add: get_item_def)
  then show ?thesis using n assms(4-6) by (simp add: intake_change_request_def put_received_def Let_def)
qed

theorem colliding_request_is_lost_witness:
  "intake_change_request demo_intake (demo_doc ''a_b'') None None demo_world = (Inr demo_waiting, demo_world) \<and>
   ci_request demo_waiting = demo_doc ''a.b''"
proof -
  have n: "get_item (py_str (get0 (demo_doc ''a.b'') ''request_id'')) (cw_queue demo_empty) = None"
    by (simp add: get_item_def demo_empty_def)
  show ?thesis
    by (rule colliding_request_is_lost[OF demo_intake_ok[folded demo_world_def] n _ demo_enabled demo_valid(2)])
      (simp_all add: demo_id demo_paths demo_signed)
qed

lemma closed_object_keys:
  assumes "validate (PDict d) (closed_object props req) path = []"
  shows "set (dkeys d) \<subseteq> fst ` set props"
proof -
  have g: "get0 [(''additionalProperties'', PBool False), (''properties'', PDict props),
     (''required'', PList (map PStr req)), (''type'', PStr ''object'')] ''type'' = PStr ''object''"
    by (simp add: get_or_def)
  have "extra_errors d [(''additionalProperties'', PBool False), (''properties'', PDict props),
     (''required'', PList (map PStr req)), (''type'', PStr ''object'')] path = []"
    using assms unfolding closed_object_def
    by (subst (asm) validate.simps) (auto simp: g split: if_splits)
  then have "filter (\<lambda>k. dget props k = None) (dkeys d) = []"
    by (simp add: extra_errors_def Let_def get_or_def dict_of_def split: if_splits)
  then show ?thesis by (auto simp: filter_empty_conv map_of_eq_None_iff)
qed

lemma request_keys:
  assumes "validate_change_request doc = []"
  shows "set (dkeys doc) \<subseteq> {''created_at'', ''dna_version'', ''evidence'', ''kind'', ''product_id'', ''request_id'',
    ''requested_autonomy_level'', ''requester'', ''schema_version'', ''signature'', ''repair'', ''expansion'', ''upgrade''}"
proof -
  have k: "\<exists>body_name. body_name \<in> {''repair'', ''expansion'', ''upgrade''} \<and>
    (\<exists>kind_name body. validate (PDict doc) (request_schema kind_name body_name body) ''$'' = [])"
    using assms unfolding validate_change_request_def schema_for_kind_def repair_schema_def expansion_schema_def upgrade_schema_def
    by (auto split: if_splits)
  then obtain n kn b where n: "n \<in> {''repair'', ''expansion'', ''upgrade''}"
    "validate (PDict doc) (request_schema kn n b) ''$'' = []" by blast
  then show ?thesis using closed_object_keys[OF n(2)[unfolded request_schema_def]] by auto
qed

lemma envelope_request_absent: "k \<notin> set (dkeys d) \<Longrightarrow> dget (envelope_request strip d) k = None"
  unfolding map_of_eq_None_iff by (force simp: envelope_request_def without_key_def dict_of_def)

text \<open> No stored request carries a platform or a domain pack, which its schema forbids: the CLI agent never gets
  the delivery standard as its brief.\<close>

theorem standard_brief_never_given:
  assumes "(cr_step ext)\<^sup>*\<^sup>* w w'" "cw_queue w = []" "dget (cw_queue w') p = Some i"
  shows "standard_brief render (envelope_request strip (ci_request i)) = Inr None"
proof -
  have "validate_change_request (ci_request i) = []" using checked_items.reached[OF assms] .
  then have "''platform'' \<notin> set (dkeys (ci_request i))" "''domain_pack'' \<notin> set (dkeys (ci_request i))"
    using request_keys by fastforce+
  then show ?thesis using envelope_request_absent by (simp add: standard_brief_def)
qed

theorem standard_brief_never_given_witness:
  "standard_brief (\<lambda>a b. Inr ''brief'') (envelope_request id (ci_request demo_waiting)) = Inr None"
  by (rule standard_brief_never_given[OF demo_taken_in(1)[of False] demo_taken_in(2), where p = "item_path ''a.b''"]) simp

section \<open>Signatures and keys\<close>

lemma without_key_dset [simp]: "without_key k (dset k v d) = without_key k d"
  by (induction d) (auto simp: without_key_def)

lemma canonical_payload_signed [simp]: "canonical_payload (dset ''signature'' v doc) = canonical_payload doc"
  by (simp add: canonical_payload_def)

text \<open> A signed document verifies under the public key of its signing key, and is sent with its payload unchanged.\<close>

theorem signed_document_verifies:
  assumes "\<And>m. sg_verify sg pub m (sg_sign sg priv m) \<and> sg_sign sg priv m \<noteq> []"
  shows "verify_document sg pub (sign_document sg priv key_id doc) = Inr () \<and>
    (\<forall>k. k \<noteq> ''signature'' \<longrightarrow> get0 (sign_document sg priv key_id doc) k = get0 doc k)"
  using assms by (simp add: verify_document_def sign_document_def get_or_def dict_simps py_str_def)

theorem signed_document_verifies_witness: "verify_document demo_signer ''k'' (demo_doc ''a.b'') = Inr ()"
proof -
  have "sg_verify demo_signer ''k'' m (sg_sign demo_signer ''k'' m) \<and> sg_sign demo_signer ''k'' m \<noteq> []" for m
    by (simp add: demo_signer_def)
  from signed_document_verifies[OF this] show ?thesis by (simp add: demo_doc_def)
qed

lemma signed_fields: "k \<noteq> ''signature'' \<Longrightarrow> get0 (sign_document sg priv key_id doc) k = get0 doc k"
  by (simp add: sign_document_def get_or_def dict_simps)

lemma intake_keys: "intake_change_request ce doc dna root w = (r, w') \<Longrightarrow> cw_keys w' = cw_keys w"
  unfolding intake_change_request_def Let_def
  by (auto simp: log_rejection_def split: if_splits sum.splits option.splits prod.splits)

text \<open> An emission without a public key registers a new key for the product: every request signed under the
  key registered before is refused from then on.\<close>

theorem emission_replaces_key:
  assumes "resident_emit_change_requests_enabled (ce_environ ce)" "pub = None"
    and "emit_repair_from_escalation ce rid fresh product dv symptom target failed evidence requester priv pub submit w = (r, w')"
    and "public_key_id_for (ce_signer ce) product (snd fresh) \<noteq> old" "old \<noteq> []"
    and "get0 doc ''product_id'' = PStr product" "get0 (dict_of (get0 doc ''signature'')) ''public_key_id'' = PStr old"
  shows "check_signature ce doc (cw_keys w') = Inl ''public_key_id mismatch''"
proof -
  let ?kid = "public_key_id_for (ce_signer ce) product (snd fresh)"
  let ?ks = "register_public_key product (snd fresh) ?kid (cw_keys w)"
  let ?doc = "build_repair_request (ce_now ce) rid product dv ''resident'' requester evidence ''L3''
     (repair_body target (ce_strip ce symptom) failed None)"
  have e: "emission_keys (ce_environ ce) priv pub = None"
    using assms(2) by (simp add: emission_keys_def Let_def split: option.splits)
  have p: "py_str (get0 ?doc ''product_id'') = product"
    by (simp add: build_repair_request_def build_request_def get_or_def py_str_def)
  have ks: "snd (sign_and_register (ce_signer ce) fresh None ?doc (cw_keys w)) = ?ks"
    by (simp add: sign_and_register_def p Let_def split: prod.splits)
  obtain r1 where sr: "sign_and_register (ce_signer ce) fresh None ?doc (cw_keys w) = (r1, ?ks)"
    using ks by (metis prod.collapse)
  have "cw_keys w' = ?ks"
    using assms(1,3) unfolding emit_repair_from_escalation_def Let_def e sr
    by (auto split: if_splits sum.splits prod.splits intake_exn.splits dest!: intake_keys)
  then show ?thesis using assms(4-7)
    by (simp add: check_signature_def load_public_key_def register_public_key_def py_str_def dict_simps)
qed

theorem emission_replaces_key_witness:
  "check_signature demo_intake (demo_doc ''a.b'') demo_keys = Inr () \<and>
   check_signature demo_intake (demo_doc ''a.b'') (cw_keys (snd (emit_repair_from_escalation demo_intake ''r'' (''p'', ''q'') ''shop'' ''1.0.0''
     ''down'' ''api'' None [] ''res'' None None False demo_empty))) = Inl ''public_key_id mismatch''"
proof -
  have f: "resident_emit_change_requests_enabled (ce_environ demo_intake)" by code_simp
  have k: "public_key_id_for (ce_signer demo_intake) ''shop'' (snd (''p'', ''q'')) \<noteq> ''shop:1''" by code_simp
  have d: "get0 (demo_doc ''a.b'') ''product_id'' = PStr ''shop''"
    "get0 (dict_of (get0 (demo_doc ''a.b'') ''signature'')) ''public_key_id'' = PStr ''shop:1''"
    by (simp_all add: demo_doc_eq get_or_def dict_of_def)
  obtain r w' where e: "emit_repair_from_escalation demo_intake ''r'' (''p'', ''q'') ''shop'' ''1.0.0'' ''down'' ''api'' None []
    ''res'' None None False demo_empty = (r, w')" by fastforce
  from emission_replaces_key[OF f refl e k _ d] show ?thesis using demo_signed by (simp add: e)
qed

section \<open>Candidates and gates\<close>

text \<open> A candidate verifies as it was built, and one with the same checksum but other contents is refused unless
  the hash collides.\<close>

theorem candidate_tampering_detected:
  assumes "verify_candidate_checksum hs c" "get0 c ''checksum'' = get0 (build_candidate_artifact hs aw) ''checksum''"
    and "\<And>a b. hs a = hs b \<Longrightarrow> a = b"
  shows "verify_candidate_checksum hs (build_candidate_artifact hs aw) \<and>
    compact True (PDict (without_key ''checksum'' c)) = compact True (PDict (candidate_payload aw))"
proof -
  let ?p = "candidate_payload aw"
  have p: "without_key ''checksum'' ?p = ?p"
    by (simp add: without_key_def candidate_payload_def Let_def)
  have b: "get0 (build_candidate_artifact hs aw) ''checksum'' = PStr (candidate_checksum hs ?p)"
    "candidate_checksum hs (build_candidate_artifact hs aw) = candidate_checksum hs ?p"
    by (simp_all add: build_candidate_artifact_def candidate_checksum_def Let_def get_or_def dict_simps)
  have c: "candidate_checksum hs c = candidate_checksum hs ?p" "candidate_checksum hs ?p \<noteq> []"
    using assms(1,2) b by (auto simp: verify_candidate_checksum_def)
  have "hs (compact True (PDict (without_key ''checksum'' c))) = hs (compact True (PDict ?p))"
    using c(1) p by (simp only: candidate_checksum_def)
  then have "compact True (PDict (without_key ''checksum'' c)) = compact True (PDict ?p)" by (rule assms(3))
  moreover have "verify_candidate_checksum hs (build_candidate_artifact hs aw)"
    using b c(2) unfolding verify_candidate_checksum_def by simp
  ultimately show ?thesis by blast
qed

theorem candidate_tampering_detected_witness:
  "verify_candidate_checksum id (build_candidate_artifact id demo_work)"
proof -
  let ?c = "build_candidate_artifact id demo_work"
  have "verify_candidate_checksum id ?c"
    by (simp add: verify_candidate_checksum_def candidate_checksum_def build_candidate_artifact_def Let_def get_or_def dict_simps)
  from candidate_tampering_detected[OF this refl] show ?thesis by simp
qed

text \<open> An item returned for re-approval passes as soon as the gates are run again and hold: no new approval is
  recorded, and its decision still says that one is required.\<close>

theorem failed_gates_pass_unapproved:
  assumes "build_mode_enabled (we_environ we)" "get_item rid q = Some i" "ci_state i = GateFailed"
    and "truthy (ci_candidate i)" "we_is_dir we (session_root i)"
    and "list_all gr_passed (acceptance_rows we i (dict_of (ci_candidate i)) (session_root i))"
  shows "\<exists>j. evaluate_gates we rid q = (Inr j, dset (item_path rid) j q) \<and> ci_state j = GatePassed \<and>
    ci_history j = ci_history i @ [(GatePassed, we_now we)] \<and> ci_decision j = ci_decision i"
  using record_gates_passed[OF assms(6,2)] gates_run[OF assms(1,2) _ assms(4,5)] assms(3) by fastforce

theorem failed_gates_pass_unapproved_witness:
  "\<exists>i j q. ci_state i = GateFailed \<and> get_item ''a.b'' q = Some i \<and>
     evaluate_gates (demo_wb ''t4'') ''a.b'' q = (Inr j, dset (item_path ''a.b'') j q) \<and> ci_state j = GatePassed \<and> ci_decision j = ci_decision i"
proof -
  define i where "i = demo_waiting\<lparr>ci_state := GateFailed, ci_audit_artifact := PStr ''audit.json'',
    ci_candidate := PDict (build_candidate_artifact (\<lambda>m. ''h'') demo_work)\<rparr>"
  have g: "get_item ''a.b'' [(item_path ''a.b'', i)] = Some i" by (simp add: get_item_def)
  have r: "list_all gr_passed (acceptance_rows (demo_wb ''t4'') i (dict_of (ci_candidate i)) root)" for root
    by (rule demo_rows) (simp_all add: i_def)
  have t: "ci_state i = GateFailed" "truthy (ci_candidate i)"
    by (simp_all add: i_def build_candidate_artifact_def candidate_payload_def Let_def)
  from failed_gates_pass_unapproved[OF _ g t _ r] t(1) g show ?thesis by (meson demo_wb_fields)
qed

text \<open> A verdict computed on one reading of an item is recorded on whatever the item holds when it is written:
  a candidate that no gate has seen can be marked as passed.\<close>

theorem verdict_covers_unseen_candidate:
  assumes "list_all gr_passed (acceptance_rows we i0 (dict_of (ci_candidate i0)) root)" "get_item rid q = Some i"
  shows "\<exists>j. record_gates we rid i0 root (acceptance_rows we i0 (dict_of (ci_candidate i0)) root) q = (Inr j, dset (item_path rid) j q) \<and>
    ci_state j = GatePassed \<and> ci_candidate j = ci_candidate i"
  using record_gates_passed[OF assms] by fastforce

theorem verdict_covers_unseen_candidate_witness:
  "\<exists>i j. ci_candidate j = PNone \<and> ci_state j = GatePassed \<and>
     record_gates (demo_wb ''t4'') ''a.b'' i ''/out'' (acceptance_rows (demo_wb ''t4'') i (dict_of (ci_candidate i)) ''/out'')
       [(item_path ''a.b'', demo_waiting)] = (Inr j, dset (item_path ''a.b'') j [(item_path ''a.b'', demo_waiting)])"
proof -
  define i where "i = demo_waiting\<lparr>ci_state := GateFailed, ci_audit_artifact := PStr ''audit.json'',
    ci_candidate := PDict (build_candidate_artifact (\<lambda>m. ''h'') demo_work)\<rparr>"
  have g: "get_item ''a.b'' [(item_path ''a.b'', demo_waiting)] = Some demo_waiting" by (simp add: get_item_def)
  have n: "ci_candidate demo_waiting = PNone" by (simp add: demo_waiting_def evaluated_item_def no_update_def Let_def)
  have r: "list_all gr_passed (acceptance_rows (demo_wb ''t4'') i (dict_of (ci_candidate i)) root)" for root
    by (rule demo_rows) (simp_all add: i_def)
  from verdict_covers_unseen_candidate[OF r g] n show ?thesis by metis
qed

text \<open> A candidate without a blueprint of its own is judged by the gates on its workspace's blueprint, and then
  refused by every promotion.\<close>

theorem workspace_blueprint_never_promoted:
  assumes "get_item rid q = Some i" "\<not> truthy (candidate_blueprint (dict_of (ci_candidate i)))" "session_workspace_of i \<noteq> []"
  shows "judged_blueprint we (session_workspace_of i) (dict_of (ci_candidate i)) = we_workspace_blueprint we (session_workspace_of i) \<and>
    (\<exists>e. promote_request we rid actor pkg q = (Inl e, q))"
  using assms promote_viaD(4)
  by (auto simp: judged_blueprint_def promote_request_def split: sum.splits)

theorem workspace_blueprint_never_promoted_witness:
  "\<exists>e i. promote_request (demo_wb ''t5'') ''a.b'' ''owner'' demo_pkg [(item_path ''a.b'', i)] = (Inl e, [(item_path ''a.b'', i)])
     \<and> ci_state i = GatePassed"
proof -
  define i where "i = demo_waiting\<lparr>ci_state := GatePassed, ci_session := PDict [(''workspace'', PStr ''/wb/s1'')],
    ci_candidate := PDict [(''mutation'', PDict [(''blueprint'', PNone)])]\<rparr>"
  have g: "get_item ''a.b'' [(item_path ''a.b'', i)] = Some i" by (simp add: get_item_def)
  have "\<not> truthy (candidate_blueprint (dict_of (ci_candidate i)))" "session_workspace_of i \<noteq> []"
    by (simp_all add: i_def candidate_blueprint_def session_workspace_of_def dict_of_def get_or_def)
  from workspace_blueprint_never_promoted[OF g this] obtain e where
    "promote_request (demo_wb ''t5'') ''a.b'' ''owner'' demo_pkg [(item_path ''a.b'', i)] = (Inl e, [(item_path ''a.b'', i)])" by blast
  moreover have "ci_state i = GatePassed" by (simp add: i_def)
  ultimately show ?thesis by blast
qed

section \<open>Decisions and sessions\<close>

text \<open>Property C1.  A decision is taken in every state: a rejected or staged request can be approved, and a request under
  evaluation can be approved before its dry run.\<close>

theorem decision_from_any_state:
  assumes "get_item rid q = Some i"
  shows "\<exists>j. record_decision now rid True actor why q = Some (j, dset (item_path rid) j q) \<and> ci_state j = Approved"
  using assms by (simp add: record_decision_def update_state_def)

theorem decision_from_any_state_witness:
  "\<exists>i j. ci_state i = Staged \<and> ci_state j = Approved \<and>
     record_decision ''t2'' ''a.b'' True ''owner'' [] [(item_path ''a.b'', i)] = Some (j, dset (item_path ''a.b'') j [(item_path ''a.b'', i)])"
proof -
  define i where "i = demo_waiting\<lparr>ci_state := Staged\<rparr>"
  have "get_item ''a.b'' [(item_path ''a.b'', i)] = Some i" "ci_state i = Staged" by (simp_all add: get_item_def i_def)
  from decision_from_any_state[OF this(1)] this(2) show ?thesis by blast
qed

lemma no_crash_before: "resolve_product_root we i r \<noteq> Inl WbCrash" "commit we rid st up q \<noteq> (Inl WbCrash, q')"
  by (auto simp: resolve_product_root_def commit_def Let_def split: option.splits)

text \<open> An exception the session does not catch - a mutation file that is not JSON, say - leaves the item running:
  no session, gate run or promotion accepts it from then on, and none changes it.\<close>

theorem crashed_session_blocks:
  assumes "run_workbench_session we rid sid root AgentCrashed gates q = (Inl WbCrash, q')" "build_mode_enabled (we_environ we2)"
  shows "\<exists>i. get_item rid q' = Some i \<and> ci_state i = WorkbenchRunning \<and>
    run_workbench_session we2 rid sid2 root2 answer gates2 q' =
      (Inl (WorkbenchRejected ''workbench requires approved request, got state=workbench_running'' 400), q') \<and>
    evaluate_gates we2 rid q' = (Inl (WorkbenchRejected ''gates require candidate_ready, got workbench_running'' 400), q') \<and>
    promote_request we2 rid actor pkg q' = (Inl (WorkbenchRejected ''promote requires gate_passed, got workbench_running'' 400), q')"
proof -
  obtain i root1 i1 where o: "open_session we rid sid i root1 q = (Inr i1, q')"
    using assms(1) unfolding run_workbench_session_def
    by (auto simp: session_guard_def result_simps no_crash_before open_session_def
      split: sum.splits prod.splits if_splits option.splits)
  have "get_item rid q' = Some i1" "ci_state i1 = WorkbenchRunning"
    using commit_OkD[OF o[unfolded open_session_def]] by auto
  then show ?thesis using assms(2)
    by (simp add: run_workbench_session_def session_guard_def not_approved_reason_def evaluate_gates_def gates_guard_def
      promote_request_def)
qed

theorem crashed_session_blocks_witness:
  "\<exists>i q'. run_workbench_session (demo_wb ''t3'') ''a.b'' ''s1'' None AgentCrashed False [(item_path ''a.b'', demo_approved)] = (Inl WbCrash, q') \<and>
     get_item ''a.b'' q' = Some i \<and> ci_state i = WorkbenchRunning"
proof -
  have g: "get_item ''a.b'' [(item_path ''a.b'', demo_approved)] = Some demo_approved" by (simp add: get_item_def)
  have s: "session_guard (demo_wb ''t3'') ''a.b'' None [(item_path ''a.b'', demo_approved)] = Inr (demo_approved, ''/out/shop'')"
    using g by (simp add: session_guard_def demo_approved_def resolve_product_root_def demo_waiting_fields demo_doc_eq get_or_def
      dict_of_def first_truthy_def demo_record_up_def no_update_def updated_item_def py_str_def)
  obtain q' where r: "run_workbench_session (demo_wb ''t3'') ''a.b'' ''s1'' None AgentCrashed False [(item_path ''a.b'', demo_approved)] = (Inl WbCrash, q')"
    using open_session_run[OF g, of "demo_wb ''t3''" "''s1''" "''/out/shop''"] by (auto simp: run_workbench_session_def s)
  from crashed_session_blocks[OF r] r show ?thesis by (meson demo_wb_fields(1))
qed

end

