(* ===== verification/SandboxFacts.thy ===== *)
theory SandboxFacts
  imports Sandbox "HOL-Library.Sublist"
begin

text \<open>
  What the sandbox keeps to over a whole session: the readonly files, the transcript,
  the command cap, and what its argument check does not look at.
\<close>

section \<open>Sessions\<close>

datatype sandbox_op = OpWrite string string | OpRead string | OpCommand "string list" string proc_end | OpStore

definition sandbox_step :: "sandbox_env \<times> sandbox_op \<Rightarrow> sandbox \<Rightarrow> sandbox" where
  "sandbox_step x sb = (case snd x of
       OpWrite rel content \<Rightarrow> snd (write_file (fst x) rel content sb)
     | OpRead rel \<Rightarrow> snd (read_file (fst x) rel sb)
     | OpCommand argv cwd fin \<Rightarrow> snd (run_command (fst x) argv cwd fin sb)
     | OpStore \<Rightarrow> snd (attempt_store_write sb))"

definition sandbox_run :: "(sandbox_env \<times> sandbox_op) list \<Rightarrow> sandbox \<Rightarrow> sandbox" where
  "sandbox_run xs sb = fold sandbox_step xs sb"

lemma sb_note_fields [simp]:
  "sb_log (sb_note ev d sb) = sb_log sb @ [(ev, d)]" "sb_files (sb_note ev d sb) = sb_files sb"
  "sb_root (sb_note ev d sb) = sb_root sb" "sb_count (sb_note ev d sb) = sb_count sb"
  "sb_max (sb_note ev d sb) = sb_max sb" "sb_timeout (sb_note ev d sb) = sb_timeout sb"
  by (simp_all add: sb_note_def)

text \<open>A step is \<open>quiet\<close> for a reading of the sandbox when it changes nothing but the transcript, and no
  command starts.\<close>

definition quiet :: "sandbox \<Rightarrow> sandbox \<Rightarrow> bool" where
  "quiet sb sb' = (\<exists>l. sb' = sb\<lparr>sb_log := sb_log sb @ l\<rparr> \<and> ''command_start'' \<notin> fst ` set l)"

lemma quiet_refl [simp, intro]: "quiet sb sb"
  by (auto simp: quiet_def intro: exI[of _ "[]"])

lemma quiet_note [intro]: "ev \<noteq> ''command_start'' \<Longrightarrow> quiet sb (sb_note ev d sb)"
  by (auto simp: quiet_def sb_note_def)

lemma resolve_quiet: "quiet sb (snd (resolve_in_workspace se rel w sb))"
  by (auto simp: resolve_in_workspace_def split: sum.splits option.splits)

lemma resolve_ok:
  "resolve_in_workspace se rel w sb = (Inr p, sb') \<Longrightarrow> sb' = sb \<and> path_allowed (sb_root sb) (Some p) w \<and> check_alive se sb = Inr ()"
  by (auto simp: resolve_in_workspace_def split: sum.splits option.splits if_splits)

lemma read_quiet: "quiet sb (snd (read_file se rel sb))"
  using resolve_quiet[of sb se rel False]
  by (auto simp: read_file_def dest!: resolve_ok split: prod.splits sum.splits option.splits)

section \<open>The readonly files\<close>

definition readonly :: "path \<Rightarrow> path \<Rightarrow> bool" where
  "readonly root p = (case relative_to root p of
       None \<Rightarrow> True
     | Some rel \<Rightarrow> list_ex (\<lambda>s. surface_of s rel) default_readonly_paths)"

lemma allowed_not_readonly: "path_allowed root (Some p) True \<Longrightarrow> \<not> readonly root p"
  by (auto simp: path_allowed_def readonly_def default_mutable_paths_def default_readonly_paths_def surface_of_def
      split: option.splits)

lemma start_command_fields:
  "sb_files (snd (start_command argv cwd fin sb)) = sb_files sb" "sb_root (snd (start_command argv cwd fin sb)) = sb_root sb"
  "sb_count (snd (start_command argv cwd fin sb)) = sb_count sb" "sb_max (snd (start_command argv cwd fin sb)) = sb_max sb"
  "\<exists>l. sb_log (snd (start_command argv cwd fin sb)) = sb_log sb @ l"
  by (auto simp: start_command_def Let_def split: proc_end.splits)

lemma run_command_cases:
  "let sb' = snd (run_command se argv cwd fin sb)
   in sb' = sb \<or> quiet (sb\<lparr>sb_count := sb_count sb + 1\<rparr>) sb' \<or>
      (sb' = snd (start_command argv cwd fin (sb\<lparr>sb_count := sb_count sb + 1\<rparr>)) \<and> sb_count sb + 1 < sb_max sb)"
proof -
  let ?sb1 = "sb\<lparr>sb_count := sb_count sb + 1\<rparr>"
  have c: "sb_count sb + 1 < sb_max sb" if "check_alive se ?sb1 = Inr ()"
    using that by (auto simp: check_alive_def split: if_splits)
  show ?thesis
    using resolve_quiet[of ?sb1 se cwd False] c
    by (auto simp: run_command_def Let_def split: sum.splits option.splits prod.splits dest!: resolve_ok)
qed

lemma quiet_fields: "quiet sb sb' \<Longrightarrow> sb_files sb' = sb_files sb \<and> sb_root sb' = sb_root sb \<and> sb_count sb' = sb_count sb \<and>
    sb_max sb' = sb_max sb \<and> (\<exists>l. sb_log sb' = sb_log sb @ l)"
  by (auto simp: quiet_def)

text \<open>The three ways a step ends: only the transcript grew, an allowed file was written, or a command was counted.\<close>

lemma sandbox_step_cases:
  obtains (unchanged) "quiet sb (sandbox_step x sb)"
    | (written) p content ev d where "sandbox_step x sb = sb_note ev d (sb\<lparr>sb_files := dset p content (sb_files sb)\<rparr>)"
        "ev \<noteq> ''command_start''" "\<not> readonly (sb_root sb) p"
    | (counted) "quiet (sb\<lparr>sb_count := sb_count sb + 1\<rparr>) (sandbox_step x sb)"
    | (started) argv cwd fin where "sandbox_step x sb = snd (start_command argv cwd fin (sb\<lparr>sb_count := sb_count sb + 1\<rparr>))"
        "sb_count sb + 1 < sb_max sb"
proof -
  obtain se op where x: "x = (se, op)" by (cases x)
  show thesis
  proof (cases op)
    case (OpWrite rel content)
    obtain r sb1 where r: "resolve_in_workspace se rel True sb = (r, sb1)" by fastforce
    show thesis
    proof (cases r)
      case (Inl e)
      then have "quiet sb (sandbox_step x sb)"
        using resolve_quiet[of sb se rel True] r by (simp add: sandbox_step_def x OpWrite write_file_def)
      then show thesis by (rule unchanged)
    next
      case (Inr p)
      then have "sb1 = sb" "\<not> readonly (sb_root sb) p" using resolve_ok[of se rel True sb p sb1] r allowed_not_readonly by auto
      then show thesis using r Inr by (intro written) (auto simp: sandbox_step_def x OpWrite write_file_def)
    qed
  next
    case (OpRead rel)
    then show thesis using read_quiet[of sb se rel] by (intro unchanged) (simp add: sandbox_step_def x)
  next
    case (OpCommand argv cwd fin)
    then have "sandbox_step x sb = snd (run_command se argv cwd fin sb)" by (simp add: sandbox_step_def x)
    then show thesis using run_command_cases[of se argv cwd fin sb] unchanged counted started by (auto simp: Let_def)
  next
    case OpStore
    then have "quiet sb (sandbox_step x sb)" by (auto simp: sandbox_step_def x attempt_store_write_def)
    then show thesis by (rule unchanged)
  qed
qed

lemma sandbox_step_fields:
  "sb_root (sandbox_step x sb) = sb_root sb \<and> sb_max (sandbox_step x sb) = sb_max sb \<and>
   (\<exists>l. sb_log (sandbox_step x sb) = sb_log sb @ l) \<and>
   (\<forall>p. readonly (sb_root sb) p \<longrightarrow> dget (sb_files (sandbox_step x sb)) p = dget (sb_files sb) p)"
proof (cases rule: sandbox_step_cases[of sb x])
  case unchanged
  then show ?thesis by (auto dest: quiet_fields)
next
  case (written p content ev d)
  then show ?thesis by (auto simp: dict_simps)
next
  case counted
  then show ?thesis by (auto dest: quiet_fields)
next
  case (started argv cwd fin)
  then show ?thesis using start_command_fields[of argv cwd fin "sb\<lparr>sb_count := sb_count sb + 1\<rparr>"] by auto
qed

text \<open> Whatever an agent writes, reads and runs through the sandbox, no file of the seeded product DNA, of the
  baseline or the request, and no file outside the workspace, is written by the sandbox, and the transcript only grows.\<close>

theorem readonly_files_kept:
  shows "sb_root (sandbox_run xs sb) = sb_root sb \<and> prefix (sb_log sb) (sb_log (sandbox_run xs sb)) \<and>
    (readonly (sb_root sb) p \<longrightarrow> dget (sb_files (sandbox_run xs sb)) p = dget (sb_files sb) p)"
proof (induction xs arbitrary: sb)
  case Nil
  then show ?case by (simp add: sandbox_run_def)
next
  case (Cons x xs)
  have r: "sandbox_run (x # xs) sb = sandbox_run xs (sandbox_step x sb)" by (simp add: sandbox_run_def)
  show ?case
    using Cons.IH[of "sandbox_step x sb"] sandbox_step_fields[of x sb] unfolding r
    by (metis prefix_def append.assoc)
qed

section \<open>The command cap\<close>

definition commands_started :: "sandbox \<Rightarrow> nat" where
  "commands_started sb = length (filter (\<lambda>e. fst e = ''command_start'') (sb_log sb))"

definition within_cap :: "sandbox \<Rightarrow> bool" where
  "within_cap sb = (int (commands_started sb) \<le> sb_count sb \<and> (commands_started sb = 0 \<or> int (commands_started sb) < sb_max sb))"

lemma quiet_started: "quiet sb sb' \<Longrightarrow> commands_started sb' = commands_started sb"
  by (force simp: quiet_def commands_started_def filter_empty_conv)

lemma start_started: "commands_started (snd (start_command argv cwd fin sb)) = commands_started sb + 1"
  by (auto simp: start_command_def commands_started_def Let_def split: proc_end.splits)

lemma within_cap_step: "within_cap sb \<Longrightarrow> within_cap (sandbox_step x sb)"
proof (cases rule: sandbox_step_cases[of sb x])
  case unchanged
  then show "within_cap sb \<Longrightarrow> ?thesis" using quiet_started[OF unchanged] quiet_fields[OF unchanged] by (simp add: within_cap_def)
next
  case (written p content ev d)
  then show "within_cap sb \<Longrightarrow> ?thesis" by (simp add: within_cap_def commands_started_def)
next
  case counted
  show "within_cap sb \<Longrightarrow> ?thesis" using quiet_started[OF counted] quiet_fields[OF counted]
    by (simp add: within_cap_def commands_started_def)
next
  case (started argv cwd fin)
  show "within_cap sb \<Longrightarrow> ?thesis"
    using started(2) start_command_fields[of argv cwd fin "sb\<lparr>sb_count := sb_count sb + 1\<rparr>"]
    by (simp add: started(1) within_cap_def start_started, simp add: commands_started_def)
qed

lemma within_cap_run: "within_cap sb \<Longrightarrow> within_cap (sandbox_run xs sb)"
  by (induction xs arbitrary: sb) (auto simp: sandbox_run_def within_cap_step)

lemma sandbox_run_max: "sb_max (sandbox_run xs sb) = sb_max sb"
  by (induction xs arbitrary: sb) (simp_all add: sandbox_run_def sandbox_step_fields)

definition fresh_sandbox :: "string \<Rightarrow> path \<Rightarrow> int \<Rightarrow> int \<Rightarrow> sandbox" where
  "fresh_sandbox sid root timeout cap = \<lparr>sb_id = sid, sb_root = root, sb_timeout = timeout, sb_max = cap, sb_count = 0,
     sb_log = [], sb_files = []\<rparr>"

text \<open> A session starts one command fewer than its cap allows: the counter is raised before the check that the
  working directory's resolution repeats.\<close>

theorem command_cap_is_one_less:
  assumes "0 < cap"
  shows "int (commands_started (sandbox_run xs (fresh_sandbox sid root timeout cap))) \<le> cap - 1"
proof -
  have "within_cap (fresh_sandbox sid root timeout cap)"
    by (simp add: within_cap_def fresh_sandbox_def commands_started_def)
  from within_cap_run[OF this, of xs] show ?thesis
    using assms sandbox_run_max[of xs "fresh_sandbox sid root timeout cap"]
    by (auto simp: within_cap_def fresh_sandbox_def)
qed

section \<open>Command arguments\<close>

text \<open> An argument that does not begin with a slash or two dots is never looked at: a command is run with
  one that leads out of the workspace further down.\<close>

theorem inner_dots_not_checked:
  assumes "se_elapsed se \<le> sb_timeout sb" "sb_count sb + 1 < sb_max sb" "argv \<noteq> []"
    and "se_real se (joined (sb_root sb) cwd) = Some d" "relative_to (sb_root sb) d = Some rel"
    and "\<forall>a \<in> set (tl argv). \<not> starts_with a ''/'' \<and> \<not> starts_with a ''..''"
  shows "fst (run_command se argv cwd (ProcDone rc out err) sb) = Inr (command_result argv rc out err)"
proof -
  have n: "find (arg_escapes se root d2) (tl argv) = None" for root d2
    using assms(6) by (auto simp: find_None_iff arg_escapes_def arg_looked_at_def)
  have p: "path_allowed (sb_root sb) (Some d) False" using assms(5) by (simp add: path_allowed_def)
  have c: "check_alive se sb = Inr ()" "check_alive se (sb\<lparr>sb_count := sb_count sb + 1\<rparr>) = Inr ()"
    using assms(1,2) by (auto simp: check_alive_def)
  show ?thesis
    by (simp add: run_command_def c resolve_in_workspace_def assms(3,4) p n start_command_def Let_def)
qed

section \<open>Witnesses\<close>

text \<open>Path resolution without symbolic links.\<close>

fun lexical :: "path \<Rightarrow> path \<Rightarrow> path" where
  "lexical acc [] = rev acc"
| "lexical acc (p # ps) = (if p = ''..'' then lexical (drop 1 acc) ps else lexical (p # acc) ps)"

definition demo_se :: sandbox_env where
  "demo_se = \<lparr>se_elapsed = 0, se_real = (\<lambda>p. Some (lexical [] p))\<rparr>"

definition demo_box :: sandbox where
  "demo_box = (fresh_sandbox ''s1'' [''wb'', ''s1''] 300 3)\<lparr>sb_files := [([''wb'', ''s1'', ''request.json''], ''{}'')]\<rparr>"

theorem readonly_files_kept_witness:
  "dget (sb_files (sandbox_run [(demo_se, OpWrite ''candidate/../request.json'' ''x''), (demo_se, OpWrite ''candidate/a'' ''y'')] demo_box))
     [''wb'', ''s1'', ''request.json''] = Some ''{}''"
proof -
  have r: "readonly (sb_root demo_box) [''wb'', ''s1'', ''request.json'']" by code_simp
  have "dget (sb_files demo_box) [''wb'', ''s1'', ''request.json''] = Some ''{}''" by (simp add: demo_box_def)
  then show ?thesis using readonly_files_kept[of _ demo_box "[''wb'', ''s1'', ''request.json'']"] r by simp
qed

theorem command_cap_is_one_less_witness:
  "commands_started (sandbox_run (replicate 5 (demo_se, OpCommand [''ls''] ''.'' (ProcDone 0 [] []))) (fresh_sandbox ''s1'' [''wb''] 300 3)) = 2
   \<and> int (commands_started (sandbox_run (replicate 5 (demo_se, OpCommand [''ls''] ''.'' (ProcDone 0 [] []))) (fresh_sandbox ''s1'' [''wb''] 300 3))) \<le> 3 - 1"
proof
  show "commands_started (sandbox_run (replicate 5 (demo_se, OpCommand [''ls''] ''.'' (ProcDone 0 [] []))) (fresh_sandbox ''s1'' [''wb''] 300 3)) = 2"
    by code_simp
  show "int (commands_started (sandbox_run (replicate 5 (demo_se, OpCommand [''ls''] ''.'' (ProcDone 0 [] []))) (fresh_sandbox ''s1'' [''wb''] 300 3))) \<le> 3 - 1"
    by (rule command_cap_is_one_less) simp
qed

theorem inner_dots_not_checked_witness:
  "fst (run_command demo_se [''cat'', ''a/../../../etc/passwd''] ''.'' (ProcDone 0 ''root'' []) demo_box) =
     Inr (command_result [''cat'', ''a/../../../etc/passwd''] 0 ''root'' []) \<and>
   \<not> arg_stays demo_se (sb_root demo_box) (sb_root demo_box) ''a/../../../etc/passwd''"
proof
  show "fst (run_command demo_se [''cat'', ''a/../../../etc/passwd''] ''.'' (ProcDone 0 ''root'' []) demo_box) =
     Inr (command_result [''cat'', ''a/../../../etc/passwd''] 0 ''root'' [])"
  proof (rule inner_dots_not_checked)
    show "se_real demo_se (joined (sb_root demo_box) ''.'') = Some [''wb'', ''s1'']"
      "relative_to (sb_root demo_box) [''wb'', ''s1''] = Some []"
      "\<forall>a \<in> set (tl [''cat'', ''a/../../../etc/passwd'']). \<not> starts_with a ''/'' \<and> \<not> starts_with a ''..''"
      by code_simp+
  qed (simp_all add: demo_se_def demo_box_def fresh_sandbox_def)
  show "\<not> arg_stays demo_se (sb_root demo_box) (sb_root demo_box) ''a/../../../etc/passwd''" by code_simp
qed

end
