(* ===== verification/StoreAdvice.thy ===== *)
theory StoreAdvice
  imports ChangeQueue
begin

text \<open>
  The advice on store upgrades (\<open>change_requests/store_compare.py\<close>): the pinned
  versions of a lock file against the versions of the store.  The shelf of the factory
  is an argument.
\<close>

section \<open>Versions\<close>

text \<open>\<open>piece.isdigit()\<close> is also true of the superscripts two, three and one, on which \<open>int\<close> raises.\<close>

definition is_digit_text :: "string \<Rightarrow> bool" where
  "is_digit_text s = (s \<noteq> [] \<and> list_all (\<lambda>c. is_digit c \<or> (of_char c :: nat) \<in> {178, 179, 185}) s)"

fun leading_numbers :: "string list \<Rightarrow> int list option" where
  "leading_numbers [] = Some []"
| "leading_numbers (p # ps) =
     (if is_digit_text p
      then (case int_of_str p of None \<Rightarrow> None | Some i \<Rightarrow> map_option ((#) i) (leading_numbers ps))
      else Some [])"

definition version_parts :: "string \<Rightarrow> int list option" where
  "version_parts v = map_option (\<lambda>xs. if xs = [] then [0] else xs)
     (leading_numbers (split_on CHR ''.'' (replace_char CHR ''-'' CHR ''.'' v)))"

fun later_parts :: "int list \<Rightarrow> int list \<Rightarrow> bool" where
  "later_parts xs [] = (xs \<noteq> [])"
| "later_parts [] (y # ys) = False"
| "later_parts (x # xs) (y # ys) = (x > y \<or> (x = y \<and> later_parts xs ys))"

definition is_newer :: "string \<Rightarrow> string \<Rightarrow> bool" where
  "is_newer available pinned = (case (version_parts available, version_parts pinned) of
       (Some a, Some b) \<Rightarrow> later_parts a b
     | _ \<Rightarrow> available \<noteq> pinned)"

section \<open>The advice\<close>

definition advisory :: "pyval \<Rightarrow> string \<Rightarrow> string option \<Rightarrow> string option \<Rightarrow> string \<Rightarrow> string \<Rightarrow> document" where
  "advisory block pinned available log status recommend =
     [(''block_id'', block), (''pinned_version'', PStr pinned),
      (''available_version'', case available of None \<Rightarrow> PNone | Some v \<Rightarrow> PStr v),
      (''changelog'', case log of None \<Rightarrow> PNone | Some t \<Rightarrow> PStr t), (''status'', PStr status), (''recommend'', PStr recommend)]"

definition pinned_version :: "document \<Rightarrow> string" where
  "pinned_version pin = text_of (py_or (py_or (get0 pin ''version'') (get0 pin ''pinned_version'')) (PStr ''unknown''))"

definition advise :: "(string, string) dict \<Rightarrow> (string, string) dict \<Rightarrow> document \<Rightarrow> document" where
  "advise store logs pin =
     (let block = get0 pin ''block_id''; pinned = pinned_version pin; log = dget logs (py_str block)
      in case dget store (py_str block) of
           None \<Rightarrow> advisory block pinned None log ''not_in_store'' ''ignore''
         | Some available \<Rightarrow>
            (if pinned = ''unknown'' then advisory block pinned (Some available) log ''pinned_version_unknown'' ''later''
             else if pinned = available then advisory block pinned (Some available) log ''up_to_date'' ''ignore''
             else advisory block pinned (Some available) log ''upgrade_available''
               (if is_newer available pinned then ''now'' else ''later'')))"

definition compare_lockfile_to_store ::
  "(string, string) dict \<Rightarrow> (string, string) dict option \<Rightarrow> (string, string) dict \<Rightarrow> document \<Rightarrow> document" where
  "compare_lockfile_to_store shelf store logs lock =
     (let pins = filter (\<lambda>p. truthy (get0 p ''block_id'')) (map dict_of (filter (\<lambda>p. type_name p = ''dict'') (list_of (get0 lock ''pins''))))
      in [(''schema_version'', PStr ''1.0.0''), (''kind'', PStr ''store_upgrade_advisory''), (''blocks_commit'', get0 lock ''blocks_commit''),
          (''advisories'', PList (map (PDict \<circ> advise (case store of Some s \<Rightarrow> s | None \<Rightarrow> shelf) logs) pins)),
          (''auto_emits_upgrade_request'', PBool False),
          (''honesty'', PStr ''advisory only - human or approved process must create UPGRADE requests'')])"

section \<open>What the advice means\<close>

lemma later_parts_irrefl [simp]: "\<not> later_parts xs xs"
  by (induction xs) auto

lemma later_parts_asym: "later_parts xs ys \<Longrightarrow> \<not> later_parts ys xs"
  by (induction xs ys rule: later_parts.induct) (auto elim: later_parts.elims)

lemma later_parts_trans: "later_parts xs ys \<Longrightarrow> later_parts ys zs \<Longrightarrow> later_parts xs zs"
proof (induction xs ys arbitrary: zs rule: later_parts.induct)
  case (1 xs)
  then show ?case by (cases zs) auto
next
  case (3 x xs y ys)
  then show ?case by (cases zs) auto
qed auto

end
