(* ===== verification/BuildsPush.thy ===== *)
theory BuildsPush
  imports BuildStart
begin

text \<open>
  The scratch branches on the builds repository (\<open>factory/build/builds_push.py\<close>
  and the checkpoint half of \<open>factory/build/branch_attach.py\<close>): which workspace
  files ship, the tree a push or a checkpoint commits, the retried push, the
  settings, the names of branches and the resolver of a build's branch of record.
  A tree is a map from paths to file contents (empty directories have no
  counterpart).  GitHub answers requests in order, git its pushes; both are
  arguments, as is the redaction of credentials in messages.
\<close>

section \<open>What ships\<close>

type_synonym file_path = "string list"
type_synonym file_tree = "file_path \<Rightarrow> string option"

definition factory_internal_names :: "string list" where
  "factory_internal_names = [''.codewhale'', ''.generation_quota_account'', ''build_ledger.jsonl.lock'', ''build_ledger.jsonl'']"

definition factory_internal_paths :: "string list" where
  "factory_internal_paths = [''product-dna/generation_manifest.json'', ''docs/writer_prompt.txt'', ''docs/coder_brief.md'',
     ''docs/coder_receipt.json'', ''docs/writer_argv.json'', ''docs/writer_progress.jsonl'', ''docs/writer_progress.log'',
     ''docs/build_provenance.json'', ''docs/factory_receipt.json'', ''docs/writer_factory_owned.json'']"

definition export_skip_dirs :: "string list" where
  "export_skip_dirs = [''__pycache__'', ''.pytest_cache'', ''.mypy_cache'', ''.ruff_cache'', ''.venv'', ''venv'', ''.git'']"

definition export_skip_suffixes :: "string list" where "export_skip_suffixes = [''.pyc'', ''.pyo'']"
definition export_skip_top :: "string list" where "export_skip_top = [''data'']"

text \<open>\<open>Path.suffix\<close>: from the last dot, unless that dot starts or ends the name.\<close>

definition name_suffix :: "string \<Rightarrow> string" where
  "name_suffix n = (let tail = takeWhile (\<lambda>c. c \<noteq> CHR ''.'') (rev n); k = length tail
     in if k < length n \<and> 0 < k \<and> Suc k < length n then CHR ''.'' # rev tail else [])"

definition is_exported :: "file_path \<Rightarrow> bool" where
  "is_exported parts = (parts \<noteq> [] \<and> hd parts \<notin> set export_skip_top \<and>
     \<not> list_ex (\<lambda>p. p \<in> set export_skip_dirs) parts \<and>
     \<not> list_ex (\<lambda>p. p \<in> set factory_internal_names) parts \<and>
     join ''/'' parts \<notin> set factory_internal_paths \<and>
     name_suffix (last parts) \<notin> set export_skip_suffixes)"

definition gate_workflow :: file_path where "gate_workflow = [''.github'', ''workflows'', ''store-gate.yml'']"
definition gate_helpers :: file_path where "gate_helpers = [''.github'', ''store_gate'']"
definition store_gate_paths :: "file_path list" where "store_gate_paths = [gate_workflow, gate_helpers]"

definition is_gate_owned :: "file_path \<Rightarrow> bool" where
  "is_gate_owned p = list_ex (\<lambda>g. take (length g) p = g) store_gate_paths"

section \<open>The tree a push commits\<close>

definition inherited_from_main :: "string list" where "inherited_from_main = [''.git'', ''.github'']"

definition drop_inherited_product :: "file_tree \<Rightarrow> file_tree" where
  "drop_inherited_product t = (\<lambda>p. if p \<noteq> [] \<and> hd p \<in> set inherited_from_main then t p else None)"

text \<open>A file is copied when no directory on the way to it is left out.\<close>

definition copied :: "file_path \<Rightarrow> bool" where
  "copied p = list_all (\<lambda>k. is_exported (take k p)) [1..<Suc (length p)]"

text \<open>The top-level entries of the workspace, its files given as a list.\<close>

definition has_top :: "(file_path \<times> string) list \<Rightarrow> string \<Rightarrow> bool" where
  "has_top src n = list_ex (\<lambda>(p, c). p \<noteq> [] \<and> hd p = n) src"

definition sync_workspace_onto_tree :: "(file_path \<times> string) list \<Rightarrow> file_tree \<Rightarrow> file_tree" where
  "sync_workspace_onto_tree src t = (\<lambda>p.
     if p = [] then t p
     else if \<not> has_top src (hd p) \<or> \<not> is_exported [hd p] then t p
     else if hd p = ''.github'' then
       (if is_exported p \<and> \<not> is_gate_owned p then (case map_of src p of Some c \<Rightarrow> Some c | None \<Rightarrow> t p) else t p)
     else if copied p then map_of src p else None)"

text \<open>The tree of a fresh push: cut from main, the product main happens to carry dropped.\<close>

definition pushed_tree :: "(file_path \<times> string) list \<Rightarrow> file_tree \<Rightarrow> file_tree" where
  "pushed_tree src main = sync_workspace_onto_tree src (drop_inherited_product main)"

text \<open>\<open>carry_mains_gate\<close>: each gate path main has replaces the branch's.\<close>

definition under :: "file_path \<Rightarrow> file_path \<Rightarrow> bool" where
  "under g p = (take (length g) p = g)"

definition carry_mains_gate :: "(file_path \<Rightarrow> bool) \<Rightarrow> file_tree \<Rightarrow> file_tree \<Rightarrow> file_tree" where
  "carry_mains_gate main_has main t =
     foldl (\<lambda>t g. if main_has g then (\<lambda>p. if under g p then main p else t p) else t) t store_gate_paths"

text \<open>A checkpoint lays the workspace over the branch and carries main's gate when main can be
  fetched (\<open>main\<close> is None when it cannot).\<close>

definition checkpoint_tree ::
  "(file_path \<times> string) list \<Rightarrow> ((file_path \<Rightarrow> bool) \<times> file_tree) option \<Rightarrow> file_tree \<Rightarrow> file_tree" where
  "checkpoint_tree src main branch =
     (let t = sync_workspace_onto_tree src branch
      in case main of None \<Rightarrow> t | Some (main_has, m) \<Rightarrow> carry_mains_gate main_has m t)"

section \<open>Pushing\<close>

datatype push_exn = PushError bool string | PushPy py_exn

definition push_unreachable :: "push_exn \<Rightarrow> bool" where
  "push_unreachable e = (case e of PushError u m \<Rightarrow> u | PushPy x \<Rightarrow> False)"

fun push_text :: "push_exn \<Rightarrow> string" where
  "push_text (PushError u m) = m"
| "push_text (PushPy x) = py_exn_name x"

definition github_max_file_bytes :: nat where "github_max_file_bytes = 104857600"
definition push_attempts :: nat where "push_attempts = 3"
definition push_backoff_s :: rat where "push_backoff_s = 5"

definition oversized_files :: "(file_path \<times> nat) list \<Rightarrow> nat \<Rightarrow> (string \<times> nat) list" where
  "oversized_files sizes limit =
     rev (sort_key snd (rev (map (\<lambda>(p, n). (join ''/'' p, n))
       (filter (\<lambda>(p, n). ''.git'' \<notin> set p \<and> n > limit) sizes))))"

record git_answer =
  ga_code :: int
  ga_out :: string
  ga_err :: string

text \<open>The attempts from number \<open>k\<close>: the outputs so far and the seconds slept.\<close>

fun push_loop ::
  "(string \<Rightarrow> string) \<Rightarrow> (nat \<Rightarrow> git_answer) \<Rightarrow> nat \<Rightarrow> rat \<Rightarrow> nat \<Rightarrow> nat \<Rightarrow> string list \<Rightarrow> rat list \<Rightarrow>
   (string list + nat) \<times> rat list" where
  "push_loop scrub git attempts backoff 0 k outputs slept = (Inl outputs, slept)"
| "push_loop scrub git attempts backoff (Suc left) k outputs slept =
     (let a = git k
      in if ga_code a = 0 then (Inr k, slept)
         else push_loop scrub git attempts backoff left (Suc k)
           (outputs @ [''attempt '' @ show_nat k @ '': '' @ py_strip (scrub (ga_err a @ ga_out a))])
           (if k < attempts then slept @ [backoff * of_nat k] else slept))"

definition push_with_retry ::
  "(string \<Rightarrow> string) \<Rightarrow> (nat \<Rightarrow> git_answer) \<Rightarrow> (file_path \<times> nat) list \<Rightarrow> string \<Rightarrow> nat \<Rightarrow> rat \<Rightarrow>
   (push_exn + nat) \<times> rat list" where
  "push_with_retry scrub git sizes label attempts backoff =
     (let big = oversized_files sizes github_max_file_bytes
      in if big \<noteq> [] then
           (Inl (PushError False (label @ '': file(s) above GitHub's '' @ show_nat github_max_file_bytes @ ''-byte limit: '' @
              join '', '' (map (\<lambda>(n, s). n @ '' ('' @ show_nat s @ '' bytes)'') big))), [])
         else (case push_loop scrub git attempts backoff (max 1 attempts) 1 [] [] of
             (Inr k, slept) \<Rightarrow> (Inr k, slept)
           | (Inl outputs, slept) \<Rightarrow>
               (Inl (PushError False (label @ '' after '' @ show_nat (length outputs) @ '' attempt(s): '' @ join '' | '' outputs)), slept)))"

section \<open>Settings and names\<close>

definition builds_token :: "environ \<Rightarrow> string" where
  "builds_token env = (case env ''CEREBRUM_BUILDS_GITHUB_TOKEN'' of None \<Rightarrow> [] | Some s \<Rightarrow> py_strip s)"

definition remove_suffix :: "string \<Rightarrow> string \<Rightarrow> string" where
  "remove_suffix s suf = (if suf \<noteq> [] \<and> ends_with s suf then take (length s - length suf) s else s)"

definition remove_prefix :: "string \<Rightarrow> string \<Rightarrow> string" where
  "remove_prefix s pre = (if starts_with s pre then drop (length pre) s else s)"

definition strip_chars :: "string \<Rightarrow> string \<Rightarrow> string" where
  "strip_chars cs s = rev (dropWhile (\<lambda>c. c \<in> set cs) (rev (dropWhile (\<lambda>c. c \<in> set cs) s)))"

definition repo_error :: "string \<Rightarrow> push_exn" where
  "repo_error m = PushError False (''CEREBRUM_BUILDS_REPO '' @ m)"

definition parse_builds_repo :: "environ \<Rightarrow> push_exn + string \<times> string" where
  "parse_builds_repo env =
     (let set' = (case env ''CEREBRUM_BUILDS_REPO'' of None \<Rightarrow> [] | Some s \<Rightarrow> py_strip s);
          raw = (if set' = [] then ''bopoadz-del/cerebrum-builds'' else set');
          checked = (\<lambda>(owner, name). if owner = [] \<or> name = [] \<or> CHR ''/'' \<in> set name
                       then Inl (repo_error ''missing or invalid'') else Inr (owner, name))
      in if starts_with raw ''https://'' \<or> starts_with raw ''http://'' then
           (let clean = remove_suffix (rev (dropWhile (\<lambda>c. c = CHR ''/'') (rev raw))) ''.git'';
                parts = filter (\<lambda>p. p \<noteq> []) (split_on (CHR ''/'') clean)
            in if length parts < 2 then Inl (repo_error ''is not a GitHub owner/repo URL'')
               else checked (parts ! (length parts - 2), last parts))
         else if length (filter (\<lambda>c. c = CHR ''/'') raw) \<noteq> 1
           then Inl (repo_error ''must be owner/repo or a GitHub HTTPS URL'')
         else checked (py_strip (before_char (CHR ''/'') raw), remove_suffix (py_strip (after_char (CHR ''/'') raw)) ''.git''))"

definition session_safe :: "char \<Rightarrow> bool" where
  "session_safe c = (let n = (of_char c :: nat) in
     (48 \<le> n \<and> n \<le> 57) \<or> (65 \<le> n \<and> n \<le> 90) \<or> (97 \<le> n \<and> n \<le> 122) \<or> c \<in> set ''._-'')"

text \<open>Both substitutions at once: every unsafe character is a dash, runs of dashes become one.\<close>

fun one_dash :: "string \<Rightarrow> string" where
  "one_dash [] = []"
| "one_dash [c] = [c]"
| "one_dash (c # d # s) = (if c = CHR ''-'' \<and> d = CHR ''-'' then one_dash (d # s) else c # one_dash (d # s))"

definition sanitize_session_id :: "string \<Rightarrow> string" where
  "sanitize_session_id raw =
     (let dashed = one_dash (map (\<lambda>c. if session_safe c then c else CHR ''-'') (py_strip raw));
          t = strip_chars ''-._'' dashed
      in take 64 (if t = [] then ''session'' else t))"

definition make_branch_name :: "string \<Rightarrow> string option \<Rightarrow> string \<Rightarrow> string" where
  "make_branch_name sid suffix fresh =
     (let tag = py_strip (case suffix of Some s \<Rightarrow> (if s = [] then fresh else s) | None \<Rightarrow> fresh)
      in ''build/'' @ sanitize_session_id sid @ ''-'' @ (if tag = [] then fresh else tag))"

definition id_part :: "string \<Rightarrow> bool" where
  "id_part s = (s \<noteq> [] \<and> list_all (\<lambda>c. session_safe c \<and> c \<notin> set ''._-'') s)"

definition platform_id_from_branch :: "string \<Rightarrow> string option" where
  "platform_id_from_branch b = (if starts_with b ''build/'' \<and> is_platform_id (drop 6 b) then Some (drop 6 b) else None)"

definition is_build_branch :: "string \<Rightarrow> bool" where
  "is_build_branch n = (platform_id_from_branch n \<noteq> None \<or>
     (starts_with n ''build/sess_'' \<and> list_all id_part (split_on (CHR ''-'') (drop 11 n))))"

definition token_wrappers :: string where
  "token_wrappers = CHR 0x22 # CHR 0x27 # ''`()[]{}<>.,;:!?''"

definition session_token :: "string \<Rightarrow> (string \<times> string) option" where
  "session_token word =
     (let low = remove_prefix (py_lower (strip_chars token_wrappers word)) ''build/'';
          rest = drop 5 low; head = before_char (CHR ''-'') rest; tail = after_char (CHR ''-'') rest;
          tag = (if tail = [] then [] else before_char (CHR ''-'') tail)
      in if \<not> starts_with low ''sess_'' then None
         else if length head < 6 \<or> \<not> id_part head then None
         else if tail \<noteq> [] \<and> \<not> id_part tag then None
         else Some (''sess_'' @ head, if tag = [] then [] else CHR ''-'' # tag))"

section \<open>Asking GitHub\<close>

text \<open>A request and its answer: an HTTP status with a parsed body, or no transport.\<close>

datatype gh_request =
    CommitOf string string string
  | StatusesOf string string string
  | RefOf string string string
  | MatchingRefs string string string
  | ArtifactsOf string string string
  | TreeOf string string string

datatype gh_answer = Answered int pyval | NoTransport string

text \<open>The world answers the requests in order; a call consumes the answers it asked for.\<close>

type_synonym github = "nat \<Rightarrow> gh_request \<Rightarrow> gh_answer"
type_synonym 'a gh_call = "nat \<Rightarrow> (push_exn + 'a) \<times> nat"

definition github_request :: "github \<Rightarrow> gh_request \<Rightarrow> (int \<times> pyval) gh_call" where
  "github_request gh r n = (case gh n r of
       Answered st body \<Rightarrow> (Inr (st, body), Suc n)
     | NoTransport why \<Rightarrow> (Inl (PushError True (''GitHub API down: '' @ why)), Suc n))"

definition bind_call :: "'a gh_call \<Rightarrow> ('a \<Rightarrow> 'b gh_call) \<Rightarrow> 'b gh_call" where
  "bind_call c f n = (case c n of (Inl e, m) \<Rightarrow> (Inl e, m) | (Inr a, m) \<Rightarrow> f a m)"

definition return_call :: "'a \<Rightarrow> 'a gh_call" where "return_call a n = (Inr a, n)"
definition fail_call :: "push_exn \<Rightarrow> 'a gh_call" where "fail_call e n = (Inl e, n)"

definition is_mapping :: "pyval \<Rightarrow> bool" where
  "is_mapping v = (case v of PDict d \<Rightarrow> True | _ \<Rightarrow> False)"

definition fetch_commit_sha :: "github \<Rightarrow> string \<Rightarrow> string \<Rightarrow> string \<Rightarrow> string gh_call" where
  "fetch_commit_sha gh owner repo ref =
     bind_call (github_request gh (CommitOf owner repo ref)) (\<lambda>(st, body).
       if st \<ge> 400 \<or> \<not> is_mapping body then
         fail_call (PushError True (''GitHub API down: commit '' @ ref @ '' HTTP '' @ show_int st))
       else (let s = py_strip (text_of (get0 (dict_of body) ''sha''))
             in if s = [] then fail_call (PushError False (''GitHub API: empty sha for '' @ ref)) else return_call s))"

definition ref_row :: "string \<Rightarrow> pyval \<Rightarrow> (string \<times> string) option" where
  "ref_row sid v = (case v of
       PDict item \<Rightarrow>
         (let ref = py_strip (text_of (get0 item ''ref''));
              s = py_strip (text_of (get0 (dict_of (get0 item ''object'')) ''sha''));
              branch = remove_prefix ref ''refs/heads/''
          in if starts_with branch (''build/'' @ sid) \<and> s \<noteq> [] then Some (branch, s) else None)
     | _ \<Rightarrow> None)"

definition list_session_build_refs :: "github \<Rightarrow> string \<Rightarrow> string \<Rightarrow> string \<Rightarrow> (string \<times> string) list gh_call" where
  "list_session_build_refs gh owner repo session_id =
     (let sid = sanitize_session_id session_id
      in bind_call (github_request gh (MatchingRefs owner repo (''heads/build/'' @ sid))) (\<lambda>(st, body).
           if st = 404 then return_call []
           else case (st \<ge> 400, body) of
             (False, PList items) \<Rightarrow> return_call (List.map_filter (ref_row sid) items)
           | _ \<Rightarrow> fail_call (PushError True (''GitHub API down: matching-refs HTTP '' @ show_int st))))"

definition build_refs_of_record ::
  "github \<Rightarrow> string \<Rightarrow> string \<Rightarrow> string option \<Rightarrow> string \<Rightarrow> (string \<times> string) list gh_call" where
  "build_refs_of_record gh owner repo pid session_id =
     (let legacy = (if session_id = [] then return_call [] else list_session_build_refs gh owner repo session_id)
      in case pid of
           None \<Rightarrow> legacy
         | Some p \<Rightarrow>
            (if \<not> is_platform_id p then legacy
             else bind_call (github_request gh (RefOf owner repo (branch_of_record p))) (\<lambda>(st, body).
               (let s = py_strip (text_of (get0 (dict_of (get0 (dict_of body) ''object'')) ''sha''))
                in if st < 400 \<and> is_mapping body then
                     (if s \<noteq> [] then return_call [(branch_of_record p, s)] else legacy)
                   else if st \<noteq> 404 then
                     fail_call (PushError True (''GitHub API down: ref '' @ branch_of_record p @ '' HTTP '' @ show_int st))
                   else legacy))))"

end
