(* ===== verification/PlatformRefs.thy ===== *)
theory PlatformRefs
  imports BuildsPush
begin

text \<open>
  The branch of record of a platform (\<open>factory/build/platform_identity.py\<close>,
  \<open>factory/build/platform_branch.py\<close>): create, tag, archive, restore, release
  and push.  The remote's heads and tags are the state; every git command reads or
  changes it, and between two commands others may have changed it.  The log of
  deleted heads is the remote's own.  Arguments of the model: what others do,
  which commands fail, which shas are descendants, the sha of a new commit.
\<close>

section \<open>Names\<close>

datatype ref_exn = NotPlatform string | NotVersion string | BranchError string | OutOfFuel | PushRefused push_exn

definition require_platform :: "string \<Rightarrow> ref_exn + string" where
  "require_platform pid = (if is_platform_id pid then Inr pid else Inl (NotPlatform pid))"

definition platform_branch :: "string \<Rightarrow> ref_exn + string" where
  "platform_branch pid = map_result branch_of_record (require_platform pid)"

definition archive_tag :: "string \<Rightarrow> string \<Rightarrow> ref_exn + string" where
  "archive_tag pid day = map_result (\<lambda>p. ''archive/'' @ p @ ''/'' @ day) (require_platform pid)"

definition archive_tag_prefix :: "string \<Rightarrow> ref_exn + string" where
  "archive_tag_prefix pid = map_result (\<lambda>p. ''archive/'' @ p @ ''/'') (require_platform pid)"

definition release_prefix :: "string \<Rightarrow> string" where
  "release_prefix pid = ''release/'' @ pid @ ''/''"

definition release_tag :: "string \<Rightarrow> string \<Rightarrow> ref_exn + string" where
  "release_tag pid version =
     (let ver = py_strip version
      in if ver = [] \<or> \<not> list_all session_safe ver then Inl (NotVersion version)
         else map_result (\<lambda>p. release_prefix p @ ver) (require_platform pid))"

text \<open>The platform id a ledger records, newest first.\<close>

definition recorded_platform_id :: "ledger_file \<Rightarrow> string option" where
  "recorded_platform_id f = (case events f of
       Inl e \<Rightarrow> None
     | Inr evs \<Rightarrow>
        (case find (\<lambda>p. case p of PStr s \<Rightarrow> is_platform_id s | _ \<Rightarrow> False)
                (map (\<lambda>e. get0 (payload e) platform_id_key) (rev evs)) of
           Some (PStr s) \<Rightarrow> Some s | _ \<Rightarrow> None))"

section \<open>The remote\<close>

text \<open>A tag is lightweight, or annotated: its own object and the commit it peels to.\<close>

datatype tag_obj = Light string | Annotated string string

fun peeled :: "tag_obj \<Rightarrow> string" where
  "peeled (Light s) = s"
| "peeled (Annotated obj commit) = commit"

record remote =
  rm_heads :: "(string, string) dict"
  rm_tags :: "(string, tag_obj) dict"
  rm_deleted :: "(string \<times> string) list"
  rm_tree :: "string \<Rightarrow> file_tree"

record ref_world =
  rw_others :: "nat \<Rightarrow> remote \<Rightarrow> remote"
  rw_fails :: "nat \<Rightarrow> bool"
  rw_late :: "nat \<Rightarrow> bool"
  rw_ff :: "string \<Rightarrow> string \<Rightarrow> bool"
  rw_new :: "nat \<Rightarrow> string"

type_synonym 'a ref_op = "nat \<times> remote \<Rightarrow> (ref_exn + 'a) \<times> (nat \<times> remote)"

text \<open>One git command: others act first, then it takes effect or fails.  A command that fails may have
  taken effect all the same, as a push whose answer timed out.\<close>

definition git_command :: "ref_world \<Rightarrow> string \<Rightarrow> (remote \<Rightarrow> (ref_exn + 'a) \<times> remote) \<Rightarrow> 'a ref_op" where
  "git_command w what act = (\<lambda>(n, r).
     let r1 = rw_others w n r
     in if rw_fails w n then (Inl (BranchError (what @ '' failed'')), (Suc n, if rw_late w n then snd (act r1) else r1))
        else (case act r1 of (res, r2) \<Rightarrow> (res, (Suc n, r2))))"

definition bind_ref :: "'a ref_op \<Rightarrow> ('a \<Rightarrow> 'b ref_op) \<Rightarrow> 'b ref_op" where
  "bind_ref m f s = (case m s of (Inl e, t) \<Rightarrow> (Inl e, t) | (Inr a, t) \<Rightarrow> f a t)"

definition give :: "'a \<Rightarrow> 'a ref_op" where "give a s = (Inr a, s)"
definition stop_with :: "ref_exn \<Rightarrow> 'a ref_op" where "stop_with e s = (Inl e, s)"

definition lift_name :: "ref_exn + 'a \<Rightarrow> 'a ref_op" where
  "lift_name r s = (r, s)"

text \<open>\<open>ls-remote\<close> of a head, of a tag and of every tag below a prefix.\<close>

definition head_in :: "remote \<Rightarrow> string \<Rightarrow> string option" where
  "head_in r b = dget (rm_heads r) b"

definition tag_in :: "remote \<Rightarrow> string \<Rightarrow> string option" where
  "tag_in r t = map_option peeled (dget (rm_tags r) t)"

definition ls_remote :: "ref_world \<Rightarrow> (remote \<Rightarrow> 'a) \<Rightarrow> 'a ref_op" where
  "ls_remote w rd = git_command w ''ls-remote'' (\<lambda>r. (Inr (rd r), r))"

definition branch_head :: "ref_world \<Rightarrow> string \<Rightarrow> string option ref_op" where
  "branch_head w pid = bind_ref (lift_name (platform_branch pid)) (\<lambda>b. ls_remote w (\<lambda>r. head_in r b))"

definition tag_sha :: "ref_world \<Rightarrow> string \<Rightarrow> string option ref_op" where
  "tag_sha w t = ls_remote w (\<lambda>r. tag_in r t)"

text \<open>A push of a sha to a tag: an existing tag is not moved; to a head: it is created or fast-forwarded.\<close>

definition push_tag_act :: "string \<Rightarrow> string \<Rightarrow> remote \<Rightarrow> (ref_exn + unit) \<times> remote" where
  "push_tag_act s t r = (case dget (rm_tags r) t of
       None \<Rightarrow> (Inr (), r\<lparr>rm_tags := insort_key fst (t, Light s) (rm_tags r)\<rparr>)
     | Some obj \<Rightarrow> (if obj = Light s then (Inr (), r) else (Inl (BranchError (''push refs/tags/'' @ t @ '' failed'')), r)))"

definition push_head_act :: "ref_world \<Rightarrow> string \<Rightarrow> string \<Rightarrow> remote \<Rightarrow> (ref_exn + unit) \<times> remote" where
  "push_head_act w s b r = (case head_in r b of
       None \<Rightarrow> (Inr (), r\<lparr>rm_heads := dset b s (rm_heads r)\<rparr>)
     | Some old \<Rightarrow> (if old = s \<or> rw_ff w old s then (Inr (), r\<lparr>rm_heads := dset b s (rm_heads r)\<rparr>)
                   else (Inl (BranchError (''push refs/heads/'' @ b @ '' failed'')), r)))"

text \<open>\<open>_push_ref\<close>: the object is fetched first.\<close>

definition push_ref :: "ref_world \<Rightarrow> (remote \<Rightarrow> (ref_exn + unit) \<times> remote) \<Rightarrow> unit ref_op" where
  "push_ref w act = bind_ref (ls_remote w (\<lambda>r. ())) (\<lambda>_. git_command w ''push'' act)"

definition create_tag :: "ref_world \<Rightarrow> string \<Rightarrow> string \<Rightarrow> string ref_op" where
  "create_tag w s t =
     bind_ref (tag_sha w t) (\<lambda>existing. case existing of
         Some e \<Rightarrow> (if e \<noteq> s then stop_with (BranchError (''tag '' @ t @ '' already exists at '' @ take 12 e @ '', not '' @ take 12 s))
                   else give t)
       | None \<Rightarrow> bind_ref (push_ref w (push_tag_act s t)) (\<lambda>_.
           bind_ref (tag_sha w t) (\<lambda>landed.
             if landed \<noteq> Some s then stop_with (BranchError (''tag '' @ t @ '' did not land at '' @ take 12 s)) else give t)))"

definition numbered_tag :: "string \<Rightarrow> nat \<Rightarrow> string" where
  "numbered_tag base n = (if n = 1 then base else base @ ''.'' @ show_nat n)"

text \<open>The loop that looks for a free tag of the day, from number \<open>n\<close>, at most \<open>fuel\<close> questions.\<close>

fun free_tag :: "ref_world \<Rightarrow> string \<Rightarrow> string \<Rightarrow> nat \<Rightarrow> nat \<Rightarrow> string ref_op" where
  "free_tag w base s 0 n = stop_with OutOfFuel"
| "free_tag w base s (Suc fuel) n =
     bind_ref (tag_sha w (numbered_tag base n)) (\<lambda>existing.
       if existing = None \<or> existing = Some s then give (numbered_tag base n) else free_tag w base s fuel (Suc n))"

definition unique_archive_tag :: "ref_world \<Rightarrow> nat \<Rightarrow> string \<Rightarrow> string \<Rightarrow> string \<Rightarrow> string ref_op" where
  "unique_archive_tag w fuel pid day s = bind_ref (lift_name (archive_tag pid day)) (\<lambda>base. free_tag w base s fuel 1)"

record archived =
  ad_platform :: string
  ad_branch :: string
  ad_tag :: string
  ad_sha :: string
  ad_deleted :: bool

definition tag_head_for_archive :: "ref_world \<Rightarrow> nat \<Rightarrow> string \<Rightarrow> string \<Rightarrow> archived option ref_op" where
  "tag_head_for_archive w fuel pid day =
     bind_ref (lift_name (platform_branch pid)) (\<lambda>branch.
     bind_ref (branch_head w pid) (\<lambda>head. case head of
         None \<Rightarrow> give None
       | Some s \<Rightarrow>
           bind_ref (unique_archive_tag w fuel pid day s) (\<lambda>candidate.
           bind_ref (create_tag w s candidate) (\<lambda>t.
             give (Some \<lparr>ad_platform = pid, ad_branch = branch, ad_tag = t, ad_sha = s, ad_deleted = False\<rparr>)))))"

text \<open>The delete carries a lease: it takes effect only while the head is still the archived one.\<close>

definition delete_act :: "string \<Rightarrow> string \<Rightarrow> remote \<Rightarrow> (ref_exn + unit) \<times> remote" where
  "delete_act b s r = (if head_in r b = Some s
     then (Inr (), r\<lparr>rm_heads := dpop b (rm_heads r), rm_deleted := rm_deleted r @ [(b, s)]\<rparr>)
     else (Inl (BranchError (''delete '' @ b @ '' failed'')), r))"

definition archive_branch :: "ref_world \<Rightarrow> nat \<Rightarrow> string \<Rightarrow> string \<Rightarrow> archived option ref_op" where
  "archive_branch w fuel pid day =
     bind_ref (tag_head_for_archive w fuel pid day) (\<lambda>kept. case kept of
         None \<Rightarrow> give None
       | Some k \<Rightarrow>
           bind_ref (tag_sha w (ad_tag k)) (\<lambda>held.
             if held \<noteq> Some (ad_sha k) then
               stop_with (BranchError (''refusing to delete '' @ ad_branch k @ '': tag '' @ ad_tag k @ '' does not hold its head''))
             else bind_ref (git_command w ''delete'' (delete_act (ad_branch k) (ad_sha k))) (\<lambda>_.
               give (Some (k\<lparr>ad_deleted := True\<rparr>)))))"

section \<open>Restoring and releasing\<close>

text \<open>The rows of \<open>ls-remote refs/tags/<prefix>*\<close>: the tag, and its peeled commit when annotated.\<close>

fun tag_rows :: "string \<times> tag_obj \<Rightarrow> (string \<times> string) list" where
  "tag_rows (t, Light s) = [(s, t)]"
| "tag_rows (t, Annotated obj commit) = [(obj, t), (commit, t @ ''^{}'')]"

definition ls_tags :: "string \<Rightarrow> remote \<Rightarrow> (string \<times> string) list" where
  "ls_tags prefix r = concat (map tag_rows (filter (\<lambda>e. starts_with (fst e) prefix) (rm_tags r)))"

definition peel_mark :: string where "peel_mark = ''^{}''"

fun collect_row :: "(string, string) dict \<Rightarrow> string \<times> string \<Rightarrow> (string, string) dict" where
  "collect_row rows (s, t) =
     (if ends_with t peel_mark then dset (take (length t - 3) t) s rows
      else if dget rows t = None then dset t s rows else rows)"

definition after_last :: "char \<Rightarrow> string \<Rightarrow> string" where
  "after_last c s = rev (takeWhile (\<lambda>x. x \<noteq> c) (rev s))"

definition all_digits :: "string \<Rightarrow> bool" where
  "all_digits s = (s \<noteq> [] \<and> list_all is_digit s)"

definition tag_order :: "string \<Rightarrow> string \<times> nat" where
  "tag_order t = (let last' = after_last (CHR ''/'') t; n = after_char (CHR ''.'') last'
     in (before_char (CHR ''.'') last', if all_digits n then read_nat n else 1))"

definition order_less :: "string \<times> nat \<Rightarrow> string \<times> nat \<Rightarrow> bool" where
  "order_less a b = (fst a < fst b \<or> (fst a = fst b \<and> snd a < snd b))"

text \<open>\<open>max(rows, key=order)\<close>: the first of the greatest.\<close>

fun newest_of :: "string \<times> string \<Rightarrow> (string \<times> string) list \<Rightarrow> string \<times> string" where
  "newest_of best [] = best"
| "newest_of best (row # rows) =
     newest_of (if order_less (tag_order (fst best)) (tag_order (fst row)) then row else best) rows"

definition newest_archive :: "string \<Rightarrow> remote \<Rightarrow> (string \<times> string) option" where
  "newest_archive prefix r = (case foldl collect_row [] (ls_tags prefix r) of
       [] \<Rightarrow> None
     | row # rows \<Rightarrow> Some (newest_of row rows))"

definition latest_archive_tag :: "ref_world \<Rightarrow> string \<Rightarrow> (string \<times> string) option ref_op" where
  "latest_archive_tag w pid =
     bind_ref (lift_name (archive_tag_prefix pid)) (\<lambda>prefix. ls_remote w (newest_archive prefix))"

definition restore_branch :: "ref_world \<Rightarrow> string \<Rightarrow> string option ref_op" where
  "restore_branch w pid =
     bind_ref (lift_name (platform_branch pid)) (\<lambda>branch.
     bind_ref (branch_head w pid) (\<lambda>head. if head \<noteq> None then give None
       else bind_ref (latest_archive_tag w pid) (\<lambda>newest. case newest of
           None \<Rightarrow> give None
         | Some (t, s) \<Rightarrow>
             bind_ref (push_ref w (push_head_act w s branch)) (\<lambda>_.
             bind_ref (branch_head w pid) (\<lambda>landed.
               if landed \<noteq> Some s then stop_with (BranchError (''restore of '' @ branch @ '' did not land at '' @ take 12 s))
               else give (Some s))))))"

definition tag_release :: "ref_world \<Rightarrow> string \<Rightarrow> string \<Rightarrow> (string \<times> string) option ref_op" where
  "tag_release w pid version =
     bind_ref (branch_head w pid) (\<lambda>head. case head of
         None \<Rightarrow> give None
       | Some s \<Rightarrow> bind_ref (lift_name (release_tag pid version)) (\<lambda>t.
           bind_ref (create_tag w s t) (\<lambda>t'. give (Some (t', s)))))"

text \<open>The rows of the platform's release tags: a tag that holds the head, and the numbers in use.\<close>

definition release_tail :: "string \<Rightarrow> string \<Rightarrow> string" where
  "release_tail prefix name = (let tail = drop (length prefix) name
     in if ends_with tail peel_mark then take (length tail - 3) tail else tail)"

fun scan_releases :: "string \<Rightarrow> string \<Rightarrow> (string \<times> string) list \<Rightarrow> nat list \<Rightarrow> string + nat list" where
  "scan_releases prefix head [] ns = Inr ns"
| "scan_releases prefix head ((s, name) # rows) ns =
     (let tail = release_tail prefix name
      in if s = head then Inl tail
         else scan_releases prefix head rows (if all_digits tail then ns @ [read_nat tail] else ns))"

definition release_certified :: "ref_world \<Rightarrow> string \<Rightarrow> (string \<times> string) option ref_op" where
  "release_certified w pid =
     bind_ref (branch_head w pid) (\<lambda>head. case head of
         None \<Rightarrow> give None
       | Some s \<Rightarrow>
          (let prefix = release_prefix pid
           in bind_ref (ls_remote w (ls_tags prefix)) (\<lambda>rows. case scan_releases prefix s rows [] of
                Inl tail \<Rightarrow> bind_ref (lift_name (release_tag pid tail)) (\<lambda>t. give (Some (t, s)))
              | Inr ns \<Rightarrow> tag_release w pid (show_nat (foldr max ns 0 + 1)))))"

section \<open>Pushing a phase to the branch of record\<close>

text \<open>A new commit on a clone: its tree, then a push that must fast-forward the head it was cloned at.\<close>

definition commit_act :: "string option \<Rightarrow> string \<Rightarrow> string \<Rightarrow> file_tree \<Rightarrow> remote \<Rightarrow> (ref_exn + unit) \<times> remote" where
  "commit_act cloned new b t r =
     (if head_in r b \<noteq> None \<and> head_in r b \<noteq> cloned then (Inl (BranchError (''push '' @ b @ '' failed'')), r)
      else (Inr (), r\<lparr>rm_heads := dset b new (rm_heads r), rm_tree := (rm_tree r)(new := t)\<rparr>))"

definition main_tree :: "remote \<Rightarrow> file_tree" where
  "main_tree r = (case head_in r ''main'' of None \<Rightarrow> (\<lambda>p. None) | Some s \<Rightarrow> rm_tree r s)"

definition tree_has :: "file_path list \<Rightarrow> file_tree \<Rightarrow> file_path \<Rightarrow> bool" where
  "tree_has known t g = list_ex (\<lambda>p. under g p \<and> t p \<noteq> None) known"

text \<open>\<open>push_workspace\<close>: cut from main; \<open>checkpoint\<close>: over the branch, with main's gate when main can be
  fetched.  \<open>known\<close> lists the paths main holds.\<close>

definition push_new_branch :: "ref_world \<Rightarrow> (file_path \<times> string) list \<Rightarrow> string \<Rightarrow> unit ref_op" where
  "push_new_branch w src b =
     bind_ref (ls_remote w main_tree) (\<lambda>m. (\<lambda>(n, r).
       git_command w ''push'' (commit_act None (rw_new w n) b (pushed_tree src m)) (n, r)))"

definition fetched_main :: "ref_world \<Rightarrow> file_path list \<Rightarrow> ((file_path \<Rightarrow> bool) \<times> file_tree) option ref_op" where
  "fetched_main w known s = (case ls_remote w main_tree s of
       (Inl e, t) \<Rightarrow> (Inr None, t)
     | (Inr m, t) \<Rightarrow> (Inr (Some (tree_has known m, m)), t))"

definition checkpoint :: "ref_world \<Rightarrow> file_path list \<Rightarrow> (file_path \<times> string) list \<Rightarrow> string \<Rightarrow> string ref_op" where
  "checkpoint w known src b =
     bind_ref (ls_remote w (\<lambda>r. map_option (\<lambda>s. (s, rm_tree r s)) (head_in r b))) (\<lambda>cloned. case cloned of
         None \<Rightarrow> stop_with (BranchError (''checkpoint clone failed''))
       | Some (old, t) \<Rightarrow> bind_ref (fetched_main w known) (\<lambda>m. (\<lambda>(n, r).
           bind_ref (git_command w ''push'' (commit_act (Some old) (rw_new w n) b (checkpoint_tree src m t)))
             (\<lambda>_. give (rw_new w n)) (n, r))))"

definition push_to_branch_of_record ::
  "ref_world \<Rightarrow> file_path list \<Rightarrow> (file_path \<times> string) list \<Rightarrow> string \<Rightarrow> string ref_op" where
  "push_to_branch_of_record w known src pid =
     bind_ref (lift_name (platform_branch pid)) (\<lambda>branch.
     bind_ref (branch_head w pid) (\<lambda>head. case head of
         Some s \<Rightarrow> checkpoint w known src branch
       | None \<Rightarrow> bind_ref (restore_branch w pid) (\<lambda>restored. case restored of
           Some s \<Rightarrow> checkpoint w known src branch
         | None \<Rightarrow> bind_ref (push_new_branch w src branch) (\<lambda>_.
             bind_ref (branch_head w pid) (\<lambda>now. give (case now of None \<Rightarrow> [] | Some s \<Rightarrow> s))))))"

end
