(* ===== verification/PushFacts.thy ===== *)
theory PushFacts
  imports PlatformRefs
begin

text \<open>
  What a push ships, what the retried push does, and what happens to the heads of
  a platform: every deleted head is kept by a tag, whatever others do in between.
\<close>

section \<open>The tree of a push\<close>

lemma gate_owned_github: "is_gate_owned p \<Longrightarrow> p \<noteq> [] \<and> hd p = ''.github''"
  by (cases p) (auto simp: is_gate_owned_def store_gate_paths_def gate_workflow_def gate_helpers_def)

lemma has_top_map_of: "map_of src p = Some c \<Longrightarrow> p \<noteq> [] \<Longrightarrow> has_top src (hd p)"
  by (auto simp: has_top_def list_ex_iff dest!: map_of_SomeD)

lemma copied_top: "copied p \<Longrightarrow> p \<noteq> [] \<Longrightarrow> is_exported [hd p]"
proof -
  assume c: "copied p" "p \<noteq> []"
  then have "1 \<in> set [1..<Suc (length p)]" by (cases "length p") auto
  then have "is_exported (take 1 p)" using c(1) unfolding copied_def list_all_iff by blast
  then show ?thesis using c(2) by (cases p) auto
qed

text \<open> A new build branch is the workspace plus main's Store gate: every gate path is main's,
  whatever the workspace holds there; below neither .github nor .git, a path is on the branch exactly
  when the workspace has it and no directory on the way to it is left out; and below .github a path
  the workspace lacks is main's.\<close>

theorem branch_is_workspace_plus_gate:
  "(is_gate_owned p \<longrightarrow> pushed_tree src main p = main p) \<and>
   (p \<noteq> [] \<and> hd p \<notin> {''.git'', ''.github''} \<longrightarrow>
      pushed_tree src main p = (if copied p then map_of src p else None)) \<and>
   (p \<noteq> [] \<and> hd p = ''.github'' \<and> map_of src p = None \<longrightarrow> pushed_tree src main p = main p)"
proof (intro conjI impI)
  assume "is_gate_owned p"
  then show "pushed_tree src main p = main p"
    using gate_owned_github [of p]
    by (auto simp: pushed_tree_def sync_workspace_onto_tree_def drop_inherited_product_def inherited_from_main_def)
next
  assume p: "p \<noteq> [] \<and> hd p \<notin> {''.git'', ''.github''}"
  then show "pushed_tree src main p = (if copied p then map_of src p else None)"
    using has_top_map_of [of src p] copied_top [of p]
    by (cases "map_of src p")
       (auto simp: pushed_tree_def sync_workspace_onto_tree_def drop_inherited_product_def inherited_from_main_def)
next
  assume "p \<noteq> [] \<and> hd p = ''.github'' \<and> map_of src p = None"
  then show "pushed_tree src main p = main p"
    by (auto simp: pushed_tree_def sync_workspace_onto_tree_def drop_inherited_product_def inherited_from_main_def
        split: option.splits)
qed

theorem branch_is_workspace_plus_gate_witness:
  "(let src = [([''app'', ''main.py''], ''new''), ([''build_ledger.jsonl''], ''log''), (gate_workflow, ''own'')];
        main = [gate_workflow \<mapsto> ''mains'', [''app'', ''old.py''] \<mapsto> ''stale'']
    in pushed_tree src main gate_workflow = Some ''mains'' \<and>
       pushed_tree src main [''app'', ''main.py''] = Some ''new'' \<and>
       pushed_tree src main [''app'', ''old.py''] = None \<and>
       pushed_tree src main [''build_ledger.jsonl''] = None)"
proof -
  let ?src = "[([''app'', ''main.py''], ''new''), ([''build_ledger.jsonl''], ''log''), (gate_workflow, ''own'')]"
  let ?main = "[gate_workflow \<mapsto> ''mains'', [''app'', ''old.py''] \<mapsto> ''stale'']"
  note t = branch_is_workspace_plus_gate [of _ ?src ?main]
  have "is_gate_owned gate_workflow" by (simp add: is_gate_owned_def store_gate_paths_def)
  then have "pushed_tree ?src ?main gate_workflow = ?main gate_workflow" using t [of gate_workflow] by blast
  moreover have "copied [''app'', ''main.py'']" "copied [''app'', ''old.py'']" "\<not> copied [''build_ledger.jsonl'']"
    by code_simp+
  ultimately show ?thesis
    using t [of "[''app'', ''main.py'']"] t [of "[''app'', ''old.py'']"] t [of "[''build_ledger.jsonl'']"]
    by (simp add: Let_def gate_workflow_def)
qed

section \<open>The retried push\<close>

lemma push_loop_result:
  "fst (push_loop scrub git a b left k outs slept) =
     (case find (\<lambda>i. ga_code (git i) = 0) [k..<k + left] of
        Some i \<Rightarrow> Inr i
      | None \<Rightarrow> Inl (outs @ map (\<lambda>i. ''attempt '' @ show_nat i @ '': '' @ py_strip (scrub (ga_err (git i) @ ga_out (git i))))
                      [k..<k + left]))"
proof (induction left arbitrary: k outs slept)
  case (Suc left)
  have e: "[k..<k + Suc left] = k # [Suc k..<Suc k + left]" by (simp add: upt_rec)
  show ?case unfolding e by (auto simp: Let_def Suc.IH split: option.splits)
qed simp

section \<open>Sequences of git commands\<close>

text \<open>Tags are never moved or deleted, and every head the remote deleted is at some tag.\<close>

definition tags_grow :: "remote \<Rightarrow> remote \<Rightarrow> bool" where
  "tags_grow r r' = (\<forall>t s. tag_in r t = Some s \<longrightarrow> tag_in r' t = Some s)"

definition heads_kept :: "remote \<Rightarrow> bool" where
  "heads_kept r = (\<forall>(b, s) \<in> set (rm_deleted r). \<exists>t. tag_in r t = Some s)"

text \<open>Others may do anything that respects the same two rules.\<close>

definition honest :: "ref_world \<Rightarrow> bool" where
  "honest w = (\<forall>n r. tags_grow r (rw_others w n r) \<and> (heads_kept r \<longrightarrow> heads_kept (rw_others w n r)))"

lemma tags_grow_refl [simp]: "tags_grow r r"
  by (simp add: tags_grow_def)

lemma tags_grow_trans: "tags_grow r s \<Longrightarrow> tags_grow s u \<Longrightarrow> tags_grow r u"
  by (simp add: tags_grow_def)

text \<open>An operation respects the rules from \<open>r\<close> on and ends with an answer of which \<open>Q\<close> holds.\<close>

definition obeys :: "remote \<Rightarrow> 'a ref_op \<Rightarrow> ('a \<Rightarrow> remote \<Rightarrow> bool) \<Rightarrow> bool" where
  "obeys r m Q = (\<forall>n. case m (n, r) of (res, (k, r')) \<Rightarrow>
     tags_grow r r' \<and> (heads_kept r \<longrightarrow> heads_kept r') \<and> (case res of Inl e \<Rightarrow> True | Inr a \<Rightarrow> Q a r'))"

lemma obeys_bind:
  assumes "obeys r m Q" "\<And>a r'. tags_grow r r' \<Longrightarrow> Q a r' \<Longrightarrow> obeys r' (f a) R"
  shows "obeys r (bind_ref m f) R"
  unfolding obeys_def
proof (intro allI)
  fix n
  obtain res k r' where m: "m (n, r) = (res, (k, r'))" by (metis prod.collapse)
  then have r': "tags_grow r r'" "heads_kept r \<longrightarrow> heads_kept r'" "case res of Inl e \<Rightarrow> True | Inr a \<Rightarrow> Q a r'"
    using assms(1) by (auto simp: obeys_def split: prod.splits dest!: spec [of _ n])
  show "case bind_ref m f (n, r) of (res, (k, r')) \<Rightarrow>
      tags_grow r r' \<and> (heads_kept r \<longrightarrow> heads_kept r') \<and> (case res of Inl e \<Rightarrow> True | Inr a \<Rightarrow> R a r')"
  proof (cases res)
    case (Inl e)
    then show ?thesis using m r' by (simp add: bind_ref_def)
  next
    case (Inr a)
    then have "obeys r' (f a) R" using assms(2) r' by simp
    then show ?thesis using m Inr r'(1,2) tags_grow_trans
      by (fastforce simp: bind_ref_def obeys_def split: prod.splits sum.splits dest!: spec [of _ k])
  qed
qed

lemma obeys_give [simp]: "obeys r (give a) Q \<longleftrightarrow> Q a r"
  by (auto simp: obeys_def give_def)

lemma obeys_stop [simp]: "obeys r (stop_with e) Q"
  by (auto simp: obeys_def stop_with_def)

lemma obeys_name: "obeys r (lift_name x) (\<lambda>a r'. x = Inr a)"
  by (auto simp: obeys_def lift_name_def split: sum.splits)

lemma obeys_command:
  assumes "honest w"
    and "\<And>r1. tags_grow r r1 \<Longrightarrow> (case act r1 of (res, r2) \<Rightarrow> tags_grow r1 r2 \<and> (heads_kept r1 \<longrightarrow> heads_kept r2) \<and>
           (case res of Inl e \<Rightarrow> True | Inr a \<Rightarrow> Q a r2))"
  shows "obeys r (git_command w what act) Q"
  unfolding obeys_def
proof (intro allI)
  fix n
  have o: "tags_grow r (rw_others w n r)" "heads_kept r \<longrightarrow> heads_kept (rw_others w n r)"
    using assms(1) by (auto simp: honest_def)
  show "case git_command w what act (n, r) of (res, (k, r')) \<Rightarrow>
      tags_grow r r' \<and> (heads_kept r \<longrightarrow> heads_kept r') \<and> (case res of Inl e \<Rightarrow> True | Inr a \<Rightarrow> Q a r')"
    using o assms(2) [OF o(1)] tags_grow_trans
    by (auto simp: git_command_def Let_def split: prod.splits)
qed

lemma obeys_read: "honest w \<Longrightarrow> obeys r (ls_remote w rd) (\<lambda>a r'. a = rd r')"
  unfolding ls_remote_def by (rule obeys_command) auto

lemma obeys_weaken: "obeys r m Q \<Longrightarrow> (\<And>a r'. tags_grow r r' \<Longrightarrow> Q a r' \<Longrightarrow> R a r') \<Longrightarrow> obeys r m R"
  by (fastforce simp: obeys_def split: prod.splits sum.splits)

abbreviation anything :: "'a \<Rightarrow> remote \<Rightarrow> bool" where "anything \<equiv> \<lambda>a r. True"

lemma obeys_any: "obeys r m Q \<Longrightarrow> obeys r m anything"
  by (erule obeys_weaken) simp

lemma obeys_bind_any:
  "obeys r m Q \<Longrightarrow> (\<And>a r'. obeys r' (f a) R) \<Longrightarrow> obeys r (bind_ref m f) R"
  by (erule obeys_bind) simp

lemma grown_kept: "tags_grow r r' \<Longrightarrow> rm_deleted r' = rm_deleted r \<Longrightarrow> heads_kept r \<longrightarrow> heads_kept r'"
  by (fastforce simp: tags_grow_def heads_kept_def)

lemma same_tags: "rm_tags r' = rm_tags r \<Longrightarrow> tags_grow r r'"
  by (simp add: tags_grow_def tag_in_def)

lemma dget_insort: "t \<notin> set (dkeys d) \<Longrightarrow> dget (insort_key fst (t, v) d) = (dget d)(t \<mapsto> v)"
  by (induction d) (auto simp: fun_eq_iff)

lemma tag_added:
  assumes "dget (rm_tags r) t = None"
  shows "tag_in (r\<lparr>rm_tags := insort_key fst (t, Light s) (rm_tags r)\<rparr>) = (tag_in r)(t \<mapsto> s)"
  using assms dget_insort [of t "rm_tags r" "Light s"]
  by (auto simp: tag_in_def fun_eq_iff map_of_eq_None_iff)

lemma push_tag_obeys: "honest w \<Longrightarrow> obeys r (git_command w what (push_tag_act s t)) anything"
proof (rule obeys_command, assumption)
  fix r1 :: remote
  show "case push_tag_act s t r1 of (res, r2) \<Rightarrow> tags_grow r1 r2 \<and> (heads_kept r1 \<longrightarrow> heads_kept r2) \<and>
      (case res of Inl e \<Rightarrow> True | Inr a \<Rightarrow> anything a r2)"
  proof (cases "dget (rm_tags r1) t")
    case None
    let ?r = "r1\<lparr>rm_tags := insort_key fst (t, Light s) (rm_tags r1)\<rparr>"
    have "tag_in r1 t = None" using None by (simp add: tag_in_def)
    then have "tags_grow r1 ?r" by (auto simp: tags_grow_def tag_added [OF None])
    then show ?thesis using None grown_kept [of r1 ?r] by (simp add: push_tag_act_def)
  qed (auto simp: push_tag_act_def)
qed

lemma head_act_obeys:
  assumes "honest w" "\<And>r. rm_tags (snd (act r)) = rm_tags r \<and> rm_deleted (snd (act r)) = rm_deleted r"
  shows "obeys r (git_command w what act) anything"
proof (rule obeys_command [OF assms(1)])
  fix r1 :: remote
  have "tags_grow r1 (snd (act r1))" using same_tags assms(2) by blast
  then show "case act r1 of (res, r2) \<Rightarrow> tags_grow r1 r2 \<and> (heads_kept r1 \<longrightarrow> heads_kept r2) \<and>
      (case res of Inl e \<Rightarrow> True | Inr a \<Rightarrow> anything a r2)"
    using grown_kept assms(2) by (auto split: prod.splits sum.splits) (metis snd_conv)+
qed

lemma push_head_obeys: "honest w \<Longrightarrow> obeys r (git_command w what (push_head_act w' s b)) anything"
  by (erule head_act_obeys) (auto simp: push_head_act_def split: option.splits)

lemma commit_obeys: "honest w \<Longrightarrow> obeys r (git_command w what (commit_act c new b t)) anything"
  by (erule head_act_obeys) (auto simp: commit_act_def)

lemmas read_any = obeys_read [THEN obeys_any]
lemmas name_any = obeys_name [THEN obeys_any]

lemma branch_head_obeys: "honest w \<Longrightarrow> obeys r (branch_head w pid) anything"
  unfolding branch_head_def by (rule obeys_bind_any [OF name_any]) (rule read_any)

lemma tag_sha_obeys: "honest w \<Longrightarrow> obeys r (tag_sha w t) (\<lambda>a r'. a = tag_in r' t)"
  unfolding tag_sha_def by (rule obeys_read)

lemma push_ref_obeys:
  "honest w \<Longrightarrow> (\<And>r. obeys r (git_command w ''push'' act) anything) \<Longrightarrow> obeys r (push_ref w act) anything"
  unfolding push_ref_def by (rule obeys_bind_any [OF read_any])

text \<open>After \<open>create_tag\<close> the tag holds the sha.\<close>

lemma create_tag_obeys:
  assumes "honest w"
  shows "obeys r (create_tag w s t) (\<lambda>a r'. a = t \<and> tag_in r' t = Some s)"
  unfolding create_tag_def
proof (rule obeys_bind [OF tag_sha_obeys [OF assms]])
  fix a r'
  assume a: "a = tag_in r' t"
  show "obeys r' (case a of
        Some e \<Rightarrow> (if e \<noteq> s then stop_with (BranchError (''tag '' @ t @ '' already exists at '' @ take 12 e @ '', not '' @ take 12 s))
                   else give t)
       | None \<Rightarrow> bind_ref (push_ref w (push_tag_act s t)) (\<lambda>_.
           bind_ref (tag_sha w t) (\<lambda>landed.
             if landed \<noteq> Some s then stop_with (BranchError (''tag '' @ t @ '' did not land at '' @ take 12 s)) else give t)))
     (\<lambda>a r'. a = t \<and> tag_in r' t = Some s)"
  proof (cases a)
    case None
    have "obeys r'' (bind_ref (tag_sha w t) (\<lambda>landed.
        if landed \<noteq> Some s then stop_with (BranchError (''tag '' @ t @ '' did not land at '' @ take 12 s)) else give t))
        (\<lambda>a r'. a = t \<and> tag_in r' t = Some s)" for r''
      by (rule obeys_bind [OF tag_sha_obeys [OF assms]]) auto
    then show ?thesis unfolding None option.case
      by (rule obeys_bind_any [OF push_ref_obeys [OF assms push_tag_obeys [OF assms]]])
  qed (use a in auto)
qed

lemma free_tag_obeys: "honest w \<Longrightarrow> obeys r (free_tag w base s fuel n) anything"
proof (induction fuel arbitrary: r n)
  case (Suc fuel)
  show ?case unfolding free_tag.simps
    by (rule obeys_bind_any [OF obeys_any [OF tag_sha_obeys [OF Suc.prems]]]) (auto simp: Suc)
qed simp

lemma unique_tag_obeys: "honest w \<Longrightarrow> obeys r (unique_archive_tag w fuel pid day s) anything"
  unfolding unique_archive_tag_def by (rule obeys_bind_any [OF name_any]) (rule free_tag_obeys)

definition kept_at :: "archived option \<Rightarrow> remote \<Rightarrow> bool" where
  "kept_at a r = (case a of None \<Rightarrow> True | Some k \<Rightarrow> tag_in r (ad_tag k) = Some (ad_sha k))"

lemma tag_head_obeys:
  assumes "honest w"
  shows "obeys r (tag_head_for_archive w fuel pid day) kept_at"
  unfolding tag_head_for_archive_def
proof (rule obeys_bind_any [OF name_any], rule obeys_bind_any [OF branch_head_obeys [OF assms]])
  fix branch head r'
  have "obeys r'' (bind_ref (create_tag w s c) (\<lambda>t. give (Some \<lparr>ad_platform = pid, ad_branch = branch, ad_tag = t,
      ad_sha = s, ad_deleted = False\<rparr>))) kept_at" for s c r''
    by (rule obeys_bind [OF create_tag_obeys [OF assms]]) (simp add: kept_at_def)
  then have "obeys r'' (bind_ref (unique_archive_tag w fuel pid day s) (\<lambda>c. bind_ref (create_tag w s c)
      (\<lambda>t. give (Some \<lparr>ad_platform = pid, ad_branch = branch, ad_tag = t, ad_sha = s, ad_deleted = False\<rparr>)))) kept_at" for s r''
    by (rule obeys_bind_any [OF unique_tag_obeys [OF assms]])
  then show "obeys r' (case head of None \<Rightarrow> give None
       | Some s \<Rightarrow> bind_ref (unique_archive_tag w fuel pid day s) (\<lambda>candidate. bind_ref (create_tag w s candidate)
          (\<lambda>t. give (Some \<lparr>ad_platform = pid, ad_branch = branch, ad_tag = t, ad_sha = s, ad_deleted = False\<rparr>)))) kept_at"
    by (cases head) (auto simp: kept_at_def)
qed

lemma archive_obeys:
  assumes "honest w"
  shows "obeys r (archive_branch w fuel pid day)
     (\<lambda>a r'. \<forall>k. a = Some k \<longrightarrow> ad_deleted k \<and> tag_in r' (ad_tag k) = Some (ad_sha k))"
  unfolding archive_branch_def
proof (rule obeys_bind [OF tag_head_obeys [OF assms]])
  fix kept r1
  assume kept: "kept_at kept r1"
  let ?Q = "\<lambda>a r'. \<forall>k. a = Some k \<longrightarrow> ad_deleted k \<and> tag_in r' (ad_tag k) = Some (ad_sha k)"
  have del: "obeys r2 (bind_ref (git_command w ''delete'' (delete_act (ad_branch k) (ad_sha k)))
      (\<lambda>_. give (Some (k\<lparr>ad_deleted := True\<rparr>)))) ?Q"
    if t: "tag_in r2 (ad_tag k) = Some (ad_sha k)" for k r2
  proof (rule obeys_bind [where Q = "\<lambda>a r'. tag_in r' (ad_tag k) = Some (ad_sha k)"])
    show "obeys r2 (git_command w ''delete'' (delete_act (ad_branch k) (ad_sha k)))
        (\<lambda>a r'. tag_in r' (ad_tag k) = Some (ad_sha k))"
    proof (rule obeys_command [OF assms])
      fix r3
      assume "tags_grow r2 r3"
      then have "tag_in r3 (ad_tag k) = Some (ad_sha k)" using t by (simp add: tags_grow_def)
      then show "case delete_act (ad_branch k) (ad_sha k) r3 of (res, r4) \<Rightarrow>
          tags_grow r3 r4 \<and> (heads_kept r3 \<longrightarrow> heads_kept r4) \<and>
          (case res of Inl e \<Rightarrow> True | Inr a \<Rightarrow> tag_in r4 (ad_tag k) = Some (ad_sha k))"
        by (auto simp: delete_act_def tags_grow_def heads_kept_def tag_in_def)
    qed
  qed simp
  show "obeys r1 (case kept of None \<Rightarrow> give None
       | Some k \<Rightarrow> bind_ref (tag_sha w (ad_tag k)) (\<lambda>held. if held \<noteq> Some (ad_sha k) then
               stop_with (BranchError (''refusing to delete '' @ ad_branch k @ '': tag '' @ ad_tag k @ '' does not hold its head''))
             else bind_ref (git_command w ''delete'' (delete_act (ad_branch k) (ad_sha k))) (\<lambda>_.
               give (Some (k\<lparr>ad_deleted := True\<rparr>))))) ?Q"
  proof (cases kept)
    case (Some k)
    show ?thesis unfolding Some option.case
      by (rule obeys_bind [OF tag_sha_obeys [OF assms]]) (auto intro: del)
  qed simp
qed

lemma newest_obeys: "honest w \<Longrightarrow> obeys r (latest_archive_tag w pid) anything"
  unfolding latest_archive_tag_def by (rule obeys_bind_any [OF name_any]) (rule read_any)

lemma restore_obeys: "honest w \<Longrightarrow> obeys r (restore_branch w pid) anything"
  unfolding restore_branch_def
  by (auto intro!: obeys_bind_any [OF name_any] obeys_bind_any [OF branch_head_obeys] obeys_bind_any [OF newest_obeys]
      obeys_bind_any [OF push_ref_obeys [OF _ push_head_obeys]] split: option.splits)

lemma tag_release_obeys: "honest w \<Longrightarrow> obeys r (tag_release w pid v) anything"
  unfolding tag_release_def
  by (auto intro!: obeys_bind_any [OF name_any] obeys_bind_any [OF branch_head_obeys]
      obeys_bind_any [OF obeys_any [OF create_tag_obeys]] split: option.splits)

lemma release_obeys: "honest w \<Longrightarrow> obeys r (release_certified w pid) anything"
  unfolding release_certified_def Let_def
  by (auto intro!: obeys_bind_any [OF name_any] obeys_bind_any [OF branch_head_obeys] obeys_bind_any [OF read_any]
      tag_release_obeys split: option.splits sum.splits)

lemma obeys_counter: "(\<And>n. obeys r (f n) Q) \<Longrightarrow> obeys r (\<lambda>(n, r). f n (n, r)) Q"
  by (auto simp: obeys_def)

lemma checkpoint_obeys: "honest w \<Longrightarrow> obeys r (checkpoint w known src b) anything"
proof -
  assume w: "honest w"
  have fetched: "obeys r (fetched_main w known) anything" for r
    using obeys_read [OF w, of r main_tree]
    by (auto simp: obeys_def fetched_main_def split: prod.splits sum.splits)
  have push: "obeys r' (\<lambda>(n, r). bind_ref (git_command w ''push'' (commit_act (Some old) (rw_new w n) b t))
      (\<lambda>_. give (rw_new w n)) (n, r)) anything" for r' old t
    by (rule obeys_counter) (auto intro: obeys_bind_any [OF commit_obeys [OF w]])
  show ?thesis unfolding checkpoint_def
    by (rule obeys_bind_any [OF read_any [OF w]])
       (auto intro!: obeys_bind_any [OF fetched] push split: option.splits simp: Let_def)
qed

lemma push_new_obeys: "honest w \<Longrightarrow> obeys r (push_new_branch w src b) anything"
proof -
  assume w: "honest w"
  have "obeys r' (\<lambda>(n, r). git_command w ''push'' (commit_act None (rw_new w n) b t) (n, r)) anything" for r' t
    by (rule obeys_counter) (rule commit_obeys [OF w])
  then show ?thesis unfolding push_new_branch_def by (rule obeys_bind_any [OF read_any [OF w]])
qed

lemma push_record_obeys: "honest w \<Longrightarrow> obeys r (push_to_branch_of_record w known src pid) anything"
  unfolding push_to_branch_of_record_def
  by (auto intro!: obeys_bind_any [OF name_any] obeys_bind_any [OF branch_head_obeys] checkpoint_obeys
      obeys_bind_any [OF restore_obeys] obeys_bind_any [OF push_new_obeys] split: option.splits)

section \<open>Any sequence of operations\<close>

datatype ref_call =
    CallArchive string | CallStartOver string | CallRestore | CallRelease string | CallCertified
  | CallPush "(file_path \<times> string) list"

definition do_call :: "ref_world \<Rightarrow> nat \<Rightarrow> file_path list \<Rightarrow> string \<Rightarrow> nat \<times> remote \<Rightarrow> ref_call \<Rightarrow> nat \<times> remote" where
  "do_call w fuel known pid s c = (case c of
       CallArchive day \<Rightarrow> snd (archive_branch w fuel pid day s)
     | CallStartOver day \<Rightarrow> snd (tag_head_for_archive w fuel pid day s)
     | CallRestore \<Rightarrow> snd (restore_branch w pid s)
     | CallRelease v \<Rightarrow> snd (tag_release w pid v s)
     | CallCertified \<Rightarrow> snd (release_certified w pid s)
     | CallPush src \<Rightarrow> snd (push_to_branch_of_record w known src pid s))"

lemma obeys_end: "obeys r m Q \<Longrightarrow> m (n, r) = (res, (k, r')) \<Longrightarrow> tags_grow r r' \<and> (heads_kept r \<longrightarrow> heads_kept r')"
  by (auto simp: obeys_def dest!: spec [of _ n])

lemma do_call_obeys:
  assumes "honest w"
  shows "tags_grow (snd s) (snd (do_call w fuel known pid s c)) \<and>
     (heads_kept (snd s) \<longrightarrow> heads_kept (snd (do_call w fuel known pid s c)))"
proof -
  obtain n r where s: "s = (n, r)" by fastforce
  note rules = archive_obeys tag_head_obeys restore_obeys tag_release_obeys release_obeys push_record_obeys
  show ?thesis unfolding do_call_def s
    by (cases c) (auto dest: rules [OF assms, THEN obeys_end] simp: prod_eq_iff,
      (metis prod.collapse rules [OF assms, THEN obeys_end])+)
qed

text \<open>Property C6.  A head is never deleted without a tag that keeps it: whatever sequence of archives, Start
  overs, restores, releases and pushes runs, with any failures, and whatever others do to the heads
  in between, every head these operations deleted is at some tag, and no tag is moved or lost, as
  long as the others move and delete no tag either.\<close>

theorem deleted_head_is_tagged:
  assumes "honest w" "heads_kept (snd s)"
  shows "let s' = foldl (do_call w fuel known pid) s cs
    in (\<forall>(b, sha) \<in> set (rm_deleted (snd s')). \<exists>t. tag_in (snd s') t = Some sha) \<and>
       (\<forall>t sha. tag_in (snd s) t = Some sha \<longrightarrow> tag_in (snd s') t = Some sha)"
proof -
  have "tags_grow (snd s) (snd (foldl (do_call w fuel known pid) s cs)) \<and>
      heads_kept (snd (foldl (do_call w fuel known pid) s cs))"
    using assms(2)
  proof (induction cs rule: rev_induct)
    case (snoc c cs)
    then show ?case
      using do_call_obeys [OF assms(1), of "foldl (do_call w fuel known pid) s cs"] tags_grow_trans
      by (simp del: split_paired_All) blast
  qed simp
  then show ?thesis by (simp add: Let_def heads_kept_def tags_grow_def)
qed

section \<open>The tag of the day is found\<close>

definition idle :: "ref_world \<Rightarrow> bool" where
  "idle w = (\<forall>n r. rw_others w n r = r)"

lemma idle_read: "idle w \<Longrightarrow> ls_remote w rd (n, r) =
    (if rw_fails w n then Inl (BranchError ''ls-remote failed'') else Inr (rd r), (Suc n, r))"
  by (simp add: ls_remote_def git_command_def idle_def Let_def)

lemma free_tag_state: "idle w \<Longrightarrow> \<exists>m. snd (free_tag w base s fuel k (n, r)) = (m, r)"
  by (induction fuel arbitrary: k n) (auto simp: stop_with_def bind_ref_def give_def tag_sha_def idle_read)

lemma free_tag_answers:
  assumes "idle w"
  shows "case fst (free_tag w base s fuel k (n, r)) of
      Inl OutOfFuel \<Rightarrow> (\<forall>i < fuel. tag_in r (numbered_tag base (k + i)) \<noteq> None)
    | Inl e \<Rightarrow> (\<exists>i. rw_fails w i)
    | Inr t \<Rightarrow> tag_in r t \<in> {None, Some s}"
proof (induction fuel arbitrary: k n)
  case (Suc fuel)
  have all: "(\<forall>i < Suc fuel. tag_in r (numbered_tag base (k + i)) \<noteq> None) \<longleftrightarrow>
      tag_in r (numbered_tag base k) \<noteq> None \<and> (\<forall>i < fuel. tag_in r (numbered_tag base (Suc k + i)) \<noteq> None)"
    by (auto simp: less_Suc_eq_0_disj)
  show ?case
    using Suc.IH [of "Suc k" "Suc n"] unfolding all
    by (auto simp: bind_ref_def give_def tag_sha_def idle_read [OF assms] split: sum.splits ref_exn.splits)
qed (simp add: stop_with_def)

lemma show_nat_inj: "show_nat a = show_nat b \<Longrightarrow> a = b"
  by (metis read_nat_show_nat)

lemma tag_in_known: "tag_in r t \<noteq> None \<Longrightarrow> t \<in> set (dkeys (rm_tags r))"
  by (metis map_of_eq_None_iff option.map_disc_iff set_map tag_in_def)

lemma numbered_tag_inj: "inj (numbered_tag base)"
  by (auto simp: inj_def numbered_tag_def split: if_splits dest: show_nat_inj)

text \<open> The search for a free archive tag ends: when others leave the remote alone, one question
  more than the remote has tags is enough, and a search that no failing git command cuts short
  answers a tag that is free or already holds the head.\<close>

theorem archive_tag_search_ends:
  assumes "idle w" "is_platform_id pid" "length (rm_tags r) < fuel"
  shows "case fst (unique_archive_tag w fuel pid day s (n, r)) of
      Inr t \<Rightarrow> tag_in r t = None \<or> tag_in r t = Some s
    | Inl e \<Rightarrow> e \<noteq> OutOfFuel \<and> (\<exists>i. rw_fails w i)"
proof -
  let ?base = "''archive/'' @ pid @ ''/'' @ day"
  have "unique_archive_tag w fuel pid day s (n, r) = free_tag w ?base s fuel 1 (n, r)"
    using assms(2) by (simp add: unique_archive_tag_def archive_tag_def require_platform_def lift_name_def bind_ref_def)
  moreover have "\<not> (\<forall>i < fuel. tag_in r (numbered_tag ?base (1 + i)) \<noteq> None)"
  proof
    assume "\<forall>i < fuel. tag_in r (numbered_tag ?base (1 + i)) \<noteq> None"
    then have "(\<lambda>i. numbered_tag ?base (1 + i)) ` {..<fuel} \<subseteq> set (dkeys (rm_tags r))"
      using tag_in_known by blast
    then have "card ((\<lambda>i. numbered_tag ?base (1 + i)) ` {..<fuel}) \<le> card (set (dkeys (rm_tags r)))"
      by (rule card_mono [rotated]) simp
    moreover have "inj_on (\<lambda>i. numbered_tag ?base (1 + i)) {..<fuel}"
      using numbered_tag_inj [of ?base] by (auto simp: inj_on_def dest: injD)
    then have "card ((\<lambda>i. numbered_tag ?base (1 + i)) ` {..<fuel}) = fuel"
      by (simp add: card_image)
    moreover have "card (set (dkeys (rm_tags r))) \<le> length (rm_tags r)"
      by (metis card_length length_map)
    ultimately show False using assms(3) by linarith
  qed
  ultimately show ?thesis
    using free_tag_answers [OF assms(1), where base = ?base and s = s and fuel = fuel and k = 1 and n = n and r = r]
    by (auto split: sum.splits ref_exn.splits)
qed

section \<open>Certified releases\<close>

definition healthy :: "ref_world \<Rightarrow> bool" where
  "healthy w = (idle w \<and> (\<forall>n. \<not> rw_fails w n))"

lemma healthy_read [simp]: "healthy w \<Longrightarrow> ls_remote w rd (n, r) = (Inr (rd r), (Suc n, r))"
  by (simp add: healthy_def idle_read)

lemma healthy_command [simp]:
  "healthy w \<Longrightarrow> git_command w what act (n, r) = (fst (act r), (Suc n, snd (act r)))"
  by (simp add: healthy_def idle_def git_command_def Let_def split: prod.splits)

lemma bind_read [simp]: "healthy w \<Longrightarrow> bind_ref (ls_remote w rd) f (n, r) = f (rd r) (Suc n, r)"
  by (simp add: bind_ref_def)

lemma bind_head [simp]: "healthy w \<Longrightarrow> is_platform_id pid \<Longrightarrow>
    bind_ref (branch_head w pid) f (n, r) = f (head_in r (branch_of_record pid)) (Suc n, r)"
  by (simp add: branch_head_def platform_branch_def require_platform_def bind_ref_def lift_name_def)

lemma bind_name [simp]: "bind_ref (lift_name (Inr a)) f s = f a s" "bind_ref (lift_name (Inl e)) f s = (Inl e, s)"
  by (simp_all add: bind_ref_def lift_name_def)

text \<open>\<open>create_tag\<close> on a quiet remote.\<close>

lemma create_tag_quiet:
  assumes "healthy w"
  shows "create_tag w s t (n, r) = (case dget (rm_tags r) t of
      None \<Rightarrow> (Inr t, (n + 4, r\<lparr>rm_tags := insort_key fst (t, Light s) (rm_tags r)\<rparr>))
    | Some obj \<Rightarrow> ((if peeled obj = s then Inr t
         else Inl (BranchError (''tag '' @ t @ '' already exists at '' @ take 12 (peeled obj) @ '', not '' @ take 12 s))), (Suc n, r)))"
  using assms tag_added [of r t s]
  by (cases "dget (rm_tags r) t")
     (simp_all add: create_tag_def tag_sha_def tag_in_def [of r] push_ref_def bind_ref_def push_tag_act_def
       give_def stop_with_def)

lemma scan_releases_find:
  "find (\<lambda>row. fst row = head) rows = Some row \<Longrightarrow>
   scan_releases prefix head rows ns = Inl (release_tail prefix (snd row))"
  by (induction prefix head rows ns rule: scan_releases.induct) (auto simp: Let_def split: if_splits)

lemma scan_releases_none:
  "scan_releases prefix head rows ns = Inr ms \<Longrightarrow> row \<in> set rows \<Longrightarrow> fst row \<noteq> head"
  by (induction prefix head rows ns rule: scan_releases.induct) (auto simp: Let_def split: if_splits)

lemma find_unique:
  "x \<in> set xs \<Longrightarrow> P x \<Longrightarrow> (\<And>y. y \<in> set xs \<Longrightarrow> P y \<Longrightarrow> y = x) \<Longrightarrow> find P xs = Some x"
proof (induction xs)
  case (Cons a xs)
  show ?case
  proof (cases "P a")
    case True
    then have "a = x" using Cons.prems(3) [of a] by simp
    then show ?thesis using True by simp
  next
    case False
    then have "x \<in> set xs" using Cons.prems(1,2) by auto
    moreover have "find P xs = Some x"
      by (rule Cons.IH [OF calculation Cons.prems(2)]) (rule Cons.prems(3), simp_all)
    ultimately show ?thesis using False by simp
  qed
qed simp

lemma mem_ls_tags:
  "row \<in> set (ls_tags prefix r) \<longleftrightarrow>
   (\<exists>e \<in> set (rm_tags r). starts_with (fst e) prefix \<and> row \<in> set (tag_rows e))"
  unfolding ls_tags_def set_concat set_map set_filter by blast

lemma digit_not_space: "is_digit c \<Longrightarrow> \<not> py_space c"
  by (auto simp: is_digit_def py_space_def)

lemma show_nat_version: "py_strip (show_nat k) = show_nat k" "list_all session_safe (show_nat k)"
proof -
  have d: "\<forall>c \<in> set (show_nat k). is_digit c" using show_nat_digits by blast
  then have "\<not> py_space (hd (show_nat k))" "\<not> py_space (last (show_nat k))"
    using digit_not_space by simp_all
  then show "py_strip (show_nat k) = show_nat k" by (simp add: py_strip_id)
  show "list_all session_safe (show_nat k)" using d
    by (auto simp: list_all_iff session_safe_def is_digit_def Let_def)
qed

lemma show_nat_unpeeled: "\<not> ends_with (show_nat k) peel_mark"
proof
  assume "ends_with (show_nat k) peel_mark"
  then have "hd (rev (show_nat k)) = CHR ''}''"
    by (cases "rev (show_nat k)") (auto simp: ends_with_def peel_mark_def)
  then have "last (show_nat k) = CHR ''}''" by (simp add: hd_rev)
  then show False using show_nat_digits [of "CHR ''}''" k] last_in_set [OF show_nat_nonempty [of k]]
    by (simp add: is_digit_def)
qed

text \<open> Releasing a certified head is idempotent: once \<open>release_certified\<close> has answered a tag
  and a sha, the tag holds that sha, the sha is the branch's head, and asking again answers the same
  and changes nothing.\<close>

theorem certified_release_is_stable:
  assumes "healthy w" "release_certified w pid (n, r) = (Inr (Some (t, s)), (n', r'))"
    and "list_all (\<lambda>row. case snd row of Light x \<Rightarrow> True | Annotated obj c \<Rightarrow> False) (rm_tags r)"
  shows "head_in r' (branch_of_record pid) = Some s \<and>
     (\<exists>n''. release_certified w pid (n', r') = (Inr (Some (t, s)), (n'', r')))"
proof -
  let ?prefix = "release_prefix pid" and ?b = "branch_of_record pid"
  have pid: "is_platform_id pid"
    using assms(2) by (auto simp: release_certified_def bind_ref_def branch_head_def lift_name_def
        platform_branch_def require_platform_def split: if_splits)
  define next_tag where "next_tag ns = ?prefix @ show_nat (foldr max ns 0 + 1)" for ns
  have tag: "release_tag pid (show_nat (foldr max ns 0 + 1)) = Inr (next_tag ns)" for ns
    unfolding next_tag_def using pid show_nat_version by (simp add: release_tag_def require_platform_def)
  have run: "release_certified w pid (m, q) = (case head_in q ?b of
        None \<Rightarrow> (Inr None, (Suc m, q))
      | Some x \<Rightarrow> (case scan_releases ?prefix x (ls_tags ?prefix q) [] of
          Inl tail \<Rightarrow> (map_result (\<lambda>t. Some (t, x)) (release_tag pid tail), (Suc (Suc m), q))
        | Inr ns \<Rightarrow> bind_ref (create_tag w x (next_tag ns)) (\<lambda>t'. give (Some (t', x))) (Suc (Suc (Suc m)), q)))" for m q
    using assms(1) pid tag
    by (auto simp: release_certified_def tag_release_def give_def Let_def bind_ref_def [of "lift_name (release_tag pid _)"]
        lift_name_def split: option.splits sum.splits)
  obtain x where x: "head_in r ?b = Some x" using assms(2) by (auto simp: run split: option.splits)
  show ?thesis
  proof (cases "scan_releases ?prefix x (ls_tags ?prefix r) []")
    case (Inl tail)
    then show ?thesis using assms(2) x by (auto simp: run result_simps)
  next
    case (Inr ns)
    have free: "(s', t') \<in> set (ls_tags ?prefix r) \<Longrightarrow> s' \<noteq> x" for s' t'
      using scan_releases_none [OF Inr] by fastforce
    let ?t = "next_tag ns"
    have none: "dget (rm_tags r) ?t = None"
    proof (rule ccontr)
      assume "dget (rm_tags r) ?t \<noteq> None"
      then obtain obj where obj: "dget (rm_tags r) ?t = Some obj" by blast
      then obtain y where y: "obj = Light y" "(?t, Light y) \<in> set (rm_tags r)"
        using assms(3) map_of_SomeD [OF obj] by (cases obj) (auto simp: list_all_iff)
      have "(y, ?t) \<in> set (ls_tags ?prefix r)"
        using y(2) by (force simp: ls_tags_def starts_with_iff next_tag_def)
      then have "y \<noteq> x" by (rule free)
      then show False using assms(1,2) obj y(1) by (simp add: run x Inr bind_ref_def create_tag_quiet)
    qed
    let ?r = "r\<lparr>rm_tags := insort_key fst (?t, Light x) (rm_tags r)\<rparr>"
    have r': "t = ?t" "s = x" "r' = ?r"
      using assms(1,2) none by (auto simp: run x Inr bind_ref_def create_tag_quiet give_def)
    have starts: "starts_with ?t ?prefix" by (auto simp: next_tag_def starts_with_iff)
    have rows: "row \<in> set (ls_tags ?prefix ?r) \<longleftrightarrow> row = (x, ?t) \<or> row \<in> set (ls_tags ?prefix r)" for row
      by (simp add: mem_ls_tags set_insort_key starts)
    have "find (\<lambda>row. fst row = x) (ls_tags ?prefix ?r) = Some (x, ?t)"
    proof (rule find_unique)
      fix y
      assume y: "y \<in> set (ls_tags ?prefix ?r)" "fst y = x"
      then have "y = (x, ?t) \<or> (fst y, snd y) \<in> set (ls_tags ?prefix r)"
        using rows [of y] by (metis prod.collapse)
      then show "y = (x, ?t)" using free y(2) by blast
    qed (simp_all add: rows)
    moreover have "release_tail ?prefix ?t = show_nat (foldr max ns 0 + 1)"
      using show_nat_unpeeled by (simp add: release_tail_def Let_def next_tag_def)
    ultimately have "scan_releases ?prefix x (ls_tags ?prefix ?r) [] = Inl (show_nat (foldr max ns 0 + 1))"
      using scan_releases_find [where row = "(x, ?t)"] by simp
    moreover have "head_in ?r ?b = Some x" using x by (simp add: head_in_def)
    ultimately show ?thesis using x r' tag by (simp add: run)
  qed
qed

section \<open>A platform that is archived, restored and released\<close>

definition demo_platform :: string where "demo_platform = ''plt_0123456789abcdef''"

definition demo_world :: ref_world where
  "demo_world = \<lparr>rw_others = (\<lambda>n r. r), rw_fails = (\<lambda>n. False), rw_late = (\<lambda>n. False), rw_ff = (\<lambda>a b. False), rw_new = (\<lambda>n. ''new'')\<rparr>"

definition demo_remote :: remote where
  "demo_remote = \<lparr>rm_heads = [(branch_of_record demo_platform, ''s1'')], rm_tags = [], rm_deleted = [], rm_tree = (\<lambda>s p. None)\<rparr>"

lemma demo_world_facts [simp]: "idle demo_world" "healthy demo_world" "honest demo_world"
  by (simp_all add: healthy_def idle_def honest_def demo_world_def)

lemma demo_platform_ok [simp]: "is_platform_id demo_platform"
  by (simp add: demo_platform_def is_platform_id_def)

theorem deleted_head_is_tagged_witness:
  "(let s' = foldl (do_call demo_world 9 [] demo_platform) (0, demo_remote) [CallArchive ''2026-10-11'', CallRestore]
    in \<forall>(b, sha) \<in> set (rm_deleted (snd s')). \<exists>t. tag_in (snd s') t = Some sha)"
proof -
  have "heads_kept (snd (0 :: nat, demo_remote))" by (simp add: heads_kept_def demo_remote_def)
  from deleted_head_is_tagged [OF demo_world_facts(3) this, of 9 "[]" demo_platform
      "[CallArchive ''2026-10-11'', CallRestore]"] show ?thesis unfolding Let_def by blast
qed

theorem archive_tag_search_ends_witness:
  "case fst (unique_archive_tag demo_world 1 demo_platform ''2026-10-11'' ''s1'' (0, demo_remote)) of
      Inr t \<Rightarrow> tag_in demo_remote t = None \<or> tag_in demo_remote t = Some ''s1''
    | Inl e \<Rightarrow> False"
proof -
  have "length (rm_tags demo_remote) < 1" by (simp add: demo_remote_def)
  from archive_tag_search_ends [OF demo_world_facts(1) demo_platform_ok this, of "''s1''" "''2026-10-11''" 0]
  show ?thesis by (simp add: demo_world_def split: sum.splits)
qed

lemma demo_release:
  "release_certified demo_world demo_platform (0, demo_remote) =
     (Inr (Some (release_prefix demo_platform @ show_nat 1, ''s1'')),
      (7, demo_remote\<lparr>rm_tags := [(release_prefix demo_platform @ show_nat 1, Light ''s1'')]\<rparr>))"
proof -
  have "release_tag demo_platform (show_nat 1) = Inr (release_prefix demo_platform @ show_nat 1)"
    using show_nat_version [of 1] by (simp add: release_tag_def require_platform_def)
  then show ?thesis
    by (simp add: release_certified_def demo_remote_def head_in_def ls_tags_def Let_def tag_release_def
        create_tag_quiet bind_ref_def [of "create_tag _ _ _"] give_def)
qed

theorem certified_release_is_stable_witness:
  "(let r = demo_remote\<lparr>rm_tags := [(release_prefix demo_platform @ show_nat 1, Light ''s1'')]\<rparr>
    in \<exists>n. release_certified demo_world demo_platform (7, r) =
       (Inr (Some (release_prefix demo_platform @ show_nat 1, ''s1'')), (n, r)))"
proof -
  have "list_all (\<lambda>row. case snd row of Light x \<Rightarrow> True | Annotated obj c \<Rightarrow> False) (rm_tags demo_remote)"
    by (simp add: demo_remote_def)
  from certified_release_is_stable [OF demo_world_facts(2) demo_release this] show ?thesis
    by (simp only: Let_def)
qed

end
