(* ===== verification/Acceptance.thy ===== *)
theory Acceptance
  imports FailureOwner BuildStatus
begin

text \<open>
  The acceptance floor and the report the Store gate is judged by
  (\<open>factory/build/acceptance_floor.py\<close> with its data file
  \<open>factory/acceptance_floor.v2.json\<close>, and the report half of
  \<open>factory/build/store_acceptance.py\<close>): the checklist, which checks veto a build,
  who owns a failed line, the score per owner, the parser of the harness output,
  the stored report and the gate that runs the harness in the product's image.
  Docker's answers, the bar of a blueprint and the blocks that declare retrieval
  are arguments.
\<close>

section \<open>Paths and texts\<close>

text \<open>\<open>PurePosixPath(s).parts\<close>.\<close>

definition posix_root :: "string \<Rightarrow> string list" where
  "posix_root s = (let k = length (takeWhile (\<lambda>c. c = CHR ''/'') s)
     in if k = 0 then [] else if k = 2 then [''//''] else [''/''])"

definition posix_parts :: "string \<Rightarrow> string list" where
  "posix_parts s = posix_root s @ filter (\<lambda>p. p \<noteq> [] \<and> p \<noteq> ''.'') (split_on (CHR ''/'') s)"

definition rel_parts :: "string \<Rightarrow> string list" where
  "rel_parts s = filter (\<lambda>p. p \<noteq> ''/'' \<and> p \<noteq> ''.'') (posix_parts s)"

text \<open>\<open>s.upper()\<close> on the characters of the model.\<close>

definition upper_char :: "char \<Rightarrow> string" where
  "upper_char c = (let n = (of_char c :: nat) in
     if (97 \<le> n \<and> n \<le> 122) \<or> (224 \<le> n \<and> n \<le> 254 \<and> n \<noteq> 247) then [char_of (n - 32)]
     else if n = 223 then ''SS'' else [c])"

definition py_upper :: "string \<Rightarrow> string" where
  "py_upper s = concat (map upper_char s)"

section \<open>The floor\<close>

record floor_check =
  fc_id :: string
  fc_universal :: bool
  fc_applies :: string
  fc_advisory :: bool
  fc_subject :: string
  fc_stage :: "string option"

datatype floor_exn =
    FloorPy py_exn | WrongSchema | EmptyFloor | CheckWithoutId | DuplicateCheck string
  | CheckWithout string string | CheckInNoSet string | WrongSubject string | WrongStage string | NoImageStage

definition floor_schema :: string where "floor_schema = ''acceptance_floor.v2''"
definition stage_image :: string where "stage_image = ''image''"
definition stage_audit :: string where "stage_audit = ''audit''"
definition stages :: "string list" where "stages = [stage_image, stage_audit]"
definition subject_runtime :: string where "subject_runtime = ''runtime''"
definition subject_factory_record :: string where "subject_factory_record = ''factory_record''"
definition factory_owner :: string where "factory_owner = ''FACTORY''"
definition product_owner :: string where "product_owner = ''PRODUCT''"

text \<open>\<open>SUBJECT_RE\<close>.\<close>

definition ascii_alnum :: "char \<Rightarrow> bool" where
  "ascii_alnum c = (let n = (of_char c :: nat) in
     (48 \<le> n \<and> n \<le> 57) \<or> (65 \<le> n \<and> n \<le> 90) \<or> (97 \<le> n \<and> n \<le> 122))"

definition seg_char :: "char \<Rightarrow> bool" where
  "seg_char c = (ascii_alnum c \<or> c \<in> set ''_.-'')"

definition subject_ok :: "string \<Rightarrow> bool" where
  "subject_ok s = (s = subject_runtime \<or> s = subject_factory_record \<or>
     (starts_with s ''tree:'' \<and> drop 5 s \<noteq> [] \<and> list_all (\<lambda>c. seg_char c \<or> c = CHR ''/'') (drop 5 s)))"

definition check_of :: "(string, pyval) dict \<Rightarrow> floor_check" where
  "check_of d = \<lparr>fc_id = py_str (get0 d ''id''), fc_universal = (get0 d ''universal'' = PBool True),
     fc_applies = text_of (get0 d ''applies_when''), fc_advisory = (get0 d ''advisory'' = PBool True),
     fc_subject = text_of (get0 d ''subject''),
     fc_stage = (case get0 d ''stage'' of PStr s \<Rightarrow> Some s | _ \<Rightarrow> None)\<rparr>"

definition missing_field :: "(string, pyval) dict \<Rightarrow> string option" where
  "missing_field d = find (\<lambda>f. py_strip (text_of (get0 d f)) = [])
     [''requirement_text'', ''brief_render'', ''gate_fn'', ''check'']"

definition check_error :: "string list \<Rightarrow> (string, pyval) dict \<Rightarrow> floor_exn option" where
  "check_error seen d =
     (let cid = py_strip (text_of (get0 d ''id'')); stage = get0 d ''stage'';
          subject = py_strip (text_of (get0 d ''subject''))
      in if cid = [] then Some CheckWithoutId
         else if cid \<in> set seen then Some (DuplicateCheck cid)
         else case missing_field d of
           Some f \<Rightarrow> Some (CheckWithout cid f)
         | None \<Rightarrow>
           (if get0 d ''universal'' \<noteq> PBool True \<and> py_strip (text_of (get0 d ''applies_when'')) = [] \<and>
               get0 d ''advisory'' \<noteq> PBool True then Some (CheckInNoSet cid)
            else if \<not> subject_ok subject then Some (WrongSubject cid)
            else case stage of
              PNone \<Rightarrow> None
            | PStr st \<Rightarrow> (if st \<in> set stages then None else Some (WrongStage cid))
            | PList _ \<Rightarrow> Some (FloorPy TypeError)
            | PDict _ \<Rightarrow> Some (FloorPy TypeError)
            | _ \<Rightarrow> Some (WrongStage cid)))"

fun load_checks :: "string list \<Rightarrow> pyval list \<Rightarrow> floor_exn + floor_check list" where
  "load_checks seen [] = Inr []"
| "load_checks seen (v # vs) = (case v of
       PDict d \<Rightarrow> (case check_error seen d of
           Some e \<Rightarrow> Inl e
         | None \<Rightarrow> map_result ((#) (check_of d)) (load_checks (py_strip (text_of (get0 d ''id'')) # seen) vs))
     | _ \<Rightarrow> Inl (FloorPy AttributeError))"

definition load_floor :: "string \<Rightarrow> floor_exn + floor_check list" where
  "load_floor file = (case loads file of
       None \<Rightarrow> Inl (FloorPy ValueError)
     | Some (PDict data) \<Rightarrow>
        (if get0 data ''schema'' \<noteq> PStr floor_schema then Inl WrongSchema
         else case py_iter (py_or (get0 data ''checks'') (PList [])) of
           Inl e \<Rightarrow> Inl (FloorPy e)
         | Inr [] \<Rightarrow> Inl EmptyFloor
         | Inr vs \<Rightarrow> bind_result (load_checks [] vs) (\<lambda>cs.
             if list_ex (\<lambda>c. fc_stage c = Some stage_image) cs then Inr cs else Inl NoImageStage))
     | Some _ \<Rightarrow> Inl (FloorPy AttributeError))"

text \<open>The floor file's checks in reporting order.\<close>

definition universal_check :: "string \<Rightarrow> string \<Rightarrow> string option \<Rightarrow> floor_check" where
  "universal_check cid subject stage = \<lparr>fc_id = cid, fc_universal = True, fc_applies = [], fc_advisory = False,
     fc_subject = subject, fc_stage = stage\<rparr>"

definition conditional_check :: "string \<Rightarrow> string \<Rightarrow> string \<Rightarrow> string option \<Rightarrow> floor_check" where
  "conditional_check cid signal subject stage = \<lparr>fc_id = cid, fc_universal = False, fc_applies = signal,
     fc_advisory = False, fc_subject = subject, fc_stage = stage\<rparr>"

definition advisory_check :: "string \<Rightarrow> string \<Rightarrow> floor_check" where
  "advisory_check cid subject = \<lparr>fc_id = cid, fc_universal = False, fc_applies = [], fc_advisory = True,
     fc_subject = subject, fc_stage = None\<rparr>"

definition floor_checks :: "floor_check list" where
  "floor_checks =
     [universal_check ''no_token_401'' ''runtime'' None,
      universal_check ''missing_field_422'' ''runtime'' None,
      universal_check ''enum_422'' ''runtime'' None,
      universal_check ''ui_served_200'' ''runtime'' None,
      conditional_check ''rag_roundtrip_hit'' ''retrieval'' ''runtime'' None,
      universal_check ''single_persistence_root'' ''tree:app'' None,
      universal_check ''ci_present_and_full_suite'' ''tree:.github/workflows/ci.yml'' None,
      universal_check ''handler_bodies_distinct'' ''tree:app/handlers'' None,
      universal_check ''health_fail_closed'' ''runtime'' None,
      universal_check ''openapi_committed'' ''tree:docs/openapi.json'' None,
      universal_check ''docker_health_200'' ''runtime'' (Some ''image''),
      universal_check ''cross_tenant_404'' ''runtime'' None,
      universal_check ''concurrent_writes_hold'' ''runtime'' None,
      universal_check ''migration_no_create_all'' ''tree:alembic'' None,
      universal_check ''negative_floor'' ''tree:tests'' None,
      universal_check ''postgres_boot_200'' ''runtime'' None,
      advisory_check ''one_live_connector'' ''runtime'',
      universal_check ''metrics_served'' ''runtime'' None,
      advisory_check ''backup_restore_roundtrip'' ''tree:scripts/backup.sh'',
      advisory_check ''bench_p95'' ''runtime'',
      conditional_check ''audit_clean'' ''production'' ''tree:requirements.txt'' (Some ''audit''),
      universal_check ''no_token_literal'' ''tree:app'' None,
      universal_check ''authorship_floor'' ''factory_record'' None]"

definition check_ids :: "string list" where
  "check_ids = map fc_id floor_checks"

definition acceptance_required :: int where
  "acceptance_required = int (length check_ids)"

definition image_check_ids :: "string list" where
  "image_check_ids = map fc_id (filter (\<lambda>c. fc_stage c = Some stage_image) floor_checks)"

definition audit_check_ids :: "string list" where
  "audit_check_ids = map fc_id (filter (\<lambda>c. fc_stage c = Some stage_audit) floor_checks)"

definition tree_target :: "string \<Rightarrow> string" where
  "tree_target subject = (if before_char (CHR '':'') subject = ''tree'' then after_char (CHR '':'') subject else [])"

definition repository_check_ids :: "string list" where
  "repository_check_ids = map fc_id
     (filter (\<lambda>c. fc_subject c = subject_factory_record \<or> tree_target (fc_subject c) \<noteq> []) floor_checks)"

definition subject_of :: "string \<Rightarrow> string" where
  "subject_of cid = (case find (\<lambda>c. fc_id c = cid) floor_checks of Some c \<Rightarrow> fc_subject c | None \<Rightarrow> [])"

section \<open>Which checks veto a build\<close>

text \<open>What a blueprint says: the bar of its build level (None when it declares none), the block ids
  of its capabilities, whether it has connectors.\<close>

record floor_brief =
  fb_full_floor :: "bool option"
  fb_block_ids :: "string list list"
  fb_connectors :: bool

definition is_production_grade :: "floor_brief option \<Rightarrow> bool" where
  "is_production_grade b = (case b of None \<Rightarrow> True
     | Some bp \<Rightarrow> (case fb_full_floor bp of None \<Rightarrow> True | Some full \<Rightarrow> full))"

definition all_signals :: "string list" where
  "all_signals = map fc_applies (filter (\<lambda>c. fc_applies c \<noteq> []) floor_checks)"

definition binds_retrieving_block :: "string list \<Rightarrow> string list \<Rightarrow> bool" where
  "binds_retrieving_block retrieving ids = list_ex (\<lambda>b. b \<noteq> [] \<and> b \<in> set retrieving) (map py_strip ids)"

definition brief_signals :: "string list \<Rightarrow> floor_brief option \<Rightarrow> string list" where
  "brief_signals retrieving b = (case b of
       None \<Rightarrow> all_signals
     | Some bp \<Rightarrow>
         (if is_production_grade b then [''production''] else []) @
         (if binds_retrieving_block retrieving (concat (fb_block_ids bp)) then [''retrieval''] else []) @
         (if fb_connectors bp then [''connectors''] else []))"

definition advisory_ids :: "string list \<Rightarrow> floor_brief option \<Rightarrow> string list" where
  "advisory_ids retrieving b =
     (let sigs = brief_signals retrieving b
      in map fc_id (filter (\<lambda>c. fc_advisory c \<or> (fc_applies c \<noteq> [] \<and> fc_applies c \<notin> set sigs)) floor_checks))"

definition enforced_ids :: "string list \<Rightarrow> floor_brief option \<Rightarrow> string list" where
  "enforced_ids retrieving b = filter (\<lambda>c. c \<notin> set (advisory_ids retrieving b)) check_ids"

text \<open>The advisory checks of the gate itself, with no brief in hand.\<close>

definition acceptance_advisory :: "string list" where
  "acceptance_advisory = advisory_ids [] None"

definition demote_if_advisory :: "string \<Rightarrow> string \<Rightarrow> string \<Rightarrow> string \<times> string" where
  "demote_if_advisory name status d =
     (if status = ''FAIL'' \<and> name \<in> set acceptance_advisory
      then (''SKIP'', ''advisory (not on the floor yet): '' @ d) else (status, d))"

section \<open>Who owns a failed line\<close>

definition store_gate_path :: string where "store_gate_path = ''.github/workflows/store-gate.yml''"

definition factory_rendered_paths :: "string list" where
  "factory_rendered_paths =
     [''scripts/acceptance.py'', ''app/placeholders.py'', ''app/auth.py'', ''app/tenancy.py'',
      ''.github/workflows/ci.yml'', ''docs/openapi.json'', ''app/static/index.html'',
      ''scripts/release_gate.py'', ''requirements.txt'', ''constraints.txt'', store_gate_path]"

definition path_parts :: "string \<Rightarrow> bool \<times> string list" where
  "path_parts p = (let t = py_strip (replace_char backslash (CHR ''/'') p) in (starts_with t ''/'', rel_parts t))"

definition last_n :: "nat \<Rightarrow> 'a list \<Rightarrow> 'a list" where
  "last_n k xs = drop (length xs - k) xs"

definition factory_rendered :: "string \<Rightarrow> string list \<Rightarrow> bool" where
  "factory_rendered p rendered =
     (let (absolute, parts) = path_parts p; rel = join ''/'' parts
      in if parts = [] then False
         else if rel \<in> set rendered then True
         else if absolute then
           list_ex (\<lambda>r. last_n (length (split_on (CHR ''/'') r)) parts = split_on (CHR ''/'') r) rendered
         else length parts > 1 \<and> list_ex (\<lambda>r. ends_with r (''/'' @ rel)) rendered)"

text \<open>\<open>_PATH_IN_DETAIL.finditer\<close>: segments of \<open>[A-Za-z0-9_.-]+/\<close> as many as possible, then the longest
  name before one of the extensions; a match starts after no letter, digit or underscore.\<close>

definition extensions :: "string list" where
  "extensions = [''py'', ''yaml'', ''yml'', ''txt'', ''json'', ''sh'', ''html'', ''toml'', ''ini'', ''cfg'']"

fun name_with_ext :: "nat \<Rightarrow> string \<Rightarrow> string option" where
  "name_with_ext 0 s = None"
| "name_with_ext (Suc k) s =
     (case find (\<lambda>e. starts_with (drop (Suc k) s) (''.'' @ e)) extensions of
        Some e \<Rightarrow> Some (take (Suc k + 1 + length e) s)
      | None \<Rightarrow> name_with_ext k s)"

function path_match :: "string \<Rightarrow> string option" where
  "path_match s =
     (let seg = takeWhile seg_char s; rest = drop (length seg) s;
          here = name_with_ext (length seg) s
      in if seg \<noteq> [] \<and> rest \<noteq> [] \<and> hd rest = CHR ''/'' then
           (case path_match (tl rest) of Some m \<Rightarrow> Some (seg @ ''/'' @ m) | None \<Rightarrow> here)
         else here)"
  by auto
termination
proof (relation "measure length")
  fix s :: string and seg rest here
  assume "seg = takeWhile seg_char s" "rest = drop (length seg) s" "seg \<noteq> [] \<and> rest \<noteq> [] \<and> hd rest = CHR ''/''"
  then show "(tl rest, s) \<in> measure length" by (cases s) auto
qed simp

declare path_match.simps [simp del]

definition id_char :: "char option \<Rightarrow> bool" where
  "id_char c = (case c of None \<Rightarrow> False | Some x \<Rightarrow> ascii_alnum x \<or> x = CHR ''_'')"

function paths_in :: "char option \<Rightarrow> string \<Rightarrow> string list" where
  "paths_in prev [] = []"
| "paths_in prev (c # s) =
     (case (if id_char prev then None else path_match (c # s)) of
        Some m \<Rightarrow> (if m = [] then paths_in (Some c) s else m # paths_in (Some (last m)) (drop (length m) (c # s)))
      | None \<Rightarrow> paths_in (Some c) s)"
  by pat_completeness auto
termination by (relation "measure (length \<circ> snd)") (auto simp: length_greater_0_conv [symmetric] simp del: length_greater_0_conv)

definition paths_in_detail :: "string \<Rightarrow> string list" where
  "paths_in_detail d = paths_in None d"

definition owner_of :: "string \<Rightarrow> string \<Rightarrow> string" where
  "owner_of cid d =
     (if list_ex (\<lambda>p. factory_rendered p factory_rendered_paths) (paths_in_detail d) then factory_owner
      else if subject_of cid = subject_factory_record then factory_owner
      else if tree_target (subject_of cid) \<noteq> [] then
        (if factory_rendered (tree_target (subject_of cid)) factory_rendered_paths then factory_owner else product_owner)
      else product_owner)"

section \<open>The report\<close>

definition not_run :: string where "not_run = ''NOT_RUN''"

record acceptance_line =
  al_name :: string
  al_status :: string
  al_detail :: string
  al_owner :: string
  al_evidence :: string
  al_rows :: "(string, pyval) dict list"

definition new_line :: "string \<Rightarrow> string \<Rightarrow> string \<Rightarrow> acceptance_line" where
  "new_line name status d = \<lparr>al_name = name, al_status = status, al_detail = d, al_owner = [], al_evidence = [], al_rows = []\<rparr>"

definition al_satisfied :: "acceptance_line \<Rightarrow> bool" where
  "al_satisfied l = (al_status l = ''PASS'' \<or> al_status l = ''SKIP'')"

definition al_failed :: "acceptance_line \<Rightarrow> bool" where
  "al_failed l = (\<not> al_satisfied l \<and> al_status l \<noteq> not_run)"

record acceptance_report =
  acc_passed :: int
  acc_total :: int
  acc_ok :: bool
  acc_lines :: "acceptance_line list"
  acc_missing :: bool
  acc_via :: string
  acc_detail :: string
  acc_product_passed :: nat
  acc_product_total :: nat
  acc_factory_owed :: "string list"
  acc_harness_ran :: bool

definition new_report :: "int \<Rightarrow> int \<Rightarrow> bool \<Rightarrow> acceptance_line list \<Rightarrow> string \<Rightarrow> acceptance_report" where
  "new_report passed tot ok ls d = \<lparr>acc_passed = passed, acc_total = tot, acc_ok = ok, acc_lines = ls,
     acc_missing = False, acc_via = ''scripts/acceptance.py'', acc_detail = d, acc_product_passed = 0,
     acc_product_total = 0, acc_factory_owed = [], acc_harness_ran = True\<rparr>"

definition product_ok :: "acceptance_report \<Rightarrow> bool" where
  "product_ok r = (acc_harness_ran r \<and> \<not> acc_missing r \<and> acc_product_total r > 0 \<and>
     acc_product_passed r = acc_product_total r)"

definition ratio :: "int \<Rightarrow> int \<Rightarrow> string" where
  "ratio a b = show_int a @ ''/'' @ show_int b"

definition product_score :: "acceptance_report \<Rightarrow> string" where
  "product_score r = ratio (int (acc_product_passed r)) (int (acc_product_total r))"

definition line_json :: "acceptance_line \<Rightarrow> pyval" where
  "line_json l = PDict [(''name'', PStr (al_name l)), (''status'', PStr (al_status l)), (''detail'', PStr (al_detail l)),
     (''owner'', PStr (al_owner l)), (''evidence'', PStr (al_evidence l)), (''evidence_rows'', PList (map PDict (al_rows l)))]"

definition report_json :: "acceptance_report \<Rightarrow> (string, pyval) dict" where
  "report_json r = [(''schema_version'', PStr ''store_acceptance.v1''), (''passed'', PInt (acc_passed r)),
     (''total'', PInt (acc_total r)), (''ok'', PBool (acc_ok r)), (''missing'', PBool (acc_missing r)),
     (''via'', PStr (acc_via r)), (''detail'', PStr (acc_detail r)),
     (''score'', PStr (ratio (acc_passed r) (acc_total r))), (''lines'', PList (map line_json (acc_lines r))),
     (''checks'', PList (map PStr check_ids)), (''product_passed'', PInt (int (acc_product_passed r))),
     (''product_total'', PInt (int (acc_product_total r))), (''product_score'', PStr (product_score r)),
     (''product_ok'', PBool (product_ok r)), (''factory_owed'', PList (map PStr (acc_factory_owed r))),
     (''harness_ran'', PBool (acc_harness_ran r))]"

definition stamp_owner :: "acceptance_line \<Rightarrow> acceptance_line" where
  "stamp_owner l = (if al_owner l = [] then l\<lparr>al_owner := owner_of (al_name l) (al_detail l)\<rparr> else l)"

definition factory_line :: "acceptance_line \<Rightarrow> bool" where
  "factory_line l = (al_owner l = factory_owner)"

definition finalize_owners :: "acceptance_report \<Rightarrow> acceptance_report" where
  "finalize_owners r =
     (let ls = map stamp_owner (acc_lines r); mine = filter (\<lambda>l. \<not> factory_line l) ls
      in r\<lparr>acc_lines := ls, acc_product_passed := length (filter al_satisfied mine), acc_product_total := length mine,
           acc_factory_owed := map al_name (filter al_failed (filter factory_line ls))\<rparr>)"

definition missing_report :: "string \<Rightarrow> acceptance_report" where
  "missing_report d =
     (new_report 0 acceptance_required False (map (\<lambda>n. new_line n ''FAIL'' ''not measured'') check_ids) d)\<lparr>acc_missing := True\<rparr>"

definition not_run_detail :: string where "not_run_detail = ''scripts/acceptance.py was not run''"

text \<open>The line a dictionary built from a list of lines keeps for a name: the last one.\<close>

definition line_for :: "acceptance_line list \<Rightarrow> acceptance_line \<Rightarrow> acceptance_line" where
  "line_for ls l0 = (case find_last (\<lambda>l. al_name l = al_name l0) ls of Some l \<Rightarrow> l | None \<Rightarrow> l0)"

definition ordered_lines :: "string \<Rightarrow> string \<Rightarrow> acceptance_line list \<Rightarrow> acceptance_line list" where
  "ordered_lines status d ls = map (\<lambda>n. line_for ls (new_line n status d)) check_ids"

definition count_satisfied :: "acceptance_line list \<Rightarrow> int" where
  "count_satisfied ls = int (length (filter al_satisfied ls))"

section \<open>The harness output\<close>

definition record_key :: string where "record_key = ''acceptance_record''"
definition total_key :: string where "total_key = ''acceptance_total''"
definition statuses :: "string list" where "statuses = [''PASS'', ''FAIL'', ''SKIP'']"

definition harness_record :: "string \<Rightarrow> string \<Rightarrow> string \<Rightarrow> pyval" where
  "harness_record name status d =
     PDict [(record_key, PDict [(''name'', PStr name), (''status'', PStr status), (''detail'', PStr d)])]"

definition harness_total :: "int \<Rightarrow> int \<Rightarrow> pyval" where
  "harness_total passed required = PDict [(total_key, PDict [(''passed'', PInt passed), (''required'', PInt required)])]"

definition harness_records :: "string \<Rightarrow> (string, pyval) dict list" where
  "harness_records out = List.map_filter
     (\<lambda>raw. let line = py_strip raw in
        if starts_with line ''{'' then (case loads line of Some (PDict d) \<Rightarrow> Some d | _ \<Rightarrow> None) else None)
     (split_lines out)"

text \<open>One check's record: its line, None when it does not count.\<close>

definition record_line :: "string list \<Rightarrow> (string, pyval) dict \<Rightarrow> acceptance_line option" where
  "record_line seen d = (case get0 d record_key of
       PDict i \<Rightarrow>
         (let status = py_upper (text_of (get0 i ''status'')); name = text_of (get0 i ''name'');
              dt = py_strip (text_of (get0 i ''detail''))
          in if status \<notin> set statuses \<or> name \<notin> set check_ids \<or> name \<in> set seen then None
             else (case demote_if_advisory name status dt of (st, dd) \<Rightarrow> Some (new_line name st dd)))
     | _ \<Rightarrow> None)"

definition parse_step ::
  "(string, pyval) dict \<Rightarrow> acceptance_line list \<times> int \<Rightarrow> py_exn + acceptance_line list \<times> int" where
  "parse_step d st = (case get0 d total_key of
       PDict s \<Rightarrow> (case py_int (py_or (get0 s ''required'') (PInt 0)) of
           Inr n \<Rightarrow> Inr (fst st, max n acceptance_required)
         | Inl e \<Rightarrow> (if e = TypeError \<or> e = ValueError then Inr st else Inl e))
     | _ \<Rightarrow> (case record_line (map al_name (fst st)) d of
           None \<Rightarrow> Inr st
         | Some l \<Rightarrow> Inr (fst st @ [l], snd st)))"

fun parse_records ::
  "(string, pyval) dict list \<Rightarrow> acceptance_line list \<times> int \<Rightarrow> py_exn + acceptance_line list \<times> int" where
  "parse_records [] st = Inr st"
| "parse_records (d # ds) st = bind_result (parse_step d st) (parse_records ds)"

definition parsed_report :: "acceptance_line list \<Rightarrow> int \<Rightarrow> acceptance_report" where
  "parsed_report ls tot =
     (let ordered = ordered_lines ''FAIL'' ''harness omitted this line'' ls; n = count_satisfied ordered;
          ok = (n \<ge> acceptance_required \<and> tot \<ge> acceptance_required \<and> list_all al_satisfied ordered \<and>
                al_name (last ordered) = ''authorship_floor'')
      in finalize_owners (new_report n tot ok ordered (ratio n tot)))"

definition parse_acceptance_output :: "string \<Rightarrow> py_exn + acceptance_report" where
  "parse_acceptance_output out =
     map_result (\<lambda>(ls, tot). parsed_report ls tot)
       (parse_records (harness_records out) ([], acceptance_required))"

section \<open>The stored report\<close>

definition rows_of :: "pyval \<Rightarrow> py_exn + (string, pyval) dict list" where
  "rows_of v = map_result (List.map_filter (\<lambda>x. case x of PDict d \<Rightarrow> Some d | _ \<Rightarrow> None))
     (py_iter (py_or v (PList [])))"

definition stored_line :: "pyval \<Rightarrow> py_exn + acceptance_line option" where
  "stored_line v = (case v of
       PDict i \<Rightarrow>
         (let name = text_of (get0 i ''name'')
          in if name \<notin> set check_ids then Inr None
             else map_result (\<lambda>rows. Some ((new_line name (py_upper (str_or (get0 i ''status'') ''FAIL''))
                    (text_of (get0 i ''detail'')))\<lparr>al_evidence := text_of (get0 i ''evidence''), al_rows := rows\<rparr>))
                    (rows_of (get0 i ''evidence_rows'')))
     | _ \<Rightarrow> Inr None)"

definition report_from_lines :: "(string, pyval) dict \<Rightarrow> acceptance_line list \<Rightarrow> py_exn + acceptance_report" where
  "report_from_lines raw ls =
     (let ordered = ordered_lines ''FAIL'' ''omitted'' ls
      in bind_result (py_int (py_or (get0 raw ''passed'') (PInt (count_satisfied ordered)))) (\<lambda>passed.
         map_result (\<lambda>t.
            let tot = max t acceptance_required;
                ok = (truthy (get0 raw ''ok'') \<and> passed \<ge> tot \<and> list_all al_satisfied ordered)
            in finalize_owners ((new_report passed tot ok ordered
                 (str_or (get0 raw ''detail'') (ratio passed tot)))\<lparr>
                   acc_missing := truthy (get0 raw ''missing''),
                   acc_via := str_or (get0 raw ''via'') ''scripts/acceptance.py'',
                   acc_harness_ran := (get0 raw ''harness_ran'' \<noteq> PBool False)\<rparr>))
           (py_int (py_or (get0 raw ''total'') (PInt acceptance_required)))))"

definition report_from_mapping :: "(string, pyval) dict \<Rightarrow> py_exn + acceptance_report" where
  "report_from_mapping raw =
     bind_result (py_iter (py_or (get0 raw ''lines'') (PList []))) (\<lambda>items.
     bind_result (map_res stored_line items) (\<lambda>found.
       let ls = List.map_filter id found
       in if ls = [] then
            (if get0 raw ''missing'' = PBool True then Inr (missing_report (text_of (get0 raw ''detail'')))
             else parse_acceptance_output (text_of (get0 raw ''detail'')))
          else report_from_lines raw ls))"

text \<open>\<open>read_acceptance_report\<close>: the file when there is one, then the status blobs.\<close>

definition status_blob :: "pyval \<Rightarrow> (string, pyval) dict option" where
  "status_blob v = (case v of PDict d \<Rightarrow> (if get0 d ''missing'' = PBool True then None else Some d) | _ \<Rightarrow> None)"

fun first_measured :: "(string, pyval) dict option list \<Rightarrow> py_exn + acceptance_report" where
  "first_measured [] = Inr (missing_report not_run_detail)"
| "first_measured (None # bs) = first_measured bs"
| "first_measured (Some d # bs) =
     bind_result (report_from_mapping d) (\<lambda>r. if acc_missing r then first_measured bs else Inr r)"

definition read_acceptance_report :: "string option \<Rightarrow> (string, pyval) dict \<Rightarrow> py_exn + acceptance_report" where
  "read_acceptance_report file status = (case file of
       Some content \<Rightarrow> (case loads content of
           None \<Rightarrow> Inr (missing_report ''docs/store_acceptance.json is unreadable'')
         | Some (PDict d) \<Rightarrow> (case report_from_mapping d of
              Inl ValueError \<Rightarrow> Inr (missing_report ''docs/store_acceptance.json is unreadable'')
            | res \<Rightarrow> res)
         | Some _ \<Rightarrow> Inl AttributeError)
     | None \<Rightarrow> first_measured [status_blob (get0 status ''acceptance''),
         (case get0 status ''level_grade'' of PDict g \<Rightarrow> status_blob (get0 g ''acceptance'') | _ \<Rightarrow> None)])"

definition acceptance_is_kk :: "acceptance_report \<Rightarrow> bool" where
  "acceptance_is_kk r = (\<not> acc_missing r \<and> acc_ok r \<and> acc_passed r \<ge> acceptance_required \<and>
     acc_total r \<ge> acceptance_required \<and> acc_passed r = acc_total r)"

text \<open>\<open>gates\<close> is \<open>three_gate_verdict\<close> of the status, used when the status carries no verdict.\<close>

definition claims_store_green :: "((string, pyval) dict \<Rightarrow> (string, pyval) dict) \<Rightarrow> (string, pyval) dict \<Rightarrow> bool" where
  "claims_store_green gates status =
     (let g = (case get0 status ''level_grade'' of
                 PDict gr \<Rightarrow> (case get0 gr ''three_gate'' of PDict t \<Rightarrow> t | _ \<Rightarrow> gates status)
               | _ \<Rightarrow> gates status)
      in py_lower (py_strip (text_of (get0 status ''cycle''))) = ''pilot'' \<or>
         (text_of (get0 g ''PRODUCT'') = ''PASS'' \<and> text_of (get0 g ''STORE'') = ''PASS''))"

definition acceptance_export_blocker ::
  "((string, pyval) dict \<Rightarrow> (string, pyval) dict) \<Rightarrow> (string, pyval) dict \<Rightarrow> string option \<Rightarrow> py_exn + string option" where
  "acceptance_export_blocker gates status file =
     (if \<not> claims_store_green gates status then Inr None
      else map_result (\<lambda>r. if acceptance_is_kk r then None
          else Some (''STORE_ACCEPTANCE: acceptance is '' @ ratio (acc_passed r) (acc_total r) @
            '' (Export / Store-green require k/k PASS of scripts/acceptance.py; authorship floor is not acceptance)''))
        (read_acceptance_report file status))"

section \<open>The gate in the product's image\<close>

text \<open>What Docker answers: exit code, stdout, stderr.\<close>

record docker_answer =
  da_code :: int
  da_out :: string
  da_err :: string

record docker_world =
  dk_script :: bool
  dk_available :: bool
  dk_build :: docker_answer
  dk_start :: docker_answer
  dk_probe :: "nat \<Rightarrow> docker_answer"
  dk_harness :: "string \<Rightarrow> docker_answer"

definition gate_name :: string where "gate_name = ''store_acceptance''"

definition word_char :: "char \<Rightarrow> bool" where
  "word_char c = (is_alnum c \<or> c = CHR ''_'')"

text \<open>The first of 200, 503 and 000 that stands as a word.\<close>

fun first_code :: "char option \<Rightarrow> string \<Rightarrow> string option" where
  "first_code prev [] = None"
| "first_code prev (c # s) =
     (let edge = (case prev of None \<Rightarrow> True | Some p \<Rightarrow> \<not> word_char p);
          stop = (case drop 3 (c # s) of [] \<Rightarrow> True | n # _ \<Rightarrow> \<not> word_char n)
      in if edge \<and> take 3 (c # s) \<in> {''200'', ''503'', ''000''} \<and> stop then Some (take 3 (c # s))
         else first_code (Some c) s)"

definition probed_code :: "docker_answer \<Rightarrow> string \<Rightarrow> string" where
  "probed_code a code =
     (let out = da_out a @ [CHR 0x0A] @ da_err a;
          code' = (case first_code None out of Some c \<Rightarrow> c | None \<Rightarrow> code)
      in if code' = ''200'' \<or> (da_code a = 0 \<and> contains out ''200'') then ''200'' else code')"

fun probe_health :: "(nat \<Rightarrow> docker_answer) \<Rightarrow> nat \<Rightarrow> nat \<Rightarrow> string \<Rightarrow> string" where
  "probe_health probe 0 i code = code"
| "probe_health probe (Suc n) i code =
     (let code' = probed_code (probe i) code in if code' = ''200'' then ''200'' else probe_health probe n (Suc i) code')"

definition stopped_gate :: "string \<Rightarrow> string \<Rightarrow> string \<Rightarrow> string \<Rightarrow> verdict \<times> acceptance_report" where
  "stopped_gate reason d found rd =
     (let r = missing_report rd in (gate_result False gate_name d reason [Plain found] (report_json r), r))"

definition failed_finding :: "acceptance_line \<Rightarrow> item" where
  "failed_finding l = Plain (al_name l @ ''='' @ al_status l @ '': '' @ al_detail l)"

definition gate_store_acceptance :: "docker_world \<Rightarrow> py_exn + verdict \<times> acceptance_report" where
  "gate_store_acceptance w =
     (if \<not> dk_script w then
        Inr (stopped_gate ''acceptance_script_missing'' ''STORE (acceptance): scripts/acceptance.py is missing''
          ''missing scripts/acceptance.py'' ''scripts/acceptance.py is not stamped'')
      else if \<not> dk_available w then
        Inr (stopped_gate ''docker_unavailable'' ''STORE (acceptance): docker is not available; will not pass on a host-side skip''
          ''docker CLI missing - Store-green is image-measured''
          ''docker is required - Store-green runs acceptance inside the image'')
      else if da_code (dk_build w) \<noteq> 0 then
        (let err = py_strip (da_err (dk_build w) @ da_out (dk_build w))
         in Inr (stopped_gate ''docker_build_failed'' ''STORE (acceptance): docker build failed''
              (take 400 (if err = [] then ''docker build failed'' else err)) ''docker build failed''))
      else if da_code (dk_start w) \<noteq> 0 then
        Inr (stopped_gate ''docker_run_failed'' ''STORE (acceptance): docker run failed''
          (take 400 (if da_err (dk_start w) = [] then ''docker run failed'' else da_err (dk_start w))) ''docker run failed'')
      else
        (let ran = dk_harness w (probe_health (dk_probe w) 8 0 ''000'')
         in map_result (\<lambda>r0.
              let r = r0\<lparr>acc_via := ''docker exec python3 scripts/acceptance.py''\<rparr>;
                  d = ''STORE (acceptance): '' @ ratio (acc_passed r) (acc_total r) @ '' inside the Store-built image'';
                  found = take 12 (map failed_finding (filter (\<lambda>l. \<not> al_satisfied l) (acc_lines r)))
              in if acceptance_is_kk r then (gate_result True gate_name d [] [] (report_json r), r)
                 else (gate_result False gate_name d ''acceptance_not_kk''
                         (if found = [] then [Plain ''acceptance is not k/k''] else found) (report_json r), r))
            (parse_acceptance_output (da_out ran @ [CHR 0x0A] @ da_err ran))))"

end
