(* ===== verification/FactoryBlock.thy ===== *)
theory FactoryBlock
  imports PyConv
begin

text \<open>
  The marked block through which a Factory stamp edits a file the product also
  writes (\<open>factory/build/factory_block.py\<close>).  Texts are lists of characters.
\<close>

definition block_begin :: string where
  "block_begin = ''--- BEGIN factory block: stamped by the Factory, edits here are replaced ---''"

definition block_end :: string where
  "block_end = ''--- END factory block ---''"

definition begin_line :: "string \<Rightarrow> string" where
  "begin_line comment = comment @ '' '' @ block_begin"

definition end_line :: "string \<Rightarrow> string" where
  "end_line comment = comment @ '' '' @ block_end"

text \<open>\<open>text.find(p)\<close> and \<open>text.find(p, start)\<close>, None for -1.\<close>

primrec index_of :: "string \<Rightarrow> string \<Rightarrow> nat option" where
  "index_of p [] = (if p = [] then Some 0 else None)"
| "index_of p (c # s) = (if starts_with (c # s) p then Some 0 else map_option Suc (index_of p s))"

definition find_from :: "string \<Rightarrow> string \<Rightarrow> nat \<Rightarrow> nat option" where
  "find_from p s start = map_option ((+) start) (index_of p (drop start s))"

definition split_block :: "string \<Rightarrow> string \<Rightarrow> string \<times> string option \<times> string" where
  "split_block txt comment =
     (case index_of (begin_line comment) txt of
        None \<Rightarrow> (txt, None, [])
      | Some start \<Rightarrow>
          (case (find_from [CHR 0x0A] txt start, find_from (end_line comment) txt start) of
             (Some body_start, Some stop) \<Rightarrow>
               (let after_start = stop + length (end_line comment);
                    after' = (if take 1 (drop after_start txt) = [CHR 0x0A] then Suc after_start else after_start)
                in (take start txt, Some (drop (Suc body_start) (take stop txt)), drop after' txt))
           | _ \<Rightarrow> (txt, None, [])))"

definition outside :: "string \<Rightarrow> string \<Rightarrow> string" where
  "outside txt comment = (case split_block txt comment of (before, _, later) \<Rightarrow> before @ later)"

definition block_text :: "string \<Rightarrow> string \<Rightarrow> string" where
  "block_text comment body =
     (let body' = (if ends_with body [CHR 0x0A] \<or> body = [] then body else body @ [CHR 0x0A])
      in begin_line comment @ [CHR 0x0A] @ body' @ end_line comment @ [CHR 0x0A])"

definition apply_block :: "string \<Rightarrow> string \<Rightarrow> string \<Rightarrow> string" where
  "apply_block txt body comment =
     (let block = block_text comment body
      in case split_block txt comment of
           (before, Some existing, later) \<Rightarrow> before @ block @ later
         | (before, None, later) \<Rightarrow>
             (if txt = [] \<or> ends_with txt [CHR 0x0A] then txt @ block else txt @ [CHR 0x0A] @ block))"

section \<open>Finding a marker\<close>

text \<open>A marker holds no line end, so an occurrence lies inside one line.\<close>

abbreviation nl :: char where "nl \<equiv> CHR 0x0A"

lemma starts_with_across:
  "nl \<notin> set p \<Longrightarrow> p \<noteq> [] \<Longrightarrow> starts_with (a @ nl # b) p \<longleftrightarrow> starts_with a p"
proof (induction a p rule: starts_with.induct)
  case (1 s) then show ?case by simp
next
  case (2 c cs) then show ?case by auto
next
  case (3 a s c cs) then show ?case by (cases cs) auto
qed

lemma index_of_across:
  assumes "nl \<notin> set p" "p \<noteq> []" "index_of p a = None"
  shows "index_of p (a @ nl # b) = map_option ((+) (Suc (length a))) (index_of p b)"
  using assms(3)
proof (induction a)
  case Nil
  then show ?case using assms(1,2) by (cases p) (auto simp: option.map_comp comp_def)
next
  case (Cons c a)
  have "\<not> starts_with ((c # a) @ nl # b) p"
    using Cons.prems starts_with_across [OF assms(1,2), of "c # a" b] by (auto split: if_splits)
  moreover have "index_of p a = None" using Cons.prems by (auto split: if_splits)
  ultimately show ?case using Cons.IH by (simp add: option.map_comp comp_def)
qed

lemma starts_with_take: "starts_with s p \<longleftrightarrow> take (length p) s = p"
  by (metis append_eq_conv_conj append_take_drop_id starts_with_iff)

lemma starts_with_self: "starts_with (p @ t) p"
  by (induction p) auto

lemma index_of_here: "index_of p (p @ t) = Some 0"
  using starts_with_self [of p t] by (cases "p @ t") auto

lemma index_of_left: "p \<noteq> [] \<Longrightarrow> index_of p (x @ y) = None \<Longrightarrow> index_of p x = None"
proof (induction x)
  case (Cons c x)
  then have "\<not> starts_with (c # x @ y) p" by (auto split: if_splits)
  then have "\<not> starts_with (c # x) p" by (metis append_Cons append_assoc starts_with_iff)
  then show ?case using Cons by (auto split: if_splits)
qed simp

lemma index_of_ending:
  assumes "nl \<notin> set p" "p \<noteq> []" "index_of p a = None" "a = [] \<or> last a = nl"
  shows "index_of p (a @ p @ t) = Some (length a)"
proof (cases "a = []")
  case True
  then show ?thesis by (simp add: index_of_here)
next
  case False
  then obtain a0 where a: "a = a0 @ [nl]" using assms(4) by (metis append_butlast_last_id)
  have "index_of p a0 = None" using assms(3) a index_of_left [OF assms(2)] by blast
  then show ?thesis
    using index_of_across [OF assms(1,2), of a0 "p @ t"] by (simp add: a index_of_here)
qed

lemma index_of_Some: "index_of p s = Some n \<Longrightarrow> \<exists>t. s = take n s @ p @ t \<and> n \<le> length s"
proof (induction s arbitrary: n)
  case Nil
  then show ?case by (auto split: if_splits)
next
  case (Cons c s)
  show ?case
  proof (cases "starts_with (c # s) p")
    case True
    then show ?thesis using Cons.prems by (auto simp: starts_with_iff)
  next
    case False
    then obtain m where m: "index_of p s = Some m" "n = Suc m" using Cons.prems by auto
    from Cons.IH [OF m(1)] obtain t where "s = take m s @ p @ t" "m \<le> length s" by blast
    then show ?thesis using m(2) by auto
  qed
qed

text \<open>The first occurrence is found again in any text that begins the same way.\<close>

lemma index_of_prefix:
  "index_of p (take n s @ p @ t) = Some n" if "index_of p s = Some n" for p s t n
  using that
proof (induction s arbitrary: n)
  case Nil
  then show ?case by (auto simp: index_of_here split: if_splits)
next
  case (Cons c s)
  show ?case
  proof (cases "starts_with (c # s) p")
    case True
    then show ?thesis using Cons.prems by (simp add: index_of_here)
  next
    case False
    then obtain m where m: "index_of p s = Some m" "n = Suc m" using Cons.prems by auto
    from index_of_Some [OF m(1)] obtain u where u: "s = take m s @ p @ u" "m \<le> length s" by blast
    have "take (length p) (c # take m s @ p @ t) = take (length p) (c # take m s @ p @ u)"
      by (cases "length p") simp_all
    then have "\<not> starts_with (c # take m s @ p @ t) p"
      using False u(1) by (metis starts_with_take)
    then show ?thesis using Cons.IH [OF m(1)] m(2) by simp
  qed
qed

lemma index_of_nl: "nl \<notin> set a \<Longrightarrow> index_of [nl] (a @ nl # b) = Some (length a)"
  by (induction a) auto

lemma ends_with_nl: "ends_with s [nl] \<longleftrightarrow> s \<noteq> [] \<and> last s = nl"
  by (cases s rule: rev_cases) (auto simp: ends_with_def)

section \<open>The block is found again\<close>

abbreviation hash_mark :: string where "hash_mark \<equiv> ''#''"

lemma markers:
  "nl \<notin> set (begin_line hash_mark)" "begin_line hash_mark \<noteq> []" "nl \<notin> set (end_line hash_mark)" "end_line hash_mark \<noteq> []"
  "index_of (end_line hash_mark) (begin_line hash_mark) = None"
  by (simp_all add: begin_line_def end_line_def block_begin_def block_end_def)

text \<open>The text between the markers: a missing last line end is added.\<close>

definition block_body :: "string \<Rightarrow> string" where
  "block_body body = (if body = [] \<or> last body = nl then body else body @ [nl])"

lemma block_text_eq:
  "block_text hash_mark body = begin_line hash_mark @ nl # block_body body @ end_line hash_mark @ [nl]"
  by (simp add: block_text_def block_body_def ends_with_nl)

lemma block_body_ends: "block_body body = [] \<or> last (block_body body) = nl"
  by (simp add: block_body_def)

lemma block_body_again [simp]: "block_body (block_body body) = block_body body"
  by (simp add: block_body_def)

lemma block_body_clean:
  "index_of (end_line hash_mark) body = None \<Longrightarrow> index_of (end_line hash_mark) (block_body body) = None"
  using index_of_across [OF markers(3,4), of body "[]"] markers(4) by (simp add: block_body_def)

lemma split_marked:
  assumes "index_of (end_line hash_mark) (block_body body) = None"
    and "index_of (begin_line hash_mark) (before @ block_text hash_mark body @ later) = Some (length before)"
  shows "split_block (before @ block_text hash_mark body @ later) hash_mark = (before, Some (block_body body), later)"
proof -
  let ?b = "begin_line hash_mark" and ?e = "end_line hash_mark" and ?t = "before @ block_text hash_mark body @ later"
  have "find_from [nl] ?t (length before) = Some (length before + length ?b)"
    using index_of_nl [OF markers(1), of "block_body body @ ?e @ nl # later"]
    by (simp add: find_from_def block_text_eq)
  moreover have "find_from ?e ?t (length before) =
      Some (length before + Suc (length ?b + length (block_body body)))"
    using index_of_across [OF markers(3,4,5), of "block_body body @ ?e @ nl # later"]
      index_of_ending [OF markers(3,4) assms(1) block_body_ends, of "nl # later"]
    by (simp add: find_from_def block_text_eq)
  ultimately show ?thesis
    using assms(2) by (simp add: split_block_def block_text_eq Let_def)
qed

text \<open>A text is well marked when its first begin marker, if it has one, is closed by an end marker.\<close>

definition has_block :: "string \<Rightarrow> bool" where
  "has_block txt = (fst (snd (split_block txt hash_mark)) \<noteq> None)"

definition well_marked :: "string \<Rightarrow> bool" where
  "well_marked txt = (has_block txt \<or> index_of (begin_line hash_mark) txt = None)"

lemma split_block_before:
  "split_block txt hash_mark = (before, Some body, later) \<Longrightarrow>
   \<exists>n. index_of (begin_line hash_mark) txt = Some n \<and> before = take n txt \<and> n \<le> length txt"
  using index_of_Some [of "begin_line hash_mark" "txt"]
  by (auto simp: split_block_def Let_def split: option.splits if_splits)

text \<open>What the product's bytes are after a stamp: a missing last line end is added when the block is
  appended, nothing else.\<close>

definition product_bytes :: "string \<Rightarrow> string" where
  "product_bytes txt = (if has_block txt then outside txt hash_mark else block_body txt)"

lemma apply_block_splits:
  assumes "well_marked txt" "index_of (end_line hash_mark) body = None"
  shows "\<exists>before later. apply_block txt body hash_mark = before @ block_text hash_mark body @ later \<and>
     split_block (apply_block txt body hash_mark) hash_mark = (before, Some (block_body body), later) \<and>
     before @ later = product_bytes txt"
proof (cases "has_block txt")
  case True
  then obtain before old later where sp: "split_block txt hash_mark = (before, Some old, later)"
    by (cases "split_block txt hash_mark") (auto simp: has_block_def)
  obtain n where n: "index_of (begin_line hash_mark) txt = Some n" "before = take n txt" "n \<le> length txt"
    using split_block_before [OF sp] by blast
  have ap: "apply_block txt body hash_mark = before @ block_text hash_mark body @ later"
    by (simp add: apply_block_def sp Let_def)
  have "index_of (begin_line hash_mark) (before @ block_text hash_mark body @ later) = Some (length before)"
    using index_of_prefix [OF n(1)] n(2,3) by (simp add: block_text_eq)
  from split_marked [OF block_body_clean [OF assms(2)] this] show ?thesis
    using ap sp True by (auto simp: product_bytes_def outside_def)
next
  case False
  then have none: "index_of (begin_line hash_mark) txt = None" using assms(1) by (simp add: well_marked_def)
  have ap: "apply_block txt body hash_mark = block_body txt @ block_text hash_mark body @ []"
    by (simp add: apply_block_def split_block_def none Let_def block_body_def ends_with_nl)
  have "index_of (begin_line hash_mark) (block_body txt) = None"
    using none index_of_across [OF markers(1,2) none, of "[]"] markers(2) by (simp add: block_body_def)
  then have "index_of (begin_line hash_mark) (block_body txt @ block_text hash_mark body @ []) = Some (length (block_body txt))"
    using index_of_ending [OF markers(1,2) _ block_body_ends] by (simp add: block_text_eq)
  from split_marked [OF block_body_clean [OF assms(2)] this] show ?thesis
    using ap False by (auto simp: product_bytes_def)
qed

text \<open> A stamp changes its block and nothing else: on a file whose marker, if it has one, is
  closed, the block reads back as the body, the product's bytes are the ones before (a missing last
  line end is added when the block is first appended), and stamping the same body again changes
  nothing.\<close>

theorem stamp_touches_only_its_block:
  assumes "well_marked txt" "index_of (end_line ''#'') body = None"
  shows "let stamped = apply_block txt body ''#''
    in fst (snd (split_block stamped ''#'')) = Some (block_body body) \<and>
       outside stamped ''#'' = product_bytes txt \<and>
       well_marked stamped \<and> apply_block stamped body ''#'' = stamped"
proof -
  obtain before later where w: "apply_block txt body hash_mark = before @ block_text hash_mark body @ later"
    "split_block (apply_block txt body hash_mark) hash_mark = (before, Some (block_body body), later)"
    "before @ later = product_bytes txt"
    using apply_block_splits [OF assms] by blast
  then show ?thesis
    by (simp add: Let_def outside_def well_marked_def has_block_def)
      (simp add: apply_block_def Let_def)
qed

theorem stamp_touches_only_its_block_witness:
  "(let t = ''flask'' in outside (apply_block t ''redis'' ''#'') ''#'' = ''flask'' @ [CHR 0x0A] \<and>
     apply_block (apply_block t ''redis'' ''#'') ''redis'' ''#'' = apply_block t ''redis'' ''#'')"
proof -
  have n: "index_of (begin_line ''#'') ''flask'' = None" "index_of (end_line ''#'') ''redis'' = None"
    by (simp_all add: begin_line_def block_begin_def end_line_def block_end_def)
  then have w: "well_marked ''flask''" by (simp add: well_marked_def)
  have "\<not> has_block ''flask''" unfolding has_block_def split_block_def n(1) by simp
  then have "product_bytes ''flask'' = ''flask'' @ [CHR 0x0A]"
    by (simp add: product_bytes_def block_body_def)
  then show ?thesis
    using stamp_touches_only_its_block [OF w n(2)] by (simp add: Let_def)
qed

text \<open> A begin marker whose end marker is gone: the next stamp appends a second block and keeps
  the product's lines, and the stamp after that takes everything from the old marker to the new
  block as its own and deletes it.\<close>

theorem open_marker_loses_product_lines:
  assumes "index_of (begin_line ''#'') pre = None" "pre = [] \<or> last pre = CHR 0x0A"
    and "index_of (end_line ''#'') lines = None" "lines \<noteq> []" "last lines = CHR 0x0A"
    and "index_of (end_line ''#'') body = None"
  shows "let txt = pre @ begin_line ''#'' @ [CHR 0x0A] @ lines; once = apply_block txt body ''#''
    in once = txt @ block_text ''#'' body \<and> apply_block once body ''#'' = pre @ block_text ''#'' body"
proof -
  let ?b = "begin_line hash_mark" and ?e = "end_line hash_mark"
  let ?txt = "pre @ ?b @ nl # lines"
  let ?in = "lines @ ?b @ nl # block_body body"
  have at: "index_of ?b (pre @ ?b @ t) = Some (length pre)" for t
    by (rule index_of_ending [OF markers(1,2) assms(1,2)])
  have le: "index_of ?e (?b @ nl # t) = map_option ((+) (Suc (length ?b))) (index_of ?e t)" for t
    by (rule index_of_across [OF markers(3,4,5)])
  obtain l0 where l0: "lines = l0 @ [nl]" using assms(4,5) by (metis append_butlast_last_id)
  have "index_of ?e l0 = None" using index_of_left [OF markers(4)] assms(3) l0 by blast
  from index_of_across [OF markers(3,4) this, of "?b @ nl # block_body body"]
  have "index_of ?e ?in = None"
    using block_body_clean [OF assms(6)] by (simp add: l0 le)
  moreover have "?in = [] \<or> last ?in = nl" using block_body_ends [of body] by auto
  ultimately have stop: "index_of ?e (?in @ ?e @ t) = Some (length ?in)" for t
    by (rule index_of_ending [OF markers(3,4)])
  have once: "apply_block ?txt body hash_mark = ?txt @ block_text hash_mark body"
    using assms(4,5) index_of_nl [OF markers(1), of lines]
    by (simp add: apply_block_def split_block_def at find_from_def le assms(3) Let_def ends_with_nl)
  have "split_block (?txt @ block_text hash_mark body) hash_mark =
      (pre, Some (drop (Suc (length ?b)) (?b @ nl # ?in)), [])"
    using at [of "nl # lines @ block_text hash_mark body"] index_of_nl [OF markers(1)] stop [of "[nl]"]
    by (simp add: split_block_def find_from_def block_text_eq le Let_def)
  then have "apply_block (?txt @ block_text hash_mark body) body hash_mark = pre @ block_text hash_mark body"
    by (simp add: apply_block_def Let_def)
  then show ?thesis using once by (simp add: Let_def)
qed

theorem open_marker_loses_product_lines_witness:
  "(let once = apply_block (begin_line ''#'' @ [CHR 0x0A] @ ''flask'' @ [CHR 0x0A]) ''redis'' ''#''
    in apply_block once ''redis'' ''#'' = block_text ''#'' ''redis'')"
proof -
  have n: "index_of (end_line ''#'') (''flask'' @ [CHR 0x0A]) = None" "index_of (end_line ''#'') ''redis'' = None"
    "index_of (begin_line ''#'') [] = None"
    by (simp_all add: begin_line_def block_begin_def end_line_def block_end_def)
  have e: "([] :: string) = [] \<or> last [] = CHR 0x0A" "''flask'' @ [CHR 0x0A] \<noteq> []"
    "last (''flask'' @ [CHR 0x0A]) = CHR 0x0A" by simp_all
  show ?thesis
    using open_marker_loses_product_lines [OF n(3) e(1) n(1) e(2,3) n(2)]
    unfolding Let_def append_Nil by blast
qed

end
