(* ===== verification/Receipt.thy ===== *)
theory Receipt
  imports Acceptance FactoryBlock
begin

text \<open>
  The Factory's receipt (\<open>factory/build/factory_receipt.py\<close>): which files and
  dependencies of a build the Factory put there, and the owner of an audit or
  boot-crash row read from it.  A build tree is the text of each file by its path;
  the digest, the files the stamps own, the Factory's requirements rendering and
  the lock file of the vendored blocks are read through arguments.
\<close>

type_synonym tree = "string \<Rightarrow> string option"

definition receipt_schema :: string where "receipt_schema = ''factory_receipt.v1''"
definition writer_owner :: string where "writer_owner = ''WRITER''"

definition receipt_rel :: string where "receipt_rel = ''docs/factory_receipt.json''"

datatype origin_reason =
    NoReceipt | FactoryFile | FactoryFileChanged | Vendored | NotInTree
  | FactoryDependency | UndeclaredDependency | WriterFile | WriterDependency

fun reason_text :: "origin_reason \<Rightarrow> string" where
  "reason_text NoReceipt = ''no factory receipt for this build: origin unknown, a Factory fault''"
| "reason_text FactoryFile = ''in a file the Factory rendered''"
| "reason_text FactoryFileChanged = ''in a Factory-rendered file whose bytes differ from the Factory's stamp: origin unknown, a Factory fault''"
| "reason_text Vendored = ''in Store code the Factory vendored''"
| "reason_text NotInTree = ''names a file that is not in the build: origin unknown, a Factory fault''"
| "reason_text FactoryDependency = ''a dependency the Factory declared in requirements.txt''"
| "reason_text UndeclaredDependency = ''a dependency the build's requirements.txt does not declare (transitive or unknown): origin unknown, a Factory fault''"
| "reason_text WriterFile = ''in a file the writer authored''"
| "reason_text WriterDependency = ''a dependency the writer added to requirements.txt''"

record origin =
  or_owner :: string
  or_reason :: origin_reason

definition factory_origin :: "origin_reason \<Rightarrow> origin" where
  "factory_origin r = \<lparr>or_owner = factory_owner, or_reason = r\<rparr>"

definition writer_origin :: "origin_reason \<Rightarrow> origin" where
  "writer_origin r = \<lparr>or_owner = writer_owner, or_reason = r\<rparr>"

definition norm_text :: "string \<Rightarrow> string" where
  "norm_text s = join ''/'' (rel_parts (replace_char backslash (CHR ''/'') s))"

definition norm_rel :: "pyval \<Rightarrow> string" where
  "norm_rel v = norm_text (text_of v)"

text \<open>\<open>data.replace(b"\r\n", b"\n")\<close>.\<close>

fun lf_only :: "string \<Rightarrow> string" where
  "lf_only [] = []"
| "lf_only [c] = [c]"
| "lf_only (c # d # s) = (if c = CHR 0x0D \<and> d = CHR 0x0A then d # lf_only s else c # lf_only (d # s))"

definition file_digest :: "(string \<Rightarrow> string) \<Rightarrow> string \<Rightarrow> string" where
  "file_digest sha256 content = sha256 (lf_only content)"

text \<open>The distribution a requirement line names.\<close>

definition requirement_stop :: "char \<Rightarrow> bool" where
  "requirement_stop c = (c \<in> set ''<>=!~[; '')"

definition dist_of :: "string \<Rightarrow> string" where
  "dist_of line = (let t = py_strip line
     in if t = [] \<or> starts_with t ''#'' then []
        else replace_char (CHR ''_'') (CHR ''-'') (py_lower (py_strip (takeWhile (\<lambda>c. \<not> requirement_stop c) t))))"

definition requirement_dists :: "string \<Rightarrow> string list" where
  "requirement_dists content = filter (\<lambda>d. d \<noteq> []) (map dist_of (split_lines content))"

text \<open>What CLONER vendored, from the lock's text.\<close>

definition entry_path :: "pyval \<Rightarrow> string list" where
  "entry_path v = (case v of PDict e \<Rightarrow> (if truthy (get0 e ''path'') then [norm_rel (get0 e ''path'')] else []) | _ \<Rightarrow> [])"

definition vendored_paths :: "tree \<Rightarrow> py_exn + string list" where
  "vendored_paths t = (case t ''blocks.lock.json'' of
       None \<Rightarrow> Inr []
     | Some content \<Rightarrow> (case loads content of
         None \<Rightarrow> Inr []
       | Some (PDict lock) \<Rightarrow> (case py_or (get0 lock ''blocks'') (PDict []) of
           PDict blocks \<Rightarrow>
             (let runtime = py_or (get0 lock ''runtime'') (PDict []);
                  own = concat (map (entry_path \<circ> snd) blocks)
              in map_result (\<lambda>files. dedup (filter (\<lambda>p. p \<noteq> []) (own @ entry_path runtime @ map norm_rel files)))
                   (case runtime of PDict r \<Rightarrow> py_iter (py_or (get0 r ''files'') (PList [])) | _ \<Rightarrow> Inr []))
         | _ \<Rightarrow> Inl AttributeError)
       | Some _ \<Rightarrow> Inl AttributeError))"

definition factory_block_dists :: "tree \<Rightarrow> string list" where
  "factory_block_dists t = (case t ''requirements.txt'' of
       None \<Rightarrow> []
     | Some content \<Rightarrow> (case split_block content ''#'' of
         (_, Some body, _) \<Rightarrow> requirement_dists body
       | (_, None, _) \<Rightarrow> []))"

definition factory_stamped_paths :: "string list \<Rightarrow> string list" where
  "factory_stamped_paths owned = dedup (filter (\<lambda>p. p \<noteq> []) (map norm_text (factory_rendered_paths @ owned)))"

text \<open>The receipt of the tree as it is; \<open>rendered\<close> is the Factory's requirements rendering for it.\<close>

definition record_receipt :: "(string \<Rightarrow> string) \<Rightarrow> string list \<Rightarrow> (tree \<Rightarrow> string) \<Rightarrow> tree \<Rightarrow> py_exn + pyval" where
  "record_receipt sha256 owned rendered t = map_result (\<lambda>vendored.
     PDict [(''schema'', PStr receipt_schema),
       (''files'', PDict (map (\<lambda>p. (p, PStr (file_digest sha256 (the (t p)))))
          (sorted_set (filter (\<lambda>p. t p \<noteq> None) (factory_stamped_paths owned))))),
       (''vendored'', PList (map PStr vendored)),
       (''base_requirements'', PList (map PStr (sorted_set (requirement_dists (rendered t) @ factory_block_dists t))))])
     (vendored_paths t)"

record receipt =
  rc_files :: "(string, string) dict"
  rc_vendored :: "string list"
  rc_base :: "string list"

text \<open>\<open>load_receipt\<close>: None without a readable receipt; a receipt of the wrong shape raises.\<close>

definition load_receipt :: "tree \<Rightarrow> py_exn + receipt option" where
  "load_receipt t = (case t receipt_rel of
       None \<Rightarrow> Inr None
     | Some content \<Rightarrow> (case loads content of
         Some (PDict data) \<Rightarrow>
           (if get0 data ''schema'' \<noteq> PStr receipt_schema then Inr None
            else (case py_or (get0 data ''files'') (PDict []) of
                PDict files \<Rightarrow>
                  bind_result (py_iter (py_or (get0 data ''vendored'') (PList []))) (\<lambda>vs.
                  map_result (\<lambda>ds. Some \<lparr>rc_files = dmerge [] (map (map_prod norm_text py_str) files),
                      rc_vendored = map norm_rel vs, rc_base = map py_str ds\<rparr>)
                    (py_iter (py_or (get0 data ''base_requirements'') (PList []))))
              | _ \<Rightarrow> Inl AttributeError))
       | _ \<Rightarrow> Inr None))"

definition rstrip_slash :: "string \<Rightarrow> string" where
  "rstrip_slash s = rev (dropWhile (\<lambda>c. c = CHR ''/'') (rev s))"

definition is_vendored :: "receipt \<Rightarrow> string \<Rightarrow> bool" where
  "is_vendored rc rel = list_ex (\<lambda>v. rel = v \<or> starts_with rel (rstrip_slash v @ ''/'')) (rc_vendored rc)"

definition file_origin :: "(string \<Rightarrow> string) \<Rightarrow> tree \<Rightarrow> receipt \<Rightarrow> pyval \<Rightarrow> origin" where
  "file_origin sha256 t rc path =
     (let rel = norm_rel path
      in case dget (rc_files rc) rel of
           Some stamped \<Rightarrow>
             (case t rel of
                Some c \<Rightarrow> (if file_digest sha256 c = stamped then factory_origin FactoryFile
                           else factory_origin FactoryFileChanged)
              | None \<Rightarrow> factory_origin FactoryFileChanged)
         | None \<Rightarrow>
            (if is_vendored rc rel then factory_origin Vendored
             else if rel \<noteq> [] \<and> t rel \<noteq> None then writer_origin WriterFile
             else factory_origin NotInTree))"

definition dependency_origin :: "tree \<Rightarrow> receipt \<Rightarrow> pyval \<Rightarrow> origin" where
  "dependency_origin t rc package =
     (let dist = dist_of (text_of package);
          declared = (case t ''requirements.txt'' of None \<Rightarrow> [] | Some c \<Rightarrow> requirement_dists (universal_newlines c))
      in if dist \<in> set (rc_base rc) then factory_origin FactoryDependency
         else if dist \<noteq> [] \<and> dist \<in> set declared then writer_origin WriterDependency
         else factory_origin UndeclaredDependency)"

type_synonym row_dict = "(string, pyval) dict"

definition row_origin :: "(string \<Rightarrow> string) \<Rightarrow> tree \<Rightarrow> receipt option \<Rightarrow> row_dict \<Rightarrow> origin" where
  "row_origin sha256 t rc r = (case rc of
       None \<Rightarrow> factory_origin NoReceipt
     | Some x \<Rightarrow> (if get0 r ''kind'' = PStr ''dependency'' then dependency_origin t x (get0 r ''package'')
                 else file_origin sha256 t x (get0 r ''file'')))"

definition field_text :: "row_dict \<Rightarrow> string \<Rightarrow> string" where
  "field_text r k = py_str (get_or r k (PStr ''?''))"

definition row_text :: "row_dict \<Rightarrow> string" where
  "row_text r =
     (if get0 r ''kind'' = PStr ''dependency''
      then field_text r ''vuln_id'' @ '' '' @ field_text r ''package'' @ ''=='' @ field_text r ''version''
      else field_text r ''test_id'' @ '' '' @ field_text r ''file'' @ '':'' @ field_text r ''line'' @ '' ['' @
        py_upper (text_of (get0 r ''severity'')) @ ''] '' @ py_strip (text_of (get0 r ''text'')))"

definition split_rows ::
  "(string \<Rightarrow> string) \<Rightarrow> tree \<Rightarrow> receipt option \<Rightarrow> row_dict list \<Rightarrow> row_dict list \<times> (row_dict \<times> origin_reason) list" where
  "split_rows sha256 t rc rows =
     (filter (\<lambda>r. or_owner (row_origin sha256 t rc r) = writer_owner) rows,
      map (\<lambda>r. (r, or_reason (row_origin sha256 t rc r)))
        (filter (\<lambda>r. or_owner (row_origin sha256 t rc r) \<noteq> writer_owner) rows))"

end
