(* ===== verification/StoreGate.thy ===== *)
theory StoreGate
  imports Receipt PlatformRefs
begin

text \<open>
  Reading the Store gate (\<open>factory/build/n3_store_gate.py\<close>, first half): the
  \<open>store-gate\<close> commit status of a build's head, the typed artifact of a red run,
  the snapshot and the report they make, the bounded poll, and the target the
  ledger records.  GitHub's answers, the downloaded artifact and the readings of
  the monotonic clock are arguments.
\<close>

section \<open>Snapshots\<close>

record builds_target =
  bt_owner :: string
  bt_repo :: string
  bt_sha :: string
  bt_branch :: string
  bt_session :: string

record store_snapshot =
  sn_state :: string
  sn_description :: string
  sn_passed :: "int option"
  sn_total :: "int option"
  sn_ok :: bool
  sn_missing :: bool
  sn_timeout :: bool
  sn_pending :: bool
  sn_sha :: string
  sn_branch :: string
  sn_detail :: string
  sn_lines :: "acceptance_line list"
  sn_harness_ran :: bool
  sn_unreachable :: bool

definition gate_via :: string where "gate_via = ''github-commit-status:store-gate''"
definition store_gate_context :: string where "store_gate_context = ''store-gate''"

definition blank_snapshot :: store_snapshot where
  "blank_snapshot = \<lparr>sn_state = [], sn_description = [], sn_passed = None, sn_total = None, sn_ok = False,
     sn_missing = True, sn_timeout = False, sn_pending = False, sn_sha = [], sn_branch = [], sn_detail = [],
     sn_lines = [], sn_harness_ran = True, sn_unreachable = False\<rparr>"

definition sn_score :: "store_snapshot \<Rightarrow> string" where
  "sn_score s = (case (sn_passed s, sn_total s) of (Some p, Some t) \<Rightarrow> ratio p t | _ \<Rightarrow> [])"

definition is_12_of_12 :: "store_snapshot \<Rightarrow> bool" where
  "is_12_of_12 s = (\<not> sn_missing s \<and> \<not> sn_timeout s \<and> sn_ok s \<and> sn_state s = ''success'' \<and>
     sn_passed s = Some acceptance_required \<and> sn_total s = Some acceptance_required)"

definition target_snapshot :: "builds_target \<Rightarrow> store_snapshot" where
  "target_snapshot t = blank_snapshot\<lparr>sn_sha := bt_sha t, sn_branch := bt_branch t\<rparr>"

text \<open>\<open>SCORE_RE.search\<close>: digits, a slash with spaces around it, digits.\<close>

fun parse_score :: "string \<Rightarrow> (int \<times> int) option" where
  "parse_score [] = None"
| "parse_score (c # s) =
     (let ds = takeWhile is_digit (c # s); r = dropWhile py_space (drop (length ds) (c # s))
      in if ds \<noteq> [] \<and> r \<noteq> [] \<and> hd r = CHR ''/'' then
           (let es = takeWhile is_digit (dropWhile py_space (tl r))
            in if es \<noteq> [] then Some (int (read_nat ds), int (read_nat es)) else parse_score s)
         else parse_score s)"

section \<open>The artifact of a red run\<close>

definition n3_name_aliases :: "(string \<times> string) list" where
  "n3_name_aliases = [(''ci_present_full_suite'', ''ci_present_and_full_suite''),
     (''authorship==receipt'', ''authorship_floor'')]"

definition factory_check_name :: "string \<Rightarrow> string" where
  "factory_check_name n = (let raw = py_strip n in case dget n3_name_aliases raw of Some a \<Rightarrow> a | None \<Rightarrow> raw)"

definition evidence_cap :: nat where "evidence_cap = 6000"

definition itemised_lines :: "string list \<Rightarrow> acceptance_line list" where
  "itemised_lines bad = map (\<lambda>n. if n \<in> set bad then new_line n ''FAIL'' ''FAIL per the store-gate status''
     else new_line n ''PASS'' ''satisfied (itemised by the store-gate status)'') check_ids"

text \<open>One item of the artifact: a line of the floor, the name of a failed check the floor does not
  know, or nothing.\<close>

datatype artifact_item = FloorLine acceptance_line | UnknownFailed string | NoItem

definition artifact_item :: "pyval \<Rightarrow> py_exn + artifact_item" where
  "artifact_item v = (case v of
       PDict i \<Rightarrow>
         (let name = factory_check_name (text_of (get0 i ''name''))
          in if name \<notin> set check_ids then
               Inr (if name \<noteq> [] \<and> py_upper (text_of (get0 i ''status'')) = ''FAIL'' then UnknownFailed name else NoItem)
             else map_result (\<lambda>rows. FloorLine ((new_line name (py_upper (str_or (get0 i ''status'') ''FAIL''))
                    (text_of (get0 i ''detail'')))\<lparr>al_evidence := take evidence_cap (text_of (get0 i ''evidence'')),
                      al_rows := rows\<rparr>)) (rows_of (get0 i ''evidence_rows'')))
     | _ \<Rightarrow> Inr NoItem)"

text \<open>The first line of each name counts; a repeated name is not even read.\<close>

fun artifact_items :: "string list \<Rightarrow> pyval list \<Rightarrow> py_exn + artifact_item list" where
  "artifact_items seen [] = Inr []"
| "artifact_items seen (v # vs) =
     (let name = (case v of PDict i \<Rightarrow> factory_check_name (text_of (get0 i ''name'')) | _ \<Rightarrow> [])
      in if name \<in> set check_ids \<and> name \<in> set seen then artifact_items seen vs
         else bind_result (artifact_item v) (\<lambda>it.
           map_result ((#) it) (artifact_items (if name \<in> set check_ids then name # seen else seen) vs)))"

definition floor_lines :: "artifact_item list \<Rightarrow> acceptance_line list" where
  "floor_lines its = List.map_filter (\<lambda>i. case i of FloorLine l \<Rightarrow> Some l | _ \<Rightarrow> None) its"

definition unknown_failed :: "artifact_item list \<Rightarrow> string list" where
  "unknown_failed its = List.map_filter (\<lambda>i. case i of UnknownFailed n \<Rightarrow> Some n | _ \<Rightarrow> None) its"

definition report_from_store_gate_payload :: "(string, pyval) dict \<Rightarrow> py_exn + acceptance_report" where
  "report_from_store_gate_payload raw =
     bind_result (py_iter (py_or (get0 raw ''lines'') (PList []))) (\<lambda>vs.
     bind_result (artifact_items [] vs) (\<lambda>its.
       let ordered = ordered_lines not_run ''omitted by the store-gate artifact'' (floor_lines its);
           unknown = unknown_failed its
       in bind_result (py_int (py_or (get0 raw ''passed'') (PInt (count_satisfied ordered)))) (\<lambda>passed.
          map_result (\<lambda>t.
            let tot = max t acceptance_required;
                ok = (truthy (get0 raw ''ok'') \<and> passed \<ge> tot \<and> list_all al_satisfied ordered);
                r = finalize_owners ((new_report passed tot (ok \<and> unknown = []) ordered
                      (py_str (py_or (get0 raw ''detail'') (py_or (get0 raw ''score'') (PStr (ratio passed tot))))))
                      \<lparr>acc_via := str_or (get0 raw ''via'') ''store_gate.json''\<rparr>)
            in r\<lparr>acc_factory_owed := acc_factory_owed r @ filter (\<lambda>n. n \<notin> set (acc_factory_owed r)) unknown\<rparr>)
          (py_int (py_or (get0 raw ''total'') (PInt acceptance_required))))))"

definition report_from_snapshot :: "store_snapshot \<Rightarrow> acceptance_report" where
  "report_from_snapshot s =
     (let base = (\<lambda>passed tot ls d. (new_report passed tot (is_12_of_12 s) ls d)\<lparr>acc_via := gate_via,
                     acc_harness_ran := sn_harness_ran s\<rparr>);
          said = (if sn_detail s \<noteq> [] then sn_detail s else sn_score s)
      in if sn_lines s \<noteq> [] then
           finalize_owners (base (case sn_passed s of Some p \<Rightarrow> p | None \<Rightarrow> 0)
             (case sn_total s of Some t \<Rightarrow> (if t = 0 then acceptance_required else t) | None \<Rightarrow> acceptance_required)
             (sn_lines s) said)
         else
           (let st = (if is_12_of_12 s then ''PASS'' else not_run);
                said1 = (if said \<noteq> [] then said else ''store-gate'');
                d = (if sn_description s \<noteq> [] then sn_description s else said1)
            in finalize_owners ((base (case sn_passed s of Some p \<Rightarrow> p | None \<Rightarrow> 0)
                 (case sn_total s of Some t \<Rightarrow> t | None \<Rightarrow> acceptance_required)
                 (map (\<lambda>n. new_line n st d) check_ids) said1)\<lparr>acc_missing := sn_missing s\<rparr>)))"

section \<open>One read of the status\<close>

text \<open>What a reader of the gate is given: the settings, GitHub, the text of \<open>store_gate.json\<close> in the
  archive at a URL (None when it cannot be downloaded or opened), the clock of the poll.\<close>

record gate_env =
  ge_start :: start_env
  ge_github :: github
  ge_archive :: "string \<Rightarrow> string option"
  ge_clock :: "nat \<Rightarrow> rat"
  ge_sha256 :: "string \<Rightarrow> string"
  ge_modules :: "(string \<times> string option) list"

abbreviation ge_environ :: "gate_env \<Rightarrow> environ" where
  "ge_environ e \<equiv> st_environ (ge_start e)"

definition artifact_name :: "string \<Rightarrow> string" where
  "artifact_name s = store_gate_context @ ''-'' @ s"

text \<open>The lines of one artifact row, None when the search goes on.\<close>

definition row_lines :: "gate_env \<Rightarrow> builds_target \<Rightarrow> pyval \<Rightarrow> (py_exn + acceptance_line list) option" where
  "row_lines e t v = (case v of
       PDict a \<Rightarrow>
         (if truthy (get0 a ''expired'') then None
          else case get0 a ''workflow_run'' of
            PDict run \<Rightarrow>
              (let url = text_of (get0 a ''archive_download_url'')
               in if get0 run ''head_sha'' \<noteq> PStr (bt_sha t) \<or> url = [] then None
                  else case ge_archive e url of
                    None \<Rightarrow> None
                  | Some content \<Rightarrow> (case loads content of
                      Some (PDict p) \<Rightarrow> Some (map_result acc_lines (report_from_store_gate_payload p))
                    | _ \<Rightarrow> None))
          | _ \<Rightarrow> None)
     | _ \<Rightarrow> None)"

fun first_artifact :: "gate_env \<Rightarrow> builds_target \<Rightarrow> pyval list \<Rightarrow> py_exn + acceptance_line list" where
  "first_artifact e t [] = Inr []"
| "first_artifact e t (v # vs) = (case row_lines e t v of None \<Rightarrow> first_artifact e t vs | Some r \<Rightarrow> r)"

definition py_call :: "py_exn + 'a \<Rightarrow> 'a gh_call" where
  "py_call r = (case r of Inl x \<Rightarrow> fail_call (PushPy x) | Inr a \<Rightarrow> return_call a)"

definition artifact_lines :: "gate_env \<Rightarrow> builds_target \<Rightarrow> acceptance_line list gh_call" where
  "artifact_lines e t =
     bind_call (github_request (ge_github e) (ArtifactsOf (bt_owner t) (bt_repo t) (artifact_name (bt_sha t)))) (\<lambda>(st, body).
       if st \<ge> 400 \<or> \<not> is_mapping body then return_call []
       else py_call (bind_result (py_iter (py_or (get0 (dict_of body) ''artifacts'') (PList []))) (first_artifact e t)))"

definition red_states :: "string list" where "red_states = [''failure'', ''error'']"

definition snapshot_from_status ::
  "builds_target \<Rightarrow> string \<Rightarrow> string \<Rightarrow> acceptance_line list gh_call \<Rightarrow> store_snapshot gh_call" where
  "snapshot_from_status t state0 description ask =
     (let state = py_lower (py_strip state0);
          score = parse_score description;
          ran = \<not> (score = None \<and> state \<in> set red_states);
          full = (case score of Some (p, n) \<Rightarrow> p = n | None \<Rightarrow> False);
          lines = (if full then return_call (itemised_lines [])
                   else if score \<noteq> None \<and> state \<in> set red_states then ask else return_call []);
          ok = (state = ''success'' \<and> score = Some (acceptance_required, acceptance_required));
          pending = (state \<in> {''pending'', ''expected''} \<or> (\<not> ok \<and> state \<notin> set red_states \<and> state \<noteq> ''success''))
      in bind_call lines (\<lambda>ls. return_call ((target_snapshot t)\<lparr>sn_state := state, sn_description := description,
           sn_passed := map_option fst score, sn_total := map_option snd score, sn_ok := ok, sn_missing := False,
           sn_pending := (pending \<and> \<not> ok),
           sn_detail := (if description \<noteq> [] then description else ''store-gate '' @ state),
           sn_lines := ls, sn_harness_ran := ran\<rparr>)))"

definition is_gate_status :: "pyval \<Rightarrow> bool" where
  "is_gate_status v = (case v of PDict d \<Rightarrow> py_strip (text_of (get0 d ''context'')) = store_gate_context | _ \<Rightarrow> False)"

definition fetch_store_gate_status :: "gate_env \<Rightarrow> builds_target \<Rightarrow> store_snapshot gh_call" where
  "fetch_store_gate_status e t =
     (if builds_token (ge_environ e) = [] then
        return_call ((target_snapshot t)\<lparr>sn_unreachable := True, sn_detail := ''CEREBRUM_BUILDS_GITHUB_TOKEN missing''\<rparr>)
      else bind_call (github_request (ge_github e) (StatusesOf (bt_owner t) (bt_repo t) (bt_sha t))) (\<lambda>(st, body).
        if st \<ge> 400 then
          return_call ((target_snapshot t)\<lparr>sn_unreachable := (st = 401 \<or> st = 403 \<or> st \<ge> 500),
            sn_detail := ''GitHub statuses HTTP '' @ show_int st\<rparr>)
        else (case find is_gate_status (list_of body) of
            Some (PDict m) \<Rightarrow> snapshot_from_status t (text_of (get0 m ''state'')) (text_of (get0 m ''description''))
                (artifact_lines e t)
          | _ \<Rightarrow> return_call ((target_snapshot t)\<lparr>sn_pending := True, sn_detail := ''store-gate commit status is missing''\<rparr>))))"

section \<open>The bounded poll\<close>

definition n3_poll_s :: "environ \<Rightarrow> rat" where
  "n3_poll_s env = (case env ''FACTORY_N3_POLL_S'' of
       None \<Rightarrow> 15
     | Some raw \<Rightarrow> (if py_strip raw = [] then 15 else case float_of_str raw of Some v \<Rightarrow> max 0 v | None \<Rightarrow> 15))"

definition n3_wall_s :: "environ \<Rightarrow> rat" where
  "n3_wall_s env = (case env ''FACTORY_N3_WALL_S'' of
       None \<Rightarrow> 1800
     | Some raw \<Rightarrow> (if py_strip raw = [] then 1800 else case float_of_str raw of Some v \<Rightarrow> max 0 v | None \<Rightarrow> 1800))"

text \<open>The gate has answered: green, red, or a success that is not the full score.\<close>

definition gate_answered :: "store_snapshot \<Rightarrow> bool" where
  "gate_answered s = (is_12_of_12 s \<or> (\<not> sn_missing s \<and> sn_state s \<in> set red_states) \<or>
     (sn_state s = ''success'' \<and> \<not> is_12_of_12 s))"

definition timed_out :: "store_snapshot \<Rightarrow> store_snapshot" where
  "timed_out s = s\<lparr>sn_timeout := True, sn_pending := False,
     sn_detail := (if sn_detail s \<noteq> [] then sn_detail s @ ''; N3 store-gate poll timed out''
                   else ''N3 store-gate poll timed out'')\<rparr>"

text \<open>The poll from its \<open>k\<close>-th reading of the clock, at most \<open>fuel\<close> reads of the status; None is a poll
  that is still running.\<close>

fun poll :: "gate_env \<Rightarrow> builds_target \<Rightarrow> rat \<Rightarrow> nat \<Rightarrow> nat \<Rightarrow> nat \<Rightarrow> ((push_exn + store_snapshot) \<times> nat) option" where
  "poll e t ending 0 k n = None"
| "poll e t ending (Suc fuel) k n = (case fetch_store_gate_status e t n of
       (Inl x, m) \<Rightarrow> Some (Inl x, m)
     | (Inr s, m) \<Rightarrow>
        (if gate_answered s then Some (Inr s, m)
         else if ending - ge_clock e k \<le> 0 then Some (Inr (timed_out s), m)
         else poll e t ending fuel (Suc k) m))"

definition wait_for_store_gate ::
  "gate_env \<Rightarrow> builds_target \<Rightarrow> rat option \<Rightarrow> nat \<Rightarrow> nat \<Rightarrow> ((push_exn + store_snapshot) \<times> nat) option" where
  "wait_for_store_gate e t wall_s fuel n =
     (let wall = (case wall_s of Some w \<Rightarrow> max 0 w | None \<Rightarrow> n3_wall_s (ge_environ e))
      in poll e t (ge_clock e 0 + wall) fuel 1 n)"

section \<open>The target the ledger records\<close>

definition builds_keys :: "string list" where
  "builds_keys = [''builds_sha'', ''builds_branch'', ''builds_owner'', ''builds_repo'', ''cli_authored_ids'']"

definition take_key :: "(string, pyval) dict \<Rightarrow> (string, pyval) dict \<Rightarrow> string \<Rightarrow> (string, pyval) dict" where
  "take_key blob found k = (if truthy (get0 blob k) then dset k (get0 blob k) found else found)"

definition take_blob :: "(string, pyval) dict \<Rightarrow> (string, pyval) dict \<Rightarrow> (string, pyval) dict" where
  "take_blob found blob =
     foldl (take_key blob) (if truthy (get0 blob ''builds_branch'') then dpop ''builds_sha'' found else found) builds_keys"

definition event_blobs :: "build_event \<Rightarrow> (string, pyval) dict list" where
  "event_blobs e = payload e # (case get0 (payload e) ''cli_pivot'' of PDict d \<Rightarrow> [d] | _ \<Rightarrow> [])"

definition builds_fields :: "build_event list \<Rightarrow> (string, pyval) dict" where
  "builds_fields evs = foldl take_blob [] (concat (map event_blobs evs))"

definition builds_fields_from_ledger :: "ledger_file \<Rightarrow> (string, pyval) dict" where
  "builds_fields_from_ledger f = (case events f of Inl x \<Rightarrow> [] | Inr evs \<Rightarrow> builds_fields evs)"

text \<open>\<open>sid0\<close> is the session id the caller passes, \<open>own\<close> the one of the workspace's path.\<close>

definition resolve_builds_target :: "gate_env \<Rightarrow> ledger_file \<Rightarrow> string \<Rightarrow> string \<Rightarrow> builds_target gh_call" where
  "resolve_builds_target e f sid0 own =
     (if builds_token (ge_environ e) = [] then
        fail_call (PushError True ''CEREBRUM_BUILDS_GITHUB_TOKEN missing - fail-closed; cannot poll store-gate'')
      else case parse_builds_repo (ge_environ e) of
        Inl x \<Rightarrow> fail_call x
      | Inr (owner0, repo0) \<Rightarrow>
          (let rec = builds_fields_from_ledger f;
               s = py_strip (text_of (get0 rec ''builds_sha''));
               branch = py_strip (text_of (get0 rec ''builds_branch''));
               owner = py_strip (str_or (get0 rec ''builds_owner'') owner0);
               repo = py_strip (str_or (get0 rec ''builds_repo'') repo0);
               sid = (if py_strip sid0 = [] then own else py_strip sid0);
               mk = (\<lambda>h b. \<lparr>bt_owner = owner, bt_repo = repo, bt_sha = h, bt_branch = b, bt_session = sid\<rparr>)
           in if s \<noteq> [] then return_call (mk s branch)
              else if branch \<noteq> [] then
                bind_call (fetch_commit_sha (ge_github e) owner repo branch) (\<lambda>h. return_call (mk h branch))
              else (let pid = recorded_platform_id f
                    in if sid = [] \<and> pid = None then
                         fail_call (PushError False ''N3 store-gate: no builds SHA/branch on the ledger, no platform and no session id'')
                       else bind_call (build_refs_of_record (ge_github e) owner repo pid sid) (\<lambda>refs.
                         if refs = [] then fail_call (PushError False (''N3 store-gate: no '' @
                             (case pid of Some p \<Rightarrow> branch_of_record p | None \<Rightarrow> ''build/'' @ sid @ ''-*'') @
                             '' branch on '' @ owner @ ''/'' @ repo))
                         else return_call (mk (snd (last refs)) (fst (last refs)))))))"

definition certification_withdrawn :: "gate_env \<Rightarrow> ledger_file \<Rightarrow> string \<Rightarrow> string option gh_call" where
  "certification_withdrawn e f own n =
     (if builds_token (ge_environ e) = [] then (Inr None, n)
      else case resolve_builds_target e f [] own n of
        (Inl x, m) \<Rightarrow> (Inr None, m)
      | (Inr t, m) \<Rightarrow> (case fetch_store_gate_status e t m of
          (Inl x, k) \<Rightarrow> (Inr None, k)
        | (Inr s, k) \<Rightarrow>
           (if sn_unreachable s \<or> sn_missing s \<or> sn_pending s \<or> sn_state s \<in> {[], ''success'', ''pending''} then (Inr None, k)
            else (Inr (Some (''store-gate certification of '' @ (if bt_branch t \<noteq> [] then bt_branch t else bt_sha t) @
                   '' no longer stands ('' @ sn_state s @ ''): '' @
                   (if sn_description s \<noteq> [] then sn_description s else sn_detail s))), k))))"

end
