(* ===== verification/StoreIngest.thy ===== *)
theory StoreIngest
  imports StoreGate
begin

text \<open>
  Judging the Store gate (\<open>factory/build/n3_store_gate.py\<close>, second half): the
  owners of audit findings and boot crashes read from the build's receipt, the
  verdict on a snapshot written to the ledger, the ingest of a hand-off, the
  withdrawal of a certification, the reseeding of a hand-off, and the waiter
  threads.  The state is the workspace's ledger, its files, the stored report and
  the provenance record; the identity stamp of the package has no counterpart.
\<close>

section \<open>The state\<close>

record gate_space =
  gs_name :: string
  gs_session :: string
  gs_ledger :: ledger_file
  gs_files :: tree
  gs_report :: "acceptance_report option"
  gs_provenance :: "pyval option"

datatype gate_exn = GateLedger ledger_exn | GatePush push_exn | GatePy py_exn | Reseed string

text \<open>An operation runs from the state and the number of the next request to GitHub.\<close>

type_synonym 'a gate_op = "gate_space \<times> nat \<Rightarrow> (gate_exn + 'a) \<times> gate_space \<times> nat"

definition bind_gate :: "'a gate_op \<Rightarrow> ('a \<Rightarrow> 'b gate_op) \<Rightarrow> 'b gate_op" where
  "bind_gate m f s = (case m s of (Inl e, t) \<Rightarrow> (Inl e, t) | (Inr a, t) \<Rightarrow> f a t)"

definition give_gate :: "'a \<Rightarrow> 'a gate_op" where "give_gate a s = (Inr a, s)"
definition stop_gate :: "gate_exn \<Rightarrow> 'a gate_op" where "stop_gate e s = (Inl e, s)"

definition py_gate :: "py_exn + 'a \<Rightarrow> 'a gate_op" where
  "py_gate r = (case r of Inl x \<Rightarrow> stop_gate (GatePy x) | Inr a \<Rightarrow> give_gate a)"

definition call_gate :: "'a gh_call \<Rightarrow> 'a gate_op" where
  "call_gate c = (\<lambda>(g, n). case c n of (Inl x, m) \<Rightarrow> (Inl (GatePush x), g, m) | (Inr a, m) \<Rightarrow> (Inr a, g, m))"

definition space_gate :: "(gate_space \<Rightarrow> gate_space) \<Rightarrow> unit gate_op" where
  "space_gate h = (\<lambda>(g, n). (Inr (), h g, n))"

definition look :: "(gate_space \<Rightarrow> 'a) \<Rightarrow> 'a gate_op" where
  "look h = (\<lambda>(g, n). (Inr (h g), g, n))"

definition ledger_gate :: "ledger_write \<Rightarrow> unit gate_op" where
  "ledger_gate w = (\<lambda>(g, n). case w (gs_ledger g) of
       (Some x, f) \<Rightarrow> (Inl (GateLedger x), g\<lparr>gs_ledger := f\<rparr>, n)
     | (None, f) \<Rightarrow> (Inr (), g\<lparr>gs_ledger := f\<rparr>, n))"

text \<open>A ledger that does not exist yet is started first.\<close>

definition started_run :: "gate_env \<Rightarrow> string \<Rightarrow> string \<Rightarrow> ledger_write" where
  "started_run e pid hash f =
     (if contents f \<noteq> None then (None, f)
      else case bind_result (events f) (\<lambda>evs. start_run (st_clock (ge_start e) (next_seq evs)) pid hash f) of
        Inl x \<Rightarrow> (Some x, f) | Inr (ev, g) \<Rightarrow> (None, g))"

definition gate_log :: "gate_env \<Rightarrow> event_kind \<Rightarrow> string \<Rightarrow> (string, pyval) dict \<Rightarrow> ledger_write" where
  "gate_log e k d p = log_event (ge_start e) k (Some STORE_MANAGER) d p"

definition write_after_start :: "gate_env \<Rightarrow> ledger_write list \<Rightarrow> unit gate_op" where
  "write_after_start e ws =
     bind_gate (look gs_name) (\<lambda>name. ledger_gate (run_writes (started_run e name ''n3_store_gate'' # ws)))"

section \<open>Owners by the receipt\<close>

record advisory_note =
  an_check :: string
  an_reason :: string
  an_findings :: "string list"

definition reason_audit_factory_origin :: string where
  "reason_audit_factory_origin = ''audit findings only in Factory substrate (by the build's factory receipt)''"

definition reason_audit_no_rows :: string where
  "reason_audit_no_rows =
     ''the gate attached no typed findings to this audit line: origin unknown, a Factory fault''"

definition advisory_line :: "string \<Rightarrow> acceptance_line \<Rightarrow> acceptance_line" where
  "advisory_line why l = l\<lparr>al_owner := factory_owner, al_status := ''SKIP'', al_detail := ''advisory: '' @ why\<rparr>"

definition row_lines_text :: "row_dict list \<Rightarrow> string" where
  "row_lines_text rows = take evidence_cap (join [CHR 0x0A] (map row_text rows))"

definition split_audit_line ::
  "(string \<Rightarrow> string) \<Rightarrow> tree \<Rightarrow> receipt option \<Rightarrow> acceptance_line \<Rightarrow> acceptance_line \<times> advisory_note list" where
  "split_audit_line sha256 t rc l =
     (if al_name l \<notin> set audit_check_ids \<or> \<not> al_failed l then (l, [])
      else if al_rows l = [] then
        (advisory_line reason_audit_no_rows l,
         [\<lparr>an_check = al_name l, an_reason = reason_audit_no_rows, an_findings = []\<rparr>])
      else (case split_rows sha256 t rc (al_rows l) of (writer, factory) \<Rightarrow>
        ((if writer \<noteq> [] then l\<lparr>al_owner := product_owner, al_rows := writer, al_evidence := row_lines_text writer\<rparr>
          else advisory_line reason_audit_factory_origin l),
         (if factory \<noteq> [] then [\<lparr>an_check = al_name l,
             an_reason = join ''; '' (sorted_set (map (reason_text \<circ> snd) factory)),
             an_findings = map (row_text \<circ> fst) factory\<rparr>] else []))))"

definition split_audit_by_origin ::
  "(string \<Rightarrow> string) \<Rightarrow> tree \<Rightarrow> receipt option \<Rightarrow> acceptance_report \<Rightarrow> acceptance_report \<times> advisory_note list" where
  "split_audit_by_origin sha256 t rc r =
     (let parts = map (split_audit_line sha256 t rc) (acc_lines r);
          r1 = finalize_owners (r\<lparr>acc_lines := map fst parts\<rparr>)
      in (if list_ex (\<lambda>l. al_name l \<in> set audit_check_ids \<and> al_failed l) (acc_lines r)
          then r1\<lparr>acc_passed := count_satisfied (acc_lines r1),
                 acc_ok := (acc_harness_ran r \<and> list_all al_satisfied (acc_lines r1))\<rparr>
          else r,
          concat (map snd parts)))"

definition split_image_line ::
  "(string \<Rightarrow> string) \<Rightarrow> tree \<Rightarrow> receipt option \<Rightarrow> acceptance_line \<Rightarrow> acceptance_line \<times> string list" where
  "split_image_line sha256 t rc l =
     (let rows = filter (\<lambda>r. get0 r ''kind'' = PStr ''boot_crash'') (al_rows l);
          writer = filter (\<lambda>r. or_owner (row_origin sha256 t rc r) = writer_owner) rows
      in if al_name l \<notin> set image_check_ids \<or> \<not> al_failed l \<or> rows = [] then (l, [])
         else if writer \<noteq> [] then (l\<lparr>al_owner := product_owner, al_evidence := row_lines_text writer\<rparr>, [])
         else (l\<lparr>al_owner := factory_owner\<rparr>, [al_name l]))"

text \<open>The owners set on the lines take effect in the score when a line moved to the Factory.\<close>

definition split_image_by_origin ::
  "(string \<Rightarrow> string) \<Rightarrow> tree \<Rightarrow> receipt option \<Rightarrow> acceptance_report \<Rightarrow> acceptance_report \<times> string list" where
  "split_image_by_origin sha256 t rc r =
     (let parts = map (split_image_line sha256 t rc) (acc_lines r); moved = concat (map snd parts);
          r0 = r\<lparr>acc_lines := map fst parts\<rparr>; r1 = finalize_owners r0
      in (if moved \<noteq> [] then r1\<lparr>acc_passed := count_satisfied (acc_lines r1)\<rparr> else r0, moved))"

definition note_json :: "advisory_note \<Rightarrow> pyval" where
  "note_json a = PDict [(''check'', PStr (an_check a)), (''reason'', PStr (an_reason a)),
     (''findings'', PList (map PStr (an_findings a)))]"

definition record_audit_advisory :: "gate_env \<Rightarrow> advisory_note list \<Rightarrow> unit gate_op" where
  "record_audit_advisory e notes =
     (if notes = [] then give_gate ()
      else write_after_start e [gate_log e NOTE
        (''GATE ADVISORY: '' @ join '', '' (map (\<lambda>a. an_check a @ '' ('' @ an_reason a @ '')'') notes))
        [(''gate_advisory'', PList (map note_json notes)), (''gate'', PStr gate_name),
         (''factory_owed'', PList (map (PStr \<circ> an_check) notes))]])"

section \<open>The verdict on the ledger\<close>

definition cli_authored_ids :: "ledger_file \<Rightarrow> py_exn + string list" where
  "cli_authored_ids f = (case py_or (get0 (builds_fields_from_ledger f) ''cli_authored_ids'') (PList []) of
       PStr s \<Rightarrow> Inr (if py_strip s = [] then [] else [s])
     | v \<Rightarrow> map_result (\<lambda>xs. filter (\<lambda>s. s \<noteq> []) (map (py_strip \<circ> py_str) xs)) (py_iter v))"

definition persist_cli_authorship :: "string list \<Rightarrow> unit gate_op" where
  "persist_cli_authorship ids =
     (if ids = [] then give_gate ()
      else space_gate (\<lambda>g.
        let doc = (case gs_provenance g of Some (PDict d) \<Rightarrow> d | _ \<Rightarrow> []);
            dispatch = dset ''cli_authored_ids'' (PList (map PStr ids)) (dict_of (get0 doc ''brief_dispatch''));
            n = get0 dispatch ''n_required'';
            unset = (n = PNone \<or> n = PStr [] \<or> n = PInt 0 \<or> n = PBool False \<or> n = PFloat ''0.0'' \<or> n = PFloat ''-0.0'');
            dispatch1 = (if unset then dset ''n_required'' (PInt (int (length ids))) dispatch else dispatch)
        in g\<lparr>gs_provenance := Some (PDict (dset ''brief_dispatch'' (PDict dispatch1) doc))\<rparr>))"

definition three_gate_pilot_detail :: string where
  "three_gate_pilot_detail = join ''; ''
     [''CODE PASS - the code-phase suite (pytest -m '' @ [CHR 0x22] @ ''not pilot'' @ [CHR 0x22] @
        '') - imports, routes, handlers'',
      ''PRODUCT PASS - post-boot: the pilot-marked tests against the booted product, and a one-record round-trip per capability (POST creates, GET returns it)'',
      ''STORE PASS - scripts/acceptance.py (>=12 measured checks) inside the Store-built Docker image - k/k required; restart-survival of the booted store; authorship floor is not acceptance'']"

definition green_word :: string where "green_word = ''N3_STORE_GATE_GREEN''"

definition success_green :: "store_snapshot \<Rightarrow> acceptance_report option \<Rightarrow> acceptance_report \<Rightarrow> bool" where
  "success_green s split_report r = ((is_12_of_12 s \<and> acc_ok r) \<or>
     (split_report \<noteq> None \<and> \<not> sn_missing s \<and> \<not> sn_timeout s \<and> acc_harness_ran r \<and> acc_ok r))"

definition apply_store_gate_success :: "gate_env \<Rightarrow> store_snapshot \<Rightarrow> acceptance_report option \<Rightarrow> unit gate_op" where
  "apply_store_gate_success e s split_report =
     (let r = (case split_report of Some r \<Rightarrow> r | None \<Rightarrow> report_from_snapshot s)
      in if \<not> success_green s split_report r then
           stop_gate (GatePush (PushError False (''refuse N3 SUCCESS: store-gate is not 12/12 ok=true (score='' @
             py_repr_str (sn_score s) @ '' state='' @ py_repr_str (sn_state s) @ '')'')))
         else
           bind_gate (space_gate (\<lambda>g. g\<lparr>gs_report := Some r\<rparr>)) (\<lambda>_.
           bind_gate (bind_gate (look (\<lambda>g. cli_authored_ids (gs_ledger g))) py_gate) (\<lambda>ids.
           bind_gate (persist_cli_authorship ids) (\<lambda>_.
           write_after_start e
             [gate_log e GATE_PASSED (''STORE (n3 store-gate): '' @ sn_score s @ '' on '' @ take 12 (sn_sha s))
                [(''gate'', PStr gate_name), (''via'', PStr gate_via), (''score'', PStr (sn_score s)),
                 (''builds_sha'', PStr (sn_sha s)), (''builds_branch'', PStr (sn_branch s)), (''honesty'', PStr green_word)],
              gate_log e RUN_SUCCEEDED three_gate_pilot_detail
                [(''outcome'', PStr ''SUCCESS''), (''cycle'', PStr ''pilot''), (''pilot_ready'', PBool True),
                 (''honesty'', PStr green_word), (''green'', PBool True), (''via'', PStr gate_via),
                 (''score'', PStr (sn_score s)), (''builds_sha'', PStr (sn_sha s)),
                 (''builds_branch'', PStr (sn_branch s)), (''cli_authored_ids'', PList (map PStr ids))]]))))"

definition product_failed :: "acceptance_report \<Rightarrow> acceptance_line list" where
  "product_failed r = filter (\<lambda>l. al_owner l = product_owner \<and> al_failed l) (acc_lines r)"

definition or_missing :: "string \<Rightarrow> string" where "or_missing s = (if s = [] then ''missing'' else s)"

definition plain_failure_detail :: "store_snapshot \<Rightarrow> string" where
  "plain_failure_detail s = (if sn_detail s \<noteq> [] then sn_detail s
     else ''store-gate '' @ or_missing (sn_state s) @ '' '' @ sn_score s)"

definition product_failure_detail :: "store_snapshot \<Rightarrow> acceptance_report \<Rightarrow> string" where
  "product_failure_detail s r =
     (let bad = map al_name (product_failed r)
      in if sn_lines s = [] then plain_failure_detail s @
           '' (the store-gate status did not itemise which check failed; the workflow on this branch predates the itemised status)''
         else ''store-gate '' @ sn_score s @ '': your product failed '' @ show_nat (length bad) @ '' of the '' @
           show_nat (acc_product_total r) @ '' checks it owns: '' @ join '', '' bad @
           (if acc_factory_owed r = [] then [] else
              ''; the factory separately owes its own: '' @ join '', '' (acc_factory_owed r) @ '' (not yours)''))"

definition verdict_fields :: "store_snapshot \<Rightarrow> string \<Rightarrow> string \<Rightarrow> (string, pyval) dict" where
  "verdict_fields s honesty nxt = [(''outcome'', PStr ''FAILED_GATE''), (''cycle'', PStr ''code''), (''pilot_ready'', PBool False),
     (''honesty'', PStr honesty), (''green'', PBool False), (''next'', PStr nxt)]"

definition target_fields :: "store_snapshot \<Rightarrow> (string, pyval) dict" where
  "target_fields s = [(''score'', PStr (sn_score s)), (''builds_sha'', PStr (sn_sha s)),
     (''builds_branch'', PStr (sn_branch s)), (''state'', PStr (sn_state s))]"

text \<open>A dictionary keyed by the line's name: a later line of the same name replaces the value.\<close>

definition by_line :: "(acceptance_line \<Rightarrow> string) \<Rightarrow> acceptance_line list \<Rightarrow> pyval" where
  "by_line h ls = PDict (dmerge [] (map (\<lambda>l. (al_name l, PStr (h l))) ls))"

definition owned_fields :: "acceptance_report \<Rightarrow> (string, pyval) dict" where
  "owned_fields r = [(''failure_owner'', PStr product_owner), (''product_score'', PStr (product_score r)),
     (''factory_owed'', PList (map PStr (acc_factory_owed r))),
     (''product_failed'', PList (map (PStr \<circ> al_name) (product_failed r))),
     (''product_failed_detail'', by_line al_detail (product_failed r)),
     (''product_failed_evidence'', by_line al_evidence (filter (\<lambda>l. al_evidence l \<noteq> []) (product_failed r)))]"

definition apply_store_gate_failure ::
  "gate_env \<Rightarrow> store_snapshot \<Rightarrow> string \<Rightarrow> acceptance_report option \<Rightarrow> unit gate_op" where
  "apply_store_gate_failure e s honesty split_report =
     write_after_start e [gate_log e RUN_FAILED
       (case split_report of None \<Rightarrow> plain_failure_detail s | Some r \<Rightarrow> product_failure_detail s r)
       (verdict_fields s honesty ''n3_gate'' @ target_fields s @
        (case split_report of None \<Rightarrow> [] | Some r \<Rightarrow> owned_fields r))]"

definition factory_owed_word :: string where "factory_owed_word = ''N3_STORE_GATE_FACTORY_OWED''"

definition factory_owed_parts :: "gate_env \<Rightarrow> acceptance_report \<Rightarrow> string list \<times> string \<times> string" where
  "factory_owed_parts e r =
     (if \<not> acc_harness_ran r then
        ([''store_gate_workflow''], store_gate_path,
         ''store-gate did not run: the Factory's own workflow ('' @ store_gate_path @
         '') failed before scoring, so no product check was measured. This is a Factory defect, not your product. No rework; do not re-run until the Factory fix is live.'')
      else
        (let owed = acc_factory_owed r;
             gen = generator_location (ge_modules e) (''check_'' @ hd owed) ''store_acceptance.py''
         in (owed, gen, ''store-gate: your product passed '' @ product_score r @
              '' of the checks it owns. The Factory failed '' @ show_nat (length owed) @ '' of its own ('' @
              join '', '' owed @ '') -- a Factory defect, not your product. No rework; do not re-run until the Factory fix is live ('' @
              gen @ '').'')))"

definition apply_store_gate_factory_owed :: "gate_env \<Rightarrow> store_snapshot \<Rightarrow> acceptance_report \<Rightarrow> string gate_op" where
  "apply_store_gate_factory_owed e s r =
     (case factory_owed_parts e r of (owed, gen, d) \<Rightarrow>
        bind_gate (write_after_start e []) (\<lambda>_.
        bind_gate (space_gate (\<lambda>g. g\<lparr>gs_report := Some (r\<lparr>acc_detail := d\<rparr>)\<rparr>)) (\<lambda>_.
        bind_gate (ledger_gate (gate_log e RUN_FAILED d
          (verdict_fields s factory_owed_word ''factory_fix'' @
           [(''rework'', PBool False), (''failure_owner'', PStr factory_owner),
            (''factory_owed'', PList (map PStr owed)), (''generator'', PStr gen),
            (''product_score'', PStr (product_score r)), (''product_ok'', PBool (product_ok r)),
            (''harness_ran'', PBool (acc_harness_ran r))] @ target_fields s))) (\<lambda>_. give_gate d))))"

definition failure_honesty :: "store_snapshot \<Rightarrow> string" where
  "failure_honesty s =
     (if sn_timeout s then ''N3_STORE_GATE_TIMEOUT''
      else if sn_missing s \<and> sn_state s = [] then ''N3_STORE_GATE_MISSING''
      else ''N3_STORE_GATE_FAILED'')"

section \<open>The work items of a product-owned failure\<close>

text \<open>\<open>brief\<close> gives the floor file's line for a check; the marks around the command are grave accents.\<close>

definition evidence_in_item :: nat where "evidence_in_item = 1500"

definition what_to_build :: "(string \<Rightarrow> string) \<Rightarrow> string \<Rightarrow> string" where
  "what_to_build brief cid =
     (if cid \<in> set check_ids then
        (let line = brief cid; prefix = ''- '' @ cid @ '':''
         in py_strip (if starts_with line prefix then drop (length prefix) line else line))
      else [])"

definition store_rework_item :: "(string \<Rightarrow> string) \<Rightarrow> string \<Rightarrow> string \<Rightarrow> string \<Rightarrow> string" where
  "store_rework_item brief cid d evidence =
     ''['' @ cid @ ''] Store gate FAIL'' @
     (if py_strip d = [] then [] else '': '' @ py_strip d) @
     (if what_to_build brief cid = [] then [] else ''. Build: '' @ what_to_build brief cid) @
     (if py_strip evidence = [] then [] else ''. Gate evidence (tail): '' @ last_n evidence_in_item (py_strip evidence)) @
     '' (re-check: '' @ [CHR 0x60] @ ''python scripts/acceptance.py --self-check'' @ [CHR 0x60] @ '')''"

definition store_gate_verdict :: "(string \<Rightarrow> string) \<Rightarrow> (string, pyval) dict \<Rightarrow> verdict option" where
  "store_gate_verdict brief p =
     (let bad = filter (\<lambda>c. py_strip c \<noteq> []) (strs_of (get0 p ''product_failed''));
          field = (\<lambda>k c. text_of (get0 (dict_of (get0 p k)) c))
      in if get0 p ''failure_owner'' \<noteq> PStr product_owner \<or> bad = [] then None
         else Some (gate_result False gate_name
           (''store-gate '' @ text_of (get0 p ''score'') @ '': product failed '' @ join '', '' bad)
           ''store_gate_failed''
           (map (\<lambda>c. Plain (store_rework_item brief c (field ''product_failed_detail'' c) (field ''product_failed_evidence'' c))) bad)
           [(''check'', PStr gate_name), (''finding_checks'', PList (map PStr bad))]))"

section \<open>Ingesting\<close>

record ingest_result =
  ir_honesty :: string
  ir_ok :: bool
  ir_pending :: bool
  ir_already :: bool
  ir_detail :: string
  ir_snapshot :: "store_snapshot option"

definition ingest_result :: "string \<Rightarrow> bool \<Rightarrow> string \<Rightarrow> store_snapshot option \<Rightarrow> ingest_result" where
  "ingest_result h ok d s = \<lparr>ir_honesty = h, ir_ok = ok, ir_pending = False, ir_already = False, ir_detail = d, ir_snapshot = s\<rparr>"

definition split_by_receipt ::
  "gate_env \<Rightarrow> store_snapshot \<Rightarrow> acceptance_report \<Rightarrow> (acceptance_report \<times> advisory_note list) gate_op" where
  "split_by_receipt e s r =
     (if \<not> (acc_harness_ran r \<and> \<not> sn_timeout s \<and> \<not> sn_missing s) then give_gate (r, [])
      else bind_gate (look gs_files) (\<lambda>t.
           bind_gate (py_gate (load_receipt t)) (\<lambda>rc.
             give_gate (split_audit_by_origin (ge_sha256 e) t rc (fst (split_image_by_origin (ge_sha256 e) t rc r))))))"

definition ingest_store_gate_snapshot :: "gate_env \<Rightarrow> store_snapshot \<Rightarrow> ingest_result gate_op" where
  "ingest_store_gate_snapshot e s =
     bind_gate (split_by_receipt e s (report_from_snapshot s)) (\<lambda>(r, notes).
     bind_gate (record_audit_advisory e notes) (\<lambda>_.
       if notes \<noteq> [] \<and> acc_ok r then
         bind_gate (apply_store_gate_success e s (Some r)) (\<lambda>_.
           give_gate (ingest_result green_word True
             (''ingested store-gate '' @ sn_score s @ '' on '' @ take 12 (sn_sha s) @ ''; advisory: '' @
               join '', '' (map an_check notes)) (Some s)))
       else if \<not> sn_timeout s \<and> \<not> sn_missing s \<and>
          (\<not> acc_harness_ran r \<or> (product_ok r \<and> acc_factory_owed r \<noteq> [])) then
         bind_gate (apply_store_gate_factory_owed e s r) (\<lambda>d.
           give_gate (ingest_result factory_owed_word False d (Some s)))
       else
         bind_gate (apply_store_gate_failure e s (failure_honesty s) (Some r)) (\<lambda>_.
           give_gate (ingest_result (failure_honesty s) False (product_failure_detail s r) (Some s)))))"

definition still_waiting :: "string \<Rightarrow> store_snapshot option \<Rightarrow> ingest_result" where
  "still_waiting d s = (ingest_result handoff_word False d s)\<lparr>ir_pending := True\<rparr>"

definition judge_snapshot :: "gate_env \<Rightarrow> bool \<Rightarrow> store_snapshot \<Rightarrow> ingest_result gate_op" where
  "judge_snapshot e wait s =
     (if is_12_of_12 s then
        bind_gate (apply_store_gate_success e s None) (\<lambda>_.
          give_gate (ingest_result green_word True (''ingested store-gate '' @ sn_score s @ '' on '' @ take 12 (sn_sha s)) (Some s)))
      else if sn_pending s \<and> \<not> wait then
        give_gate (still_waiting (if sn_detail s \<noteq> [] then sn_detail s else ''store-gate still pending'') (Some s))
      else if (sn_missing s \<or> sn_timeout s) \<and> sn_unreachable s then
        give_gate (still_waiting (''store-gate not reachable, still waiting: '' @ sn_detail s) (Some s))
      else ingest_store_gate_snapshot e s)"

text \<open>The last honesty word on the ledger that is not empty.\<close>

definition last_honesty :: "ledger_file \<Rightarrow> string" where
  "last_honesty f = (case events f of
       Inl x \<Rightarrow> []
     | Inr evs \<Rightarrow> foldl (\<lambda>h ev. if event_honesty ev \<noteq> [] then event_honesty ev else h) [] evs)"

definition recorded_green :: "ledger_file \<Rightarrow> bool" where
  "recorded_green f = (contents f \<noteq> None \<and> (case events f of Inl x \<Rightarrow> False | Inr evs \<Rightarrow> succeeded evs \<and> pilot_ready evs))"

definition not_awaiting :: "ledger_file \<Rightarrow> ingest_result" where
  "not_awaiting f =
     (if recorded_green f then
        (ingest_result green_word True ''N3 store-gate already ingested (pilot_ready)'' None)\<lparr>ir_already := True\<rparr>
      else if contents f \<noteq> None \<and> last_honesty f \<in> set n3_fail_honesty then
        ingest_result (last_honesty f) False ''N3 store-gate already failed-closed'' None
      else ingest_result handoff_word False ''no HANDOFF_TO_N3 awaiting N3 on this workspace'' None)"

text \<open>The ingest; a poll that is still running after \<open>fuel\<close> reads has no answer yet (None).\<close>

definition read_gate ::
  "gate_env \<Rightarrow> bool \<Rightarrow> nat \<Rightarrow> builds_target \<Rightarrow> nat \<Rightarrow> ((push_exn + store_snapshot) \<times> nat) option" where
  "read_gate e wait fuel t n = (if wait then wait_for_store_gate e t None fuel n else Some (fetch_store_gate_status e t n))"

definition ingest_n3_store_gate ::
  "gate_env \<Rightarrow> bool \<Rightarrow> nat \<Rightarrow> string \<Rightarrow> gate_space \<times> nat \<Rightarrow> ((gate_exn + ingest_result) \<times> gate_space \<times> nat) option" where
  "ingest_n3_store_gate e wait fuel sid s =
     (let g = fst s
      in if \<not> handoff_awaiting_n3 (gs_ledger g) then Some (Inr (not_awaiting (gs_ledger g)), s)
         else case resolve_builds_target e (gs_ledger g) sid (gs_session g) (snd s) of
           (Inl (PushPy x), m) \<Rightarrow> Some (Inl (GatePy x), g, m)
         | (Inl (PushError u msg), m) \<Rightarrow>
             (if u then Some (Inr (still_waiting (''store-gate not reachable, still waiting: '' @ msg) None), g, m)
              else Some (bind_gate
                (apply_store_gate_failure e (blank_snapshot\<lparr>sn_detail := msg\<rparr>) ''N3_STORE_GATE_MISSING'' None)
                (\<lambda>_. give_gate (ingest_result ''N3_STORE_GATE_MISSING'' False msg (Some (blank_snapshot\<lparr>sn_detail := msg\<rparr>))))
                (g, m)))
         | (Inr t, m) \<Rightarrow>
             map_option (\<lambda>r. case r of
                 (Inl x, k) \<Rightarrow> (Inl (GatePush x), g, k)
               | (Inr snap, k) \<Rightarrow> judge_snapshot e wait snap (g, k))
               (read_gate e wait fuel t m))"

section \<open>Withdrawing a certification\<close>

definition withdrawn_word :: string where "withdrawn_word = ''N3_CERTIFICATION_WITHDRAWN''"

definition record_certification_withdrawn :: "gate_env \<Rightarrow> string \<Rightarrow> bool gate_op" where
  "record_certification_withdrawn e why =
     bind_gate (look gs_ledger) (\<lambda>f. case (contents f, events f) of
         (None, _) \<Rightarrow> give_gate False
       | (Some c, Inl x) \<Rightarrow> stop_gate (GateLedger x)
       | (Some c, Inr evs) \<Rightarrow>
           (if \<not> succeeded evs then give_gate False
            else bind_gate (ledger_gate (run_writes
              [gate_log e GATE_FAILED (withdrawn_word @ '': '' @ why)
                 [(''honesty'', PStr withdrawn_word), (''check'', PStr store_gate_context)],
               gate_log e RUN_FAILED (withdrawn_word @ '': '' @ why)
                 [(''outcome'', PStr ''FAILED_GATE''), (''honesty'', PStr withdrawn_word),
                  (''pilot_ready'', PBool False), (''green'', PBool False)]])) (\<lambda>_. give_gate True)))"

section \<open>Reseeding a hand-off\<close>

record reseed_request =
  rr_sha :: string
  rr_branch :: string
  rr_ids :: "string list"
  rr_owner :: string
  rr_repo :: string
  rr_product :: string
  rr_hash :: string

definition or_default :: "string \<Rightarrow> string \<Rightarrow> string" where
  "or_default s d = (if py_strip s = [] then d else py_strip s)"

definition handoff_fields :: "reseed_request \<Rightarrow> string list \<Rightarrow> (string, pyval) dict" where
  "handoff_fields q ids = [(''cli_authored_ids'', PList (map PStr ids)), (''builds_sha'', PStr (py_strip (rr_sha q))),
     (''builds_branch'', PStr (py_strip (rr_branch q))), (''builds_owner'', PStr (or_default (rr_owner q) ''bopoadz-del'')),
     (''builds_repo'', PStr (or_default (rr_repo q) ''cerebrum-builds'')), (''via'', PStr ''n3_handoff_reseed'')]"

definition seed_writes :: "gate_env \<Rightarrow> string \<Rightarrow> string \<Rightarrow> ledger_write list" where
  "seed_writes e pid hash = started_run e pid hash #
     concat (map (\<lambda>r. [log_event (ge_start e) PHASE_STARTED (Some r) (role_value r) [],
       log_event (ge_start e) GATE_PASSED (Some r) ''ok'' [(''gate'', PStr ''seed''), (''via'', PStr ''n3_handoff_reseed'')]])
       [COLLECTOR, CLONER])"

definition handoff_detail :: string where "handoff_detail = ''HANDOFF_TO_N3: store-gate next''"

definition handoff_writes :: "gate_env \<Rightarrow> reseed_request \<Rightarrow> string list \<Rightarrow> ledger_write list" where
  "handoff_writes e q ids =
     [log_event (ge_start e) NOTE (Some WRITER) handoff_detail
        ([(''honesty'', PStr handoff_word), (''seam'', PStr ''cli_pivot''), (''next'', PStr ''n3_gate''),
          (''green'', PBool False)] @ handoff_fields q ids),
      log_event (ge_start e) RUN_FAILED (Some WRITER) handoff_detail
        ([(''outcome'', PStr handoff_word), (''honesty'', PStr handoff_word), (''next'', PStr ''n3_gate''),
          (''green'', PBool False), (''cycle'', PStr ''code''), (''pilot_ready'', PBool False)] @ handoff_fields q ids)]"

text \<open>Answers whether a hand-off was stamped.\<close>

definition reseed_handoff_ledger :: "gate_env \<Rightarrow> reseed_request \<Rightarrow> bool gate_op" where
  "reseed_handoff_ledger e q =
     (let ids = filter (\<lambda>s. s \<noteq> []) (map py_strip (rr_ids q))
      in if py_strip (rr_sha q) = [] \<or> py_strip (rr_branch q) = [] then
           stop_gate (Reseed ''n3_reseed requires builds_sha and builds_branch'')
         else if ids = [] then stop_gate (Reseed ''n3_reseed requires non-empty cli_authored_ids'')
         else bind_gate (look gs_ledger) (\<lambda>f.
           if handoff_awaiting_n3 f then give_gate False
           else if recorded_green f then
             stop_gate (Reseed ''N3 store-gate already ingested (pilot_ready) - refuse reseed'')
           else if contents f \<noteq> None \<and>
               (case events f of Inl x \<Rightarrow> False | Inr evs \<Rightarrow> list_ex (\<lambda>ev. event_honesty ev = green_word) evs) then
             stop_gate (Reseed ''N3_STORE_GATE_GREEN already on ledger - refuse reseed'')
           else bind_gate (look gs_name) (\<lambda>name.
             let pid0 = (if rr_product q \<noteq> [] then rr_product q else if name \<noteq> [] then name else ''product'');
                 pid = or_default pid0 ''product''
             in bind_gate (ledger_gate (run_writes ((if contents f = None then seed_writes e pid (rr_hash q) else []) @
                  handoff_writes e q ids))) (\<lambda>_.
                bind_gate (persist_cli_authorship ids) (\<lambda>_.
                bind_gate (look (\<lambda>g. handoff_awaiting_n3 (gs_ledger g))) (\<lambda>ok.
                  if ok then give_gate True
                  else stop_gate (Reseed ''reseed stamped but handoff_awaiting_n3 is still false - refuse'')))))))"

section \<open>The waiter threads\<close>

text \<open>The registry maps a workspace to its thread; threads are numbered, \<open>alive\<close> is the threading
  library's answer.\<close>

type_synonym waiters = "(string, nat) dict"

definition live_waiter :: "(nat \<Rightarrow> bool) \<Rightarrow> waiters \<Rightarrow> string \<Rightarrow> nat option" where
  "live_waiter alive ws k = (case dget ws k of Some i \<Rightarrow> (if alive i then Some i else None) | None \<Rightarrow> None)"

definition start_n3_ingest_job :: "(nat \<Rightarrow> bool) \<Rightarrow> nat \<Rightarrow> string \<Rightarrow> waiters \<Rightarrow> bool \<times> waiters" where
  "start_n3_ingest_job alive fresh k ws =
     (if live_waiter alive ws k \<noteq> None then (False, ws) else (True, dset k fresh ws))"

definition enter_wait :: "(nat \<Rightarrow> bool) \<Rightarrow> nat \<Rightarrow> string \<Rightarrow> waiters \<Rightarrow> bool \<times> waiters" where
  "enter_wait alive me k ws = (case live_waiter alive ws k of
       Some i \<Rightarrow> (if i \<noteq> me then (False, ws) else (True, dset k me ws))
     | None \<Rightarrow> (True, dset k me ws))"

definition leave_wait :: "nat \<Rightarrow> string \<Rightarrow> waiters \<Rightarrow> waiters" where
  "leave_wait me k ws = (if dget ws k = Some me then dpop k ws else ws)"

end
