(* ===== verification/AcceptanceFacts.thy ===== *)
theory AcceptanceFacts
  imports Receipt
begin

text \<open>
  What holds of the acceptance report: its shape, the records a full score needs,
  what reading a stored report gives back, and the paths a failure detail names.
\<close>

section \<open>The shape of a report\<close>

definition owned :: "acceptance_line \<Rightarrow> bool" where
  "owned l = (al_owner l = factory_owner \<or> al_owner l = product_owner)"

text \<open>One line per check of the floor in its order, each with an owner; the product's score is exactly the
  count of its satisfied lines among its lines, what the Factory owes is exactly its failed lines, and
  the report is ok only when every line is satisfied.\<close>

definition report_type :: "acceptance_report \<Rightarrow> bool" where
  "report_type r = (map al_name (acc_lines r) = check_ids \<and> list_all owned (acc_lines r) \<and>
     acc_product_total r = length (filter (\<lambda>l. al_owner l = product_owner) (acc_lines r)) \<and>
     acc_product_passed r = length (filter (\<lambda>l. al_owner l = product_owner \<and> al_satisfied l) (acc_lines r)) \<and>
     acc_factory_owed r = map al_name (filter (\<lambda>l. al_owner l = factory_owner \<and> al_failed l) (acc_lines r)) \<and>
     (acc_ok r \<longrightarrow> list_all al_satisfied (acc_lines r)))"

lemma owner_of_owned: "owner_of c d = factory_owner \<or> owner_of c d = product_owner"
  by (simp add: owner_of_def)

lemma owners_differ [simp]: "factory_owner \<noteq> product_owner" "factory_owner \<noteq> []" "product_owner \<noteq> []"
  by (simp_all add: factory_owner_def product_owner_def)

lemma stamp_owner_simps [simp]:
  "al_name (stamp_owner l) = al_name l" "al_status (stamp_owner l) = al_status l" "al_detail (stamp_owner l) = al_detail l"
  "al_evidence (stamp_owner l) = al_evidence l" "al_rows (stamp_owner l) = al_rows l"
  "al_satisfied (stamp_owner l) = al_satisfied l" "al_failed (stamp_owner l) = al_failed l"
  by (simp_all add: stamp_owner_def al_satisfied_def al_failed_def)

lemma stamp_owned: "al_owner l = [] \<or> owned l \<Longrightarrow> owned (stamp_owner l)"
  using owner_of_owned by (auto simp: stamp_owner_def owned_def)

lemma finalize_simps [simp]:
  "acc_lines (finalize_owners r) = map stamp_owner (acc_lines r)" "acc_passed (finalize_owners r) = acc_passed r"
  "acc_total (finalize_owners r) = acc_total r" "acc_ok (finalize_owners r) = acc_ok r"
  "acc_missing (finalize_owners r) = acc_missing r" "acc_via (finalize_owners r) = acc_via r"
  "acc_detail (finalize_owners r) = acc_detail r" "acc_harness_ran (finalize_owners r) = acc_harness_ran r"
  by (simp_all add: finalize_owners_def Let_def)

lemma satisfied_stamped [simp]: "list_all al_satisfied (map stamp_owner ls) = list_all al_satisfied ls"
  by (simp add: list_all_iff)

lemma count_filters: "length (filter P xs) + length (filter Q (filter (\<lambda>x. \<not> P x) xs)) \<le> length xs"
  by (induction xs) auto

lemma finalize_scores:
  "acc_product_total (finalize_owners r) = length (filter (\<lambda>l. \<not> factory_line l) (map stamp_owner (acc_lines r)))"
  "acc_product_passed (finalize_owners r) =
     length (filter al_satisfied (filter (\<lambda>l. \<not> factory_line l) (map stamp_owner (acc_lines r))))"
  "acc_factory_owed (finalize_owners r) = map al_name (filter al_failed (filter factory_line (map stamp_owner (acc_lines r))))"
  by (simp_all add: finalize_owners_def Let_def)

lemma report_type_finalize:
  assumes "map al_name (acc_lines r) = check_ids" and "list_all (\<lambda>l. al_owner l = [] \<or> owned l) (acc_lines r)"
    and "acc_ok r \<longrightarrow> list_all al_satisfied (acc_lines r)"
  shows "report_type (finalize_owners r)"
proof -
  let ?ls = "map stamp_owner (acc_lines r)"
  have o: "list_all owned ?ls" using assms(2) by (auto simp: list_all_iff stamp_owned)
  have p: "filter (\<lambda>l. \<not> factory_line l) ?ls = filter (\<lambda>l. al_owner l = product_owner) ?ls"
    using o by (intro filter_cong) (auto simp: list_all_iff owned_def factory_line_def)
  have f: "filter al_failed (filter factory_line ?ls) = filter (\<lambda>l. al_owner l = factory_owner \<and> al_failed l) ?ls"
    by (auto simp: factory_line_def intro: filter_cong)
  have m: "map al_name ?ls = check_ids" using assms(1) by (simp add: comp_def)
  have c: "filter al_satisfied (filter (\<lambda>l. al_owner l = product_owner) ?ls)
      = filter (\<lambda>l. al_owner l = product_owner \<and> al_satisfied l) ?ls"
    by (auto intro: filter_cong)
  have k: "acc_ok r \<longrightarrow> list_all al_satisfied ?ls" using assms(3) by (simp only: satisfied_stamped)
  show ?thesis
    unfolding report_type_def finalize_scores finalize_simps p f c using o m k by blast
qed

lemma find_found: "find P xs = Some x \<Longrightarrow> x \<in> set xs \<and> P x"
  by (auto simp: find_Some_iff)

lemma line_for_cases: "line_for ls l0 = l0 \<or> (line_for ls l0 \<in> set ls \<and> al_name (line_for ls l0) = al_name l0)"
  by (auto simp: line_for_def find_last_def dest: find_found split: option.splits)

lemma line_for_name [simp]: "al_name (line_for ls l0) = al_name l0"
  using line_for_cases[of ls l0] by auto

lemma ordered_names [simp]: "map al_name (ordered_lines st d ls) = check_ids"
  by (simp add: ordered_lines_def comp_def new_line_def)

lemma ordered_plain:
  "list_all (\<lambda>l. al_owner l = []) ls \<Longrightarrow> list_all (\<lambda>l. al_owner l = [] \<or> owned l) (ordered_lines st d ls)"
  unfolding ordered_lines_def list_all_iff by (auto simp: new_line_def) (metis line_for_cases acceptance_line.select_convs(4))

lemma new_report_simps [simp]:
  "acc_lines (new_report p t ok ls d) = ls" "acc_ok (new_report p t ok ls d) = ok" "acc_passed (new_report p t ok ls d) = p"
  "acc_total (new_report p t ok ls d) = t" "acc_missing (new_report p t ok ls d) = False"
  "acc_harness_ran (new_report p t ok ls d) = True"
  by (simp_all add: new_report_def)

lemma new_line_simps [simp]: "al_name (new_line n s d) = n" "al_status (new_line n s d) = s" "al_owner (new_line n s d) = []"
  "al_detail (new_line n s d) = d" "al_evidence (new_line n s d) = []" "al_rows (new_line n s d) = []"
  by (simp_all add: new_line_def)

lemma parsed_type: "list_all (\<lambda>l. al_owner l = []) ls \<Longrightarrow> report_type (parsed_report ls t)"
  unfolding parsed_report_def Let_def by (rule report_type_finalize) (auto simp: ordered_plain)

lemma record_line_plain: "record_line seen d = Some l \<Longrightarrow> al_owner l = []"
  by (auto simp: record_line_def Let_def split: pyval.splits if_splits prod.splits)

lemma parse_records_plain:
  "parse_records ds st = Inr st' \<Longrightarrow> list_all (\<lambda>l. al_owner l = []) (fst st) \<Longrightarrow> list_all (\<lambda>l. al_owner l = []) (fst st')"
proof (induction ds arbitrary: st)
  case (Cons d ds)
  then obtain st1 where st1: "parse_step d st = Inr st1" "parse_records ds st1 = Inr st'" by (auto simp: result_simps)
  have "list_all (\<lambda>l. al_owner l = []) (fst st1)"
    using st1(1) Cons.prems(2) by (auto simp: parse_step_def split: pyval.splits option.splits sum.splits if_splits dest: record_line_plain)
  then show ?case using Cons.IH st1(2) by blast
qed simp

lemma parse_output_parts:
  "parse_acceptance_output out = Inr r \<longleftrightarrow>
     (\<exists>ls t. parse_records (harness_records out) ([], acceptance_required) = Inr (ls, t) \<and> r = parsed_report ls t)"
  by (auto simp: parse_acceptance_output_def result_simps)

lemma parse_output_type: "parse_acceptance_output out = Inr r \<Longrightarrow> report_type r"
  using parse_records_plain[of "harness_records out" "([], acceptance_required)"] by (auto simp: parse_output_parts parsed_type)

lemma stored_line_plain: "stored_line v = Inr (Some l) \<Longrightarrow> al_owner l = []"
  by (auto simp: stored_line_def Let_def result_simps split: pyval.splits if_splits)

lemma map_res_members: "map_res f xs = Inr ys \<Longrightarrow> y \<in> set ys \<Longrightarrow> \<exists>x\<in>set xs. f x = Inr y"
  by (induction xs arbitrary: ys) (auto split: sum.splits)

lemma stored_lines_plain:
  assumes "map_res stored_line vs = Inr found" shows "list_all (\<lambda>l. al_owner l = []) (List.map_filter id found)"
  using map_res_members[OF assms] stored_line_plain by (fastforce simp: list_all_iff map_filter_def)

lemma from_lines_type:
  assumes "report_from_lines raw ls = Inr r" and "list_all (\<lambda>l. al_owner l = []) ls"
  shows "report_type r"
proof -
  let ?o = "ordered_lines ''FAIL'' ''omitted'' ls"
  have "\<exists>q. r = finalize_owners q \<and> acc_lines q = ?o \<and> (acc_ok q \<longrightarrow> list_all al_satisfied ?o)"
    using assms(1) unfolding report_from_lines_def Let_def result_simps
    by (elim exE conjE) (rule exI, rule conjI, erule sym, simp)
  then obtain q where "r = finalize_owners q" "acc_lines q = ?o" "acc_ok q \<longrightarrow> list_all al_satisfied ?o" by blast
  then show ?thesis using report_type_finalize[of q] ordered_plain[OF assms(2)] by simp
qed

text \<open>A report that was never measured: no line has an owner, none is satisfied, nothing is scored or owed.\<close>

lemma missing_report_fields:
  "map al_name (acc_lines (missing_report d)) = check_ids" "\<not> acc_ok (missing_report d)" "acc_missing (missing_report d)"
  "list_all (\<lambda>l. al_failed l \<and> al_owner l = []) (acc_lines (missing_report d))"
  by (simp_all add: missing_report_def comp_def list_all_iff) (simp_all add: al_failed_def al_satisfied_def not_run_def)



section \<open>What a full score needs\<close>

text \<open>A record that counts for a check: a status it knows, under the check's name, in an object that is not the
  total; and the status it gives the check.\<close>

definition counts_for :: "string \<Rightarrow> (string, pyval) dict \<Rightarrow> bool" where
  "counts_for c d = (case (get0 d total_key, get0 d record_key) of
       (PDict x, _) \<Rightarrow> False
     | (_, PDict i) \<Rightarrow> text_of (get0 i ''name'') = c \<and> py_upper (text_of (get0 i ''status'')) \<in> set statuses
     | _ \<Rightarrow> False)"

definition status_in :: "(string, pyval) dict \<Rightarrow> string" where
  "status_in d = py_upper (text_of (get0 (dict_of (get0 d record_key)) ''status''))"

definition check_met :: "(string, pyval) dict list \<Rightarrow> string \<Rightarrow> bool" where
  "check_met recs c = (case find (counts_for c) recs of
       None \<Rightarrow> False
     | Some d \<Rightarrow> status_in d \<in> {''PASS'', ''SKIP''} \<or> c \<in> set acceptance_advisory)"

lemma record_line_Some:
  assumes "record_line seen d = Some l"
  obtains i st dd where "get0 d record_key = PDict i" "py_upper (text_of (get0 i ''status'')) \<in> set statuses"
    "text_of (get0 i ''name'') = al_name l" "al_name l \<notin> set seen"
    "demote_if_advisory (al_name l) (py_upper (text_of (get0 i ''status''))) (py_strip (text_of (get0 i ''detail''))) = (st, dd)"
    "al_status l = st"
proof (cases "get0 d record_key")
  case (PDict i)
  let ?n = "text_of (get0 i ''name'')" and ?s = "py_upper (text_of (get0 i ''status''))"
  obtain st dd where dm: "demote_if_advisory ?n ?s (py_strip (text_of (get0 i ''detail''))) = (st, dd)" by fastforce
  have "?s \<in> set statuses" "?n \<notin> set seen" "l = new_line ?n st dd"
    using assms PDict dm by (simp_all add: record_line_def Let_def split: if_splits)
  then show ?thesis using that PDict dm by simp
qed (use assms in \<open>simp_all add: record_line_def\<close>)

lemma parse_step_new:
  assumes "parse_step d st = Inr st'"
  shows "fst st' = fst st \<or> ((\<forall>x. get0 d total_key \<noteq> PDict x) \<and>
    (\<exists>l. record_line (map al_name (fst st)) d = Some l \<and> fst st' = fst st @ [l]))"
  using assms by (cases "get0 d total_key") (auto simp: parse_step_def split: option.splits sum.splits if_splits)

lemma demoted_satisfied:
  assumes "demote_if_advisory n s dt = (st, dd)" "st = ''PASS'' \<or> st = ''SKIP''"
  shows "s = ''PASS'' \<or> s = ''SKIP'' \<or> n \<in> set acceptance_advisory"
  using assms by (simp only: demote_if_advisory_def split: if_splits) auto

lemma record_line_counts:
  assumes "parse_step d st = Inr st'" and "l \<in> set (fst st')" and "l \<notin> set (fst st)"
  shows "counts_for (al_name l) d" and "al_name l \<notin> set (map al_name (fst st))"
    and "al_satisfied l \<Longrightarrow> status_in d \<in> {''PASS'', ''SKIP''} \<or> al_name l \<in> set acceptance_advisory"
proof -
  have t: "\<forall>x. get0 d total_key \<noteq> PDict x" and r: "record_line (map al_name (fst st)) d = Some l"
    using parse_step_new[OF assms(1)] assms(2,3) by auto
  obtain i q dd where i: "get0 d record_key = PDict i" "py_upper (text_of (get0 i ''status'')) \<in> set statuses"
    "text_of (get0 i ''name'') = al_name l" "al_name l \<notin> set (map al_name (fst st))"
    "demote_if_advisory (al_name l) (py_upper (text_of (get0 i ''status''))) (py_strip (text_of (get0 i ''detail''))) = (q, dd)"
    "al_status l = q"
    using record_line_Some[OF r] by blast
  show "counts_for (al_name l) d" using t i(1,2,3) by (cases "get0 d total_key") (simp_all add: counts_for_def)
  show "al_name l \<notin> set (map al_name (fst st))" by (rule i(4))
  show "al_satisfied l \<Longrightarrow> status_in d \<in> {''PASS'', ''SKIP''} \<or> al_name l \<in> set acceptance_advisory"
    using demoted_satisfied[OF i(5)] i(1,6) by (simp add: status_in_def dict_of_def al_satisfied_def)
qed

lemma kept_lines: "parse_step d st = Inr st' \<Longrightarrow> set (fst st) \<subseteq> set (fst st')"
  using parse_step_new by fastforce

lemma counts_forE:
  assumes "counts_for c d"
  obtains i where "get0 d record_key = PDict i" "text_of (get0 i ''name'') = c" "py_upper (text_of (get0 i ''status'')) \<in> set statuses"
    "\<And>x. get0 d total_key \<noteq> PDict x"
  using assms unfolding counts_for_def by (cases "get0 d total_key"; cases "get0 d record_key") auto

lemma uncounted:
  assumes "parse_step d st = Inr st'" and "counts_for c d" and "c \<in> set check_ids"
  shows "c \<in> set (map al_name (fst st'))"
proof -
  obtain i where i: "get0 d record_key = PDict i" "text_of (get0 i ''name'') = c"
    "py_upper (text_of (get0 i ''status'')) \<in> set statuses" "\<And>x. get0 d total_key \<noteq> PDict x"
    using assms(2) by (rule counts_forE) blast
  have n: "parse_step d st = (case record_line (map al_name (fst st)) d of None \<Rightarrow> Inr st | Some l \<Rightarrow> Inr (fst st @ [l], snd st))"
    using i(4) unfolding parse_step_def by (cases "get0 d total_key") auto
  show ?thesis
  proof (cases "record_line (map al_name (fst st)) d")
    case None
    then have "c \<in> set (map al_name (fst st))"
      using i(1-3) assms(3) by (simp add: record_line_def Let_def split: if_splits prod.splits)
    then show ?thesis using n None assms(1) by simp
  next
    case (Some l)
    then have "al_name l = c" using i(1,2) by (auto simp: record_line_def Let_def split: if_splits prod.splits)
    then show ?thesis using n Some assms(1) by auto
  qed
qed

lemma new_names:
  "parse_records ds st = Inr st' \<Longrightarrow> l \<in> set (fst st') \<Longrightarrow> l \<notin> set (fst st) \<Longrightarrow> al_name l \<notin> set (map al_name (fst st))"
proof (induction ds arbitrary: st)
  case (Cons d ds)
  then obtain st1 where st1: "parse_step d st = Inr st1" "parse_records ds st1 = Inr st'" by (auto simp: result_simps)
  show ?case
  proof (cases "l \<in> set (fst st1)")
    case True
    then show ?thesis using record_line_counts(2)[OF st1(1)] Cons.prems by blast
  next
    case False
    then show ?thesis using Cons.IH[OF st1(2) Cons.prems(2)] kept_lines[OF st1(1)] by auto
  qed
qed simp

lemma parse_records_first:
  assumes "parse_records ds st = Inr st'" and "l \<in> set (fst st')" and "l \<notin> set (fst st)"
    and "al_satisfied l" and "al_name l \<in> set check_ids"
  shows "check_met ds (al_name l)"
  using assms
proof (induction ds arbitrary: st)
  case (Cons d ds)
  then obtain st1 where st1: "parse_step d st = Inr st1" "parse_records ds st1 = Inr st'" by (auto simp: result_simps)
  show ?case
  proof (cases "l \<in> set (fst st1)")
    case True
    then show ?thesis using record_line_counts[OF st1(1) True] Cons.prems by (simp add: check_met_def)
  next
    case False
    have "al_name l \<notin> set (map al_name (fst st1))" using new_names[OF st1(2) Cons.prems(2) False] .
    then have "\<not> counts_for (al_name l) d" using uncounted[OF st1(1)] Cons.prems by blast
    then show ?thesis using Cons.IH[OF st1(2) Cons.prems(2) False Cons.prems(4,5)] by (simp add: check_met_def)
  qed
qed simp

lemma kk_parts: "acceptance_is_kk r \<Longrightarrow> acc_ok r \<and> \<not> acc_missing r"
  by (simp add: acceptance_is_kk_def)

lemma parsed_ok: "acc_ok (parsed_report ls t) \<Longrightarrow> list_all al_satisfied (ordered_lines ''FAIL'' ''harness omitted this line'' ls)"
  by (simp add: parsed_report_def Let_def)

lemma kk_output:
  assumes "parse_acceptance_output out = Inr r" and "acc_ok r" and "c \<in> set check_ids"
  shows "check_met (harness_records out) c"
proof -
  obtain ls t where ls: "parse_records (harness_records out) ([], acceptance_required) = Inr (ls, t)" "r = parsed_report ls t"
    using assms(1) by (auto simp: parse_output_parts)
  let ?l = "line_for ls (new_line c ''FAIL'' ''harness omitted this line'')"
  have sat: "al_satisfied ?l" using parsed_ok assms(2,3) ls(2) by (auto simp: ordered_lines_def list_all_iff)
  have "?l \<in> set ls"
    using line_for_cases[of ls "new_line c ''FAIL'' ''harness omitted this line''"] sat by (auto simp: al_satisfied_def new_line_def)
  then show ?thesis using parse_records_first[OF ls(1), of ?l] sat assms(3) by simp
qed

text \<open>Property C24. The acceptance gate passes a build only when the image was built and started and the harness run in
  it printed, for every check of the floor, a record whose first status that counts is PASS or SKIP; only the checks
  that are advisory with no brief may say FAIL.  A check the harness does not mention fails the gate.\<close>

theorem gate_needs_every_check:
  assumes "gate_store_acceptance w = Inr (v, r)" and "v_ok v"
  shows "dk_script w \<and> dk_available w \<and> da_code (dk_build w) = 0 \<and> da_code (dk_start w) = 0 \<and>
    (let a = dk_harness w (probe_health (dk_probe w) 8 0 ''000'')
     in list_all (check_met (harness_records (da_out a @ [CHR 0x0A] @ da_err a))) check_ids)"
proof -
  have v [simp]: "v_ok (gate_result ok g d rs xs p) = ok" for ok g d rs xs p by (simp add: gate_result_def)
  have st [simp]: "v_ok (fst (stopped_gate a b c d)) = False" for a b c d by (simp add: stopped_gate_def Let_def)
  have no: "stopped_gate a b c d \<noteq> (v, r)" for a b c d using st[of a b c d] assms(2) by (cases "stopped_gate a b c d") auto
  have w: "dk_script w" "dk_available w" "da_code (dk_build w) = 0" "da_code (dk_start w) = 0"
    using assms(1) no by (auto simp: gate_store_acceptance_def Let_def split: if_splits)
  let ?a = "dk_harness w (probe_health (dk_probe w) 8 0 ''000'')"
  obtain r0 where "parse_acceptance_output (da_out ?a @ [CHR 0x0A] @ da_err ?a) = Inr r0" "acc_ok r0"
    using assms w
    by (auto simp: gate_store_acceptance_def Let_def result_simps acceptance_is_kk_def split: if_splits)
  then show ?thesis using w kk_output by (simp add: Let_def list_all_iff)
qed


section \<open>Paths in a detail\<close>

lemma name_with_ext_prefix: "name_with_ext k s = Some m \<Longrightarrow> k > 0 \<and> (\<exists>j. m = take (Suc j) s)"
proof (induction k)
  case (Suc k)
  show ?case
  proof (cases "find (\<lambda>e. starts_with (drop (Suc k) s) (''.'' @ e)) extensions")
    case (Some e)
    then have "m = take (Suc (k + 1 + length e)) s" using Suc.prems by simp
    then show ?thesis by blast
  qed (use Suc in simp)
qed simp

lemma path_match_head:
  assumes "path_match s = Some m" shows "m \<noteq> [] \<and> seg_char (hd m)"
proof -
  let ?g = "takeWhile seg_char s"
  have seg: "seg_char (hd ?g)" if "?g \<noteq> []"
    using that by (metis hd_in_set set_takeWhileD)
  have here: "m' \<noteq> [] \<and> seg_char (hd m')" if h: "name_with_ext (length ?g) s = Some m'" for m'
  proof -
    obtain j where j: "length ?g > 0" "m' = take (Suc j) s" using name_with_ext_prefix[OF h] by blast
    then obtain c t where "s = c # t" "seg_char c" by (cases s) (auto split: if_splits)
    then show ?thesis using j(2) by simp
  qed
  show ?thesis
    using assms seg here by (subst (asm) path_match.simps) (auto simp: Let_def split: if_splits option.splits)
qed

lemma seg_char_facts: "seg_char c \<Longrightarrow> c \<noteq> CHR ''/'' \<and> c \<noteq> backslash \<and> \<not> py_space c"
  unfolding seg_char_def ascii_alnum_def py_space_def Let_def by (elim disjE) auto

lemma paths_in_heads: "p \<in> set (paths_in prev s) \<Longrightarrow> p \<noteq> [] \<and> seg_char (hd p)"
  by (induction prev s rule: paths_in.induct) (auto split: option.splits if_splits dest: path_match_head)


lemma relative_path_parts:
  assumes "p \<noteq> []" "seg_char (hd p)" shows "\<not> fst (path_parts p)"
proof -
  obtain c t where p: "p = c # t" "seg_char c" using assms by (cases p) auto
  have h: "replace_char backslash (CHR ''/'') p = c # replace_char backslash (CHR ''/'') t"
    using p seg_char_facts[OF p(2)] by (simp add: replace_char_def)
  have "py_strip (c # x) \<noteq> [] \<and> hd (py_strip (c # x)) = c" for x
    using seg_char_facts[OF p(2)] dropWhile_append3[of py_space c "rev x" "[]"]
    by (simp add: py_strip_def dropWhile_append)
  from this[of "replace_char backslash (CHR ''/'') t"] show ?thesis
    using h seg_char_facts[OF p(2)] by (cases "py_strip (c # replace_char backslash (CHR ''/'') t)") (auto simp: path_parts_def Let_def)
qed

text \<open>A path found in a failure detail is never absolute: the search drops the leading slash, so the
  rule that recognises a Factory file by the end of an absolute path never applies to a detail.\<close>

theorem detail_paths_are_relative:
  "list_all (\<lambda>p. p \<noteq> [] \<and> \<not> fst (path_parts p)) (paths_in_detail d)"
  using paths_in_heads relative_path_parts by (auto simp: paths_in_detail_def list_all_iff)

text \<open>So a crash in \<open>/work/app/tenancy.py\<close>, a file the Factory renders, is billed to the product.\<close>

lemma absolute_path_billed_to_product:
  "factory_rendered ''/work/app/tenancy.py'' factory_rendered_paths"
  "owner_of ''docker_health_200'' ''boot: /work/app/tenancy.py line 3'' = product_owner"
  by code_simp+

section \<open>Reading a stored report\<close>

definition without_owner :: "acceptance_line \<Rightarrow> acceptance_line" where
  "without_owner l = l\<lparr>al_owner := []\<rparr>"

text \<open>A report as the parser or the gate's ingest stores it.\<close>

definition storable :: "acceptance_report \<Rightarrow> bool" where
  "storable r = (map al_name (acc_lines r) = check_ids \<and>
     list_all (\<lambda>l. al_status l \<noteq> [] \<and> py_upper (al_status l) = al_status l) (acc_lines r) \<and>
     (acc_passed r = 0 \<longrightarrow> count_satisfied (acc_lines r) = 0) \<and> acc_total r \<ge> acceptance_required \<and>
     (acc_ok r \<longrightarrow> acc_passed r \<ge> acc_total r \<and> list_all al_satisfied (acc_lines r)) \<and>
     acc_detail r \<noteq> [] \<and> acc_via r \<noteq> [])"

lemma text_str [simp]: "text_of (PStr s) = s" "str_or (PStr s) d = (if s = [] then d else s)"
  by (simp_all add: str_or_def py_or_def py_str_def)

lemma rows_of_list: "rows_of (PList (map PDict rows)) = Inr rows"
  by (simp add: rows_of_def py_or_def py_iter_def map_filter_def comp_def)

lemma stored_line_json:
  assumes "al_name l \<in> set check_ids" "al_status l \<noteq> []" "py_upper (al_status l) = al_status l"
  shows "stored_line (line_json l) = Inr (Some (without_owner l))"
proof -
  define i where "i = dict_of (line_json l)"
  have i: "line_json l = PDict i" "get0 i ''name'' = PStr (al_name l)" "get0 i ''status'' = PStr (al_status l)"
    "get0 i ''detail'' = PStr (al_detail l)" "get0 i ''evidence'' = PStr (al_evidence l)"
    "get0 i ''evidence_rows'' = PList (map PDict (al_rows l))"
    by (simp_all add: i_def line_json_def dict_of_def get_or_def)
  have "(new_line (al_name l) (al_status l) (al_detail l))\<lparr>al_evidence := al_evidence l, al_rows := al_rows l\<rparr> = without_owner l"
    by (cases l) (simp add: new_line_def without_owner_def)
  then show ?thesis
    unfolding stored_line_def i(1) using assms by (simp add: i(2-) Let_def rows_of_list)
qed

lemma distinct_checks: "distinct check_ids" and checks_exist: "check_ids \<noteq> []"
  by code_simp+

lemma ordered_same:
  assumes "map al_name ls = check_ids" shows "ordered_lines st d ls = ls"
proof -
  have "line_for ls (new_line (al_name l) st d) = l" if "l \<in> set ls" for l
  proof -
    have "find_last (\<lambda>k. al_name k = al_name l) ls \<noteq> None" using that by (auto simp: find_last_def find_None_iff)
    then obtain k where k: "find_last (\<lambda>k. al_name k = al_name l) ls = Some k" by blast
    then have "k \<in> set ls" "al_name k = al_name l" by (auto simp: find_last_def dest: find_found)
    then have "k = l" using distinct_checks assms that by (metis distinct_map inj_on_eq_iff)
    then show ?thesis using k by (simp add: line_for_def)
  qed
  then show ?thesis unfolding ordered_lines_def assms [symmetric] by (simp add: map_idI)
qed

lemma map_res_all_map: "(\<And>x. x \<in> set xs \<Longrightarrow> f (h x) = Inr (g x)) \<Longrightarrow> map_res f (map h xs) = Inr (map g xs)"
  by (induction xs) auto

text \<open>Reading a stored report gives back what was stored - every line with its status, detail, evidence
  and rows, the score, the verdict and the flags - except the owners: they are worked out again from the checks'
  subjects and the details, so an owner the gate's ingest found from the build's receipt is not kept.\<close>

theorem stored_report_reads_back:
  assumes "storable r"
  shows "report_from_mapping (report_json r) =
    Inr (finalize_owners (r\<lparr>acc_lines := map without_owner (acc_lines r)\<rparr>))"
proof -
  define raw where "raw = report_json r"
  let ?ls = "map without_owner (acc_lines r)"
  have raw: "get0 raw ''lines'' = PList (map line_json (acc_lines r))" "get0 raw ''passed'' = PInt (acc_passed r)"
    "get0 raw ''total'' = PInt (acc_total r)" "get0 raw ''ok'' = PBool (acc_ok r)" "get0 raw ''missing'' = PBool (acc_missing r)"
    "get0 raw ''via'' = PStr (acc_via r)" "get0 raw ''detail'' = PStr (acc_detail r)"
    "get0 raw ''harness_ran'' = PBool (acc_harness_ran r)"
    by (simp_all add: raw_def report_json_def get_or_def)
  have named: "map al_name (acc_lines r) = check_ids"
    and stat: "list_all (\<lambda>l. al_status l \<noteq> [] \<and> py_upper (al_status l) = al_status l) (acc_lines r)"
    and score: "acc_passed r = 0 \<longrightarrow> count_satisfied (acc_lines r) = 0" "acc_total r \<ge> acceptance_required"
    and verdict: "acc_ok r \<longrightarrow> acc_passed r \<ge> acc_total r \<and> list_all al_satisfied (acc_lines r)"
    and said: "acc_detail r \<noteq> []" "acc_via r \<noteq> []"
    using assms by (simp_all add: storable_def)
  have names: "map al_name ?ls = check_ids" and ne: "?ls \<noteq> []"
    using named checks_exist by (auto simp: without_owner_def comp_def)
  have lines: "map_res stored_line (map line_json (acc_lines r)) = Inr (map Some ?ls)"
  proof -
    have "stored_line (line_json l) = Inr (Some (without_owner l))" if "l \<in> set (acc_lines r)" for l
    proof (rule stored_line_json)
      show "al_name l \<in> set check_ids" using named that by (metis image_eqI list.set_map)
      show "al_status l \<noteq> []" "py_upper (al_status l) = al_status l" using stat that by (simp_all add: list_all_iff)
    qed
    then show ?thesis using map_res_all_map[of "acc_lines r" stored_line line_json "Some \<circ> without_owner"] by simp
  qed
  have w: "al_satisfied (without_owner l) = al_satisfied l" for l by (simp add: without_owner_def al_satisfied_def)
  have sat: "list_all al_satisfied ?ls = list_all al_satisfied (acc_lines r)" "count_satisfied ?ls = count_satisfied (acc_lines r)"
    by (simp_all add: list_all_iff count_satisfied_def filter_map comp_def w)
  have mf: "List.map_filter id (map Some ?ls) = ?ls" by (simp add: map_filter_def comp_def)
  have int: "acceptance_required \<noteq> 0" "max (acc_total r) acceptance_required = acc_total r" "acc_total r \<noteq> 0"
    using score checks_exist by (auto simp: acceptance_required_def)
  have "report_from_lines raw ?ls = Inr (finalize_owners (r\<lparr>acc_lines := ?ls\<rparr>))"
  proof -
    have p: "py_int (py_or (PInt (acc_passed r)) (PInt (count_satisfied ?ls))) = Inr (acc_passed r)"
      using score(1) by (simp add: py_or_def py_int_def sat)
    have t: "py_int (py_or (PInt (acc_total r)) (PInt acceptance_required)) = Inr (acc_total r)"
      using int(3) by (simp add: py_or_def py_int_def)
    have k: "(acc_ok r \<and> acc_passed r \<ge> acc_total r \<and> list_all al_satisfied ?ls) = acc_ok r"
      using verdict unfolding sat by blast
    have "finalize_owners ((new_report (acc_passed r) (acc_total r) (acc_ok r) ?ls (acc_detail r))\<lparr>acc_missing := acc_missing r,
        acc_via := acc_via r, acc_harness_ran := acc_harness_ran r\<rparr>) = finalize_owners (r\<lparr>acc_lines := ?ls\<rparr>)"
      by (cases r) (simp add: finalize_owners_def Let_def new_report_def)
    then show ?thesis
      unfolding report_from_lines_def raw(2-) ordered_same[OF names] Let_def p t bind_result.simps map_result.simps int(2)
      using said by (simp only: truthy.simps k text_str if_False pyval.inject)
        simp
  qed
  moreover have "py_or (PList (map line_json (acc_lines r))) (PList []) = PList (map line_json (acc_lines r))"
    by (simp add: py_or_def)
  ultimately show ?thesis
    unfolding report_from_mapping_def raw_def [symmetric] raw(1)
    using ne lines mf by (simp add: py_iter_def Let_def)
qed


section \<open>Witnesses\<close>

text \<open>An image whose harness prints a record for each check.\<close>

definition demo_line :: "string \<Rightarrow> string" where
  "demo_line c = ''{'' @ [CHR 0x22] @ ''acceptance_record'' @ [CHR 0x22] @ '':{'' @ [CHR 0x22] @ ''name'' @ [CHR 0x22] @ '':'' @
     [CHR 0x22] @ c @ [CHR 0x22] @ '','' @ [CHR 0x22] @ ''status'' @ [CHR 0x22] @ '':'' @ [CHR 0x22] @ ''PASS'' @ [CHR 0x22] @ ''}}''"

definition demo_record :: "string \<Rightarrow> (string, pyval) dict" where
  "demo_record c = [(''acceptance_record'', PDict [(''name'', PStr c), (''status'', PStr ''PASS'')])]"

definition demo_output :: string where
  "demo_output = concat (map (\<lambda>c. demo_line c @ [CHR 0x0A]) check_ids)"

definition demo_docker :: docker_world where
  "demo_docker = \<lparr>dk_script = True, dk_available = True, dk_build = \<lparr>da_code = 0, da_out = [], da_err = []\<rparr>,
     dk_start = \<lparr>da_code = 0, da_out = [], da_err = []\<rparr>, dk_probe = (\<lambda>i. \<lparr>da_code = 0, da_out = ''200'', da_err = []\<rparr>),
     dk_harness = (\<lambda>code. \<lparr>da_code = 0, da_out = demo_output, da_err = []\<rparr>)\<rparr>"

lemma demo_check_chars: "list_all (list_all (\<lambda>c. c = CHR ''_'' \<or> ascii_alnum c)) check_ids"
  by code_simp

lemma plain_char: "c = CHR ''_'' \<or> ascii_alnum c \<Longrightarrow> \<not> line_break c"
  unfolding ascii_alnum_def line_break_def Let_def by (elim disjE) auto

lemma demo_line_breaks: "list_all (list_all (\<lambda>c. \<not> line_break c)) (map demo_line check_ids @ [[]])"
proof -
  have "list_all (\<lambda>c. \<not> line_break c) (demo_line [])" by code_simp
  then show ?thesis using demo_check_chars plain_char by (fastforce simp: demo_line_def list_all_iff)
qed

lemma demo_lines:
  "list_all (\<lambda>c. loads (demo_line c) = Some (PDict (demo_record c)) \<and> starts_with (demo_line c) ''{'' \<and>
     py_strip (demo_line c) = demo_line c) check_ids"
  by code_simp

lemma demo_output_records: "harness_records (demo_output @ [CHR 0x0A] @ []) = map demo_record check_ids"
proof -
  have "demo_output @ [CHR 0x0A] @ [] = concat (map (\<lambda>x. x @ [CHR 0x0A]) (map demo_line check_ids @ [[]]))"
    by (simp add: demo_output_def comp_def)
  then have s: "split_lines (demo_output @ [CHR 0x0A] @ []) = map demo_line check_ids @ [[]]"
    using split_lines_concat[OF demo_line_breaks] by simp
  have "List.map_filter (\<lambda>raw. let line = py_strip raw in
        if starts_with line ''{'' then (case loads line of Some (PDict d) \<Rightarrow> Some d | _ \<Rightarrow> None) else None)
      (map demo_line cs @ [[]]) = map demo_record cs" if "set cs \<subseteq> set check_ids" for cs
    using that demo_lines by (induction cs) (auto simp: list_all_iff Let_def map_filter_def)
  then show ?thesis unfolding harness_records_def s by blast
qed

definition kk_result :: "py_exn + acceptance_line list \<times> int \<Rightarrow> bool" where
  "kk_result x = (case x of Inr (ls, t) \<Rightarrow> acceptance_is_kk (parsed_report ls t) | Inl e \<Rightarrow> False)"

lemma demo_is_kk: "kk_result (parse_records (map demo_record check_ids) ([], acceptance_required))"
  by code_simp

lemma demo_passes: "\<exists>v r. gate_store_acceptance demo_docker = Inr (v, r) \<and> v_ok v"
proof -
  obtain ls t where p: "parse_records (map demo_record check_ids) ([], acceptance_required) = Inr (ls, t)"
    and k: "acceptance_is_kk (parsed_report ls t)"
    using demo_is_kk by (auto simp: kk_result_def split: sum.splits)
  have o: "parse_acceptance_output (demo_output @ [CHR 0x0A] @ []) = Inr (parsed_report ls t)"
    unfolding parse_acceptance_output_def demo_output_records p by simp
  show ?thesis
    using o k by (simp add: gate_store_acceptance_def demo_docker_def Let_def acceptance_is_kk_def gate_result_def)
qed

theorem gate_needs_every_check_witness:
  "\<exists>v r. gate_store_acceptance demo_docker = Inr (v, r) \<and> v_ok v \<and>
     list_all (check_met (harness_records (demo_output @ [CHR 0x0A] @ []))) check_ids"
proof -
  obtain v r where "gate_store_acceptance demo_docker = Inr (v, r)" "v_ok v" using demo_passes by blast
  then show ?thesis using gate_needs_every_check[of demo_docker v r] by (auto simp: demo_docker_def Let_def)
qed

definition demo_stored :: acceptance_report where
  "demo_stored = new_report 0 23 False
     (map (\<lambda>n. (new_line n ''FAIL'' ''x'')\<lparr>al_owner := factory_owner\<rparr>) check_ids) ''0/23''"

lemma demo_storable: "storable demo_stored"
  by code_simp

theorem stored_report_reads_back_witness:
  "(case report_from_mapping (report_json demo_stored) of
      Inr r \<Rightarrow> map al_owner (filter (\<lambda>l. al_name l = ''no_token_401'') (acc_lines r)) = [product_owner]
    | Inl x \<Rightarrow> False) \<and>
   map al_owner (filter (\<lambda>l. al_name l = ''no_token_401'') (acc_lines demo_stored)) = [factory_owner]"
  unfolding stored_report_reads_back[OF demo_storable] sum.case by code_simp

end
