(* ===== verification/StoreGateFacts.thy ===== *)
theory StoreGateFacts
  imports StoreIngest AcceptanceFacts BuildStartFacts
begin

text \<open>
  Lemmas on reading and judging the Store gate: runs of operations, the events a verdict
  writes, the split of owners by the receipt, and the outcome of one ingest.
\<close>

section \<open>Runs of operations\<close>

lemma bind_gate_Inr:
  "bind_gate m f s = (Inr b, t) \<longleftrightarrow> (\<exists>a u. m s = (Inr a, u) \<and> f a u = (Inr b, t))"
  by (cases "m s"; cases "fst (m s)") (auto simp: bind_gate_def)

lemma gate_simps [simp]:
  "give_gate a s = (Inr a, s)" "stop_gate x s = (Inl x, s)" "look h (g, n) = (Inr (h g), g, n)"
  "space_gate k (g, n) = (Inr (), k g, n)"
  by (simp_all add: give_gate_def stop_gate_def look_def space_gate_def)

lemma bind_gate_give [simp]: "bind_gate (give_gate a) f = f a"
  by (rule ext) (simp add: bind_gate_def)

lemma py_gate_Inr: "py_gate r s = (Inr a, t) \<longleftrightarrow> r = Inr a \<and> t = s"
  by (cases r) (auto simp: py_gate_def)

lemma bind_call_Inr: "bind_call m f n = (Inr b, k) \<longleftrightarrow> (\<exists>a i. m n = (Inr a, i) \<and> f a i = (Inr b, k))"
  by (cases "m n"; cases "fst (m n)") (auto simp: bind_call_def)

lemma call_simps [simp]: "return_call a n = (Inr a, n)" "fail_call x n = (Inl x, n)"
  by (simp_all add: return_call_def fail_call_def)

text \<open>The ledger of a space after one write that succeeds, with a ledger that is there and readable.\<close>

definition ready :: "gate_space \<Rightarrow> bool" where
  "ready g = (readable (gs_ledger g) \<and> contents (gs_ledger g) \<noteq> None)"

definition gate_events :: "gate_space \<Rightarrow> build_event list" where
  "gate_events g = event_list (gs_ledger g)"

definition gate_logged :: "gate_env \<Rightarrow> event_kind \<Rightarrow> string \<Rightarrow> (string, pyval) dict \<Rightarrow> build_event list \<Rightarrow> build_event" where
  "gate_logged e k d p evs = logged (ge_start e) k (Some STORE_MANAGER) d p evs"

lemma gate_log_ready:
  assumes "ready g" and "pv_ok (PDict p)"
  obtains f where "gate_log e k d p (gs_ledger g) = (None, f)" "ready (g\<lparr>gs_ledger := f\<rparr>)"
    "gate_events (g\<lparr>gs_ledger := f\<rparr>) = gate_events g @ [gate_logged e k d p (gate_events g)]"
proof -
  have r: "readable (gs_ledger g)" using assms(1) by (simp add: ready_def)
  obtain f where "log_event (ge_start e) k (Some STORE_MANAGER) d p (gs_ledger g) = (None, f)" "readable f"
    "event_list f = event_list (gs_ledger g) @ [logged (ge_start e) k (Some STORE_MANAGER) d p (event_list (gs_ledger g))]"
    "contents f \<noteq> None"
    using log_event_readable[OF r assms(2)] by blast
  then show ?thesis using that[of f] by (simp add: ready_def gate_events_def gate_logged_def gate_log_def)
qed

lemma ledger_gate_one:
  assumes "ready g" and "pv_ok (PDict p)"
  obtains f where "ledger_gate (gate_log e k d p) (g, n) = (Inr (), g\<lparr>gs_ledger := f\<rparr>, n)" "ready (g\<lparr>gs_ledger := f\<rparr>)"
    "gate_events (g\<lparr>gs_ledger := f\<rparr>) = gate_events g @ [gate_logged e k d p (gate_events g)]"
proof -
  obtain f where "gate_log e k d p (gs_ledger g) = (None, f)" "ready (g\<lparr>gs_ledger := f\<rparr>)"
    "gate_events (g\<lparr>gs_ledger := f\<rparr>) = gate_events g @ [gate_logged e k d p (gate_events g)]"
    using gate_log_ready[OF assms] by blast
  then show ?thesis using that[of f] by (simp add: ledger_gate_def)
qed

lemma started_ready: "ready g \<Longrightarrow> started_run e name h (gs_ledger g) = (None, gs_ledger g)"
  by (simp add: ready_def started_run_def)

lemma write_nil: "ready g \<Longrightarrow> write_after_start e [] (g, n) = (Inr (), g, n)"
  by (simp add: write_after_start_def bind_gate_def ledger_gate_def started_ready)

lemma write_one:
  assumes "ready g" and "pv_ok (PDict p)"
  obtains f where "write_after_start e [gate_log e k d p] (g, n) = (Inr (), g\<lparr>gs_ledger := f\<rparr>, n)" "ready (g\<lparr>gs_ledger := f\<rparr>)"
    "gate_events (g\<lparr>gs_ledger := f\<rparr>) = gate_events g @ [gate_logged e k d p (gate_events g)]"
proof -
  obtain f where "gate_log e k d p (gs_ledger g) = (None, f)" "ready (g\<lparr>gs_ledger := f\<rparr>)"
    "gate_events (g\<lparr>gs_ledger := f\<rparr>) = gate_events g @ [gate_logged e k d p (gate_events g)]"
    using gate_log_ready[OF assms] by blast
  then show ?thesis using that[of f] assms(1) by (simp add: write_after_start_def bind_gate_def ledger_gate_def started_ready)
qed

lemma write_two:
  assumes "ready g" and "pv_ok (PDict p)" and "pv_ok (PDict q)"
  obtains f x y where "write_after_start e [gate_log e k d p, gate_log e l c q] (g, n) = (Inr (), g\<lparr>gs_ledger := f\<rparr>, n)"
    "ready (g\<lparr>gs_ledger := f\<rparr>)" "x = gate_logged e k d p (gate_events g)" "y = gate_logged e l c q (gate_events g @ [x])"
    "gate_events (g\<lparr>gs_ledger := f\<rparr>) = gate_events g @ [x, y]"
proof -
  obtain f where f: "gate_log e k d p (gs_ledger g) = (None, f)" "ready (g\<lparr>gs_ledger := f\<rparr>)"
    "gate_events (g\<lparr>gs_ledger := f\<rparr>) = gate_events g @ [gate_logged e k d p (gate_events g)]"
    using gate_log_ready[OF assms(1,2)] by blast
  obtain h where h: "gate_log e l c q f = (None, h)" "ready (g\<lparr>gs_ledger := h\<rparr>)"
    "gate_events (g\<lparr>gs_ledger := h\<rparr>) = gate_events (g\<lparr>gs_ledger := f\<rparr>) @ [gate_logged e l c q (gate_events (g\<lparr>gs_ledger := f\<rparr>))]"
    using gate_log_ready[OF f(2) assms(3), of e l c] by auto
  show ?thesis using that[of h] assms(1) f h by (simp add: write_after_start_def bind_gate_def ledger_gate_def started_ready)
qed

text \<open>What a logged event says.\<close>

lemma gate_logged_simps:
  assumes "dict_ok p"
  shows "kind (gate_logged e k d p evs) = k" "get0 (payload (gate_logged e k d p evs)) x = canon (get0 p x)"
  using assms by (simp_all add: gate_logged_def logged_def stored_def new_event_def get_or_def dget_canon_dict split: option.splits)


section \<open>The payloads are JSON\<close>

lemma dset_values: "\<forall>p\<in>set d. P (snd p) \<Longrightarrow> P v \<Longrightarrow> \<forall>p\<in>set (dset k v d). P (snd p)"
  by (induction d) auto

lemma dmerge_values: "\<forall>p\<in>set d. P (snd p) \<Longrightarrow> \<forall>p\<in>set xs. P (snd p) \<Longrightarrow> \<forall>p\<in>set (dmerge d xs). P (snd p)"
proof (induction xs arbitrary: d)
  case (Cons p xs)
  obtain k v where p: "p = (k, v)" by fastforce
  have "\<forall>q\<in>set (dset k v d). P (snd q)" using dset_values[OF Cons.prems(1), of v k] Cons.prems(2) p by simp
  then show ?case using Cons.IH Cons.prems(2) p by simp
qed simp

lemma by_line_ok [simp]: "pv_ok (by_line h ls)"
  unfolding by_line_def pv_ok_PDict by (intro conjI dict_ok_dmerge dmerge_values) auto

lemma note_ok [simp]: "pv_ok (note_json a)"
  by (auto simp: note_json_def)

lemma failure_payload_ok:
  "pv_ok (PDict (verdict_fields s h nx @ target_fields s @ (case sr of None \<Rightarrow> [] | Some r \<Rightarrow> owned_fields r)))"
  by (auto simp: verdict_fields_def target_fields_def owned_fields_def split: option.splits)


lemma factory_payload_ok:
  "pv_ok (PDict (verdict_fields s h nx @ [(''rework'', PBool False), (''failure_owner'', PStr a), (''factory_owed'', PList (map PStr owed)),
     (''generator'', PStr gen), (''product_score'', PStr b), (''product_ok'', PBool c), (''harness_ran'', PBool d)] @ target_fields s))"
  by (auto simp: verdict_fields_def target_fields_def)

section \<open>What settles a hand-off\<close>

definition settles :: "build_event \<Rightarrow> bool" where
  "settles ev = (event_honesty ev = green_word \<or> event_honesty ev \<in> set n3_fail_honesty)"

lemma settled_stops: "list_ex settles l \<Longrightarrow> \<not> still_awaiting l"
  by (induction l) (auto simp: settles_def green_word_def)

lemma after_handoff_skip:
  "list_all (\<lambda>ev. \<not> is_handoff ev) ns \<Longrightarrow> after_handoff (rev ns @ es) later = after_handoff es (ns @ later)"
  by (induction ns arbitrary: later rule: rev_induct) auto

lemma ready_events: "ready g \<Longrightarrow> events (gs_ledger g) = Inr (gate_events g)"
  by (simp add: ready_def gate_events_def readable_events)

lemma settled_not_awaiting:
  assumes "ready g" and "gate_events g = evs @ new" and "list_ex settles new" and "list_all (\<lambda>ev. \<not> is_handoff ev) new"
  shows "\<not> handoff_awaiting_n3 (gs_ledger g)"
proof -
  have "after_handoff (rev (evs @ new)) [] = map_option (\<lambda>l. l @ new) (after_handoff (rev evs) [])"
    using after_handoff_skip[OF assms(4), of "rev evs" "[]"] after_handoff_append[of "rev evs" "[]" new] by simp
  moreover have "\<not> still_awaiting (l @ new)" for l
    using assms(3) by (intro settled_stops) simp
  ultimately show ?thesis
    using ready_events[OF assms(1)] assms(2) by (auto simp: handoff_awaiting_n3_def split: option.splits)
qed

lemma logged_words:
  assumes "dict_ok p"
  shows "event_honesty (gate_logged e k d p evs) = py_strip (text_of (canon (get0 p ''honesty'')))"
    "event_outcome (gate_logged e k d p evs) = py_strip (text_of (canon (get0 p ''outcome'')))"
  by (simp_all add: event_honesty_def event_outcome_def gate_logged_simps[OF assms])

definition verdict_words :: "string list" where
  "verdict_words = green_word # n3_fail_honesty"

lemma verdict_word_strip: "h \<in> set verdict_words \<Longrightarrow> py_strip h = h \<and> h \<noteq> handoff_word"
  by (auto simp: verdict_words_def green_word_def n3_fail_honesty_def handoff_word_def; code_simp)

lemma logged_verdict:
  assumes "dict_ok p" "get0 p ''honesty'' = PStr h" "h \<in> set verdict_words"
    "get0 p ''outcome'' = PStr ''FAILED_GATE'' \<or> get0 p ''outcome'' = PStr ''SUCCESS'' \<or> get0 p ''outcome'' = PNone"
  shows "settles (gate_logged e k d p evs)" "\<not> is_handoff (gate_logged e k d p evs)"
    "event_honesty (gate_logged e k d p evs) = h"
proof -
  have o: "py_strip ''FAILED_GATE'' \<noteq> handoff_word" "py_strip ''SUCCESS'' \<noteq> handoff_word" "py_strip [] \<noteq> handoff_word"
    by code_simp+
  show h: "event_honesty (gate_logged e k d p evs) = h"
    using assms(2,3) verdict_word_strip by (simp add: logged_words[OF assms(1)])
  show "settles (gate_logged e k d p evs)" using assms(3) by (simp add: settles_def h verdict_words_def)
  show "\<not> is_handoff (gate_logged e k d p evs)"
    using verdict_word_strip[OF assms(3)] assms(4) o by (auto simp: is_handoff_def h logged_words(2)[OF assms(1)])
qed


section \<open>The verdict a snapshot leaves\<close>

lemma persist_keeps:
  "persist_cli_authorship ids (g, n) = (res, u) \<Longrightarrow>
    res = Inr () \<and> snd u = n \<and> gs_ledger (fst u) = gs_ledger g \<and> gs_report (fst u) = gs_report g"
  by (auto simp: persist_cli_authorship_def Let_def split: if_splits)

lemma ready_report [simp]: "ready (g\<lparr>gs_report := r\<rparr>) = ready g" "gate_events (g\<lparr>gs_report := r\<rparr>) = gate_events g"
  by (simp_all add: ready_def gate_events_def)

lemma same_ledger: "gs_ledger h = gs_ledger g \<Longrightarrow> ready h = ready g \<and> gate_events h = gate_events g"
  by (simp add: ready_def gate_events_def)

text \<open>The end of a settled hand-off: the ledger grew by events that settle it and open no other.\<close>

definition settled_from :: "gate_space \<Rightarrow> gate_space \<Rightarrow> bool" where
  "settled_from g h = (ready h \<and> (\<exists>new. gate_events h = gate_events g @ new \<and> list_ex settles new \<and>
     list_all (\<lambda>ev. \<not> is_handoff ev) new))"

definition closed_green :: "gate_space \<Rightarrow> bool" where
  "closed_green h = (case last_opt (gate_events h) of None \<Rightarrow> False | Some y \<Rightarrow> kind y = RUN_SUCCEEDED \<and>
     get0 (payload y) ''cycle'' = PStr ''pilot'')"

definition passed_payload :: "store_snapshot \<Rightarrow> (string, pyval) dict" where
  "passed_payload s = [(''gate'', PStr gate_name), (''via'', PStr gate_via), (''score'', PStr (sn_score s)),
     (''builds_sha'', PStr (sn_sha s)), (''builds_branch'', PStr (sn_branch s)), (''honesty'', PStr green_word)]"

definition succeeded_payload :: "store_snapshot \<Rightarrow> string list \<Rightarrow> (string, pyval) dict" where
  "succeeded_payload s ids = [(''outcome'', PStr ''SUCCESS''), (''cycle'', PStr ''pilot''), (''pilot_ready'', PBool True),
     (''honesty'', PStr green_word), (''green'', PBool True), (''via'', PStr gate_via),
     (''score'', PStr (sn_score s)), (''builds_sha'', PStr (sn_sha s)),
     (''builds_branch'', PStr (sn_branch s)), (''cli_authored_ids'', PList (map PStr ids))]"

lemma success_payloads:
  "pv_ok (PDict (passed_payload s))" "pv_ok (PDict (succeeded_payload s ids))"
  by (auto simp: passed_payload_def succeeded_payload_def)

lemma success_fields:
  "dict_ok (passed_payload s)" "get0 (passed_payload s) ''honesty'' = PStr green_word" "get0 (passed_payload s) ''outcome'' = PNone"
  "dict_ok (succeeded_payload s ids)" "get0 (succeeded_payload s ids) ''honesty'' = PStr green_word"
  "get0 (succeeded_payload s ids) ''outcome'' = PStr ''SUCCESS''" "get0 (succeeded_payload s ids) ''cycle'' = PStr ''pilot''"
  by (simp_all add: passed_payload_def succeeded_payload_def get_or_def)

lemma green_is_verdict [simp]: "green_word \<in> set verdict_words"
  by (simp add: verdict_words_def)

lemma success_result:
  assumes "apply_store_gate_success e s sr (g, n) = (Inr (), u)" and "ready g"
  defines "r \<equiv> (case sr of Some r \<Rightarrow> r | None \<Rightarrow> report_from_snapshot s)"
  shows "success_green s sr r" "gs_report (fst u) = Some r" "settled_from g (fst u)" "closed_green (fst u)" "snd u = n"
proof -
  show green: "success_green s sr r"
    using assms(1) by (auto simp: apply_store_gate_success_def r_def[symmetric] Let_def split: if_splits)
  let ?g1 = "g\<lparr>gs_report := Some r\<rparr>"
  let ?d = "''STORE (n3 store-gate): '' @ sn_score s @ '' on '' @ take 12 (sn_sha s)"
  obtain ids h where ids: "persist_cli_authorship ids (?g1, n) = (Inr (), h)"
    and w: "write_after_start e [gate_log e GATE_PASSED ?d (passed_payload s),
      gate_log e RUN_SUCCEEDED three_gate_pilot_detail (succeeded_payload s ids)] h = (Inr (), u)"
    using assms(1) green unfolding passed_payload_def succeeded_payload_def
    by (auto simp: apply_store_gate_success_def r_def[symmetric] Let_def bind_gate_Inr py_gate_Inr)
  have h: "snd h = n" "gs_report (fst h) = Some r" "ready (fst h)" "gate_events (fst h) = gate_events g"
    using persist_keeps[OF ids] same_ledger[of "fst h" ?g1] assms(2) by auto
  obtain h1 where hh: "h = (h1, n)" using h(1) by (cases h) auto
  have h1: "ready h1" "gate_events h1 = gate_events g" "gs_report h1 = Some r" using h hh by auto
  obtain f x y where wx: "write_after_start e [gate_log e GATE_PASSED ?d (passed_payload s),
      gate_log e RUN_SUCCEEDED three_gate_pilot_detail (succeeded_payload s ids)] (h1, n) = (Inr (), h1\<lparr>gs_ledger := f\<rparr>, n)"
    and f: "ready (h1\<lparr>gs_ledger := f\<rparr>)" "gate_events (h1\<lparr>gs_ledger := f\<rparr>) = gate_events h1 @ [x, y]"
    and x: "x = gate_logged e GATE_PASSED ?d (passed_payload s) (gate_events h1)"
    and y: "y = gate_logged e RUN_SUCCEEDED three_gate_pilot_detail (succeeded_payload s ids) (gate_events h1 @ [x])"
    using write_two[OF h1(1) success_payloads(1)[of s] success_payloads(2)[of s ids], of e GATE_PASSED ?d RUN_SUCCEEDED three_gate_pilot_detail n] by metis
  have u: "u = (h1\<lparr>gs_ledger := f\<rparr>, n)" using w wx hh by simp
  have sx: "settles x" "\<not> is_handoff x" "\<not> is_handoff y"
    unfolding x y by (simp_all add: logged_verdict[of _ green_word] success_fields)
  show "gs_report (fst u) = Some r" "snd u = n" using u h1(3) by simp_all
  show "settled_from g (fst u)" using u f h1(2) sx by (auto simp: settled_from_def)
  have "kind y = RUN_SUCCEEDED" "get0 (payload y) ''cycle'' = PStr ''pilot''"
    unfolding y by (simp_all add: gate_logged_simps success_fields)
  then show "closed_green (fst u)" using u f by (simp add: closed_green_def last_opt_def)
qed


lemma settled_one:
  assumes "ready g" "pv_ok (PDict p)" "get0 p ''honesty'' = PStr h" "h \<in> set n3_fail_honesty" "get0 p ''outcome'' = PStr ''FAILED_GATE''"
  obtains f where "write_after_start e [gate_log e RUN_FAILED d p] (g, n) = (Inr (), g\<lparr>gs_ledger := f\<rparr>, n)"
    "ledger_gate (gate_log e RUN_FAILED d p) (g, n) = (Inr (), g\<lparr>gs_ledger := f\<rparr>, n)" "settled_from g (g\<lparr>gs_ledger := f\<rparr>)"
proof -
  obtain f where f: "gate_log e RUN_FAILED d p (gs_ledger g) = (None, f)" "ready (g\<lparr>gs_ledger := f\<rparr>)"
    "gate_events (g\<lparr>gs_ledger := f\<rparr>) = gate_events g @ [gate_logged e RUN_FAILED d p (gate_events g)]"
    using gate_log_ready[OF assms(1,2)] by blast
  have "settles (gate_logged e RUN_FAILED d p (gate_events g))" "\<not> is_handoff (gate_logged e RUN_FAILED d p (gate_events g))"
    using logged_verdict[of p h] assms(2-5) by (simp_all add: verdict_words_def)
  then have "settled_from g (g\<lparr>gs_ledger := f\<rparr>)" using f by (auto simp: settled_from_def)
  then show ?thesis
    using that[of f] f(1) assms(1) by (simp add: write_after_start_def bind_gate_def ledger_gate_def started_ready)
qed

lemma honesty_words: "failure_honesty s \<in> set n3_fail_honesty" "factory_owed_word \<in> set n3_fail_honesty"
  "''N3_STORE_GATE_MISSING'' \<in> set n3_fail_honesty"
  by (simp_all add: failure_honesty_def factory_owed_word_def n3_fail_honesty_def)

lemma failure_result:
  assumes "ready g" "h \<in> set n3_fail_honesty"
  shows "\<exists>u. apply_store_gate_failure e s h sr (g, n) = (Inr (), u, n) \<and> settled_from g u"
proof -
  let ?p = "verdict_fields s h ''n3_gate'' @ target_fields s @ (case sr of None \<Rightarrow> [] | Some r \<Rightarrow> owned_fields r)"
  have "get0 ?p ''honesty'' = PStr h" "get0 ?p ''outcome'' = PStr ''FAILED_GATE''"
    by (simp_all add: verdict_fields_def get_or_def)
  then show ?thesis
    unfolding apply_store_gate_failure_def using settled_one[OF assms(1) failure_payload_ok _ assms(2)] by metis
qed

lemma settled_report [simp]: "settled_from (g\<lparr>gs_report := r\<rparr>) h = settled_from g h"
  by (simp add: settled_from_def)

lemma factory_result:
  assumes "ready g"
  shows "\<exists>d u. apply_store_gate_factory_owed e s r (g, n) = (Inr d, u, n) \<and> settled_from g u \<and>
    gs_report u = Some (r\<lparr>acc_detail := d\<rparr>)"
proof -
  obtain owed gen d where parts: "factory_owed_parts e r = (owed, gen, d)" by (cases "factory_owed_parts e r")
  let ?g = "g\<lparr>gs_report := Some (r\<lparr>acc_detail := d\<rparr>)\<rparr>"
  let ?p = "verdict_fields s factory_owed_word ''factory_fix'' @ [(''rework'', PBool False), (''failure_owner'', PStr factory_owner),
     (''factory_owed'', PList (map PStr owed)), (''generator'', PStr gen), (''product_score'', PStr (product_score r)),
     (''product_ok'', PBool (product_ok r)), (''harness_ran'', PBool (acc_harness_ran r))] @ target_fields s"
  have f: "get0 ?p ''honesty'' = PStr factory_owed_word" "get0 ?p ''outcome'' = PStr ''FAILED_GATE''"
    by (simp_all add: verdict_fields_def get_or_def)
  have g: "ready ?g" using assms by simp
  obtain k where "ledger_gate (gate_log e RUN_FAILED d ?p) (?g, n) = (Inr (), ?g\<lparr>gs_ledger := k\<rparr>, n)"
    "settled_from ?g (?g\<lparr>gs_ledger := k\<rparr>)"
    using settled_one[OF g factory_payload_ok f(1) honesty_words(2) f(2), of e d n] by metis
  then show ?thesis
    by (auto simp: apply_store_gate_factory_owed_def parts bind_gate_def write_nil[OF assms])
qed

text \<open>The advisory note on the ledger settles nothing and opens nothing.\<close>

definition advisory_payload :: "advisory_note list \<Rightarrow> (string, pyval) dict" where
  "advisory_payload notes = [(''gate_advisory'', PList (map note_json notes)), (''gate'', PStr gate_name),
     (''factory_owed'', PList (map (PStr \<circ> an_check) notes))]"

lemma advisory_payload_facts:
  "pv_ok (PDict (advisory_payload notes))" "dict_ok (advisory_payload notes)"
  "get0 (advisory_payload notes) ''honesty'' = PNone" "get0 (advisory_payload notes) ''outcome'' = PNone"
  unfolding advisory_payload_def by (simp_all add: get_or_def)

lemma advisory_result:
  assumes "ready g"
  shows "\<exists>u ns. record_audit_advisory e notes (g, n) = (Inr (), u, n) \<and> ready u \<and> gs_report u = gs_report g \<and>
     gs_files u = gs_files g \<and> gate_events u = gate_events g @ ns \<and> list_all (\<lambda>ev. \<not> is_handoff ev) ns"
proof (cases "notes = []")
  case True
  then show ?thesis using assms by (simp add: record_audit_advisory_def)
next
  case False
  define d where "d = ''GATE ADVISORY: '' @ join '', '' (map (\<lambda>a. an_check a @ '' ('' @ an_reason a @ '')'') notes)"
  have quiet: "\<not> is_handoff (gate_logged e NOTE d (advisory_payload notes) (gate_events g))"
    unfolding is_handoff_def logged_words[OF advisory_payload_facts(2)] advisory_payload_facts(3,4)
    by (simp add: handoff_word_def)
  obtain f where "write_after_start e [gate_log e NOTE d (advisory_payload notes)] (g, n) = (Inr (), g\<lparr>gs_ledger := f\<rparr>, n)"
    "ready (g\<lparr>gs_ledger := f\<rparr>)"
    "gate_events (g\<lparr>gs_ledger := f\<rparr>) = gate_events g @ [gate_logged e NOTE d (advisory_payload notes) (gate_events g)]"
    using write_one[OF assms advisory_payload_facts(1)] by metis
  then show ?thesis
    using False quiet unfolding record_audit_advisory_def advisory_payload_def d_def
    by (intro exI[of _ "g\<lparr>gs_ledger := f\<rparr>"]
      exI[of _ "[gate_logged e NOTE d (advisory_payload notes) (gate_events g)]"]) (simp add: advisory_payload_def d_def)
qed


lemma settled_after:
  assumes "gate_events h = gate_events g @ ns" "list_all (\<lambda>ev. \<not> is_handoff ev) ns" "settled_from h u"
  shows "settled_from g u"
proof -
  obtain new where "ready u" "gate_events u = gate_events h @ new" "list_ex settles new" "list_all (\<lambda>ev. \<not> is_handoff ev) new"
    using assms(3) by (auto simp: settled_from_def)
  then have "ready u \<and> gate_events u = gate_events g @ (ns @ new) \<and> list_ex settles (ns @ new) \<and>
      list_all (\<lambda>ev. \<not> is_handoff ev) (ns @ new)" using assms by simp
  then show ?thesis unfolding settled_from_def by blast
qed

section \<open>Owners by the receipt\<close>

lemma split_audit_line_name: "al_name (fst (split_audit_line sha256 t rc l)) = al_name l"
  by (simp add: split_audit_line_def advisory_line_def split: prod.splits)

lemma split_image_line_name: "al_name (fst (split_image_line sha256 t rc l)) = al_name l"
  by (simp add: split_image_line_def Let_def)

lemma split_image_facts:
  "map al_name (acc_lines (fst (split_image_by_origin sha256 t rc r))) = map al_name (acc_lines r)"
  "acc_harness_ran (fst (split_image_by_origin sha256 t rc r)) = acc_harness_ran r"
  by (simp_all add: split_image_by_origin_def Let_def comp_def split_image_line_name)

lemma split_audit_facts:
  assumes "split_audit_by_origin sha256 t rc r = (r', notes)"
  shows "map al_name (acc_lines r') = map al_name (acc_lines r)" "acc_harness_ran r' = acc_harness_ran r"
    "notes \<noteq> [] \<Longrightarrow> acc_ok r' = (acc_harness_ran r \<and> list_all al_satisfied (acc_lines r'))"
proof -
  have m: "map al_name (map stamp_owner (map fst (map (split_audit_line sha256 t rc) (acc_lines r)))) = map al_name (acc_lines r)"
    by (simp add: comp_def split_audit_line_name)
  show "map al_name (acc_lines r') = map al_name (acc_lines r)" "acc_harness_ran r' = acc_harness_ran r"
    using assms m by (auto simp: split_audit_by_origin_def Let_def split: if_splits)
  assume n: "notes \<noteq> []"
  have "list_ex (\<lambda>l. al_name l \<in> set audit_check_ids \<and> al_failed l) (acc_lines r)"
  proof (rule ccontr)
    assume "\<not> ?thesis"
    then have "list_all (\<lambda>l. snd (split_audit_line sha256 t rc l) = []) (acc_lines r)"
      by (auto simp: list_all_iff list_ex_iff split_audit_line_def)
    then show False using assms n by (auto simp: split_audit_by_origin_def Let_def list_all_iff)
  qed
  then show "acc_ok r' = (acc_harness_ran r \<and> list_all al_satisfied (acc_lines r'))"
    using assms by (auto simp: split_audit_by_origin_def Let_def comp_assoc)
qed

lemma split_result:
  assumes "split_by_receipt e s r0 (g, n) = (Inr (r, notes), u)"
  shows "u = (g, n)" "map al_name (acc_lines r) = map al_name (acc_lines r0)"
    "notes \<noteq> [] \<Longrightarrow> acc_ok r = (acc_harness_ran r \<and> list_all al_satisfied (acc_lines r))"
proof -
  have "u = (g, n) \<and> ((r = r0 \<and> notes = []) \<or>
    (\<exists>rc. split_audit_by_origin (ge_sha256 e) (gs_files g) rc (fst (split_image_by_origin (ge_sha256 e) (gs_files g) rc r0)) = (r, notes)))"
    using assms by (auto simp: split_by_receipt_def bind_gate_Inr py_gate_Inr split: if_splits)
  then show "u = (g, n)" "map al_name (acc_lines r) = map al_name (acc_lines r0)"
    "notes \<noteq> [] \<Longrightarrow> acc_ok r = (acc_harness_ran r \<and> list_all al_satisfied (acc_lines r))"
    using split_audit_facts split_image_facts by (metis, metis, metis)
qed


section \<open>Green only when every line is satisfied\<close>

definition every_line_met :: "acceptance_report \<Rightarrow> bool" where
  "every_line_met r = (acc_ok r \<and> acc_harness_ran r \<and> map al_name (acc_lines r) = check_ids \<and>
     list_all al_satisfied (acc_lines r))"

text \<open>What a snapshot read from the status guarantees: its lines are none, or the floor's; a full green score has
  all of them satisfied.\<close>

definition sound_snapshot :: "store_snapshot \<Rightarrow> bool" where
  "sound_snapshot s = ((sn_lines s = [] \<or> map al_name (sn_lines s) = check_ids) \<and>
     (is_12_of_12 s \<longrightarrow> sn_harness_ran s \<and> sn_lines s = itemised_lines []))"

lemma stamped_names: "map al_name (map stamp_owner ls) = map al_name ls"
  by (simp add: comp_def)

lemma payload_names: "report_from_store_gate_payload p = Inr r \<Longrightarrow> map al_name (acc_lines r) = check_ids"
  by (auto simp: report_from_store_gate_payload_def Let_def result_simps stamped_names simp del: map_map)

lemma artifact_names:
  assumes "first_artifact e t vs = Inr ls" shows "ls = [] \<or> map al_name ls = check_ids"
  using assms
proof (induction vs)
  case (Cons v vs)
  show ?case
  proof (cases "row_lines e t v")
    case (Some x)
    then have "x = Inr ls" using Cons.prems by simp
    then have "\<exists>p. map_result acc_lines (report_from_store_gate_payload p) = Inr ls"
      using Some by (auto simp: row_lines_def Let_def split: pyval.splits option.splits if_splits)
    then show ?thesis using payload_names by (auto simp: result_simps)
  qed (use Cons in simp)
qed simp

lemma artifact_call_names:
  assumes "artifact_lines e t n = (Inr ls, m)" shows "ls = [] \<or> map al_name ls = check_ids"
  using assms artifact_names
  by (auto simp: artifact_lines_def bind_call_Inr py_call_def result_simps split: if_splits sum.splits)

lemma itemised_names: "map al_name (itemised_lines bad) = check_ids"
  by (simp add: itemised_lines_def comp_def if_distrib cong: if_cong)

lemma snapshot_sound:
  assumes "snapshot_from_status t st d ask n = (Inr s, m)"
    and "\<And>i ls j. ask i = (Inr ls, j) \<Longrightarrow> ls = [] \<or> map al_name ls = check_ids"
  shows "sound_snapshot s"
proof -
  let ?state = "py_lower (py_strip st)" and ?score = "parse_score d"
  let ?lines = "if case ?score of Some (p, n) \<Rightarrow> p = n | None \<Rightarrow> False then return_call (itemised_lines [])
      else if ?score \<noteq> None \<and> ?state \<in> set red_states then ask else return_call []"
  obtain ls j where ls: "?lines n = (Inr ls, j)"
    and s: "sn_lines s = ls" "sn_passed s = map_option fst ?score" "sn_total s = map_option snd ?score"
      "sn_state s = ?state" "sn_harness_ran s = (\<not> (?score = None \<and> ?state \<in> set red_states))"
    using assms(1) unfolding snapshot_from_status_def Let_def bind_call_Inr by auto
  have "ls = [] \<or> map al_name ls = check_ids"
    using ls assms(2) itemised_names by (auto split: if_splits)
  moreover have "ls = itemised_lines []" "sn_harness_ran s" if "is_12_of_12 s"
    using that s ls by (auto simp: is_12_of_12_def red_states_def split: option.splits if_splits)
  ultimately show ?thesis using s(1) by (auto simp: sound_snapshot_def)
qed

lemma target_sound [simp]: "sound_snapshot (target_snapshot t\<lparr>sn_unreachable := u, sn_detail := d\<rparr>)"
  "sound_snapshot (target_snapshot t\<lparr>sn_pending := u, sn_detail := d\<rparr>)"
  by (simp_all add: sound_snapshot_def target_snapshot_def blank_snapshot_def is_12_of_12_def)

lemma fetch_sound:
  assumes "fetch_store_gate_status e t n = (Inr s, m)" shows "sound_snapshot s"
proof (cases "builds_token (ge_environ e) = []")
  case True
  then show ?thesis using assms by (auto simp: fetch_store_gate_status_def)
next
  case False
  then obtain st body i where r: "(if st \<ge> 400 then
          return_call ((target_snapshot t)\<lparr>sn_unreachable := (st = 401 \<or> st = 403 \<or> st \<ge> 500),
            sn_detail := ''GitHub statuses HTTP '' @ show_int st\<rparr>)
        else (case find is_gate_status (list_of body) of
            Some (PDict m) \<Rightarrow> snapshot_from_status t (text_of (get0 m ''state'')) (text_of (get0 m ''description''))
                (artifact_lines e t)
          | _ \<Rightarrow> return_call ((target_snapshot t)\<lparr>sn_pending := True, sn_detail := ''store-gate commit status is missing''\<rparr>))) i
      = (Inr s, m)"
    using assms by (auto simp: fetch_store_gate_status_def bind_call_Inr)
  show ?thesis
  proof (cases "\<exists>d. \<not> st \<ge> 400 \<and> find is_gate_status (list_of body) = Some (PDict d)")
    case True
    then obtain d where "\<not> st \<ge> 400" "find is_gate_status (list_of body) = Some (PDict d)" by blast
    then have "snapshot_from_status t (text_of (get0 d ''state'')) (text_of (get0 d ''description'')) (artifact_lines e t) i = (Inr s, m)"
      using r by simp
    then show ?thesis by (rule snapshot_sound) (rule artifact_call_names)
  next
    case no: False
    show ?thesis
    proof (cases "st \<ge> 400")
      case True
      then show ?thesis using r by auto
    next
      case False
      then have "s = target_snapshot t\<lparr>sn_pending := True, sn_detail := ''store-gate commit status is missing''\<rparr>"
        using r no by (cases "find is_gate_status (list_of body)"; cases "the (find is_gate_status (list_of body))") auto
      then show ?thesis by simp
    qed
  qed
qed

lemma timed_out_sound: "sound_snapshot s \<Longrightarrow> \<not> gate_answered s \<Longrightarrow> sound_snapshot (timed_out s)"
  by (simp add: sound_snapshot_def timed_out_def is_12_of_12_def gate_answered_def)

lemma poll_sound: "poll e t ending fuel k n = Some (Inr s, m) \<Longrightarrow> sound_snapshot s"
  by (induction e t ending fuel k n rule: poll.induct)
    (auto split: prod.splits sum.splits if_splits dest: fetch_sound timed_out_sound)

lemma read_gate_sound: "read_gate e wait fuel t n = Some (Inr s, m) \<Longrightarrow> sound_snapshot s"
  by (auto simp: read_gate_def wait_for_store_gate_def Let_def split: if_splits option.splits dest: poll_sound fetch_sound)


lemma report_lines:
  assumes "sound_snapshot s"
  shows "map al_name (acc_lines (report_from_snapshot s)) = check_ids" "acc_harness_ran (report_from_snapshot s) = sn_harness_ran s"
    "acc_ok (report_from_snapshot s) = is_12_of_12 s"
  using assms by (auto simp: report_from_snapshot_def Let_def sound_snapshot_def comp_def)

lemma full_score_met:
  assumes "sound_snapshot s" "is_12_of_12 s" shows "every_line_met (report_from_snapshot s)"
proof -
  have l: "sn_lines s = itemised_lines []" "sn_harness_ran s" using assms by (auto simp: sound_snapshot_def)
  have "list_all al_satisfied (itemised_lines [])" by (simp add: itemised_lines_def list_all_iff al_satisfied_def)
  moreover have "itemised_lines [] \<noteq> []" using checks_exist by (simp add: itemised_lines_def)
  ultimately have "list_all al_satisfied (acc_lines (report_from_snapshot s))"
    by (simp add: report_from_snapshot_def Let_def l)
  then show ?thesis using report_lines[OF assms(1)] l(2) assms(2) by (simp add: every_line_met_def)
qed

definition judged :: "gate_space \<Rightarrow> ingest_result \<Rightarrow> gate_space \<Rightarrow> bool" where
  "judged g res u = ((ir_pending res \<and> \<not> ir_ok res \<and> u = g) \<or>
     (\<not> ir_pending res \<and> settled_from g u \<and>
      (ir_ok res \<longrightarrow> closed_green u \<and> (case gs_report u of None \<Rightarrow> False | Some r \<Rightarrow> every_line_met r))))"

lemma ingest_result_simps [simp]:
  "ir_ok (ingest_result h ok d s) = ok" "ir_pending (ingest_result h ok d s) = False" "ir_already (ingest_result h ok d s) = False"
  "ir_ok (still_waiting d s) = False" "ir_pending (still_waiting d s) = True" "ir_already (still_waiting d s) = False"
  by (simp_all add: ingest_result_def still_waiting_def)

lemma ingest_judged:
  assumes "ingest_store_gate_snapshot e s (g, n) = (Inr res, u)" "ready g" "sound_snapshot s"
  shows "judged g res (fst u)"
proof -
  obtain r "notes" v where sp: "split_by_receipt e s (report_from_snapshot s) (g, n) = (Inr (r, notes), v)"
    using assms(1) unfolding ingest_store_gate_snapshot_def bind_gate_Inr by (metis surj_pair)
  note sr = split_result[OF sp]
  obtain h ns where adv: "record_audit_advisory e notes (g, n) = (Inr (), h, n)" and h: "ready h" "gate_events h = gate_events g @ ns"
    "list_all (\<lambda>ev. \<not> is_handoff ev) ns"
    using advisory_result[OF assms(2)] by metis
  have rest: "(if notes \<noteq> [] \<and> acc_ok r then
         bind_gate (apply_store_gate_success e s (Some r)) (\<lambda>_.
           give_gate (ingest_result green_word True
             (''ingested store-gate '' @ sn_score s @ '' on '' @ take 12 (sn_sha s) @ ''; advisory: '' @
               join '', '' (map an_check notes)) (Some s)))
       else if \<not> sn_timeout s \<and> \<not> sn_missing s \<and>
          (\<not> acc_harness_ran r \<or> (product_ok r \<and> acc_factory_owed r \<noteq> [])) then
         bind_gate (apply_store_gate_factory_owed e s r) (\<lambda>d.
           give_gate (ingest_result factory_owed_word False d (Some s)))
       else
         bind_gate (apply_store_gate_failure e s (failure_honesty s) (Some r)) (\<lambda>_.
           give_gate (ingest_result (failure_honesty s) False (product_failure_detail s r) (Some s)))) (h, n) = (Inr res, u)"
    using assms(1) sp sr(1) adv unfolding ingest_store_gate_snapshot_def bind_gate_def by simp
  show ?thesis
  proof (cases "notes \<noteq> [] \<and> acc_ok r")
    case True
    then obtain w where w: "apply_store_gate_success e s (Some r) (h, n) = (Inr (), w)" "u = w" "ir_ok res" "\<not> ir_pending res"
      using rest by (auto simp: bind_gate_Inr)
    note sc = success_result[OF w(1) h(1)]
    have "every_line_met r" using True sr(2,3) report_lines(1)[OF assms(3)] by (simp add: every_line_met_def)
    then show ?thesis using sc w settled_after[OF h(2,3)] by (simp add: judged_def)
  next
    case no: False
    obtain d x where fx: "apply_store_gate_factory_owed e s r (h, n) = (Inr d, x, n)" "settled_from h x"
      using factory_result[OF h(1)] by metis
    obtain y where fy: "apply_store_gate_failure e s (failure_honesty s) (Some r) (h, n) = (Inr (), y, n)" "settled_from h y"
      using failure_result[OF h(1) honesty_words(1)] by metis
    have "\<not> ir_ok res \<and> \<not> ir_pending res \<and> (fst u = x \<or> fst u = y)"
      using rest no fx(1) fy(1) by (auto simp: bind_gate_def split: if_splits)
    then show ?thesis using fx(2) fy(2) settled_after[OF h(2,3)] by (auto simp: judged_def)
  qed
qed

end
