(* ===== verification/HandoffFacts.thy ===== *)
theory HandoffFacts
  imports StoreGateFacts
begin

text \<open>
  What holds of a hand-off to the Store gate: green only when every line is met, one
  verdict per hand-off, no verdict without an answer, polls that end, and the
  failures that are lost or billed to the wrong side.
\<close>

section \<open>Ingesting a hand-off\<close>

lemma ingest_judges:
  assumes i: "ingest_n3_store_gate e wait fuel sid (g, n) = Some (Inr res, u)" and "ready g" and a: "handoff_awaiting_n3 (gs_ledger g)"
  shows "judged g res (fst u)"
proof (cases "resolve_builds_target e (gs_ledger g) sid (gs_session g) n")
  case (Pair q m)
  show ?thesis
  proof (cases q)
    case (Inl x)
    show ?thesis
    proof (cases x)
      case (PushError uu msg)
      obtain w where "apply_store_gate_failure e (blank_snapshot\<lparr>sn_detail := msg\<rparr>) ''N3_STORE_GATE_MISSING'' None (g, m) =
          (Inr (), w, m)" "settled_from g w"
        using failure_result[OF assms(2) honesty_words(3)] by blast
      then show ?thesis
        using i a Pair Inl PushError
        by (auto simp: ingest_n3_store_gate_def Let_def bind_gate_def judged_def split: if_splits)
    qed (use i a Pair Inl in \<open>simp add: ingest_n3_store_gate_def Let_def\<close>)
  next
    case (Inr t)
    then obtain r k where r: "read_gate e wait fuel t m = Some (r, k)"
      and j: "(case r of Inl x \<Rightarrow> (Inl (GatePush x), g, k) | Inr s \<Rightarrow> judge_snapshot e wait s (g, k)) = (Inr res, u)"
      using i a Pair by (auto simp: ingest_n3_store_gate_def Let_def)
    then obtain s where s: "r = Inr s" "judge_snapshot e wait s (g, k) = (Inr res, u)" by (cases r) auto
    have sound: "sound_snapshot s" using read_gate_sound r s(1) by blast
    consider (full) "is_12_of_12 s" | (wait) "\<not> is_12_of_12 s" "(sn_pending s \<and> \<not> wait) \<or> ((sn_missing s \<or> sn_timeout s) \<and> sn_unreachable s)"
      | (judge) "\<not> is_12_of_12 s" "\<not> (sn_pending s \<and> \<not> wait)" "\<not> ((sn_missing s \<or> sn_timeout s) \<and> sn_unreachable s)" by blast
    then show ?thesis
    proof cases
      case full
      then obtain v where v: "apply_store_gate_success e s None (g, k) = (Inr (), v)" "u = v" "ir_ok res" "\<not> ir_pending res"
        using s(2) by (auto simp: judge_snapshot_def bind_gate_Inr)
      show ?thesis using success_result[OF v(1) assms(2)] full_score_met[OF sound full] v by (simp add: judged_def)
    next
      case wait
      then show ?thesis using s(2) by (auto simp: judge_snapshot_def judged_def split: if_splits)
    next
      case judge
      then have "ingest_store_gate_snapshot e s (g, k) = (Inr res, u)" using s(2) by (auto simp: judge_snapshot_def)
      then show ?thesis using ingest_judged assms(2) sound by blast
    qed
  qed
qed

lemma closed_green_recorded: "ready h \<Longrightarrow> closed_green h \<Longrightarrow> recorded_green (gs_ledger h)"
proof -
  assume r: "ready h" and c: "closed_green h"
  obtain es y where y: "gate_events h = es @ [y]" "kind y = RUN_SUCCEEDED" "get0 (payload y) ''cycle'' = PStr ''pilot''"
    using c by (auto simp: closed_green_def last_opt_def split: if_splits) (metis append_butlast_last_id)
  have "terminal_event (gate_events h) = Some y" using y by (simp add: terminal_event_def terminal_step_def)
  then show ?thesis using r y ready_events[OF r] by (simp add: recorded_green_def succeeded_def pilot_ready_def ready_def)
qed

text \<open>Property C3. When the ingest of a waiting hand-off answers green, the stored report has exactly the floor's
  checks, the harness ran, every line is satisfied, and the ledger records a pilot success.\<close>

theorem green_needs_every_line:
  assumes "ingest_n3_store_gate e wait fuel sid (g, n) = Some (Inr res, u)"
    and "readable (gs_ledger g)" and "handoff_awaiting_n3 (gs_ledger g)" and "ir_ok res"
  shows "recorded_green (gs_ledger (fst u)) \<and> (case gs_report (fst u) of
      None \<Rightarrow> False
    | Some r \<Rightarrow> acc_ok r \<and> acc_harness_ran r \<and> map al_name (acc_lines r) = check_ids \<and> list_all al_satisfied (acc_lines r))"
proof -
  have r: "ready g" using assms(2,3) by (auto simp: ready_def handoff_awaiting_n3_def split: if_splits)
  have j: "judged g res (fst u)" using ingest_judges[OF assms(1) r assms(3)] .
  then have "ready (fst u)" "closed_green (fst u)" "case gs_report (fst u) of None \<Rightarrow> False | Some r \<Rightarrow> every_line_met r"
    using assms(4) by (auto simp: judged_def settled_from_def)
  then show ?thesis using closed_green_recorded by (auto simp: every_line_met_def split: option.splits)
qed

text \<open>Property C4. Each hand-off is judged at most once: an ingest that is not pending settles it - the ledger keeps
  all its events and gains the verdict - and every later ingest, whatever GitHub says then, reports that and changes
  nothing; a pending ingest leaves everything as it was.\<close>

theorem handoff_judged_once:
  assumes "ingest_n3_store_gate e wait fuel sid (g, n) = Some (Inr res, h, k)"
    and "readable (gs_ledger g)" and "handoff_awaiting_n3 (gs_ledger g)"
  shows "(ir_pending res \<and> h = g) \<or>
    (\<not> ir_pending res \<and> \<not> handoff_awaiting_n3 (gs_ledger h) \<and>
     take (length (event_list (gs_ledger g))) (event_list (gs_ledger h)) = event_list (gs_ledger g) \<and>
     ingest_n3_store_gate e2 wait2 fuel2 sid2 (h, k2) = Some (Inr (not_awaiting (gs_ledger h)), h, k2))"
proof -
  have r: "ready g" using assms(2,3) by (auto simp: ready_def handoff_awaiting_n3_def split: if_splits)
  have j: "judged g res h" using ingest_judges[OF assms(1) r assms(3)] by simp
  show ?thesis
  proof (cases "ir_pending res")
    case False
    then have s: "settled_from g h" using j by (auto simp: judged_def)
    then obtain new where new: "ready h" "gate_events h = gate_events g @ new" "list_ex settles new"
      "list_all (\<lambda>ev. \<not> is_handoff ev) new" by (auto simp: settled_from_def)
    have "\<not> handoff_awaiting_n3 (gs_ledger h)" by (rule settled_not_awaiting[OF new])
    then show ?thesis using False new(2) by (simp add: gate_events_def ingest_n3_store_gate_def Let_def)
  qed (use j in \<open>simp add: judged_def\<close>)
qed


section \<open>No verdict without an answer\<close>

text \<open>GitHub refuses to answer: not authorised, forbidden, or its own failure.\<close>

definition refuses :: "github \<Rightarrow> bool" where
  "refuses gh = (\<forall>k rq. \<exists>st body. gh k rq = Answered st body \<and> (st = 401 \<or> st = 403 \<or> st \<ge> 500))"

lemma refused_request:
  assumes "refuses gh"
  obtains st body where "github_request gh rq n = (Inr (st, body), Suc n)" "st = 401 \<or> st = 403 \<or> st \<ge> 500" "st \<ge> 400" "st \<noteq> 404"
proof -
  obtain st body where st: "gh n rq = Answered st body" "st = 401 \<or> st = 403 \<or> st \<ge> 500" using assms unfolding refuses_def by blast
  then have "github_request gh rq n = (Inr (st, body), Suc n)" "st \<ge> 400" "st \<noteq> 404" by (auto simp: github_request_def)
  then show ?thesis using that st(2) by blast
qed

lemma refused_refs:
  assumes "refuses gh" "sid \<noteq> [] \<or> (\<exists>p. pid = Some p \<and> is_platform_id p)"
  shows "\<exists>msg m. build_refs_of_record gh owner repo pid sid n = (Inl (PushError True msg), m)"
proof -
  have l: "\<exists>msg m. list_session_build_refs gh owner repo sid n = (Inl (PushError True msg), m)" for n
  proof -
    obtain st body where "github_request gh (MatchingRefs owner repo (''heads/build/'' @ sanitize_session_id sid)) n = (Inr (st, body), Suc n)"
      "st \<ge> 400" "st \<noteq> 404" using refused_request[OF assms(1)] by metis
    then show ?thesis by (simp add: list_session_build_refs_def Let_def bind_call_def fail_call_def)
  qed
  show ?thesis
  proof (cases "\<exists>p. pid = Some p \<and> is_platform_id p")
    case True
    then obtain p where p: "pid = Some p" "is_platform_id p" by blast
    obtain st body where "github_request gh (RefOf owner repo (branch_of_record p)) n = (Inr (st, body), Suc n)"
      "st \<ge> 400" "st \<noteq> 404" using refused_request[OF assms(1)] by metis
    then show ?thesis using p by (simp add: build_refs_of_record_def Let_def bind_call_def fail_call_def)
  next
    case False
    then have "sid \<noteq> []" using assms(2) by blast
    then show ?thesis using False l[of n] by (cases pid) (auto simp: build_refs_of_record_def Let_def)
  qed
qed

lemma refused_resolve:
  assumes "refuses (ge_github e)" "parse_builds_repo (ge_environ e) = Inr p" "own \<noteq> []"
  shows "\<exists>m. (\<exists>t. resolve_builds_target e f sid own n = (Inr t, m)) \<or> (\<exists>msg. resolve_builds_target e f sid own n = (Inl (PushError True msg), m))"
proof (cases "builds_token (ge_environ e) = []")
  case True
  then show ?thesis by (simp add: resolve_builds_target_def)
next
  case False
  obtain owner0 repo0 where p: "p = (owner0, repo0)" by fastforce
  let ?rec = "builds_fields_from_ledger f"
  let ?owner = "py_strip (str_or (get0 ?rec ''builds_owner'') owner0)" and ?repo = "py_strip (str_or (get0 ?rec ''builds_repo'') repo0)"
  let ?branch = "py_strip (text_of (get0 ?rec ''builds_branch''))"
  define sd where "sd = (if py_strip sid = [] then own else py_strip sid)"
  have sid: "sd \<noteq> []" using assms(3) by (simp add: sd_def)
  obtain msg m where refs: "build_refs_of_record (ge_github e) ?owner ?repo (recorded_platform_id f) sd n = (Inl (PushError True msg), m)"
    using refused_refs[OF assms(1) disjI1[OF sid], of ?owner ?repo "recorded_platform_id f" n] by blast
  obtain st body where c: "github_request (ge_github e) (CommitOf ?owner ?repo ?branch) n = (Inr (st, body), Suc n)" "st \<ge> 400"
    using refused_request[OF assms(1)] by metis
  have fc: "fetch_commit_sha (ge_github e) ?owner ?repo ?branch n =
      (Inl (PushError True (''GitHub API down: commit '' @ ?branch @ '' HTTP '' @ show_int st)), Suc n)"
    using c by (simp add: fetch_commit_sha_def bind_call_def)
  show ?thesis
  proof (cases "py_strip (text_of (get0 ?rec ''builds_sha'')) = []")
    case s: True
    show ?thesis
    proof (cases "?branch = []")
      case True
      then show ?thesis using False assms(2) p refs s sid
        unfolding resolve_builds_target_def Let_def sd_def[symmetric] bind_call_def by simp
    next
      case b: False
      then show ?thesis using False assms(2) p fc s by (simp add: resolve_builds_target_def Let_def bind_call_def)
    qed
  qed (use False assms(2) p in \<open>simp add: resolve_builds_target_def Let_def\<close>)
qed

lemma refused_fetch:
  assumes "refuses (ge_github e)"
  shows "\<exists>s m. fetch_store_gate_status e t n = (Inr s, m) \<and> sn_unreachable s \<and> sn_missing s \<and> \<not> sn_pending s \<and> sn_state s = []"
proof (cases "builds_token (ge_environ e) = []")
  case True
  then show ?thesis by (simp add: fetch_store_gate_status_def target_snapshot_def blank_snapshot_def)
next
  case False
  obtain st body where c: "github_request (ge_github e) (StatusesOf (bt_owner t) (bt_repo t) (bt_sha t)) n = (Inr (st, body), Suc n)"
    "st = 401 \<or> st = 403 \<or> st \<ge> 500" "st \<ge> 400" using refused_request[OF assms] by metis
  let ?s = "(target_snapshot t)\<lparr>sn_unreachable := (st = 401 \<or> st = 403 \<or> st \<ge> 500), sn_detail := ''GitHub statuses HTTP '' @ show_int st\<rparr>"
  have "fetch_store_gate_status e t n = (Inr ?s, Suc n)"
    unfolding fetch_store_gate_status_def bind_call_def c(1) if_not_P[OF False]
    using c(3) by simp
  moreover have "sn_unreachable ?s" "sn_missing ?s" "\<not> sn_pending ?s" "sn_state ?s = []"
    using c(2) by (simp_all only: target_snapshot_def blank_snapshot_def store_snapshot.simps simp_thms)
  ultimately show ?thesis by blast
qed

lemma unreachable_facts:
  "sn_missing s \<Longrightarrow> \<not> is_12_of_12 s" "sn_missing s \<Longrightarrow> sn_state s = [] \<Longrightarrow> \<not> gate_answered s"
  by (auto simp: is_12_of_12_def gate_answered_def red_states_def)

lemma refused_poll:
  assumes "refuses (ge_github e)"
  shows "poll e t ending fuel k n = Some (r, m) \<Longrightarrow> \<exists>s. r = Inr s \<and> sn_unreachable s \<and> sn_missing s \<and> \<not> sn_pending s"
proof (induction fuel arbitrary: k n)
  case (Suc fuel)
  obtain s j where s: "fetch_store_gate_status e t n = (Inr s, j)" "sn_unreachable s" "sn_missing s" "\<not> sn_pending s" "sn_state s = []"
    using refused_fetch[OF assms] by metis
  show ?case
  proof (cases "ending - ge_clock e k \<le> 0")
    case True
    then show ?thesis using Suc.prems s unreachable_facts(2)[OF s(3,5)] by (auto simp: timed_out_def)
  next
    case False
    then show ?thesis using Suc s unreachable_facts(2)[OF s(3,5)] by auto
  qed
qed simp

text \<open>Property C9. A gate that cannot be asked gives no verdict: while every request to GitHub is refused (401, 403 or a
  server error) an ingest of a waiting hand-off - also one that polls to its wall - is pending, is not green and leaves
  the workspace exactly as it was.\<close>

theorem no_answer_no_verdict:
  assumes "refuses (ge_github e)" and "parse_builds_repo (ge_environ e) = Inr p" and "gs_session g \<noteq> []"
    and a: "handoff_awaiting_n3 (gs_ledger g)" and i: "ingest_n3_store_gate e wait fuel sid (g, n) = Some (r, h, k)"
  shows "h = g \<and> (case r of Inl x \<Rightarrow> False | Inr res \<Rightarrow> ir_pending res \<and> \<not> ir_ok res)"
proof -
  obtain m where res: "(\<exists>t. resolve_builds_target e (gs_ledger g) sid (gs_session g) n = (Inr t, m)) \<or>
      (\<exists>msg. resolve_builds_target e (gs_ledger g) sid (gs_session g) n = (Inl (PushError True msg), m))"
    using refused_resolve[OF assms(1-3)] by blast
  then show ?thesis
  proof
    assume "\<exists>t. resolve_builds_target e (gs_ledger g) sid (gs_session g) n = (Inr t, m)"
    then obtain t where t: "resolve_builds_target e (gs_ledger g) sid (gs_session g) n = (Inr t, m)" by blast
    then obtain q j where q: "read_gate e wait fuel t m = Some (q, j)"
      and rest: "(case q of Inl x \<Rightarrow> (Inl (GatePush x), g, j) | Inr snap \<Rightarrow> judge_snapshot e wait snap (g, j)) = (r, h, k)"
      using i a by (auto simp: ingest_n3_store_gate_def Let_def)
    have "\<exists>s. q = Inr s \<and> sn_unreachable s \<and> sn_missing s \<and> \<not> sn_pending s"
    proof (cases wait)
      case True
      then show ?thesis using q refused_poll[OF assms(1)] by (auto simp: read_gate_def wait_for_store_gate_def Let_def)
    next
      case False
      then show ?thesis using q refused_fetch[OF assms(1), of t m] by (auto simp: read_gate_def)
    qed
    then obtain s where s: "q = Inr s" "sn_unreachable s" "sn_missing s" "\<not> sn_pending s" by blast
    then show ?thesis using rest unreachable_facts(1)[OF s(3)] by (auto simp: judge_snapshot_def)
  next
    assume "\<exists>msg. resolve_builds_target e (gs_ledger g) sid (gs_session g) n = (Inl (PushError True msg), m)"
    then show ?thesis using i a by (auto simp: ingest_n3_store_gate_def Let_def)
  qed
qed


section \<open>The poll ends\<close>

text \<open>The clock goes on by what the poll sleeps between two reads: the interval, or what is left when that is less.\<close>

definition sleeps :: "gate_env \<Rightarrow> rat \<Rightarrow> bool" where
  "sleeps e ending = (ge_clock e 0 \<le> ge_clock e 1 \<and>
     (\<forall>k. ge_clock e k + min (n3_poll_s (ge_environ e)) (ending - ge_clock e k) \<le> ge_clock e (Suc k)))"

lemma poll_enough:
  assumes "sleeps e ending" and p: "0 < n3_poll_s (ge_environ e)"
  shows "fuel \<ge> 1 \<Longrightarrow> ending - ge_clock e k \<le> (of_nat fuel - 1) * n3_poll_s (ge_environ e) \<Longrightarrow> poll e t ending fuel k n \<noteq> None"
proof (induction fuel arbitrary: k n)
  case (Suc fuel)
  let ?p = "n3_poll_s (ge_environ e)" and ?c = "ge_clock e"
  show ?case
  proof (cases "ending - ?c k \<le> 0")
    case False
    then have f: "fuel \<ge> 1" using Suc.prems(2) p by (cases fuel) auto
    have step: "?c k + min ?p (ending - ?c k) \<le> ?c (Suc k)" using assms(1) by (simp add: sleeps_def)
    have pos: "0 \<le> (of_nat fuel - 1) * ?p" using f p by (simp add: mult_nonneg_nonneg)
    have "ending - ?c (Suc k) \<le> (of_nat fuel - 1) * ?p"
    proof (cases "?p \<le> ending - ?c k")
      case True
      then have "ending - ?c (Suc k) \<le> (ending - ?c k) - ?p" using step by simp
      also have "\<dots> \<le> (of_nat fuel - 1) * ?p" using Suc.prems(2) by (simp add: algebra_simps)
      finally show ?thesis .
    next
      case no: False
      then have "ending \<le> ?c (Suc k)" using step by simp
      then show ?thesis using pos by linarith
    qed
    then show ?thesis using Suc.IH f False by (auto split: prod.splits sum.splits)
  qed (auto split: prod.splits sum.splits)
qed simp

text \<open>Property C31. Waiting for the gate always comes to an end: when the clock goes on by the interval the poll sleeps,
  reading the status as many times as intervals fit in the wall, and twice more, is always enough - whatever GitHub
  answers.\<close>

theorem waiting_ends:
  assumes "sleeps e (ge_clock e 0 + n3_wall_s (ge_environ e))" and "0 < n3_poll_s (ge_environ e)"
    and "n3_wall_s (ge_environ e) \<le> of_nat reads * n3_poll_s (ge_environ e)" and "fuel \<ge> reads + 1"
  shows "\<exists>r m. wait_for_store_gate e t None fuel n = Some (r, m)"
proof -
  let ?p = "n3_poll_s (ge_environ e)" and ?w = "n3_wall_s (ge_environ e)"
  have "of_nat reads * ?p \<le> (of_nat fuel - 1) * ?p"
  proof (rule mult_right_mono)
    have "of_nat (reads + 1) \<le> (of_nat fuel :: rat)" using assms(4) of_nat_le_iff by blast
    then show "of_nat reads \<le> (of_nat fuel - 1 :: rat)" by simp
  qed (use assms(2) in simp)
  moreover have "ge_clock e 0 + ?w - ge_clock e 1 \<le> ?w" using assms(1) by (simp add: sleeps_def)
  ultimately have "poll e t (ge_clock e 0 + ?w) fuel 1 n \<noteq> None"
    using poll_enough[OF assms(1,2), of fuel 1 t n] assms(3,4) by linarith
  then show ?thesis by (auto simp: wait_for_store_gate_def Let_def)
qed

section \<open>Withdrawing and reseeding\<close>

lemma withdrawn_ok:
  "pv_ok (PDict [(''honesty'', PStr a), (''check'', PStr b)])"
  "pv_ok (PDict [(''outcome'', PStr c), (''honesty'', PStr a), (''pilot_ready'', PBool False), (''green'', PBool False)])"
  by auto

text \<open>A certification is withdrawn exactly from a run that stands as succeeded, and once: the ledger keeps
  every event and gains a failed gate and a failed run, the run no longer counts as succeeded or ready, and asking again
  changes nothing.\<close>

theorem withdrawn_once:
  assumes "readable (gs_ledger g)" and "contents (gs_ledger g) \<noteq> None"
  shows "\<exists>h. record_certification_withdrawn e why (g, n) = (Inr (succeeded (event_list (gs_ledger g))), h, n) \<and>
    (if succeeded (event_list (gs_ledger g))
     then \<not> succeeded (event_list (gs_ledger h)) \<and> \<not> recorded_green (gs_ledger h) \<and>
       length (event_list (gs_ledger h)) = length (event_list (gs_ledger g)) + 2 \<and>
       take (length (event_list (gs_ledger g))) (event_list (gs_ledger h)) = event_list (gs_ledger g) \<and>
       record_certification_withdrawn e why2 (h, k) = (Inr False, h, k)
     else h = g)"
proof -
  have r: "ready g" using assms by (simp add: ready_def)
  have no: "record_certification_withdrawn e w (h, i) = (Inr False, h, i)" if "ready h" "\<not> succeeded (gate_events h)" for h w i
    using that ready_events[OF that(1)] by (auto simp: record_certification_withdrawn_def bind_gate_def ready_def)
  show ?thesis
  proof (cases "succeeded (gate_events g)")
    case False
    then show ?thesis using no[OF r] by (simp add: gate_events_def)
  next
    case True
    let ?d = "withdrawn_word @ '': '' @ why"
    let ?p = "[(''honesty'', PStr withdrawn_word), (''check'', PStr store_gate_context)]"
    let ?q = "[(''outcome'', PStr ''FAILED_GATE''), (''honesty'', PStr withdrawn_word), (''pilot_ready'', PBool False), (''green'', PBool False)]"
    obtain f where f: "gate_log e GATE_FAILED ?d ?p (gs_ledger g) = (None, f)" "ready (g\<lparr>gs_ledger := f\<rparr>)"
      "gate_events (g\<lparr>gs_ledger := f\<rparr>) = gate_events g @ [gate_logged e GATE_FAILED ?d ?p (gate_events g)]"
      using gate_log_ready[OF r withdrawn_ok(1)] by blast
    let ?g1 = "g\<lparr>gs_ledger := f\<rparr>"
    obtain v where v: "gate_log e RUN_FAILED ?d ?q (gs_ledger ?g1) = (None, v)" "ready (?g1\<lparr>gs_ledger := v\<rparr>)"
      "gate_events (?g1\<lparr>gs_ledger := v\<rparr>) = gate_events ?g1 @ [gate_logged e RUN_FAILED ?d ?q (gate_events ?g1)]"
      using gate_log_ready[OF f(2) withdrawn_ok(2)] by blast
    let ?h = "g\<lparr>gs_ledger := v\<rparr>"
    obtain x y where xy: "gate_events ?h = gate_events g @ [x, y]" "kind y = RUN_FAILED" and h: "ready ?h"
      using f(3) v(2,3) gate_logged_simps(1)[of ?q e RUN_FAILED ?d "gate_events ?g1"] by auto
    have "terminal_event (gate_events ?h) = Some y"
      using terminal_after_failure[OF xy(2), of "gate_events g @ [x]"] xy(1) by simp
    then have lost: "\<not> succeeded (gate_events ?h)" by (simp add: succeeded_def xy(2))
    moreover have "\<not> recorded_green (gs_ledger ?h)" using lost ready_events[OF h] by (simp add: recorded_green_def)
    moreover have "record_certification_withdrawn e why (g, n) = (Inr True, ?h, n)"
      using True ready_events[OF r] r f(1) v(1)
      by (auto simp: record_certification_withdrawn_def bind_gate_def ledger_gate_def ready_def)
    ultimately show ?thesis
      using True xy(1) no[OF h lost] by (intro exI[of _ ?h]) (simp add: gate_events_def)
  qed
qed


section \<open>What the ledger records of a build\<close>

lemma get0_dset: "get0 (dset k v d) x = (if x = k then v else get0 d x)"
  by (simp add: get_or_def dict_simps)

lemma taken_keys:
  "get0 (foldl (take_key b) f ks) x = (if x \<in> set ks \<and> truthy (get0 b x) then get0 b x else get0 f x)"
proof (induction ks arbitrary: f)
  case (Cons k ks)
  then show ?case by (auto simp: take_key_def get0_dset)
qed simp

lemma taken_ok: "dict_ok f \<Longrightarrow> dict_ok (foldl (take_key b) f ks)"
  by (induction ks arbitrary: f) (auto simp: take_key_def dict_simps)

lemma take_blob_ok: "dict_ok f \<Longrightarrow> dict_ok (take_blob f b)"
  by (simp add: take_blob_def taken_ok dict_simps)

lemma take_blob_sha:
  assumes "dict_ok f"
  shows "get0 (take_blob f b) ''builds_sha'' = (if truthy (get0 b ''builds_sha'') then get0 b ''builds_sha''
    else if truthy (get0 b ''builds_branch'') then PNone else get0 f ''builds_sha'')"
proof -
  have "''builds_sha'' \<in> set builds_keys" by (simp add: builds_keys_def)
  moreover have "get0 (dpop ''builds_sha'' f) ''builds_sha'' = PNone" using assms by (simp add: get_or_def dict_simps)
  ultimately show ?thesis unfolding take_blob_def taken_keys by simp
qed

lemma take_blob_branch:
  "truthy (get0 b ''builds_branch'') \<Longrightarrow> get0 (take_blob f b) ''builds_branch'' = get0 b ''builds_branch''"
  unfolding take_blob_def taken_keys by (simp add: builds_keys_def)

text \<open>The reference reading, newest record first: the newest commit recorded, unless a newer record names a branch
  without one.\<close>

fun newest_sha :: "(string, pyval) dict list \<Rightarrow> pyval" where
  "newest_sha [] = PNone"
| "newest_sha (b # older) =
     (if truthy (get0 b ''builds_sha'') then get0 b ''builds_sha''
      else if truthy (get0 b ''builds_branch'') then PNone
      else newest_sha older)"

text \<open>The commit read from the ledger is the newest one recorded, and never outlives its branch: a record
  that names a branch and no commit forgets every older commit.\<close>

theorem sha_is_of_newest_branch:
  "get0 (builds_fields evs) ''builds_sha'' = newest_sha (rev (concat (map event_blobs evs)))"
proof -
  have "dict_ok (foldl take_blob [] bs) \<and> get0 (foldl take_blob [] bs) ''builds_sha'' = newest_sha (rev bs)" for bs
  proof (induction bs rule: rev_induct)
    case (snoc b bs)
    then show ?case by (simp add: take_blob_ok take_blob_sha)
  qed (simp add: get_or_def)
  then show ?thesis by (simp add: builds_fields_def)
qed

lemma logged_get:
  assumes "dict_ok p"
  shows "kind (logged se k r d p evs) = k" "get0 (payload (logged se k r d p evs)) x = canon (get0 p x)"
  using assms by (simp_all add: logged_def stored_def new_event_def get_or_def dget_canon_dict split: option.splits)

definition failed_handoff :: "reseed_request \<Rightarrow> string list \<Rightarrow> (string, pyval) dict" where
  "failed_handoff q ids = [(''outcome'', PStr handoff_word), (''honesty'', PStr handoff_word), (''next'', PStr ''n3_gate''),
     (''green'', PBool False), (''cycle'', PStr ''code''), (''pilot_ready'', PBool False)] @ handoff_fields q ids"

lemma handoff_payloads:
  "pv_ok (PDict ([(''honesty'', PStr handoff_word), (''seam'', PStr ''cli_pivot''), (''next'', PStr ''n3_gate''),
     (''green'', PBool False)] @ handoff_fields q ids))"
  "pv_ok (PDict (failed_handoff q ids))" "dict_ok (failed_handoff q ids)"
  by (auto simp: handoff_fields_def failed_handoff_def)

lemma failed_handoff_fields:
  "get0 (failed_handoff q ids) ''honesty'' = PStr handoff_word" "get0 (failed_handoff q ids) ''cli_pivot'' = PNone"
  "get0 (failed_handoff q ids) ''builds_sha'' = PStr (py_strip (rr_sha q))"
  "get0 (failed_handoff q ids) ''builds_branch'' = PStr (py_strip (rr_branch q))"
  by (simp_all add: failed_handoff_def handoff_fields_def get_or_def)

lemma handoff_writes_ready:
  assumes "ready g"
  obtains f x y where "run_writes (handoff_writes e q ids) (gs_ledger g) = (None, f)" "ready (g\<lparr>gs_ledger := f\<rparr>)"
    "gate_events (g\<lparr>gs_ledger := f\<rparr>) = gate_events g @ [x, y]"
    "y = logged (ge_start e) RUN_FAILED (Some WRITER) handoff_detail (failed_handoff q ids) (gate_events g @ [x])"
proof -
  have r: "readable (gs_ledger g)" using assms by (simp add: ready_def)
  obtain h x where h: "log_event (ge_start e) NOTE (Some WRITER) handoff_detail ([(''honesty'', PStr handoff_word), (''seam'', PStr ''cli_pivot''),
      (''next'', PStr ''n3_gate''), (''green'', PBool False)] @ handoff_fields q ids) (gs_ledger g) = (None, h)" "readable h"
    "event_list h = event_list (gs_ledger g) @ [x]"
    using log_event_readable[OF r handoff_payloads(1)] by metis
  obtain f where f: "log_event (ge_start e) RUN_FAILED (Some WRITER) handoff_detail (failed_handoff q ids) h = (None, f)" "readable f"
    "event_list f = event_list h @ [logged (ge_start e) RUN_FAILED (Some WRITER) handoff_detail (failed_handoff q ids) (event_list h)]"
    "contents f \<noteq> None"
    using log_event_readable[OF h(2) handoff_payloads(2)] by metis
  have "run_writes (handoff_writes e q ids) (gs_ledger g) = (None, f)"
    using h(1) f(1) by (simp add: handoff_writes_def failed_handoff_def)
  then show ?thesis using that[of f x] f h(3) by (simp add: ready_def gate_events_def)
qed

text \<open>Reseeding a build that neither waits nor ever was green always hands it off: the ledger keeps every
  event, the hand-off is waiting afterwards (the last check of the operation never fires), and the commit and branch
  that the next ingest reads from the ledger are the ones that were asked for.\<close>

theorem reseed_hands_off:
  assumes "readable (gs_ledger g)" and "contents (gs_ledger g) \<noteq> None"
    and "\<not> handoff_awaiting_n3 (gs_ledger g)" and "\<not> recorded_green (gs_ledger g)"
    and "list_all (\<lambda>ev. event_honesty ev \<noteq> green_word) (event_list (gs_ledger g))"
    and "py_strip (rr_sha q) \<noteq> []" and "py_strip (rr_branch q) \<noteq> []" and "list_ex (\<lambda>i. py_strip i \<noteq> []) (rr_ids q)"
  shows "\<exists>h. reseed_handoff_ledger e q (g, n) = (Inr True, h, n) \<and> handoff_awaiting_n3 (gs_ledger h) \<and>
    take (length (event_list (gs_ledger g))) (event_list (gs_ledger h)) = event_list (gs_ledger g) \<and>
    get0 (builds_fields_from_ledger (gs_ledger h)) ''builds_sha'' = PStr (py_strip (rr_sha q)) \<and>
    get0 (builds_fields_from_ledger (gs_ledger h)) ''builds_branch'' = PStr (py_strip (rr_branch q))"
proof -
  have r: "ready g" using assms(1,2) by (simp add: ready_def)
  define ids where "ids = filter (\<lambda>s. s \<noteq> []) (map py_strip (rr_ids q))"
  have ids: "ids \<noteq> []" using assms(8) by (auto simp: ids_def list_ex_iff filter_empty_conv)
  obtain f x y where w: "run_writes (handoff_writes e q ids) (gs_ledger g) = (None, f)" "ready (g\<lparr>gs_ledger := f\<rparr>)"
    "gate_events (g\<lparr>gs_ledger := f\<rparr>) = gate_events g @ [x, y]"
    and y: "y = logged (ge_start e) RUN_FAILED (Some WRITER) handoff_detail (failed_handoff q ids) (gate_events g @ [x])"
    using handoff_writes_ready[OF r] by metis
  let ?g1 = "g\<lparr>gs_ledger := f\<rparr>"
  obtain h where p: "persist_cli_authorship ids (?g1, n) = (Inr (), h, n)" and h: "gs_ledger h = f"
    using persist_keeps[of ids ?g1 n] by (metis gate_space.select_convs(3) gate_space.update_convs(3) gate_space.surjective prod.collapse)
  have hr: "ready h" "gate_events h = gate_events g @ [x, y]" using same_ledger[of h ?g1] h w by auto
  have fields: "get0 (payload y) ''honesty'' = PStr handoff_word" "get0 (payload y) ''cli_pivot'' = PNone"
    "get0 (payload y) ''builds_sha'' = PStr (py_strip (rr_sha q))" "get0 (payload y) ''builds_branch'' = PStr (py_strip (rr_branch q))"
    unfolding y logged_get(2)[OF handoff_payloads(3)] failed_handoff_fields by simp_all
  have "is_handoff y" using fields(1) by (simp add: is_handoff_def event_honesty_def) (code_simp)
  then have a: "handoff_awaiting_n3 (gs_ledger h)"
    using hr ready_events[OF hr(1)] by (simp add: handoff_awaiting_n3_def ready_def)
  have b: "concat (map event_blobs (gate_events h)) = concat (map event_blobs (gate_events g @ [x])) @ [payload y]"
    using hr(2) fields(2) by (simp add: event_blobs_def)
  have sha: "get0 (builds_fields_from_ledger (gs_ledger h)) ''builds_sha'' = PStr (py_strip (rr_sha q))"
    using sha_is_of_newest_branch[of "gate_events h"] b fields(3) assms(6) ready_events[OF hr(1)]
    by (simp add: builds_fields_from_ledger_def)
  have branch: "get0 (builds_fields_from_ledger (gs_ledger h)) ''builds_branch'' = PStr (py_strip (rr_branch q))"
    using b fields(4) assms(7) ready_events[OF hr(1)]
    by (simp add: builds_fields_from_ledger_def builds_fields_def take_blob_branch)
  have "reseed_handoff_ledger e q (g, n) = (Inr True, h, n)"
    using assms(3,4,6,7) ids w(1) p a r assms(5) ready_events[OF r]
    by (auto simp: reseed_handoff_ledger_def Let_def ids_def [symmetric] bind_gate_def ledger_gate_def ready_def gate_events_def
      list_all_iff list_ex_iff)
  then show ?thesis using a sha branch hr(2) by (intro exI[of _ h]) (simp add: gate_events_def)
qed

end
