(* ===== verification/GateFaults.thy ===== *)
theory GateFaults
  imports HandoffFacts
begin

text \<open>
  Where the Store gate's ingest does not do what it means to: failures that are lost,
  billed to the wrong side, or never answered.
\<close>

section \<open>A failed check the floor does not know\<close>

definition failed_item :: "string \<Rightarrow> pyval" where
  "failed_item n = PDict [(''name'', PStr n), (''status'', PStr ''FAIL'')]"

lemma failed_item_read:
  assumes "factory_check_name n = n" "n \<noteq> []" "n \<notin> set check_ids"
  shows "artifact_item (failed_item n) = Inr (UnknownFailed n)"
proof -
  have "py_upper ''FAIL'' = ''FAIL''" by code_simp
  then show ?thesis using assms by (simp add: artifact_item_def failed_item_def get_or_def Let_def)
qed

lemma artifact_items_snoc:
  assumes "factory_check_name n = n" "n \<noteq> []" "n \<notin> set check_ids"
  shows "artifact_items seen (vs @ [failed_item n]) = map_result (\<lambda>its. its @ [UnknownFailed n]) (artifact_items seen vs)"
proof (induction vs arbitrary: seen)
  case Nil
  have "factory_check_name (text_of (get0 [(''name'', PStr n), (''status'', PStr ''FAIL'')] ''name'')) = n"
    using assms(1) by (simp add: get_or_def)
  then show ?case using assms(3) failed_item_read[OF assms] by (simp add: failed_item_def Let_def)
next
  case (Cons v vs)
  have m: "bind_result r (\<lambda>it. map_result ((#) it) (map_result (\<lambda>its. its @ [u]) (x it))) =
      map_result (\<lambda>its. its @ [u]) (bind_result r (\<lambda>it. map_result ((#) it) (x it)))" for r :: "py_exn + artifact_item" and x u
    by (cases r; cases "x (projr r)") auto
  show ?case by (simp add: Let_def Cons m)
qed

lemma floor_lines_snoc: "floor_lines (its @ [UnknownFailed n]) = floor_lines its" "unknown_failed (its @ [UnknownFailed n]) = unknown_failed its @ [n]"
  by (simp_all add: floor_lines_def unknown_failed_def map_filter_def)

text \<open>A failed check that the floor has no entry for is lost: the report made from the gate's artifact
  says that the Factory owes it and is not ok, but the lines, all that the snapshot takes over from the report, are the
  same as if the check had not been in the artifact.\<close>

theorem unknown_failure_is_lost:
  assumes "factory_check_name c = c" and "c \<noteq> []" and "c \<notin> set check_ids" and "get0 raw ''lines'' = PList vs"
  shows "let raw2 = dset ''lines'' (PList (vs @ [failed_item c])) raw
    in map_result acc_lines (report_from_store_gate_payload raw2) = map_result acc_lines (report_from_store_gate_payload raw) \<and>
       (case report_from_store_gate_payload raw2 of Inl x \<Rightarrow> True | Inr r \<Rightarrow> c \<in> set (acc_factory_owed r) \<and> \<not> acc_ok r)"
proof -
  define raw2 where "raw2 = dset ''lines'' (PList (vs @ [failed_item c])) raw"
  have g: "get0 raw2 ''lines'' = PList (vs @ [failed_item c])" "x \<noteq> ''lines'' \<Longrightarrow> get0 raw2 x = get0 raw x" for x
    by (simp_all add: raw2_def get0_dset)
  have it: "py_iter (py_or (PList xs) (PList [])) = Inr xs" for xs by (simp add: py_or_def py_iter_def)
  show ?thesis
  proof (cases "artifact_items [] vs")
    case (Inl x)
    then show ?thesis unfolding raw2_def[symmetric] Let_def report_from_store_gate_payload_def g(1) assms(4) it bind_result.simps
      artifact_items_snoc[OF assms(1-3)] by simp
  next
    case (Inr its)
    have i: "artifact_items [] (vs @ [failed_item c]) = Inr (its @ [UnknownFailed c])"
      using artifact_items_snoc[OF assms(1-3), of "[]" vs] Inr by simp
    let ?o = "ordered_lines not_run ''omitted by the store-gate artifact'' (floor_lines its)"
    show ?thesis
      unfolding raw2_def[symmetric] Let_def report_from_store_gate_payload_def g(1) assms(4) it bind_result.simps Inr i floor_lines_snoc
      by (cases "py_int (py_or (get0 raw ''passed'') (PInt (count_satisfied ?o)))"; cases "py_int (py_or (get0 raw ''total'') (PInt acceptance_required))")
        (auto simp: g(2))
  qed
qed


section \<open>A boot crash in the writer's file\<close>

definition red_scored :: "store_snapshot \<Rightarrow> bool" where
  "red_scored s = (sn_state s \<in> set red_states \<and> sn_harness_ran s \<and> \<not> sn_timeout s \<and> \<not> sn_missing s \<and> sn_lines s \<noteq> [])"

lemma red_not_full: "sn_state s \<in> set red_states \<Longrightarrow> \<not> is_12_of_12 s"
  by (auto simp: is_12_of_12_def red_states_def)

lemma red_report:
  assumes "red_scored s"
  obtains q where "report_from_snapshot s = finalize_owners q" "acc_lines q = sn_lines s" "acc_harness_ran q" "\<not> acc_missing q"
    "\<not> acc_ok q"
proof -
  let ?q = "(new_report (case sn_passed s of Some p \<Rightarrow> p | None \<Rightarrow> 0)
     (case sn_total s of Some t \<Rightarrow> (if t = 0 then acceptance_required else t) | None \<Rightarrow> acceptance_required) (is_12_of_12 s) (sn_lines s)
     (if sn_detail s \<noteq> [] then sn_detail s else sn_score s))\<lparr>acc_via := gate_via, acc_harness_ran := sn_harness_ran s\<rparr>"
  have "report_from_snapshot s = finalize_owners ?q"
    using assms by (simp add: report_from_snapshot_def red_scored_def Let_def)
  then show ?thesis using that[of ?q] assms red_not_full by (simp add: red_scored_def)
qed

lemma no_audit_split:
  assumes "\<not> list_ex (\<lambda>l. al_name l \<in> set audit_check_ids \<and> al_failed l) (acc_lines r)"
  shows "split_audit_by_origin sha256 t rc r = (r, [])"
proof -
  have "split_audit_line sha256 t rc l = (l, [])" if "l \<in> set (acc_lines r)" for l
    using assms that by (auto simp: split_audit_line_def list_ex_iff)
  then have "concat (map snd (map (split_audit_line sha256 t rc) (acc_lines r))) = []" by simp
  then show ?thesis using assms by (simp add: split_audit_by_origin_def Let_def)
qed

lemma audit_not_image: "set audit_check_ids \<inter> set image_check_ids = {}"
  by code_simp

lemma owner_cases: "\<not> factory_line (stamp_owner l) \<Longrightarrow> al_owner l = [] \<Longrightarrow> al_owner (stamp_owner l) = product_owner"
  using owner_of_owned by (auto simp: factory_line_def stamp_owner_def)

lemma filter_all_satisfied: "list_all P xs \<Longrightarrow> length (filter P xs) = length xs"
  by (induction xs) auto

text \<open>Property C25. A boot crash in a file of the writer is billed to the Factory when its detail names a Factory file:
  the line is given to the product, but the scores made before are kept, so the ingest records the Factory as owing the
  check, with no rework, while the stored report's own line says the product owns it.\<close>

theorem writer_crash_billed_to_factory:
  assumes "ready g" and "red_scored s" and "load_receipt (gs_files g) = Inr rc"
    and lines: "sn_lines s = pre @ l # post" "list_all (\<lambda>x. al_owner x = []) (sn_lines s)"
    and l: "al_name l \<in> set image_check_ids" "al_failed l" "owner_of (al_name l) (al_detail l) = factory_owner"
    and rows: "list_ex (\<lambda>r. get0 r ''kind'' = PStr ''boot_crash'' \<and>
      or_owner (row_origin (ge_sha256 e) (gs_files g) rc r) = writer_owner) (al_rows l)"
    and rest: "list_all al_satisfied (pre @ post)" "list_ex (\<lambda>x. owner_of (al_name x) (al_detail x) = product_owner) (pre @ post)"
  shows "\<exists>res u r. ingest_store_gate_snapshot e s (g, n) = (Inr res, u) \<and> ir_honesty res = factory_owed_word \<and>
    gs_report (fst u) = Some r \<and> al_name l \<in> set (acc_factory_owed r) \<and>
    list_ex (\<lambda>x. al_name x = al_name l \<and> al_owner x = product_owner \<and> al_failed x) (acc_lines r)"
proof -
  obtain q where q: "report_from_snapshot s = finalize_owners q" "acc_lines q = sn_lines s" "acc_harness_ran q" "\<not> acc_missing q"
    using red_report[OF assms(2)] by metis
  define r0 where "r0 = finalize_owners q"
  let ?split = "split_image_line (ge_sha256 e) (gs_files g) rc"
  have r0: "acc_lines r0 = map stamp_owner (pre @ l # post)" using q(2) lines(1) by (simp add: r0_def)
  have satl: "snd (?split (stamp_owner x)) = [] \<and> fst (?split (stamp_owner x)) = stamp_owner x" if "al_satisfied x" for x
    using that by (simp add: split_image_line_def Let_def al_failed_def)
  have keep: "map ?split (map stamp_owner xs) = map (\<lambda>x. (stamp_owner x, [])) xs" if "list_all al_satisfied xs" for xs
    using that satl by (induction xs) (auto simp: prod_eq_iff)
  define l2 where "l2 = fst (?split (stamp_owner l))"
  have lr: "al_failed (stamp_owner l)" "al_rows (stamp_owner l) = al_rows l" using l(2) by simp_all
  have l2: "snd (?split (stamp_owner l)) = []" "al_name l2 = al_name l" "al_owner l2 = product_owner" "al_failed l2"
    using rows l(1,2) unfolding l2_def split_image_line_def Let_def
    by (auto simp: list_ex_iff filter_empty_conv al_failed_def al_satisfied_def)
  have moved: "concat (map snd (map ?split (acc_lines r0))) = []"
    unfolding r0 using keep[of pre] keep[of post] rest(1) l2(1) by (simp add: comp_def)
  have nl: "map fst (map ?split (acc_lines r0)) = map stamp_owner pre @ l2 # map stamp_owner post"
    unfolding r0 using keep[of pre] keep[of post] rest(1) by (simp add: comp_def l2_def)
  define r1 where "r1 = r0\<lparr>acc_lines := map stamp_owner pre @ l2 # map stamp_owner post\<rparr>"
  have im: "fst (split_image_by_origin (ge_sha256 e) (gs_files g) rc r0) = r1"
    using moved nl by (simp add: split_image_by_origin_def Let_def r1_def del: map_map)
  have na: "\<not> list_ex (\<lambda>x. al_name x \<in> set audit_check_ids \<and> al_failed x) (acc_lines r1)"
    using rest(1) l2(2) l(1) audit_not_image by (auto simp: r1_def list_ex_iff list_all_iff al_failed_def)
  have sp: "split_by_receipt e s r0 (g, n) = (Inr (r1, []), (g, n))"
    using assms(2,3) q(3) na by (simp add: split_by_receipt_def r0_def[symmetric] bind_gate_def py_gate_def im no_audit_split red_scored_def)
      (simp add: r0_def)
  have fl: "factory_line (stamp_owner l)" using lines l(3) by (simp add: factory_line_def stamp_owner_def)
  have sat: "list_all al_satisfied (filter (\<lambda>x. \<not> factory_line x) (map stamp_owner (pre @ l # post)))"
    using rest(1) fl by (auto simp: list_all_iff)
  obtain x where x: "x \<in> set (pre @ post)" "owner_of (al_name x) (al_detail x) = product_owner" using rest(2) by (auto simp: list_ex_iff)
  have nf: "\<not> factory_line (stamp_owner x)" using x lines(2) unfolding lines(1) by (auto simp: factory_line_def stamp_owner_def list_all_iff owners_differ(1)[symmetric])
  have ne: "filter (\<lambda>x. \<not> factory_line x) (map stamp_owner (pre @ l # post)) \<noteq> []"
    using x(1) nf by (auto simp: filter_empty_conv)
  have owed: "al_name l \<in> set (acc_factory_owed r0)"
    using fl l(2) by (simp add: r0_def finalize_scores q(2) lines(1))
  have ok: "acc_product_passed r0 = acc_product_total r0" "acc_product_total r0 > 0"
    using sat ne by (simp_all only: r0_def finalize_scores q(2) lines(1) filter_all_satisfied length_greater_0_conv not_False_eq_True simp_thms)
  have r1: "product_ok r1" "acc_factory_owed r1 = acc_factory_owed r0"
    using ok q(3,4) by (simp_all add: product_ok_def r1_def) (simp_all add: r0_def)
  obtain d u where f: "apply_store_gate_factory_owed e s r1 (g, n) = (Inr d, u, n)" "gs_report u = Some (r1\<lparr>acc_detail := d\<rparr>)"
    using factory_result[OF assms(1)] by metis
  have "ingest_store_gate_snapshot e s (g, n) = (Inr (ingest_result factory_owed_word False d (Some s)), u, n)"
    using sp f(1) r1 owed assms(2)
    by (auto simp: ingest_store_gate_snapshot_def q(1) r0_def[symmetric] bind_gate_def record_audit_advisory_def red_scored_def)
  moreover have "list_ex (\<lambda>x. al_name x = al_name l \<and> al_owner x = product_owner \<and> al_failed x) (acc_lines r1)"
    using l2 by (simp add: r1_def)
  ultimately show ?thesis using f(2) owed r1(2) by (auto simp: ingest_result_def)
qed

section \<open>A red gate with a full score\<close>

text \<open>A red gate whose status carries a full score is billed to the product although no check failed: the
  run is recorded as failed by the product, the list of failed checks is empty, and the verdict that would send work
  back to the writer does not exist.\<close>

theorem red_full_score_blames_product:
  assumes "ready g" and "red_scored s" and "sn_lines s = itemised_lines []" and "load_receipt (gs_files g) = Inr rc"
  shows "\<exists>res u ev. ingest_store_gate_snapshot e s (g, n) = (Inr res, u) \<and> \<not> ir_ok res \<and>
    gate_events (fst u) = gate_events g @ [ev] \<and> kind ev = RUN_FAILED \<and>
    get0 (payload ev) ''failure_owner'' = PStr product_owner \<and> get0 (payload ev) ''product_failed'' = PList [] \<and>
    store_gate_verdict brief (payload ev) = None"
proof -
  obtain q where q: "report_from_snapshot s = finalize_owners q" "acc_lines q = sn_lines s" "acc_harness_ran q" "\<not> acc_missing q"
    "\<not> acc_ok q" using red_report[OF assms(2)] by metis
  define r where "r = finalize_owners q"
  have lines: "acc_lines r = map stamp_owner (itemised_lines [])" using q(2) assms(3) by (simp add: r_def)
  have sat: "list_all al_satisfied (acc_lines r)"
    by (simp add: lines itemised_lines_def list_all_iff al_satisfied_def)
  then have nf: "\<forall>l\<in>set (acc_lines r). \<not> al_failed l" by (simp add: list_all_iff al_failed_def)
  have im: "split_image_by_origin (ge_sha256 e) (gs_files g) rc r = (r, [])"
  proof -
    have "split_image_line (ge_sha256 e) (gs_files g) rc l = (l, [])" if "l \<in> set (acc_lines r)" for l
      using nf that by (simp add: split_image_line_def Let_def)
    then have m: "map (split_image_line (ge_sha256 e) (gs_files g) rc) (acc_lines r) = map (\<lambda>l. (l, [])) (acc_lines r)" by simp
    show ?thesis unfolding split_image_by_origin_def Let_def m by (simp add: comp_def)
  qed
  have na: "\<not> list_ex (\<lambda>x. al_name x \<in> set audit_check_ids \<and> al_failed x) (acc_lines r)" using nf by (auto simp: list_ex_iff)
  have sp: "split_by_receipt e s r (g, n) = (Inr (r, []), (g, n))"
    using assms(2,4) q(3) no_audit_split[OF na] im
    by (simp add: split_by_receipt_def bind_gate_def py_gate_def red_scored_def r_def)
  have none: "acc_factory_owed r = []" "product_failed r = []"
    using nf by (simp_all add: r_def finalize_scores product_failed_def filter_empty_conv)
  let ?p = "verdict_fields s (failure_honesty s) ''n3_gate'' @ target_fields s @
    (case Some r of None \<Rightarrow> [] | Some r \<Rightarrow> owned_fields r)"
  have p: "pv_ok (PDict ?p)" by (rule failure_payload_ok)
  have f: "get0 ?p ''failure_owner'' = PStr product_owner" "get0 ?p ''product_failed'' = PList []"
    by (simp_all add: verdict_fields_def target_fields_def owned_fields_def get_or_def none)
  define d where "d = product_failure_detail s r"
  obtain v where v: "write_after_start e [gate_log e RUN_FAILED d ?p] (g, n) = (Inr (), g\<lparr>gs_ledger := v\<rparr>, n)"
    "gate_events (g\<lparr>gs_ledger := v\<rparr>) = gate_events g @ [gate_logged e RUN_FAILED d ?p (gate_events g)]"
    using write_one[OF assms(1) p] by metis
  let ?ev = "gate_logged e RUN_FAILED d ?p (gate_events g)" and ?res = "ingest_result (failure_honesty s) False (product_failure_detail s r) (Some s)"
  have dk: "dict_ok ?p" using p by simp
  have ev: "kind ?ev = RUN_FAILED" "get0 (payload ?ev) ''failure_owner'' = PStr product_owner" "get0 (payload ?ev) ''product_failed'' = PList []"
    unfolding gate_logged_simps[OF dk] f by simp_all
  have "apply_store_gate_failure e s (failure_honesty s) (Some r) (g, n) = (Inr (), g\<lparr>gs_ledger := v\<rparr>, n)"
    using v(1) by (simp add: apply_store_gate_failure_def d_def)
  then have "ingest_store_gate_snapshot e s (g, n) = (Inr ?res, g\<lparr>gs_ledger := v\<rparr>, n)"
    using sp none q(3) assms(2)
    by (simp add: ingest_store_gate_snapshot_def q(1) r_def[symmetric] bind_gate_def record_audit_advisory_def red_scored_def)
      (simp add: r_def)
  moreover have "store_gate_verdict brief (payload ?ev) = None"
    using ev by (simp add: store_gate_verdict_def Let_def strs_of_def list_of_def)
  ultimately show ?thesis using v(2) ev by (intro exI[of _ ?res] exI[of _ "(g\<lparr>gs_ledger := v\<rparr>, n)"] exI[of _ ?ev]) simp
qed

section \<open>Requests that are not answered\<close>

lemma recorded_target:
  assumes "builds_token (ge_environ e) \<noteq> []" and "parse_builds_repo (ge_environ e) = Inr p"
    and "py_strip (text_of (get0 (builds_fields_from_ledger f) ''builds_sha'')) \<noteq> []"
  shows "\<exists>t. resolve_builds_target e f sid own n = (Inr t, n)"
  using assms by (cases p) (simp add: resolve_builds_target_def Let_def)

text \<open>A gate that cannot be reached at all (no name, no route, connection refused) is not handled like one
  that refuses to answer: on a hand-off whose commit is on the ledger the failure leaves the ingest as an exception, with
  nothing recorded, and ends the thread that was waiting for the gate.\<close>

theorem transport_failure_escapes:
  assumes "handoff_awaiting_n3 (gs_ledger g)" and "builds_token (ge_environ e) \<noteq> []" and "parse_builds_repo (ge_environ e) = Inr p"
    and "py_strip (text_of (get0 (builds_fields_from_ledger (gs_ledger g)) ''builds_sha'')) \<noteq> []"
    and "\<forall>rq. ge_github e n rq = NoTransport why" and "fuel > 0"
  shows "ingest_n3_store_gate e wait fuel sid (g, n) =
    Some (Inl (GatePush (PushError True (''GitHub API down: '' @ why))), g, Suc n)"
proof -
  obtain t where t: "resolve_builds_target e (gs_ledger g) sid (gs_session g) n = (Inr t, n)"
    using recorded_target[OF assms(2-4)] by blast
  have fetch: "fetch_store_gate_status e t n = (Inl (PushError True (''GitHub API down: '' @ why)), Suc n)"
    using assms(2,5) by (simp add: fetch_store_gate_status_def bind_call_def github_request_def)
  then have "read_gate e wait fuel t n = Some (Inl (PushError True (''GitHub API down: '' @ why)), Suc n)"
    using assms(6) by (cases fuel) (simp_all add: read_gate_def wait_for_store_gate_def Let_def)
  then show ?thesis using assms(1) t by (simp add: ingest_n3_store_gate_def Let_def)
qed

text \<open>A hand-off whose recorded branch was deleted waits for ever: GitHub's answer that the branch does not
  exist (404) counts as not being able to ask, so every ingest is pending and changes nothing, and no verdict is reached.\<close>

theorem deleted_branch_waits_for_ever:
  assumes "handoff_awaiting_n3 (gs_ledger g)" and "parse_builds_repo (ge_environ e) = Inr p"
    and "py_strip (text_of (get0 (builds_fields_from_ledger (gs_ledger g)) ''builds_sha'')) = []"
    and "py_strip (text_of (get0 (builds_fields_from_ledger (gs_ledger g)) ''builds_branch'')) \<noteq> []"
    and "\<forall>rq. ge_github e n rq = Answered 404 body"
  shows "\<exists>res k. ingest_n3_store_gate e wait fuel sid (g, n) = Some (Inr res, g, k) \<and> ir_pending res \<and> \<not> ir_ok res"
proof -
  have "\<exists>msg k. resolve_builds_target e (gs_ledger g) sid (gs_session g) n = (Inl (PushError True msg), k)"
    using assms(2-5) by (cases p) (simp add: resolve_builds_target_def Let_def fetch_commit_sha_def bind_call_def github_request_def)
  then show ?thesis using assms(1) by (auto simp: ingest_n3_store_gate_def Let_def)
qed

text \<open>Without a recorded commit or branch the newest branch of any session whose id merely begins like this
  session's is taken: the branch of session abc1 answers for session abc.\<close>

theorem longer_session_branch_taken:
  assumes "builds_token (ge_environ e) \<noteq> []" and "parse_builds_repo (ge_environ e) = Inr (owner, repo)"
    and "builds_fields_from_ledger f = []" and "recorded_platform_id f = None" and "py_strip sid = sid" "sid \<noteq> []"
    and "sanitize_session_id sid = sid" and "py_strip owner = owner" "owner \<noteq> []" "py_strip repo = repo" "repo \<noteq> []"
    and "ge_github e n (MatchingRefs owner repo (''heads/build/'' @ sid)) = Answered 200 (PList [PDict
       [(''ref'', PStr (''refs/heads/build/'' @ sid @ other)), (''object'', PDict [(''sha'', PStr h)])]])"
    and "py_strip h = h" "h \<noteq> []" "py_strip (''refs/heads/build/'' @ sid @ other) = ''refs/heads/build/'' @ sid @ other"
  shows "\<exists>t k. resolve_builds_target e f sid own n = (Inr t, k) \<and> bt_branch t = ''build/'' @ sid @ other \<and> bt_sha t = h"
proof -
  let ?b = "''build/'' @ sid @ other"
  have sw: "starts_with (xs @ ys) xs" for xs ys by (simp add: starts_with_iff)
  have row: "ref_row sid (PDict [(''ref'', PStr (''refs/heads/build/'' @ sid @ other)), (''object'', PDict [(''sha'', PStr h)])]) = Some (?b, h)"
    using assms(13-15) sw[of sid other] unfolding ref_row_def
    by (simp add: get_or_def dict_of_def remove_prefix_def)
  have refs: "build_refs_of_record (ge_github e) owner repo None sid n = (Inr [(?b, h)], Suc n)"
    using assms(6,7,12) row
    by (simp add: build_refs_of_record_def list_session_build_refs_def Let_def bind_call_def github_request_def map_filter_def)
  have t: "text_of (get0 [] k) = []" "str_or (get0 [] k) x = x" for k x by (simp_all add: get_or_def str_or_def py_or_def py_str_def)
  have s: "py_strip [] = []" by simp
  show ?thesis
    unfolding resolve_builds_target_def Let_def assms(2,3,4,5) t s
    using assms(1,6,8-11) refs by (simp add: bind_call_def)
qed

end
