(* ===== verification/GateWitnesses.thy ===== *)
theory GateWitnesses
  imports GateFaults
begin

text \<open>
  The theorems on the Store gate at concrete workspaces, answers of GitHub and clocks.
\<close>

section \<open>A waiting hand-off\<close>

definition demo_handoff :: "build_event list" where
  "demo_handoff = [
     \<lparr>seq = 1, ts = ''10'', kind = RUN_STARTED, role = None, detail = ''build of p'', payload = []\<rparr>,
     \<lparr>seq = 2, ts = ''11'', kind = RUN_FAILED, role = Some WRITER, detail = ''HANDOFF_TO_N3'',
       payload = [(''builds_branch'', PStr ''build/s-1''), (''builds_sha'', PStr ''abc''), (''honesty'', PStr ''HANDOFF_TO_N3'')]\<rparr>]"

definition demo_branch_only :: "build_event list" where
  "demo_branch_only = [
     \<lparr>seq = 1, ts = ''10'', kind = RUN_FAILED, role = Some WRITER, detail = ''HANDOFF_TO_N3'',
       payload = [(''builds_branch'', PStr ''build/s-1''), (''honesty'', PStr ''HANDOFF_TO_N3'')]\<rparr>]"

definition demo_gate_space :: "build_event list \<Rightarrow> gate_space" where
  "demo_gate_space es = \<lparr>gs_name = ''p'', gs_session = ''s'', gs_ledger = file_of es, gs_files = (\<lambda>p. None), gs_report = None,
     gs_provenance = None\<rparr>"

definition builds_environ :: environ where
  "builds_environ k = (if k = ''CEREBRUM_BUILDS_GITHUB_TOKEN'' then Some ''t'' else None)"

definition demo_gate :: "github \<Rightarrow> gate_env" where
  "demo_gate gh = \<lparr>ge_start = demo_start\<lparr>st_environ := builds_environ\<rparr>, ge_github = gh, ge_archive = (\<lambda>u. None),
     ge_clock = (\<lambda>k. of_nat k * 15), ge_sha256 = (\<lambda>s. s), ge_modules = []\<rparr>"

definition says_green :: github where
  "says_green k rq = Answered 200 (PList [PDict [(''context'', PStr ''store-gate''), (''state'', PStr ''success''),
     (''description'', PStr ''23/23'')]])"

definition says_503 :: github where
  "says_503 k rq = Answered 503 PNone"

definition says_404 :: github where
  "says_404 k rq = Answered 404 PNone"

definition no_route :: github where
  "no_route k rq = NoTransport ''no route''"

lemma demo_space_simps [simp]:
  "gs_ledger (demo_gate_space es) = file_of es" "gs_session (demo_gate_space es) = ''s''" "gs_files (demo_gate_space es) = (\<lambda>p. None)"
  by (simp_all add: demo_gate_space_def)

lemma demo_gate_simps [simp]:
  "ge_github (demo_gate gh) = gh" "ge_environ (demo_gate gh) = builds_environ" "ge_clock (demo_gate gh) k = of_nat k * 15"
  by (simp_all add: demo_gate_def)

lemma demo_handoff_stored: "map stored demo_handoff = demo_handoff" "map stored demo_branch_only = demo_branch_only"
  by code_simp+

lemma demo_handoff_readable:
  "readable (file_of demo_handoff)" "event_list (file_of demo_handoff) = demo_handoff"
  "readable (file_of demo_branch_only)" "event_list (file_of demo_branch_only) = demo_branch_only"
  using file_of_readable[of demo_handoff] file_of_readable[of demo_branch_only] demo_handoff_stored
  by (simp_all add: demo_handoff_def demo_branch_only_def)

lemma demo_handoff_awaits: "handoff_awaiting_n3 (file_of demo_handoff)" "handoff_awaiting_n3 (file_of demo_branch_only)"
proof -
  have "is_handoff (last demo_handoff)" "is_handoff (last demo_branch_only)" by code_simp+
  then show "handoff_awaiting_n3 (file_of demo_handoff)" "handoff_awaiting_n3 (file_of demo_branch_only)"
    using demo_handoff_readable readable_events demo_contents
    by (simp_all add: handoff_awaiting_n3_def demo_handoff_def demo_branch_only_def)
qed

lemma demo_handoff_fields:
  "builds_fields_from_ledger (file_of demo_handoff) = [(''builds_sha'', PStr ''abc''), (''builds_branch'', PStr ''build/s-1'')]"
  "builds_fields_from_ledger (file_of demo_branch_only) = [(''builds_branch'', PStr ''build/s-1'')]"
proof -
  have "builds_fields demo_handoff = [(''builds_sha'', PStr ''abc''), (''builds_branch'', PStr ''build/s-1'')]"
    "builds_fields demo_branch_only = [(''builds_branch'', PStr ''build/s-1'')]" by code_simp+
  then show "builds_fields_from_ledger (file_of demo_handoff) = [(''builds_sha'', PStr ''abc''), (''builds_branch'', PStr ''build/s-1'')]"
    "builds_fields_from_ledger (file_of demo_branch_only) = [(''builds_branch'', PStr ''build/s-1'')]"
    using demo_handoff_readable readable_events by (simp_all add: builds_fields_from_ledger_def)
qed

lemma demo_environ: "builds_token builds_environ \<noteq> []" "parse_builds_repo builds_environ = Inr (''bopoadz-del'', ''cerebrum-builds'')"
  "n3_poll_s builds_environ = 15" "n3_wall_s builds_environ = 1800"
  by code_simp+

lemma demo_sha: "py_strip (text_of (get0 (builds_fields_from_ledger (file_of demo_handoff)) ''builds_sha'')) = ''abc''"
  "py_strip (text_of (get0 (builds_fields_from_ledger (file_of demo_branch_only)) ''builds_sha'')) = []"
  "py_strip (text_of (get0 (builds_fields_from_ledger (file_of demo_branch_only)) ''builds_branch'')) = ''build/s-1''"
  unfolding demo_handoff_fields by code_simp+

definition demo_target :: builds_target where
  "demo_target = \<lparr>bt_owner = ''bopoadz-del'', bt_repo = ''cerebrum-builds'', bt_sha = ''abc'', bt_branch = ''build/s-1'', bt_session = ''s''\<rparr>"

lemma demo_resolved: "resolve_builds_target (demo_gate gh) (file_of demo_handoff) [] ''s'' n = (Inr demo_target, n)"
proof -
  have "py_strip (text_of (get0 [(''builds_sha'', PStr ''abc''), (''builds_branch'', PStr ''build/s-1'')] ''builds_branch'')) = ''build/s-1''"
    "py_strip (text_of (get0 [(''builds_sha'', PStr ''abc''), (''builds_branch'', PStr ''build/s-1'')] ''builds_sha'')) = ''abc''"
    "py_strip (str_or (get0 [(''builds_sha'', PStr ''abc''), (''builds_branch'', PStr ''build/s-1'')] ''builds_owner'') ''bopoadz-del'') = ''bopoadz-del''"
    "py_strip (str_or (get0 [(''builds_sha'', PStr ''abc''), (''builds_branch'', PStr ''build/s-1'')] ''builds_repo'') ''cerebrum-builds'') = ''cerebrum-builds''"
    by code_simp+
  then show ?thesis
    unfolding resolve_builds_target_def demo_gate_simps demo_handoff_fields Let_def
    using demo_environ(1,2) by (simp add: demo_target_def)
qed

section \<open>Green\<close>

lemma success_total:
  assumes "ready g" "success_green s sr (case sr of Some r \<Rightarrow> r | None \<Rightarrow> report_from_snapshot s)" "cli_authored_ids (gs_ledger g) = Inr ids"
  shows "\<exists>u. apply_store_gate_success e s sr (g, n) = (Inr (), u)"
proof -
  define r where "r = (case sr of Some r \<Rightarrow> r | None \<Rightarrow> report_from_snapshot s)"
  let ?g1 = "g\<lparr>gs_report := Some r\<rparr>"
  obtain h where h: "persist_cli_authorship ids (?g1, n) = (Inr (), h, n)" "gs_ledger h = gs_ledger g"
    using persist_keeps[of ids ?g1 n] by (metis gate_space.select_convs(3) gate_space.update_convs(5) gate_space.surjective prod.collapse)
  have hr: "ready h" using same_ledger[of h g] h(2) assms(1) by simp
  obtain f where "write_after_start e [gate_log e GATE_PASSED (''STORE (n3 store-gate): '' @ sn_score s @ '' on '' @ take 12 (sn_sha s)) (passed_payload s),
      gate_log e RUN_SUCCEEDED three_gate_pilot_detail (succeeded_payload s ids)] (h, n) = (Inr (), h\<lparr>gs_ledger := f\<rparr>, n)"
    using write_two[OF hr success_payloads(1)[of s] success_payloads(2)[of s ids]] by metis
  then show ?thesis
    using assms(2,3) h(1) unfolding passed_payload_def succeeded_payload_def
    by (auto simp: apply_store_gate_success_def r_def[symmetric] Let_def bind_gate_def py_gate_def)
qed

lemma demo_green_read:
  "\<exists>s k. fetch_store_gate_status (demo_gate says_green) demo_target 0 = (Inr s, k) \<and> is_12_of_12 s"
proof -
  have "case fetch_store_gate_status (demo_gate says_green) demo_target 0 of (Inl x, k) \<Rightarrow> False | (Inr s, k) \<Rightarrow> is_12_of_12 s"
    by code_simp
  then show ?thesis by (auto split: prod.splits sum.splits)
qed

lemma demo_ready: "ready (demo_gate_space demo_handoff)"
  using demo_handoff_readable demo_contents by (simp add: ready_def)

lemma demo_ids: "cli_authored_ids (file_of demo_handoff) = Inr []"
  unfolding cli_authored_ids_def demo_handoff_fields by code_simp

lemma demo_ingest_green:
  "\<exists>res u. ingest_n3_store_gate (demo_gate says_green) False 0 [] (demo_gate_space demo_handoff, 0) = Some (Inr res, u) \<and>
     ir_ok res \<and> \<not> ir_pending res"
proof -
  obtain s k where s: "fetch_store_gate_status (demo_gate says_green) demo_target 0 = (Inr s, k)" "is_12_of_12 s"
    using demo_green_read by blast
  have snd: "sound_snapshot s" using fetch_sound s(1) by blast
  have "success_green s None (report_from_snapshot s)"
    using s(2) report_lines[OF snd] by (simp add: success_green_def)
  then obtain u where "apply_store_gate_success (demo_gate says_green) s None (demo_gate_space demo_handoff, k) = (Inr (), u)"
    using success_total[OF demo_ready, of s None "[]" "demo_gate says_green" k] demo_ids by auto
  then show ?thesis
    using s demo_handoff_awaits(1) demo_resolved
    by (simp add: ingest_n3_store_gate_def Let_def read_gate_def judge_snapshot_def bind_gate_def)
qed


theorem green_needs_every_line_witness:
  "\<exists>u. recorded_green (gs_ledger (fst u)) \<and> (case gs_report (fst u) of None \<Rightarrow> False
     | Some r \<Rightarrow> list_all al_satisfied (acc_lines r) \<and> map al_name (acc_lines r) = check_ids) \<and>
     (\<exists>res. ingest_n3_store_gate (demo_gate says_green) False 0 [] (demo_gate_space demo_handoff, 0) = Some (Inr res, u))"
proof -
  obtain res u where i: "ingest_n3_store_gate (demo_gate says_green) False 0 [] (demo_gate_space demo_handoff, 0) = Some (Inr res, u)"
    "ir_ok res" using demo_ingest_green by blast
  then show ?thesis
    using green_needs_every_line[OF i(1)] demo_handoff_readable demo_handoff_awaits
    by (intro exI[of _ u]) (auto split: option.splits)
qed

theorem handoff_judged_once_witness:
  "\<exists>h k res. ingest_n3_store_gate (demo_gate says_green) False 0 [] (demo_gate_space demo_handoff, 0) = Some (Inr res, h, k) \<and>
     \<not> handoff_awaiting_n3 (gs_ledger h) \<and>
     ingest_n3_store_gate (demo_gate says_503) True 7 [] (h, 9) = Some (Inr (not_awaiting (gs_ledger h)), h, 9)"
proof -
  obtain res h k where i: "ingest_n3_store_gate (demo_gate says_green) False 0 [] (demo_gate_space demo_handoff, 0) = Some (Inr res, h, k)"
    "\<not> ir_pending res" using demo_ingest_green by (metis surj_pair)
  then show ?thesis
    using handoff_judged_once[OF i(1), of "demo_gate says_503" True 7 "[]" 9] demo_handoff_readable demo_handoff_awaits by auto
qed

section \<open>No answer\<close>

lemma demo_refuses: "refuses says_503"
  by (simp add: refuses_def says_503_def)

lemma demo_sleeps: "sleeps (demo_gate gh) (ge_clock (demo_gate gh) 0 + n3_wall_s (ge_environ (demo_gate gh)))"
  by (simp add: sleeps_def demo_environ)

theorem no_answer_no_verdict_witness:
  "\<exists>res k. ingest_n3_store_gate (demo_gate says_503) True 121 [] (demo_gate_space demo_handoff, 0) =
     Some (Inr res, demo_gate_space demo_handoff, k) \<and> ir_pending res"
proof -
  have "poll (demo_gate says_503) demo_target 1800 121 1 0 \<noteq> None"
    using poll_enough[of "demo_gate says_503" 1800 121 1 demo_target 0] demo_sleeps[of says_503] by (simp add: demo_environ)
  then have "\<exists>r m. read_gate (demo_gate says_503) True 121 demo_target 0 = Some (r, m)"
    by (auto simp: read_gate_def wait_for_store_gate_def Let_def demo_environ)
  then obtain r h k where i: "ingest_n3_store_gate (demo_gate says_503) True 121 [] (demo_gate_space demo_handoff, 0) = Some (r, h, k)"
    using demo_resolved demo_handoff_awaits(1)
    by (simp add: ingest_n3_store_gate_def Let_def) (metis surj_pair)
  show ?thesis
    using no_answer_no_verdict[OF _ _ _ _ i] demo_refuses demo_environ(2) demo_handoff_awaits(1) i by (auto split: sum.splits)
qed

theorem waiting_ends_witness:
  "\<exists>r m. wait_for_store_gate (demo_gate says_503) demo_target None 121 0 = Some (r, m)"
  using waiting_ends[OF demo_sleeps, of says_503 120 121 demo_target 0] by (simp add: demo_environ)

section \<open>Withdrawing and reseeding\<close>

lemma demo_success_readable:
  "readable (file_of (demo_history @ [demo_end RUN_SUCCEEDED]))"
  "event_list (file_of (demo_history @ [demo_end RUN_SUCCEEDED])) = demo_history @ [demo_end RUN_SUCCEEDED]"
  using file_of_readable[of "demo_history @ [demo_end RUN_SUCCEEDED]"] demo_stored(2)
  by (simp_all add: demo_history_def demo_end_def stored_def canon_dict_def)

theorem withdrawn_once_witness:
  "\<exists>h. record_certification_withdrawn (demo_gate no_route) ''red'' (demo_gate_space (demo_history @ [demo_end RUN_SUCCEEDED]), 0) =
      (Inr True, h, 0) \<and> \<not> succeeded (event_list (gs_ledger h))"
proof -
  have "succeeded (demo_history @ [demo_end RUN_SUCCEEDED])" by code_simp
  then show ?thesis
    using withdrawn_once[of "demo_gate_space (demo_history @ [demo_end RUN_SUCCEEDED])" "demo_gate no_route" "''red''" 0 "[]" 0]
      demo_success_readable demo_contents by auto
qed

definition demo_reseed :: reseed_request where
  "demo_reseed = \<lparr>rr_sha = ''def'', rr_branch = ''build/s-2'', rr_ids = [''a''], rr_owner = [], rr_repo = [], rr_product = [],
     rr_hash = []\<rparr>"

theorem reseed_hands_off_witness:
  "\<exists>h. reseed_handoff_ledger (demo_gate no_route) demo_reseed (demo_gate_space demo_history, 0) = (Inr True, h, 0) \<and>
     handoff_awaiting_n3 (gs_ledger h) \<and> get0 (builds_fields_from_ledger (gs_ledger h)) ''builds_sha'' = PStr ''def''"
proof -
  have q: "py_strip (rr_sha demo_reseed) = ''def''" "py_strip (rr_branch demo_reseed) \<noteq> []" "list_ex (\<lambda>i. py_strip i \<noteq> []) (rr_ids demo_reseed)"
    "\<not> succeeded demo_history" "list_all (\<lambda>ev. event_honesty ev \<noteq> green_word) demo_history" by code_simp+
  have "\<not> recorded_green (file_of demo_history)"
    using q(4) demo_history_readable readable_events by (simp add: recorded_green_def)
  then show ?thesis
    using reseed_hands_off[of "demo_gate_space demo_history" demo_reseed "demo_gate no_route" 0] q demo_history_readable
      demo_contents demo_not_awaiting(2) by auto
qed

section \<open>Faults\<close>

theorem unknown_failure_is_lost_witness:
  "(let raw2 = dset ''lines'' (PList [failed_item ''new_check'']) [(''lines'', PList [])]
    in map_result acc_lines (report_from_store_gate_payload raw2) =
         map_result acc_lines (report_from_store_gate_payload [(''lines'', PList [])]) \<and>
       (case report_from_store_gate_payload raw2 of Inl x \<Rightarrow> True | Inr r \<Rightarrow> ''new_check'' \<in> set (acc_factory_owed r) \<and> \<not> acc_ok r))"
proof -
  have "factory_check_name ''new_check'' = ''new_check''" "''new_check'' \<notin> set check_ids" by code_simp+
  then show ?thesis using unknown_failure_is_lost[of "''new_check''" "[(''lines'', PList [])]" "[]"] by (simp add: get_or_def)
qed

definition crash_file :: string where "crash_file = ''app/handlers/x.py''"

definition demo_tree :: tree where
  "demo_tree p = (if p = receipt_rel then Some (''{'' @ [CHR 0x22] @ ''schema'' @ [CHR 0x22] @ '':'' @ [CHR 0x22] @ receipt_schema @ [CHR 0x22] @ ''}'')
     else if p = crash_file then Some ''x'' else None)"

definition demo_crash :: acceptance_line where
  "demo_crash = (new_line ''docker_health_200'' ''FAIL'' ''crash below app/auth.py'')\<lparr>al_rows :=
     [[(''kind'', PStr ''boot_crash''), (''file'', PStr crash_file)]]\<rparr>"

definition demo_pass :: "string list \<Rightarrow> acceptance_line list" where
  "demo_pass = map (\<lambda>n. new_line n ''PASS'' ''ok'')"

definition demo_red :: store_snapshot where
  "demo_red = blank_snapshot\<lparr>sn_state := ''failure'', sn_missing := False,
     sn_lines := demo_pass (take 10 check_ids) @ demo_crash # demo_pass (drop 11 check_ids)\<rparr>"

lemma demo_crash_facts:
  "red_scored demo_red" "load_receipt demo_tree = Inr (Some \<lparr>rc_files = [], rc_vendored = [], rc_base = []\<rparr>)"
  "list_all (\<lambda>x. al_owner x = []) (sn_lines demo_red)" "al_name demo_crash \<in> set image_check_ids" "al_failed demo_crash"
  "owner_of (al_name demo_crash) (al_detail demo_crash) = factory_owner"
  "list_ex (\<lambda>r. get0 r ''kind'' = PStr ''boot_crash'' \<and>
      or_owner (row_origin (\<lambda>s. s) demo_tree (Some \<lparr>rc_files = [], rc_vendored = [], rc_base = []\<rparr>) r) = writer_owner) (al_rows demo_crash)"
  "list_all al_satisfied (demo_pass (take 10 check_ids) @ demo_pass (drop 11 check_ids))"
  "list_ex (\<lambda>x. owner_of (al_name x) (al_detail x) = product_owner) (demo_pass (take 10 check_ids) @ demo_pass (drop 11 check_ids))"
  by code_simp+

theorem writer_crash_billed_to_factory_witness:
  "\<exists>res u r. ingest_store_gate_snapshot (demo_gate no_route) demo_red ((demo_gate_space demo_handoff)\<lparr>gs_files := demo_tree\<rparr>, 0) = (Inr res, u) \<and>
     ir_honesty res = factory_owed_word \<and> gs_report (fst u) = Some r \<and>
     list_ex (\<lambda>x. al_name x = ''docker_health_200'' \<and> al_owner x = product_owner \<and> al_failed x) (acc_lines r)"
proof -
  let ?g = "(demo_gate_space demo_handoff)\<lparr>gs_files := demo_tree\<rparr>"
  have r: "ready ?g" using demo_ready by (simp add: ready_def)
  have sha: "ge_sha256 (demo_gate no_route) = (\<lambda>s. s)" by (simp add: demo_gate_def)
  have n: "al_name demo_crash = ''docker_health_200''" by (simp add: demo_crash_def)
  have l: "sn_lines demo_red = demo_pass (take 10 check_ids) @ demo_crash # demo_pass (drop 11 check_ids)" by (simp add: demo_red_def)
  show ?thesis
    using writer_crash_billed_to_factory[OF r demo_crash_facts(1) _ l demo_crash_facts(3-6) _ demo_crash_facts(8,9),
        of "Some \<lparr>rc_files = [], rc_vendored = [], rc_base = []\<rparr>" "demo_gate no_route" 0]
      demo_crash_facts(2,7) sha n by auto
qed

definition demo_full_red :: store_snapshot where
  "demo_full_red = blank_snapshot\<lparr>sn_state := ''failure'', sn_missing := False, sn_lines := itemised_lines []\<rparr>"

theorem red_full_score_blames_product_witness:
  "\<exists>res u ev. ingest_store_gate_snapshot (demo_gate no_route) demo_full_red (demo_gate_space demo_handoff, 0) = (Inr res, u) \<and>
     \<not> ir_ok res \<and> gate_events (fst u) = demo_handoff @ [ev] \<and> store_gate_verdict (\<lambda>c. []) (payload ev) = None"
proof -
  have "red_scored demo_full_red" "sn_lines demo_full_red = itemised_lines []" "load_receipt (\<lambda>p. None) = Inr None"
    by code_simp+
  then show ?thesis
    using red_full_score_blames_product[OF demo_ready, of demo_full_red None "demo_gate no_route" 0 "\<lambda>c. []"] demo_handoff_readable(2)
    by (auto simp: gate_events_def)
qed

theorem transport_failure_escapes_witness:
  "ingest_n3_store_gate (demo_gate no_route) True 1 [] (demo_gate_space demo_handoff, 0) =
     Some (Inl (GatePush (PushError True ''GitHub API down: no route'')), demo_gate_space demo_handoff, 1)"
  using transport_failure_escapes[of "demo_gate_space demo_handoff" "demo_gate no_route" _ 0 "''no route''" 1 True "[]"]
    demo_handoff_awaits(1) demo_environ(1,2) demo_sha(1) by (simp add: no_route_def)

theorem deleted_branch_waits_for_ever_witness:
  "\<exists>res k. ingest_n3_store_gate (demo_gate says_404) True 1 [] (demo_gate_space demo_branch_only, 5) =
     Some (Inr res, demo_gate_space demo_branch_only, k) \<and> ir_pending res"
  using deleted_branch_waits_for_ever[of "demo_gate_space demo_branch_only" "demo_gate says_404" _ 5 PNone True 1 "[]"]
    demo_handoff_awaits(2) demo_environ(2) demo_sha(2,3) by (auto simp: says_404_def)

definition says_longer :: github where
  "says_longer k rq = Answered 200 (PList [PDict [(''ref'', PStr (''refs/heads/build/'' @ ''abc'' @ ''1-x'')),
     (''object'', PDict [(''sha'', PStr ''77'')])]])"

theorem longer_session_branch_taken_witness:
  "\<exists>t k. resolve_builds_target (demo_gate says_longer) no_ledger ''abc'' ''abc'' 0 = (Inr t, k) \<and> bt_branch t = ''build/abc1-x''"
proof -
  have "builds_fields_from_ledger no_ledger = []" "recorded_platform_id no_ledger = None" "sanitize_session_id ''abc'' = ''abc''"
    "py_strip ''abc'' = ''abc''" "py_strip ''bopoadz-del'' = ''bopoadz-del''" "py_strip ''cerebrum-builds'' = ''cerebrum-builds''"
    "py_strip ''77'' = ''77''" "py_strip (''refs/heads/build/'' @ ''abc'' @ ''1-x'') = ''refs/heads/build/'' @ ''abc'' @ ''1-x''"
    by code_simp+
  then show ?thesis
    using longer_session_branch_taken[of "demo_gate says_longer" "''bopoadz-del''" "''cerebrum-builds''" no_ledger "''abc''" 0 "''1-x''" "''77''" "''abc''"]
      demo_environ(1,2) by (auto simp: says_longer_def)
qed

end
