(* ===== verification/Precedence.thy ===== *)
theory Precedence
  imports PyConv Complex_Main
begin

text \<open>
  The four authority layers of the product kernel
  (\<open>cerebrum_product_kernel/precedence.py\<close>): the versioned ladder, the objects that
  answer a question, the winner and the record of what every loser would have said;
  the labels a claim of an answer carries (\<open>claim_labels.py\<close>) and the retrieval that
  earns them (\<open>retrieval_engine.py\<close>).  The value an object computes when it is
  evaluated, the embedder and the vector store are arguments; a score is an exact rational, so the
  rounding of floats and NaN are left out.
\<close>

section \<open>The ladder\<close>

datatype prec_exn =
    PrecedenceError string string
  | ClaimLabelError string
  | RetrievalEngineError string
  | Raised py_exn

type_synonym ladder = "(int \<times> int) list"

definition precedence_version :: string where "precedence_version = ''precedence.v1''"
definition rule_ladder :: string where "rule_ladder = ''precedence.v1.ladder''"
definition rule_formula_shadow :: string where "rule_formula_shadow = ''precedence.v1.formula_shadow''"

definition layer_labels :: "(int \<times> string) list" where
  "layer_labels = [(1, ''certified''), (2, ''documents''), (3, ''formulas''), (4, ''procedures'')]"

definition default_ladder :: ladder where
  "default_ladder = [(1, 1), (2, 2), (3, 3), (4, 4)]"

text \<open>\<open>d[k]\<close> and \<open>d.get(k)\<close> on a value that need not be a dictionary.\<close>

definition subscript :: "pyval \<Rightarrow> string \<Rightarrow> py_exn + pyval" where
  "subscript v k = (case v of
       PDict d \<Rightarrow> (case dget d k of Some w \<Rightarrow> Inr w | None \<Rightarrow> Inl KeyError)
     | _ \<Rightarrow> Inl TypeError)"

definition lift_exn :: "py_exn + 'a \<Rightarrow> prec_exn + 'a" where
  "lift_exn r = (case r of Inl e \<Rightarrow> Inl (Raised e) | Inr a \<Rightarrow> Inr a)"

definition ladder_entry :: "pyval \<Rightarrow> prec_exn + (int \<times> int)" where
  "ladder_entry e =
     bind_result (lift_exn (bind_result (subscript e ''layer'') py_int)) (\<lambda>layer.
     bind_result (lift_exn (bind_result (subscript e ''rank'') py_int)) (\<lambda>rank.
     if dget layer_labels layer = None then Inl (PrecedenceError ''ladder_unknown_layer'' (show_int layer))
     else Inr (layer, rank)))"

fun ladder_entries :: "ladder \<Rightarrow> pyval list \<Rightarrow> prec_exn + ladder" where
  "ladder_entries l [] = Inr l"
| "ladder_entries l (e # es) =
     bind_result (ladder_entry e) (\<lambda>(layer, rank). ladder_entries (dset layer rank l) es)"

text \<open>\<open>load_ladder\<close> on the text of the ladder file.\<close>

definition load_ladder :: "string \<Rightarrow> prec_exn + ladder" where
  "load_ladder file = (case loads file of
       None \<Rightarrow> Inl (Raised ValueError)
     | Some (PDict raw) \<Rightarrow>
         (if get0 raw ''schema'' \<noteq> PStr precedence_version
          then Inl (PrecedenceError ''ladder_schema_mismatch'' (py_repr (get0 raw ''schema'')))
          else
            bind_result (lift_exn (py_iter (get_or raw ''rank'' (PList [])))) (\<lambda>es.
            bind_result (ladder_entries [] es) (\<lambda>l.
            if set (dkeys l) \<noteq> set (dkeys layer_labels)
            then Inl (PrecedenceError ''ladder_incomplete'' (py_repr (PList (map PInt (sort (dkeys l))))))
            else Inr l)))
     | Some _ \<Rightarrow> Inl (Raised AttributeError))"

definition shipped_ladder :: string where
  "shipped_ladder = concat (map (\<lambda>s. s @ [CHR 0x0A])
     [''{'',
      ''  \"schema\": \"precedence.v1\",'',
      ''  \"rank\": ['',
      ''    {\"layer\": 1, \"rank\": 1, \"label\": \"certified\"},'',
      ''    {\"layer\": 2, \"rank\": 2, \"label\": \"documents\"},'',
      ''    {\"layer\": 3, \"rank\": 3, \"label\": \"formulas\"},'',
      ''    {\"layer\": 4, \"rank\": 4, \"label\": \"procedures\"}'',
      ''  ]'',
      ''}''])"

section \<open>Objects, records, verdicts\<close>

record layer_object =
  lo_id :: string
  lo_layer :: int
  lo_tenant :: "string option"
  lo_result :: pyval
  lo_excerpt :: string
  lo_evaluate :: "(py_exn + pyval) option"

text \<open>An empty tenant id is falsy, so it counts as none.\<close>

definition has_tenant :: "string option \<Rightarrow> bool" where
  "has_tenant t = (case t of None \<Rightarrow> False | Some s \<Rightarrow> s \<noteq> [])"

definition post_init :: "layer_object \<Rightarrow> prec_exn + layer_object" where
  "post_init x =
     (if dget layer_labels (lo_layer x) = None
      then Inl (PrecedenceError ''unknown_layer'' (show_int (lo_layer x)))
      else if lo_layer x = 1 \<and> has_tenant (lo_tenant x)
      then Inl (PrecedenceError ''certified_layer_tenant_scoped'' [])
      else if lo_layer x \<noteq> 1 \<and> \<not> has_tenant (lo_tenant x)
      then Inl (PrecedenceError ''tenant_layer_unscoped'' [])
      else Inr x)"

record divergence_record =
  dv_winner_layer :: pyval
  dv_loser_layer :: pyval
  dv_rule :: pyval
  dv_winner_object :: pyval
  dv_winner_result :: pyval
  dv_loser_object :: pyval
  dv_loser_result :: pyval

definition divergence_dict :: "divergence_record \<Rightarrow> (string, pyval) dict" where
  "divergence_dict r =
     [(''winner_layer'', dv_winner_layer r), (''loser_layer'', dv_loser_layer r), (''rule_id'', dv_rule r),
      (''winner_object_id'', dv_winner_object r), (''winner_result'', dv_winner_result r),
      (''loser_object_id'', dv_loser_object r), (''loser_result'', dv_loser_result r)]"

record prec_verdict =
  vd_winner :: layer_object
  vd_records :: "divergence_record list"

definition verdict_dict :: "prec_verdict \<Rightarrow> pyval" where
  "verdict_dict v = PDict
     [(''precedence_version'', PStr precedence_version),
      (''winner_layer'', PInt (lo_layer (vd_winner v))),
      (''winner_object_id'', PStr (lo_id (vd_winner v))),
      (''divergences'', PList (map (PDict \<circ> divergence_dict) (vd_records v)))]"

definition value_of :: "layer_object \<Rightarrow> prec_exn + pyval" where
  "value_of x = (case lo_evaluate x of
       Some r \<Rightarrow> lift_exn r
     | None \<Rightarrow> Inr (if lo_result x \<noteq> PNone then lo_result x else PStr (lo_excerpt x)))"

definition divergence :: "string \<Rightarrow> layer_object \<Rightarrow> layer_object \<Rightarrow> prec_exn + divergence_record" where
  "divergence rule w x =
     bind_result (value_of w) (\<lambda>vw. bind_result (value_of x) (\<lambda>vx. Inr
       \<lparr>dv_winner_layer = PInt (lo_layer w), dv_loser_layer = PInt (lo_layer x), dv_rule = PStr rule,
        dv_winner_object = PStr (lo_id w), dv_winner_result = vw,
        dv_loser_object = PStr (lo_id x), dv_loser_result = vx\<rparr>))"

section \<open>Resolution\<close>

definition rank_of :: "ladder \<Rightarrow> layer_object \<Rightarrow> int" where
  "rank_of l x = (case dget l (lo_layer x) of Some r \<Rightarrow> r | None \<Rightarrow> 0)"

text \<open>\<open>sorted(objects, key=..., reverse=True)\<close> keeps the order of objects of equal rank.\<close>

definition ranked :: "ladder \<Rightarrow> layer_object list \<Rightarrow> layer_object list" where
  "ranked l xs = sort_key (\<lambda>x. - rank_of l x) xs"

definition resolve_precedence :: "layer_object list \<Rightarrow> prec_exn + ladder \<Rightarrow> prec_exn + prec_verdict" where
  "resolve_precedence objects loaded =
     (if objects = [] then Inl (PrecedenceError ''precedence_no_objects'' [])
      else bind_result loaded (\<lambda>l.
        if list_ex (\<lambda>x. dget l (lo_layer x) = None) objects then Inl (Raised KeyError)
        else (case ranked l objects of
            [] \<Rightarrow> Inl (PrecedenceError ''precedence_no_objects'' [])
          | w # losers \<Rightarrow>
              bind_result (map_res (divergence rule_ladder w) losers) (\<lambda>rs.
              Inr \<lparr>vd_winner = w, vd_records = rs\<rparr>))))"

definition resolve_formula_by_id ::
  "string \<Rightarrow> layer_object list \<Rightarrow> prec_exn + ladder \<Rightarrow> prec_exn + prec_verdict" where
  "resolve_formula_by_id i objects loaded =
     (let matches = filter (\<lambda>x. lo_id x = i) objects;
          certified = filter (\<lambda>x. lo_layer x = 1) matches
      in if matches = [] then Inl (PrecedenceError ''formula_not_found'' i)
         else bind_result (resolve_precedence matches loaded) (\<lambda>v.
           case certified of
             base # _ \<Rightarrow>
               if lo_layer (vd_winner v) = 3 then
                 bind_result (divergence rule_formula_shadow (vd_winner v) base) (\<lambda>shadow.
                 Inr \<lparr>vd_winner = vd_winner v, vd_records = shadow # vd_records v\<rparr>)
               else Inr v
           | [] \<Rightarrow> Inr v))"

section \<open>Claims and their labels\<close>

definition human_layer_labels :: "(int \<times> string) list" where
  "human_layer_labels =
     [(1, ''Certified''), (2, ''Your documents''), (3, ''Your formula''), (4, ''Your procedure'')]"

record claim =
  cl_text :: string
  cl_layer :: int
  cl_object :: string
  cl_precedence :: "divergence_record option"

definition make_claim :: "claim \<Rightarrow> prec_exn + claim" where
  "make_claim c = (if dget human_layer_labels (cl_layer c) = None
     then Inl (ClaimLabelError (show_int (cl_layer c))) else Inr c)"

definition enforce_claim_labels :: "claim list \<Rightarrow> prec_exn + unit" where
  "enforce_claim_labels cs = (case List.find (\<lambda>c. dget human_layer_labels (cl_layer c) = None) cs of
       Some c \<Rightarrow> Inl (ClaimLabelError (take 40 (cl_text c))) | None \<Rightarrow> Inr ())"

definition human_label :: "claim \<Rightarrow> string" where
  "human_label c = (case dget human_layer_labels (cl_layer c) of Some n \<Rightarrow> n | None \<Rightarrow> [])"

definition claim_to_dict :: "claim \<Rightarrow> prec_exn + (string, pyval) dict" where
  "claim_to_dict c = map_result (\<lambda>_.
     [(''text'', PStr (cl_text c)), (''layer'', PInt (cl_layer c)), (''label'', PStr (human_label c)),
      (''object_id'', PStr (cl_object c)),
      (''precedence'', (case cl_precedence c of None \<Rightarrow> PNone | Some r \<Rightarrow> PDict (divergence_dict r)))])
     (enforce_claim_labels [c])"

text \<open>\<open>DivergenceRecord(**prec)\<close> takes exactly the seven fields.\<close>

definition divergence_fields :: "string list" where
  "divergence_fields = [''winner_layer'', ''loser_layer'', ''rule_id'', ''winner_object_id'',
     ''winner_result'', ''loser_object_id'', ''loser_result'']"

definition divergence_from :: "pyval \<Rightarrow> prec_exn + divergence_record" where
  "divergence_from v = (case v of
       PDict d \<Rightarrow>
         (if set (dkeys d) = set divergence_fields then Inr
            \<lparr>dv_winner_layer = get0 d ''winner_layer'', dv_loser_layer = get0 d ''loser_layer'',
             dv_rule = get0 d ''rule_id'', dv_winner_object = get0 d ''winner_object_id'',
             dv_winner_result = get0 d ''winner_result'', dv_loser_object = get0 d ''loser_object_id'',
             dv_loser_result = get0 d ''loser_result''\<rparr>
          else Inl (Raised TypeError))
     | _ \<Rightarrow> Inl (Raised TypeError))"

definition claim_from_dict :: "pyval \<Rightarrow> prec_exn + claim" where
  "claim_from_dict v = (case v of
       PDict d \<Rightarrow>
         (if get0 d ''layer'' = PNone then Inl (ClaimLabelError ''None'')
          else bind_result (lift_exn (py_int (get0 d ''layer''))) (\<lambda>layer.
            if dget human_layer_labels layer = None then Inl (ClaimLabelError (py_repr (get0 d ''layer'')))
            else bind_result
              (if truthy (get0 d ''precedence'') then map_result Some (divergence_from (get0 d ''precedence''))
               else Inr None) (\<lambda>r.
              make_claim \<lparr>cl_text = text_of (get0 d ''text''), cl_layer = layer,
                cl_object = text_of (get0 d ''object_id''), cl_precedence = r\<rparr>)))
     | _ \<Rightarrow> Inl (Raised AttributeError))"

definition answer_to_dict :: "claim list \<Rightarrow> prec_exn + pyval" where
  "answer_to_dict cs = map_result (\<lambda>ds. PDict
     [(''precedence_version'', PStr precedence_version), (''claims'', PList (map PDict ds))])
     (map_res claim_to_dict cs)"

definition answer_from_dict :: "pyval \<Rightarrow> prec_exn + claim list" where
  "answer_from_dict v = (case v of
       PDict d \<Rightarrow> (if get0 d ''claims'' = PNone then Inl (ClaimLabelError [])
          else bind_result (lift_exn (py_iter (get0 d ''claims''))) (map_res claim_from_dict))
     | _ \<Rightarrow> Inl (Raised AttributeError))"

section \<open>Retrieval\<close>

record store_row =
  sr_id :: pyval
  sr_document :: pyval
  sr_text :: pyval
  sr_score :: rat
  sr_meta :: "(string, pyval) dict"

record retrieval_hit =
  rh_chunk :: string
  rh_text :: string
  rh_score :: rat
  rh_layer :: int
  rh_tenant :: "string option"

record retrieval_engine =
  re_top_k :: nat
  re_min_score :: rat

definition make_engine :: "bool \<Rightarrow> prec_exn + retrieval_engine" where
  "make_engine semantic =
     (if \<not> semantic then Inl (RetrievalEngineError ''keyword_embedder_not_retrieval'')
      else Inr \<lparr>re_top_k = 6, re_min_score = 1 / 1000000\<rparr>)"

text \<open>Only whether a tenant id is truthy matters to the engine.\<close>

definition tenant_text :: "pyval \<Rightarrow> string option" where
  "tenant_text v = (if truthy v then Some (py_str v) else None)"

definition hit_of :: "store_row \<Rightarrow> prec_exn + retrieval_hit" where
  "hit_of r = map_result (\<lambda>layer.
     \<lparr>rh_chunk = text_of (sr_id r), rh_text = text_of (py_or (sr_document r) (sr_text r)),
      rh_score = sr_score r, rh_layer = layer, rh_tenant = tenant_text (get0 (sr_meta r) ''tenant_id'')\<rparr>)
     (lift_exn (py_int (py_or (get0 (sr_meta r) ''layer'') (PInt 2))))"

definition retrieve :: "retrieval_engine \<Rightarrow> store_row list \<Rightarrow> prec_exn + retrieval_hit list" where
  "retrieve e rows = map_res hit_of (filter (\<lambda>r. \<not> sr_score r < re_min_score e) rows)"

definition hit_object :: "retrieval_hit \<Rightarrow> prec_exn + layer_object" where
  "hit_object h = post_init
     \<lparr>lo_id = (if rh_chunk h \<noteq> [] then rh_chunk h else take 40 (rh_text h)), lo_layer = rh_layer h,
      lo_tenant = rh_tenant h, lo_result = PNone, lo_excerpt = rh_text h, lo_evaluate = None\<rparr>"

definition layer_verdict :: "prec_exn + ladder \<Rightarrow> retrieval_hit list \<Rightarrow> prec_exn + prec_verdict" where
  "layer_verdict loaded hits = bind_result (map_res hit_object hits) (\<lambda>os. resolve_precedence os loaded)"

definition labeled_answer ::
  "retrieval_engine \<Rightarrow> prec_exn + ladder \<Rightarrow> store_row list \<Rightarrow> string \<Rightarrow> prec_exn + claim list" where
  "labeled_answer e loaded rows answer =
     bind_result (retrieve e rows) (\<lambda>hits.
     if hits = [] then Inl (RetrievalEngineError ''grounded_fact_absent'')
     else bind_result (layer_verdict loaded hits) (\<lambda>v.
       map_result (\<lambda>c. [c]) (make_claim
         \<lparr>cl_text = answer, cl_layer = lo_layer (vd_winner v), cl_object = lo_id (vd_winner v),
          cl_precedence = (case vd_records v of [] \<Rightarrow> None | r # _ \<Rightarrow> Some r)\<rparr>)))"

section \<open>The store in memory\<close>

record 'v mem_row =
  mr_vector :: 'v
  mr_document :: string
  mr_meta :: "(string, pyval) dict"

type_synonym 'v mem_store = "(string, (string, 'v mem_row) dict) dict"

definition collection :: "'v mem_store \<Rightarrow> string \<Rightarrow> (string, 'v mem_row) dict" where
  "collection m c = (case dget m c of None \<Rightarrow> [] | Some rows \<Rightarrow> rows)"

definition upsert :: "string \<Rightarrow> (string \<times> 'v mem_row) list \<Rightarrow> 'v mem_store \<Rightarrow> 'v mem_store" where
  "upsert c rows m = dset c (dmerge (collection m c) rows) m"

definition mem_row_out :: "('v \<Rightarrow> 'v \<Rightarrow> rat) \<Rightarrow> 'v \<Rightarrow> string \<times> 'v mem_row \<Rightarrow> store_row" where
  "mem_row_out cosine v = (\<lambda>(i, r). \<lparr>sr_id = PStr i, sr_document = PStr (mr_document r), sr_text = PNone,
     sr_score = cosine v (mr_vector r), sr_meta = mr_meta r\<rparr>)"

definition mem_query :: "('v \<Rightarrow> 'v \<Rightarrow> rat) \<Rightarrow> 'v mem_store \<Rightarrow> string \<Rightarrow> 'v \<Rightarrow> nat \<Rightarrow> store_row list" where
  "mem_query cosine m c v k =
     take k (sort_key (\<lambda>r. - sr_score r) (map (mem_row_out cosine v) (collection m c)))"

definition mem_count :: "'v mem_store \<Rightarrow> string \<Rightarrow> nat" where
  "mem_count m c = length (collection m c)"

text \<open>\<open>ingest\<close>: a chunk becomes a row of the collection under its own id.\<close>

definition chunk_meta :: "pyval \<Rightarrow> prec_exn + (string, pyval) dict" where
  "chunk_meta c = (case c of
       PDict d \<Rightarrow> map_result (\<lambda>layer.
           [(''layer'', PInt layer), (''tenant_id'', get0 d ''tenant_id''),
            (''object_id'', get_or d ''object_id'' (PStr []))])
         (lift_exn (py_int (get_or d ''layer'' (PInt 2))))
     | _ \<Rightarrow> Inl (Raised AttributeError))"

definition chunk_rows :: "(string \<Rightarrow> 'v) \<Rightarrow> pyval list \<Rightarrow> prec_exn + (string \<times> 'v mem_row) list" where
  "chunk_rows emb chunks =
     bind_result (map_res (\<lambda>c. lift_exn (map_result py_str (subscript c ''id''))) chunks) (\<lambda>ids.
     bind_result (map_res (\<lambda>c. lift_exn (map_result py_str (subscript c ''text''))) chunks) (\<lambda>texts.
     map_result (\<lambda>metas. zip ids (map (\<lambda>(t, m). \<lparr>mr_vector = emb t, mr_document = t, mr_meta = m\<rparr>)
         (zip texts metas)))
       (map_res chunk_meta chunks)))"

definition ingest :: "(string \<Rightarrow> 'v) \<Rightarrow> string \<Rightarrow> pyval list \<Rightarrow> 'v mem_store \<Rightarrow> prec_exn + 'v mem_store" where
  "ingest emb c chunks m = map_result (\<lambda>rows. upsert c rows m) (chunk_rows emb chunks)"

end
