(* ===== verification/PrecedenceFacts.thy ===== *)
theory PrecedenceFacts
  imports Precedence "HOL-Library.Multiset"
begin

text \<open>
  What holds of the authority layers: the winner is the first object of the highest
  rank and every other object is on the record, a taught formula keeps what the
  certified one would have said, answers read back, and a label is earned by a
  retrieved chunk of the collection that was asked.
\<close>

section \<open>The winner\<close>

lemma sort_key_first:
  "sort_key f xs = w # rest \<Longrightarrow>
   \<exists>pre post. xs = pre @ w # post \<and> (\<forall>x \<in> set pre. f w < f x) \<and> (\<forall>x \<in> set post. f w \<le> f x)"
proof (induction xs arbitrary: w rest)
  case (Cons a xs)
  show ?case
  proof (cases "sort_key f xs")
    case Nil
    then have "xs = []" by (metis length_0_conv length_sort)
    then have "a # xs = [] @ w # []" using Cons.prems by simp
    then show ?thesis by (metis empty_iff empty_set)
  next
    case (Cons y ys)
    obtain pre post where s: "xs = pre @ y # post" "\<forall>x \<in> set pre. f y < f x" "\<forall>x \<in> set post. f y \<le> f x"
      using Cons.IH [OF Cons] by blast
    show ?thesis
    proof (cases "f a \<le> f y")
      case True
      then have "w = a" using Cons.prems \<open>sort_key f xs = y # ys\<close> by simp
      then have "a # xs = [] @ w # xs" "\<forall>x \<in> set xs. f w \<le> f x" using s True by auto
      then show ?thesis by fastforce
    next
      case False
      then have "w = y" using Cons.prems \<open>sort_key f xs = y # ys\<close> by simp
      then have "a # xs = (a # pre) @ w # post" "\<forall>x \<in> set (a # pre). f w < f x" "\<forall>x \<in> set post. f w \<le> f x"
        using s False by auto
      then show ?thesis by blast
    qed
  qed
qed simp

lemma ranked_mset: "mset (ranked l xs) = mset xs"
  by (simp add: ranked_def)

lemma all2_right: "list_all2 P xs ys \<Longrightarrow> y \<in> set ys \<Longrightarrow> \<exists>x \<in> set xs. P x y"
  by (induction rule: list_all2_induct) auto

lemma all2_left: "list_all2 P xs ys \<Longrightarrow> x \<in> set xs \<Longrightarrow> \<exists>y \<in> set ys. P x y"
  by (induction rule: list_all2_induct) auto

lemma divergence_fields_of:
  "divergence rule w x = Inr r \<Longrightarrow>
   dv_rule r = PStr rule \<and> dv_winner_object r = PStr (lo_id w) \<and> dv_loser_object r = PStr (lo_id x)
   \<and> dv_winner_layer r = PInt (lo_layer w) \<and> dv_loser_layer r = PInt (lo_layer x)
   \<and> value_of w = Inr (dv_winner_result r) \<and> value_of x = Inr (dv_loser_result r)"
  by (auto simp: divergence_def result_simps)

lemma resolve_precedenceE:
  assumes "resolve_precedence os loaded = Inr v"
  obtains l losers where "loaded = Inr l" "\<forall>x \<in> set os. dget l (lo_layer x) \<noteq> None"
    "ranked l os = vd_winner v # losers"
    "list_all2 (\<lambda>x r. divergence rule_ladder (vd_winner v) x = Inr r) losers (vd_records v)"
  using assms
  by (auto simp: resolve_precedence_def result_simps map_res_Inr_iff list_ex_iff split: if_splits list.splits)

lemma winner_facts:
  assumes "resolve_precedence os (Inr l) = Inr v"
  shows "vd_winner v \<in> set os" "\<forall>x \<in> set os. rank_of l x \<le> rank_of l (vd_winner v)"
    "\<exists>pre post. os = pre @ vd_winner v # post
       \<and> list_all (\<lambda>x. rank_of l x < rank_of l (vd_winner v)) pre
       \<and> list_all (\<lambda>x. rank_of l x \<le> rank_of l (vd_winner v)) post"
proof -
  obtain losers where r: "ranked l os = vd_winner v # losers"
    using assms by (auto elim: resolve_precedenceE)
  obtain pre post where s: "os = pre @ vd_winner v # post"
      "\<forall>x \<in> set pre. - rank_of l (vd_winner v) < - rank_of l x"
      "\<forall>x \<in> set post. - rank_of l (vd_winner v) \<le> - rank_of l x"
    using sort_key_first [OF r [unfolded ranked_def]] by blast
  then show "vd_winner v \<in> set os" "\<forall>x \<in> set os. rank_of l x \<le> rank_of l (vd_winner v)" by auto
  show "\<exists>pre post. os = pre @ vd_winner v # post
       \<and> list_all (\<lambda>x. rank_of l x < rank_of l (vd_winner v)) pre
       \<and> list_all (\<lambda>x. rank_of l x \<le> rank_of l (vd_winner v)) post"
    using s by (auto simp: list_all_iff)
qed

text \<open> The winner is the first object of the highest rank; there is exactly one
  record for every other object, with the values both sides compute.\<close>

theorem winner_is_first_of_highest:
  assumes "resolve_precedence os (Inr l) = Inr v"
  shows "(\<exists>pre post. os = pre @ vd_winner v # post
             \<and> list_all (\<lambda>x. rank_of l x < rank_of l (vd_winner v)) pre
             \<and> list_all (\<lambda>x. rank_of l x \<le> rank_of l (vd_winner v)) post)
     \<and> mset os = {#vd_winner v#} + mset (tl (ranked l os))
     \<and> list_all2 (\<lambda>x r. dv_loser_object r = PStr (lo_id x) \<and> value_of x = Inr (dv_loser_result r)
           \<and> value_of (vd_winner v) = Inr (dv_winner_result r)) (tl (ranked l os)) (vd_records v)"
proof -
  obtain losers where r: "ranked l os = vd_winner v # losers"
    and d: "list_all2 (\<lambda>x r. divergence rule_ladder (vd_winner v) x = Inr r) losers (vd_records v)"
    using assms by (auto elim: resolve_precedenceE)
  have "mset os = {#vd_winner v#} + mset (tl (ranked l os))"
    using ranked_mset [of l os] r by simp
  moreover have "list_all2 (\<lambda>x r. dv_loser_object r = PStr (lo_id x) \<and> value_of x = Inr (dv_loser_result r)
           \<and> value_of (vd_winner v) = Inr (dv_winner_result r)) (tl (ranked l os)) (vd_records v)"
    using d by (simp add: r) (erule list_all2_mono, drule divergence_fields_of, simp)
  ultimately show ?thesis using winner_facts(3) [OF assms] by blast
qed

section \<open>Shadowing by id\<close>

text \<open> When a taught formula wins over a certified one of the same id, the first
  record carries what both compute.\<close>

theorem taught_formula_keeps_certified:
  assumes "resolve_formula_by_id i os loaded = Inr v" and "lo_layer (vd_winner v) = 3"
    and "List.find (\<lambda>x. lo_id x = i \<and> lo_layer x = 1) os = Some base"
  shows "\<exists>r rs. vd_records v = r # rs \<and> dv_rule r = PStr rule_formula_shadow
     \<and> dv_winner_object r = PStr i \<and> dv_loser_object r = PStr i \<and> lo_id (vd_winner v) = i
     \<and> value_of (vd_winner v) = Inr (dv_winner_result r) \<and> value_of base = Inr (dv_loser_result r)"
proof -
  define ms where "ms = filter (\<lambda>x. lo_id x = i) os"
  have find_filter: "List.find (\<lambda>x. P x \<and> Q x) xs = Some b \<Longrightarrow> \<exists>r. filter Q (filter P xs) = b # r" for P Q xs b
    by (induction xs) (auto split: if_splits)
  obtain rest where c: "filter (\<lambda>x. lo_layer x = 1) ms = base # rest"
    using find_filter [OF assms(3)] by (auto simp: ms_def)
  have "base \<in> set (filter (\<lambda>x. lo_layer x = 1) ms)" by (simp only: c list.set_intros)
  then have b: "lo_id base = i" by (simp add: ms_def)
  have m: "ms \<noteq> []" using c by auto
  obtain v0 r where v0: "resolve_precedence ms loaded = Inr v0" and l3: "lo_layer (vd_winner v0) = 3"
    and r: "divergence rule_formula_shadow (vd_winner v0) base = Inr r"
    and v: "v = \<lparr>vd_winner = vd_winner v0, vd_records = r # vd_records v0\<rparr>"
    using assms(1,2) c m
    by (auto simp: resolve_formula_by_id_def Let_def result_simps ms_def [symmetric] split: if_splits)
  obtain l losers where "ranked l ms = vd_winner v0 # losers" using v0 by (rule resolve_precedenceE)
  then have "vd_winner v0 \<in># mset ms" by (metis ranked_mset list.set_intros(1) set_mset_mset)
  then have "lo_id (vd_winner v0) = i" by (simp add: ms_def)
  then show ?thesis using divergence_fields_of [OF r] b v by simp
qed

section \<open>Answers read back\<close>

lemma divergence_reads_back: "divergence_from (PDict (divergence_dict r)) = Inr r"
  by (simp add: divergence_from_def divergence_dict_def divergence_fields_def)

lemma claim_reads_back: "claim_to_dict c = Inr d \<Longrightarrow> claim_from_dict (PDict d) = Inr c"
proof (cases "cl_precedence c")
  case None
  then show "claim_to_dict c = Inr d \<Longrightarrow> ?thesis"
    by (auto simp: claim_to_dict_def enforce_claim_labels_def result_simps claim_from_dict_def lift_exn_def
        py_int_def make_claim_def split: if_splits)
next
  case (Some r)
  have "divergence_dict r \<noteq> []" by (simp add: divergence_dict_def)
  with Some show "claim_to_dict c = Inr d \<Longrightarrow> ?thesis"
    by (auto simp: claim_to_dict_def enforce_claim_labels_def result_simps claim_from_dict_def lift_exn_def
        py_int_def make_claim_def divergence_reads_back split: if_splits)
qed

text \<open> An answer is written only with a label on every claim, and what is written
  reads back.\<close>

theorem answers_read_back:
  assumes "answer_to_dict cs = Inr d"
  shows "list_all (\<lambda>c. cl_layer c \<in> {1, 2, 3, 4}) cs \<and> answer_from_dict d = Inr cs"
proof -
  obtain ds where ds: "list_all2 (\<lambda>c d. claim_to_dict c = Inr d) cs ds"
    and d: "d = PDict [(''precedence_version'', PStr precedence_version), (''claims'', PList (map PDict ds))]"
    using assms by (auto simp: answer_to_dict_def result_simps map_res_Inr_iff)
  have "list_all2 (\<lambda>d c. claim_from_dict d = Inr c) (map PDict ds) cs"
    using ds by (induction rule: list_all2_induct) (auto simp: claim_reads_back)
  moreover have "list_all (\<lambda>c. cl_layer c \<in> {1, 2, 3, 4}) cs"
    using ds by (induction rule: list_all2_induct)
      (auto simp: claim_to_dict_def enforce_claim_labels_def human_layer_labels_def result_simps split: if_splits option.splits)
  ultimately show ?thesis by (simp add: d answer_from_dict_def py_iter_def lift_exn_def map_res_Inr_iff)
qed

section \<open>Retrieval\<close>

lemma retrieve_hits:
  "retrieve e rows = Inr hits \<Longrightarrow>
   list_all2 (\<lambda>r h. hit_of r = Inr h) (filter (\<lambda>r. \<not> sr_score r < re_min_score e) rows) hits"
  by (simp add: retrieve_def map_res_Inr_iff)

lemma hit_of_fields: "hit_of r = Inr h \<Longrightarrow> rh_score h = sr_score r \<and> rh_text h = text_of (py_or (sr_document r) (sr_text r))"
  by (auto simp: hit_of_def result_simps)

lemma hit_object_fields:
  "hit_object h = Inr x \<Longrightarrow> lo_layer x = rh_layer h \<and> lo_excerpt x = rh_text h \<and> value_of x = Inr (PStr (rh_text h))"
  by (auto simp: hit_object_def post_init_def value_of_def split: if_splits)

text \<open>Property C33.  The label of an answer is the highest-ranked layer among the chunks that
  were retrieved with a score worth counting, and names one of them.\<close>

theorem label_is_earned:
  assumes "labeled_answer e (Inr l) rows answer = Inr cs"
  shows "\<exists>c hits h. cs = [c] \<and> cl_text c = answer \<and> retrieve e rows = Inr hits \<and> h \<in> set hits
     \<and> \<not> rh_score h < re_min_score e \<and> cl_layer c = rh_layer h
     \<and> list_all (\<lambda>g. the (dget l (rh_layer g)) \<le> the (dget l (cl_layer c))) hits"
proof -
  obtain hits os v where r: "retrieve e rows = Inr hits" and o: "list_all2 (\<lambda>h x. hit_object h = Inr x) hits os"
    and v: "resolve_precedence os (Inr l) = Inr v"
    and c: "cs = [\<lparr>cl_text = answer, cl_layer = lo_layer (vd_winner v), cl_object = lo_id (vd_winner v),
          cl_precedence = (case vd_records v of [] \<Rightarrow> None | r # _ \<Rightarrow> Some r)\<rparr>]"
    using assms
    by (auto simp: labeled_answer_def layer_verdict_def make_claim_def result_simps map_res_Inr_iff split: if_splits)
  have all: "\<forall>x \<in> set os. dget l (lo_layer x) \<noteq> None" using v by (auto elim: resolve_precedenceE)
  have w: "vd_winner v \<in> set os" and top: "\<forall>x \<in> set os. rank_of l x \<le> rank_of l (vd_winner v)"
    using winner_facts [OF v] by auto
  obtain h where h: "h \<in> set hits" "hit_object h = Inr (vd_winner v)"
    using all2_right [OF o w] by blast
  obtain row where "row \<in> set (filter (\<lambda>r. \<not> sr_score r < re_min_score e) rows)" "hit_of row = Inr h"
    using all2_right [OF retrieve_hits [OF r] h(1)] by blast
  then have score: "\<not> rh_score h < re_min_score e" using hit_of_fields by fastforce
  have "the (dget l (rh_layer g)) \<le> the (dget l (lo_layer (vd_winner v)))" if g: "g \<in> set hits" for g
  proof -
    obtain x where x: "x \<in> set os" "hit_object g = Inr x"
      using all2_left [OF o g] by blast
    then have "rank_of l x \<le> rank_of l (vd_winner v)" using top by simp
    moreover obtain i j where "dget l (lo_layer x) = Some i" "dget l (lo_layer (vd_winner v)) = Some j"
      using all x(1) w by blast
    ultimately show ?thesis using hit_object_fields [OF x(2)] by (simp add: rank_of_def)
  qed
  then show ?thesis using c r h score hit_object_fields [OF h(2)] by (auto simp: list_all_iff)
qed

section \<open>Stores of vectors\<close>

text \<open>The interface of the vector store: what is added to one collection does not show in
  another, and no more rows come back than were asked for.\<close>

locale vector_store =
  fixes add :: "string \<Rightarrow> 'r list \<Rightarrow> 'm \<Rightarrow> 'm"
    and query :: "'m \<Rightarrow> string \<Rightarrow> 'v \<Rightarrow> nat \<Rightarrow> store_row list"
  assumes query_other: "c \<noteq> c' \<Longrightarrow> query (add c' rs m) c v k = query m c v k"
    and query_bounded: "length (query m c v k) \<le> k"
begin

definition adds :: "(string \<times> 'r list) list \<Rightarrow> 'm \<Rightarrow> 'm" where
  "adds ops m = fold (\<lambda>(c, rs). add c rs) ops m"

lemma adds_other: "c \<notin> set (map fst ops) \<Longrightarrow> query (adds ops m) c v k = query m c v k"
  by (induction ops arbitrary: m) (auto simp: adds_def query_other)

lemma answer_other:
  "c \<notin> set (map fst ops) \<Longrightarrow>
   labeled_answer e l (query (adds ops m) c v k) a = labeled_answer e l (query m c v k) a"
  by (simp add: adds_other)

lemma retrieve_bounded: "retrieve e (query m c v k) = Inr hits \<Longrightarrow> length hits \<le> k"
  using retrieve_hits [THEN list_all2_lengthD] query_bounded length_filter_le
  by (metis le_trans)

end

interpretation mem: vector_store upsert "mem_query cosine" for cosine
  by unfold_locales (auto simp: mem_query_def collection_def upsert_def dict_simps)

definition ingest_step :: "(string \<Rightarrow> 'v) \<Rightarrow> string \<times> pyval list \<Rightarrow> 'v mem_store \<Rightarrow> 'v mem_store" where
  "ingest_step emb p m = (case ingest emb (fst p) (snd p) m of Inr m' \<Rightarrow> m' | Inl _ \<Rightarrow> m)"

lemma ingest_step_adds:
  "\<exists>ops. set (map fst ops) \<subseteq> {fst p} \<and> ingest_step emb p m = mem.adds ops m"
proof (cases "chunk_rows emb (snd p)")
  case (Inl e)
  then show ?thesis by (intro exI [of _ "[]"]) (simp add: ingest_step_def ingest_def mem.adds_def)
next
  case (Inr rows)
  then show ?thesis
    by (intro exI [of _ "[(fst p, rows)]"]) (simp add: ingest_step_def ingest_def mem.adds_def)
qed

text \<open> What is ingested into other collections, one tenant's each, changes no
  answer from this one.\<close>

theorem answers_stay_in_collection:
  assumes "c \<notin> set (map fst ps)"
  shows "labeled_answer e l (mem_query cosine (fold (ingest_step emb) ps m) c v k) a
     = labeled_answer e l (mem_query cosine m c v k) a"
  using assms
proof (induction ps arbitrary: m)
  case (Cons p ps)
  obtain ops where o: "set (map fst ops) \<subseteq> {fst p}" "ingest_step emb p m = mem.adds ops m"
    using ingest_step_adds by blast
  have "labeled_answer e l (mem_query cosine (mem.adds ops m) c v k) a = labeled_answer e l (mem_query cosine m c v k) a"
    by (rule mem.answer_other) (use o Cons.prems in auto)
  then show ?case using Cons o by simp
qed simp

text \<open> Ingesting accepts a tenant's chunk without a tenant; from then on every
  question that retrieves it is refused, whatever else was found.\<close>

theorem unscoped_chunk_blocks_answers:
  assumes "retrieve e rows = Inr hits" and "h \<in> set hits" and "rh_layer h \<noteq> 1"
    and "rh_layer h \<in> {2, 3, 4}" and "rh_tenant h = None"
  shows "\<exists>x. labeled_answer e l rows a = Inl x"
proof -
  have "hit_object h = Inl (PrecedenceError ''tenant_layer_unscoped'' [])"
    using assms(3-5) by (auto simp: hit_object_def post_init_def has_tenant_def layer_labels_def)
  then have "\<nexists>os. map_res hit_object hits = Inr os"
    using assms(2) by (auto simp: map_res_Inr_iff dest: all2_left)
  then obtain x where "map_res hit_object hits = Inl x" by (meson sum.exhaust)
  then show ?thesis using assms(1,2) by (auto simp: labeled_answer_def layer_verdict_def)
qed

section \<open>Concrete cases\<close>

definition demo_taught :: layer_object where
  "demo_taught = \<lparr>lo_id = ''roi'', lo_layer = 3, lo_tenant = Some ''t1'', lo_result = PNone, lo_excerpt = [],
     lo_evaluate = Some (Inr (PInt 7))\<rparr>"

definition demo_certified :: layer_object where
  "demo_certified = \<lparr>lo_id = ''roi'', lo_layer = 1, lo_tenant = None, lo_result = PInt 5, lo_excerpt = [],
     lo_evaluate = None\<rparr>"

definition demo_shadow :: prec_verdict where
  "demo_shadow = (case resolve_formula_by_id ''roi'' [demo_certified, demo_taught] (Inr default_ladder) of Inr v \<Rightarrow> v
     | Inl _ \<Rightarrow> \<lparr>vd_winner = demo_certified, vd_records = []\<rparr>)"

lemma demo_shadow_runs:
  "resolve_formula_by_id ''roi'' [demo_certified, demo_taught] (Inr default_ladder) = Inr demo_shadow"
  "lo_layer (vd_winner demo_shadow) = 3"
  "List.find (\<lambda>x. lo_id x = ''roi'' \<and> lo_layer x = 1) [demo_certified, demo_taught] = Some demo_certified"
  by code_simp+

theorem taught_formula_keeps_certified_witness:
  "\<exists>r rs. vd_records demo_shadow = r # rs \<and> dv_rule r = PStr rule_formula_shadow
     \<and> dv_winner_object r = PStr ''roi'' \<and> dv_loser_object r = PStr ''roi'' \<and> lo_id (vd_winner demo_shadow) = ''roi''
     \<and> value_of (vd_winner demo_shadow) = Inr (dv_winner_result r) \<and> value_of demo_certified = Inr (dv_loser_result r)"
  by (rule taught_formula_keeps_certified [OF demo_shadow_runs])

definition demo_store :: "bool mem_store" where
  "demo_store = [(''tenant_t1'', [
     (''c1'', \<lparr>mr_vector = True, mr_document = ''the policy'', mr_meta = [(''layer'', PInt 2), (''tenant_id'', PStr ''t1'')]\<rparr>),
     (''c2'', \<lparr>mr_vector = True, mr_document = ''the step'', mr_meta = [(''layer'', PInt 4), (''tenant_id'', PStr ''t1'')]\<rparr>),
     (''c3'', \<lparr>mr_vector = False, mr_document = ''noise'', mr_meta = [(''layer'', PInt 4), (''tenant_id'', PStr ''t1'')]\<rparr>)])]"

definition same_bit :: "bool \<Rightarrow> bool \<Rightarrow> rat" where "same_bit a b = (if a = b then 1 else 0)"

definition demo_engine :: retrieval_engine where
  "demo_engine = \<lparr>re_top_k = 6, re_min_score = 1 / 1000000\<rparr>"

definition demo_rows :: "store_row list" where
  "demo_rows = mem_query same_bit demo_store ''tenant_t1'' True 6"

definition demo_labels :: "claim list" where
  "demo_labels = (case labeled_answer demo_engine (Inr default_ladder) demo_rows ''do it'' of Inr cs \<Rightarrow> cs | Inl _ \<Rightarrow> [])"

lemma demo_labels_run: "labeled_answer demo_engine (Inr default_ladder) demo_rows ''do it'' = Inr demo_labels"
  by code_simp

theorem label_is_earned_witness:
  "\<exists>c hits h. demo_labels = [c] \<and> cl_text c = ''do it'' \<and> retrieve demo_engine demo_rows = Inr hits \<and> h \<in> set hits
     \<and> \<not> rh_score h < re_min_score demo_engine \<and> cl_layer c = rh_layer h
     \<and> list_all (\<lambda>g. the (dget default_ladder (rh_layer g)) \<le> the (dget default_ladder (cl_layer c))) hits"
  by (rule label_is_earned [OF demo_labels_run])

definition demo_foreign :: "(string \<times> pyval list) list" where
  "demo_foreign = [(''tenant_t2'', [PDict [(''id'', PStr ''x''), (''text'', PStr ''other''), (''layer'', PInt 4)]])]"

theorem answers_stay_in_collection_witness:
  "labeled_answer demo_engine (Inr default_ladder)
       (mem_query same_bit (fold (ingest_step (\<lambda>s. s = ''other'')) demo_foreign demo_store) ''tenant_t1'' True 6) ''do it''
     = labeled_answer demo_engine (Inr default_ladder) (mem_query same_bit demo_store ''tenant_t1'' True 6) ''do it''
   \<and> fold (ingest_step (\<lambda>s. s = ''other'')) demo_foreign demo_store \<noteq> demo_store"
proof
  have "''tenant_t1'' \<notin> set (map fst demo_foreign)" by code_simp
  then show "labeled_answer demo_engine (Inr default_ladder)
       (mem_query same_bit (fold (ingest_step (\<lambda>s. s = ''other'')) demo_foreign demo_store) ''tenant_t1'' True 6) ''do it''
     = labeled_answer demo_engine (Inr default_ladder) (mem_query same_bit demo_store ''tenant_t1'' True 6) ''do it''"
    by (rule answers_stay_in_collection)
  show "fold (ingest_step (\<lambda>s. s = ''other'')) demo_foreign demo_store \<noteq> demo_store" by code_simp
qed

end
