(* ===== verification/Actions.thy ===== *)
theory Actions
  imports ChangeQueue
begin

text \<open>
  The action contract of the product kernel (\<open>cerebrum_product_kernel/contract/\<close>): the
  trusted context, specifications, the registry, and \<open>execute_action\<close>, the one way a
  host runs an action.  A handler acts on a state of its own, the type parameter of a
  specification.  Request ids and the two clock readings (microseconds) are arguments.
  A context attribute the contract does not declare reads as missing.
\<close>

section \<open>Validation with its exceptions\<close>

text \<open>\<open>==\<close> on the values an enum holds: texts, booleans and integers.\<close>

definition same_value :: "pyval \<Rightarrow> pyval \<Rightarrow> bool" where
  "same_value a b = (case (a, b) of
       (PBool x, PInt j) \<Rightarrow> (if x then 1 else 0) = j
     | (PInt i, PBool y) \<Rightarrow> i = (if y then 1 else 0)
     | _ \<Rightarrow> a = b)"

definition hashable :: "pyval \<Rightarrow> bool" where
  "hashable v = (case v of PList _ \<Rightarrow> False | PDict _ \<Rightarrow> False | _ \<Rightarrow> True)"

text \<open>\<open>x in container\<close>.\<close>

definition py_in :: "pyval \<Rightarrow> pyval \<Rightarrow> py_exn + bool" where
  "py_in x c = (case c of
       PList xs \<Rightarrow> Inr (list_ex (same_value x) xs)
     | PStr s \<Rightarrow> (case x of PStr t \<Rightarrow> Inr (contains s t) | _ \<Rightarrow> Inl TypeError)
     | PDict d \<Rightarrow> (if hashable x then Inr (case x of PStr t \<Rightarrow> dget d t \<noteq> None | _ \<Rightarrow> False) else Inl TypeError)
     | _ \<Rightarrow> Inl TypeError)"

definition declared_types :: "pyval \<Rightarrow> pyval list" where
  "declared_types t = (case t of PList xs \<Rightarrow> xs | _ \<Rightarrow> [t])"

definition type_check :: "pyval \<Rightarrow> pyval \<Rightarrow> string \<Rightarrow> py_exn + string list" where
  "type_check v t path =
     (if truthy t \<and> \<not> list_all hashable (declared_types t) then Inl TypeError
      else Inr (type_errors v t path))"

definition enum_check :: "pyval \<Rightarrow> (string, pyval) dict \<Rightarrow> string \<Rightarrow> py_exn + string list" where
  "enum_check v s path = (case dget s ''enum'' of
       None \<Rightarrow> Inr []
     | Some allowed \<Rightarrow> map_result (\<lambda>found. if found then []
          else [path @ '': '' @ py_repr v @ '' not in enum '' @ py_str allowed]) (py_in v allowed))"

definition required_check :: "(string, pyval) dict \<Rightarrow> (string, pyval) dict \<Rightarrow> string \<Rightarrow> py_exn + string list" where
  "required_check d s path =
     bind_result (py_iter (get_or s ''required'' (PList []))) (\<lambda>rs.
     map_result concat (map_res (\<lambda>r. map_result (\<lambda>found. if found then []
         else [path @ '': missing required property '' @ [CHR 0x27] @ py_str r @ [CHR 0x27]])
       (py_in r (PDict d))) rs))"

lemma map_res_cong [fundef_cong]:
  "xs = ys \<Longrightarrow> (\<And>x. x \<in> set ys \<Longrightarrow> f x = g x) \<Longrightarrow> map_res f xs = map_res g ys"
  by (induction ys arbitrary: xs) (auto split: sum.splits)

lemma size_property_of:
  "get_or s n (PDict []) = PDict d \<Longrightarrow> (k, v) \<in> set d \<Longrightarrow> size v < Suc (size_list (\<lambda>x. Suc (size (snd x))) s)"
  using size_property [of k v s n] by (cases "dget s n") (auto simp: dict_of_def)

function validate_json :: "pyval \<Rightarrow> pyval \<Rightarrow> string \<Rightarrow> py_exn + string list" where
  "validate_json v schema path =
     (if \<not> truthy schema then Inr []
      else (case schema of
       PDict s \<Rightarrow>
         bind_result (type_check v (get0 s ''type'') path) (\<lambda>te.
         if te \<noteq> [] then Inr te
         else bind_result (enum_check v s path) (\<lambda>en.
           map_result ((@) en) (case v of
               PDict d \<Rightarrow>
                 (if get0 s ''type'' = PStr ''object'' \<or> dget s ''properties'' \<noteq> None \<or> dget s ''required'' \<noteq> None then
                    bind_result (required_check d s path) (\<lambda>rq.
                    (case get_or s ''properties'' (PDict []) of
                       PDict ps \<Rightarrow> map_result (\<lambda>subs. rq @ concat subs @ extra_errors d s path)
                         (map_res (\<lambda>(k, sub). case dget d k of None \<Rightarrow> Inr []
                             | Some w \<Rightarrow> validate_json w sub (path @ ''.'' @ k)) ps)
                     | _ \<Rightarrow> Inl AttributeError))
                  else Inr [])
             | PList xs \<Rightarrow> (case dget s ''items'' of
                   None \<Rightarrow> Inr []
                 | Some sub \<Rightarrow> map_result concat
                     (map_res (\<lambda>(i, x). validate_json x sub (path @ ''['' @ show_nat i @ '']'')) (enumerate 0 xs)))
             | _ \<Rightarrow> Inr [])))
     | _ \<Rightarrow> Inl AttributeError))"
  by pat_completeness auto

termination
  by (relation "measure (\<lambda>(v, s, p). size s)")
    (auto simp: termination_simp dest: map_of_SomeD size_dget size_property_of)

declare validate_json.simps [simp del] validate.simps [simp del]

section \<open>Contexts, outcomes, specifications\<close>

definition reserved_context_keys :: "string list" where
  "reserved_context_keys = [''user_id'', ''tenant_id'', ''organisation_id'', ''organization_id'', ''project_id'',
     ''permissions'', ''allowed_domains'', ''corpus_id'', ''knowledge_layer'', ''domain'', ''context'']"

datatype action_status = Success | DependencyRequired | ValidationFailed | PermissionDenied | Unsupported | ExecutionError

record action_context =
  ac_user :: string
  ac_tenant :: string
  ac_organisation :: string
  ac_project :: string
  ac_permissions :: "string list"
  ac_domains :: "string list"
  ac_corpus :: "string option"
  ac_layer :: "string option"

definition make_context :: "action_context \<Rightarrow> action_context" where
  "make_context c = c\<lparr>ac_permissions := dedup (ac_permissions c), ac_domains := dedup (ac_domains c)\<rparr>"

definition has_permission :: "action_context \<Rightarrow> string \<Rightarrow> bool" where
  "has_permission c p = (p \<in> set (ac_permissions c))"

definition allows_domain :: "action_context \<Rightarrow> string \<Rightarrow> bool" where
  "allows_domain c d = (d \<in> set (ac_domains c))"

text \<open>Whether \<open>getattr(context, field, None)\<close> is truthy.\<close>

definition context_has :: "action_context \<Rightarrow> string \<Rightarrow> bool" where
  "context_has c f =
     (if f = ''user_id'' then ac_user c \<noteq> [] else if f = ''tenant_id'' then ac_tenant c \<noteq> []
      else if f = ''organisation_id'' then ac_organisation c \<noteq> [] else if f = ''project_id'' then ac_project c \<noteq> []
      else if f = ''permissions'' then ac_permissions c \<noteq> [] else if f = ''allowed_domains'' then ac_domains c \<noteq> []
      else if f = ''corpus_id'' then ac_corpus c \<noteq> None \<and> ac_corpus c \<noteq> Some []
      else if f = ''knowledge_layer'' then ac_layer c \<noteq> None \<and> ac_layer c \<noteq> Some [] else False)"

record action_outcome =
  ao_status :: action_status
  ao_output :: "(string, pyval) dict"
  ao_dependencies :: "(string \<times> string) list"
  ao_evidence :: "pyval list"
  ao_warnings :: "string list"
  ao_code :: "string option"
  ao_message :: "string option"
  ao_metadata :: "(string, pyval) dict"

definition refused :: "action_status \<Rightarrow> string \<Rightarrow> string \<Rightarrow> string list \<Rightarrow> action_outcome" where
  "refused st code msg ws = \<lparr>ao_status = st, ao_output = [], ao_dependencies = [], ao_evidence = [],
     ao_warnings = ws, ao_code = Some code, ao_message = Some msg, ao_metadata = []\<rparr>"

text \<open>What awaiting a handler gives: an outcome, an exception, or some other value.\<close>

datatype handler_reply = Returned action_outcome | HandlerRaised | ReturnedOther

type_synonym 's handler_fun = "action_context \<Rightarrow> (string, pyval) dict \<Rightarrow> 's \<Rightarrow> handler_reply \<times> 's"

text \<open>A handler slot: nothing callable, a plain function, or a coroutine function.\<close>

datatype 's handler = NoHandler | NotCallable | PlainFunction "'s handler_fun" | Coroutine "'s handler_fun"

record 's action_spec =
  as_id :: string
  as_domain :: string
  as_version :: string
  as_kit_version :: "string option"
  as_input :: pyval
  as_output :: pyval
  as_context :: "string list"
  as_permissions :: "string list"
  as_confirmation :: bool
  as_handler :: "'s handler"

definition lower_letter :: "char \<Rightarrow> bool" where
  "lower_letter c = (97 \<le> (of_char c :: nat) \<and> (of_char c :: nat) \<le> 122)"

text \<open>\<open>[a-z][a-z0-9_]*\<close>.\<close>

definition snake_segment :: "string \<Rightarrow> bool" where
  "snake_segment s = (case s of [] \<Rightarrow> False
     | c # cs \<Rightarrow> lower_letter c \<and> list_all (\<lambda>x. lower_letter x \<or> is_digit x \<or> x = CHR ''_'') cs)"

definition namespace_of :: "string \<Rightarrow> string" where
  "namespace_of i = before_char (CHR ''.'') i"

definition valid_action_id :: "string \<Rightarrow> bool" where
  "valid_action_id i = (CHR ''.'' \<in> set i \<and> snake_segment (namespace_of i) \<and> snake_segment (after_char (CHR ''.'') i))"

text \<open>The construction of an \<open>ActionSpec\<close>; None is its \<open>ValueError\<close>.\<close>

definition make_spec :: "'s action_spec \<Rightarrow> 's action_spec option" where
  "make_spec a = (if valid_action_id (as_id a) \<and> namespace_of (as_id a) = as_domain a then Some a else None)"

section \<open>The registry\<close>

datatype registry_exn = InvalidAction string | DuplicateAction string

type_synonym 's registry = "(string, 's action_spec) dict"

definition schema_declared :: "pyval \<Rightarrow> bool" where
  "schema_declared s = (case s of
       PDict d \<Rightarrow> d = [] \<or> dget d ''type'' \<noteq> None \<or> dget d ''properties'' \<noteq> None | _ \<Rightarrow> False)"

definition is_coroutine :: "'s handler \<Rightarrow> bool" where
  "is_coroutine h = (case h of Coroutine _ \<Rightarrow> True | _ \<Rightarrow> False)"

definition validate_spec :: "'s action_spec \<Rightarrow> registry_exn option" where
  "validate_spec a =
     (if namespace_of (as_id a) \<noteq> as_domain a then Some (InvalidAction (as_id a))
      else if \<not> is_coroutine (as_handler a) then Some (InvalidAction (as_id a))
      else if \<not> schema_declared (as_input a) \<or> \<not> schema_declared (as_output a) then Some (InvalidAction (as_id a))
      else None)"

definition register :: "'s action_spec \<Rightarrow> 's registry \<Rightarrow> registry_exn + 's registry" where
  "register a r = (case validate_spec a of
       Some e \<Rightarrow> Inl e
     | None \<Rightarrow> (if dget r (as_id a) \<noteq> None then Inl (DuplicateAction (as_id a)) else Inr (dset (as_id a) a r)))"

text \<open>\<open>register_all\<close> stops at the first refusal and keeps what it has registered.\<close>

fun register_all :: "'s action_spec list \<Rightarrow> 's registry \<Rightarrow> registry_exn option \<times> 's registry" where
  "register_all [] r = (None, r)"
| "register_all (a # as) r = (case register a r of Inl e \<Rightarrow> (Some e, r) | Inr r' \<Rightarrow> register_all as r')"

definition resolve_action :: "'s registry \<Rightarrow> string \<Rightarrow> 's action_spec option" where
  "resolve_action r i = dget r i"

definition all_actions :: "'s registry \<Rightarrow> 's action_spec list" where
  "all_actions r = map (\<lambda>k. the (dget r k)) (sort (dkeys r))"

definition list_permitted :: "'s registry \<Rightarrow> action_context \<Rightarrow> 's action_spec list" where
  "list_permitted r c = filter (\<lambda>a. allows_domain c (as_domain a)
     \<and> list_all (has_permission c) (as_permissions a)) (all_actions r)"

section \<open>Execution\<close>

definition declared_fields :: "'s action_spec \<Rightarrow> string list" where
  "declared_fields a = (case as_input a of
       PDict s \<Rightarrow> (case get0 s ''properties'' of PDict ps \<Rightarrow> dkeys ps | _ \<Rightarrow> dkeys s)
     | _ \<Rightarrow> [])"

definition stripped_key :: "string list \<Rightarrow> string \<Rightarrow> bool" where
  "stripped_key declared k = (k \<in> set reserved_context_keys \<and> k \<notin> set declared)"

definition strip_warning :: "string \<Rightarrow> string" where
  "strip_warning k = ''ignored reserved argument '' @ [CHR 0x27] @ k @ [CHR 0x27] @ '' (trust scope is server-controlled)''"

definition sanitize_arguments ::
  "(string, pyval) dict \<Rightarrow> string list \<Rightarrow> (string, pyval) dict \<times> string list" where
  "sanitize_arguments args declared =
     (filter (\<lambda>p. \<not> stripped_key declared (fst p)) args,
      map strip_warning (filter (stripped_key declared) (dkeys args)))"

record action_result =
  ar_request :: string
  ar_action :: string
  ar_kit_version :: string
  ar_outcome :: action_outcome
  ar_started :: int
  ar_completed :: int
  ar_duration_ms :: int

definition make_result :: "'s action_spec \<Rightarrow> string \<Rightarrow> int \<times> int \<Rightarrow> action_outcome \<Rightarrow> action_result" where
  "make_result a rid clock out =
     \<lparr>ar_request = rid, ar_action = as_id a,
      ar_kit_version = (case as_kit_version a of Some k \<Rightarrow> (if k \<noteq> [] then k else as_version a) | None \<Rightarrow> as_version a),
      ar_outcome = out, ar_started = fst clock, ar_completed = snd clock,
      ar_duration_ms = max ((snd clock - fst clock) div 1000) 0\<rparr>"

text \<open>Calling the slot and awaiting what it returns; awaiting the value of a plain function raises.\<close>

definition await_handler :: "'s handler \<Rightarrow> action_context \<Rightarrow> (string, pyval) dict \<Rightarrow> 's \<Rightarrow> handler_reply \<times> 's" where
  "await_handler h c args s = (case h of
       Coroutine f \<Rightarrow> f c args s
     | PlainFunction f \<Rightarrow> (HandlerRaised, snd (f c args s))
     | _ \<Rightarrow> (HandlerRaised, s))"

definition missing_context :: "'s action_spec \<Rightarrow> action_context \<Rightarrow> string list" where
  "missing_context a c = filter (\<lambda>f. \<not> context_has c f) (as_context a)"

definition missing_permissions :: "'s action_spec \<Rightarrow> action_context \<Rightarrow> string list" where
  "missing_permissions a c = filter (\<lambda>p. \<not> has_permission c p) (as_permissions a)"

definition confirmation_dependency :: "string \<times> string" where
  "confirmation_dependency = (''confirmation'', ''Caller must confirm this action before execution.'')"

text \<open>The checks before the handler: the refusal, or the arguments it is called with.\<close>

definition guard_action ::
  "'s action_spec \<Rightarrow> action_context \<Rightarrow> (string, pyval) dict \<Rightarrow> string list \<Rightarrow> bool \<Rightarrow> py_exn + action_outcome option" where
  "guard_action a c args ws confirmed =
     (if missing_context a c \<noteq> [] then Inr (Some (refused ValidationFailed ''missing_context''
         (''missing required trusted context: '' @ join '', '' (sort (missing_context a c))) ws))
      else if \<not> allows_domain c (as_domain a) then Inr (Some (refused PermissionDenied ''domain_not_allowed''
         (''domain '' @ [CHR 0x27] @ as_domain a @ [CHR 0x27] @ '' is not permitted for this context'') ws))
      else if missing_permissions a c \<noteq> [] then Inr (Some (refused PermissionDenied ''permission_denied''
         (''missing permissions: '' @ join '', '' (sort (missing_permissions a c))) ws))
      else if as_confirmation a \<and> \<not> confirmed then Inr (Some ((refused ValidationFailed ''confirmation_required''
         ''this action requires explicit confirmation'' ws)\<lparr>ao_dependencies := [confirmation_dependency]\<rparr>))
      else map_result (\<lambda>errs. if errs = [] then None
         else Some (refused ValidationFailed ''invalid_input'' (join ''; '' (take 10 errs)) ws))
         (validate_json (PDict args) (as_input a) ''$''))"

definition settle_outcome :: "'s action_spec \<Rightarrow> string list \<Rightarrow> handler_reply \<Rightarrow> py_exn + action_outcome" where
  "settle_outcome a ws reply = (case reply of
       HandlerRaised \<Rightarrow> Inr (refused ExecutionError ''handler_exception'' ''the action failed to execute'' ws)
     | ReturnedOther \<Rightarrow> Inr (refused ExecutionError ''invalid_handler_result'' ''the action returned an invalid result'' ws)
     | Returned out \<Rightarrow>
         (let p = out\<lparr>ao_warnings := ao_warnings out @ ws\<rparr>
          in if ao_status p = Success \<and> truthy (as_output a) then
               map_result (\<lambda>errs. if errs = [] then p
                   else refused ExecutionError ''invalid_output'' ''the action produced an invalid result'' (ao_warnings p))
                 (validate_json (PDict (ao_output p)) (as_output a) ''$'')
             else Inr p))"

definition execute_action ::
  "'s action_spec \<Rightarrow> action_context \<Rightarrow> (string, pyval) dict \<Rightarrow> string \<Rightarrow> bool \<Rightarrow> int \<times> int \<Rightarrow> 's \<Rightarrow>
   (py_exn + action_result) \<times> 's" where
  "execute_action a c arguments rid confirmed clock s =
     (let (args, ws) = sanitize_arguments arguments (declared_fields a)
      in case guard_action a c args ws confirmed of
           Inl e \<Rightarrow> (Inl e, s)
         | Inr (Some out) \<Rightarrow> (Inr (make_result a rid clock out), s)
         | Inr None \<Rightarrow>
             (let (reply, s') = await_handler (as_handler a) c args s
              in (map_result (make_result a rid clock) (settle_outcome a ws reply), s')))"

end
