(* ===== verification/ActionFacts.thy ===== *)
theory ActionFacts
  imports Actions "HOL-Library.Sublist"
begin

text \<open>
  What the action contract guarantees: a handler acts only for a context that may run it,
  what a caller sends under a reserved name has no effect, a success meets its schema, the
  registry lists exactly what may be run; and the schema that makes the engine raise.
\<close>

section \<open>The two validators\<close>

abbreviation all_texts :: "pyval list \<Rightarrow> bool" where
  "all_texts \<equiv> list_all (\<lambda>x. case x of PStr _ \<Rightarrow> True | _ \<Rightarrow> False)"

definition texts_at :: "(string, pyval) dict \<Rightarrow> string \<Rightarrow> bool" where
  "texts_at s n = (case dget s n of None \<Rightarrow> True | Some (PList xs) \<Rightarrow> all_texts xs | Some _ \<Rightarrow> False)"

function schema_ok :: "pyval \<Rightarrow> bool" where
  "schema_ok schema = (case schema of
       PDict s \<Rightarrow>
         list_all hashable (declared_types (get0 s ''type''))
         \<and> texts_at s ''enum'' \<and> texts_at s ''required''
         \<and> (case get_or s ''properties'' (PDict []) of
               PDict ps \<Rightarrow> list_all (\<lambda>(k, sub). schema_ok sub) ps | _ \<Rightarrow> False)
         \<and> (case dget s ''items'' of None \<Rightarrow> True | Some sub \<Rightarrow> schema_ok sub)
     | v \<Rightarrow> \<not> truthy v)"
  by pat_completeness auto

termination
  by (relation "measure size") (auto simp: size_pairs dest: map_of_SomeD size_dget size_property_of)

declare schema_ok.simps [simp del]

lemma all_texts_map: "all_texts xs \<Longrightarrow> \<exists>ss. xs = map PStr ss"
proof (induction xs)
  case (Cons x xs)
  then obtain s ss where "x = PStr s" "xs = map PStr ss" by (cases x) auto
  then show ?case by (intro exI [of _ "s # ss"]) simp
qed simp

lemma same_text: "same_value v (PStr s) \<longleftrightarrow> v = PStr s"
  by (cases v) (simp_all add: same_value_def)

lemma in_texts: "all_texts xs \<Longrightarrow> list_ex (same_value v) xs \<longleftrightarrow> v \<in> set xs"
  by (drule all_texts_map) (auto simp: list_ex_iff same_text)

lemma type_check_ok: "list_all hashable (declared_types t) \<Longrightarrow> type_check v t p = Inr (type_errors v t p)"
  by (simp add: type_check_def)

lemma texts_at_cases:
  assumes "texts_at s n"
  obtains "dget s n = None" | ss where "dget s n = Some (PList (map PStr ss))"
proof (cases "dget s n")
  case (Some w)
  then obtain xs where "w = PList xs" "all_texts xs" using assms by (cases w) (auto simp: texts_at_def)
  then show ?thesis using that Some all_texts_map by blast
qed (use that in simp)

lemma enum_check_ok: "texts_at s ''enum'' \<Longrightarrow> enum_check v s p = Inr (enum_errors v s p)"
  by (erule texts_at_cases) (auto simp: enum_check_def enum_errors_def py_in_def list_ex_iff same_text py_str_def)

lemma required_check_ok: "texts_at s ''required'' \<Longrightarrow> required_check d s p = Inr (required_errors d s p)"
proof (erule texts_at_cases)
  show "dget s ''required'' = None \<Longrightarrow> ?thesis"
    by (simp add: required_check_def required_errors_def strs_of_def list_of_def py_iter_def)
next
  fix ss assume r: "dget s ''required'' = Some (PList (map PStr ss))"
  have m: "map_result concat (map_res (\<lambda>r. map_result (\<lambda>found. if found then [] else [f (py_str r)])
       (py_in r (PDict d))) (map PStr ss)) = Inr (map f (filter (\<lambda>r. dget d r = None) ss))" for f :: "string \<Rightarrow> string"
    by (induction ss) (auto simp: py_in_def hashable_def py_str_def result_simps split: sum.splits)
  show ?thesis
    using m [of "\<lambda>r. p @ '': missing required property '' @ [CHR 0x27] @ r @ [CHR 0x27]"]
    by (simp add: r required_check_def required_errors_def strs_of_def list_of_def py_iter_def comp_def py_str_def)
qed

text \<open> On well-formed schemas validation never raises, and the two renderings of the
  validator agree.\<close>

theorem well_formed_schemas_validate:
  "schema_ok schema \<Longrightarrow> validate_json v schema p = Inr (validate v schema p)"
proof (induction schema arbitrary: v p rule: measure_induct_rule [of size])
  case (less schema)
  show ?case
  proof (cases schema)
    case (PDict s)
    have ok: "type_check v (get0 s ''type'') p = Inr (type_errors v (get0 s ''type'') p)"
        "enum_check v s p = Inr (enum_errors v s p)"
        "required_check d s p = Inr (required_errors d s p)" for d
      using less(2) by (simp_all add: PDict schema_ok.simps [of "PDict s"] type_check_ok enum_check_ok required_check_ok)
    obtain ps where ps: "get_or s ''properties'' (PDict []) = PDict ps" "list_all (\<lambda>(k, sub). schema_ok sub) ps"
      using less(2) by (auto simp: PDict schema_ok.simps [of "PDict s"] split: pyval.splits)
    have dps: "dict_of (get0 s ''properties'') = ps"
      using ps(1) by (cases "dget s ''properties''") (auto simp: dict_of_def)
    have subs: "map_res (\<lambda>(k, sub). case dget d k of None \<Rightarrow> Inr [] | Some w \<Rightarrow> validate_json w sub (p @ ''.'' @ k)) ps
       = Inr (map (\<lambda>(k, sub). case dget d k of None \<Rightarrow> [] | Some w \<Rightarrow> validate w sub (p @ ''.'' @ k)) ps)" for d
    proof (rule map_res_all_ok)
      fix x assume x: "x \<in> set ps"
      obtain k sub where ks: "x = (k, sub)" by (cases x)
      have "size sub < size schema" using size_property_of [OF ps(1)] x ks by (simp add: PDict size_pairs)
      then have "validate_json w sub q = Inr (validate w sub q)" for w q
        using less(1) ps(2) x ks by (auto simp: list_all_iff)
      then show "(\<lambda>(k, sub). case dget d k of None \<Rightarrow> Inr [] | Some w \<Rightarrow> validate_json w sub (p @ ''.'' @ k)) x
        = Inr ((\<lambda>(k, sub). case dget d k of None \<Rightarrow> [] | Some w \<Rightarrow> validate w sub (p @ ''.'' @ k)) x)"
        by (simp add: ks split: option.split)
    qed
    have items: "map_res (\<lambda>(i, x). validate_json x sub (q i)) ys = Inr (map (\<lambda>(i, x). validate x sub (q i)) ys)"
      if "dget s ''items'' = Some sub" for sub q and ys :: "(nat \<times> pyval) list"
    proof -
      have "schema_ok sub" using less(2) that by (simp add: PDict schema_ok.simps [of "PDict s"])
      moreover have "size sub < size schema" using size_dget [OF map_of_SomeD [OF that]] by (simp add: PDict size_pairs)
      ultimately have "validate_json w sub q = Inr (validate w sub q)" for w q using less(1) by blast
      then show ?thesis by (intro map_res_all_ok) auto
    qed
    show ?thesis
    proof (cases "s = []")
      case True
      then show ?thesis
        by (simp add: PDict validate_json.simps [of v "PDict []"] validate.simps [of v "PDict []"] get_or_def
            type_errors_def enum_errors_def split: pyval.split)
    next
      case False
      then show ?thesis
        by (simp add: PDict validate_json.simps [of v "PDict s"] validate.simps [of v "PDict s"] ok ps(1) dps subs items
            split: pyval.split option.split)
    qed
  qed (use less(2) validate_json.simps [of v schema] validate.simps [of v schema] schema_ok.simps [of schema] in simp_all)
qed

section \<open>What runs\<close>

text \<open>What has to hold before a handler is called.\<close>

definition may_run :: "'s action_spec \<Rightarrow> action_context \<Rightarrow> (string, pyval) dict \<Rightarrow> bool \<Rightarrow> bool" where
  "may_run a c args confirmed =
     (list_all (context_has c) (as_context a) \<and> allows_domain c (as_domain a)
      \<and> list_all (has_permission c) (as_permissions a) \<and> (as_confirmation a \<longrightarrow> confirmed)
      \<and> validate_json (PDict args) (as_input a) ''$'' = Inr [])"

lemma guard_passes_iff: "guard_action a c args ws confirmed = Inr None \<longleftrightarrow> may_run a c args confirmed"
  by (auto simp: guard_action_def may_run_def missing_context_def missing_permissions_def result_simps
      list_all_iff filter_empty_conv)

lemma guard_refusal_status:
  "guard_action a c args ws confirmed = Inr (Some out) \<Longrightarrow> ao_status out \<noteq> Success"
  by (auto simp: guard_action_def refused_def result_simps split: if_splits)

lemma guard_ignores_handler: "guard_action (a\<lparr>as_handler := h\<rparr>) c args ws confirmed = guard_action a c args ws confirmed"
  by (simp add: guard_action_def missing_context_def missing_permissions_def)

lemma settle_success:
  "settle_outcome a ws reply = Inr out \<Longrightarrow> ao_status out = Success \<Longrightarrow>
   truthy (as_output a) \<longrightarrow> validate_json (PDict (ao_output out)) (as_output a) ''$'' = Inr []"
  by (auto simp: settle_outcome_def refused_def result_simps Let_def split: handler_reply.splits if_splits)

text \<open>Property C19.  If an execution changes anything or succeeds, the context was complete, its
  domain and permissions allowed the action, it was confirmed where it has to be, the arguments
  met the input schema, and a success meets the output schema.\<close>

theorem effects_are_earned:
  assumes "execute_action a c arguments rid confirmed clock s = (res, s')"
    and "s' \<noteq> s \<or> (\<exists>r. res = Inr r \<and> ao_status (ar_outcome r) = Success)"
  shows "may_run a c (fst (sanitize_arguments arguments (declared_fields a))) confirmed
     \<and> (case res of Inr r \<Rightarrow> ao_status (ar_outcome r) = Success \<and> truthy (as_output a)
            \<longrightarrow> validate_json (PDict (ao_output (ar_outcome r))) (as_output a) ''$'' = Inr []
        | Inl _ \<Rightarrow> True)"
proof -
  obtain args ws where sa: "sanitize_arguments arguments (declared_fields a) = (args, ws)" by fastforce
  have "guard_action a c args ws confirmed = Inr None"
    using assms by (auto simp: execute_action_def sa make_result_def dest: guard_refusal_status
        split: sum.splits option.splits)
  moreover from this have "case res of Inr r \<Rightarrow> ao_status (ar_outcome r) = Success \<and> truthy (as_output a)
            \<longrightarrow> validate_json (PDict (ao_output (ar_outcome r))) (as_output a) ''$'' = Inr [] | Inl _ \<Rightarrow> True"
    using assms(1) settle_success
    by (fastforce simp: execute_action_def sa make_result_def result_simps split: sum.splits prod.splits)
  ultimately show ?thesis by (simp add: sa guard_passes_iff)
qed

section \<open>Reserved names\<close>

definition mute :: "action_result \<Rightarrow> action_result" where
  "mute r = r\<lparr>ar_outcome := (ar_outcome r)\<lparr>ao_warnings := []\<rparr>\<rparr>"

lemma guard_warnings:
  "map_result (map_option (\<lambda>out. out\<lparr>ao_warnings := []\<rparr>)) (guard_action a c args ws confirmed)
   = map_result (map_option (\<lambda>out. out\<lparr>ao_warnings := []\<rparr>)) (guard_action a c args ws' confirmed)"
  by (cases "validate_json (PDict args) (as_input a) ''$''") (auto simp: guard_action_def refused_def)

lemma settle_warnings:
  "map_result (\<lambda>out. out\<lparr>ao_warnings := []\<rparr>) (settle_outcome a ws reply)
   = map_result (\<lambda>out. out\<lparr>ao_warnings := []\<rparr>) (settle_outcome a ws' reply)"
proof (cases reply)
  case (Returned out)
  then show ?thesis
    by (cases "validate_json (PDict (ao_output out)) (as_output a) ''$''")
      (auto simp: settle_outcome_def refused_def Let_def)
qed (simp_all add: settle_outcome_def refused_def)

lemma mute_result:
  "map_result mute (map_result (make_result a rid clock) r)
   = map_result (make_result a rid clock) (map_result (\<lambda>out. out\<lparr>ao_warnings := []\<rparr>) r)"
  by (cases r) (simp_all add: mute_def make_result_def)

text \<open>Property C32.  Two calls whose arguments differ only under reserved names the action does not
  declare have the same effect and, up to the warnings, the same result.\<close>

theorem reserved_arguments_have_no_effect:
  assumes "filter (\<lambda>p. \<not> stripped_key (declared_fields a) (fst p)) xs
         = filter (\<lambda>p. \<not> stripped_key (declared_fields a) (fst p)) ys"
  shows "snd (execute_action a c xs rid confirmed clock s) = snd (execute_action a c ys rid confirmed clock s)
     \<and> map_result mute (fst (execute_action a c xs rid confirmed clock s))
       = map_result mute (fst (execute_action a c ys rid confirmed clock s))"
proof -
  obtain args wx where x: "sanitize_arguments xs (declared_fields a) = (args, wx)" by fastforce
  then obtain wy where y: "sanitize_arguments ys (declared_fields a) = (args, wy)"
    using assms by (auto simp: sanitize_arguments_def)
  note g = guard_warnings [of a c args wx confirmed wy]
  obtain reply s' where h: "await_handler (as_handler a) c args s = (reply, s')" by fastforce
  have st: "map_result mute (map_result (make_result a rid clock) (settle_outcome a wx reply))
      = map_result mute (map_result (make_result a rid clock) (settle_outcome a wy reply))"
    by (simp only: mute_result settle_warnings [of a wx reply wy])
  show ?thesis
  proof (cases "guard_action a c args wx confirmed")
    case (Inl e)
    then have "guard_action a c args wy confirmed = Inl e" using g by (cases "guard_action a c args wy confirmed") auto
    then show ?thesis using Inl by (simp add: execute_action_def x y)
  next
    case (Inr go)
    show ?thesis
    proof (cases go)
      case None
      then have "guard_action a c args wy confirmed = Inr None"
        using g Inr by (cases "guard_action a c args wy confirmed") auto
      then show ?thesis using Inr None st by (simp add: execute_action_def x y h)
    next
      case (Some u)
      then obtain v where "guard_action a c args wy confirmed = Inr (Some v)"
          "u\<lparr>ao_warnings := []\<rparr> = v\<lparr>ao_warnings := []\<rparr>"
        using g Inr by (cases "guard_action a c args wy confirmed") (auto simp: Some map_option_case split: option.splits)
      then show ?thesis using Inr Some by (simp add: execute_action_def x y mute_def make_result_def)
    qed
  qed
qed

section \<open>The registry\<close>

definition registry_ok :: "'s registry \<Rightarrow> bool" where
  "registry_ok r = (dict_ok r \<and> list_all (\<lambda>(k, a). as_id a = k \<and> validate_spec a = None) r)"

lemma registry_ok_register: "registry_ok r \<Longrightarrow> register a r = Inr r' \<Longrightarrow> registry_ok r'"
  by (auto simp: registry_ok_def register_def dset_new map_of_eq_None_iff list_all_iff split: option.splits if_splits)

lemma registry_ok_register_all: "registry_ok r \<Longrightarrow> registry_ok (snd (register_all as r))"
  by (induction as r rule: register_all.induct) (auto dest: registry_ok_register split: sum.split)

lemma registry_lookup: "registry_ok r \<Longrightarrow> dget r k = Some a \<Longrightarrow> as_id a = k"
  by (auto simp: registry_ok_def list_all_iff dest: map_of_SomeD)

lemma set_all_actions:
  "registry_ok r \<Longrightarrow> a \<in> set (all_actions r) \<longleftrightarrow> dget r (as_id a) = Some a"
proof -
  assume ok: "registry_ok r"
  have "a \<in> set (all_actions r) \<longleftrightarrow> (\<exists>k. k \<in> fst ` set r \<and> a = the (dget r k))" by (auto simp: all_actions_def)
  also have "\<dots> \<longleftrightarrow> (\<exists>k. dget r k = Some a)"
    by (metis domD domI dom_map_of_conv_image_fst option.sel)
  finally show ?thesis using registry_lookup [OF ok] by metis
qed

text \<open> Whatever was registered, an action is listed for a context exactly when it is
  the one its id resolves to and running it is not refused for its domain or permissions.\<close>

theorem listed_iff_permitted:
  fixes specs :: "'s action_spec list"
  defines "r \<equiv> snd (register_all specs [])"
  shows "a \<in> set (list_permitted r c) \<longleftrightarrow>
     resolve_action r (as_id a) = Some a
     \<and> (\<forall>args ws confirmed out. guard_action (a\<lparr>as_context := []\<rparr>) c args ws confirmed = Inr (Some out)
          \<longrightarrow> ao_status out \<noteq> PermissionDenied)"
proof -
  have ok: "registry_ok r" unfolding r_def by (rule registry_ok_register_all) (simp add: registry_ok_def)
  have "allows_domain c (as_domain a) \<and> list_all (has_permission c) (as_permissions a) \<longleftrightarrow>
     (\<forall>args ws confirmed out. guard_action (a\<lparr>as_context := []\<rparr>) c args ws confirmed = Inr (Some out)
          \<longrightarrow> ao_status out \<noteq> PermissionDenied)" (is "?l \<longleftrightarrow> ?r")
  proof
    show "?l \<Longrightarrow> ?r"
      by (auto simp: guard_action_def missing_context_def missing_permissions_def refused_def result_simps
          list_all_iff filter_empty_conv split: if_splits)
    show "?r \<Longrightarrow> ?l"
      by (auto simp: guard_action_def missing_context_def missing_permissions_def refused_def
          list_all_iff filter_empty_conv split: if_splits)
  qed
  then show ?thesis by (simp add: list_permitted_def set_all_actions [OF ok] resolve_action_def)
qed

section \<open>A schema that raises\<close>

text \<open> A property whose schema is the boolean true, which JSON Schema allows and the
  registry accepts, makes every permitted call that carries the property raise.\<close>

theorem boolean_schema_raises:
  assumes "as_input a = PDict [(''type'', PStr ''object''), (''properties'', PDict [(k, PBool True)])]"
    and "dget (fst (sanitize_arguments arguments (declared_fields a))) k \<noteq> None"
    and "list_all (context_has c) (as_context a)" "allows_domain c (as_domain a)"
    and "list_all (has_permission c) (as_permissions a)" "as_confirmation a \<longrightarrow> confirmed"
  shows "execute_action a c arguments rid confirmed clock s = (Inl AttributeError, s)"
proof -
  obtain args ws where sa: "sanitize_arguments arguments (declared_fields a) = (args, ws)" by fastforce
  obtain w where w: "dget args k = Some w" using assms(2) by (auto simp: sa)
  have "validate_json w (PBool True) q = Inl AttributeError" for q by (simp add: validate_json.simps [of w "PBool True"])
  then have "validate_json (PDict args) (as_input a) ''$'' = Inl AttributeError"
    by (simp add: validate_json.simps [of "PDict args"] assms(1) w type_check_def declared_types_def hashable_def
        type_errors_def expected_types_def py_str_def type_map_def enum_check_def required_check_def py_iter_def get_or_def)
  then have "guard_action a c args ws confirmed = Inl AttributeError"
    using assms(3-6) by (auto simp: guard_action_def missing_context_def missing_permissions_def filter_empty_conv list_all_iff)
  then show ?thesis by (simp add: execute_action_def sa)
qed

section \<open>A concrete action\<close>

text \<open>An action that counts its calls; its property has the schema given.\<close>

definition demo_action :: "pyval \<Rightarrow> nat action_spec" where
  "demo_action sub = \<lparr>as_id = ''crm.add'', as_domain = ''crm'', as_version = ''1'', as_kit_version = None,
     as_input = PDict [(''type'', PStr ''object''), (''properties'', PDict [(''name'', sub)])], as_output = PDict [],
     as_context = [''user_id''], as_permissions = [''crm:write''], as_confirmation = True,
     as_handler = Coroutine (\<lambda>c args n. (Returned \<lparr>ao_status = Success, ao_output = args, ao_dependencies = [],
        ao_evidence = [], ao_warnings = [], ao_code = None, ao_message = None, ao_metadata = []\<rparr>, Suc n))\<rparr>"

definition demo_context :: action_context where
  "demo_context = \<lparr>ac_user = ''u'', ac_tenant = ''t'', ac_organisation = ''o'', ac_project = ''p'',
     ac_permissions = [''crm:write''], ac_domains = [''crm''], ac_corpus = None, ac_layer = None\<rparr>"

definition demo_arguments :: "(string, pyval) dict" where "demo_arguments = [(''name'', PStr ''x'')]"

definition demo_call :: "pyval \<Rightarrow> (string, pyval) dict \<Rightarrow> (py_exn + action_result) \<times> nat" where
  "demo_call sub args = execute_action (demo_action sub) demo_context args ''r'' True (0, 1) 0"

theorem effects_are_earned_witness:
  "snd (demo_call text_type demo_arguments) = 1
   \<and> may_run (demo_action text_type) demo_context
       (fst (sanitize_arguments demo_arguments (declared_fields (demo_action text_type)))) True"
proof
  show one: "snd (demo_call text_type demo_arguments) = 1" by code_simp
  have "execute_action (demo_action text_type) demo_context demo_arguments ''r'' True (0, 1) 0
      = (fst (demo_call text_type demo_arguments), snd (demo_call text_type demo_arguments))"
    by (simp add: demo_call_def)
  then show "may_run (demo_action text_type) demo_context
       (fst (sanitize_arguments demo_arguments (declared_fields (demo_action text_type)))) True"
    using effects_are_earned one by fastforce
qed

theorem reserved_arguments_have_no_effect_witness:
  "snd (demo_call text_type ((''tenant_id'', PStr ''other'') # demo_arguments)) = snd (demo_call text_type demo_arguments)
   \<and> snd (demo_call text_type demo_arguments) = 1"
proof
  have "filter (\<lambda>p. \<not> stripped_key (declared_fields (demo_action text_type)) (fst p))
       ((''tenant_id'', PStr ''other'') # demo_arguments)
     = filter (\<lambda>p. \<not> stripped_key (declared_fields (demo_action text_type)) (fst p)) demo_arguments"
    by code_simp
  from reserved_arguments_have_no_effect [OF this]
  show "snd (demo_call text_type ((''tenant_id'', PStr ''other'') # demo_arguments)) = snd (demo_call text_type demo_arguments)"
    unfolding demo_call_def by blast
  show "snd (demo_call text_type demo_arguments) = 1" by code_simp
qed

theorem boolean_schema_raises_witness:
  "demo_call (PBool True) demo_arguments = (Inl AttributeError, 0) \<and> registry_ok [(''crm.add'', demo_action (PBool True))]"
proof
  let ?a = "demo_action (PBool True)"
  have "as_input ?a = PDict [(''type'', PStr ''object''), (''properties'', PDict [(''name'', PBool True)])]"
    by (simp add: demo_action_def)
  moreover have "dget (fst (sanitize_arguments demo_arguments (declared_fields ?a))) ''name'' \<noteq> None" by code_simp
  moreover have "list_all (context_has demo_context) (as_context ?a)" by code_simp
  moreover have "allows_domain demo_context (as_domain ?a)" by code_simp
  moreover have "list_all (has_permission demo_context) (as_permissions ?a)" by code_simp
  ultimately show "demo_call (PBool True) demo_arguments = (Inl AttributeError, 0)"
    unfolding demo_call_def by (rule boolean_schema_raises) simp
  show "registry_ok [(''crm.add'', ?a)]" by code_simp
qed

end
