(* ===== verification/Heal.thy ===== *)
theory Heal
  imports Actions
begin

text \<open>
  The healing actions of the resident engineer (\<open>resident_engineer/heal/\<close>): the closed
  catalogue with its simulated state, the persisted approvals, the checks before and after a
  heal, the append-only audit file, and the executor.  The rows of the approval table are
  those of the session; a missing session is None; what the
  session's owner does with it after an exception is not part of the executor.  Arguments of the model: SHA-256, new
  ids, one clock reading per operation, and the text of a time.  The dash of one message is
  written as a hyphen.
\<close>

section \<open>The simulated state\<close>

record heal_state =
  hs_ingestion :: int
  hs_worker :: string
  hs_index :: int
  hs_config :: "(string, pyval) dict"
  hs_backup :: "(string, pyval) dict option"

definition approved_config :: "(string, pyval) dict" where
  "approved_config = [(''mode'', PStr ''approved_default'')]"

definition initial_heal_state :: heal_state where
  "initial_heal_state = \<lparr>hs_ingestion = 0, hs_worker = ''running'', hs_index = 1, hs_config = approved_config,
     hs_backup = None\<rparr>"

definition heal_state_dict :: "heal_state \<Rightarrow> pyval" where
  "heal_state_dict h = PDict
     [(''ingestion_attempts'', PInt (hs_ingestion h)), (''worker_status'', PStr (hs_worker h)),
      (''index_version'', PInt (hs_index h)), (''config'', PDict (hs_config h)),
      (''config_backup'', (case hs_backup h of None \<Rightarrow> PNone | Some c \<Rightarrow> PDict c))]"

definition retry_ingestion :: string where "retry_ingestion = ''resident.retry_ingestion''"
definition restart_worker :: string where "restart_worker = ''resident.restart_worker''"
definition rebuild_index :: string where "rebuild_index = ''resident.rebuild_index''"
definition restore_config :: string where "restore_config = ''resident.restore_config_default''"

definition allowlisted :: "string list" where
  "allowlisted = [retry_ingestion, restart_worker, rebuild_index, restore_config]"

definition is_allowlisted :: "string \<Rightarrow> bool" where
  "is_allowlisted i = (i \<in> set allowlisted)"

text \<open>The answer every handler gives: nothing was really executed.\<close>

definition simulated :: "string \<Rightarrow> (string, pyval) dict \<Rightarrow> string \<Rightarrow> pyval" where
  "simulated action xs what = PDict
     ((''action'', PStr action) # xs @
      [(''executed'', PBool False), (''simulation'', PBool True), (''ok'', PBool False),
       (''detail'', PStr (''In-memory simulation only - no real '' @ what @ '' performed''))])"

definition do_retry_ingestion :: "heal_state \<Rightarrow> pyval \<times> heal_state" where
  "do_retry_ingestion h = (let n = hs_ingestion h + 1 in
     (simulated retry_ingestion [(''attempts'', PInt n)] ''ingestion retry'', h\<lparr>hs_ingestion := n\<rparr>))"

definition do_restart_worker :: "heal_state \<Rightarrow> pyval \<times> heal_state" where
  "do_restart_worker h =
     (simulated restart_worker [(''worker_status'', PStr ''restarted'')] ''worker restart'', h\<lparr>hs_worker := ''restarted''\<rparr>)"

definition do_rebuild_index :: "heal_state \<Rightarrow> pyval \<times> heal_state" where
  "do_rebuild_index h = (let n = hs_index h + 1 in
     (simulated rebuild_index [(''index_version'', PInt n)] ''index rebuild'', h\<lparr>hs_index := n\<rparr>))"

definition do_restore_config :: "heal_state \<Rightarrow> pyval \<times> heal_state" where
  "do_restore_config h =
     (simulated restore_config [(''config'', PDict approved_config), (''previous'', PDict (hs_config h))] ''config restore'',
      h\<lparr>hs_backup := Some (hs_config h), hs_config := approved_config\<rparr>)"

definition heal_handler :: "string \<Rightarrow> (heal_state \<Rightarrow> pyval \<times> heal_state) option" where
  "heal_handler i =
     (if i = retry_ingestion then Some do_retry_ingestion else if i = restart_worker then Some do_restart_worker
      else if i = rebuild_index then Some do_rebuild_index else if i = restore_config then Some do_restore_config
      else None)"

section \<open>The catalogue\<close>

definition heal_input_schema :: pyval where
  "heal_input_schema = PDict [(''type'', PStr ''object''), (''properties'', PDict []), (''additionalProperties'', PBool False)]"

definition boolean_type :: pyval where "boolean_type = PDict [(''type'', PStr ''boolean'')]"

definition heal_output_schema :: pyval where
  "heal_output_schema = PDict [(''type'', PStr ''object''),
     (''properties'', PDict [(''action'', text_type), (''executed'', boolean_type), (''simulation'', boolean_type),
        (''ok'', boolean_type)]),
     (''required'', PList (map PStr [''action'', ''executed'', ''simulation'', ''ok'']))]"

text \<open>A handler returns a plain dictionary, which is not an \<open>ActionOutcome\<close>.\<close>

definition heal_spec :: "string \<Rightarrow> (heal_state \<Rightarrow> pyval \<times> heal_state) \<Rightarrow> heal_state action_spec" where
  "heal_spec i f = \<lparr>as_id = i, as_domain = ''resident'', as_version = ''1.0.0'', as_kit_version = Some ''1.0.0'',
     as_input = heal_input_schema, as_output = heal_output_schema, as_context = [''tenant_id'', ''user_id''],
     as_permissions = [''resident:heal''], as_confirmation = True,
     as_handler = Coroutine (\<lambda>c args h. (ReturnedOther, snd (f h)))\<rparr>"

definition heal_specs :: "heal_state action_spec list" where
  "heal_specs = [heal_spec retry_ingestion do_retry_ingestion, heal_spec restart_worker do_restart_worker,
     heal_spec rebuild_index do_rebuild_index, heal_spec restore_config do_restore_config]"

definition heal_registry :: "heal_state registry" where
  "heal_registry = snd (register_all heal_specs [])"

section \<open>Checks\<close>

definition pre_check :: "string \<Rightarrow> heal_state \<Rightarrow> bool \<times> string" where
  "pre_check i h =
     (if i = restart_worker \<and> hs_worker h = ''disabled'' then (False, ''worker disabled - refuse restart'')
      else if i = rebuild_index \<and> hs_index h < 0 then (False, ''corrupt index_version'')
      else (True, ''ok''))"

definition post_check :: "string \<Rightarrow> heal_state \<Rightarrow> heal_state \<Rightarrow> bool \<times> string" where
  "post_check i b a =
     (if i = retry_ingestion \<and> hs_ingestion a \<le> hs_ingestion b then (False, ''ingestion_attempts did not increase'')
      else if i = restart_worker \<and> hs_worker a \<noteq> ''restarted'' then (False, ''worker_status not restarted'')
      else if i = rebuild_index \<and> hs_index a \<le> hs_index b then (False, ''index_version did not increase'')
      else if i = restore_config \<and> get0 (hs_config a) ''mode'' \<noteq> PStr ''approved_default''
      then (False, ''config not restored to approved_default'')
      else (True, ''ok''))"

section \<open>Approvals\<close>

record heal_approval =
  ha_id :: string
  ha_tenant :: string
  ha_principal :: string
  ha_action :: string
  ha_digest :: string
  ha_expires :: "int option"
  ha_consumed :: "int option"

text \<open>One hour in microseconds.\<close>

definition approval_ttl :: int where "approval_ttl = 3600000000"

definition approval_digest :: "(string \<Rightarrow> string) \<Rightarrow> string \<Rightarrow> string \<Rightarrow> string \<Rightarrow> string" where
  "approval_digest hash tenant action who = hash (tenant @ '':'' @ action @ '':'' @ who)"

definition create_approval ::
  "(string \<Rightarrow> string) \<Rightarrow> string \<Rightarrow> int \<Rightarrow> string \<Rightarrow> string \<Rightarrow> string \<Rightarrow> int \<Rightarrow> heal_approval list \<Rightarrow> heal_approval list" where
  "create_approval hash new now tenant who action ttl rows = rows @
     [\<lparr>ha_id = new, ha_tenant = tenant, ha_principal = who, ha_action = action,
       ha_digest = approval_digest hash tenant action who, ha_expires = Some (now + ttl), ha_consumed = None\<rparr>]"

datatype heal_exn = HealRejected string | HealValidationError string | MultipleResultsFound

text \<open>The checks of \<open>consume_heal_approval\<close> on the row; None is no objection.\<close>

definition approval_objection ::
  "(string \<Rightarrow> string) \<Rightarrow> int \<Rightarrow> string \<Rightarrow> string \<Rightarrow> string \<Rightarrow> heal_approval \<Rightarrow> string option" where
  "approval_objection hash now tenant who action r =
     (if ha_tenant r \<noteq> tenant then Some ''heal approval tenant mismatch''
      else if ha_principal r \<noteq> who then Some ''heal approval principal mismatch''
      else if ha_action r \<noteq> action then Some ''heal approval action mismatch''
      else if ha_consumed r \<noteq> None then Some ''heal approval already consumed''
      else if (case ha_expires r of None \<Rightarrow> False | Some e \<Rightarrow> e \<le> now) then Some ''heal approval expired''
      else if ha_digest r \<noteq> approval_digest hash tenant action who then Some ''heal approval digest mismatch''
      else None)"

definition consume_approval ::
  "(string \<Rightarrow> string) \<Rightarrow> int \<Rightarrow> string \<Rightarrow> string \<Rightarrow> string \<Rightarrow> string \<Rightarrow> heal_approval list \<Rightarrow>
   heal_exn + heal_approval list" where
  "consume_approval hash now i tenant who action rows =
     (case filter (\<lambda>r. ha_id r = i) rows of
        [] \<Rightarrow> Inl (HealRejected ''heal approval not found'')
      | [r] \<Rightarrow> (case approval_objection hash now tenant who action r of
            Some msg \<Rightarrow> Inl (HealRejected msg)
          | None \<Rightarrow> Inr (map (\<lambda>x. if ha_id x = i then x\<lparr>ha_consumed := Some now\<rparr> else x) rows))
      | _ \<Rightarrow> Inl MultipleResultsFound)"

definition validate_approval ::
  "(string \<Rightarrow> string) \<Rightarrow> int \<Rightarrow> string option \<Rightarrow> string \<Rightarrow> string \<Rightarrow> string \<Rightarrow> heal_approval list option \<Rightarrow>
   heal_exn + heal_approval list option" where
  "validate_approval hash now approval tenant who action session =
     (case approval of
        None \<Rightarrow> Inl (HealRejected ''heal approval_id required'')
      | Some i \<Rightarrow>
          (if i = [] then Inl (HealRejected ''heal approval_id required'')
           else (case session of None \<Rightarrow> Inr None
             | Some rows \<Rightarrow> map_result Some (consume_approval hash now i tenant who action rows))))"

section \<open>The audit file\<close>

definition audit_record ::
  "string \<Rightarrow> string \<Rightarrow> string \<Rightarrow> string \<Rightarrow> string \<Rightarrow> string \<Rightarrow> (string, pyval) dict \<Rightarrow> (string, pyval) dict" where
  "audit_record at action request status user tenant meta =
     [(''action_id'', PStr action), (''completed_at'', PStr at), (''metadata'', PDict meta), (''request_id'', PStr request),
      (''status'', PStr status), (''tenant_id'', PStr tenant), (''user_id'', PStr user)]"

definition audit_payload :: "string \<Rightarrow> (string, pyval) dict \<Rightarrow> (string, pyval) dict" where
  "audit_payload at d = (if dget d ''recorded_at'' = None then dset ''recorded_at'' (PStr at) d else d)"

definition audit_append :: "string \<Rightarrow> (string, pyval) dict \<Rightarrow> string \<Rightarrow> string" where
  "audit_append at d file = file @ dumps (PDict (audit_payload at d)) @ [CHR 0x0A]"

text \<open>\<open>read_all\<close>; None is the \<open>ValueError\<close> of a line that is not JSON.\<close>

definition audit_read :: "string \<Rightarrow> pyval list option" where
  "audit_read file =
     (case map_res (\<lambda>l. case loads l of None \<Rightarrow> Inl () | Some v \<Rightarrow> Inr v)
        (filter (\<lambda>l. py_strip l \<noteq> []) (split_lines file)) of Inl _ \<Rightarrow> None | Inr vs \<Rightarrow> Some vs)"

section \<open>The executor\<close>

record heal_env =
  he_environ :: environ
  he_sha :: "string \<Rightarrow> string"
  he_now :: int
  he_at :: string
  he_request :: string

record heal_world =
  hw_state :: heal_state
  hw_approvals :: "heal_approval list option"
  hw_audit :: string

record heal_request =
  hr_action :: string
  hr_confirmed :: bool
  hr_tenant :: string
  hr_user :: string
  hr_principal :: "string option"
  hr_approval :: "string option"
  hr_force_fail :: bool

definition resident_engineer_enabled :: "environ \<Rightarrow> bool" where
  "resident_engineer_enabled env = env_flag env ''RESIDENT_ENGINEER_ENABLED''"

definition effective_principal :: "heal_request \<Rightarrow> string" where
  "effective_principal q = (case hr_principal q of Some p \<Rightarrow> (if p \<noteq> [] then p else hr_user q) | None \<Rightarrow> hr_user q)"

definition heal_record :: "heal_env \<Rightarrow> heal_request \<Rightarrow> string \<Rightarrow> (string, pyval) dict \<Rightarrow> (string, pyval) dict" where
  "heal_record e q status meta =
     audit_record (he_at e) (hr_action q) (he_request e) status (hr_user q) (hr_tenant q) meta"

definition log_heal :: "heal_env \<Rightarrow> heal_request \<Rightarrow> string \<Rightarrow> (string, pyval) dict \<Rightarrow> heal_world \<Rightarrow> heal_world" where
  "log_heal e q status meta w = w\<lparr>hw_audit := audit_append (he_at e) (heal_record e q status meta) (hw_audit w)\<rparr>"

text \<open>From the handler on: the post-check, the roll-back or the report.\<close>

definition run_heal ::
  "heal_env \<Rightarrow> heal_request \<Rightarrow> (heal_state \<Rightarrow> pyval \<times> heal_state) \<Rightarrow> heal_world \<Rightarrow> (heal_exn + pyval) \<times> heal_world" where
  "run_heal e q f w =
     (let before = hw_state w; (result, after) = f before;
          (ok, msg) = (if hr_force_fail q then (False, ''forced post-check failure'')
                       else post_check (hr_action q) before after)
      in if \<not> ok then
           (Inl (HealValidationError (''post-check failed; rolled back: '' @ msg)),
            log_heal e q ''rolled_back'' [(''message'', PStr msg), (''before'', heal_state_dict before),
              (''after'', heal_state_dict after)] w)
         else
           (let meta = [(''result'', result), (''allowlist'', PList (map PStr allowlisted)),
                (''executed'', PBool False), (''simulation'', PBool True)]
            in (Inr (PDict [(''ok'', PBool False), (''executed'', PBool False), (''simulation'', PBool True),
                  (''action_id'', PStr (hr_action q)), (''result'', result), (''state'', heal_state_dict after),
                  (''audit'', PDict (audit_payload (he_at e) (heal_record e q ''simulated'' meta))),
                  (''detail'', get_or (dict_of result) ''detail''
                     (PStr ''Simulated heal - no real execution performed''))]),
                log_heal e q ''simulated'' meta (w\<lparr>hw_state := after\<rparr>))))"

definition execute_heal :: "heal_env \<Rightarrow> heal_request \<Rightarrow> heal_world \<Rightarrow> (heal_exn + pyval) \<times> heal_world" where
  "execute_heal e q w =
     (if \<not> resident_engineer_enabled (he_environ e) then (Inl (HealRejected ''RESIDENT_ENGINEER_ENABLED is false''), w)
      else if \<not> is_allowlisted (hr_action q) then (Inl (HealRejected (''action not allowlisted: '' @ hr_action q)), w)
      else if \<not> hr_confirmed q then (Inl (HealRejected ''confirmation required for L2 heal''), w)
      else (case validate_approval (he_sha e) (he_now e) (hr_approval q) (hr_tenant q) (effective_principal q)
                   (hr_action q) (hw_approvals w) of
          Inl x \<Rightarrow> (Inl x, w)
        | Inr session \<Rightarrow>
            (let w1 = w\<lparr>hw_approvals := session\<rparr>
             in case (resolve_action heal_registry (hr_action q), heal_handler (hr_action q)) of
                  (Some spec, Some f) \<Rightarrow>
                    (let (ok, msg) = pre_check (hr_action q) (hw_state w1)
                     in if \<not> ok then (Inl (HealValidationError msg), log_heal e q ''pre_check_failed'' [(''message'', PStr msg)] w1)
                        else run_heal e q f w1)
                | _ \<Rightarrow> (Inl (HealRejected (''action not registered: '' @ hr_action q)), w1))))"

section \<open>The routes that lead to it\<close>

text \<open>\<open>POST /heal/approval\<close> for an authenticated principal: the approval is created, or the status of the refusal.\<close>

definition request_approval ::
  "heal_env \<Rightarrow> string \<Rightarrow> (string \<times> string) option \<Rightarrow> string \<Rightarrow> heal_world \<Rightarrow> (nat + unit) \<times> heal_world" where
  "request_approval e new who action w =
     (if \<not> resident_engineer_enabled (he_environ e) then (Inl 503, w)
      else (case who of None \<Rightarrow> (Inl 401, w)
        | Some (tenant, p) \<Rightarrow>
            (if \<not> is_allowlisted action then (Inl 403, w)
             else (Inr (), w\<lparr>hw_approvals := map_option
                 (create_approval (he_sha e) new (he_now e) tenant p action approval_ttl) (hw_approvals w)\<rparr>))))"

end
