(* ===== verification/HealFacts.thy ===== *)
theory HealFacts
  imports Heal EventLog
begin

text \<open>
  What the healing actions guarantee: an approval is spent once, a heal needs the approval
  that was given for it, every heal leaves exactly one line in an audit that only grows, a
  failed one leaves the state as it was, and no heal fails its own checks.
\<close>

section \<open>The audit file as a log\<close>

definition audit_text :: "(string, pyval) dict list \<Rightarrow> string" where
  "audit_text ds = concat (map (\<lambda>d. dumps (PDict d) @ [CHR 0x0A]) ds)"

definition doc_ok :: "(string, pyval) dict \<Rightarrow> bool" where
  "doc_ok d = pv_ok (PDict d)"

definition audit_intact :: "string \<Rightarrow> bool" where
  "audit_intact file = (\<exists>ds. list_all doc_ok ds \<and> file = audit_text ds)"

definition audit_entries :: "string \<Rightarrow> pyval list" where
  "audit_entries file = (case audit_read file of None \<Rightarrow> [] | Some vs \<Rightarrow> vs)"

lemma printable_no_break: "printable c \<Longrightarrow> \<not> line_break c"
  by (auto simp: printable_def line_break_def)

lemma doc_one_line: "doc_ok d \<Longrightarrow> list_all (\<lambda>c. \<not> line_break c) (dumps (PDict d))"
  unfolding doc_ok_def list_all_iff using dumps_printable printable_no_break by blast

lemma dumps_dict_head: "\<exists>t. dumps (PDict d) = CHR ''{'' # t"
  by simp

lemma dumps_dict_not_blank: "py_strip (dumps (PDict d)) \<noteq> []"
proof -
  obtain t where t: "dumps (PDict d) = CHR ''{'' # t" using dumps_dict_head by blast
  have "\<not> py_space (CHR ''{'')" by (simp add: py_space_def)
  then show ?thesis unfolding t py_strip_def by (simp add: dropWhile_eq_Nil_conv)
qed

lemma audit_reads_text:
  assumes ok: "list_all doc_ok ds"
  shows "audit_read (audit_text ds) = Some (map (\<lambda>d. canon (PDict d)) ds)"
proof -
  define line where "line d = dumps (PDict d)" for d
  have l: "doc_ok d \<Longrightarrow> list_all (\<lambda>c. \<not> line_break c) (line d)" "py_strip (line d) \<noteq> []"
      "doc_ok d \<Longrightarrow> loads (line d) = Some (canon (PDict d))" for d
    unfolding line_def using doc_one_line dumps_dict_not_blank loads_dumps doc_ok_def by blast+
  have "audit_text ds = concat (map (\<lambda>x. x @ [CHR 0x0A]) (map line ds))"
    unfolding audit_text_def line_def by (simp add: comp_def del: dumps_with.simps)
  moreover have "list_all (list_all (\<lambda>c. \<not> line_break c)) (map line ds)"
    using ok by (induction ds) (simp_all add: l(1))
  ultimately have "split_lines (audit_text ds) = map line ds"
    using split_lines_concat by metis
  moreover have "filter (\<lambda>l. py_strip l \<noteq> []) (map line ds) = map line ds"
    using l(2) by (simp add: filter_id_conv)
  moreover have "map_res (\<lambda>l. case loads l of None \<Rightarrow> Inl () | Some v \<Rightarrow> Inr v) (map line ds)
      = Inr (map (\<lambda>d. canon (PDict d)) ds)"
    using ok by (induction ds) (simp_all add: l(3) del: canon.simps)
  ultimately show ?thesis by (simp add: audit_read_def del: canon.simps)
qed

definition audit_fits :: "string \<times> (string, pyval) dict \<Rightarrow> bool" where
  "audit_fits i = doc_ok (audit_payload (fst i) (snd i))"

definition audit_entry :: "string \<times> (string, pyval) dict \<Rightarrow> pyval list \<Rightarrow> pyval" where
  "audit_entry i es = canon (PDict (audit_payload (fst i) (snd i)))"

interpretation audit: event_log audit_intact audit_entries "\<lambda>i. audit_append (fst i) (snd i)" audit_entry audit_fits
proof
  fix f i
  assume "audit_intact f" and fit: "audit_fits i"
  then obtain ds where ds: "list_all doc_ok ds" "f = audit_text ds" by (auto simp: audit_intact_def)
  let ?p = "audit_payload (fst i) (snd i)"
  have new: "audit_append (fst i) (snd i) f = audit_text (ds @ [?p])"
    by (simp add: audit_append_def audit_text_def ds(2) del: dumps_with.simps)
  have ok: "list_all doc_ok (ds @ [?p])"
    using ds(1) fit by (simp add: audit_fits_def)
  show "audit_intact (audit_append (fst i) (snd i) f)" using new ok unfolding audit_intact_def by blast
  show "audit_entries (audit_append (fst i) (snd i) f) = audit_entries f @ [audit_entry i (audit_entries f)]"
    unfolding new using audit_reads_text [OF ok] audit_reads_text [OF ds(1)]
    by (simp add: audit_entries_def audit_entry_def ds(2) del: canon.simps)
qed

section \<open>What an execution does\<close>

definition accepted :: "heal_exn + 'a \<Rightarrow> bool" where
  "accepted r = (case r of Inl (HealRejected _) \<Rightarrow> False | Inl MultipleResultsFound \<Rightarrow> False | _ \<Rightarrow> True)"

lemma accepted_simps [simp]:
  "accepted (Inr v)" "accepted (Inl (HealValidationError m))" "\<not> accepted (Inl (HealRejected m))"
  "\<not> accepted (Inl MultipleResultsFound)"
  by (simp_all add: accepted_def)

text \<open>The states the catalogue's handlers can reach.\<close>

definition heal_ok :: "heal_state \<Rightarrow> bool" where
  "heal_ok h = (hs_config h = approved_config \<and> hs_backup h \<in> {None, Some approved_config} \<and> 1 \<le> hs_index h
     \<and> hs_worker h \<noteq> ''disabled'')"

lemma heal_ids_distinct:
  "retry_ingestion \<noteq> restart_worker" "retry_ingestion \<noteq> rebuild_index" "retry_ingestion \<noteq> restore_config"
  "restart_worker \<noteq> rebuild_index" "restart_worker \<noteq> restore_config" "rebuild_index \<noteq> restore_config"
  by (simp_all add: retry_ingestion_def restart_worker_def rebuild_index_def restore_config_def)

lemma heal_registry_complete: "list_all (\<lambda>i. resolve_action heal_registry i \<noteq> None) allowlisted"
  by code_simp

lemma allowlisted_resolves:
  "is_allowlisted i \<Longrightarrow> \<exists>spec f. resolve_action heal_registry i = Some spec \<and> heal_handler i = Some f"
  using heal_registry_complete
  by (auto simp: is_allowlisted_def allowlisted_def heal_handler_def)

lemma handler_cases:
  assumes "heal_handler i = Some f"
  obtains "i = retry_ingestion" "f = do_retry_ingestion" | "i = restart_worker" "f = do_restart_worker"
    | "i = rebuild_index" "f = do_rebuild_index" | "i = restore_config" "f = do_restore_config"
  using assms by (auto simp: heal_handler_def split: if_splits)

lemma handler_keeps: "heal_handler i = Some f \<Longrightarrow> heal_ok h \<Longrightarrow> heal_ok (snd (f h))"
  by (erule handler_cases)
    (auto simp: heal_ok_def do_retry_ingestion_def do_restart_worker_def do_rebuild_index_def do_restore_config_def Let_def)

lemma handler_passes: "heal_handler i = Some f \<Longrightarrow> fst (post_check i h (snd (f h)))"
  by (erule handler_cases)
    (auto simp: post_check_def heal_ids_distinct heal_ids_distinct [symmetric] do_retry_ingestion_def
      do_restart_worker_def do_rebuild_index_def do_restore_config_def Let_def approved_config_def)

lemma pre_check_passes: "heal_ok h \<Longrightarrow> pre_check i h = (True, ''ok'')"
  by (auto simp: heal_ok_def pre_check_def)

lemma run_heal_accepted: "accepted (fst (run_heal e q f w))"
  by (auto simp: run_heal_def Let_def accepted_def split: prod.splits)

lemma execute_heal_cases:
  obtains x where "execute_heal e q w = (Inl x, w)" "\<not> accepted (Inl x :: heal_exn + pyval)"
  | session f where "resident_engineer_enabled (he_environ e)" "is_allowlisted (hr_action q)" "hr_confirmed q"
      "validate_approval (he_sha e) (he_now e) (hr_approval q) (hr_tenant q) (effective_principal q) (hr_action q)
         (hw_approvals w) = Inr session"
      "heal_handler (hr_action q) = Some f"
      "execute_heal e q w = (let w1 = w\<lparr>hw_approvals := session\<rparr>; (ok, msg) = pre_check (hr_action q) (hw_state w)
         in if \<not> ok then (Inl (HealValidationError msg), log_heal e q ''pre_check_failed'' [(''message'', PStr msg)] w1)
            else run_heal e q f w1)"
      "accepted (fst (execute_heal e q w))"
proof (cases "resident_engineer_enabled (he_environ e) \<and> is_allowlisted (hr_action q) \<and> hr_confirmed q")
  case False
  have "\<exists>m. execute_heal e q w = (Inl (HealRejected m), w)"
    using False unfolding execute_heal_def by (simp only: de_Morgan_conj) (elim disjE, simp_all)
  then show ?thesis using that(1) by (auto simp: accepted_def)
next
  case True
  show ?thesis
  proof (cases "validate_approval (he_sha e) (he_now e) (hr_approval q) (hr_tenant q) (effective_principal q) (hr_action q)
         (hw_approvals w)")
    case (Inl x)
    then have "x = MultipleResultsFound \<or> (\<exists>m. x = HealRejected m)"
      by (auto simp: validate_approval_def consume_approval_def result_simps split: option.splits if_splits list.splits)
    moreover have "execute_heal e q w = (Inl x, w)" using True Inl by (simp add: execute_heal_def)
    ultimately show ?thesis using that(1) by (auto simp: accepted_def)
  next
    case (Inr session)
    obtain spec f where f: "resolve_action heal_registry (hr_action q) = Some spec" "heal_handler (hr_action q) = Some f"
      using allowlisted_resolves True by blast
    have ex: "execute_heal e q w = (let w1 = w\<lparr>hw_approvals := session\<rparr>; (ok, msg) = pre_check (hr_action q) (hw_state w)
         in if \<not> ok then (Inl (HealValidationError msg), log_heal e q ''pre_check_failed'' [(''message'', PStr msg)] w1)
            else run_heal e q f w1)"
      using True Inr f by (simp add: execute_heal_def Let_def)
    moreover have "accepted (fst (execute_heal e q w))"
      unfolding ex Let_def by (simp add: run_heal_accepted split: prod.split)
    ultimately show ?thesis using that(2) True Inr f(2) by blast
  qed
qed

lemma run_heal_frame: "hw_approvals (snd (run_heal e q f w)) = hw_approvals w"
  by (auto simp: run_heal_def Let_def log_heal_def split: prod.splits)

lemma execute_heal_approvals:
  assumes "accepted (fst (execute_heal e q w))"
  shows "validate_approval (he_sha e) (he_now e) (hr_approval q) (hr_tenant q) (effective_principal q) (hr_action q)
     (hw_approvals w) = Inr (hw_approvals (snd (execute_heal e q w)))"
proof (cases rule: execute_heal_cases [of e q w])
  case (2 session f)
  then have "hw_approvals (snd (execute_heal e q w)) = session"
    by (simp add: Let_def run_heal_frame log_heal_def split: prod.split)
  then show ?thesis using 2 by simp
qed (use assms in simp)

lemma refused_changes_nothing: "\<not> accepted (fst (execute_heal e q w)) \<Longrightarrow> snd (execute_heal e q w) = w"
  by (cases rule: execute_heal_cases [of e q w]) simp_all

section \<open>Approvals\<close>

definition fitting_approval :: "heal_env \<Rightarrow> heal_request \<Rightarrow> heal_approval \<Rightarrow> bool" where
  "fitting_approval e q r = (hr_approval q = Some (ha_id r) \<and> ha_tenant r = hr_tenant q
     \<and> ha_principal r = effective_principal q \<and> ha_action r = hr_action q \<and> ha_consumed r = None
     \<and> (case ha_expires r of None \<Rightarrow> True | Some t \<Rightarrow> he_now e < t))"

lemma validate_approval_row:
  assumes "validate_approval hash now (Some i) tenant who action (Some rows) = Inr session"
  shows "\<exists>r. filter (\<lambda>r. ha_id r = i) rows = [r] \<and> approval_objection hash now tenant who action r = None
     \<and> session = Some (map (\<lambda>x. if ha_id x = i then x\<lparr>ha_consumed := Some now\<rparr> else x) rows)"
  using assms
  by (auto simp: validate_approval_def consume_approval_def result_simps split: if_splits list.splits option.splits)

text \<open> A heal happens only with the feature on, for an action of the catalogue, with
  confirmation, and, where there is a session, with an unspent and unexpired approval of exactly
  this tenant, principal and action; a refused request changes nothing.\<close>

theorem heal_needs_its_approval:
  "if accepted (fst (execute_heal e q w))
   then resident_engineer_enabled (he_environ e) \<and> hr_action q \<in> set allowlisted \<and> hr_confirmed q
     \<and> (case hw_approvals w of None \<Rightarrow> True | Some rows \<Rightarrow> list_ex (fitting_approval e q) rows)
   else snd (execute_heal e q w) = w"
proof (cases rule: execute_heal_cases [of e q w])
  case (2 session f)
  have "list_ex (fitting_approval e q) rows" if rows: "hw_approvals w = Some rows" for rows
  proof -
    obtain i where i: "hr_approval q = Some i"
      using 2(4) by (cases "hr_approval q") (auto simp: validate_approval_def)
    obtain r where r: "filter (\<lambda>r. ha_id r = i) rows = [r]"
        "approval_objection (he_sha e) (he_now e) (hr_tenant q) (effective_principal q) (hr_action q) r = None"
      using validate_approval_row 2(4) unfolding i rows by blast
    have "r \<in> set (filter (\<lambda>r. ha_id r = i) rows)" by (simp add: r(1))
    then show ?thesis
      using r(2) i
      by (auto simp: list_ex_iff fitting_approval_def approval_objection_def split: if_splits option.splits intro!: bexI [of _ r])
  qed
  then show ?thesis using 2 by (auto simp: is_allowlisted_def split: option.split)
qed simp

text \<open>Operations over time.\<close>

datatype heal_op =
    Approve heal_env string "(string \<times> string) option" string
  | Heal heal_env heal_request

definition heal_step :: "heal_op \<Rightarrow> heal_world \<Rightarrow> bool \<times> heal_world" where
  "heal_step op w = (case op of
       Approve e new p a \<Rightarrow> (False, snd (request_approval e new p a w))
     | Heal e q \<Rightarrow> (let (r, w') = execute_heal e q w in (accepted r, w')))"

fun heal_trace :: "heal_op list \<Rightarrow> heal_world \<Rightarrow> (heal_op \<times> bool) list \<times> heal_world" where
  "heal_trace [] w = ([], w)"
| "heal_trace (op # ops) w =
     (let (ok, w') = heal_step op w; (tr, w'') = heal_trace ops w' in ((op, ok) # tr, w''))"

definition spends :: "string \<Rightarrow> heal_op \<times> bool \<Rightarrow> bool" where
  "spends i p = (snd p \<and> (case fst p of Approve _ _ _ _ \<Rightarrow> False | Heal e q \<Rightarrow> hr_approval q = Some i))"

definition spent :: "string \<Rightarrow> heal_world \<Rightarrow> bool" where
  "spent i w = (\<exists>rows r rs. hw_approvals w = Some rows \<and> filter (\<lambda>r. ha_id r = i) rows = r # rs
     \<and> (rs = [] \<longrightarrow> ha_consumed r \<noteq> None))"

lemma request_approval_rows:
  "hw_approvals (snd (request_approval e new p a w)) = hw_approvals w
   \<or> (\<exists>rows r. hw_approvals w = Some rows \<and> hw_approvals (snd (request_approval e new p a w)) = Some (rows @ [r]))
   \<or> hw_approvals w = None"
  by (cases "hw_approvals w") (auto simp: request_approval_def create_approval_def split: option.splits)

lemma filter_consumed:
  "filter (\<lambda>r. ha_id r = i) (map (\<lambda>x. if ha_id x = j then x\<lparr>ha_consumed := t\<rparr> else x) rows)
   = map (\<lambda>x. if ha_id x = j then x\<lparr>ha_consumed := t\<rparr> else x) (filter (\<lambda>r. ha_id r = i) rows)"
  by (induction rows) auto

lemma accepted_consumes:
  assumes "accepted (fst (execute_heal e q w))" and "hw_approvals w = Some rows"
  shows "\<exists>i r. hr_approval q = Some i \<and> filter (\<lambda>r. ha_id r = i) rows = [r] \<and> ha_consumed r = None
    \<and> hw_approvals (snd (execute_heal e q w))
       = Some (map (\<lambda>x. if ha_id x = i then x\<lparr>ha_consumed := Some (he_now e)\<rparr> else x) rows)"
proof -
  note v = execute_heal_approvals [OF assms(1)]
  obtain i where i: "hr_approval q = Some i" using v by (cases "hr_approval q") (auto simp: validate_approval_def)
  show ?thesis
    using i validate_approval_row [OF v [unfolded i assms(2)]]
    by (auto simp: approval_objection_def split: if_splits)
qed

lemma heal_step_spent:
  assumes "hw_approvals w = Some rows" and "heal_step op w = (ok, w')"
  shows "(\<exists>rows'. hw_approvals w' = Some rows') \<and> (spent i w \<longrightarrow> spent i w' \<and> \<not> spends i (op, ok))
     \<and> (spends i (op, ok) \<longrightarrow> spent i w')"
proof (cases op)
  case (Approve e new p a)
  then show ?thesis
    using assms request_approval_rows [of e new p a w] by (auto simp: heal_step_def spends_def spent_def)
next
  case (Heal e q)
  then have ex: "ok = accepted (fst (execute_heal e q w))" "w' = snd (execute_heal e q w)"
    using assms(2) by (auto simp: heal_step_def split: prod.splits)
  show ?thesis
  proof (cases ok)
    case False
    then have "w' = w" using refused_changes_nothing ex by simp
    then show ?thesis using False assms(1) by (simp add: spends_def)
  next
    case True
    obtain j r where j: "hr_approval q = Some j" "filter (\<lambda>r. ha_id r = j) rows = [r]" "ha_consumed r = None"
        "hw_approvals w' = Some (map (\<lambda>x. if ha_id x = j then x\<lparr>ha_consumed := Some (he_now e)\<rparr> else x) rows)"
      using accepted_consumes [OF _ assms(1), of e q] True ex by auto
    have "ha_id r = j" using j(2) by (metis (mono_tags, lifting) filter_set list.set_intros(1) mem_Collect_eq set_filter)
    then show ?thesis
      using j True assms(1) by (auto simp: spent_def spends_def Heal filter_consumed)
  qed
qed

lemma heal_trace_spent:
  "hw_approvals w = Some rows \<Longrightarrow>
   length (filter (spends i) (fst (heal_trace ops w))) \<le> (if spent i w then 0 else 1)"
proof (induction ops arbitrary: w rows)
  case (Cons op ops)
  obtain ok w' where st: "heal_step op w = (ok, w')" by fastforce
  obtain tr w'' where tr: "heal_trace ops w' = (tr, w'')" by fastforce
  note h = heal_step_spent [OF Cons.prems st, of i]
  then obtain rows' where "hw_approvals w' = Some rows'" by blast
  from Cons.IH [OF this] h show ?case by (auto simp: st tr split: if_splits)
qed simp

text \<open>Property C10.  Whatever approvals are created and heals asked for, in any order and with any
  ids, at most one heal is ever carried out on one approval id.\<close>

theorem approval_spent_once:
  assumes "hw_approvals w = Some rows"
  shows "length (filter (spends i) (fst (heal_trace ops w))) \<le> 1"
  using heal_trace_spent [OF assms, of i ops] by (simp split: if_splits)

section \<open>State and audit\<close>

lemma audit_payload_ok: "doc_ok d \<Longrightarrow> doc_ok (audit_payload at d)"
  by (auto simp: doc_ok_def audit_payload_def dset_new map_of_eq_None_iff)

lemma heal_record_ok: "pv_ok (PDict meta) \<Longrightarrow> doc_ok (heal_record e q status meta)"
  by (simp add: doc_ok_def heal_record_def audit_record_def)

lemma log_heal_audit:
  "pv_ok (PDict meta) \<Longrightarrow> \<exists>i. audit_fits i \<and> hw_audit (log_heal e q status meta w) = audit_append (fst i) (snd i) (hw_audit w)"
  by (rule exI [of _ "(he_at e, heal_record e q status meta)"])
    (simp add: audit_fits_def log_heal_def audit_payload_ok heal_record_ok del: pv_ok_PDict)

lemma pv_ok_append: "pv_ok (PList (map PStr xs))"
  by simp

lemma heal_state_ok: "heal_ok h \<Longrightarrow> pv_ok (heal_state_dict h)"
  by (auto simp: heal_state_dict_def heal_ok_def approved_config_def)

lemma handler_result_ok: "heal_handler i = Some f \<Longrightarrow> heal_ok h \<Longrightarrow> pv_ok (fst (f h))"
  by (erule handler_cases)
    (auto simp: do_retry_ingestion_def do_restart_worker_def do_rebuild_index_def do_restore_config_def Let_def
      simulated_def heal_ok_def approved_config_def)

lemma run_heal_step:
  assumes f: "heal_handler (hr_action q) = Some f" and h: "heal_ok (hw_state w)"
  shows "heal_ok (hw_state (snd (run_heal e q f w)))
     \<and> (\<exists>i. audit_fits i \<and> hw_audit (snd (run_heal e q f w)) = audit_append (fst i) (snd i) (hw_audit w))
     \<and> (if hr_force_fail q then fst (run_heal e q f w) = Inl (HealValidationError ''post-check failed; rolled back: forced post-check failure'')
            \<and> hw_state (snd (run_heal e q f w)) = hw_state w
        else is_ok (fst (run_heal e q f w)) \<and> hw_state (snd (run_heal e q f w)) = snd (f (hw_state w)))"
proof (cases "hr_force_fail q")
  case True
  have m: "pv_ok (PDict [(''message'', PStr ''forced post-check failure''), (''before'', heal_state_dict (hw_state w)),
      (''after'', heal_state_dict (snd (f (hw_state w))))])"
    using heal_state_ok h handler_keeps [OF f h] by simp
  have r: "run_heal e q f w = (Inl (HealValidationError (''post-check failed; rolled back: '' @ ''forced post-check failure'')),
      log_heal e q ''rolled_back'' [(''message'', PStr ''forced post-check failure''),
        (''before'', heal_state_dict (hw_state w)), (''after'', heal_state_dict (snd (f (hw_state w))))] w)"
    unfolding run_heal_def Let_def using True by (simp add: case_prod_beta)
  show ?thesis using True h log_heal_audit [OF m] unfolding r by (simp add: log_heal_def)
next
  case False
  define meta where "meta = [(''result'', fst (f (hw_state w))), (''allowlist'', PList (map PStr allowlisted)),
      (''executed'', PBool False), (''simulation'', PBool True)]"
  have m: "pv_ok (PDict meta)" using handler_result_ok [OF f h] by (simp add: meta_def)
  have r: "\<exists>v. run_heal e q f w = (Inr v, log_heal e q ''simulated'' meta (w\<lparr>hw_state := snd (f (hw_state w))\<rparr>))"
    unfolding run_heal_def Let_def using False handler_passes [OF f] by (simp add: case_prod_beta meta_def)
  show ?thesis using False r log_heal_audit [OF m] handler_keeps [OF f h] by (auto simp: log_heal_def)
qed

lemma execute_heal_step:
  assumes "heal_ok (hw_state w)" and "accepted (fst (execute_heal e q w))"
  shows "heal_ok (hw_state (snd (execute_heal e q w)))
     \<and> (\<exists>i. audit_fits i \<and> hw_audit (snd (execute_heal e q w)) = audit_append (fst i) (snd i) (hw_audit w))
     \<and> (if hr_force_fail q then \<not> is_ok (fst (execute_heal e q w)) \<and> hw_state (snd (execute_heal e q w)) = hw_state w
        else is_ok (fst (execute_heal e q w))
          \<and> fst (post_check (hr_action q) (hw_state w) (hw_state (snd (execute_heal e q w)))))"
proof (cases rule: execute_heal_cases [of e q w])
  case (2 session f)
  have "execute_heal e q w = run_heal e q f (w\<lparr>hw_approvals := session\<rparr>)"
    using 2(6) by (simp add: pre_check_passes [OF assms(1)])
  then show ?thesis using run_heal_step [OF 2(5), of "w\<lparr>hw_approvals := session\<rparr>" e] assms(1)
      handler_passes [OF 2(5)]
    by (auto split: if_splits)
qed (use assms in simp)

text \<open> In the states the catalogue reaches, an accepted heal passes its checks; if it
  is made to fail it leaves the state as it was.\<close>

theorem accepted_heal_succeeds:
  assumes "heal_ok (hw_state w)" and "accepted (fst (execute_heal e q w))"
  shows "if hr_force_fail q then \<not> is_ok (fst (execute_heal e q w)) \<and> hw_state (snd (execute_heal e q w)) = hw_state w
     else is_ok (fst (execute_heal e q w)) \<and> fst (post_check (hr_action q) (hw_state w) (hw_state (snd (execute_heal e q w))))"
  using execute_heal_step [OF assms] by simp

lemma request_approval_frame:
  "hw_state (snd (request_approval e new p a w)) = hw_state w"
  "hw_audit (snd (request_approval e new p a w)) = hw_audit w"
  by (auto simp: request_approval_def split: option.splits)

text \<open>Property C34.  Over any sequence of operations the audit keeps what it had and gains exactly
  one entry for every heal that was accepted.\<close>

theorem every_heal_is_audited:
  assumes "audit_intact (hw_audit w)" and "heal_ok (hw_state w)" and "heal_trace ops w = (tr, w')"
  shows "audit_intact (hw_audit w') \<and> heal_ok (hw_state w')
     \<and> (\<exists>new. audit_read (hw_audit w') = Some (audit_entries (hw_audit w) @ new) \<and> length new = length (filter snd tr))"
proof -
  have "audit_intact (hw_audit w') \<and> heal_ok (hw_state w')
     \<and> (\<exists>new. audit_entries (hw_audit w') = audit_entries (hw_audit w) @ new \<and> length new = length (filter snd tr))"
    using assms
  proof (induction ops arbitrary: w tr)
    case (Cons op ops)
    obtain ok w1 where st: "heal_step op w = (ok, w1)" by fastforce
    obtain tr1 where tr: "heal_trace ops w1 = (tr1, w')" "tr = (op, ok) # tr1"
      using Cons.prems(3) by (auto simp: st split: prod.splits)
    have step: "audit_intact (hw_audit w1) \<and> heal_ok (hw_state w1)
        \<and> (\<exists>n. audit_entries (hw_audit w1) = audit_entries (hw_audit w) @ n \<and> length n = (if ok then 1 else 0))"
    proof (cases op)
      case (Approve e new p a)
      then show ?thesis using st Cons.prems by (auto simp: heal_step_def request_approval_frame)
    next
      case (Heal e q)
      then have ex: "ok = accepted (fst (execute_heal e q w))" "w1 = snd (execute_heal e q w)"
        using st by (auto simp: heal_step_def split: prod.splits)
      show ?thesis
      proof (cases ok)
        case False
        then show ?thesis using refused_changes_nothing ex Cons.prems by simp
      next
        case True
        have g: "heal_ok (hw_state w1) \<and> (\<exists>i. audit_fits i \<and> hw_audit w1 = audit_append (fst i) (snd i) (hw_audit w))"
          using execute_heal_step [OF Cons.prems(2)] True ex by blast
        then obtain i where i: "audit_fits i" "hw_audit w1 = audit_append (fst i) (snd i) (hw_audit w)" by blast
        show ?thesis
          using g True audit.app_inv [OF Cons.prems(1) i(1)] audit.app_log [OF Cons.prems(1) i(1)] by (simp add: i(2))
      qed
    qed
    then obtain n where n: "audit_entries (hw_audit w1) = audit_entries (hw_audit w) @ n" "length n = (if ok then 1 else 0)"
      by blast
    obtain new where "audit_intact (hw_audit w')" "heal_ok (hw_state w')"
        "audit_entries (hw_audit w') = audit_entries (hw_audit w1) @ new" "length new = length (filter snd tr1)"
      using Cons.IH [OF _ _ tr(1)] step by blast
    then show ?case by (intro conjI exI [of _ "n @ new"]) (simp_all add: n tr(2))
  qed simp
  moreover have "\<exists>ds. audit_read (hw_audit w') = Some ds" if "audit_intact (hw_audit w')"
    using that audit_reads_text by (auto simp: audit_intact_def)
  ultimately show ?thesis by (auto simp: audit_entries_def [of "hw_audit w'"])
qed

section \<open>A concrete run\<close>

definition demo_heal_env :: "int \<Rightarrow> heal_env" where
  "demo_heal_env now = \<lparr>he_environ = (\<lambda>n. if n = ''RESIDENT_ENGINEER_ENABLED'' then Some ''true'' else None),
     he_sha = rev, he_now = now, he_at = ''t'', he_request = ''r''\<rparr>"

definition demo_heal_request :: "bool \<Rightarrow> heal_request" where
  "demo_heal_request force = \<lparr>hr_action = restart_worker, hr_confirmed = True, hr_tenant = ''t1'', hr_user = ''u'',
     hr_principal = Some ''u'', hr_approval = Some ''a1'', hr_force_fail = force\<rparr>"

definition demo_heal_world :: heal_world where
  "demo_heal_world = \<lparr>hw_state = initial_heal_state, hw_approvals = Some [], hw_audit = []\<rparr>"

definition demo_heal_ops :: "heal_op list" where
  "demo_heal_ops = [Approve (demo_heal_env 0) ''a1'' (Some (''t1'', ''u'')) restart_worker,
     Heal (demo_heal_env 5) (demo_heal_request False), Heal (demo_heal_env 6) (demo_heal_request False)]"

definition demo_approved_world :: heal_world where
  "demo_approved_world = snd (heal_trace [hd demo_heal_ops] demo_heal_world)"

lemma demo_heal_trace: "map snd (fst (heal_trace demo_heal_ops demo_heal_world)) = [False, True, False]"
  by code_simp

theorem approval_spent_once_witness:
  "length (filter (spends ''a1'') (fst (heal_trace demo_heal_ops demo_heal_world))) \<le> 1
   \<and> length (filter (spends ''a1'') (fst (heal_trace demo_heal_ops demo_heal_world))) \<noteq> 0"
proof
  show "length (filter (spends ''a1'') (fst (heal_trace demo_heal_ops demo_heal_world))) \<le> 1"
    by (rule approval_spent_once) (simp add: demo_heal_world_def)
  show "length (filter (spends ''a1'') (fst (heal_trace demo_heal_ops demo_heal_world))) \<noteq> 0" by code_simp
qed

lemma demo_heal_start: "audit_intact (hw_audit demo_heal_world)" "heal_ok (hw_state demo_heal_world)"
proof -
  have "hw_audit demo_heal_world = audit_text []" by (simp add: audit_text_def demo_heal_world_def)
  moreover have "list_all doc_ok []" by simp
  ultimately show "audit_intact (hw_audit demo_heal_world)" unfolding audit_intact_def by blast
qed (simp add: heal_ok_def demo_heal_world_def initial_heal_state_def)

theorem every_heal_is_audited_witness:
  "\<exists>new. audit_read (hw_audit (snd (heal_trace demo_heal_ops demo_heal_world)))
       = Some (audit_entries (hw_audit demo_heal_world) @ new) \<and> length new = 1"
proof -
  have "length (filter snd (fst (heal_trace demo_heal_ops demo_heal_world))) = 1" by code_simp
  then show ?thesis using every_heal_is_audited [OF demo_heal_start, of demo_heal_ops] by (metis prod.collapse)
qed

theorem accepted_heal_succeeds_witness:
  "\<not> is_ok (fst (execute_heal (demo_heal_env 5) (demo_heal_request True) demo_approved_world))
   \<and> hw_state (snd (execute_heal (demo_heal_env 5) (demo_heal_request True) demo_approved_world)) = hw_state demo_approved_world"
proof -
  have "accepted (fst (execute_heal (demo_heal_env 5) (demo_heal_request True) demo_approved_world))" by code_simp
  moreover have "heal_ok (hw_state demo_approved_world)" by code_simp
  moreover have "hr_force_fail (demo_heal_request True)" by (simp add: demo_heal_request_def)
  ultimately show ?thesis using accepted_heal_succeeds [of demo_approved_world "demo_heal_env 5" "demo_heal_request True"] by simp
qed

end
