(* ===== verification/Planner.thy ===== *)
theory Planner
  imports Actions
begin

text \<open>
  From a blueprint to a plan that may be built: the blueprint's validators
  (\<open>factory/blueprint.py\<close>), what the Store's kits and block manifests declare
  (\<open>store_kits.py\<close>, \<open>vertical_scope.py\<close>, \<open>inventory.py\<close>, \<open>dual_registry.py\<close>), the planner
  (\<open>planner.py\<close>) and the gate in front of the generator (\<open>compliance_gate.py\<close>).  The
  Store enters as the parsed documents of its files, None for one that cannot be read; the
  order of its directories is the order of the list.
\<close>

section \<open>Names\<close>

definition snake_char :: "char \<Rightarrow> bool" where
  "snake_char c = (lower_letter c \<or> is_digit c)"

text \<open>Replacing every run of characters outside a class by one underscore.\<close>

fun squash :: "(char \<Rightarrow> bool) \<Rightarrow> string \<Rightarrow> string" where
  "squash keep [] = []"
| "squash keep [c] = [if keep c then c else CHR ''_'']"
| "squash keep (c # d # cs) =
     (if keep c then c # squash keep (d # cs)
      else if keep d then CHR ''_'' # squash keep (d # cs)
      else squash keep (d # cs))"

definition strip_underscores :: "string \<Rightarrow> string" where
  "strip_underscores s = rev (dropWhile (\<lambda>c. c = CHR ''_'') (rev (dropWhile (\<lambda>c. c = CHR ''_'') s)))"

definition connector_slug :: "string \<Rightarrow> string" where
  "connector_slug s = strip_underscores (squash (\<lambda>c. snake_char c \<or> c = CHR ''_'') (py_lower s))"

definition slug :: "pyval \<Rightarrow> string" where
  "slug v = replace_char (CHR '' '') (CHR ''_'') (replace_char (CHR ''-'') (CHR ''_'') (py_lower (py_strip (text_of v))))"

definition no_vertical :: string where "no_vertical = ''product''"

definition chosen_vertical :: "pyval \<Rightarrow> string" where
  "chosen_vertical v =
     (let s = map (\<lambda>c. if is_alnum c \<or> c = CHR ''_'' then c else CHR ''_'') (slug v);
          t = take 48 (join [CHR ''_''] (filter (\<lambda>p. p \<noteq> []) (split_on (CHR ''_'') s)))
      in if t \<noteq> [] then t else no_vertical)"

definition organisation_suffixes :: "string list" where
  "organisation_suffixes = [''offices'', ''office'', ''firms'', ''firm'', ''practices'', ''practice'',
     ''companies'', ''company'', ''studios'', ''studio'', ''agencies'', ''agency'',
     ''platforms'', ''platform'', ''businesses'', ''business'']"

definition normalize_vertical :: "string \<Rightarrow> string" where
  "normalize_vertical v =
     (let s = strip_underscores (squash snake_char (py_lower (py_strip v)))
      in case List.find (\<lambda>x. ends_with s (CHR ''_'' # x)) organisation_suffixes of
           Some x \<Rightarrow> take (length s - (length x + 1)) s | None \<Rightarrow> s)"

section \<open>The blueprint\<close>

datatype strategy = Reuse | Adapt | Compose | Generate | Stub | NotSupported

record capability_spec =
  cp_id :: string
  cp_description :: string
  cp_blocks :: "string list"
  cp_hint :: "strategy option"
  cp_connectors :: "string list"

record blueprint =
  bp_schema :: string
  bp_product :: string
  bp_vertical :: string
  bp_capabilities :: "capability_spec list"
  bp_delivery :: string
  bp_level :: "string option"

datatype build_level = Prototype | Light | Pilot | Production

definition level_name :: "build_level \<Rightarrow> string" where
  "level_name l = (case l of Prototype \<Rightarrow> ''prototype'' | Light \<Rightarrow> ''light'' | Pilot \<Rightarrow> ''pilot'' | Production \<Rightarrow> ''production'')"

definition all_levels :: "build_level list" where "all_levels = [Prototype, Light, Pilot, Production]"

definition parse_build_level :: "string \<Rightarrow> build_level option" where
  "parse_build_level raw = List.find (\<lambda>l. level_name l = py_strip raw) all_levels"

record level_bar =
  lb_stop_gate :: string
  lb_thin_fails :: bool
  lb_full_floor :: bool

definition bars :: "build_level \<Rightarrow> level_bar" where
  "bars l = (case l of
       Prototype \<Rightarrow> \<lparr>lb_stop_gate = ''CODE'', lb_thin_fails = False, lb_full_floor = False\<rparr>
     | Light \<Rightarrow> \<lparr>lb_stop_gate = ''STORE'', lb_thin_fails = False, lb_full_floor = False\<rparr>
     | Pilot \<Rightarrow> \<lparr>lb_stop_gate = ''STORE'', lb_thin_fails = True, lb_full_floor = False\<rparr>
     | Production \<Rightarrow> \<lparr>lb_stop_gate = ''STORE'', lb_thin_fails = True, lb_full_floor = True\<rparr>)"

definition reaches_pilot :: "level_bar \<Rightarrow> bool" where
  "reaches_pilot b = (lb_stop_gate b \<noteq> ''CODE'')"

text \<open>The validators of a capability and of the blueprint; None is a validation error.\<close>

definition make_capability :: "capability_spec \<Rightarrow> capability_spec option" where
  "make_capability c = (if cp_id c = [] \<or> cp_description c = [] then None
     else Some (c\<lparr>cp_connectors := dedup (filter (\<lambda>s. s \<noteq> []) (map connector_slug (cp_connectors c)))\<rparr>))"

text \<open>\<open>[a-z][a-z0-9_-]*\<close>.\<close>

definition product_id_ok :: "string \<Rightarrow> bool" where
  "product_id_ok s = (case s of [] \<Rightarrow> False
     | c # cs \<Rightarrow> lower_letter c \<and> list_all (\<lambda>x. snake_char x \<or> x = CHR ''_'' \<or> x = CHR ''-'') cs)"

definition level_field :: "string option \<Rightarrow> string option option" where
  "level_field v = (case v of None \<Rightarrow> Some None
     | Some s \<Rightarrow> (if py_strip s = [] then Some None
         else map_option (\<lambda>l. Some (level_name l)) (parse_build_level s)))"

fun all_some :: "'a option list \<Rightarrow> 'a list option" where
  "all_some [] = Some []"
| "all_some (None # xs) = None"
| "all_some (Some x # xs) = map_option ((#) x) (all_some xs)"

definition make_blueprint :: "blueprint \<Rightarrow> blueprint option" where
  "make_blueprint b =
     (case (all_some (map make_capability (bp_capabilities b)), level_field (bp_level b)) of
        (Some cs, Some lvl) \<Rightarrow>
          (if bp_schema b = ''product_blueprint.v1'' \<and> product_id_ok (bp_product b) \<and> cs \<noteq> []
              \<and> distinct (map cp_id cs) \<and> bp_delivery b \<in> {''zip'', ''github_repo''}
           then Some (b\<lparr>bp_capabilities := cs, bp_level := lvl\<rparr>) else None)
      | _ \<Rightarrow> None)"

section \<open>Kits\<close>

type_synonym manifests = "(string \<times> (string, pyval) dict) list"

definition declared_slugs :: "(string, pyval) dict \<Rightarrow> string \<Rightarrow> py_exn + string list" where
  "declared_slugs m key = map_result (map slug) (py_iter (py_or (get0 m key) (PList [])))"

fun find_kit :: "string \<Rightarrow> string \<Rightarrow> manifests \<Rightarrow> py_exn + string option" where
  "find_kit key want [] = Inr None"
| "find_kit key want ((k, m) # ks) =
     bind_result (declared_slugs m key) (\<lambda>ss. if want \<in> set ss then Inr (Some k) else find_kit key want ks)"

definition serving_kit :: "pyval \<Rightarrow> manifests \<Rightarrow> py_exn + string option" where
  "serving_kit vertical kits =
     (let want = slug vertical
      in if want = [] then Inr None else if want \<in> set (dkeys kits) then Inr (Some want)
         else find_kit ''serves_verticals'' want kits)"

definition excluding_kit :: "pyval \<Rightarrow> manifests \<Rightarrow> py_exn + string option" where
  "excluding_kit vertical kits =
     (let want = slug vertical
      in if want = [] then Inr None else find_kit ''excludes_verticals'' want (sort_key fst kits))"

datatype vertical_status = Served | Excluded | Unknown

definition resolve_vertical :: "pyval \<Rightarrow> manifests \<Rightarrow> py_exn + (vertical_status \<times> string option)" where
  "resolve_vertical vertical kits =
     bind_result (excluding_kit vertical kits) (\<lambda>ex.
       if ex \<noteq> None \<and> ex \<noteq> Some [] then Inr (Excluded, ex)
       else map_result (\<lambda>kit. if kit \<noteq> None \<and> kit \<noteq> Some [] then (Served, kit) else (Unknown, None))
              (serving_kit vertical kits))"

text \<open>A kit's own domain blocks: its blocks minus those most kits carry.\<close>

definition block_lists :: "manifests \<Rightarrow> pyval list list" where
  "block_lists kits = List.map_filter (\<lambda>(k, m). case get0 m ''blocks'' of PList xs \<Rightarrow> Some xs | _ \<Rightarrow> None) kits"

definition shared_core :: "pyval list list \<Rightarrow> pyval \<Rightarrow> bool" where
  "shared_core bls b = (length bls < 2 * length (filter (\<lambda>xs. b \<in> set xs) bls))"

definition domain_blocks :: "string \<Rightarrow> manifests \<Rightarrow> py_exn + pyval list" where
  "domain_blocks kit kits =
     (let bls = block_lists kits
      in if \<not> list_all (list_all hashable) bls then Inl TypeError
         else Inr (case dget kits kit of
             Some m \<Rightarrow> (case get0 m ''blocks'' of PList own \<Rightarrow> filter (\<lambda>b. \<not> shared_core bls b) own | _ \<Rightarrow> [])
           | None \<Rightarrow> []))"

definition ready_kit :: "pyval \<Rightarrow> manifests \<Rightarrow> py_exn + string option" where
  "ready_kit vertical kits = map_result (\<lambda>(st, kit).
     if st = Excluded then None
     else (case kit of Some k \<Rightarrow> (case dget kits k of
             Some m \<Rightarrow> (if get0 m ''build_ready'' = PBool True then Some k else None) | None \<Rightarrow> None)
         | None \<Rightarrow> None)) (resolve_vertical vertical kits)"

definition vertical_is_excluded :: "pyval \<Rightarrow> manifests \<Rightarrow> py_exn + bool" where
  "vertical_is_excluded vertical kits = map_result (\<lambda>(st, kit).
     st = Excluded \<or> (case kit of Some k \<Rightarrow> (case dget kits k of
             Some m \<Rightarrow> get0 m ''build_ready'' = PBool False | None \<Rightarrow> False) | None \<Rightarrow> False))
     (resolve_vertical vertical kits)"

section \<open>Planned capabilities\<close>

record planned_capability =
  pc_id :: string
  pc_strategy :: strategy
  pc_blocks :: "string list"
  pc_notes :: string

record domain_gap =
  dm_capability :: string
  dm_blocks :: "string list"
  dm_kit :: string

definition domain_gaps :: "string \<Rightarrow> manifests \<Rightarrow> planned_capability list \<Rightarrow> py_exn + domain_gap list" where
  "domain_gaps vertical kits caps =
     bind_result (ready_kit (PStr vertical) kits) (\<lambda>kit.
     case kit of None \<Rightarrow> Inr []
     | Some k \<Rightarrow> map_result (\<lambda>domain. if domain = [] then [] else
         map (\<lambda>c. \<lparr>dm_capability = (if pc_id c \<noteq> [] then pc_id c else ''?''), dm_blocks = sorted_set (pc_blocks c), dm_kit = k\<rparr>)
           (filter (\<lambda>c. pc_blocks c \<noteq> [] \<and> list_all (\<lambda>b. PStr b \<notin> set domain) (pc_blocks c)) caps))
         (domain_blocks k kits))"

section \<open>Vertical scope\<close>

text \<open>The manifests of the block registry: directory name and parsed document, None when unreadable.\<close>

type_synonym registry_files = "(string \<times> pyval option) list"

definition scope_of :: "(string, pyval) dict \<Rightarrow> string list" where
  "scope_of d = (case get0 d ''verticals'' of
       PList vs \<Rightarrow> remdups (filter (\<lambda>v. v \<noteq> []) (List.map_filter
          (\<lambda>v. case v of PStr s \<Rightarrow> Some (normalize_vertical s) | _ \<Rightarrow> None) vs))
     | _ \<Rightarrow> [])"

definition manifest_id :: "string \<Rightarrow> (string, pyval) dict \<Rightarrow> string" where
  "manifest_id dir d = py_str (py_or (get0 d ''id'') (PStr dir))"

fun block_verticals :: "registry_files \<Rightarrow> (string, string list) dict \<Rightarrow> py_exn + (string, string list) dict" where
  "block_verticals [] out = Inr out"
| "block_verticals ((dir, doc) # fs) out = (case doc of
       None \<Rightarrow> block_verticals fs out
     | Some (PDict d) \<Rightarrow>
         block_verticals fs (if scope_of d = [] then out else dset (manifest_id dir d) (scope_of d) out)
     | Some _ \<Rightarrow> Inl AttributeError)"

record scoped_out =
  so_block :: string
  so_vertical :: string
  so_allowed :: "string list"
  so_capability :: string

definition in_scope :: "(string, string list) dict \<Rightarrow> string \<Rightarrow> string \<Rightarrow> bool" where
  "in_scope scopes wanted b = (case dget scopes b of None \<Rightarrow> True | Some vs \<Rightarrow> wanted \<in> set vs)"

definition scope_blocks ::
  "string list \<Rightarrow> string \<Rightarrow> (string, string list) dict \<Rightarrow> string \<Rightarrow> string list \<times> scoped_out list" where
  "scope_blocks ids vertical scopes cap =
     (let wanted = normalize_vertical vertical
      in (filter (in_scope scopes wanted) ids,
          map (\<lambda>b. \<lparr>so_block = b, so_vertical = (if wanted \<noteq> [] then wanted else ''(none declared)''),
              so_allowed = sort (the (dget scopes b)), so_capability = cap\<rparr>)
            (filter (\<lambda>b. \<not> in_scope scopes wanted b) ids)))"

section \<open>The two registers\<close>

record block_ref =
  br_id :: string
  br_version :: string
  br_tier :: string

text \<open>\<open>shelf_from_store\<close>: every readable manifest with an id.\<close>

definition store_ref :: "string \<Rightarrow> (string, pyval) dict \<Rightarrow> block_ref" where
  "store_ref dir d = \<lparr>br_id = py_strip (manifest_id dir d), br_version = py_str (py_or (get0 d ''version'') (PStr ''0'')),
     br_tier = py_strip (text_of (get0 d ''trust_tier''))\<rparr>"

fun shelf_from_store :: "registry_files \<Rightarrow> (string, block_ref) dict \<Rightarrow> py_exn + (string, block_ref) dict" where
  "shelf_from_store [] out = Inr out"
| "shelf_from_store ((dir, doc) # fs) out = (case doc of
       None \<Rightarrow> shelf_from_store fs out
     | Some (PDict d) \<Rightarrow> (let r = store_ref dir d in
         shelf_from_store fs (if br_id r = [] then out else dset (br_id r) r out))
     | Some _ \<Rightarrow> Inl AttributeError)"

definition not_attachable :: "registry_files \<Rightarrow> string list" where
  "not_attachable fs = List.map_filter (\<lambda>(dir, doc). case doc of
       Some (PDict d) \<Rightarrow> (case get0 d ''factory_attach'' of
           PDict a \<Rightarrow> (if get0 a ''cleared'' = PBool False then Some (manifest_id dir d) else None) | _ \<Rightarrow> None)
     | _ \<Rightarrow> None) fs"

text \<open>\<open>_shelf_from_file\<close> on the parsed shelf document.\<close>

definition shelf_item :: "pyval \<Rightarrow> py_exn + block_ref" where
  "shelf_item v = (case v of
       PDict d \<Rightarrow> (case dget d ''id'' of None \<Rightarrow> Inl KeyError
         | Some i \<Rightarrow> (case py_or (get0 d ''trust_tier'') (PStr []) of
             PStr t \<Rightarrow> Inr \<lparr>br_id = py_str i, br_version = py_str (get_or d ''version'' (PStr ''0'')), br_tier = py_strip t\<rparr>
           | _ \<Rightarrow> Inl AttributeError))
     | _ \<Rightarrow> Inl TypeError)"

definition shelf_from_document :: "(string, pyval) dict \<Rightarrow> py_exn + (string, block_ref) dict" where
  "shelf_from_document d =
     bind_result (py_iter (get_or d ''blocks'' (PList []))) (\<lambda>items.
     map_result (\<lambda>rs. fold (\<lambda>r out. dset (br_id r) r out) rs []) (map_res shelf_item items))"

text \<open>\<open>load_factory_shelf\<close> without an explicit path: the shelf the Store publishes (None when it
  publishes none), then its registry without what it does not clear, then the committed copy.\<close>

definition load_factory_shelf ::
  "(string, pyval) dict option \<Rightarrow> registry_files \<Rightarrow> (string, pyval) dict \<Rightarrow> py_exn + (string, block_ref) dict" where
  "load_factory_shelf published files committed = (case published of
       Some d \<Rightarrow> shelf_from_document d
     | None \<Rightarrow> bind_result (shelf_from_store files []) (\<lambda>live.
         if live \<noteq> [] then Inr (filter (\<lambda>p. fst p \<notin> set (not_attachable files)) live)
         else shelf_from_document committed))"

definition dual_registered_ids :: "(string, block_ref) dict \<Rightarrow> (string, block_ref) dict \<Rightarrow> string list" where
  "dual_registered_ids factory blocks = filter (\<lambda>b. b \<in> set (dkeys blocks)) (dkeys factory)"

datatype planner_exn = DualRegistryError "string list" | SurveyPlan | PlannerRaised py_exn

definition assert_dual_registered ::
  "string list \<Rightarrow> (string, block_ref) dict \<Rightarrow> (string, block_ref) dict \<Rightarrow> planner_exn + string list" where
  "assert_dual_registered ids factory blocks =
     (let missing = filter (\<lambda>b. \<not> (b \<in> set (dkeys factory) \<and> b \<in> set (dkeys blocks))) ids
      in if missing \<noteq> [] then Inl (DualRegistryError missing) else Inr (sort ids))"

section \<open>The planner\<close>

record planner_env =
  pe_factory :: "(string, block_ref) dict"
  pe_blocks :: "(string, block_ref) dict"
  pe_scopes :: "(string, string list) dict"
  pe_kits :: manifests

record product_plan =
  pp_product :: string
  pp_capabilities :: "planned_capability list"
  pp_unsupported :: "string list"
  pp_dual :: "string list"
  pp_fail_closed :: bool
  pp_gaps :: "domain_gap list"
  pp_scoped_out :: "scoped_out list"

definition plan_one :: "string list \<Rightarrow> capability_spec \<Rightarrow> planned_capability" where
  "plan_one dual c =
     (let out = (\<lambda>st bs note. \<lparr>pc_id = cp_id c, pc_strategy = st, pc_blocks = bs, pc_notes = note\<rparr>);
          missing = filter (\<lambda>b. b \<notin> set dual) (cp_blocks c)
      in if cp_hint c = Some NotSupported then out NotSupported [] ''explicit UNSUPPORTED hint''
         else if cp_blocks c = [] then
           out (case cp_hint c of Some st \<Rightarrow> (if st \<in> {Generate, Stub, Adapt} then st else Generate) | None \<Rightarrow> Generate)
             [] ''kernel/template generation (no block ids)''
         else if missing \<noteq> [] then out NotSupported [] (''blocks not dual-registered: '' @ join '', '' missing)
         else out (case cp_hint c of Some st \<Rightarrow> st
                   | None \<Rightarrow> (if 1 < length (cp_blocks c) then Compose else Reuse))
                (cp_blocks c) ''dual-registered'')"

definition scope_to_vertical :: "planner_env \<Rightarrow> string \<Rightarrow> capability_spec \<Rightarrow> capability_spec \<times> scoped_out list" where
  "scope_to_vertical e vertical c =
     (if cp_blocks c = [] then (c, [])
      else (let (kept, dropped) = scope_blocks (cp_blocks c) vertical (pe_scopes e) (cp_id c)
            in if dropped = [] then (c, []) else (c\<lparr>cp_blocks := kept\<rparr>, dropped)))"

definition resolve_capabilities :: "planner_env \<Rightarrow> blueprint \<Rightarrow> planned_capability list \<times> scoped_out list" where
  "resolve_capabilities e b =
     (let scoped = map (scope_to_vertical e (bp_vertical b)) (bp_capabilities b);
          dual = dual_registered_ids (pe_factory e) (pe_blocks e)
      in (map (\<lambda>(c, _). plan_one dual c) scoped, concat (map snd scoped)))"

definition unsupported_of :: "planned_capability list \<Rightarrow> string list" where
  "unsupported_of cs = map pc_id (filter (\<lambda>c. pc_strategy c = NotSupported) cs)"

text \<open>Advice on the inventory never fails a plan.\<close>

definition gaps_or_none :: "planner_env \<Rightarrow> blueprint \<Rightarrow> planned_capability list \<Rightarrow> domain_gap list" where
  "gaps_or_none e b cs = (case domain_gaps (bp_vertical b) (pe_kits e) cs of Inl _ \<Rightarrow> [] | Inr gs \<Rightarrow> gs)"

definition make_plan :: "planner_env \<Rightarrow> blueprint \<Rightarrow> bool \<Rightarrow> product_plan" where
  "make_plan e b closed =
     (let (cs, dropped) = resolve_capabilities e b
      in \<lparr>pp_product = bp_product b, pp_capabilities = cs, pp_unsupported = unsupported_of cs,
          pp_dual = sorted_set (concat (map pc_blocks cs)), pp_fail_closed = closed,
          pp_gaps = gaps_or_none e b cs, pp_scoped_out = dropped\<rparr>)"

definition plan :: "planner_env \<Rightarrow> blueprint \<Rightarrow> planner_exn + product_plan" where
  "plan e b =
     (let p = make_plan e b True; used = concat (map pc_blocks (pp_capabilities p))
      in if pp_unsupported p \<noteq> [] then Inl (DualRegistryError (pp_unsupported p))
         else if used = [] then Inr p
         else bind_result (assert_dual_registered used (pe_factory e) (pe_blocks e)) (\<lambda>_. Inr p))"

definition survey :: "planner_env \<Rightarrow> blueprint \<Rightarrow> product_plan" where
  "survey e b = make_plan e b False"

definition assert_generatable :: "product_plan \<Rightarrow> planner_exn + product_plan" where
  "assert_generatable p = (if \<not> pp_fail_closed p then Inl SurveyPlan else Inr p)"

section \<open>The compliance gate\<close>

datatype gap_reason = UnsupportedCapability | NoBlockDeclares | NotDualRegistered | CapabilityNotPlanned | NoTrustTier

definition accepted_tiers :: "string list" where
  "accepted_tiers = [''platform'', ''contributor_reviewed'']"

record compliance_verdict =
  cv_gaps :: "(string \<times> gap_reason \<times> string list) list"
  cv_checked :: "string list"

definition compliant :: "compliance_verdict \<Rightarrow> bool" where
  "compliant v = (cv_gaps v = [])"

definition unvouched :: "(string, string) dict \<Rightarrow> string list \<Rightarrow> string list \<Rightarrow> string list" where
  "unvouched tiers dual bs = sort (filter (\<lambda>b. b \<in> set dual \<and>
     (case dget tiers b of None \<Rightarrow> True | Some t \<Rightarrow> t \<notin> set accepted_tiers)) bs)"

definition capability_gaps ::
  "string list \<Rightarrow> (string, string) dict option \<Rightarrow> planned_capability \<Rightarrow> (string \<times> gap_reason \<times> string list) list" where
  "capability_gaps dual tiers c =
     (let missing = filter (\<lambda>b. b \<notin> set dual) (pc_blocks c)
      in (if pc_strategy c \<in> {Reuse, Compose} \<and> pc_blocks c = [] then [(pc_id c, NoBlockDeclares, [])] else [])
         @ (if missing \<noteq> [] then [(pc_id c, NotDualRegistered, sort missing)] else [])
         @ (case tiers of None \<Rightarrow> []
            | Some ts \<Rightarrow> (if unvouched ts dual (pc_blocks c) \<noteq> []
                then [(pc_id c, NoTrustTier, unvouched ts dual (pc_blocks c))] else [])))"

definition not_planned :: "product_plan \<Rightarrow> blueprint \<Rightarrow> string list" where
  "not_planned p b = filter (\<lambda>i. i \<noteq> [] \<and> i \<notin> set (map pc_id (pp_capabilities p)) \<and> i \<notin> set (pp_unsupported p))
     (map cp_id (bp_capabilities b))"

definition evaluate_plan ::
  "product_plan \<Rightarrow> blueprint option \<Rightarrow> (string, string) dict option \<Rightarrow> compliance_verdict" where
  "evaluate_plan p b tiers =
     (let late = (case b of None \<Rightarrow> [] | Some bl \<Rightarrow> not_planned p bl)
      in \<lparr>cv_gaps = map (\<lambda>i. (i, UnsupportedCapability, [])) (pp_unsupported p)
            @ concat (map (capability_gaps (pp_dual p) tiers) (pp_capabilities p))
            @ map (\<lambda>i. (i, CapabilityNotPlanned, [])) late,
          cv_checked = map pc_id (pp_capabilities p) @ late\<rparr>)"

definition assert_compliant ::
  "product_plan \<Rightarrow> blueprint option \<Rightarrow> (string, string) dict option \<Rightarrow> compliance_verdict + product_plan" where
  "assert_compliant p b tiers =
     (let v = evaluate_plan p b tiers in if compliant v then Inr p else Inl v)"

definition load_trust_tiers :: "py_exn + (string, block_ref) dict \<Rightarrow> (string, string) dict option" where
  "load_trust_tiers shelf = (case shelf of Inl _ \<Rightarrow> None | Inr s \<Rightarrow> Some (map (map_prod id br_tier) s))"

end
