(* ===== verification/PlannerFacts.thy ===== *)
theory PlannerFacts
  imports Planner
begin

text \<open>
  What holds between the planner and the gate in front of the generator: a plan that is
  returned passes the gate, the gate's verdict on a survey is the planner's, every block
  named is attached where it may be or put on record, and what a compliant plan is.
\<close>

section \<open>One capability\<close>

lemma dual_ids: "b \<in> set (dual_registered_ids f bl) \<longleftrightarrow> b \<in> set (dkeys f) \<and> b \<in> set (dkeys bl)"
  by (auto simp: dual_registered_ids_def)

lemma plan_one_id: "pc_id (plan_one dual c) = cp_id c"
  by (simp add: plan_one_def Let_def)

lemma plan_one_blocks:
  "pc_strategy (plan_one dual c) \<noteq> NotSupported \<Longrightarrow> pc_blocks (plan_one dual c) = cp_blocks c"
  by (auto simp: plan_one_def Let_def split: if_splits option.splits)

lemma plan_one_dual: "set (pc_blocks (plan_one dual c)) \<subseteq> set dual"
  by (auto simp: plan_one_def Let_def filter_empty_conv split: if_splits)

lemma plan_one_backed:
  "pc_strategy (plan_one dual c) \<in> {Reuse, Compose} \<Longrightarrow> pc_blocks (plan_one dual c) \<noteq> []"
  by (auto simp: plan_one_def Let_def split: if_splits option.splits)

lemma scope_to_vertical_fields:
  "cp_id (fst (scope_to_vertical e v c)) = cp_id c"
  "cp_blocks (fst (scope_to_vertical e v c)) = filter (in_scope (pe_scopes e) (normalize_vertical v)) (cp_blocks c)"
  by (auto simp: scope_to_vertical_def scope_blocks_def Let_def filter_empty_conv)

lemma scope_to_vertical_dropped:
  "b \<in> set (cp_blocks c) \<Longrightarrow> \<not> in_scope (pe_scopes e) (normalize_vertical v) b \<Longrightarrow>
   \<exists>so \<in> set (snd (scope_to_vertical e v c)). so_block so = b \<and> so_capability so = cp_id c"
  by (auto simp: scope_to_vertical_def scope_blocks_def Let_def filter_empty_conv)

section \<open>A plan\<close>

abbreviation planned_of :: "planner_env \<Rightarrow> blueprint \<Rightarrow> capability_spec \<Rightarrow> planned_capability" where
  "planned_of e b c \<equiv> plan_one (dual_registered_ids (pe_factory e) (pe_blocks e)) (fst (scope_to_vertical e (bp_vertical b) c))"

lemma make_plan_fields:
  "pp_capabilities (make_plan e b k) = map (planned_of e b) (bp_capabilities b)"
  "pp_unsupported (make_plan e b k) = unsupported_of (map (planned_of e b) (bp_capabilities b))"
  "pp_dual (make_plan e b k) = sorted_set (concat (map pc_blocks (map (planned_of e b) (bp_capabilities b))))"
  "pp_scoped_out (make_plan e b k) = concat (map (\<lambda>c. snd (scope_to_vertical e (bp_vertical b) c)) (bp_capabilities b))"
  "pp_fail_closed (make_plan e b k) = k"
  by (simp_all add: make_plan_def resolve_capabilities_def Let_def case_prod_beta comp_def)

lemma planned_ids: "map pc_id (pp_capabilities (make_plan e b k)) = map cp_id (bp_capabilities b)"
  by (simp add: make_plan_fields plan_one_id scope_to_vertical_fields)

lemma used_registered:
  "x \<in> set (concat (map pc_blocks (pp_capabilities (make_plan e b k)))) \<Longrightarrow>
   x \<in> set (dkeys (pe_factory e)) \<and> x \<in> set (dkeys (pe_blocks e))"
proof -
  assume "x \<in> set (concat (map pc_blocks (pp_capabilities (make_plan e b k))))"
  then obtain c where "x \<in> set (pc_blocks (planned_of e b c))" by (auto simp: make_plan_fields)
  then have "x \<in> set (dual_registered_ids (pe_factory e) (pe_blocks e))" using plan_one_dual by blast
  then show ?thesis by (simp add: dual_ids)
qed

lemma plan_ok_iff: "plan e b = (if pp_unsupported (make_plan e b True) = [] then Inr (make_plan e b True)
     else Inl (DualRegistryError (pp_unsupported (make_plan e b True))))"
proof -
  have "assert_dual_registered (concat (map pc_blocks (pp_capabilities (make_plan e b True)))) (pe_factory e) (pe_blocks e)
      = Inr (sort (concat (map pc_blocks (pp_capabilities (make_plan e b True)))))"
    using used_registered by (auto simp: assert_dual_registered_def Let_def filter_empty_conv simp del: set_concat)
  then show ?thesis by (simp add: plan_def Let_def)
qed

text \<open>Nobody vouches for a block that carries no accepted tier; without tiers the check abstains.\<close>

definition vouched :: "(string, string) dict option \<Rightarrow> string \<Rightarrow> bool" where
  "vouched tiers x = (case tiers of None \<Rightarrow> True | Some ts \<Rightarrow> (case dget ts x of None \<Rightarrow> False | Some t \<Rightarrow> t \<in> set accepted_tiers))"

definition vouched_plan :: "(string, string) dict option \<Rightarrow> product_plan \<Rightarrow> bool" where
  "vouched_plan tiers p = list_all (\<lambda>c. list_all (vouched tiers) (pc_blocks c)) (pp_capabilities p)"

definition trust_gaps :: "(string, string) dict option \<Rightarrow> planned_capability \<Rightarrow> (string \<times> gap_reason \<times> string list) list" where
  "trust_gaps tiers c = (if list_all (vouched tiers) (pc_blocks c) then []
     else [(pc_id c, NoTrustTier, sort (filter (\<lambda>x. \<not> vouched tiers x) (pc_blocks c)))])"

lemma unvouched_within: "set bs \<subseteq> set dual \<Longrightarrow> unvouched ts dual bs = sort (filter (\<lambda>x. \<not> vouched (Some ts) x) bs)"
  unfolding unvouched_def by (rule arg_cong[where f = sort], rule filter_cong) (auto simp: vouched_def split: option.splits)

lemma sort_filter_Nil: "sort (filter P xs) = [] \<longleftrightarrow> list_all (\<lambda>x. \<not> P x) xs"
proof -
  have "sort (filter P xs) = [] \<longleftrightarrow> set (sort (filter P xs)) = {}" by (simp only: set_empty)
  then show ?thesis by (auto simp: list_all_iff)
qed

lemma planned_gaps:
  assumes "set (pc_blocks c) \<subseteq> set dual" and "pc_strategy c \<in> {Reuse, Compose} \<longrightarrow> pc_blocks c \<noteq> []"
  shows "capability_gaps dual tiers c = trust_gaps tiers c"
proof -
  have m: "filter (\<lambda>b. b \<notin> set dual) (pc_blocks c) = []" using assms(1) by (auto simp: filter_empty_conv)
  show ?thesis
  proof (cases tiers)
    case None
    then show ?thesis using assms(2) m by (auto simp: capability_gaps_def trust_gaps_def vouched_def list_all_iff)
  next
    case (Some ts)
    then show ?thesis
      using assms(2) m unvouched_within[OF assms(1), of ts] sort_filter_Nil[of "\<lambda>x. \<not> vouched (Some ts) x" "pc_blocks c"]
      by (auto simp: capability_gaps_def trust_gaps_def)
  qed
qed

lemma make_plan_gaps:
  "cv_gaps (evaluate_plan (make_plan e b k) (Some b) tiers)
   = map (\<lambda>i. (i, UnsupportedCapability, [])) (pp_unsupported (make_plan e b k))
     @ concat (map (trust_gaps tiers) (pp_capabilities (make_plan e b k)))"
proof -
  have "capability_gaps (pp_dual (make_plan e b k)) tiers c = trust_gaps tiers c" if "c \<in> set (pp_capabilities (make_plan e b k))" for c
    using that plan_one_backed by (intro planned_gaps) (fastforce simp: make_plan_fields)+
  then have "map (capability_gaps (pp_dual (make_plan e b k)) tiers) (pp_capabilities (make_plan e b k))
      = map (trust_gaps tiers) (pp_capabilities (make_plan e b k))"
    by (intro map_cong refl)
  moreover have "not_planned (make_plan e b k) b = []"
    by (simp add: not_planned_def filter_empty_conv planned_ids)
  ultimately show ?thesis
    by (simp only: evaluate_plan_def Let_def option.case compliance_verdict.select_convs list.map append_Nil2)
qed

lemma no_trust_gaps: "concat (map (trust_gaps tiers) cs) = [] \<longleftrightarrow> list_all (\<lambda>c. list_all (vouched tiers) (pc_blocks c)) cs"
  by (auto simp: trust_gaps_def list_all_iff)

lemma trust_gap_shape: "list_all (\<lambda>g. fst (snd g) = NoTrustTier) (concat (map (trust_gaps tiers) cs))"
  by (induction cs) (simp_all add: trust_gaps_def)

lemma vouched_on_shelf:
  "vouched (load_trust_tiers (Inr shelf)) x \<longleftrightarrow> (\<exists>r. dget shelf x = Some r \<and> br_tier r \<in> set accepted_tiers)"
  by (auto simp: vouched_def load_trust_tiers_def map_of_map map_prod_def split: option.splits)

text \<open>Property C22.  The planner and the gate agree up to trust, whatever tiers the gate is given (in
  production those of the shelf, or none when the shelf cannot be read).  A blueprint that can be planned passes the
  gate exactly when every block of the plan carries an accepted tier, a blueprint that cannot be planned is refused
  by both, and every gap found in a plan is a missing tier.  A survey never passes the generator's first check.\<close>

theorem gate_agrees_with_planner:
  "(case plan e b of
       Inr p \<Rightarrow> assert_generatable p = Inr p
         \<and> (assert_compliant p (Some b) tiers = Inr p \<longleftrightarrow> vouched_plan tiers p)
         \<and> (compliant (evaluate_plan (survey e b) (Some b) tiers) \<longleftrightarrow> vouched_plan tiers p)
         \<and> list_all (\<lambda>g. fst (snd g) = NoTrustTier) (cv_gaps (evaluate_plan p (Some b) tiers))
     | Inl x \<Rightarrow> \<not> compliant (evaluate_plan (survey e b) (Some b) tiers)
         \<and> (\<exists>is. x = DualRegistryError is \<and> is \<noteq> [] \<and> set is \<subseteq> set (map cp_id (bp_capabilities b))))
   \<and> assert_generatable (survey e b) = Inl SurveyPlan
   \<and> vouched None x
   \<and> (vouched (load_trust_tiers (Inr (pe_factory e))) x
        \<longleftrightarrow> (\<exists>r. dget (pe_factory e) x = Some r \<and> br_tier r \<in> set accepted_tiers))"
proof -
  have u: "pp_unsupported (make_plan e b False) = pp_unsupported (make_plan e b True)"
    "pp_capabilities (make_plan e b False) = pp_capabilities (make_plan e b True)" by (simp_all add: make_plan_fields)
  have ids: "set (pp_unsupported (make_plan e b True)) \<subseteq> set (map cp_id (bp_capabilities b))"
    unfolding planned_ids [where e = e and b = b and k = True, symmetric] by (auto simp: make_plan_fields unsupported_of_def)
  have ok: "compliant (evaluate_plan (make_plan e b k) (Some b) tiers)
      \<longleftrightarrow> pp_unsupported (make_plan e b True) = [] \<and> vouched_plan tiers (make_plan e b True)" for k
    by (cases k) (simp_all only: compliant_def make_plan_gaps append_is_Nil_conv map_is_Nil_conv no_trust_gaps u vouched_plan_def)
  have n: "vouched None x" by (simp add: vouched_def)
  show ?thesis
    unfolding plan_ok_iff survey_def using ids ok trust_gap_shape[of tiers] n vouched_on_shelf[of "pe_factory e" x]
    by (auto simp: assert_generatable_def make_plan_fields(5) assert_compliant_def Let_def make_plan_gaps)
qed

text \<open> A plan answers the blueprint's capabilities in order; every block it attaches is
  in both registers and open to the vertical, and every block the blueprint names is attached to
  its capability or on record as scoped out of it.\<close>

theorem every_block_attached_or_recorded:
  assumes "plan e b = Inr p"
  shows "map pc_id (pp_capabilities p) = map cp_id (bp_capabilities b)
     \<and> list_all (\<lambda>c. list_all (\<lambda>x. x \<in> set (dkeys (pe_factory e)) \<and> x \<in> set (dkeys (pe_blocks e))
          \<and> in_scope (pe_scopes e) (normalize_vertical (bp_vertical b)) x) (pc_blocks c)) (pp_capabilities p)
     \<and> list_all (\<lambda>c. list_all (\<lambda>x.
          if in_scope (pe_scopes e) (normalize_vertical (bp_vertical b)) x
          then list_ex (\<lambda>pc. pc_id pc = cp_id c \<and> x \<in> set (pc_blocks pc)) (pp_capabilities p)
          else list_ex (\<lambda>so. so_block so = x \<and> so_capability so = cp_id c) (pp_scoped_out p)) (cp_blocks c))
        (bp_capabilities b)"
proof -
  have p: "p = make_plan e b True" and u: "pp_unsupported (make_plan e b True) = []"
    using assms by (auto simp: plan_ok_iff split: if_splits)
  have blocks: "pc_blocks (planned_of e b c)
      = filter (in_scope (pe_scopes e) (normalize_vertical (bp_vertical b))) (cp_blocks c)"
    if "c \<in> set (bp_capabilities b)" for c
  proof -
    have "pc_strategy (planned_of e b c) \<noteq> NotSupported"
      using u that by (auto simp: make_plan_fields unsupported_of_def filter_empty_conv)
    then show ?thesis by (simp add: plan_one_blocks scope_to_vertical_fields)
  qed
  have "list_all (\<lambda>c. list_all (\<lambda>x. x \<in> set (dkeys (pe_factory e)) \<and> x \<in> set (dkeys (pe_blocks e))
          \<and> in_scope (pe_scopes e) (normalize_vertical (bp_vertical b)) x) (pc_blocks c)) (pp_capabilities p)"
  proof -
    have "x \<in> set (dkeys (pe_factory e)) \<and> x \<in> set (dkeys (pe_blocks e))
          \<and> in_scope (pe_scopes e) (normalize_vertical (bp_vertical b)) x"
      if c: "c \<in> set (bp_capabilities b)" and x: "x \<in> set (pc_blocks (planned_of e b c))" for c x
    proof -
      have "x \<in> set (concat (map pc_blocks (pp_capabilities (make_plan e b True))))"
        using c x by (auto simp: make_plan_fields)
      then show ?thesis using used_registered blocks [OF c] x by simp
    qed
    then show ?thesis by (simp add: p make_plan_fields list_all_iff)
  qed
  moreover have r: "if in_scope (pe_scopes e) (normalize_vertical (bp_vertical b)) x
          then list_ex (\<lambda>pc. pc_id pc = cp_id c \<and> x \<in> set (pc_blocks pc)) (pp_capabilities p)
          else list_ex (\<lambda>so. so_block so = x \<and> so_capability so = cp_id c) (pp_scoped_out p)"
    if "c \<in> set (bp_capabilities b)" "x \<in> set (cp_blocks c)" for c x
    using that blocks [OF that(1)] scope_to_vertical_dropped [OF that(2), of e "bp_vertical b"]
    by (auto simp: p make_plan_fields list_ex_iff plan_one_id scope_to_vertical_fields intro!: bexI [of _ c])
  then have "list_all (\<lambda>c. list_all (\<lambda>x.
          if in_scope (pe_scopes e) (normalize_vertical (bp_vertical b)) x
          then list_ex (\<lambda>pc. pc_id pc = cp_id c \<and> x \<in> set (pc_blocks pc)) (pp_capabilities p)
          else list_ex (\<lambda>so. so_block so = x \<and> so_capability so = cp_id c) (pp_scoped_out p)) (cp_blocks c))
        (bp_capabilities b)"
    unfolding list_all_iff by blast
  moreover have "map pc_id (pp_capabilities p) = map cp_id (bp_capabilities b)" unfolding p by (rule planned_ids)
  ultimately show ?thesis by blast
qed

section \<open>What compliance means\<close>

text \<open> The gate's verdict on any plan, also one it is handed from outside.\<close>

theorem compliant_iff:
  "is_ok (assert_compliant p (Some b) (Some tiers)) \<longleftrightarrow>
     pp_unsupported p = []
     \<and> list_all (\<lambda>c. (pc_strategy c \<in> {Reuse, Compose} \<longrightarrow> pc_blocks c \<noteq> [])
          \<and> list_all (\<lambda>x. x \<in> set (pp_dual p) \<and> (\<exists>t. dget tiers x = Some t \<and> t \<in> set accepted_tiers)) (pc_blocks c))
        (pp_capabilities p)
     \<and> list_all (\<lambda>c. cp_id c = [] \<or> cp_id c \<in> set (map pc_id (pp_capabilities p))) (bp_capabilities b)"
proof -
  have caps: "capability_gaps dual (Some tiers) c = [] \<longleftrightarrow>
     (pc_strategy c \<in> {Reuse, Compose} \<longrightarrow> pc_blocks c \<noteq> [])
     \<and> list_all (\<lambda>x. x \<in> set dual \<and> (\<exists>t. dget tiers x = Some t \<and> t \<in> set accepted_tiers)) (pc_blocks c)" for dual c
  proof -
    have "unvouched tiers dual bs = [] \<longleftrightarrow> (\<forall>x \<in> set bs. x \<in> set dual \<longrightarrow> (\<exists>t. dget tiers x = Some t \<and> t \<in> set accepted_tiers))" for bs
    proof -
      have "unvouched tiers dual bs = [] \<longleftrightarrow> set (unvouched tiers dual bs) = {}" by simp
      also have "\<dots> \<longleftrightarrow> (\<forall>x \<in> set bs. x \<in> set dual \<longrightarrow> (\<exists>t. dget tiers x = Some t \<and> t \<in> set accepted_tiers))"
        unfolding unvouched_def set_sort set_filter by (auto split: option.splits)
      finally show ?thesis .
    qed
    then show ?thesis by (auto simp: capability_gaps_def Let_def filter_empty_conv list_all_iff)
  qed
  have "is_ok (assert_compliant p (Some b) (Some tiers)) \<longleftrightarrow> pp_unsupported p = []
     \<and> (\<forall>c \<in> set (pp_capabilities p). capability_gaps (pp_dual p) (Some tiers) c = []) \<and> not_planned p b = []"
    by (auto simp: assert_compliant_def Let_def compliant_def evaluate_plan_def)
  then show ?thesis by (auto simp: caps list_all_iff not_planned_def filter_empty_conv)
qed

section \<open>A concrete blueprint\<close>

definition demo_planner :: planner_env where
  "demo_planner = \<lparr>pe_factory = [(''crm'', \<lparr>br_id = ''crm'', br_version = ''1'', br_tier = ''platform''\<rparr>),
        (''qto'', \<lparr>br_id = ''qto'', br_version = ''1'', br_tier = ''platform''\<rparr>)],
     pe_blocks = [(''qto'', \<lparr>br_id = ''qto'', br_version = ''1'', br_tier = []\<rparr>),
        (''crm'', \<lparr>br_id = ''crm'', br_version = ''1'', br_tier = []\<rparr>)],
     pe_scopes = [(''qto'', [''construction''])], pe_kits = []\<rparr>"

definition demo_blueprint :: blueprint where
  "demo_blueprint = \<lparr>bp_schema = ''product_blueprint.v1'', bp_product = ''hotel'', bp_vertical = ''Hotel Companies'',
     bp_capabilities = [\<lparr>cp_id = ''guests'', cp_description = ''d'', cp_blocks = [''crm'', ''qto''], cp_hint = None,
        cp_connectors = []\<rparr>], bp_delivery = ''zip'', bp_level = None\<rparr>"

definition demo_plan :: product_plan where
  "demo_plan = (case plan demo_planner demo_blueprint of Inr p \<Rightarrow> p | Inl _ \<Rightarrow> survey demo_planner demo_blueprint)"

lemma demo_plan_made: "plan demo_planner demo_blueprint = Inr demo_plan"
  by code_simp

theorem every_block_attached_or_recorded_witness:
  "map pc_blocks (pp_capabilities demo_plan) = [[''crm'']]
   \<and> list_ex (\<lambda>so. so_block so = ''qto'' \<and> so_capability so = ''guests'') (pp_scoped_out demo_plan)"
proof
  show "map pc_blocks (pp_capabilities demo_plan) = [[''crm'']]" by code_simp
  note h = every_block_attached_or_recorded [OF demo_plan_made]
  have "bp_capabilities demo_blueprint = [\<lparr>cp_id = ''guests'', cp_description = ''d'', cp_blocks = [''crm'', ''qto''],
     cp_hint = None, cp_connectors = []\<rparr>]" by (simp add: demo_blueprint_def)
  moreover have "\<not> in_scope (pe_scopes demo_planner) (normalize_vertical (bp_vertical demo_blueprint)) ''qto''" by code_simp
  ultimately show "list_ex (\<lambda>so. so_block so = ''qto'' \<and> so_capability so = ''guests'') (pp_scoped_out demo_plan)"
    using h by simp
qed

text \<open>A block on the shelf that nobody vouched for is planned, and refused by the gate of the production call.\<close>

definition untiered_planner :: planner_env where
  "untiered_planner = demo_planner\<lparr>pe_factory := [(''crm'', \<lparr>br_id = ''crm'', br_version = ''1'', br_tier = []\<rparr>)],
     pe_scopes := [(''qto'', [''construction''])]\<rparr>"

lemma untiered_plan: "is_ok (plan untiered_planner demo_blueprint)"
  "pp_capabilities (survey untiered_planner demo_blueprint) = [\<lparr>pc_id = ''guests'', pc_strategy = Reuse, pc_blocks = [''crm''], pc_notes = ''dual-registered''\<rparr>]"
  by code_simp+

theorem gate_agrees_with_planner_witness:
  "\<exists>p. plan untiered_planner demo_blueprint = Inr p
     \<and> assert_compliant p (Some demo_blueprint) None = Inr p
     \<and> assert_compliant p (Some demo_blueprint) (load_trust_tiers (Inr (pe_factory untiered_planner))) \<noteq> Inr p"
proof -
  obtain p where p: "plan untiered_planner demo_blueprint = Inr p"
    using untiered_plan(1) by (cases "plan untiered_planner demo_blueprint") simp_all
  have c: "pp_capabilities p = pp_capabilities (survey untiered_planner demo_blueprint)"
    using p by (auto simp: plan_ok_iff survey_def make_plan_fields split: if_splits)
  note g = gate_agrees_with_planner[where e = untiered_planner and b = demo_blueprint and x = "''crm''", unfolded p sum.case]
  have "vouched_plan None p" by (simp add: vouched_plan_def vouched_def list_all_iff)
  moreover have "\<not> vouched (load_trust_tiers (Inr (pe_factory untiered_planner))) ''crm''"
    by code_simp
  then have "\<not> vouched_plan (load_trust_tiers (Inr (pe_factory untiered_planner))) p"
    unfolding vouched_plan_def c untiered_plan(2) by simp
  ultimately show ?thesis
    using g[of None] g[of "load_trust_tiers (Inr (pe_factory untiered_planner))"] p by blast
qed

end
