(* ===== verification/BlocksLock.thy ===== *)
theory BlocksLock
  imports PyConv
begin

text \<open>
  The Factory's pin of the block store (\<open>factory/blocks_lock.py\<close>): the content hash of a
  block directory, generating the lock, reading it, topping it up with blocks it has never
  seen, and the check of one block against it.  A block directory is its files with their
  bytes and git's list of tracked paths (None outside a git tree); a store maps block ids to
  directories.  SHA-256 is an argument; the location of the files is left out.
\<close>

section \<open>The content hash\<close>

record block_dir =
  bd_files :: "(string, string) dict"
  bd_tracked :: "string list option"

type_synonym block_store = "(string, block_dir) dict"

datatype lock_exn =
    NoSource "string list"
  | LockMissing
  | LockUnreadable
  | LockSchema
  | UnlockedBlock string string
  | NoContentHash string string
  | HashMismatch string string string
  | FileMissing string

definition in_pycache :: "string \<Rightarrow> bool" where
  "in_pycache rel = (''__pycache__'' \<in> set (split_on (CHR ''/'') rel))"

definition hashed_paths :: "block_dir \<Rightarrow> string list" where
  "hashed_paths d = sort (filter (\<lambda>p. \<not> in_pycache p)
     (case bd_tracked d of Some ps \<Rightarrow> ps | None \<Rightarrow> dkeys (bd_files d)))"

text \<open>\<open>.replace(b"\r\n", b"\n")\<close>.\<close>

fun unix_lines :: "string \<Rightarrow> string" where
  "unix_lines (a # b # s) = (if a = CHR 0x0D \<and> b = CHR 0x0A then b # unix_lines s else a # unix_lines (b # s))"
| "unix_lines s = s"

definition file_bytes :: "block_dir \<Rightarrow> string \<Rightarrow> lock_exn + string" where
  "file_bytes d rel = (case dget (bd_files d) rel of None \<Rightarrow> Inl (FileMissing rel) | Some b \<Rightarrow> Inr (unix_lines b))"

text \<open>What is fed to the digest: every path and its bytes, each followed by a zero byte.\<close>

definition digest_item :: "string \<times> string \<Rightarrow> string" where
  "digest_item p = fst p @ [CHR 0x00] @ snd p @ [CHR 0x00]"

definition digest_input :: "block_dir \<Rightarrow> lock_exn + string" where
  "digest_input d = map_result (\<lambda>bs. concat (map digest_item (zip (hashed_paths d) bs)))
     (map_res (file_bytes d) (hashed_paths d))"

definition block_content_hash :: "(string \<Rightarrow> string) \<Rightarrow> block_dir \<Rightarrow> lock_exn + string" where
  "block_content_hash hash d = map_result (\<lambda>i. ''sha256:'' @ hash i) (digest_input d)"

section \<open>Blocks\<close>

definition read_block_version :: "block_dir \<Rightarrow> string" where
  "read_block_version d = (case dget (bd_files d) ''block.json'' of
       None \<Rightarrow> ''0''
     | Some text \<Rightarrow> (case loads text of
           Some (PDict m) \<Rightarrow> (if get0 m ''version'' \<noteq> PNone then py_str (get0 m ''version'') else ''0'')
         | _ \<Rightarrow> ''0''))"

definition block_files :: "string list" where "block_files = [''block.py'', ''block.json'']"

definition block_dir_in_store :: "block_store \<Rightarrow> string \<Rightarrow> block_dir option" where
  "block_dir_in_store s i = (case dget s i of
       None \<Rightarrow> None
     | Some d \<Rightarrow> (if list_ex (\<lambda>p. p \<in> set block_files)
           (case bd_tracked d of Some ps \<Rightarrow> ps | None \<Rightarrow> dkeys (bd_files d)) then Some d else None))"

definition block_dir_in_mirror :: "block_store \<Rightarrow> string \<Rightarrow> block_dir option" where
  "block_dir_in_mirror m i = (case dget m i of
       None \<Rightarrow> None
     | Some d \<Rightarrow> (if list_ex (\<lambda>p. p \<in> set block_files) (dkeys (bd_files d)) then Some d else None))"

text \<open>The directory a block is locked from, with the name of its origin.\<close>

definition block_source :: "block_store option \<Rightarrow> block_store option \<Rightarrow> string \<Rightarrow> (block_dir \<times> string) option" where
  "block_source root mirror i =
     (case (case root of None \<Rightarrow> None | Some s \<Rightarrow> block_dir_in_store s i) of
        Some d \<Rightarrow> Some (d, ''cerebrum-blocks'')
      | None \<Rightarrow> (case mirror of None \<Rightarrow> None
          | Some m \<Rightarrow> map_option (\<lambda>d. (d, ''factory-vendor-mirror'')) (block_dir_in_mirror m i)))"

definition lock_entry :: "(string \<Rightarrow> string) \<Rightarrow> string \<Rightarrow> block_dir \<times> string \<Rightarrow> lock_exn + pyval" where
  "lock_entry hash i src = map_result (\<lambda>h. PDict
     [(''id'', PStr i), (''version'', PStr (read_block_version (fst src))), (''content_hash'', PStr h),
      (''source'', PStr (snd src))]) (block_content_hash hash (fst src))"

text \<open>The loop over the ids: the entries so far, and the ids without a source.\<close>

fun lock_blocks ::
  "(string \<Rightarrow> string) \<Rightarrow> block_store option \<Rightarrow> block_store option \<Rightarrow> string list \<Rightarrow> (string, pyval) dict \<Rightarrow>
   lock_exn + (string, pyval) dict \<times> string list" where
  "lock_blocks hash root mirror [] out = Inr (out, [])"
| "lock_blocks hash root mirror (i # is) out =
     (case block_source root mirror i of
        None \<Rightarrow> map_result (\<lambda>(o2, ms). (o2, i # ms)) (lock_blocks hash root mirror is out)
      | Some src \<Rightarrow> bind_result (lock_entry hash i src) (\<lambda>v. lock_blocks hash root mirror is (dset i v out)))"

definition store_repo :: string where "store_repo = ''https://github.com/bopoadz-del/Cerebrum-Blocks''"

text \<open>\<open>generate_lock\<close>; the commit of the store is the caller's or git's answer, None when neither is known.\<close>

definition generate_lock ::
  "(string \<Rightarrow> string) \<Rightarrow> block_store option \<Rightarrow> block_store option \<Rightarrow> string list \<Rightarrow> string option \<Rightarrow>
   lock_exn + (string, pyval) dict" where
  "generate_lock hash root mirror ids commit =
     bind_result (lock_blocks hash root mirror ids []) (\<lambda>(blocks, missing).
     if missing \<noteq> [] then Inl (NoSource missing)
     else Inr [(''schema'', PStr ''factory.blocks.lock.v1''),
       (''store'', PDict [(''repo'', PStr store_repo),
          (''sha'', PStr (case commit of Some c \<Rightarrow> (if c \<noteq> [] then c else ''unknown'') | None \<Rightarrow> ''unknown''))]),
       (''blocks'', PDict blocks)])"

section \<open>Reading and topping up\<close>

definition load_lock :: "string option \<Rightarrow> lock_exn + (string, pyval) dict" where
  "load_lock file = (case file of
       None \<Rightarrow> Inl LockMissing
     | Some text \<Rightarrow> (case loads text of
           None \<Rightarrow> Inl LockUnreadable
         | Some (PDict d) \<Rightarrow> (case get0 d ''blocks'' of PDict _ \<Rightarrow> Inr d | _ \<Rightarrow> Inl LockSchema)
         | Some _ \<Rightarrow> Inl LockSchema))"

text \<open>The loop over the unseen ids: the entries, and the ids that were added.\<close>

fun add_unseen ::
  "(string \<Rightarrow> string) \<Rightarrow> block_store option \<Rightarrow> block_store option \<Rightarrow> string list \<Rightarrow> (string, pyval) dict \<Rightarrow>
   lock_exn + (string, pyval) dict \<times> string list" where
  "add_unseen hash root mirror [] out = Inr (out, [])"
| "add_unseen hash root mirror (i # is) out =
     (case block_source root mirror i of
        None \<Rightarrow> add_unseen hash root mirror is out
      | Some src \<Rightarrow> bind_result (lock_entry hash i src) (\<lambda>v.
          map_result (\<lambda>(o2, as). (o2, i # as)) (add_unseen hash root mirror is (dset i v out))))"

text \<open>\<open>top_up_from_store\<close>; the consumed ids are None when the shelf cannot be read.\<close>

definition top_up ::
  "(string \<Rightarrow> string) \<Rightarrow> block_store option \<Rightarrow> block_store option \<Rightarrow> string list option \<Rightarrow> (string, pyval) dict \<Rightarrow>
   lock_exn + (string, pyval) dict" where
  "top_up hash root mirror consumed lock =
     (let blocks = dict_of (get0 lock ''blocks'')
      in case consumed of
           None \<Rightarrow> Inr lock
         | Some ids \<Rightarrow> map_result (\<lambda>(out, added).
             if added = [] then lock
             else dset ''topped_up'' (PList (map PStr (sort added))) (dset ''blocks'' (PDict out) lock))
             (add_unseen hash root mirror (filter (\<lambda>i. dget blocks i = None) ids) blocks))"

section \<open>The check\<close>

definition recorded_hash :: "pyval \<Rightarrow> string" where
  "recorded_hash v = (case v of PDict d \<Rightarrow> text_of (get0 d ''content_hash'') | _ \<Rightarrow> [])"

definition assert_block_matches_lock ::
  "(string \<Rightarrow> string) \<Rightarrow> string \<Rightarrow> block_dir \<Rightarrow> (string, pyval) dict \<Rightarrow> lock_exn + string" where
  "assert_block_matches_lock hash i src lock =
     bind_result (block_content_hash hash src) (\<lambda>actual.
     case get0 lock ''blocks'' of
       PDict entries \<Rightarrow>
         (case dget entries i of
            None \<Rightarrow> Inl (UnlockedBlock i actual)
          | Some rec \<Rightarrow>
              (if recorded_hash rec = [] then Inl (NoContentHash i actual)
               else if recorded_hash rec \<noteq> actual then Inl (HashMismatch i (recorded_hash rec) actual)
               else Inr actual))
     | _ \<Rightarrow> Inl (UnlockedBlock i actual))"

text \<open>\<open>enforce_store_lock\<close>: only for a source inside the store checkout and a block the shelf consumes.\<close>

definition enforce_store_lock ::
  "(string \<Rightarrow> string) \<Rightarrow> string \<Rightarrow> block_dir \<Rightarrow> bool \<Rightarrow> string list \<Rightarrow> (string, pyval) dict option \<Rightarrow>
   lock_exn + (string, pyval) dict option \<Rightarrow> lock_exn + unit" where
  "enforce_store_lock hash i src in_store consumed lock resolved =
     (if \<not> in_store \<or> i \<notin> set consumed then Inr ()
      else bind_result (case lock of Some l \<Rightarrow> Inr (Some l) | None \<Rightarrow> resolved) (\<lambda>l.
        case l of None \<Rightarrow> Inl LockMissing
        | Some d \<Rightarrow> map_result (\<lambda>_. ()) (assert_block_matches_lock hash i src d)))"

end
