(* ===== verification/BlocksLockFacts.thy ===== *)
theory BlocksLockFacts
  imports BlocksLock
begin

text \<open>
  What the pin of the store detects: every change of a locked block whose files hold no zero
  byte, and not the move of bytes between files that a zero byte allows; topping up never
  touches what is locked.
\<close>

section \<open>The digest input\<close>

definition zero_free :: "string \<Rightarrow> bool" where
  "zero_free s = (CHR 0x00 \<notin> set s)"

lemma split_at_zero:
  "zero_free a \<Longrightarrow> zero_free b \<Longrightarrow> a @ CHR 0x00 # s = b @ CHR 0x00 # t \<longleftrightarrow> a = b \<and> s = t"
proof (induction a arbitrary: b)
  case Nil
  then show ?case by (cases b) (auto simp: zero_free_def)
next
  case (Cons x a)
  then show ?case by (cases b) (auto simp: zero_free_def)
qed

lemma digest_item_append: "digest_item p @ r = fst p @ CHR 0x00 # snd p @ CHR 0x00 # r"
  by (simp add: digest_item_def)

lemma digest_items_inj:
  "list_all (\<lambda>p. zero_free (fst p) \<and> zero_free (snd p)) xs \<Longrightarrow>
   list_all (\<lambda>p. zero_free (fst p) \<and> zero_free (snd p)) ys \<Longrightarrow>
   concat (map digest_item xs) = concat (map digest_item ys) \<Longrightarrow> xs = ys"
proof (induction xs arbitrary: ys)
  case Nil
  then show ?case by (cases ys) (auto simp: digest_item_def)
next
  case (Cons x xs)
  then obtain y ys' where y: "ys = y # ys'" by (cases ys) (auto simp: digest_item_def)
  have "fst x @ CHR 0x00 # (snd x @ CHR 0x00 # concat (map digest_item xs))
      = fst y @ CHR 0x00 # (snd y @ CHR 0x00 # concat (map digest_item ys'))"
    using Cons.prems(3) by (simp add: y digest_item_append)
  then have "fst x = fst y" "snd x = snd y" "concat (map digest_item xs) = concat (map digest_item ys')"
    using Cons.prems by (simp_all add: y split_at_zero)
  then show ?case using Cons by (simp add: y prod_eq_iff)
qed

lemma unix_lines_set: "set (unix_lines s) \<subseteq> set s"
  by (induction s rule: unix_lines.induct) auto

definition plain_dir :: "block_dir \<Rightarrow> bool" where
  "plain_dir d = (list_all zero_free (hashed_paths d) \<and> list_all (\<lambda>p. zero_free (snd p)) (bd_files d))"

definition dir_contents :: "block_dir \<Rightarrow> lock_exn + (string \<times> string) list" where
  "dir_contents d = map_result (zip (hashed_paths d)) (map_res (file_bytes d) (hashed_paths d))"

lemma digest_input_contents: "digest_input d = map_result (\<lambda>xs. concat (map digest_item xs)) (dir_contents d)"
  by (cases "map_res (file_bytes d) (hashed_paths d)") (simp_all add: digest_input_def dir_contents_def)

lemma file_bytes_zero_free: "plain_dir d \<Longrightarrow> file_bytes d p = Inr b \<Longrightarrow> zero_free b"
  using unix_lines_set by (fastforce simp: file_bytes_def plain_dir_def list_all_iff zero_free_def
      split: option.splits dest: map_of_SomeD)

lemma map_res_set: "map_res f xs = Inr ys \<Longrightarrow> y \<in> set ys \<Longrightarrow> \<exists>x \<in> set xs. f x = Inr y"
  by (induction xs arbitrary: ys) (auto split: sum.splits)

lemma contents_zero_free:
  assumes "plain_dir d" and "dir_contents d = Inr xs"
  shows "list_all (\<lambda>p. zero_free (fst p) \<and> zero_free (snd p)) xs"
proof -
  obtain bs where bs: "map_res (file_bytes d) (hashed_paths d) = Inr bs" "xs = zip (hashed_paths d) bs"
    using assms(2) by (auto simp: dir_contents_def result_simps)
  have "zero_free p" if "p \<in> set (hashed_paths d)" for p using assms(1) that by (auto simp: plain_dir_def list_all_iff)
  moreover have "zero_free b" if b: "b \<in> set bs" for b
    using map_res_set [OF bs(1) b] file_bytes_zero_free [OF assms(1)] by blast
  ultimately show ?thesis by (auto simp: bs(2) list_all_iff dest: set_zip_leftD set_zip_rightD)
qed

section \<open>Locking\<close>

lemma lock_blocks_others:
  "lock_blocks hash root mirror ids out = Inr (out', ms) \<Longrightarrow> i \<notin> set ids \<Longrightarrow> dget out' i = dget out i"
  by (induction ids arbitrary: out out' ms) (auto simp: result_simps dict_simps split: option.splits)

lemma lock_blocks_entry:
  "lock_blocks hash root mirror ids out = Inr (out', ms) \<Longrightarrow> i \<in> set ids \<Longrightarrow> i \<notin> set ms \<Longrightarrow>
   \<exists>src v. block_source root mirror i = Some src \<and> lock_entry hash i src = Inr v \<and> dget out' i = Some v"
proof (induction ids arbitrary: out out' ms)
  case (Cons j ids)
  show ?case
  proof (cases "i \<in> set ids")
    case True
    then show ?thesis using Cons by (fastforce simp: result_simps split: option.splits)
  next
    case False
    then have "i = j" using Cons.prems by simp
    then show ?thesis using Cons.prems False lock_blocks_others [of hash root mirror ids _ out']
      by (fastforce simp: result_simps dict_simps split: option.splits)
  qed
qed simp

lemma generate_lock_entry:
  assumes "generate_lock hash root mirror ids commit = Inr lock" and "i \<in> set ids"
  shows "\<exists>src h. block_source root mirror i = Some src \<and> block_content_hash hash (fst src) = Inr h
     \<and> (\<exists>entries v. get0 lock ''blocks'' = PDict entries \<and> dget entries i = Some v \<and> recorded_hash v = h)"
proof -
  obtain blocks where b: "lock_blocks hash root mirror ids [] = Inr (blocks, [])"
      and l: "get0 lock ''blocks'' = PDict blocks"
    using assms(1) by (auto simp: generate_lock_def result_simps get_or_def split: if_splits)
  obtain src v where s: "block_source root mirror i = Some src" "lock_entry hash i src = Inr v" "dget blocks i = Some v"
    using lock_blocks_entry [OF b assms(2)] by auto
  obtain h where h: "block_content_hash hash (fst src) = Inr h"
      "v = PDict [(''id'', PStr i), (''version'', PStr (read_block_version (fst src))), (''content_hash'', PStr h), (''source'', PStr (snd src))]"
    using s(2) by (auto simp: lock_entry_def result_simps)
  have "recorded_hash v = h" by (simp add: h(2) recorded_hash_def get_or_def)
  then show ?thesis using s h(1) l by blast
qed

lemma content_hash_nonempty: "block_content_hash hash d = Inr h \<Longrightarrow> h \<noteq> []"
  by (auto simp: block_content_hash_def result_simps)

lemma content_hash_ok: "is_ok (digest_input d) \<Longrightarrow> is_ok (block_content_hash hash d)"
  by (cases "digest_input d") (simp_all add: block_content_hash_def)

lemma matches_lock_iff:
  assumes "get0 lock ''blocks'' = PDict entries" and "dget entries i = Some v"
    and "recorded_hash v \<noteq> []"
  shows "is_ok (assert_block_matches_lock hash i d lock) \<longleftrightarrow> block_content_hash hash d = Inr (recorded_hash v)"
  using assms by (cases "block_content_hash hash d") (auto simp: assert_block_matches_lock_def)

text \<open>Property C23.  A block of a lock passes the check exactly while its directory hashes as the one it
  was locked from; where no file or path holds a zero byte and the digest has no collision on the two
  inputs, that means the same paths with the same bytes up to line ends.\<close>

theorem locked_block_cannot_drift:
  assumes "generate_lock hash root mirror ids commit = Inr lock" and "i \<in> set ids" "i \<in> set consumed"
  shows "\<exists>src. block_source root mirror i = Some src
     \<and> (is_ok (enforce_store_lock hash i d True consumed (Some lock) r)
          \<longleftrightarrow> is_ok (block_content_hash hash d) \<and> block_content_hash hash d = block_content_hash hash (fst src))
     \<and> (is_ok (enforce_store_lock hash i d True consumed (Some lock) r) \<and> plain_dir d \<and> plain_dir (fst src)
          \<and> (\<forall>x y. digest_input d = Inr x \<and> digest_input (fst src) = Inr y \<and> hash x = hash y \<longrightarrow> x = y)
          \<longrightarrow> is_ok (dir_contents d) \<and> dir_contents d = dir_contents (fst src))"
proof -
  obtain src h entries v where s: "block_source root mirror i = Some src" "block_content_hash hash (fst src) = Inr h"
      and e: "get0 lock ''blocks'' = PDict entries" "dget entries i = Some v" "recorded_hash v = h"
    using generate_lock_entry [OF assms(1,2)] by blast
  have iff: "is_ok (enforce_store_lock hash i d True consumed (Some lock) r) \<longleftrightarrow> block_content_hash hash d = Inr h"
    using matches_lock_iff [OF e(1,2)] content_hash_nonempty [OF s(2)] e(3) assms(3)
    by (simp add: enforce_store_lock_def result_simps)
  have drift: "is_ok (dir_contents d) \<and> dir_contents d = dir_contents (fst src)"
    if ok: "block_content_hash hash d = Inr h" and p: "plain_dir d" "plain_dir (fst src)"
      and inj: "\<forall>x y. digest_input d = Inr x \<and> digest_input (fst src) = Inr y \<and> hash x = hash y \<longrightarrow> x = y"
  proof -
    obtain x where x: "digest_input d = Inr x" "h = ''sha256:'' @ hash x" using ok by (auto simp: block_content_hash_def result_simps)
    obtain y where y: "digest_input (fst src) = Inr y" "h = ''sha256:'' @ hash y" using s(2) by (auto simp: block_content_hash_def result_simps)
    have xy: "x = y" using inj x y by simp
    obtain xs where xs: "dir_contents d = Inr xs" "x = concat (map digest_item xs)"
      using x(1) by (auto simp: digest_input_contents result_simps)
    obtain ys where ys: "dir_contents (fst src) = Inr ys" "y = concat (map digest_item ys)"
      using y(1) by (auto simp: digest_input_contents result_simps)
    have "xs = ys"
    proof (rule digest_items_inj)
      show "list_all (\<lambda>p. zero_free (fst p) \<and> zero_free (snd p)) xs" by (rule contents_zero_free [OF p(1) xs(1)])
      show "list_all (\<lambda>p. zero_free (fst p) \<and> zero_free (snd p)) ys" by (rule contents_zero_free [OF p(2) ys(1)])
      show "concat (map digest_item xs) = concat (map digest_item ys)" using xs(2) ys(2) xy by simp
    qed
    then show ?thesis using xs ys by simp
  qed
  have "is_ok (enforce_store_lock hash i d True consumed (Some lock) r) \<and> plain_dir d \<and> plain_dir (fst src)
          \<and> (\<forall>x y. digest_input d = Inr x \<and> digest_input (fst src) = Inr y \<and> hash x = hash y \<longrightarrow> x = y)
          \<longrightarrow> is_ok (dir_contents d) \<and> dir_contents d = dir_contents (fst src)"
    unfolding iff by (intro impI, elim conjE) (rule drift)
  moreover have "block_content_hash hash d = Inr h
      \<longleftrightarrow> is_ok (block_content_hash hash d) \<and> block_content_hash hash d = block_content_hash hash (fst src)"
    unfolding s(2) by (cases "block_content_hash hash d") simp_all
  ultimately show ?thesis using s(1) unfolding iff by (intro exI [of _ src] conjI)
qed

section \<open>Topping up\<close>

lemma add_unseen_keeps:
  "add_unseen hash root mirror ids out = Inr (out', added) \<Longrightarrow> list_all (\<lambda>i. dget out0 i = None) ids \<Longrightarrow>
   (\<And>i. dget out0 i \<noteq> None \<Longrightarrow> dget out i = dget out0 i) \<Longrightarrow> dget out0 i \<noteq> None \<Longrightarrow> dget out' i = dget out0 i"
proof (induction ids arbitrary: out out' added)
  case (Cons j ids)
  show ?case
  proof (cases "block_source root mirror j")
    case None
    then show ?thesis using Cons by simp
  next
    case (Some src)
    then obtain v as where v: "lock_entry hash j src = Inr v" "add_unseen hash root mirror ids (dset j v out) = Inr (out', as)"
      using Cons.prems(1) by (auto simp: result_simps)
    have "dget (dset j v out) k = dget out0 k" if "dget out0 k \<noteq> None" for k
      using Cons.prems(2,3) that by (auto simp: dict_simps)
    then show ?thesis using Cons.IH [OF v(2)] Cons.prems(2,4) by simp
  qed
qed auto

lemma add_unseen_entry:
  "add_unseen hash root mirror ids out = Inr (out', added) \<Longrightarrow> i \<in> set ids \<Longrightarrow> block_source root mirror i = Some src \<Longrightarrow>
   i \<in> set added \<and> (\<exists>v. lock_entry hash i src = Inr v \<and> dget out' i = Some v)"
proof (induction ids arbitrary: out out' added)
  case (Cons j ids)
  have others: "add_unseen hash root mirror ids o1 = Inr (o2, as) \<Longrightarrow> i \<notin> set ids \<Longrightarrow> dget o2 i = dget o1 i" for o1 o2 as
    by (induction ids arbitrary: o1 o2 as) (auto simp: result_simps dict_simps split: option.splits)
  show ?case
  proof (cases "i \<in> set ids")
    case True
    then show ?thesis using Cons by (fastforce simp: result_simps split: option.splits)
  next
    case False
    then have "i = j" using Cons.prems by simp
    then show ?thesis using Cons.prems False others by (fastforce simp: result_simps dict_simps)
  qed
qed simp

lemma topped_up_entry:
  assumes "top_up hash root mirror (Some ids) lock = Inr lock'" and "get0 lock ''blocks'' = PDict entries"
  obtains entries' added where
    "add_unseen hash root mirror (filter (\<lambda>i. dget entries i = None) ids) entries = Inr (entries', added)"
    "get0 lock' ''blocks'' = PDict (if added = [] then entries else entries')"
proof -
  have b: "dict_of (get0 lock ''blocks'') = entries" using assms(2) by (simp add: dict_of_def)
  obtain e' as where e: "add_unseen hash root mirror (filter (\<lambda>i. dget entries i = None) ids) entries = Inr (e', as)"
      and l: "lock' = (if as = [] then lock else dset ''topped_up'' (PList (map PStr (sort as))) (dset ''blocks'' (PDict e') lock))"
    using assms(1) by (auto simp: top_up_def b result_simps)
  have "get0 lock' ''blocks'' = PDict (if as = [] then entries else e')"
    using assms(2) by (simp add: l get_or_def dict_simps)
  then show ?thesis using that e by blast
qed

text \<open> Topping up never changes the verdict on a block the lock already holds, whatever its
  directory now contains, and a consumed block it met for the first time passes as it is.\<close>

theorem top_up_never_relocks:
  assumes "top_up hash root mirror (Some ids) lock = Inr lock'" and "get0 lock ''blocks'' = PDict entries"
  shows "(dget entries i \<noteq> None \<longrightarrow>
        assert_block_matches_lock hash i d lock' = assert_block_matches_lock hash i d lock)
     \<and> (dget entries i = None \<and> i \<in> set ids \<and> block_source root mirror i = Some src \<longrightarrow>
        is_ok (assert_block_matches_lock hash i (fst src) lock'))"
proof -
  obtain entries' added where a: "add_unseen hash root mirror (filter (\<lambda>i. dget entries i = None) ids) entries = Inr (entries', added)"
      and l: "get0 lock' ''blocks'' = PDict (if added = [] then entries else entries')"
    using topped_up_entry [OF assms] by blast
  have keep: "dget entries' i = dget entries i" if "dget entries i \<noteq> None"
    using add_unseen_keeps [OF a, of entries] that by (simp add: list_all_iff)
  have new: "is_ok (assert_block_matches_lock hash i (fst src) lock')"
    if u: "dget entries i = None" "i \<in> set ids" "block_source root mirror i = Some src"
  proof -
    obtain v where v: "i \<in> set added" "lock_entry hash i src = Inr v" "dget entries' i = Some v"
      using add_unseen_entry [OF a _ u(3)] u by auto
    obtain h where h: "block_content_hash hash (fst src) = Inr h" "recorded_hash v = h"
      using v(2) by (auto simp: lock_entry_def result_simps recorded_hash_def get_or_def)
    have "get0 lock' ''blocks'' = PDict entries'" using l v(1) by auto
    then show ?thesis using matches_lock_iff v(3) h content_hash_nonempty [OF h(1)] by blast
  qed
  show ?thesis using keep new l assms(2) by (auto simp: assert_block_matches_lock_def)
qed

section \<open>What the hash does not see\<close>

definition one_file_block :: block_dir where
  "one_file_block = \<lparr>bd_files = [(''block.py'', ''run()'' @ [CHR 0x00] @ ''data.bin'' @ [CHR 0x00] @ ''x'')], bd_tracked = None\<rparr>"

definition two_file_block :: block_dir where
  "two_file_block = \<lparr>bd_files = [(''block.py'', ''run()''), (''data.bin'', ''x'')], bd_tracked = None\<rparr>"

text \<open> Under every digest these two blocks, with different files, have the same content hash.\<close>

theorem moved_bytes_go_unnoticed:
  "block_content_hash hash one_file_block = block_content_hash hash two_file_block
   \<and> is_ok (block_content_hash hash one_file_block)
   \<and> bd_files one_file_block \<noteq> bd_files two_file_block"
proof -
  have "digest_input one_file_block = digest_input two_file_block \<and> is_ok (digest_input one_file_block)" by code_simp
  moreover have "bd_files one_file_block \<noteq> bd_files two_file_block" by code_simp
  moreover have "digest_input a = digest_input b \<Longrightarrow> block_content_hash hash a = block_content_hash hash b" for a b
    by (simp only: block_content_hash_def)
  ultimately show ?thesis using content_hash_ok by blast
qed

section \<open>Concrete cases\<close>

definition demo_block_store :: block_store where
  "demo_block_store = [(''crm'', two_file_block)]"

definition demo_lock :: "(string, pyval) dict" where
  "demo_lock = (case generate_lock rev (Some demo_block_store) None [''crm''] None of Inr l \<Rightarrow> l | Inl _ \<Rightarrow> [])"

lemma demo_lock_made: "generate_lock rev (Some demo_block_store) None [''crm''] None = Inr demo_lock"
  by code_simp

theorem locked_block_cannot_drift_witness:
  "is_ok (enforce_store_lock rev ''crm'' two_file_block True [''crm''] (Some demo_lock) (Inr None))
   \<and> \<not> is_ok (enforce_store_lock rev ''crm'' \<lparr>bd_files = [(''block.py'', ''changed'')], bd_tracked = None\<rparr> True
        [''crm''] (Some demo_lock) (Inr None))"
proof -
  have src: "block_source (Some demo_block_store) None ''crm'' = Some (two_file_block, ''cerebrum-blocks'')" by code_simp
  have h: "is_ok (block_content_hash rev two_file_block)" by code_simp
  have n: "block_content_hash rev \<lparr>bd_files = [(''block.py'', ''changed'')], bd_tracked = None\<rparr> \<noteq> block_content_hash rev two_file_block"
    by code_simp
  have "''crm'' \<in> set [''crm'']" by simp
  then show ?thesis
    using locked_block_cannot_drift [OF demo_lock_made, of "''crm''" "[''crm'']"] src h n by auto
qed

theorem top_up_never_relocks_witness:
  "is_ok (assert_block_matches_lock rev ''crm'' two_file_block
     (case top_up rev (Some demo_block_store) None (Some [''crm'']) [(''blocks'', PDict [])] of Inr l \<Rightarrow> l | Inl _ \<Rightarrow> []))"
proof -
  define l where "l = (case top_up rev (Some demo_block_store) None (Some [''crm'']) [(''blocks'', PDict [])] of Inr l \<Rightarrow> l | Inl _ \<Rightarrow> [])"
  have t: "top_up rev (Some demo_block_store) None (Some [''crm'']) [(''blocks'', PDict [])] = Inr l"
    unfolding l_def by code_simp
  have src: "block_source (Some demo_block_store) None ''crm'' = Some (two_file_block, ''cerebrum-blocks'')" by code_simp
  show ?thesis unfolding l_def [symmetric]
    using top_up_never_relocks [OF t, of "[]" "''crm''" two_file_block "(two_file_block, ''cerebrum-blocks'')"] src
    by (simp add: get_or_def)
qed

end
