(* ===== verification/OrphanRecovery.thy ===== *)
theory OrphanRecovery
  imports BuildStart
begin

text \<open>
  What the process does at boot with the builds a restart interrupted
  (\<open>factory/build/orphan_recovery.py\<close>): it looks through the workspaces of every session, resumes
  at most one recent call of the writer, closes it as failed when it cannot be resumed, and
  restarts the waiters of builds handed to the Store gate.  A workspace is a session and the
  name of a product directory.  Arguments of the model: the directories, the parsed documents of
  a session, the blueprint validator with the product id and hash of the blueprint it accepts,
  the text of an exception.  The dash of two messages is written as a hyphen.
\<close>

section \<open>Workspaces\<close>

type_synonym build_dir = "string \<times> string"

text \<open>What is stored about a session and its workspace: the parsed \<open>state.json\<close> of every storage
  root (None when missing or unreadable), the blueprint and account of the session snapshot, and
  the parsed blueprint copies in the workspace.\<close>

record boot_docs =
  bt_states :: "pyval option list"
  bt_loaded :: "(pyval \<times> string) option"
  bt_copies :: "pyval option list"

record boot_env =
  be_start :: start_env
  be_sessions :: "(string \<times> string list) list"
  be_control :: "build_dir \<Rightarrow> string option"
  be_docs :: "build_dir \<Rightarrow> boot_docs"
  be_validate :: "pyval \<Rightarrow> (string \<times> string) option"
  be_text :: "start_exn \<Rightarrow> string"

definition build_path :: "build_dir \<Rightarrow> string" where
  "build_path d = ''sessions/'' @ fst d @ ''/'' @ snd d"

definition iter_session_build_dirs :: "boot_env \<Rightarrow> job_state \<Rightarrow> build_dir list" where
  "iter_session_build_dirs e s =
     filter (\<lambda>d. has_ledger s (build_path d))
       (concat (map (\<lambda>(session, names). map (Pair session) (sort names)) (sort_key fst (be_sessions e))))"

definition siblings :: "boot_env \<Rightarrow> build_dir \<Rightarrow> string list" where
  "siblings e d = concat (map snd (filter (\<lambda>p. fst p = fst d) (be_sessions e)))"

text \<open>The stem of a name and its run number, 1 without a suffix.\<close>

definition workspace_run_number :: "string \<Rightarrow> string \<times> nat" where
  "workspace_run_number name =
     (let stem = strip_run_suffix name
      in (stem, if stem = name then 1 else read_nat (rev (takeWhile is_digit (rev name)))))"

definition is_superseded_workspace :: "boot_env \<Rightarrow> job_state \<Rightarrow> build_dir \<Rightarrow> bool" where
  "is_superseded_workspace e s d =
     (let (stem, mine) = workspace_run_number (snd d)
      in list_ex (\<lambda>n. n \<noteq> snd d \<and> fst (workspace_run_number n) = stem
           \<and> has_ledger s (build_path (fst d, n)) \<and> mine < snd (workspace_run_number n)) (siblings e d))"

section \<open>The orphaned call\<close>

definition calling_note :: "build_event list \<Rightarrow> build_event option" where
  "calling_note evs = open_model_call_note (activity_notes evs)"

text \<open>None is an infinite age.\<close>

definition last_activity_age_s :: "status_env \<Rightarrow> build_event list \<Rightarrow> rat option" where
  "last_activity_age_s env evs =
     (let t = (case calling_note evs of Some n \<Rightarrow> ts n | None \<Rightarrow> []);
          u = (if t \<noteq> [] then t else case last_opt evs of Some e \<Rightarrow> ts e | None \<Rightarrow> [])
      in map_option (\<lambda>t0. max 0 (se_now env - t0)) (event_epoch env u))"

definition resume_deadline_s :: "status_env \<Rightarrow> build_event \<Rightarrow> rat" where
  "resume_deadline_s env n = (case py_float (get0 (payload n) ''deadline_s'') of
       Some d \<Rightarrow> (if 0 < d then d else se_attempt_wall env) | None \<Rightarrow> se_attempt_wall env)"

text \<open>\<open>read_control\<close> on the text of the file, None when it is missing or unreadable.\<close>

definition read_control :: "string option \<Rightarrow> py_exn + string" where
  "read_control file = (case (case file of None \<Rightarrow> None | Some t \<Rightarrow> loads t) of
       None \<Rightarrow> Inr ''run''
     | Some v \<Rightarrow>
        (if truthy v \<and> (case v of PDict _ \<Rightarrow> False | _ \<Rightarrow> True) then Inl AttributeError
         else (let a = py_lower (py_strip (py_str (py_or (get0 (dict_of v) ''action'') (PStr ''run''))))
               in Inr (if a \<in> {''pause'', ''stop''} then a else ''run''))))"

definition writer_inflight :: "build_event list \<Rightarrow> build_event \<Rightarrow> bool" where
  "writer_inflight evs n = (interrupted_role evs = Some WRITER \<or> role n = Some WRITER)"

definition is_orphaned_inflight_workspace :: "job_state \<Rightarrow> build_dir \<Rightarrow> bool" where
  "is_orphaned_inflight_workspace s d = (case events (jp_ledger (js_space s (build_path d))) of
       Inl x \<Rightarrow> False
     | Inr evs \<Rightarrow> contents (jp_ledger (js_space s (build_path d))) \<noteq> None \<and> calling_note evs \<noteq> None
         \<and> terminal_event evs = None \<and> \<not> jp_registered (js_space s (build_path d)))"

definition recent_writer_call :: "status_env \<Rightarrow> build_event list \<Rightarrow> bool" where
  "recent_writer_call env evs = (case calling_note evs of
       None \<Rightarrow> False
     | Some n \<Rightarrow> writer_inflight evs n
         \<and> (case last_activity_age_s env evs of None \<Rightarrow> False | Some a \<Rightarrow> a \<le> resume_deadline_s env n))"

definition is_boot_resumable_orphan :: "boot_env \<Rightarrow> job_state \<Rightarrow> build_dir \<Rightarrow> py_exn + bool" where
  "is_boot_resumable_orphan e s d =
     (if \<not> is_orphaned_inflight_workspace s d then Inr False
      else if is_superseded_workspace e s d then Inr False
      else map_result (\<lambda>action. action = ''run''
             \<and> (case events (jp_ledger (js_space s (build_path d))) of
                  Inl x \<Rightarrow> False
                | Inr evs \<Rightarrow> recent_writer_call (st_status (be_start e) (build_path d)) evs))
           (read_control (be_control e d)))"

section \<open>What a session knows\<close>

text \<open>\<open>_blueprint_from_state_path\<close>: the document must be a dictionary, or the read raises.\<close>

definition blueprint_from_state :: "boot_env \<Rightarrow> pyval option \<Rightarrow> py_exn + (string \<times> string) option" where
  "blueprint_from_state e doc = (case doc of
       None \<Rightarrow> Inr None
     | Some (PDict d) \<Rightarrow>
         (case py_or (get0 d ''product_design'') (PDict []) of
            PDict p \<Rightarrow> Inr (case get0 p ''blueprint'' of
                PDict raw \<Rightarrow> (if raw = [] then None else be_validate e (PDict raw)) | _ \<Rightarrow> None)
          | _ \<Rightarrow> Inl AttributeError)
     | Some _ \<Rightarrow> Inl AttributeError)"

fun first_blueprint :: "boot_env \<Rightarrow> pyval option list \<Rightarrow> py_exn + (string \<times> string) option" where
  "first_blueprint e [] = Inr None"
| "first_blueprint e (d # ds) = bind_result (blueprint_from_state e d) (\<lambda>b.
     if b \<noteq> None then Inr b else first_blueprint e ds)"

definition nonempty_dict :: "pyval \<Rightarrow> bool" where
  "nonempty_dict v = (case v of PDict d \<Rightarrow> d \<noteq> [] | _ \<Rightarrow> False)"

definition load_blueprint_for_workspace :: "boot_env \<Rightarrow> build_dir \<Rightarrow> py_exn + (string \<times> string) option" where
  "load_blueprint_for_workspace e d =
     (let docs = be_docs e d
      in bind_result (first_blueprint e (bt_states docs)) (\<lambda>b.
           if b \<noteq> None then Inr b
           else (let loaded = (case bt_loaded docs of
                        Some (raw, _) \<Rightarrow> (if nonempty_dict raw then be_validate e raw else None) | None \<Rightarrow> None)
                 in if loaded \<noteq> None then Inr loaded
                    else Inr (case List.map_filter (\<lambda>c. case c of Some (PDict m) \<Rightarrow> be_validate e (PDict m) | _ \<Rightarrow> None)
                           (bt_copies docs) of [] \<Rightarrow> None | b # _ \<Rightarrow> Some b))))"

definition account_of :: "pyval \<Rightarrow> py_exn + string" where
  "account_of v = (if truthy v \<and> (case v of PDict _ \<Rightarrow> False | _ \<Rightarrow> True) then Inl AttributeError
     else Inr (py_strip (text_of (get0 (dict_of v) ''user_id''))))"

fun first_account :: "pyval option list \<Rightarrow> py_exn + string" where
  "first_account [] = Inr []"
| "first_account (d # ds) = (case d of
       None \<Rightarrow> first_account ds
     | Some v \<Rightarrow> bind_result (account_of v) (\<lambda>a. if a \<noteq> [] then Inr a else first_account ds))"

definition load_tenant_for_workspace :: "boot_env \<Rightarrow> build_dir \<Rightarrow> py_exn + string" where
  "load_tenant_for_workspace e d =
     map_result (\<lambda>a. if a \<noteq> [] then a
         else (case bt_loaded (be_docs e d) of Some (_, u) \<Rightarrow> py_strip u | None \<Rightarrow> []))
       (first_account (bt_states (be_docs e d)))"

section \<open>Closing and resuming\<close>

definition cli_orphaned :: string where "cli_orphaned = ''FACTORY_CODE_CLI_ORPHANED''"

definition orphan_fail_detail :: string where
  "orphan_fail_detail = cli_orphaned @ '': WRITER / FACTORY_CODE_CLI model call has no live worker after process restart - coding agent stopped (not in progress)''"

definition orphan_resume_note :: string where
  "orphan_resume_note = ''resuming orphaned WRITER C-BRIEF after process restart ('' @ cli_orphaned @ '')''"

definition orphan_disk_error_detail :: string where
  "orphan_disk_error_detail = cli_orphaned @ '': ledger not writable after process restart - coding agent stopped (not resumed)''"

definition orphan_no_tenant_reason :: string where "orphan_no_tenant_reason = ''resume_needs_tenant''"

definition orphan_no_tenant_detail :: string where
  "orphan_no_tenant_detail = ''build interrupted by a server restart: resuming it needs the account that started it, and none is recorded -- press Continue to resume it under your account''"

datatype boot_action =
    Skipped | FailedClosed string | BootError string | Resumed start_reply
  | WaiterRestarted | AlreadyLive

definition set_crash_marker :: "string \<Rightarrow> job_state \<Rightarrow> job_state" where
  "set_crash_marker k = space_upd k (\<lambda>sp. sp\<lparr>jp_crash := True\<rparr>)"

definition fail_text :: "string \<Rightarrow> string" where
  "fail_text d = (let t = py_strip (if d = [] then orphan_fail_detail else d)
     in if contains t cli_orphaned then t else cli_orphaned @ '': '' @ t)"

definition fail_payload :: "string option \<Rightarrow> (string, pyval) dict" where
  "fail_payload reason =
     [(''outcome'', PStr ''FAILED_ROLE_ERROR''), (''honesty'', PStr cli_orphaned), (''orphan_recovery'', PBool True)]
     @ (case reason of None \<Rightarrow> [] | Some r \<Rightarrow> [(''reason'', PStr r), (''next'', PStr ''continue'')])"

definition fail_orphaned_model_call ::
  "boot_env \<Rightarrow> string \<Rightarrow> string \<Rightarrow> string option \<Rightarrow> job_state \<Rightarrow> boot_action \<times> job_state" where
  "fail_orphaned_model_call e k d reason s =
     (case log_event (be_start e) RUN_FAILED None (fail_text d) (fail_payload reason) (jp_ledger (js_space s k)) of
        (Some x, f) \<Rightarrow> (BootError (fail_text d), set_crash_marker k s)
      | (None, f) \<Rightarrow> (FailedClosed (fail_text d), ledger_set k f s))"

definition resume_note :: "start_env \<Rightarrow> ledger_write" where
  "resume_note se = log_event se NOTE None orphan_resume_note
     [(''stage'', PStr ''dispatch''), (''orphan_recovery'', PBool True), (''honesty'', PStr cli_orphaned)]"

definition resume_request :: "string \<Rightarrow> string \<times> string \<Rightarrow> string \<Rightarrow> start_request" where
  "resume_request k b tenant = \<lparr>rq_out = k, rq_cycle = [], rq_quota_account = None, rq_identity = Some (py_strip tenant),
     rq_attach = None, rq_platform = [], rq_start_over = False, rq_intake_changed = False,
     rq_product_id = fst b, rq_inputs_hash = snd b\<rparr>"

definition resume_orphaned_model_call ::
  "boot_env \<Rightarrow> string \<Rightarrow> string \<times> string \<Rightarrow> string \<Rightarrow> job_state \<Rightarrow> (start_exn + boot_action) \<times> job_state" where
  "resume_orphaned_model_call e k b tenant s =
     (if py_strip tenant = [] then
        map_prod Inr id (fail_orphaned_model_call e k orphan_no_tenant_detail (Some orphan_no_tenant_reason) s)
      else (case resume_note (be_start e) (jp_ledger (js_space s k)) of
          (Some (Uncaught x), f) \<Rightarrow> (Inl (LedgerFault (Uncaught x)), s)
        | (Some x, f) \<Rightarrow> map_prod Inr id (fail_orphaned_model_call e k
            (orphan_disk_error_detail @ '': '' @ ledger_exn_name x @ '': '' @ be_text e (LedgerFault x)) None
            (set_crash_marker k s))
        | (None, f) \<Rightarrow>
            (let (r, s1) = start_runner_build (be_start e) (resume_request k b tenant) (ledger_set k f s)
             in (map_result Resumed r, s1))))"

section \<open>The boot hooks\<close>

text \<open>\<open>min(candidates, key=last_activity_age_s)\<close>: the first of the youngest.\<close>

definition younger :: "rat option \<Rightarrow> rat option \<Rightarrow> bool" where
  "younger a b = (case (a, b) of (Some x, Some y) \<Rightarrow> x < y | (Some _, None) \<Rightarrow> True | _ \<Rightarrow> False)"

definition age_of :: "boot_env \<Rightarrow> job_state \<Rightarrow> build_dir \<Rightarrow> rat option" where
  "age_of e s d = last_activity_age_s (st_status (be_start e) (build_path d))
     (case events (jp_ledger (js_space s (build_path d))) of Inr evs \<Rightarrow> evs | Inl _ \<Rightarrow> [])"

fun choose_active_orphan :: "boot_env \<Rightarrow> job_state \<Rightarrow> build_dir list \<Rightarrow> build_dir option" where
  "choose_active_orphan e s [] = None"
| "choose_active_orphan e s (d # ds) = (case choose_active_orphan e s ds of
       None \<Rightarrow> Some d
     | Some m \<Rightarrow> (if younger (age_of e s m) (age_of e s d) then Some m else Some d))"

definition eligible_orphans :: "boot_env \<Rightarrow> job_state \<Rightarrow> py_exn + build_dir list" where
  "eligible_orphans e s =
     map_result (\<lambda>bs. map fst (filter snd (zip (iter_session_build_dirs e s) bs)))
       (map_res (is_boot_resumable_orphan e s) (iter_session_build_dirs e s))"

text \<open>What is done with the chosen workspace; an exception of the tenant lookup or of the resume
  closes the run, one of the blueprint lookup leaves the scan.\<close>

definition recover_one :: "boot_env \<Rightarrow> build_dir \<Rightarrow> job_state \<Rightarrow> (py_exn + boot_action) \<times> job_state" where
  "recover_one e d s =
     (let k = build_path d;
          close = (\<lambda>t s. map_prod Inr id (fail_orphaned_model_call e k t None s))
      in case load_blueprint_for_workspace e d of
           Inl x \<Rightarrow> (Inl x, s)
         | Inr None \<Rightarrow> close (orphan_fail_detail @ ''; no product_blueprint to resume C-BRIEF for '' @ k) s
         | Inr (Some b) \<Rightarrow>
             (case load_tenant_for_workspace e d of
                Inl x \<Rightarrow> close (orphan_fail_detail @ ''; resume raised '' @ be_text e (LedgerFault (Uncaught x))) s
              | Inr tenant \<Rightarrow>
                  (case resume_orphaned_model_call e k b tenant s of
                     (Inr a, s1) \<Rightarrow> (Inr a, s1)
                   | (Inl CodeCliUnavailable, s1) \<Rightarrow> close (be_text e CodeCliUnavailable) s1
                   | (Inl x, s1) \<Rightarrow> close (orphan_fail_detail @ ''; resume raised '' @ be_text e x) s1)))"

definition recover_orphaned_model_calls ::
  "boot_env \<Rightarrow> job_state \<Rightarrow> (py_exn + (build_dir \<times> boot_action) list) \<times> job_state" where
  "recover_orphaned_model_calls e s =
     (case eligible_orphans e s of
        Inl x \<Rightarrow> (Inl x, s)
      | Inr ds \<Rightarrow>
          (case choose_active_orphan e s ds of
             None \<Rightarrow> (Inr [], s)
           | Some d \<Rightarrow>
               (let (r, s1) = recover_one e d s
                in (map_result (\<lambda>a. map (\<lambda>o'. (o', Skipped)) (filter ((\<noteq>) d) ds) @ [(d, a)]) r, s1))))"

text \<open>One workspace of the second hook; a torn one does not stop the scan.\<close>

definition restart_waiter :: "boot_env \<Rightarrow> build_dir \<Rightarrow> job_state \<Rightarrow> (build_dir \<times> boot_action) list \<times> job_state" where
  "restart_waiter e d s =
     (let k = build_path d
      in if is_superseded_workspace e s d then ([], s)
         else if \<not> handoff_awaiting_n3 (jp_ledger (js_space s k)) \<or> jp_n3 (js_space s k) then ([], s)
         else (let (started, s1) = start_n3_ingest_job k s
               in ([(d, if started then WaiterRestarted else AlreadyLive)], s1)))"

fun restart_waiters :: "boot_env \<Rightarrow> build_dir list \<Rightarrow> job_state \<Rightarrow> (build_dir \<times> boot_action) list \<times> job_state" where
  "restart_waiters e [] s = ([], s)"
| "restart_waiters e (d # ds) s =
     (let (r, s1) = restart_waiter e d s; (rs, s2) = restart_waiters e ds s1 in (r @ rs, s2))"

definition recover_stranded_n3_handoffs :: "boot_env \<Rightarrow> job_state \<Rightarrow> (build_dir \<times> boot_action) list \<times> job_state" where
  "recover_stranded_n3_handoffs e s = restart_waiters e (iter_session_build_dirs e s) s"

end
