(* ===== verification/OrphanFacts.thy ===== *)
theory OrphanFacts
  imports OrphanRecovery BuildStartFacts
begin

text \<open>
  What the boot hooks guarantee: one workspace at most is touched and at most one worker started
  in it, the chosen workspace never stays an orphan, the others keep their state, every waiting
  hand-off has its waiter; and the document that stops the recovery.
\<close>

section \<open>An orphan does not read as building\<close>

definition orphan :: "string \<Rightarrow> job_state \<Rightarrow> bool" where
  "orphan k s =
     (let sp = js_space s k; evs = event_list (jp_ledger sp)
      in readable (jp_ledger sp) \<and> contents (jp_ledger sp) \<noteq> None \<and> \<not> jp_registered sp
         \<and> terminal_event evs = None \<and> calling_note evs \<noteq> None)"

lemma open_call_is_call: "open_call ns = Some n \<Longrightarrow> truthy (get0 (payload n) ''model_call'')"
  by (induction ns rule: open_call.induct) (auto split: if_splits)

lemma calling_note_current: "calling_note evs = Some n \<Longrightarrow> current_call evs = Some n \<and> is_call_note (Some n)"
  by (auto simp: calling_note_def current_call_def is_call_note_def open_model_call_note_def dest: open_call_is_call)

lemma open_status_orphan:
  assumes "calling_note evs \<noteq> None" and "\<not> se_worker_live env"
  shows "bs_state (open_status env evs p) \<in> {Failed, Stalled}"
  using assms calling_note_current
  by (auto simp: open_status_def Let_def orphaned_inflight_model_call_def split: option.splits)

lemma orphan_status:
  assumes "orphan k s"
  shows "bs_state (seen_status se k s) \<in> {Failed, Stalled}"
proof -
  define f where "f = jp_ledger (js_space s k)"
  define env where "env = (st_status se k)\<lparr>se_worker_live := False, se_crash_marker := jp_crash (js_space s k)\<rparr>"
  note a = assms[unfolded orphan_def Let_def, folded f_def]
  have ev: "events f = Inr (event_list f)" using a readable_events by blast
  have "bs_state (build_status env f) \<in> {Failed, Stalled}"
  proof (cases "ledger_facts (event_list f)")
    case (Inl x)
    then show ?thesis using a ev by (simp add: build_status_def result_simps)
  next
    case (Inr dr)
    obtain ds resume where "ledger_facts (event_list f) = Inr (ds, resume)" using Inr by (cases dr) simp
    have live: "\<not> se_worker_live env" by (simp add: env_def)
    have o: "bs_state (open_status env (event_list f) p) = Failed \<or> bs_state (open_status env (event_list f) p) = Stalled" for p
      using open_status_orphan [OF _ live] a by blast
    have "terminal_event (event_list f) = None" "contents f \<noteq> None" using a by auto
    then show ?thesis
      by (simp add: build_status_readable [OF _ ev \<open>ledger_facts (event_list f) = Inr (ds, resume)\<close>] Let_def
          case_prod_beta live o plain_status_def split: option.split)
  qed
  then show ?thesis using a by (simp add: seen_status_def Let_def env_def f_def)
qed

section \<open>The writes of a recovery\<close>

lemma resume_note_payload: "pv_ok (PDict [(''stage'', PStr ''dispatch''), (''orphan_recovery'', PBool True), (''honesty'', PStr cli_orphaned)])"
  by simp

lemma resume_note_effect:
  assumes "readable f"
  obtains g n where "resume_note se f = (None, g)" and "readable g" and "contents g \<noteq> None"
    and "event_list g = event_list f @ [n]" and "terminal_event (event_list g) = terminal_event (event_list f)"
    and "calling_note (event_list g) = calling_note (event_list f)"
proof -
  obtain g where g: "resume_note se f = (None, g)" "readable g" "contents g \<noteq> None"
      "event_list g = event_list f @ [logged se NOTE None orphan_resume_note
         [(''stage'', PStr ''dispatch''), (''orphan_recovery'', PBool True), (''honesty'', PStr cli_orphaned)] (event_list f)]"
    using log_event_readable [OF assms resume_note_payload] unfolding resume_note_def by blast
  define n where "n = logged se NOTE None orphan_resume_note
         [(''stage'', PStr ''dispatch''), (''orphan_recovery'', PBool True), (''honesty'', PStr cli_orphaned)] (event_list f)"
  have kn: "kind n = NOTE" by (simp add: n_def logged_def stored_def new_event_def)
  have n: "\<not> truthy (get0 (payload n) k)" "get0 (payload n) k = PNone"
    if "k \<notin> {''stage'', ''orphan_recovery'', ''honesty''}" for k
    using that by (simp_all add: n_def logged_def stored_def new_event_def get_or_def dget_canon_dict)
  have "\<not> is_inspect n" "\<not> closes_model_call (payload n)" "\<not> truthy (get0 (payload n) ''model_call'')"
      "\<not> is_rebase n" "\<not> reopens n"
    using n by (simp_all add: is_inspect_def closes_model_call_def is_rebase_def reopens_def inputs_rebased_key_def)
  then have "terminal_event (event_list g) = terminal_event (event_list f)"
      "calling_note (event_list g) = calling_note (event_list f)"
    using kn by (simp_all add: g(4) n_def [symmetric] terminal_event_def terminal_step_def calling_note_def
        activity_notes_def open_model_call_note_def)
  then show ?thesis using that g by blast
qed

lemma fail_payload_ok: "pv_ok (PDict (fail_payload reason))"
  by (cases reason) (auto simp: fail_payload_def)

text \<open>Closing always works on a readable ledger, and leaves a failed run.\<close>

definition run_is_failed :: "string \<Rightarrow> job_state \<Rightarrow> bool" where
  "run_is_failed k s = (\<exists>e. terminal_event (event_list (jp_ledger (js_space s k))) = Some e \<and> kind e = RUN_FAILED)"

lemma fail_orphaned_effect:
  assumes "\<forall>j. readable (jp_ledger (js_space s j))"
  obtains s1 where "fail_orphaned_model_call e k d reason s = (FailedClosed (fail_text d), s1)"
    and "kept s s1 {k}" and "run_is_failed k s1" and "jp_threads (js_space s1 k) = jp_threads (js_space s k)"
proof -
  obtain g where g: "log_event (be_start e) RUN_FAILED None (fail_text d) (fail_payload reason) (jp_ledger (js_space s k)) = (None, g)"
      "readable g" "event_list g = event_list (jp_ledger (js_space s k)) @
        [logged (be_start e) RUN_FAILED None (fail_text d) (fail_payload reason) (event_list (jp_ledger (js_space s k)))]"
    using log_event_readable [OF _ fail_payload_ok] assms by metis
  have "kind (logged (be_start e) RUN_FAILED None (fail_text d) (fail_payload reason) evs) = RUN_FAILED" for evs
    by (simp add: logged_def stored_def new_event_def)
  then have "run_is_failed k (ledger_set k g s)"
    by (simp add: run_is_failed_def g(3) terminal_event_def terminal_step_def)
  moreover have "kept s (ledger_set k g s) {k}" using assms g by (simp add: kept_def grows_def)
  ultimately show ?thesis using that g(1) by (simp add: fail_orphaned_model_call_def)
qed

section \<open>A resume starts the worker or reports why not\<close>

lemma launch_starts:
  assumes "st_cli_ready se" and "readable (jp_ledger (js_space s k))" and "contents (jp_ledger (js_space s k)) \<noteq> None"
    and "rq_attach rq = None"
  shows "\<exists>rp s1. launch se rq k True b None s = (Inr rp, s1) \<and> \<not> rp_already_running rp \<and> jp_registered (js_space s1 k)
     \<and> jp_threads (js_space s1 k) = jp_threads (js_space s k) + 1"
proof -
  have ws: "only_notes (run_writes (launch_writes se rq True b None))"
    unfolding launch_writes_def
    using open_write_only resume_writes_only write_when_only [OF resume_writes_only(4)]
    by (intro run_writes_only) (simp add: attach_writes_def assms(4))
  obtain h where "run_writes (launch_writes se rq True b None) (jp_ledger (js_space s k)) = (None, h)"
    using ws assms(2,3) unfolding only_notes_def by blast
  then show ?thesis using assms(1) by (simp add: launch_def Let_def plain_reply_def register_runner_thread_def)
qed

lemma resumed_start:
  assumes "orphan k s" and "rq_out rq = k" "\<not> rq_start_over rq" "\<not> rq_intake_changed rq" "rq_attach rq = None"
  shows "if st_cli_ready se
     then \<exists>rp s1. start_runner_build se rq s = (Inr rp, s1) \<and> \<not> rp_already_running rp \<and> jp_registered (js_space s1 k)
       \<and> jp_threads (js_space s1 k) = jp_threads (js_space s k) + 1
     else \<exists>s1. start_runner_build se rq s = (Inl CodeCliUnavailable, s1)
       \<and> jp_threads (js_space s1 k) = jp_threads (js_space s k)"
proof -
  define f where "f = jp_ledger (js_space s k)"
  note a = assms(1)[unfolded orphan_def Let_def, folded f_def]
  have f: "readable f" "contents f \<noteq> None" using a by auto
  have ws: "only_notes (run_writes [write_when False (rebase_write se rq), reenter_write se rq (jp_has (js_space s k))])"
    using reenter_only [OF assms(3)] write_when_only [of False "rebase_write se rq"] by (intro run_writes_only) simp
  obtain g ns where g: "run_writes [write_when False (rebase_write se rq), reenter_write se rq (jp_has (js_space s k))] f = (None, g)"
    "readable g" "contents g \<noteq> None" "event_list g = event_list f @ ns"
    using ws f unfolding only_notes_def by blast
  have start: "start_runner_build se rq s = launch se rq k True False None s
      \<or> start_runner_build se rq s = launch se rq k True True None (ledger_set k g s)"
    using orphan_status [OF assms(1), of se] f(2) g(1) assms(2-4)
    by (auto simp del: run_writes.simps simp add: start_runner_build_def restart_failed_def Let_def has_ledger_def f_def)
  have l: "\<exists>rp s1. launch se rq k True b None t = (Inr rp, s1) \<and> \<not> rp_already_running rp \<and> jp_registered (js_space s1 k)
     \<and> jp_threads (js_space s1 k) = jp_threads (js_space t k) + 1"
    if "st_cli_ready se" "t \<in> {s, ledger_set k g s}" for b t
    using launch_starts [OF that(1), of t k rq b] that(2) f g assms(5) by (auto simp: f_def)
  show ?thesis
  proof (cases "st_cli_ready se")
    case True
    then show ?thesis using start l [OF True, of s False] l [OF True, of "ledger_set k g s" True] by auto
  next
    case False
    then show ?thesis using start by (auto simp: launch_def)
  qed
qed

section \<open>The first hook\<close>

text \<open>The workspace that is resumed ends with a worker of its own or with a failed run.\<close>

definition settled :: "string \<Rightarrow> job_state \<Rightarrow> job_state \<Rightarrow> bool" where
  "settled k s t = (jp_registered (js_space t k) \<and> jp_threads (js_space t k) = jp_threads (js_space s k) + 1
     \<or> run_is_failed k t \<and> jp_threads (js_space t k) = jp_threads (js_space s k))"

lemma fail_settles:
  assumes "kept s t {k}" and "jp_threads (js_space t k) = jp_threads (js_space s k)"
  shows "fst (fail_orphaned_model_call e k d reason t) = FailedClosed (fail_text d)
     \<and> kept s (snd (fail_orphaned_model_call e k d reason t)) {k}
     \<and> settled k s (snd (fail_orphaned_model_call e k d reason t))"
proof -
  obtain u where "fail_orphaned_model_call e k d reason t = (FailedClosed (fail_text d), u)" "kept t u {k}"
      "run_is_failed k u" "jp_threads (js_space u k) = jp_threads (js_space t k)"
    using fail_orphaned_effect [OF kept_readable [OF assms(1)]] by blast
  then show ?thesis using kept_trans [OF assms(1), of u "{k}" "{k}"] assms(2) by (simp add: settled_def)
qed

definition outcome_ok :: "string \<Rightarrow> job_state \<Rightarrow> (start_exn + boot_action) \<times> job_state \<Rightarrow> bool" where
  "outcome_ok k s ru = (kept s (snd ru) {k} \<and> (case fst ru of
       Inr a \<Rightarrow> a \<noteq> Skipped \<and> settled k s (snd ru)
     | Inl x \<Rightarrow> x = CodeCliUnavailable \<and> jp_threads (js_space (snd ru) k) = jp_threads (js_space s k)))"

lemma resume_settles:
  assumes "\<forall>j. readable (jp_ledger (js_space s j))" and "orphan k s"
  shows "outcome_ok k s (resume_orphaned_model_call e k b tenant s)"
proof (cases "py_strip tenant = []")
  case True
  have "kept s s {k}" using assms(1) by (simp add: kept_def)
  from fail_settles [OF this refl] show ?thesis
    by (simp add: True resume_orphaned_model_call_def outcome_ok_def)
next
  case False
  have r: "readable (jp_ledger (js_space s k))" using assms(1) by blast
  obtain g n where g: "resume_note (be_start e) (jp_ledger (js_space s k)) = (None, g)" "readable g" "contents g \<noteq> None"
      "event_list g = event_list (jp_ledger (js_space s k)) @ [n]"
      "terminal_event (event_list g) = terminal_event (event_list (jp_ledger (js_space s k)))"
      "calling_note (event_list g) = calling_note (event_list (jp_ledger (js_space s k)))"
    using resume_note_effect [OF r] by metis
  define t where "t = ledger_set k g s"
  have o: "orphan k t" using assms(2) g by (simp add: orphan_def Let_def t_def)
  have kt: "kept s t {k}" using assms(1) g by (simp add: kept_def grows_def t_def)
  obtain r u where st: "start_runner_build (be_start e) (resume_request k b tenant) t = (r, u)" by fastforce
  have "kept t u {k}"
    using start_kept [OF kept_readable [OF kt], of "be_start e" "resume_request k b tenant"] st
    by (simp add: resume_request_def)
  then have ku: "kept s u {k}" using kept_trans [OF kt, of u "{k}" "{k}"] by simp
  have tt: "jp_threads (js_space t k) = jp_threads (js_space s k)" by (simp add: t_def)
  have "if st_cli_ready (be_start e)
     then \<exists>rp s1. start_runner_build (be_start e) (resume_request k b tenant) t = (Inr rp, s1) \<and> \<not> rp_already_running rp
       \<and> jp_registered (js_space s1 k) \<and> jp_threads (js_space s1 k) = jp_threads (js_space t k) + 1
     else \<exists>s1. start_runner_build (be_start e) (resume_request k b tenant) t = (Inl CodeCliUnavailable, s1)
       \<and> jp_threads (js_space s1 k) = jp_threads (js_space t k)"
    by (rule resumed_start [OF o]) (simp_all add: resume_request_def)
  then show ?thesis
    using False g(1) st ku tt
    by (auto simp: resume_orphaned_model_call_def t_def [symmetric] settled_def outcome_ok_def split: if_splits)
qed

lemma recover_one_settles:
  assumes "\<forall>j. readable (jp_ledger (js_space s j))" and "orphan (build_path d) s"
  shows "kept s (snd (recover_one e d s)) {build_path d}
     \<and> (case fst (recover_one e d s) of Inr a \<Rightarrow> a \<noteq> Skipped \<and> settled (build_path d) s (snd (recover_one e d s))
        | Inl x \<Rightarrow> snd (recover_one e d s) = s)"
proof -
  define k where "k = build_path d"
  have ks: "kept s s {k}" using assms(1) by (simp add: kept_def)
  note f = fail_settles [OF ks refl]
  have res: "outcome_ok k s (resume_orphaned_model_call e k b tenant s)" for b tenant
    using resume_settles [OF assms(1)] assms(2) by (simp add: k_def)
  show ?thesis
  proof (cases "load_blueprint_for_workspace e d")
    case (Inl x)
    then show ?thesis using ks by (simp add: recover_one_def Let_def k_def [symmetric])
  next
    case b: (Inr ob)
    show ?thesis
    proof (cases ob)
      case None
      then show ?thesis using b f by (simp add: recover_one_def Let_def k_def [symmetric])
    next
      case (Some bp)
      show ?thesis
      proof (cases "load_tenant_for_workspace e d")
        case (Inl x)
        then show ?thesis using b Some f by (simp add: recover_one_def Let_def k_def [symmetric])
      next
        case (Inr tenant)
        obtain r u where r: "resume_orphaned_model_call e k bp tenant s = (r, u)" by fastforce
        have ok: "outcome_ok k s (r, u)" using res [of bp tenant] r by simp
        show ?thesis
        proof (cases r)
          case Inl': (Inl x)
          have "x = CodeCliUnavailable" and th: "jp_threads (js_space u k) = jp_threads (js_space s k)" and "kept s u {k}"
            using ok Inl' by (auto simp: outcome_ok_def)
          then show ?thesis using b Some Inr r Inl' fail_settles [OF \<open>kept s u {k}\<close> th]
            by (simp add: recover_one_def Let_def k_def [symmetric])
        next
          case Inr': (Inr a)
          then show ?thesis using b Some Inr r ok
            by (simp add: recover_one_def Let_def k_def [symmetric] outcome_ok_def)
        qed
      qed
    qed
  qed
qed

lemma choose_in: "choose_active_orphan e s ds = Some d \<Longrightarrow> d \<in> set ds"
  by (induction ds arbitrary: d) (auto split: option.splits if_splits)

lemma choose_some: "ds \<noteq> [] \<Longrightarrow> choose_active_orphan e s ds \<noteq> None"
  by (cases ds) (auto split: option.splits)

lemma eligible_resumable:
  assumes "eligible_orphans e s = Inr ds" and "d \<in> set ds"
  shows "d \<in> set (iter_session_build_dirs e s) \<and> is_boot_resumable_orphan e s d = Inr True"
proof -
  obtain bs where bs: "map_res (is_boot_resumable_orphan e s) (iter_session_build_dirs e s) = Inr bs"
      "ds = map fst (filter snd (zip (iter_session_build_dirs e s) bs))"
    using assms(1) by (auto simp: eligible_orphans_def map_result_Inr_iff)
  obtain b where "(d, b) \<in> set (zip (iter_session_build_dirs e s) bs)" "b" using assms(2) bs(2) by auto
  then show ?thesis using bs(1) unfolding map_res_Inr_iff by (auto simp: list_all2_iff dest: set_zip_leftD)
qed

lemma resumable_orphan:
  assumes "is_boot_resumable_orphan e s d = Inr True" and "\<forall>j. readable (jp_ledger (js_space s j))"
  shows "orphan (build_path d) s"
  using assms readable_events
  by (auto simp: is_boot_resumable_orphan_def is_orphaned_inflight_workspace_def orphan_def Let_def
      split: sum.splits if_splits)

text \<open>Property C16.  At boot at most one workspace is touched, and only one that holds a recent call
  of the writer without a worker and no verdict: at most one worker is started, in that workspace,
  and the past of every ledger is kept.\<close>

theorem boot_touches_one_orphan:
  assumes "\<forall>j. readable (jp_ledger (js_space s j))"
  shows "\<exists>k. (\<forall>j. j \<noteq> k \<longrightarrow> js_space (snd (recover_orphaned_model_calls e s)) j = js_space s j)
     \<and> (\<forall>j. grows (jp_ledger (js_space s j)) (jp_ledger (js_space (snd (recover_orphaned_model_calls e s)) j)))
     \<and> jp_threads (js_space (snd (recover_orphaned_model_calls e s)) k) \<le> jp_threads (js_space s k) + 1
     \<and> (snd (recover_orphaned_model_calls e s) \<noteq> s \<longrightarrow> orphan k s
          \<and> (\<exists>d. build_path d = k \<and> is_boot_resumable_orphan e s d = Inr True))"
proof -
  have same: ?thesis if "snd (recover_orphaned_model_calls e s) = s" using that assms by (intro exI [of _ k]) simp
  show ?thesis
  proof (cases "eligible_orphans e s")
    case (Inl x)
    then show ?thesis using same by (simp add: recover_orphaned_model_calls_def)
  next
    case (Inr ds)
    show ?thesis
    proof (cases "choose_active_orphan e s ds")
      case None
      then show ?thesis using same Inr by (simp add: recover_orphaned_model_calls_def)
    next
      case (Some d)
      have d: "is_boot_resumable_orphan e s d = Inr True" using eligible_resumable [OF Inr choose_in [OF Some]] by simp
      have o: "orphan (build_path d) s" by (rule resumable_orphan [OF d assms])
      have t: "snd (recover_orphaned_model_calls e s) = snd (recover_one e d s)"
        by (simp add: recover_orphaned_model_calls_def Inr Some case_prod_beta Let_def)
      have r: "kept s (snd (recover_one e d s)) {build_path d}"
          "case fst (recover_one e d s) of Inr a \<Rightarrow> a \<noteq> Skipped \<and> settled (build_path d) s (snd (recover_one e d s))
           | Inl x \<Rightarrow> snd (recover_one e d s) = s"
        using recover_one_settles [OF assms o, of e] by auto
      have "jp_threads (js_space (snd (recover_one e d s)) (build_path d)) \<le> jp_threads (js_space s (build_path d)) + 1"
        using r(2) by (auto simp: settled_def split: sum.splits)
      then show ?thesis using r(1) o d unfolding t kept_def by (intro exI [of _ "build_path d"]) blast
    qed
  qed
qed

text \<open>Property C15.  When the hook returns, every orphan it found is listed once; all but one are left
  as they were, and that one has a worker of its own or a run that ended in failure.\<close>

theorem no_orphan_left_behind:
  assumes "\<forall>j. readable (jp_ledger (js_space s j))" and "eligible_orphans e s = Inr ds" and "ds \<noteq> []"
    and "recover_orphaned_model_calls e s = (Inr rs, t)"
  shows "\<exists>d. d \<in> set ds \<and> list_all (\<lambda>(o', a). (a = Skipped) = (o' \<noteq> d)) rs \<and> set (map fst rs) = set ds
     \<and> settled (build_path d) s t"
proof -
  obtain d where d: "choose_active_orphan e s ds = Some d" using choose_some [OF assms(3)] by blast
  have o: "orphan (build_path d) s"
    using resumable_orphan [OF _ assms(1)] eligible_resumable [OF assms(2) choose_in [OF d]] by blast
  obtain r u where ru: "recover_one e d s = (r, u)" by fastforce
  obtain a where a: "r = Inr a" "rs = map (\<lambda>o'. (o', Skipped)) (filter ((\<noteq>) d) ds) @ [(d, a)]" "t = u"
    using assms(4) by (auto simp: recover_orphaned_model_calls_def assms(2) d ru Let_def map_result_Inr_iff)
  have "a \<noteq> Skipped \<and> settled (build_path d) s t" using recover_one_settles [OF assms(1) o, of e] ru a by simp
  moreover have "set (map fst rs) = set ds" using choose_in [OF d] by (auto simp: a(2) image_iff)
  ultimately show ?thesis using choose_in [OF d] by (intro exI [of _ d]) (auto simp: a(2) list_all_iff)
qed

section \<open>The second hook\<close>

lemma restart_waiter_facts:
  "snd (restart_waiter e d s) = (if \<not> is_superseded_workspace e s d \<and> handoff_awaiting_n3 (jp_ledger (js_space s (build_path d)))
       \<and> \<not> jp_n3 (js_space s (build_path d))
     then space_upd (build_path d) (\<lambda>sp. sp\<lparr>jp_n3 := True\<rparr>) s else s)"
  by (auto simp: restart_waiter_def Let_def start_n3_ingest_job_def)

text \<open>Only waiters are started, and each in a workspace that was waiting.\<close>

definition waiters_only :: "job_state \<Rightarrow> job_state \<Rightarrow> bool" where
  "waiters_only s t = (js_db t = js_db s \<and> (\<forall>k. \<exists>b. js_space t k = (js_space s k)\<lparr>jp_n3 := b\<rparr>
     \<and> (b = jp_n3 (js_space s k) \<or> b \<and> handoff_awaiting_n3 (jp_ledger (js_space s k)))))"

lemma waiters_only_simps:
  assumes "waiters_only s t"
  shows "jp_ledger (js_space t k) = jp_ledger (js_space s k)" "has_ledger t k = has_ledger s k"
    "is_superseded_workspace e t d = is_superseded_workspace e s d" "jp_n3 (js_space s k) \<Longrightarrow> jp_n3 (js_space t k)"
proof -
  have *: "\<exists>b. js_space t k = (js_space s k)\<lparr>jp_n3 := b\<rparr> \<and> (b = jp_n3 (js_space s k) \<or> b)" for k
    using assms unfolding waiters_only_def by blast
  show l: "jp_ledger (js_space t k) = jp_ledger (js_space s k)" for k using * [of k] by auto
  then show h: "has_ledger t k = has_ledger s k" for k by (simp add: has_ledger_def)
  show "is_superseded_workspace e t d = is_superseded_workspace e s d" by (simp add: is_superseded_workspace_def h)
  show "jp_n3 (js_space s k) \<Longrightarrow> jp_n3 (js_space t k)" using * [of k] by auto
qed

lemma waiters_only_trans: "waiters_only s t \<Longrightarrow> waiters_only t u \<Longrightarrow> waiters_only s u"
proof -
  assume a: "waiters_only s t" "waiters_only t u"
  have "\<exists>b. js_space u k = (js_space s k)\<lparr>jp_n3 := b\<rparr>
     \<and> (b = jp_n3 (js_space s k) \<or> b \<and> handoff_awaiting_n3 (jp_ledger (js_space s k)))" for k
  proof -
    obtain b where b: "js_space t k = (js_space s k)\<lparr>jp_n3 := b\<rparr>"
        "b = jp_n3 (js_space s k) \<or> b \<and> handoff_awaiting_n3 (jp_ledger (js_space s k))"
      using a(1) unfolding waiters_only_def by blast
    obtain c where c: "js_space u k = (js_space t k)\<lparr>jp_n3 := c\<rparr>"
        "c = jp_n3 (js_space t k) \<or> c \<and> handoff_awaiting_n3 (jp_ledger (js_space t k))"
      using a(2) unfolding waiters_only_def by blast
    show ?thesis using b c by (intro exI [of _ c]) auto
  qed
  then show "waiters_only s u" using a unfolding waiters_only_def by simp
qed

lemma waiter_same: "\<exists>b. sp = sp\<lparr>jp_n3 := b\<rparr> \<and> (b = jp_n3 sp \<or> b \<and> P)"
  by (rule exI [of _ "jp_n3 sp"]) simp

lemma waiters_only_refl: "waiters_only s s"
  unfolding waiters_only_def by (intro conjI refl allI waiter_same)

lemma restart_waiter_only: "waiters_only s (snd (restart_waiter e d s))"
proof (cases "\<not> is_superseded_workspace e s d \<and> handoff_awaiting_n3 (jp_ledger (js_space s (build_path d)))
       \<and> \<not> jp_n3 (js_space s (build_path d))")
  case True
  then show ?thesis unfolding restart_waiter_facts if_P [OF True] waiters_only_def
    using waiter_same by (auto intro: exI [of _ True])
next
  case False
  show ?thesis unfolding restart_waiter_facts if_not_P [OF False] by (rule waiters_only_refl)
qed

lemma restart_waiters_facts:
  "waiters_only s (snd (restart_waiters e ds s))
   \<and> (\<forall>d \<in> set ds. \<not> is_superseded_workspace e s d \<and> handoff_awaiting_n3 (jp_ledger (js_space s (build_path d)))
        \<longrightarrow> jp_n3 (js_space (snd (restart_waiters e ds s)) (build_path d)))"
proof (induction ds arbitrary: s)
  case Nil
  then show ?case by (simp add: waiters_only_refl)
next
  case (Cons d ds)
  define t where "t = snd (restart_waiter e d s)"
  have u: "snd (restart_waiters e (d # ds) s) = snd (restart_waiters e ds t)"
    by (simp add: t_def case_prod_beta Let_def)
  have t: "waiters_only s t" unfolding t_def by (rule restart_waiter_only)
  note ih = Cons.IH [of t]
  have now: "jp_n3 (js_space t (build_path d))"
    if "\<not> is_superseded_workspace e s d" "handoff_awaiting_n3 (jp_ledger (js_space s (build_path d)))"
    using that by (simp add: t_def restart_waiter_facts)
  then show ?case
    unfolding u using ih now waiters_only_trans [OF t] waiters_only_simps(1,3) [OF t] waiters_only_simps(4) [of t] by auto
qed

text \<open> After the second hook every build of a session that waits for the Store gate and is
  not superseded has a live waiter; nothing else has changed.\<close>

theorem every_handoff_has_a_waiter:
  "waiters_only s (snd (recover_stranded_n3_handoffs e s))
   \<and> list_all (\<lambda>d. is_superseded_workspace e s d \<or> \<not> handoff_awaiting_n3 (jp_ledger (js_space s (build_path d)))
        \<or> jp_n3 (js_space (snd (recover_stranded_n3_handoffs e s)) (build_path d))) (iter_session_build_dirs e s)"
  using restart_waiters_facts [of s e "iter_session_build_dirs e s"]
  by (auto simp: recover_stranded_n3_handoffs_def list_all_iff)

section \<open>A document that stops the recovery\<close>

text \<open> A session document that is JSON but not a dictionary ends the recovery with an
  exception: the orphan is neither resumed nor closed, at this boot and at every later one.\<close>

theorem odd_document_strands_orphan:
  assumes "eligible_orphans e s = Inr ds" and "choose_active_orphan e s ds = Some d"
    and "bt_states (be_docs e d) = Some (PList xs) # docs"
  shows "recover_orphaned_model_calls e s = (Inl AttributeError, s)"
  by (simp add: recover_orphaned_model_calls_def assms(1,2) recover_one_def load_blueprint_for_workspace_def assms(3)
      blueprint_from_state_def Let_def)

section \<open>Two interrupted builds\<close>

definition demo_call_run :: "build_event list" where
  "demo_call_run = [
     \<lparr>seq = 1, ts = ''10'', kind = RUN_STARTED, role = None, detail = [], payload = []\<rparr>,
     \<lparr>seq = 2, ts = ''11'', kind = PHASE_STARTED, role = Some WRITER, detail = [], payload = []\<rparr>,
     \<lparr>seq = 3, ts = ''12'', kind = NOTE, role = Some WRITER, detail = [],
       payload = [(''deadline_s'', PInt 600), (''model_call'', PBool True)]\<rparr>]"

definition demo_handed_run :: "build_event list" where
  "demo_handed_run = [\<lparr>seq = 1, ts = ''10'', kind = RUN_FAILED, role = None, detail = [],
     payload = [(''honesty'', PStr handoff_word)]\<rparr>]"

text \<open>Two builds interrupted in the writer, and one that waits for the Store gate.\<close>

definition demo_halted :: job_state where
  "demo_halted = \<lparr>js_space = (\<lambda>k. demo_space\<lparr>jp_ledger :=
      (if k = ''sessions/s1/p'' \<or> k = ''sessions/s2/p'' then file_of demo_call_run
       else if k = ''sessions/s3/p'' then file_of demo_handed_run else no_ledger)\<rparr>), js_db = demo_db\<rparr>"

definition demo_boot :: "pyval \<Rightarrow> boot_env" where
  "demo_boot doc = \<lparr>be_start = demo_start, be_sessions = [(''s3'', [''p'']), (''s2'', [''p'']), (''s1'', [''p''])],
     be_control = (\<lambda>d. None),
     be_docs = (\<lambda>d. \<lparr>bt_states = [Some doc], bt_loaded = None, bt_copies = []\<rparr>),
     be_validate = (\<lambda>v. Some (''p'', ''h1'')), be_text = (\<lambda>x. [])\<rparr>"

definition demo_session_doc :: pyval where
  "demo_session_doc = PDict [(''product_design'', PDict [(''blueprint'', PDict [(''product_id'', PStr ''p'')])]),
     (''user_id'', PStr ''acct_a'')]"

lemma demo_call_readable: "readable (file_of demo_call_run)" "event_list (file_of demo_call_run) = demo_call_run"
    "readable (file_of demo_handed_run)" "event_list (file_of demo_handed_run) = demo_handed_run"
  using file_of_readable [of demo_call_run] file_of_readable [of demo_handed_run]
  by (simp_all add: demo_call_run_def demo_handed_run_def stored_def canon_dict_def)

lemma demo_halted_readable: "\<forall>j. readable (jp_ledger (js_space demo_halted j))"
  using demo_call_readable demo_jobs_readable by (simp add: demo_halted_def demo_jobs_def split: if_splits)

lemma demo_dirs: "iter_session_build_dirs (demo_boot doc) demo_halted = [(''s1'', ''p''), (''s2'', ''p''), (''s3'', ''p'')]"
  by (simp add: iter_session_build_dirs_def demo_boot_def demo_halted_def has_ledger_def build_path_def file_of_def
      sort_key_def)

lemma demo_not_superseded: "\<not> is_superseded_workspace (demo_boot doc) demo_halted (x, ''p'')"
  by (auto simp: is_superseded_workspace_def siblings_def demo_boot_def Let_def case_prod_beta list_ex_iff)

lemma demo_resumable:
  "is_boot_resumable_orphan (demo_boot doc) demo_halted (''s1'', ''p'') = Inr True"
  "is_boot_resumable_orphan (demo_boot doc) demo_halted (''s2'', ''p'') = Inr True"
  "is_boot_resumable_orphan (demo_boot doc) demo_halted (''s3'', ''p'') = Inr False"
proof -
  have c: "calling_note demo_call_run \<noteq> None" "terminal_event demo_call_run = None"
      "recent_writer_call demo_status_env demo_call_run" "terminal_event demo_handed_run \<noteq> None" "read_control None = Inr ''run''"
    by code_simp+
  have l: "jp_ledger (js_space demo_halted (build_path (x, ''p''))) = file_of demo_call_run"
      "\<not> jp_registered (js_space demo_halted (build_path (x, ''p'')))" if "x \<in> {''s1'', ''s2''}" for x
    using that by (auto simp: demo_halted_def build_path_def demo_space_def)
  have l3: "jp_ledger (js_space demo_halted (build_path (''s3'', ''p''))) = file_of demo_handed_run"
    by (simp add: demo_halted_def build_path_def)
  have e: "be_control (demo_boot doc) d = None" "st_status (be_start (demo_boot doc)) k = demo_status_env" for d k
    by (simp_all add: demo_boot_def demo_start_def)
  note ev = readable_events [OF demo_call_readable(1), unfolded demo_call_readable(2)]
    readable_events [OF demo_call_readable(3), unfolded demo_call_readable(4)]
  have "is_orphaned_inflight_workspace demo_halted (x, ''p'')" if "x \<in> {''s1'', ''s2''}" for x
    using c(1,2) demo_contents by (simp add: is_orphaned_inflight_workspace_def l [OF that] ev)
  then show "is_boot_resumable_orphan (demo_boot doc) demo_halted (''s1'', ''p'') = Inr True"
    "is_boot_resumable_orphan (demo_boot doc) demo_halted (''s2'', ''p'') = Inr True"
    using c by (simp_all add: is_boot_resumable_orphan_def demo_not_superseded l ev e)
  show "is_boot_resumable_orphan (demo_boot doc) demo_halted (''s3'', ''p'') = Inr False"
    using c(4) by (simp add: is_boot_resumable_orphan_def is_orphaned_inflight_workspace_def l3 ev)
qed

lemma demo_eligible: "eligible_orphans (demo_boot doc) demo_halted = Inr [(''s1'', ''p''), (''s2'', ''p'')]"
  by (simp add: eligible_orphans_def demo_dirs demo_resumable)

lemma demo_chosen: "choose_active_orphan (demo_boot doc) demo_halted [(''s1'', ''p''), (''s2'', ''p'')] = Some (''s1'', ''p'')"
proof -
  have "age_of (demo_boot doc) demo_halted (''s1'', ''p'') = age_of (demo_boot doc) demo_halted (''s2'', ''p'')"
    by (simp add: age_of_def demo_boot_def demo_start_def demo_halted_def build_path_def)
  then show ?thesis by (auto simp: younger_def split: option.splits)
qed

theorem boot_touches_one_orphan_witness:
  "\<exists>k. (\<forall>j. j \<noteq> k \<longrightarrow> js_space (snd (recover_orphaned_model_calls (demo_boot demo_session_doc) demo_halted)) j = js_space demo_halted j)
     \<and> jp_threads (js_space (snd (recover_orphaned_model_calls (demo_boot demo_session_doc) demo_halted)) k) \<le> 1"
proof -
  have "jp_threads (js_space demo_halted k) = 0" for k by (simp add: demo_halted_def demo_space_def)
  then show ?thesis using boot_touches_one_orphan [OF demo_halted_readable, of "demo_boot demo_session_doc"] by auto
qed

theorem no_orphan_left_behind_witness:
  "\<exists>d \<in> {(''s1'', ''p''), (''s2'', ''p'')}. settled (build_path d) demo_halted
     (snd (recover_orphaned_model_calls (demo_boot demo_session_doc) demo_halted))"
proof -
  have b: "load_blueprint_for_workspace (demo_boot demo_session_doc) d = Inr (Some (''p'', ''h1''))" for d
    by (simp add: load_blueprint_for_workspace_def demo_boot_def blueprint_from_state_def demo_session_doc_def
        py_or_def Let_def)
  have t: "load_tenant_for_workspace (demo_boot demo_session_doc) d = Inr ''acct_a''" for d
  proof -
    have "account_of demo_session_doc = Inr ''acct_a''" by code_simp
    then show ?thesis by (simp add: load_tenant_for_workspace_def demo_boot_def)
  qed
  have "\<exists>a. fst (recover_one (demo_boot demo_session_doc) d demo_halted) = Inr a" for d
    by (simp add: recover_one_def b t Let_def case_prod_beta split: prod.split sum.split start_exn.split)
  then obtain a where "fst (recover_one (demo_boot demo_session_doc) (''s1'', ''p'') demo_halted) = Inr a" by blast
  then have "recover_orphaned_model_calls (demo_boot demo_session_doc) demo_halted
      = (Inr [((''s2'', ''p''), Skipped), ((''s1'', ''p''), a)], snd (recover_orphaned_model_calls (demo_boot demo_session_doc) demo_halted))"
    by (simp add: recover_orphaned_model_calls_def demo_eligible demo_chosen case_prod_beta Let_def prod_eq_iff
        del: choose_active_orphan.simps)
  from no_orphan_left_behind [OF demo_halted_readable demo_eligible _ this] show ?thesis by auto
qed

theorem every_handoff_has_a_waiter_witness:
  "jp_n3 (js_space (snd (recover_stranded_n3_handoffs (demo_boot demo_session_doc) demo_halted)) ''sessions/s3/p'')
   \<and> \<not> jp_n3 (js_space demo_halted ''sessions/s3/p'')"
proof -
  have "\<not> is_superseded_workspace (demo_boot demo_session_doc) demo_halted (''s3'', ''p'')" by (rule demo_not_superseded)
  moreover have "handoff_awaiting_n3 (file_of demo_handed_run)" by code_simp
  ultimately show ?thesis
    using every_handoff_has_a_waiter [of demo_halted "demo_boot demo_session_doc"]
    by (simp add: demo_dirs) (simp add: demo_halted_def build_path_def demo_space_def)
qed

theorem odd_document_strands_orphan_witness:
  "recover_orphaned_model_calls (demo_boot (PList [])) demo_halted = (Inl AttributeError, demo_halted)"
  by (rule odd_document_strands_orphan [OF demo_eligible demo_chosen]) (simp add: demo_boot_def)

end
