(* ===== verification/Promotion.thy ===== *)
theory Promotion
  imports BlocksLock Acceptance BuildsPush Ledger
begin

text \<open>
  The emitter of PILOT-READY flag: the stage table (\<open>factory/build/probe_set.json\<close>,
  \<open>probe_set.py\<close>), the evidence files of a stages directory and what they must say
  (\<open>factory/build/promotion.py\<close>, \<open>preflight.py\<close>), the digest and identity of a built tree
  (\<open>package.py\<close>) and the proof that a pilot cycle ran (\<open>pilot_cycle_proof.py\<close>).  A stages
  directory maps file names to their texts, a disk absolute normalised paths to texts; every
  file can be read.  Arguments: SHA-256, the text of a parse error, whether the kernel owns the
  routes (an inspection of modules).  Provenance and the harvest verdict, which are reported beside the
  flag, are left out.  Dashes of messages are written as hyphens, an ellipsis as three dots.
\<close>

section \<open>Stages\<close>

record stage_row =
  sr_id :: string
  sr_name :: "string option"
  sr_minimum :: bool

definition stage_table :: "stage_row list" where
  "stage_table = map (\<lambda>(i, n, m). \<lparr>sr_id = i, sr_name = n, sr_minimum = m\<rparr>)
     [(''S0'', Some ''PREFLIGHT'', False), (''S1'', Some ''ROOT_CAUSE'', False), (''S2'', Some ''SUPPLY_CHAIN'', False),
      (''S3'', Some ''DOMAIN_PACK'', False), (''S4'', None, False), (''S5'', None, False), (''S6'', None, False),
      (''S7'', Some ''NETWORK_POSTURE'', False), (''S8'', None, False), (''S9'', None, False), (''S10'', None, True),
      (''S11'', None, True), (''S12'', Some ''DOMAIN_ACCEPTANCE'', True), (''S13'', Some ''PROMOTION'', False)]"

definition stage_ids :: "string list" where "stage_ids = map sr_id stage_table"

text \<open>None is the error that no stage has the name.\<close>

definition stage_id :: "string \<Rightarrow> string option" where
  "stage_id name = map_option sr_id (List.find (\<lambda>r. sr_name r = Some name) stage_table)"

definition minimum_required :: "string list" where
  "minimum_required = map sr_id (filter sr_minimum stage_table)"

definition prior_stages :: "string list" where
  "prior_stages = takeWhile (\<lambda>i. stage_id ''PROMOTION'' \<noteq> Some i) stage_ids"

section \<open>Evidence files\<close>

type_synonym stages_dir = "(string, string) dict"

definition evidence_char :: "char \<Rightarrow> bool" where
  "evidence_char c = (let n = (of_char c :: nat) in
     (48 \<le> n \<and> n \<le> 57) \<or> (65 \<le> n \<and> n \<le> 90) \<or> (97 \<le> n \<and> n \<le> 122) \<or> c = CHR ''_'')"

definition stage_file_name :: "string \<Rightarrow> bool" where
  "stage_file_name name = list_ex (\<lambda>st.
     starts_with name (st @ ''_'') \<and> ends_with name ''.json''
     \<and> (let body = drop (length st + 1) (take (length name - 5) name)
        in body \<noteq> [] \<and> list_all evidence_char body)) prior_stages"

text \<open>The name without and with its last suffix; a name without a suffix is its own stem.\<close>

definition name_stem :: "string \<Rightarrow> string" where
  "name_stem name = take (length name - length (name_suffix name)) name"

definition reread_suffixes :: "string \<Rightarrow> bool" where
  "reread_suffixes name = (case rev (split_on (CHR ''.'') (dropWhile (\<lambda>c. c = CHR ''.'') name)) of
       j # r # _ # _ \<Rightarrow> j = ''json'' \<and> r = ''reread'' | _ \<Rightarrow> False)"

definition s4_evidence_filename :: string where "s4_evidence_filename = ''S4_ship_kernel.json''"

definition s4_evidence_aliases :: "string list" where "s4_evidence_aliases = [''S4_kernel.json'']"

definition is_admitted_stage_evidence :: "string \<Rightarrow> bool" where
  "is_admitted_stage_evidence name =
     (if name_suffix name \<noteq> ''.json'' \<or> reread_suffixes name then False
      else if name \<in> set s4_evidence_aliases then False
      else \<not> (starts_with name ''S4_'' \<and> name \<noteq> s4_evidence_filename))"

definition discover_evidence_files :: "stages_dir option \<Rightarrow> string list" where
  "discover_evidence_files dir = (case dir of
       None \<Rightarrow> []
     | Some d \<Rightarrow> filter (\<lambda>n. name_suffix n = ''.json'' \<and> \<not> ends_with n ''.reread.json''
         \<and> stage_file_name n \<and> is_admitted_stage_evidence n) (sort (dkeys d)))"

definition stage_of :: "string \<Rightarrow> string" where "stage_of name = takeWhile (\<lambda>c. c \<noteq> CHR ''_'') name"

definition required_stage_ids :: "string list \<Rightarrow> string list" where
  "required_stage_ids present =
     filter (\<lambda>st. st \<in> set (map stage_of present) \<union> set minimum_required) prior_stages"

definition files_for_stage :: "string list \<Rightarrow> string \<Rightarrow> string list" where
  "files_for_stage present st =
     (let files = filter (\<lambda>n. starts_with n (st @ ''_'')) present
      in if stage_of s4_evidence_filename = st then filter (\<lambda>n. n = s4_evidence_filename) files else files)"

definition reread_twin_path :: "string \<Rightarrow> string" where
  "reread_twin_path name = name_stem name @ ''.reread.json''"

section \<open>What a record says\<close>

definition pass_verdicts :: "string list" where "pass_verdicts = [''PASS'', ''PERFORMED'']"

definition fail_verdicts :: "string list" where "fail_verdicts = [''FAIL'', ''FAILED'', ''BLOCKED'', ''ERROR'']"

definition verdict_of :: "(string, pyval) dict \<Rightarrow> string" where
  "verdict_of d = (if get0 d ''verdict'' = PNone then [] else py_upper (py_strip (py_str (get0 d ''verdict''))))"

definition item_word :: "(string, pyval) dict \<Rightarrow> string \<Rightarrow> string \<Rightarrow> string" where
  "item_word i a b = text_of (py_or (get0 i a) (get0 i b))"

definition configured_words :: "string list" where "configured_words = [''configured'', ''configured-only'']"

text \<open>Some item of a dictionary of items whose status is only configured.\<close>

definition configured_item :: "((string, pyval) dict \<Rightarrow> string) \<Rightarrow> pyval \<Rightarrow> bool" where
  "configured_item word v = (case v of
       PDict items \<Rightarrow> list_ex (\<lambda>p. case snd p of PDict i \<Rightarrow> py_lower (word i) \<in> set configured_words | _ \<Rightarrow> False) items
     | _ \<Rightarrow> False)"

definition is_configured_only :: "(string, pyval) dict \<Rightarrow> bool" where
  "is_configured_only d =
     (if verdict_of d \<in> {''CONFIGURED'', ''CONFIGURED-ONLY''} then True
      else (let blob = py_lower (dumps_with False (PDict d))
        in if contains blob ''configured-only'' \<or> contains blob ''configured only'' then
             (if configured_item (\<lambda>i. item_word i ''status'' ''result'') (get0 d ''performed'') then True
              else if configured_item (\<lambda>i. text_of (get0 i ''status'')) (get0 d ''outcomes'') then True
              else verdict_of d \<notin> set pass_verdicts)
           else False))"

text \<open>An item of \<open>performed\<close> that is no dictionary is passed over.\<close>

definition drill_passed :: "pyval \<Rightarrow> bool" where
  "drill_passed v = (case v of
       PDict i \<Rightarrow> (let r = py_upper (item_word i ''result'' ''status'') in r \<in> set pass_verdicts \<or> r = ''OK'')
     | _ \<Rightarrow> True)"

definition outcome_performed :: "pyval \<Rightarrow> bool" where
  "outcome_performed v = (case v of PDict i \<Rightarrow> py_lower (text_of (get0 i ''status'')) = ''performed'' | _ \<Rightarrow> False)"

definition has_performed_drills :: "(string, pyval) dict \<Rightarrow> string \<Rightarrow> bool" where
  "has_performed_drills d stage =
     (if stage \<notin> set minimum_required then verdict_of d \<in> set pass_verdicts
      else if is_configured_only d then False
      else (case get0 d ''performed'' of
          PList (x # xs) \<Rightarrow> True
        | PDict (p # ps) \<Rightarrow> list_all (\<lambda>q. drill_passed (snd q)) (p # ps)
        | _ \<Rightarrow> (case get0 d ''outcomes'' of
              PDict (p # ps) \<Rightarrow> list_all (\<lambda>q. outcome_performed (snd q)) (p # ps)
            | _ \<Rightarrow> False)))"

definition reread_matches :: "(string, pyval) dict \<Rightarrow> (string, pyval) dict \<Rightarrow> bool" where
  "reread_matches evidence twin =
     (verdict_of evidence = verdict_of twin
      \<and> (case get0 twin ''disagreements'' of PList (x # xs) \<Rightarrow> False | _ \<Rightarrow> True))"

section \<open>The record of one file\<close>

record evidence_record =
  er_stage :: string
  er_evidence :: "string option"
  er_exists :: bool
  er_reread_exists :: bool
  er_reread_matches :: bool
  er_verdict :: "string option"
  er_performed :: bool
  er_configured_only :: bool
  er_ok :: bool
  er_reason :: "string option"

definition new_record :: "string \<Rightarrow> string option \<Rightarrow> bool \<Rightarrow> evidence_record" where
  "new_record stage ev present = \<lparr>er_stage = stage, er_evidence = ev, er_exists = present, er_reread_exists = False,
     er_reread_matches = False, er_verdict = None, er_performed = False, er_configured_only = False,
     er_ok = False, er_reason = None\<rparr>"

definition missing_record :: "string \<Rightarrow> evidence_record" where
  "missing_record stage = (new_record stage None False)\<lparr>er_reason := Some ''evidence_missing''\<rparr>"

text \<open>A parsed document that is no dictionary raises at its first \<open>get\<close>.\<close>

definition as_document :: "pyval \<Rightarrow> py_exn + (string, pyval) dict" where
  "as_document v = (case v of PDict d \<Rightarrow> Inr d | _ \<Rightarrow> Inl AttributeError)"

text \<open>The judgement of a record whose twin agrees.\<close>

definition judge_record :: "evidence_record \<Rightarrow> evidence_record" where
  "judge_record r =
     (let verdict = (case er_verdict r of Some v \<Rightarrow> v | None \<Rightarrow> [])
      in if er_configured_only r then r\<lparr>er_reason := Some ''configured_only''\<rparr>
         else if verdict \<in> set fail_verdicts \<or> verdict \<notin> set pass_verdicts then r\<lparr>er_reason := Some ''verdict_not_pass''\<rparr>
         else if er_stage r \<in> set minimum_required \<and> \<not> er_performed r
         then r\<lparr>er_reason := Some ''configured_only'', er_configured_only := True\<rparr>
         else r\<lparr>er_ok := True\<rparr>)"

definition evaluate_record :: "(string \<Rightarrow> string) \<Rightarrow> stages_dir \<Rightarrow> string \<Rightarrow> py_exn + evidence_record" where
  "evaluate_record parse_error dir name =
     (let stage = stage_of name; r0 = new_record stage (Some name) (dget dir name \<noteq> None)
      in case dget dir name of
           None \<Rightarrow> Inr (r0\<lparr>er_reason := Some ''evidence_missing''\<rparr>)
         | Some text \<Rightarrow> (case loads text of
             None \<Rightarrow> Inr (r0\<lparr>er_reason := Some (''evidence_unreadable:'' @ parse_error text)\<rparr>)
           | Some v \<Rightarrow> bind_result (as_document v) (\<lambda>d.
               let r1 = r0\<lparr>er_verdict := (if verdict_of d = [] then None else Some (verdict_of d)),
                   er_configured_only := is_configured_only d, er_performed := has_performed_drills d stage\<rparr>
               in case dget dir (reread_twin_path name) of
                    None \<Rightarrow> Inr (r1\<lparr>er_reason := Some ''reread_missing''\<rparr>)
                  | Some text2 \<Rightarrow> (let r2 = r1\<lparr>er_reread_exists := True\<rparr> in case loads text2 of
                      None \<Rightarrow> Inr (r2\<lparr>er_reason := Some (''reread_unreadable:'' @ parse_error text2)\<rparr>)
                    | Some w \<Rightarrow> map_result (\<lambda>twin.
                        if reread_matches d twin then judge_record (r2\<lparr>er_reread_matches := True\<rparr>)
                        else r2\<lparr>er_reason := Some ''reread_mismatch''\<rparr>) (as_document w)))))"

section \<open>The identity of a built tree\<close>

type_synonym disk = "(string, string) dict"

definition identity_rel :: string where "identity_rel = ''docs/package_identity.json''"

definition residue_names :: "string list" where
  "residue_names = [''build_ledger.jsonl'', ''__pycache__'', ''.pytest_cache'', ''.factory-staging'']"

definition residue_suffixes :: "string list" where "residue_suffixes = [''.pyc'', ''.pyo'']"

definition is_residue_path :: "string \<Rightarrow> bool" where
  "is_residue_path rel = (list_ex (\<lambda>part. part \<in> set residue_names) (split_on (CHR ''/'') rel)
     \<or> list_ex (ends_with rel) residue_suffixes)"

text \<open>The files below a directory with their texts, sorted by the components of their paths.\<close>

definition files_under :: "disk \<Rightarrow> string \<Rightarrow> (string \<times> string) list" where
  "files_under d base = sort_key (split_on (CHR ''/'') \<circ> fst)
     (List.map_filter (\<lambda>(p, t). map_option (\<lambda>rel. (rel, t)) (strip_prefix (base @ ''/'') p)) d)"

definition residue_paths :: "disk \<Rightarrow> string \<Rightarrow> string list" where
  "residue_paths d base = filter is_residue_path (map fst (files_under d base))"

definition payload_files :: "disk \<Rightarrow> string \<Rightarrow> (string \<times> string) list" where
  "payload_files d base = filter (\<lambda>p. \<not> is_residue_path (fst p) \<and> fst p \<noteq> identity_rel) (files_under d base)"

definition artifact_digest :: "(string \<Rightarrow> string) \<Rightarrow> disk \<Rightarrow> string \<Rightarrow> string" where
  "artifact_digest hash d base = hash (concat (map digest_item (payload_files d base)))"

definition identity_document :: "(string \<Rightarrow> string) \<Rightarrow> disk \<Rightarrow> string \<Rightarrow> (string, pyval) dict \<Rightarrow> (string, pyval) dict" where
  "identity_document hash d base extra = dmerge
     [(''schema_version'', PStr ''package_identity.v1''), (''algorithm'', PStr ''sha256''),
      (''digest'', PStr (artifact_digest hash d base)),
      (''digest_excludes'', PList (map PStr (sort residue_names @ [identity_rel]))),
      (''residue_present'', PList (map PStr (residue_paths d base)))] extra"

section \<open>The proof of a pilot cycle\<close>

definition ledger_name :: string where "ledger_name = ''build_ledger.jsonl''"

definition is_dir :: "disk \<Rightarrow> string \<Rightarrow> bool" where
  "is_dir d p = list_ex (\<lambda>q. starts_with q (p @ ''/'')) (dkeys d)"

definition last_part :: "string \<Rightarrow> string" where "last_part p = last (split_on (CHR ''/'') p)"

definition parent_path :: "string \<Rightarrow> string" where "parent_path p = join ''/'' (butlast (split_on (CHR ''/'') p))"

text \<open>The workspace that is asked for, then the one of the environment variable.\<close>

definition candidate_ledgers :: "disk \<Rightarrow> string option \<Rightarrow> string option \<Rightarrow> string list" where
  "candidate_ledgers d explicit env =
     filter (\<lambda>p. last_part p = ledger_name)
       (map (\<lambda>p. if is_dir d p then p @ ''/'' @ ledger_name else p)
         ((case explicit of None \<Rightarrow> [] | Some p \<Rightarrow> [p])
          @ (case env of None \<Rightarrow> [] | Some p \<Rightarrow> (if p = [] then [] else [p]))))"

definition pilot_event :: "pyval \<Rightarrow> bool" where
  "pilot_event v = (case v of
       PDict e \<Rightarrow> py_str (get0 e ''kind'') = ''RUN_SUCCEEDED''
         \<and> (case py_or (get0 e ''payload'') (PDict []) of
              PDict p \<Rightarrow> get0 p ''cycle'' = PStr ''pilot'' \<or> get0 p ''pilot_ready'' = PBool True
            | _ \<Rightarrow> False)
     | _ \<Rightarrow> False)"

definition pilot_line :: "string \<Rightarrow> pyval option" where
  "pilot_line raw = (let line = py_strip raw in if line = [] then None
     else case loads line of Some v \<Rightarrow> (if pilot_event v then Some v else None) | None \<Rightarrow> None)"

definition succeeded_pilot_events :: "string \<Rightarrow> pyval list" where
  "succeeded_pilot_events text = List.map_filter pilot_line (split_lines text)"

record identity_check =
  ic_matches :: bool
  ic_digest :: "string option"
  ic_stamped :: "string option"
  ic_reason :: "string option"

definition no_stamp_reason :: string where
  "no_stamp_reason = ''workspace has no '' @ identity_rel @ '' - the pilot cycle that wrote this ledger did not stamp the artifact, so the ledger cannot be tied to these bytes''"

definition changed_reason :: "string \<Rightarrow> string \<Rightarrow> string" where
  "changed_reason stamped actual = ''workspace does not match the identity its pilot cycle stamped (stamped ''
     @ take 12 stamped @ ''..., now '' @ take 12 actual @ ''...) - the tree changed after the cycle finished, so the ledger no longer describes it''"

definition verify_identity ::
  "(string \<Rightarrow> string) \<Rightarrow> (string \<Rightarrow> string) \<Rightarrow> disk \<Rightarrow> string \<Rightarrow> py_exn + identity_check" where
  "verify_identity hash parse_error d base =
     (let out = \<lparr>ic_matches = False, ic_digest = None, ic_stamped = None, ic_reason = None\<rparr>
      in case dget d (base @ ''/'' @ identity_rel) of
           None \<Rightarrow> Inr (out\<lparr>ic_reason := Some no_stamp_reason\<rparr>)
         | Some text \<Rightarrow> (case loads text of
             None \<Rightarrow> Inr (out\<lparr>ic_reason := Some (identity_rel @ '' is unreadable: '' @ parse_error text)\<rparr>)
           | Some v \<Rightarrow> map_result (\<lambda>doc.
               let stamped = text_of (get0 doc ''digest''); actual = artifact_digest hash d base;
                   out1 = out\<lparr>ic_stamped := (if stamped = [] then None else Some (take 16 stamped)), ic_digest := Some (take 16 actual)\<rparr>
               in if stamped = [] then out1\<lparr>ic_reason := Some (identity_rel @ '' records no digest'')\<rparr>
                  else if stamped \<noteq> actual then out1\<lparr>ic_reason := Some (changed_reason stamped actual)\<rparr>
                  else out1\<lparr>ic_matches := True\<rparr>) (as_document v)))"

record pilot_report =
  pc_ok :: bool
  pc_reason :: "string option"
  pc_ledger :: "string option"
  pc_runs :: nat
  pc_identity :: "identity_check option"

definition no_workspace_reason :: string where
  "no_workspace_reason = ''no pilot workspace given - set FACTORY_PILOT_WORKSPACE to the build workspace whose pilot cycle backs this promotion''"

text \<open>The first candidate that is a file decides.\<close>

definition inspect_ledger ::
  "(string \<Rightarrow> string) \<Rightarrow> (string \<Rightarrow> string) \<Rightarrow> disk \<Rightarrow> string \<Rightarrow> string \<Rightarrow> py_exn + pilot_report" where
  "inspect_ledger hash parse_error d p text =
     (let evs = succeeded_pilot_events text;
          r = \<lparr>pc_ok = False, pc_reason = None, pc_ledger = Some p, pc_runs = length evs, pc_identity = None\<rparr>
      in if evs = [] then Inr (r\<lparr>pc_reason := Some ''ledger has no RUN_SUCCEEDED event with cycle=pilot''\<rparr>)
         else map_result (\<lambda>i. let r1 = r\<lparr>pc_identity := Some i\<rparr>
             in if \<not> ic_matches i then r1\<lparr>pc_reason := ic_reason i\<rparr> else r1\<lparr>pc_ok := True\<rparr>)
           (verify_identity hash parse_error d (parent_path p)))"

definition inspect_pilot_cycle ::
  "(string \<Rightarrow> string) \<Rightarrow> (string \<Rightarrow> string) \<Rightarrow> disk \<Rightarrow> string option \<Rightarrow> string option \<Rightarrow> py_exn + pilot_report" where
  "inspect_pilot_cycle hash parse_error d explicit env =
     (let cs = candidate_ledgers d explicit env;
          r = \<lparr>pc_ok = False, pc_reason = None, pc_ledger = None, pc_runs = 0, pc_identity = None\<rparr>
      in case cs of
           [] \<Rightarrow> Inr (r\<lparr>pc_reason := Some no_workspace_reason\<rparr>)
         | c # _ \<Rightarrow> (case List.map_filter (\<lambda>p. map_option (Pair p) (dget d p)) cs of
               [] \<Rightarrow> Inr (r\<lparr>pc_reason := Some (''ledger not found at '' @ c)\<rparr>)
             | (p, text) # _ \<Rightarrow> inspect_ledger hash parse_error d p text))"

section \<open>The flag\<close>

record promotion_env =
  pe_sha :: "string \<Rightarrow> string"
  pe_error :: "string \<Rightarrow> string"
  pe_kernel :: bool
  pe_disk :: disk
  pe_workspace :: "string option"

record promotion =
  pr_ready :: bool
  pr_verdict :: string
  pr_first :: "string option"
  pr_required :: "string list"
  pr_cycle :: pilot_report
  pr_records :: "evidence_record list"
  pr_missing :: "string list"
  pr_failed :: "string list"

definition stage_records ::
  "(string \<Rightarrow> string) \<Rightarrow> stages_dir option \<Rightarrow> string list \<Rightarrow> string \<Rightarrow> py_exn + evidence_record list" where
  "stage_records parse_error dir present st = (case files_for_stage present st of
       [] \<Rightarrow> Inr [missing_record st]
     | files \<Rightarrow> map_res (evaluate_record parse_error (case dir of Some d \<Rightarrow> d | None \<Rightarrow> [])) files)"

definition failing_criterion :: "evidence_record \<Rightarrow> string" where
  "failing_criterion r = (case er_evidence r of Some n \<Rightarrow> n | None \<Rightarrow> er_stage r) @ '':''
     @ (case er_reason r of Some t \<Rightarrow> t | None \<Rightarrow> ''stage_not_ok'')"

definition first_failing :: "evidence_record list \<Rightarrow> string option" where
  "first_failing rs = map_option failing_criterion (List.find (\<lambda>r. \<not> er_ok r) rs)"

definition failed_files :: "evidence_record list \<Rightarrow> string list" where
  "failed_files rs = List.map_filter (\<lambda>r. if er_ok r then None else er_evidence r) rs"

definition evaluate_promotion ::
  "promotion_env \<Rightarrow> stages_dir option \<Rightarrow> string option \<Rightarrow> py_exn + promotion" where
  "evaluate_promotion e dir workspace =
     (let present = discover_evidence_files dir; required = required_stage_ids present
      in bind_result (map_res (stage_records (pe_error e) dir present) required) (\<lambda>rss.
         map_result (\<lambda>cycle.
           let rs = concat rss;
               missing = filter (\<lambda>st. files_for_stage present st = []) required;
               first0 = first_failing rs;
               kernel_first = (\<not> pe_kernel e \<and> first0 = None);
               first1 = (if kernel_first then Some ''kernel_ownership'' else first0);
               failed = failed_files rs @ (if kernel_first then [''kernel_ownership''] else [])
                 @ (if pc_ok cycle then [] else [''pilot_cycle'']);
               first2 = (if \<not> pc_ok cycle \<and> first1 = None
                 then Some (''pilot_cycle:'' @ (case pc_reason cycle of Some t \<Rightarrow> (if t = [] then ''unproven'' else t) | None \<Rightarrow> ''unproven''))
                 else first1);
               ready = (first2 = None \<and> missing = [] \<and> failed = [] \<and> pe_kernel e \<and> pc_ok cycle)
           in \<lparr>pr_ready = ready, pr_verdict = (if ready then ''PASS'' else ''FAIL''), pr_first = first2,
               pr_required = required, pr_cycle = cycle, pr_records = rs, pr_missing = missing, pr_failed = failed\<rparr>)
         (inspect_pilot_cycle (pe_sha e) (pe_error e) (pe_disk e) workspace (pe_workspace e))))"

end
