(* ===== verification/PromotionFacts.thy ===== *)
theory PromotionFacts
  imports Promotion GateWitnesses BlocksLockFacts
begin

text \<open>
  What the PILOT READY flag rests on: every evidence file with its agreeing twin and its
  performed drills, a pilot cycle in a ledger, and a tree that is the stamped one.  And what it
  does not see: a success that was withdrawn, a drill recorded by a word.
\<close>

section \<open>Stages and files\<close>

lemma stages_eval:
  "prior_stages = [''S0'', ''S1'', ''S2'', ''S3'', ''S4'', ''S5'', ''S6'', ''S7'', ''S8'', ''S9'', ''S10'', ''S11'', ''S12'']"
  "minimum_required = [''S10'', ''S11'', ''S12'']"
  by code_simp+

lemma stage_of_prefix:
  assumes "starts_with n (st @ ''_'')" and "CHR ''_'' \<notin> set st"
  shows "stage_of n = st"
proof -
  obtain r where "n = st @ CHR ''_'' # r" using assms(1) by (auto simp: starts_with_iff)
  moreover have "takeWhile (\<lambda>c. c \<noteq> CHR ''_'') st = st" using assms(2) by (auto simp: takeWhile_eq_all_conv)
  ultimately show ?thesis by (simp add: stage_of_def takeWhile_tail)
qed

lemma prior_plain: "st \<in> set prior_stages \<Longrightarrow> CHR ''_'' \<notin> set st"
  by (auto simp: stages_eval)

lemma stage_file_stage:
  assumes "stage_file_name n"
  shows "stage_of n \<in> set prior_stages \<and> starts_with n (stage_of n @ ''_'')"
proof -
  obtain st where "st \<in> set prior_stages" "starts_with n (st @ ''_'')"
    using assms by (auto simp: stage_file_name_def list_ex_iff)
  then show ?thesis using stage_of_prefix [OF _ prior_plain] by metis
qed

lemma files_for_stage_iff:
  assumes "st \<in> set prior_stages" and "n \<in> set (discover_evidence_files dir)"
  shows "n \<in> set (files_for_stage (discover_evidence_files dir) st) \<longleftrightarrow> stage_of n = st"
proof -
  have n: "stage_file_name n" "is_admitted_stage_evidence n"
    using assms(2) by (auto simp: discover_evidence_files_def split: option.splits)
  have sw: "starts_with n (st @ ''_'') \<longleftrightarrow> stage_of n = st"
    using stage_of_prefix [OF _ prior_plain [OF assms(1)]] stage_file_stage [OF n(1)] by blast
  have "stage_of s4_evidence_filename = ''S4''" by code_simp
  moreover have "n = s4_evidence_filename" if "starts_with n ''S4_''"
    using n(2) that by (auto simp: is_admitted_stage_evidence_def split: if_splits)
  ultimately show ?thesis
    using sw assms(2) by (cases "st = ''S4''") (auto simp: files_for_stage_def Let_def)
qed

lemma files_for_stage_sub: "set (files_for_stage present st) \<subseteq> set present"
  by (auto simp: files_for_stage_def Let_def)

section \<open>A record that passes\<close>

definition document_at :: "stages_dir \<Rightarrow> string \<Rightarrow> (string, pyval) dict option" where
  "document_at dir n = (case dget dir n of
       Some t \<Rightarrow> (case loads t of Some (PDict d) \<Rightarrow> Some d | _ \<Rightarrow> None) | None \<Rightarrow> None)"

text \<open>What a reader of the two documents asks of them.\<close>

definition evidence_passes :: "stages_dir \<Rightarrow> string \<Rightarrow> bool" where
  "evidence_passes dir n = (case (document_at dir n, document_at dir (reread_twin_path n)) of
       (Some d, Some twin) \<Rightarrow> verdict_of d \<in> set pass_verdicts \<and> verdict_of twin = verdict_of d
         \<and> \<not> (\<exists>x xs. get0 twin ''disagreements'' = PList (x # xs)) \<and> \<not> is_configured_only d
         \<and> (stage_of n \<in> set minimum_required \<longrightarrow> has_performed_drills d (stage_of n))
     | _ \<Rightarrow> False)"

lemma no_fail_passes: "v \<in> set pass_verdicts \<Longrightarrow> v \<notin> set fail_verdicts \<and> v \<noteq> []"
  by (auto simp: pass_verdicts_def fail_verdicts_def)

lemma empty_no_pass [simp]: "[] \<notin> set pass_verdicts"
  by (simp add: pass_verdicts_def)

lemma judge_ok:
  assumes "\<not> er_ok r"
  shows "er_ok (judge_record r) \<longleftrightarrow> \<not> er_configured_only r
     \<and> (case er_verdict r of Some v \<Rightarrow> v \<in> set pass_verdicts | None \<Rightarrow> False)
     \<and> (er_stage r \<in> set minimum_required \<longrightarrow> er_performed r)"
  using assms no_fail_passes
  by (auto simp: judge_record_def Let_def split: option.splits)

lemma record_ok_iff:
  assumes "evaluate_record pe dir n = Inr r"
  shows "er_ok r \<longleftrightarrow> evidence_passes dir n"
proof (cases "dget dir n")
  case None
  then show ?thesis using assms
    by (auto simp: evaluate_record_def Let_def new_record_def evidence_passes_def document_at_def)
next
  case (Some t1)
  show ?thesis
  proof (cases "loads t1")
    case None
    then show ?thesis using assms Some
      by (auto simp: evaluate_record_def Let_def new_record_def evidence_passes_def document_at_def)
  next
    case v: (Some v)
    obtain d where d: "v = PDict d" using assms Some v
      by (cases v) (auto simp: evaluate_record_def Let_def as_document_def)
    have doc: "document_at dir n = Some d" using Some v d by (simp add: document_at_def)
    show ?thesis
    proof (cases "document_at dir (reread_twin_path n)")
      case None
      then show ?thesis using assms Some v d
        by (auto simp: evaluate_record_def Let_def new_record_def evidence_passes_def document_at_def as_document_def
            split: option.splits pyval.splits)
    next
      case (Some twin)
      then obtain t2 where t2: "dget dir (reread_twin_path n) = Some t2" "loads t2 = Some (PDict twin)"
        by (auto simp: document_at_def split: option.splits pyval.splits)
      have "(\<not> (\<exists>x xs. get0 twin ''disagreements'' = PList (x # xs)))
          = (case get0 twin ''disagreements'' of PList (x # xs) \<Rightarrow> False | _ \<Rightarrow> True)"
        by (auto split: pyval.splits list.splits)
      then show ?thesis
        using assms \<open>dget dir n = Some t1\<close> v d t2 doc Some
        by (auto simp: evaluate_record_def Let_def new_record_def as_document_def evidence_passes_def
            reread_matches_def judge_ok split: if_splits)
    qed
  qed
qed

section \<open>The flag\<close>

lemma map_res_concat_ok:
  "map_res f xs = Inr rss \<Longrightarrow> (\<forall>r \<in> set (concat rss). P r) \<longleftrightarrow> (\<forall>x \<in> set xs. \<forall>rs. f x = Inr rs \<longrightarrow> (\<forall>r \<in> set rs. P r))"
  by (induction xs arbitrary: rss) (auto split: sum.splits)

lemma map_res_ok_all:
  "map_res f xs = Inr ys \<Longrightarrow> (\<And>x y. f x = Inr y \<Longrightarrow> P y \<longleftrightarrow> Q x) \<Longrightarrow>
   (\<forall>y \<in> set ys. P y) \<longleftrightarrow> (\<forall>x \<in> set xs. Q x)"
  by (induction xs arbitrary: ys) (auto 0 3 split: sum.splits)

lemma stage_records_ok:
  assumes "stage_records pe (Some dir) present st = Inr rs"
  shows "(\<forall>r \<in> set rs. er_ok r) \<longleftrightarrow> files_for_stage present st \<noteq> []
     \<and> (\<forall>n \<in> set (files_for_stage present st). evidence_passes dir n)"
proof (cases "files_for_stage present st")
  case Nil
  then show ?thesis using assms by (auto simp: stage_records_def missing_record_def new_record_def)
next
  case (Cons n ns)
  then have "map_res (evaluate_record pe dir) (n # ns) = Inr rs"
    using assms by (simp add: stage_records_def del: map_res.simps)
  from map_res_ok_all [OF this record_ok_iff] Cons show ?thesis by (simp del: map_res.simps)
qed

lemma first_failing_None: "first_failing rs = None \<longleftrightarrow> (\<forall>r \<in> set rs. er_ok r)"
  by (auto simp: first_failing_def find_None_iff)

lemma failed_files_ok: "\<forall>r \<in> set rs. er_ok r \<Longrightarrow> failed_files rs = []"
  by (induction rs) (auto simp: failed_files_def List.map_filter_simps)

lemma promotion_fields:
  assumes "evaluate_promotion e dir w = Inr r"
  obtains rss cycle where
    "map_res (stage_records (pe_error e) dir (discover_evidence_files dir)) (required_stage_ids (discover_evidence_files dir)) = Inr rss"
    "inspect_pilot_cycle (pe_sha e) (pe_error e) (pe_disk e) w (pe_workspace e) = Inr cycle"
    "pr_cycle r = cycle"
    "pr_ready r \<longleftrightarrow> (\<forall>x \<in> set (concat rss). er_ok x) \<and> pe_kernel e \<and> pc_ok cycle
       \<and> filter (\<lambda>st. files_for_stage (discover_evidence_files dir) st = []) (required_stage_ids (discover_evidence_files dir)) = []"
proof -
  obtain rss where r: "map_res (stage_records (pe_error e) dir (discover_evidence_files dir))
      (required_stage_ids (discover_evidence_files dir)) = Inr rss"
    using assms by (auto simp: evaluate_promotion_def Let_def result_simps)
  obtain cycle where c: "inspect_pilot_cycle (pe_sha e) (pe_error e) (pe_disk e) w (pe_workspace e) = Inr cycle"
    using assms by (auto simp: evaluate_promotion_def Let_def result_simps)
  have "pr_cycle r = cycle" using assms r c by (auto simp: evaluate_promotion_def Let_def)
  moreover have "pr_ready r \<longleftrightarrow> (\<forall>x \<in> set (concat rss). er_ok x) \<and> pe_kernel e \<and> pc_ok cycle
       \<and> filter (\<lambda>st. files_for_stage (discover_evidence_files dir) st = []) (required_stage_ids (discover_evidence_files dir)) = []"
    using assms r c first_failing_None [of "concat rss"] failed_files_ok [of "concat rss"]
    by (auto simp: evaluate_promotion_def Let_def simp del: set_concat)
  ultimately show ?thesis using that r c by blast
qed

text \<open>Property C20.  The flag is raised exactly when the kernel owns the routes, the pilot cycle is
  proved, each of S10, S11 and S12 has an evidence file, and every evidence file found passes:
  with its twin it says PASS, disagrees in nothing, and the drills of S10 to S12 were performed.\<close>

theorem promotion_is_earned:
  assumes "evaluate_promotion e (Some dir) w = Inr r"
  shows "pr_ready r \<longleftrightarrow> pe_kernel e \<and> pc_ok (pr_cycle r)
     \<and> (\<forall>st \<in> set minimum_required. \<exists>n \<in> set (discover_evidence_files (Some dir)). stage_of n = st)
     \<and> (\<forall>n \<in> set (discover_evidence_files (Some dir)). evidence_passes dir n)"
proof -
  define ps where "ps = discover_evidence_files (Some dir)"
  obtain rss where r: "map_res (stage_records (pe_error e) (Some dir) ps) (required_stage_ids ps) = Inr rss"
      "pr_ready r \<longleftrightarrow> (\<forall>x \<in> set (concat rss). er_ok x) \<and> pe_kernel e \<and> pc_ok (pr_cycle r)
       \<and> filter (\<lambda>st. files_for_stage ps st = []) (required_stage_ids ps) = []"
    using promotion_fields [OF assms, folded ps_def] by metis
  have oks: "\<exists>rs. stage_records (pe_error e) (Some dir) ps st = Inr rs" if "st \<in> set (required_stage_ids ps)" for st
    using r(1) that unfolding map_res_Inr_iff by (auto simp: list_all2_conv_all_nth in_set_conv_nth)
  have all: "(\<forall>x \<in> set (concat rss). er_ok x) \<longleftrightarrow> (\<forall>st \<in> set (required_stage_ids ps). files_for_stage ps st \<noteq> []
      \<and> (\<forall>n \<in> set (files_for_stage ps st). evidence_passes dir n))"
    unfolding map_res_concat_ok [OF r(1)] using stage_records_ok oks by meson
  have prior: "set minimum_required \<subseteq> set prior_stages" by (simp add: stages_eval)
  have req: "st \<in> set (required_stage_ids ps) \<longleftrightarrow> st \<in> set minimum_required \<or> st \<in> stage_of ` set ps" for st
    using stage_file_stage prior by (auto simp: required_stage_ids_def ps_def discover_evidence_files_def)
  have fs: "n \<in> set (files_for_stage ps st) \<longleftrightarrow> n \<in> set ps \<and> stage_of n = st" if "st \<in> set (required_stage_ids ps)" for n st
    using files_for_stage_iff [of st n "Some dir"] files_for_stage_sub [of ps st] that
    by (auto simp: ps_def required_stage_ids_def)
  have ne: "files_for_stage ps st \<noteq> [] \<longleftrightarrow> (\<exists>n \<in> set ps. stage_of n = st)" if "st \<in> set (required_stage_ids ps)" for st
    using fs [OF that] by (metis empty_iff list.set(1) list.set_intros(1) neq_Nil_conv)
  show ?thesis
    unfolding r(2) all ps_def [symmetric] filter_empty_conv using fs ne req by (auto; blast)
qed

section \<open>The tree that was stamped\<close>

lemma verified_identity:
  assumes "verify_identity hash pe d b = Inr i"
  shows "ic_matches i \<longleftrightarrow> (\<exists>doc. document_at d (b @ ''/'' @ identity_rel) = Some doc
     \<and> text_of (get0 doc ''digest'') = artifact_digest hash d b \<and> artifact_digest hash d b \<noteq> [])"
  using assms
  by (auto simp: verify_identity_def document_at_def as_document_def Let_def split: option.splits pyval.splits if_splits)

lemma found_ledger:
  assumes "List.map_filter (\<lambda>p. map_option (Pair p) (dget d p)) cs = (p, t) # r"
  shows "p \<in> set cs \<and> dget d p = Some t"
proof -
  have "(p, t) \<in> set (List.map_filter (\<lambda>p. map_option (Pair p) (dget d p)) cs)" using assms by simp
  then show ?thesis by (auto simp: List.map_filter_def)
qed

lemma cycle_proved:
  assumes "inspect_pilot_cycle hash pe d w env = Inr r" and "pc_ok r"
  obtains p t i where "pc_ledger r = Some p" "p \<in> set (candidate_ledgers d w env)" "dget d p = Some t"
    "succeeded_pilot_events t \<noteq> []" "verify_identity hash pe d (parent_path p) = Inr i" "ic_matches i"
proof -
  obtain c cs where c: "candidate_ledgers d w env = c # cs"
    using assms by (cases "candidate_ledgers d w env") (auto simp: inspect_pilot_cycle_def)
  obtain p t q where f: "List.map_filter (\<lambda>p. map_option (Pair p) (dget d p)) (c # cs) = (p, t) # q"
    using assms c by (cases "List.map_filter (\<lambda>p. map_option (Pair p) (dget d p)) (c # cs)")
      (auto simp: inspect_pilot_cycle_def)
  have "inspect_ledger hash pe d p t = Inr r" using assms(1) c f by (simp add: inspect_pilot_cycle_def)
  then have "pc_ledger r = Some p \<and> succeeded_pilot_events t \<noteq> []
      \<and> (\<exists>i. verify_identity hash pe d (parent_path p) = Inr i \<and> ic_matches i)"
    using assms(2) by (auto simp: inspect_ledger_def Let_def result_simps split: if_splits)
  then show ?thesis using that found_ledger [OF f] c by metis
qed

definition tree_bytes :: "disk \<Rightarrow> string \<Rightarrow> string" where
  "tree_bytes d b = concat (map digest_item (payload_files d b))"

definition plain_tree :: "disk \<Rightarrow> string \<Rightarrow> bool" where
  "plain_tree d b = list_all (\<lambda>p. zero_free (fst p) \<and> zero_free (snd p)) (payload_files d b)"

lemma same_digest_same_files:
  assumes "artifact_digest hash d b = artifact_digest hash d0 b0" and "plain_tree d b" "plain_tree d0 b0"
    and "hash (tree_bytes d b) = hash (tree_bytes d0 b0) \<Longrightarrow> tree_bytes d b = tree_bytes d0 b0"
  shows "payload_files d b = payload_files d0 b0"
  using digest_items_inj assms unfolding plain_tree_def artifact_digest_def tree_bytes_def by blast

lemma identity_digest:
  assumes "dget extra ''digest'' = None" and "dict_ok extra"
  shows "text_of (get0 (identity_document hash d b extra) ''digest'') = artifact_digest hash d b"
  using assms by (simp add: identity_document_def get_or_def dget_dmerge)

text \<open> A proved pilot cycle names a ledger that holds a pilot success, in a tree that is,
  file by file and byte by byte, the one whose identity was stamped there: for trees without zero
  bytes and a digest that does not collide on the two, whatever became of ledgers, caches and bytecode.\<close>

theorem proved_tree_is_the_stamped_one:
  assumes "inspect_pilot_cycle hash pe d w env = Inr r" and "pc_ok r" and "pc_ledger r = Some p"
    and "document_at d (parent_path p @ ''/'' @ identity_rel) = Some (identity_document hash d0 b0 extra)"
    and "dget extra ''digest'' = None" "dict_ok extra" and "plain_tree d (parent_path p)" "plain_tree d0 b0"
    and "hash (tree_bytes d (parent_path p)) = hash (tree_bytes d0 b0) \<Longrightarrow> tree_bytes d (parent_path p) = tree_bytes d0 b0"
  shows "payload_files d (parent_path p) = payload_files d0 b0
     \<and> (\<exists>t. dget d p = Some t \<and> succeeded_pilot_events t \<noteq> [])"
proof -
  obtain t i where t: "dget d p = Some t" "succeeded_pilot_events t \<noteq> []"
      "verify_identity hash pe d (parent_path p) = Inr i" "ic_matches i"
    using cycle_proved [OF assms(1,2)] assms(3) by (metis option.inject)
  then have "artifact_digest hash d (parent_path p) = artifact_digest hash d0 b0"
    using verified_identity [OF t(3)] assms(4) identity_digest [OF assms(5,6)] by auto
  from same_digest_same_files [OF this assms(7,8,9)] t(1,2) show ?thesis by simp
qed

section \<open>A ledger that grows\<close>

lemma split_lines_acc_closed:
  "x \<noteq> [] \<Longrightarrow> last x = CHR 0x0A \<Longrightarrow> split_lines_acc acc (x @ t) = split_lines_acc acc x @ split_lines_acc [] t"
proof (induction acc x rule: split_lines_acc.induct)
  case (2 acc c)
  then show ?case by (cases t) (simp_all add: line_break_def)
next
  case (3 acc c d cs)
  show ?case
  proof (cases "c = CHR 0x0D \<and> d = CHR 0x0A")
    case True
    then have e: "split_lines_acc acc (c # d # r) = rev acc # split_lines_acc [] r" for r by simp
    have "split_lines_acc [] (cs @ t) = split_lines_acc [] cs @ split_lines_acc [] t"
      using 3(1) [OF True] 3(4,5) by (cases "cs = []") auto
    then show ?thesis using e [of "cs @ t"] e [of cs] by simp
  next
    case False
    have "split_lines_acc acc ((c # d # cs) @ t) = (if line_break c then rev acc # split_lines_acc [] ((d # cs) @ t)
        else split_lines_acc (c # acc) ((d # cs) @ t))" using False by auto
    also have "\<dots> = (if line_break c then rev acc # split_lines_acc [] (d # cs)
        else split_lines_acc (c # acc) (d # cs)) @ split_lines_acc [] t" using 3(2,3) 3(5) False by auto
    also have "\<dots> = split_lines_acc acc (c # d # cs) @ split_lines_acc [] t" using False by auto
    finally show ?thesis .
  qed
qed simp

lemma pilot_events_append:
  assumes "closed_text s"
  shows "succeeded_pilot_events (s @ t) = succeeded_pilot_events s @ succeeded_pilot_events t"
proof (cases "s = []")
  case True
  then show ?thesis by (simp add: succeeded_pilot_events_def split_lines_def List.map_filter_simps)
next
  case False
  then have "split_lines (s @ t) = split_lines s @ split_lines t"
    using assms by (simp add: split_lines_def closed_text_def split_lines_acc_closed)
  then show ?thesis by (simp add: succeeded_pilot_events_def List.map_filter_def)
qed

definition ledger_path :: "string \<Rightarrow> string" where "ledger_path w = w @ ''/'' @ ledger_name"

lemma ledger_path_parts: "parent_path (ledger_path w) = w" "last_part (ledger_path w) = ledger_name"
proof -
  have n: "split_on (CHR ''/'') ledger_name = [ledger_name]" by code_simp
  have "join ''/'' (split_on (CHR ''/'') x) = x" for x
  proof (induction x)
    case (Cons c x)
    obtain y ys where "split_on (CHR ''/'') x = y # ys" by (cases "split_on (CHR ''/'') x") auto
    then show ?case using Cons by (cases ys) auto
  qed simp
  then show "parent_path (ledger_path w) = w" "last_part (ledger_path w) = ledger_name"
    using split_on_sep [of "CHR ''/''" w ledger_name]
    by (simp_all add: parent_path_def last_part_def ledger_path_def n)
qed

lemma strip_prefix_same: "strip_prefix x (x @ y) = Some y"
  by (induction x) auto

text \<open>A residue file may change without changing what the digest reads.\<close>

lemma payload_dset:
  assumes "is_residue_path rel"
  shows "payload_files (dset (b @ ''/'' @ rel) u d) b = payload_files d b"
proof -
  define g where "g = (\<lambda>(p, t :: string). map_option (\<lambda>r. (r, t)) (strip_prefix (b @ ''/'') p))"
  define P where "P = (\<lambda>p :: string \<times> string. \<not> is_residue_path (fst p) \<and> fst p \<noteq> identity_rel)"
  have g: "g (b @ ''/'' @ rel, x) = Some (rel, x)" for x
    using strip_prefix_same [of "b @ ''/''" rel] by (simp add: g_def)
  have "filter P (List.map_filter g (dset (b @ ''/'' @ rel) u d)) = filter P (List.map_filter g d)"
    by (induction d) (auto simp: List.map_filter_simps g [simplified] P_def assms split: option.splits)
  then show ?thesis by (simp add: payload_files_def files_under_def g_def P_def filter_sort)
qed

lemma dkeys_dset_same: "k \<in> set (dkeys d) \<Longrightarrow> dkeys (dset k v d) = dkeys d"
  by (induction d) auto

lemma grown_ledger:
  assumes "dget d (ledger_path w) = Some s" and "closed_text s"
    and "inspect_pilot_cycle hash pe d (Some w) env = Inr r" "pc_ok r"
  shows "\<exists>r1. inspect_pilot_cycle hash pe (dset (ledger_path w) (s @ t) d) (Some w) env = Inr r1 \<and> pc_ok r1"
proof -
  define d1 where "d1 = dset (ledger_path w) (s @ t) d"
  have k: "dkeys d1 = dkeys d"
    using dkeys_dset_same [of "ledger_path w" d "s @ t"] assms(1) by (force simp: d1_def dest: map_of_SomeD)
  have cs: "candidate_ledgers d1 x y = candidate_ledgers d x y" for x y
    by (simp add: candidate_ledgers_def is_dir_def k)
  have "ledger_path w \<in> set (dkeys d)" using assms(1) by (force dest: map_of_SomeD)
  then have "is_dir d w" by (force simp: is_dir_def list_ex_iff starts_with_iff ledger_path_def)
  then obtain q where c: "candidate_ledgers d (Some w) env = ledger_path w # q"
    using ledger_path_parts(2) [of w] by (auto simp: candidate_ledgers_def ledger_path_def)
  have at: "dget d1 (ledger_path w) = Some (s @ t)" by (simp add: d1_def dict_simps)
  have i0: "inspect_ledger hash pe d (ledger_path w) s = Inr r"
    using assms(1,3) c by (simp add: inspect_pilot_cycle_def List.map_filter_simps)
  have "is_residue_path ledger_name" by code_simp
  then have pay: "payload_files d1 w = payload_files d w"
    using payload_dset [of ledger_name w "s @ t" d] by (simp add: d1_def ledger_path_def)
  have "w @ ''/'' @ identity_rel \<noteq> ledger_path w" by (simp add: ledger_path_def identity_rel_def ledger_name_def)
  then have "dget d1 (w @ ''/'' @ identity_rel) = dget d (w @ ''/'' @ identity_rel)" by (simp add: d1_def dict_simps)
  then have v: "verify_identity hash pe d1 w = verify_identity hash pe d w"
    by (simp only: verify_identity_def artifact_digest_def pay)
  have evs: "succeeded_pilot_events s \<noteq> []" and "\<exists>i. verify_identity hash pe d w = Inr i \<and> ic_matches i"
    using i0 assms(4) by (auto simp: inspect_ledger_def Let_def ledger_path_parts result_simps split: if_splits)
  then obtain i where i: "verify_identity hash pe d w = Inr i" "ic_matches i" by blast
  have "succeeded_pilot_events (s @ t) \<noteq> []" using evs pilot_events_append [OF assms(2)] by simp
  then have "\<exists>r1. inspect_ledger hash pe d1 (ledger_path w) (s @ t) = Inr r1 \<and> pc_ok r1"
    using v i by (simp add: inspect_ledger_def Let_def ledger_path_parts)
  moreover have "inspect_pilot_cycle hash pe d1 (Some w) env = inspect_ledger hash pe d1 (ledger_path w) (s @ t)"
    using c cs at by (simp add: inspect_pilot_cycle_def List.map_filter_simps)
  ultimately show ?thesis unfolding d1_def [symmetric] by simp
qed

lemma log_event_contents:
  assumes "log_event se k r d p f = (None, g)" and "contents f = Some s"
  shows "\<exists>x. contents g = Some (s @ x)"
proof -
  obtain evs where e: "events f = Inr evs" using assms(1) by (cases "events f") (auto simp: log_event_def)
  obtain g1 where "append_event (st_clock se (next_seq evs)) k r d p f
      = Inr (new_event (st_clock se (next_seq evs)) k r d p evs, g1)"
      "contents g1 = Some (s @ event_line (new_event (st_clock se (next_seq evs)) k r d p evs) @ [newline])"
    using append_event_eq [OF e assms(2)] by blast
  then show ?thesis using assms(1) e by (simp add: log_event_def)
qed

lemma withdrawal_contents:
  assumes "record_certification_withdrawn e why (g, n) = (Inr True, h, m)" and "contents (gs_ledger g) = Some s"
  shows "\<exists>x. contents (gs_ledger h) = Some (s @ x)"
proof -
  define d p q where "d = withdrawn_word @ '': '' @ why"
    and "p = [(''honesty'', PStr withdrawn_word), (''check'', PStr store_gate_context)]"
    and "q = [(''outcome'', PStr ''FAILED_GATE''), (''honesty'', PStr withdrawn_word), (''pilot_ready'', PBool False), (''green'', PBool False)]"
  obtain f where f: "gate_log e GATE_FAILED d p (gs_ledger g) = (None, f)"
      "gate_log e RUN_FAILED d q f = (None, gs_ledger h)"
    using assms by (auto simp: record_certification_withdrawn_def bind_gate_def ledger_gate_def d_def [symmetric, simplified] p_def [symmetric] q_def [symmetric]
        split: sum.splits if_splits prod.splits option.splits)
  obtain x where x: "contents f = Some (s @ x)" using log_event_contents [OF f(1) [unfolded gate_log_def] assms(2)] by blast
  from log_event_contents [OF f(2) [unfolded gate_log_def] x] show ?thesis by auto
qed

text \<open>Property C40.  A withdrawn certification goes on proving the pilot cycle: after the withdrawal
  the run counts as failed, but its workspace still passes the inspection.\<close>

theorem withdrawn_success_still_proves:
  assumes "readable (gs_ledger g)" and "contents (gs_ledger g) = Some s" and "dget d (ledger_path w) = Some s"
    and "inspect_pilot_cycle hash pe d (Some w) env = Inr r" "pc_ok r"
    and "record_certification_withdrawn e why (g, n) = (Inr True, h, m)"
  shows "\<not> succeeded (event_list (gs_ledger h))
     \<and> (\<exists>t r1. contents (gs_ledger h) = Some t
          \<and> inspect_pilot_cycle hash pe (dset (ledger_path w) t d) (Some w) env = Inr r1 \<and> pc_ok r1)"
proof -
  obtain x where x: "contents (gs_ledger h) = Some (s @ x)"
    using withdrawal_contents [OF assms(6,2)] by blast
  have "closed_text s" using assms(1,2) by (simp add: readable_def intact_def)
  from grown_ledger [OF assms(3) this assms(4,5), of x] x
  have "\<exists>t r1. contents (gs_ledger h) = Some t
      \<and> inspect_pilot_cycle hash pe (dset (ledger_path w) t d) (Some w) env = Inr r1 \<and> pc_ok r1" by blast
  moreover have "\<not> succeeded (event_list (gs_ledger h))"
    using withdrawn_once [of g e why n] assms(1,2,6) by (auto split: if_splits)
  ultimately show ?thesis by blast
qed

section \<open>Drills recorded by a word\<close>

text \<open> When no item of \<open>performed\<close> is a dictionary, whatever the items say counts as
  performed drills, also for the stages that must show them.\<close>

theorem undone_drill_counts:
  assumes "get0 d ''performed'' = PDict items" and "items \<noteq> []" and "list_all (\<lambda>p. \<forall>i. snd p \<noteq> PDict i) items"
    and "\<not> is_configured_only d" and "st \<in> set minimum_required"
  shows "has_performed_drills d st"
proof -
  have "drill_passed (snd p)" if "p \<in> set items" for p
    using assms(3) that by (auto simp: drill_passed_def list_all_iff split: pyval.splits)
  then show ?thesis using assms by (cases items) (auto simp: has_performed_drills_def list_all_iff)
qed

section \<open>A workspace and its stages\<close>

definition demo_pilot_run :: "build_event list" where
  "demo_pilot_run = [
     \<lparr>seq = 1, ts = ''10'', kind = RUN_STARTED, role = None, detail = [], payload = []\<rparr>,
     \<lparr>seq = 2, ts = ''11'', kind = RUN_SUCCEEDED, role = None, detail = [], payload = [(''cycle'', PStr ''pilot'')]\<rparr>]"

definition demo_pilot_ledger :: string where
  "demo_pilot_ledger = concat (map (\<lambda>e. event_line e @ [newline]) demo_pilot_run)"

definition demo_tree :: disk where
  "demo_tree = [(''w/build_ledger.jsonl'', demo_pilot_ledger), (''w/app.py'', ''x'')]"

definition demo_disk :: disk where
  "demo_disk = (''w/docs/package_identity.json'', dumps_raw (PDict (identity_document (\<lambda>x. x) demo_tree ''w'' []))) # demo_tree"

definition demo_stages :: stages_dir where
  "demo_stages = concat (map (\<lambda>st.
     [(st @ ''_x.json'', dumps_raw (PDict [(''verdict'', PStr ''PASS''), (''performed'', PList [PStr ''drill''])])),
      (st @ ''_x.reread.json'', dumps_raw (PDict [(''verdict'', PStr ''PASS''), (''disagreements'', PList [])]))])
     [''S10'', ''S11'', ''S12''])"

definition demo_promotion :: promotion_env where
  "demo_promotion = \<lparr>pe_sha = (\<lambda>x. x), pe_error = (\<lambda>x. []), pe_kernel = True, pe_disk = demo_disk, pe_workspace = Some ''w''\<rparr>"

lemma demo_promoted: "case evaluate_promotion demo_promotion (Some demo_stages) None of Inr r \<Rightarrow> pr_ready r | Inl x \<Rightarrow> False"
  by code_simp

theorem promotion_is_earned_witness:
  "\<exists>r. evaluate_promotion demo_promotion (Some demo_stages) None = Inr r \<and> pr_ready r
     \<and> evidence_passes demo_stages ''S11_x.json''"
proof -
  obtain r where r: "evaluate_promotion demo_promotion (Some demo_stages) None = Inr r" "pr_ready r"
    using demo_promoted by (auto split: sum.splits)
  have "''S11_x.json'' \<in> set (discover_evidence_files (Some demo_stages))" by code_simp
  then show ?thesis using promotion_is_earned [OF r(1)] r by blast
qed

lemma demo_cycle: "case inspect_pilot_cycle (\<lambda>x. x) (\<lambda>x. []) demo_disk (Some ''w'') None of
     Inr r \<Rightarrow> pc_ok r \<and> pc_ledger r = Some ''w/build_ledger.jsonl'' | Inl x \<Rightarrow> False"
  by code_simp

theorem proved_tree_is_the_stamped_one_witness:
  "payload_files demo_disk ''w'' = payload_files demo_tree ''w''"
proof -
  obtain r where r: "inspect_pilot_cycle (\<lambda>x. x) (\<lambda>x. []) demo_disk (Some ''w'') None = Inr r" "pc_ok r"
      "pc_ledger r = Some ''w/build_ledger.jsonl''"
    using demo_cycle by (auto split: sum.splits)
  have p: "parent_path ''w/build_ledger.jsonl'' = ''w''" by code_simp
  have "document_at demo_disk (''w'' @ ''/'' @ identity_rel) = Some (identity_document (\<lambda>x. x) demo_tree ''w'' [])"
    "plain_tree demo_disk ''w''" "plain_tree demo_tree ''w''" by code_simp+
  then show ?thesis using proved_tree_is_the_stamped_one [OF r, of demo_tree "''w''" "[]"] unfolding p by simp
qed

theorem withdrawn_success_still_proves_witness:
  "\<exists>h t r. record_certification_withdrawn (demo_gate no_route) ''red'' (demo_gate_space demo_pilot_run, 0) = (Inr True, h, 0)
     \<and> contents (gs_ledger h) = Some t \<and> \<not> succeeded (event_list (gs_ledger h))
     \<and> inspect_pilot_cycle (\<lambda>x. x) (\<lambda>x. []) (dset (ledger_path ''w'') t demo_disk) (Some ''w'') None = Inr r \<and> pc_ok r"
proof -
  obtain r where r: "inspect_pilot_cycle (\<lambda>x. x) (\<lambda>x. []) demo_disk (Some ''w'') None = Inr r" "pc_ok r"
    using demo_cycle by (auto split: sum.splits)
  have f: "readable (file_of demo_pilot_run)" "event_list (file_of demo_pilot_run) = demo_pilot_run"
    using file_of_readable [of demo_pilot_run] by (simp_all add: demo_pilot_run_def stored_def canon_dict_def)
  have c: "contents (file_of demo_pilot_run) = Some demo_pilot_ledger" by (simp add: file_of_def demo_pilot_ledger_def)
  have "succeeded demo_pilot_run" by code_simp
  then obtain h where h: "record_certification_withdrawn (demo_gate no_route) ''red'' (demo_gate_space demo_pilot_run, 0) = (Inr True, h, 0)"
    using withdrawn_once [of "demo_gate_space demo_pilot_run" "demo_gate no_route" "''red''" 0 "[]" 0] f c by auto
  have "dget demo_disk (ledger_path ''w'') = Some demo_pilot_ledger" by code_simp
  then show ?thesis
    using withdrawn_success_still_proves [OF _ _ _ r h] f c h by auto
qed

theorem undone_drill_counts_witness:
  "has_performed_drills [(''verdict'', PStr ''PASS''), (''performed'', PDict [(''restore'', PStr ''not performed'')])] ''S10''"
proof -
  have "\<not> is_configured_only [(''verdict'', PStr ''PASS''), (''performed'', PDict [(''restore'', PStr ''not performed'')])]"
    "''S10'' \<in> set minimum_required" by code_simp+
  then show ?thesis by (intro undone_drill_counts [where items = "[(''restore'', PStr ''not performed'')]"]) (simp_all add: get_or_def)
qed

end
