(* ===== verification/Authorship.thy ===== *)
theory Authorship
  imports Acceptance BuildsPush
begin

text \<open>
  How much of a platform a coding agent wrote (\<open>factory/build/authorship.py\<close>): the sources that
  count as an agent, the required capabilities of a build, the authored action handlers and
  their floor, and the refusal to export a thin build that claims to be green.  A blueprint or
  plan object enters as the dictionary of its fields, a workspace by the parsed texts of its
  documents.  The sign for \<open>at least\<close> and the dash of messages are written in ASCII.
\<close>

section \<open>Sources\<close>

definition agent_source_prefixes :: "string list" where
  "agent_source_prefixes = [''coder LLM'', ''coder CLI'', ''FACTORY_CODE_CLI'', ''codewhale'']"

definition agent_source_exact :: "string list" where
  "agent_source_exact = [''harvested workspace handler'', ''compiled-brief oneshot'']"

definition is_coding_agent_source :: "pyval \<Rightarrow> bool" where
  "is_coding_agent_source source =
     (let t = py_strip (text_of source)
      in if t = [] then False
         else if list_ex (starts_with t) agent_source_prefixes then True
         else py_lower t \<in> set agent_source_exact)"

definition coding_agent_artifact_ids :: "(string, pyval) dict \<Rightarrow> string list" where
  "coding_agent_artifact_ids sources = sort (map fst (filter (\<lambda>p. is_coding_agent_source (snd p)) sources))"

record authorship_counts =
  ct_artifacts :: nat
  ct_written :: nat
  ct_templated :: nat

definition writer_authorship_counts :: "(string, pyval) dict \<Rightarrow> authorship_counts" where
  "writer_authorship_counts sources =
     (let written = length (coding_agent_artifact_ids sources)
      in \<lparr>ct_artifacts = length sources, ct_written = written, ct_templated = length sources - written\<rparr>)"

text \<open>The ids of \<open>xs\<close> stripped, without empty ones, each once.\<close>

fun unique_ids_from :: "string list \<Rightarrow> string list \<Rightarrow> string list" where
  "unique_ids_from ids [] = ids"
| "unique_ids_from ids (x # xs) =
     (let c = py_strip x in unique_ids_from (if c \<noteq> [] \<and> c \<notin> set ids then ids @ [c] else ids) xs)"

definition unique_ids :: "pyval \<Rightarrow> py_exn + string list" where
  "unique_ids v = map_result (\<lambda>xs. unique_ids_from [] (map text_of xs)) (py_iter (py_or v (PList [])))"

definition dispatch_map :: "(string, pyval) dict \<Rightarrow> (string, pyval) dict" where
  "dispatch_map raw = (case get0 raw ''brief_dispatch'' of PDict d \<Rightarrow> d | _ \<Rightarrow> raw)"

definition kept_handler_ids_from :: "(string, pyval) dict \<Rightarrow> py_exn + string list" where
  "kept_handler_ids_from raw = unique_ids (get0 (dispatch_map raw) ''kept_handler_ids'')"

text \<open>None when the field was never recorded.\<close>

definition cli_authored_ids_from :: "(string, pyval) dict \<Rightarrow> py_exn + string list option" where
  "cli_authored_ids_from raw = (if dget (dispatch_map raw) ''cli_authored_ids'' = None then Inr None
     else map_result Some (unique_ids (get0 (dispatch_map raw) ''cli_authored_ids'')))"

definition promote_cli_keep_ids :: "(string, pyval) dict \<Rightarrow> py_exn + string list" where
  "promote_cli_keep_ids raw = bind_result (cli_authored_ids_from raw) (\<lambda>a.
     case a of Some ids \<Rightarrow> Inr ids | None \<Rightarrow> kept_handler_ids_from raw)"

text \<open>Written wins: no id is in both lists.\<close>

definition exclusive_authorship_caps :: "string list \<Rightarrow> string list \<Rightarrow> string list \<times> string list" where
  "exclusive_authorship_caps written templated =
     (let w = unique_ids_from [] written
      in (w, filter (\<lambda>c. c \<notin> set w) (unique_ids_from [] templated)))"

definition dual_listed_capability_ids :: "string list \<Rightarrow> string list \<Rightarrow> string list" where
  "dual_listed_capability_ids written templated = sort (remdups (filter (\<lambda>c. c \<in> set templated) written))"

section \<open>Required capabilities\<close>

definition full_pilot_min :: int where "full_pilot_min = 5"

definition full_pilot_authorship_need :: "int option \<Rightarrow> int" where
  "full_pilot_authorship_need n_required = (case n_required of
       None \<Rightarrow> full_pilot_min
     | Some n \<Rightarrow> (if n \<le> 0 then full_pilot_min else min full_pilot_min (max 1 n)))"

definition capability_id :: "pyval \<Rightarrow> string" where
  "capability_id item = (case item of
       PStr s \<Rightarrow> (let t = py_strip s in if t = [] \<or> CHR '' '' \<in> set t \<or> CHR '':'' \<in> set t \<or> CHR ''/'' \<in> set t then [] else t)
     | PDict d \<Rightarrow> py_strip (text_of (py_or (get0 d ''id'') (get0 d ''capability_id'')))
     | _ \<Rightarrow> [])"

definition capability_is_required :: "pyval \<Rightarrow> bool" where
  "capability_is_required item = (case item of
       PDict d \<Rightarrow> (dget d ''required'' = None \<or> get0 d ''required'' \<noteq> PBool False) | _ \<Rightarrow> True)"

definition count_required_capabilities :: "pyval \<Rightarrow> int option" where
  "count_required_capabilities items = (case items of
       PInt i \<Rightarrow> (if i > 0 then Some i else None)
     | PList xs \<Rightarrow> (let ids = remdups (filter (\<lambda>c. c \<noteq> []) (map capability_id (filter capability_is_required xs)))
         in if ids = [] then None else Some (int (length ids)))
     | _ \<Rightarrow> None)"

definition first_some :: "'a option list \<Rightarrow> 'a option" where
  "first_some xs = (case List.map_filter id xs of [] \<Rightarrow> None | x # _ \<Rightarrow> Some x)"

lemma size_get0: "size (get0 d k) < size (PDict d)"
proof -
  have "size v < Suc (size_list (size_prod (\<lambda>x. 0) size) d)" if "(k, v) \<in> set d" for v
    using that by (induction d) auto
  then show ?thesis by (auto simp: get_or_def dest: map_of_SomeD split: option.split)
qed

function n_required_from_blueprintish :: "pyval \<Rightarrow> int option" where
  "n_required_from_blueprintish source = (case source of
       PDict d \<Rightarrow> (case count_required_capabilities (get0 d ''capabilities'') of
           Some n \<Rightarrow> Some n
         | None \<Rightarrow> (case n_required_from_blueprintish (get0 d ''blueprint'') of
               Some n \<Rightarrow> Some n | None \<Rightarrow> n_required_from_blueprintish (get0 d ''plan'')))
     | _ \<Rightarrow> None)"
  by pat_completeness auto
termination by (relation "measure size") (use size_get0 in auto)

declare n_required_from_blueprintish.simps [simp del]

text \<open>What the lookup may find in a workspace: its parsed documents and the blueprint parked on
  the session; None when the directory does not exist.\<close>

record workspace_docs =
  wd_docs :: "pyval option list"
  wd_parked :: pyval

definition named_count :: "(string, pyval) dict \<Rightarrow> string list \<Rightarrow> int option" where
  "named_count d keys = first_some (map (\<lambda>k. count_required_capabilities (get0 d k)) keys)"

definition document_count :: "pyval option \<Rightarrow> int option" where
  "document_count doc = (case doc of
       Some (PDict d) \<Rightarrow> first_some [named_count d [''n_required'', ''n_required_capabilities'', ''capabilities''],
         (case get0 d ''plan'' of PDict p \<Rightarrow> count_required_capabilities (get0 p ''capabilities'') | _ \<Rightarrow> None)]
     | _ \<Rightarrow> None)"

definition n_required_capabilities_from ::
  "(string, pyval) dict \<Rightarrow> workspace_docs option \<Rightarrow> pyval \<Rightarrow> pyval \<Rightarrow> int option" where
  "n_required_capabilities_from status ws plan blueprint =
     (let blobs = (case get0 status ''authorship'' of PDict a \<Rightarrow> [a] | _ \<Rightarrow> []) @ [status]
      in first_some
        (map (\<lambda>b. named_count b [''n_required'', ''n_required_capabilities'', ''required_capabilities'']) blobs
         @ map (\<lambda>b. first_some (map (\<lambda>k. n_required_from_blueprintish (get0 b k)) [''blueprint'', ''plan'', ''product_design''])) blobs
         @ map n_required_from_blueprintish [plan, blueprint]
         @ (case ws of None \<Rightarrow> []
            | Some w \<Rightarrow> map document_count (wd_docs w) @ [n_required_from_blueprintish (wd_parked w)])))"

section \<open>Action handlers\<close>

definition non_action_artifact_ids :: "string list" where
  "non_action_artifact_ids = [''jobs'', ''readme'', ''entrypoint'', ''requirements'', ''release_gate'', ''deploy_scaffold'',
     ''network_posture'', ''sbom'', ''permissions'', ''domain_pack'', ''persistence'', ''migrations'', ''deploy_observe'',
     ''domain_acceptance'', ''emitter_parity'']"

definition is_action_artifact_id :: "string \<Rightarrow> bool" where
  "is_action_artifact_id artifact =
     (let t = py_strip artifact
      in \<not> (t = [] \<or> CHR '':'' \<in> set t \<or> CHR ''/'' \<in> set t)
         \<and> \<not> (ends_with t ''.py'' \<or> ends_with t ''.tsx'' \<or> ends_with t ''.md'')
         \<and> t \<notin> set non_action_artifact_ids)"

text \<open>\<open>str.isidentifier\<close>.\<close>

definition id_start :: "char \<Rightarrow> bool" where
  "id_start c = (let n = (of_char c :: nat) in
     (65 \<le> n \<and> n \<le> 90) \<or> (97 \<le> n \<and> n \<le> 122) \<or> c = CHR ''_'' \<or> n \<in> {170, 181, 186}
     \<or> (192 \<le> n \<and> n \<noteq> 215 \<and> n \<noteq> 247))"

definition is_identifier :: "string \<Rightarrow> bool" where
  "is_identifier s = (case s of [] \<Rightarrow> False
     | c # cs \<Rightarrow> id_start c \<and> list_all (\<lambda>c. id_start c \<or> is_digit c \<or> (of_char c :: nat) = 183) cs)"

text \<open>\<open>PurePosixPath(s).parts\<close>.\<close>

definition posix_parts :: "string \<Rightarrow> string list" where
  "posix_parts s = (if starts_with s ''/'' then [''/''] else [])
     @ filter (\<lambda>p. p \<noteq> [] \<and> p \<noteq> ''.'') (split_on (CHR ''/'') s)"

definition action_artifact_id :: "pyval \<Rightarrow> string option" where
  "action_artifact_id key =
     (let t = replace_char (CHR 0x5C) (CHR ''/'') (py_strip (text_of key));
          plain = (\<lambda>x. if is_action_artifact_id x then Some x else None)
      in case posix_parts t of
           [a, b, name] \<Rightarrow>
             (let stem = take (length name - length (name_suffix name)) name
              in if a = ''app'' \<and> b = ''actions'' \<and> name_suffix name = ''.py'' \<and> is_identifier stem then
                   (if starts_with stem ''__'' then None else plain stem)
                 else plain t)
         | _ \<Rightarrow> plain t)"

definition action_artifact_ids :: "pyval list \<Rightarrow> string list" where
  "action_artifact_ids keys = rev (remdups (rev (List.map_filter action_artifact_id keys)))"

text \<open>\<open>str.isdigit\<close> holds of three superscripts that \<open>int\<close> does not read.\<close>

definition as_nonneg_int :: "pyval \<Rightarrow> py_exn + int option" where
  "as_nonneg_int v = (case v of
       PInt i \<Rightarrow> Inr (if i \<ge> 0 then Some i else None)
     | PStr s \<Rightarrow> (if s \<noteq> [] \<and> list_all (\<lambda>c. is_digit c \<or> (of_char c :: nat) \<in> {178, 179, 185}) s then
          (if list_all is_digit s then Inr (Some (int (read_nat s))) else Inl ValueError)
        else Inr None)
     | _ \<Rightarrow> Inr None)"

definition cli_ids_from_mapping :: "pyval \<Rightarrow> py_exn + string list option" where
  "cli_ids_from_mapping blob = (case blob of
       PDict d \<Rightarrow> (if dget d ''cli_authored_ids'' \<noteq> None then map_result Some (unique_ids (get0 d ''cli_authored_ids''))
                   else cli_authored_ids_from d)
     | _ \<Rightarrow> Inr None)"

fun first_cli_ids :: "pyval list \<Rightarrow> py_exn + string list option" where
  "first_cli_ids [] = Inr None"
| "first_cli_ids (b # bs) = bind_result (cli_ids_from_mapping b) (\<lambda>f.
     case f of Some ids \<Rightarrow> Inr (Some ids) | None \<Rightarrow> first_cli_ids bs)"

record full_pilot_authorship =
  fp_cli :: "string list"
  fp_action_py :: int
  fp_measured :: bool
  fp_meets :: bool
  fp_required :: "int option"
  fp_need :: int

definition below_floor :: "full_pilot_authorship \<Rightarrow> bool" where
  "below_floor f = (\<not> (fp_measured f \<and> fp_meets f))"

text \<open>Measured, and how many: by the list of artifacts, the explicit count, or the written count.\<close>

definition measured_actions ::
  "(string, pyval) dict \<Rightarrow> int option \<Rightarrow> int option \<Rightarrow> bool \<times> int" where
  "measured_actions a explicit written =
     (let listed = (case get0 a ''agent_artifacts'' of PList xs \<Rightarrow> Some (int (length (action_artifact_ids xs))) | _ \<Rightarrow> None)
      in case explicit of
           Some n \<Rightarrow> (True, if truthy (get0 a ''agent_artifacts'') then (case listed of Some m \<Rightarrow> m | None \<Rightarrow> n) else n)
         | None \<Rightarrow> (case listed of Some m \<Rightarrow> (True, m)
             | None \<Rightarrow> (case written of Some w \<Rightarrow> (True, w) | None \<Rightarrow> (False, 0))))"

definition full_pilot_authorship_from ::
  "(string, pyval) dict \<Rightarrow> workspace_docs option \<Rightarrow> pyval \<Rightarrow> pyval \<Rightarrow> py_exn + full_pilot_authorship" where
  "full_pilot_authorship_from status ws plan blueprint =
     (let a = dict_of (get0 status ''authorship''); n_required = n_required_capabilities_from status ws plan blueprint;
          need = full_pilot_authorship_need n_required
      in bind_result (first_cli_ids [PDict a, PDict (dict_of (get0 status ''coder_receipt'')), get0 status ''brief_dispatch'']) (\<lambda>cli.
         bind_result (as_nonneg_int (get0 a ''action_py'')) (\<lambda>explicit.
         map_result (\<lambda>written.
           let (m, py) = measured_actions a explicit written;
               ids = (case cli of Some xs \<Rightarrow> xs | None \<Rightarrow> []);
               measured = (m \<or> cli \<noteq> None)
           in \<lparr>fp_cli = ids, fp_action_py = py, fp_measured = measured,
               fp_meets = (measured \<and> (py \<ge> need \<or> int (length ids) \<ge> need)), fp_required = n_required, fp_need = need\<rparr>)
         (case (explicit, get0 a ''agent_artifacts'') of
            (Some n, _) \<Rightarrow> Inr None | (None, PList xs) \<Rightarrow> Inr None | _ \<Rightarrow> as_nonneg_int (get0 a ''agent_written'')))))"

definition floor_text :: "full_pilot_authorship \<Rightarrow> string" where
  "floor_text f = ''(action_py='' @ show_int (fp_action_py f) @ '', cli_authored_ids='' @ show_int (int (length (fp_cli f)))
     @ '', need >='' @ show_int (fp_need f)
     @ (case fp_required f of Some n \<Rightarrow> '', n_required='' @ show_int n | None \<Rightarrow> []) @ '')''"

definition thin_store_green_export_blocker ::
  "((string, pyval) dict \<Rightarrow> (string, pyval) dict) \<Rightarrow> (string, pyval) dict \<Rightarrow> workspace_docs option \<Rightarrow> pyval \<Rightarrow> pyval
   \<Rightarrow> py_exn + string option" where
  "thin_store_green_export_blocker gates status ws plan blueprint =
     map_result (\<lambda>f. if \<not> below_floor f then None
         else if \<not> claims_store_green gates status then None
         else Some (''FACTORY_CODE_CLI_THIN_AUTHORSHIP: authorship is below the full-pilot floor '' @ floor_text f
           @ '' - will not ship a Store-green / full-pilot zip''))
       (full_pilot_authorship_from status ws plan blueprint)"

end
