(* ===== verification/LevelGrade.thy ===== *)
theory LevelGrade
  imports Authorship Authority
begin

text \<open>
  The level a built platform is graded at (\<open>factory/build/level_grade.py\<close>, the artifact classes of
  \<open>converge.py\<close>): the verdict of the three gates read from the status, the blockers, the level and
  its attachment to the status.  Arguments: which files and directories exist, the handlers that
  call the store and whether the route test is there (both read from syntax trees), the report
  file, the text of an exception.  The fixed texts of the gate scopes are left out of the stored grade.
\<close>

section \<open>The three gates\<close>

definition word_of :: "(string, pyval) dict \<Rightarrow> string \<Rightarrow> string" where
  "word_of d k = py_strip (text_of (get0 d k))"

definition gates_dict :: "string \<Rightarrow> string \<Rightarrow> string \<Rightarrow> (string, pyval) dict" where
  "gates_dict c p s = [(''CODE'', PStr c), (''PRODUCT'', PStr p), (''STORE'', PStr s)]"

definition three_gate_verdict :: "(string, pyval) dict \<Rightarrow> (string, pyval) dict" where
  "three_gate_verdict status =
     (let state = py_lower (word_of status ''state''); pilot = (py_lower (word_of status ''cycle'') = ''pilot'');
          phase = (case get0 status ''failure'' of PDict f \<Rightarrow> py_upper (word_of f ''phase'') | _ \<Rightarrow> [])
      in if state = ''succeeded'' then
           gates_dict ''PASS'' (if pilot then ''PASS'' else ''NOT_RUN'') (if pilot then ''PASS'' else ''NOT_RUN'')
         else if state \<noteq> ''failed'' \<or> phase = [] then gates_dict ''UNKNOWN'' ''UNKNOWN'' ''UNKNOWN''
         else if phase = role_value STORE_MANAGER then gates_dict ''PASS'' (if pilot then ''PASS'' else ''NOT_RUN'') ''FAIL''
         else if phase = role_value TESTER \<and> pilot then gates_dict ''PASS'' ''FAIL'' ''NOT_RUN''
         else gates_dict ''FAIL'' ''NOT_RUN'' ''NOT_RUN'')"

section \<open>Blockers\<close>

definition founding_extra_files :: "string list" where
  "founding_extra_files = [''Dockerfile'', ''README.md'', ''requirements.txt'', ''app/block_inputs.py'', ''tests/test_routes.py'',
     ''frontend/src/App.tsx'']"

definition fourteen_artifact_classes :: "string list" where
  "fourteen_artifact_classes = [''app/main.py'', ''app/actions'', ''app/agents/manifests'', ''app/workflows'',
     ''app/cerebrum_product_kernel'', ''app/connectors'', ''product-dna'', ''docs/blueprint'', ''docs/provenance'',
     ''docs/certification'', ''frontend'', ''vendor/blocks'', ''kits'', ''scripts/release_gate.py'']"

record graded_tree =
  gt_dir :: bool
  gt_file :: "string \<Rightarrow> bool"
  gt_exists :: "string \<Rightarrow> bool"
  gt_actions :: bool
  gt_store_callers :: "string list"
  gt_accept_test :: bool
  gt_report :: "string option"
  gt_docs :: "workspace_docs option"

definition missing_founding_files :: "graded_tree \<Rightarrow> string list" where
  "missing_founding_files t = filter (\<lambda>p. \<not> gt_file t p) founding_extra_files
     @ filter (\<lambda>p. \<not> gt_exists t p) fourteen_artifact_classes"

definition handlers_call_the_store :: "graded_tree \<Rightarrow> string list" where
  "handlers_call_the_store t = (if gt_actions t then gt_store_callers t else [''app/actions is missing''])"

definition accept_payload_test_present :: "graded_tree \<Rightarrow> bool" where
  "accept_payload_test_present t = (gt_file t ''tests/test_routes.py'' \<and> gt_accept_test t)"

definition cli_honesty_miss :: "(string, pyval) dict \<Rightarrow> string option" where
  "cli_honesty_miss status = (case get0 status ''coder_receipt'' of
       PDict r \<Rightarrow> (if word_of r ''blocker'' \<noteq> [] then Some (word_of r ''blocker'')
          else if word_of r ''honesty_class'' \<noteq> [] then Some (word_of r ''honesty_class'')
          else if get0 r ''ok'' = PBool False then Some ''FACTORY_CODE_CLI_FAILED'' else None)
     | _ \<Rightarrow> None)"

definition factory_llm_fallthrough :: "(string, pyval) dict \<Rightarrow> bool" where
  "factory_llm_fallthrough status = (case get0 status ''coder_receipt'' of
       PDict r \<Rightarrow> get0 r ''factory_llm_generate_fallthrough'' = PBool True | _ \<Rightarrow> False)"

definition thin_by_artifacts :: "int \<Rightarrow> int option \<Rightarrow> int option \<Rightarrow> bool" where
  "thin_by_artifacts written templated artifacts =
     ((case templated of Some n \<Rightarrow> n \<ge> written | None \<Rightarrow> False)
      \<or> (case artifacts of Some n \<Rightarrow> n > 0 \<and> written * 2 \<le> n | None \<Rightarrow> False))"

definition thin_templated_authorship :: "(string, pyval) dict \<Rightarrow> py_exn + bool" where
  "thin_templated_authorship status = (case get0 status ''authorship'' of
       PDict a \<Rightarrow>
         bind_result (as_nonneg_int (get0 a ''agent_written'')) (\<lambda>written.
         bind_result (as_nonneg_int (get0 a ''templated'')) (\<lambda>templated.
         bind_result (as_nonneg_int (get0 a ''artifacts'')) (\<lambda>artifacts. case written of
             None \<Rightarrow> Inr False
           | Some w \<Rightarrow> (if w \<le> 1 then Inr True
               else bind_result (as_nonneg_int (get0 a ''action_artifacts'')) (\<lambda>acts.
                 bind_result (as_nonneg_int (get0 a ''action_py'')) (\<lambda>agent.
                 map_result (\<lambda>tacts. case (acts, agent) of
                     (Some n, Some m) \<Rightarrow> (if n > 0 then m = 0 \<or> (case tacts of Some k \<Rightarrow> k \<ge> m | None \<Rightarrow> False)
                        else thin_by_artifacts w templated artifacts)
                   | _ \<Rightarrow> thin_by_artifacts w templated artifacts)
                 (as_nonneg_int (get0 a ''templated_actions''))))))))
     | _ \<Rightarrow> Inr False)"

datatype level = Scaffold | Code_Green | Store_Green | Founding_Customer_Ready

fun level_value :: "level \<Rightarrow> string" where
  "level_value Scaffold = ''SCAFFOLD''"
| "level_value Code_Green = ''CODE_GREEN''"
| "level_value Store_Green = ''STORE_GREEN''"
| "level_value Founding_Customer_Ready = ''FOUNDING_CUSTOMER_READY''"

definition note_if :: "bool \<Rightarrow> string \<Rightarrow> string list" where "note_if b s = (if b then [s] else [])"

definition gate_word :: "(string, pyval) dict \<Rightarrow> string \<Rightarrow> string" where "gate_word g k = text_of (get0 g k)"

definition gate_blocker :: "(string, pyval) dict \<Rightarrow> string \<Rightarrow> string list" where
  "gate_blocker g k = note_if (gate_word g k \<noteq> ''PASS'') (k @ '' gate is '' @ gate_word g k)"

definition state_word :: "(string, pyval) dict \<Rightarrow> string" where
  "state_word status = text_of (py_or (get0 status ''state'') (PStr ''unknown''))"

definition cycle_word :: "(string, pyval) dict \<Rightarrow> string" where
  "cycle_word status = text_of (py_or (get0 status ''cycle'') (PStr ''code''))"

definition tree_blockers :: "graded_tree \<Rightarrow> string list" where
  "tree_blockers t =
     (let missing = (if gt_dir t then missing_founding_files t else founding_extra_files @ fourteen_artifact_classes);
          hits = (if gt_dir t then handlers_call_the_store t else [''app/actions is missing''])
      in note_if (missing \<noteq> []) (''missing founding files: '' @ join '', '' (take 8 missing))
         @ note_if (hits \<noteq> []) (''handlers call the store over HTTP: '' @ join '', '' (take 6 hits))
         @ note_if (\<not> (gt_dir t \<and> accept_payload_test_present t)) ''tests/test_routes.py has no accept-payload contract'')"

definition receipt_blockers :: "(string, pyval) dict \<Rightarrow> string list" where
  "receipt_blockers status =
     (case cli_honesty_miss status of
        Some m \<Rightarrow> [''coder_receipt honesty '' @ m @ '' is not a founding writer product''] | None \<Rightarrow> [])
     @ note_if (factory_llm_fallthrough status)
        ''coder_receipt factory_llm_generate_fallthrough is not a founding writer product''"

definition status_blockers :: "(string, pyval) dict \<Rightarrow> string list" where
  "status_blockers status =
     note_if (state_word status \<noteq> ''succeeded'') (''build state is '' @ state_word status @ '', not succeeded'')
     @ note_if (\<not> truthy (get0 status ''pilot_ready'')) ''pilot_ready is false''
     @ concat (map (gate_blocker (three_gate_verdict status)) [''CODE'', ''PRODUCT'', ''STORE''])"

section \<open>The grade\<close>

record level_grade =
  lg_level :: level
  lg_ready :: bool
  lg_full_pilot :: bool
  lg_floor :: full_pilot_authorship
  lg_cycle :: string
  lg_state :: string
  lg_gates :: "(string, pyval) dict"
  lg_missing :: "string list"
  lg_blockers :: "string list"
  lg_acceptance :: acceptance_report

definition grade_level :: "bool \<Rightarrow> string list \<Rightarrow> (string, pyval) dict \<Rightarrow> string \<Rightarrow> level" where
  "grade_level ready blockers g state =
     (if ready \<and> blockers = [] then Founding_Customer_Ready
      else if ready \<and> gate_word g ''PRODUCT'' = ''PASS'' \<and> gate_word g ''STORE'' = ''PASS'' then Store_Green
      else if state = ''succeeded'' \<and> gate_word g ''CODE'' = ''PASS'' \<and> \<not> ready then Code_Green
      else Scaffold)"

definition green_level :: "level \<Rightarrow> bool" where "green_level l = (l = Store_Green \<or> l = Founding_Customer_Ready)"

definition thin_blocker :: string where "thin_blocker = ''authorship is overwhelmingly templated (near-zero agent_written)''"

definition floor_blocker :: "full_pilot_authorship \<Rightarrow> string" where
  "floor_blocker f = ''authorship is below the full-pilot floor '' @ floor_text f"

definition acceptance_blocker :: "acceptance_report \<Rightarrow> string" where
  "acceptance_blocker r = ''acceptance is '' @ ratio (acc_passed r) (acc_total r) @ '', not k/'' @ show_int acceptance_required
     @ '' (authorship floor is not acceptance)''"

text \<open>The grade of a build whose parts were measured: its floor, its thinness, its acceptance.\<close>

definition claims_green :: "(string, pyval) dict \<Rightarrow> bool" where
  "claims_green status = (cycle_word status = ''pilot''
     \<or> gate_word (three_gate_verdict status) ''PRODUCT'' = ''PASS'' \<and> gate_word (three_gate_verdict status) ''STORE'' = ''PASS'')"

definition grade_blockers ::
  "graded_tree \<Rightarrow> (string, pyval) dict \<Rightarrow> full_pilot_authorship \<Rightarrow> bool \<Rightarrow> acceptance_report \<Rightarrow> string list" where
  "grade_blockers t status fl thin acc = status_blockers status @ tree_blockers t @ receipt_blockers status
     @ note_if thin thin_blocker @ note_if (below_floor fl) (floor_blocker fl)
     @ note_if (claims_green status \<and> \<not> acceptance_is_kk acc) (acceptance_blocker acc)"

definition graded ::
  "graded_tree \<Rightarrow> (string, pyval) dict \<Rightarrow> full_pilot_authorship \<Rightarrow> bool \<Rightarrow> acceptance_report \<Rightarrow> level_grade" where
  "graded t status fl thin acc =
     (let g = three_gate_verdict status; blockers = grade_blockers t status fl thin acc;
          ready = (truthy (get0 status ''pilot_ready'') \<and> \<not> below_floor fl
            \<and> \<not> (claims_green status \<and> \<not> acceptance_is_kk acc));
          l0 = grade_level ready blockers g (state_word status);
          locked = (\<not> ready \<and> green_level l0);
          l = (if locked then (if gate_word g ''CODE'' = ''PASS'' then Code_Green else Scaffold) else l0)
      in \<lparr>lg_level = l, lg_ready = ready, lg_full_pilot = (green_level l \<and> ready \<and> fp_meets fl), lg_floor = fl,
          lg_cycle = cycle_word status, lg_state = state_word status, lg_gates = g,
          lg_missing = (if gt_dir t then missing_founding_files t else founding_extra_files @ fourteen_artifact_classes),
          lg_blockers = blockers @ note_if locked ''honesty lock: pilot_ready false cannot grade Store-green'',
          lg_acceptance = acc\<rparr>)"

definition grade_workspace :: "graded_tree \<Rightarrow> (string, pyval) dict \<Rightarrow> py_exn + level_grade" where
  "grade_workspace t status =
     bind_result (full_pilot_authorship_from status (if gt_dir t then gt_docs t else None) PNone PNone) (\<lambda>fl.
     bind_result (thin_templated_authorship status) (\<lambda>thin.
     map_result (graded t status fl thin) (read_acceptance_report (gt_report t) status)))"

section \<open>Attaching the grade\<close>

definition grade_dict :: "level_grade \<Rightarrow> (string, pyval) dict" where
  "grade_dict g = [(''emitter'', PStr ''app.factory.build.level_grade.grade_workspace''), (''level'', PStr (level_value (lg_level g))),
     (''pilot_ready'', PBool (lg_ready g)), (''full_pilot'', PBool (lg_full_pilot g)), (''action_py'', PInt (fp_action_py (lg_floor g))),
     (''cli_authored_ids'', PList (map PStr (fp_cli (lg_floor g)))), (''cycle'', PStr (lg_cycle g)), (''state'', PStr (lg_state g)),
     (''three_gate'', PDict (lg_gates g)), (''missing'', PList (map PStr (lg_missing g))),
     (''blockers'', PList (map PStr (lg_blockers g))),
     (''founding_customer_ready'', PBool (lg_level g = Founding_Customer_Ready)), (''acceptance'', PDict (report_json (lg_acceptance g)))]"

definition authorship_demote :: "string list \<Rightarrow> bool" where
  "authorship_demote blockers = list_ex (\<lambda>b. contains b ''full-pilot floor'' \<or> contains b ''overwhelmingly templated'') blockers"

definition failed_grade :: "string \<Rightarrow> (string, pyval) dict" where
  "failed_grade why = [(''emitter'', PStr ''app.factory.build.level_grade.grade_workspace''), (''level'', PStr (level_value Scaffold)),
     (''pilot_ready'', PBool False), (''full_pilot'', PBool False), (''founding_customer_ready'', PBool False),
     (''blockers'', PList [PStr (''level grade could not run: '' @ why)])]"

definition attach_level_grade ::
  "(py_exn \<Rightarrow> string) \<Rightarrow> graded_tree \<Rightarrow> (string, pyval) dict \<Rightarrow> (string, pyval) dict" where
  "attach_level_grade exn_text t status = (case grade_workspace t status of
       Inr g \<Rightarrow>
         (let s1 = dset ''acceptance'' (PDict (report_json (lg_acceptance g))) (dset ''level_grade'' (PDict (grade_dict g)) status)
          in if \<not> lg_ready g \<and> authorship_demote (lg_blockers g) then dset ''pilot_ready'' (PBool False) s1 else s1)
     | Inl x \<Rightarrow> dset ''pilot_ready'' (PBool False) (dset ''level_grade'' (PDict (failed_grade (exn_text x))) status))"

end
