(* ===== verification/Export.thy ===== *)
theory Export
  imports LevelGrade StoreIngest
begin

text \<open>
  The export of a platform as a zip: the manifest, its evidence and its checks
  (\<open>factory/build/export_manifest.py\<close>) and the route that decides whether a zip is given out and as
  what (\<open>download_product_package\<close> of \<open>routers/session_product.py\<close>).  The status is the one the
  Floor reads, the workspace its files by relative path with the gate's part of theory
  StoreIngest.  Arguments: the session's ids and documents, the time, the release tag.  Dashes and
  arrows of texts are ASCII; the session lookup and the quota come before.
\<close>

section \<open>The printer of manifests\<close>

text \<open>\<open>json.dumps(..., indent=2, sort_keys=True)\<close>.\<close>

definition indent_line :: "nat \<Rightarrow> string \<Rightarrow> string" where
  "indent_line n s = CHR 0x0A # replicate n (CHR '' '') @ s"

definition block :: "nat \<Rightarrow> string \<Rightarrow> string \<Rightarrow> string list \<Rightarrow> string" where
  "block n a z parts = (if parts = [] then a @ z else a @ join '','' (map (indent_line (n + 2)) parts) @ indent_line n z)"

primrec pretty :: "pyval \<Rightarrow> nat \<Rightarrow> string" where
  "pretty PNone n = ''null''"
| "pretty (PBool b) n = (if b then ''true'' else ''false'')"
| "pretty (PInt i) n = show_int i"
| "pretty (PFloat s) n = dumps_float s"
| "pretty (PStr s) n = dumps_str s"
| "pretty (PList xs) n = block n ''['' '']'' (map (\<lambda>f. f (n + 2)) (map pretty xs))"
| "pretty (PDict d) n = block n ''{'' ''}'' (map (\<lambda>p. dumps_str (fst p) @ '': '' @ snd p (n + 2))
     (sort_key fst (map (map_prod id pretty) d)))"

section \<open>The manifest\<close>

definition manifest_schema :: string where "manifest_schema = ''export_manifest.v1''"
definition manifest_filename :: string where "manifest_filename = ''MANIFEST.json''"
definition retrieval_modes :: "string list" where "retrieval_modes = [''vector_rag'', ''keyword_lexical'']"
definition tenancy_modes :: "string list" where "tenancy_modes = [''single_tenant_only'', ''multi_tenant_partition'']"
definition zip_requires_green_ci :: string where "zip_requires_green_ci = ''zip_requires_green_ci''"
definition manifest_mismatch :: string where "manifest_mismatch = ''manifest_mismatch''"
definition engine_file :: string where "engine_file = ''app/cerebrum_product_kernel/retrieval_engine.py''"

datatype export_exn = ManifestRefusal string | ExportPy py_exn | ExportGate gate_exn

definition py_export :: "py_exn + 'a \<Rightarrow> export_exn + 'a" where
  "py_export r = (case r of Inl x \<Rightarrow> Inl (ExportPy x) | Inr a \<Rightarrow> Inr a)"

definition tuple_repr :: "string list \<Rightarrow> string" where
  "tuple_repr xs = ''('' @ join '', '' (map (\<lambda>x. py_repr (PStr x)) xs) @ '')''"

text \<open>\<open>(v or {}).get\<close>.\<close>

definition or_dict :: "pyval \<Rightarrow> py_exn + (string, pyval) dict" where
  "or_dict v = (case py_or v (PDict []) of PDict d \<Rightarrow> Inr d | _ \<Rightarrow> Inl AttributeError)"

definition env_text :: "environ \<Rightarrow> string \<Rightarrow> string" where
  "env_text env k = (case env k of Some s \<Rightarrow> s | None \<Rightarrow> [])"

definition ci_run_id :: "environ \<Rightarrow> string" where
  "ci_run_id env = py_strip (if env_text env ''FACTORY_CI_RUN_ID'' \<noteq> [] then env_text env ''FACTORY_CI_RUN_ID''
     else env_text env ''GITHUB_RUN_ID'')"

definition commit_status_via :: string where "commit_status_via = ''github-commit-status:''"

text \<open>The numbers of the acceptance; None when they cannot be read.\<close>

definition score_of :: "(string, pyval) dict \<Rightarrow> py_exn + (int \<times> int) option" where
  "score_of a = (case bind_result (py_int (py_or (get0 a ''passed'') (PInt 0))) (\<lambda>p.
        map_result (Pair p) (py_int (py_or (get0 a ''total'') (PInt 0)))) of
       Inr s \<Rightarrow> Inr (Some s)
     | Inl x \<Rightarrow> (if x = TypeError \<or> x = ValueError then Inr None else Inl x))"

definition ci_evidence :: "environ \<Rightarrow> (string, pyval) dict \<Rightarrow> py_exn + string" where
  "ci_evidence env status =
     (if ci_run_id env \<noteq> [] then Inr (ci_run_id env)
      else bind_result (or_dict (get0 status ''acceptance'')) (\<lambda>a.
        let s = py_strip (text_of (get0 status ''builds_sha'')); via = text_of (get0 a ''via'')
        in map_result (\<lambda>score. case score of
             Some (passed, tot) \<Rightarrow>
               (if get0 a ''ok'' = PBool True \<and> tot > 0 \<and> passed = tot \<and> starts_with via commit_status_via \<and> s \<noteq> []
                then via @ ''@'' @ s else [])
           | None \<Rightarrow> []) (score_of a)))"

definition assert_zip_eligibility :: "(string, pyval) dict \<Rightarrow> string \<Rightarrow> export_exn + unit" where
  "assert_zip_eligibility status run =
     bind_result (py_export (bind_result (or_dict (get0 status ''authorship''))
       (\<lambda>a. py_int (py_or (get0 a ''agent_written'') (PInt 0))))) (\<lambda>written.
       if text_of (get0 status ''state'') \<noteq> ''succeeded'' then
         Inl (ManifestRefusal (zip_requires_green_ci @ '': build state is '' @ py_repr (PStr (text_of (get0 status ''state''))) @ '', not succeeded''))
       else if written \<le> 0 then
         Inl (ManifestRefusal (zip_requires_green_ci @ '': the artifact gate did not pass (agent_written='' @ show_int written @ '')''))
       else if run = [] then
         Inl (ManifestRefusal (zip_requires_green_ci @ '': no CI run id recorded - the build was not greened by CI''))
       else Inr ())"

record manifest_request =
  mr_product :: string
  mr_tenant :: pyval
  mr_ci_run :: string
  mr_retrieval :: string
  mr_tenancy :: string
  mr_embedder :: string
  mr_store :: string
  mr_engine_version :: string
  mr_prompt :: string
  mr_layers :: "(int \<times> int) list"
  mr_engine :: bool
  mr_provenance :: "(string, pyval) dict"
  mr_build_level :: pyval
  mr_advisory :: "pyval list"

definition advisory_entry :: "pyval \<Rightarrow> py_exn + pyval" where
  "advisory_entry row = (case row of
       PDict r \<Rightarrow> bind_result (py_int (py_or (get0 r ''findings_count'') (PInt 0))) (\<lambda>n.
         map_result (\<lambda>fs. PDict [(''check'', PStr (text_of (get0 r ''check''))), (''reason'', PStr (text_of (get0 r ''reason''))),
             (''findings_count'', PInt n), (''findings'', PList (map (\<lambda>f. PStr (py_str f)) fs))])
           (py_iter (py_or (get0 r ''findings'') (PList []))))
     | _ \<Rightarrow> Inl AttributeError)"

definition stamped_provenance :: "(string, pyval) dict \<Rightarrow> (string, pyval) dict" where
  "stamped_provenance p = map (\<lambda>(k, v). (k, PStr (py_strip (py_str v))))
     (filter (\<lambda>(k, v). py_strip (text_of v) \<noteq> [] \<and> py_lower (py_strip (py_str v)) \<noteq> ''unknown'') p)"

definition build_manifest :: "manifest_request \<Rightarrow> export_exn + (string, pyval) dict" where
  "build_manifest q =
     (if mr_retrieval q \<notin> set retrieval_modes then Inl (ManifestRefusal (manifest_mismatch @ '': retrieval_mode must be one of ''
         @ tuple_repr retrieval_modes @ '', got '' @ py_repr (PStr (mr_retrieval q))))
      else if mr_tenancy q \<notin> set tenancy_modes then Inl (ManifestRefusal (manifest_mismatch @ '': tenancy_mode must be one of ''
         @ tuple_repr tenancy_modes @ '', got '' @ py_repr (PStr (mr_tenancy q))))
      else case find (\<lambda>(l, c). l \<notin> {1, 2, 3, 4} \<or> c < 0) (mr_layers q) of
        Some (l, c) \<Rightarrow> Inl (ManifestRefusal (manifest_mismatch @ '': layer_counts must be 1-4 -> non-negative, got ''
         @ show_int l @ '': '' @ show_int c))
      | None \<Rightarrow> bind_result (py_export (if truthy (mr_build_level q) then map_result PDict (py_dict (mr_build_level q)) else Inr PNone)) (\<lambda>lvl.
        map_result (\<lambda>rows.
          [(''schema'', PStr manifest_schema), (''product_id'', PStr (mr_product q)), (''tenant_id'', mr_tenant q),
           (''provenance'', PDict (stamped_provenance (mr_provenance q))),
           (''engine'', PDict [(''version'', PStr (mr_engine_version q)), (''included'', PBool (mr_engine q))]),
           (''retrieval'', PDict [(''mode'', PStr (mr_retrieval q)), (''embedder'', PStr (mr_embedder q)), (''vector_store'', PStr (mr_store q))]),
           (''layers'', PDict (map (\<lambda>(l, c). (show_int l, PInt c)) (mr_layers q))), (''tenancy_mode'', PStr (mr_tenancy q)),
           (''prompt_template_version'', PStr (mr_prompt q)), (''ci_run_id'', PStr (mr_ci_run q)), (''build_level'', lvl),
           (''advisory_checks'', PList rows)])
          (py_export (map_res advisory_entry (mr_advisory q)))))"

definition verify_manifest :: "(string, pyval) dict \<Rightarrow> string list \<Rightarrow> py_exn + string list" where
  "verify_manifest m names =
     bind_result (case get_or m ''engine'' (PDict []) of PDict d \<Rightarrow> Inr (truthy (get0 d ''included'')) | _ \<Rightarrow> Inl AttributeError) (\<lambda>included.
     map_result (\<lambda>mode. let present = (engine_file \<in> set names); tenancy = text_of (get0 m ''tenancy_mode'')
        in note_if (get0 m ''schema'' \<noteq> PStr manifest_schema) (manifest_mismatch @ '': schema must be '' @ py_repr (PStr manifest_schema))
         @ note_if (mode = ''vector_rag'' \<and> \<not> present)
             (manifest_mismatch @ '': manifest claims vector_rag but the kit engine file ('' @ engine_file @ '') is not in the zip'')
         @ note_if (included \<and> \<not> present)
             (manifest_mismatch @ '': manifest claims the kit engine is included but '' @ engine_file @ '' is not in the zip'')
         @ note_if (tenancy \<notin> set tenancy_modes) (manifest_mismatch @ '': tenancy_mode must be one of '' @ tuple_repr tenancy_modes)
         @ note_if (mode \<notin> set retrieval_modes) (manifest_mismatch @ '': retrieval mode must be one of '' @ tuple_repr retrieval_modes))
       (case get_or m ''retrieval'' (PDict []) of PDict d \<Rightarrow> Inr (text_of (get0 d ''mode'')) | _ \<Rightarrow> Inl AttributeError))"

record ui_labels =
  ui_rag :: "string option"
  ui_tenancy :: "string option"

definition ui_labels_from_manifest :: "(string, pyval) dict \<Rightarrow> string list \<Rightarrow> py_exn + ui_labels" where
  "ui_labels_from_manifest m names =
     map_result (\<lambda>mode. let tenancy = text_of (get0 m ''tenancy_mode'')
        in \<lparr>ui_rag = (if mode = ''vector_rag'' \<and> engine_file \<in> set names then Some ''RAG included'' else None),
            ui_tenancy = (if tenancy = ''multi_tenant_partition'' then Some ''Multi-tenant''
              else if tenancy = ''single_tenant_only'' then Some ''Single-tenant'' else None)\<rparr>)
       (case get_or m ''retrieval'' (PDict []) of PDict d \<Rightarrow> Inr (text_of (get0 d ''mode'')) | _ \<Rightarrow> Inl AttributeError)"

section \<open>The manifest of a failed build\<close>

text \<open>\<open>failure_triple({}, failure)\<close> on the stored failure.\<close>

definition stored_triple :: "pyval \<Rightarrow> (string, pyval) dict" where
  "stored_triple failure =
     (let f = dict_of failure; gate = word_of f ''phase''; check = word_of f ''reason''; finding = word_of f ''detail''
      in if gate = [] \<and> check = [] \<and> finding = [] then []
         else [(''gate'', PStr (if gate = [] then ''unknown'' else gate)), (''check'', PStr (if check = [] then ''unknown'' else check)),
           (''finding'', PStr finding)])"

definition failed_facts :: "(string, pyval) dict \<Rightarrow> py_exn + (string, pyval) dict" where
  "failed_facts status = py_dict (py_or (get0 status ''failed'')
     (py_or (PDict (stored_triple (py_or (get0 status ''failure'') (PDict []))))
       (PDict [(''gate'', PStr ''unknown''), (''check'', PStr (text_of (py_or (get0 status ''state'') (PStr ''unknown'')))),
         (''finding'', PStr (text_of (get0 status ''detail'')))])))"

definition plain_int :: "pyval \<Rightarrow> pyval" where
  "plain_int v = (case v of PInt i \<Rightarrow> PInt i | PBool b \<Rightarrow> PInt (if b then 1 else 0) | _ \<Rightarrow> PNone)"

definition acceptance_score :: "(string, pyval) dict \<Rightarrow> py_exn + (string, pyval) dict" where
  "acceptance_score status = map_result (\<lambda>a. [(''passed'', plain_int (get0 a ''passed'')), (''total'', plain_int (get0 a ''total''))])
     (or_dict (get0 status ''acceptance''))"

definition failed_export_manifest ::
  "(string, pyval) dict \<Rightarrow> string \<Rightarrow> pyval \<Rightarrow> py_exn + (string, pyval) dict" where
  "failed_export_manifest status product platform =
     bind_result (failed_facts status) (\<lambda>triple.
     bind_result (acceptance_score status) (\<lambda>score.
     map_result (\<lambda>rows.
       [(''schema'', PStr manifest_schema), (''product_id'', PStr product), (''platform_id'', platform), (''certified'', PBool False),
        (''build_state'', get0 status ''state''), (''failed'', PDict triple), (''failed_label'', PStr (stop_status triple)),
        (''acceptance'', PDict score), (''build_level'', get0 status ''build_level''), (''advisory_checks'', PList rows),
        (''next_continue'', py_or (get0 status ''next_continue'') (PStr [])), (''failure_narrative'', get0 status ''failure_narrative'')])
     (py_iter (py_or (get0 status ''advisory_checks'') (PList [])))))"

section \<open>The zip\<close>

text \<open>The files by relative path, the directories that hold no file, and the gate's part.\<close>

record export_space =
  xs_tree :: "(string, string) dict"
  xs_gate :: gate_space
  xs_bare_dirs :: "string list"

definition write_file :: "string \<Rightarrow> string \<Rightarrow> export_space \<Rightarrow> export_space" where
  "write_file name content x = x\<lparr>xs_tree := dset name content (xs_tree x)\<rparr>"

definition write_export_manifest :: "(string, pyval) dict \<Rightarrow> export_space \<Rightarrow> export_space" where
  "write_export_manifest m = write_file manifest_filename (pretty (PDict m) 0 @ [CHR 0x0A])"

definition prototype_marker :: string where "prototype_marker = ''CODE_CYCLE_PROTOTYPE.txt''"

definition prototype_body :: string where
  "prototype_body = join [CHR 0x0A]
     [''This export is a CODE-CYCLE PROTOTYPE, not a pilot-ready product.'', [],
      ''The factory recorded RUN_SUCCEEDED with cycle=code and pilot_ready=false.'',
      ''PRODUCT (pytest -m pilot) and STORE ops have not passed. Dual certification'',
      ''is pending. Frontend modules and some handlers may be Factory templates.'', [],
      ''Say continue on the Factory Floor (or POST /product/pilot) to open a'',
      ''Store-green cycle on the same workspace. Do not treat this zip as a'',
      ''finished production platform.'', []]"

definition needs_marker :: "ledger_file \<Rightarrow> bool" where
  "needs_marker f = (case (contents f, events f) of
       (Some c, Inr evs) \<Rightarrow> \<not> pilot_ready evs \<and> succeeded evs | _ \<Rightarrow> False)"

definition zip_generated_product :: "export_space \<Rightarrow> (string \<times> string) list" where
  "zip_generated_product x =
     (if needs_marker (gs_ledger (xs_gate x)) then [(prototype_marker, prototype_body)] else [])
     @ filter (\<lambda>p. is_exported (split_on (CHR ''/'') (fst p))) (sort_key (split_on (CHR ''/'') \<circ> fst) (xs_tree x))"

section \<open>The route\<close>

datatype export_reply = HttpError nat string | Crashed export_exn | ZipFile string "(string \<times> string) list"

record export_request =
  xr_as_is :: bool
  xr_product :: string
  xr_platform :: pyval
  xr_plan :: pyval
  xr_blueprint :: pyval
  xr_docs :: "workspace_docs option"
  xr_now :: string
  xr_release :: "(string \<times> string) option"

definition has_file :: "export_space \<Rightarrow> string \<Rightarrow> bool" where "has_file x p = (dget (xs_tree x) p \<noteq> None)"

definition has_dir :: "export_space \<Rightarrow> string \<Rightarrow> bool" where
  "has_dir x p = (list_ex (\<lambda>q. starts_with q (p @ ''/'')) (dkeys (xs_tree x))
     \<or> list_ex (\<lambda>q. q = p \<or> starts_with q (p @ ''/'')) (xs_bare_dirs x))"

definition cross_tenant_passed :: "(string, pyval) dict \<Rightarrow> py_exn + bool" where
  "cross_tenant_passed status =
     bind_result (or_dict (get0 status ''acceptance'')) (\<lambda>a.
       map_result (list_ex (\<lambda>l. case l of
           PDict d \<Rightarrow> get0 d ''name'' = PStr ''cross_tenant_404'' \<and> get0 d ''status'' = PStr ''PASS'' | _ \<Rightarrow> False))
         (py_iter (py_or (get0 a ''lines'') (PList []))))"

definition version_char :: "char \<Rightarrow> bool" where
  "version_char c = (let n = (of_char c :: nat) in
     (48 \<le> n \<and> n \<le> 57) \<or> (65 \<le> n \<and> n \<le> 90) \<or> (97 \<le> n \<and> n \<le> 122) \<or> c = CHR ''_'' \<or> c = CHR ''.'')"

definition prompt_version :: string where "prompt_version = ''writer_worker_prompt.v14''"

definition built_prompt_version :: "export_space \<Rightarrow> string" where
  "built_prompt_version x = (case dget (xs_tree x) ''docs/writer_prompt.txt'' of
       None \<Rightarrow> prompt_version
     | Some content \<Rightarrow>
         (let head = take 200 content; v = takeWhile version_char (drop 5 head)
          in if starts_with head ''<!-- '' \<and> v \<noteq> [] \<and> starts_with (drop (5 + length v) head) '' -->'' then v else prompt_version))"

definition provenance_from_tree :: "export_space \<Rightarrow> py_exn + (string, pyval) dict" where
  "provenance_from_tree x = (case dget (xs_tree x) ''docs/provenance/provenance.json'' of
       None \<Rightarrow> Inr []
     | Some content \<Rightarrow> (case loads content of
         None \<Rightarrow> Inr []
       | Some (PDict d) \<Rightarrow> Inr (map (\<lambda>k. (k, PStr (text_of (get0 d k))))
           (filter (\<lambda>k. truthy (get0 d k)) [''factory_commit'', ''blocks_commit'', ''writer_receipt'']))
       | Some _ \<Rightarrow> Inl AttributeError))"

definition manifest_of ::
  "environ \<Rightarrow> export_request \<Rightarrow> (string, pyval) dict \<Rightarrow> export_space \<Rightarrow> string \<Rightarrow> export_exn + (string, pyval) dict" where
  "manifest_of env q status x run =
     (let engine = has_file x engine_file
      in bind_result (py_export (cross_tenant_passed status)) (\<lambda>cross.
         bind_result (py_export (provenance_from_tree x)) (\<lambda>prov.
         bind_result (py_export (py_iter (py_or (get0 status ''advisory_checks'') (PList [])))) (\<lambda>rows.
           build_manifest \<lparr>mr_product = xr_product q, mr_tenant = get0 status ''tenant_id'', mr_ci_run = run,
             mr_retrieval = (if engine then ''vector_rag'' else ''keyword_lexical''),
             mr_tenancy = (if has_file x ''app/steward/tenant_store.py'' \<or> has_file x ''app/tenancy.py'' \<and> cross
               then ''multi_tenant_partition'' else ''single_tenant_only''),
             mr_embedder = (if engine then ''provider-configured'' else ''none''),
             mr_store = (if engine then ''chroma_tenant_collection'' else ''none''),
             mr_engine_version = (if engine then ''retrieval_engine.v1'' else ''none''), mr_prompt = built_prompt_version x,
             mr_layers = (if has_dir x ''app/cerebrum_product_kernel/formulas'' then [(1, 1)] else []),
             mr_engine = engine, mr_provenance = prov, mr_build_level = get0 status ''build_level'', mr_advisory = rows\<rparr>))))"

definition as_is_name :: string where "as_is_name = ''EXPORTED-AS-IS.md''"

definition as_is_note :: "export_request \<Rightarrow> (string, pyval) dict \<Rightarrow> string" where
  "as_is_note q status = join [CHR 0x0A]
     [''# EXPORTED AS-IS - THIS BUILD FAILED ITS GATES'', [], ''Product: '' @ xr_product q,
      ''Build state: '' @ py_str (get0 status ''state''), ''Gate verdict: '' @ py_str (get0 status ''detail''),
      ''Exported: '' @ xr_now q, [],
      ''This zip was exported on the owner's explicit request AFTER the'',
      ''factory's gates rejected the build. It carries NO certification'',
      ''manifest and makes no store-green, acceptance or pilot claims.'',
      ''Nothing here has been verified beyond what the gate verdict above'',
      ''says. Use it as source material, not as a product.'', []]"

definition export_as_is ::
  "export_request \<Rightarrow> (string, pyval) dict \<Rightarrow> export_space \<Rightarrow> export_reply \<times> export_space" where
  "export_as_is q status x =
     (let x1 = write_file as_is_name (as_is_note q status) x
      in case failed_export_manifest status (xr_product q) (xr_platform q) of
           Inl e \<Rightarrow> (Crashed (ExportPy e), x1)
         | Inr m \<Rightarrow> (let x2 = write_export_manifest m x1
             in (ZipFile (''cerebrumdev-'' @ xr_product q @ ''-FAILED-GATES-as-is.zip'') (zip_generated_product x2), x2)))"

definition certified_manifest :: "export_request \<Rightarrow> (string, pyval) dict \<Rightarrow> (string, pyval) dict" where
  "certified_manifest q m = (let m1 = dset ''certified'' (PBool True) m
     in case xr_release q of None \<Rightarrow> m1
        | Some (tag, s) \<Rightarrow> dset ''release_sha'' (PStr s) (dset ''release_tag'' (PStr tag) m1))"

text \<open>The blockers after the manifest was written: thin authorship, then acceptance.\<close>

definition export_blocker :: "export_request \<Rightarrow> (string, pyval) dict \<Rightarrow> export_space \<Rightarrow> py_exn + string option" where
  "export_blocker q status x =
     bind_result (thin_store_green_export_blocker three_gate_verdict status (xr_docs q) (xr_plan q) (xr_blueprint q)) (\<lambda>thin.
       case thin of Some t \<Rightarrow> Inr (Some t)
       | None \<Rightarrow> acceptance_export_blocker three_gate_verdict status (dget (xs_tree x) ''docs/store_acceptance.json''))"

definition export_zip_name :: "export_request \<Rightarrow> (string, pyval) dict \<Rightarrow> string" where
  "export_zip_name q status =
     (if get0 status ''state'' = PStr ''succeeded'' \<and> get0 status ''pilot_ready'' = PBool False
      then ''cerebrumdev-'' @ xr_product q @ ''-code-cycle-prototype.zip'' else ''cerebrumdev-'' @ xr_product q @ ''.zip'')"

definition give_certified ::
  "gate_env \<Rightarrow> export_request \<Rightarrow> (string, pyval) dict \<Rightarrow> (string, pyval) dict \<Rightarrow> export_space \<times> nat
   \<Rightarrow> export_reply \<times> export_space \<times> nat" where
  "give_certified e q status m s = (case s of (x, n) \<Rightarrow>
     (case certification_withdrawn e (gs_ledger (xs_gate x)) (gs_session (xs_gate x)) n of
        (Inr (Some why), k) \<Rightarrow>
          (case record_certification_withdrawn e why (xs_gate x, k) of
             (Inl z, g, j) \<Rightarrow> (Crashed (ExportGate z), x\<lparr>xs_gate := g\<rparr>, j)
           | (Inr r, g, j) \<Rightarrow> (HttpError 409 why, x\<lparr>xs_gate := g\<rparr>, j))
      | (r, k) \<Rightarrow>
          (let x1 = write_export_manifest (certified_manifest q m) x
           in (ZipFile (export_zip_name q status) (zip_generated_product x1), x1, k))))"

definition export_certified ::
  "gate_env \<Rightarrow> export_request \<Rightarrow> (string, pyval) dict \<Rightarrow> export_space \<times> nat \<Rightarrow> export_reply \<times> export_space \<times> nat" where
  "export_certified e q status s = (case s of (x, n) \<Rightarrow>
     (case bind_result (py_export (ci_evidence (ge_environ e) status)) (\<lambda>run.
             if get0 status ''state'' \<noteq> PStr ''unknown'' then map_result (\<lambda>_. run) (assert_zip_eligibility status run) else Inr run) of
        Inl (ManifestRefusal why) \<Rightarrow> (HttpError 409 why, x, n)
      | Inl z \<Rightarrow> (Crashed z, x, n)
      | Inr run \<Rightarrow> (case manifest_of (ge_environ e) q status x run of
          Inl z \<Rightarrow> (Crashed z, x, n)
        | Inr m \<Rightarrow>
            (let x1 = write_export_manifest m x
             in case verify_manifest m (dkeys (xs_tree x1)) of
                  Inl z \<Rightarrow> (Crashed (ExportPy z), x1, n)
                | Inr (p # ps) \<Rightarrow> (HttpError 500 (join ''; '' (p # ps)), x1, n)
                | Inr [] \<Rightarrow> (case export_blocker q status x1 of
                    Inl z \<Rightarrow> (Crashed (ExportPy z), x1, n)
                  | Inr (Some why) \<Rightarrow> (HttpError 409 why, x1, n)
                  | Inr None \<Rightarrow> give_certified e q status m (x1, n))))))"

definition download_product_package ::
  "gate_env \<Rightarrow> export_request \<Rightarrow> (string, pyval) dict \<Rightarrow> export_space \<times> nat \<Rightarrow> export_reply \<times> export_space \<times> nat" where
  "download_product_package e q status s =
     (let state = get0 status ''state''
      in if state = PStr ''building'' then
           (HttpError 409 (''the platform is still being built ('' @ py_str (get_or status ''phases_done'' (PInt 0)) @ ''/''
              @ py_str (get_or status ''phases_total'' (PInt 5)) @ '' phases complete) - poll /product/build-status''), s)
         else if xr_as_is q then (let (r, x) = export_as_is q status (fst s) in (r, x, snd s))
         else if state = PStr ''failed'' then
           (HttpError 409 (''the build did not pass its gates and will not be shipped: '' @ py_str (get0 status ''detail'')), s)
         else if state = PStr ''stalled'' then
           (HttpError 409 (''the build stalled and will not be shipped as a full-pilot zip: '' @ py_str (get0 status ''detail'')), s)
         else export_certified e q status s)"

end
