(* ===== verification/ExportFacts.thy ===== *)
theory ExportFacts
  imports Export GateWitnesses
begin

text \<open>
  What the grade and the export promise: a green level and a certified zip are earned, the grade
  only lowers the flag, a download as it is never certified; and where the export falls short:
  a build without a ledger is certified, and the note of an earlier download stays in the zip.
\<close>

section \<open>The gates\<close>

lemma gate_word_simps [simp]:
  "gate_word (gates_dict c p s) ''CODE'' = c" "gate_word (gates_dict c p s) ''PRODUCT'' = p"
  "gate_word (gates_dict c p s) ''STORE'' = s"
  by (simp_all add: gate_word_def gates_dict_def get_or_def)

lemma product_and_store_pass:
  assumes "gate_word (three_gate_verdict st) ''PRODUCT'' = ''PASS''" and "gate_word (three_gate_verdict st) ''STORE'' = ''PASS''"
  shows "py_lower (word_of st ''state'') = ''succeeded'' \<and> py_lower (word_of st ''cycle'') = ''pilot''"
  using assms by (auto simp: three_gate_verdict_def Let_def split: if_splits)

lemma note_if_simps [simp]: "note_if b s = [] \<longleftrightarrow> \<not> b" "set (note_if b s) = (if b then {s} else {})"
  by (simp_all add: note_if_def)

lemma status_blockers_Nil:
  "status_blockers st = [] \<longleftrightarrow> state_word st = ''succeeded'' \<and> truthy (get0 st ''pilot_ready'')
     \<and> (\<forall>k \<in> {''CODE'', ''PRODUCT'', ''STORE''}. gate_word (three_gate_verdict st) k = ''PASS'')"
  by (auto simp: status_blockers_def gate_blocker_def)

section \<open>The grade\<close>

lemma grade_level_green: "green_level (grade_level r bs x w) \<Longrightarrow> r"
  by (auto simp: grade_level_def green_level_def split: if_splits)

lemma graded_fields:
  "lg_ready (graded t st f thin acc) = (truthy (get0 st ''pilot_ready'') \<and> \<not> below_floor f
     \<and> \<not> (claims_green st \<and> \<not> acceptance_is_kk acc))"
  "lg_level (graded t st f thin acc) = grade_level (lg_ready (graded t st f thin acc)) (grade_blockers t st f thin acc)
     (three_gate_verdict st) (state_word st)"
  "lg_blockers (graded t st f thin acc) = grade_blockers t st f thin acc"
  "lg_full_pilot (graded t st f thin acc) \<longleftrightarrow> green_level (lg_level (graded t st f thin acc))
     \<and> lg_ready (graded t st f thin acc) \<and> fp_meets f"
  "lg_floor (graded t st f thin acc) = f" "lg_acceptance (graded t st f thin acc) = acc"
  using grade_level_green by (auto simp: graded_def Let_def note_if_def split: if_splits)

lemma grade_blockers_Nil:
  assumes "grade_blockers t st f thin acc = []"
  shows "lg_ready (graded t st f thin acc) \<and> gate_word (three_gate_verdict st) ''PRODUCT'' = ''PASS''
     \<and> gate_word (three_gate_verdict st) ''STORE'' = ''PASS''"
  using assms status_blockers_Nil [of st] by (auto simp: grade_blockers_def graded_fields)

text \<open>Property C12.  A green level is earned: the run succeeded on the pilot cycle and is recorded as
  ready, the authorship floor is measured and met, the acceptance is complete; and the
  founding level is given exactly when nothing blocks it.\<close>

theorem green_grade_is_earned:
  assumes "grade_workspace t st = Inr g"
  shows "(green_level (lg_level g) \<longrightarrow> lg_ready g \<and> truthy (get0 st ''pilot_ready'') \<and> lg_full_pilot g
       \<and> py_lower (word_of st ''state'') = ''succeeded'' \<and> py_lower (word_of st ''cycle'') = ''pilot''
       \<and> fp_measured (lg_floor g) \<and> fp_meets (lg_floor g) \<and> acceptance_is_kk (lg_acceptance g))
     \<and> (lg_level g = Founding_Customer_Ready \<longleftrightarrow> lg_blockers g = [])"
proof -
  obtain f thin acc where g: "g = graded t st f thin acc"
    using assms by (auto simp: grade_workspace_def result_simps)
  have "lg_ready g \<and> gate_word (three_gate_verdict st) ''PRODUCT'' = ''PASS'' \<and> gate_word (three_gate_verdict st) ''STORE'' = ''PASS''"
    if "green_level (lg_level g)"
    using that grade_blockers_Nil [of t st f thin acc] unfolding g graded_fields(2)
    by (auto simp: grade_level_def green_level_def split: if_splits)
  moreover have "lg_level g = Founding_Customer_Ready \<longleftrightarrow> lg_blockers g = []"
    using grade_blockers_Nil [of t st f thin acc] unfolding g graded_fields(2,3)
    by (auto simp: grade_level_def split: if_splits)
  ultimately show ?thesis
    using product_and_store_pass [of st] by (auto simp: g graded_fields(1,4,5,6) below_floor_def claims_green_def)
qed

section \<open>The attached grade\<close>

lemma starts_with_append: "starts_with (x @ y) x" by (simp add: starts_with_iff)

lemma contains_mid: "contains (a @ x @ b) x"
proof (induction a)
  case Nil
  show ?case using starts_with_append [of x b] by (cases "x @ b") auto
next
  case (Cons c a)
  then show ?case by simp
qed

lemma floor_blocker_demotes: "contains (floor_blocker f) ''full-pilot floor''"
  using contains_mid [of "''authorship is below the ''" "''full-pilot floor''" "'' '' @ floor_text f"]
  by (simp add: floor_blocker_def)

text \<open> Attaching the grade only lowers the recorded flag, and below the authorship floor
  it always lowers it: such a build no longer reads as ready, whatever its ledger says.\<close>

theorem grade_only_lowers:
  shows "(truthy (get0 (attach_level_grade txt t st) ''pilot_ready'') \<longrightarrow> truthy (get0 st ''pilot_ready''))
     \<and> (\<forall>fp. full_pilot_authorship_from st (if gt_dir t then gt_docs t else None) PNone PNone = Inr fp \<and> below_floor fp
          \<longrightarrow> get0 (attach_level_grade txt t st) ''pilot_ready'' = PBool False)"
proof (cases "grade_workspace t st")
  case (Inl x)
  then show ?thesis by (simp add: attach_level_grade_def dict_simps get_or_def)
next
  case (Inr g)
  obtain f thin acc where g: "full_pilot_authorship_from st (if gt_dir t then gt_docs t else None) PNone PNone = Inr f"
      "g = graded t st f thin acc"
    using Inr by (auto simp: grade_workspace_def result_simps)
  have demote: "\<not> lg_ready g \<and> authorship_demote (lg_blockers g)" if "below_floor f"
    using that floor_blocker_demotes [of f]
    by (auto simp: g(2) graded_fields(1,3) grade_blockers_def authorship_demote_def list_ex_iff)
  have r: "get0 (attach_level_grade txt t st) ''pilot_ready'' =
      (if \<not> lg_ready g \<and> authorship_demote (lg_blockers g) then PBool False else get0 st ''pilot_ready'')"
    using Inr by (simp add: attach_level_grade_def dict_simps get_or_def Let_def)
  show ?thesis using g(1) demote unfolding r by auto
qed

section \<open>The export\<close>

lemma py_export_Inr [simp]: "py_export r = Inr a \<longleftrightarrow> r = Inr a"
  by (cases r) (simp_all add: py_export_def)

lemma eligible:
  assumes "assert_zip_eligibility st run = Inr u"
  shows "text_of (get0 st ''state'') = ''succeeded'' \<and> run \<noteq> []
     \<and> (\<exists>a n. or_dict (get0 st ''authorship'') = Inr a \<and> py_int (py_or (get0 a ''agent_written'') (PInt 0)) = Inr n \<and> n > 0)"
  using assms by (auto simp: assert_zip_eligibility_def result_simps split: if_splits)

lemma evidence:
  assumes "ci_evidence env st = Inr run" and "run \<noteq> []" and "ci_run_id env = []"
  shows "\<exists>a n. or_dict (get0 st ''acceptance'') = Inr a \<and> get0 a ''ok'' = PBool True
     \<and> score_of a = Inr (Some (n, n)) \<and> n > 0 \<and> py_strip (text_of (get0 st ''builds_sha'')) \<noteq> []"
  using assms by (auto simp: ci_evidence_def Let_def result_simps split: option.splits if_splits)

lemma given_zip:
  assumes "give_certified e q st m (x, n) = (ZipFile name zs, x1, j)"
  shows "fst (certification_withdrawn e (gs_ledger (xs_gate x)) (gs_session (xs_gate x)) n) \<noteq> Inr (Some why)
     \<and> x1 = write_export_manifest (certified_manifest q m) x \<and> zs = zip_generated_product x1 \<and> name = export_zip_name q st"
proof (cases "certification_withdrawn e (gs_ledger (xs_gate x)) (gs_session (xs_gate x)) n")
  case (Pair r k)
  show ?thesis
  proof (cases "\<exists>w. r = Inr (Some w)")
    case True
    then show ?thesis using assms Pair by (auto simp: give_certified_def split: prod.splits sum.splits)
  next
    case False
    then show ?thesis using assms Pair
      by (cases r; cases "projr r") (auto simp: give_certified_def Let_def)
  qed
qed

lemma exported_zip:
  assumes "export_certified e q st (x, n) = (ZipFile name zs, x1, j)"
  obtains run m where
    "ci_evidence (ge_environ e) st = Inr run" "get0 st ''state'' \<noteq> PStr ''unknown'' \<Longrightarrow> assert_zip_eligibility st run = Inr ()"
    "manifest_of (ge_environ e) q st x run = Inr m"
    "verify_manifest m (dkeys (xs_tree (write_export_manifest m x))) = Inr []"
    "export_blocker q st (write_export_manifest m x) = Inr None"
    "give_certified e q st m (write_export_manifest m x, n) = (ZipFile name zs, x1, j)"
proof -
  define run0 where "run0 = bind_result (py_export (ci_evidence (ge_environ e) st)) (\<lambda>run.
             if get0 st ''state'' \<noteq> PStr ''unknown'' then map_result (\<lambda>_. run) (assert_zip_eligibility st run) else Inr run)"
  obtain run where run: "run0 = Inr run"
    using assms by (cases run0) (auto simp: export_certified_def run0_def [symmetric] split: export_exn.splits)
  obtain m where m: "manifest_of (ge_environ e) q st x run = Inr m"
    using assms run by (cases "manifest_of (ge_environ e) q st x run") (auto simp: export_certified_def run0_def [symmetric])
  have v: "verify_manifest m (dkeys (xs_tree (write_export_manifest m x))) = Inr []"
    using assms run m by (auto simp: export_certified_def run0_def [symmetric] Let_def split: sum.splits list.splits)
  have b: "export_blocker q st (write_export_manifest m x) = Inr None"
    using assms run m v by (auto simp: export_certified_def run0_def [symmetric] Let_def split: sum.splits option.splits)
  have g: "give_certified e q st m (write_export_manifest m x, n) = (ZipFile name zs, x1, j)"
    using assms run m v b by (simp add: export_certified_def run0_def [symmetric] Let_def)
  have "ci_evidence (ge_environ e) st = Inr run"
    using run by (auto simp: run0_def result_simps split: if_splits)
  moreover have "assert_zip_eligibility st run = Inr ()" if "get0 st ''state'' \<noteq> PStr ''unknown''"
    using run that by (auto simp: run0_def result_simps)
  ultimately show ?thesis using that m v b g by blast
qed

lemma write_gate [simp]: "xs_gate (write_export_manifest m x) = xs_gate x" "xs_gate (write_file p c x) = xs_gate x"
  by (simp_all add: write_export_manifest_def write_file_def)

lemma manifest_written:
  "dget (xs_tree (write_export_manifest m x)) p =
     (if p = manifest_filename then Some (pretty (PDict m) 0 @ [CHR 0x0A]) else dget (xs_tree x) p)"
  by (simp add: write_export_manifest_def write_file_def dict_simps)

lemma certified_key: "get0 (certified_manifest q m) ''certified'' = PBool True"
  by (simp add: certified_manifest_def Let_def dict_simps get_or_def split: option.split prod.split)

lemma in_zip: "(p, c) \<in> set (xs_tree x) \<Longrightarrow> is_exported (split_on (CHR ''/'') p) \<Longrightarrow> (p, c) \<in> set (zip_generated_product x)"
  by (simp add: zip_generated_product_def)

lemma unblocked:
  assumes "export_blocker q st x = Inr None" and "claims_store_green three_gate_verdict st"
  shows "(\<exists>f. full_pilot_authorship_from st (xr_docs q) (xr_plan q) (xr_blueprint q) = Inr f \<and> \<not> below_floor f)
     \<and> (\<exists>r. read_acceptance_report (dget (xs_tree x) ''docs/store_acceptance.json'') st = Inr r \<and> acceptance_is_kk r)"
  using assms by (auto simp: export_blocker_def thin_store_green_export_blocker_def acceptance_export_blocker_def result_simps
      split: if_splits option.splits)

text \<open>Property C11.  A certified zip of a build with a ledger is earned: the run succeeded, an agent wrote
  some of it, without a CI run of the process its acceptance is complete and bound to a commit, its
  certification stands, and where it claims to be green the floor and the acceptance hold.\<close>

theorem certified_export_is_earned:
  assumes "download_product_package e q st (x, n) = (ZipFile name zs, x1, j)" and "\<not> xr_as_is q"
    and "get0 st ''state'' \<noteq> PStr ''unknown''"
  shows "text_of (get0 st ''state'') = ''succeeded''
     \<and> (\<exists>a w. or_dict (get0 st ''authorship'') = Inr a \<and> py_int (py_or (get0 a ''agent_written'') (PInt 0)) = Inr w \<and> w > 0)
     \<and> (ci_run_id (ge_environ e) = [] \<longrightarrow> (\<exists>a k. or_dict (get0 st ''acceptance'') = Inr a \<and> get0 a ''ok'' = PBool True
          \<and> score_of a = Inr (Some (k, k)) \<and> k > 0 \<and> py_strip (text_of (get0 st ''builds_sha'')) \<noteq> []))
     \<and> (\<forall>why. fst (certification_withdrawn e (gs_ledger (xs_gate x)) (gs_session (xs_gate x)) n) \<noteq> Inr (Some why))
     \<and> (claims_store_green three_gate_verdict st \<longrightarrow>
          (\<exists>f. full_pilot_authorship_from st (xr_docs q) (xr_plan q) (xr_blueprint q) = Inr f \<and> \<not> below_floor f)
          \<and> (\<exists>r. read_acceptance_report (dget (xs_tree x) ''docs/store_acceptance.json'') st = Inr r \<and> acceptance_is_kk r))"
proof -
  have "export_certified e q st (x, n) = (ZipFile name zs, x1, j)"
    using assms(1,2) by (auto simp: download_product_package_def Let_def split: if_splits)
  then obtain run m where r: "ci_evidence (ge_environ e) st = Inr run" "assert_zip_eligibility st run = Inr ()"
      "export_blocker q st (write_export_manifest m x) = Inr None"
      "give_certified e q st m (write_export_manifest m x, n) = (ZipFile name zs, x1, j)"
    using exported_zip [of e q st x n name zs x1 j] assms(3) by metis
  have "manifest_filename \<noteq> ''docs/store_acceptance.json''" by code_simp
  then have t: "dget (xs_tree (write_export_manifest m x)) ''docs/store_acceptance.json'' = dget (xs_tree x) ''docs/store_acceptance.json''"
    by (simp only: manifest_written if_False simp_thms not_sym)
  show ?thesis
    using eligible [OF r(2)] evidence [OF r(1)] given_zip [OF r(4)] unblocked [OF r(3)] unfolding write_gate t by blast
qed

text \<open> A download as it is never certifies: while the build runs it is refused, otherwise the
  manifest in the zip says so, next to the note that the build failed its gates, and the ledger is untouched.\<close>

theorem as_is_is_never_certified:
  assumes "download_product_package e q st (x, n) = (ZipFile name zs, x1, j)" and "xr_as_is q"
  shows "get0 st ''state'' \<noteq> PStr ''building'' \<and> xs_gate x1 = xs_gate x \<and> j = n
     \<and> (\<exists>m. (manifest_filename, pretty (PDict m) 0 @ [CHR 0x0A]) \<in> set zs \<and> get0 m ''certified'' = PBool False)
     \<and> (as_is_name, as_is_note q st) \<in> set zs"
proof -
  have st: "get0 st ''state'' \<noteq> PStr ''building''" and ex: "export_as_is q st x = (ZipFile name zs, x1)" and j: "j = n"
    using assms by (auto simp: download_product_package_def Let_def split: if_splits prod.splits)
  obtain m where m: "failed_export_manifest st (xr_product q) (xr_platform q) = Inr m"
    using ex by (cases "failed_export_manifest st (xr_product q) (xr_platform q)") (auto simp: export_as_is_def Let_def)
  have x1: "x1 = write_export_manifest m (write_file as_is_name (as_is_note q st) x)" and zs: "zs = zip_generated_product x1"
    using ex m by (auto simp: export_as_is_def Let_def)
  have c: "get0 m ''certified'' = PBool False" using m by (auto simp: failed_export_manifest_def result_simps get_or_def)
  have ne: "as_is_name \<noteq> manifest_filename" "is_exported (split_on (CHR ''/'') as_is_name)"
    "is_exported (split_on (CHR ''/'') manifest_filename)" by code_simp+
  have "dget (xs_tree x1) manifest_filename = Some (pretty (PDict m) 0 @ [CHR 0x0A])"
    "dget (xs_tree x1) as_is_name = Some (as_is_note q st)"
    using ne(1) by (simp_all add: x1 manifest_written) (simp add: write_file_def dict_simps)
  then have "(manifest_filename, pretty (PDict m) 0 @ [CHR 0x0A]) \<in> set zs" "(as_is_name, as_is_note q st) \<in> set zs"
    unfolding zs using in_zip ne(2,3) by (blast dest: map_of_SomeD)+
  then show ?thesis using st c j x1 by auto
qed

text \<open> The note of an earlier download as it is ships with every later zip: nothing removes
  it, so a certified zip says that the build failed its gates.\<close>

theorem as_is_note_stays:
  assumes "dget (xs_tree x) as_is_name = Some note" and "\<not> xr_as_is q"
    and "download_product_package e q st (x, n) = (ZipFile name zs, x1, j)"
  shows "(as_is_name, note) \<in> set zs"
proof -
  have "export_certified e q st (x, n) = (ZipFile name zs, x1, j)"
    using assms(2,3) by (auto simp: download_product_package_def Let_def split: if_splits)
  then obtain m where "give_certified e q st m (write_export_manifest m x, n) = (ZipFile name zs, x1, j)"
    using exported_zip [of e q st x n name zs x1 j] by metis
  then have z: "x1 = write_export_manifest (certified_manifest q m) (write_export_manifest m x)" "zs = zip_generated_product x1"
    using given_zip by blast+
  have ne: "as_is_name \<noteq> manifest_filename" "is_exported (split_on (CHR ''/'') as_is_name)" by code_simp+
  have "dget (xs_tree x1) as_is_name = Some note" using ne(1) assms(1) by (simp add: z(1) manifest_written)
  then show ?thesis unfolding z(2) using in_zip ne(2) by (blast dest: map_of_SomeD)
qed

section \<open>A build without a ledger\<close>

definition ledgerless_status :: "(string, pyval) dict" where
  "ledgerless_status = [(''state'', PStr ''unknown''), (''detail'', PStr ''no build ledger for this product'')]"

lemma ledgerless_unblocked: "export_blocker q ledgerless_status x = Inr None"
proof -
  have f: "get0 ledgerless_status k = PNone" if "k \<notin> {''state'', ''detail''}" for k
    using that by (simp add: ledgerless_status_def get_or_def)
  have c: "\<not> claims_store_green three_gate_verdict ledgerless_status" by code_simp
  have "first_cli_ids [PDict [], PDict [], PNone] = Inr None" "as_nonneg_int PNone = Inr None" "dict_of PNone = []"
    "get0 [] ''agent_artifacts'' = PNone" "get0 [] ''action_py'' = PNone" "get0 [] ''agent_written'' = PNone" by code_simp+
  then have "\<exists>f. full_pilot_authorship_from ledgerless_status (xr_docs q) (xr_plan q) (xr_blueprint q) = Inr f"
    by (simp add: full_pilot_authorship_from_def Let_def f)
  then show ?thesis
    using c by (auto simp: export_blocker_def thin_store_green_export_blocker_def acceptance_export_blocker_def)
qed

lemma built_fields:
  assumes "build_manifest q = Inr m"
  shows "get0 m ''schema'' = PStr manifest_schema" "text_of (get0 m ''tenancy_mode'') = mr_tenancy q" "mr_tenancy q \<in> set tenancy_modes"
    "get_or m ''engine'' (PDict []) = PDict [(''version'', PStr (mr_engine_version q)), (''included'', PBool (mr_engine q))]"
    "get_or m ''retrieval'' (PDict []) = PDict [(''mode'', PStr (mr_retrieval q)), (''embedder'', PStr (mr_embedder q)),
       (''vector_store'', PStr (mr_store q))]" "mr_retrieval q \<in> set retrieval_modes"
  using assms by (auto simp: build_manifest_def result_simps get_or_def split: if_splits option.splits)

text \<open>The manifest the route builds is honest by construction: its own check never refuses it.\<close>

lemma manifest_verifies:
  assumes "manifest_of env q st x run = Inr m"
  shows "verify_manifest m (dkeys (xs_tree (write_export_manifest m x))) = Inr []"
proof -
  obtain r where r: "build_manifest r = Inr m" "mr_engine r = has_file x engine_file"
      "mr_retrieval r = (if has_file x engine_file then ''vector_rag'' else ''keyword_lexical'')"
    using assms by (auto simp: manifest_of_def Let_def result_simps)
  have "engine_file \<noteq> manifest_filename" by code_simp
  then have "dget (xs_tree (write_export_manifest m x)) engine_file = dget (xs_tree x) engine_file" by (simp add: manifest_written)
  then have e: "engine_file \<in> set (dkeys (xs_tree (write_export_manifest m x))) \<longleftrightarrow> has_file x engine_file"
    using map_of_eq_None_iff [of "xs_tree (write_export_manifest m x)" engine_file] by (auto simp: has_file_def)
  show ?thesis
    unfolding verify_manifest_def built_fields(4,5) [OF r(1)] Let_def e
    using built_fields(1,2,3,6) [OF r(1)] r(2,3) by (simp add: get_or_def note_if_def)
qed

lemma ledgerless_manifest:
  assumes "dget (xs_tree x) ''docs/provenance/provenance.json'' = None"
  shows "\<exists>m. manifest_of env q ledgerless_status x run = Inr m"
proof -
  have f: "get0 ledgerless_status k = PNone" if "k \<notin> {''state'', ''detail''}" for k
    using that by (simp add: ledgerless_status_def get_or_def)
  have c: "cross_tenant_passed ledgerless_status = Inr False" by code_simp
  have p: "provenance_from_tree x = Inr []" using assms by (simp add: provenance_from_tree_def)
  have b: "\<exists>m. build_manifest r = Inr m" if "mr_retrieval r \<in> set retrieval_modes" "mr_tenancy r \<in> set tenancy_modes"
      "mr_layers r = [] \<or> mr_layers r = [(1, 1)]" "mr_build_level r = PNone" "mr_advisory r = []" for r
    using that by (auto simp: build_manifest_def py_export_def)
  have "py_iter (py_or (get0 ledgerless_status ''advisory_checks'') (PList [])) = Inr []"
    "get0 ledgerless_status ''build_level'' = PNone" by code_simp+
  then show ?thesis
    by (auto simp: manifest_of_def Let_def c p py_export_def retrieval_modes_def tenancy_modes_def intro!: b)
qed

text \<open>Property C21.  A product without a ledger, which no gate has seen, is exported under its plain name with a
  manifest that says it is certified, and without the marker of a prototype.\<close>

theorem ledgerless_export_is_certified:
  assumes "contents (gs_ledger (xs_gate x)) = None" and "\<not> xr_as_is q"
    and "dget (xs_tree x) ''docs/provenance/provenance.json'' = None" and "prototype_marker \<notin> set (dkeys (xs_tree x))"
    and "certification_withdrawn e (gs_ledger (xs_gate x)) (gs_session (xs_gate x)) n = (Inr None, k)"
  shows "\<exists>zs x1 m. download_product_package e q ledgerless_status (x, n)
       = (ZipFile (''cerebrumdev-'' @ xr_product q @ ''.zip'') zs, x1, k)
     \<and> (manifest_filename, pretty (PDict m) 0 @ [CHR 0x0A]) \<in> set zs \<and> get0 m ''certified'' = PBool True
     \<and> prototype_marker \<notin> set (map fst zs)"
proof -
  have ev: "\<exists>run. ci_evidence env ledgerless_status = Inr run" for env
  proof -
    have "or_dict (get0 ledgerless_status ''acceptance'') = Inr []" "score_of [] = Inr (Some (0, 0))" by code_simp+
    then show ?thesis by (simp add: ci_evidence_def Let_def)
  qed
  obtain run where run: "ci_evidence (ge_environ e) ledgerless_status = Inr run" using ev by blast
  obtain m where m0: "manifest_of (ge_environ e) q ledgerless_status x run = Inr m"
    using ledgerless_manifest [OF assms(3)] by blast
  note m = m0 manifest_verifies [OF m0]
  define x1 where "x1 = write_export_manifest (certified_manifest q m) (write_export_manifest m x)"
  have s: "get0 ledgerless_status ''state'' = PStr ''unknown''" by code_simp
  have name: "export_zip_name q ledgerless_status = ''cerebrumdev-'' @ xr_product q @ ''.zip''" by (simp add: export_zip_name_def s)
  have "give_certified e q ledgerless_status m (write_export_manifest m x, n)
      = (ZipFile (''cerebrumdev-'' @ xr_product q @ ''.zip'') (zip_generated_product x1), x1, k)"
    using assms(5) name by (simp add: give_certified_def x1_def Let_def)
  then have r: "download_product_package e q ledgerless_status (x, n)
      = (ZipFile (''cerebrumdev-'' @ xr_product q @ ''.zip'') (zip_generated_product x1), x1, k)"
    using assms(2) run m ledgerless_unblocked
    by (simp add: download_product_package_def s export_certified_def py_export_def)
  have ne: "is_exported (split_on (CHR ''/'') manifest_filename)" "prototype_marker \<noteq> manifest_filename" by code_simp+
  have "dget (xs_tree x1) manifest_filename = Some (pretty (PDict (certified_manifest q m)) 0 @ [CHR 0x0A])"
    by (simp add: x1_def manifest_written)
  then have z: "(manifest_filename, pretty (PDict (certified_manifest q m)) 0 @ [CHR 0x0A]) \<in> set (zip_generated_product x1)"
    using in_zip ne(1) by (blast dest: map_of_SomeD)
  have "dget (xs_tree x1) prototype_marker = None"
    using assms(4) ne(2) by (simp add: x1_def manifest_written map_of_eq_None_iff)
  then have "prototype_marker \<notin> set (map fst (zip_generated_product x1))"
    using assms(1) by (auto simp: zip_generated_product_def needs_marker_def x1_def map_of_eq_None_iff image_iff)
  then show ?thesis using r z certified_key by blast
qed

section \<open>Witnesses\<close>

definition demo_acceptance :: acceptance_report where
  "demo_acceptance = (new_report 23 23 True (map (\<lambda>n. new_line n ''PASS'' []) check_ids) [])\<lparr>acc_via := ''github-commit-status:store-gate''\<rparr>"

definition demo_run_status :: "bool \<Rightarrow> (string, pyval) dict" where
  "demo_run_status seated = [(''state'', PStr ''succeeded''), (''cycle'', PStr ''pilot''), (''pilot_ready'', PBool True),
     (''builds_sha'', PStr ''abc''), (''acceptance'', PDict (report_json demo_acceptance))]
     @ (if seated then [(''authorship'', PDict [(''agent_written'', PInt 6)])] else [])"

definition demo_graded :: graded_tree where
  "demo_graded = \<lparr>gt_dir = True, gt_file = (\<lambda>p. True), gt_exists = (\<lambda>p. True), gt_actions = True, gt_store_callers = [],
     gt_accept_test = True, gt_report = None, gt_docs = None\<rparr>"

lemma demo_grade: "case grade_workspace demo_graded (demo_run_status True) of
    Inr g \<Rightarrow> lg_level g = Founding_Customer_Ready | Inl x \<Rightarrow> False"
  by code_simp

theorem green_grade_is_earned_witness:
  "\<exists>g. grade_workspace demo_graded (demo_run_status True) = Inr g \<and> lg_level g = Founding_Customer_Ready
     \<and> lg_full_pilot g \<and> acceptance_is_kk (lg_acceptance g)"
proof -
  obtain g where g: "grade_workspace demo_graded (demo_run_status True) = Inr g" "lg_level g = Founding_Customer_Ready"
    using demo_grade by (auto split: sum.splits)
  then show ?thesis using green_grade_is_earned [OF g(1)] by (auto simp: green_level_def)
qed

theorem grade_only_lowers_witness:
  "get0 (attach_level_grade (\<lambda>x. []) demo_graded (demo_run_status False)) ''pilot_ready'' = PBool False
   \<and> get0 (demo_run_status False) ''pilot_ready'' = PBool True"
proof -
  have "case full_pilot_authorship_from (demo_run_status False) None PNone PNone of Inr f \<Rightarrow> below_floor f | Inl x \<Rightarrow> False"
    by code_simp
  then obtain f where "full_pilot_authorship_from (demo_run_status False) (if gt_dir demo_graded then gt_docs demo_graded else None) PNone PNone = Inr f"
      "below_floor f"
    by (auto simp: demo_graded_def split: sum.splits)
  moreover have "get0 (demo_run_status False) ''pilot_ready'' = PBool True" by code_simp
  ultimately show ?thesis using grade_only_lowers [of "\<lambda>x. []" demo_graded "demo_run_status False"] by blast
qed

definition demo_space_of :: "build_event list \<Rightarrow> (string, string) dict \<Rightarrow> export_space" where
  "demo_space_of es t = \<lparr>xs_tree = t, xs_gate = demo_gate_space es, xs_bare_dirs = []\<rparr>"

definition demo_export :: "bool \<Rightarrow> export_request" where
  "demo_export as_is = \<lparr>xr_as_is = as_is, xr_product = ''p'', xr_platform = PNone, xr_plan = PNone, xr_blueprint = PNone,
     xr_docs = None, xr_now = ''t'', xr_release = None\<rparr>"

definition unarmed :: gate_env where
  "unarmed = (demo_gate no_route)\<lparr>ge_start := demo_start\<lparr>st_environ := (\<lambda>k. None)\<rparr>\<rparr>"

lemma demo_not_withdrawn: "certification_withdrawn unarmed f own n = (Inr None, n)"
proof -
  have "builds_token (ge_environ unarmed) = []" by code_simp
  then show ?thesis by (simp add: certification_withdrawn_def)
qed

lemma demo_certified:
  "case download_product_package unarmed (demo_export False) (demo_run_status True) (demo_space_of demo_history [(as_is_name, ''n'')], 0) of
     (ZipFile name zs, x, k) \<Rightarrow> True | _ \<Rightarrow> False"
  by code_simp

theorem certified_export_is_earned_witness:
  "\<exists>name zs x k r. download_product_package unarmed (demo_export False) (demo_run_status True)
       (demo_space_of demo_history [(as_is_name, ''n'')], 0) = (ZipFile name zs, x, k)
     \<and> read_acceptance_report None (demo_run_status True) = Inr r \<and> acceptance_is_kk r"
proof -
  let ?d = "download_product_package unarmed (demo_export False) (demo_run_status True) (demo_space_of demo_history [(as_is_name, ''n'')], 0)"
  obtain name zs x k where d: "?d = (ZipFile name zs, x, k)"
    using demo_certified by (cases ?d) (auto split: export_reply.splits)
  have "get0 (demo_run_status True) ''state'' \<noteq> PStr ''unknown''" "claims_store_green three_gate_verdict (demo_run_status True)"
    "dget (xs_tree (demo_space_of demo_history [(as_is_name, ''n'')])) ''docs/store_acceptance.json'' = None" "\<not> xr_as_is (demo_export False)"
    by code_simp+
  then show ?thesis using certified_export_is_earned [OF d] d by auto
qed

theorem as_is_note_stays_witness:
  "\<exists>name zs x k. download_product_package unarmed (demo_export False) (demo_run_status True)
       (demo_space_of demo_history [(as_is_name, ''n'')], 0) = (ZipFile name zs, x, k) \<and> (as_is_name, ''n'') \<in> set zs"
proof -
  let ?d = "download_product_package unarmed (demo_export False) (demo_run_status True) (demo_space_of demo_history [(as_is_name, ''n'')], 0)"
  obtain name zs x k where d: "?d = (ZipFile name zs, x, k)"
    using demo_certified by (cases ?d) (auto split: export_reply.splits)
  have "dget (xs_tree (demo_space_of demo_history [(as_is_name, ''n'')])) as_is_name = Some ''n''" "\<not> xr_as_is (demo_export False)"
    by code_simp+
  from as_is_note_stays [OF this d] d show ?thesis by blast
qed

theorem as_is_is_never_certified_witness:
  "\<exists>name zs x k m. download_product_package unarmed (demo_export True) (demo_run_status True) (demo_space_of demo_history [], 0)
       = (ZipFile name zs, x, k) \<and> (manifest_filename, pretty (PDict m) 0 @ [CHR 0x0A]) \<in> set zs \<and> get0 m ''certified'' = PBool False"
proof -
  let ?d = "download_product_package unarmed (demo_export True) (demo_run_status True) (demo_space_of demo_history [], 0)"
  have "case ?d of (ZipFile name zs, x, k) \<Rightarrow> True | _ \<Rightarrow> False" by code_simp
  then obtain name zs x k where d: "?d = (ZipFile name zs, x, k)" by (cases ?d) (auto split: export_reply.splits)
  have "xr_as_is (demo_export True)" by code_simp
  from as_is_is_never_certified [OF d this] d show ?thesis by blast
qed

theorem ledgerless_export_is_certified_witness:
  "\<exists>zs x1 m. download_product_package unarmed (demo_export False) ledgerless_status
       (\<lparr>xs_tree = [(''app/main.py'', ''x'')], xs_gate = (demo_gate_space [])\<lparr>gs_ledger := no_ledger\<rparr>, xs_bare_dirs = []\<rparr>, 0)
       = (ZipFile ''cerebrumdev-p.zip'' zs, x1, 0)
     \<and> (manifest_filename, pretty (PDict m) 0 @ [CHR 0x0A]) \<in> set zs \<and> get0 m ''certified'' = PBool True"
proof -
  let ?x = "\<lparr>xs_tree = [(''app/main.py'', ''x'')], xs_gate = (demo_gate_space [])\<lparr>gs_ledger := no_ledger\<rparr>, xs_bare_dirs = []\<rparr> :: export_space"
  have "contents (gs_ledger (xs_gate ?x)) = None" "\<not> xr_as_is (demo_export False)" "xr_product (demo_export False) = ''p''"
    by (simp_all add: no_ledger_def demo_export_def)
  moreover have "dget (xs_tree ?x) ''docs/provenance/provenance.json'' = None" "prototype_marker \<notin> set (dkeys (xs_tree ?x))" by code_simp+
  ultimately show ?thesis
    using ledgerless_export_is_certified [OF _ _ _ _ demo_not_withdrawn, of ?x "demo_export False" 0] by auto
qed

end
