(* ===== verification/AdoptGreen.thy ===== *)
theory AdoptGreen
  imports StoreIngest
begin

text \<open>
  Adopting a build branch that already passed the Store gate (\<open>factory/build/adopt_green.py\<close>,
  \<open>_adopt_green_build\<close> and \<open>reseed_and_ingest_n3\<close> of \<open>factory/platform_chat_flow.py\<close>).  The
  workspace is the gate's space of theory StoreIngest, its files by relative path.  Arguments:
  SHA-1, the ids of the handlers an agent wrote (read from syntax trees), the blueprint's id and
  the recorded hash of its inputs.
\<close>

section \<open>The branch's tree\<close>

definition git_blob_sha :: "(string \<Rightarrow> string) \<Rightarrow> string \<Rightarrow> string" where
  "git_blob_sha sha1 data = sha1 (''blob '' @ show_nat (length data) @ [CHR 0x00] @ data)"

definition tree_row :: "pyval \<Rightarrow> (string \<times> string) option" where
  "tree_row v = (case v of
       PDict i \<Rightarrow> (if get0 i ''type'' = PStr ''blob'' then Some (py_str (get0 i ''path''), py_str (get0 i ''sha'')) else None)
     | _ \<Rightarrow> None)"

text \<open>None when the tree cannot be read whole; a later row of a path replaces an earlier one.\<close>

definition branch_tree :: "github \<Rightarrow> string \<Rightarrow> string \<Rightarrow> string \<Rightarrow> (string, string) dict option gh_call" where
  "branch_tree gh owner repo commit =
     bind_call (github_request gh (TreeOf owner repo commit)) (\<lambda>(st, body).
       if st \<ge> 400 \<or> \<not> is_mapping body \<or> truthy (get0 (dict_of body) ''truncated'') then return_call None
       else return_call (Some (dmerge [] (List.map_filter tree_row (list_of (get0 (dict_of body) ''tree''))))))"

section \<open>The comparison\<close>

definition compared_path :: "string \<Rightarrow> bool" where
  "compared_path rel = (\<not> starts_with rel ''.github/''
     \<and> \<not> list_ex (\<lambda>part. part \<in> set factory_internal_names) (split_on (CHR ''/'') rel)
     \<and> rel \<notin> {''build_ledger.jsonl'', ''receipt.json''})"

definition differs :: "(string \<Rightarrow> string) \<Rightarrow> tree \<Rightarrow> string \<times> string \<Rightarrow> bool" where
  "differs sha1 files p = (case files (fst p) of None \<Rightarrow> True | Some data \<Rightarrow> git_blob_sha sha1 data \<noteq> snd p)"

text \<open>The number of paths compared and those that differ; the tenth ends the comparison.\<close>

fun compare_rows :: "(string \<Rightarrow> string) \<Rightarrow> tree \<Rightarrow> (string \<times> string) list \<Rightarrow> nat \<Rightarrow> string list \<Rightarrow> nat \<times> string list" where
  "compare_rows sha1 files [] k ds = (k, ds)"
| "compare_rows sha1 files (p # ps) k ds =
     (if \<not> differs sha1 files p then compare_rows sha1 files ps (k + 1) ds
      else if length ds + 1 \<ge> 10 then (k, ds @ [fst p])
      else compare_rows sha1 files ps (k + 1) (ds @ [fst p]))"

definition workspace_matches_tree :: "(string \<Rightarrow> string) \<Rightarrow> tree \<Rightarrow> (string, string) dict \<Rightarrow> bool \<times> string list" where
  "workspace_matches_tree sha1 files t =
     (let (k, ds) = compare_rows sha1 files (filter (\<lambda>p. compared_path (fst p)) (sort_key fst t)) 0 []
      in (k > 0 \<and> ds = [], ds))"

section \<open>The branch to adopt\<close>

record adoptable =
  ad_branch :: string
  ad_sha :: string
  ad_owner :: string
  ad_repo :: string
  ad_score :: string

definition full_score :: "store_snapshot \<Rightarrow> string option" where
  "full_score s = (case (sn_passed s, sn_total s) of
       (Some p, Some t) \<Rightarrow> (if sn_ok s \<and> t \<noteq> 0 \<and> p = t then Some (show_int p @ ''/'' @ show_int t) else None)
     | _ \<Rightarrow> None)"

text \<open>A branch that cannot be verified, for whatever reason, is passed over.\<close>

definition verified_branch ::
  "gate_env \<Rightarrow> (string \<Rightarrow> string) \<Rightarrow> tree \<Rightarrow> string \<times> string \<Rightarrow> string \<Rightarrow> string \<times> string \<Rightarrow> nat \<Rightarrow> adoptable option \<times> nat" where
  "verified_branch e sha1 files where_at sid ref n = (case (where_at, ref) of ((owner, repo), (branch, commit)) \<Rightarrow>
     (case fetch_store_gate_status e \<lparr>bt_owner = owner, bt_repo = repo, bt_sha = commit, bt_branch = branch, bt_session = sid\<rparr> n of
        (Inl x, m) \<Rightarrow> (None, m)
      | (Inr s, m) \<Rightarrow> (case full_score s of
          None \<Rightarrow> (None, m)
        | Some score \<Rightarrow> (case branch_tree (ge_github e) owner repo commit m of
            (Inl x, k) \<Rightarrow> (None, k)
          | (Inr None, k) \<Rightarrow> (None, k)
          | (Inr (Some t), k) \<Rightarrow>
              (if fst (workspace_matches_tree sha1 files t)
               then (Some \<lparr>ad_branch = branch, ad_sha = commit, ad_owner = owner, ad_repo = repo, ad_score = score\<rparr>, k)
               else (None, k))))))"

fun first_verified ::
  "gate_env \<Rightarrow> (string \<Rightarrow> string) \<Rightarrow> tree \<Rightarrow> string \<times> string \<Rightarrow> string \<Rightarrow> (string \<times> string) list \<Rightarrow> nat \<Rightarrow> adoptable option \<times> nat" where
  "first_verified e sha1 files where_at sid [] n = (None, n)"
| "first_verified e sha1 files where_at sid (r # rs) n = (case verified_branch e sha1 files where_at sid r n of
       (Some a, m) \<Rightarrow> (Some a, m) | (None, m) \<Rightarrow> first_verified e sha1 files where_at sid rs m)"

definition find_adoptable_branch ::
  "gate_env \<Rightarrow> (string \<Rightarrow> string) \<Rightarrow> gate_space \<Rightarrow> string \<Rightarrow> adoptable option gh_call" where
  "find_adoptable_branch e sha1 g sid n =
     (let pid = recorded_platform_id (gs_ledger g)
      in if builds_token (ge_environ e) = [] \<or> (sid = [] \<and> pid = None) then (Inr None, n)
         else case parse_builds_repo (ge_environ e) of
           Inl x \<Rightarrow> (Inl x, n)
         | Inr where_at \<Rightarrow> (case build_refs_of_record (ge_github e) (fst where_at) (snd where_at) pid sid n of
             (Inl x, m) \<Rightarrow> (Inr None, m)
           | (Inr refs, m) \<Rightarrow> (case first_verified e sha1 (gs_files g) where_at sid (rev refs) m of (a, k) \<Rightarrow> (Inr a, k))))"

section \<open>Adopting it\<close>

text \<open>The hand-off is stamped and its verdict read at once; a pending one is left to a waiter.\<close>

definition reseed_and_ingest_n3 ::
  "gate_env \<Rightarrow> reseed_request \<Rightarrow> string \<Rightarrow> gate_space \<times> nat \<Rightarrow> ((gate_exn + ingest_result) \<times> gate_space \<times> nat) option" where
  "reseed_and_ingest_n3 e q sid s = (case reseed_handoff_ledger e q s of
       (Inl x, t) \<Rightarrow> Some (Inl x, t)
     | (Inr stamped, t) \<Rightarrow> ingest_n3_store_gate e False 0 sid t)"

text \<open>None: nothing was adopted, or it raised and the resume goes on as it would have.\<close>

definition adopt_green_build ::
  "gate_env \<Rightarrow> (string \<Rightarrow> string) \<Rightarrow> string list \<Rightarrow> string \<Rightarrow> string \<Rightarrow> string \<Rightarrow> gate_space \<times> nat
   \<Rightarrow> (ingest_result option \<times> gate_space \<times> nat) option" where
  "adopt_green_build e sha1 ids product hash sid s = (case s of (g, n) \<Rightarrow>
     (case find_adoptable_branch e sha1 g sid n of
        (Inl x, m) \<Rightarrow> Some (None, g, m)
      | (Inr None, m) \<Rightarrow> Some (None, g, m)
      | (Inr (Some a), m) \<Rightarrow>
          (if ids = [] then Some (None, g, m)
           else map_option (\<lambda>(r, t). (case r of Inr res \<Rightarrow> Some res | Inl x \<Rightarrow> None, t))
             (reseed_and_ingest_n3 e \<lparr>rr_sha = ad_sha a, rr_branch = ad_branch a, rr_ids = ids, rr_owner = ad_owner a,
                rr_repo = ad_repo a, rr_product = product, rr_hash = hash\<rparr> sid (g, m)))))"

end
