(* ===== verification/AdoptFacts.thy ===== *)
theory AdoptFacts
  imports AdoptGreen GateWitnesses
begin

text \<open>
  What adopting a branch promises: its commit passed the gate with the full score and every product
  file of its tree is in the workspace byte for byte.  And what it does not: files of the workspace
  that the tree lacks are never looked at.
\<close>

section \<open>The comparison\<close>

lemma compare_rows_same:
  "compare_rows sha1 f ps k ds = (j, []) \<Longrightarrow> ds = [] \<and> j = k + length ps \<and> list_all (\<lambda>p. \<not> differs sha1 f p) ps"
  by (induction ps arbitrary: k ds) (fastforce split: if_splits)+

lemma same_tree:
  assumes "fst (workspace_matches_tree sha1 f t)"
  shows "(\<exists>p \<in> set t. compared_path (fst p)) \<and>
     (\<forall>(rel, blob) \<in> set t. compared_path rel \<longrightarrow> (\<exists>data. f rel = Some data \<and> git_blob_sha sha1 data = blob))"
proof -
  let ?ps = "filter (\<lambda>p. compared_path (fst p)) (sort_key fst t)"
  obtain j ds where c: "compare_rows sha1 f ?ps 0 [] = (j, ds)" by (metis surj_pair)
  then have "j > 0" "ds = []" using assms by (simp_all add: workspace_matches_tree_def)
  with c have "?ps \<noteq> []" "list_all (\<lambda>p. \<not> differs sha1 f p) ?ps" using compare_rows_same by fastforce+
  then have "\<exists>p \<in> set t. compared_path (fst p)" "\<forall>p \<in> set t. compared_path (fst p) \<longrightarrow> \<not> differs sha1 f p"
    by (auto simp: filter_empty_conv list_all_iff)
  then show ?thesis by (fastforce simp: differs_def split: option.splits)
qed

lemma compare_rows_cong:
  "(\<And>p. p \<in> set ps \<Longrightarrow> differs sha1 f p = differs sha1 h p) \<Longrightarrow> compare_rows sha1 f ps k ds = compare_rows sha1 h ps k ds"
  by (induction ps arbitrary: k ds) auto

lemma unseen_same_match:
  assumes "dget t name = None"
  shows "workspace_matches_tree sha1 (f(name \<mapsto> content)) t = workspace_matches_tree sha1 f t"
proof -
  have "fst p \<noteq> name" if "p \<in> set t" for p
    using assms that by (auto simp: map_of_eq_None_iff)
  then have "compare_rows sha1 (f(name \<mapsto> content)) (filter (\<lambda>p. compared_path (fst p)) (sort_key fst t)) 0 []
     = compare_rows sha1 f (filter (\<lambda>p. compared_path (fst p)) (sort_key fst t)) 0 []"
    by (intro compare_rows_cong) (auto simp: differs_def)
  then show ?thesis by (simp add: workspace_matches_tree_def)
qed

section \<open>The search\<close>

definition adopted_target :: "adoptable \<Rightarrow> string \<Rightarrow> builds_target" where
  "adopted_target a sid = \<lparr>bt_owner = ad_owner a, bt_repo = ad_repo a, bt_sha = ad_sha a, bt_branch = ad_branch a, bt_session = sid\<rparr>"

lemma verified_branch_Some:
  assumes "verified_branch e sha1 f where_at sid ref n = (Some a, m)"
  shows "\<exists>s k t. fetch_store_gate_status e (adopted_target a sid) n = (Inr s, k) \<and> full_score s = Some (ad_score a)
     \<and> branch_tree (ge_github e) (ad_owner a) (ad_repo a) (ad_sha a) k = (Inr (Some t), m)
     \<and> fst (workspace_matches_tree sha1 f t) \<and> where_at = (ad_owner a, ad_repo a) \<and> ref = (ad_branch a, ad_sha a)"
  using assms by (cases where_at; cases ref)
    (auto simp: verified_branch_def adopted_target_def split: prod.splits sum.splits option.splits if_splits)

lemma first_verified_Some:
  "first_verified e sha1 f where_at sid rs n = (Some a, m) \<Longrightarrow> \<exists>k. \<exists>r \<in> set rs. verified_branch e sha1 f where_at sid r k = (Some a, m)"
  by (induction rs arbitrary: n) (fastforce split: prod.splits option.splits)+

lemma found_branch:
  assumes "find_adoptable_branch e sha1 g sid n = (Inr (Some a), m)"
  shows "\<exists>where_at rs r k. parse_builds_repo (ge_environ e) = Inr where_at \<and> r \<in> set rs
     \<and> verified_branch e sha1 (gs_files g) where_at sid r k = (Some a, m)"
proof -
  obtain where_at rs k where "parse_builds_repo (ge_environ e) = Inr where_at"
    "first_verified e sha1 (gs_files g) where_at sid (rev rs) k = (Some a, m)"
    using assms by (auto simp: find_adoptable_branch_def Let_def split: if_splits sum.splits prod.splits)
  then show ?thesis using first_verified_Some by blast
qed

lemma full_scoreD: "full_score s = Some x \<Longrightarrow> sn_ok s \<and> (\<exists>k. k \<noteq> 0 \<and> sn_passed s = Some k \<and> sn_total s = Some k)"
  by (auto simp: full_score_def split: option.splits if_splits)

text \<open>Property C18.  An adopted branch is verified: GitHub's gate status of its commit was ok with the full
  score, its tree was read whole and has a product file, and the workspace has every product file
  of it with the same git blob id.\<close>

theorem adopted_branch_is_verified:
  assumes "find_adoptable_branch e sha1 g sid n = (Inr (Some a), m)"
  shows "\<exists>i s k t. fetch_store_gate_status e (adopted_target a sid) i = (Inr s, k)
     \<and> sn_ok s \<and> (\<exists>c. c \<noteq> 0 \<and> sn_passed s = Some c \<and> sn_total s = Some c)
     \<and> branch_tree (ge_github e) (ad_owner a) (ad_repo a) (ad_sha a) k = (Inr (Some t), m)
     \<and> (\<exists>p \<in> set t. compared_path (fst p))
     \<and> (\<forall>(rel, blob) \<in> set t. compared_path rel \<longrightarrow> (\<exists>data. gs_files g rel = Some data \<and> git_blob_sha sha1 data = blob))"
proof -
  obtain where_at r i where v: "verified_branch e sha1 (gs_files g) where_at sid r i = (Some a, m)"
    using found_branch[OF assms] by blast
  obtain s k t where b: "fetch_store_gate_status e (adopted_target a sid) i = (Inr s, k)" "full_score s = Some (ad_score a)"
    "branch_tree (ge_github e) (ad_owner a) (ad_repo a) (ad_sha a) k = (Inr (Some t), m)"
    "fst (workspace_matches_tree sha1 (gs_files g) t)"
    using verified_branch_Some[OF v] by blast
  show ?thesis using b(1,3) full_scoreD[OF b(2)] same_tree[OF b(4)] by blast
qed

lemma unseen_same_branch:
  assumes "\<And>owner repo c k t j. branch_tree (ge_github e) owner repo c k = (Inr (Some t), j) \<Longrightarrow> dget t name = None"
  shows "verified_branch e sha1 (f(name \<mapsto> content)) where_at sid r n = verified_branch e sha1 f where_at sid r n"
proof -
  have "workspace_matches_tree sha1 (f(name \<mapsto> content)) t = workspace_matches_tree sha1 f t"
    if "branch_tree (ge_github e) owner repo c k = (Inr (Some t), j)" for owner repo c k t j
    using assms[OF that] by (rule unseen_same_match)
  then show ?thesis
    unfolding verified_branch_def by (simp split: prod.split sum.split option.split)
qed

lemma unseen_same_first:
  assumes "\<And>owner repo c k t j. branch_tree (ge_github e) owner repo c k = (Inr (Some t), j) \<Longrightarrow> dget t name = None"
  shows "first_verified e sha1 (f(name \<mapsto> content)) where_at sid rs n = first_verified e sha1 f where_at sid rs n"
  by (induction rs arbitrary: n) (simp_all add: unseen_same_branch[OF assms] split: prod.split option.split)

text \<open> A file of the workspace that no branch carries does not hinder the adoption: the gate
  never saw it, it is part of the zip cut from the workspace, and the same branch is adopted.\<close>

theorem unseen_file_is_adopted:
  assumes "\<And>owner repo c k t j. branch_tree (ge_github e) owner repo c k = (Inr (Some t), j) \<Longrightarrow> dget t name = None"
    and "find_adoptable_branch e sha1 g sid n = (Inr (Some a), m)"
  shows "find_adoptable_branch e sha1 (g\<lparr>gs_files := (gs_files g)(name \<mapsto> content)\<rparr>) sid n = (Inr (Some a), m)"
proof -
  have "first_verified e sha1 ((gs_files g)(name \<mapsto> content)) where_at sid rs k = first_verified e sha1 (gs_files g) where_at sid rs k"
    for where_at rs k using assms(1) by (rule unseen_same_first)
  then have "find_adoptable_branch e sha1 (g\<lparr>gs_files := (gs_files g)(name \<mapsto> content)\<rparr>) sid n = find_adoptable_branch e sha1 g sid n"
    by (simp add: find_adoptable_branch_def Let_def split: sum.split prod.split)
  then show ?thesis using assms(2) by simp
qed

section \<open>At a concrete workspace\<close>

definition demo_blob :: "string \<times> string \<Rightarrow> pyval" where
  "demo_blob p = PDict [(''path'', PStr (fst p)), (''type'', PStr ''blob''), (''sha'', PStr (snd p))]"

definition says_adoptable :: github where
  "says_adoptable k rq = (case rq of
     MatchingRefs x y z \<Rightarrow> Answered 200 (PList [PDict [(''ref'', PStr ''refs/heads/build/s-1''), (''object'', PDict [(''sha'', PStr ''abc'')])]])
   | TreeOf x y z \<Rightarrow> Answered 200 (PDict [(''tree'', PList [demo_blob (''app/main.py'', git_blob_sha (\<lambda>s. s) ''m''),
        demo_blob (''build_ledger.jsonl'', ''1'')])])
   | _ \<Rightarrow> says_green k rq)"

definition demo_adopt_space :: gate_space where
  "demo_adopt_space = (demo_gate_space demo_history)\<lparr>gs_files := (\<lambda>p. if p = ''app/main.py'' then Some ''m'' else None)\<rparr>"

lemma demo_found:
  "\<exists>a m. find_adoptable_branch (demo_gate says_adoptable) (\<lambda>s. s) demo_adopt_space ''s'' 0 = (Inr (Some a), m)
     \<and> ad_branch a = ''build/s-1'' \<and> ad_sha a = ''abc'' \<and> ad_score a = ''23/23''"
proof -
  have "case find_adoptable_branch (demo_gate says_adoptable) (\<lambda>s. s) demo_adopt_space ''s'' 0 of
      (Inr (Some a), m) \<Rightarrow> ad_branch a = ''build/s-1'' \<and> ad_sha a = ''abc'' \<and> ad_score a = ''23/23'' | _ \<Rightarrow> False"
    by code_simp
  then show ?thesis by (auto split: prod.splits sum.splits option.splits)
qed

theorem adopted_branch_is_verified_witness:
  "\<exists>(a :: adoptable) t k m. branch_tree says_adoptable (ad_owner a) (ad_repo a) ''abc'' k = (Inr (Some t), m) \<and> (\<exists>p \<in> set t. compared_path (fst p))
     \<and> ad_branch a = ''build/s-1''"
proof -
  obtain a m where f: "find_adoptable_branch (demo_gate says_adoptable) (\<lambda>s. s) demo_adopt_space ''s'' 0 = (Inr (Some a), m)"
    "ad_branch a = ''build/s-1''" "ad_sha a = ''abc''" using demo_found by blast
  obtain k t where "branch_tree says_adoptable (ad_owner a) (ad_repo a) ''abc'' k = (Inr (Some t), m)" "\<exists>p \<in> set t. compared_path (fst p)"
    using adopted_branch_is_verified[OF f(1)] unfolding demo_gate_simps f(3) by blast
  then show ?thesis using f(2) by blast
qed

definition unseen_name :: string where "unseen_name = ''app/actions/new.py''"

lemma demo_tree_rows: "dget (dmerge [] (List.map_filter tree_row [demo_blob (''app/main.py'', git_blob_sha (\<lambda>s. s) ''m''),
    demo_blob (''build_ledger.jsonl'', ''1'')])) unseen_name = None"
  by code_simp

lemma demo_trees:
  assumes "branch_tree says_adoptable owner repo c k = (Inr (Some t), j)"
  shows "dget t unseen_name = None"
proof -
  let ?rows = "[demo_blob (''app/main.py'', git_blob_sha (\<lambda>s. s) ''m''), demo_blob (''build_ledger.jsonl'', ''1'')]"
  have g: "truthy (get0 (dict_of (PDict [(''tree'', PList ?rows)])) ''truncated'') = False"
    "list_of (get0 (dict_of (PDict [(''tree'', PList ?rows)])) ''tree'') = ?rows" "is_mapping (PDict [(''tree'', PList ?rows)])"
    by code_simp+
  have "github_request says_adoptable (TreeOf owner repo c) k = (Inr (200, PDict [(''tree'', PList ?rows)]), Suc k)"
    by (simp add: github_request_def says_adoptable_def)
  then have "t = dmerge [] (List.map_filter tree_row ?rows)"
    using assms unfolding branch_tree_def bind_call_def return_call_def by (simp only: prod.case sum.case g) simp
  then show ?thesis using demo_tree_rows by simp
qed

theorem unseen_file_is_adopted_witness:
  "\<exists>a m. find_adoptable_branch (demo_gate says_adoptable) (\<lambda>s. s)
       (demo_adopt_space\<lparr>gs_files := (gs_files demo_adopt_space)(unseen_name \<mapsto> ''import os'')\<rparr>) ''s'' 0 = (Inr (Some a), m)
     \<and> is_exported (split_on (CHR ''/'') unseen_name)"
proof -
  obtain a m where f: "find_adoptable_branch (demo_gate says_adoptable) (\<lambda>s. s) demo_adopt_space ''s'' 0 = (Inr (Some a), m)"
    using demo_found by blast
  have "is_exported (split_on (CHR ''/'') unseen_name)" by code_simp
  then show ?thesis
    using unseen_file_is_adopted[OF _ f, of unseen_name "''import os''"] demo_trees demo_gate_simps(1) by metis
qed

end
