(* ===== verification/Spec2Isabelle.thy ===== *)
theory Spec2Isabelle
  imports RunLoop Quotas RateLimit BuildStartFacts WorkbenchFacts SandboxFacts StoreAdvice PushFacts GateWitnesses
    PrecedenceFacts ActionFacts HealFacts PlannerFacts BlocksLockFacts OrphanFacts PromotionFacts ExportFacts AdoptFacts
begin

text \<open>
  A verification library for the Factory behind CerebrumDev.ai (\<open>src/backend/app\<close>): a
  service that turns a product blueprint into a built, gated and delivered platform.

  \<^bold>\<open>The parts and how they meet.\<close>  A signed-in user (accounts, authentication, billing and
  quotas under \<open>core/\<close>) starts a build; \<open>factory/build_jobs.py\<close> decides whether a workspace is
  re-entered or a fresh one made, and runs the roles of \<open>factory/build/runner.py\<close> on it.  Every
  fact about a run is an event of its append-only ledger \<open>build_ledger.jsonl\<close>; the run's position,
  its budgets, its verdict and what the Floor shows are functions of that ledger.  A run that passes
  its own gates is pushed to the builds repository and handed to the Store gate, a job on GitHub
  whose commit status is polled and ingested into the ledger.  Failures are typed findings with an
  owner: the product's go back to the writer within a rework budget, the Factory's do not.  Beside
  the build stand the change requests (signed requests worked on in a sandbox and staged), the
  product kernel that every generated platform carries, and the resident engineer that heals it.

  \<^bold>\<open>Conventions.\<close>  Python's dictionaries are association lists with distinct keys, its loosely
  typed values the datatype \<open>pyval\<close>, its exceptions the left summand of a result.  Strings are
  lists of characters with codes 0 to 255; integers are unbounded.  Whatever is not code under
  \<open>src/\<close> (the clock, hashes, signatures, the answers of GitHub, Docker, Redis and language models,
  \<open>Path.resolve\<close>, what another process does to a shared remote between two commands) is an
  argument of the definitions that use it.  Log lines, locks and \<open>fsync\<close> have no counterpart:
  a locked section is one step.

  \<^bold>\<open>Theories and sources\<close> (paths below \<open>src/backend/app\<close>).

  \<^item> \<open>Prelude\<close>, \<open>PyVal\<close>, \<open>PyConv\<close>, \<open>Json\<close>: results, ordered dictionaries, the language's values and
    conversions, and the JSON codec of its standard library with the round trip that the ledger
    rests on.  The parser has fuel; \<open>Json\<close> proves that twice the length of the text plus one is
    enough for every text the printer makes.
  \<^item> \<open>EventLog\<close>: the locale of an append-only log, interpreted in \<open>Ledger\<close> on the file.
  \<^item> \<open>Authority\<close> (\<open>factory/build/authority.py\<close>): the roles, their lanes, the authorisation of a write.
  \<^item> \<open>Ledger\<close> (\<open>factory/build/ledger.py\<close>): the file as text, append, read, quarantine, and every
    derived state: completed roles, resume point, rework counts, terminal verdict.
  \<^item> \<open>Findings\<close>, \<open>BriefGates\<close>, \<open>FailureOwner\<close> (\<open>findings.py\<close>, \<open>brief_gates.py\<close>,
    \<open>rule_decision.py\<close>, \<open>failure_owner.py\<close>): what a gate reports and who owns it.
  \<^item> \<open>Wall\<close>, \<open>Runner\<close>, \<open>RunnerFacts\<close>, \<open>RunLoop\<close> (\<open>factory/build/runner.py\<close>): the wall-clock
    budget, the rule for a failed gate, one cycle over the phases.  A cycle has fuel for 26 phase
    executions; \<open>run_cycle_terminates\<close> shows that it never runs out.
  \<^item> \<open>Accounts\<close>, \<open>AccountsFacts\<close>, \<open>AccountRights\<close> (\<open>core/accounts_store.py\<close>), \<open>Auth\<close>
    (\<open>core/auth.py\<close>, \<open>core/auth_cookies.py\<close>), \<open>Billing\<close> (\<open>core/billing.py\<close>,
    \<open>core/stripe_billing.py\<close>), \<open>Quotas\<close> (\<open>core/trial_limits.py\<close>, a client of the locale of counter
    stores), \<open>RateLimit\<close> (\<open>core/rate_limit.py\<close>, \<open>core/llm_throttle.py\<close>).
  \<^item> \<open>BuildStatus\<close>, \<open>BuildStatusFacts\<close>, \<open>BuildStart\<close>, \<open>BuildStartFacts\<close>
    (\<open>factory/build_jobs.py\<close>): the status computed from a ledger, starting, re-entering and ending
    a run; the search for a free workspace name gives up after 10000 names, as the code does.
  \<^item> \<open>OrphanRecovery\<close>, \<open>OrphanFacts\<close> (\<open>factory/build/orphan_recovery.py\<close>): what the process does at
    boot with builds that a restart interrupted and with hand-offs that wait for a verdict.
  \<^item> \<open>ChangeQueue\<close>, \<open>StoreAdvice\<close>, \<open>Sandbox\<close>, \<open>Workbench\<close>, \<open>RequestSteps\<close>, \<open>RequestRun\<close>,
    \<open>WorkbenchFacts\<close>, \<open>SandboxFacts\<close> (\<open>change_requests/\<close>, \<open>workbench/\<close>): the life of a change
    request as a step relation that refines the abstract machine of one item.
  \<^item> \<open>FactoryBlock\<close>, \<open>Receipt\<close>, \<open>Acceptance\<close>, \<open>AcceptanceFacts\<close>
    (\<open>factory/build/factory_block.py\<close>, \<open>factory_receipt.py\<close>, \<open>acceptance_floor.py\<close>,
    \<open>store_acceptance.py\<close> and the floor's data file): what the Factory stamped, and the report a
    build is judged by.
  \<^item> \<open>BuildsPush\<close>, \<open>PlatformRefs\<close>, \<open>PushFacts\<close> (\<open>builds_push.py\<close>, \<open>branch_attach.py\<close>,
    \<open>platform_branch.py\<close>, \<open>platform_identity.py\<close>): what is pushed and the branch of record on a
    remote that others change as well.
  \<^item> \<open>StoreGate\<close>, \<open>StoreIngest\<close>, \<open>StoreGateFacts\<close>, \<open>HandoffFacts\<close>, \<open>GateFaults\<close>,
    \<open>GateWitnesses\<close> (\<open>factory/build/n3_store_gate.py\<close>): reading, judging and recording the Store
    gate.  The poll has fuel; \<open>waiting_ends\<close> shows that one more than the number of intervals in
    its wall is enough.
  \<^item> \<open>Precedence\<close>, \<open>PrecedenceFacts\<close> (\<open>cerebrum_product_kernel/precedence.py\<close>,
    \<open>claim_labels.py\<close>, \<open>retrieval_engine.py\<close>): the ladder of authority layers, the label an answer
    carries and the retrieval that earns it; the locale of vector stores, interpreted on the store in
    memory.
  \<^item> \<open>Actions\<close>, \<open>ActionFacts\<close> (\<open>cerebrum_product_kernel/contract/\<close>): schema validation with its
    exceptions, the registry, and \<open>execute_action\<close>.
  \<^item> \<open>Heal\<close>, \<open>HealFacts\<close> (\<open>resident_engineer/heal/\<close>): the healing actions, their approvals and the
    audit file, a second interpretation of the locale of append-only logs.
  \<^item> \<open>Planner\<close>, \<open>PlannerFacts\<close> (\<open>factory/blueprint.py\<close>, \<open>planner.py\<close>, \<open>compliance_gate.py\<close> and the
    readers of the Store's manifests): from a blueprint to a plan that may be built.
  \<^item> \<open>BlocksLock\<close>, \<open>BlocksLockFacts\<close> (\<open>factory/blocks_lock.py\<close>): the pin of the Store's blocks.
  \<^item> \<open>Promotion\<close>, \<open>PromotionFacts\<close> (\<open>factory/build/promotion.py\<close>, \<open>pilot_cycle_proof.py\<close>,
    \<open>package.py\<close>, the stages of \<open>probe_set.json\<close>): when a pilot is called ready, from stage evidence,
    the ledger of a build and the identity of its tree.
  \<^item> \<open>Authorship\<close>, \<open>LevelGrade\<close>, \<open>Export\<close>, \<open>ExportFacts\<close> (\<open>factory/build/authorship.py\<close>,
    \<open>level_grade.py\<close>, \<open>export_manifest.py\<close>, the download route of \<open>routers/session_product.py\<close>): how
    much of a platform an agent wrote, the level it is graded at, and whether its zip is given out
    and as what.
  \<^item> \<open>AdoptGreen\<close>, \<open>AdoptFacts\<close> (\<open>factory/build/adopt_green.py\<close>): adopting a build branch that already
    passed the Store gate instead of building again.

  \<^bold>\<open>What the lemmas show.\<close>  Each component's theory states the invariant of its state and that
  every operation keeps it, then the functional behaviour of its operations.  The properties that
  are claims about the program carry their number in the text before them.  Some state where the
  code does not do what a comment or test says; they are marked as such and listed with the
  findings of the manifest.

  \<^bold>\<open>Not modelled.\<close>  What the roles do inside (\<open>roles_handlers.py\<close>, \<open>coder_session.py\<close>, the code
  workers): they run language models and subprocesses over file trees, and enter as the answers the
  run loop receives.  The text of prompts and briefs and the rendering of generated programs (the
  acceptance harness, product files).  Foreman and root cause, whose answer is a model's.  The
  product architect and the chat around it.  The generator and the Store manager, which copy trees
  and publish over the network.  Delivery, backups, uploads, Drive and packaging (file archives,
  encryption, OAuth).  Retrieval stores outside the kernel, which wrap databases and
  services.  Routers beyond the heal routes and the download.  Reading a registry directory from disk: its
  documents enter parsed.
\<close>

end
